(* ===== verification/Prelude.thy ===== *)
theory Prelude
  imports Main "HOL-Library.Word" "HOL-Library.Sublist" "HOL-Library.List_Lexorder"
    "HOL-Library.Char_ord" "HOL-Library.Product_Lexorder"
begin

text \<open>
  Shared vocabulary of the development: Go's \<open>(value, error)\<close> results as sums, the
  two's-complement wrap of a 64-bit integer, SQL-style tables as lists of rows with the
  \<open>WHERE\<close>-updates the stores use, and the lemma collections of the component theories.
\<close>

named_theorems row_simps \<open>table operations on lists of rows\<close>
named_theorems status_simps \<open>evaluation rules of the status machines\<close>

subsection \<open>Results\<close>

text \<open>A Go function that returns \<open>(T, error)\<close> is a sum; \<open>Inl\<close> is the error.\<close>

definition rbind :: "'e + 'a \<Rightarrow> ('a \<Rightarrow> 'e + 'b) \<Rightarrow> 'e + 'b" where
  "rbind m f = (case m of Inl e \<Rightarrow> Inl e | Inr a \<Rightarrow> f a)"

lemma rbind_simps [simp]:
  "rbind (Inl e) f = Inl e"
  "rbind (Inr a) f = f a"
  by (simp_all add: rbind_def)

lemma rbind_Inr_iff: "rbind m f = Inr b \<longleftrightarrow> (\<exists>a. m = Inr a \<and> f a = Inr b)"
  by (cases m) auto

lemma rbind_Inl_iff: "rbind m f = Inl e \<longleftrightarrow> m = Inl e \<or> (\<exists>a. m = Inr a \<and> f a = Inl e)"
  by (cases m) auto

lemma rbind_InrE:
  assumes "rbind m f = Inr b"
  obtains a where "m = Inr a" "f a = Inr b"
  using assms by (auto simp: rbind_Inr_iff)

lemma if_Inl_Inr [simp]:
  "(if c then Inl e else m) = Inr b \<longleftrightarrow> \<not> c \<and> m = Inr b"
  "(if c then m else Inl e) = Inr b \<longleftrightarrow> c \<and> m = Inr b"
  by auto

text \<open>
  A transaction runs a body on the current database. An error rolls everything back; a
  success keeps the body's database.
\<close>

definition transact :: "('s \<Rightarrow> 'e + 'a \<times> 's) \<Rightarrow> 's \<Rightarrow> ('e + 'a) \<times> 's" where
  "transact body s = (case body s of Inl e \<Rightarrow> (Inl e, s) | Inr (a, s') \<Rightarrow> (Inr a, s'))"

lemma transact_Inl: "transact body s = (Inl e, s') \<Longrightarrow> s' = s"
  by (auto simp: transact_def split: sum.splits prod.splits)

lemma transact_Inr_iff: "transact body s = (Inr a, s') \<longleftrightarrow> body s = Inr (a, s')"
  by (auto simp: transact_def split: sum.splits prod.splits)

text \<open>
  The contract of an atomic operation: a body that keeps an invariant when it commits gives
  an operation that keeps it always.
\<close>

locale atomic_operation =
  fixes body :: "'s \<Rightarrow> 'e + 'a \<times> 's"
    and inv :: "'s \<Rightarrow> bool"
  assumes body_inv: "inv s \<Longrightarrow> body s = Inr (a, s') \<Longrightarrow> inv s'"
begin

lemma transact_inv: "inv s \<Longrightarrow> inv (snd (transact body s))"
  by (auto simp: transact_def split: sum.splits dest: body_inv)

lemma failure_rolls_back: "fst (transact body s) = Inl e \<Longrightarrow> snd (transact body s) = s"
  by (auto simp: transact_def split: sum.splits)

end

subsection \<open>Validation\<close>

text \<open>
  A Go validator is a chain of \<open>if cond { return err }\<close>; its result is an optional
  error, \<open>None\<close> for \<open>nil\<close>, and the first check that fails decides.
\<close>

definition fails_if :: "bool \<Rightarrow> 'e \<Rightarrow> 'e option" where
  "fails_if c e = (if c then Some e else None)"

fun first_error :: "'e option list \<Rightarrow> 'e option" where
  "first_error [] = None"
| "first_error (None # es) = first_error es"
| "first_error (Some e # es) = Some e"

lemma fails_if_simps [simp]:
  "fails_if c e = None \<longleftrightarrow> \<not> c"
  "fails_if c e = Some e' \<longleftrightarrow> c \<and> e' = e"
  by (auto simp: fails_if_def)

lemma first_error_Cons: "first_error (e # es) = (case e of None \<Rightarrow> first_error es | Some x \<Rightarrow> Some x)"
  by (cases e) simp_all

lemma first_error_None_iff: "first_error es = None \<longleftrightarrow> (\<forall>e \<in> set es. e = None)"
  by (induction es rule: first_error.induct) simp_all

lemma first_error_Some_mem: "first_error es = Some e \<Longrightarrow> Some e \<in> set es"
  by (induction es rule: first_error.induct) simp_all

subsection \<open>Machine integers\<close>

text \<open>Go's \<open>int64\<close> arithmetic: the mathematical result reduced to two's complement.\<close>

definition wrap64 :: "int \<Rightarrow> int" where
  "wrap64 x = (x + 2 ^ 63) mod 2 ^ 64 - 2 ^ 63"

definition max_int64 :: int where
  "max_int64 = 2 ^ 63 - 1"

definition in_int64 :: "int \<Rightarrow> bool" where
  "in_int64 x \<longleftrightarrow> - (2 ^ 63) \<le> x \<and> x \<le> max_int64"

lemma wrap64_id: "in_int64 x \<Longrightarrow> wrap64 x = x"
  by (simp add: wrap64_def in_int64_def max_int64_def)

lemma in_int64_wrap64: "in_int64 (wrap64 x)"
proof -
  have "0 \<le> (x + 2 ^ 63) mod 2 ^ 64" "(x + 2 ^ 63) mod 2 ^ 64 < 2 ^ 64"
    by simp_all
  then show ?thesis by (simp add: wrap64_def in_int64_def max_int64_def)
qed

text \<open>The wrap is the reading of a 64-bit word as a signed number.\<close>

lemma wrap64_sint: "wrap64 x = sint (word_of_int x :: 64 word)"
  by (simp add: wrap64_def sint_sbintrunc' signed_take_bit_eq_take_bit_shift take_bit_eq_mod)

end
