(* ===== verification/Go_Text.thy ===== *)
theory Go_Text
  imports Prelude
begin

text \<open>
  Go strings are byte sequences: a \<open>string\<close> of the model is the list of the bytes, so
  \<open>length\<close> is Go's \<open>len\<close>. This theory models the parts of \<open>strings\<close>,
  \<open>regexp\<close> and \<open>encoding/hex\<close> that both services use: \<open>TrimSpace\<close>,
  \<open>HasPrefix\<close>, \<open>TrimPrefix\<close>, the anchored patterns of identifiers, and hexadecimal output.
\<close>

subsection \<open>strings\<close>

text \<open>
  The UTF-8 encodings of the code points for which \<open>unicode.IsSpace\<close> holds.
\<close>

definition space_encodings :: "string list" where
  "space_encodings =
    [[CHR 0x09], [CHR 0x0A], [CHR 0x0B], [CHR 0x0C], [CHR 0x0D], [CHR 0x20],
     [CHR 0xC2, CHR 0x85], [CHR 0xC2, CHR 0xA0], [CHR 0xE1, CHR 0x9A, CHR 0x80],
     [CHR 0xE2, CHR 0x80, CHR 0x80], [CHR 0xE2, CHR 0x80, CHR 0x81],
     [CHR 0xE2, CHR 0x80, CHR 0x82], [CHR 0xE2, CHR 0x80, CHR 0x83],
     [CHR 0xE2, CHR 0x80, CHR 0x84], [CHR 0xE2, CHR 0x80, CHR 0x85],
     [CHR 0xE2, CHR 0x80, CHR 0x86], [CHR 0xE2, CHR 0x80, CHR 0x87],
     [CHR 0xE2, CHR 0x80, CHR 0x88], [CHR 0xE2, CHR 0x80, CHR 0x89],
     [CHR 0xE2, CHR 0x80, CHR 0x8A], [CHR 0xE2, CHR 0x80, CHR 0xA8],
     [CHR 0xE2, CHR 0x80, CHR 0xA9], [CHR 0xE2, CHR 0x80, CHR 0xAF],
     [CHR 0xE2, CHR 0x81, CHR 0x9F], [CHR 0xE3, CHR 0x80, CHR 0x80]]"

text \<open>Strip any of the listed prefixes, as often as one matches.\<close>

function strip_any :: "string list \<Rightarrow> string \<Rightarrow> string" where
  "strip_any es s =
    (case List.find (\<lambda>e. e \<noteq> [] \<and> prefix e s) es of
       None \<Rightarrow> s
     | Some e \<Rightarrow> strip_any es (drop (length e) s))"
  by pat_completeness auto
termination
  by (relation "measure (\<lambda>(es, s). length s)")
    (auto simp: find_Some_iff dest!: prefix_length_le
      intro!: diff_less intro: less_le_trans [OF _ prefix_length_le])

declare strip_any.simps [simp del]

definition TrimSpace :: "string \<Rightarrow> string" where
  "TrimSpace s = rev (strip_any (map rev space_encodings) (rev (strip_any space_encodings s)))"

definition HasPrefix :: "string \<Rightarrow> string \<Rightarrow> bool" where
  "HasPrefix s p = prefix p s"

definition HasSuffix :: "string \<Rightarrow> string \<Rightarrow> bool" where
  "HasSuffix s p = prefix (rev p) (rev s)"

definition TrimPrefix :: "string \<Rightarrow> string \<Rightarrow> string" where
  "TrimPrefix s p = (if prefix p s then drop (length p) s else s)"

lemma strip_any_None: "\<forall>e \<in> set es. e \<noteq> [] \<longrightarrow> \<not> prefix e s \<Longrightarrow> strip_any es s = s"
proof -
  assume "\<forall>e \<in> set es. e \<noteq> [] \<longrightarrow> \<not> prefix e s"
  then have "List.find (\<lambda>e. e \<noteq> [] \<and> prefix e s) es = None"
    by (auto simp: find_None_iff)
  then show ?thesis by (simp add: strip_any.simps [of es s])
qed

lemma strip_any_Some:
  "List.find (\<lambda>e. e \<noteq> [] \<and> prefix e s) es = Some e \<Longrightarrow>
   strip_any es s = strip_any es (drop (length e) s)"
  by (simp add: strip_any.simps [of es s])

lemma strip_any_suffix: "\<exists>p. s = p @ strip_any es s"
proof (induction es s rule: strip_any.induct)
  case (1 es s)
  show ?case
  proof (cases "List.find (\<lambda>e. e \<noteq> [] \<and> prefix e s) es")
    case None
    then show ?thesis by (simp add: strip_any.simps [of es s])
  next
    case (Some e)
    then have e: "s = e @ drop (length e) s"
      by (auto simp: find_Some_iff prefix_def)
    from "1.IH" [OF Some] obtain p where "drop (length e) s = p @ strip_any es (drop (length e) s)" ..
    with e have "s = (e @ p) @ strip_any es s"
      unfolding strip_any_Some [OF Some] by (metis append.assoc)
    then show ?thesis ..
  qed
qed

lemma length_strip_any: "length (strip_any es s) \<le> length s"
  using strip_any_suffix [of s es] by (metis length_append le_add2)

lemma length_TrimSpace: "length (TrimSpace s) \<le> length s"
  unfolding TrimSpace_def
  by (metis length_rev length_strip_any order_trans)

lemma strip_any_stops: "e \<in> set es \<Longrightarrow> e \<noteq> [] \<Longrightarrow> \<not> prefix e (strip_any es s)"
proof (induction es s rule: strip_any.induct)
  case (1 es s)
  show ?case
  proof (cases "List.find (\<lambda>e. e \<noteq> [] \<and> prefix e s) es")
    case None
    then have none: "\<forall>e \<in> set es. e \<noteq> [] \<longrightarrow> \<not> prefix e s"
      by (auto simp: find_None_iff)
    with "1.prems" show ?thesis by (simp add: strip_any_None [OF none])
  next
    case (Some e')
    from "1.IH" [OF Some "1.prems"] show ?thesis
      by (simp add: strip_any_Some [OF Some])
  qed
qed

lemma TrimSpace_Nil [simp]: "TrimSpace [] = []"
  by (simp add: TrimSpace_def strip_any.simps space_encodings_def)

subsection \<open>regexp\<close>

text \<open>An anchored pattern of single-character classes.\<close>

definition matches :: "(char \<Rightarrow> bool) list \<Rightarrow> string \<Rightarrow> bool" where
  "matches cs s = list_all2 (\<lambda>c x. c x) cs s"

definition one_of :: "string \<Rightarrow> char \<Rightarrow> bool" where
  "one_of cs c = List.member cs c"

definition hex_class :: "char \<Rightarrow> bool" where
  "hex_class = one_of ''0123456789abcdefABCDEF''"

definition dash_class :: "char \<Rightarrow> bool" where
  "dash_class = one_of ''-''"

text \<open>
  \<open>^[0-9a-fA-F]{8}-[0-9a-fA-F]{4}-[1-8][0-9a-fA-F]{3}-[89aAbB][0-9a-fA-F]{3}-[0-9a-fA-F]{12}$\<close>
\<close>

definition uuid_classes :: "(char \<Rightarrow> bool) list" where
  "uuid_classes =
     replicate 8 hex_class @ [dash_class] @ replicate 4 hex_class @ [dash_class] @
     [one_of ''12345678''] @ replicate 3 hex_class @ [dash_class] @
     [one_of ''89aAbB''] @ replicate 3 hex_class @ [dash_class] @ replicate 12 hex_class"

lemma length_matches: "matches cs s \<Longrightarrow> length s = length cs"
  by (simp add: matches_def list_all2_lengthD)

lemma matches_simps [simp]:
  "matches [] s \<longleftrightarrow> s = []"
  "matches (c # cs) [] \<longleftrightarrow> False"
  "matches (c # cs) (x # s) \<longleftrightarrow> c x \<and> matches cs s"
  by (simp_all add: matches_def)

lemma matches_append:
  "matches (cs @ ds) (s @ t) \<longleftrightarrow> matches cs s \<and> matches ds t" if "length cs = length s"
  using that by (simp add: matches_def list_all2_append)

lemma matches_replicate: "matches (replicate n c) s \<longleftrightarrow> length s = n \<and> list_all c s"
  by (auto simp: matches_def list_all2_conv_all_nth list_all_length)

lemma length_uuid_classes [simp]: "length uuid_classes = 36"
  by (simp add: uuid_classes_def)

subsection \<open>encoding/hex\<close>

definition hex_digit :: "nat \<Rightarrow> char" where
  "hex_digit n = ''0123456789abcdef'' ! n"

definition hex_byte :: "8 word \<Rightarrow> string" where
  "hex_byte b = [hex_digit (unat b div 16), hex_digit (unat b mod 16)]"

definition hex_encode :: "8 word list \<Rightarrow> string" where
  "hex_encode bs = concat (map hex_byte bs)"

lemma hex_encode_simps [simp]:
  "hex_encode [] = []"
  "hex_encode (b # bs) = hex_byte b @ hex_encode bs"
  by (simp_all add: hex_encode_def)

lemma length_hex_byte [simp]: "length (hex_byte b) = 2"
  by (simp add: hex_byte_def)

lemma length_hex_encode [simp]: "length (hex_encode bs) = 2 * length bs"
  by (induction bs) simp_all

lemma unat_byte_less: "unat (b :: 8 word) < 256"
  using unsigned_less [where w = b and 'a = nat] by simp

lemma hex_digit_cases: "n < 16 \<Longrightarrow> P 0 \<and> P 1 \<and> P 2 \<and> P 3 \<and> P 4 \<and> P 5 \<and> P 6 \<and> P 7 \<and> P 8 \<and> P 9
   \<and> P 10 \<and> P 11 \<and> P 12 \<and> P 13 \<and> P 14 \<and> P 15 \<Longrightarrow> P (n :: nat)"
  by (simp add: numeral_eq_Suc less_Suc_eq) auto

lemma hex_class_digit: "n < 16 \<Longrightarrow> hex_class (hex_digit n)"
  by (erule hex_digit_cases) (simp add: hex_class_def one_of_def hex_digit_def)

lemma hex_digit_less: "m < 16 \<Longrightarrow> n < 16 \<Longrightarrow> hex_digit m < hex_digit n \<longleftrightarrow> m < n"
proof -
  have sorted: "sorted_wrt (<) ''0123456789abcdef''"
    by (simp add: less_char_def)
  have mono: "hex_digit i < hex_digit j" if "i < j" "j < 16" for i j
    unfolding hex_digit_def using sorted_wrt_nth_less [OF sorted that(1)] that(2) by simp
  assume "m < 16" "n < 16"
  with mono show ?thesis
    by (metis less_asym' linorder_neqE_nat order_less_irrefl)
qed

lemma list_all_hex_byte: "list_all hex_class (hex_byte b)"
  using unat_byte_less [of b] by (simp add: hex_byte_def hex_class_digit)

lemma list_all_hex_encode: "list_all hex_class (hex_encode bs)"
  by (induction bs) (simp_all add: list_all_hex_byte)

subsection \<open>strconv and net/url\<close>

text \<open>\<open>fmt.Sprint\<close> of an unsigned integer: its decimal digits.\<close>

fun decimal :: "nat \<Rightarrow> string" where
  "decimal n = (if n < 10 then [char_of (48 + n)] else decimal (n div 10) @ [char_of (48 + n mod 10)])"

declare decimal.simps [simp del]

text \<open>
  \<open>url.PathEscape\<close>: letters, digits and the marks a path segment may hold stay, every
  other byte becomes \<open>%XX\<close> with upper-case digits.
\<close>

definition path_mark :: "char \<Rightarrow> bool" where
  "path_mark = one_of ''-_.~$&+=:@''"

definition is_alnum :: "char \<Rightarrow> bool" where
  "is_alnum c =
    (let v = (of_char c :: nat) in 48 \<le> v \<and> v \<le> 57 \<or> 65 \<le> v \<and> v \<le> 90 \<or> 97 \<le> v \<and> v \<le> 122)"

definition escape_byte :: "char \<Rightarrow> string" where
  "escape_byte c =
    (if is_alnum c \<or> path_mark c then [c]
     else let v = (of_char c :: nat) in
       [CHR ''%'', ''0123456789ABCDEF'' ! (v div 16), ''0123456789ABCDEF'' ! (v mod 16)])"

definition PathEscape :: "string \<Rightarrow> string" where
  "PathEscape s = concat (map escape_byte s)"

lemma PathEscape_id: "list_all (\<lambda>c. is_alnum c \<or> path_mark c) s \<Longrightarrow> PathEscape s = s"
  by (induction s) (simp_all add: PathEscape_def escape_byte_def)

text \<open>\<open>strings.ToLower\<close> and \<open>strings.ToUpper\<close> on ASCII text, the only text they are applied to.\<close>

definition lower_char :: "char \<Rightarrow> char" where
  "lower_char c = (let v = (of_char c :: nat) in if 65 \<le> v \<and> v \<le> 90 then char_of (v + 32) else c)"

definition ToLower :: "string \<Rightarrow> string" where
  "ToLower s = map lower_char s"

lemma decimal_not_Nil [simp]: "decimal n \<noteq> []"
  by (subst decimal.simps) simp

end
