(* ===== verification/Go_Time.thy ===== *)
theory Go_Time
  imports Go_Text
begin

text \<open>
  The part of package \<open>time\<close> the services use. An instant is the number of nanoseconds
  since 1 January of year 1, 00:00 UTC, so Go's zero \<open>Time\<close> is 0 (\<open>UTC()\<close> changes
  only the presentation and is the identity here). The format \<open>RFC3339Nano\<close> is written
  out, because the SQLite store keeps its times as text and compares the texts; it is the
  format's meaning for the years 1 to 9999.
\<close>

type_synonym time = int
type_synonym duration = int

definition IsZero :: "time \<Rightarrow> bool" where
  "IsZero t \<longleftrightarrow> t = 0"

definition Millisecond :: duration where "Millisecond = 1000000"
definition Second :: duration where "Second = 1000000000"
definition Minute :: duration where "Minute = 60 * Second"

text \<open>1 January 1970 on this scale, and \<open>UnixMilli\<close>.\<close>

definition unix_epoch :: time where
  "unix_epoch = 62135596800 * Second"

definition UnixMilli :: "time \<Rightarrow> int" where
  "UnixMilli t = (t - unix_epoch) div Millisecond"

subsection \<open>The calendar\<close>

definition leap_year :: "nat \<Rightarrow> bool" where
  "leap_year y \<longleftrightarrow> y mod 4 = 0 \<and> (y mod 100 \<noteq> 0 \<or> y mod 400 = 0)"

text \<open>Days from 1 January of year 1 to 1 January of year \<open>y\<close>.\<close>

definition days_before_year :: "nat \<Rightarrow> nat" where
  "days_before_year y = 365 * (y - 1) + (y - 1) div 4 - (y - 1) div 100 + (y - 1) div 400"

lemma leap_arith:
  fixes a b c a' b' c' l n :: nat
  assumes "a' + b + c' + l = a + b' + c + 1" "b \<le> 365 * n" "b' \<le> 365 * Suc n" "l \<le> 1"
  shows "365 * Suc n + a' - b' + c' = (365 * n + a - b + c) + (if l = 0 then 366 else 365)"
  using assms by (cases "l = 0"; simp; arith)

lemma days_before_year_Suc:
  assumes "1 \<le> y"
  shows "days_before_year (Suc y) = days_before_year y + (if leap_year y then 366 else 365)"
proof -
  from assms obtain n where y: "y = Suc n" by (cases y) auto
  have step: "Suc n div k = n div k + of_bool (k dvd Suc n)" for k
    by (simp add: div_Suc mod_eq_0_iff_dvd)
  have le: "m div 100 \<le> 365 * m" for m :: nat
    by (rule order_trans [OF div_le_dividend]) simp
  have dvd: "(100 :: nat) dvd Suc n \<Longrightarrow> 4 dvd Suc n" "(400 :: nat) dvd Suc n \<Longrightarrow> 100 dvd Suc n"
    by (rule dvd_trans [rotated], assumption, simp)+
  have "of_bool (4 dvd Suc n) + of_bool (400 dvd Suc n) + of_bool (\<not> leap_year y)
      = of_bool (100 dvd Suc n) + (1 :: nat)"
    unfolding y leap_year_def mod_eq_0_iff_dvd using dvd by (auto simp: of_bool_def)
  then have "Suc n div 4 + n div 100 + Suc n div 400 + of_bool (\<not> leap_year y)
      = n div 4 + Suc n div 100 + n div 400 + 1"
    unfolding step by (simp only: ac_simps add_left_cancel)
  moreover have "of_bool (\<not> leap_year y) \<le> (1 :: nat)" by simp
  ultimately show ?thesis using leap_arith [OF _ le le]
    by (simp only: y days_before_year_def diff_Suc_1 of_bool_eq_0_iff not_not)
qed

lemma days_before_year_mono: "1 \<le> y \<Longrightarrow> y \<le> z \<Longrightarrow> days_before_year y \<le> days_before_year z"
proof (induction z)
  case (Suc z)
  then show ?case
    by (cases "y \<le> z") (auto simp: days_before_year_Suc le_Suc_eq)
qed simp

lemma days_before_year_strict: "1 \<le> y \<Longrightarrow> y < z \<Longrightarrow> days_before_year y < days_before_year z"
  using days_before_year_mono [of "Suc y" z] days_before_year_Suc [of y] by (auto split: if_splits)

lemma le_days_before_year: "1 \<le> y \<Longrightarrow> y \<le> Suc (days_before_year y)"
proof (induction y)
  case (Suc y)
  then show ?case by (cases "y = 0") (auto simp: days_before_year_Suc)
qed simp

text \<open>
  The year of a day number: from a year known not to be too late, step forward.
\<close>

function year_from :: "nat \<Rightarrow> nat \<Rightarrow> nat" where
  "year_from y d =
    (if 1 \<le> y \<and> days_before_year (Suc y) \<le> d then year_from (Suc y) d else y)"
  by pat_completeness auto
termination
proof (relation "measure (\<lambda>(y, d). Suc d - days_before_year y)")
  fix y d :: nat
  assume "1 \<le> y \<and> days_before_year (Suc y) \<le> d"
  with days_before_year_strict [of y "Suc y"]
  have "days_before_year y < days_before_year (Suc y)" "days_before_year (Suc y) \<le> d" by simp_all
  then have "Suc d - days_before_year (Suc y) < Suc d - days_before_year y" by linarith
  then show "((Suc y, d), (y, d)) \<in> measure (\<lambda>(y, d). Suc d - days_before_year y)" by simp
qed simp

declare year_from.simps [simp del]

definition year_of_day :: "nat \<Rightarrow> nat" where
  "year_of_day d = year_from (Suc (d div 366)) d"

lemma year_from_bounds:
  "1 \<le> y \<Longrightarrow> days_before_year y \<le> d \<Longrightarrow>
   1 \<le> year_from y d \<and> days_before_year (year_from y d) \<le> d \<and> d < days_before_year (Suc (year_from y d))"
proof (induction y d rule: year_from.induct)
  case (1 y d)
  then show ?case
    by (cases "days_before_year (Suc y) \<le> d") (simp_all add: year_from.simps [of y d])
qed

lemma days_before_year_le: "days_before_year (Suc n) \<le> 366 * n"
proof (induction n)
  case 0
  then show ?case by (simp add: days_before_year_def)
next
  case (Suc n)
  then show ?case by (simp add: days_before_year_Suc)
qed

lemma year_of_day_bounds:
  "1 \<le> year_of_day d" "days_before_year (year_of_day d) \<le> d"
  "d < days_before_year (Suc (year_of_day d))"
proof -
  have "days_before_year (Suc (d div 366)) \<le> d"
    by (rule order_trans [OF days_before_year_le]) simp
  from year_from_bounds [OF _ this] show
    "1 \<le> year_of_day d" "days_before_year (year_of_day d) \<le> d"
    "d < days_before_year (Suc (year_of_day d))"
    by (simp_all add: year_of_day_def)
qed

lemma year_of_day_unique:
  assumes "1 \<le> y" "days_before_year y \<le> d" "d < days_before_year (Suc y)"
  shows "year_of_day d = y"
proof (rule ccontr)
  assume "year_of_day d \<noteq> y"
  then consider "Suc (year_of_day d) \<le> y" | "Suc y \<le> year_of_day d" by linarith
  then show False
  proof cases
    case 1
    with days_before_year_mono [of "Suc (year_of_day d)" y] year_of_day_bounds [of d] assms
    show False by linarith
  next
    case 2
    with days_before_year_mono [of "Suc y" "year_of_day d"] year_of_day_bounds [of d] assms
    show False by linarith
  qed
qed

text \<open>Month and day from the zero-based day of the year.\<close>

definition month_lengths :: "bool \<Rightarrow> nat list" where
  "month_lengths leap = [31, if leap then 29 else 28, 31, 30, 31, 30, 31, 31, 30, 31, 30, 31]"

fun split_month :: "nat list \<Rightarrow> nat \<Rightarrow> nat \<times> nat" where
  "split_month [] d = (0, d)"
| "split_month (l # ls) d = (if d < l then (0, d) else (let (m, r) = split_month ls (d - l) in (Suc m, r)))"

lemma split_month_correct:
  "d < sum_list ls \<Longrightarrow> split_month ls d = (m, r) \<Longrightarrow>
   m < length ls \<and> r < ls ! m \<and> d = sum_list (take m ls) + r"
proof (induction ls d arbitrary: m r rule: split_month.induct)
  case (2 l ls d)
  show ?case
  proof (cases "d < l")
    case False
    with "2.prems" obtain m' where m: "split_month ls (d - l) = (m', r)" "m = Suc m'" "d - l < sum_list ls"
      by (auto split: prod.splits)
    from "2.IH" [OF False m(3) m(1)] have "m' < length ls" "r < ls ! m'"
      "d - l = sum_list (take m' ls) + r" by simp_all
    with False m(2) show ?thesis by simp
  qed (use "2.prems" in simp)
qed simp

lemma split_month_complete:
  "m < length ls \<Longrightarrow> r < ls ! m \<Longrightarrow> split_month ls (sum_list (take m ls) + r) = (m, r)"
proof (induction ls arbitrary: m)
  case (Cons l ls)
  then show ?case by (cases m) auto
qed simp

lemma length_month_lengths [simp]: "length (month_lengths leap) = 12"
  by (simp add: month_lengths_def)

lemma year_length: "sum_list (month_lengths (leap_year y)) = (if leap_year y then 366 else 365)"
  by (simp add: month_lengths_def)

subsection \<open>RFC3339Nano\<close>

definition digit :: "nat \<Rightarrow> char" where
  "digit n = ''0123456789'' ! n"

fun pad :: "nat \<Rightarrow> nat \<Rightarrow> string" where
  "pad 0 n = []"
| "pad (Suc w) n = pad w (n div 10) @ [digit (n mod 10)]"

definition drop_zeros :: "string \<Rightarrow> string" where
  "drop_zeros s = rev (dropWhile (\<lambda>c. c = CHR ''0'') (rev s))"

definition fraction :: "nat \<Rightarrow> string" where
  "fraction nanos = (if nanos = 0 then [] else CHR ''.'' # drop_zeros (pad 9 nanos))"

definition format_seconds :: "nat \<Rightarrow> string" where
  "format_seconds secs =
    (let day = secs div 86400; sod = secs mod 86400; y = year_of_day day;
         (m, d) = split_month (month_lengths (leap_year y)) (day - days_before_year y)
     in pad 4 y @ ''-'' @ pad 2 (Suc m) @ ''-'' @ pad 2 (Suc d) @ ''T'' @
        pad 2 (sod div 3600) @ '':'' @ pad 2 (sod div 60 mod 60) @ '':'' @ pad 2 (sod mod 60))"

definition formatTime :: "time \<Rightarrow> string" where
  "formatTime t = format_seconds (nat (t div Second)) @ fraction (nat (t mod Second)) @ ''Z''"

text \<open>
  \<open>time.Parse\<close> with the same layout, on texts that end in \<open>Z\<close>.
\<close>

definition digit_value :: "char \<Rightarrow> nat option" where
  "digit_value c =
    (let v = (of_char c :: nat) in if 48 \<le> v \<and> v \<le> 57 then Some (v - 48) else None)"

fun read_digits :: "nat \<Rightarrow> string \<Rightarrow> nat option" where
  "read_digits acc [] = Some acc"
| "read_digits acc (c # cs) =
    (case digit_value c of None \<Rightarrow> None | Some v \<Rightarrow> read_digits (10 * acc + v) cs)"

definition read_at :: "nat \<Rightarrow> nat \<Rightarrow> string \<Rightarrow> nat option" where
  "read_at i w s = read_digits 0 (take w (drop i s))"

definition read_fraction :: "string \<Rightarrow> nat option" where
  "read_fraction s =
    (if s = ''Z'' then Some 0
     else if prefix ''.'' s \<and> HasSuffix s ''Z'' \<and> 3 \<le> length s \<and> length s \<le> 11
     then read_digits 0 (butlast (tl s) @ replicate (11 - length s) (CHR ''0''))
     else None)"

definition time_of_fields :: "nat \<Rightarrow> nat \<Rightarrow> nat \<Rightarrow> nat \<Rightarrow> nat \<Rightarrow> nat \<Rightarrow> nat \<Rightarrow> time option" where
  "time_of_fields y mo d h mi sec nanos =
    (let ls = month_lengths (leap_year y) in
     if 1 \<le> y \<and> 1 \<le> mo \<and> mo \<le> 12 \<and> 1 \<le> d \<and> d \<le> ls ! (mo - 1) \<and> h < 24 \<and> mi < 60 \<and> sec < 60
     then Some (int ((days_before_year y + sum_list (take (mo - 1) ls) + (d - 1)) * 86400
                + h * 3600 + mi * 60 + sec) * Second + int nanos)
     else None)"

definition parseTime :: "string \<Rightarrow> time option" where
  "parseTime s =
    (if length s < 20 \<or> s ! 4 \<noteq> CHR ''-'' \<or> s ! 7 \<noteq> CHR ''-'' \<or> s ! 10 \<noteq> CHR ''T''
        \<or> s ! 13 \<noteq> CHR '':'' \<or> s ! 16 \<noteq> CHR '':'' then None
     else Option.bind (read_at 0 4 s) (\<lambda>y.
          Option.bind (read_at 5 2 s) (\<lambda>mo.
          Option.bind (read_at 8 2 s) (\<lambda>d.
          Option.bind (read_at 11 2 s) (\<lambda>h.
          Option.bind (read_at 14 2 s) (\<lambda>mi.
          Option.bind (read_at 17 2 s) (\<lambda>sec.
          Option.bind (read_fraction (drop 19 s)) (\<lambda>nanos.
            time_of_fields y mo d h mi sec nanos))))))))"

lemma length_pad [simp]: "length (pad w n) = w"
  by (induction w arbitrary: n) simp_all

lemma digit_value_digit: "n < 10 \<Longrightarrow> digit_value (digit n) = Some n"
  by (auto simp: digit_def digit_value_def less_Suc_eq numeral_eq_Suc)

lemma read_digits_append:
  "read_digits acc (s @ t) = Option.bind (read_digits acc s) (\<lambda>a. read_digits a t)"
  by (induction acc s rule: read_digits.induct) (simp_all split: option.split)

lemma read_digits_pad: "read_digits acc (pad w n) = Some (acc * 10 ^ w + n mod 10 ^ w)"
proof (induction w arbitrary: n)
  case (Suc w)
  have "n mod 10 ^ Suc w = 10 * (n div 10 mod 10 ^ w) + n mod 10"
    by (simp add: mod_mult2_eq)
  with Suc show ?case
    by (simp add: read_digits_append digit_value_digit algebra_simps)
qed simp

lemma read_pad: "n < 10 ^ w \<Longrightarrow> read_digits 0 (pad w n) = Some n"
  by (simp add: read_digits_pad)

lemma drop_zeros_restore: "drop_zeros s @ replicate (length s - length (drop_zeros s)) (CHR ''0'') = s"
proof -
  define z where "z = takeWhile (\<lambda>c. c = CHR ''0'') (rev s)"
  have s: "s = drop_zeros s @ rev z"
    unfolding drop_zeros_def z_def by (metis rev_append rev_rev_ident takeWhile_dropWhile_id)
  have "replicate (length z) (CHR ''0'') = z"
    by (rule replicate_length_same) (auto simp: z_def dest: set_takeWhileD)
  then have "rev z = replicate (length z) (CHR ''0'')"
    by (metis rev_replicate)
  moreover have "length z = length s - length (drop_zeros s)"
    by (subst (1) s) simp
  ultimately show ?thesis using s by simp
qed

lemma drop_zeros_Nil_iff: "drop_zeros s = [] \<longleftrightarrow> (\<forall>c \<in> set s. c = CHR ''0'')"
  by (auto simp: drop_zeros_def)

lemma length_drop_zeros: "length (drop_zeros s) \<le> length s"
  unfolding drop_zeros_def by (metis length_dropWhile_le length_rev)

lemma read_digits_zeros: "read_digits acc (replicate n (CHR ''0'')) = Some (acc * 10 ^ n)"
  by (induction n arbitrary: acc) (simp_all add: digit_value_def algebra_simps)

lemma read_fraction_fraction: "n < 10 ^ 9 \<Longrightarrow> read_fraction (fraction n @ ''Z'') = Some n"
proof (cases "n = 0")
  case False
  assume n: "n < 10 ^ 9"
  let ?d = "drop_zeros (pad 9 n)"
  have "?d \<noteq> []"
  proof
    assume "?d = []"
    then have "pad 9 n = replicate 9 (CHR ''0'')"
      using replicate_length_same [of "pad 9 n" "CHR ''0''"] by (simp add: drop_zeros_Nil_iff)
    with read_pad [OF n] read_digits_zeros [of 0 9] False show False by simp
  qed
  moreover have "length ?d \<le> 9" using length_drop_zeros [of "pad 9 n"] by simp
  moreover have "?d @ replicate (9 - length ?d) (CHR ''0'') = pad 9 n"
    using drop_zeros_restore [of "pad 9 n"] by simp
  ultimately show ?thesis using False read_pad [OF n]
    by (auto simp: fraction_def read_fraction_def HasSuffix_def butlast_append Suc_le_eq)
qed (simp add: read_fraction_def fraction_def)

lemma parseTime_layout:
  assumes "length a = 4" "length b = 2" "length c = 2" "length d = 2" "length e = 2" "length f = 2"
    and "r \<noteq> []"
  shows "parseTime (a @ ''-'' @ b @ ''-'' @ c @ ''T'' @ d @ '':'' @ e @ '':'' @ f @ r) =
    Option.bind (read_digits 0 a) (\<lambda>y. Option.bind (read_digits 0 b) (\<lambda>mo.
    Option.bind (read_digits 0 c) (\<lambda>dd. Option.bind (read_digits 0 d) (\<lambda>h.
    Option.bind (read_digits 0 e) (\<lambda>mi. Option.bind (read_digits 0 f) (\<lambda>sec.
    Option.bind (read_fraction r) (\<lambda>nanos. time_of_fields y mo dd h mi sec nanos)))))))"
proof -
  obtain a1 a2 a3 a4 where a: "a = [a1, a2, a3, a4]"
    using assms(1) by (auto simp: length_Suc_conv numeral_eq_Suc)
  have two: "length x = 2 \<Longrightarrow> \<exists>u v. x = [u, v]" for x :: string
    by (auto simp: length_Suc_conv numeral_eq_Suc)
  from two assms obtain b1 b2 c1 c2 d1 d2 e1 e2 f1 f2 where
    "b = [b1, b2]" "c = [c1, c2]" "d = [d1, d2]" "e = [e1, e2]" "f = [f1, f2]"
    by metis
  with a assms(7) show ?thesis
    by (cases r) (simp_all add: parseTime_def read_at_def)
qed

definition max_time :: time where
  "max_time = int (days_before_year 10000 * 86400) * Second"

lemma year_of_day_less:
  assumes "d < days_before_year y" shows "year_of_day d < y"
proof (rule ccontr)
  assume ge: "\<not> year_of_day d < y"
  from assms have "1 \<le> y" by (cases y) (simp_all add: days_before_year_def)
  with ge days_before_year_mono [of y "year_of_day d"] year_of_day_bounds(2) [of d] assms
  show False by linarith
qed

text \<open>The calendar fields of a second, and that they determine it.\<close>

definition day_fields :: "nat \<Rightarrow> nat \<times> nat \<times> nat" where
  "day_fields day =
    (let y = year_of_day day; (m, d) = split_month (month_lengths (leap_year y)) (day - days_before_year y)
     in (y, m, d))"

lemma day_fields_correct:
  assumes "day_fields day = (y, m, d)"
  shows "1 \<le> y" "m < 12" "d < month_lengths (leap_year y) ! m" "d < 31"
    "day = days_before_year y + sum_list (take m (month_lengths (leap_year y))) + d"
    "y = year_of_day day"
proof -
  from assms have y: "y = year_of_day day"
    and s: "split_month (month_lengths (leap_year y)) (day - days_before_year y) = (m, d)"
    by (auto simp: day_fields_def Let_def split: prod.splits)
  note b = year_of_day_bounds [of day, folded y]
  from b days_before_year_Suc [of y]
  have "day - days_before_year y < sum_list (month_lengths (leap_year y))"
    by (simp add: year_length split: if_splits)
  from split_month_correct [OF this s] b
  show "1 \<le> y" "m < 12" and dm: "d < month_lengths (leap_year y) ! m"
    "day = days_before_year y + sum_list (take m (month_lengths (leap_year y))) + d"
    by (simp_all only: length_month_lengths) linarith+
  from dm \<open>m < 12\<close> show "d < 31"
    by (auto simp: month_lengths_def less_Suc_eq numeral_eq_Suc split: if_splits)
  show "y = year_of_day day" by (fact y)
qed

lemma format_seconds_fields:
  "day_fields (secs div 86400) = (y, m, d) \<Longrightarrow>
   format_seconds secs =
     pad 4 y @ ''-'' @ pad 2 (Suc m) @ ''-'' @ pad 2 (Suc d) @ ''T'' @
     pad 2 (secs mod 86400 div 3600) @ '':'' @ pad 2 (secs mod 86400 div 60 mod 60) @ '':'' @
     pad 2 (secs mod 86400 mod 60)"
  by (auto simp: format_seconds_def day_fields_def Let_def split: prod.splits)

text \<open>Hours, minutes and seconds of a second of the day.\<close>

lemma clock_fields:
  fixes k :: nat
  assumes "k < 86400"
  shows "k div 3600 < 24" "k div 60 mod 60 < 60" "k mod 60 < 60"
    "k div 3600 * 3600 + k div 60 mod 60 * 60 + k mod 60 = k"
proof -
  from assms show "k div 3600 < 24" by (intro less_mult_imp_div_less) simp
  have split: "k = q * 60 + c \<Longrightarrow> q = a * 60 + b \<Longrightarrow> a * 3600 + b * 60 + c = k" for q a b c
    by simp
  have "k div 3600 = k div 60 div 60" by (simp flip: div_mult2_eq)
  then show "k div 3600 * 3600 + k div 60 mod 60 * 60 + k mod 60 = k"
    by (intro split [of "k div 60"]) simp_all
qed simp_all

lemma parse_fields:
  assumes "day_fields (secs div 86400) = (y, m, d)" "y < 10000" "nanos < 10 ^ 9"
  shows "parseTime (format_seconds secs @ fraction nanos @ ''Z'') = Some (int secs * Second + int nanos)"
proof -
  define k where "k = secs mod 86400"
  have "k < 86400" by (simp add: k_def)
  note clock = clock_fields [OF this]
  note fields = day_fields_correct [OF assms(1)]
  have "parseTime (format_seconds secs @ fraction nanos @ ''Z'')
      = time_of_fields y (Suc m) (Suc d) (k div 3600) (k div 60 mod 60) (k mod 60) nanos"
    using assms(2) fields(2,4) clock(1-3) read_fraction_fraction [OF assms(3)]
    by (simp only: format_seconds_fields [OF assms(1)] append_assoc k_def [symmetric])
      (subst parseTime_layout; simp add: read_pad)
  also have "\<dots> = Some (int (secs div 86400 * 86400 + (k div 3600 * 3600 + k div 60 mod 60 * 60 + k mod 60)) * Second
      + int nanos)"
    using fields(1-3,5) clock(1-3) unfolding time_of_fields_def Let_def
    by (simp only: diff_Suc_1 Suc_le_eq) (simp add: add.assoc)
  also have "secs div 86400 * 86400 + (k div 3600 * 3600 + k div 60 mod 60 * 60 + k mod 60) = secs"
    by (simp only: clock(4)) (simp add: k_def)
  finally show ?thesis .
qed

lemma second_split:
  assumes "0 \<le> t"
  shows "t = int (nat (t div Second)) * Second + int (nat (t mod Second))" "nat (t mod Second) < 10 ^ 9"
  using assms by (auto simp: Second_def nat_less_iff)

lemma max_time_day:
  assumes "0 \<le> t" "t < max_time"
  shows "nat (t div Second) div 86400 < days_before_year 10000"
proof -
  have "t div Second < int (days_before_year 10000 * 86400)"
  proof (rule ccontr)
    assume "\<not> t div Second < int (days_before_year 10000 * 86400)"
    then have "max_time \<le> t div Second * Second"
      unfolding max_time_def by (intro mult_right_mono) (simp_all only: not_less, simp add: Second_def)
    also have "\<dots> \<le> t" by (simp add: Second_def flip: minus_mod_eq_div_mult)
    finally show False using assms(2) by simp
  qed
  moreover have "0 \<le> t div Second" using assms(1) by (simp add: Second_def)
  ultimately have "nat (t div Second) < days_before_year 10000 * 86400"
    by (subst nat_less_iff)
  then show ?thesis by (rule less_mult_imp_div_less)
qed

theorem parse_format:
  assumes "0 \<le> t" "t < max_time"
  shows "parseTime (formatTime t) = Some t"
proof -
  obtain y m d where f: "day_fields (nat (t div Second) div 86400) = (y, m, d)" by (metis prod_cases3)
  have "y < 10000"
    unfolding day_fields_correct(6) [OF f] by (rule year_of_day_less [OF max_time_day [OF assms]])
  from parse_fields [OF f this second_split(2)] second_split(1) assms(1)
  show ?thesis by (simp add: formatTime_def)
qed

subsection \<open>The order of the texts\<close>

text \<open>
  SQLite compares the stored texts byte by byte. Texts of the same second agree up to the
  fraction; the texts of different seconds are ordered as the seconds are.
\<close>

lemma less_append_same: "(p @ s < p @ t) = (s < (t :: string))"
  by (induction p) simp_all

lemma less_append_length: "length a = length b \<Longrightarrow> a < b \<Longrightarrow> a @ s < b @ (t :: string)"
  by (induction a b rule: list_induct2) auto

lemma digit_less: "m < n \<Longrightarrow> n < 10 \<Longrightarrow> digit m < digit n"
proof -
  have sorted: "sorted_wrt (<) ''0123456789''" by (simp add: less_char_def)
  assume "m < n" "n < 10"
  with sorted_wrt_nth_less [OF sorted, of m n] show ?thesis by (simp only: digit_def) simp
qed

lemma pad_less: "m < n \<Longrightarrow> n < 10 ^ w \<Longrightarrow> pad w m < pad w n"
proof (induction w arbitrary: m n)
  case (Suc w)
  show ?case
  proof (cases "m div 10 < n div 10")
    case True
    moreover have "n div 10 < 10 ^ w" using Suc.prems by (simp add: less_mult_imp_div_less)
    ultimately show ?thesis using Suc.IH by (simp add: less_append_length)
  next
    case False
    with Suc.prems have "m div 10 = n div 10" by (simp add: div_le_mono le_antisym)
    moreover from this Suc.prems(1) have "m mod 10 < n mod 10"
      by (metis div_mult_mod_eq nat_add_left_cancel_less)
    ultimately show ?thesis by (simp add: less_append_same digit_less)
  qed
qed simp

text \<open>Pairs of fields, each as wide on both sides, compare lexicographically.\<close>

lemma field_less:
  assumes "m < n \<or> m = n \<and> s < (t :: string)" "n < 10 ^ w"
  shows "pad w m @ s < pad w n @ t"
  using assms by (auto simp: pad_less less_append_length less_append_same)

lemma day_fields_less:
  assumes "day < day'" "day_fields day = (y, m, d)" "day_fields day' = (y', m', d')"
  shows "y < y' \<or> y = y' \<and> (m < m' \<or> m = m' \<and> d < d')"
proof (rule ccontr)
  note a = day_fields_correct [OF assms(2)] and b = day_fields_correct [OF assms(3)]
  assume neg: "\<not> ?thesis"
  then have "y' \<le> y" by auto
  moreover have "\<not> y' < y"
  proof
    assume "y' < y"
    with b(1) have "days_before_year (Suc y') \<le> days_before_year y"
      by (intro days_before_year_mono) simp_all
    with year_of_day_bounds(3) [of day', folded b(6)] year_of_day_bounds(2) [of day, folded a(6)] assms(1)
    show False by simp
  qed
  ultimately have y: "y' = y" by simp
  with neg have "m' \<le> m" by auto
  have "m' < m"
  proof (rule ccontr)
    assume "\<not> m' < m"
    with \<open>m' \<le> m\<close> neg y a(5) b(5) assms(1) show False by simp
  qed
  let ?ls = "month_lengths (leap_year y)"
  have "sum_list (take m' ?ls) + ?ls ! m' = sum_list (take (Suc m') ?ls)"
    using b(2) by (simp add: take_Suc_conv_app_nth)
  also have "\<dots> \<le> sum_list (take m ?ls)"
  proof -
    have "take m ?ls = take (Suc m') ?ls @ drop (Suc m') (take m ?ls)"
      using \<open>m' < m\<close> by (metis Suc_leI append_take_drop_id min.absorb1 take_take)
    then show ?thesis by (metis le_add1 sum_list_append)
  qed
  finally show False using a(5) b(3,5) y assms(1) by simp
qed

lemma clock_less:
  fixes j k :: nat
  assumes "j < k" "k < 86400"
  shows "j div 3600 < k div 3600 \<or> j div 3600 = k div 3600 \<and>
    (j div 60 mod 60 < k div 60 mod 60 \<or> j div 60 mod 60 = k div 60 mod 60 \<and> j mod 60 < k mod 60)"
proof -
  have lex: "a < a' \<or> a = a' \<and> (b < b' \<or> b = b' \<and> c < c')"
    if less: "a * 3600 + b * 60 + c < a' * 3600 + b' * 60 + c'" and "b' < 60" "c' < 60"
    for a b c a' b' c' :: nat
  proof (cases a a' rule: linorder_cases)
    case equal
    with less \<open>c' < 60\<close> show ?thesis by (cases b b' rule: linorder_cases) simp_all
  next
    case greater
    then have "a' * 3600 + 3600 \<le> a * 3600" by simp
    with less \<open>b' < 60\<close> \<open>c' < 60\<close> show ?thesis by linarith
  qed simp
  show ?thesis
    using assms clock_fields [of j] clock_fields [of k] by (intro lex) simp_all
qed

text \<open>The two halves of the text: the date and the time of day.\<close>

lemma clock_text_less:
  fixes j k :: nat
  assumes "j < k" "k < 86400"
  shows "pad 2 (j div 3600) @ '':'' @ pad 2 (j div 60 mod 60) @ '':'' @ pad 2 (j mod 60)
       < pad 2 (k div 3600) @ '':'' @ pad 2 (k div 60 mod 60) @ '':'' @ pad 2 (k mod 60)"
proof -
  note H = clock_fields [OF assms(2)]
  from clock_less [OF assms] consider
    "j div 3600 < k div 3600"
  | "j div 3600 = k div 3600" "j div 60 mod 60 < k div 60 mod 60"
  | "j div 3600 = k div 3600" "j div 60 mod 60 = k div 60 mod 60" "j mod 60 < k mod 60"
    by blast
  then show ?thesis
  proof cases
    case 1
    with H(1) show ?thesis by (intro field_less disjI1) simp_all
  next
    case 2
    with H(2) have "pad 2 (j div 60 mod 60) @ '':'' @ pad 2 (j mod 60)
      < pad 2 (k div 60 mod 60) @ '':'' @ pad 2 (k mod 60)"
      by (intro field_less disjI1) simp_all
    with 2 show ?thesis by (simp only: less_append_same)
  next
    case 3
    with H(3) have "pad 2 (j mod 60) < pad 2 (k mod 60)" by (intro pad_less) simp_all
    with 3 show ?thesis by (simp only: less_append_same)
  qed
qed

lemma date_text_less:
  assumes "y < y' \<or> y = y' \<and> (m < m' \<or> m = m' \<and> d < d')" "y' < 10000" "m' < 12" "d' < 31"
  shows "pad 4 y @ ''-'' @ pad 2 (Suc m) @ ''-'' @ pad 2 (Suc d) @ s
       < pad 4 y' @ ''-'' @ pad 2 (Suc m') @ ''-'' @ pad 2 (Suc d') @ t"
proof -
  from assms(1) consider "y < y'" | "y = y'" "m < m'" | "y = y'" "m = m'" "d < d'" by blast
  then show ?thesis
  proof cases
    case 1
    with assms(2) show ?thesis by (intro field_less disjI1) simp_all
  next
    case 2
    with assms(3) have "pad 2 (Suc m) @ ''-'' @ pad 2 (Suc d) @ s < pad 2 (Suc m') @ ''-'' @ pad 2 (Suc d') @ t"
      by (intro field_less disjI1) simp_all
    with 2 show ?thesis by (simp only: less_append_same)
  next
    case 3
    with assms(4) have "pad 2 (Suc d) @ s < pad 2 (Suc d') @ t"
      by (intro field_less disjI1) simp_all
    with 3 show ?thesis by (simp only: less_append_same)
  qed
qed

lemma length_format_seconds: "length (format_seconds i) = 19"
  by (simp add: format_seconds_def Let_def split: prod.split)

lemma format_seconds_less:
  assumes "i < j" "j div 86400 < days_before_year 10000"
  shows "format_seconds i < format_seconds j"
proof -
  obtain y m d where f: "day_fields (i div 86400) = (y, m, d)" by (metis prod_cases3)
  obtain y' m' d' where g: "day_fields (j div 86400) = (y', m', d')" by (metis prod_cases3)
  note G = day_fields_correct [OF g]
  have y': "y' < 10000" unfolding G(6) by (rule year_of_day_less [OF assms(2)])
  from assms(1) consider "i div 86400 < j div 86400"
    | "i div 86400 = j div 86400" "i mod 86400 < j mod 86400"
    by (metis div_le_mono div_mult_mod_eq le_neq_implies_less less_imp_le nat_add_left_cancel_less)
  then show ?thesis
  proof cases
    case 1
    from date_text_less [OF day_fields_less [OF 1 f g] y' G(2,4)] show ?thesis
      unfolding format_seconds_fields [OF f] format_seconds_fields [OF g] .
  next
    case 2
    with f g have "(y, m, d) = (y', m', d')" by simp
    with clock_text_less [OF 2(2)] show ?thesis
      unfolding format_seconds_fields [OF f] format_seconds_fields [OF g]
      by (simp only: less_append_same prod.inject mod_less_divisor zero_less_numeral)
  qed
qed

text \<open>
  Across seconds the order of the texts is the order of the instants; within a second it is
  not: a whole second is written without a fraction and sorts after every fraction of it.
\<close>

theorem formatTime_less:
  assumes "0 \<le> s" "t < max_time" "s div Second < t div Second"
  shows "formatTime s < formatTime t"
proof -
  have "0 \<le> s div Second" using assms(1) by (simp add: Second_def)
  with assms(3) have "0 \<le> t div Second" by simp
  then have "0 \<le> t" by (simp add: Second_def pos_imp_zdiv_nonneg_iff)
  have "nat (s div Second) < nat (t div Second)" using assms(1,3) by (simp add: Second_def)
  from format_seconds_less [OF this max_time_day [OF \<open>0 \<le> t\<close> assms(2)]]
  show ?thesis unfolding formatTime_def by (intro less_append_length) (simp_all add: length_format_seconds)
qed

theorem formatTime_within_second:
  assumes "s mod Second = 0" "t mod Second \<noteq> 0" "s div Second = t div Second"
  shows "s < t" "formatTime t < formatTime s"
proof -
  have pos: "0 < t mod Second" using assms(2) by (simp add: Second_def order_less_le)
  have "s div Second * Second = s" using div_mult_mod_eq [of s Second] assms(1) by simp
  moreover have "s div Second * Second + t mod Second = t"
    using div_mult_mod_eq [of t Second] assms(3) by simp
  ultimately show "s < t" using pos by linarith
  show "formatTime t < formatTime s"
    using assms pos by (simp add: formatTime_def fraction_def less_append_same less_char_def)
qed

end
