(* ===== verification/Core_Domain.thy ===== *)
theory Core_Domain
  imports Go_Time
begin

text \<open>
  The cloud core's canonical types and their checks: \<open>services/core/internal/domain\<close>
  (\<open>models.go\<close> for the parts the modelled operations use, \<open>validation.go\<close>). A struct
  is a record with the source's field names behind a prefix, the embedded \<open>RecordMetadata\<close>
  a field of its own; versions are 64-bit words, which wrap as \<open>uint64\<close> does; money is an
  \<open>int64\<close> kept as an integer with the wrap written out where it is computed with. An error is
  its text.
\<close>

subsection \<open>Maps of the runtime\<close>

text \<open>
  Some checks range over a map literal; the runtime visits its entries in any order. The model
  takes the order from \<open>iter\<close>, which lists the positions of a map with so many entries.
\<close>

type_synonym map_order = "nat \<Rightarrow> nat list"

definition map_entries :: "map_order \<Rightarrow> 'a list \<Rightarrow> 'a list" where
  "map_entries iter entries = map ((!) entries) (iter (length entries))"

definition visits_all :: "map_order \<Rightarrow> bool" where
  "visits_all iter \<longleftrightarrow> (\<forall>n. set (iter n) = {..<n})"

lemma set_map_entries [simp]: "visits_all iter \<Longrightarrow> set (map_entries iter entries) = set entries"
  by (auto simp: map_entries_def visits_all_def in_set_conv_nth)

lemma visits_all_upt [simp]: "visits_all (\<lambda>n. [0..<n])"
  by (auto simp: visits_all_def)

subsection \<open>Types\<close>

record mutation_metadata =
  mm_ID :: string
  mm_TenantID :: string
  mm_OutletID :: string
  mm_DeviceID :: string
  mm_ActorID :: string
  mm_OccurredAt :: time
  mm_Source :: string
  mm_SourceID :: string
  mm_SchemaVersion :: string
  mm_IdempotencyKey :: string
  mm_CorrelationID :: string
  mm_CausationID :: string

record record_metadata =
  rm_CreatedAt :: time
  rm_UpdatedAt :: time
  rm_Version :: "64 word"

record organization =
  org_ID :: string
  org_TenantID :: string
  org_Name :: string
  org_LegalName :: string
  org_DefaultLocale :: string
  org_DefaultCurrency :: string
  org_Active :: bool
  org_Meta :: record_metadata

record outlet =
  out_ID :: string
  out_TenantID :: string
  out_OrganizationID :: string
  out_Name :: string
  out_Code :: string
  out_TimeZone :: string
  out_Currency :: string
  out_Active :: bool
  out_Meta :: record_metadata

record brand =
  br_ID :: string
  br_TenantID :: string
  br_OrganizationID :: string
  br_Name :: string
  br_Code :: string
  br_Active :: bool
  br_Meta :: record_metadata

record brand_outlet_assignment =
  ba_TenantID :: string
  ba_BrandID :: string
  ba_OutletID :: string
  ba_Active :: bool
  ba_Meta :: record_metadata

datatype station_type =
    StationPreparation | StationCooking | StationBeverage | StationAssembly | StationExpo | StationPacking
  | OtherStationType string

record station =
  st_ID :: string
  st_TenantID :: string
  st_OutletID :: string
  st_Name :: string
  st_Code :: string
  st_Type :: station_type
  st_Active :: bool
  st_Meta :: record_metadata

record money =
  MinorUnits :: int
  Currency :: string

datatype core_order_type = CoreDineIn | CoreTakeaway | CoreDelivery | CoreRoomService | OtherCoreOrderType string

text \<open>The empty status of an order that leaves it out is \<open>OtherCoreStatus []\<close>.\<close>

datatype core_order_status =
    CoreReceived | CoreAccepted | CorePreparing | CoreReady | CoreCompleted | CoreCancelled
  | OtherCoreStatus string

record core_line =
  cl_ID :: string
  cl_MenuItemID :: string
  cl_Name :: string
  cl_Quantity :: int
  cl_UnitPrice :: money
  cl_LineTotal :: money
  cl_PreparationNote :: string

record core_order =
  co_ID :: string
  co_TenantID :: string
  co_OutletID :: string
  co_BrandID :: string
  co_ExternalRef :: string
  co_Type :: core_order_type
  co_Status :: core_order_status
  co_Lines :: "core_line list"
  co_Subtotal :: money
  co_DiscountTotal :: money
  co_TaxTotal :: money
  co_ServiceCharge :: money
  co_Total :: money
  co_PlacedAt :: time
  co_Meta :: record_metadata

datatype core_ticket_status =
    CoreQueued | CoreFired | CoreTicketPreparing | CoreTicketReady | CoreTicketCompleted | CoreTicketCancelled
  | OtherCoreTicket string

record core_ticket =
  ct_ID :: string
  ct_TenantID :: string
  ct_OutletID :: string
  ct_OrderID :: string
  ct_StationID :: string
  ct_LineIDs :: "string list"
  ct_Status :: core_ticket_status
  ct_Priority :: int
  ct_TargetAt :: "time option"
  ct_Meta :: record_metadata

record audit_event =
  ae_ID :: string
  ae_OperationID :: string
  ae_TenantID :: string
  ae_OutletID :: string
  ae_ActorID :: string
  ae_DeviceID :: string
  ae_Source :: string
  ae_SourceID :: string
  ae_IdempotencyKey :: string
  ae_CorrelationID :: string
  ae_SchemaVersion :: string
  ae_Action :: string
  ae_EntityType :: string
  ae_EntityID :: string
  ae_OccurredAt :: time
  ae_RecordedAt :: time

subsection \<open>Validation\<close>

definition core_schema_version :: string where
  "core_schema_version = ''1.0''"

definition upper_class :: "char \<Rightarrow> bool" where
  "upper_class c \<longleftrightarrow> (let v = (of_char c :: nat) in 65 \<le> v \<and> v \<le> 90)"

definition currency_classes :: "(char \<Rightarrow> bool) list" where
  "currency_classes = replicate 3 upper_class"

definition code_class :: "char \<Rightarrow> bool" where
  "code_class c \<longleftrightarrow> is_alnum c \<or> one_of ''._-'' c"

definition core_uuid_classes :: "(char \<Rightarrow> bool) list" where
  "core_uuid_classes = uuid_classes"

definition ValidUUID :: "string \<Rightarrow> bool" where
  "ValidUUID value = matches core_uuid_classes value"

definition ValidCurrency :: "string \<Rightarrow> bool" where
  "ValidCurrency currency = matches currency_classes currency"

fun ValidCode :: "string \<Rightarrow> bool" where
  "ValidCode [] = False"
| "ValidCode (c # cs) = (is_alnum c \<and> length cs \<le> 63 \<and> list_all code_class cs)"

fun ValidStationType :: "station_type \<Rightarrow> bool" where
  "ValidStationType (OtherStationType _) = False"
| "ValidStationType _ = True"

fun ValidOrderType :: "core_order_type \<Rightarrow> bool" where
  "ValidOrderType (OtherCoreOrderType _) = False"
| "ValidOrderType _ = True"

fun ValidOrderStatus :: "core_order_status \<Rightarrow> bool" where
  "ValidOrderStatus (OtherCoreStatus _) = False"
| "ValidOrderStatus _ = True"

text \<open>The table of the allowed moves; a status without a row allows none.\<close>

definition CanTransitionOrderStatus :: "core_order_status \<Rightarrow> core_order_status \<Rightarrow> bool" where
  "CanTransitionOrderStatus from to' \<longleftrightarrow> to' \<in> (case from of
     CoreReceived \<Rightarrow> {CoreAccepted, CoreCancelled}
   | CoreAccepted \<Rightarrow> {CorePreparing, CoreCancelled}
   | CorePreparing \<Rightarrow> {CoreReady, CoreCancelled}
   | CoreReady \<Rightarrow> {CoreCompleted, CoreCancelled}
   | _ \<Rightarrow> {})"

fun ValidTicketStatus :: "core_ticket_status \<Rightarrow> bool" where
  "ValidTicketStatus (OtherCoreTicket _) = False"
| "ValidTicketStatus _ = True"

definition CanTransitionTicketStatus :: "core_ticket_status \<Rightarrow> core_ticket_status \<Rightarrow> bool" where
  "CanTransitionTicketStatus from to' \<longleftrightarrow> to' \<in> (case from of
     CoreQueued \<Rightarrow> {CoreFired, CoreTicketCancelled}
   | CoreFired \<Rightarrow> {CoreTicketPreparing, CoreTicketCancelled}
   | CoreTicketPreparing \<Rightarrow> {CoreTicketReady, CoreTicketCancelled}
   | CoreTicketReady \<Rightarrow> {CoreTicketCompleted, CoreTicketCancelled}
   | _ \<Rightarrow> {})"

text \<open>\<open>LoadLocation\<close> reads the time-zone database of the system: an argument.\<close>

definition ValidTimeZone :: "(string \<Rightarrow> bool) \<Rightarrow> string \<Rightarrow> bool" where
  "ValidTimeZone known_location name \<longleftrightarrow> TrimSpace name \<noteq> [] \<and> known_location name"

definition required_metadata :: "mutation_metadata \<Rightarrow> (string \<times> string) list" where
  "required_metadata m =
    [(''id'', mm_ID m), (''tenantId'', mm_TenantID m), (''outletId'', mm_OutletID m),
     (''deviceId'', mm_DeviceID m), (''actorId'', mm_ActorID m), (''source'', mm_Source m)]"

definition required_check :: "string \<times> string \<Rightarrow> string option" where
  "required_check = (\<lambda>(field, value). first_error
    [fails_if (TrimSpace value = []) (field @ '' is required''),
     fails_if (length value > 128) (field @ '' must be at most 128 characters'')])"

definition MutationMetadata_Validate :: "map_order \<Rightarrow> mutation_metadata \<Rightarrow> string option" where
  "MutationMetadata_Validate iter m = first_error
    (map required_check (map_entries iter (required_metadata m)) @
    [fails_if (IsZero (mm_OccurredAt m)) ''occurredAt is required and must be RFC3339'',
     fails_if (mm_SchemaVersion m \<noteq> core_schema_version) ''schemaVersion must be \"1.0\"'',
     fails_if (length (mm_SourceID m) > 256 \<or> length (mm_CorrelationID m) > 128 \<or> length (mm_CausationID m) > 128)
       ''sourceId must be at most 256 characters and correlation identifiers at most 128'',
     fails_if (length (mm_IdempotencyKey m) < 8 \<or> length (mm_IdempotencyKey m) > 256)
       ''idempotencyKey must be between 8 and 256 characters'',
     fails_if (\<not> ValidUUID (mm_ID m)) ''id must be a UUID string'',
     fails_if (mm_CorrelationID m \<noteq> [] \<and> \<not> ValidUUID (mm_CorrelationID m)) ''correlationId must be a UUID string'',
     fails_if (mm_CausationID m \<noteq> [] \<and> \<not> ValidUUID (mm_CausationID m)) ''causationId must be a UUID string''])"

text \<open>The verdict does not depend on the order in which the runtime visits the required fields.\<close>

lemma MutationMetadata_valid_iff:
  assumes "visits_all iter"
  shows "MutationMetadata_Validate iter m = None \<longleftrightarrow>
    (\<forall>value \<in> {mm_ID m, mm_TenantID m, mm_OutletID m, mm_DeviceID m, mm_ActorID m, mm_Source m}.
       TrimSpace value \<noteq> [] \<and> length value \<le> 128)
    \<and> \<not> IsZero (mm_OccurredAt m) \<and> mm_SchemaVersion m = core_schema_version
    \<and> length (mm_SourceID m) \<le> 256 \<and> length (mm_CorrelationID m) \<le> 128 \<and> length (mm_CausationID m) \<le> 128
    \<and> 8 \<le> length (mm_IdempotencyKey m) \<and> length (mm_IdempotencyKey m) \<le> 256
    \<and> ValidUUID (mm_ID m) \<and> (mm_CorrelationID m = [] \<or> ValidUUID (mm_CorrelationID m))
    \<and> (mm_CausationID m = [] \<or> ValidUUID (mm_CausationID m))"
  using assms
  by (auto simp: MutationMetadata_Validate_def required_check_def required_metadata_def first_error_None_iff not_less not_le)

lemmas core_move_simps [status_simps] = CanTransitionOrderStatus_def CanTransitionTicketStatus_def

text \<open>The moves go strictly upwards, so no run of them returns to an earlier status.\<close>

fun core_order_rank :: "core_order_status \<Rightarrow> nat" where
  "core_order_rank CoreReceived = 0"
| "core_order_rank CoreAccepted = 1"
| "core_order_rank CorePreparing = 2"
| "core_order_rank CoreReady = 3"
| "core_order_rank _ = 4"

lemma core_move_rank: "CanTransitionOrderStatus from to' \<Longrightarrow> core_order_rank from < core_order_rank to'"
  by (cases "from"; cases to') (auto simp: status_simps)

fun core_ticket_rank :: "core_ticket_status \<Rightarrow> nat" where
  "core_ticket_rank CoreQueued = 0"
| "core_ticket_rank CoreFired = 1"
| "core_ticket_rank CoreTicketPreparing = 2"
| "core_ticket_rank CoreTicketReady = 3"
| "core_ticket_rank _ = 4"

lemma core_ticket_move_rank: "CanTransitionTicketStatus from to' \<Longrightarrow> core_ticket_rank from < core_ticket_rank to'"
  by (cases "from"; cases to') (auto simp: status_simps)

lemma core_move_valid: "CanTransitionOrderStatus from to' \<Longrightarrow> ValidOrderStatus from \<and> ValidOrderStatus to'"
  by (cases "from"; cases to') (auto simp: status_simps)

end
