(* ===== verification/Core_Commerce_Types.thy ===== *)
theory Core_Commerce_Types
  imports Core_Domain
begin

text \<open>
  The commerce types of \<open>services/core/internal/domain/models.go\<close>: availability of menu items, dining
  tables and sessions, cash shifts, tenders, receipts and settlements. Amounts are \<open>int64\<close> values kept
  as integers; statuses and tender types are the texts of the source.
\<close>

record menu_availability =
  ma_MenuItemID :: string
  ma_MenuItemName :: string
  ma_Available :: bool
  ma_Reason :: string
  ma_Version :: nat
  ma_UpdatedAt :: time

record dining_table =
  dt_ID :: string
  dt_TenantID :: string
  dt_OutletID :: string
  dt_Label :: string
  dt_Section :: string
  dt_Capacity :: int
  dt_Status :: string
  dt_Version :: nat
  dt_CreatedAt :: time
  dt_UpdatedAt :: time

record dining_session =
  ds_ID :: string
  ds_TenantID :: string
  ds_OutletID :: string
  ds_TableID :: string
  ds_TableLabel :: string
  ds_Status :: string
  ds_GuestCount :: int
  ds_GuestName :: string
  ds_OpenedAt :: time
  ds_ClosedAt :: "time option"
  ds_Version :: nat

record cash_shift =
  cs_ID :: string
  cs_TenantID :: string
  cs_OutletID :: string
  cs_RegisterLabel :: string
  cs_Status :: string
  cs_OpeningFloatMinor :: int
  cs_ExpectedCashMinor :: int
  cs_ClosingCountMinor :: "int option"
  cs_VarianceMinor :: "int option"
  cs_OpenedAt :: time
  cs_ClosedAt :: "time option"
  cs_Version :: nat

record tender =
  td_ID :: string
  td_TenantID :: string
  td_OutletID :: string
  td_OrderID :: string
  td_CashShiftID :: string
  td_TenderType :: string
  td_AmountMinor :: int
  td_Currency :: string
  td_ProviderReference :: string
  td_Status :: string
  td_ReversesTenderID :: string
  td_OccurredAt :: time

record fiscal_receipt =
  fr_ID :: string
  fr_OrderID :: string
  fr_ReceiptNumber :: string
  fr_Currency :: string
  fr_SubtotalMinor :: int
  fr_DiscountMinor :: int
  fr_TaxMinor :: int
  fr_ServiceChargeMinor :: int
  fr_TotalMinor :: int
  fr_IssuedAt :: time

record tender_settlement =
  ts_ID :: string
  ts_BusinessDate :: string
  ts_TenderType :: string
  ts_GrossMinor :: int
  ts_ReversedMinor :: int
  ts_NetMinor :: int
  ts_TransactionCount :: nat
  ts_GeneratedAt :: time

end
