(* ===== verification/Core_Catalog.thy ===== *)
theory Core_Catalog
  imports Core_Domain
begin

text \<open>
  The catalogue types of \<open>services/core/internal/domain/models.go\<close> that the in-memory
  repository stores or returns: units, ingredients, recipes, menu items, menu studios and
  imports. A \<open>float64\<close> is kept as its bit pattern: nothing modelled computes with it. Raw JSON
  is its text, a decoded JSON object of an import row as well.
\<close>

type_synonym float64 = "64 word"

record measure_unit =
  un_ID :: string
  un_TenantID :: string
  un_Name :: string
  un_Symbol :: string
  un_Dimension :: string
  un_BaseNumerator :: int
  un_BaseDenominator :: int
  un_Active :: bool
  un_Meta :: record_metadata

record ingredient =
  in_ID :: string
  in_TenantID :: string
  in_Name :: string
  in_Code :: string
  in_BaseUnitID :: string
  in_Allergens :: "string list"
  in_DietaryLabels :: "string list"
  in_Active :: bool
  in_Meta :: record_metadata

record recipe_component =
  rc_ID :: string
  rc_IngredientID :: string
  rc_ChildRecipeVersionID :: string
  rc_UnitID :: string
  rc_PreparationNote :: string
  rc_Quantity :: float64

record recipe_version =
  rv_ID :: string
  rv_TenantID :: string
  rv_RecipeID :: string
  rv_YieldUnitID :: string
  rv_Instructions :: string
  rv_VersionNumber :: "64 word"
  rv_YieldQuantity :: float64
  rv_PreparationLossPercent :: float64
  rv_CookingLossPercent :: float64
  rv_EffectiveFrom :: time
  rv_EffectiveTo :: "time option"
  rv_Components :: "recipe_component list"
  rv_CreatedAt :: time

record recipe =
  rp_ID :: string
  rp_TenantID :: string
  rp_Name :: string
  rp_Code :: string
  rp_Active :: bool
  rp_CurrentVersion :: "recipe_version option"
  rp_Meta :: record_metadata

record menu_item =
  mi_ID :: string
  mi_TenantID :: string
  mi_OutletID :: string
  mi_BrandID :: string
  mi_RecipeID :: string
  mi_Name :: string
  mi_Code :: string
  mi_Currency :: string
  mi_StationID :: string
  mi_PriceMinor :: int
  mi_Active :: bool
  mi_Meta :: record_metadata

record menu_studio_category =
  sc_ID :: string
  sc_Name :: string
  sc_SortOrder :: int
  sc_Active :: bool

record menu_modifier_option =
  mo_ID :: string
  mo_Name :: string
  mo_PriceDeltaMinor :: int
  mo_Active :: bool
  mo_SortOrder :: int

record menu_modifier_group =
  mg_ID :: string
  mg_Name :: string
  mg_SelectionMin :: int
  mg_SelectionMax :: int
  mg_Required :: bool
  mg_SortOrder :: int
  mg_Options :: "menu_modifier_option list"

record menu_studio_item =
  si_MenuItemID :: string
  si_CategoryID :: string
  si_DisplayName :: string
  si_Description :: string
  si_SortOrder :: int
  si_Active :: bool
  si_ModifierGroupIDs :: "string list"
  si_PriceID :: string
  si_PriceMinor :: int
  si_Currency :: string

record menu_publication =
  mp_ID :: string
  mp_ChannelID :: string
  mp_Status :: string
  mp_EffectiveFrom :: time
  mp_EffectiveTo :: "time option"

record menu_studio_version =
  sv_ID :: string
  sv_MenuStudioID :: string
  sv_VersionNumber :: int
  sv_Status :: string
  sv_EffectiveFrom :: time
  sv_CreatedAt :: time
  sv_PublishedAt :: "time option"
  sv_PublishedBy :: string
  sv_Categories :: "menu_studio_category list"
  sv_Modifiers :: "menu_modifier_group list"
  sv_Items :: "menu_studio_item list"
  sv_Publications :: "menu_publication list"

record menu_studio =
  ms_ID :: string
  ms_TenantID :: string
  ms_OutletID :: string
  ms_Name :: string
  ms_Status :: string
  ms_CurrentVersionID :: string
  ms_Version :: "64 word"
  ms_CreatedAt :: time
  ms_UpdatedAt :: time
  ms_Current :: "menu_studio_version option"

record menu_import_draft =
  md_ID :: string
  md_TenantID :: string
  md_OutletID :: string
  md_Name :: string
  md_ItemFileName :: string
  md_AddonFileName :: string
  md_SourceSHA256 :: string
  md_Status :: string
  md_ItemCount :: int
  md_CategoryCount :: int
  md_AddonGroupCount :: int
  md_VariationCount :: int
  md_Draft :: string
  md_ImportedAt :: time

record order_import_row =
  ir_ID :: string
  ir_RowNumber :: int
  ir_ExternalRef :: string
  ir_Status :: string
  ir_ErrorCode :: string
  ir_ErrorMessage :: string
  ir_OrderID :: string
  ir_RawData :: string

record order_import =
  oi_ID :: string
  oi_TenantID :: string
  oi_OutletID :: string
  oi_FileName :: string
  oi_FileSHA256 :: string
  oi_TotalRows :: nat
  oi_AcceptedRows :: nat
  oi_RejectedRows :: nat
  oi_Status :: string
  oi_ImportedAt :: time
  oi_Rows :: "order_import_row list"

record imported_order_row =
  io_ID :: string
  io_ExternalRef :: string
  io_OrderType :: string
  io_ItemCode :: string
  io_ErrorCode :: string
  io_ErrorMessage :: string
  io_RowNumber :: int
  io_Quantity :: int
  io_PlacedAt :: time
  io_RawData :: string

end
