(* ===== verification/Core_Checkout_Types.thy ===== *)
theory Core_Checkout_Types
  imports Core_Commerce_Types Core_Catalog
begin

text \<open>
  The types of the point of sale in \<open>services/core/internal/domain/models.go\<close>: a checkout as the till
  sends it, and what it produces beside the order, its tickets, tenders and receipt.
\<close>

record pos_line =
  ln_ID :: string
  ln_MenuItemID :: string
  ln_Quantity :: int
  ln_PreparationNote :: string
  ln_ModifierOptionIDs :: "string list"

record pos_tender =
  pn_ID :: string
  pn_TenderType :: string
  pn_CashShiftID :: string
  pn_AmountMinor :: int
  pn_ProviderReference :: string

record pos_checkout =
  px_ID :: string
  px_TenantID :: string
  px_OutletID :: string
  px_MenuVersionID :: string
  px_OrderID :: string
  px_OrderType :: core_order_type
  px_BrandID :: string
  px_ExternalRef :: string
  px_DiscountMinor :: int
  px_TaxMinor :: int
  px_ServiceChargeMinor :: int
  px_Lines :: "pos_line list"
  px_Tenders :: "pos_tender list"
  px_ReceiptID :: string
  px_ReceiptNumber :: string
  px_PickupTokenID :: string
  px_PickupToken :: string
  px_PrinterRoute :: string
  px_PlacedAt :: time

text \<open>A decoded JSON value; a number is kept as the bit pattern of its \<open>float64\<close>.\<close>

datatype json_value =
    JsonNull
  | JsonBool bool
  | JsonNumber "64 word"
  | JsonString string
  | JsonArray "json_value list"
  | JsonObject "(string \<times> json_value) list"

text \<open>The payload of a print job is a map from names to values, which may be nil.\<close>

record kitchen_print_job =
  kp_ID :: string
  kp_TenantID :: string
  kp_OutletID :: string
  kp_TicketID :: string
  kp_PrinterRoute :: string
  kp_CopyType :: string
  kp_Payload :: "(string \<times> json_value) list option"
  kp_Status :: string
  kp_Attempts :: int
  kp_LastError :: string
  kp_CreatedAt :: time
  kp_AcknowledgedAt :: "time option"

record pickup_token =
  pk_ID :: string
  pk_TenantID :: string
  pk_OutletID :: string
  pk_OrderID :: string
  pk_Token :: string
  pk_Status :: string
  pk_IssuedAt :: time
  pk_CollectedAt :: "time option"
  pk_Version :: nat

record pos_result =
  pz_Order :: core_order
  pz_Tickets :: "core_ticket list"
  pz_PrintJobs :: "kitchen_print_job list"
  pz_PickupToken :: "pickup_token option"
  pz_Tenders :: "tender list"
  pz_Receipt :: "fiscal_receipt option"

end
