(* ===== verification/Core_Memory.thy ===== *)
theory Core_Memory
  imports Core_Catalog "HOL-Library.AList"
begin

text \<open>
  The in-memory repository of the core, \<open>services/core/internal/store/memory.go\<close>: its maps as
  association lists in the order the runtime visits them, its audit trail, and every operation on
  organizations, outlets, brands, stations, orders and kitchen tickets. The mutex makes each
  operation one step. An error is its sentinel with the text of the format, without the quoted
  identifier; a cancelled context is an argument.
\<close>

subsection \<open>State and errors\<close>

datatype sentinel =
    NotFound | Conflict | InvalidReference | SyncUnavailable | VersionConflict | InvalidTransition
  | CausalPredecessor | PlatformProvisioningUnavailable | ContextError

datatype core_failure = Failed sentinel string

record memory_repository =
  mr_organizations :: "(string \<times> organization) list"
  mr_outlets :: "(string \<times> outlet) list"
  mr_brands :: "(string \<times> brand) list"
  mr_brandOutlets :: "(string \<times> brand_outlet_assignment) list"
  mr_stations :: "(string \<times> station) list"
  mr_units :: "(string \<times> measure_unit) list"
  mr_ingredients :: "(string \<times> ingredient) list"
  mr_recipes :: "(string \<times> recipe) list"
  mr_menuItems :: "(string \<times> menu_item) list"
  mr_menuStudios :: "(string \<times> menu_studio) list"
  mr_menuImports :: "(string \<times> menu_import_draft) list"
  mr_orders :: "(string \<times> core_order) list"
  mr_tickets :: "(string \<times> core_ticket) list"
  mr_audits :: "audit_event list"
  mr_auditOperations :: "(string \<times> string) list"
  mr_orderSources :: "(string \<times> string) list"

definition NewMemoryRepository :: memory_repository where
  "NewMemoryRepository = \<lparr>mr_organizations = [], mr_outlets = [], mr_brands = [], mr_brandOutlets = [],
     mr_stations = [], mr_units = [], mr_ingredients = [], mr_recipes = [], mr_menuItems = [],
     mr_menuStudios = [], mr_menuImports = [], mr_orders = [], mr_tickets = [], mr_audits = [],
     mr_auditOperations = [], mr_orderSources = []\<rparr>"

record audit_filter =
  af_TenantID :: string
  af_OutletID :: string
  af_EntityType :: string
  af_EntityID :: string

text \<open>A chain of checks before the writes, and a condition on the entry of a map.\<close>

definition guarded :: "core_failure option list \<Rightarrow> 'a \<Rightarrow> core_failure + 'a" where
  "guarded checks result = (case first_error checks of Some e \<Rightarrow> Inl e | None \<Rightarrow> Inr result)"

definition present :: "(string \<times> 'v) list \<Rightarrow> string \<Rightarrow> bool" where
  "present m k \<longleftrightarrow> map_of m k \<noteq> None"

definition holds_at :: "(string \<times> 'v) list \<Rightarrow> string \<Rightarrow> ('v \<Rightarrow> bool) \<Rightarrow> bool" where
  "holds_at m k P = (case map_of m k of None \<Rightarrow> False | Some v \<Rightarrow> P v)"

lemma guarded_Inr_iff: "guarded checks result = Inr r \<longleftrightarrow> (\<forall>c \<in> set checks. c = None) \<and> r = result"
  by (auto simp: guarded_def first_error_None_iff split: option.split dest: first_error_Some_mem)

lemma guarded_Inl_iff: "guarded checks result = Inl e \<longleftrightarrow> first_error checks = Some e"
  by (auto simp: guarded_def split: option.split)

lemma present_update [simp]: "present (AList.update k v m) k' \<longleftrightarrow> k' = k \<or> present m k'"
  by (simp add: present_def update_conv')

lemma holds_at_update: "holds_at (AList.update k v m) k' P \<longleftrightarrow> (if k' = k then P v else holds_at m k' P)"
  by (simp add: holds_at_def update_conv')

lemma holds_at_iff: "holds_at m k P \<longleftrightarrow> (\<exists>v. map_of m k = Some v \<and> P v)"
  by (auto simp: holds_at_def split: option.split)

lemma holds_at_present: "holds_at m k P \<Longrightarrow> present m k"
  by (auto simp: holds_at_iff present_def)

subsection \<open>The audit trail\<close>

definition validateAudit :: "audit_event \<Rightarrow> string \<Rightarrow> string \<Rightarrow> string \<Rightarrow> string \<Rightarrow> core_failure option" where
  "validateAudit audit tenantID outletID entityType entityID = first_error
    [fails_if (ae_ID audit = [] \<or> ae_OperationID audit = [] \<or> ae_Action audit = [] \<or> IsZero (ae_RecordedAt audit))
       (Failed InvalidReference ''incomplete audit event''),
     fails_if (ae_TenantID audit \<noteq> tenantID \<or> ae_OutletID audit \<noteq> outletID
         \<or> ae_EntityType audit \<noteq> entityType \<or> ae_EntityID audit \<noteq> entityID)
       (Failed InvalidReference ''audit event does not match mutation'')]"

definition audit_key :: "audit_event \<Rightarrow> string" where
  "audit_key audit = ae_TenantID audit @ [CHR 0x00] @ ae_OperationID audit"

definition ensureAuditOperationAvailable :: "memory_repository \<Rightarrow> audit_event \<Rightarrow> core_failure option" where
  "ensureAuditOperationAvailable m audit =
    fails_if (present (mr_auditOperations m) (audit_key audit)) (Failed Conflict ''operation already audited entity'')"

definition appendAudit :: "audit_event \<Rightarrow> memory_repository \<Rightarrow> memory_repository" where
  "appendAudit audit m = m\<lparr>mr_auditOperations := AList.update (audit_key audit) (ae_EntityID audit) (mr_auditOperations m),
     mr_audits := mr_audits m @ [audit]\<rparr>"

subsection \<open>Organizations, outlets, brands and stations\<close>

type_synonym context_error = "core_failure option"

definition Memory_CreateOrganization ::
  "context_error \<Rightarrow> organization \<Rightarrow> audit_event \<Rightarrow> memory_repository \<Rightarrow> (core_failure + unit) \<times> memory_repository" where
  "Memory_CreateOrganization ctx value audit = transact (\<lambda>m. guarded
    [ctx,
     fails_if (present (mr_organizations m) (org_ID value)) (Failed Conflict ''organization''),
     validateAudit audit (org_TenantID value) (ae_OutletID audit) ''organization'' (org_ID value),
     ensureAuditOperationAvailable m audit]
    ((), appendAudit audit (m\<lparr>mr_organizations := AList.update (org_ID value) value (mr_organizations m)\<rparr>)))"

definition brandOutletKey :: "string \<Rightarrow> string \<Rightarrow> string \<Rightarrow> string" where
  "brandOutletKey tenantID brandID outletID = tenantID @ '':'' @ brandID @ '':'' @ outletID"

fun check_stations ::
  "memory_repository \<Rightarrow> string \<Rightarrow> string \<Rightarrow> string set \<Rightarrow> station list \<Rightarrow> core_failure option" where
  "check_stations m tenantID outletID seen [] = None"
| "check_stations m tenantID outletID seen (s # rest) =
    (if st_ID s \<in> seen then Some (Failed Conflict ''station'')
     else if present (mr_stations m) (st_ID s) then Some (Failed Conflict ''station'')
     else if st_TenantID s \<noteq> tenantID \<or> st_OutletID s \<noteq> outletID then Some (Failed InvalidReference ''station hierarchy'')
     else check_stations m tenantID outletID (insert (st_ID s) seen) rest)"

definition Memory_ProvisionTenant ::
  "context_error \<Rightarrow> organization \<Rightarrow> outlet \<Rightarrow> brand \<Rightarrow> brand_outlet_assignment \<Rightarrow> station list \<Rightarrow> audit_event
    \<Rightarrow> memory_repository \<Rightarrow> (core_failure + unit) \<times> memory_repository" where
  "Memory_ProvisionTenant ctx org outlet brand assignment stations audit = transact (\<lambda>m. guarded
    [ctx,
     fails_if (present (mr_organizations m) (org_ID org)) (Failed Conflict ''organization''),
     fails_if (present (mr_outlets m) (out_ID outlet)) (Failed Conflict ''outlet''),
     fails_if (present (mr_brands m) (br_ID brand)) (Failed Conflict ''brand''),
     fails_if (org_ID org \<noteq> org_TenantID org \<or> out_TenantID outlet \<noteq> org_TenantID org
         \<or> out_OrganizationID outlet \<noteq> org_ID org \<or> br_TenantID brand \<noteq> org_TenantID org
         \<or> br_OrganizationID brand \<noteq> org_ID org \<or> ba_TenantID assignment \<noteq> org_TenantID org
         \<or> ba_BrandID assignment \<noteq> br_ID brand \<or> ba_OutletID assignment \<noteq> out_ID outlet)
       (Failed InvalidReference ''invalid tenant provisioning hierarchy''),
     validateAudit audit (org_TenantID org) (out_ID outlet) ''organization'' (org_ID org),
     ensureAuditOperationAvailable m audit,
     check_stations m (org_TenantID org) (out_ID outlet) {} stations]
    ((), appendAudit audit (m\<lparr>
       mr_organizations := AList.update (org_ID org) org (mr_organizations m),
       mr_outlets := AList.update (out_ID outlet) outlet (mr_outlets m),
       mr_brands := AList.update (br_ID brand) brand (mr_brands m),
       mr_brandOutlets := AList.update
         (brandOutletKey (ba_TenantID assignment) (ba_BrandID assignment) (ba_OutletID assignment)) assignment (mr_brandOutlets m),
       mr_stations := fold (\<lambda>s. AList.update (st_ID s) s) stations (mr_stations m)\<rparr>)))"

definition Memory_CreateOutlet ::
  "context_error \<Rightarrow> outlet \<Rightarrow> audit_event \<Rightarrow> memory_repository \<Rightarrow> (core_failure + unit) \<times> memory_repository" where
  "Memory_CreateOutlet ctx value audit = transact (\<lambda>m. guarded
    [ctx,
     fails_if (present (mr_outlets m) (out_ID value)) (Failed Conflict ''outlet''),
     fails_if (\<not> holds_at (mr_organizations m) (out_OrganizationID value) (\<lambda>org. org_TenantID org = out_TenantID value))
       (Failed InvalidReference ''organization''),
     validateAudit audit (out_TenantID value) (ae_OutletID audit) ''outlet'' (out_ID value),
     ensureAuditOperationAvailable m audit]
    ((), appendAudit audit (m\<lparr>mr_outlets := AList.update (out_ID value) value (mr_outlets m)\<rparr>)))"

definition Memory_CreateBrand ::
  "context_error \<Rightarrow> brand \<Rightarrow> audit_event \<Rightarrow> memory_repository \<Rightarrow> (core_failure + unit) \<times> memory_repository" where
  "Memory_CreateBrand ctx value audit = transact (\<lambda>m. guarded
    [ctx,
     fails_if (present (mr_brands m) (br_ID value)) (Failed Conflict ''brand''),
     fails_if (\<not> holds_at (mr_organizations m) (br_OrganizationID value) (\<lambda>org. org_TenantID org = br_TenantID value))
       (Failed InvalidReference ''organization''),
     validateAudit audit (br_TenantID value) (ae_OutletID audit) ''brand'' (br_ID value),
     ensureAuditOperationAvailable m audit]
    ((), appendAudit audit (m\<lparr>mr_brands := AList.update (br_ID value) value (mr_brands m)\<rparr>)))"

definition Memory_SetBrandOutletAssignment ::
  "context_error \<Rightarrow> brand_outlet_assignment \<Rightarrow> 64 word \<Rightarrow> audit_event \<Rightarrow> memory_repository
    \<Rightarrow> (core_failure + brand_outlet_assignment) \<times> memory_repository" where
  "Memory_SetBrandOutletAssignment ctx value expectedVersion audit = transact (\<lambda>m.
    let key = brandOutletKey (ba_TenantID value) (ba_BrandID value) (ba_OutletID value);
        current = map_of (mr_brandOutlets m) key;
        value' = (case current of
            Some c \<Rightarrow> value\<lparr>ba_Meta := (ba_Meta value)\<lparr>rm_Version := rm_Version (ba_Meta c) + 1, rm_CreatedAt := rm_CreatedAt (ba_Meta c)\<rparr>\<rparr>
          | None \<Rightarrow> value\<lparr>ba_Meta := (ba_Meta value)\<lparr>rm_Version := 1\<rparr>\<rparr>)
    in guarded
     [ctx,
      fails_if (\<not> holds_at (mr_brands m) (ba_BrandID value) (\<lambda>brand. br_TenantID brand = ba_TenantID value \<and>
          holds_at (mr_outlets m) (ba_OutletID value) (\<lambda>outlet. out_TenantID outlet = ba_TenantID value
            \<and> br_OrganizationID brand = out_OrganizationID outlet)))
        (Failed InvalidReference ''brand or outlet''),
      fails_if (current \<noteq> None \<and> expectedVersion = 0) (Failed Conflict ''brand outlet assignment''),
      fails_if (current = None \<and> expectedVersion \<noteq> 0) (Failed NotFound ''brand outlet assignment''),
      fails_if (case current of Some c \<Rightarrow> rm_Version (ba_Meta c) \<noteq> expectedVersion | None \<Rightarrow> False)
        (Failed VersionConflict ''brand outlet assignment''),
      validateAudit audit (ba_TenantID value) (ba_OutletID value) ''brand_outlet_assignment'' (ba_BrandID value),
      ensureAuditOperationAvailable m audit]
     (value', appendAudit audit (m\<lparr>mr_brandOutlets := AList.update key value' (mr_brandOutlets m)\<rparr>)))"

definition Memory_CreateStation ::
  "context_error \<Rightarrow> station \<Rightarrow> audit_event \<Rightarrow> memory_repository \<Rightarrow> (core_failure + unit) \<times> memory_repository" where
  "Memory_CreateStation ctx value audit = transact (\<lambda>m. guarded
    [ctx,
     fails_if (present (mr_stations m) (st_ID value)) (Failed Conflict ''station''),
     fails_if (\<not> holds_at (mr_outlets m) (st_OutletID value) (\<lambda>outlet. out_TenantID outlet = st_TenantID value))
       (Failed InvalidReference ''outlet''),
     validateAudit audit (st_TenantID value) (st_OutletID value) ''station'' (st_ID value),
     ensureAuditOperationAvailable m audit]
    ((), appendAudit audit (m\<lparr>mr_stations := AList.update (st_ID value) value (mr_stations m)\<rparr>)))"

subsection \<open>Orders and kitchen tickets\<close>

definition orderContainsLines :: "core_order \<Rightarrow> string list \<Rightarrow> bool" where
  "orderContainsLines order lineIDs \<longleftrightarrow> set lineIDs \<subseteq> set (map cl_ID (co_Lines order)) \<and> distinct lineIDs"

definition source_key :: "string \<Rightarrow> audit_event \<Rightarrow> string" where
  "source_key tenantID audit = tenantID @ [CHR 0x00] @ ae_Source audit @ [CHR 0x00] @ ae_SourceID audit"

definition Memory_CreateOrder ::
  "context_error \<Rightarrow> core_order \<Rightarrow> audit_event \<Rightarrow> memory_repository \<Rightarrow> (core_failure + unit) \<times> memory_repository" where
  "Memory_CreateOrder ctx value audit = transact (\<lambda>m. guarded
    [ctx,
     fails_if (present (mr_orders m) (co_ID value)) (Failed Conflict ''order''),
     fails_if (\<not> holds_at (mr_outlets m) (co_OutletID value) (\<lambda>outlet. out_TenantID outlet = co_TenantID value))
       (Failed InvalidReference ''outlet''),
     fails_if (co_BrandID value \<noteq> [] \<and> \<not> holds_at (mr_brands m) (co_BrandID value) (\<lambda>brand.
         br_TenantID brand = co_TenantID value \<and>
         holds_at (mr_outlets m) (co_OutletID value) (\<lambda>outlet. br_OrganizationID brand = out_OrganizationID outlet)))
       (Failed InvalidReference ''brand''),
     validateAudit audit (co_TenantID value) (co_OutletID value) ''order'' (co_ID value),
     ensureAuditOperationAvailable m audit,
     fails_if (ae_SourceID audit \<noteq> [] \<and> present (mr_orderSources m) (source_key (co_TenantID value) audit))
       (Failed Conflict ''source order already maps to'')]
    ((), appendAudit audit (m\<lparr>
       mr_orderSources := (if ae_SourceID audit \<noteq> []
         then AList.update (source_key (co_TenantID value) audit) (co_ID value) (mr_orderSources m) else mr_orderSources m),
       mr_orders := AList.update (co_ID value) value (mr_orders m)\<rparr>)))"

definition moved_order :: "core_order_status \<Rightarrow> audit_event \<Rightarrow> core_order \<Rightarrow> core_order" where
  "moved_order to' audit value = value\<lparr>co_Status := to',
     co_Meta := (co_Meta value)\<lparr>rm_Version := rm_Version (co_Meta value) + 1, rm_UpdatedAt := ae_RecordedAt audit\<rparr>\<rparr>"

definition Memory_TransitionOrder ::
  "context_error \<Rightarrow> string \<Rightarrow> string \<Rightarrow> string \<Rightarrow> core_order_status \<Rightarrow> 64 word \<Rightarrow> audit_event \<Rightarrow> memory_repository
    \<Rightarrow> (core_failure + core_order) \<times> memory_repository" where
  "Memory_TransitionOrder ctx tenantID outletID id' to' expectedVersion audit = transact (\<lambda>m.
    case ctx of Some e \<Rightarrow> Inl e | None \<Rightarrow>
    (case map_of (mr_orders m) id' of
       None \<Rightarrow> Inl (Failed NotFound ''order'')
     | Some value \<Rightarrow> guarded
        [fails_if (co_TenantID value \<noteq> tenantID \<or> co_OutletID value \<noteq> outletID) (Failed NotFound ''order''),
         fails_if (rm_Version (co_Meta value) \<noteq> expectedVersion) (Failed VersionConflict ''order''),
         fails_if (\<not> CanTransitionOrderStatus (co_Status value) to') (Failed InvalidTransition ''order''),
         validateAudit audit tenantID outletID ''order'' id',
         ensureAuditOperationAvailable m audit]
        (moved_order to' audit value,
         appendAudit audit (m\<lparr>mr_orders := AList.update id' (moved_order to' audit value) (mr_orders m)\<rparr>))))"

definition Memory_CreateKitchenTicket ::
  "context_error \<Rightarrow> core_ticket \<Rightarrow> audit_event \<Rightarrow> memory_repository \<Rightarrow> (core_failure + unit) \<times> memory_repository" where
  "Memory_CreateKitchenTicket ctx value audit = transact (\<lambda>m. guarded
    [ctx,
     fails_if (present (mr_tickets m) (ct_ID value)) (Failed Conflict ''kitchen ticket''),
     fails_if (\<not> holds_at (mr_orders m) (ct_OrderID value) (\<lambda>order. co_TenantID order = ct_TenantID value
         \<and> co_OutletID order = ct_OutletID value)) (Failed InvalidReference ''order''),
     fails_if (\<not> holds_at (mr_stations m) (ct_StationID value) (\<lambda>station. st_TenantID station = ct_TenantID value
         \<and> st_OutletID station = ct_OutletID value)) (Failed InvalidReference ''station''),
     fails_if (\<not> holds_at (mr_orders m) (ct_OrderID value) (\<lambda>order. orderContainsLines order (ct_LineIDs value)))
       (Failed InvalidReference ''ticket line_ids must belong to order''),
     validateAudit audit (ct_TenantID value) (ct_OutletID value) ''kitchen_ticket'' (ct_ID value),
     ensureAuditOperationAvailable m audit]
    ((), appendAudit audit (m\<lparr>mr_tickets := AList.update (ct_ID value) value (mr_tickets m)\<rparr>)))"

definition moved_ticket :: "core_ticket_status \<Rightarrow> audit_event \<Rightarrow> core_ticket \<Rightarrow> core_ticket" where
  "moved_ticket to' audit value = value\<lparr>ct_Status := to',
     ct_Meta := (ct_Meta value)\<lparr>rm_Version := rm_Version (ct_Meta value) + 1, rm_UpdatedAt := ae_RecordedAt audit\<rparr>\<rparr>"

definition Memory_TransitionKitchenTicket ::
  "context_error \<Rightarrow> string \<Rightarrow> string \<Rightarrow> string \<Rightarrow> core_ticket_status \<Rightarrow> 64 word \<Rightarrow> audit_event \<Rightarrow> memory_repository
    \<Rightarrow> (core_failure + core_ticket) \<times> memory_repository" where
  "Memory_TransitionKitchenTicket ctx tenantID outletID id' to' expectedVersion audit = transact (\<lambda>m.
    case ctx of Some e \<Rightarrow> Inl e | None \<Rightarrow>
    (case map_of (mr_tickets m) id' of
       None \<Rightarrow> Inl (Failed NotFound ''kitchen ticket'')
     | Some value \<Rightarrow> guarded
        [fails_if (ct_TenantID value \<noteq> tenantID \<or> ct_OutletID value \<noteq> outletID) (Failed NotFound ''kitchen ticket''),
         fails_if (rm_Version (ct_Meta value) \<noteq> expectedVersion) (Failed VersionConflict ''kitchen ticket''),
         fails_if (\<not> CanTransitionTicketStatus (ct_Status value) to') (Failed InvalidTransition ''ticket''),
         validateAudit audit tenantID outletID ''kitchen_ticket'' id',
         ensureAuditOperationAvailable m audit]
        (moved_ticket to' audit value,
         appendAudit audit (m\<lparr>mr_tickets := AList.update id' (moved_ticket to' audit value) (mr_tickets m)\<rparr>))))"

subsection \<open>Queries\<close>

text \<open>
  A single entity is only found by its own tenant; a listing keeps the tenant's entries and sorts
  them. Entries with equal keys keep the order in which the runtime visited them.
\<close>

definition find_own :: "context_error \<Rightarrow> string \<Rightarrow> (string \<times> 'v) list \<Rightarrow> ('v \<Rightarrow> bool) \<Rightarrow> string \<Rightarrow> core_failure + 'v" where
  "find_own ctx what m own id' = (case ctx of Some e \<Rightarrow> Inl e | None \<Rightarrow>
    (case map_of m id' of None \<Rightarrow> Inl (Failed NotFound what)
     | Some value \<Rightarrow> if own value then Inr value else Inl (Failed NotFound what)))"

definition list_own :: "context_error \<Rightarrow> ('v \<Rightarrow> 'k :: linorder) \<Rightarrow> (string \<times> 'v) list \<Rightarrow> ('v \<Rightarrow> bool) \<Rightarrow> core_failure + 'v list" where
  "list_own ctx key m own = (case ctx of Some e \<Rightarrow> Inl e | None \<Rightarrow> Inr (sort_key key (filter own (map snd m))))"

definition Memory_Organization :: "context_error \<Rightarrow> string \<Rightarrow> string \<Rightarrow> memory_repository \<Rightarrow> core_failure + organization" where
  "Memory_Organization ctx tenantID id' m = find_own ctx ''organization'' (mr_organizations m) (\<lambda>v. org_TenantID v = tenantID) id'"

definition Memory_Organizations :: "context_error \<Rightarrow> string \<Rightarrow> memory_repository \<Rightarrow> core_failure + organization list" where
  "Memory_Organizations ctx tenantID m =
    list_own ctx (\<lambda>v. (rm_CreatedAt (org_Meta v), org_ID v)) (mr_organizations m) (\<lambda>v. org_TenantID v = tenantID)"

definition Memory_Outlet :: "context_error \<Rightarrow> string \<Rightarrow> string \<Rightarrow> memory_repository \<Rightarrow> core_failure + outlet" where
  "Memory_Outlet ctx tenantID id' m = find_own ctx ''outlet'' (mr_outlets m) (\<lambda>v. out_TenantID v = tenantID) id'"

definition Memory_Outlets :: "context_error \<Rightarrow> string \<Rightarrow> memory_repository \<Rightarrow> core_failure + outlet list" where
  "Memory_Outlets ctx tenantID m =
    list_own ctx (\<lambda>v. (rm_CreatedAt (out_Meta v), out_ID v)) (mr_outlets m) (\<lambda>v. out_TenantID v = tenantID)"

definition Memory_Brand :: "context_error \<Rightarrow> string \<Rightarrow> string \<Rightarrow> memory_repository \<Rightarrow> core_failure + brand" where
  "Memory_Brand ctx tenantID id' m = find_own ctx ''brand'' (mr_brands m) (\<lambda>v. br_TenantID v = tenantID) id'"

definition Memory_Brands :: "context_error \<Rightarrow> string \<Rightarrow> memory_repository \<Rightarrow> core_failure + brand list" where
  "Memory_Brands ctx tenantID m =
    list_own ctx (\<lambda>v. (rm_CreatedAt (br_Meta v), br_ID v)) (mr_brands m) (\<lambda>v. br_TenantID v = tenantID)"

definition Memory_BrandOutletAssignments ::
  "context_error \<Rightarrow> string \<Rightarrow> memory_repository \<Rightarrow> core_failure + brand_outlet_assignment list" where
  "Memory_BrandOutletAssignments ctx tenantID m =
    list_own ctx (\<lambda>v. (rm_CreatedAt (ba_Meta v), ba_BrandID v, ba_OutletID v)) (mr_brandOutlets m) (\<lambda>v. ba_TenantID v = tenantID)"

definition Memory_Station :: "context_error \<Rightarrow> string \<Rightarrow> string \<Rightarrow> memory_repository \<Rightarrow> core_failure + station" where
  "Memory_Station ctx tenantID id' m = find_own ctx ''station'' (mr_stations m) (\<lambda>v. st_TenantID v = tenantID) id'"

definition Memory_Stations :: "context_error \<Rightarrow> string \<Rightarrow> memory_repository \<Rightarrow> core_failure + station list" where
  "Memory_Stations ctx tenantID m =
    list_own ctx (\<lambda>v. (rm_CreatedAt (st_Meta v), st_ID v)) (mr_stations m) (\<lambda>v. st_TenantID v = tenantID)"

definition Memory_Order :: "context_error \<Rightarrow> string \<Rightarrow> string \<Rightarrow> memory_repository \<Rightarrow> core_failure + core_order" where
  "Memory_Order ctx tenantID id' m = find_own ctx ''order'' (mr_orders m) (\<lambda>v. co_TenantID v = tenantID) id'"

definition Memory_Orders :: "context_error \<Rightarrow> string \<Rightarrow> memory_repository \<Rightarrow> core_failure + core_order list" where
  "Memory_Orders ctx tenantID m =
    list_own ctx (\<lambda>v. (rm_CreatedAt (co_Meta v), co_ID v)) (mr_orders m) (\<lambda>v. co_TenantID v = tenantID)"

definition Memory_KitchenTicket :: "context_error \<Rightarrow> string \<Rightarrow> string \<Rightarrow> memory_repository \<Rightarrow> core_failure + core_ticket" where
  "Memory_KitchenTicket ctx tenantID id' m = find_own ctx ''kitchen ticket'' (mr_tickets m) (\<lambda>v. ct_TenantID v = tenantID) id'"

definition Memory_KitchenTickets :: "context_error \<Rightarrow> string \<Rightarrow> memory_repository \<Rightarrow> core_failure + core_ticket list" where
  "Memory_KitchenTickets ctx tenantID m =
    list_own ctx (\<lambda>v. (rm_CreatedAt (ct_Meta v), ct_ID v)) (mr_tickets m) (\<lambda>v. ct_TenantID v = tenantID)"

definition Memory_AuditEvents :: "context_error \<Rightarrow> audit_filter \<Rightarrow> memory_repository \<Rightarrow> core_failure + audit_event list" where
  "Memory_AuditEvents ctx f m = (case ctx of Some e \<Rightarrow> Inl e | None \<Rightarrow> Inr (sort_key (\<lambda>v. (ae_RecordedAt v, ae_ID v))
    (filter (\<lambda>v. ae_TenantID v = af_TenantID f \<and> (af_OutletID f = [] \<or> ae_OutletID v = af_OutletID f)
       \<and> (af_EntityType f = [] \<or> ae_EntityType v = af_EntityType f)
       \<and> (af_EntityID f = [] \<or> ae_EntityID v = af_EntityID f)) (mr_audits m))))"

end
