(* ===== verification/Core_Sync.thy ===== *)
theory Core_Sync
  imports Core_Memory
begin

text \<open>
  The cloud side of the synchronization: \<open>services/core/internal/store/postgres_sync.go\<close> on the
  tables of \<open>services/core/migrations\<close>, and \<open>services/core/internal/api/sync.go\<close>. One
  transaction per operation: it runs to its commit or leaves the database as it was. PostgreSQL's
  reading of \<open>uuid\<close> and \<open>jsonb\<close> parameters, the JSON decoder, SHA-256 and the foreign keys on
  tenants and outlets are arguments; so is the projection of an operation into the operational
  tables, which the database keeps behind the type variable: the statements hold for every projection.
\<close>

subsection \<open>Tables\<close>

record sync_operation =
  so_TenantID :: string
  so_OperationID :: string
  so_EdgeID :: string
  so_OutletID :: string
  so_BatchID :: string
  so_AggregateType :: string
  so_AggregateID :: string
  so_AggregateVersion :: nat
  so_CommandType :: string
  so_RequestHash :: "8 word list"
  so_Mutation :: string
  so_RecordedAt :: time
  so_ReceivedAt :: time

datatype inbox_status = InboxReceived | InboxAccepted | InboxRejected | InboxConflict

record inbox_row =
  ib_tenant_id :: string
  ib_operation_id :: string
  ib_edge_id :: string
  ib_outlet_id :: string
  ib_batch_id :: string
  ib_aggregate_type :: string
  ib_aggregate_id :: string
  ib_aggregate_version :: nat
  ib_command_type :: string
  ib_request_hash :: "8 word list"
  ib_mutation :: string
  ib_status :: inbox_status
  ib_problem_code :: "string option"
  ib_received_at :: time

record domain_event =
  de_tenant_id :: string
  de_operation_id :: string
  de_outlet_id :: string
  de_aggregate_type :: string
  de_aggregate_id :: string
  de_aggregate_version :: nat
  de_command_type :: string
  de_mutation :: string
  de_occurred_at :: time
  de_recorded_at :: time

record checkpoint_row =
  ck_tenant_id :: string
  ck_edge_id :: string
  ck_outlet_id :: string
  ck_last_operation_id :: string
  ck_last_received_at :: time
  ck_last_accepted_at :: "time option"
  ck_backlog_count :: nat
  ck_degraded :: bool
  ck_last_problem_code :: string
  ck_version :: nat
  ck_updated_at :: time

record case_row =
  rc_id :: string
  rc_tenant_id :: string
  rc_outlet_id :: string
  rc_source_id :: string
  rc_category :: string
  rc_sync_status :: string
  rc_opened_at :: time

record 'p cloud =
  cl_inbox :: "inbox_row list"
  cl_events :: "domain_event list"
  cl_checkpoints :: "checkpoint_row list"
  cl_cases :: "case_row list"
  cl_operational :: 'p

text \<open>What the transaction takes from its surroundings.\<close>

record 'p cloud_env =
  ce_uuid :: "string \<Rightarrow> string option"
  ce_jsonb :: "string \<Rightarrow> bool"
  ce_payload_order :: "string \<Rightarrow> string"
  ce_occurred_at :: "string \<Rightarrow> time option"
  ce_sha256 :: "string \<Rightarrow> 8 word list"
  ce_outlet :: "'p \<Rightarrow> string \<Rightarrow> string \<Rightarrow> bool"
  ce_project :: "sync_operation \<Rightarrow> 'p \<Rightarrow> string + 'p"

datatype sync_outcome = SyncAccepted | SyncDuplicate | SyncRejected | SyncConflict

datatype sync_failure = MissingPredecessor | PostgresError string

subsection \<open>Checks and small parts\<close>

definition syncCommandProblem :: "sync_operation \<Rightarrow> string" where
  "syncCommandProblem op =
    (case map_of [(''order.create'', ''order''), (''order.transition'', ''order''),
       (''kitchenTicket.transition'', ''kitchenTicket''), (''kitchenTicket.transitionAll'', ''order'')] (so_CommandType op) of
       None \<Rightarrow> ''unsupported_command_type''
     | Some expected \<Rightarrow> if so_AggregateType op \<noteq> expected then ''command_aggregate_mismatch'' else [])"

definition mutationOccurredAt :: "'p cloud_env \<Rightarrow> sync_operation \<Rightarrow> time" where
  "mutationOccurredAt env op = (case ce_occurred_at env (so_Mutation op) of
     Some t \<Rightarrow> if IsZero t then so_ReceivedAt op else t | None \<Rightarrow> so_ReceivedAt op)"

definition operationRecordedAt :: "sync_operation \<Rightarrow> time" where
  "operationRecordedAt op = (if \<not> IsZero (so_RecordedAt op) then so_RecordedAt op else so_ReceivedAt op)"

definition inventoryEventUUID :: "(string \<Rightarrow> 8 word list) \<Rightarrow> string \<Rightarrow> string \<Rightarrow> string \<Rightarrow> string" where
  "inventoryEventUUID sha256 tenantID operationID ingredientID =
    (let sum = sha256 (tenantID @ ''|'' @ operationID @ ''|'' @ ingredientID);
         sum = sum[6 := or (and (sum ! 6) 0x0f) 0x40]; sum = sum[8 := or (and (sum ! 8) 0x3f) 0x80];
         part = (\<lambda>i j. hex_encode (take (j - i) (drop i sum)))
     in part 0 4 @ ''-'' @ part 4 6 @ ''-'' @ part 6 8 @ ''-'' @ part 8 10 @ ''-'' @ part 10 16)"

text \<open>The keys of the operation as the columns hold them.\<close>

definition op_tenant :: "'p cloud_env \<Rightarrow> sync_operation \<Rightarrow> string" where
  "op_tenant env op = the (ce_uuid env (so_TenantID op))"

definition op_key :: "'p cloud_env \<Rightarrow> sync_operation \<Rightarrow> string" where
  "op_key env op = the (ce_uuid env (so_OperationID op))"

definition op_outlet :: "'p cloud_env \<Rightarrow> sync_operation \<Rightarrow> string" where
  "op_outlet env op = the (ce_uuid env (so_OutletID op))"

definition op_aggregate :: "'p cloud_env \<Rightarrow> sync_operation \<Rightarrow> string" where
  "op_aggregate env op = the (ce_uuid env (so_AggregateID op))"

definition readable :: "'p cloud_env \<Rightarrow> sync_operation \<Rightarrow> bool" where
  "readable env op \<longleftrightarrow> ce_uuid env (so_TenantID op) \<noteq> None \<and> ce_uuid env (so_OperationID op) \<noteq> None
     \<and> ce_uuid env (so_OutletID op) \<noteq> None \<and> ce_uuid env (so_AggregateID op) \<noteq> None
     \<and> so_AggregateVersion op < 2 ^ 63 \<and> ce_jsonb env (so_Mutation op)"

definition inbox_hit :: "'p cloud_env \<Rightarrow> sync_operation \<Rightarrow> inbox_row \<Rightarrow> bool" where
  "inbox_hit env op r \<longleftrightarrow> ib_tenant_id r = op_tenant env op \<and> ib_operation_id r = op_key env op"

definition inbox_row_of :: "'p cloud_env \<Rightarrow> sync_operation \<Rightarrow> inbox_row" where
  "inbox_row_of env op = \<lparr>ib_tenant_id = op_tenant env op, ib_operation_id = op_key env op, ib_edge_id = so_EdgeID op,
     ib_outlet_id = op_outlet env op, ib_batch_id = so_BatchID op, ib_aggregate_type = so_AggregateType op,
     ib_aggregate_id = op_aggregate env op, ib_aggregate_version = so_AggregateVersion op,
     ib_command_type = so_CommandType op, ib_request_hash = so_RequestHash op, ib_mutation = so_Mutation op,
     ib_status = InboxReceived, ib_problem_code = None, ib_received_at = so_ReceivedAt op\<rparr>"

definition existingSyncOutcome :: "inbox_row \<Rightarrow> sync_operation \<Rightarrow> sync_failure + sync_outcome \<times> string" where
  "existingSyncOutcome r op =
    (if ib_request_hash r \<noteq> so_RequestHash op then Inr (SyncConflict, ''operation_id_reused'')
     else let problem = (case ib_problem_code r of Some p \<Rightarrow> p | None \<Rightarrow> []) in
       case ib_status r of
         InboxAccepted \<Rightarrow> Inr (SyncDuplicate, [])
       | InboxRejected \<Rightarrow> Inr (SyncRejected, problem)
       | InboxConflict \<Rightarrow> Inr (SyncConflict, problem)
       | InboxReceived \<Rightarrow> Inl (PostgresError ''postgres sync: operation is not terminal''))"

definition settle_inbox :: "'p cloud_env \<Rightarrow> sync_operation \<Rightarrow> inbox_status \<Rightarrow> string option \<Rightarrow> inbox_row list \<Rightarrow> inbox_row list" where
  "settle_inbox env op status problem rows =
    map (\<lambda>r. if inbox_hit env op r then r\<lparr>ib_status := status, ib_problem_code := problem\<rparr> else r) rows"

definition checkpoint_hit :: "'p cloud_env \<Rightarrow> sync_operation \<Rightarrow> checkpoint_row \<Rightarrow> bool" where
  "checkpoint_hit env op r \<longleftrightarrow> ck_tenant_id r = op_tenant env op \<and> ck_edge_id r = so_EdgeID op"

definition receive_checkpoint :: "'p cloud_env \<Rightarrow> sync_operation \<Rightarrow> checkpoint_row list \<Rightarrow> checkpoint_row list" where
  "receive_checkpoint env op rows =
    (if list_ex (checkpoint_hit env op) rows
     then map (\<lambda>r. if checkpoint_hit env op r then r\<lparr>ck_outlet_id := op_outlet env op, ck_last_operation_id := op_key env op,
         ck_last_received_at := so_ReceivedAt op, ck_version := ck_version r + 1, ck_updated_at := so_ReceivedAt op\<rparr> else r) rows
     else rows @ [\<lparr>ck_tenant_id = op_tenant env op, ck_edge_id = so_EdgeID op, ck_outlet_id = op_outlet env op,
       ck_last_operation_id = op_key env op, ck_last_received_at = so_ReceivedAt op, ck_last_accepted_at = None,
       ck_backlog_count = 0, ck_degraded = False, ck_last_problem_code = [], ck_version = 1, ck_updated_at = so_ReceivedAt op\<rparr>])"

definition backlog :: "'p cloud_env \<Rightarrow> sync_operation \<Rightarrow> inbox_row list \<Rightarrow> nat" where
  "backlog env op rows = length (filter (\<lambda>r. ib_tenant_id r = op_tenant env op \<and> ib_edge_id r = so_EdgeID op
     \<and> ib_status r = InboxReceived) rows)"

definition mark_checkpoint ::
  "'p cloud_env \<Rightarrow> sync_operation \<Rightarrow> (checkpoint_row \<Rightarrow> checkpoint_row) \<Rightarrow> 'p cloud \<Rightarrow> checkpoint_row list" where
  "mark_checkpoint env op f db = map (\<lambda>r. if checkpoint_hit env op r
     then (f r)\<lparr>ck_backlog_count := backlog env op (cl_inbox db), ck_version := ck_version r + 1, ck_updated_at := so_ReceivedAt op\<rparr>
     else r) (cl_checkpoints db)"

text \<open>A case is opened once per operation; a clash of its identifier with another case is an error.\<close>

definition recordSyncProblem ::
  "'p cloud_env \<Rightarrow> sync_operation \<Rightarrow> string \<Rightarrow> string \<Rightarrow> 'p cloud \<Rightarrow> sync_failure + 'p cloud" where
  "recordSyncProblem env op problemCode status db =
    (let caseID = inventoryEventUUID (ce_sha256 env) (so_TenantID op) (so_OperationID op) ''reconciliation'';
         same = (\<lambda>r. rc_tenant_id r = op_tenant env op \<and> rc_source_id r = so_OperationID op);
         row = \<lparr>rc_id = caseID, rc_tenant_id = op_tenant env op, rc_outlet_id = op_outlet env op, rc_source_id = so_OperationID op,
           rc_category = problemCode, rc_sync_status = status, rc_opened_at = so_ReceivedAt op\<rparr>
     in if \<not> list_ex same (cl_cases db) \<and> list_ex (\<lambda>r. rc_id r = caseID) (cl_cases db)
        then Inl (PostgresError ''postgres sync: open reconciliation case'')
        else let db = db\<lparr>cl_cases := (if list_ex same (cl_cases db) then cl_cases db else cl_cases db @ [row])\<rparr>
          in Inr (db\<lparr>cl_checkpoints :=
            mark_checkpoint env op (\<lambda>r. r\<lparr>ck_degraded := True, ck_last_problem_code := problemCode\<rparr>) db\<rparr>))"

subsection \<open>Causal versions\<close>

definition aggregate_versions :: "string \<Rightarrow> string \<Rightarrow> string \<Rightarrow> domain_event list \<Rightarrow> nat list" where
  "aggregate_versions tenant type_name aggregate events = map de_aggregate_version
    (filter (\<lambda>e. de_tenant_id e = tenant \<and> de_aggregate_type e = type_name \<and> de_aggregate_id e = aggregate) events)"

text \<open>The result \<open>None\<close> lets the operation pass.\<close>

definition validateCausalVersion :: "'p cloud_env \<Rightarrow> sync_operation \<Rightarrow> 'p cloud \<Rightarrow> sync_failure + string option" where
  "validateCausalVersion env op db =
    (let versions = aggregate_versions (op_tenant env op) (so_AggregateType op) (op_aggregate env op) (cl_events db) in
     if versions = [] then
       if so_CommandType op = ''order.create'' \<and> so_AggregateVersion op = 1 then Inr None
       else if so_CommandType op = ''kitchenTicket.transition'' \<and> so_AggregateVersion op = 2
         \<and> ce_payload_order env (so_Mutation op) \<noteq> [] then
         (case ce_uuid env (ce_payload_order env (so_Mutation op)) of
            None \<Rightarrow> Inl (PostgresError ''invalid uuid'')
          | Some orderID \<Rightarrow>
              if list_ex ((=) 1) (aggregate_versions (op_tenant env op) ''order'' orderID (cl_events db)) then Inr None
              else Inl MissingPredecessor)
       else Inl MissingPredecessor
     else let expected = Max (set versions) + 1 in
       if so_AggregateVersion op > expected then Inl MissingPredecessor
       else if so_AggregateVersion op < expected then Inr (Some ''aggregate_version_stale'')
       else Inr None)"

subsection \<open>The transaction\<close>

definition domain_event_of :: "'p cloud_env \<Rightarrow> sync_operation \<Rightarrow> domain_event" where
  "domain_event_of env op = \<lparr>de_tenant_id = op_tenant env op, de_operation_id = op_key env op, de_outlet_id = op_outlet env op,
     de_aggregate_type = so_AggregateType op, de_aggregate_id = op_aggregate env op,
     de_aggregate_version = so_AggregateVersion op, de_command_type = so_CommandType op, de_mutation = so_Mutation op,
     de_occurred_at = mutationOccurredAt env op, de_recorded_at = operationRecordedAt op\<rparr>"

definition refuse_operation ::
  "'p cloud_env \<Rightarrow> sync_operation \<Rightarrow> inbox_status \<Rightarrow> string \<Rightarrow> string \<Rightarrow> 'p cloud \<Rightarrow> sync_failure + 'p cloud" where
  "refuse_operation env op status problemCode word db =
    recordSyncProblem env op problemCode word
      (db\<lparr>cl_inbox := settle_inbox env op status (Some problemCode) (cl_inbox db)\<rparr>)"

definition accept_operation :: "'p cloud_env \<Rightarrow> sync_operation \<Rightarrow> 'p cloud \<Rightarrow> sync_failure + 'p cloud" where
  "accept_operation env op db =
    (if list_ex (\<lambda>e. de_tenant_id e = op_tenant env op \<and> de_operation_id e = op_key env op) (cl_events db)
     then Inl (PostgresError ''postgres sync: append domain event'')
     else case ce_project env op (cl_operational db) of
       Inl e \<Rightarrow> Inl (PostgresError e)
     | Inr operational \<Rightarrow>
        if length (filter (\<lambda>r. inbox_hit env op r \<and> ib_status r = InboxReceived) (cl_inbox db)) \<noteq> 1
        then Inl (PostgresError ''postgres sync: inbox acceptance did not update one row'')
        else let db = db\<lparr>cl_events := cl_events db @ [domain_event_of env op], cl_operational := operational,
              cl_inbox := settle_inbox env op InboxAccepted None (cl_inbox db)\<rparr>
        in Inr (db\<lparr>cl_checkpoints := mark_checkpoint env op (\<lambda>r. r\<lparr>ck_last_accepted_at := Some (so_ReceivedAt op),
             ck_degraded := False, ck_last_problem_code := []\<rparr>) db\<rparr>))"

definition apply_body ::
  "'p cloud_env \<Rightarrow> sync_operation \<Rightarrow> 'p cloud \<Rightarrow> sync_failure + (sync_outcome \<times> string) \<times> 'p cloud" where
  "apply_body env op db =
    (if \<not> readable env op then Inl (PostgresError ''postgres sync: insert inbox'')
     else case List.find (inbox_hit env op) (cl_inbox db) of
       Some r \<Rightarrow> rbind (existingSyncOutcome r op) (\<lambda>outcome. Inr (outcome, db))
     | None \<Rightarrow>
        if \<not> ce_outlet env (cl_operational db) (op_tenant env op) (op_outlet env op)
        then Inl (PostgresError ''postgres sync: insert inbox'')
        else let db = db\<lparr>cl_inbox := cl_inbox db @ [inbox_row_of env op],
                     cl_checkpoints := receive_checkpoint env op (cl_checkpoints db)\<rparr>;
                 problem = syncCommandProblem op
          in if problem \<noteq> [] then
               rbind (refuse_operation env op InboxRejected problem ''rejected'' db) (\<lambda>db. Inr ((SyncRejected, problem), db))
             else rbind (validateCausalVersion env op db) (\<lambda>causal.
               case causal of
                 Some stale \<Rightarrow> rbind (refuse_operation env op InboxConflict stale ''conflict'' db) (\<lambda>db. Inr ((SyncConflict, stale), db))
               | None \<Rightarrow> rbind (accept_operation env op db) (\<lambda>db. Inr ((SyncAccepted, []), db))))"

definition ApplySyncOperation ::
  "'p cloud_env \<Rightarrow> sync_operation \<Rightarrow> 'p cloud \<Rightarrow> (sync_failure + sync_outcome \<times> string) \<times> 'p cloud" where
  "ApplySyncOperation env op = transact (apply_body env op)"

end
