(* ===== verification/Tables.thy ===== *)
theory Tables
  imports Prelude
begin

text \<open>
  Tables with a primary key and unique columns whose rows hold an encoded value next to the
  columns copied from it. The stores only insert rows that do not clash with a present one and
  only update the columns that are not part of a row's identity; the locale shows that such a
  table is then a finite map from keys to values, and that the queries and updates of the
  stores are lookups and updates of this map.
\<close>

definition table_map :: "('r \<Rightarrow> 'k) \<Rightarrow> ('r \<Rightarrow> 'd) \<Rightarrow> 'r list \<Rightarrow> 'k \<Rightarrow> 'd option" where
  "table_map key data rows = map_of (map (\<lambda>r. (key r, data r)) rows)"

definition table_ok :: "('r \<Rightarrow> 'r \<Rightarrow> bool) \<Rightarrow> ('d \<Rightarrow> 'r) \<Rightarrow> ('r \<Rightarrow> 'd) \<Rightarrow> 'r list \<Rightarrow> bool" where
  "table_ok clash row_of data rows \<longleftrightarrow>
     sorted_wrt (\<lambda>a b. \<not> clash a b) rows \<and> (\<forall>r \<in> set rows. row_of (data r) = r)"

lemma table_map_Nil [simp]: "table_map key data [] = (\<lambda>_. None)"
  by (simp add: table_map_def)

lemma table_ok_Nil [simp]: "table_ok clash row_of data []"
  by (simp add: table_ok_def)

lemma find_cong_set: "(\<And>x. x \<in> set xs \<Longrightarrow> P x = Q x) \<Longrightarrow> List.find P xs = List.find Q xs"
  by (induction xs) auto

lemma sorted_wrt_map_cong:
  assumes "sorted_wrt R xs"
    and "\<And>x y. x \<in> set xs \<Longrightarrow> y \<in> set xs \<Longrightarrow> R x y \<Longrightarrow> R (f x) (f y)"
  shows "sorted_wrt R (map f xs)"
proof -
  have "sorted_wrt (\<lambda>x y. R (f x) (f y)) xs"
    using assms(2) by (rule sorted_wrt_mono_rel) (use assms(1) in simp_all)
  then show ?thesis by (simp add: sorted_wrt_map)
qed

text \<open>\<open>UPDATE ... SET ... WHERE ...\<close>\<close>

definition update_where :: "('r \<Rightarrow> bool) \<Rightarrow> ('r \<Rightarrow> 'r) \<Rightarrow> 'r list \<Rightarrow> 'r list" where
  "update_where P f rows = map (\<lambda>r. if P r then f r else r) rows"

lemma map_update_where [row_simps]: "(\<And>r. g (f r) = g r) \<Longrightarrow> map g (update_where P f rows) = map g rows"
  by (simp add: update_where_def comp_def if_distrib cong: if_cong)

lemma length_update_where [simp]: "length (update_where P f rows) = length rows"
  by (simp add: update_where_def)

lemma update_where_mem: "r \<in> set rows \<Longrightarrow> (if P r then f r else r) \<in> set (update_where P f rows)"
  unfolding update_where_def set_map by (rule imageI)

lemma update_where_ex: "\<exists>r \<in> set rows. Q r \<Longrightarrow> (\<And>r. Q r \<Longrightarrow> Q (f r)) \<Longrightarrow> \<exists>r \<in> set (update_where P f rows). Q r"
  using update_where_mem [of _ rows P f] by (metis (full_types))

lemma update_where_hit: "r \<in> set rows \<Longrightarrow> P r \<Longrightarrow> f r \<in> set (update_where P f rows)"
  using update_where_mem [of r rows P f] by simp

lemma update_where_all: "\<forall>r \<in> set rows. Q r \<Longrightarrow> (\<And>r. Q r \<Longrightarrow> Q (f r)) \<Longrightarrow> \<forall>r \<in> set (update_where P f rows). Q r"
  by (auto simp: update_where_def)

lemma in_update_where: "r \<in> set (update_where P f rows) \<longleftrightarrow> (\<exists>q \<in> set rows. r = (if P q then f q else q))"
  by (auto simp: update_where_def)

text \<open>Updating the values of some keys with one function.\<close>

definition map_on :: "'k set \<Rightarrow> ('d \<Rightarrow> 'd) \<Rightarrow> ('k \<Rightarrow> 'd option) \<Rightarrow> 'k \<Rightarrow> 'd option" where
  "map_on K f m = (\<lambda>k. if k \<in> K then map_option f (m k) else m k)"

lemma map_on_empty [simp]: "map_on {} f m = m"
  by (simp add: map_on_def)

lemma map_on_insert:
  "m k = Some d \<Longrightarrow> k \<notin> K \<Longrightarrow> map_on K f (m(k \<mapsto> f d)) = map_on (insert k K) f m"
  by (auto simp: map_on_def fun_eq_iff)

lemma map_on_insert_fixed: "m k = Some d \<Longrightarrow> f d = d \<Longrightarrow> map_on (insert k K) f m = map_on K f m"
  by (auto simp: map_on_def fun_eq_iff)

locale keyed_table =
  fixes key :: "'r \<Rightarrow> 'k"
    and data :: "'r \<Rightarrow> 'd"
    and row_of :: "'d \<Rightarrow> 'r"
    and clash :: "'r \<Rightarrow> 'r \<Rightarrow> bool"
    and ident :: "'d \<Rightarrow> 'i"
  assumes data_row [simp]: "data (row_of d) = d"
    and clash_sym: "clash a b \<Longrightarrow> clash b a"
    and key_clash: "key a = key b \<Longrightarrow> clash a b"
    and ident_clash: "ident d = ident d' \<Longrightarrow> clash (row_of d) r \<longleftrightarrow> clash (row_of d') r"
    and ident_key: "ident d = ident d' \<Longrightarrow> key (row_of d) = key (row_of d')"
begin

abbreviation ok where "ok \<equiv> table_ok clash row_of data"
abbreviation to_map where "to_map \<equiv> table_map key data"

lemma row_of_inj: "row_of d = row_of d' \<longleftrightarrow> d = d'"
  by (metis data_row)

lemma distinct_keys: "ok rows \<Longrightarrow> distinct (map key rows)"
  unfolding table_ok_def
  by (induction rows) (auto dest: key_clash)

lemma to_map_Some: "ok rows \<Longrightarrow> to_map rows k = Some d \<longleftrightarrow> row_of d \<in> set rows \<and> key (row_of d) = k"
proof -
  assume ok: "ok rows"
  have "distinct (map fst (map (\<lambda>r. (key r, data r)) rows))"
    using distinct_keys [OF ok] by (simp add: comp_def)
  then have "to_map rows k = Some d \<longleftrightarrow> (\<exists>r \<in> set rows. key r = k \<and> data r = d)"
    unfolding table_map_def by (subst map_of_eq_Some_iff) auto
  also have "\<dots> \<longleftrightarrow> row_of d \<in> set rows \<and> key (row_of d) = k"
  proof
    assume "\<exists>r \<in> set rows. key r = k \<and> data r = d"
    then obtain r where "r \<in> set rows" "key r = k" "data r = d" by blast
    moreover from ok \<open>r \<in> set rows\<close> have "row_of (data r) = r" by (simp add: table_ok_def)
    ultimately show "row_of d \<in> set rows \<and> key (row_of d) = k" by simp
  next
    assume "row_of d \<in> set rows \<and> key (row_of d) = k"
    then show "\<exists>r \<in> set rows. key r = k \<and> data r = d" by (metis data_row)
  qed
  finally show ?thesis .
qed

lemma ran_to_map: "ok rows \<Longrightarrow> d \<in> ran (to_map rows) \<longleftrightarrow> row_of d \<in> set rows"
  by (auto simp: ran_def to_map_Some)

lemma to_map_None: "to_map rows k = None \<longleftrightarrow> (\<forall>r \<in> set rows. key r \<noteq> k)"
  unfolding table_map_def map_of_eq_None_iff by (simp add: image_image) (metis imageE image_eqI)

lemma rows_are_values: "ok rows \<Longrightarrow> r \<in> set rows \<Longrightarrow> to_map rows (key r) = Some (data r)"
proof -
  assume ok: "ok rows" and r: "r \<in> set rows"
  then have "row_of (data r) = r" by (simp add: table_ok_def)
  with r show ?thesis by (simp add: to_map_Some [OF ok])
qed

lemma list_ex_key: "list_ex (\<lambda>r. key r = k) rows \<longleftrightarrow> to_map rows k \<noteq> None"
  by (auto simp: list_ex_iff to_map_None)

lemma filter_key: "ok rows \<Longrightarrow> to_map rows k = Some d \<Longrightarrow> filter (\<lambda>r. key r = k) rows = [row_of d]"
proof (induction rows)
  case (Cons r rows)
  from Cons.prems have ok: "ok rows" and none: "\<forall>r' \<in> set rows. \<not> clash r r'"
    by (auto simp: table_ok_def)
  show ?case
  proof (cases "key r = k")
    case True
    with none have "filter (\<lambda>r. key r = k) rows = []"
      by (metis (mono_tags, lifting) filter_False key_clash)
    moreover from Cons.prems True have "row_of d = r"
      using rows_are_values [OF Cons.prems(1), of r] by (auto simp: table_ok_def)
    ultimately show ?thesis using True by simp
  next
    case False
    with Cons.prems have "to_map rows k = Some d" by (simp add: table_map_def)
    with Cons.IH [OF ok] False show ?thesis by simp
  qed
qed simp

lemma find_key:
  assumes ok: "ok rows"
  shows "List.find (\<lambda>r. P r \<and> key r = k) rows =
    (case to_map rows k of None \<Rightarrow> None | Some d \<Rightarrow> if P (row_of d) then Some (row_of d) else None)"
proof (cases "to_map rows k")
  case None
  then have "List.find (\<lambda>r. P r \<and> key r = k) rows = None"
    by (auto simp: find_None_iff to_map_None)
  with None show ?thesis by simp
next
  case (Some d)
  have "List.find (\<lambda>r. P r \<and> key r = k) rows = List.find P (filter (\<lambda>r. key r = k) rows)"
    by (induction rows) auto
  then show ?thesis by (simp add: filter_key [OF ok Some] Some)
qed

lemma insert_row:
  assumes "ok rows" "\<not> list_ex (clash (row_of d)) rows"
  shows "ok (rows @ [row_of d])"
    and "to_map (rows @ [row_of d]) = (to_map rows)(key (row_of d) \<mapsto> d)"
proof -
  show "ok (rows @ [row_of d])"
    using assms by (auto simp: table_ok_def sorted_wrt_append list_ex_iff dest: clash_sym)
  from assms(2) have "to_map rows (key (row_of d)) = None"
    unfolding to_map_None list_ex_iff by (metis key_clash)
  then show "to_map (rows @ [row_of d]) = (to_map rows)(key (row_of d) \<mapsto> d)"
    by (auto simp: table_map_def fun_eq_iff map_add_def split: option.splits)
qed

text \<open>
  An update of the row with the value's key, where the columns set turn the old row into
  the row of the new value.
\<close>

lemma update_row:
  assumes ok: "ok rows" and old: "to_map rows (key (row_of d)) = Some d0" and ident: "ident d0 = ident d"
    and hit: "\<And>r. r \<in> set rows \<Longrightarrow> hit r \<longleftrightarrow> key r = key (row_of d)"
    and put: "put (row_of d0) = row_of d"
  defines "rows' \<equiv> map (\<lambda>r. if hit r then put r else r) rows"
  shows "length (filter hit rows) = 1" and "ok rows'"
    and "to_map rows' = (to_map rows)(key (row_of d) \<mapsto> d)"
proof -
  note keys = ident_key [OF ident]
  have "filter hit rows = filter (\<lambda>r. key r = key (row_of d)) rows"
    by (rule filter_cong) (simp_all add: hit)
  with filter_key [OF ok old] show "length (filter hit rows) = 1" by simp
  have only: "r = row_of d0" if "r \<in> set rows" "hit r" for r
  proof -
    from that hit have "r \<in> set (filter (\<lambda>r. key r = key (row_of d)) rows)" by simp
    then show ?thesis unfolding filter_key [OF ok old] by simp
  qed
  have eq: "rows' = map (\<lambda>r. if r = row_of d0 then row_of d else r) rows"
    unfolding rows'_def
  proof (rule map_cong [OF refl])
    fix r assume r: "r \<in> set rows"
    show "(if hit r then put r else r) = (if r = row_of d0 then row_of d else r)"
      using only [OF r] hit [OF r] put keys by metis
  qed
  have clash: "clash (row_of d) r \<longleftrightarrow> clash (row_of d0) r" for r
    using ident_clash [OF ident] by simp
  then have clash': "clash r (row_of d) \<longleftrightarrow> clash r (row_of d0)" for r
    using clash_sym by metis
  have "sorted_wrt (\<lambda>a b. \<not> clash a b) rows'"
    unfolding eq
  proof (rule sorted_wrt_map_cong)
    show "sorted_wrt (\<lambda>a b. \<not> clash a b) rows" using ok by (simp add: table_ok_def)
  qed (auto simp: clash clash' split: if_splits)
  moreover have "\<forall>r \<in> set rows'. row_of (data r) = r"
  proof
    fix r assume "r \<in> set rows'"
    then have "r = row_of d \<or> r \<in> set rows" unfolding eq by (auto split: if_splits)
    with ok show "row_of (data r) = r" by (auto simp: table_ok_def)
  qed
  ultimately show ok': "ok rows'" by (simp add: table_ok_def)
  have d0: "row_of d0 \<in> set rows" using old by (simp add: to_map_Some [OF ok])
  have mem: "r \<in> set rows' \<longleftrightarrow> r = row_of d \<or> r \<in> set rows \<and> r \<noteq> row_of d0" for r
    using d0 unfolding eq by (auto split: if_splits simp: row_of_inj)
  show "to_map rows' = (to_map rows)(key (row_of d) \<mapsto> d)"
  proof
    fix k
    show "to_map rows' k = ((to_map rows)(key (row_of d) \<mapsto> d)) k"
    proof (cases "k = key (row_of d)")
      case True
      then show ?thesis by (simp add: to_map_Some [OF ok'] mem)
    next
      case False
      have "to_map rows' k = Some e \<longleftrightarrow> to_map rows k = Some e" for e
        unfolding to_map_Some [OF ok'] to_map_Some [OF ok] mem using False keys by metis
      then have "to_map rows' k = to_map rows k" by (metis option.exhaust)
      with False show ?thesis by simp
    qed
  qed
qed

end

end
