(* ===== verification/Core_Commerce.thy ===== *)
theory Core_Commerce
  imports Core_Commerce_Types Core_Sync Tables
begin

text \<open>
  The commerce repository, \<open>services/core/internal/store/postgres_commerce.go\<close>, on the tables of
  \<open>services/core/migrations/000011_native_commerce.up.sql\<close>: menu availability, dining tables and
  sessions, cash shifts, tenders with their refunds, fiscal receipts and settlements. Every operation is
  one transaction that runs to its commit or leaves the database as it was; row locks make the
  transactions on one row a sequence. A statement checks its \<open>CHECK\<close> constraints, then uniqueness,
  then foreign keys. Identifiers are taken as the \<open>uuid\<close> columns hold them.
\<close>

subsection \<open>Tables\<close>

text \<open>Of the orders the columns that the statements read.\<close>

record billed_order =
  bo_id :: string
  bo_tenant_id :: string
  bo_outlet_id :: string
  bo_subtotal_minor :: int
  bo_discount_total_minor :: int
  bo_tax_total_minor :: int
  bo_service_charge_minor :: int
  bo_total_minor :: int
  bo_currency :: string

record item_row =
  mi_id :: string
  mi_tenant_id :: string
  mi_outlet_id :: string
  mi_name :: string
  mi_updated_at :: time

record availability_row =
  av_tenant_id :: string
  av_outlet_id :: string
  av_menu_item_id :: string
  av_available :: bool
  av_reason :: string
  av_version :: nat
  av_updated_at :: time

record availability_event =
  vl_id :: string
  vl_tenant_id :: string
  vl_outlet_id :: string
  vl_menu_item_id :: string
  vl_available :: bool
  vl_reason :: string
  vl_actor_id :: string
  vl_occurred_at :: time
  vl_operation_id :: string

record cash_event =
  ca_id :: string
  ca_tenant_id :: string
  ca_cash_shift_id :: string
  ca_event_type :: string
  ca_amount_minor :: int
  ca_reason :: string
  ca_occurred_at :: time
  ca_actor_id :: string
  ca_operation_id :: string

text \<open>A tender with the columns the domain type leaves out, a receipt likewise.\<close>

record tender_row =
  tr_tender :: tender
  tr_actor_id :: string
  tr_operation_id :: string

record receipt_row =
  rr_receipt :: fiscal_receipt
  rr_tenant_id :: string
  rr_outlet_id :: string
  rr_actor_id :: string
  rr_operation_id :: string

record settlement_row =
  st_settlement :: tender_settlement
  st_tenant_id :: string
  st_outlet_id :: string

record commerce_db =
  cm_outlets :: "(string \<times> string) list"
  cm_items :: "item_row list"
  cm_orders :: "billed_order list"
  cm_availability :: "availability_row list"
  cm_availability_events :: "availability_event list"
  cm_tables :: "dining_table list"
  cm_sessions :: "dining_session list"
  cm_shifts :: "cash_shift list"
  cm_cash_events :: "cash_event list"
  cm_tenders :: "tender_row list"
  cm_receipts :: "receipt_row list"
  cm_settlements :: "settlement_row list"
  cm_audits :: "audit_event list"

subsection \<open>Statements\<close>

text \<open>An error that wraps no sentinel.\<close>

definition unmapped :: "string \<Rightarrow> core_failure" where
  "unmapped message = Failed ContextError message"

definition in_int32 :: "int \<Rightarrow> bool" where
  "in_int32 n \<longleftrightarrow> - (2 ^ 31) \<le> n \<and> n < 2 ^ 31"

text \<open>\<open>withTenant\<close>: beginning or committing may fail with an error of the connection.\<close>

definition with_tenant ::
  "core_failure option \<Rightarrow> (commerce_db \<Rightarrow> core_failure + 'a \<times> commerce_db) \<Rightarrow> commerce_db \<Rightarrow> (core_failure + 'a) \<times> commerce_db" where
  "with_tenant ctx body = transact (\<lambda>s. case ctx of Some e \<Rightarrow> Inl e | None \<Rightarrow> body s)"

definition constrained :: "core_failure option list \<Rightarrow> commerce_db \<Rightarrow> core_failure + commerce_db" where
  "constrained checks s = guarded checks s"

definition insertAudit :: "string \<Rightarrow> audit_event \<Rightarrow> commerce_db \<Rightarrow> core_failure + commerce_db" where
  "insertAudit tenant a s = constrained
    [fails_if (ae_TenantID a \<noteq> tenant) (unmapped ''row-level security''),
     fails_if (list_ex (\<lambda>b. ae_ID b = ae_ID a \<or> ae_TenantID b = ae_TenantID a \<and> ae_OperationID b = ae_OperationID a) (cm_audits s))
       (Failed Conflict ''audit_events'')]
    (s\<lparr>cm_audits := cm_audits s @ [a]\<rparr>)"

text \<open>Every operation ends with its audit event.\<close>

definition audited :: "string \<Rightarrow> audit_event \<Rightarrow> 'a \<Rightarrow> commerce_db \<Rightarrow> core_failure + 'a \<times> commerce_db" where
  "audited tenant a v s = rbind (insertAudit tenant a s) (\<lambda>s. Inr (v, s))"

definition at_row :: "string \<Rightarrow> string \<Rightarrow> string \<Rightarrow> ('r \<Rightarrow> string) \<Rightarrow> ('r \<Rightarrow> string) \<Rightarrow> ('r \<Rightarrow> string) \<Rightarrow> 'r \<Rightarrow> bool" where
  "at_row tenant outlet id' tenant_of outlet_of id_of r \<longleftrightarrow> tenant_of r = tenant \<and> outlet_of r = outlet \<and> id_of r = id'"

abbreviation table_at :: "string \<Rightarrow> string \<Rightarrow> string \<Rightarrow> dining_table \<Rightarrow> bool" where
  "table_at tenant outlet id' \<equiv> at_row tenant outlet id' dt_TenantID dt_OutletID dt_ID"

abbreviation session_at :: "string \<Rightarrow> string \<Rightarrow> string \<Rightarrow> dining_session \<Rightarrow> bool" where
  "session_at tenant outlet id' \<equiv> at_row tenant outlet id' ds_TenantID ds_OutletID ds_ID"

abbreviation shift_at :: "string \<Rightarrow> string \<Rightarrow> string \<Rightarrow> cash_shift \<Rightarrow> bool" where
  "shift_at tenant outlet id' \<equiv> at_row tenant outlet id' cs_TenantID cs_OutletID cs_ID"

abbreviation order_at :: "string \<Rightarrow> string \<Rightarrow> string \<Rightarrow> billed_order \<Rightarrow> bool" where
  "order_at tenant outlet id' \<equiv> at_row tenant outlet id' bo_tenant_id bo_outlet_id bo_id"

definition captured_at :: "string \<Rightarrow> string \<Rightarrow> string \<Rightarrow> tender_row \<Rightarrow> bool" where
  "captured_at tenant outlet id' r \<longleftrightarrow> (let v = tr_tender r in
     td_TenantID v = tenant \<and> td_OutletID v = outlet \<and> td_ID v = id' \<and> td_Status v = ''captured'')"

text \<open>\<open>QueryRow\<close> of a row by its key.\<close>

definition query_row :: "('r \<Rightarrow> bool) \<Rightarrow> 'r list \<Rightarrow> core_failure + 'r" where
  "query_row P rows = (case List.find P rows of None \<Rightarrow> Inl (Failed NotFound ''no rows in result set'') | Some r \<Rightarrow> Inr r)"

subsection \<open>Menu availability\<close>

definition SetMenuAvailability ::
  "core_failure option \<Rightarrow> string \<Rightarrow> string \<Rightarrow> menu_availability \<Rightarrow> audit_event \<Rightarrow> commerce_db
    \<Rightarrow> (core_failure + menu_availability) \<times> commerce_db" where
  "SetMenuAvailability ctx tenant outlet v a = with_tenant ctx (\<lambda>s.
    let hit = (\<lambda>r. av_tenant_id r = tenant \<and> av_outlet_id r = outlet \<and> av_menu_item_id r = ma_MenuItemID v);
        rows = (if list_ex hit (cm_availability s)
          then update_where hit (\<lambda>r. r\<lparr>av_available := ma_Available v, av_reason := ma_Reason v,
            av_version := av_version r + 1, av_updated_at := ae_RecordedAt a\<rparr>) (cm_availability s)
          else cm_availability s @ [\<lparr>av_tenant_id = tenant, av_outlet_id = outlet, av_menu_item_id = ma_MenuItemID v,
            av_available = ma_Available v, av_reason = ma_Reason v, av_version = 1, av_updated_at = ae_RecordedAt a\<rparr>])
    in rbind (constrained
         [fails_if ((tenant, outlet) \<notin> set (cm_outlets s)
            \<or> \<not> list_ex (\<lambda>i. mi_tenant_id i = tenant \<and> mi_id i = ma_MenuItemID v) (cm_items s)) (Failed InvalidReference ''menu_item_availability'')]
         (s\<lparr>cm_availability := rows\<rparr>)) (\<lambda>s.
       rbind (query_row hit (cm_availability s)) (\<lambda>r.
       rbind (constrained
         [fails_if (list_ex (\<lambda>e. vl_id e = ae_ID a \<or> vl_tenant_id e = tenant \<and> vl_operation_id e = ae_OperationID a)
            (cm_availability_events s)) (Failed Conflict ''menu_availability_events'')]
         (s\<lparr>cm_availability_events := cm_availability_events s @ [\<lparr>vl_id = ae_ID a, vl_tenant_id = tenant, vl_outlet_id = outlet,
            vl_menu_item_id = ma_MenuItemID v, vl_available = ma_Available v, vl_reason = ma_Reason v, vl_actor_id = ae_ActorID a,
            vl_occurred_at = ae_RecordedAt a, vl_operation_id = ae_OperationID a\<rparr>]\<rparr>)) (\<lambda>s.
       audited tenant a (v\<lparr>ma_UpdatedAt := ae_RecordedAt a, ma_Version := av_version r\<rparr>) s))))"

text \<open>\<open>collate\<close> is the sort key of the database's collation.\<close>

definition MenuAvailability :: "(string \<Rightarrow> string) \<Rightarrow> string \<Rightarrow> string \<Rightarrow> commerce_db \<Rightarrow> menu_availability list" where
  "MenuAvailability collate tenant outlet s = map (\<lambda>m.
      case List.find (\<lambda>r. av_tenant_id r = mi_tenant_id m \<and> av_outlet_id r = mi_outlet_id m \<and> av_menu_item_id r = mi_id m) (cm_availability s) of
        None \<Rightarrow> \<lparr>ma_MenuItemID = mi_id m, ma_MenuItemName = mi_name m, ma_Available = True, ma_Reason = [],
          ma_Version = 1, ma_UpdatedAt = mi_updated_at m\<rparr>
      | Some r \<Rightarrow> \<lparr>ma_MenuItemID = mi_id m, ma_MenuItemName = mi_name m, ma_Available = av_available r, ma_Reason = av_reason r,
          ma_Version = av_version r, ma_UpdatedAt = av_updated_at r\<rparr>)
    (sort_key (\<lambda>m. collate (mi_name m)) (filter (\<lambda>m. mi_tenant_id m = tenant \<and> mi_outlet_id m = outlet) (cm_items s)))"

subsection \<open>Dining tables and sessions\<close>

definition CreateDiningTable ::
  "core_failure option \<Rightarrow> dining_table \<Rightarrow> audit_event \<Rightarrow> commerce_db \<Rightarrow> (core_failure + unit) \<times> commerce_db" where
  "CreateDiningTable ctx v a = with_tenant ctx (\<lambda>s.
    rbind (constrained
      [fails_if (\<not> in_int32 (dt_Capacity v)) (unmapped ''capacity''),
       fails_if (dt_Capacity v \<le> 0) (Failed InvalidReference ''dining_tables_capacity_check''),
       fails_if (list_ex (\<lambda>r. dt_ID r = dt_ID v \<or> dt_TenantID r = dt_TenantID v \<and> dt_OutletID r = dt_OutletID v \<and> dt_Label r = dt_Label v)
         (cm_tables s)) (Failed Conflict ''dining_tables''),
       fails_if ((dt_TenantID v, dt_OutletID v) \<notin> set (cm_outlets s)) (Failed InvalidReference ''dining_tables'')]
      (s\<lparr>cm_tables := cm_tables s @ [v\<lparr>dt_Status := ''available'', dt_Version := 1, dt_UpdatedAt := dt_CreatedAt v\<rparr>]\<rparr>)) (\<lambda>s.
    audited (dt_TenantID v) a () s))"

definition DiningTables :: "(string \<Rightarrow> string) \<Rightarrow> string \<Rightarrow> string \<Rightarrow> commerce_db \<Rightarrow> dining_table list" where
  "DiningTables collate tenant outlet s = sort_key (\<lambda>r. (collate (dt_Section r), collate (dt_Label r)))
     (filter (\<lambda>r. dt_TenantID r = tenant \<and> dt_OutletID r = outlet) (cm_tables s))"

definition table_move :: "string \<Rightarrow> string \<Rightarrow> bool" where
  "table_move from to' \<longleftrightarrow> from = ''cleaning'' \<and> to' = ''available'' \<or> from = ''available'' \<and> to' = ''disabled''
     \<or> from = ''disabled'' \<and> to' = ''available''"

definition TransitionDiningTable ::
  "core_failure option \<Rightarrow> string \<Rightarrow> string \<Rightarrow> string \<Rightarrow> string \<Rightarrow> nat \<Rightarrow> audit_event \<Rightarrow> commerce_db
    \<Rightarrow> (core_failure + dining_table) \<times> commerce_db" where
  "TransitionDiningTable ctx tenant outlet id' status expected a = with_tenant ctx (\<lambda>s.
    rbind (query_row (table_at tenant outlet id') (cm_tables s)) (\<lambda>v.
    if dt_Version v \<noteq> expected then Inl (Failed VersionConflict [])
    else if \<not> table_move (dt_Status v) status then Inl (Failed InvalidTransition [])
    else audited tenant a (v\<lparr>dt_Status := status, dt_Version := dt_Version v + 1, dt_UpdatedAt := ae_RecordedAt a\<rparr>)
      (s\<lparr>cm_tables := update_where (table_at tenant outlet id')
        (\<lambda>r. r\<lparr>dt_Status := status, dt_Version := dt_Version r + 1, dt_UpdatedAt := ae_RecordedAt a\<rparr>) (cm_tables s)\<rparr>)))"

definition OpenDiningSession ::
  "core_failure option \<Rightarrow> dining_session \<Rightarrow> audit_event \<Rightarrow> commerce_db \<Rightarrow> (core_failure + dining_session) \<times> commerce_db" where
  "OpenDiningSession ctx v a = with_tenant ctx (\<lambda>s.
    let hit = (\<lambda>r. table_at (ds_TenantID v) (ds_OutletID v) (ds_TableID v) r \<and> dt_Status r = ''available'') in
    if length (filter hit (cm_tables s)) \<noteq> 1 then Inl (Failed InvalidTransition [])
    else rbind (constrained
      [fails_if (\<not> in_int32 (ds_GuestCount v)) (unmapped ''guest_count''),
       fails_if (ds_GuestCount v \<le> 0) (Failed InvalidReference ''dining_sessions_guest_count_check''),
       fails_if (list_ex (\<lambda>r. ds_ID r = ds_ID v) (cm_sessions s)
         \<or> list_ex (\<lambda>r. ds_TenantID r = ds_TenantID v \<and> ds_TableID r = ds_TableID v \<and> ds_Status r = ''open'') (cm_sessions s))
         (Failed Conflict ''dining_sessions'')]
      (s\<lparr>cm_tables := update_where hit (\<lambda>r. r\<lparr>dt_Status := ''occupied'', dt_Version := dt_Version r + 1,
           dt_UpdatedAt := ae_RecordedAt a\<rparr>) (cm_tables s),
         cm_sessions := cm_sessions s @ [v\<lparr>ds_TableLabel := [], ds_Status := ''open'', ds_ClosedAt := None, ds_Version := 1\<rparr>]\<rparr>)) (\<lambda>s.
    audited (ds_TenantID v) a v s))"

text \<open>The label comes from the table the session joins.\<close>

definition labelled :: "commerce_db \<Rightarrow> dining_session \<Rightarrow> dining_session option" where
  "labelled s v = map_option (\<lambda>d. v\<lparr>ds_TableLabel := dt_Label d\<rparr>)
     (List.find (\<lambda>d. dt_TenantID d = ds_TenantID v \<and> dt_ID d = ds_TableID v) (cm_tables s))"

definition DiningSessions :: "string \<Rightarrow> string \<Rightarrow> commerce_db \<Rightarrow> dining_session list" where
  "DiningSessions tenant outlet s = take 100 (sort_key (\<lambda>v. (if ds_Status v = ''open'' then 0 else 1 :: nat, - ds_OpenedAt v))
     (List.map_filter (labelled s) (filter (\<lambda>v. ds_TenantID v = tenant \<and> ds_OutletID v = outlet) (cm_sessions s))))"

definition CloseDiningSession ::
  "core_failure option \<Rightarrow> string \<Rightarrow> string \<Rightarrow> string \<Rightarrow> nat \<Rightarrow> audit_event \<Rightarrow> commerce_db
    \<Rightarrow> (core_failure + dining_session) \<times> commerce_db" where
  "CloseDiningSession ctx tenant outlet id' expected a = with_tenant ctx (\<lambda>s.
    rbind (query_row (session_at tenant outlet id') (List.map_filter (labelled s) (cm_sessions s))) (\<lambda>v.
    if ds_Version v \<noteq> expected then Inl (Failed VersionConflict [])
    else if ds_Status v \<noteq> ''open'' then Inl (Failed InvalidTransition [])
    else audited tenant a (v\<lparr>ds_Status := ''closed'', ds_Version := ds_Version v + 1, ds_ClosedAt := Some (ae_RecordedAt a)\<rparr>)
      (s\<lparr>cm_sessions := update_where (session_at tenant outlet id')
           (\<lambda>r. r\<lparr>ds_Status := ''closed'', ds_ClosedAt := Some (ae_RecordedAt a), ds_Version := ds_Version r + 1\<rparr>) (cm_sessions s),
         cm_tables := update_where (\<lambda>r. dt_TenantID r = tenant \<and> dt_ID r = ds_TableID v)
           (\<lambda>r. r\<lparr>dt_Status := ''cleaning'', dt_Version := dt_Version r + 1, dt_UpdatedAt := ae_RecordedAt a\<rparr>) (cm_tables s)\<rparr>)))"

subsection \<open>Cash shifts\<close>

definition cash_event_checks :: "cash_event \<Rightarrow> commerce_db \<Rightarrow> core_failure option list" where
  "cash_event_checks e s =
    [fails_if (list_ex (\<lambda>r. ca_id r = ca_id e \<or> ca_tenant_id r = ca_tenant_id e \<and> ca_operation_id r = ca_operation_id e) (cm_cash_events s))
       (Failed Conflict ''cash_events''),
     fails_if (\<not> list_ex (\<lambda>r. cs_TenantID r = ca_tenant_id e \<and> cs_ID r = ca_cash_shift_id e) (cm_shifts s))
       (Failed InvalidReference ''cash_events'')]"

definition OpenCashShift ::
  "core_failure option \<Rightarrow> cash_shift \<Rightarrow> audit_event \<Rightarrow> commerce_db \<Rightarrow> (core_failure + unit) \<times> commerce_db" where
  "OpenCashShift ctx v a = with_tenant ctx (\<lambda>s.
    let float = \<lparr>ca_id = ae_ID a, ca_tenant_id = cs_TenantID v, ca_cash_shift_id = cs_ID v, ca_event_type = ''opening_float'',
      ca_amount_minor = cs_OpeningFloatMinor v, ca_reason = ''opening float'', ca_occurred_at = ae_RecordedAt a,
      ca_actor_id = ae_ActorID a, ca_operation_id = ae_OperationID a\<rparr>
    in rbind (constrained
      [fails_if (cs_OpeningFloatMinor v < 0) (Failed InvalidReference ''cash_shifts_opening_float_minor_check''),
       fails_if (list_ex (\<lambda>r. cs_ID r = cs_ID v \<or> cs_TenantID r = cs_TenantID v \<and> cs_OutletID r = cs_OutletID v
           \<and> cs_RegisterLabel r = cs_RegisterLabel v \<and> cs_Status r = ''open'') (cm_shifts s)) (Failed Conflict ''cash_shifts''),
       fails_if ((cs_TenantID v, cs_OutletID v) \<notin> set (cm_outlets s)) (Failed InvalidReference ''cash_shifts'')]
      (s\<lparr>cm_shifts := cm_shifts s @ [v\<lparr>cs_Status := ''open'', cs_ExpectedCashMinor := cs_OpeningFloatMinor v,
         cs_ClosingCountMinor := None, cs_VarianceMinor := None, cs_ClosedAt := None, cs_Version := 1\<rparr>]\<rparr>)) (\<lambda>s.
    rbind (constrained (cash_event_checks float s) (s\<lparr>cm_cash_events := cm_cash_events s @ [float]\<rparr>)) (\<lambda>s.
    audited (cs_TenantID v) a () s)))"

definition CashShifts :: "string \<Rightarrow> string \<Rightarrow> commerce_db \<Rightarrow> cash_shift list" where
  "CashShifts tenant outlet s = sort_key (\<lambda>r. - cs_OpenedAt r)
     (filter (\<lambda>r. cs_TenantID r = tenant \<and> cs_OutletID r = outlet) (cm_shifts s))"

definition CloseCashShift ::
  "core_failure option \<Rightarrow> string \<Rightarrow> string \<Rightarrow> string \<Rightarrow> nat \<Rightarrow> int \<Rightarrow> audit_event \<Rightarrow> commerce_db
    \<Rightarrow> (core_failure + cash_shift) \<times> commerce_db" where
  "CloseCashShift ctx tenant outlet id' expected count' a = with_tenant ctx (\<lambda>s.
    rbind (query_row (shift_at tenant outlet id') (cm_shifts s)) (\<lambda>v.
    if cs_Version v \<noteq> expected then Inl (Failed VersionConflict [])
    else let variance = wrap64 (count' - cs_ExpectedCashMinor v)
    in audited tenant a (v\<lparr>cs_Status := ''closed'', cs_Version := cs_Version v + 1, cs_ClosingCountMinor := Some count',
         cs_VarianceMinor := Some variance\<rparr>)
       (s\<lparr>cm_shifts := update_where (shift_at tenant outlet id') (\<lambda>r. r\<lparr>cs_Status := ''closed'', cs_ClosingCountMinor := Some count',
          cs_VarianceMinor := Some variance, cs_ClosedAt := Some (ae_RecordedAt a), cs_Version := cs_Version r + 1\<rparr>) (cm_shifts s)\<rparr>)))"

text \<open>Adding to the expected cash of an open shift; the column is a \<open>bigint\<close>.\<close>

definition add_expected_cash :: "string \<Rightarrow> string \<Rightarrow> string \<Rightarrow> int \<Rightarrow> commerce_db \<Rightarrow> core_failure + commerce_db" where
  "add_expected_cash tenant outlet id' amount s =
    (let hit = (\<lambda>r. shift_at tenant outlet id' r \<and> cs_Status r = ''open'') in
     if list_ex (\<lambda>r. hit r \<and> \<not> in_int64 (cs_ExpectedCashMinor r + amount)) (cm_shifts s) then Inl (unmapped ''bigint out of range'')
     else if length (filter hit (cm_shifts s)) \<noteq> 1 then Inl (Failed InvalidReference [])
     else Inr (s\<lparr>cm_shifts := update_where hit (\<lambda>r. r\<lparr>cs_ExpectedCashMinor := cs_ExpectedCashMinor r + amount\<rparr>) (cm_shifts s)\<rparr>))"

subsection \<open>Tenders\<close>

text \<open>A sum over a column is scanned into an \<open>int64\<close>.\<close>

definition scanned_sum :: "int list \<Rightarrow> core_failure + int" where
  "scanned_sum amounts = (let n = sum_list amounts in if in_int64 n then Inr n else Inl (unmapped ''sum out of range''))"

definition signed_amount :: "tender \<Rightarrow> int" where
  "signed_amount v = (if td_Status v = ''captured'' then td_AmountMinor v else - td_AmountMinor v)"

definition tenders_of_order :: "string \<Rightarrow> string \<Rightarrow> commerce_db \<Rightarrow> tender list" where
  "tenders_of_order tenant orderID s =
    filter (\<lambda>v. td_TenantID v = tenant \<and> td_OrderID v = orderID) (map tr_tender (cm_tenders s))"

definition tender_types :: "string list" where
  "tender_types = [''cash'', ''upi'', ''card_terminal'', ''external'']"

definition insert_tender :: "tender \<Rightarrow> audit_event \<Rightarrow> commerce_db \<Rightarrow> core_failure + commerce_db" where
  "insert_tender v a s = constrained
    [fails_if (td_ID v = []) (unmapped ''invalid input syntax for type uuid''),
     fails_if (td_TenderType v \<notin> set tender_types) (Failed InvalidReference ''tenders_tender_type_check''),
     fails_if (td_AmountMinor v \<le> 0) (Failed InvalidReference ''tenders_amount_minor_check''),
     fails_if (list_ex (\<lambda>r. td_ID (tr_tender r) = td_ID v \<or> td_TenantID (tr_tender r) = td_TenantID v
         \<and> tr_operation_id r = ae_OperationID a) (cm_tenders s)) (Failed Conflict ''tenders''),
     fails_if (\<not> list_ex (order_at (td_TenantID v) (td_OutletID v) (td_OrderID v)) (cm_orders s)) (Failed InvalidReference ''tenders''),
     fails_if (td_CashShiftID v \<noteq> [] \<and> \<not> list_ex (\<lambda>r. cs_TenantID r = td_TenantID v \<and> cs_ID r = td_CashShiftID v) (cm_shifts s))
       (Failed InvalidReference ''tenders'')]
    (s\<lparr>cm_tenders := cm_tenders s @ [\<lparr>tr_tender = v, tr_actor_id = ae_ActorID a, tr_operation_id = ae_OperationID a\<rparr>]\<rparr>)"

definition insert_cash_event :: "cash_event \<Rightarrow> commerce_db \<Rightarrow> core_failure + commerce_db" where
  "insert_cash_event e s = constrained (cash_event_checks e s) (s\<lparr>cm_cash_events := cm_cash_events s @ [e]\<rparr>)"

text \<open>Only cash moves a shift: before the tender is inserted its expected amount, afterwards its log.\<close>

definition move_cash :: "tender \<Rightarrow> int \<Rightarrow> commerce_db \<Rightarrow> core_failure + commerce_db" where
  "move_cash v amount s = (if td_TenderType v = ''cash''
     then add_expected_cash (td_TenantID v) (td_OutletID v) (td_CashShiftID v) amount s else Inr s)"

definition log_cash ::
  "(string \<Rightarrow> 8 word list) \<Rightarrow> string \<Rightarrow> string \<Rightarrow> string \<Rightarrow> tender \<Rightarrow> int \<Rightarrow> audit_event \<Rightarrow> commerce_db \<Rightarrow> core_failure + commerce_db" where
  "log_cash sha256 part event_type reason v amount a s = (if td_TenderType v = ''cash''
     then insert_cash_event \<lparr>ca_id = inventoryEventUUID sha256 (td_TenantID v) (ae_OperationID a) part, ca_tenant_id = td_TenantID v,
       ca_cash_shift_id = td_CashShiftID v, ca_event_type = event_type, ca_amount_minor = amount, ca_reason = reason,
       ca_occurred_at = ae_RecordedAt a, ca_actor_id = ae_ActorID a, ca_operation_id = ae_OperationID a\<rparr> s
     else Inr s)"

text \<open>The receipt of a fully paid order: inserted unless the order has one, and returned in any case.\<close>

definition issue_receipt ::
  "tender \<Rightarrow> fiscal_receipt \<Rightarrow> billed_order \<Rightarrow> audit_event \<Rightarrow> commerce_db \<Rightarrow> core_failure + fiscal_receipt \<times> commerce_db" where
  "issue_receipt v receipt order a s =
    (let receipt = receipt\<lparr>fr_TotalMinor := bo_total_minor order, fr_SubtotalMinor := bo_subtotal_minor order,
       fr_DiscountMinor := bo_discount_total_minor order, fr_TaxMinor := bo_tax_total_minor order,
       fr_ServiceChargeMinor := bo_service_charge_minor order, fr_Currency := bo_currency order\<rparr>
     in if list_ex (\<lambda>r. rr_tenant_id r = td_TenantID v \<and> fr_OrderID (rr_receipt r) = td_OrderID v) (cm_receipts s)
     then Inr (receipt, s)
     else rbind (constrained
       [fails_if (list_ex (\<lambda>r. fr_ID (rr_receipt r) = fr_ID receipt \<or> rr_tenant_id r = td_TenantID v \<and> rr_outlet_id r = td_OutletID v
          \<and> fr_ReceiptNumber (rr_receipt r) = fr_ReceiptNumber receipt) (cm_receipts s)) (Failed Conflict ''fiscal_receipts'')]
       (s\<lparr>cm_receipts := cm_receipts s @ [\<lparr>rr_receipt = receipt\<lparr>fr_OrderID := td_OrderID v\<rparr>, rr_tenant_id = td_TenantID v,
          rr_outlet_id = td_OutletID v, rr_actor_id = ae_ActorID a, rr_operation_id = ae_OperationID a\<rparr>]\<rparr>)) (\<lambda>s. Inr (receipt, s)))"

text \<open>
  The first statement locks the order and reads, in the same command, what was paid on it. The rows it
  reads are those of the command's snapshot, taken before it waits for the lock: \<open>seen\<close> is that
  database and \<open>s\<close> the one the later statements work on. Alone the two are the same.
\<close>

definition capture_tender ::
  "(string \<Rightarrow> 8 word list) \<Rightarrow> tender \<Rightarrow> fiscal_receipt \<Rightarrow> audit_event \<Rightarrow> commerce_db \<Rightarrow> commerce_db
    \<Rightarrow> core_failure + (tender \<times> fiscal_receipt option) \<times> commerce_db" where
  "capture_tender sha256 v receipt a seen s =
    rbind (query_row (order_at (td_TenantID v) (td_OutletID v) (td_OrderID v)) (cm_orders seen)) (\<lambda>order.
    rbind (scanned_sum (map signed_amount (tenders_of_order (td_TenantID v) (td_OrderID v) seen))) (\<lambda>paid.
    if wrap64 (paid + td_AmountMinor v) > bo_total_minor order
    then Inl (Failed InvalidReference ''tender exceeds unpaid balance'')
    else rbind (move_cash v (td_AmountMinor v) s) (\<lambda>s.
    rbind (insert_tender (v\<lparr>td_Status := ''captured'', td_ReversesTenderID := []\<rparr>) a s) (\<lambda>s.
    rbind (log_cash sha256 ''cash'' ''cash_sale'' ''order tender'' v (td_AmountMinor v) a s) (\<lambda>s.
    rbind (if wrap64 (paid + td_AmountMinor v) \<ge> bo_total_minor order
      then rbind (issue_receipt v receipt order a s) (\<lambda>(r, s). Inr (Some r, s)) else Inr (None, s)) (\<lambda>(issued, s).
    audited (td_TenantID v) a (v, issued) s))))))"

definition CaptureTender ::
  "(string \<Rightarrow> 8 word list) \<Rightarrow> core_failure option \<Rightarrow> tender \<Rightarrow> fiscal_receipt \<Rightarrow> audit_event \<Rightarrow> commerce_db
    \<Rightarrow> (core_failure + tender \<times> fiscal_receipt option) \<times> commerce_db" where
  "CaptureTender sha256 ctx v receipt a = with_tenant ctx (\<lambda>s. capture_tender sha256 v receipt a s s)"

definition Tenders :: "string \<Rightarrow> string \<Rightarrow> commerce_db \<Rightarrow> tender list" where
  "Tenders tenant outlet s = take 200 (rev (sort_key (\<lambda>v. (td_OccurredAt v, td_ID v))
     (filter (\<lambda>v. td_TenantID v = tenant \<and> td_OutletID v = outlet) (map tr_tender (cm_tenders s)))))"

definition refunds_of :: "string \<Rightarrow> string \<Rightarrow> commerce_db \<Rightarrow> tender list" where
  "refunds_of tenant id' s = filter (\<lambda>v. td_TenantID v = tenant \<and> td_ReversesTenderID v = id') (map tr_tender (cm_tenders s))"

definition ReverseTender ::
  "(string \<Rightarrow> 8 word list) \<Rightarrow> core_failure option \<Rightarrow> tender \<Rightarrow> audit_event \<Rightarrow> commerce_db
    \<Rightarrow> (core_failure + tender) \<times> commerce_db" where
  "ReverseTender sha256 ctx v a = with_tenant ctx (\<lambda>s.
    rbind (query_row (captured_at (td_TenantID v) (td_OutletID v) (td_ReversesTenderID v)) (cm_tenders s)) (\<lambda>row.
    let original = tr_tender row in
    rbind (query_row (order_at (td_TenantID v) (td_OutletID v) (td_OrderID original)) (cm_orders s)) (\<lambda>order.
    rbind (scanned_sum (map td_AmountMinor (refunds_of (td_TenantID v) (td_ReversesTenderID v) s))) (\<lambda>reversed.
    if wrap64 (reversed + td_AmountMinor v) > td_AmountMinor original
    then Inl (Failed InvalidReference ''refund exceeds captured tender'')
    else let v = v\<lparr>td_OrderID := td_OrderID original, td_TenderType := td_TenderType original, td_Currency := td_Currency original,
        td_Status := ''reversed''\<rparr> in
    rbind (move_cash v (- td_AmountMinor v) s) (\<lambda>s.
    rbind (insert_tender v a s) (\<lambda>s.
    rbind (log_cash sha256 ''cash-refund'' ''cash_refund'' ''tender reversal'' v (- td_AmountMinor v) a s) (\<lambda>s.
    audited (td_TenantID v) a v s)))))))"

subsection \<open>Settlements\<close>

text \<open>\<open>business_date\<close> is the date of an instant in the time zone of the session.\<close>

definition settlement_of :: "(string \<Rightarrow> 8 word list) \<Rightarrow> string \<Rightarrow> string \<Rightarrow> audit_event \<Rightarrow> string \<Rightarrow> tender list \<Rightarrow> core_failure + tender_settlement" where
  "settlement_of sha256 tenant date a tender_type tenders =
    rbind (scanned_sum (map td_AmountMinor (filter (\<lambda>v. td_Status v = ''captured'') tenders))) (\<lambda>gross.
    rbind (scanned_sum (map td_AmountMinor (filter (\<lambda>v. td_Status v = ''reversed'') tenders))) (\<lambda>reversed.
      Inr \<lparr>ts_ID = inventoryEventUUID sha256 tenant (ae_OperationID a) tender_type, ts_BusinessDate = date, ts_TenderType = tender_type,
        ts_GrossMinor = gross, ts_ReversedMinor = reversed, ts_NetMinor = wrap64 (gross - reversed),
        ts_TransactionCount = length tenders, ts_GeneratedAt = ae_RecordedAt a\<rparr>))"

fun settlements_of :: "(string \<Rightarrow> tender list \<Rightarrow> core_failure + tender_settlement) \<Rightarrow> tender list \<Rightarrow> string list \<Rightarrow> core_failure + tender_settlement list" where
  "settlements_of settle tenders [] = Inr []"
| "settlements_of settle tenders (type_name # types) =
    rbind (settle type_name (filter (\<lambda>v. td_TenderType v = type_name) tenders)) (\<lambda>v.
    rbind (settlements_of settle tenders types) (\<lambda>vs. Inr (v # vs)))"

definition store_settlement :: "string \<Rightarrow> string \<Rightarrow> tender_settlement \<Rightarrow> commerce_db \<Rightarrow> core_failure + commerce_db" where
  "store_settlement tenant outlet v s =
    (if list_ex (\<lambda>r. st_tenant_id r = tenant \<and> st_outlet_id r = outlet \<and> ts_BusinessDate (st_settlement r) = ts_BusinessDate v
       \<and> ts_TenderType (st_settlement r) = ts_TenderType v) (cm_settlements s) then Inr s
     else constrained
       [fails_if (list_ex (\<lambda>r. ts_ID (st_settlement r) = ts_ID v) (cm_settlements s)) (Failed Conflict ''tender_settlements''),
        fails_if ((tenant, outlet) \<notin> set (cm_outlets s)) (Failed InvalidReference ''tender_settlements'')]
       (s\<lparr>cm_settlements := cm_settlements s @ [\<lparr>st_settlement = v, st_tenant_id = tenant, st_outlet_id = outlet\<rparr>]\<rparr>))"

fun store_settlements :: "string \<Rightarrow> string \<Rightarrow> tender_settlement list \<Rightarrow> commerce_db \<Rightarrow> core_failure + commerce_db" where
  "store_settlements tenant outlet [] s = Inr s"
| "store_settlements tenant outlet (v # vs) s = rbind (store_settlement tenant outlet v s) (store_settlements tenant outlet vs)"

definition GenerateSettlements ::
  "(string \<Rightarrow> 8 word list) \<Rightarrow> (time \<Rightarrow> string) \<Rightarrow> core_failure option \<Rightarrow> string \<Rightarrow> string \<Rightarrow> string \<Rightarrow> audit_event \<Rightarrow> commerce_db
    \<Rightarrow> (core_failure + tender_settlement list) \<times> commerce_db" where
  "GenerateSettlements sha256 business_date ctx tenant outlet date a = with_tenant ctx (\<lambda>s.
    let day = filter (\<lambda>v. td_TenantID v = tenant \<and> td_OutletID v = outlet \<and> business_date (td_OccurredAt v) = date)
      (map tr_tender (cm_tenders s))
    in rbind (settlements_of (settlement_of sha256 tenant date a) day (remdups (map td_TenderType day))) (\<lambda>vs.
    rbind (store_settlements tenant outlet vs s) (\<lambda>s. audited tenant a vs s)))"

end
