(* ===== verification/Core_Checkout.thy ===== *)
theory Core_Checkout
  imports Core_Checkout_Types Core_Commerce
begin

text \<open>
  The point of sale, \<open>services/core/internal/store/postgres_restaurant_core.go\<close> on the tables of
  \<open>services/core/migrations\<close>: a checkout prices the lines from the catalogue, stores the order with its
  lines and snapshots, sends a ticket and a print job to every station, takes the tenders and issues the
  receipt, all in one transaction; print jobs and pickup tokens are moved afterwards. The tables of the
  tenders, shifts, receipts and the audit trail are those of the commerce repository. A null identifier is
  the empty text, as in the Go types.
\<close>

subsection \<open>Tables\<close>

text \<open>Of \<open>menu_items\<close> the columns that are read here.\<close>

record catalog_row =
  tb_id :: string
  tb_tenant_id :: string
  tb_outlet_id :: string
  tb_name :: string
  tb_station_id :: string
  tb_recipe_id :: "string option"
  tb_price_minor :: int
  tb_currency :: string
  tb_active :: bool

text \<open>Menu versions and their parts; the values without the lists that have tables of their own.\<close>

record menu_version_row =
  vv_tenant_id :: string
  vv_version :: menu_studio_version

record category_row =
  cy_tenant_id :: string
  cy_menu_version_id :: string
  cy_category :: menu_studio_category

record modifier_group_row =
  gr_tenant_id :: string
  gr_menu_version_id :: string
  gr_group :: menu_modifier_group

record modifier_option_row =
  op_tenant_id :: string
  op_modifier_group_id :: string
  op_option :: menu_modifier_option

record version_item_row =
  vt_tenant_id :: string
  vt_menu_version_id :: string
  vt_menu_item_id :: string
  vt_category_id :: string
  vt_display_name :: string
  vt_description :: string
  vt_sort_order :: int
  vt_active :: bool

record version_price_row =
  vp_id :: string
  vp_tenant_id :: string
  vp_menu_version_id :: string
  vp_menu_item_id :: string
  vp_price_minor :: int
  vp_currency :: string
  vp_effective_from :: time
  vp_effective_to :: "time option"

record item_modifier_row =
  vm_tenant_id :: string
  vm_menu_version_id :: string
  vm_menu_item_id :: string
  vm_modifier_group_id :: string
  vm_sort_order :: int

record publication_row =
  pu_tenant_id :: string
  pu_outlet_id :: string
  pu_menu_version_id :: string
  pu_publication :: menu_publication
  pu_published_by :: string
  pu_created_at :: time

record recipe_version_row =
  vr_id :: string
  vr_tenant_id :: string
  vr_recipe_id :: string
  vr_effective_from :: time
  vr_effective_to :: "time option"

text \<open>The lines of an order, and of a ticket, have tables of their own.\<close>

record placed_row =
  ow_order :: core_order
  ow_source :: string
  ow_source_id :: string

record line_row =
  lw_line :: core_line
  lw_tenant_id :: string
  lw_order_id :: string
  lw_created_at :: time

record recipe_snapshot =
  rn_tenant_id :: string
  rn_order_id :: string
  rn_order_line_id :: string
  rn_menu_item_id :: string
  rn_recipe_version_id :: string
  rn_quantity :: int
  rn_captured_at :: time

record modifier_snapshot =
  sn_tenant_id :: string
  sn_order_line_id :: string
  sn_modifier_group_id :: string
  sn_modifier_group_name :: string
  sn_modifier_option_id :: string
  sn_modifier_option_name :: string
  sn_price_delta_minor :: int
  sn_created_at :: time

record ticket_line_row =
  tl_tenant_id :: string
  tl_ticket_id :: string
  tl_order_id :: string
  tl_order_line_id :: string

record print_row =
  pw_job :: kitchen_print_job
  pw_operation_id :: string

record token_row =
  kw_token :: pickup_token
  kw_operation_id :: string

text \<open>The events of print jobs and of pickup tokens.\<close>

record history_row =
  hy_id :: string
  hy_tenant_id :: string
  hy_subject_id :: string
  hy_event_type :: string
  hy_occurred_at :: time
  hy_actor_id :: string
  hy_operation_id :: string

record checkout_row =
  ch_id :: string
  ch_tenant_id :: string
  ch_outlet_id :: string
  ch_order_id :: string
  ch_menu_version_id :: string
  ch_receipt_id :: string
  ch_pickup_token_id :: string
  ch_completed_at :: time
  ch_actor_id :: string
  ch_device_id :: string
  ch_operation_id :: string

record restaurant_db =
  rd_commerce :: commerce_db
  rd_stations :: "(string \<times> string \<times> string) list"
  rd_brands :: "(string \<times> string) list"
  rd_channels :: "(string \<times> string \<times> string) list"
  rd_studios :: "menu_studio list"
  rd_menu_versions :: "menu_version_row list"
  rd_categories :: "category_row list"
  rd_publications :: "publication_row list"
  rd_items :: "catalog_row list"
  rd_version_items :: "version_item_row list"
  rd_prices :: "version_price_row list"
  rd_item_modifiers :: "item_modifier_row list"
  rd_groups :: "modifier_group_row list"
  rd_options :: "modifier_option_row list"
  rd_recipe_versions :: "recipe_version_row list"
  rd_orders :: "placed_row list"
  rd_lines :: "line_row list"
  rd_recipe_snapshots :: "recipe_snapshot list"
  rd_modifier_snapshots :: "modifier_snapshot list"
  rd_tickets :: "core_ticket list"
  rd_ticket_lines :: "ticket_line_row list"
  rd_print_jobs :: "print_row list"
  rd_print_events :: "history_row list"
  rd_tokens :: "token_row list"
  rd_token_events :: "history_row list"
  rd_checkouts :: "checkout_row list"

subsection \<open>Columns\<close>

text \<open>A \<open>uuid\<close> column compares and prints in lower case; the identifiers that the program accepts are hexadecimal.\<close>

definition uuid_column :: "string \<Rightarrow> string" where
  "uuid_column = ToLower"

lemma uuid_column_Nil [simp]: "uuid_column t = [] \<longleftrightarrow> t = []"
  by (simp add: uuid_column_def ToLower_def)

lemma lower_char_idem: "lower_char (lower_char c) = lower_char c"
  by (simp add: lower_char_def Let_def)

lemma uuid_column_idem [simp]: "uuid_column (uuid_column t) = uuid_column t"
  by (simp add: uuid_column_def ToLower_def lower_char_idem)

subsection \<open>The catalogue\<close>

record catalog_item =
  ki_id :: string
  ki_name :: string
  ki_stationID :: string
  ki_recipeID :: string
  ki_price :: int
  ki_currency :: string
  ki_active :: bool

record modifier_choice =
  ko_id :: string
  ko_groupID :: string
  ko_groupName :: string
  ko_name :: string
  ko_min :: int
  ko_max :: int
  ko_required :: bool
  ko_active :: bool
  ko_delta :: int

text \<open>Scanning a null recipe into a Go string is an error.\<close>

definition scan_item :: "catalog_row \<Rightarrow> string \<Rightarrow> int \<Rightarrow> string \<Rightarrow> bool \<Rightarrow> core_failure + catalog_item" where
  "scan_item m name price currency active = (case tb_recipe_id m of
     None \<Rightarrow> Inl (unmapped ''cannot scan NULL into *string'')
   | Some recipe \<Rightarrow> Inr \<lparr>ki_id = tb_id m, ki_name = name, ki_stationID = tb_station_id m, ki_recipeID = recipe,
       ki_price = price, ki_currency = currency, ki_active = active\<rparr>)"

definition choice_of :: "menu_modifier_group \<Rightarrow> menu_modifier_option \<Rightarrow> modifier_choice" where
  "choice_of g opt = \<lparr>ko_id = mo_ID opt, ko_groupID = mg_ID g, ko_groupName = mg_Name g, ko_name = mo_Name opt,
     ko_min = mg_SelectionMin g, ko_max = mg_SelectionMax g, ko_required = mg_Required g, ko_active = mo_Active opt,
     ko_delta = mo_PriceDeltaMinor opt\<rparr>"

definition item_choices :: "string \<Rightarrow> string \<Rightarrow> string \<Rightarrow> restaurant_db \<Rightarrow> modifier_choice list" where
  "item_choices tenant version item s =
    [choice_of (gr_group g) (op_option opt).
     im \<leftarrow> rd_item_modifiers s, vm_tenant_id im = tenant \<and> vm_menu_version_id im = version \<and> vm_menu_item_id im = item,
     g \<leftarrow> rd_groups s, gr_tenant_id g = tenant \<and> mg_ID (gr_group g) = vm_modifier_group_id im,
     opt \<leftarrow> rd_options s, op_tenant_id opt = tenant \<and> op_modifier_group_id opt = mg_ID (gr_group g)]"

definition checkoutCatalog ::
  "pos_checkout \<Rightarrow> pos_line \<Rightarrow> restaurant_db \<Rightarrow> core_failure + catalog_item \<times> modifier_choice list" where
  "checkoutCatalog checkout line s =
    (let tenant = uuid_column (px_TenantID checkout); outlet = uuid_column (px_OutletID checkout);
         version = uuid_column (px_MenuVersionID checkout); item = uuid_column (ln_MenuItemID line) in
     if version = [] then
       rbind (query_row (at_row tenant outlet item tb_tenant_id tb_outlet_id tb_id) (rd_items s)) (\<lambda>m.
       rbind (scan_item m (tb_name m) (tb_price_minor m) (tb_currency m) (tb_active m)) (\<lambda>v. Inr (v, [])))
     else
       rbind (query_row (\<lambda>_. True)
         [(v, m, p). v \<leftarrow> rd_version_items s,
            vt_tenant_id v = tenant \<and> vt_menu_version_id v = version \<and> vt_menu_item_id v = item,
            m \<leftarrow> rd_items s, at_row tenant outlet item tb_tenant_id tb_outlet_id tb_id m,
            p \<leftarrow> rd_prices s, vp_tenant_id p = tenant \<and> vp_menu_version_id p = version \<and> vp_menu_item_id p = item
              \<and> vp_effective_to p = None]) (\<lambda>(v, m, p).
       rbind (scan_item m (vt_display_name v) (vp_price_minor p) (vp_currency p) (vt_active v)) (\<lambda>k.
         Inr (k, item_choices tenant version item s))))"

subsection \<open>The bill\<close>

text \<open>The chosen options in the order of the request; of two options with one identifier the last is known.\<close>

definition choice_at :: "modifier_choice list \<Rightarrow> string \<Rightarrow> modifier_choice option" where
  "choice_at allowed id' = List.find (\<lambda>c. ko_id c = id') (rev allowed)"

fun select_choices :: "modifier_choice list \<Rightarrow> string list \<Rightarrow> string list \<Rightarrow> core_failure + modifier_choice list" where
  "select_choices allowed seen [] = Inr []"
| "select_choices allowed seen (id' # ids) = (case choice_at allowed id' of
     None \<Rightarrow> Inl (Failed InvalidReference ''invalid modifier selection'')
   | Some c \<Rightarrow> if \<not> ko_active c \<or> id' \<in> set seen then Inl (Failed InvalidReference ''invalid modifier selection'')
       else rbind (select_choices allowed (id' # seen) ids) (\<lambda>cs. Inr (c # cs)))"

definition group_of :: "modifier_choice list \<Rightarrow> string \<Rightarrow> modifier_choice option" where
  "group_of allowed g = List.find (\<lambda>c. ko_groupID c = g) (rev allowed)"

definition chosen_in :: "string \<Rightarrow> modifier_choice list \<Rightarrow> int" where
  "chosen_in g selected = int (length (filter (\<lambda>c. ko_groupID c = g) selected))"

definition counts_ok :: "modifier_choice list \<Rightarrow> modifier_choice list \<Rightarrow> bool" where
  "counts_ok allowed selected \<longleftrightarrow> list_all (\<lambda>g. case group_of allowed g of None \<Rightarrow> True
     | Some c \<Rightarrow> ko_min c \<le> chosen_in g selected \<and> chosen_in g selected \<le> ko_max c) (remdups (map ko_groupID allowed))"

definition manager_available :: "string \<Rightarrow> string \<Rightarrow> string \<Rightarrow> commerce_db \<Rightarrow> bool" where
  "manager_available tenant outlet item s =
    (case List.find (\<lambda>r. av_tenant_id r = tenant \<and> av_outlet_id r = outlet \<and> av_menu_item_id r = item) (cm_availability s) of
       None \<Rightarrow> True | Some r \<Rightarrow> av_available r)"

text \<open>The state of the loop over the lines; the stations map is the list of the pairs that it gathers.\<close>

record bill =
  bl_currency :: string
  bl_subtotal :: int
  bl_lines :: "core_line list"
  bl_stations :: "(string \<times> string) list"
  bl_choices :: "(string \<times> modifier_choice) list"

definition empty_bill :: bill where
  "empty_bill = \<lparr>bl_currency = [], bl_subtotal = 0, bl_lines = [], bl_stations = [], bl_choices = []\<rparr>"

definition unit_price :: "catalog_item \<Rightarrow> modifier_choice list \<Rightarrow> int" where
  "unit_price item selected = wrap64 (ki_price item + foldl (\<lambda>d c. wrap64 (d + ko_delta c)) 0 selected)"

definition billed_line :: "pos_line \<Rightarrow> catalog_item \<Rightarrow> int \<Rightarrow> string \<Rightarrow> core_line" where
  "billed_line input item price currency = \<lparr>cl_ID = ln_ID input, cl_MenuItemID = ki_id item, cl_Name = ki_name item,
     cl_Quantity = ln_Quantity input, cl_UnitPrice = \<lparr>MinorUnits = price, Currency = currency\<rparr>,
     cl_LineTotal = \<lparr>MinorUnits = wrap64 (price * ln_Quantity input), Currency = currency\<rparr>,
     cl_PreparationNote = ln_PreparationNote input\<rparr>"

definition bill_line :: "pos_checkout \<Rightarrow> restaurant_db \<Rightarrow> pos_line \<Rightarrow> bill \<Rightarrow> core_failure + bill" where
  "bill_line checkout s input b =
    rbind (checkoutCatalog checkout input s) (\<lambda>(item, allowed).
    if \<not> ki_active item \<or> ki_stationID item = [] then Inl (Failed InvalidReference ''menu item is not sellable'')
    else if \<not> manager_available (px_TenantID checkout) (px_OutletID checkout) (ki_id item) (rd_commerce s)
    then Inl (Failed InvalidReference ''menu item is unavailable'')
    else let currency = (if bl_currency b = [] then ki_currency item else bl_currency b) in
    if currency \<noteq> ki_currency item then Inl (Failed InvalidReference ''order currency mismatch'')
    else rbind (select_choices allowed [] (ln_ModifierOptionIDs input)) (\<lambda>selected.
    if \<not> counts_ok allowed selected then Inl (Failed InvalidReference ''modifier selection count'')
    else let price = unit_price item selected in
    if price < 0 then Inl (Failed InvalidReference ''modifier price underflow'')
    else let line = billed_line input item price currency in
    Inr \<lparr>bl_currency = currency, bl_subtotal = wrap64 (bl_subtotal b + MinorUnits (cl_LineTotal line)),
      bl_lines = bl_lines b @ [line], bl_stations = bl_stations b @ [(ki_stationID item, cl_ID line)],
      bl_choices = bl_choices b @ map (Pair (cl_ID line)) selected\<rparr>))"

text \<open>A loop whose body may fail.\<close>

fun each :: "('x \<Rightarrow> 's \<Rightarrow> 'e + 's) \<Rightarrow> 'x list \<Rightarrow> 's \<Rightarrow> 'e + 's" where
  "each f [] s = Inr s"
| "each f (x # xs) s = rbind (f x s) (each f xs)"

definition bill_of :: "pos_checkout \<Rightarrow> restaurant_db \<Rightarrow> core_failure + bill" where
  "bill_of checkout s = each (bill_line checkout s) (px_Lines checkout) empty_bill"

definition checkout_order :: "pos_checkout \<Rightarrow> audit_event \<Rightarrow> bill \<Rightarrow> core_order" where
  "checkout_order checkout a b = (let money = (\<lambda>n. \<lparr>MinorUnits = n, Currency = bl_currency b\<rparr>) in
     \<lparr>co_ID = px_OrderID checkout, co_TenantID = px_TenantID checkout, co_OutletID = px_OutletID checkout,
      co_BrandID = px_BrandID checkout, co_ExternalRef = px_ExternalRef checkout, co_Type = px_OrderType checkout,
      co_Status = CoreReceived, co_Lines = bl_lines b, co_Subtotal = money (bl_subtotal b),
      co_DiscountTotal = money (px_DiscountMinor checkout), co_TaxTotal = money (px_TaxMinor checkout),
      co_ServiceCharge = money (px_ServiceChargeMinor checkout),
      co_Total = money (wrap64 (bl_subtotal b - px_DiscountMinor checkout + px_TaxMinor checkout + px_ServiceChargeMinor checkout)),
      co_PlacedAt = (if IsZero (px_PlacedAt checkout) then ae_RecordedAt a else px_PlacedAt checkout),
      co_Meta = \<lparr>rm_CreatedAt = ae_RecordedAt a, rm_UpdatedAt = ae_RecordedAt a, rm_Version = 1\<rparr>\<rparr>)"

end
