(* ===== verification/Core_Till.thy ===== *)
theory Core_Till
  imports Core_Checkout
begin

text \<open>
  The writing half of the point of sale: the statements of \<open>CheckoutPOS\<close> in their order, and the moves of
  print jobs and pickup tokens.
\<close>

subsection \<open>Statements\<close>

text \<open>\<open>length(btrim(t)) BETWEEN 1 AND n\<close>; a character is counted at the byte that starts it.\<close>

definition btrim :: "string \<Rightarrow> string" where
  "btrim t = rev (dropWhile (\<lambda>c. c = CHR '' '') (rev (dropWhile (\<lambda>c. c = CHR '' '') t)))"

definition char_count :: "string \<Rightarrow> nat" where
  "char_count t = length (filter (\<lambda>c. let n = (of_char c :: nat) in \<not> (128 \<le> n \<and> n < 192)) t)"

definition text_within :: "nat \<Rightarrow> string \<Rightarrow> bool" where
  "text_within n t \<longleftrightarrow> 1 \<le> char_count (btrim t) \<and> char_count (btrim t) \<le> n"

type_synonym till_statement = "restaurant_db \<Rightarrow> core_failure + restaurant_db"

definition in_commerce :: "(commerce_db \<Rightarrow> core_failure + commerce_db) \<Rightarrow> till_statement" where
  "in_commerce f s = rbind (f (rd_commerce s)) (\<lambda>c. Inr (s\<lparr>rd_commerce := c\<rparr>))"

text \<open>The order row, of which the commerce statements read the amounts.\<close>

definition amounts_of :: "core_order \<Rightarrow> billed_order" where
  "amounts_of v = \<lparr>bo_id = co_ID v, bo_tenant_id = co_TenantID v, bo_outlet_id = co_OutletID v,
     bo_subtotal_minor = MinorUnits (co_Subtotal v), bo_discount_total_minor = MinorUnits (co_DiscountTotal v),
     bo_tax_total_minor = MinorUnits (co_TaxTotal v), bo_service_charge_minor = MinorUnits (co_ServiceCharge v),
     bo_total_minor = MinorUnits (co_Total v), bo_currency = Currency (co_Total v)\<rparr>"

definition insert_order_row :: "core_order \<Rightarrow> audit_event \<Rightarrow> till_statement" where
  "insert_order_row v a s =
    (let subtotal = MinorUnits (co_Subtotal v); discount = MinorUnits (co_DiscountTotal v); tax = MinorUnits (co_TaxTotal v);
         service = MinorUnits (co_ServiceCharge v); total_minor = MinorUnits (co_Total v) in
     guarded
      [fails_if (\<not> ValidCurrency (Currency (co_Total v))) (Failed InvalidReference ''orders_currency_check''),
       fails_if (discount < 0) (Failed InvalidReference ''orders_discount_total_minor_check''),
       fails_if (\<not> ValidOrderType (co_Type v)) (Failed InvalidReference ''orders_order_type_check''),
       fails_if (service < 0) (Failed InvalidReference ''orders_service_charge_minor_check''),
       fails_if (subtotal < 0) (Failed InvalidReference ''orders_subtotal_minor_check''),
       fails_if (tax < 0) (Failed InvalidReference ''orders_tax_total_minor_check''),
       fails_if (\<not> in_int64 (subtotal - discount + tax) \<or> \<not> in_int64 (subtotal - discount + tax + service))
         (unmapped ''bigint out of range''),
       fails_if (total_minor \<noteq> subtotal - discount + tax + service) (Failed InvalidReference ''orders_total_equation''),
       fails_if (total_minor < 0) (Failed InvalidReference ''orders_total_minor_check''),
       fails_if (list_ex (\<lambda>r. bo_id r = co_ID v) (cm_orders (rd_commerce s))) (Failed Conflict ''orders''),
       fails_if (ae_SourceID a \<noteq> [] \<and> list_ex (\<lambda>r. co_TenantID (ow_order r) = co_TenantID v \<and> ow_source r = ae_Source a
         \<and> ow_source_id r = ae_SourceID a) (rd_orders s)) (Failed Conflict ''orders_source_identity_key''),
       fails_if ((co_TenantID v, co_OutletID v) \<notin> set (cm_outlets (rd_commerce s))) (Failed InvalidReference ''orders_outlet_fk''),
       fails_if (co_BrandID v \<noteq> [] \<and> (co_TenantID v, co_BrandID v) \<notin> set (rd_brands s)) (Failed InvalidReference ''orders_brand_fk'')]
      (s\<lparr>rd_commerce := (rd_commerce s)\<lparr>cm_orders := cm_orders (rd_commerce s) @ [amounts_of v]\<rparr>,
         rd_orders := rd_orders s @ [\<lparr>ow_order = v\<lparr>co_Lines := []\<rparr>, ow_source = ae_Source a, ow_source_id = ae_SourceID a\<rparr>]\<rparr>))"

definition insert_line_row :: "core_order \<Rightarrow> core_line \<Rightarrow> till_statement" where
  "insert_line_row v line s =
    (let price = MinorUnits (cl_UnitPrice line); amount = MinorUnits (cl_LineTotal line) in
     guarded
      [fails_if (\<not> ValidCurrency (Currency (co_Total v))) (Failed InvalidReference ''order_lines_currency_check''),
       fails_if (amount < 0) (Failed InvalidReference ''order_lines_line_total_minor_check''),
       fails_if (\<not> text_within 200 (cl_Name line)) (Failed InvalidReference ''order_lines_name_check''),
       fails_if (cl_Quantity line \<le> 0) (Failed InvalidReference ''order_lines_quantity_check''),
       fails_if (\<not> in_int64 (price * cl_Quantity line)) (unmapped ''bigint out of range''),
       fails_if (amount \<noteq> price * cl_Quantity line) (Failed InvalidReference ''order_lines_total_equation''),
       fails_if (price < 0) (Failed InvalidReference ''order_lines_unit_price_minor_check''),
       fails_if (list_ex (\<lambda>r. cl_ID (lw_line r) = cl_ID line) (rd_lines s)) (Failed Conflict ''order_lines'')]
      (s\<lparr>rd_lines := rd_lines s @ [\<lparr>lw_line = line, lw_tenant_id = co_TenantID v, lw_order_id = co_ID v,
         lw_created_at = rm_CreatedAt (co_Meta v)\<rparr>]\<rparr>))"

text \<open>The recipe versions in effect when the order was placed.\<close>

definition recipes_in_effect :: "core_order \<Rightarrow> core_line \<Rightarrow> restaurant_db \<Rightarrow> recipe_version_row list" where
  "recipes_in_effect v line s =
    [r. m \<leftarrow> rd_items s, at_row (co_TenantID v) (co_OutletID v) (cl_MenuItemID line) tb_tenant_id tb_outlet_id tb_id m,
        r \<leftarrow> rd_recipe_versions s, vr_tenant_id r = tb_tenant_id m \<and> tb_recipe_id m = Some (vr_recipe_id r)
          \<and> vr_effective_from r \<le> co_PlacedAt v \<and> (case vr_effective_to r of None \<Rightarrow> True | Some t \<Rightarrow> t > co_PlacedAt v)]"

definition insert_recipe_snapshots :: "core_order \<Rightarrow> core_line \<Rightarrow> till_statement" where
  "insert_recipe_snapshots v line s =
    (let rows = map (\<lambda>r. \<lparr>rn_tenant_id = co_TenantID v, rn_order_id = co_ID v, rn_order_line_id = cl_ID line,
       rn_menu_item_id = cl_MenuItemID line, rn_recipe_version_id = vr_id r, rn_quantity = cl_Quantity line,
       rn_captured_at = co_PlacedAt v\<rparr>) (recipes_in_effect v line s) in
     guarded
      [fails_if (rows \<noteq> [] \<and> (length rows > 1 \<or> list_ex (\<lambda>r. rn_tenant_id r = co_TenantID v \<and> rn_order_line_id r = cl_ID line)
         (rd_recipe_snapshots s))) (Failed Conflict ''order_line_recipe_snapshots'')]
      (s\<lparr>rd_recipe_snapshots := rd_recipe_snapshots s @ rows\<rparr>))"

definition insert_line :: "core_order \<Rightarrow> core_line \<Rightarrow> till_statement" where
  "insert_line v line s = rbind (insert_line_row v line s) (insert_recipe_snapshots v line)"

definition insert_choice :: "core_order \<Rightarrow> string \<times> modifier_choice \<Rightarrow> till_statement" where
  "insert_choice v choice s =
    (let (line, c) = choice in guarded
      [fails_if (list_ex (\<lambda>r. sn_tenant_id r = co_TenantID v \<and> sn_order_line_id r = line \<and> sn_modifier_option_id r = ko_id c)
         (rd_modifier_snapshots s)) (Failed Conflict ''order_line_modifier_snapshots'')]
      (s\<lparr>rd_modifier_snapshots := rd_modifier_snapshots s @ [\<lparr>sn_tenant_id = co_TenantID v, sn_order_line_id = line,
         sn_modifier_group_id = ko_groupID c, sn_modifier_group_name = ko_groupName c, sn_modifier_option_id = ko_id c,
         sn_modifier_option_name = ko_name c, sn_price_delta_minor = ko_delta c, sn_created_at = rm_CreatedAt (co_Meta v)\<rparr>]\<rparr>))"

subsection \<open>Tickets and print jobs\<close>

text \<open>\<open>part\<close> derives an identifier from the one of the checkout or of its operation.\<close>

definition ticket_of :: "(string \<Rightarrow> 8 word list) \<Rightarrow> pos_checkout \<Rightarrow> audit_event \<Rightarrow> bill \<Rightarrow> string \<Rightarrow> core_ticket" where
  "ticket_of sha256 checkout a b station =
    \<lparr>ct_ID = inventoryEventUUID sha256 (px_TenantID checkout) (px_ID checkout) (''ticket:'' @ station),
     ct_TenantID = px_TenantID checkout, ct_OutletID = px_OutletID checkout, ct_OrderID = px_OrderID checkout,
     ct_StationID = station, ct_LineIDs = map snd (filter (\<lambda>(k, _). k = station) (bl_stations b)), ct_Status = CoreQueued,
     ct_Priority = 0, ct_TargetAt = None,
     ct_Meta = \<lparr>rm_CreatedAt = ae_RecordedAt a, rm_UpdatedAt = ae_RecordedAt a, rm_Version = 1\<rparr>\<rparr>"

definition print_job_of :: "(string \<Rightarrow> 8 word list) \<Rightarrow> pos_checkout \<Rightarrow> audit_event \<Rightarrow> core_ticket \<Rightarrow> kitchen_print_job" where
  "print_job_of sha256 checkout a t =
    \<lparr>kp_ID = inventoryEventUUID sha256 (px_TenantID checkout) (px_ID checkout) (''print:'' @ ct_StationID t),
     kp_TenantID = px_TenantID checkout, kp_OutletID = px_OutletID checkout, kp_TicketID = ct_ID t,
     kp_PrinterRoute = px_PrinterRoute checkout, kp_CopyType = ''kot'',
     kp_Payload = Some [(''orderId'', JsonString (ct_OrderID t)), (''ticketId'', JsonString (ct_ID t)),
       (''stationId'', JsonString (ct_StationID t))],
     kp_Status = ''queued'', kp_Attempts = 0, kp_LastError = [], kp_CreatedAt = ae_RecordedAt a, kp_AcknowledgedAt = None\<rparr>"

definition history_clash :: "history_row \<Rightarrow> history_row list \<Rightarrow> bool" where
  "history_clash e rows \<longleftrightarrow> list_ex (\<lambda>r. hy_id r = hy_id e \<or> hy_tenant_id r = hy_tenant_id e \<and> hy_operation_id r = hy_operation_id e) rows"

definition insert_ticket_line :: "core_ticket \<Rightarrow> string \<Rightarrow> till_statement" where
  "insert_ticket_line t line s = guarded
    [fails_if (list_ex (\<lambda>r. tl_tenant_id r = ct_TenantID t \<and> tl_ticket_id r = ct_ID t \<and> tl_order_line_id r = line) (rd_ticket_lines s))
       (Failed Conflict ''ticket_lines''),
     fails_if (\<not> list_ex (\<lambda>r. lw_tenant_id r = ct_TenantID t \<and> lw_order_id r = ct_OrderID t \<and> cl_ID (lw_line r) = line) (rd_lines s))
       (Failed InvalidReference ''ticket_lines_order_line_fk'')]
    (s\<lparr>rd_ticket_lines := rd_ticket_lines s @ [\<lparr>tl_tenant_id = ct_TenantID t, tl_ticket_id = ct_ID t,
       tl_order_id = ct_OrderID t, tl_order_line_id = line\<rparr>]\<rparr>)"

definition insert_ticket_row :: "core_ticket \<Rightarrow> till_statement" where
  "insert_ticket_row t s = guarded
    [fails_if (list_ex (\<lambda>r. ct_ID r = ct_ID t) (rd_tickets s)) (Failed Conflict ''kitchen_tickets''),
     fails_if ((ct_TenantID t, ct_OutletID t, ct_StationID t) \<notin> set (rd_stations s)) (Failed InvalidReference ''kitchen_tickets_station_fk'')]
    (s\<lparr>rd_tickets := rd_tickets s @ [t\<lparr>ct_LineIDs := []\<rparr>]\<rparr>)"

text \<open>A \<open>jsonb\<close> column refuses the character zero.\<close>

fun has_nul :: "json_value \<Rightarrow> bool" where
  "has_nul (JsonString t) \<longleftrightarrow> CHR 0x00 \<in> set t"
| "has_nul (JsonArray vs) \<longleftrightarrow> list_ex has_nul vs"
| "has_nul (JsonObject fs) \<longleftrightarrow> list_ex (\<lambda>f. CHR 0x00 \<in> set (fst f) \<or> has_nul (snd f)) fs"
| "has_nul _ \<longleftrightarrow> False"

definition insert_print_job :: "kitchen_print_job \<Rightarrow> string \<Rightarrow> till_statement" where
  "insert_print_job j operation s = guarded
    [fails_if (\<not> in_int32 (kp_Attempts j)) (unmapped ''integer out of range''),
     fails_if (case kp_Payload j of None \<Rightarrow> False | Some fs \<Rightarrow> has_nul (JsonObject fs)) (unmapped ''unsupported Unicode escape sequence''),
     fails_if (kp_Attempts j < 0) (Failed InvalidReference ''kitchen_print_jobs_attempts_check''),
     fails_if (kp_CopyType j \<notin> {''kot'', ''expeditor'', ''packing'', ''receipt''}) (Failed InvalidReference ''kitchen_print_jobs_copy_type_check''),
     fails_if (\<not> text_within 120 (kp_PrinterRoute j)) (Failed InvalidReference ''kitchen_print_jobs_printer_route_check''),
     fails_if (kp_Status j \<notin> {''queued'', ''acknowledged'', ''failed'', ''cancelled''}) (Failed InvalidReference ''kitchen_print_jobs_status_check''),
     fails_if (list_ex (\<lambda>r. kp_ID (pw_job r) = kp_ID j \<or> kp_TenantID (pw_job r) = kp_TenantID j \<and> pw_operation_id r = operation)
       (rd_print_jobs s)) (Failed Conflict ''kitchen_print_jobs''),
     fails_if ((kp_TenantID j, kp_OutletID j) \<notin> set (cm_outlets (rd_commerce s))) (Failed InvalidReference ''kitchen_print_jobs_outlet_fk''),
     fails_if (\<not> list_ex (\<lambda>t. ct_TenantID t = kp_TenantID j \<and> ct_ID t = kp_TicketID j) (rd_tickets s))
       (Failed InvalidReference ''kitchen_print_jobs_ticket_fk'')]
    (s\<lparr>rd_print_jobs := rd_print_jobs s @ [\<lparr>pw_job = j, pw_operation_id = operation\<rparr>]\<rparr>)"

definition insert_print_event :: "history_row \<Rightarrow> till_statement" where
  "insert_print_event e s = guarded [fails_if (history_clash e (rd_print_events s)) (Failed Conflict ''kitchen_print_job_events'')]
    (s\<lparr>rd_print_events := rd_print_events s @ [e]\<rparr>)"

definition send_to_station ::
  "(string \<Rightarrow> 8 word list) \<Rightarrow> pos_checkout \<Rightarrow> audit_event \<Rightarrow> bill \<Rightarrow> string \<Rightarrow> till_statement" where
  "send_to_station sha256 checkout a b station s =
    (let t = ticket_of sha256 checkout a b station; j = print_job_of sha256 checkout a t; tenant = px_TenantID checkout;
         operation = inventoryEventUUID sha256 tenant (ae_OperationID a) (''print:'' @ station) in
     rbind (insert_ticket_row t s) (\<lambda>s.
     rbind (each (insert_ticket_line t) (ct_LineIDs t) s) (\<lambda>s.
     rbind (insert_print_job j operation s)
       (insert_print_event \<lparr>hy_id = inventoryEventUUID sha256 tenant (px_ID checkout) (''print-event:'' @ station),
          hy_tenant_id = tenant, hy_subject_id = kp_ID j, hy_event_type = ''queued'', hy_occurred_at = ae_RecordedAt a,
          hy_actor_id = ae_ActorID a, hy_operation_id = operation\<rparr>))))"

definition station_ids :: "bill \<Rightarrow> string list" where
  "station_ids b = sort (remdups (map fst (bl_stations b)))"

subsection \<open>The pickup token\<close>

definition token_text :: "string \<Rightarrow> bool" where
  "token_text t \<longleftrightarrow> 3 \<le> length t \<and> length t \<le> 12 \<and> list_all (\<lambda>c. upper_class c \<or> CHR ''0'' \<le> c \<and> c \<le> CHR ''9'') t"

definition token_of :: "pos_checkout \<Rightarrow> audit_event \<Rightarrow> pickup_token" where
  "token_of checkout a = \<lparr>pk_ID = px_PickupTokenID checkout, pk_TenantID = px_TenantID checkout, pk_OutletID = px_OutletID checkout,
     pk_OrderID = px_OrderID checkout, pk_Token = px_PickupToken checkout, pk_Status = ''issued'', pk_IssuedAt = ae_RecordedAt a,
     pk_CollectedAt = None, pk_Version = 1\<rparr>"

text \<open>The version of a new row is the default of its column, and it is not collected.\<close>

definition token_row_of :: "pickup_token \<Rightarrow> string \<Rightarrow> token_row" where
  "token_row_of t operation = \<lparr>kw_token = t\<lparr>pk_CollectedAt := None, pk_Version := 1\<rparr>, kw_operation_id = operation\<rparr>"

definition insert_token :: "pickup_token \<Rightarrow> string \<Rightarrow> till_statement" where
  "insert_token t operation s = guarded
    [fails_if (pk_Status t \<notin> {''issued'', ''called'', ''collected'', ''cancelled''}) (Failed InvalidReference ''pickup_tokens_status_check''),
     fails_if (\<not> token_text (pk_Token t)) (Failed InvalidReference ''pickup_tokens_token_check''),
     fails_if (list_ex (\<lambda>r. pk_ID (kw_token r) = pk_ID t \<or> pk_TenantID (kw_token r) = pk_TenantID t
         \<and> (pk_OutletID (kw_token r) = pk_OutletID t \<and> pk_Token (kw_token r) = pk_Token t \<or> kw_operation_id r = operation)) (rd_tokens s))
       (Failed Conflict ''pickup_tokens''),
     fails_if (\<not> list_ex (at_row (pk_TenantID t) (pk_OutletID t) (pk_OrderID t) bo_tenant_id bo_outlet_id bo_id) (cm_orders (rd_commerce s)))
       (Failed InvalidReference ''pickup_tokens_order_fk'')]
    (s\<lparr>rd_tokens := rd_tokens s @ [token_row_of t operation]\<rparr>)"

definition insert_token_event :: "history_row \<Rightarrow> till_statement" where
  "insert_token_event e s = guarded [fails_if (history_clash e (rd_token_events s)) (Failed Conflict ''pickup_token_events'')]
    (s\<lparr>rd_token_events := rd_token_events s @ [e]\<rparr>)"

definition issue_token :: "(string \<Rightarrow> 8 word list) \<Rightarrow> pos_checkout \<Rightarrow> audit_event \<Rightarrow> till_statement" where
  "issue_token sha256 checkout a s = (if px_PickupTokenID checkout = [] then Inr s
     else let operation = inventoryEventUUID sha256 (px_TenantID checkout) (ae_OperationID a) ''token'' in
       rbind (insert_token (token_of checkout a) operation s)
         (insert_token_event \<lparr>hy_id = inventoryEventUUID sha256 (px_TenantID checkout) (px_ID checkout) ''token-event'',
            hy_tenant_id = px_TenantID checkout, hy_subject_id = px_PickupTokenID checkout, hy_event_type = ''issued'',
            hy_occurred_at = ae_RecordedAt a, hy_actor_id = ae_ActorID a, hy_operation_id = operation\<rparr>))"

subsection \<open>Payment\<close>

definition paid_tender :: "pos_checkout \<Rightarrow> audit_event \<Rightarrow> string \<Rightarrow> pos_tender \<Rightarrow> tender" where
  "paid_tender checkout a currency input = \<lparr>td_ID = pn_ID input, td_TenantID = px_TenantID checkout,
     td_OutletID = px_OutletID checkout, td_OrderID = px_OrderID checkout, td_CashShiftID = pn_CashShiftID input,
     td_TenderType = pn_TenderType input, td_AmountMinor = pn_AmountMinor input, td_Currency = currency,
     td_ProviderReference = pn_ProviderReference input, td_Status = ''captured'', td_ReversesTenderID = [],
     td_OccurredAt = ae_RecordedAt a\<rparr>"

definition tender_operation :: "(string \<Rightarrow> 8 word list) \<Rightarrow> pos_checkout \<Rightarrow> audit_event \<Rightarrow> pos_tender \<Rightarrow> string" where
  "tender_operation sha256 checkout a input =
     inventoryEventUUID sha256 (px_TenantID checkout) (ae_OperationID a) (''tender:'' @ pn_ID input)"

definition sale_event :: "(string \<Rightarrow> 8 word list) \<Rightarrow> pos_checkout \<Rightarrow> audit_event \<Rightarrow> pos_tender \<Rightarrow> cash_event" where
  "sale_event sha256 checkout a input =
     \<lparr>ca_id = inventoryEventUUID sha256 (px_TenantID checkout) (px_ID checkout) (''cash:'' @ pn_ID input),
      ca_tenant_id = px_TenantID checkout, ca_cash_shift_id = pn_CashShiftID input, ca_event_type = ''cash_sale'',
      ca_amount_minor = pn_AmountMinor input, ca_reason = ''POS checkout'', ca_occurred_at = ae_RecordedAt a,
      ca_actor_id = ae_ActorID a, ca_operation_id = tender_operation sha256 checkout a input\<rparr>"

definition take_payment ::
  "(string \<Rightarrow> 8 word list) \<Rightarrow> pos_checkout \<Rightarrow> audit_event \<Rightarrow> string \<Rightarrow> pos_tender \<Rightarrow> commerce_db \<Rightarrow> core_failure + commerce_db" where
  "take_payment sha256 checkout a currency input s =
    (let v = paid_tender checkout a currency input in
     if pn_AmountMinor input < 1 then Inl (Failed InvalidReference ''tender amount'')
     else rbind (move_cash v (td_AmountMinor v) s) (\<lambda>s.
     rbind (insert_tender v (a\<lparr>ae_OperationID := tender_operation sha256 checkout a input\<rparr>) s) (\<lambda>s.
     if pn_TenderType input = ''cash'' then insert_cash_event (sale_event sha256 checkout a input) s else Inr s)))"

definition paid_sum :: "pos_checkout \<Rightarrow> int" where
  "paid_sum checkout = foldl (\<lambda>n input. wrap64 (n + pn_AmountMinor input)) 0 (px_Tenders checkout)"

definition pos_receipt :: "pos_checkout \<Rightarrow> audit_event \<Rightarrow> core_order \<Rightarrow> fiscal_receipt" where
  "pos_receipt checkout a v = \<lparr>fr_ID = px_ReceiptID checkout, fr_OrderID = co_ID v, fr_ReceiptNumber = px_ReceiptNumber checkout,
     fr_Currency = Currency (co_Total v), fr_SubtotalMinor = MinorUnits (co_Subtotal v), fr_DiscountMinor = MinorUnits (co_DiscountTotal v),
     fr_TaxMinor = MinorUnits (co_TaxTotal v), fr_ServiceChargeMinor = MinorUnits (co_ServiceCharge v),
     fr_TotalMinor = MinorUnits (co_Total v), fr_IssuedAt = ae_RecordedAt a\<rparr>"

definition insert_receipt :: "fiscal_receipt \<Rightarrow> string \<Rightarrow> string \<Rightarrow> audit_event \<Rightarrow> commerce_db \<Rightarrow> core_failure + commerce_db" where
  "insert_receipt v tenant outlet a s = constrained
    [fails_if (list_ex (\<lambda>r. fr_ID (rr_receipt r) = fr_ID v \<or> rr_tenant_id r = tenant
         \<and> (rr_outlet_id r = outlet \<and> fr_ReceiptNumber (rr_receipt r) = fr_ReceiptNumber v \<or> fr_OrderID (rr_receipt r) = fr_OrderID v))
       (cm_receipts s)) (Failed Conflict ''fiscal_receipts'')]
    (s\<lparr>cm_receipts := cm_receipts s @ [\<lparr>rr_receipt = v, rr_tenant_id = tenant, rr_outlet_id = outlet,
       rr_actor_id = ae_ActorID a, rr_operation_id = ae_OperationID a\<rparr>]\<rparr>)"

definition checkout_row_of :: "pos_checkout \<Rightarrow> audit_event \<Rightarrow> checkout_row" where
  "checkout_row_of checkout a = \<lparr>ch_id = px_ID checkout, ch_tenant_id = px_TenantID checkout, ch_outlet_id = px_OutletID checkout,
     ch_order_id = px_OrderID checkout, ch_menu_version_id = px_MenuVersionID checkout, ch_receipt_id = px_ReceiptID checkout,
     ch_pickup_token_id = px_PickupTokenID checkout, ch_completed_at = ae_RecordedAt a, ch_actor_id = ae_ActorID a,
     ch_device_id = ae_DeviceID a, ch_operation_id = ae_OperationID a\<rparr>"

definition checkouts_clash :: "checkout_row \<Rightarrow> checkout_row \<Rightarrow> bool" where
  "checkouts_clash r q \<longleftrightarrow> ch_id r = ch_id q \<or> ch_tenant_id r = ch_tenant_id q
     \<and> (ch_operation_id r = ch_operation_id q \<or> ch_order_id r = ch_order_id q)"

definition insert_checkout :: "pos_checkout \<Rightarrow> audit_event \<Rightarrow> till_statement" where
  "insert_checkout checkout a s = guarded
    [fails_if (list_ex (checkouts_clash (checkout_row_of checkout a)) (rd_checkouts s)) (Failed Conflict ''pos_checkout_records''),
     fails_if (px_MenuVersionID checkout \<noteq> [] \<and> \<not> list_ex (\<lambda>r. vv_tenant_id r = uuid_column (px_TenantID checkout)
         \<and> sv_ID (vv_version r) = uuid_column (px_MenuVersionID checkout)) (rd_menu_versions s))
       (Failed InvalidReference ''pos_checkout_records'')]
    (s\<lparr>rd_checkouts := rd_checkouts s @ [checkout_row_of checkout a]\<rparr>)"

subsection \<open>Operations\<close>

definition checkout_result :: "(string \<Rightarrow> 8 word list) \<Rightarrow> pos_checkout \<Rightarrow> audit_event \<Rightarrow> bill \<Rightarrow> pos_result" where
  "checkout_result sha256 checkout a b =
    (let v = checkout_order checkout a b; tickets = map (ticket_of sha256 checkout a b) (station_ids b) in
     \<lparr>pz_Order = v, pz_Tickets = tickets, pz_PrintJobs = map (print_job_of sha256 checkout a) tickets,
      pz_PickupToken = (if px_PickupTokenID checkout = [] then None else Some (token_of checkout a)),
      pz_Tenders = map (paid_tender checkout a (bl_currency b)) (px_Tenders checkout),
      pz_Receipt = Some (pos_receipt checkout a v)\<rparr>)"

definition checkout_body ::
  "(string \<Rightarrow> 8 word list) \<Rightarrow> pos_checkout \<Rightarrow> audit_event \<Rightarrow> restaurant_db \<Rightarrow> core_failure + pos_result \<times> restaurant_db" where
  "checkout_body sha256 checkout a s =
    rbind (bill_of checkout s) (\<lambda>b.
    if px_DiscountMinor checkout > bl_subtotal b then Inl (Failed InvalidReference ''discount exceeds subtotal'')
    else let v = checkout_order checkout a b in
    rbind (insert_order_row v a s) (\<lambda>s.
    rbind (each (insert_line v) (co_Lines v) s) (\<lambda>s.
    rbind (each (insert_choice v) (bl_choices b) s) (\<lambda>s.
    rbind (each (send_to_station sha256 checkout a b) (station_ids b) s) (\<lambda>s.
    rbind (issue_token sha256 checkout a s) (\<lambda>s.
    rbind (each (\<lambda>input. in_commerce (take_payment sha256 checkout a (bl_currency b) input)) (px_Tenders checkout) s) (\<lambda>s.
    if paid_sum checkout \<noteq> MinorUnits (co_Total v) then Inl (Failed InvalidReference ''split tenders must equal order total'')
    else rbind (in_commerce (insert_receipt (pos_receipt checkout a v) (px_TenantID checkout) (px_OutletID checkout) a) s) (\<lambda>s.
    rbind (insert_checkout checkout a s) (\<lambda>s.
    rbind (in_commerce (insertAudit (px_TenantID checkout) a) s) (\<lambda>s.
    Inr (checkout_result sha256 checkout a b, s)))))))))))"

definition till_transaction ::
  "core_failure option \<Rightarrow> (restaurant_db \<Rightarrow> core_failure + 'a \<times> restaurant_db) \<Rightarrow> restaurant_db \<Rightarrow> (core_failure + 'a) \<times> restaurant_db" where
  "till_transaction ctx body = transact (\<lambda>s. case ctx of Some e \<Rightarrow> Inl e | None \<Rightarrow> body s)"

definition CheckoutPOS ::
  "(string \<Rightarrow> 8 word list) \<Rightarrow> core_failure option \<Rightarrow> pos_checkout \<Rightarrow> audit_event \<Rightarrow> restaurant_db
    \<Rightarrow> (core_failure + pos_result) \<times> restaurant_db" where
  "CheckoutPOS sha256 ctx checkout a = till_transaction ctx (checkout_body sha256 checkout a)"

text \<open>The endpoints of the connected commerce insert jobs and tokens as well, without an event.\<close>

definition CreateKitchenPrintJob ::
  "core_failure option \<Rightarrow> kitchen_print_job \<Rightarrow> audit_event \<Rightarrow> restaurant_db \<Rightarrow> (core_failure + unit) \<times> restaurant_db" where
  "CreateKitchenPrintJob ctx j a = till_transaction ctx (\<lambda>s.
    rbind (insert_print_job j (ae_OperationID a) s) (\<lambda>s.
    rbind (in_commerce (insertAudit (kp_TenantID j) a) s) (\<lambda>s. Inr ((), s))))"

definition IssuePickupToken ::
  "core_failure option \<Rightarrow> pickup_token \<Rightarrow> audit_event \<Rightarrow> restaurant_db \<Rightarrow> (core_failure + pickup_token) \<times> restaurant_db" where
  "IssuePickupToken ctx t a = till_transaction ctx (\<lambda>s.
    rbind (insert_token t (ae_OperationID a) s) (\<lambda>s.
    rbind (in_commerce (insertAudit (pk_TenantID t) a) s) (\<lambda>s. Inr (t, s))))"

text \<open>Print jobs: the status and the count of attempts, with an event for every action.\<close>

definition print_action :: "string \<Rightarrow> string \<Rightarrow> bool" where
  "print_action status action \<longleftrightarrow>
     status = ''queued'' \<and> action \<in> {''acknowledged'', ''failed'', ''cancelled''}
     \<or> status = ''failed'' \<and> action = ''requeued'' \<or> status = ''acknowledged'' \<and> action = ''reprinted''"

definition act_on_job :: "string \<Rightarrow> time \<Rightarrow> kitchen_print_job \<Rightarrow> kitchen_print_job" where
  "act_on_job action now j =
    (let again = (action = ''requeued'' \<or> action = ''reprinted'');
         status = (if again then ''queued'' else action)
     in j\<lparr>kp_Status := status, kp_Attempts := (if again then kp_Attempts j + 1 else kp_Attempts j),
       kp_AcknowledgedAt := (if status = ''acknowledged'' then Some now else kp_AcknowledgedAt j)\<rparr>)"

definition job_at :: "string \<Rightarrow> string \<Rightarrow> string \<Rightarrow> print_row \<Rightarrow> bool" where
  "job_at tenant outlet id' r \<longleftrightarrow> at_row tenant outlet id' kp_TenantID kp_OutletID kp_ID (pw_job r)"

definition AcknowledgeKitchenPrintJob ::
  "(string \<Rightarrow> 8 word list) \<Rightarrow> core_failure option \<Rightarrow> string \<Rightarrow> string \<Rightarrow> string \<Rightarrow> string \<Rightarrow> audit_event \<Rightarrow> restaurant_db
    \<Rightarrow> (core_failure + kitchen_print_job) \<times> restaurant_db" where
  "AcknowledgeKitchenPrintJob sha256 ctx tenant outlet id' action a = till_transaction ctx (\<lambda>s.
    rbind (query_row (job_at tenant outlet id') (rd_print_jobs s)) (\<lambda>r.
    if \<not> print_action (kp_Status (pw_job r)) action then Inl (Failed InvalidTransition [])
    else let j = act_on_job action (ae_RecordedAt a) (pw_job r) in
    rbind (guarded [fails_if (\<not> in_int32 (kp_Attempts j)) (unmapped ''attempts'')]
      (s\<lparr>rd_print_jobs := update_where (job_at tenant outlet id') (\<lambda>q. q\<lparr>pw_job := (pw_job q)\<lparr>kp_Status := kp_Status j,
         kp_Attempts := kp_Attempts j, kp_AcknowledgedAt := kp_AcknowledgedAt j\<rparr>\<rparr>) (rd_print_jobs s)\<rparr>)) (\<lambda>s.
    rbind (insert_print_event \<lparr>hy_id = ae_ID a, hy_tenant_id = tenant, hy_subject_id = id', hy_event_type = action,
      hy_occurred_at = ae_RecordedAt a, hy_actor_id = ae_ActorID a,
      hy_operation_id = inventoryEventUUID sha256 tenant (ae_OperationID a) ''print-event''\<rparr> s) (\<lambda>s.
    rbind (in_commerce (insertAudit tenant a) s) (\<lambda>s. Inr (j, s))))))"

definition token_move :: "string \<Rightarrow> string \<Rightarrow> bool" where
  "token_move from to' \<longleftrightarrow> from = ''issued'' \<and> to' \<in> {''called'', ''cancelled''} \<or> from = ''called'' \<and> to' \<in> {''collected'', ''cancelled''}"

definition token_at :: "string \<Rightarrow> string \<Rightarrow> string \<Rightarrow> token_row \<Rightarrow> bool" where
  "token_at tenant outlet id' r \<longleftrightarrow> at_row tenant outlet id' pk_TenantID pk_OutletID pk_ID (kw_token r)"

definition TransitionPickupToken ::
  "(string \<Rightarrow> 8 word list) \<Rightarrow> core_failure option \<Rightarrow> string \<Rightarrow> string \<Rightarrow> string \<Rightarrow> string \<Rightarrow> nat \<Rightarrow> audit_event \<Rightarrow> restaurant_db
    \<Rightarrow> (core_failure + pickup_token) \<times> restaurant_db" where
  "TransitionPickupToken sha256 ctx tenant outlet id' status expected a = till_transaction ctx (\<lambda>s.
    rbind (query_row (token_at tenant outlet id') (rd_tokens s)) (\<lambda>r.
    if pk_Version (kw_token r) \<noteq> expected then Inl (Failed VersionConflict [])
    else if \<not> token_move (pk_Status (kw_token r)) status then Inl (Failed InvalidTransition [])
    else let collected = (if status = ''collected'' then Some (ae_RecordedAt a) else pk_CollectedAt (kw_token r));
             v = (kw_token r)\<lparr>pk_Status := status, pk_CollectedAt := collected, pk_Version := pk_Version (kw_token r) + 1\<rparr> in
    rbind (insert_token_event \<lparr>hy_id = ae_ID a, hy_tenant_id = tenant, hy_subject_id = id', hy_event_type = status,
      hy_occurred_at = ae_RecordedAt a, hy_actor_id = ae_ActorID a,
      hy_operation_id = inventoryEventUUID sha256 tenant (ae_OperationID a) ''token-event''\<rparr>
      (s\<lparr>rd_tokens := update_where (token_at tenant outlet id') (\<lambda>q. q\<lparr>kw_token := (kw_token q)\<lparr>pk_Status := status,
         pk_CollectedAt := collected, pk_Version := pk_Version (kw_token q) + 1\<rparr>\<rparr>) (rd_tokens s)\<rparr>)) (\<lambda>s.
    rbind (in_commerce (insertAudit tenant a) s) (\<lambda>s. Inr (v, s)))))"

end
