(* ===== verification/Core_Menu_Studio.thy ===== *)
theory Core_Menu_Studio
  imports Core_Till
begin

text \<open>
  The menu studio, \<open>services/core/internal/store/postgres_restaurant_core.go\<close> on the tables of
  \<open>services/core/migrations/000015_restaurant_core.up.sql\<close>: a version of a menu is stored row by row, is
  read back in the order of its rows, and goes live through its publications. Columns hold identifiers in
  lower case, and times as the \<open>timestamptz\<close> of the driver and the database keeps them, which is the
  parameter \<open>micro\<close>; \<open>collate\<close> is the sort key of the database's collation.
\<close>

subsection \<open>Columns\<close>

text \<open>What the columns hold of a value that the program gives, and compare with for an argument of a query.\<close>

definition column_category :: "menu_studio_category \<Rightarrow> menu_studio_category" where
  "column_category c = c\<lparr>sc_ID := uuid_column (sc_ID c)\<rparr>"

definition column_option :: "menu_modifier_option \<Rightarrow> menu_modifier_option" where
  "column_option opt = opt\<lparr>mo_ID := uuid_column (mo_ID opt)\<rparr>"

definition column_group :: "menu_modifier_group \<Rightarrow> menu_modifier_group" where
  "column_group g = g\<lparr>mg_ID := uuid_column (mg_ID g), mg_Options := map column_option (mg_Options g)\<rparr>"

definition column_item :: "menu_studio_item \<Rightarrow> menu_studio_item" where
  "column_item i = i\<lparr>si_MenuItemID := uuid_column (si_MenuItemID i), si_CategoryID := uuid_column (si_CategoryID i),
     si_ModifierGroupIDs := map uuid_column (si_ModifierGroupIDs i), si_PriceID := uuid_column (si_PriceID i)\<rparr>"

definition column_publication :: "(time \<Rightarrow> time) \<Rightarrow> menu_publication \<Rightarrow> menu_publication" where
  "column_publication micro p = p\<lparr>mp_ID := uuid_column (mp_ID p), mp_ChannelID := uuid_column (mp_ChannelID p),
     mp_EffectiveFrom := micro (mp_EffectiveFrom p), mp_EffectiveTo := map_option micro (mp_EffectiveTo p)\<rparr>"

definition column_version :: "(time \<Rightarrow> time) \<Rightarrow> menu_studio_version \<Rightarrow> menu_studio_version" where
  "column_version micro v = v\<lparr>sv_ID := uuid_column (sv_ID v), sv_MenuStudioID := uuid_column (sv_MenuStudioID v),
     sv_EffectiveFrom := micro (sv_EffectiveFrom v), sv_CreatedAt := micro (sv_CreatedAt v),
     sv_PublishedAt := map_option micro (sv_PublishedAt v), sv_Categories := map column_category (sv_Categories v),
     sv_Modifiers := map column_group (sv_Modifiers v), sv_Items := map column_item (sv_Items v),
     sv_Publications := map (column_publication micro) (sv_Publications v)\<rparr>"

definition column_studio :: "(time \<Rightarrow> time) \<Rightarrow> menu_studio \<Rightarrow> menu_studio" where
  "column_studio micro studio = studio\<lparr>ms_ID := uuid_column (ms_ID studio), ms_TenantID := uuid_column (ms_TenantID studio),
     ms_OutletID := uuid_column (ms_OutletID studio), ms_CurrentVersionID := uuid_column (ms_CurrentVersionID studio),
     ms_CreatedAt := micro (ms_CreatedAt studio), ms_UpdatedAt := micro (ms_UpdatedAt studio)\<rparr>"

subsection \<open>Storing a version\<close>

text \<open>The statements below take the values as the columns hold them; \<open>insertMenuStudioVersion\<close> converts them.\<close>

text \<open>An integer column takes a Go \<open>int\<close> within its range only.\<close>

definition fits :: "int list \<Rightarrow> core_failure option" where
  "fits ns = fails_if (\<not> list_all in_int32 ns) (unmapped ''integer out of range'')"

definition version_row_of :: "string \<Rightarrow> menu_studio_version \<Rightarrow> menu_version_row" where
  "version_row_of tenant v = \<lparr>vv_tenant_id = tenant,
     vv_version = v\<lparr>sv_Categories := [], sv_Modifiers := [], sv_Items := [], sv_Publications := []\<rparr>\<rparr>"

definition insert_version_row :: "menu_studio \<Rightarrow> menu_studio_version \<Rightarrow> till_statement" where
  "insert_version_row studio v s = guarded
    [fits [sv_VersionNumber v],
     fails_if (sv_Status v \<notin> {''draft'', ''published'', ''superseded''} \<or> sv_VersionNumber v \<le> 0) (Failed InvalidReference ''menu_studio_versions''),
     fails_if (list_ex (\<lambda>r. sv_ID (vv_version r) = sv_ID v \<or> vv_tenant_id r = ms_TenantID studio \<and> sv_MenuStudioID (vv_version r) = ms_ID studio
       \<and> sv_VersionNumber (vv_version r) = sv_VersionNumber v) (rd_menu_versions s)) (Failed Conflict ''menu_studio_versions''),
     fails_if (\<not> list_ex (\<lambda>r. ms_TenantID r = ms_TenantID studio \<and> ms_ID r = ms_ID studio) (rd_studios s))
       (Failed InvalidReference ''menu_studio_versions'')]
    (s\<lparr>rd_menu_versions := rd_menu_versions s @ [version_row_of (ms_TenantID studio) (v\<lparr>sv_MenuStudioID := ms_ID studio\<rparr>)]\<rparr>)"

definition insert_category :: "string \<Rightarrow> string \<Rightarrow> menu_studio_category \<Rightarrow> till_statement" where
  "insert_category tenant version c s = guarded
    [fits [sc_SortOrder c],
     fails_if (\<not> text_within 100 (sc_Name c)) (Failed InvalidReference ''menu_studio_categories_name_check''),
     fails_if (list_ex (\<lambda>r. sc_ID (cy_category r) = sc_ID c \<or> cy_tenant_id r = tenant \<and> cy_menu_version_id r = version
       \<and> sc_Name (cy_category r) = sc_Name c) (rd_categories s)) (Failed Conflict ''menu_studio_categories'')]
    (s\<lparr>rd_categories := rd_categories s @ [\<lparr>cy_tenant_id = tenant, cy_menu_version_id = version, cy_category = c\<rparr>]\<rparr>)"

definition insert_option :: "string \<Rightarrow> string \<Rightarrow> menu_modifier_option \<Rightarrow> till_statement" where
  "insert_option tenant gid opt s = guarded
    [fits [mo_SortOrder opt],
     fails_if (\<not> text_within 100 (mo_Name opt)) (Failed InvalidReference ''menu_modifier_options_name_check''),
     fails_if (list_ex (\<lambda>r. mo_ID (op_option r) = mo_ID opt \<or> op_tenant_id r = tenant \<and> op_modifier_group_id r = gid
       \<and> mo_Name (op_option r) = mo_Name opt) (rd_options s)) (Failed Conflict ''menu_modifier_options'')]
    (s\<lparr>rd_options := rd_options s @ [\<lparr>op_tenant_id = tenant, op_modifier_group_id = gid, op_option = opt\<rparr>]\<rparr>)"

definition insert_group_row :: "string \<Rightarrow> string \<Rightarrow> menu_modifier_group \<Rightarrow> till_statement" where
  "insert_group_row tenant version g s = guarded
    [fits [mg_SelectionMin g, mg_SelectionMax g, mg_SortOrder g],
     fails_if (\<not> text_within 100 (mg_Name g) \<or> mg_SelectionMin g < 0 \<or> mg_SelectionMax g < mg_SelectionMin g \<or> mg_SelectionMax g > 20
       \<or> mg_Required g \<and> mg_SelectionMin g < 1) (Failed InvalidReference ''menu_modifier_groups_check''),
     fails_if (list_ex (\<lambda>r. mg_ID (gr_group r) = mg_ID g \<or> gr_tenant_id r = tenant \<and> gr_menu_version_id r = version
       \<and> mg_Name (gr_group r) = mg_Name g) (rd_groups s)) (Failed Conflict ''menu_modifier_groups'')]
    (s\<lparr>rd_groups := rd_groups s @ [\<lparr>gr_tenant_id = tenant, gr_menu_version_id = version, gr_group = g\<lparr>mg_Options := []\<rparr>\<rparr>]\<rparr>)"

definition insert_group :: "string \<Rightarrow> string \<Rightarrow> menu_modifier_group \<Rightarrow> till_statement" where
  "insert_group tenant version g s =
    rbind (insert_group_row tenant version g s) (each (insert_option tenant (mg_ID g)) (mg_Options g))"

definition item_row_of :: "string \<Rightarrow> string \<Rightarrow> menu_studio_item \<Rightarrow> version_item_row" where
  "item_row_of tenant version i = \<lparr>vt_tenant_id = tenant, vt_menu_version_id = version, vt_menu_item_id = si_MenuItemID i,
     vt_category_id = si_CategoryID i, vt_display_name = si_DisplayName i, vt_description = si_Description i,
     vt_sort_order = si_SortOrder i, vt_active = si_Active i\<rparr>"

definition insert_item_row :: "string \<Rightarrow> string \<Rightarrow> menu_studio_item \<Rightarrow> till_statement" where
  "insert_item_row tenant version i s = guarded
    [fits [si_SortOrder i],
     fails_if (\<not> text_within 160 (si_DisplayName i) \<or> char_count (si_Description i) > 500) (Failed InvalidReference ''menu_version_items_check''),
     fails_if (list_ex (\<lambda>r. vt_tenant_id r = tenant \<and> vt_menu_version_id r = version \<and> vt_menu_item_id r = si_MenuItemID i)
       (rd_version_items s)) (Failed Conflict ''menu_version_items'')]
    (s\<lparr>rd_version_items := rd_version_items s @ [item_row_of tenant version i]\<rparr>)"

definition price_row_of :: "string \<Rightarrow> menu_studio_version \<Rightarrow> menu_studio_item \<Rightarrow> version_price_row" where
  "price_row_of tenant v i = \<lparr>vp_id = si_PriceID i, vp_tenant_id = tenant, vp_menu_version_id = sv_ID v, vp_menu_item_id = si_MenuItemID i,
     vp_price_minor = si_PriceMinor i, vp_currency = si_Currency i, vp_effective_from = sv_EffectiveFrom v, vp_effective_to = None\<rparr>"

definition insert_price :: "string \<Rightarrow> menu_studio_version \<Rightarrow> menu_studio_item \<Rightarrow> till_statement" where
  "insert_price tenant v i s = guarded
    [fails_if (si_PriceMinor i < 0 \<or> \<not> ValidCurrency (si_Currency i)) (Failed InvalidReference ''menu_version_item_prices_check''),
     fails_if (list_ex (\<lambda>r. vp_id r = si_PriceID i \<or> vp_tenant_id r = tenant \<and> vp_menu_version_id r = sv_ID v
       \<and> vp_menu_item_id r = si_MenuItemID i \<and> vp_effective_to r = None) (rd_prices s)) (Failed Conflict ''menu_version_item_prices'')]
    (s\<lparr>rd_prices := rd_prices s @ [price_row_of tenant v i]\<rparr>)"

definition modifier_row_of :: "string \<Rightarrow> string \<Rightarrow> string \<Rightarrow> string \<Rightarrow> item_modifier_row" where
  "modifier_row_of tenant version item gid = \<lparr>vm_tenant_id = tenant, vm_menu_version_id = version, vm_menu_item_id = item,
     vm_modifier_group_id = gid, vm_sort_order = 0\<rparr>"

text \<open>The program itself looks groups and categories up among the identifiers that it was given.\<close>

definition insert_item_modifier ::
  "string \<Rightarrow> menu_studio_version \<Rightarrow> menu_studio_version \<Rightarrow> menu_studio_item \<Rightarrow> string \<Rightarrow> till_statement" where
  "insert_item_modifier tenant v given i gid s = (let row = modifier_row_of tenant (sv_ID v) (si_MenuItemID i) (uuid_column gid) in guarded
    [fails_if (gid \<notin> mg_ID ` set (sv_Modifiers given)) (Failed InvalidReference ''modifier group is not in this version''),
     fails_if (list_ex (\<lambda>r. vm_tenant_id r = tenant \<and> vm_menu_version_id r = sv_ID v \<and> vm_menu_item_id r = si_MenuItemID i
       \<and> vm_modifier_group_id r = uuid_column gid) (rd_item_modifiers s)) (Failed Conflict ''menu_version_item_modifiers'')]
    (s\<lparr>rd_item_modifiers := rd_item_modifiers s @ [row]\<rparr>))"

definition insert_item :: "menu_studio \<Rightarrow> menu_studio_version \<Rightarrow> menu_studio_version \<Rightarrow> menu_studio_item \<Rightarrow> till_statement" where
  "insert_item studio v given i s = (let tenant = ms_TenantID studio; row = column_item i in
     if \<not> list_ex (at_row tenant (ms_OutletID studio) (si_MenuItemID row) tb_tenant_id tb_outlet_id tb_id) (rd_items s)
     then Inl (Failed InvalidReference ''menu item is not owned by menu studio outlet'')
     else if si_CategoryID i \<noteq> [] \<and> si_CategoryID i \<notin> sc_ID ` set (sv_Categories given)
     then Inl (Failed InvalidReference ''menu category is not in this version'')
     else rbind (insert_item_row tenant (sv_ID v) row s) (\<lambda>s.
       rbind (insert_price tenant v row s) (each (insert_item_modifier tenant v given row) (si_ModifierGroupIDs i))))"

definition publication_row_of :: "menu_studio \<Rightarrow> menu_studio_version \<Rightarrow> menu_publication \<Rightarrow> publication_row" where
  "publication_row_of studio v p = \<lparr>pu_tenant_id = ms_TenantID studio, pu_outlet_id = ms_OutletID studio, pu_menu_version_id = sv_ID v,
     pu_publication = p, pu_published_by = sv_PublishedBy v, pu_created_at = sv_CreatedAt v\<rparr>"

text \<open>One live publication without an end per channel, and one for no channel.\<close>

definition endless_live :: "publication_row \<Rightarrow> bool" where
  "endless_live r \<longleftrightarrow> mp_Status (pu_publication r) = ''live'' \<and> mp_EffectiveTo (pu_publication r) = None"

definition insert_publication :: "menu_studio \<Rightarrow> menu_studio_version \<Rightarrow> menu_publication \<Rightarrow> till_statement" where
  "insert_publication studio v p s =
    (if mp_ChannelID p \<noteq> [] \<and> (ms_TenantID studio, ms_OutletID studio, mp_ChannelID p) \<notin> set (rd_channels s)
     then Inl (Failed InvalidReference ''publication channel is not owned by menu studio outlet'')
     else let row = publication_row_of studio v p in guarded
      [fails_if (mp_Status p \<notin> {''scheduled'', ''live'', ''paused'', ''retired''}
         \<or> (case mp_EffectiveTo p of None \<Rightarrow> False | Some t \<Rightarrow> t \<le> mp_EffectiveFrom p)) (Failed InvalidReference ''menu_publications_check''),
       fails_if (list_ex (\<lambda>r. mp_ID (pu_publication r) = mp_ID p \<or> endless_live r \<and> endless_live row
         \<and> pu_tenant_id r = pu_tenant_id row \<and> pu_outlet_id r = pu_outlet_id row \<and> mp_ChannelID (pu_publication r) = mp_ChannelID p)
         (rd_publications s)) (Failed Conflict ''menu_publications'')]
      (s\<lparr>rd_publications := rd_publications s @ [row]\<rparr>))"

definition insertMenuStudioVersion :: "(time \<Rightarrow> time) \<Rightarrow> menu_studio \<Rightarrow> menu_studio_version \<Rightarrow> till_statement" where
  "insertMenuStudioVersion micro studio given s =
    (let studio = column_studio micro studio; v = column_version micro given in
    rbind (insert_version_row studio v s) (\<lambda>s.
    rbind (each (insert_category (ms_TenantID studio) (sv_ID v)) (sv_Categories v) s) (\<lambda>s.
    rbind (each (insert_group (ms_TenantID studio) (sv_ID v)) (sv_Modifiers v) s) (\<lambda>s.
    rbind (each (insert_item studio v given) (sv_Items given) s)
      (each (insert_publication studio v) (sv_Publications v))))))"

subsection \<open>Studios\<close>

definition insert_studio :: "menu_studio \<Rightarrow> till_statement" where
  "insert_studio studio s = guarded
    [fails_if (uint (ms_Version studio) \<ge> 2 ^ 63) (unmapped ''bigint out of range''),
     fails_if (\<not> text_within 160 (ms_Name studio) \<or> ms_Status studio \<notin> {''draft'', ''published'', ''archived''} \<or> ms_Version studio = 0)
       (Failed InvalidReference ''menu_studios_check''),
     fails_if (list_ex (\<lambda>r. ms_ID r = ms_ID studio \<or> ms_TenantID r = ms_TenantID studio \<and> ms_OutletID r = ms_OutletID studio
       \<and> ms_Name r = ms_Name studio) (rd_studios s)) (Failed Conflict ''menu_studios''),
     fails_if ((ms_TenantID studio, ms_OutletID studio) \<notin> set (cm_outlets (rd_commerce s))) (Failed InvalidReference ''menu_studios'')]
    (s\<lparr>rd_studios := rd_studios s @ [studio\<lparr>ms_Current := None\<rparr>]\<rparr>)"

text \<open>The current version must exist when the transaction commits.\<close>

definition check_current :: "menu_studio \<Rightarrow> till_statement" where
  "check_current studio s = guarded
    [fails_if (list_ex (\<lambda>r. ms_TenantID r = ms_TenantID studio \<and> ms_ID r = ms_ID studio \<and> ms_CurrentVersionID r \<noteq> []
         \<and> \<not> list_ex (\<lambda>q. vv_tenant_id q = ms_TenantID r \<and> sv_ID (vv_version q) = ms_CurrentVersionID r) (rd_menu_versions s)) (rd_studios s))
       (Failed InvalidReference ''menu_studios_current_version_fk'')] s"

definition CreateMenuStudio ::
  "(time \<Rightarrow> time) \<Rightarrow> core_failure option \<Rightarrow> menu_studio \<Rightarrow> menu_studio_version \<Rightarrow> audit_event \<Rightarrow> restaurant_db
    \<Rightarrow> (core_failure + menu_studio) \<times> restaurant_db" where
  "CreateMenuStudio micro ctx studio v a = till_transaction ctx (\<lambda>s.
    let row = column_studio micro studio; published = (sv_Status v = ''published'') in
    rbind (insert_studio row s) (\<lambda>s.
    rbind (insertMenuStudioVersion micro studio v s) (\<lambda>s.
    let s = (if published then s\<lparr>rd_studios := update_where (\<lambda>r. ms_TenantID r = ms_TenantID row \<and> ms_ID r = ms_ID row)
               (\<lambda>r. r\<lparr>ms_Status := ''published'', ms_CurrentVersionID := uuid_column (sv_ID v), ms_UpdatedAt := micro (ae_RecordedAt a)\<rparr>)
               (rd_studios s)\<rparr> else s) in
    rbind (in_commerce (insertAudit (ms_TenantID studio) a) s) (\<lambda>s.
    rbind (check_current row s) (\<lambda>s.
    Inr ((if published then studio\<lparr>ms_Status := ''published'', ms_CurrentVersionID := sv_ID v, ms_UpdatedAt := ae_RecordedAt a\<rparr>
          else studio)\<lparr>ms_Current := Some v\<rparr>, s))))))"

definition last_version :: "string \<Rightarrow> string \<Rightarrow> restaurant_db \<Rightarrow> int" where
  "last_version tenant studio s = fold (\<lambda>r n. if vv_tenant_id r = uuid_column tenant \<and> sv_MenuStudioID (vv_version r) = studio
     then max n (sv_VersionNumber (vv_version r)) else n) (rd_menu_versions s) 0"

definition studio_at :: "string \<Rightarrow> string \<Rightarrow> string \<Rightarrow> menu_studio \<Rightarrow> bool" where
  "studio_at tenant outlet id' = at_row (uuid_column tenant) (uuid_column outlet) (uuid_column id') ms_TenantID ms_OutletID ms_ID"

text \<open>Only a published version raises the stored version of the studio; the returned one is always raised.\<close>

definition AddMenuStudioVersion ::
  "(time \<Rightarrow> time) \<Rightarrow> core_failure option \<Rightarrow> string \<Rightarrow> string \<Rightarrow> menu_studio_version \<Rightarrow> 64 word \<Rightarrow> audit_event \<Rightarrow> restaurant_db
    \<Rightarrow> (core_failure + menu_studio) \<times> restaurant_db" where
  "AddMenuStudioVersion micro ctx tenant outlet v expected a = till_transaction ctx (\<lambda>s.
    rbind (query_row (studio_at tenant outlet (sv_MenuStudioID v)) (rd_studios s)) (\<lambda>studio.
    if ms_Version studio \<noteq> expected then Inl (Failed VersionConflict [])
    else if sv_VersionNumber v \<noteq> last_version tenant (ms_ID studio) s + 1 then Inl (Failed VersionConflict ''menu version must be the next'')
    else rbind (insertMenuStudioVersion micro studio v s) (\<lambda>s.
    let published = (sv_Status v = ''published'');
        s = (if published then s\<lparr>rd_studios := update_where (studio_at tenant outlet (ms_ID studio))
               (\<lambda>r. r\<lparr>ms_Status := ''published'', ms_CurrentVersionID := uuid_column (sv_ID v), ms_Version := ms_Version r + 1,
                 ms_UpdatedAt := micro (ae_RecordedAt a)\<rparr>) (rd_studios s)\<rparr> else s) in
    rbind (guarded [fails_if (published \<and> uint (ms_Version studio) + 1 \<ge> 2 ^ 63) (unmapped ''bigint out of range'')] s) (\<lambda>s.
    rbind (in_commerce (insertAudit tenant a) s) (\<lambda>s.
    Inr ((if published then studio\<lparr>ms_Status := ''published'', ms_CurrentVersionID := sv_ID v\<rparr> else studio)
      \<lparr>ms_Version := ms_Version studio + 1, ms_UpdatedAt := ae_RecordedAt a, ms_Current := Some v\<rparr>, s))))))"

subsection \<open>Reading a version\<close>

definition loaded_groups :: "string \<Rightarrow> string \<Rightarrow> restaurant_db \<Rightarrow> menu_modifier_group list" where
  "loaded_groups tenant id' s = map (\<lambda>g. g\<lparr>mg_Options := sort_key (\<lambda>opt. (mo_SortOrder opt, mo_ID opt))
       (map op_option (filter (\<lambda>r. op_tenant_id r = tenant \<and> op_modifier_group_id r = mg_ID g) (rd_options s)))\<rparr>)
     (sort_key (\<lambda>g. (mg_SortOrder g, mg_ID g)) (map gr_group (filter (\<lambda>r. gr_tenant_id r = tenant \<and> gr_menu_version_id r = id') (rd_groups s))))"

definition item_groups :: "string \<Rightarrow> string \<Rightarrow> string \<Rightarrow> restaurant_db \<Rightarrow> string list" where
  "item_groups tenant id' item s = map vm_modifier_group_id (sort_key (\<lambda>r. (vm_sort_order r, vm_modifier_group_id r))
     (filter (\<lambda>r. vm_tenant_id r = tenant \<and> vm_menu_version_id r = id' \<and> vm_menu_item_id r = item) (rd_item_modifiers s)))"

definition loaded_items :: "(string \<Rightarrow> string) \<Rightarrow> string \<Rightarrow> string \<Rightarrow> restaurant_db \<Rightarrow> menu_studio_item list" where
  "loaded_items collate tenant id' s = sort_key (\<lambda>i. (si_SortOrder i, collate (si_DisplayName i), si_MenuItemID i))
     [\<lparr>si_MenuItemID = vt_menu_item_id r, si_CategoryID = vt_category_id r, si_DisplayName = vt_display_name r,
        si_Description = vt_description r, si_SortOrder = vt_sort_order r, si_Active = vt_active r,
        si_ModifierGroupIDs = item_groups tenant id' (vt_menu_item_id r) s, si_PriceID = vp_id p, si_PriceMinor = vp_price_minor p,
        si_Currency = vp_currency p\<rparr>.
      r \<leftarrow> rd_version_items s, vt_tenant_id r = tenant \<and> vt_menu_version_id r = id',
      p \<leftarrow> rd_prices s, vp_tenant_id p = tenant \<and> vp_menu_version_id p = id' \<and> vp_menu_item_id p = vt_menu_item_id r \<and> vp_effective_to p = None]"

definition loadMenuStudioVersion :: "(string \<Rightarrow> string) \<Rightarrow> string \<Rightarrow> string \<Rightarrow> restaurant_db \<Rightarrow> core_failure + menu_studio_version" where
  "loadMenuStudioVersion collate tenant id' s = (let tenant = uuid_column tenant; id' = uuid_column id' in
    rbind (query_row (\<lambda>r. vv_tenant_id r = tenant \<and> sv_ID (vv_version r) = id') (rd_menu_versions s)) (\<lambda>r.
    Inr ((vv_version r)\<lparr>
      sv_Categories := sort_key (\<lambda>c. (sc_SortOrder c, sc_ID c))
        (map cy_category (filter (\<lambda>r. cy_tenant_id r = tenant \<and> cy_menu_version_id r = id') (rd_categories s))),
      sv_Modifiers := loaded_groups tenant id' s,
      sv_Items := loaded_items collate tenant id' s,
      sv_Publications := sort_key (\<lambda>p. (mp_EffectiveFrom p, mp_ID p))
        (map pu_publication (filter (\<lambda>r. pu_tenant_id r = tenant \<and> pu_menu_version_id r = id') (rd_publications s)))\<rparr>)))"

fun load_current :: "(string \<Rightarrow> string) \<Rightarrow> string \<Rightarrow> restaurant_db \<Rightarrow> menu_studio list \<Rightarrow> core_failure + menu_studio list" where
  "load_current collate tenant s [] = Inr []"
| "load_current collate tenant s (studio # studios) =
    rbind (if ms_CurrentVersionID studio = [] then Inr None
           else rbind (loadMenuStudioVersion collate tenant (ms_CurrentVersionID studio) s) (\<lambda>v. Inr (Some v))) (\<lambda>current.
    rbind (load_current collate tenant s studios) (\<lambda>rest. Inr (studio\<lparr>ms_Current := current\<rparr> # rest)))"

definition MenuStudios :: "(string \<Rightarrow> string) \<Rightarrow> string \<Rightarrow> string \<Rightarrow> restaurant_db \<Rightarrow> core_failure + menu_studio list" where
  "MenuStudios collate tenant outlet s = load_current collate tenant s
     (sort_key (\<lambda>r. (collate (ms_Name r), ms_ID r)) (filter (\<lambda>r. ms_TenantID r = uuid_column tenant \<and> ms_OutletID r = uuid_column outlet) (rd_studios s)))"

text \<open>The best live publication: for the channel before for all, then the latest.\<close>

definition live_candidates :: "string \<Rightarrow> string \<Rightarrow> string \<Rightarrow> time \<Rightarrow> restaurant_db \<Rightarrow> (publication_row \<times> menu_studio) list" where
  "live_candidates tenant outlet channel at s =
     [(r, studio). r \<leftarrow> rd_publications s,
        pu_tenant_id r = tenant \<and> pu_outlet_id r = outlet \<and> mp_Status (pu_publication r) = ''live'' \<and> mp_EffectiveFrom (pu_publication r) \<le> at
        \<and> (case mp_EffectiveTo (pu_publication r) of None \<Rightarrow> True | Some t \<Rightarrow> t > at)
        \<and> (mp_ChannelID (pu_publication r) = [] \<or> mp_ChannelID (pu_publication r) = channel),
      v \<leftarrow> rd_menu_versions s, vv_tenant_id v = tenant \<and> sv_ID (vv_version v) = pu_menu_version_id r \<and> sv_Status (vv_version v) = ''published'',
      studio \<leftarrow> rd_studios s, ms_TenantID studio = tenant \<and> ms_ID studio = sv_MenuStudioID (vv_version v)]"

definition live_rank :: "publication_row \<times> menu_studio \<Rightarrow> bool \<times> time \<times> string" where
  "live_rank = (\<lambda>(r, studio). (mp_ChannelID (pu_publication r) \<noteq> [], mp_EffectiveFrom (pu_publication r), mp_ID (pu_publication r)))"

definition LiveMenuStudio ::
  "(time \<Rightarrow> time) \<Rightarrow> (string \<Rightarrow> string) \<Rightarrow> string \<Rightarrow> string \<Rightarrow> string \<Rightarrow> time \<Rightarrow> restaurant_db \<Rightarrow> core_failure + menu_studio" where
  "LiveMenuStudio micro collate tenant outlet channel at s =
    (let found = live_candidates (uuid_column tenant) (uuid_column outlet) (uuid_column channel) (micro at) s in
    rbind (query_row (\<lambda>_. True) (rev (sort_key live_rank found))) (\<lambda>(r, studio).
    rbind (loadMenuStudioVersion collate tenant (pu_menu_version_id r) s) (\<lambda>v.
    Inr (studio\<lparr>ms_CurrentVersionID := pu_menu_version_id r, ms_Current := Some v\<rparr>))))"

end
