(* ===== verification/Core_Commerce_Invariant.thy ===== *)
theory Core_Commerce_Invariant
  imports Core_Commerce
begin

text \<open>
  The invariants of the commerce tables: what is paid on an order stays within its total and what is
  refunded within the tender, the expected cash of a shift is what its log and its tenders say, and a
  table is occupied exactly by its open session. Every operation keeps them.
\<close>

subsection \<open>What the operations do to the tables\<close>

abbreviation tenders :: "commerce_db \<Rightarrow> tender list" where
  "tenders s \<equiv> map tr_tender (cm_tenders s)"

lemma with_tenant_cases:
  assumes "with_tenant ctx body s = (r, s')"
  obtains "s' = s" | v where "r = Inr v" "body s = Inr (v, s')"
  using assms by (auto simp: with_tenant_def transact_def split: sum.splits option.splits prod.splits)

lemma constrained_Inr: "constrained checks s = Inr s' \<longleftrightarrow> (\<forall>c \<in> set checks. c = None) \<and> s' = s"
  by (simp add: constrained_def guarded_Inr_iff)

lemma audited_Inr: "audited tenant a v s = Inr (x, s') \<Longrightarrow> x = v \<and> s' = s\<lparr>cm_audits := cm_audits s @ [a]\<rparr>"
  by (auto simp: audited_def insertAudit_def constrained_Inr rbind_Inr_iff)

lemma query_row_Inr: "query_row P rows = Inr r \<Longrightarrow> r \<in> set rows \<and> P r"
  by (auto simp: query_row_def find_Some_iff split: option.splits)

lemma scanned_sum_Inr: "scanned_sum amounts = Inr n \<longleftrightarrow> n = sum_list amounts \<and> in_int64 n"
  by (auto simp: scanned_sum_def Let_def)

lemmas commerce_Inr = constrained_Inr rbind_Inr_iff scanned_sum_Inr

text \<open>A new tender row, and what it does to the cash of its shift.\<close>

definition open_shift_at :: "tender \<Rightarrow> cash_shift \<Rightarrow> bool" where
  "open_shift_at v r \<longleftrightarrow> shift_at (td_TenantID v) (td_OutletID v) (td_CashShiftID v) r \<and> cs_Status r = ''open''"

definition cash_posted :: "tender \<Rightarrow> commerce_db \<Rightarrow> commerce_db \<Rightarrow> bool" where
  "cash_posted v s s' \<longleftrightarrow>
    (if td_TenderType v = ''cash''
     then (\<exists>r \<in> set (cm_shifts s). open_shift_at v r)
       \<and> cm_shifts s' = update_where (open_shift_at v) (\<lambda>r. r\<lparr>cs_ExpectedCashMinor := cs_ExpectedCashMinor r + signed_amount v\<rparr>) (cm_shifts s)
       \<and> (\<exists>e. cm_cash_events s' = cm_cash_events s @ [e] \<and> ca_tenant_id e = td_TenantID v
            \<and> ca_cash_shift_id e = td_CashShiftID v \<and> ca_amount_minor e = signed_amount v)
     else cm_shifts s' = cm_shifts s \<and> cm_cash_events s' = cm_cash_events s)"

definition posted :: "tender \<Rightarrow> commerce_db \<Rightarrow> commerce_db \<Rightarrow> bool" where
  "posted v s s' \<longleftrightarrow> tenders s' = tenders s @ [v] \<and> td_ID v \<notin> set (map td_ID (tenders s)) \<and> td_ID v \<noteq> [] \<and> 0 < td_AmountMinor v
     \<and> cm_orders s' = cm_orders s \<and> cm_tables s' = cm_tables s \<and> cm_sessions s' = cm_sessions s \<and> cash_posted v s s'"

lemma move_cash_Inr: "move_cash v amount s = Inr s' \<Longrightarrow> \<exists>shifts. s' = s\<lparr>cm_shifts := shifts\<rparr>
    \<and> (if td_TenderType v = ''cash'' then (\<exists>r \<in> set (cm_shifts s). open_shift_at v r)
         \<and> shifts = update_where (open_shift_at v) (\<lambda>r. r\<lparr>cs_ExpectedCashMinor := cs_ExpectedCashMinor r + amount\<rparr>) (cm_shifts s)
       else shifts = cm_shifts s)"
  by (auto simp: move_cash_def add_expected_cash_def Let_def open_shift_at_def [abs_def] length_Suc_conv filter_eq_Cons_iff split: if_splits)

lemma log_cash_Inr: "log_cash sha256 part event_type reason v amount a s = Inr s' \<Longrightarrow> \<exists>events. s' = s\<lparr>cm_cash_events := events\<rparr>
    \<and> (if td_TenderType v = ''cash'' then (\<exists>e. events = cm_cash_events s @ [e] \<and> ca_tenant_id e = td_TenantID v
         \<and> ca_cash_shift_id e = td_CashShiftID v \<and> ca_amount_minor e = amount)
       else events = cm_cash_events s)"
  by (auto simp: log_cash_def insert_cash_event_def constrained_Inr split: if_splits)

lemma insert_tender_Inr: "insert_tender v a s = Inr s' \<Longrightarrow> \<exists>row. s' = s\<lparr>cm_tenders := cm_tenders s @ [row]\<rparr> \<and> tr_tender row = v
    \<and> td_ID v \<notin> set (map td_ID (tenders s)) \<and> td_ID v \<noteq> [] \<and> 0 < td_AmountMinor v"
  by (auto simp: insert_tender_def constrained_Inr list_ex_iff not_le intro!: exI)

lemma issue_receipt_Inr: "issue_receipt v receipt order a s = Inr (r, s') \<Longrightarrow> \<exists>receipts. s' = s\<lparr>cm_receipts := receipts\<rparr>"
  by (auto simp: issue_receipt_def Let_def commerce_Inr split: if_splits) (rule exI [of _ "cm_receipts s"], simp)

lemma postedI:
  assumes "move_cash v (signed_amount w) s = Inr s1" "insert_tender w a s1 = Inr s2"
    and "log_cash sha256 part event_type reason v (signed_amount w) a s2 = Inr s3"
    and w: "td_TenderType w = td_TenderType v" "td_TenantID w = td_TenantID v" "td_OutletID w = td_OutletID v"
      "td_CashShiftID w = td_CashShiftID v"
    and "s' = s3\<lparr>cm_receipts := receipts, cm_audits := audits\<rparr>"
  shows "posted w s s'"
proof -
  have hit: "open_shift_at v = open_shift_at w" using w by (simp add: open_shift_at_def fun_eq_iff)
  from move_cash_Inr [OF assms(1)] insert_tender_Inr [OF assms(2)] log_cash_Inr [OF assms(3)]
  show ?thesis by (auto simp: posted_def cash_posted_def assms(8) hit w split: if_splits)
qed

lemma capture_posted:
  assumes "capture_tender sha256 v receipt a seen s = Inr (x, s')"
  shows "\<exists>order \<in> set (cm_orders seen). order_at (td_TenantID v) (td_OutletID v) (td_OrderID v) order
    \<and> wrap64 (sum_list (map signed_amount (tenders_of_order (td_TenantID v) (td_OrderID v) seen)) + td_AmountMinor v) \<le> bo_total_minor order
    \<and> posted (v\<lparr>td_Status := ''captured'', td_ReversesTenderID := []\<rparr>) s s'"
proof -
  let ?w = "v\<lparr>td_Status := ''captured'', td_ReversesTenderID := []\<rparr>"
  have w: "signed_amount ?w = td_AmountMinor v" by (simp add: signed_amount_def)
  obtain order paid s1 s2 s3 issued s4 where
    order: "query_row (order_at (td_TenantID v) (td_OutletID v) (td_OrderID v)) (cm_orders seen) = Inr order"
    and paid: "scanned_sum (map signed_amount (tenders_of_order (td_TenantID v) (td_OrderID v) seen)) = Inr paid"
      "wrap64 (paid + td_AmountMinor v) \<le> bo_total_minor order"
    and run: "move_cash v (td_AmountMinor v) s = Inr s1" "insert_tender ?w a s1 = Inr s2"
      "log_cash sha256 ''cash'' ''cash_sale'' ''order tender'' v (td_AmountMinor v) a s2 = Inr s3"
    and receipt: "(if wrap64 (paid + td_AmountMinor v) \<ge> bo_total_minor order
      then rbind (issue_receipt v receipt order a s3) (\<lambda>(r, s). Inr (Some r, s)) else Inr (None, s3)) = Inr (issued, s4)"
    and last: "audited (td_TenantID v) a (v, issued) s4 = Inr (x, s')"
    using assms by (auto simp: capture_tender_def rbind_Inr_iff not_less split: prod.splits)
  obtain receipts where "s4 = s3\<lparr>cm_receipts := receipts\<rparr>"
    using receipt by (auto simp: rbind_Inr_iff split: if_splits dest!: issue_receipt_Inr)
      (metis commerce_db.surjective commerce_db.update_convs(11))
  with audited_Inr [OF last] have s': "s' = s3\<lparr>cm_receipts := receipts, cm_audits := cm_audits s3 @ [a]\<rparr>" by simp
  have "posted ?w s s'"
    by (rule postedI [OF run [folded w] _ _ _ _ s']) simp_all
  with query_row_Inr [OF order] paid show ?thesis by (auto simp: scanned_sum_Inr)
qed

definition refund_row :: "tender \<Rightarrow> tender \<Rightarrow> tender" where
  "refund_row original v = v\<lparr>td_OrderID := td_OrderID original, td_TenderType := td_TenderType original,
     td_Currency := td_Currency original, td_Status := ''reversed''\<rparr>"

lemma reverse_posted:
  assumes "ReverseTender sha256 ctx v a s = (Inr x, s')"
  shows "\<exists>original \<in> set (tenders s). td_TenantID original = td_TenantID v \<and> td_ID original = td_ReversesTenderID v
    \<and> td_Status original = ''captured''
    \<and> wrap64 (sum_list (map td_AmountMinor (refunds_of (td_TenantID v) (td_ReversesTenderID v) s)) + td_AmountMinor v)
        \<le> td_AmountMinor original
    \<and> posted (refund_row original v) s s'"
proof -
  let ?w = "\<lambda>original. refund_row original v"
  have w: "signed_amount (?w original) = - td_AmountMinor v" for original by (simp add: signed_amount_def refund_row_def)
  obtain row reversed s1 s2 s3 where
    row: "query_row (captured_at (td_TenantID v) (td_OutletID v) (td_ReversesTenderID v)) (cm_tenders s) = Inr row"
    and reversed: "scanned_sum (map td_AmountMinor (refunds_of (td_TenantID v) (td_ReversesTenderID v) s)) = Inr reversed"
      "wrap64 (reversed + td_AmountMinor v) \<le> td_AmountMinor (tr_tender row)"
    and run: "move_cash (?w (tr_tender row)) (- td_AmountMinor v) s = Inr s1" "insert_tender (?w (tr_tender row)) a s1 = Inr s2"
      "log_cash sha256 ''cash-refund'' ''cash_refund'' ''tender reversal'' (?w (tr_tender row)) (- td_AmountMinor v) a s2 = Inr s3"
    and last: "audited (td_TenantID v) a (?w (tr_tender row)) s3 = Inr (x, s')"
    using assms
    by (auto simp: ReverseTender_def with_tenant_def transact_Inr_iff Let_def rbind_Inr_iff not_less refund_row_def
        split: if_splits option.splits)
  from audited_Inr [OF last] have s': "s' = s3\<lparr>cm_receipts := cm_receipts s3, cm_audits := cm_audits s3 @ [a]\<rparr>" by simp
  have "posted (?w (tr_tender row)) s s'"
    by (rule postedI [OF run [folded w [of "tr_tender row"]] _ _ _ _ s']) simp_all
  moreover from query_row_Inr [OF row] have "tr_tender row \<in> set (tenders s)" "captured_at (td_TenantID v) (td_OutletID v) (td_ReversesTenderID v) row"
    by simp_all
  ultimately show ?thesis using reversed by (auto simp: scanned_sum_Inr captured_at_def Let_def intro!: bexI [of _ "tr_tender row"])
qed

subsection \<open>Payments\<close>

definition small :: "int \<Rightarrow> bool" where
  "small n \<longleftrightarrow> 0 \<le> n \<and> n < 2 ^ 62"

text \<open>The sums that a payment or a refund is checked against.\<close>

definition paid_on :: "string \<Rightarrow> string \<Rightarrow> tender list \<Rightarrow> int" where
  "paid_on tenant orderID vs = sum_list (map signed_amount (filter (\<lambda>v. td_TenantID v = tenant \<and> td_OrderID v = orderID) vs))"

definition refunded_of :: "string \<Rightarrow> string \<Rightarrow> tender list \<Rightarrow> int" where
  "refunded_of tenant id' vs = sum_list (map td_AmountMinor (filter (\<lambda>v. td_TenantID v = tenant \<and> td_ReversesTenderID v = id') vs))"

definition tender_row_ok :: "tender list \<Rightarrow> tender \<Rightarrow> bool" where
  "tender_row_ok vs v \<longleftrightarrow> td_ID v \<noteq> [] \<and> 0 < td_AmountMinor v
     \<and> (td_Status v = ''captured'' \<and> td_ReversesTenderID v = []
        \<or> td_Status v = ''reversed'' \<and> (\<exists>w \<in> set vs. td_Status w = ''captured'' \<and> td_ID w = td_ReversesTenderID v
            \<and> td_TenantID w = td_TenantID v \<and> td_OrderID w = td_OrderID v \<and> td_TenderType w = td_TenderType v))"

text \<open>
  The orders in \<open>D\<close> are those whose payments were disturbed. Of them only the rows are known to fit, of all
  others also the sums.
\<close>

definition order_key :: "tender \<Rightarrow> string \<times> string" where
  "order_key v = (td_TenantID v, td_OrderID v)"

definition bill_key :: "billed_order \<Rightarrow> string \<times> string" where
  "bill_key b = (bo_tenant_id b, bo_id b)"

definition rows_fit :: "billed_order list \<Rightarrow> tender list \<Rightarrow> bool" where
  "rows_fit os vs \<longleftrightarrow> distinct (map bill_key os) \<and> distinct (map td_ID vs) \<and> (\<forall>v \<in> set vs. tender_row_ok vs v)
     \<and> (\<forall>v \<in> set vs. order_key v \<in> bill_key ` set os)"

definition payments_hold :: "(string \<times> string) set \<Rightarrow> billed_order list \<Rightarrow> tender list \<Rightarrow> bool" where
  "payments_hold D os vs \<longleftrightarrow> rows_fit os vs
     \<and> (\<forall>b \<in> set os. bill_key b \<notin> D \<longrightarrow> small (bo_total_minor b) \<and> paid_on (bo_tenant_id b) (bo_id b) vs \<le> bo_total_minor b)
     \<and> (\<forall>v \<in> set vs. order_key v \<notin> D \<longrightarrow> small (td_AmountMinor v)
          \<and> (td_Status v = ''captured'' \<longrightarrow> refunded_of (td_TenantID v) (td_ID v) vs \<le> td_AmountMinor v))"

lemma payments_hold_mono: "payments_hold D os vs \<Longrightarrow> D \<subseteq> E \<Longrightarrow> payments_hold E os vs"
  by (auto simp: payments_hold_def)

lemma paid_on_snoc: "paid_on tenant orderID (vs @ [v]) = paid_on tenant orderID vs
    + (if td_TenantID v = tenant \<and> td_OrderID v = orderID then signed_amount v else 0)"
  by (simp add: paid_on_def)

lemma refunded_of_snoc: "refunded_of tenant id' (vs @ [v]) = refunded_of tenant id' vs
    + (if td_TenantID v = tenant \<and> td_ReversesTenderID v = id' then td_AmountMinor v else 0)"
  by (simp add: refunded_of_def)

lemma refunded_nonneg: "\<forall>v \<in> set vs. 0 < td_AmountMinor v \<Longrightarrow> 0 \<le> refunded_of tenant id' vs"
  by (auto simp: refunded_of_def less_imp_le intro!: sum_list_nonneg)

text \<open>
  Within an order the captured amounts cover the refunds, because every refund belongs to a captured
  tender of the same order.
\<close>

lemma sum_refunds_by_tender:
  assumes "distinct (map td_ID ws)"
    and "\<And>r. r \<in> set rs \<Longrightarrow> \<exists>w \<in> set ws. td_ID w = td_ReversesTenderID r"
  shows "sum_list (map td_AmountMinor rs)
    = sum_list (map (\<lambda>w. sum_list (map td_AmountMinor (filter (\<lambda>r. td_ReversesTenderID r = td_ID w) rs))) ws)"
  using assms
proof (induction rs)
  case (Cons r rs)
  from Cons.prems(2) [of r] obtain w where w: "w \<in> set ws" "td_ID w = td_ReversesTenderID r" by auto
  have once: "sum_list (map (\<lambda>w. if td_ReversesTenderID r = td_ID w then td_AmountMinor r else 0) ws) = td_AmountMinor r"
    using w Cons.prems(1)
  proof (induction ws)
    case (Cons x xs)
    show ?case
    proof (cases "td_ID x = td_ReversesTenderID r")
      case True
      with Cons.prems have "\<forall>y \<in> set xs. td_ID y \<noteq> td_ReversesTenderID r" by force
      then have "map (\<lambda>w. if td_ReversesTenderID r = td_ID w then td_AmountMinor r else 0) xs = map (\<lambda>_. 0) xs"
        by (intro map_cong) auto
      then have "sum_list (map (\<lambda>w. if td_ReversesTenderID r = td_ID w then td_AmountMinor r else 0) xs) = 0"
        by (simp only: sum_list_0)
      with True show ?thesis by simp
    next
      case False
      with Cons show ?thesis by auto
    qed
  qed simp
  have "sum_list (map (\<lambda>w. sum_list (map td_AmountMinor (filter (\<lambda>r'. td_ReversesTenderID r' = td_ID w) (r # rs)))) ws)
     = sum_list (map (\<lambda>w. (if td_ReversesTenderID r = td_ID w then td_AmountMinor r else 0)
         + sum_list (map td_AmountMinor (filter (\<lambda>r'. td_ReversesTenderID r' = td_ID w) rs))) ws)"
    by (intro arg_cong [where f = sum_list] map_cong) auto
  also have "\<dots> = td_AmountMinor r + sum_list (map td_AmountMinor rs)"
    using Cons once by (simp add: sum_list_addf)
  finally show ?case by simp
qed simp

lemma signed_sum_split: "sum_list (map signed_amount vs) = sum_list (map td_AmountMinor (filter (\<lambda>v. td_Status v = ''captured'') vs))
    - sum_list (map td_AmountMinor (filter (\<lambda>v. td_Status v \<noteq> ''captured'') vs))"
  by (induction vs) (auto simp: signed_amount_def)

lemma paid_on_nonneg:
  assumes ok: "payments_hold D os us" and calm: "(tenant, orderID) \<notin> D"
  shows "0 \<le> paid_on tenant orderID us"
proof -
  define vs where "vs = filter (\<lambda>v. td_TenantID v = tenant \<and> td_OrderID v = orderID) us"
  define ws where "ws = filter (\<lambda>v. td_Status v = ''captured'') vs"
  define rs where "rs = filter (\<lambda>v. td_Status v \<noteq> ''captured'') vs"
  have rows: "\<And>v. v \<in> set us \<Longrightarrow> tender_row_ok us v" using ok by (simp add: payments_hold_def rows_fit_def)
  have d: "distinct (map td_ID ws)" using ok by (simp add: payments_hold_def rows_fit_def ws_def vs_def distinct_map_filter)
  have owner: "\<exists>w \<in> set ws. td_ID w = td_ReversesTenderID r" if "r \<in> set rs" for r
    using that rows [of r] by (auto simp: rs_def ws_def vs_def tender_row_ok_def)
  have "sum_list (map td_AmountMinor (filter (\<lambda>r. td_ReversesTenderID r = td_ID w) rs)) \<le> td_AmountMinor w" if w: "w \<in> set ws" for w
  proof -
    have pos: "0 \<le> td_AmountMinor v" if "v \<in> set us" for v using rows [OF that] by (simp add: tender_row_ok_def)
    have "sum_list (map td_AmountMinor (filter (\<lambda>r. td_ReversesTenderID r = td_ID w) rs))
      = sum_list (map td_AmountMinor (filter (\<lambda>v. td_Status v \<noteq> ''captured'' \<and> td_OrderID v = orderID) (filter (\<lambda>v.
          td_TenantID v = tenant \<and> td_ReversesTenderID v = td_ID w) us)))"
      unfolding rs_def vs_def by (intro arg_cong [where f = "\<lambda>xs. sum_list (map td_AmountMinor xs)"]) (auto intro: filter_cong)
    also have "\<dots> \<le> refunded_of tenant (td_ID w) us"
    proof -
      have "sum_list (map td_AmountMinor (filter P xs)) \<le> sum_list (map td_AmountMinor xs)" if "\<forall>v \<in> set xs. 0 \<le> td_AmountMinor v" for P xs
        using that by (induction xs) auto
      note mono = this
      show ?thesis unfolding refunded_of_def by (rule mono) (use pos in auto)
    qed
    also have "\<dots> \<le> td_AmountMinor w" using ok calm w by (auto simp: payments_hold_def order_key_def ws_def vs_def)
    finally show ?thesis .
  qed
  then have "sum_list (map (\<lambda>w. sum_list (map td_AmountMinor (filter (\<lambda>r. td_ReversesTenderID r = td_ID w) rs))) ws) \<le> sum_list (map td_AmountMinor ws)"
    by (rule sum_list_mono)
  then have "sum_list (map td_AmountMinor rs) \<le> sum_list (map td_AmountMinor ws)" by (simp only: sum_refunds_by_tender [OF d owner])
  then show ?thesis
    by (simp add: paid_on_def signed_sum_split ws_def rs_def vs_def)
qed

text \<open>A tender that is added to its order; what it is of concern for is this order only.\<close>

lemma add_tender_rows:
  assumes "rows_fit os vs" "td_ID v \<notin> set (map td_ID vs)" "order_key v \<in> bill_key ` set os" "tender_row_ok (vs @ [v]) v"
  shows "rows_fit os (vs @ [v])"
proof -
  have "tender_row_ok (vs @ [v]) w" if "w \<in> set vs" for w
    using assms(1) that by (auto simp: rows_fit_def tender_row_ok_def)
  with assms show ?thesis by (simp add: rows_fit_def)
qed

lemma refund_key:
  assumes "rows_fit os vs" "w \<in> set vs" "td_Status w = ''captured''" "r \<in> set vs" "td_ReversesTenderID r = td_ID w"
  shows "order_key r = order_key w"
proof -
  have "tender_row_ok vs w" "tender_row_ok vs r" using assms(1,2,4) by (simp_all add: rows_fit_def)
  then have "td_ID w \<noteq> []" "tender_row_ok vs r" by (simp_all add: tender_row_ok_def)
  then obtain u where "u \<in> set vs" "td_ID u = td_ID w" "order_key u = order_key r"
    using assms(5) by (auto simp: tender_row_ok_def order_key_def)
  moreover from this(1,2) assms(1,2) have "u = w" by (auto simp: rows_fit_def distinct_map inj_on_def)
  ultimately show ?thesis by simp
qed

lemma add_tender_payments:
  assumes ok: "payments_hold D os vs" and rows: "rows_fit os (vs @ [v])"
    and paid: "order_key v \<notin> D \<Longrightarrow> small (td_AmountMinor v)
      \<and> (\<forall>b \<in> set os. bill_key b = order_key v \<longrightarrow> paid_on (td_TenantID v) (td_OrderID v) vs + signed_amount v \<le> bo_total_minor b)"
    and refunds: "\<And>w. order_key v \<notin> D \<Longrightarrow> w \<in> set (vs @ [v]) \<Longrightarrow> td_Status w = ''captured'' \<Longrightarrow> td_ReversesTenderID v = td_ID w
      \<Longrightarrow> refunded_of (td_TenantID w) (td_ID w) vs + td_AmountMinor v \<le> td_AmountMinor w"
    and fresh: "order_key v \<notin> D \<Longrightarrow> td_Status v = ''captured'' \<Longrightarrow> refunded_of (td_TenantID v) (td_ID v) vs \<le> td_AmountMinor v"
  shows "payments_hold D os (vs @ [v])"
proof -
  have "small (bo_total_minor b) \<and> paid_on (bo_tenant_id b) (bo_id b) (vs @ [v]) \<le> bo_total_minor b"
    if "b \<in> set os" "bill_key b \<notin> D" for b
    using ok paid that by (auto simp: payments_hold_def paid_on_snoc bill_key_def order_key_def)
  moreover have "small (td_AmountMinor w) \<and> (td_Status w = ''captured'' \<longrightarrow> refunded_of (td_TenantID w) (td_ID w) (vs @ [v]) \<le> td_AmountMinor w)"
    if w: "w \<in> set (vs @ [v])" "order_key w \<notin> D" for w
  proof -
    have small: "small (td_AmountMinor w)" using w ok paid by (auto simp: payments_hold_def)
    have "refunded_of (td_TenantID w) (td_ID w) (vs @ [v]) \<le> td_AmountMinor w" if c: "td_Status w = ''captured''"
    proof (cases "td_ReversesTenderID v = td_ID w")
      case True
      then have "order_key v = order_key w" using refund_key [OF rows w(1) c] by simp
      with w have "order_key v \<notin> D" by simp
      from refunds [OF this w(1) c True] show ?thesis using True \<open>order_key v = order_key w\<close>
        by (simp add: refunded_of_snoc order_key_def)
    next
      case False
      then have "refunded_of (td_TenantID w) (td_ID w) (vs @ [v]) = refunded_of (td_TenantID w) (td_ID w) vs" by (simp add: refunded_of_snoc)
      moreover have "refunded_of (td_TenantID w) (td_ID w) vs \<le> td_AmountMinor w"
        using w c ok fresh by (auto simp: payments_hold_def)
      ultimately show ?thesis by simp
    qed
    with small show ?thesis by blast
  qed
  ultimately show ?thesis using rows unfolding payments_hold_def by blast
qed

lemma capture_keeps_payments:
  assumes ok: "payments_hold D os vs" and order: "order \<in> set os" "bill_key order = order_key v"
    and within: "order_key v \<notin> D \<Longrightarrow> small (td_AmountMinor v)
      \<and> wrap64 (paid_on (td_TenantID v) (td_OrderID v) vs + td_AmountMinor v) \<le> bo_total_minor order"
    and v: "td_Status v = ''captured''" "td_ReversesTenderID v = []" "td_ID v \<noteq> []" "0 < td_AmountMinor v"
    and fresh: "td_ID v \<notin> set (map td_ID vs)"
  shows "payments_hold D os (vs @ [v])"
proof (rule add_tender_payments [OF ok])
  have fit: "rows_fit os vs" using ok by (simp add: payments_hold_def)
  from order have "order_key v \<in> bill_key ` set os" by (metis image_eqI)
  then show rows: "rows_fit os (vs @ [v])"
    using v by (intro add_tender_rows [OF fit fresh]) (simp_all add: tender_row_ok_def)
  show "small (td_AmountMinor v)
      \<and> (\<forall>b \<in> set os. bill_key b = order_key v \<longrightarrow> paid_on (td_TenantID v) (td_OrderID v) vs + signed_amount v \<le> bo_total_minor b)"
    if calm: "order_key v \<notin> D"
  proof -
    let ?paid = "paid_on (td_TenantID v) (td_OrderID v) vs"
    have total: "?paid \<le> bo_total_minor order" "small (bo_total_minor order)"
      using ok order calm by (auto simp: payments_hold_def bill_key_def order_key_def)
    have small: "small (td_AmountMinor v)" and w: "wrap64 (?paid + td_AmountMinor v) \<le> bo_total_minor order" using within [OF calm] by simp_all
    have "in_int64 (?paid + td_AmountMinor v)"
      using paid_on_nonneg [OF ok, of "td_TenantID v" "td_OrderID v"] calm total small by (simp add: order_key_def small_def in_int64_def max_int64_def)
    with w have paid: "?paid + td_AmountMinor v \<le> bo_total_minor order" by (simp add: wrap64_id)
    have "b = order" if "b \<in> set os" "bill_key b = order_key v" for b
      using fit that order by (auto simp: rows_fit_def distinct_map inj_on_def)
    with small paid v(1) show ?thesis by (auto simp: signed_amount_def)
  qed
  show "refunded_of (td_TenantID w) (td_ID w) vs + td_AmountMinor v \<le> td_AmountMinor w"
    if "w \<in> set (vs @ [v])" "td_ReversesTenderID v = td_ID w" for w
    using rows that v(2) by (auto simp: rows_fit_def tender_row_ok_def)
  have "td_ReversesTenderID w \<noteq> td_ID v" if "w \<in> set vs" for w
  proof -
    have "tender_row_ok vs w" using fit that by (simp add: rows_fit_def)
    then show ?thesis using fresh v(3) unfolding tender_row_ok_def set_map by (metis image_eqI)
  qed
  then have "filter (\<lambda>w. td_TenantID w = td_TenantID v \<and> td_ReversesTenderID w = td_ID v) vs = []" by (auto simp: filter_empty_conv)
  then show "refunded_of (td_TenantID v) (td_ID v) vs \<le> td_AmountMinor v" using v(4) by (simp add: refunded_of_def)
qed

lemma refund_keeps_payments:
  assumes ok: "payments_hold D os vs" and original: "w \<in> set vs" "td_Status w = ''captured''" "td_ID w = td_ReversesTenderID v"
      "order_key w = order_key v" "td_TenderType w = td_TenderType v"
    and within: "order_key v \<notin> D \<Longrightarrow> small (td_AmountMinor v)"
      "wrap64 (refunded_of (td_TenantID v) (td_ReversesTenderID v) vs + td_AmountMinor v) \<le> td_AmountMinor w"
    and v: "td_Status v = ''reversed''" "td_ID v \<noteq> []" "0 < td_AmountMinor v"
    and fresh: "td_ID v \<notin> set (map td_ID vs)"
  shows "payments_hold D os (vs @ [v])"
proof (rule add_tender_payments [OF ok])
  have fit: "rows_fit os vs" using ok by (simp add: payments_hold_def)
  then have "order_key w \<in> bill_key ` set os" using original(1) by (simp add: rows_fit_def)
  with original(4) have "order_key v \<in> bill_key ` set os" by simp
  moreover have "tender_row_ok (vs @ [v]) v" unfolding tender_row_ok_def using v original by (auto simp: order_key_def)
  ultimately show "rows_fit os (vs @ [v])" by (rule add_tender_rows [OF fit fresh])
  have signed: "signed_amount v = - td_AmountMinor v" by (simp add: signed_amount_def v)
  show "small (td_AmountMinor v)
      \<and> (\<forall>b \<in> set os. bill_key b = order_key v \<longrightarrow> paid_on (td_TenantID v) (td_OrderID v) vs + signed_amount v \<le> bo_total_minor b)"
    if calm: "order_key v \<notin> D"
  proof -
    have "paid_on (td_TenantID v) (td_OrderID v) vs \<le> bo_total_minor b" if "b \<in> set os" "bill_key b = order_key v" for b
      using ok that calm by (auto simp: payments_hold_def order_key_def bill_key_def)
    with within(1) [OF calm] v(3) show ?thesis by (fastforce simp: signed)
  qed
  show "refunded_of (td_TenantID u) (td_ID u) vs + td_AmountMinor v \<le> td_AmountMinor u"
    if calm: "order_key v \<notin> D" and u: "u \<in> set (vs @ [v])" "td_Status u = ''captured''" "td_ReversesTenderID v = td_ID u" for u
  proof -
    let ?returned = "refunded_of (td_TenantID v) (td_ReversesTenderID v) vs"
    have "u \<in> set vs" using u(1,2) v(1) by auto
    with u(3) original(1,3) fit have u: "u = w" by (auto simp: rows_fit_def distinct_map inj_on_def)
    have w: "?returned \<le> td_AmountMinor w" "small (td_AmountMinor w)"
      using ok original calm by (auto simp: payments_hold_def order_key_def)
    have "0 \<le> ?returned" by (rule refunded_nonneg) (use fit in \<open>simp add: rows_fit_def tender_row_ok_def\<close>)
    then have "in_int64 (?returned + td_AmountMinor v)"
      using w within(1) [OF calm] by (simp add: small_def in_int64_def max_int64_def)
    with within(2) original(3,4) show ?thesis by (simp add: wrap64_id u order_key_def)
  qed
qed (simp add: v)

lemma bill_keeps_payments:
  assumes ok: "payments_hold D os vs" and fresh: "bill_key b \<notin> bill_key ` set os"
    and total: "bill_key b \<notin> D \<Longrightarrow> small (bo_total_minor b)"
  shows "payments_hold D (os @ [b]) vs"
proof -
  have "order_key v \<noteq> bill_key b" if "v \<in> set vs" for v
    using ok fresh that unfolding payments_hold_def rows_fit_def by metis
  then have none: "filter (\<lambda>v. td_TenantID v = bo_tenant_id b \<and> td_OrderID v = bo_id b) vs = []"
    by (auto simp: filter_empty_conv order_key_def bill_key_def)
  have "rows_fit (os @ [b]) vs" using ok fresh by (auto simp: payments_hold_def rows_fit_def)
  with ok total none show ?thesis by (auto simp: payments_hold_def paid_on_def small_def)
qed

subsection \<open>The drawer\<close>

definition logged_on :: "string \<Rightarrow> string \<Rightarrow> cash_event list \<Rightarrow> int" where
  "logged_on tenant id' es = sum_list (map ca_amount_minor (filter (\<lambda>e. ca_tenant_id e = tenant \<and> ca_cash_shift_id e = id') es))"

definition cash_taken :: "string \<Rightarrow> string \<Rightarrow> tender list \<Rightarrow> int" where
  "cash_taken tenant id' vs = sum_list (map signed_amount
     (filter (\<lambda>v. td_TenantID v = tenant \<and> td_CashShiftID v = id' \<and> td_TenderType v = ''cash'') vs))"

definition drawer_holds :: "cash_shift list \<Rightarrow> cash_event list \<Rightarrow> tender list \<Rightarrow> bool" where
  "drawer_holds rs es vs \<longleftrightarrow> distinct (map cs_ID rs)
     \<and> (\<forall>e \<in> set es. \<exists>r \<in> set rs. cs_TenantID r = ca_tenant_id e \<and> cs_ID r = ca_cash_shift_id e)
     \<and> (\<forall>v \<in> set vs. td_TenderType v = ''cash'' \<longrightarrow> (\<exists>r \<in> set rs. cs_TenantID r = td_TenantID v \<and> cs_ID r = td_CashShiftID v))
     \<and> (\<forall>r \<in> set rs. logged_on (cs_TenantID r) (cs_ID r) es = cs_ExpectedCashMinor r
          \<and> cs_OpeningFloatMinor r + cash_taken (cs_TenantID r) (cs_ID r) vs = cs_ExpectedCashMinor r)"

lemma logged_on_snoc: "logged_on tenant id' (es @ [e]) = logged_on tenant id' es
    + (if ca_tenant_id e = tenant \<and> ca_cash_shift_id e = id' then ca_amount_minor e else 0)"
  by (simp add: logged_on_def)

lemma cash_taken_snoc: "cash_taken tenant id' (vs @ [v]) = cash_taken tenant id' vs
    + (if td_TenantID v = tenant \<and> td_CashShiftID v = id' \<and> td_TenderType v = ''cash'' then signed_amount v else 0)"
  by (simp add: cash_taken_def)

text \<open>Closing and counting a shift leave alone what the invariant speaks of.\<close>

lemma drawer_update:
  assumes "drawer_holds rs es vs"
    and "\<And>r. cs_ID (f r) = cs_ID r" "\<And>r. cs_TenantID (f r) = cs_TenantID r"
    and "\<And>r. cs_ExpectedCashMinor (f r) = cs_ExpectedCashMinor r" "\<And>r. cs_OpeningFloatMinor (f r) = cs_OpeningFloatMinor r"
  shows "drawer_holds (update_where P f rs) es vs"
proof -
  have ids: "map cs_ID (update_where P f rs) = map cs_ID rs" by (rule map_update_where) (rule assms(2))
  have "\<exists>q \<in> set (update_where P f rs). cs_TenantID q = t \<and> cs_ID q = k" if "\<exists>r \<in> set rs. cs_TenantID r = t \<and> cs_ID r = k" for t k
    using that by (rule update_where_ex) (simp add: assms)
  with assms(1) ids show ?thesis
    unfolding drawer_holds_def by (auto simp: in_update_where assms(2-))
qed

lemma drawer_posted:
  assumes ok: "drawer_holds (cm_shifts s) (cm_cash_events s) vs" and cash: "cash_posted v s s'"
  shows "drawer_holds (cm_shifts s') (cm_cash_events s') (vs @ [v])"
proof (cases "td_TenderType v = ''cash''")
  case True
  let ?f = "\<lambda>r. r\<lparr>cs_ExpectedCashMinor := cs_ExpectedCashMinor r + signed_amount v\<rparr>"
  from True cash obtain q e where q: "q \<in> set (cm_shifts s)" "open_shift_at v q"
    and rs: "cm_shifts s' = update_where (open_shift_at v) ?f (cm_shifts s)" and es: "cm_cash_events s' = cm_cash_events s @ [e]"
    and e: "ca_tenant_id e = td_TenantID v" "ca_cash_shift_id e = td_CashShiftID v" "ca_amount_minor e = signed_amount v"
    by (auto simp: cash_posted_def)
  from ok have distinct: "distinct (map cs_ID (cm_shifts s))" by (simp add: drawer_holds_def)
  have hit: "open_shift_at v r \<longleftrightarrow> cs_TenantID r = td_TenantID v \<and> cs_ID r = td_CashShiftID v" if "r \<in> set (cm_shifts s)" for r
    using that q distinct by (auto simp: open_shift_at_def at_row_def distinct_map inj_on_def)
  have ids: "map cs_ID (cm_shifts s') = map cs_ID (cm_shifts s)" unfolding rs by (rule map_update_where) simp
  have refs: "\<exists>p \<in> set (cm_shifts s'). cs_TenantID p = t \<and> cs_ID p = k" if "\<exists>r \<in> set (cm_shifts s). cs_TenantID r = t \<and> cs_ID r = k" for t k
    unfolding rs using that by (rule update_where_ex) simp
  have mine: "\<exists>r \<in> set (cm_shifts s). cs_TenantID r = td_TenantID v \<and> cs_ID r = td_CashShiftID v" using q hit by blast
  have "logged_on (cs_TenantID p) (cs_ID p) (cm_cash_events s') = cs_ExpectedCashMinor p
      \<and> cs_OpeningFloatMinor p + cash_taken (cs_TenantID p) (cs_ID p) (vs @ [v]) = cs_ExpectedCashMinor p"
    if "p \<in> set (cm_shifts s')" for p
  proof -
    from that obtain r where r: "r \<in> set (cm_shifts s)" "p = (if open_shift_at v r then ?f r else r)" by (auto simp: rs in_update_where)
    from ok r(1) have "logged_on (cs_TenantID r) (cs_ID r) (cm_cash_events s) = cs_ExpectedCashMinor r"
      "cs_OpeningFloatMinor r + cash_taken (cs_TenantID r) (cs_ID r) vs = cs_ExpectedCashMinor r" by (simp_all add: drawer_holds_def)
    then show ?thesis
      by (cases "open_shift_at v r")
        (use r hit [OF r(1)] e True in \<open>auto simp: es logged_on_snoc cash_taken_snoc\<close>)
  qed
  with ok distinct ids refs mine e show ?thesis unfolding drawer_holds_def es by (simp add: ball_Un)
next
  case False
  with ok cash show ?thesis by (auto simp: cash_posted_def drawer_holds_def cash_taken_snoc)
qed

lemma drawer_open:
  assumes ok: "drawer_holds rs es vs" and fresh: "cs_ID r \<notin> set (map cs_ID rs)" and float: "cs_ExpectedCashMinor r = cs_OpeningFloatMinor r"
    and e: "ca_tenant_id e = cs_TenantID r" "ca_cash_shift_id e = cs_ID r" "ca_amount_minor e = cs_OpeningFloatMinor r"
  shows "drawer_holds (rs @ [r]) (es @ [e]) vs"
proof -
  have "filter (\<lambda>x. ca_tenant_id x = cs_TenantID r \<and> ca_cash_shift_id x = cs_ID r) es = []"
    using ok fresh unfolding drawer_holds_def filter_empty_conv set_map by (metis image_eqI)
  then have events: "logged_on (cs_TenantID r) (cs_ID r) es = 0" by (simp add: logged_on_def)
  have "filter (\<lambda>v. td_TenantID v = cs_TenantID r \<and> td_CashShiftID v = cs_ID r \<and> td_TenderType v = ''cash'') vs = []"
    using ok fresh unfolding drawer_holds_def filter_empty_conv set_map by (metis image_eqI)
  then have "cash_taken (cs_TenantID r) (cs_ID r) vs = 0" by (simp add: cash_taken_def)
  moreover have "logged_on (cs_TenantID q) (cs_ID q) (es @ [e]) = logged_on (cs_TenantID q) (cs_ID q) es" if "q \<in> set rs" for q
    using that fresh e by (auto simp: logged_on_snoc)
  ultimately show ?thesis
    using ok fresh float e events unfolding drawer_holds_def by (auto simp: logged_on_snoc)
qed

subsection \<open>The dining room\<close>

definition open_sessions :: "string \<Rightarrow> string \<Rightarrow> dining_session list \<Rightarrow> dining_session list" where
  "open_sessions tenant id' vs = filter (\<lambda>v. ds_TenantID v = tenant \<and> ds_TableID v = id' \<and> ds_Status v = ''open'') vs"

definition dining_holds :: "dining_table list \<Rightarrow> dining_session list \<Rightarrow> bool" where
  "dining_holds rs vs \<longleftrightarrow> distinct (map dt_ID rs) \<and> distinct (map ds_ID vs)
     \<and> (\<forall>v \<in> set vs. \<exists>r \<in> set rs. dt_TenantID r = ds_TenantID v \<and> dt_ID r = ds_TableID v)
     \<and> (\<forall>r \<in> set rs. length (open_sessions (dt_TenantID r) (dt_ID r) vs) = (if dt_Status r = ''occupied'' then 1 else 0))"

lemma dining_create:
  assumes "dining_holds rs vs" "dt_ID r \<notin> set (map dt_ID rs)" "dt_Status r \<noteq> ''occupied''"
  shows "dining_holds (rs @ [r]) vs"
proof -
  have "open_sessions (dt_TenantID r) (dt_ID r) vs = []"
    using assms(1,2) unfolding dining_holds_def open_sessions_def filter_empty_conv set_map by (metis image_eqI)
  with assms show ?thesis by (auto simp: dining_holds_def)
qed

lemma dining_move:
  assumes ok: "dining_holds rs vs" and r: "r \<in> set rs" "P r" "dt_Status r \<noteq> ''occupied''" and P: "\<And>q. P q \<Longrightarrow> dt_ID q = dt_ID r"
    and f: "\<And>q. dt_ID (f q) = dt_ID q" "\<And>q. dt_TenantID (f q) = dt_TenantID q" "\<And>q. dt_Status (f q) \<noteq> ''occupied''"
  shows "dining_holds (update_where P f rs) vs"
proof -
  have "inj_on dt_ID (set rs)" using ok by (simp add: dining_holds_def distinct_map)
  then have one: "q = r" if "q \<in> set rs" "P q" for q
    using inj_onD [OF _ P [OF that(2)] that(1) r(1)] by blast
  have ids: "map dt_ID (update_where P f rs) = map dt_ID rs" by (rule map_update_where) (rule f)
  have "\<exists>q \<in> set (update_where P f rs). dt_TenantID q = t \<and> dt_ID q = k" if "\<exists>r \<in> set rs. dt_TenantID r = t \<and> dt_ID r = k" for t k
    using that by (rule update_where_ex) (simp add: f)
  moreover have "length (open_sessions (dt_TenantID p) (dt_ID p) vs) = (if dt_Status p = ''occupied'' then 1 else 0)"
    if "p \<in> set (update_where P f rs)" for p
  proof -
    from that obtain q where q: "q \<in> set rs" "p = (if P q then f q else q)" by (auto simp: in_update_where)
    with ok have "length (open_sessions (dt_TenantID q) (dt_ID q) vs) = (if dt_Status q = ''occupied'' then 1 else 0)"
      by (simp add: dining_holds_def)
    with q one [OF q(1)] r(3) f show ?thesis by (cases "P q") simp_all
  qed
  ultimately show ?thesis using ok ids by (simp add: dining_holds_def)
qed

lemma open_sessions_snoc: "open_sessions tenant id' (vs @ [v]) = open_sessions tenant id' vs
    @ (if ds_TenantID v = tenant \<and> ds_TableID v = id' \<and> ds_Status v = ''open'' then [v] else [])"
  by (simp add: open_sessions_def)

lemma dining_open:
  assumes ok: "dining_holds rs vs" and r: "r \<in> set rs" "P r" "dt_Status r \<noteq> ''occupied''" and P: "\<And>q. P q \<Longrightarrow> dt_ID q = dt_ID r"
    and f: "\<And>q. dt_ID (f q) = dt_ID q" "\<And>q. dt_TenantID (f q) = dt_TenantID q" "\<And>q. dt_Status (f q) = ''occupied''"
    and v: "ds_ID v \<notin> set (map ds_ID vs)" "ds_TenantID v = dt_TenantID r" "ds_TableID v = dt_ID r" "ds_Status v = ''open''"
  shows "dining_holds (update_where P f rs) (vs @ [v])"
proof -
  have inj: "inj_on dt_ID (set rs)" using ok by (simp add: dining_holds_def distinct_map)
  have one: "q = r" if "q \<in> set rs" "P q" for q
    using inj_onD [OF inj P [OF that(2)] that(1) r(1)] .
  have ids: "map dt_ID (update_where P f rs) = map dt_ID rs" by (rule map_update_where) (rule f)
  have refs: "\<exists>q \<in> set (update_where P f rs). dt_TenantID q = t \<and> dt_ID q = k" if "\<exists>r \<in> set rs. dt_TenantID r = t \<and> dt_ID r = k" for t k
    using that by (rule update_where_ex) (simp add: f)
  have mine: "\<exists>r \<in> set rs. dt_TenantID r = ds_TenantID v \<and> dt_ID r = ds_TableID v" using r v by auto
  have "length (open_sessions (dt_TenantID p) (dt_ID p) (vs @ [v])) = (if dt_Status p = ''occupied'' then 1 else 0)"
    if "p \<in> set (update_where P f rs)" for p
  proof -
    from that obtain q where q: "q \<in> set rs" "p = (if P q then f q else q)" by (auto simp: in_update_where)
    with ok have count: "length (open_sessions (dt_TenantID q) (dt_ID q) vs) = (if dt_Status q = ''occupied'' then 1 else 0)"
      by (simp add: dining_holds_def)
    show ?thesis
    proof (cases "P q")
      case True
      with q count one [OF q(1)] r(3) f v show ?thesis by (simp add: open_sessions_snoc)
    next
      case False
      with r(2) have "q \<noteq> r" by auto
      with inj q(1) r(1) have "dt_ID q \<noteq> dt_ID r" by (auto dest: inj_onD)
      with False q count v show ?thesis by (simp add: open_sessions_snoc)
    qed
  qed
  with ok ids refs mine v(1) show ?thesis by (simp add: dining_holds_def ball_Un)
qed

lemma dining_close:
  assumes ok: "dining_holds rs vs" and u: "u \<in> set vs" "P u" "ds_Status u = ''open''" and P: "\<And>q. P q \<Longrightarrow> ds_ID q = ds_ID u"
    and f: "\<And>q. ds_ID (f q) = ds_ID q" "\<And>q. ds_TenantID (f q) = ds_TenantID q" "\<And>q. ds_TableID (f q) = ds_TableID q"
      "\<And>q. ds_Status (f q) = ''closed''"
    and g: "\<And>q. dt_ID (g q) = dt_ID q" "\<And>q. dt_TenantID (g q) = dt_TenantID q" "\<And>q. dt_Status (g q) = ''cleaning''"
  shows "dining_holds (update_where (\<lambda>r. dt_TenantID r = ds_TenantID u \<and> dt_ID r = ds_TableID u) g rs) (update_where P f vs)"
proof -
  let ?Q = "\<lambda>r. dt_TenantID r = ds_TenantID u \<and> dt_ID r = ds_TableID u"
  have inj: "inj_on ds_ID (set vs)" using ok by (simp add: dining_holds_def distinct_map)
  have one: "P q \<longleftrightarrow> q = u" if "q \<in> set vs" for q
    using inj_onD [OF inj P _ u(1)] that u(2) by blast
  have ids: "map dt_ID (update_where ?Q g rs) = map dt_ID rs" "map ds_ID (update_where P f vs) = map ds_ID vs"
    by (rule map_update_where; simp add: f g)+
  have refs: "\<exists>q \<in> set (update_where ?Q g rs). dt_TenantID q = t \<and> dt_ID q = k" if "\<exists>r \<in> set rs. dt_TenantID r = t \<and> dt_ID r = k" for t k
    using that by (rule update_where_ex) (simp add: g)
  have sessions: "\<exists>q \<in> set (update_where ?Q g rs). dt_TenantID q = ds_TenantID v \<and> dt_ID q = ds_TableID v"
    if "v \<in> set (update_where P f vs)" for v
  proof -
    from that obtain w where w: "w \<in> set vs" "v = (if P w then f w else w)" by (auto simp: in_update_where)
    with ok have "\<exists>r \<in> set rs. dt_TenantID r = ds_TenantID w \<and> dt_ID r = ds_TableID w" by (simp add: dining_holds_def)
    from refs [OF this] w f show ?thesis by simp
  qed
  have opens: "open_sessions t k (update_where P f vs) = filter (\<lambda>v. v \<noteq> u) (open_sessions t k vs)" for t k
  proof -
    have "filter R (update_where P f ws) = filter (\<lambda>v. v \<noteq> u) (filter R ws)"
      if "set ws \<subseteq> set vs" "\<And>q. \<not> R (f q)" for R ws
      using that by (induction ws) (auto simp: update_where_def one)
    then show ?thesis unfolding open_sessions_def by (simp add: f)
  qed
  have "length (open_sessions (dt_TenantID p) (dt_ID p) (update_where P f vs)) = (if dt_Status p = ''occupied'' then 1 else 0)"
    if "p \<in> set (update_where ?Q g rs)" for p
  proof -
    from that obtain q where q: "q \<in> set rs" "p = (if ?Q q then g q else q)" by (auto simp: in_update_where)
    with ok have count: "length (open_sessions (dt_TenantID q) (dt_ID q) vs) = (if dt_Status q = ''occupied'' then 1 else 0)"
      by (simp add: dining_holds_def)
    show ?thesis
    proof (cases "?Q q")
      case True
      then have mem: "u \<in> set (open_sessions (dt_TenantID q) (dt_ID q) vs)" using u by (simp add: open_sessions_def)
      with count have "length (open_sessions (dt_TenantID q) (dt_ID q) vs) = 1" by (auto split: if_splits)
      with mem have "open_sessions (dt_TenantID q) (dt_ID q) vs = [u]" by (auto simp: length_Suc_conv)
      with True q g show ?thesis by (simp add: opens)
    next
      case False
      then have "u \<notin> set (open_sessions (dt_TenantID q) (dt_ID q) vs)" by (auto simp: open_sessions_def)
      then have "filter (\<lambda>v. v \<noteq> u) (open_sessions (dt_TenantID q) (dt_ID q) vs) = open_sessions (dt_TenantID q) (dt_ID q) vs"
        by (auto intro: filter_True)
      moreover from False q(2) have "p = q" by auto
      ultimately show ?thesis using count by (simp add: opens)
    qed
  qed
  with ok ids sessions show ?thesis by (simp add: dining_holds_def)
qed

end
