(* ===== verification/Core_Commerce_Properties.thy ===== *)
theory Core_Commerce_Properties
  imports Core_Commerce_Invariant
begin

text \<open>
  The commerce tables over time: any sequence of the repository's operations, with any amounts and with
  captures whose snapshot is older than the state they work on. What races and amounts can spoil is the
  payments of the orders they touch: a run gathers these orders. Drawers and tables stay right in all runs.
\<close>

subsection \<open>Runs\<close>

text \<open>
  A snapshot of the run: orders and tenders are only added to. A capture disturbs its order when another
  tender of the order came in since its snapshot, or when its amount can make the compared sum wrap.
\<close>

definition earlier :: "commerce_db \<Rightarrow> commerce_db \<Rightarrow> bool" where
  "earlier seen s \<longleftrightarrow> prefix (cm_orders seen) (cm_orders s) \<and> prefix (cm_tenders seen) (cm_tenders s)"

definition capture_disturbs :: "tender \<Rightarrow> commerce_db \<Rightarrow> commerce_db \<Rightarrow> (string \<times> string) set" where
  "capture_disturbs v seen s =
    (if small (td_AmountMinor v) \<and> tenders_of_order (td_TenantID v) (td_OrderID v) seen = tenders_of_order (td_TenantID v) (td_OrderID v) s
     then {} else {order_key v})"

definition refund_disturbs :: "tender \<Rightarrow> commerce_db \<Rightarrow> (string \<times> string) set" where
  "refund_disturbs v s = (if small (td_AmountMinor v) then {}
     else order_key ` {w \<in> set (tenders s). td_TenantID w = td_TenantID v \<and> td_ID w = td_ReversesTenderID v})"

definition bill_disturbs :: "billed_order \<Rightarrow> (string \<times> string) set" where
  "bill_disturbs b = (if small (bo_total_minor b) then {} else {bill_key b})"

inductive commerce_step ::
  "(string \<Rightarrow> 8 word list) \<Rightarrow> (string \<times> string) set \<Rightarrow> commerce_db \<Rightarrow> commerce_db \<Rightarrow> bool" for sha256 where
  set_availability: "commerce_step sha256 {} s (snd (SetMenuAvailability ctx tenant outlet m a s))"
| create_table: "commerce_step sha256 {} s (snd (CreateDiningTable ctx t a s))"
| transition_table: "commerce_step sha256 {} s (snd (TransitionDiningTable ctx tenant outlet k status expected a s))"
| open_session: "commerce_step sha256 {} s (snd (OpenDiningSession ctx d a s))"
| close_session: "commerce_step sha256 {} s (snd (CloseDiningSession ctx tenant outlet k expected a s))"
| open_shift: "commerce_step sha256 {} s (snd (OpenCashShift ctx r a s))"
| close_shift: "commerce_step sha256 {} s (snd (CloseCashShift ctx tenant outlet k expected n a s))"
| capture: "earlier seen s \<Longrightarrow>
    commerce_step sha256 (capture_disturbs v seen s) s (snd (with_tenant ctx (capture_tender sha256 v receipt a seen) s))"
| refund: "commerce_step sha256 (refund_disturbs v s) s (snd (ReverseTender sha256 ctx v a s))"
| settle: "commerce_step sha256 {} s (snd (GenerateSettlements sha256 business_date ctx tenant outlet date a s))"
| new_order: "bill_key b \<notin> bill_key ` set (cm_orders s) \<Longrightarrow>
    commerce_step sha256 (bill_disturbs b) s (s\<lparr>cm_orders := cm_orders s @ [b]\<rparr>)"
| catalogue: "commerce_step sha256 {} s (s\<lparr>cm_outlets := outlets, cm_items := items\<rparr>)"

text \<open>A capture that waits for nobody works on what it has seen.\<close>

lemma serial_capture:
  "commerce_step sha256 (capture_disturbs v s s) s (snd (CaptureTender sha256 ctx v receipt a s))"
proof -
  have "CaptureTender sha256 ctx v receipt a s = with_tenant ctx (capture_tender sha256 v receipt a s) s"
    by (simp add: CaptureTender_def with_tenant_def transact_def)
  with capture [of s s sha256 v ctx receipt a] show ?thesis by (simp add: earlier_def)
qed

definition empty_commerce :: commerce_db where
  "empty_commerce = \<lparr>cm_outlets = [], cm_items = [], cm_orders = [], cm_availability = [], cm_availability_events = [],
     cm_tables = [], cm_sessions = [], cm_shifts = [], cm_cash_events = [], cm_tenders = [], cm_receipts = [],
     cm_settlements = [], cm_audits = []\<rparr>"

text \<open>The states of the runs, with the orders whose payments were disturbed.\<close>

inductive commerce_reachable :: "(string \<Rightarrow> 8 word list) \<Rightarrow> (string \<times> string) set \<Rightarrow> commerce_db \<Rightarrow> bool" for sha256 where
  start: "commerce_reachable sha256 {} empty_commerce"
| step: "commerce_reachable sha256 D s \<Longrightarrow> commerce_step sha256 d s s' \<Longrightarrow> commerce_reachable sha256 (D \<union> d) s'"

lemma calm_step: "commerce_reachable sha256 D s \<Longrightarrow> commerce_step sha256 {} s s' \<Longrightarrow> commerce_reachable sha256 D s'"
  using commerce_reachable.step by fastforce

definition commerce_ok :: "(string \<times> string) set \<Rightarrow> commerce_db \<Rightarrow> bool" where
  "commerce_ok D s \<longleftrightarrow> payments_hold D (cm_orders s) (tenders s)
     \<and> drawer_holds (cm_shifts s) (cm_cash_events s) (tenders s) \<and> dining_holds (cm_tables s) (cm_sessions s)"

lemma commerce_ok_mono: "commerce_ok D s \<Longrightarrow> D \<subseteq> E \<Longrightarrow> commerce_ok E s"
  by (auto simp: commerce_ok_def dest: payments_hold_mono)

lemma commerce_ok_empty: "commerce_ok D empty_commerce"
  by (simp add: commerce_ok_def empty_commerce_def payments_hold_def rows_fit_def drawer_holds_def dining_holds_def)

text \<open>What the invariant speaks of.\<close>

definition same_books :: "commerce_db \<Rightarrow> commerce_db \<Rightarrow> bool" where
  "same_books s s' \<longleftrightarrow> cm_orders s' = cm_orders s \<and> cm_tenders s' = cm_tenders s \<and> cm_shifts s' = cm_shifts s
     \<and> cm_cash_events s' = cm_cash_events s \<and> cm_tables s' = cm_tables s \<and> cm_sessions s' = cm_sessions s"

lemma same_books_ok: "same_books s s' \<Longrightarrow> commerce_ok D s \<Longrightarrow> commerce_ok D s'"
  by (simp add: same_books_def commerce_ok_def)

lemma with_tenant_ok:
  assumes "commerce_ok D s" "\<And>v s'. body s = Inr (v, s') \<Longrightarrow> commerce_ok D s'"
  shows "commerce_ok D (snd (with_tenant ctx body s))"
proof -
  obtain r s' where run: "with_tenant ctx body s = (r, s')" by fastforce
  then show ?thesis by (rule with_tenant_cases) (use assms run in auto)
qed

lemma audited_ok: "audited tenant a v s = Inr (x, s') \<Longrightarrow> commerce_ok D s \<Longrightarrow> commerce_ok D s'"
  by (drule audited_Inr) (simp add: commerce_ok_def)

lemma availability_ok: "commerce_ok D s \<Longrightarrow> commerce_ok D (snd (SetMenuAvailability ctx tenant outlet m a s))"
  unfolding SetMenuAvailability_def Let_def
  by (rule with_tenant_ok) (auto simp: commerce_Inr intro!: same_books_ok [of s] dest!: audited_Inr simp: same_books_def)

lemma store_settlements_books: "store_settlements tenant outlet vs s = Inr s' \<Longrightarrow> same_books s s'"
proof (induction vs arbitrary: s)
  case (Cons v vs)
  then show ?case
    by (fastforce simp: rbind_Inr_iff store_settlement_def constrained_Inr same_books_def split: if_splits)
qed (simp add: same_books_def)

lemma settle_ok: "commerce_ok D s \<Longrightarrow> commerce_ok D (snd (GenerateSettlements sha256 business_date ctx tenant outlet date a s))"
  unfolding GenerateSettlements_def Let_def
  by (rule with_tenant_ok) (auto simp: rbind_Inr_iff dest!: store_settlements_books intro: audited_ok same_books_ok)

lemma create_table_ok: "commerce_ok D s \<Longrightarrow> commerce_ok D (snd (CreateDiningTable ctx t a s))"
  unfolding CreateDiningTable_def
proof (rule with_tenant_ok)
  fix v s'
  assume ok: "commerce_ok D s"
  let ?t = "t\<lparr>dt_Status := ''available'', dt_Version := 1, dt_UpdatedAt := dt_CreatedAt t\<rparr>"
  assume "rbind (constrained
      [fails_if (\<not> in_int32 (dt_Capacity t)) (unmapped ''capacity''),
       fails_if (dt_Capacity t \<le> 0) (Failed InvalidReference ''dining_tables_capacity_check''),
       fails_if (list_ex (\<lambda>r. dt_ID r = dt_ID t \<or> dt_TenantID r = dt_TenantID t \<and> dt_OutletID r = dt_OutletID t \<and> dt_Label r = dt_Label t)
         (cm_tables s)) (Failed Conflict ''dining_tables''),
       fails_if ((dt_TenantID t, dt_OutletID t) \<notin> set (cm_outlets s)) (Failed InvalidReference ''dining_tables'')]
      (s\<lparr>cm_tables := cm_tables s @ [?t]\<rparr>)) (audited (dt_TenantID t) a ()) = Inr (v, s')"
  then have run: "audited (dt_TenantID t) a () (s\<lparr>cm_tables := cm_tables s @ [?t]\<rparr>) = Inr (v, s')"
    and fresh: "dt_ID ?t \<notin> set (map dt_ID (cm_tables s))"
    by (auto simp: commerce_Inr list_ex_iff)
  have "dining_holds (cm_tables s @ [?t]) (cm_sessions s)"
    by (rule dining_create [OF _ fresh]) (use ok in \<open>simp_all add: commerce_ok_def\<close>)
  with ok have "commerce_ok D (s\<lparr>cm_tables := cm_tables s @ [?t]\<rparr>)" by (simp add: commerce_ok_def)
  with run show "commerce_ok D s'" by (rule audited_ok)
qed

lemma transition_table_ok: "commerce_ok D s \<Longrightarrow> commerce_ok D (snd (TransitionDiningTable ctx tenant outlet k status expected a s))"
  unfolding TransitionDiningTable_def
proof (rule with_tenant_ok)
  fix v s'
  assume ok: "commerce_ok D s"
  let ?f = "\<lambda>r. r\<lparr>dt_Status := status, dt_Version := dt_Version r + 1, dt_UpdatedAt := ae_RecordedAt a\<rparr>"
  let ?s = "s\<lparr>cm_tables := update_where (table_at tenant outlet k) ?f (cm_tables s)\<rparr>"
  assume "rbind (query_row (table_at tenant outlet k) (cm_tables s)) (\<lambda>v.
    if dt_Version v \<noteq> expected then Inl (Failed VersionConflict [])
    else if \<not> table_move (dt_Status v) status then Inl (Failed InvalidTransition [])
    else audited tenant a (?f v) ?s) = Inr (v, s')"
  then obtain r where r: "r \<in> set (cm_tables s)" "table_at tenant outlet k r" "table_move (dt_Status r) status"
    and run: "audited tenant a (?f r) ?s = Inr (v, s')"
    by (auto simp: rbind_Inr_iff dest!: query_row_Inr)
  have "dining_holds (update_where (table_at tenant outlet k) ?f (cm_tables s)) (cm_sessions s)"
    by (rule dining_move [where r = r]) (use ok r in \<open>auto simp: commerce_ok_def at_row_def table_move_def\<close>)
  with ok have "commerce_ok D ?s" by (simp add: commerce_ok_def)
  with run show "commerce_ok D s'" by (rule audited_ok)
qed

lemma open_session_ok: "commerce_ok D s \<Longrightarrow> commerce_ok D (snd (OpenDiningSession ctx d a s))"
  unfolding OpenDiningSession_def Let_def
proof (rule with_tenant_ok)
  fix v s'
  assume ok: "commerce_ok D s"
  let ?hit = "\<lambda>r. table_at (ds_TenantID d) (ds_OutletID d) (ds_TableID d) r \<and> dt_Status r = ''available''"
  let ?f = "\<lambda>r. r\<lparr>dt_Status := ''occupied'', dt_Version := dt_Version r + 1, dt_UpdatedAt := ae_RecordedAt a\<rparr>"
  let ?d = "d\<lparr>ds_TableLabel := [], ds_Status := ''open'', ds_ClosedAt := None, ds_Version := 1\<rparr>"
  let ?s = "s\<lparr>cm_tables := update_where ?hit ?f (cm_tables s), cm_sessions := cm_sessions s @ [?d]\<rparr>"
  assume "(if length (filter ?hit (cm_tables s)) \<noteq> 1 then Inl (Failed InvalidTransition [])
    else rbind (constrained
      [fails_if (\<not> in_int32 (ds_GuestCount d)) (unmapped ''guest_count''),
       fails_if (ds_GuestCount d \<le> 0) (Failed InvalidReference ''dining_sessions_guest_count_check''),
       fails_if (list_ex (\<lambda>r. ds_ID r = ds_ID d) (cm_sessions s)
         \<or> list_ex (\<lambda>r. ds_TenantID r = ds_TenantID d \<and> ds_TableID r = ds_TableID d \<and> ds_Status r = ''open'') (cm_sessions s))
         (Failed Conflict ''dining_sessions'')] ?s) (audited (ds_TenantID d) a d)) = Inr (v, s')"
  then have run: "audited (ds_TenantID d) a d ?s = Inr (v, s')" and fresh: "ds_ID ?d \<notin> set (map ds_ID (cm_sessions s))"
    and one: "length (filter ?hit (cm_tables s)) = 1"
    by (auto simp: commerce_Inr list_ex_iff simp del: filter_filter)
  from one obtain r where "filter ?hit (cm_tables s) = [r]" by (auto simp: length_Suc_conv)
  then have "r \<in> set (filter ?hit (cm_tables s))" by simp
  then have r: "r \<in> set (cm_tables s)" "?hit r" by simp_all
  have "dining_holds (update_where ?hit ?f (cm_tables s)) (cm_sessions s @ [?d])"
    by (rule dining_open [where r = r, OF _ r(1)]) (use ok r fresh in \<open>auto simp: commerce_ok_def at_row_def\<close>)
  with ok have "commerce_ok D ?s" by (simp add: commerce_ok_def)
  with run show "commerce_ok D s'" by (rule audited_ok)
qed

lemma in_map_filter: "v \<in> set (List.map_filter f xs) \<longleftrightarrow> (\<exists>x \<in> set xs. f x = Some v)"
  by (induction xs) (auto simp: List.map_filter_def)

lemma labelled_Some: "labelled s u = Some v \<Longrightarrow> \<exists>l. v = u\<lparr>ds_TableLabel := l\<rparr>"
  by (auto simp: labelled_def)

lemma close_session_ok: "commerce_ok D s \<Longrightarrow> commerce_ok D (snd (CloseDiningSession ctx tenant outlet k expected a s))"
  unfolding CloseDiningSession_def
proof (rule with_tenant_ok)
  fix x s'
  assume ok: "commerce_ok D s"
  let ?f = "\<lambda>r. r\<lparr>ds_Status := ''closed'', ds_ClosedAt := Some (ae_RecordedAt a), ds_Version := ds_Version r + 1\<rparr>"
  let ?g = "\<lambda>r. r\<lparr>dt_Status := ''cleaning'', dt_Version := dt_Version r + 1, dt_UpdatedAt := ae_RecordedAt a\<rparr>"
  let ?s = "\<lambda>table. s\<lparr>cm_sessions := update_where (session_at tenant outlet k) ?f (cm_sessions s),
         cm_tables := update_where (\<lambda>r. dt_TenantID r = tenant \<and> dt_ID r = table) ?g (cm_tables s)\<rparr>"
  assume "rbind (query_row (session_at tenant outlet k) (List.map_filter (labelled s) (cm_sessions s))) (\<lambda>v.
    if ds_Version v \<noteq> expected then Inl (Failed VersionConflict [])
    else if ds_Status v \<noteq> ''open'' then Inl (Failed InvalidTransition [])
    else audited tenant a (v\<lparr>ds_Status := ''closed'', ds_Version := ds_Version v + 1, ds_ClosedAt := Some (ae_RecordedAt a)\<rparr>)
      (?s (ds_TableID v))) = Inr (x, s')"
  then obtain v y where v: "v \<in> set (List.map_filter (labelled s) (cm_sessions s))" "session_at tenant outlet k v" "ds_Status v = ''open''"
    and run: "audited tenant a y (?s (ds_TableID v)) = Inr (x, s')"
    by (auto simp: rbind_Inr_iff dest!: query_row_Inr)
  from v(1) obtain u l where u: "u \<in> set (cm_sessions s)" and v': "v = u\<lparr>ds_TableLabel := l\<rparr>"
    by (auto simp: in_map_filter dest!: labelled_Some)
  from v v' have u': "session_at tenant outlet k u" "ds_Status u = ''open''" "ds_TenantID u = tenant" "ds_TableID v = ds_TableID u"
    by (simp_all add: at_row_def)
  have "dining_holds (update_where (\<lambda>r. dt_TenantID r = ds_TenantID u \<and> dt_ID r = ds_TableID u) ?g (cm_tables s))
      (update_where (session_at tenant outlet k) ?f (cm_sessions s))"
    by (rule dining_close [OF _ u]) (use ok u' in \<open>auto simp: commerce_ok_def at_row_def\<close>)
  with ok have "commerce_ok D (?s (ds_TableID v))" by (simp add: commerce_ok_def u'(3,4))
  with run show "commerce_ok D s'" by (rule audited_ok)
qed

lemma close_shift_ok: "commerce_ok D s \<Longrightarrow> commerce_ok D (snd (CloseCashShift ctx tenant outlet k expected n a s))"
  unfolding CloseCashShift_def Let_def
  by (rule with_tenant_ok) (auto simp: rbind_Inr_iff dest!: audited_Inr simp: commerce_ok_def intro!: drawer_update)

lemma open_shift_ok: "commerce_ok D s \<Longrightarrow> commerce_ok D (snd (OpenCashShift ctx r a s))"
  unfolding OpenCashShift_def Let_def
proof (rule with_tenant_ok)
  fix x s'
  assume ok: "commerce_ok D s"
  let ?r = "r\<lparr>cs_Status := ''open'', cs_ExpectedCashMinor := cs_OpeningFloatMinor r,
         cs_ClosingCountMinor := None, cs_VarianceMinor := None, cs_ClosedAt := None, cs_Version := 1\<rparr>"
  let ?e = "\<lparr>ca_id = ae_ID a, ca_tenant_id = cs_TenantID r, ca_cash_shift_id = cs_ID r, ca_event_type = ''opening_float'',
      ca_amount_minor = cs_OpeningFloatMinor r, ca_reason = ''opening float'', ca_occurred_at = ae_RecordedAt a,
      ca_actor_id = ae_ActorID a, ca_operation_id = ae_OperationID a\<rparr>"
  let ?s = "s\<lparr>cm_shifts := cm_shifts s @ [?r]\<rparr>"
  assume "rbind (constrained
      [fails_if (cs_OpeningFloatMinor r < 0) (Failed InvalidReference ''cash_shifts_opening_float_minor_check''),
       fails_if (list_ex (\<lambda>q. cs_ID q = cs_ID r \<or> cs_TenantID q = cs_TenantID r \<and> cs_OutletID q = cs_OutletID r
           \<and> cs_RegisterLabel q = cs_RegisterLabel r \<and> cs_Status q = ''open'') (cm_shifts s)) (Failed Conflict ''cash_shifts''),
       fails_if ((cs_TenantID r, cs_OutletID r) \<notin> set (cm_outlets s)) (Failed InvalidReference ''cash_shifts'')] ?s) (\<lambda>s.
    rbind (constrained (cash_event_checks ?e s) (s\<lparr>cm_cash_events := cm_cash_events s @ [?e]\<rparr>)) (audited (cs_TenantID r) a ())) = Inr (x, s')"
  then have run: "audited (cs_TenantID r) a () (?s\<lparr>cm_cash_events := cm_cash_events s @ [?e]\<rparr>) = Inr (x, s')"
    and fresh: "cs_ID ?r \<notin> set (map cs_ID (cm_shifts s))"
    by (auto simp: commerce_Inr list_ex_iff)
  have "drawer_holds (cm_shifts s @ [?r]) (cm_cash_events s @ [?e]) (tenders s)"
    by (rule drawer_open [OF _ fresh]) (use ok in \<open>simp_all add: commerce_ok_def\<close>)
  with ok have "commerce_ok D (?s\<lparr>cm_cash_events := cm_cash_events s @ [?e]\<rparr>)" by (simp add: commerce_ok_def)
  with run show "commerce_ok D s'" by (rule audited_ok)
qed

lemma posted_ok:
  assumes "posted v s s'" "commerce_ok D s" "payments_hold D (cm_orders s) (tenders s @ [v])"
  shows "commerce_ok D s'"
  using assms drawer_posted [of s "tenders s" v s'] by (auto simp: posted_def commerce_ok_def)

lemma capture_ok:
  assumes ok: "commerce_ok D s" and seen: "earlier seen s"
  shows "commerce_ok (D \<union> capture_disturbs v seen s) (snd (with_tenant ctx (capture_tender sha256 v receipt a seen) s))"
proof (rule with_tenant_ok)
  show ok': "commerce_ok (D \<union> capture_disturbs v seen s) s" using ok by (rule commerce_ok_mono) simp
  fix x s'
  let ?w = "v\<lparr>td_Status := ''captured'', td_ReversesTenderID := []\<rparr>"
  assume "capture_tender sha256 v receipt a seen s = Inr (x, s')"
  from capture_posted [OF this] obtain order where order: "order \<in> set (cm_orders seen)"
    "order_at (td_TenantID v) (td_OutletID v) (td_OrderID v) order"
    "wrap64 (sum_list (map signed_amount (tenders_of_order (td_TenantID v) (td_OrderID v) seen)) + td_AmountMinor v) \<le> bo_total_minor order"
    and posted: "posted ?w s s'" by blast
  have "order \<in> set (cm_orders s)" using order(1) seen set_mono_prefix by (auto simp: earlier_def)
  then have "payments_hold (D \<union> capture_disturbs v seen s) (cm_orders s) (tenders s @ [?w])"
    by (rule capture_keeps_payments [rotated])
      (use ok' order posted in \<open>auto simp: commerce_ok_def at_row_def posted_def paid_on_def tenders_of_order_def
         capture_disturbs_def order_key_def bill_key_def split: if_splits\<close>)
  with posted_ok [OF posted ok'] show "commerce_ok (D \<union> capture_disturbs v seen s) s'" by simp
qed

lemma refund_ok:
  assumes ok: "commerce_ok D s"
  shows "commerce_ok (D \<union> refund_disturbs v s) (snd (ReverseTender sha256 ctx v a s))"
proof -
  have ok': "commerce_ok (D \<union> refund_disturbs v s) s" using ok by (rule commerce_ok_mono) simp
  show ?thesis
  proof (cases "fst (ReverseTender sha256 ctx v a s)")
    case (Inl e)
    then have "snd (ReverseTender sha256 ctx v a s) = s"
      by (simp add: ReverseTender_def with_tenant_def transact_def split: sum.splits prod.splits)
    with ok' show ?thesis by simp
  next
    case (Inr x)
    then have "ReverseTender sha256 ctx v a s = (Inr x, snd (ReverseTender sha256 ctx v a s))" by (metis prod.collapse)
    from reverse_posted [OF this] obtain w where w: "w \<in> set (tenders s)" "td_TenantID w = td_TenantID v"
      "td_ID w = td_ReversesTenderID v" "td_Status w = ''captured''"
      "wrap64 (sum_list (map td_AmountMinor (refunds_of (td_TenantID v) (td_ReversesTenderID v) s)) + td_AmountMinor v) \<le> td_AmountMinor w"
      and posted: "posted (refund_row w v) s (snd (ReverseTender sha256 ctx v a s))" by blast
    have key: "order_key (refund_row w v) = order_key w" using w(2) by (simp add: order_key_def refund_row_def)
    have small: "small (td_AmountMinor v)" if "order_key w \<notin> D \<union> refund_disturbs v s"
      using that w(1-3) by (auto simp: refund_disturbs_def split: if_splits)
    have "payments_hold (D \<union> refund_disturbs v s) (cm_orders s) (tenders s @ [refund_row w v])"
      by (rule refund_keeps_payments [OF _ w(1,4)])
        (use ok' w small key posted in \<open>auto simp: commerce_ok_def posted_def refunded_of_def refunds_of_def refund_row_def\<close>)
    with posted_ok [OF posted ok'] show ?thesis by simp
  qed
qed

lemma new_order_ok:
  assumes ok: "commerce_ok D s" and fresh: "bill_key b \<notin> bill_key ` set (cm_orders s)"
  shows "commerce_ok (D \<union> bill_disturbs b) (s\<lparr>cm_orders := cm_orders s @ [b]\<rparr>)"
proof -
  have "payments_hold (D \<union> bill_disturbs b) (cm_orders s @ [b]) (tenders s)"
    by (rule bill_keeps_payments [OF _ fresh])
      (use commerce_ok_mono [OF ok, of "D \<union> bill_disturbs b"] in \<open>auto simp: commerce_ok_def bill_disturbs_def split: if_splits\<close>)
  with ok show ?thesis by (simp add: commerce_ok_def)
qed

lemma commerce_step_ok: "commerce_step sha256 d s s' \<Longrightarrow> commerce_ok D s \<Longrightarrow> commerce_ok (D \<union> d) s'"
  by (induction rule: commerce_step.induct)
    (simp_all add: availability_ok create_table_ok transition_table_ok open_session_ok close_session_ok open_shift_ok
      close_shift_ok capture_ok refund_ok settle_ok new_order_ok, simp add: commerce_ok_def)

lemma commerce_reachable_ok: "commerce_reachable sha256 D s \<Longrightarrow> commerce_ok D s"
  by (induction rule: commerce_reachable.induct) (auto intro: commerce_ok_empty commerce_step_ok)

subsection \<open>Properties\<close>

text \<open>
  C17: orders are overpaid by races and extreme amounts only. In whatever order the operations are carried
  out, with whatever amounts, and however old the snapshot is that a capture compares with: unless a capture
  of the order was overtaken by another tender of it, or a total, tender or refund of it was \<open>2 ^ 62\<close> minor units
  or more, what is captured on an order minus what is refunded is never negative and never more than its total, and the
  refunds of a tender are never more than the tender. (That either exception does break it is shown below.)
\<close>

theorem payments_stay_within_the_bill:
  assumes "commerce_reachable sha256 D s"
  shows "(\<forall>b \<in> set (cm_orders s). bill_key b \<notin> D \<longrightarrow> 0 \<le> paid_on (bo_tenant_id b) (bo_id b) (tenders s)
       \<and> paid_on (bo_tenant_id b) (bo_id b) (tenders s) \<le> bo_total_minor b)
    \<and> (\<forall>v \<in> set (tenders s). order_key v \<notin> D \<longrightarrow> td_Status v = ''captured''
       \<longrightarrow> refunded_of (td_TenantID v) (td_ID v) (tenders s) \<le> td_AmountMinor v)"
proof -
  from commerce_reachable_ok [OF assms] have ok: "payments_hold D (cm_orders s) (tenders s)" by (simp add: commerce_ok_def)
  with paid_on_nonneg [OF ok] show ?thesis unfolding payments_hold_def bill_key_def by blast
qed

text \<open>
  C19: the drawer agrees with its books. The expected cash of every shift is the sum of its cash events,
  and also its opening float plus the cash tenders captured on it minus the cash refunded from it.
\<close>

theorem expected_cash_agrees_with_the_books:
  assumes "commerce_reachable sha256 D s" "r \<in> set (cm_shifts s)"
  shows "cs_ExpectedCashMinor r = logged_on (cs_TenantID r) (cs_ID r) (cm_cash_events s)
    \<and> cs_ExpectedCashMinor r = cs_OpeningFloatMinor r + cash_taken (cs_TenantID r) (cs_ID r) (tenders s)"
proof -
  from commerce_reachable_ok [OF assms(1)] have "drawer_holds (cm_shifts s) (cm_cash_events s) (tenders s)" by (simp add: commerce_ok_def)
  with assms(2) show ?thesis unfolding drawer_holds_def by metis
qed

text \<open>
  C26: a dining table is occupied exactly while one session is open at it: an occupied table has one open
  session, any other table has none, and every session is at a table of its tenant.
\<close>

theorem occupied_tables_have_one_open_session:
  assumes "commerce_reachable sha256 D s"
  shows "(\<forall>r \<in> set (cm_tables s). length (open_sessions (dt_TenantID r) (dt_ID r) (cm_sessions s))
       = (if dt_Status r = ''occupied'' then 1 else 0))
    \<and> (\<forall>v \<in> set (cm_sessions s). \<exists>r \<in> set (cm_tables s). dt_TenantID r = ds_TenantID v \<and> dt_ID r = ds_TableID v)"
proof -
  from commerce_reachable_ok [OF assms] have "dining_holds (cm_tables s) (cm_sessions s)" by (simp add: commerce_ok_def)
  then show ?thesis unfolding dining_holds_def by blast
qed

subsection \<open>A day at the till\<close>

definition till_audit :: "string \<Rightarrow> audit_event" where
  "till_audit k = \<lparr>ae_ID = k, ae_OperationID = k, ae_TenantID = ''t'', ae_OutletID = ''o'', ae_ActorID = ''a'', ae_DeviceID = ''d'',
     ae_Source = ''pos'', ae_SourceID = [], ae_IdempotencyKey = k, ae_CorrelationID = [], ae_SchemaVersion = ''1.0'', ae_Action = ''act'',
     ae_EntityType = ''e'', ae_EntityID = k, ae_OccurredAt = 1, ae_RecordedAt = 1\<rparr>"

definition till_tender :: "string \<Rightarrow> string \<Rightarrow> int \<Rightarrow> string \<Rightarrow> tender" where
  "till_tender k type_name amount reverses = \<lparr>td_ID = k, td_TenantID = ''t'', td_OutletID = ''o'', td_OrderID = ''bill'',
     td_CashShiftID = (if type_name = ''cash'' then ''shift'' else []), td_TenderType = type_name, td_AmountMinor = amount, td_Currency = ''INR'',
     td_ProviderReference = [], td_Status = ''captured'', td_ReversesTenderID = reverses, td_OccurredAt = 1\<rparr>"

definition till_receipt :: "string \<Rightarrow> fiscal_receipt" where
  "till_receipt k = \<lparr>fr_ID = k, fr_OrderID = ''bill'', fr_ReceiptNumber = k, fr_Currency = [], fr_SubtotalMinor = 0, fr_DiscountMinor = 0,
     fr_TaxMinor = 0, fr_ServiceChargeMinor = 0, fr_TotalMinor = 0, fr_IssuedAt = 1\<rparr>"

definition till_order :: billed_order where
  "till_order = \<lparr>bo_id = ''bill'', bo_tenant_id = ''t'', bo_outlet_id = ''o'', bo_subtotal_minor = 1000, bo_discount_total_minor = 0,
     bo_tax_total_minor = 0, bo_service_charge_minor = 0, bo_total_minor = 1000, bo_currency = ''INR''\<rparr>"

definition till_shift :: cash_shift where
  "till_shift = \<lparr>cs_ID = ''shift'', cs_TenantID = ''t'', cs_OutletID = ''o'', cs_RegisterLabel = ''r1'', cs_Status = ''open'',
     cs_OpeningFloatMinor = 200, cs_ExpectedCashMinor = 200, cs_ClosingCountMinor = None, cs_VarianceMinor = None, cs_OpenedAt = 1,
     cs_ClosedAt = None, cs_Version = 1\<rparr>"

definition till_table :: dining_table where
  "till_table = \<lparr>dt_ID = ''table'', dt_TenantID = ''t'', dt_OutletID = ''o'', dt_Label = ''T1'', dt_Section = [], dt_Capacity = 4,
     dt_Status = ''available'', dt_Version = 1, dt_CreatedAt = 1, dt_UpdatedAt = 1\<rparr>"

definition till_session :: dining_session where
  "till_session = \<lparr>ds_ID = ''session'', ds_TenantID = ''t'', ds_OutletID = ''o'', ds_TableID = ''table'', ds_TableLabel = [],
     ds_Status = ''open'', ds_GuestCount = 2, ds_GuestName = [], ds_OpenedAt = 1, ds_ClosedAt = None, ds_Version = 1\<rparr>"

abbreviation plain_bytes :: "string \<Rightarrow> 8 word list" where
  "plain_bytes \<equiv> \<lambda>t. take 32 (map of_char t @ replicate 32 0)"

definition shop0 :: commerce_db where "shop0 = empty_commerce\<lparr>cm_outlets := [(''t'', ''o'')], cm_items := []\<rparr>"
definition shop1 :: commerce_db where "shop1 = shop0\<lparr>cm_orders := cm_orders shop0 @ [till_order]\<rparr>"
definition shop2 :: commerce_db where "shop2 = snd (OpenCashShift None till_shift (till_audit ''2'') shop1)"
definition shop3 :: commerce_db where "shop3 = snd (CreateDiningTable None till_table (till_audit ''3'') shop2)"
definition shop4 :: commerce_db where "shop4 = snd (OpenDiningSession None till_session (till_audit ''4'') shop3)"
definition shop5 :: commerce_db where
  "shop5 = snd (CaptureTender plain_bytes None (till_tender ''v'' ''cash'' 600 []) (till_receipt ''1'') (till_audit ''5'') shop4)"
definition shop6 :: commerce_db where "shop6 = snd (ReverseTender plain_bytes None (till_tender ''w'' ''cash'' 100 ''v'') (till_audit ''6'') shop5)"

lemma shop_reachable:
  "commerce_reachable plain_bytes {} shop1" "commerce_reachable plain_bytes {} shop6"
proof -
  have "commerce_reachable plain_bytes {} shop0" unfolding shop0_def by (rule calm_step [OF start catalogue])
  moreover have "commerce_step plain_bytes (bill_disturbs till_order) shop0 shop1" unfolding shop1_def
    by (rule new_order) (simp add: shop0_def empty_commerce_def)
  ultimately show one: "commerce_reachable plain_bytes {} shop1"
    by (auto intro: calm_step simp: bill_disturbs_def till_order_def small_def)
  have "commerce_reachable plain_bytes {} shop2" unfolding shop2_def by (rule calm_step [OF one open_shift])
  then have "commerce_reachable plain_bytes {} shop3" unfolding shop3_def by (rule calm_step [OF _ create_table])
  then have "commerce_reachable plain_bytes {} shop4" unfolding shop4_def by (rule calm_step [OF _ open_session])
  moreover have "commerce_step plain_bytes (capture_disturbs (till_tender ''v'' ''cash'' 600 []) shop4 shop4) shop4 shop5"
    unfolding shop5_def by (rule serial_capture)
  ultimately have "commerce_reachable plain_bytes {} shop5"
    by (auto intro: calm_step simp: capture_disturbs_def till_tender_def small_def)
  moreover have "commerce_step plain_bytes (refund_disturbs (till_tender ''w'' ''cash'' 100 ''v'') shop5) shop5 shop6"
    unfolding shop6_def by (rule refund)
  ultimately show "commerce_reachable plain_bytes {} shop6"
    by (auto intro: calm_step simp: refund_disturbs_def till_tender_def small_def)
qed

lemma shop_rows:
  "cm_orders shop6 = [till_order]" "map (\<lambda>v. (td_ID v, signed_amount v)) (tenders shop6) = [(''v'', 600), (''w'', - 100)]"
  "map (\<lambda>r. (cs_TenantID r, cs_ID r, cs_ExpectedCashMinor r)) (cm_shifts shop6) = [(''t'', ''shift'', 700)]"
  "map (\<lambda>r. (dt_TenantID r, dt_ID r, dt_Status r)) (cm_tables shop6) = [(''t'', ''table'', ''occupied'')]"
  by code_simp+

lemma payments_stay_within_the_bill_witness:
  "paid_on ''t'' ''bill'' (tenders shop6) \<le> 1000"
  using payments_stay_within_the_bill [OF shop_reachable(2)] by (simp add: shop_rows) (simp add: till_order_def bill_key_def)

lemma expected_cash_agrees_with_the_books_witness:
  "logged_on ''t'' ''shift'' (cm_cash_events shop6) = 700 \<and> cash_taken ''t'' ''shift'' (tenders shop6) = 500"
proof -
  from shop_rows(3) obtain r where r: "r \<in> set (cm_shifts shop6)" "cs_TenantID r = ''t''" "cs_ID r = ''shift''" "cs_ExpectedCashMinor r = 700"
    by (auto simp: Cons_eq_map_conv map_eq_Cons_conv)
  have "map cs_OpeningFloatMinor (cm_shifts shop6) = [200]" by code_simp
  with shop_rows(3) r have "cs_OpeningFloatMinor r = 200" by (auto simp: map_eq_Cons_conv)
  with expected_cash_agrees_with_the_books [OF shop_reachable(2) r(1)] r show ?thesis by simp
qed

lemma occupied_tables_have_one_open_session_witness:
  "length (open_sessions ''t'' ''table'' (cm_sessions shop6)) = 1"
proof -
  from shop_rows(4) obtain r where "r \<in> set (cm_tables shop6)" "dt_TenantID r = ''t''" "dt_ID r = ''table''" "dt_Status r = ''occupied''"
    by (auto simp: map_eq_Cons_conv)
  with occupied_tables_have_one_open_session [OF shop_reachable(2)] show ?thesis by force
qed

subsection \<open>Where the bounds end\<close>

text \<open>
  Two captures of one order can pay it twice. The paid sum is read by the command that locks the
  order, from that command's snapshot: a capture that waited for the lock while another one was committed
  still sees the order unpaid, is accepted, and the order of 1000 has 2000 captured on it.
\<close>

theorem racing_captures_pay_twice:
  "\<exists>s. commerce_reachable plain_bytes {(''t'', ''bill'')} s \<and> cm_orders s = [till_order] \<and> bo_total_minor till_order = 1000
    \<and> paid_on ''t'' ''bill'' (tenders s) = 2000"
proof -
  define f where "f = (\<lambda>s. snd (CaptureTender plain_bytes None (till_tender ''v'' ''upi'' 1000 []) (till_receipt ''1'') (till_audit ''5'') s))"
  define g where "g = (\<lambda>s. snd (with_tenant None (capture_tender plain_bytes (till_tender ''w'' ''upi'' 1000 []) (till_receipt ''2'')
    (till_audit ''6'') shop1) s))"
  have run: "cm_orders (g (f shop1)) = [till_order] \<and> paid_on ''t'' ''bill'' (tenders (g (f shop1))) = 2000 \<and> prefix (cm_orders shop1) (cm_orders (f shop1))
      \<and> prefix (cm_tenders shop1) (cm_tenders (f shop1)) \<and> tenders_of_order ''t'' ''bill'' shop1 = []
      \<and> map td_ID (tenders_of_order ''t'' ''bill'' (f shop1)) = [''v'']"
    unfolding f_def g_def by code_simp
  have "commerce_step plain_bytes (capture_disturbs (till_tender ''v'' ''upi'' 1000 []) shop1 shop1) shop1 (f shop1)"
    unfolding f_def by (rule serial_capture)
  then have "commerce_reachable plain_bytes {} (f shop1)"
    using shop_reachable(1) by (auto intro: calm_step simp: capture_disturbs_def till_tender_def small_def)
  moreover have "commerce_step plain_bytes (capture_disturbs (till_tender ''w'' ''upi'' 1000 []) shop1 (f shop1)) (f shop1) (g (f shop1))"
    unfolding g_def by (rule capture) (use run in \<open>simp add: earlier_def\<close>)
  ultimately have "commerce_reachable plain_bytes ({} \<union> capture_disturbs (till_tender ''w'' ''upi'' 1000 []) shop1 (f shop1)) (g (f shop1))"
    by (rule commerce_reachable.step)
  moreover have "capture_disturbs (till_tender ''w'' ''upi'' 1000 []) shop1 (f shop1) = {(''t'', ''bill'')}"
    using run by (auto simp: capture_disturbs_def till_tender_def order_key_def)
  ultimately have "commerce_reachable plain_bytes {(''t'', ''bill'')} (g (f shop1))" by simp
  with run show ?thesis by (intro exI [of _ "g (f shop1)"]) (simp add: till_order_def)
qed

text \<open>
  A tender can be so large that it passes the check. Once one unit of the order of 1000 is paid, a
  tender of \<open>2 ^ 63 - 1\<close> units is accepted, because the sum with what was paid wraps to a negative number.
\<close>

theorem oversized_tender_is_accepted:
  "\<exists>s. commerce_reachable plain_bytes {(''t'', ''bill'')} s \<and> cm_orders s = [till_order] \<and> bo_total_minor till_order = 1000
    \<and> paid_on ''t'' ''bill'' (tenders s) = 2 ^ 63"
proof -
  let ?small = "till_tender ''v'' ''upi'' 1 []" and ?large = "till_tender ''w'' ''upi'' (2 ^ 63 - 1) []"
  define f where "f = (\<lambda>s. snd (CaptureTender plain_bytes None ?small (till_receipt ''1'') (till_audit ''5'') s))"
  define g where "g = (\<lambda>s. snd (CaptureTender plain_bytes None ?large (till_receipt ''2'') (till_audit ''6'') s))"
  have run: "cm_orders (g (f shop1)) = [till_order] \<and> paid_on ''t'' ''bill'' (tenders (g (f shop1))) = 2 ^ 63"
    unfolding f_def g_def by code_simp
  have "commerce_step plain_bytes (capture_disturbs ?small shop1 shop1) shop1 (f shop1)" unfolding f_def by (rule serial_capture)
  then have "commerce_reachable plain_bytes {} (f shop1)"
    using shop_reachable(1) by (auto intro: calm_step simp: capture_disturbs_def till_tender_def small_def)
  moreover have "commerce_step plain_bytes (capture_disturbs ?large (f shop1) (f shop1)) (f shop1) (g (f shop1))"
    unfolding g_def by (rule serial_capture)
  ultimately have "commerce_reachable plain_bytes ({} \<union> capture_disturbs ?large (f shop1) (f shop1)) (g (f shop1))"
    by (rule commerce_reachable.step)
  moreover have "capture_disturbs ?large (f shop1) (f shop1) = {(''t'', ''bill'')}"
    by (simp add: capture_disturbs_def till_tender_def order_key_def small_def)
  ultimately have "commerce_reachable plain_bytes {(''t'', ''bill'')} (g (f shop1))" by simp
  with run show ?thesis by (intro exI [of _ "g (f shop1)"]) (simp add: till_order_def)
qed

end
