(* ===== verification/Core_Till_Facts.thy ===== *)
theory Core_Till_Facts
  imports Core_Till Core_Commerce_Properties
begin

text \<open>
  What a checkout does to each table, statement by statement: the facts that the properties of the point
  of sale rest on. A loop of statements keeps what each of them keeps.
\<close>

subsection \<open>Loops\<close>

lemma each_append: "each f (xs @ ys) s = rbind (each f xs s) (each f ys)"
proof (induction xs arbitrary: s)
  case (Cons x xs)
  then show ?case by (cases "f x s") simp_all
qed simp

lemma each_induct:
  assumes "each f xs s = Inr s'" "P [] s"
    and "\<And>done x rest u u'. xs = done @ x # rest \<Longrightarrow> P done u \<Longrightarrow> f x u = Inr u' \<Longrightarrow> P (done @ [x]) u'"
  shows "P xs s'"
proof -
  have "each f (take n xs) s = Inr u \<Longrightarrow> n \<le> length xs \<Longrightarrow> P (take n xs) u" for n u
  proof (induction n arbitrary: u)
    case (Suc n)
    then have split: "take (Suc n) xs = take n xs @ [xs ! n]" by (simp add: take_Suc_conv_app_nth)
    with Suc.prems obtain v where "each f (take n xs) s = Inr v" "f (xs ! n) v = Inr u"
      by (auto simp: each_append rbind_Inr_iff)
    with Suc show ?case
      unfolding split by (intro assms(3) [where rest = "drop (Suc n) xs"]) (simp_all add: id_take_nth_drop)
  qed (use assms in simp)
  from this [of "length xs" s'] assms(1) show ?thesis by simp
qed

lemma each_keeps:
  assumes "each f xs s = Inr s'" "\<And>x u u'. x \<in> set xs \<Longrightarrow> f x u = Inr u' \<Longrightarrow> g u' = g u"
  shows "g s' = g s"
  using assms
proof (induction xs arbitrary: s)
  case (Cons x xs)
  then obtain u where "f x s = Inr u" "each f xs u = Inr s'" by (auto simp: rbind_Inr_iff)
  with Cons show ?case by (metis list.set_intros)
qed simp

text \<open>Every round appends the rows of its element.\<close>

lemma each_appends:
  assumes "each f xs s = Inr s'" "\<And>x u u'. x \<in> set xs \<Longrightarrow> f x u = Inr u' \<Longrightarrow> g u' = g u @ h x"
  shows "g s' = g s @ concat (map h xs)"
  using assms by (induction xs arbitrary: s) (auto simp: rbind_Inr_iff)

lemma each_all: "each f xs s = Inr s' \<Longrightarrow> x \<in> set xs \<Longrightarrow> \<exists>u u'. f x u = Inr u'"
  by (induction xs arbitrary: s) (auto simp: rbind_Inr_iff)

subsection \<open>Wrapping sums\<close>

lemma wrap64_mod: "wrap64 x mod 2 ^ 64 = x mod 2 ^ 64"
  by (simp add: wrap64_def mod_diff_left_eq)

lemma wrap64_cong: "x mod 2 ^ 64 = y mod 2 ^ 64 \<Longrightarrow> wrap64 x = wrap64 y"
  unfolding wrap64_def by (metis mod_add_left_eq)

lemma wrap64_add_left [simp]: "wrap64 (wrap64 x + y) = wrap64 (x + y)"
  by (rule wrap64_cong) (metis mod_add_left_eq wrap64_mod)

lemma wrap64_add_right [simp]: "wrap64 (x + wrap64 y) = wrap64 (x + y)"
  using wrap64_add_left [of y x] by (simp only: add.commute)

lemma foldl_wrap64: "foldl (\<lambda>n x. wrap64 (n + f x)) (wrap64 n) xs = wrap64 (n + sum_list (map f xs))"
  by (induction xs arbitrary: n) (simp_all add: add.assoc)

lemma wrap64_0 [simp]: "wrap64 0 = 0"
  by (simp add: wrap64_def)

lemma foldl_wrap64_0: "foldl (\<lambda>n x. wrap64 (n + f x)) 0 xs = wrap64 (sum_list (map f xs))"
  using foldl_wrap64 [of f 0 xs] by simp

lemma unit_price_sum: "unit_price item selected = wrap64 (ki_price item + sum_list (map ko_delta selected))"
  by (simp add: unit_price_def foldl_wrap64_0)

lemma paid_sum_sum: "paid_sum checkout = wrap64 (sum_list (map pn_AmountMinor (px_Tenders checkout)))"
  by (simp add: paid_sum_def foldl_wrap64_0)

subsection \<open>The bill\<close>

text \<open>A line of the request and the line of the order it became.\<close>

definition charged :: "pos_checkout \<Rightarrow> restaurant_db \<Rightarrow> string \<Rightarrow> pos_line \<Rightarrow> core_line \<Rightarrow> string \<Rightarrow> modifier_choice list \<Rightarrow> bool" where
  "charged checkout s currency input line station selected \<longleftrightarrow> (\<exists>item allowed.
     checkoutCatalog checkout input s = Inr (item, allowed) \<and> ki_active item \<and> ki_stationID item = station \<and> station \<noteq> []
     \<and> manager_available (px_TenantID checkout) (px_OutletID checkout) (ki_id item) (rd_commerce s)
     \<and> ki_currency item = currency \<and> select_choices allowed [] (ln_ModifierOptionIDs input) = Inr selected
     \<and> counts_ok allowed selected \<and> 0 \<le> unit_price item selected
     \<and> line = billed_line input item (unit_price item selected) currency)"

lemma bill_line_Inr:
  assumes "bill_line checkout s input b = Inr b'"
  shows "\<exists>line station selected. charged checkout s (bl_currency b') input line station selected
    \<and> b' = \<lparr>bl_currency = bl_currency b', bl_subtotal = wrap64 (bl_subtotal b + MinorUnits (cl_LineTotal line)),
        bl_lines = bl_lines b @ [line], bl_stations = bl_stations b @ [(station, cl_ID line)],
        bl_choices = bl_choices b @ map (Pair (cl_ID line)) selected\<rparr>
    \<and> (bl_currency b = [] \<or> bl_currency b = bl_currency b')"
proof -
  obtain item allowed selected where catalog: "checkoutCatalog checkout input s = Inr (item, allowed)"
    and choices: "select_choices allowed [] (ln_ModifierOptionIDs input) = Inr selected"
    and ok: "ki_active item" "ki_stationID item \<noteq> []"
      "manager_available (px_TenantID checkout) (px_OutletID checkout) (ki_id item) (rd_commerce s)"
      "bl_currency b = [] \<or> bl_currency b = ki_currency item" "counts_ok allowed selected" "\<not> unit_price item selected < 0"
    and b': "b' = (let currency = ki_currency item; line = billed_line input item (unit_price item selected) currency in
      \<lparr>bl_currency = currency, bl_subtotal = wrap64 (bl_subtotal b + MinorUnits (cl_LineTotal line)),
      bl_lines = bl_lines b @ [line], bl_stations = bl_stations b @ [(ki_stationID item, cl_ID line)],
      bl_choices = bl_choices b @ map (Pair (cl_ID line)) selected\<rparr>)"
    using assms unfolding bill_line_def Let_def
    by (elim rbind_InrE) (auto elim!: rbind_InrE split: prod.splits if_split_asm)
  let ?line = "billed_line input item (unit_price item selected) (ki_currency item)"
  have "charged checkout s (bl_currency b') input ?line (ki_stationID item) selected"
    unfolding charged_def using catalog choices ok by (auto simp: b' Let_def)
  with ok(4) show ?thesis by (auto simp: b' Let_def intro!: exI [of _ ?line])
qed

text \<open>A line of the order with its station and its chosen options.\<close>

type_synonym charge = "core_line \<times> string \<times> modifier_choice list"

definition charged_for :: "pos_checkout \<Rightarrow> restaurant_db \<Rightarrow> pos_line \<Rightarrow> charge \<Rightarrow> bool" where
  "charged_for checkout s input c \<longleftrightarrow>
     charged checkout s (Currency (cl_UnitPrice (fst c))) input (fst c) (fst (snd c)) (snd (snd c))"

definition bill_from :: "charge list \<Rightarrow> string \<Rightarrow> bill" where
  "bill_from cs currency = \<lparr>bl_currency = currency, bl_subtotal = wrap64 (sum_list (map (\<lambda>c. MinorUnits (cl_LineTotal (fst c))) cs)),
     bl_lines = map fst cs, bl_stations = map (\<lambda>c. (fst (snd c), cl_ID (fst c))) cs,
     bl_choices = concat (map (\<lambda>c. map (Pair (cl_ID (fst c))) (snd (snd c))) cs)\<rparr>"

lemma bill_of_charges:
  assumes "bill_of checkout s = Inr b"
  obtains cs where "list_all2 (charged_for checkout s) (px_Lines checkout) cs" "b = bill_from cs (bl_currency b)"
    "\<forall>c \<in> set cs. Currency (cl_UnitPrice (fst c)) \<in> {[], bl_currency b}"
proof -
  let ?P = "\<lambda>inputs b. \<exists>cs. list_all2 (charged_for checkout s) inputs cs \<and> b = bill_from cs (bl_currency b)
    \<and> (\<forall>c \<in> set cs. Currency (cl_UnitPrice (fst c)) \<in> {[], bl_currency b})"
  have "?P (px_Lines checkout) b"
  proof (rule each_induct [OF assms [unfolded bill_of_def]])
    show "?P [] empty_bill" by (simp add: bill_from_def empty_bill_def)
  next
    fix inputs input u u'
    assume "?P inputs u"
    then obtain cs where cs: "list_all2 (charged_for checkout s) inputs cs" "u = bill_from cs (bl_currency u)"
      "\<forall>c \<in> set cs. Currency (cl_UnitPrice (fst c)) \<in> {[], bl_currency u}" by blast
    assume "bill_line checkout s input u = Inr u'"
    from bill_line_Inr [OF this] obtain line station selected where
      charged: "charged checkout s (bl_currency u') input line station selected"
      and u': "u' = \<lparr>bl_currency = bl_currency u', bl_subtotal = wrap64 (bl_subtotal u + MinorUnits (cl_LineTotal line)),
        bl_lines = bl_lines u @ [line], bl_stations = bl_stations u @ [(station, cl_ID line)],
        bl_choices = bl_choices u @ map (Pair (cl_ID line)) selected\<rparr>"
      and cur: "bl_currency u = [] \<or> bl_currency u = bl_currency u'" by blast
    have own: "Currency (cl_UnitPrice line) = bl_currency u'" using charged by (auto simp: charged_def billed_line_def)
    have "bl_subtotal u = bl_subtotal (bill_from cs (bl_currency u))" "bl_lines u = bl_lines (bill_from cs (bl_currency u))"
      "bl_stations u = bl_stations (bill_from cs (bl_currency u))" "bl_choices u = bl_choices (bill_from cs (bl_currency u))"
      using cs(2) by metis+
    with u' have "u' = bill_from (cs @ [(line, station, selected)]) (bl_currency u')"
      by (subst u') (simp add: bill_from_def)
    moreover have "list_all2 (charged_for checkout s) (inputs @ [input]) (cs @ [(line, station, selected)])"
      using cs(1) charged own by (intro list_all2_appendI) (simp_all add: charged_for_def)
    moreover have "\<forall>c \<in> set (cs @ [(line, station, selected)]). Currency (cl_UnitPrice (fst c)) \<in> {[], bl_currency u'}"
      using cs(3) own cur by auto
    ultimately show "?P (inputs @ [input]) u'" by blast
  qed
  with that show thesis by blast
qed

subsection \<open>The statements\<close>

definition line_row_of :: "core_order \<Rightarrow> core_line \<Rightarrow> line_row" where
  "line_row_of v line = \<lparr>lw_line = line, lw_tenant_id = co_TenantID v, lw_order_id = co_ID v,
     lw_created_at = rm_CreatedAt (co_Meta v)\<rparr>"

definition exact_line :: "core_line \<Rightarrow> bool" where
  "exact_line line \<longleftrightarrow> 0 < cl_Quantity line \<and> 0 \<le> MinorUnits (cl_UnitPrice line)
     \<and> MinorUnits (cl_LineTotal line) = MinorUnits (cl_UnitPrice line) * cl_Quantity line"

definition exact_order :: "core_order \<Rightarrow> bool" where
  "exact_order v \<longleftrightarrow> MinorUnits (co_Total v) = MinorUnits (co_Subtotal v) - MinorUnits (co_DiscountTotal v)
       + MinorUnits (co_TaxTotal v) + MinorUnits (co_ServiceCharge v)
     \<and> 0 \<le> MinorUnits (co_Subtotal v) \<and> 0 \<le> MinorUnits (co_DiscountTotal v) \<and> 0 \<le> MinorUnits (co_TaxTotal v)
     \<and> 0 \<le> MinorUnits (co_ServiceCharge v) \<and> 0 \<le> MinorUnits (co_Total v) \<and> ValidCurrency (Currency (co_Total v))"

lemma insert_order_row_Inr:
  assumes "insert_order_row v a s = Inr s'"
  shows "exact_order v \<and> \<not> list_ex (\<lambda>r. bo_id r = co_ID v) (cm_orders (rd_commerce s))
    \<and> s' = s\<lparr>rd_commerce := (rd_commerce s)\<lparr>cm_orders := cm_orders (rd_commerce s) @ [amounts_of v]\<rparr>,
         rd_orders := rd_orders s @ [\<lparr>ow_order = v\<lparr>co_Lines := []\<rparr>, ow_source = ae_Source a, ow_source_id = ae_SourceID a\<rparr>]\<rparr>"
  using assms unfolding insert_order_row_def exact_order_def Let_def guarded_Inr_iff by simp

lemma insert_line_Inr:
  assumes "insert_line v line s = Inr s'"
  shows "exact_line line \<and> (\<exists>rows. s' = s\<lparr>rd_lines := rd_lines s @ [line_row_of v line],
    rd_recipe_snapshots := rd_recipe_snapshots s @ rows\<rparr>)"
  using assms
  by (auto simp: insert_line_def insert_line_row_def insert_recipe_snapshots_def rbind_Inr_iff guarded_Inr_iff Let_def
      exact_line_def line_row_of_def)

lemma insert_choice_Inr: "insert_choice v c s = Inr s' \<Longrightarrow> \<exists>rows. s' = s\<lparr>rd_modifier_snapshots := rows\<rparr>"
  by (auto simp: insert_choice_def guarded_Inr_iff Let_def split: prod.splits)

definition ticket_line_of :: "core_ticket \<Rightarrow> string \<Rightarrow> ticket_line_row" where
  "ticket_line_of t line = \<lparr>tl_tenant_id = ct_TenantID t, tl_ticket_id = ct_ID t, tl_order_id = ct_OrderID t, tl_order_line_id = line\<rparr>"

lemma insert_ticket_lines_Inr:
  "each (insert_ticket_line t) lines s = Inr s' \<Longrightarrow> s' = s\<lparr>rd_ticket_lines := rd_ticket_lines s @ map (ticket_line_of t) lines\<rparr>"
proof (induction lines arbitrary: s)
  case (Cons line lines)
  then obtain u where "insert_ticket_line t line s = Inr u"
    "s' = u\<lparr>rd_ticket_lines := rd_ticket_lines u @ map (ticket_line_of t) lines\<rparr>" by (auto simp: rbind_Inr_iff)
  then show ?case by (simp add: insert_ticket_line_def guarded_Inr_iff ticket_line_of_def)
qed simp

text \<open>The rows a station gets.\<close>

definition print_row_of :: "(string \<Rightarrow> 8 word list) \<Rightarrow> pos_checkout \<Rightarrow> audit_event \<Rightarrow> core_ticket \<Rightarrow> print_row" where
  "print_row_of sha256 checkout a t = \<lparr>pw_job = print_job_of sha256 checkout a t,
     pw_operation_id = inventoryEventUUID sha256 (px_TenantID checkout) (ae_OperationID a) (''print:'' @ ct_StationID t)\<rparr>"

definition queued_event :: "(string \<Rightarrow> 8 word list) \<Rightarrow> pos_checkout \<Rightarrow> audit_event \<Rightarrow> core_ticket \<Rightarrow> history_row" where
  "queued_event sha256 checkout a t = \<lparr>hy_id = inventoryEventUUID sha256 (px_TenantID checkout) (px_ID checkout) (''print-event:'' @ ct_StationID t),
     hy_tenant_id = px_TenantID checkout, hy_subject_id = kp_ID (print_job_of sha256 checkout a t), hy_event_type = ''queued'',
     hy_occurred_at = ae_RecordedAt a, hy_actor_id = ae_ActorID a,
     hy_operation_id = inventoryEventUUID sha256 (px_TenantID checkout) (ae_OperationID a) (''print:'' @ ct_StationID t)\<rparr>"

lemma send_to_station_Inr:
  assumes "send_to_station sha256 checkout a b station s = Inr s'"
  defines "t \<equiv> ticket_of sha256 checkout a b station"
  shows "kp_ID (print_job_of sha256 checkout a t) \<notin> kp_ID ` pw_job ` set (rd_print_jobs s)
    \<and> s' = s\<lparr>rd_tickets := rd_tickets s @ [t\<lparr>ct_LineIDs := []\<rparr>],
         rd_ticket_lines := rd_ticket_lines s @ map (ticket_line_of t) (ct_LineIDs t),
         rd_print_jobs := rd_print_jobs s @ [print_row_of sha256 checkout a t],
         rd_print_events := rd_print_events s @ [queued_event sha256 checkout a t]\<rparr>"
proof -
  have station: "ct_StationID t = station" by (simp add: t_def ticket_of_def)
  obtain u v where "insert_ticket_row t s = Inr u" "each (insert_ticket_line t) (ct_LineIDs t) u = Inr v"
    and rest: "rbind (insert_print_job (print_job_of sha256 checkout a t)
        (inventoryEventUUID sha256 (px_TenantID checkout) (ae_OperationID a) (''print:'' @ station)) v)
       (insert_print_event (queued_event sha256 checkout a t)) = Inr s'"
    using assms(1) by (auto simp: send_to_station_def Let_def rbind_Inr_iff queued_event_def station t_def [symmetric])
  from insert_ticket_lines_Inr [OF this(2)] this(1) rest station show ?thesis
    by (auto simp: insert_ticket_row_def insert_print_job_def insert_print_event_def guarded_Inr_iff rbind_Inr_iff
        print_row_of_def list_ex_iff)
qed

definition issued_event :: "(string \<Rightarrow> 8 word list) \<Rightarrow> pos_checkout \<Rightarrow> audit_event \<Rightarrow> history_row" where
  "issued_event sha256 checkout a = \<lparr>hy_id = inventoryEventUUID sha256 (px_TenantID checkout) (px_ID checkout) ''token-event'',
     hy_tenant_id = px_TenantID checkout, hy_subject_id = px_PickupTokenID checkout, hy_event_type = ''issued'',
     hy_occurred_at = ae_RecordedAt a, hy_actor_id = ae_ActorID a,
     hy_operation_id = inventoryEventUUID sha256 (px_TenantID checkout) (ae_OperationID a) ''token''\<rparr>"

lemma issue_token_Inr:
  assumes "issue_token sha256 checkout a s = Inr s'"
  shows "if px_PickupTokenID checkout = [] then s' = s
    else px_PickupTokenID checkout \<notin> pk_ID ` kw_token ` set (rd_tokens s)
      \<and> s' = s\<lparr>rd_tokens := rd_tokens s @ [\<lparr>kw_token = token_of checkout a,
          kw_operation_id = inventoryEventUUID sha256 (px_TenantID checkout) (ae_OperationID a) ''token''\<rparr>],
        rd_token_events := rd_token_events s @ [issued_event sha256 checkout a]\<rparr>"
  using assms
  by (auto simp: issue_token_def insert_token_def insert_token_event_def guarded_Inr_iff rbind_Inr_iff Let_def issued_event_def
      token_of_def token_row_of_def list_ex_iff split: if_splits)

lemma each_in_commerce: "each (\<lambda>x. in_commerce (f x)) xs s = in_commerce (each f xs) s"
  by (induction xs arbitrary: s) (auto simp: in_commerce_def rbind_def split: sum.splits)

lemma in_commerce_Inr: "in_commerce f s = Inr s' \<longleftrightarrow> (\<exists>c. f (rd_commerce s) = Inr c \<and> s' = s\<lparr>rd_commerce := c\<rparr>)"
  by (auto simp: in_commerce_def rbind_Inr_iff)

lemma insert_lines_Inr:
  "each (insert_line v) lines s = Inr s' \<Longrightarrow> list_all exact_line lines \<and> (\<exists>rows. s' = s\<lparr>rd_lines := rd_lines s @ map (line_row_of v) lines,
     rd_recipe_snapshots := rows\<rparr>)"
proof (induction lines arbitrary: s)
  case Nil
  then show ?case by (auto intro: exI [of _ "rd_recipe_snapshots s"])
next
  case (Cons line lines)
  then obtain u where u: "insert_line v line s = Inr u" "each (insert_line v) lines u = Inr s'" by (auto simp: rbind_Inr_iff)
  from insert_line_Inr [OF u(1)] Cons.IH [OF u(2)] show ?case by auto
qed

lemma insert_choices_Inr: "each (insert_choice v) cs s = Inr s' \<Longrightarrow> \<exists>rows. s' = s\<lparr>rd_modifier_snapshots := rows\<rparr>"
proof (induction cs arbitrary: s)
  case Nil
  then show ?case by (auto intro: exI [of _ "rd_modifier_snapshots s"])
next
  case (Cons c cs)
  then obtain u where u: "insert_choice v c s = Inr u" "each (insert_choice v) cs u = Inr s'" by (auto simp: rbind_Inr_iff)
  from insert_choice_Inr [OF u(1)] Cons.IH [OF u(2)] show ?case by auto
qed

definition tickets_of :: "(string \<Rightarrow> 8 word list) \<Rightarrow> pos_checkout \<Rightarrow> audit_event \<Rightarrow> bill \<Rightarrow> core_ticket list" where
  "tickets_of sha256 checkout a b = map (ticket_of sha256 checkout a b) (station_ids b)"

definition stations_served ::
  "(string \<Rightarrow> 8 word list) \<Rightarrow> pos_checkout \<Rightarrow> audit_event \<Rightarrow> core_ticket list \<Rightarrow> restaurant_db \<Rightarrow> restaurant_db" where
  "stations_served sha256 checkout a ts s = s\<lparr>rd_tickets := rd_tickets s @ map (\<lambda>t. t\<lparr>ct_LineIDs := []\<rparr>) ts,
     rd_ticket_lines := rd_ticket_lines s @ concat (map (\<lambda>t. map (ticket_line_of t) (ct_LineIDs t)) ts),
     rd_print_jobs := rd_print_jobs s @ map (print_row_of sha256 checkout a) ts,
     rd_print_events := rd_print_events s @ map (queued_event sha256 checkout a) ts\<rparr>"

text \<open>The new print jobs have identifiers of their own.\<close>

definition new_jobs :: "kitchen_print_job list \<Rightarrow> restaurant_db \<Rightarrow> bool" where
  "new_jobs js s \<longleftrightarrow> distinct (map kp_ID js) \<and> (\<forall>j \<in> set js. kp_ID j \<notin> kp_ID ` pw_job ` set (rd_print_jobs s))"

lemma send_to_stations_Inr:
  assumes "each (send_to_station sha256 checkout a b) stations s = Inr s'"
  shows "s' = stations_served sha256 checkout a (map (ticket_of sha256 checkout a b) stations) s
    \<and> new_jobs (map (print_job_of sha256 checkout a) (map (ticket_of sha256 checkout a b) stations)) s"
  using assms
proof (induction stations arbitrary: s)
  case Nil
  then show ?case by (simp add: stations_served_def new_jobs_def)
next
  case (Cons station stations)
  then obtain u where u: "send_to_station sha256 checkout a b station s = Inr u"
    "each (send_to_station sha256 checkout a b) stations u = Inr s'" by (auto simp: rbind_Inr_iff)
  from send_to_station_Inr [OF u(1)] Cons.IH [OF u(2)] show ?case
    by (auto simp: stations_served_def new_jobs_def print_row_of_def)
qed

subsection \<open>The whole checkout\<close>

definition placed_row_of :: "core_order \<Rightarrow> audit_event \<Rightarrow> placed_row" where
  "placed_row_of v a = \<lparr>ow_order = v\<lparr>co_Lines := []\<rparr>, ow_source = ae_Source a, ow_source_id = ae_SourceID a\<rparr>"

definition receipt_row_of :: "pos_checkout \<Rightarrow> audit_event \<Rightarrow> core_order \<Rightarrow> receipt_row" where
  "receipt_row_of checkout a v = \<lparr>rr_receipt = pos_receipt checkout a v, rr_tenant_id = px_TenantID checkout,
     rr_outlet_id = px_OutletID checkout, rr_actor_id = ae_ActorID a, rr_operation_id = ae_OperationID a\<rparr>"

definition payments ::
  "(string \<Rightarrow> 8 word list) \<Rightarrow> pos_checkout \<Rightarrow> audit_event \<Rightarrow> string \<Rightarrow> commerce_db \<Rightarrow> core_failure + commerce_db" where
  "payments sha256 checkout a currency = each (take_payment sha256 checkout a currency) (px_Tenders checkout)"

definition checked_out ::
  "(string \<Rightarrow> 8 word list) \<Rightarrow> pos_checkout \<Rightarrow> audit_event \<Rightarrow> bill \<Rightarrow> restaurant_db \<Rightarrow> restaurant_db \<Rightarrow> bool" where
  "checked_out sha256 checkout a b s s' \<longleftrightarrow>
     (let v = checkout_order checkout a b; ts = tickets_of sha256 checkout a b in
      exact_order v \<and> list_all exact_line (co_Lines v) \<and> px_DiscountMinor checkout \<le> bl_subtotal b
      \<and> paid_sum checkout = MinorUnits (co_Total v)
      \<and> \<not> list_ex (\<lambda>r. bo_id r = co_ID v) (cm_orders (rd_commerce s))
      \<and> (\<exists>c. payments sha256 checkout a (bl_currency b) ((rd_commerce s)\<lparr>cm_orders := cm_orders (rd_commerce s) @ [amounts_of v]\<rparr>) = Inr c
          \<and> rd_commerce s' = c\<lparr>cm_receipts := cm_receipts c @ [receipt_row_of checkout a v], cm_audits := cm_audits c @ [a]\<rparr>)
      \<and> rd_orders s' = rd_orders s @ [placed_row_of v a] \<and> rd_lines s' = rd_lines s @ map (line_row_of v) (co_Lines v)
      \<and> rd_tickets s' = rd_tickets s @ map (\<lambda>t. t\<lparr>ct_LineIDs := []\<rparr>) ts
      \<and> rd_ticket_lines s' = rd_ticket_lines s @ concat (map (\<lambda>t. map (ticket_line_of t) (ct_LineIDs t)) ts)
      \<and> new_jobs (map (print_job_of sha256 checkout a) ts) s
      \<and> rd_print_jobs s' = rd_print_jobs s @ map (print_row_of sha256 checkout a) ts
      \<and> rd_print_events s' = rd_print_events s @ map (queued_event sha256 checkout a) ts
      \<and> (if px_PickupTokenID checkout = [] then rd_tokens s' = rd_tokens s \<and> rd_token_events s' = rd_token_events s
         else px_PickupTokenID checkout \<notin> pk_ID ` kw_token ` set (rd_tokens s)
           \<and> rd_tokens s' = rd_tokens s @ [\<lparr>kw_token = token_of checkout a,
               kw_operation_id = inventoryEventUUID sha256 (px_TenantID checkout) (ae_OperationID a) ''token''\<rparr>]
           \<and> rd_token_events s' = rd_token_events s @ [issued_event sha256 checkout a])
      \<and> \<not> list_ex (checkouts_clash (checkout_row_of checkout a)) (rd_checkouts s)
      \<and> rd_checkouts s' = rd_checkouts s @ [checkout_row_of checkout a])"

lemma insert_receipt_Inr: "insert_receipt v tenant outlet a c = Inr c' \<Longrightarrow>
    c' = c\<lparr>cm_receipts := cm_receipts c @ [\<lparr>rr_receipt = v, rr_tenant_id = tenant, rr_outlet_id = outlet,
       rr_actor_id = ae_ActorID a, rr_operation_id = ae_OperationID a\<rparr>]\<rparr>"
  by (simp add: insert_receipt_def constrained_Inr)

lemma insert_checkout_Inr: "insert_checkout checkout a s = Inr s' \<Longrightarrow>
    \<not> list_ex (checkouts_clash (checkout_row_of checkout a)) (rd_checkouts s)
    \<and> s' = s\<lparr>rd_checkouts := rd_checkouts s @ [checkout_row_of checkout a]\<rparr>"
  by (simp add: insert_checkout_def guarded_Inr_iff)

lemma insertAudit_Inr: "insertAudit tenant a c = Inr c' \<Longrightarrow> c' = c\<lparr>cm_audits := cm_audits c @ [a]\<rparr>"
  by (simp add: insertAudit_def constrained_Inr)

lemma checkout_effect:
  assumes "checkout_body sha256 checkout a s = Inr (r, s')"
  obtains b where "bill_of checkout s = Inr b" "r = checkout_result sha256 checkout a b" "checked_out sha256 checkout a b s s'"
proof -
  obtain b where b: "bill_of checkout s = Inr b" using assms by (auto simp: checkout_body_def rbind_Inr_iff)
  let ?v = "checkout_order checkout a b"
  obtain s1 s2 s3 s4 s5 s6 s7 s8 s9 where run: "insert_order_row ?v a s = Inr s1" "each (insert_line ?v) (co_Lines ?v) s1 = Inr s2"
      "each (insert_choice ?v) (bl_choices b) s2 = Inr s3" "each (send_to_station sha256 checkout a b) (station_ids b) s3 = Inr s4"
      "issue_token sha256 checkout a s4 = Inr s5" "in_commerce (payments sha256 checkout a (bl_currency b)) s5 = Inr s6"
      "in_commerce (insert_receipt (pos_receipt checkout a ?v) (px_TenantID checkout) (px_OutletID checkout) a) s6 = Inr s7"
      "insert_checkout checkout a s7 = Inr s8" "in_commerce (insertAudit (px_TenantID checkout) a) s8 = Inr s9"
    and last: "px_DiscountMinor checkout \<le> bl_subtotal b" "paid_sum checkout = MinorUnits (co_Total ?v)"
      "r = checkout_result sha256 checkout a b" "s' = s9"
    using assms
    by (auto simp: checkout_body_def b rbind_Inr_iff each_in_commerce payments_def Let_def split: if_splits)
  from run(6,7,9) obtain c6 c7 c9 where c: "payments sha256 checkout a (bl_currency b) (rd_commerce s5) = Inr c6" "s6 = s5\<lparr>rd_commerce := c6\<rparr>"
    "insert_receipt (pos_receipt checkout a ?v) (px_TenantID checkout) (px_OutletID checkout) a (rd_commerce s6) = Inr c7"
    "s7 = s6\<lparr>rd_commerce := c7\<rparr>" "insertAudit (px_TenantID checkout) a (rd_commerce s8) = Inr c9" "s9 = s8\<lparr>rd_commerce := c9\<rparr>"
    by (auto simp: in_commerce_Inr)
  obtain rows2 rows3 where s: "s2 = s1\<lparr>rd_lines := rd_lines s1 @ map (line_row_of ?v) (co_Lines ?v), rd_recipe_snapshots := rows2\<rparr>"
    "list_all exact_line (co_Lines ?v)" "s3 = s2\<lparr>rd_modifier_snapshots := rows3\<rparr>"
    using insert_lines_Inr [OF run(2)] insert_choices_Inr [OF run(3)] by blast
  note effects = insert_order_row_Inr [OF run(1)] s send_to_stations_Inr [OF run(4), folded tickets_of_def]
    issue_token_Inr [OF run(5)] insert_receipt_Inr [OF c(3)] insert_checkout_Inr [OF run(8)] insertAudit_Inr [OF c(5)]
  have ids: "co_ID ?v = px_OrderID checkout" by (simp add: checkout_order_def Let_def)
  have "checked_out sha256 checkout a b s s'"
    unfolding checked_out_def Let_def
    using effects c last
    by (cases "px_PickupTokenID checkout = []")
      (simp_all add: stations_served_def placed_row_of_def receipt_row_of_def new_jobs_def)
  with that b last show thesis by blast
qed

end
