(* ===== verification/Core_Menu_Studio_Facts.thy ===== *)
theory Core_Menu_Studio_Facts
  imports Core_Menu_Studio Core_Till_Facts
begin

text \<open>
  What storing a version of a menu does to the tables: every table of parts gets the rows of the version, in
  their order, and nothing else. \<open>version_part\<close> states it for one table; from it follow, for all six, that
  the rows of other versions stay and that those of the new one are the stored ones.
\<close>

subsection \<open>The rows of a version\<close>

definition category_row_of :: "string \<Rightarrow> string \<Rightarrow> menu_studio_category \<Rightarrow> category_row" where
  "category_row_of tenant version c = \<lparr>cy_tenant_id = tenant, cy_menu_version_id = version, cy_category = c\<rparr>"

definition option_row_of :: "string \<Rightarrow> string \<Rightarrow> menu_modifier_option \<Rightarrow> modifier_option_row" where
  "option_row_of tenant gid opt = \<lparr>op_tenant_id = tenant, op_modifier_group_id = gid, op_option = opt\<rparr>"

definition group_row_of :: "string \<Rightarrow> string \<Rightarrow> menu_modifier_group \<Rightarrow> modifier_group_row" where
  "group_row_of tenant version g = \<lparr>gr_tenant_id = tenant, gr_menu_version_id = version, gr_group = g\<lparr>mg_Options := []\<rparr>\<rparr>"

lemmas studio_rows = category_row_of_def option_row_of_def group_row_of_def item_row_of_def price_row_of_def
  modifier_row_of_def publication_row_of_def version_row_of_def

definition option_rows :: "string \<Rightarrow> menu_modifier_group list \<Rightarrow> modifier_option_row list" where
  "option_rows tenant gs = concat (map (\<lambda>g. map (option_row_of tenant (mg_ID g)) (mg_Options g)) gs)"

definition modifier_rows :: "string \<Rightarrow> string \<Rightarrow> menu_studio_item list \<Rightarrow> item_modifier_row list" where
  "modifier_rows tenant version items =
     concat (map (\<lambda>i. map (modifier_row_of tenant version (si_MenuItemID i)) (si_ModifierGroupIDs i)) items)"

subsection \<open>The statements\<close>

text \<open>A loop of statements that each append a row.\<close>

lemma each_row:
  assumes "each f xs s = Inr s'" "\<And>x u u'. f x u = Inr u' \<Longrightarrow> u' = upd [h x] u"
    and "\<And>u. upd [] u = u" "\<And>a b u. upd b (upd a u) = upd (a @ b) u"
  shows "s' = upd (map h xs) s"
  using assms(1)
proof (induction xs arbitrary: s)
  case (Cons x xs)
  then obtain u where "f x s = Inr u" "each f xs u = Inr s'" by (auto simp: rbind_Inr_iff)
  with Cons.IH assms(2,4) show ?case by (metis append_Cons append_Nil list.simps(9))
qed (simp add: assms(3))

lemma insert_version_row_Inr:
  "insert_version_row studio v s = Inr s' \<Longrightarrow>
     s' = s\<lparr>rd_menu_versions := rd_menu_versions s @ [version_row_of (ms_TenantID studio) (v\<lparr>sv_MenuStudioID := ms_ID studio\<rparr>)]\<rparr>
     \<and> (\<forall>r \<in> set (rd_menu_versions s). sv_ID (vv_version r) \<noteq> sv_ID v)"
  by (auto simp: insert_version_row_def guarded_Inr_iff list_ex_iff)

lemma insert_categories_Inr:
  "each (insert_category tenant version) cs s = Inr s' \<Longrightarrow> s' = s\<lparr>rd_categories := rd_categories s @ map (category_row_of tenant version) cs\<rparr>"
  by (erule each_row [where upd = "\<lambda>rows s. s\<lparr>rd_categories := rd_categories s @ rows\<rparr>"]) (simp_all add: insert_category_def guarded_Inr_iff category_row_of_def)

lemma insert_options_Inr:
  "each (insert_option tenant gid) opts s = Inr s' \<Longrightarrow> s' = s\<lparr>rd_options := rd_options s @ map (option_row_of tenant gid) opts\<rparr>"
  by (erule each_row [where upd = "\<lambda>rows s. s\<lparr>rd_options := rd_options s @ rows\<rparr>"]) (simp_all add: insert_option_def guarded_Inr_iff option_row_of_def)

definition known_groups :: "restaurant_db \<Rightarrow> string set" where
  "known_groups s = (\<lambda>r. mg_ID (gr_group r)) ` set (rd_groups s)"

lemma insert_group_Inr:
  assumes "insert_group tenant version g s = Inr s'"
  shows "s' = s\<lparr>rd_groups := rd_groups s @ [group_row_of tenant version g], rd_options := rd_options s @ map (option_row_of tenant (mg_ID g)) (mg_Options g)\<rparr>
    \<and> mg_ID g \<notin> known_groups s"
proof -
  from assms obtain u where u: "insert_group_row tenant version g s = Inr u" and opts: "each (insert_option tenant (mg_ID g)) (mg_Options g) u = Inr s'"
    by (auto simp: insert_group_def rbind_Inr_iff)
  from u have "u = s\<lparr>rd_groups := rd_groups s @ [group_row_of tenant version g]\<rparr>" "mg_ID g \<notin> known_groups s"
    by (auto simp: insert_group_row_def guarded_Inr_iff group_row_of_def known_groups_def list_ex_iff)
  with insert_options_Inr [OF opts] show ?thesis by simp
qed

lemma insert_groups_Inr:
  assumes "each (insert_group tenant version) gs s = Inr s'"
  shows "s' = s\<lparr>rd_groups := rd_groups s @ map (group_row_of tenant version) gs, rd_options := rd_options s @ option_rows tenant gs\<rparr>
    \<and> distinct (map mg_ID gs) \<and> mg_ID ` set gs \<inter> known_groups s = {}"
  using assms
proof (induction gs arbitrary: s)
  case (Cons g gs)
  then obtain u where "insert_group tenant version g s = Inr u" and rest: "each (insert_group tenant version) gs u = Inr s'"
    by (auto simp: rbind_Inr_iff)
  then have u: "u = s\<lparr>rd_groups := rd_groups s @ [group_row_of tenant version g],
      rd_options := rd_options s @ map (option_row_of tenant (mg_ID g)) (mg_Options g)\<rparr>" and new: "mg_ID g \<notin> known_groups s"
    using insert_group_Inr by blast+
  then have "known_groups u = insert (mg_ID g) (known_groups s)" by (simp add: known_groups_def group_row_of_def)
  with Cons.IH [OF rest] u new show ?case by (auto simp: option_rows_def)
qed (simp add: option_rows_def)

lemma insert_item_modifiers_Inr:
  assumes "each (insert_item_modifier tenant v given i) ids s = Inr s'"
  shows "s' = s\<lparr>rd_item_modifiers := rd_item_modifiers s @ map (modifier_row_of tenant (sv_ID v) (si_MenuItemID i)) (map uuid_column ids)\<rparr>"
    "set ids \<subseteq> mg_ID ` set (sv_Modifiers given)"
proof -
  have "s' = s\<lparr>rd_item_modifiers := rd_item_modifiers s @ map (\<lambda>gid. modifier_row_of tenant (sv_ID v) (si_MenuItemID i) (uuid_column gid)) ids\<rparr>"
    by (rule each_row [OF assms, where upd = "\<lambda>rows s. s\<lparr>rd_item_modifiers := rd_item_modifiers s @ rows\<rparr>"])
      (simp_all add: insert_item_modifier_def guarded_Inr_iff)
  then show "s' = s\<lparr>rd_item_modifiers := rd_item_modifiers s @ map (modifier_row_of tenant (sv_ID v) (si_MenuItemID i)) (map uuid_column ids)\<rparr>"
    by (simp add: comp_def)
  show "set ids \<subseteq> mg_ID ` set (sv_Modifiers given)"
    using each_all [OF assms] by (auto simp: insert_item_modifier_def guarded_Inr_iff)
qed

lemma column_item_simps [simp]:
  "si_ModifierGroupIDs (column_item i) = map uuid_column (si_ModifierGroupIDs i)"
  "si_MenuItemID (column_item i) = uuid_column (si_MenuItemID i)"
  by (simp_all add: column_item_def)

definition with_items :: "menu_studio \<Rightarrow> menu_studio_version \<Rightarrow> menu_studio_item list \<Rightarrow> restaurant_db \<Rightarrow> restaurant_db" where
  "with_items studio v items s = s\<lparr>rd_version_items := rd_version_items s @ map (item_row_of (ms_TenantID studio) (sv_ID v)) items,
     rd_prices := rd_prices s @ map (price_row_of (ms_TenantID studio) v) items,
     rd_item_modifiers := rd_item_modifiers s @ modifier_rows (ms_TenantID studio) (sv_ID v) items\<rparr>"

definition item_keys :: "restaurant_db \<Rightarrow> (string \<times> string \<times> string) set" where
  "item_keys s = (\<lambda>r. (vt_tenant_id r, vt_menu_version_id r, vt_menu_item_id r)) ` set (rd_version_items s)"

lemma insert_item_Inr:
  assumes "insert_item studio v given i s = Inr s'"
  shows "s' = with_items studio v [column_item i] s \<and> (ms_TenantID studio, sv_ID v, uuid_column (si_MenuItemID i)) \<notin> item_keys s
    \<and> set (si_ModifierGroupIDs i) \<subseteq> mg_ID ` set (sv_Modifiers given)"
proof -
  let ?i = "column_item i"
  from assms obtain u w where row: "insert_item_row (ms_TenantID studio) (sv_ID v) ?i s = Inr u"
    and price: "insert_price (ms_TenantID studio) v ?i u = Inr w"
    and mods: "each (insert_item_modifier (ms_TenantID studio) v given ?i) (si_ModifierGroupIDs i) w = Inr s'"
    unfolding insert_item_def Let_def if_Inl_Inr by (elim conjE rbind_InrE) blast
  from row have "u = s\<lparr>rd_version_items := rd_version_items s @ [item_row_of (ms_TenantID studio) (sv_ID v) ?i]\<rparr>"
    "(ms_TenantID studio, sv_ID v, si_MenuItemID ?i) \<notin> item_keys s"
    by (auto simp: insert_item_row_def guarded_Inr_iff item_keys_def list_ex_iff)
  moreover from price have "w = u\<lparr>rd_prices := rd_prices u @ [price_row_of (ms_TenantID studio) v ?i]\<rparr>"
    by (auto simp: insert_price_def guarded_Inr_iff)
  ultimately show ?thesis using insert_item_modifiers_Inr [OF mods] by (simp add: with_items_def modifier_rows_def)
qed

lemma insert_items_Inr:
  assumes "each (insert_item studio v given) items s = Inr s'"
  shows "s' = with_items studio v (map column_item items) s \<and> distinct (map (\<lambda>i. uuid_column (si_MenuItemID i)) items)
    \<and> (\<forall>i \<in> set items. (ms_TenantID studio, sv_ID v, uuid_column (si_MenuItemID i)) \<notin> item_keys s
        \<and> set (si_ModifierGroupIDs i) \<subseteq> mg_ID ` set (sv_Modifiers given))"
  using assms
proof (induction items arbitrary: s)
  case (Cons i items)
  then obtain u where i: "insert_item studio v given i s = Inr u" and rest: "each (insert_item studio v given) items u = Inr s'"
    by (auto simp: rbind_Inr_iff)
  note u = insert_item_Inr [OF i]
  from u have "item_keys u = insert (ms_TenantID studio, sv_ID v, uuid_column (si_MenuItemID i)) (item_keys s)"
    by (simp add: item_keys_def with_items_def item_row_of_def)
  moreover have "with_items studio v (map column_item items) (with_items studio v [column_item i] s)
      = with_items studio v (map column_item (i # items)) s"
    by (simp add: with_items_def modifier_rows_def)
  ultimately show ?case using Cons.IH [OF rest] u by auto
qed (simp add: with_items_def modifier_rows_def)

lemma insert_publication_Inr:
  "insert_publication studio v p s = Inr s' \<Longrightarrow> s' = s\<lparr>rd_publications := rd_publications s @ [publication_row_of studio v p]\<rparr>"
  by (simp add: insert_publication_def Let_def guarded_Inr_iff split: if_split_asm)

lemma insert_publications_Inr:
  "each (insert_publication studio v) ps s = Inr s' \<Longrightarrow> s' = s\<lparr>rd_publications := rd_publications s @ map (publication_row_of studio v) ps\<rparr>"
  by (erule each_row [where upd = "\<lambda>rows s. s\<lparr>rd_publications := rd_publications s @ rows\<rparr>"]) (simp_all add: insert_publication_Inr)

text \<open>All rows together.\<close>

definition with_version :: "menu_studio \<Rightarrow> menu_studio_version \<Rightarrow> restaurant_db \<Rightarrow> restaurant_db" where
  "with_version studio v s = (let tenant = ms_TenantID studio in
     with_items studio v (sv_Items v) s
      \<lparr>rd_menu_versions := rd_menu_versions s @ [version_row_of tenant (v\<lparr>sv_MenuStudioID := ms_ID studio\<rparr>)],
       rd_categories := rd_categories s @ map (category_row_of tenant (sv_ID v)) (sv_Categories v),
       rd_groups := rd_groups s @ map (group_row_of tenant (sv_ID v)) (sv_Modifiers v),
       rd_options := rd_options s @ option_rows tenant (sv_Modifiers v),
       rd_publications := rd_publications s @ map (publication_row_of studio v) (sv_Publications v)\<rparr>)"

definition new_version :: "menu_studio \<Rightarrow> menu_studio_version \<Rightarrow> restaurant_db \<Rightarrow> bool" where
  "new_version studio v s \<longleftrightarrow> (\<forall>r \<in> set (rd_menu_versions s). sv_ID (vv_version r) \<noteq> sv_ID v)
     \<and> distinct (map mg_ID (sv_Modifiers v)) \<and> mg_ID ` set (sv_Modifiers v) \<inter> known_groups s = {}
     \<and> distinct (map si_MenuItemID (sv_Items v)) \<and> (\<forall>i \<in> set (sv_Items v). set (si_ModifierGroupIDs i) \<subseteq> mg_ID ` set (sv_Modifiers v))"

lemma column_version_simps [simp]:
  "sv_Items (column_version micro v) = map column_item (sv_Items v)"
  "sv_Modifiers (column_version micro v) = map column_group (sv_Modifiers v)"
  "sv_ID (column_version micro v) = uuid_column (sv_ID v)"
  "mg_ID (column_group g) = uuid_column (mg_ID g)"
  "ms_TenantID (column_studio micro studio) = uuid_column (ms_TenantID studio)"
  "ms_ID (column_studio micro studio) = uuid_column (ms_ID studio)"
  by (simp_all add: column_version_def column_group_def column_studio_def)

lemma insertMenuStudioVersion_Inr:
  assumes "insertMenuStudioVersion micro studio given s = Inr s'"
  defines "st \<equiv> column_studio micro studio" and "v \<equiv> column_version micro given"
  shows "s' = with_version st v s \<and> new_version st v s"
proof -
  let ?t = "ms_TenantID st"
  from assms(1) obtain a b c d where a: "insert_version_row st v s = Inr a"
    and b: "each (insert_category ?t (sv_ID v)) (sv_Categories v) a = Inr b"
    and c: "each (insert_group ?t (sv_ID v)) (sv_Modifiers v) b = Inr c"
    and d: "each (insert_item st v given) (sv_Items given) c = Inr d"
    and e: "each (insert_publication st v) (sv_Publications v) d = Inr s'"
    unfolding insertMenuStudioVersion_def Let_def st_def v_def by (elim rbind_InrE) blast
  have ka: "known_groups b = known_groups s"
    using insert_version_row_Inr [OF a] insert_categories_Inr [OF b] by (simp add: known_groups_def)
  note d' = insert_items_Inr [OF d]
  have "set (si_ModifierGroupIDs i) \<subseteq> mg_ID ` set (sv_Modifiers v)" if "i \<in> set (sv_Items v)" for i
  proof -
    from that obtain j where j: "j \<in> set (sv_Items given)" "i = column_item j" by (auto simp: v_def)
    with d' have "set (si_ModifierGroupIDs j) \<subseteq> mg_ID ` set (sv_Modifiers given)" by blast
    then have "uuid_column ` set (si_ModifierGroupIDs j) \<subseteq> uuid_column ` mg_ID ` set (sv_Modifiers given)" by (rule image_mono)
    then show ?thesis by (simp add: j(2) v_def image_image)
  qed
  then have known: "\<forall>i \<in> set (sv_Items v). set (si_ModifierGroupIDs i) \<subseteq> mg_ID ` set (sv_Modifiers v)" by blast
  have items: "sv_Items v = map column_item (sv_Items given)" "distinct (map si_MenuItemID (sv_Items v))"
    using d' by (simp_all add: v_def comp_def)
  show ?thesis
    using insert_version_row_Inr [OF a] insert_categories_Inr [OF b] insert_groups_Inr [OF c] d'
      insert_publications_Inr [OF e] ka known items(2)
    unfolding items(1) [symmetric]
    by (simp add: with_version_def new_version_def with_items_def Let_def)
qed

lemma studio_rollback:
  "CreateMenuStudio micro ctx studio v a s = (Inl e, s') \<Longrightarrow> s' = s" "AddMenuStudioVersion micro ctx tenant outlet v n a s = (Inl e, s') \<Longrightarrow> s' = s"
  unfolding CreateMenuStudio_def AddMenuStudioVersion_def till_transaction_def by (erule transact_Inl)+

subsection \<open>A table of parts\<close>

definition has_version :: "restaurant_db \<Rightarrow> string \<Rightarrow> string \<Rightarrow> bool" where
  "has_version s tenant version \<longleftrightarrow> (\<exists>r \<in> set (rd_menu_versions s). vv_tenant_id r = tenant \<and> sv_ID (vv_version r) = version)"

lemma with_version_simps [simp]:
  "rd_menu_versions (with_version studio v s) = rd_menu_versions s @ [version_row_of (ms_TenantID studio) (v\<lparr>sv_MenuStudioID := ms_ID studio\<rparr>)]"
  "rd_categories (with_version studio v s) = rd_categories s @ map (category_row_of (ms_TenantID studio) (sv_ID v)) (sv_Categories v)"
  "rd_groups (with_version studio v s) = rd_groups s @ map (group_row_of (ms_TenantID studio) (sv_ID v)) (sv_Modifiers v)"
  "rd_options (with_version studio v s) = rd_options s @ option_rows (ms_TenantID studio) (sv_Modifiers v)"
  "rd_version_items (with_version studio v s) = rd_version_items s @ map (item_row_of (ms_TenantID studio) (sv_ID v)) (sv_Items v)"
  "rd_prices (with_version studio v s) = rd_prices s @ map (price_row_of (ms_TenantID studio) v) (sv_Items v)"
  "rd_item_modifiers (with_version studio v s) = rd_item_modifiers s @ modifier_rows (ms_TenantID studio) (sv_ID v) (sv_Items v)"
  "rd_publications (with_version studio v s) = rd_publications s @ map (publication_row_of studio v) (sv_Publications v)"
  by (simp_all add: with_version_def with_items_def Let_def)

lemma has_version_with [simp]:
  "has_version (with_version studio v s) t w \<longleftrightarrow> has_version s t w \<or> t = ms_TenantID studio \<and> w = sv_ID v"
  by (auto simp: has_version_def version_row_of_def)

locale version_part =
  fixes rows :: "restaurant_db \<Rightarrow> 'r list" and tenant_of :: "'r \<Rightarrow> string" and version_of :: "'r \<Rightarrow> string"
    and new_rows :: "menu_studio \<Rightarrow> menu_studio_version \<Rightarrow> 'r list"
  assumes stored: "rows (with_version studio v s) = rows s @ new_rows studio v"
    and owned: "r \<in> set (new_rows studio v) \<Longrightarrow> tenant_of r = ms_TenantID studio \<and> version_of r = sv_ID v"
begin

definition of_version :: "string \<Rightarrow> string \<Rightarrow> restaurant_db \<Rightarrow> 'r list" where
  "of_version tenant version s = filter (\<lambda>r. tenant_of r = tenant \<and> version_of r = version) (rows s)"

definition linked :: "restaurant_db \<Rightarrow> bool" where
  "linked s \<longleftrightarrow> (\<forall>r \<in> set (rows s). has_version s (tenant_of r) (version_of r))"

lemma linked_stored: "linked s \<Longrightarrow> linked (with_version studio v s)"
  unfolding linked_def stored by (auto dest: owned)

lemma of_new_version:
  assumes "linked s" "new_version studio v s"
  shows "of_version (ms_TenantID studio) (sv_ID v) (with_version studio v s) = new_rows studio v"
proof -
  have "filter (\<lambda>r. tenant_of r = ms_TenantID studio \<and> version_of r = sv_ID v) (rows s) = []"
    using assms by (auto simp: filter_empty_conv linked_def has_version_def new_version_def)
  then show ?thesis by (auto simp: of_version_def stored filter_id_conv dest: owned)
qed

lemma of_old_version:
  assumes "has_version s tenant version" "new_version studio v s"
  shows "of_version tenant version (with_version studio v s) = of_version tenant version s"
proof -
  have "sv_ID v \<noteq> version" using assms by (auto simp: has_version_def new_version_def)
  then show ?thesis by (auto simp: of_version_def stored filter_empty_conv dest: owned)
qed

end

interpretation versions: version_part rd_menu_versions vv_tenant_id "\<lambda>r. sv_ID (vv_version r)"
  "\<lambda>studio v. [version_row_of (ms_TenantID studio) (v\<lparr>sv_MenuStudioID := ms_ID studio\<rparr>)]"
  by unfold_locales (auto simp: version_row_of_def)

interpretation categories: version_part rd_categories cy_tenant_id cy_menu_version_id
  "\<lambda>studio v. map (category_row_of (ms_TenantID studio) (sv_ID v)) (sv_Categories v)"
  by unfold_locales (auto simp: category_row_of_def)

interpretation groups: version_part rd_groups gr_tenant_id gr_menu_version_id
  "\<lambda>studio v. map (group_row_of (ms_TenantID studio) (sv_ID v)) (sv_Modifiers v)"
  by unfold_locales (auto simp: group_row_of_def)

interpretation items: version_part rd_version_items vt_tenant_id vt_menu_version_id
  "\<lambda>studio v. map (item_row_of (ms_TenantID studio) (sv_ID v)) (sv_Items v)"
  by unfold_locales (auto simp: item_row_of_def)

interpretation prices: version_part rd_prices vp_tenant_id vp_menu_version_id
  "\<lambda>studio v. map (price_row_of (ms_TenantID studio) v) (sv_Items v)"
  by unfold_locales (auto simp: price_row_of_def)

interpretation item_modifiers: version_part rd_item_modifiers vm_tenant_id vm_menu_version_id
  "\<lambda>studio v. modifier_rows (ms_TenantID studio) (sv_ID v) (sv_Items v)"
  by unfold_locales (auto simp: modifier_rows_def modifier_row_of_def)

interpretation publications: version_part rd_publications pu_tenant_id pu_menu_version_id
  "\<lambda>studio v. map (publication_row_of studio v) (sv_Publications v)"
  by unfold_locales (auto simp: publication_row_of_def)

end
