(* ===== verification/Core_Till_Sample.thy ===== *)
theory Core_Till_Sample
  imports Core_Till Core_Commerce_Properties
begin

text \<open>
  A checkout that the witnesses of the point of sale evaluate: an outlet with two stations and a menu version
  in which an item has a group of options to choose one from; the bill is paid with two tenders. Identifiers
  are derived with a hash that keeps the last characters of its text.
\<close>

definition last_bytes :: "string \<Rightarrow> 8 word list" where
  "last_bytes t = take 32 (map of_char (rev t) @ replicate 32 0)"

definition cafe_item :: "string \<Rightarrow> string \<Rightarrow> int \<Rightarrow> string option \<Rightarrow> catalog_row" where
  "cafe_item k station price recipe = \<lparr>tb_id = k, tb_tenant_id = ''t'', tb_outlet_id = ''o'', tb_name = k, tb_station_id = station,
     tb_recipe_id = recipe, tb_price_minor = price, tb_currency = ''INR'', tb_active = True\<rparr>"

definition cafe_line :: "string \<Rightarrow> string \<Rightarrow> int \<Rightarrow> string list \<Rightarrow> pos_line" where
  "cafe_line k item n options = \<lparr>ln_ID = k, ln_MenuItemID = item, ln_Quantity = n, ln_PreparationNote = [], ln_ModifierOptionIDs = options\<rparr>"

definition cafe_version :: menu_studio_version where
  "cafe_version = \<lparr>sv_ID = ''m'', sv_MenuStudioID = ''studio'', sv_VersionNumber = 1, sv_Status = ''published'', sv_EffectiveFrom = 1,
     sv_CreatedAt = 1, sv_PublishedAt = Some 1, sv_PublishedBy = ''a'', sv_Categories = [], sv_Modifiers = [], sv_Items = [], sv_Publications = []\<rparr>"

definition cafe_version_item :: "string \<Rightarrow> string \<Rightarrow> version_item_row" where
  "cafe_version_item k name = \<lparr>vt_tenant_id = ''t'', vt_menu_version_id = ''m'', vt_menu_item_id = k, vt_category_id = [],
     vt_display_name = name, vt_description = [], vt_sort_order = 0, vt_active = True\<rparr>"

definition cafe_price :: "string \<Rightarrow> int \<Rightarrow> version_price_row" where
  "cafe_price k amount = \<lparr>vp_id = k, vp_tenant_id = ''t'', vp_menu_version_id = ''m'', vp_menu_item_id = k, vp_price_minor = amount,
     vp_currency = ''INR'', vp_effective_from = 1, vp_effective_to = None\<rparr>"

definition cafe_db :: "commerce_db \<Rightarrow> restaurant_db" where
  "cafe_db c = \<lparr>rd_commerce = c, rd_stations = [(''t'', ''o'', ''grill''), (''t'', ''o'', ''bar'')], rd_brands = [],
     rd_channels = [], rd_studios = [], rd_menu_versions = [\<lparr>vv_tenant_id = ''t'', vv_version = cafe_version\<rparr>], rd_categories = [],
     rd_publications = [],
     rd_items = [cafe_item ''dosa'' ''grill'' 400 (Some ''r''), cafe_item ''tea'' ''bar'' 100 (Some ''r''), cafe_item ''water'' ''bar'' 20 None],
     rd_version_items = [cafe_version_item ''dosa'' ''Dosa'', cafe_version_item ''tea'' ''Tea''],
     rd_prices = [cafe_price ''dosa'' 500, cafe_price ''tea'' 100],
     rd_item_modifiers = [\<lparr>vm_tenant_id = ''t'', vm_menu_version_id = ''m'', vm_menu_item_id = ''dosa'', vm_modifier_group_id = ''g'', vm_sort_order = 0\<rparr>],
     rd_groups = [\<lparr>gr_tenant_id = ''t'', gr_menu_version_id = ''m'', gr_group = \<lparr>mg_ID = ''g'', mg_Name = ''Filling'', mg_SelectionMin = 1,
       mg_SelectionMax = 1, mg_Required = True, mg_SortOrder = 0, mg_Options = []\<rparr>\<rparr>],
     rd_options = [\<lparr>op_tenant_id = ''t'', op_modifier_group_id = ''g'',
       op_option = \<lparr>mo_ID = ''x'', mo_Name = ''Masala'', mo_PriceDeltaMinor = 50, mo_Active = True, mo_SortOrder = 0\<rparr>\<rparr>],
     rd_recipe_versions = [\<lparr>vr_id = ''rv'', vr_tenant_id = ''t'', vr_recipe_id = ''r'', vr_effective_from = 0, vr_effective_to = None\<rparr>],
     rd_orders = [], rd_lines = [], rd_recipe_snapshots = [], rd_modifier_snapshots = [], rd_tickets = [], rd_ticket_lines = [],
     rd_print_jobs = [], rd_print_events = [], rd_tokens = [], rd_token_events = [], rd_checkouts = []\<rparr>"

definition cafe_checkout :: pos_checkout where
  "cafe_checkout = \<lparr>px_ID = ''c'', px_TenantID = ''t'', px_OutletID = ''o'', px_MenuVersionID = ''m'', px_OrderID = ''order'',
     px_OrderType = CoreDineIn, px_BrandID = [], px_ExternalRef = [], px_DiscountMinor = 100, px_TaxMinor = 50, px_ServiceChargeMinor = 0,
     px_Lines = [cafe_line ''1'' ''dosa'' 2 [''x''], cafe_line ''2'' ''tea'' 1 []],
     px_Tenders = [\<lparr>pn_ID = ''p'', pn_TenderType = ''cash'', pn_CashShiftID = ''shift'', pn_AmountMinor = 650, pn_ProviderReference = []\<rparr>,
       \<lparr>pn_ID = ''q'', pn_TenderType = ''upi'', pn_CashShiftID = [], pn_AmountMinor = 500, pn_ProviderReference = ''ref''\<rparr>],
     px_ReceiptID = ''receipt'', px_ReceiptNumber = ''R1'', px_PickupTokenID = ''token'', px_PickupToken = ''A17'', px_PrinterRoute = ''kitchen'',
     px_PlacedAt = 0\<rparr>"

definition cafe0 :: restaurant_db where "cafe0 = cafe_db shop2"

definition cafe_result :: pos_result where
  "cafe_result = (case fst (CheckoutPOS last_bytes None cafe_checkout (till_audit ''9'') cafe0) of Inr r \<Rightarrow> r)"

definition cafe1 :: restaurant_db where "cafe1 = snd (CheckoutPOS last_bytes None cafe_checkout (till_audit ''9'') cafe0)"

lemma cafe_eval:
  "case CheckoutPOS last_bytes None cafe_checkout (till_audit ''9'') cafe0 of (x, s) \<Rightarrow> (case x of Inl e \<Rightarrow> False | Inr r \<Rightarrow>
     (MinorUnits (co_Total (pz_Order r)), map (\<lambda>line. MinorUnits (cl_LineTotal line)) (co_Lines (pz_Order r)),
      map (\<lambda>t. (ct_StationID t, ct_LineIDs t)) (pz_Tickets r), map (\<lambda>q. (cs_ID q, cs_ExpectedCashMinor q)) (cm_shifts (rd_commerce s)),
      map (\<lambda>q. kp_ID (pw_job q)) (rd_print_jobs s))
   = (1150, [1100, 100], [(''bar'', [''2'']), (''grill'', [''1''])], [(''shift'', 850)], map kp_ID (pz_PrintJobs r)))"
  by code_simp

lemma cafe_run: "CheckoutPOS last_bytes None cafe_checkout (till_audit ''9'') cafe0 = (Inr cafe_result, cafe1)"
proof -
  obtain x s where run: "CheckoutPOS last_bytes None cafe_checkout (till_audit ''9'') cafe0 = (x, s)" by fastforce
  with cafe_eval obtain r where "x = Inr r" by (cases x) simp_all
  with run show ?thesis by (simp add: cafe_result_def cafe1_def)
qed

lemma cafe_facts:
  "MinorUnits (co_Total (pz_Order cafe_result)) = 1150" "map (\<lambda>line. MinorUnits (cl_LineTotal line)) (co_Lines (pz_Order cafe_result)) = [1100, 100]"
  "map (\<lambda>t. (ct_StationID t, ct_LineIDs t)) (pz_Tickets cafe_result) = [(''bar'', [''2'']), (''grill'', [''1''])]"
  "map (\<lambda>r. (cs_ID r, cs_ExpectedCashMinor r)) (cm_shifts (rd_commerce cafe1)) = [(''shift'', 850)]"
  using cafe_eval by (simp_all add: cafe_run)

text \<open>The print job of the bar is acknowledged and printed again, the guest is called.\<close>

definition bar_job :: string where "bar_job = inventoryEventUUID last_bytes ''t'' ''c'' ''print:bar''"

definition cafe2 :: restaurant_db where
  "cafe2 = snd (AcknowledgeKitchenPrintJob last_bytes None ''t'' ''o'' bar_job ''acknowledged'' (till_audit ''10'') cafe1)"
definition cafe3 :: restaurant_db where
  "cafe3 = snd (AcknowledgeKitchenPrintJob last_bytes None ''t'' ''o'' bar_job ''reprinted'' (till_audit ''11'') cafe2)"
definition cafe4 :: restaurant_db where
  "cafe4 = snd (TransitionPickupToken last_bytes None ''t'' ''o'' ''token'' ''called'' 1 (till_audit ''12'') cafe3)"

lemma cafe4_eval:
  "(let s = cafe4 in (map (\<lambda>r. (kp_ID (pw_job r) = bar_job, kp_Status (pw_job r), kp_Attempts (pw_job r))) (rd_print_jobs s),
      map (\<lambda>r. (pk_ID (kw_token r), pk_Status (kw_token r), pk_Version (kw_token r))) (rd_tokens s)))
   = ([(True, ''queued'', 1), (False, ''queued'', 0)], [(''token'', ''called'', 2)])"
  by code_simp

text \<open>A copy of the bar's ticket, queued by the endpoint with a time of acknowledgement.\<close>

definition spare_job :: kitchen_print_job where
  "spare_job = \<lparr>kp_ID = ''spare'', kp_TenantID = ''t'', kp_OutletID = ''o'', kp_TicketID = inventoryEventUUID last_bytes ''t'' ''c'' ''ticket:bar'',
     kp_PrinterRoute = ''kitchen'', kp_CopyType = ''receipt'', kp_Payload = None, kp_Status = ''queued'', kp_Attempts = 0, kp_LastError = [],
     kp_CreatedAt = 13, kp_AcknowledgedAt = Some 1\<rparr>"

definition cafe5 :: restaurant_db where "cafe5 = snd (CreateKitchenPrintJob None spare_job (till_audit ''13'') cafe4)"

lemma cafe5_eval:
  "(let s = cafe5; r = last (rd_print_jobs s) in (rd_print_jobs s \<noteq> [], kp_ID (pw_job r), kp_Status (pw_job r), kp_AcknowledgedAt (pw_job r),
      filter (\<lambda>e. hy_subject_id e = kp_ID (pw_job r)) (rd_print_events s)))
   = (True, ''spare'', ''queued'', Some 1, [])"
  by code_simp

end
