(* ===== verification/Core_Till_Properties.thy ===== *)
theory Core_Till_Properties
  imports Core_Till_Facts Core_Till_Sample "HOL-Library.Multiset"
begin

text \<open>
  The point of sale over time: a checkout bills the prices of the catalogue, sends every line to its
  station and is paid in full; print jobs and pickup tokens are what their histories say; and the books of
  the commerce tables stay right when tills and the commerce operations work on them in any order.
\<close>

subsection \<open>A checkout\<close>

lemma CheckoutPOS_Inr:
  assumes "CheckoutPOS sha256 ctx checkout a s = (Inr r, s')"
  obtains b where "bill_of checkout s = Inr b" "r = checkout_result sha256 checkout a b" "checked_out sha256 checkout a b s s'"
proof -
  from assms have "checkout_body sha256 checkout a s = Inr (r, s')"
    by (auto simp: CheckoutPOS_def till_transaction_def transact_Inr_iff split: option.splits)
  then show thesis using that by (rule checkout_effect)
qed

lemma checkout_order_simps [simp]:
  "co_Lines (checkout_order checkout a b) = bl_lines b"
  "co_ID (checkout_order checkout a b) = px_OrderID checkout"
  "co_TenantID (checkout_order checkout a b) = px_TenantID checkout"
  "co_OutletID (checkout_order checkout a b) = px_OutletID checkout"
  "MinorUnits (co_Subtotal (checkout_order checkout a b)) = bl_subtotal b"
  by (simp_all add: checkout_order_def Let_def)

lemma checkout_result_simps [simp]:
  "pz_Order (checkout_result sha256 checkout a b) = checkout_order checkout a b"
  "pz_Tickets (checkout_result sha256 checkout a b) = tickets_of sha256 checkout a b"
  "pz_PrintJobs (checkout_result sha256 checkout a b) = map (print_job_of sha256 checkout a) (tickets_of sha256 checkout a b)"
  "pz_Tenders (checkout_result sha256 checkout a b) = map (paid_tender checkout a (bl_currency b)) (px_Tenders checkout)"
  "pz_Receipt (checkout_result sha256 checkout a b) = Some (pos_receipt checkout a (checkout_order checkout a b))"
  by (simp_all add: checkout_result_def tickets_of_def Let_def)

lemma paid_tender_simps [simp]:
  "td_AmountMinor (paid_tender checkout a currency input) = pn_AmountMinor input"
  "td_ID (paid_tender checkout a currency input) = pn_ID input"
  "td_Status (paid_tender checkout a currency input) = ''captured''"
  "td_ReversesTenderID (paid_tender checkout a currency input) = []"
  "td_TenantID (paid_tender checkout a currency input) = px_TenantID checkout"
  "td_OrderID (paid_tender checkout a currency input) = px_OrderID checkout"
  "td_TenderType (paid_tender checkout a currency input) = pn_TenderType input"
  "td_CashShiftID (paid_tender checkout a currency input) = pn_CashShiftID input"
  "signed_amount (paid_tender checkout a currency input) = pn_AmountMinor input"
  by (simp_all add: paid_tender_def signed_amount_def)

lemma bill_from_simps:
  assumes "b = bill_from cs currency"
  shows "bl_lines b = map fst cs" "bl_stations b = map (\<lambda>c. (fst (snd c), cl_ID (fst c))) cs"
    "bl_subtotal b = wrap64 (sum_list (map (\<lambda>line. MinorUnits (cl_LineTotal line)) (map fst cs)))"
  using assms by (simp_all add: bill_from_def comp_def)

text \<open>
  C10: a checkout bills the catalogue. Every line of the order is a line of the request, priced with what the
  catalogue says at that moment: the item is active, has a station and is not switched off by the manager;
  the chosen options are allowed, active, taken once and as many as every group wants; the unit price is the
  item's price with the options' differences. Line totals and the total are exact whatever the amounts are,
  since the table refuses a product or a sum that leaves 64 bits; only the subtotal is a wrapping sum. The
  tenders add up to the total, which is the one on the receipt.
\<close>

theorem checkout_bills_the_catalogue:
  assumes "CheckoutPOS sha256 ctx checkout a s = (Inr r, s')"
  shows "(\<exists>cs. list_all2 (charged_for checkout s) (px_Lines checkout) cs \<and> co_Lines (pz_Order r) = map fst cs)
    \<and> (\<forall>line \<in> set (co_Lines (pz_Order r)). exact_line line)
    \<and> MinorUnits (co_Subtotal (pz_Order r)) = wrap64 (sum_list (map (\<lambda>line. MinorUnits (cl_LineTotal line)) (co_Lines (pz_Order r))))
    \<and> exact_order (pz_Order r) \<and> px_DiscountMinor checkout \<le> MinorUnits (co_Subtotal (pz_Order r))
    \<and> wrap64 (sum_list (map td_AmountMinor (pz_Tenders r))) = MinorUnits (co_Total (pz_Order r))
    \<and> map_option fr_TotalMinor (pz_Receipt r) = Some (MinorUnits (co_Total (pz_Order r)))
    \<and> rd_lines s' = rd_lines s @ map (line_row_of (pz_Order r)) (co_Lines (pz_Order r))"
proof -
  from assms obtain b where b: "bill_of checkout s = Inr b" and r: "r = checkout_result sha256 checkout a b"
    and done': "checked_out sha256 checkout a b s s'" by (rule CheckoutPOS_Inr)
  from b obtain cs where cs: "list_all2 (charged_for checkout s) (px_Lines checkout) cs" "b = bill_from cs (bl_currency b)"
    by (rule bill_of_charges)
  note bill = bill_from_simps [OF cs(2)]
  show ?thesis
    using cs(1) done' bill
    by (auto simp: r checked_out_def Let_def paid_sum_sum comp_def list_all_iff pos_receipt_def)
qed

lemma checkout_bills_the_catalogue_witness:
  "MinorUnits (co_Subtotal (pz_Order cafe_result)) = 1200 \<and> exact_order (pz_Order cafe_result)
   \<and> wrap64 (sum_list (map td_AmountMinor (pz_Tenders cafe_result))) = 1150"
  using checkout_bills_the_catalogue [OF cafe_run] by (simp add: cafe_facts wrap64_def)

text \<open>Splitting a list by the keys of its elements loses nothing.\<close>

lemma mset_by_keys:
  assumes "distinct ks"
  shows "mset (concat (map (\<lambda>k. filter (\<lambda>x. f x = k) xs) ks)) = mset (filter (\<lambda>x. f x \<in> set ks) xs)"
  using assms
proof (induction ks)
  case (Cons k ks)
  have "mset (filter (\<lambda>x. f x \<in> set (k # ks)) xs) = mset (filter (\<lambda>x. f x = k) xs) + mset (filter (\<lambda>x. f x \<in> set ks) xs)"
    using Cons.prems by (induction xs) auto
  with Cons show ?case by simp
qed simp

lemma ticket_lines_of: "ct_LineIDs (ticket_of sha256 checkout a b station) = map snd (filter (\<lambda>x. fst x = station) (bl_stations b))"
  by (simp add: ticket_of_def case_prod_unfold)

lemma ticket_stations: "map ct_StationID (tickets_of sha256 checkout a b) = station_ids b"
  by (simp add: tickets_of_def ticket_of_def comp_def)

lemma ticket_lines_mset: "mset (concat (map ct_LineIDs (tickets_of sha256 checkout a b))) = mset (map snd (bl_stations b))"
proof -
  have "concat (map ct_LineIDs (tickets_of sha256 checkout a b))
      = map snd (concat (map (\<lambda>k. filter (\<lambda>x. fst x = k) (bl_stations b)) (station_ids b)))"
    by (simp add: tickets_of_def comp_def ticket_lines_of map_concat)
  also have "mset \<dots> = image_mset snd (mset (concat (map (\<lambda>k. filter (\<lambda>x. fst x = k) (bl_stations b)) (station_ids b))))"
    by (rule mset_map)
  also have "\<dots> = image_mset snd (mset (filter (\<lambda>x. fst x \<in> set (station_ids b)) (bl_stations b)))"
    by (subst mset_by_keys) (simp_all add: station_ids_def)
  also have "filter (\<lambda>x. fst x \<in> set (station_ids b)) (bl_stations b) = bl_stations b"
    by (simp add: station_ids_def filter_id_conv)
  finally show ?thesis by simp
qed

lemma billed_line_id: "cl_ID (billed_line input item price currency) = ln_ID input"
  by (simp add: billed_line_def)

lemma charged_line_id: "charged_for checkout s input c \<Longrightarrow> cl_ID (fst c) = ln_ID input"
  unfolding charged_for_def charged_def by (metis billed_line_id)

text \<open>
  C13: a checkout sends every line to one station. The tickets are for different stations, in their order;
  together their lines are the lines of the request, each once; a ticket has, in the order of the request,
  the lines whose items are prepared at its station; every ticket has one print job, queued for the
  printer of the request; and tickets, lines and jobs are stored.
\<close>

theorem checkout_sends_every_line_to_one_station:
  assumes "CheckoutPOS sha256 ctx checkout a s = (Inr r, s')"
  shows "sorted (map ct_StationID (pz_Tickets r)) \<and> distinct (map ct_StationID (pz_Tickets r))
    \<and> mset (concat (map ct_LineIDs (pz_Tickets r))) = mset (map ln_ID (px_Lines checkout))
    \<and> (\<exists>cs. list_all2 (charged_for checkout s) (px_Lines checkout) cs
        \<and> (\<forall>t \<in> set (pz_Tickets r). ct_LineIDs t = map (\<lambda>c. cl_ID (fst c)) (filter (\<lambda>c. fst (snd c) = ct_StationID t) cs)))
    \<and> map kp_TicketID (pz_PrintJobs r) = map ct_ID (pz_Tickets r)
    \<and> (\<forall>j \<in> set (pz_PrintJobs r). kp_Status j = ''queued'' \<and> kp_PrinterRoute j = px_PrinterRoute checkout)
    \<and> rd_tickets s' = rd_tickets s @ map (\<lambda>t. t\<lparr>ct_LineIDs := []\<rparr>) (pz_Tickets r)
    \<and> rd_ticket_lines s' = rd_ticket_lines s @ concat (map (\<lambda>t. map (ticket_line_of t) (ct_LineIDs t)) (pz_Tickets r))
    \<and> map pw_job (rd_print_jobs s') = map pw_job (rd_print_jobs s) @ pz_PrintJobs r"
proof -
  from assms obtain b where b: "bill_of checkout s = Inr b" and r: "r = checkout_result sha256 checkout a b"
    and stored: "checked_out sha256 checkout a b s s'" by (rule CheckoutPOS_Inr)
  from b obtain cs where cs: "list_all2 (charged_for checkout s) (px_Lines checkout) cs" "b = bill_from cs (bl_currency b)"
    by (rule bill_of_charges)
  note bill = bill_from_simps [OF cs(2)]
  from cs(1) have ids: "map (\<lambda>c. cl_ID (fst c)) cs = map ln_ID (px_Lines checkout)"
    by (induction rule: list_all2_induct) (simp_all add: charged_line_id)
  have stations: "sorted (station_ids b)" "distinct (station_ids b)" by (simp_all add: station_ids_def)
  have own: "\<forall>t \<in> set (tickets_of sha256 checkout a b). ct_LineIDs t = map (\<lambda>c. cl_ID (fst c)) (filter (\<lambda>c. fst (snd c) = ct_StationID t) cs)"
    by (auto simp: tickets_of_def ticket_lines_of bill(2) filter_map comp_def) (simp_all add: ticket_of_def)
  show ?thesis
    unfolding r checkout_result_simps ticket_stations ticket_lines_mset bill(2)
    using stations own cs(1) ids stored
    by (auto simp: checked_out_def Let_def comp_def print_job_of_def print_row_of_def)
qed

lemma checkout_sends_every_line_to_one_station_witness:
  "mset (concat (map ct_LineIDs (pz_Tickets cafe_result))) = {#''1'', ''2''#} \<and> length (pz_PrintJobs cafe_result) = 2"
proof -
  have "length (pz_Tickets cafe_result) = 2" using arg_cong [OF cafe_facts(3), of length] by simp
  moreover have "map ln_ID (px_Lines cafe_checkout) = [''1'', ''2'']" by (simp add: cafe_checkout_def cafe_line_def)
  ultimately show ?thesis
    using checkout_sends_every_line_to_one_station [OF cafe_run] by simp (metis length_map)
qed

subsection \<open>The books\<close>

lemma take_payment_posted:
  assumes "take_payment sha256 checkout a currency input c = Inr c'"
  shows "posted (paid_tender checkout a currency input) c c'"
proof -
  let ?v = "paid_tender checkout a currency input"
  obtain c1 c2 where run: "move_cash ?v (pn_AmountMinor input) c = Inr c1"
      "insert_tender ?v (a\<lparr>ae_OperationID := tender_operation sha256 checkout a input\<rparr>) c1 = Inr c2"
    and log: "(if pn_TenderType input = ''cash'' then insert_cash_event (sale_event sha256 checkout a input) c2 else Inr c2) = Inr c'"
    using assms unfolding take_payment_def Let_def if_Inl_Inr paid_tender_simps by (elim conjE rbind_InrE) blast
  from move_cash_Inr [OF run(1)] insert_tender_Inr [OF run(2)] log show ?thesis
    by (auto simp: posted_def cash_posted_def insert_cash_event_def constrained_Inr sale_event_def split: if_splits)
qed

lemma paid_on_posted: "posted v c c' \<Longrightarrow> paid_on t k (tenders c') = paid_on t k (tenders c)
    + (if td_TenantID v = t \<and> td_OrderID v = k then signed_amount v else 0)"
  by (simp add: posted_def paid_on_snoc)

lemma payments_sum:
  assumes "each (take_payment sha256 checkout a currency) ts c = Inr c'"
  shows "paid_on (px_TenantID checkout) (px_OrderID checkout) (tenders c')
      = paid_on (px_TenantID checkout) (px_OrderID checkout) (tenders c) + sum_list (map pn_AmountMinor ts)"
    and "0 \<le> sum_list (map pn_AmountMinor ts)"
  using assms
proof (induction ts arbitrary: c)
  case (Cons input ts)
  {
    case 1
    then obtain u where u: "take_payment sha256 checkout a currency input c = Inr u"
      "each (take_payment sha256 checkout a currency) ts u = Inr c'" by (auto simp: rbind_Inr_iff)
    from paid_on_posted [OF take_payment_posted [OF u(1)]] Cons.IH(1) [OF u(2)] show ?case by (simp add: signed_amount_def)
  next
    case 2
    then obtain u where u: "take_payment sha256 checkout a currency input c = Inr u"
      "each (take_payment sha256 checkout a currency) ts u = Inr c'" by (auto simp: rbind_Inr_iff)
    from take_payment_posted [OF u(1)] Cons.IH(2) [OF u(2)] show ?case by (simp add: posted_def)
  }
qed simp_all

lemma paid_tender_key: "order_key (paid_tender checkout a currency input) = (px_TenantID checkout, px_OrderID checkout)"
  by (simp add: order_key_def)

lemma payments_books:
  assumes "each (take_payment sha256 checkout a currency) ts c = Inr c'" "commerce_ok D c"
    and "order \<in> set (cm_orders c)" "bill_key order = (px_TenantID checkout, px_OrderID checkout)"
    and "bill_key order \<notin> D \<Longrightarrow>
      paid_on (px_TenantID checkout) (px_OrderID checkout) (tenders c) + sum_list (map pn_AmountMinor ts) \<le> bo_total_minor order"
  shows "commerce_ok D c'"
  using assms
proof (induction ts arbitrary: c)
  case (Cons input ts)
  let ?v = "paid_tender checkout a currency input"
  let ?paid = "\<lambda>c. paid_on (px_TenantID checkout) (px_OrderID checkout) (tenders c)"
  from Cons.prems(1) obtain u where u: "take_payment sha256 checkout a currency input c = Inr u"
    "each (take_payment sha256 checkout a currency) ts u = Inr c'" by (auto simp: rbind_Inr_iff)
  have posted: "posted ?v c u" by (rule take_payment_posted [OF u(1)])
  have hold: "payments_hold D (cm_orders c) (tenders c)" using Cons.prems(2) by (simp add: commerce_ok_def)
  have amount: "0 < pn_AmountMinor input" using posted by (simp add: posted_def)
  have within: "small (pn_AmountMinor input) \<and> wrap64 (?paid c + pn_AmountMinor input) \<le> bo_total_minor order"
    if calm: "bill_key order \<notin> D"
  proof -
    have "0 \<le> ?paid c" "small (bo_total_minor order)"
      using paid_on_nonneg [OF hold] Cons.prems(3,4) calm hold by (auto simp: payments_hold_def)
    moreover have "?paid c + pn_AmountMinor input \<le> bo_total_minor order"
      using Cons.prems(5) [OF calm] payments_sum(2) [OF u(2)] by simp
    ultimately show ?thesis using amount by (auto simp: small_def wrap64_id in_int64_def max_int64_def)
  qed
  have "payments_hold D (cm_orders c) (tenders c @ [?v])"
    by (rule capture_keeps_payments [OF hold Cons.prems(3)])
      (use Cons.prems(4) within posted in \<open>auto simp: posted_def paid_tender_key\<close>)
  then have ok: "commerce_ok D u" using posted_ok [OF posted Cons.prems(2)] by simp
  have orders: "cm_orders u = cm_orders c" using posted by (simp add: posted_def)
  have paid: "?paid u = ?paid c + pn_AmountMinor input" using paid_on_posted [OF posted] by (simp add: signed_amount_def)
  from Cons.IH [OF u(2) ok] Cons.prems(3-5) orders paid show ?case by (simp add: add.assoc)
qed simp

text \<open>The tenders of a checkout are added up with wrapping; an extreme sum may hide that they are too much.\<close>

definition checkout_disturbs :: "pos_checkout \<Rightarrow> (string \<times> string) set" where
  "checkout_disturbs checkout = (if small (sum_list (map pn_AmountMinor (px_Tenders checkout))) then {}
     else {(px_TenantID checkout, px_OrderID checkout)})"

lemma checked_out_books:
  assumes ok: "commerce_ok D (rd_commerce s)" and step: "checked_out sha256 checkout a b s s'"
  shows "commerce_ok (D \<union> checkout_disturbs checkout) (rd_commerce s')"
    and "small (sum_list (map pn_AmountMinor (px_Tenders checkout))) \<Longrightarrow>
      paid_on (px_TenantID checkout) (px_OrderID checkout) (tenders (rd_commerce s')) = MinorUnits (co_Total (checkout_order checkout a b))"
proof -
  let ?v = "checkout_order checkout a b" and ?D = "D \<union> checkout_disturbs checkout"
  let ?sum = "sum_list (map pn_AmountMinor (px_Tenders checkout))"
  let ?c = "(rd_commerce s)\<lparr>cm_orders := cm_orders (rd_commerce s) @ [amounts_of ?v]\<rparr>"
  obtain c where c: "each (take_payment sha256 checkout a (bl_currency b)) (px_Tenders checkout) ?c = Inr c"
    and s': "rd_commerce s' = c\<lparr>cm_receipts := cm_receipts c @ [receipt_row_of checkout a ?v], cm_audits := cm_audits c @ [a]\<rparr>"
    and sums: "paid_sum checkout = MinorUnits (co_Total ?v)" and fresh: "\<not> list_ex (\<lambda>r. bo_id r = px_OrderID checkout) (cm_orders (rd_commerce s))"
    using step by (auto simp: checked_out_def payments_def Let_def)
  have total_sum: "small ?sum \<Longrightarrow> ?sum = MinorUnits (co_Total ?v)"
    using sums by (simp add: paid_sum_sum wrap64_id small_def in_int64_def max_int64_def)
  have row: "bill_key (amounts_of ?v) = (px_TenantID checkout, px_OrderID checkout)"
    "bo_total_minor (amounts_of ?v) = MinorUnits (co_Total ?v)" by (simp_all add: amounts_of_def bill_key_def)
  have "commerce_ok (D \<union> bill_disturbs (amounts_of ?v)) ?c"
    by (rule new_order_ok [OF ok]) (use fresh row in \<open>auto simp: list_ex_iff bill_key_def\<close>)
  then have ok': "commerce_ok ?D ?c"
    by (rule commerce_ok_mono) (use total_sum row in \<open>auto simp: bill_disturbs_def checkout_disturbs_def\<close>)
  have none: "paid_on (px_TenantID checkout) (px_OrderID checkout) (tenders (rd_commerce s)) = 0"
  proof -
    have "order_key v \<in> bill_key ` set (cm_orders (rd_commerce s))" if "v \<in> set (tenders (rd_commerce s))" for v
      using ok that unfolding commerce_ok_def payments_hold_def rows_fit_def by blast
    then have "td_OrderID v \<noteq> px_OrderID checkout" if "v \<in> set (tenders (rd_commerce s))" for v
      using fresh that unfolding list_ex_iff order_key_def bill_key_def by fastforce
    then have "filter (\<lambda>v. td_TenantID v = px_TenantID checkout \<and> td_OrderID v = px_OrderID checkout) (tenders (rd_commerce s)) = []"
      unfolding filter_empty_conv by blast
    then show ?thesis by (simp add: paid_on_def)
  qed
  have "commerce_ok ?D c"
    by (rule payments_books [OF c ok', of "amounts_of ?v"])
      (use row none total_sum in \<open>auto simp: checkout_disturbs_def split: if_splits\<close>)
  then show "commerce_ok ?D (rd_commerce s')" unfolding s' by (simp add: commerce_ok_def)
  assume "small ?sum"
  with payments_sum(1) [OF c] none total_sum
  show "paid_on (px_TenantID checkout) (px_OrderID checkout) (tenders (rd_commerce s')) = MinorUnits (co_Total ?v)"
    unfolding s' by simp
qed

end
