(* ===== verification/Core_Till_System.thy ===== *)
theory Core_Till_System
  imports Core_Till_Properties Core_Menu_Studio_Facts
begin

text \<open>
  The point of sale over time. The rows of print jobs and pickup tokens are explained by their events: the
  locale states when a log explains a table, and is interpreted for both. Runs interleave checkouts, moves
  of jobs and tokens, the steps of the commerce repository and changes of the catalogue.
\<close>

subsection \<open>Tables with a log\<close>

definition history_of :: "string \<Rightarrow> history_row list \<Rightarrow> string list" where
  "history_of k es = map hy_event_type (filter (\<lambda>e. hy_subject_id e = k) es)"

lemma history_of_append: "history_of k (es @ es') = history_of k es @ history_of k es'"
  by (simp add: history_of_def)

lemma history_of_one: "history_of k [e] = (if hy_subject_id e = k then [hy_event_type e] else [])"
  by (simp add: history_of_def)

lemma history_of_other: "\<forall>e \<in> set es. hy_subject_id e \<noteq> k \<Longrightarrow> history_of k es = []"
  by (simp add: history_of_def filter_empty_conv)

definition explained :: "('r \<Rightarrow> string) \<Rightarrow> (string list \<Rightarrow> 'r \<Rightarrow> bool) \<Rightarrow> 'r list \<Rightarrow> history_row list \<Rightarrow> bool" where
  "explained key explains rows es \<longleftrightarrow> distinct (map key rows) \<and> (\<forall>e \<in> set es. hy_subject_id e \<in> key ` set rows)
     \<and> (\<forall>r \<in> set rows. explains (history_of (key r) es) r)"

locale logged_table =
  fixes key :: "'r \<Rightarrow> string"
    and explains :: "string list \<Rightarrow> 'r \<Rightarrow> bool"
    and may :: "string \<Rightarrow> 'r \<Rightarrow> bool"
    and act :: "string \<Rightarrow> time \<Rightarrow> 'r \<Rightarrow> 'r"
  assumes key_act [simp]: "key (act e t r) = key r"
    and explains_act: "explains h r \<Longrightarrow> may e r \<Longrightarrow> explains (h @ [e]) (act e t r)"
begin

abbreviation ok where "ok \<equiv> explained key explains"

lemma ok_Nil [simp]: "ok [] []"
  by (simp add: explained_def)

lemma ok_insert:
  assumes "ok rows es" "key r \<notin> key ` set rows" "hy_subject_id e = key r" "explains [hy_event_type e] r"
  shows "ok (rows @ [r]) (es @ [e])"
proof -
  have "\<forall>x \<in> set es. hy_subject_id x \<noteq> key r" using assms(1,2) unfolding explained_def by metis
  then have new: "history_of (key r) (es @ [e]) = [hy_event_type e]"
    using assms(3) by (simp add: history_of_append history_of_one history_of_other)
  have "history_of (key q) (es @ [e]) = history_of (key q) es" if "q \<in> set rows" for q
    using assms(2,3) that by (force simp: history_of_append history_of_one)
  with assms new show ?thesis unfolding explained_def by (simp add: ball_Un)
qed

text \<open>A row that nobody logs.\<close>

lemma ok_insert_silent:
  assumes "ok rows es" "key r \<notin> key ` set rows" "explains [] r"
  shows "ok (rows @ [r]) es"
proof -
  have "\<forall>x \<in> set es. hy_subject_id x \<noteq> key r" using assms(1,2) unfolding explained_def by metis
  then have "history_of (key r) es = []" by (rule history_of_other)
  with assms show ?thesis unfolding explained_def by (simp add: ball_Un)
qed

lemma ok_inserts:
  assumes "ok rows es" "distinct (map (\<lambda>x. key (f x)) xs)" "\<And>x. x \<in> set xs \<Longrightarrow> key (f x) \<notin> key ` set rows"
    and "\<And>x. x \<in> set xs \<Longrightarrow> hy_subject_id (g x) = key (f x) \<and> explains [hy_event_type (g x)] (f x)"
  shows "ok (rows @ map f xs) (es @ map g xs)"
  using assms
proof (induction xs arbitrary: rows es)
  case (Cons x xs)
  from Cons.prems have "ok (rows @ [f x]) (es @ [g x])" by (intro ok_insert) simp_all
  then have "ok ((rows @ [f x]) @ map f xs) ((es @ [g x]) @ map g xs)"
  proof (rule Cons.IH)
    show "distinct (map (\<lambda>x. key (f x)) xs)" using Cons.prems(2) by simp
  next
    fix y assume y: "y \<in> set xs"
    have "key (f x) \<notin> (\<lambda>x. key (f x)) ` set xs" using Cons.prems(2) by simp
    then have "key (f y) \<noteq> key (f x)" using y by (metis (mono_tags, lifting) image_eqI)
    with y Cons.prems(3) show "key (f y) \<notin> key ` set (rows @ [f x])" by simp
  next
    fix y assume "y \<in> set xs"
    with Cons.prems(4) show "hy_subject_id (g y) = key (f y) \<and> explains [hy_event_type (g y)] (f y)" by simp
  qed
  then show ?case by simp
qed simp

lemma ok_update:
  assumes ok: "ok rows es" and r: "r \<in> set rows" "P r" "may e r" and P: "\<And>q. P q \<Longrightarrow> key q = key r"
    and f: "f r = act e t r" and event: "hy_subject_id ev = key r" "hy_event_type ev = e"
  shows "ok (update_where P f rows) (es @ [ev])"
proof -
  have inj: "inj_on key (set rows)" using ok by (simp add: explained_def distinct_map)
  have one: "q = r" if "q \<in> set rows" "key q = key r" for q using inj_onD [OF inj that(2,1) r(1)] .
  have same: "P q \<longleftrightarrow> q = r" if "q \<in> set rows" for q using one [OF that P] r(2) by blast
  have new: "update_where P f rows = update_where (\<lambda>q. q = r) (act e t) rows"
    unfolding update_where_def by (rule map_cong [OF refl]) (use same f in auto)
  have keys: "map key (update_where P f rows) = map key rows"
    unfolding new by (rule map_update_where) simp
  have "explains (history_of (key p) (es @ [ev])) p" if "p \<in> set (update_where P f rows)" for p
  proof -
    from that obtain q where q: "q \<in> set rows" "p = (if q = r then act e t q else q)" by (auto simp: new in_update_where)
    from ok q(1) have before: "explains (history_of (key q) es) q" by (simp add: explained_def)
    show ?thesis
    proof (cases "q = r")
      case True
      with before q(2) r(3) event show ?thesis by (simp add: history_of_append history_of_one explains_act)
    next
      case False
      with one [OF q(1)] have "key r \<noteq> key q" by auto
      with False before q(2) event show ?thesis by (simp add: history_of_append history_of_one)
    qed
  qed
  moreover have "key ` set (update_where P f rows) = key ` set rows" using keys by (metis list.set_map)
  moreover have "key r \<in> key ` set rows" using r(1) by simp
  ultimately show ?thesis using ok event(1) keys unfolding explained_def by simp
qed

end

subsection \<open>Print jobs\<close>

definition again :: "string \<Rightarrow> bool" where
  "again action \<longleftrightarrow> action = ''requeued'' \<or> action = ''reprinted''"

text \<open>
  The first event of a row is logged by the checkout only, not by the endpoints that insert a row. The whole
  history has it in any case.
\<close>

definition whole :: "string \<Rightarrow> string list \<Rightarrow> string list" where
  "whole start h = (if take 1 h = [start] then h else start # h)"

lemma whole_simps [simp]: "whole start [] = [start]" "whole start [start] = [start]"
  by (simp_all add: whole_def)

lemma whole_snoc: "e \<noteq> start \<Longrightarrow> whole start (h @ [e]) = whole start h @ [e]"
  by (cases h) (simp_all add: whole_def)

text \<open>The paths of a print job: its events, the status they lead to and the attempts they count.\<close>

inductive job_path :: "string list \<Rightarrow> string \<Rightarrow> int \<Rightarrow> bool" where
  queued: "job_path [''queued''] ''queued'' 0"
| acted: "job_path h status n \<Longrightarrow> print_action status action
    \<Longrightarrow> job_path (h @ [action]) (if again action then ''queued'' else action) (if again action then n + 1 else n)"

inductive_simps job_path_start: "job_path [e] status n"

lemma job_path_attempts: "job_path h status n \<Longrightarrow> n = int (length (filter again h))"
  by (induction rule: job_path.induct) (auto simp: again_def)

lemma again_whole: "filter again (whole ''queued'' h) = filter again h"
  by (simp add: whole_def again_def)

lemma action_not_queued: "print_action status action \<Longrightarrow> action \<noteq> ''queued''"
  by (auto simp: print_action_def)

text \<open>The endpoint stores a time of acknowledgement that the client gives.\<close>

definition job_explained :: "string list \<Rightarrow> print_row \<Rightarrow> bool" where
  "job_explained h r \<longleftrightarrow> job_path (whole ''queued'' h) (kp_Status (pw_job r)) (kp_Attempts (pw_job r))
     \<and> (''acknowledged'' \<in> set h \<longrightarrow> kp_AcknowledgedAt (pw_job r) \<noteq> None)
     \<and> (take 1 h = [''queued''] \<longrightarrow> kp_AcknowledgedAt (pw_job r) \<noteq> None \<longrightarrow> ''acknowledged'' \<in> set h)"

interpretation jobs: logged_table "\<lambda>r. kp_ID (pw_job r)" job_explained "\<lambda>e r. print_action (kp_Status (pw_job r)) e"
  "\<lambda>e t r. r\<lparr>pw_job := act_on_job e t (pw_job r)\<rparr>"
proof
  show "kp_ID (pw_job (r\<lparr>pw_job := act_on_job e t (pw_job r)\<rparr>)) = kp_ID (pw_job r)" for e t r
    by (simp add: act_on_job_def Let_def)
next
  fix h r e t assume h: "job_explained h r" and e: "print_action (kp_Status (pw_job r)) e"
  note e' = action_not_queued [OF e]
  let ?j = "pw_job r"
  from h have path: "job_path (whole ''queued'' h) (kp_Status ?j) (kp_Attempts ?j)"
    and times: "''acknowledged'' \<in> set h \<longrightarrow> kp_AcknowledgedAt ?j \<noteq> None"
      "take 1 h = [''queued''] \<longrightarrow> kp_AcknowledgedAt ?j \<noteq> None \<longrightarrow> ''acknowledged'' \<in> set h"
    by (simp_all add: job_explained_def)
  have moved: "kp_Status (act_on_job e t ?j) = (if again e then ''queued'' else e)"
    "kp_Attempts (act_on_job e t ?j) = (if again e then kp_Attempts ?j + 1 else kp_Attempts ?j)"
    "kp_AcknowledgedAt (act_on_job e t ?j) = (if e = ''acknowledged'' then Some t else kp_AcknowledgedAt ?j)"
    by (simp_all add: act_on_job_def again_def Let_def)
  have first: "take 1 (h @ [e]) = [''queued''] \<longleftrightarrow> take 1 h = [''queued'']" using e' by (cases h) simp_all
  from acted [OF path e] have "job_path (whole ''queued'' (h @ [e])) (kp_Status (act_on_job e t ?j)) (kp_Attempts (act_on_job e t ?j))"
    by (simp only: whole_snoc [OF e'] moved)
  moreover have "''acknowledged'' \<in> set (h @ [e]) \<longrightarrow> kp_AcknowledgedAt (act_on_job e t ?j) \<noteq> None"
    using times(1) unfolding moved by auto
  moreover have "take 1 (h @ [e]) = [''queued''] \<longrightarrow> kp_AcknowledgedAt (act_on_job e t ?j) \<noteq> None \<longrightarrow> ''acknowledged'' \<in> set (h @ [e])"
    using times(2) unfolding moved first by auto
  moreover have "pw_job (r\<lparr>pw_job := act_on_job e t ?j\<rparr>) = act_on_job e t ?j" by simp
  ultimately show "job_explained (h @ [e]) (r\<lparr>pw_job := act_on_job e t ?j\<rparr>)" unfolding job_explained_def by metis
qed

subsection \<open>Pickup tokens\<close>

inductive token_path :: "string list \<Rightarrow> string \<Rightarrow> bool" where
  issued: "token_path [''issued''] ''issued''"
| moved: "token_path h status \<Longrightarrow> token_move status status' \<Longrightarrow> token_path (h @ [status']) status'"

inductive_simps token_path_start: "token_path [e] status"

lemma token_path_cases:
  "token_path h status \<Longrightarrow> h \<in> {[''issued''], [''issued'', ''called''], [''issued'', ''cancelled''],
     [''issued'', ''called'', ''collected''], [''issued'', ''called'', ''cancelled'']} \<and> status = last h"
proof (induction rule: token_path.induct)
  case (moved h status status')
  then have h: "h \<in> {[''issued''], [''issued'', ''called''], [''issued'', ''cancelled''],
     [''issued'', ''called'', ''collected''], [''issued'', ''called'', ''cancelled'']}" "token_move (last h) status'" by simp_all
  from h(1) show ?case
    by (elim insertE emptyE; insert h(2); simp add: token_move_def; elim disjE; simp)
qed simp

definition token_explained :: "string list \<Rightarrow> token_row \<Rightarrow> bool" where
  "token_explained h r \<longleftrightarrow> token_path (whole ''issued'' h) (pk_Status (kw_token r)) \<and> pk_Version (kw_token r) = length (whole ''issued'' h)
     \<and> (pk_CollectedAt (kw_token r) \<noteq> None \<longleftrightarrow> pk_Status (kw_token r) = ''collected'')"

definition move_token :: "string \<Rightarrow> time \<Rightarrow> token_row \<Rightarrow> token_row" where
  "move_token status t r = r\<lparr>kw_token := (kw_token r)\<lparr>pk_Status := status,
     pk_CollectedAt := (if status = ''collected'' then Some t else pk_CollectedAt (kw_token r)),
     pk_Version := pk_Version (kw_token r) + 1\<rparr>\<rparr>"

interpretation tokens: logged_table "\<lambda>r. pk_ID (kw_token r)" token_explained "\<lambda>e r. token_move (pk_Status (kw_token r)) e" move_token
proof
  show "pk_ID (kw_token (move_token e t r)) = pk_ID (kw_token r)" for e t r by (simp add: move_token_def)
next
  fix h r e t assume h: "token_explained h r" and e: "token_move (pk_Status (kw_token r)) e"
  from e have "e \<noteq> ''issued''" by (auto simp: token_move_def)
  note h' = whole_snoc [OF this, of h]
  from h have "token_path (whole ''issued'' h) (pk_Status (kw_token r))" by (simp add: token_explained_def)
  from moved [OF this e] h e show "token_explained (h @ [e]) (move_token e t r)"
    unfolding token_explained_def h' by (auto simp: move_token_def token_move_def)
qed

subsection \<open>Runs\<close>

text \<open>
  The catalogue and the other components' orders come from outside. As in the runs of the commerce tables, a
  step is labelled with the orders whose payments it may disturb. An endpoint queues jobs and issues tokens.
\<close>

definition same_till :: "restaurant_db \<Rightarrow> restaurant_db \<Rightarrow> bool" where
  "same_till s s' \<longleftrightarrow> rd_commerce s' = rd_commerce s \<and> rd_print_jobs s' = rd_print_jobs s \<and> rd_print_events s' = rd_print_events s
     \<and> rd_tokens s' = rd_tokens s \<and> rd_token_events s' = rd_token_events s \<and> rd_checkouts s' = rd_checkouts s"

inductive till_step ::
  "(string \<Rightarrow> 8 word list) \<Rightarrow> (string \<times> string) set \<Rightarrow> restaurant_db \<Rightarrow> restaurant_db \<Rightarrow> bool" for sha256 where
  checkout: "till_step sha256 (checkout_disturbs checkout) s (snd (CheckoutPOS sha256 ctx checkout a s))"
| new_job: "kp_Status j = ''queued'' \<Longrightarrow> kp_Attempts j = 0 \<Longrightarrow> till_step sha256 {} s (snd (CreateKitchenPrintJob ctx j a s))"
| job: "till_step sha256 {} s (snd (AcknowledgeKitchenPrintJob sha256 ctx tenant outlet k action a s))"
| new_token: "pk_Status t = ''issued'' \<Longrightarrow> till_step sha256 {} s (snd (IssuePickupToken ctx t a s))"
| token: "till_step sha256 {} s (snd (TransitionPickupToken sha256 ctx tenant outlet k status expected a s))"
| studio: "till_step sha256 {} s (snd (Core_Menu_Studio.CreateMenuStudio micro ctx studio v a s))"
| version: "till_step sha256 {} s (snd (Core_Menu_Studio.AddMenuStudioVersion micro ctx tenant outlet v n a s))"
| commerce: "commerce_step sha256 d (rd_commerce s) c \<Longrightarrow> till_step sha256 d s (s\<lparr>rd_commerce := c\<rparr>)"
| outside: "same_till s s' \<Longrightarrow> till_step sha256 {} s s'"

definition empty_till :: restaurant_db where
  "empty_till = \<lparr>rd_commerce = empty_commerce, rd_stations = [], rd_brands = [], rd_channels = [], rd_studios = [],
     rd_menu_versions = [], rd_categories = [], rd_publications = [], rd_items = [],
     rd_version_items = [], rd_prices = [], rd_item_modifiers = [], rd_groups = [], rd_options = [], rd_recipe_versions = [],
     rd_orders = [], rd_lines = [], rd_recipe_snapshots = [], rd_modifier_snapshots = [], rd_tickets = [], rd_ticket_lines = [],
     rd_print_jobs = [], rd_print_events = [], rd_tokens = [], rd_token_events = [], rd_checkouts = []\<rparr>"

inductive till_reachable :: "(string \<Rightarrow> 8 word list) \<Rightarrow> (string \<times> string) set \<Rightarrow> restaurant_db \<Rightarrow> bool" for sha256 where
  start: "till_reachable sha256 {} empty_till"
| step: "till_reachable sha256 D s \<Longrightarrow> till_step sha256 d s s' \<Longrightarrow> till_reachable sha256 (D \<union> d) s'"

lemma calm_till_step: "till_reachable sha256 D s \<Longrightarrow> till_step sha256 {} s s' \<Longrightarrow> till_reachable sha256 D s'"
  using till_reachable.step by fastforce

definition some_till_step :: "(string \<Rightarrow> 8 word list) \<Rightarrow> restaurant_db \<Rightarrow> restaurant_db \<Rightarrow> bool" where
  "some_till_step sha256 s s' \<longleftrightarrow> (\<exists>d. till_step sha256 d s s')"

definition till_ok :: "(string \<times> string) set \<Rightarrow> restaurant_db \<Rightarrow> bool" where
  "till_ok D s \<longleftrightarrow> commerce_ok D (rd_commerce s) \<and> jobs.ok (rd_print_jobs s) (rd_print_events s)
     \<and> tokens.ok (rd_tokens s) (rd_token_events s)"

lemma till_ok_mono: "till_ok D s \<Longrightarrow> D \<subseteq> E \<Longrightarrow> till_ok E s"
  by (auto simp: till_ok_def dest: commerce_ok_mono)

lemma till_transaction_ok:
  assumes "till_ok D s" "\<And>v s'. body s = Inr (v, s') \<Longrightarrow> till_ok D s'"
  shows "till_ok D (snd (till_transaction ctx body s))"
  using assms by (auto simp: till_transaction_def transact_def split: sum.splits option.splits prod.splits)

lemma checkout_till_ok:
  assumes ok: "till_ok D s"
  shows "till_ok (D \<union> checkout_disturbs checkout) (snd (CheckoutPOS sha256 ctx checkout a s))"
  unfolding CheckoutPOS_def
proof (rule till_transaction_ok)
  show "till_ok (D \<union> checkout_disturbs checkout) s" using ok by (rule till_ok_mono) simp
  fix r s' assume "checkout_body sha256 checkout a s = Inr (r, s')"
  then obtain b where step: "checked_out sha256 checkout a b s s'" by (rule checkout_effect)
  let ?ts = "tickets_of sha256 checkout a b"
  have "commerce_ok (D \<union> checkout_disturbs checkout) (rd_commerce s')"
    using checked_out_books(1) [OF _ step] ok by (simp add: till_ok_def)
  moreover have "jobs.ok (rd_print_jobs s @ map (print_row_of sha256 checkout a) ?ts) (rd_print_events s @ map (queued_event sha256 checkout a) ?ts)"
  proof (rule jobs.ok_inserts)
    show "jobs.ok (rd_print_jobs s) (rd_print_events s)" using ok by (simp add: till_ok_def)
    have new: "new_jobs (map (print_job_of sha256 checkout a) ?ts) s" using step by (simp add: checked_out_def Let_def)
    then show "distinct (map (\<lambda>t. kp_ID (pw_job (print_row_of sha256 checkout a t))) ?ts)"
      by (simp add: new_jobs_def print_row_of_def comp_def)
    show "kp_ID (pw_job (print_row_of sha256 checkout a t)) \<notin> (\<lambda>r. kp_ID (pw_job r)) ` set (rd_print_jobs s)" if "t \<in> set ?ts" for t
      using new that by (simp add: new_jobs_def print_row_of_def image_image)
    show "hy_subject_id (queued_event sha256 checkout a t) = kp_ID (pw_job (print_row_of sha256 checkout a t))
      \<and> job_explained [hy_event_type (queued_event sha256 checkout a t)] (print_row_of sha256 checkout a t)" for t
      using queued by (simp add: queued_event_def print_row_of_def job_explained_def print_job_of_def)
  qed
  moreover have "tokens.ok (rd_tokens s') (rd_token_events s')"
  proof (cases "px_PickupTokenID checkout = []")
    case False
    have "tokens.ok (rd_tokens s @ [\<lparr>kw_token = token_of checkout a, kw_operation_id = k\<rparr>]) (rd_token_events s @ [issued_event sha256 checkout a])" for k
      by (rule tokens.ok_insert)
        (use ok step False issued in \<open>simp_all add: till_ok_def checked_out_def Let_def token_of_def issued_event_def token_explained_def image_image\<close>)
    with step False show ?thesis by (simp add: checked_out_def Let_def)
  qed (use ok step in \<open>simp add: till_ok_def checked_out_def Let_def\<close>)
  ultimately show "till_ok (D \<union> checkout_disturbs checkout) s'" using step by (simp add: till_ok_def checked_out_def Let_def)
qed

lemma in_commerce_audit: "in_commerce (insertAudit tenant a) s = Inr s' \<Longrightarrow>
    s' = s\<lparr>rd_commerce := (rd_commerce s)\<lparr>cm_audits := cm_audits (rd_commerce s) @ [a]\<rparr>\<rparr>"
  by (auto simp: in_commerce_Inr dest: insertAudit_Inr)

lemma till_transaction_cases:
  assumes "till_transaction ctx body s = (x, s')"
  obtains e where "x = Inl e" "s' = s" | v where "x = Inr v" "body s = Inr (v, s')"
  using assms by (auto simp: till_transaction_def transact_def split: sum.splits option.splits prod.splits)

text \<open>What a move of a job or a token does when it succeeds.\<close>

lemma AcknowledgeKitchenPrintJob_cases:
  assumes "AcknowledgeKitchenPrintJob sha256 ctx tenant outlet k action a s = (x, s')"
  obtains e where "x = Inl e" "s' = s"
  | r j ev where "x = Inr j" "r \<in> set (rd_print_jobs s)" "job_at tenant outlet k r" "print_action (kp_Status (pw_job r)) action"
      "j = act_on_job action (ae_RecordedAt a) (pw_job r)" "hy_subject_id ev = k" "hy_event_type ev = action"
      "s' = s\<lparr>rd_print_jobs := update_where (job_at tenant outlet k) (\<lambda>q. q\<lparr>pw_job := (pw_job q)\<lparr>kp_Status := kp_Status j,
           kp_Attempts := kp_Attempts j, kp_AcknowledgedAt := kp_AcknowledgedAt j\<rparr>\<rparr>) (rd_print_jobs s),
         rd_print_events := rd_print_events s @ [ev],
         rd_commerce := (rd_commerce s)\<lparr>cm_audits := cm_audits (rd_commerce s) @ [a]\<rparr>\<rparr>"
  using assms unfolding AcknowledgeKitchenPrintJob_def
proof (cases rule: till_transaction_cases)
  case (2 j)
  let ?e = "\<lparr>hy_id = ae_ID a, hy_tenant_id = tenant, hy_subject_id = k, hy_event_type = action, hy_occurred_at = ae_RecordedAt a,
    hy_actor_id = ae_ActorID a, hy_operation_id = inventoryEventUUID sha256 tenant (ae_OperationID a) ''print-event''\<rparr>"
  let ?f = "\<lambda>j q. q\<lparr>pw_job := (pw_job q)\<lparr>kp_Status := kp_Status j, kp_Attempts := kp_Attempts j, kp_AcknowledgedAt := kp_AcknowledgedAt j\<rparr>\<rparr>"
  from 2(2) obtain r u where r: "query_row (job_at tenant outlet k) (rd_print_jobs s) = Inr r" "print_action (kp_Status (pw_job r)) action"
      "j = act_on_job action (ae_RecordedAt a) (pw_job r)"
    and run: "insert_print_event ?e (s\<lparr>rd_print_jobs := update_where (job_at tenant outlet k) (?f j) (rd_print_jobs s)\<rparr>) = Inr u"
      "in_commerce (insertAudit tenant a) u = Inr s'"
    unfolding Let_def if_Inl_Inr by (elim rbind_InrE conjE) (auto simp: guarded_Inr_iff if_Inl_Inr elim!: rbind_InrE)
  from run(1) in_commerce_audit [OF run(2)] query_row_Inr [OF r(1)] r(2,3) 2(1) show thesis
    by (intro that(2) [of j r ?e]) (auto simp: insert_print_event_def guarded_Inr_iff)
qed (use that in blast)

lemma TransitionPickupToken_cases:
  assumes "TransitionPickupToken sha256 ctx tenant outlet k status expected a s = (x, s')"
  obtains e where "x = Inl e" "s' = s"
  | r v ev where "x = Inr v" "r \<in> set (rd_tokens s)" "token_at tenant outlet k r" "token_move (pk_Status (kw_token r)) status"
      "pk_Version (kw_token r) = expected" "hy_subject_id ev = k" "hy_event_type ev = status"
      "s' = s\<lparr>rd_tokens := update_where (token_at tenant outlet k) (\<lambda>q. q\<lparr>kw_token := (kw_token q)\<lparr>pk_Status := status,
           pk_CollectedAt := (if status = ''collected'' then Some (ae_RecordedAt a) else pk_CollectedAt (kw_token r)),
           pk_Version := pk_Version (kw_token q) + 1\<rparr>\<rparr>) (rd_tokens s),
         rd_token_events := rd_token_events s @ [ev],
         rd_commerce := (rd_commerce s)\<lparr>cm_audits := cm_audits (rd_commerce s) @ [a]\<rparr>\<rparr>"
  using assms unfolding TransitionPickupToken_def
proof (cases rule: till_transaction_cases)
  case (2 v)
  let ?e = "\<lparr>hy_id = ae_ID a, hy_tenant_id = tenant, hy_subject_id = k, hy_event_type = status, hy_occurred_at = ae_RecordedAt a,
    hy_actor_id = ae_ActorID a, hy_operation_id = inventoryEventUUID sha256 tenant (ae_OperationID a) ''token-event''\<rparr>"
  let ?f = "\<lambda>r q. q\<lparr>kw_token := (kw_token q)\<lparr>pk_Status := status,
    pk_CollectedAt := (if status = ''collected'' then Some (ae_RecordedAt a) else pk_CollectedAt (kw_token r)), pk_Version := pk_Version (kw_token q) + 1\<rparr>\<rparr>"
  from 2(2) obtain r u where r: "query_row (token_at tenant outlet k) (rd_tokens s) = Inr r" "token_move (pk_Status (kw_token r)) status"
      "pk_Version (kw_token r) = expected"
    and run: "insert_token_event ?e (s\<lparr>rd_tokens := update_where (token_at tenant outlet k) (?f r) (rd_tokens s)\<rparr>) = Inr u"
      "in_commerce (insertAudit tenant a) u = Inr s'"
    unfolding Let_def if_Inl_Inr by (elim rbind_InrE conjE) (auto simp: if_Inl_Inr elim!: rbind_InrE)
  from run(1) in_commerce_audit [OF run(2)] query_row_Inr [OF r(1)] r(2,3) 2(1) show thesis
    by (intro that(2) [of v r ?e]) (auto simp: insert_token_event_def guarded_Inr_iff)
qed (use that in blast)

text \<open>The endpoints insert a row, and no event.\<close>

lemma CreateKitchenPrintJob_cases:
  assumes "CreateKitchenPrintJob ctx j a s = (x, s')"
  obtains e where "x = Inl e" "s' = s"
  | "x = Inr ()" "kp_ID j \<notin> (\<lambda>r. kp_ID (pw_job r)) ` set (rd_print_jobs s)"
      "s' = s\<lparr>rd_print_jobs := rd_print_jobs s @ [\<lparr>pw_job = j, pw_operation_id = ae_OperationID a\<rparr>],
         rd_commerce := (rd_commerce s)\<lparr>cm_audits := cm_audits (rd_commerce s) @ [a]\<rparr>\<rparr>"
  using assms unfolding CreateKitchenPrintJob_def
proof (cases rule: till_transaction_cases)
  case (2 v)
  from 2(2) obtain u where "insert_print_job j (ae_OperationID a) s = Inr u" "in_commerce (insertAudit (kp_TenantID j) a) u = Inr s'"
    by (auto elim!: rbind_InrE)
  then have u: "u = s\<lparr>rd_print_jobs := rd_print_jobs s @ [\<lparr>pw_job = j, pw_operation_id = ae_OperationID a\<rparr>]\<rparr>"
    and "\<not> list_ex (\<lambda>r. kp_ID (pw_job r) = kp_ID j) (rd_print_jobs s)"
    by (simp_all add: insert_print_job_def guarded_Inr_iff list_ex_iff)
  then have "kp_ID j \<notin> (\<lambda>r. kp_ID (pw_job r)) ` set (rd_print_jobs s)" by (force simp: list_ex_iff)
  with that(2) 2(1) show thesis using in_commerce_audit [OF \<open>in_commerce _ u = Inr s'\<close>] u by simp
qed (use that in blast)

lemma IssuePickupToken_cases:
  assumes "IssuePickupToken ctx t a s = (x, s')"
  obtains e where "x = Inl e" "s' = s"
  | "x = Inr t" "pk_ID t \<notin> (\<lambda>r. pk_ID (kw_token r)) ` set (rd_tokens s)"
      "s' = s\<lparr>rd_tokens := rd_tokens s @ [token_row_of t (ae_OperationID a)],
         rd_commerce := (rd_commerce s)\<lparr>cm_audits := cm_audits (rd_commerce s) @ [a]\<rparr>\<rparr>"
  using assms unfolding IssuePickupToken_def
proof (cases rule: till_transaction_cases)
  case (2 v)
  from 2(2) obtain u where "insert_token t (ae_OperationID a) s = Inr u" "in_commerce (insertAudit (pk_TenantID t) a) u = Inr s'" "v = t"
    by (auto elim!: rbind_InrE)
  then have u: "u = s\<lparr>rd_tokens := rd_tokens s @ [token_row_of t (ae_OperationID a)]\<rparr>"
    and "\<not> list_ex (\<lambda>r. pk_ID (kw_token r) = pk_ID t) (rd_tokens s)"
    by (simp_all add: insert_token_def guarded_Inr_iff list_ex_iff)
  then have "pk_ID t \<notin> (\<lambda>r. pk_ID (kw_token r)) ` set (rd_tokens s)" by (force simp: list_ex_iff)
  with that(2) 2(1) \<open>v = t\<close> show thesis using in_commerce_audit [OF \<open>in_commerce _ u = Inr s'\<close>] u by simp
qed (use that in blast)

lemma new_job_till_ok:
  assumes ok: "till_ok D s" and new: "kp_Status j = ''queued''" "kp_Attempts j = 0"
  shows "till_ok D (snd (CreateKitchenPrintJob ctx j a s))"
proof -
  obtain x s' where run: "CreateKitchenPrintJob ctx j a s = (x, s')" by fastforce
  then show ?thesis
  proof (cases rule: CreateKitchenPrintJob_cases)
    case 2
    have "jobs.ok (rd_print_jobs s @ [\<lparr>pw_job = j, pw_operation_id = ae_OperationID a\<rparr>]) (rd_print_events s)"
      by (rule jobs.ok_insert_silent) (use ok 2 new queued in \<open>simp_all add: till_ok_def job_explained_def\<close>)
    with ok 2(3) run show ?thesis by (simp add: till_ok_def commerce_ok_def)
  qed (use ok run in simp)
qed

lemma new_token_till_ok:
  assumes ok: "till_ok D s" and new: "pk_Status t = ''issued''"
  shows "till_ok D (snd (IssuePickupToken ctx t a s))"
proof -
  obtain x s' where run: "IssuePickupToken ctx t a s = (x, s')" by fastforce
  then show ?thesis
  proof (cases rule: IssuePickupToken_cases)
    case 2
    have "tokens.ok (rd_tokens s @ [token_row_of t (ae_OperationID a)]) (rd_token_events s)"
      by (rule tokens.ok_insert_silent) (use ok 2 new issued in \<open>simp_all add: till_ok_def token_explained_def token_row_of_def\<close>)
    with ok 2(3) run show ?thesis by (simp add: till_ok_def commerce_ok_def)
  qed (use ok run in simp)
qed

lemma job_till_ok:
  assumes ok: "till_ok D s"
  shows "till_ok D (snd (AcknowledgeKitchenPrintJob sha256 ctx tenant outlet k action a s))"
proof -
  obtain x s' where run: "AcknowledgeKitchenPrintJob sha256 ctx tenant outlet k action a s = (x, s')" by fastforce
  then show ?thesis
  proof (cases rule: AcknowledgeKitchenPrintJob_cases)
    case (2 r j ev)
    let ?rows = "update_where (job_at tenant outlet k) (\<lambda>q. q\<lparr>pw_job := (pw_job q)\<lparr>kp_Status := kp_Status j,
      kp_Attempts := kp_Attempts j, kp_AcknowledgedAt := kp_AcknowledgedAt j\<rparr>\<rparr>) (rd_print_jobs s)"
    have "jobs.ok ?rows (rd_print_events s @ [ev])"
      by (rule jobs.ok_update [where r = r and e = action and t = "ae_RecordedAt a"])
        (use ok 2 in \<open>auto simp: till_ok_def job_at_def at_row_def act_on_job_def Let_def\<close>)
    with ok 2(8) run show ?thesis by (simp add: till_ok_def commerce_ok_def)
  qed (use ok run in simp)
qed

lemma token_till_ok:
  assumes ok: "till_ok D s"
  shows "till_ok D (snd (TransitionPickupToken sha256 ctx tenant outlet k status expected a s))"
proof -
  obtain x s' where run: "TransitionPickupToken sha256 ctx tenant outlet k status expected a s = (x, s')" by fastforce
  then show ?thesis
  proof (cases rule: TransitionPickupToken_cases)
    case (2 r v ev)
    let ?rows = "update_where (token_at tenant outlet k) (\<lambda>q. q\<lparr>kw_token := (kw_token q)\<lparr>pk_Status := status,
      pk_CollectedAt := (if status = ''collected'' then Some (ae_RecordedAt a) else pk_CollectedAt (kw_token r)),
      pk_Version := pk_Version (kw_token q) + 1\<rparr>\<rparr>) (rd_tokens s)"
    have "tokens.ok ?rows (rd_token_events s @ [ev])"
      by (rule tokens.ok_update [where r = r and e = status and t = "ae_RecordedAt a"])
        (use ok 2 in \<open>auto simp: till_ok_def token_at_def at_row_def move_token_def\<close>)
    with ok 2(8) run show ?thesis by (simp add: till_ok_def commerce_ok_def)
  qed (use ok run in simp)
qed

lemma same_till_simps [simp]:
  "same_till s (s\<lparr>rd_studios := studios\<rparr>)" "same_till s (with_version studio v s)"
  by (simp_all add: same_till_def with_version_def with_items_def Let_def)

lemma same_till_trans: "same_till s u \<Longrightarrow> same_till u w \<Longrightarrow> same_till s w"
  by (simp add: same_till_def)

lemma same_till_refl [simp]: "same_till s s"
  by (simp add: same_till_def)

lemma studio_run:
  assumes "Core_Menu_Studio.CreateMenuStudio micro ctx studio v a s = (Inr r, s')"
  obtains u where "same_till s u" "in_commerce (insertAudit (ms_TenantID studio) a) u = Inr s'"
proof -
  have "\<exists>u w x. insert_studio (column_studio micro studio) s = Inr u \<and> insertMenuStudioVersion micro studio v u = Inr w
      \<and> in_commerce (insertAudit (ms_TenantID studio) a) x = Inr s' \<and> same_till w x"
    using assms unfolding CreateMenuStudio_def till_transaction_def transact_Inr_iff Let_def
    by (cases ctx; cases "sv_Status v = ''published''")
      (fastforce simp: check_current_def guarded_Inr_iff elim!: rbind_InrE)+
  then obtain u w x where u: "insert_studio (column_studio micro studio) s = Inr u" and w: "insertMenuStudioVersion micro studio v u = Inr w"
    and x: "in_commerce (insertAudit (ms_TenantID studio) a) x = Inr s'" "same_till w x" by blast
  have "same_till s u" using u by (auto simp: insert_studio_def guarded_Inr_iff)
  then have "same_till s w" using insertMenuStudioVersion_Inr [OF w] same_till_trans same_till_simps(2) by metis
  from this x(2) have "same_till s x" by (rule same_till_trans)
  then show thesis using x(1) by (rule that)
qed

lemma version_run:
  assumes "Core_Menu_Studio.AddMenuStudioVersion micro ctx tenant outlet v n a s = (Inr r, s')"
  obtains u where "same_till s u" "in_commerce (insertAudit tenant a) u = Inr s'"
proof -
  have "\<exists>studio w x. insertMenuStudioVersion micro studio v s = Inr w \<and> in_commerce (insertAudit tenant a) x = Inr s' \<and> same_till w x"
    using assms unfolding AddMenuStudioVersion_def till_transaction_def transact_Inr_iff Let_def
    by (cases ctx; cases "sv_Status v = ''published''")
      (fastforce simp: guarded_Inr_iff if_Inl_Inr elim!: rbind_InrE)+
  then obtain studio w x where w: "insertMenuStudioVersion micro studio v s = Inr w"
    and x: "in_commerce (insertAudit tenant a) x = Inr s'" "same_till w x" by blast
  have "same_till s w" using insertMenuStudioVersion_Inr [OF w] same_till_simps(2) by metis
  from this x(2) have "same_till s x" by (rule same_till_trans)
  then show thesis using x(1) by (rule that)
qed

text \<open>A step that changes, of the tables of the till, the audit trail at most.\<close>

definition audited_step :: "restaurant_db \<Rightarrow> restaurant_db \<Rightarrow> bool" where
  "audited_step s s' \<longleftrightarrow> s' = s \<or> (\<exists>u tenant a. same_till s u \<and> in_commerce (insertAudit tenant a) u = Inr s')"

lemma studio_audited:
  "audited_step s (snd (Core_Menu_Studio.CreateMenuStudio micro ctx studio v a s))"
  "audited_step s (snd (Core_Menu_Studio.AddMenuStudioVersion micro ctx tenant outlet v n a s))"
proof -
  obtain x s' where run: "Core_Menu_Studio.CreateMenuStudio micro ctx studio v a s = (x, s')" by fastforce
  have "audited_step s s'"
  proof (cases x)
    case (Inl e)
    with run have "Core_Menu_Studio.CreateMenuStudio micro ctx studio v a s = (Inl e, s')" by simp
    then have "s' = s" by (rule studio_rollback)
    then show ?thesis by (simp add: audited_step_def)
  next
    case (Inr r)
    with run have "Core_Menu_Studio.CreateMenuStudio micro ctx studio v a s = (Inr r, s')" by simp
    then show ?thesis unfolding audited_step_def by (rule studio_run) blast
  qed
  with run show "audited_step s (snd (Core_Menu_Studio.CreateMenuStudio micro ctx studio v a s))" by simp
next
  obtain x s' where run: "Core_Menu_Studio.AddMenuStudioVersion micro ctx tenant outlet v n a s = (x, s')" by fastforce
  have "audited_step s s'"
  proof (cases x)
    case (Inl e)
    with run have "Core_Menu_Studio.AddMenuStudioVersion micro ctx tenant outlet v n a s = (Inl e, s')" by simp
    then have "s' = s" by (rule studio_rollback)
    then show ?thesis by (simp add: audited_step_def)
  next
    case (Inr r)
    with run have "Core_Menu_Studio.AddMenuStudioVersion micro ctx tenant outlet v n a s = (Inr r, s')" by simp
    then show ?thesis unfolding audited_step_def by (rule version_run) blast
  qed
  with run show "audited_step s (snd (Core_Menu_Studio.AddMenuStudioVersion micro ctx tenant outlet v n a s))" by simp
qed

lemma audited_till_ok: "audited_step s s' \<Longrightarrow> till_ok D s \<Longrightarrow> till_ok D s'"
  by (auto simp: audited_step_def till_ok_def same_till_def commerce_ok_def dest!: in_commerce_audit)

lemma audited_checkouts: "audited_step s s' \<Longrightarrow> rd_checkouts s' = rd_checkouts s"
  by (auto simp: audited_step_def same_till_def dest!: in_commerce_audit)

lemma till_step_ok: "till_step sha256 d s s' \<Longrightarrow> till_ok D s \<Longrightarrow> till_ok (D \<union> d) s'"
  by (induction rule: till_step.induct)
    (simp_all add: checkout_till_ok new_job_till_ok job_till_ok new_token_till_ok token_till_ok audited_till_ok [OF studio_audited(1)]
      audited_till_ok [OF studio_audited(2)], simp_all add: till_ok_def same_till_def commerce_step_ok)

lemma till_reachable_ok: "till_reachable sha256 D s \<Longrightarrow> till_ok D s"
proof (induction rule: till_reachable.induct)
  case start
  then show ?case by (simp add: till_ok_def empty_till_def commerce_ok_empty)
qed (rule till_step_ok)

text \<open>The records of the checkouts are only added to, one for every checkout that succeeds.\<close>

lemma CheckoutPOS_cases:
  obtains e where "CheckoutPOS sha256 ctx checkout a s = (Inl e, s)"
  | r s' where "CheckoutPOS sha256 ctx checkout a s = (Inr r, s')"
      "\<not> list_ex (checkouts_clash (checkout_row_of checkout a)) (rd_checkouts s)"
      "rd_checkouts s' = rd_checkouts s @ [checkout_row_of checkout a]"
proof (cases "CheckoutPOS sha256 ctx checkout a s")
  case (Pair x s')
  show thesis
  proof (cases x)
    case (Inl e)
    with Pair have "s' = s" by (auto simp: CheckoutPOS_def till_transaction_def dest: transact_Inl)
    with Pair Inl that(1) show thesis by simp
  next
    case (Inr r)
    with Pair have run: "CheckoutPOS sha256 ctx checkout a s = (Inr r, s')" by simp
    then obtain b where "checked_out sha256 checkout a b s s'" by (rule CheckoutPOS_Inr)
    with that(2) [OF run] show thesis by (simp add: checked_out_def Let_def)
  qed
qed

lemma till_step_checkouts:
  assumes "till_step sha256 d s s'"
  shows "set (rd_checkouts s) \<subseteq> set (rd_checkouts s')"
  using assms
proof cases
  case (checkout checkout ctx a)
  then show ?thesis by (cases rule: CheckoutPOS_cases [of sha256 ctx checkout a s]) auto
next
  case (new_job j ctx a)
  obtain x u where run: "CreateKitchenPrintJob ctx j a s = (x, u)" by fastforce
  then show ?thesis unfolding new_job(2) by (cases rule: CreateKitchenPrintJob_cases) (simp_all add: run)
next
  case (new_token t ctx a)
  obtain x u where run: "IssuePickupToken ctx t a s = (x, u)" by fastforce
  then show ?thesis unfolding new_token(2) by (cases rule: IssuePickupToken_cases) (simp_all add: run)
next
  case (job ctx tenant outlet k action a)
  obtain x u where run: "AcknowledgeKitchenPrintJob sha256 ctx tenant outlet k action a s = (x, u)" by fastforce
  then show ?thesis unfolding job(2) by (cases rule: AcknowledgeKitchenPrintJob_cases) (simp_all add: run)
next
  case (token ctx tenant outlet k status expected a)
  obtain x u where run: "TransitionPickupToken sha256 ctx tenant outlet k status expected a s = (x, u)" by fastforce
  then show ?thesis unfolding token(2) by (cases rule: TransitionPickupToken_cases) (simp_all add: run)
qed (simp_all add: audited_checkouts [OF studio_audited(1)] audited_checkouts [OF studio_audited(2)] same_till_def)

lemma till_steps_checkouts: "(some_till_step sha256)\<^sup>*\<^sup>* s s' \<Longrightarrow> set (rd_checkouts s) \<subseteq> set (rd_checkouts s')"
  by (induction rule: rtranclp_induct) (auto simp: some_till_step_def dest: till_step_checkouts)

subsection \<open>Properties\<close>

text \<open>
  C9: checkouts are paid in full and keep the books. Whatever was done before by tills and by the commerce
  operations, a checkout that succeeds with tenders of less than \<open>2 ^ 62\<close> minor units together leaves an order on
  which exactly its total is paid; no order whose payments were left undisturbed by races and extreme amounts is
  overpaid, and the expected cash of every shift is still the sum of its log and its opening float with its
  cash tenders.
\<close>

theorem checkouts_are_paid_in_full:
  assumes "till_reachable sha256 D s" "small (sum_list (map pn_AmountMinor (px_Tenders checkout)))"
    and "CheckoutPOS sha256 ctx checkout a s = (Inr r, s')"
  shows "paid_on (px_TenantID checkout) (px_OrderID checkout) (tenders (rd_commerce s')) = MinorUnits (co_Total (pz_Order r))
    \<and> (\<forall>o' \<in> set (cm_orders (rd_commerce s')). bill_key o' \<notin> D \<longrightarrow>
         paid_on (bo_tenant_id o') (bo_id o') (tenders (rd_commerce s')) \<le> bo_total_minor o')
    \<and> (\<forall>q \<in> set (cm_shifts (rd_commerce s')).
         cs_ExpectedCashMinor q = logged_on (cs_TenantID q) (cs_ID q) (cm_cash_events (rd_commerce s'))
       \<and> cs_ExpectedCashMinor q = cs_OpeningFloatMinor q + cash_taken (cs_TenantID q) (cs_ID q) (tenders (rd_commerce s')))"
proof -
  from assms(3) obtain b where r: "r = checkout_result sha256 checkout a b" and step: "checked_out sha256 checkout a b s s'"
    by (rule CheckoutPOS_Inr)
  have "commerce_ok D (rd_commerce s)" using till_reachable_ok [OF assms(1)] by (simp add: till_ok_def)
  note books = checked_out_books [OF this step]
  from books(1) assms(2) have "commerce_ok D (rd_commerce s')" by (simp add: checkout_disturbs_def)
  moreover from books(2) [OF assms(2)] have
    "paid_on (px_TenantID checkout) (px_OrderID checkout) (tenders (rd_commerce s')) = MinorUnits (co_Total (pz_Order r))" by (simp add: r)
  moreover from calculation(1) have "drawer_holds (cm_shifts (rd_commerce s')) (cm_cash_events (rd_commerce s')) (tenders (rd_commerce s'))"
    "payments_hold D (cm_orders (rd_commerce s')) (tenders (rd_commerce s'))" by (simp_all add: commerce_ok_def)
  ultimately show ?thesis by (simp add: payments_hold_def drawer_holds_def)
qed

text \<open>
  C21: a checkout is done once. After a checkout has succeeded, whatever happens next, another one with its
  identifier, or for the same tenant with its order or under its operation, is refused and changes nothing.
\<close>

theorem checkout_is_done_once:
  assumes "CheckoutPOS sha256 ctx checkout a s = (Inr r, s')" "(some_till_step sha256)\<^sup>*\<^sup>* s' u"
    and "px_ID checkout' = px_ID checkout \<or> px_TenantID checkout' = px_TenantID checkout
      \<and> (px_OrderID checkout' = px_OrderID checkout \<or> ae_OperationID a' = ae_OperationID a)"
  shows "\<exists>e. CheckoutPOS sha256 ctx' checkout' a' u = (Inl e, u)"
proof -
  from assms(1) have "checkout_row_of checkout a \<in> set (rd_checkouts s')"
    by (cases rule: CheckoutPOS_cases [of sha256 ctx checkout a s]) auto
  with till_steps_checkouts [OF assms(2)] have "checkout_row_of checkout a \<in> set (rd_checkouts u)" by blast
  moreover have "checkouts_clash (checkout_row_of checkout' a') (checkout_row_of checkout a)"
    using assms(3) by (auto simp: checkouts_clash_def checkout_row_of_def)
  ultimately have "list_ex (checkouts_clash (checkout_row_of checkout' a')) (rd_checkouts u)" by (auto simp: list_ex_iff)
  then show ?thesis by (cases rule: CheckoutPOS_cases [of sha256 ctx' checkout' a' u]) auto
qed

text \<open>
  C22: print jobs follow their history. The events of a job, in the order of the log and after the queueing that
  the checkout logs and the endpoint for print jobs does not, are a path of its state machine that ends in its
  status; its attempts are the times it was queued again. A job that was acknowledged has a time of
  acknowledgement; one whose queueing was logged has it only then, while the endpoint takes it from the client.
\<close>

theorem print_jobs_follow_their_history:
  assumes "till_reachable sha256 D s" "r \<in> set (rd_print_jobs s)"
  defines "h \<equiv> history_of (kp_ID (pw_job r)) (rd_print_events s)"
  shows "job_path (whole ''queued'' h) (kp_Status (pw_job r)) (kp_Attempts (pw_job r))
    \<and> kp_Attempts (pw_job r) = int (length (filter again h))
    \<and> (''acknowledged'' \<in> set h \<longrightarrow> kp_AcknowledgedAt (pw_job r) \<noteq> None)
    \<and> (take 1 h = [''queued''] \<longrightarrow> kp_AcknowledgedAt (pw_job r) \<noteq> None \<longrightarrow> ''acknowledged'' \<in> set h)"
proof -
  from till_reachable_ok [OF assms(1)] assms(2) have "job_explained h r" by (simp add: till_ok_def explained_def h_def)
  then have all: "job_path (whole ''queued'' h) (kp_Status (pw_job r)) (kp_Attempts (pw_job r))"
    "''acknowledged'' \<in> set h \<longrightarrow> kp_AcknowledgedAt (pw_job r) \<noteq> None"
    "take 1 h = [''queued''] \<longrightarrow> kp_AcknowledgedAt (pw_job r) \<noteq> None \<longrightarrow> ''acknowledged'' \<in> set h"
    by (simp_all add: job_explained_def)
  then show ?thesis using job_path_attempts [OF all(1)] by (simp add: again_whole)
qed

text \<open>
  C23: a pickup token goes one way. The events of a token, after the issue that the checkout logs and the
  endpoint for tokens does not, are one of the five runs from issued over called to collected or cancelled; its
  status is the last of them and its version their number, so that the version a caller expects admits one move
  only; it has a time of collection exactly when it was collected.
\<close>

theorem pickup_tokens_go_one_way:
  assumes "till_reachable sha256 D s" "r \<in> set (rd_tokens s)"
  defines "h \<equiv> whole ''issued'' (history_of (pk_ID (kw_token r)) (rd_token_events s))"
  shows "h \<in> {[''issued''], [''issued'', ''called''], [''issued'', ''cancelled''],
      [''issued'', ''called'', ''collected''], [''issued'', ''called'', ''cancelled'']}
    \<and> pk_Status (kw_token r) = last h \<and> pk_Version (kw_token r) = length h
    \<and> (pk_CollectedAt (kw_token r) \<noteq> None \<longleftrightarrow> pk_Status (kw_token r) = ''collected'')"
proof -
  from till_reachable_ok [OF assms(1)] assms(2) have "token_explained (history_of (pk_ID (kw_token r)) (rd_token_events s)) r"
    by (simp add: till_ok_def explained_def)
  then show ?thesis unfolding token_explained_def h_def using token_path_cases by blast
qed

subsection \<open>A run\<close>

lemma commerce_run_till:
  "commerce_reachable sha256 D c \<Longrightarrow> till_reachable sha256 D (empty_till\<lparr>rd_commerce := c\<rparr>)"
proof (induction rule: commerce_reachable.induct)
  case start
  have "empty_till\<lparr>rd_commerce := empty_commerce\<rparr> = empty_till" by (simp add: empty_till_def)
  then show ?case by (simp add: till_reachable.start)
next
  case (step D s d s')
  then have "till_step sha256 d (empty_till\<lparr>rd_commerce := s\<rparr>) (empty_till\<lparr>rd_commerce := s\<rparr>\<lparr>rd_commerce := s'\<rparr>)"
    by (intro till_step.commerce) simp
  from till_reachable.step [OF step.IH this] show ?case by simp
qed

lemma shop2_reachable: "commerce_reachable last_bytes {} shop2"
proof -
  have "commerce_reachable last_bytes {} shop0" unfolding shop0_def by (rule calm_step [OF commerce_reachable.start catalogue])
  moreover have "bill_disturbs till_order = {}" by (simp add: bill_disturbs_def till_order_def small_def)
  then have "commerce_step last_bytes {} shop0 shop1" unfolding shop1_def
    using new_order [of till_order shop0 last_bytes] by (simp add: shop0_def empty_commerce_def)
  ultimately have "commerce_reachable last_bytes {} shop1" by (rule calm_step)
  then show ?thesis unfolding shop2_def by (rule calm_step [OF _ open_shift])
qed

lemma cafe_small: "small (sum_list (map pn_AmountMinor (px_Tenders cafe_checkout)))"
  by (simp add: cafe_checkout_def small_def)

lemma cafe_reachable:
  "till_reachable last_bytes {} cafe0" "till_reachable last_bytes {} cafe1" "till_reachable last_bytes {} cafe4"
  "till_reachable last_bytes {} cafe5"
proof -
  have "till_reachable last_bytes {} (empty_till\<lparr>rd_commerce := shop2\<rparr>)" by (rule commerce_run_till [OF shop2_reachable])
  then show zero: "till_reachable last_bytes {} cafe0"
    by (rule calm_till_step) (rule outside, simp add: same_till_def cafe0_def cafe_db_def empty_till_def)
  have "checkout_disturbs cafe_checkout = {}" using cafe_small by (simp add: checkout_disturbs_def)
  then have "till_step last_bytes {} cafe0 cafe1" unfolding cafe1_def by (metis till_step.checkout)
  with zero show one: "till_reachable last_bytes {} cafe1" by (rule calm_till_step)
  have "till_reachable last_bytes {} cafe2" unfolding cafe2_def by (rule calm_till_step [OF one till_step.job])
  then have "till_reachable last_bytes {} cafe3" unfolding cafe3_def by (rule calm_till_step [OF _ till_step.job])
  then show four: "till_reachable last_bytes {} cafe4" unfolding cafe4_def by (rule calm_till_step [OF _ till_step.token])
  show "till_reachable last_bytes {} cafe5" unfolding cafe5_def
    by (rule calm_till_step [OF four till_step.new_job]) (simp_all add: spare_job_def)
qed

text \<open>A job of the endpoint: acknowledged by the client from the start, without any event.\<close>

lemma endpoint_jobs_are_not_logged:
  "\<exists>s r. till_reachable last_bytes {} s \<and> r \<in> set (rd_print_jobs s) \<and> kp_AcknowledgedAt (pw_job r) \<noteq> None
     \<and> kp_Status (pw_job r) = ''queued'' \<and> history_of (kp_ID (pw_job r)) (rd_print_events s) = []"
proof -
  let ?r = "last (rd_print_jobs cafe5)"
  from cafe5_eval have r: "rd_print_jobs cafe5 \<noteq> []" "kp_Status (pw_job ?r) = ''queued''" "kp_AcknowledgedAt (pw_job ?r) = Some 1"
    "filter (\<lambda>e. hy_subject_id e = kp_ID (pw_job ?r)) (rd_print_events cafe5) = []"
    unfolding Let_def prod.inject by blast+
  then have "history_of (kp_ID (pw_job ?r)) (rd_print_events cafe5) = []" by (simp add: history_of_def)
  with cafe_reachable(4) r(2,3) last_in_set [OF r(1)] show ?thesis by (intro exI [of _ cafe5] exI [of _ ?r]) simp
qed

lemma checkouts_are_paid_in_full_witness:
  "paid_on ''t'' ''order'' (tenders (rd_commerce cafe1)) = 1150"
  using checkouts_are_paid_in_full [OF cafe_reachable(1) cafe_small cafe_run] cafe_facts(1) by (simp add: cafe_checkout_def)

lemma checkout_is_done_once_witness:
  "\<exists>e. CheckoutPOS last_bytes None (cafe_checkout\<lparr>px_ID := ''d'', px_OrderID := ''order2''\<rparr>) (till_audit ''9'') cafe1 = (Inl e, cafe1)"
  by (rule checkout_is_done_once [OF cafe_run rtranclp.rtrancl_refl]) (simp add: till_audit_def)

lemma print_jobs_follow_their_history_witness:
  "\<exists>r \<in> set (rd_print_jobs cafe4). kp_ID (pw_job r) = bar_job \<and> length (filter again (history_of bar_job (rd_print_events cafe4))) = 1"
proof -
  from cafe4_eval obtain r rs where rows: "rd_print_jobs cafe4 = r # rs" and job: "kp_ID (pw_job r) = bar_job" "kp_Attempts (pw_job r) = 1"
    by (auto simp: Let_def map_eq_Cons_conv)
  then have r: "r \<in> set (rd_print_jobs cafe4)" by simp
  with job print_jobs_follow_their_history [OF cafe_reachable(3) r(1)] show ?thesis by (intro bexI [of _ r]) simp_all
qed

lemma pickup_tokens_go_one_way_witness:
  "let h = whole ''issued'' (history_of ''token'' (rd_token_events cafe4)) in length h = 2 \<and> last h = ''called''"
proof -
  from cafe4_eval obtain r where r: "r \<in> set (rd_tokens cafe4)" "pk_ID (kw_token r) = ''token''" "pk_Status (kw_token r) = ''called''"
    "pk_Version (kw_token r) = 2" by (auto simp: Let_def map_eq_Cons_conv)
  with pickup_tokens_go_one_way [OF cafe_reachable(3) r(1)] show ?thesis by (simp add: Let_def)
qed

end
