(* ===== verification/Core_Menu_Studio_Properties.thy ===== *)
theory Core_Menu_Studio_Properties
  imports Core_Menu_Studio_Facts Core_Till_System
begin

text \<open>
  Versions of menus over time: a stored version reads back as it was given, with its lists in the order of the
  reader, and stays so; and it is what a checkout under it bills.
\<close>

subsection \<open>Keys\<close>

lemma filter_key_single: "distinct (map k xs) \<Longrightarrow> x \<in> set xs \<Longrightarrow> filter (\<lambda>y. k y = k x) xs = [x]"
  by (induction xs) (force simp: filter_empty_conv image_iff)+

lemma concat_key_single:
  "distinct (map k xs) \<Longrightarrow> x \<in> set xs \<Longrightarrow> concat (map (\<lambda>y. if k y = k x then f y else []) xs) = f x"
proof (induction xs)
  case (Cons y ys)
  show ?case
  proof (cases "k y = k x")
    case True
    with Cons.prems have "y = x" "\<forall>z \<in> set ys. k z \<noteq> k x" by (auto simp: image_iff)
    then show ?thesis by simp
  next
    case False
    with Cons show ?thesis by auto
  qed
qed simp

lemma find_distinct_key: "distinct (map k xs) \<Longrightarrow> x \<in> set xs \<Longrightarrow> List.find (\<lambda>y. k y = k x) xs = Some x"
  by (induction xs) (auto simp: image_iff)

lemma insort_key_map: "insort_key f (h x) (map h xs) = map h (insort_key (\<lambda>y. f (h y)) x xs)"
  by (induction xs) simp_all

lemma sort_key_map: "sort_key f (map h xs) = map h (sort_key (\<lambda>y. f (h y)) xs)"
  by (induction xs) (simp_all add: insort_key_map)

lemma insort_key_constant: "insort_key (\<lambda>x. (c, x)) x xs = insort x xs" for c :: int
  by (induction xs) (auto simp: less_eq_prod_def)

lemma sort_key_constant: "sort_key (\<lambda>x. (c, x)) xs = sort xs" for c :: int
  by (induction xs) (simp_all add: insort_key_constant)

lemma query_row_filter: "query_row P rows = (case filter P rows of [] \<Rightarrow> Inl (Failed NotFound ''no rows in result set'') | r # _ \<Rightarrow> Inr r)"
  by (induction rows) (auto simp: query_row_def)

lemma concat_if: "concat (map (\<lambda>r. if P r then f r else []) xs) = concat (map f (filter P xs))"
  by (induction xs) simp_all

subsection \<open>Reading by parts\<close>

definition options_of :: "string \<Rightarrow> string \<Rightarrow> restaurant_db \<Rightarrow> modifier_option_row list" where
  "options_of tenant gid s = filter (\<lambda>r. op_tenant_id r = tenant \<and> op_modifier_group_id r = gid) (rd_options s)"

definition groups_at :: "string \<Rightarrow> string \<Rightarrow> restaurant_db \<Rightarrow> modifier_group_row list" where
  "groups_at tenant gid s = filter (\<lambda>r. gr_tenant_id r = tenant \<and> mg_ID (gr_group r) = gid) (rd_groups s)"

lemma loaded_groups_parts: "loaded_groups tenant version s =
  map (\<lambda>g. g\<lparr>mg_Options := sort_key (\<lambda>opt. (mo_SortOrder opt, mo_ID opt)) (map op_option (options_of tenant (mg_ID g) s))\<rparr>)
    (sort_key (\<lambda>g. (mg_SortOrder g, mg_ID g)) (map gr_group (groups.of_version tenant version s)))"
  by (simp add: loaded_groups_def options_of_def groups.of_version_def)

lemma item_groups_parts: "item_groups tenant version item s = map vm_modifier_group_id (sort_key (\<lambda>r. (vm_sort_order r, vm_modifier_group_id r))
    (filter (\<lambda>r. vm_menu_item_id r = item) (item_modifiers.of_version tenant version s)))"
  by (simp add: item_groups_def item_modifiers.of_version_def conj_assoc)

definition item_from :: "version_item_row \<Rightarrow> version_price_row \<Rightarrow> string list \<Rightarrow> menu_studio_item" where
  "item_from r p gs = \<lparr>si_MenuItemID = vt_menu_item_id r, si_CategoryID = vt_category_id r, si_DisplayName = vt_display_name r,
     si_Description = vt_description r, si_SortOrder = vt_sort_order r, si_Active = vt_active r, si_ModifierGroupIDs = gs,
     si_PriceID = vp_id p, si_PriceMinor = vp_price_minor p, si_Currency = vp_currency p\<rparr>"

lemma loaded_items_parts: "loaded_items collate tenant version s = sort_key (\<lambda>i. (si_SortOrder i, collate (si_DisplayName i), si_MenuItemID i))
  (concat (map (\<lambda>r. map (\<lambda>p. item_from r p (item_groups tenant version (vt_menu_item_id r) s))
     (filter (\<lambda>p. vp_menu_item_id p = vt_menu_item_id r \<and> vp_effective_to p = None) (prices.of_version tenant version s)))
   (items.of_version tenant version s)))"
  by (simp add: loaded_items_def item_from_def prices.of_version_def items.of_version_def concat_if concat_map_singleton conj_ac)

text \<open>What a reader of a version sees, and what the rows of its groups are.\<close>

definition parts_of :: "string \<Rightarrow> string \<Rightarrow> restaurant_db \<Rightarrow> menu_version_row list \<times> category_row list \<times> modifier_group_row list
    \<times> version_item_row list \<times> version_price_row list \<times> item_modifier_row list \<times> publication_row list" where
  "parts_of t w s = (versions.of_version t w s, categories.of_version t w s, groups.of_version t w s, items.of_version t w s,
     prices.of_version t w s, item_modifiers.of_version t w s, publications.of_version t w s)"

definition kept :: "restaurant_db \<Rightarrow> restaurant_db \<Rightarrow> bool" where
  "kept s u \<longleftrightarrow> (\<forall>t w. has_version s t w \<longrightarrow> has_version u t w \<and> parts_of t w u = parts_of t w s)
     \<and> (\<forall>r \<in> set (rd_groups s). r \<in> set (rd_groups u)
        \<and> options_of (gr_tenant_id r) (mg_ID (gr_group r)) u = options_of (gr_tenant_id r) (mg_ID (gr_group r)) s
        \<and> groups_at (gr_tenant_id r) (mg_ID (gr_group r)) u = groups_at (gr_tenant_id r) (mg_ID (gr_group r)) s)"

lemma kept_refl: "kept s s" by (simp add: kept_def)

lemma kept_trans: "kept s u \<Longrightarrow> kept u w \<Longrightarrow> kept s w" unfolding kept_def by metis

lemma load_parts: "loadMenuStudioVersion collate tenant version s = (let t = uuid_column tenant; w = uuid_column version in
  case versions.of_version t w s of
    [] \<Rightarrow> Inl (Failed NotFound ''no rows in result set'')
  | r # _ \<Rightarrow> Inr ((vv_version r)\<lparr>
      sv_Categories := sort_key (\<lambda>c. (sc_SortOrder c, sc_ID c)) (map cy_category (categories.of_version t w s)),
      sv_Modifiers := loaded_groups t w s, sv_Items := loaded_items collate t w s,
      sv_Publications := sort_key (\<lambda>p. (mp_EffectiveFrom p, mp_ID p)) (map pu_publication (publications.of_version t w s))\<rparr>))"
  by (simp add: loadMenuStudioVersion_def Let_def query_row_filter versions.of_version_def categories.of_version_def publications.of_version_def
    split: list.split)

lemma load_kept:
  assumes "kept s u" "has_version s (uuid_column tenant) (uuid_column version)"
  shows "loadMenuStudioVersion collate tenant version u = loadMenuStudioVersion collate tenant version s"
proof -
  let ?t = "uuid_column tenant" and ?w = "uuid_column version"
  have parts: "parts_of ?t ?w u = parts_of ?t ?w s" using assms by (simp add: kept_def)
  have "options_of ?t (mg_ID (gr_group r)) u = options_of ?t (mg_ID (gr_group r)) s" if "r \<in> set (groups.of_version ?t ?w s)" for r
    using assms(1) that by (auto simp: kept_def groups.of_version_def)
  then have "loaded_groups ?t ?w u = loaded_groups ?t ?w s"
    using parts by (auto simp: loaded_groups_parts parts_of_def)
  moreover have "loaded_items collate ?t ?w u = loaded_items collate ?t ?w s"
    using parts by (simp add: loaded_items_parts item_groups_parts parts_of_def)
  ultimately show ?thesis using parts by (simp add: load_parts Let_def parts_of_def split: list.split)
qed

subsection \<open>Stored versions\<close>

definition menu_tables where
  "menu_tables s = (rd_menu_versions s, rd_categories s, rd_groups s, rd_options s, rd_version_items s, rd_prices s,
     rd_item_modifiers s, rd_publications s)"

definition menu_ok :: "restaurant_db \<Rightarrow> bool" where
  "menu_ok s \<longleftrightarrow> categories.linked s \<and> groups.linked s \<and> items.linked s \<and> prices.linked s \<and> item_modifiers.linked s
     \<and> publications.linked s
     \<and> (\<forall>r \<in> set (rd_options s). \<exists>q \<in> set (rd_groups s). gr_tenant_id q = op_tenant_id r \<and> mg_ID (gr_group q) = op_modifier_group_id r)"

lemmas linked_defs = categories.linked_def groups.linked_def items.linked_def prices.linked_def item_modifiers.linked_def
  publications.linked_def

lemmas of_version_defs = versions.of_version_def categories.of_version_def groups.of_version_def items.of_version_def prices.of_version_def
  item_modifiers.of_version_def publications.of_version_def

lemma menu_tables_ok: "menu_tables u = menu_tables s \<Longrightarrow> menu_ok u = menu_ok s"
  by (simp add: menu_tables_def menu_ok_def linked_defs has_version_def)

lemma menu_tables_kept: "menu_tables u = menu_tables s \<Longrightarrow> kept s u"
  by (simp add: menu_tables_def kept_def parts_of_def of_version_defs has_version_def options_of_def groups_at_def)

definition stores :: "menu_studio \<Rightarrow> menu_studio_version \<Rightarrow> restaurant_db \<Rightarrow> restaurant_db \<Rightarrow> bool" where
  "stores studio v s s' \<longleftrightarrow> menu_tables s' = menu_tables (with_version studio v s) \<and> new_version studio v s"

lemma group_row_simps [simp]:
  "gr_tenant_id (group_row_of t w g) = t" "gr_menu_version_id (group_row_of t w g) = w"
  "gr_group (group_row_of t w g) = g\<lparr>mg_Options := []\<rparr>"
  by (simp_all add: group_row_of_def)

lemma option_row_mem: "r \<in> set (option_rows t gs) \<Longrightarrow> op_tenant_id r = t \<and> (\<exists>g \<in> set gs. op_modifier_group_id r = mg_ID g)"
  by (auto simp: option_rows_def option_row_of_def)

lemma stores_ok:
  assumes "stores studio v s s'" "menu_ok s"
  shows "menu_ok s'"
proof -
  have "\<exists>q \<in> set (rd_groups (with_version studio v s)). gr_tenant_id q = op_tenant_id r \<and> mg_ID (gr_group q) = op_modifier_group_id r"
    if r: "r \<in> set (rd_options (with_version studio v s))" for r
  proof (cases "r \<in> set (rd_options s)")
    case True
    with assms(2) show ?thesis by (auto simp: menu_ok_def)
  next
    case False
    with r obtain g where "g \<in> set (sv_Modifiers v)" "op_tenant_id r = ms_TenantID studio" "op_modifier_group_id r = mg_ID g"
      using option_row_mem by fastforce
    then show ?thesis by (intro bexI [of _ "group_row_of (ms_TenantID studio) (sv_ID v) g"]) simp_all
  qed
  then have "menu_ok (with_version studio v s)"
    using assms(2) categories.linked_stored groups.linked_stored items.linked_stored prices.linked_stored item_modifiers.linked_stored
      publications.linked_stored unfolding menu_ok_def by blast
  with assms(1) show ?thesis by (auto simp: stores_def dest: menu_tables_ok)
qed

lemma stores_kept:
  assumes "stores studio v s s'"
  shows "kept s s'"
proof -
  have new: "new_version studio v s" using assms by (simp add: stores_def)
  have "parts_of t w (with_version studio v s) = parts_of t w s" if "has_version s t w" for t w
    using that new by (simp add: parts_of_def versions.of_old_version categories.of_old_version groups.of_old_version items.of_old_version
      prices.of_old_version item_modifiers.of_old_version publications.of_old_version)
  moreover have "options_of t k (with_version studio v s) = options_of t k s \<and> groups_at t k (with_version studio v s) = groups_at t k s"
    if "k \<in> known_groups s" for t k
  proof -
    from that new have "\<forall>g \<in> set (sv_Modifiers v). mg_ID g \<noteq> k" by (auto simp: new_version_def)
    then show ?thesis by (auto simp: options_of_def groups_at_def filter_empty_conv dest!: option_row_mem)
  qed
  ultimately have "kept s (with_version studio v s)" by (auto simp: kept_def known_groups_def)
  moreover have "kept (with_version studio v s) s'" using assms by (intro menu_tables_kept) (simp add: stores_def)
  ultimately show ?thesis by (rule kept_trans)
qed

text \<open>A version as a reader sees it: of its studio, its lists sorted.\<close>

definition as_read :: "(string \<Rightarrow> string) \<Rightarrow> string \<Rightarrow> menu_studio_version \<Rightarrow> menu_studio_version" where
  "as_read collate studio v = v\<lparr>sv_MenuStudioID := studio,
     sv_Categories := sort_key (\<lambda>c. (sc_SortOrder c, sc_ID c)) (sv_Categories v),
     sv_Modifiers := sort_key (\<lambda>g. (mg_SortOrder g, mg_ID g))
       (map (\<lambda>g. g\<lparr>mg_Options := sort_key (\<lambda>opt. (mo_SortOrder opt, mo_ID opt)) (mg_Options g)\<rparr>) (sv_Modifiers v)),
     sv_Items := sort_key (\<lambda>i. (si_SortOrder i, collate (si_DisplayName i), si_MenuItemID i))
       (map (\<lambda>i. i\<lparr>si_ModifierGroupIDs := sort (si_ModifierGroupIDs i)\<rparr>) (sv_Items v)),
     sv_Publications := sort_key (\<lambda>p. (mp_EffectiveFrom p, mp_ID p)) (sv_Publications v)\<rparr>"

lemma new_options:
  assumes "menu_ok s" "new_version studio v s" "g \<in> set (sv_Modifiers v)"
  shows "options_of (ms_TenantID studio) (mg_ID g) (with_version studio v s) = map (option_row_of (ms_TenantID studio) (mg_ID g)) (mg_Options g)"
proof -
  have "options_of (ms_TenantID studio) (mg_ID g) s = []"
    using assms by (fastforce simp: options_of_def filter_empty_conv menu_ok_def new_version_def known_groups_def)
  moreover have "filter (\<lambda>r. op_tenant_id r = ms_TenantID studio \<and> op_modifier_group_id r = mg_ID g) (option_rows (ms_TenantID studio) (sv_Modifiers v))
      = concat (map (\<lambda>h. if mg_ID h = mg_ID g then map (option_row_of (ms_TenantID studio) (mg_ID h)) (mg_Options h) else []) (sv_Modifiers v))"
    unfolding option_rows_def filter_concat map_map
    by (intro arg_cong [of _ _ concat] map_cong) (auto simp: option_row_of_def filter_map comp_def)
  moreover have "\<dots> = map (option_row_of (ms_TenantID studio) (mg_ID g)) (mg_Options g)"
    using concat_key_single [of mg_ID "sv_Modifiers v" g] assms(2,3) by (simp add: new_version_def)
  ultimately show ?thesis by (simp add: options_of_def)
qed

lemma new_groups_at:
  assumes "new_version studio v s" "g \<in> set (sv_Modifiers v)"
  shows "groups_at (ms_TenantID studio) (mg_ID g) (with_version studio v s) = [group_row_of (ms_TenantID studio) (sv_ID v) g]"
proof -
  have "groups_at (ms_TenantID studio) (mg_ID g) s = []"
    using assms by (auto simp: groups_at_def filter_empty_conv new_version_def known_groups_def)
  moreover have "filter (\<lambda>h. mg_ID h = mg_ID g) (sv_Modifiers v) = [g]"
    using filter_key_single [of mg_ID "sv_Modifiers v" g] assms by (simp add: new_version_def)
  ultimately show ?thesis by (simp add: groups_at_def filter_map comp_def)
qed

lemma new_item_modifiers:
  assumes "distinct (map si_MenuItemID items)" "i \<in> set items"
  shows "filter (\<lambda>r. vm_menu_item_id r = si_MenuItemID i) (modifier_rows t w items) = map (modifier_row_of t w (si_MenuItemID i)) (si_ModifierGroupIDs i)"
proof -
  have "filter (\<lambda>r. vm_menu_item_id r = si_MenuItemID i) (modifier_rows t w items)
      = concat (map (\<lambda>j. if si_MenuItemID j = si_MenuItemID i then map (modifier_row_of t w (si_MenuItemID j)) (si_ModifierGroupIDs j) else []) items)"
    unfolding modifier_rows_def filter_concat map_map
    by (intro arg_cong [of _ _ concat] map_cong) (auto simp: modifier_row_of_def filter_map comp_def)
  with concat_key_single [OF assms] show ?thesis by simp
qed

lemma new_prices:
  assumes "distinct (map si_MenuItemID items)" "i \<in> set items"
  shows "filter (\<lambda>p. vp_menu_item_id p = si_MenuItemID i \<and> vp_effective_to p = None) (map (price_row_of t v) items) = [price_row_of t v i]"
  using filter_key_single [OF assms] by (simp add: price_row_of_def filter_map comp_def)

lemma new_version_groups:
  assumes "menu_ok s" "new_version studio v s"
  shows "loaded_groups (ms_TenantID studio) (sv_ID v) (with_version studio v s) = sv_Modifiers (as_read collate k v)"
proof -
  have "groups.linked s" using assms(1) by (simp add: menu_ok_def)
  then have gs: "groups.of_version (ms_TenantID studio) (sv_ID v) (with_version studio v s)
      = map (group_row_of (ms_TenantID studio) (sv_ID v)) (sv_Modifiers v)" using assms(2) by (rule groups.of_new_version)
  show ?thesis
    by (simp add: loaded_groups_parts gs sort_key_map as_read_def new_options [OF assms] cong: map_cong)
      (simp add: option_row_of_def sort_key_map)
qed

lemma new_version_items:
  assumes "menu_ok s" "new_version studio v s"
  shows "loaded_items collate (ms_TenantID studio) (sv_ID v) (with_version studio v s) = sv_Items (as_read collate k v)"
proof -
  let ?t = "ms_TenantID studio" and ?w = "sv_ID v" and ?s = "with_version studio v s"
  have linked: "items.linked s" "prices.linked s" "item_modifiers.linked s" using assms(1) by (simp_all add: menu_ok_def)
  have distinct: "distinct (map si_MenuItemID (sv_Items v))" using assms(2) by (simp add: new_version_def)
  note rows = items.of_new_version [OF linked(1) assms(2)] prices.of_new_version [OF linked(2) assms(2)]
    item_modifiers.of_new_version [OF linked(3) assms(2)]
  have mods: "item_groups ?t ?w (si_MenuItemID i) ?s = sort (si_ModifierGroupIDs i)" if "i \<in> set (sv_Items v)" for i
    by (simp add: item_groups_parts rows new_item_modifiers [OF distinct that] sort_key_map)
      (simp add: modifier_row_of_def sort_key_constant comp_def)
  have key: "vt_menu_item_id (item_row_of ?t ?w i) = si_MenuItemID i" for i by (simp add: item_row_of_def)
  have "concat (map (\<lambda>r. map (\<lambda>p. item_from r p (item_groups ?t ?w (vt_menu_item_id r) ?s))
      (filter (\<lambda>p. vp_menu_item_id p = vt_menu_item_id r \<and> vp_effective_to p = None) (map (price_row_of ?t v) (sv_Items v))))
      (map (item_row_of ?t ?w) (sv_Items v)))
    = concat (map (\<lambda>i. [i\<lparr>si_ModifierGroupIDs := sort (si_ModifierGroupIDs i)\<rparr>]) (sv_Items v))"
    unfolding map_map
    by (intro arg_cong [of _ _ concat] map_cong refl)
      (simp add: key new_prices [OF distinct] mods, simp add: item_from_def item_row_of_def price_row_of_def)
  then show ?thesis by (simp add: loaded_items_parts rows as_read_def concat_map_singleton)
qed

lemma new_version_loads:
  assumes "menu_ok s" "new_version studio v s" and columns: "uuid_column tenant = ms_TenantID studio" "uuid_column version = sv_ID v"
  shows "loadMenuStudioVersion collate tenant version (with_version studio v s) = Inr (as_read collate (ms_ID studio) v)"
proof -
  let ?t = "ms_TenantID studio" and ?w = "sv_ID v" and ?s = "with_version studio v s"
  have "has_version s ?t ?w \<Longrightarrow> False" using assms(2) by (auto simp: has_version_def new_version_def)
  then have "versions.of_version ?t ?w ?s = [version_row_of ?t (v\<lparr>sv_MenuStudioID := ms_ID studio\<rparr>)]"
    by (auto simp: versions.of_version_def has_version_def version_row_of_def filter_empty_conv)
  moreover have "categories.linked s" "publications.linked s" using assms(1) by (simp_all add: menu_ok_def)
  ultimately show ?thesis
    by (simp add: load_parts columns categories.of_new_version assms(2) publications.of_new_version
        new_version_groups [OF assms(1,2), of collate "ms_ID studio"] new_version_items [OF assms(1,2), of collate "ms_ID studio"])
      (simp add: version_row_of_def category_row_of_def publication_row_of_def as_read_def comp_def)
qed

subsection \<open>Operations\<close>

lemma stores_insert:
  assumes "insertMenuStudioVersion micro studio v u = Inr w" "menu_tables u = menu_tables s" "menu_tables s' = menu_tables w"
  shows "stores (column_studio micro studio) (column_version micro v) s s'"
  using insertMenuStudioVersion_Inr [OF assms(1)] assms(2,3)
  by (simp add: stores_def menu_tables_def new_version_def known_groups_def)

lemma menu_tables_other [simp]:
  "menu_tables (s\<lparr>rd_studios := studios\<rparr>) = menu_tables s" "menu_tables (s\<lparr>rd_commerce := c\<rparr>) = menu_tables s"
  by (simp_all add: menu_tables_def)

lemma in_commerce_tables: "in_commerce f s = Inr s' \<Longrightarrow> menu_tables s' = menu_tables s"
  by (auto simp: in_commerce_Inr)

lemma CreateMenuStudio_stores:
  assumes "CreateMenuStudio micro ctx studio v a s = (Inr r, s')"
  shows "stores (column_studio micro studio) (column_version micro v) s s' \<and> ms_ID r = ms_ID studio \<and> ms_TenantID r = ms_TenantID studio"
proof -
  from assms obtain u w where u: "insert_studio (column_studio micro studio) s = Inr u" and w: "insertMenuStudioVersion micro studio v u = Inr w"
    and s': "menu_tables s' = menu_tables w" and r: "ms_ID r = ms_ID studio" "ms_TenantID r = ms_TenantID studio"
    unfolding CreateMenuStudio_def till_transaction_def transact_Inr_iff Let_def
    by (cases ctx) (auto simp: check_current_def guarded_Inr_iff elim!: rbind_InrE dest!: in_commerce_tables)
  have "menu_tables u = menu_tables s" using u by (auto simp: insert_studio_def guarded_Inr_iff)
  with stores_insert [OF w] r s' show ?thesis by simp
qed

lemma AddMenuStudioVersion_stores:
  assumes "AddMenuStudioVersion micro ctx tenant outlet v n a s = (Inr r, s')"
  obtains studio where "stores (column_studio micro studio) (column_version micro v) s s'" "ms_ID r = ms_ID studio"
    "ms_TenantID r = ms_TenantID studio"
proof -
  from assms obtain studio w where w: "insertMenuStudioVersion micro studio v s = Inr w"
    and s': "menu_tables s' = menu_tables w" and r: "ms_ID r = ms_ID studio" "ms_TenantID r = ms_TenantID studio"
    unfolding AddMenuStudioVersion_def till_transaction_def transact_Inr_iff Let_def
    by (cases ctx) (auto simp: guarded_Inr_iff if_Inl_Inr elim!: rbind_InrE dest!: in_commerce_tables)
  from stores_insert [OF w refl s'] r show thesis by (rule that)
qed

text \<open>The rest of the program leaves the tables of menus as they are.\<close>

inductive menu_step :: "restaurant_db \<Rightarrow> restaurant_db \<Rightarrow> bool" where
  create: "menu_step s (snd (CreateMenuStudio micro ctx studio v a s))"
| add_version: "menu_step s (snd (AddMenuStudioVersion micro ctx tenant outlet v n a s))"
| elsewhere: "menu_tables s' = menu_tables s \<Longrightarrow> menu_step s s'"

definition menu_reachable :: "restaurant_db \<Rightarrow> bool" where
  "menu_reachable = menu_step\<^sup>*\<^sup>* empty_till"

lemma menu_step_cases:
  assumes "menu_step s s'"
  obtains "menu_tables s' = menu_tables s" | studio v where "stores studio v s s'"
  using assms
proof cases
  case (create micro ctx studio v a)
  show thesis
  proof (cases "CreateMenuStudio micro ctx studio v a s")
    case (Pair x u)
    with create have run: "CreateMenuStudio micro ctx studio v a s = (x, s')" by simp
    show thesis
    proof (cases x)
      case (Inl e)
      with run studio_rollback(1) have "s' = s" by blast
      then show thesis using that(1) by simp
    next
      case (Inr r)
      with run CreateMenuStudio_stores show thesis using that(2) by blast
    qed
  qed
next
  case (add_version micro ctx tenant outlet v n a)
  show thesis
  proof (cases "AddMenuStudioVersion micro ctx tenant outlet v n a s")
    case (Pair x u)
    with add_version have run: "AddMenuStudioVersion micro ctx tenant outlet v n a s = (x, s')" by simp
    show thesis
    proof (cases x)
      case (Inl e)
      with run studio_rollback(2) have "s' = s" by blast
      then show thesis using that(1) by simp
    next
      case (Inr r)
      with run have "AddMenuStudioVersion micro ctx tenant outlet v n a s = (Inr r, s')" by simp
      then show thesis by (rule AddMenuStudioVersion_stores) (rule that(2))
    qed
  qed
qed (use that(1) in blast)

lemma menu_step_ok: "menu_step s s' \<Longrightarrow> menu_ok s \<Longrightarrow> menu_ok s'"
  by (erule menu_step_cases) (metis menu_tables_ok, metis stores_ok)

lemma menu_steps_kept: "menu_step\<^sup>*\<^sup>* s u \<Longrightarrow> kept s u"
proof (induction rule: rtranclp_induct)
  case (step u w)
  from step(2) have "kept u w" by (rule menu_step_cases) (auto intro: menu_tables_kept stores_kept)
  with step(3) show ?case by (rule kept_trans)
qed (rule kept_refl)

lemma menu_reachable_ok: "menu_reachable s \<Longrightarrow> menu_ok s"
  unfolding menu_reachable_def
proof (induction rule: rtranclp_induct)
  case base
  show ?case by (simp add: menu_ok_def linked_defs empty_till_def)
qed (rule menu_step_ok)

definition stored_by ::
  "(time \<Rightarrow> time) \<Rightarrow> restaurant_db \<Rightarrow> menu_studio_version \<Rightarrow> menu_studio \<Rightarrow> restaurant_db \<Rightarrow> bool" where
  "stored_by micro s v r s' \<longleftrightarrow> (\<exists>ctx studio a. CreateMenuStudio micro ctx studio v a s = (Inr r, s'))
     \<or> (\<exists>ctx tenant outlet n a. AddMenuStudioVersion micro ctx tenant outlet v n a s = (Inr r, s'))"

text \<open>The tables of menus decide what is read, so that a stored version can be looked at in \<open>with_version\<close>.\<close>

lemma stored_kept:
  assumes "menu_reachable s" "stored_by micro s v r s'" "menu_step\<^sup>*\<^sup>* s' u"
  obtains studio where "ms_ID studio = uuid_column (ms_ID r)" "ms_TenantID studio = uuid_column (ms_TenantID r)" "menu_ok s"
    "new_version studio (column_version micro v) s" "kept (with_version studio (column_version micro v) s) u"
proof -
  from assms(2) obtain studio where stores: "stores (column_studio micro studio) (column_version micro v) s s'"
    "ms_ID r = ms_ID studio" "ms_TenantID r = ms_TenantID studio"
    using CreateMenuStudio_stores AddMenuStudioVersion_stores unfolding stored_by_def by metis
  then have "kept (with_version (column_studio micro studio) (column_version micro v) s) s'" by (intro menu_tables_kept) (simp add: stores_def)
  then have "kept (with_version (column_studio micro studio) (column_version micro v) s) u" using menu_steps_kept [OF assms(3)] by (rule kept_trans)
  with stores menu_reachable_ok [OF assms(1)] that [of "column_studio micro studio"] show thesis by (simp add: stores_def)
qed

text \<open>
  C12: a stored version reads back. A version that was created with its studio or added to one is read, then
  and whatever is stored later, as the columns took it: its categories, groups with their options, items with
  the groups they offer, prices and publications, each list in the order of the reader, the identifiers in lower
  case and the times in the precision of the columns; every name, price, flag and number is the given one. It
  is found under its identifier and its tenant however these are spelled.
\<close>

theorem stored_menu_reads_back:
  assumes "menu_reachable s" "stored_by micro s v r s'" "menu_step\<^sup>*\<^sup>* s' u"
    and "uuid_column tenant = uuid_column (ms_TenantID r)" "uuid_column version = uuid_column (sv_ID v)"
  shows "loadMenuStudioVersion collate tenant version u = Inr (as_read collate (uuid_column (ms_ID r)) (column_version micro v))"
proof -
  from assms(1-3) obtain studio where r: "ms_ID studio = uuid_column (ms_ID r)" "ms_TenantID studio = uuid_column (ms_TenantID r)"
    and new: "menu_ok s" "new_version studio (column_version micro v) s" and kept: "kept (with_version studio (column_version micro v) s) u"
    by (rule stored_kept)
  have "has_version (with_version studio (column_version micro v) s) (uuid_column tenant) (uuid_column version)" using r assms(4,5) by simp
  from load_kept [OF kept this] new_version_loads [OF new, of tenant version collate] r assms(4,5) show ?thesis by simp
qed

text \<open>A version whose identifiers are in lower case and whose times the columns can hold is stored as it is.\<close>

lemma column_version_id:
  assumes "uuid_column (sv_ID v) = sv_ID v" "uuid_column (sv_MenuStudioID v) = sv_MenuStudioID v"
    and "micro (sv_EffectiveFrom v) = sv_EffectiveFrom v" "micro (sv_CreatedAt v) = sv_CreatedAt v"
    "map_option micro (sv_PublishedAt v) = sv_PublishedAt v"
    and "\<forall>c \<in> set (sv_Categories v). column_category c = c" "\<forall>g \<in> set (sv_Modifiers v). column_group g = g"
    "\<forall>i \<in> set (sv_Items v). column_item i = i" "\<forall>p \<in> set (sv_Publications v). column_publication micro p = p"
  shows "column_version micro v = v"
  using assms by (simp add: column_version_def map_idI)

text \<open>The options that an item of a version offers.\<close>

definition menu_choices :: "menu_studio_version \<Rightarrow> menu_studio_item \<Rightarrow> modifier_choice list" where
  "menu_choices v i = concat (map (\<lambda>gid. case List.find (\<lambda>g. mg_ID g = gid) (sv_Modifiers v) of
     None \<Rightarrow> [] | Some g \<Rightarrow> map (choice_of g) (mg_Options g)) (si_ModifierGroupIDs i))"

lemma item_choices_parts: "item_choices t w item s =
  concat (map (\<lambda>im. concat (map (\<lambda>g. map (\<lambda>opt. choice_of (gr_group g) (op_option opt)) (options_of t (mg_ID (gr_group g)) s))
      (groups_at t (vm_modifier_group_id im) s)))
    (filter (\<lambda>im. vm_menu_item_id im = item) (item_modifiers.of_version t w s)))"
  by (simp add: item_choices_def options_of_def groups_at_def item_modifiers.of_version_def concat_if concat_map_singleton conj_assoc)

lemma checkoutCatalog_parts:
  assumes "uuid_column (px_MenuVersionID checkout) = w" "w \<noteq> []" "uuid_column (px_TenantID checkout) = t" "uuid_column (ln_MenuItemID line) = item"
    and "filter (at_row t (uuid_column (px_OutletID checkout)) item tb_tenant_id tb_outlet_id tb_id) (rd_items s) = [m]" "tb_recipe_id m = Some recipe"
    and "filter (\<lambda>v. vt_menu_item_id v = item) (items.of_version t w s) = [i]"
    and "filter (\<lambda>p. vp_menu_item_id p = item \<and> vp_effective_to p = None) (prices.of_version t w s) = [p]"
  shows "checkoutCatalog checkout line s = Inr (\<lparr>ki_id = tb_id m, ki_name = vt_display_name i, ki_stationID = tb_station_id m,
    ki_recipeID = recipe, ki_price = vp_price_minor p, ki_currency = vp_currency p, ki_active = vt_active i\<rparr>, item_choices t w item s)"
proof -
  have "filter (\<lambda>v. vt_tenant_id v = t \<and> vt_menu_version_id v = w \<and> vt_menu_item_id v = item) (rd_version_items s) = [i]"
    "filter (\<lambda>p. vp_tenant_id p = t \<and> vp_menu_version_id p = w \<and> vp_menu_item_id p = item \<and> vp_effective_to p = None) (rd_prices s) = [p]"
    using assms(7,8) by (simp_all add: items.of_version_def prices.of_version_def conj_assoc)
  with assms(1-6) show ?thesis
    by (simp add: checkoutCatalog_def Let_def concat_if query_row_def scan_item_def)
qed

lemma stored_choices:
  assumes new: "menu_ok s" "new_version studio v s" and kept: "kept (with_version studio v s) u" and i: "i \<in> set (sv_Items v)"
  shows "item_choices (ms_TenantID studio) (sv_ID v) (si_MenuItemID i) u = menu_choices v i"
proof -
  let ?t = "ms_TenantID studio" and ?w = "sv_ID v" and ?s = "with_version studio v s"
  have distinct: "distinct (map si_MenuItemID (sv_Items v))" "distinct (map mg_ID (sv_Modifiers v))" and linked: "item_modifiers.linked s"
    and known: "set (si_ModifierGroupIDs i) \<subseteq> mg_ID ` set (sv_Modifiers v)"
    using new i by (auto simp: new_version_def menu_ok_def)
  have "item_modifiers.of_version ?t ?w u = item_modifiers.of_version ?t ?w ?s" using kept by (simp add: kept_def parts_of_def)
  then have rows: "filter (\<lambda>im. vm_menu_item_id im = si_MenuItemID i) (item_modifiers.of_version ?t ?w u)
      = map (modifier_row_of ?t ?w (si_MenuItemID i)) (si_ModifierGroupIDs i)"
    using item_modifiers.of_new_version [OF linked new(2)] new_item_modifiers [OF distinct(1) i] by simp
  have found: "concat (map (\<lambda>g. map (\<lambda>opt. choice_of (gr_group g) (op_option opt)) (options_of ?t (mg_ID (gr_group g)) u)) (groups_at ?t gid u))
      = (case List.find (\<lambda>g. mg_ID g = gid) (sv_Modifiers v) of None \<Rightarrow> [] | Some g \<Rightarrow> map (choice_of g) (mg_Options g))"
    if "gid \<in> set (si_ModifierGroupIDs i)" for gid
  proof -
    from that known obtain g where g: "g \<in> set (sv_Modifiers v)" "gid = mg_ID g" by auto
    have "group_row_of ?t ?w g \<in> set (rd_groups ?s)" using g by simp
    with kept have "options_of ?t gid u = options_of ?t gid ?s \<and> groups_at ?t gid u = groups_at ?t gid ?s"
      unfolding kept_def using g(2) by fastforce
    then have "options_of ?t gid u = map (option_row_of ?t gid) (mg_Options g)" "groups_at ?t gid u = [group_row_of ?t ?w g]"
      using new_options [OF new g(1)] new_groups_at [OF new(2) g(1)] g(2) by simp_all
    moreover have "List.find (\<lambda>h. mg_ID h = gid) (sv_Modifiers v) = Some g"
      using distinct(2) g by (simp add: find_distinct_key)
    ultimately show ?thesis by (simp add: g(2) option_row_of_def choice_of_def)
  qed
  have "vm_modifier_group_id (modifier_row_of ?t ?w k gid) = gid" for k gid by (simp add: modifier_row_of_def)
  then show ?thesis
    unfolding item_choices_parts rows menu_choices_def map_map comp_def
    by (intro arg_cong [of _ _ concat] map_cong refl) (simp add: found)
qed

text \<open>
  C11: a checkout bills the stored menu. For an item of a stored version, of which the catalogue has one row
  with a recipe, a checkout under that version finds, then and whatever is stored later, the name, price,
  currency and activity that were stored with it, and as choices the options of its groups; the identifiers may
  be spelled in either case.
\<close>

theorem checkout_bills_the_stored_menu:
  assumes "menu_reachable s" "stored_by micro s v r s'" "menu_step\<^sup>*\<^sup>* s' u" "i \<in> set (sv_Items v)" "sv_ID v \<noteq> []"
    and "uuid_column (px_TenantID checkout) = uuid_column (ms_TenantID r)" "uuid_column (px_MenuVersionID checkout) = uuid_column (sv_ID v)"
    and "uuid_column (ln_MenuItemID line) = uuid_column (si_MenuItemID i)"
    and "filter (at_row (uuid_column (px_TenantID checkout)) (uuid_column (px_OutletID checkout)) (uuid_column (si_MenuItemID i))
      tb_tenant_id tb_outlet_id tb_id) (rd_items u) = [m]"
    and "tb_recipe_id m = Some recipe"
  shows "checkoutCatalog checkout line u = Inr (\<lparr>ki_id = uuid_column (si_MenuItemID i), ki_name = si_DisplayName i,
    ki_stationID = tb_station_id m, ki_recipeID = recipe, ki_price = si_PriceMinor i, ki_currency = si_Currency i, ki_active = si_Active i\<rparr>,
    menu_choices (column_version micro v) (column_item i))"
proof -
  let ?v = "column_version micro v" and ?i = "column_item i"
  from assms(1-3) obtain studio where r: "ms_TenantID studio = uuid_column (ms_TenantID r)"
    and new: "menu_ok s" "new_version studio ?v s" and kept: "kept (with_version studio ?v s) u" by (rule stored_kept)
  let ?t = "ms_TenantID studio" and ?w = "sv_ID ?v" and ?s = "with_version studio ?v s"
  have i: "?i \<in> set (sv_Items ?v)" using assms(4) by simp
  have linked: "items.linked s" "prices.linked s" and distinct: "distinct (map si_MenuItemID (sv_Items ?v))"
    using new by (simp_all add: menu_ok_def new_version_def)
  have "items.of_version ?t ?w u = items.of_version ?t ?w ?s" "prices.of_version ?t ?w u = prices.of_version ?t ?w ?s"
    using kept by (simp_all add: kept_def parts_of_def)
  then have "items.of_version ?t ?w u = map (item_row_of ?t ?w) (sv_Items ?v)" "prices.of_version ?t ?w u = map (price_row_of ?t ?v) (sv_Items ?v)"
    using items.of_new_version [OF linked(1) new(2)] prices.of_new_version [OF linked(2) new(2)] by simp_all
  then have row: "filter (\<lambda>q. vt_menu_item_id q = si_MenuItemID ?i) (items.of_version ?t ?w u) = [item_row_of ?t ?w ?i]"
    and price: "filter (\<lambda>p. vp_menu_item_id p = si_MenuItemID ?i \<and> vp_effective_to p = None) (prices.of_version ?t ?w u) = [price_row_of ?t ?v ?i]"
    using filter_key_single [OF distinct i] new_prices [OF distinct i]
    by (simp_all add: filter_map comp_def item_row_of_def del: column_version_simps(1) column_item_simps)
  have m: "tb_id m = si_MenuItemID ?i" using assms(9) by (auto simp: filter_eq_Cons_iff at_row_def)
  have "checkoutCatalog checkout line u = Inr (\<lparr>ki_id = tb_id m, ki_name = vt_display_name (item_row_of ?t ?w ?i), ki_stationID = tb_station_id m,
      ki_recipeID = recipe, ki_price = vp_price_minor (price_row_of ?t ?v ?i), ki_currency = vp_currency (price_row_of ?t ?v ?i),
      ki_active = vt_active (item_row_of ?t ?w ?i)\<rparr>, item_choices ?t ?w (si_MenuItemID ?i) u)"
    by (rule checkoutCatalog_parts) (use assms r row price in simp_all)
  with stored_choices [OF new kept i] show ?thesis by (simp add: m item_row_of_def price_row_of_def) (simp add: column_item_def)
qed

subsection \<open>The live menu\<close>

lemma last_sort_key:
  assumes "x \<in> set xs"
  shows "f x \<le> f (last (sort_key f xs))" "last (sort_key f xs) \<in> set xs"
proof -
  from assms have ne: "sort_key f xs \<noteq> []" by (metis empty_iff empty_set set_sort)
  then show "last (sort_key f xs) \<in> set xs" using last_in_set set_sort by metis
  have "sorted (map f (butlast (sort_key f xs) @ [last (sort_key f xs)]))" using ne by (simp del: butlast_append)
  then have "\<forall>y \<in> set (butlast (sort_key f xs)). f y \<le> f (last (sort_key f xs))"
    unfolding map_append sorted_append by simp
  moreover have "x \<in> set (butlast (sort_key f xs) @ [last (sort_key f xs)])" using assms ne by simp
  ultimately show "f x \<le> f (last (sort_key f xs))" by auto
qed

lemma query_row_rev_sort:
  assumes "query_row (\<lambda>_. True) (rev (sort_key f xs)) = Inr x"
  shows "x \<in> set xs \<and> (\<forall>y \<in> set xs. f y \<le> f x)"
proof -
  have ne: "sort_key f xs \<noteq> []" using assms by (auto simp: query_row_def)
  then have "rev (sort_key f xs) = last (sort_key f xs) # rev (butlast (sort_key f xs))"
    by (metis append_butlast_last_id rev.simps(2) rev_append rev_rev_ident rev_singleton_conv rev_swap append_Cons append_Nil)
  with assms have x: "x = last (sort_key f xs)" by (simp add: query_row_def)
  moreover obtain y where "y \<in> set xs" using ne by (metis hd_in_set set_sort)
  ultimately show ?thesis using last_sort_key [of _ xs f] by blast
qed

text \<open>The publications of published versions that are live at a time, for a channel or for all.\<close>

definition in_force :: "string \<Rightarrow> string \<Rightarrow> string \<Rightarrow> time \<Rightarrow> restaurant_db \<Rightarrow> publication_row \<Rightarrow> bool" where
  "in_force tenant outlet channel at s r \<longleftrightarrow> r \<in> set (rd_publications s)
     \<and> pu_tenant_id r = tenant \<and> pu_outlet_id r = outlet \<and> mp_Status (pu_publication r) = ''live''
     \<and> mp_EffectiveFrom (pu_publication r) \<le> at \<and> (case mp_EffectiveTo (pu_publication r) of None \<Rightarrow> True | Some t \<Rightarrow> t > at)
     \<and> (mp_ChannelID (pu_publication r) = [] \<or> mp_ChannelID (pu_publication r) = channel)
     \<and> (\<exists>v \<in> set (rd_menu_versions s). vv_tenant_id v = tenant \<and> sv_ID (vv_version v) = pu_menu_version_id r
          \<and> sv_Status (vv_version v) = ''published''
          \<and> (\<exists>studio \<in> set (rd_studios s). ms_TenantID studio = tenant \<and> ms_ID studio = sv_MenuStudioID (vv_version v)))"

lemma live_candidates_force:
  "in_force tenant outlet channel at s r \<longleftrightarrow> (\<exists>studio. (r, studio) \<in> set (live_candidates tenant outlet channel at s))"
  unfolding in_force_def live_candidates_def by (simp, blast)

lemma better_rank:
  assumes "live_rank (q, x) \<le> live_rank (p, y)"
  shows "mp_ChannelID (pu_publication q) \<noteq> [] \<longrightarrow> mp_ChannelID (pu_publication p) \<noteq> []"
    and "(mp_ChannelID (pu_publication q) = [] \<longleftrightarrow> mp_ChannelID (pu_publication p) = [])
      \<longrightarrow> mp_EffectiveFrom (pu_publication q) \<le> mp_EffectiveFrom (pu_publication p)"
  using assms unfolding live_rank_def less_eq_prod_def less_bool_def le_bool_def by auto

lemma LiveMenuStudio_Inr:
  assumes "LiveMenuStudio micro collate tenant outlet channel at s = Inr r"
  defines "found \<equiv> live_candidates (uuid_column tenant) (uuid_column outlet) (uuid_column channel) (micro at) s"
  obtains p studio v where "query_row (\<lambda>_. True) (rev (sort_key live_rank found)) = Inr (p, studio)"
    "loadMenuStudioVersion collate tenant (pu_menu_version_id p) s = Inr v"
    "r = studio\<lparr>ms_CurrentVersionID := pu_menu_version_id p, ms_Current := Some v\<rparr>"
proof -
  from assms(1) obtain x where x: "query_row (\<lambda>_. True) (rev (sort_key live_rank found)) = Inr x"
    and rest: "(case x of (p, studio) \<Rightarrow> rbind (loadMenuStudioVersion collate tenant (pu_menu_version_id p) s)
      (\<lambda>v. Inr (studio\<lparr>ms_CurrentVersionID := pu_menu_version_id p, ms_Current := Some v\<rparr>))) = Inr r"
    unfolding LiveMenuStudio_def Let_def found_def by (rule rbind_InrE)
  obtain p studio where "x = (p, studio)" by (rule prod.exhaust)
  with x rest that show thesis by (simp, elim rbind_InrE) simp
qed

text \<open>
  C24: the live menu is the best publication in force. What a channel is shown is a publication of a published
  version that is live at that time, for this channel or for all; a publication for the channel goes before
  one for all, and among those the latest; and it is shown with the version as it is stored. Identifiers are
  compared as the columns hold them, times in the precision of the columns.
\<close>

theorem live_menu_is_the_best_publication:
  assumes "LiveMenuStudio micro collate tenant outlet channel at s = Inr r"
  defines "force \<equiv> in_force (uuid_column tenant) (uuid_column outlet) (uuid_column channel) (micro at) s"
  shows "\<exists>p. force p \<and> ms_CurrentVersionID r = pu_menu_version_id p
    \<and> (\<forall>q. force q \<longrightarrow> (mp_ChannelID (pu_publication q) \<noteq> [] \<longrightarrow> mp_ChannelID (pu_publication p) = uuid_column channel)
        \<and> ((mp_ChannelID (pu_publication q) = [] \<longleftrightarrow> mp_ChannelID (pu_publication p) = [])
           \<longrightarrow> mp_EffectiveFrom (pu_publication q) \<le> mp_EffectiveFrom (pu_publication p)))
    \<and> map_option Inr (ms_Current r) = Some (loadMenuStudioVersion collate tenant (pu_menu_version_id p) s)"
proof -
  let ?ps = "live_candidates (uuid_column tenant) (uuid_column outlet) (uuid_column channel) (micro at) s"
  note ps = live_candidates_force [of "uuid_column tenant" "uuid_column outlet" "uuid_column channel" "micro at" s, folded force_def]
  from assms(1) obtain p studio v where best: "query_row (\<lambda>_. True) (rev (sort_key live_rank ?ps)) = Inr (p, studio)"
    and v: "loadMenuStudioVersion collate tenant (pu_menu_version_id p) s = Inr v"
    and r: "r = studio\<lparr>ms_CurrentVersionID := pu_menu_version_id p, ms_Current := Some v\<rparr>" by (rule LiveMenuStudio_Inr)
  have mem: "(p, studio) \<in> set ?ps" and top: "\<And>q x. (q, x) \<in> set ?ps \<Longrightarrow> live_rank (q, x) \<le> live_rank (p, studio)"
    using query_row_rev_sort [OF best] by simp_all
  have p: "force p" unfolding ps using mem by (rule exI)
  then have chan: "mp_ChannelID (pu_publication p) \<noteq> [] \<Longrightarrow> mp_ChannelID (pu_publication p) = uuid_column channel"
    by (simp add: force_def in_force_def)
  have "(mp_ChannelID (pu_publication q) \<noteq> [] \<longrightarrow> mp_ChannelID (pu_publication p) = uuid_column channel)
        \<and> ((mp_ChannelID (pu_publication q) = [] \<longleftrightarrow> mp_ChannelID (pu_publication p) = [])
           \<longrightarrow> mp_EffectiveFrom (pu_publication q) \<le> mp_EffectiveFrom (pu_publication p))"
    if q: "force q" for q
  proof -
    from q [unfolded ps] obtain x where "(q, x) \<in> set ?ps" ..
    note better = better_rank [OF top [OF this]]
    show ?thesis using better chan by blast
  qed
  moreover have "ms_CurrentVersionID r = pu_menu_version_id p"
    "map_option Inr (ms_Current r) = Some (loadMenuStudioVersion collate tenant (pu_menu_version_id p) s)" by (simp_all add: r v)
  ultimately show ?thesis using p by blast
qed

subsection \<open>A menu\<close>

definition bistro0 :: restaurant_db where
  "bistro0 = (cafe_db shop2)\<lparr>rd_channels := [(''t'', ''o'', ''qr'')], rd_menu_versions := [], rd_groups := [], rd_options := [],
     rd_version_items := [], rd_prices := [], rd_item_modifiers := []\<rparr>"

definition bistro_option :: "string \<Rightarrow> int \<Rightarrow> menu_modifier_option" where
  "bistro_option k n = \<lparr>mo_ID = k, mo_Name = k, mo_PriceDeltaMinor = 50, mo_Active = True, mo_SortOrder = n\<rparr>"

definition bistro_item :: "string \<Rightarrow> int \<Rightarrow> string list \<Rightarrow> menu_studio_item" where
  "bistro_item k n gs = \<lparr>si_MenuItemID = k, si_CategoryID = ''c'', si_DisplayName = k, si_Description = [], si_SortOrder = n, si_Active = True,
     si_ModifierGroupIDs = gs, si_PriceID = k, si_PriceMinor = 500, si_Currency = ''INR''\<rparr>"

definition bistro_publication :: "string \<Rightarrow> string \<Rightarrow> time \<Rightarrow> menu_publication" where
  "bistro_publication k channel t = \<lparr>mp_ID = k, mp_ChannelID = channel, mp_Status = ''live'', mp_EffectiveFrom = t, mp_EffectiveTo = None\<rparr>"

definition bistro_version :: menu_studio_version where
  "bistro_version = \<lparr>sv_ID = ''M'', sv_MenuStudioID = [], sv_VersionNumber = 1, sv_Status = ''published'', sv_EffectiveFrom = 1,
     sv_CreatedAt = 1500, sv_PublishedAt = Some 1, sv_PublishedBy = ''a'',
     sv_Categories = [\<lparr>sc_ID = ''c'', sc_Name = ''Mains'', sc_SortOrder = 0, sc_Active = True\<rparr>],
     sv_Modifiers = [\<lparr>mg_ID = ''g'', mg_Name = ''Filling'', mg_SelectionMin = 1, mg_SelectionMax = 1, mg_Required = True, mg_SortOrder = 0,
       mg_Options = [bistro_option ''y'' 1, bistro_option ''x'' 0]\<rparr>],
     sv_Items = [bistro_item ''tea'' 1 [], bistro_item ''dosa'' 0 [''g'']],
     sv_Publications = [bistro_publication ''p'' [] 2, bistro_publication ''q'' ''qr'' 1]\<rparr>"

definition bistro_studio :: menu_studio where
  "bistro_studio = \<lparr>ms_ID = ''studio'', ms_TenantID = ''t'', ms_OutletID = ''o'', ms_Name = ''Menu'', ms_Status = ''draft'',
     ms_CurrentVersionID = [], ms_Version = 1, ms_CreatedAt = 1, ms_UpdatedAt = 1, ms_Current = None\<rparr>"

text \<open>Times to the microsecond.\<close>

definition whole_micros :: "time \<Rightarrow> time" where "whole_micros t = t div 1000 * 1000"

definition bistro1 :: restaurant_db where "bistro1 = snd (CreateMenuStudio whole_micros None bistro_studio bistro_version (till_audit ''9'') bistro0)"

definition bistro_made :: menu_studio where
  "bistro_made = (case fst (CreateMenuStudio whole_micros None bistro_studio bistro_version (till_audit ''9'') bistro0) of Inr r \<Rightarrow> r)"

lemma bistro_eval: "case CreateMenuStudio whole_micros None bistro_studio bistro_version (till_audit ''9'') bistro0 of (x, s) \<Rightarrow> (case x of Inl e \<Rightarrow> False | Inr r \<Rightarrow>
    ms_ID r = ''studio'' \<and> ms_TenantID r = ''t'' \<and> ms_CurrentVersionID r = ''M''
    \<and> (case LiveMenuStudio whole_micros id ''t'' ''o'' ''qr'' 3 s of Inl e \<Rightarrow> False | Inr live \<Rightarrow> ms_CurrentVersionID live = ''m''))"
  by code_simp

lemma bistro_run: "CreateMenuStudio whole_micros None bistro_studio bistro_version (till_audit ''9'') bistro0 = (Inr bistro_made, bistro1)"
  and bistro_facts: "ms_ID bistro_made = ''studio''" "ms_TenantID bistro_made = ''t''"
  and bistro_live: "\<exists>r. LiveMenuStudio whole_micros id ''t'' ''o'' ''qr'' 3 bistro1 = Inr r"
proof -
  obtain x s where run: "CreateMenuStudio whole_micros None bistro_studio bistro_version (till_audit ''9'') bistro0 = (x, s)" by fastforce
  with bistro_eval obtain r where r: "x = Inr r" "ms_ID r = ''studio''" "ms_TenantID r = ''t''" by (cases x) simp_all
  with run show made: "CreateMenuStudio whole_micros None bistro_studio bistro_version (till_audit ''9'') bistro0 = (Inr bistro_made, bistro1)"
    by (simp add: bistro_made_def bistro1_def)
  with r run show "ms_ID bistro_made = ''studio''" "ms_TenantID bistro_made = ''t''" by simp_all
  from bistro_eval made show "\<exists>r. LiveMenuStudio whole_micros id ''t'' ''o'' ''qr'' 3 bistro1 = Inr r"
    by (cases "LiveMenuStudio whole_micros id ''t'' ''o'' ''qr'' 3 bistro1") simp_all
qed

lemma bistro_reachable: "menu_reachable bistro0"
  unfolding menu_reachable_def
  by (rule r_into_rtranclp, rule elsewhere) (simp add: menu_tables_def bistro0_def cafe_db_def empty_till_def)

lemma bistro_stored: "stored_by whole_micros bistro0 bistro_version bistro_made bistro1"
  using bistro_run unfolding stored_by_def by blast

lemma stored_menu_reads_back_witness:
  "\<exists>w. loadMenuStudioVersion id ''T'' ''m'' bistro1 = Inr w \<and> map si_MenuItemID (sv_Items w) = [''dosa'', ''tea'']
     \<and> map (\<lambda>g. map mo_ID (mg_Options g)) (sv_Modifiers w) = [[''x'', ''y'']] \<and> sv_ID w = ''m'' \<and> sv_CreatedAt w = 1000"
proof -
  have "(let w = as_read id (uuid_column ''studio'') (column_version whole_micros bistro_version) in
      (map si_MenuItemID (sv_Items w), map (\<lambda>g. map mo_ID (mg_Options g)) (sv_Modifiers w), sv_ID w, sv_CreatedAt w))
    = ([''dosa'', ''tea''], [[''x'', ''y'']], ''m'', 1000)" by code_simp
  moreover have "uuid_column ''T'' = uuid_column ''t''" "uuid_column ''m'' = uuid_column (sv_ID bistro_version)" by code_simp+
  ultimately show ?thesis
    using stored_menu_reads_back [OF bistro_reachable bistro_stored rtranclp.rtrancl_refl, of "''T''" "''m''" id] by (simp add: bistro_facts Let_def)
qed

lemma checkout_bills_the_stored_menu_witness:
  "\<exists>item choices. checkoutCatalog cafe_checkout (cafe_line ''1'' ''dosa'' 2 [''x'']) bistro1 = Inr (item, choices)
     \<and> ki_price item = 500 \<and> map ko_id choices = [''y'', ''x'']"
proof -
  have "map ko_id (menu_choices (column_version whole_micros bistro_version) (column_item (bistro_item ''dosa'' 0 [''g'']))) = [''y'', ''x'']"
    "filter (at_row (uuid_column ''t'') (uuid_column ''o'') (uuid_column ''dosa'') tb_tenant_id tb_outlet_id tb_id) (rd_items bistro1)
      = [cafe_item ''dosa'' ''grill'' 400 (Some ''r'')]" "uuid_column ''m'' = uuid_column (sv_ID bistro_version)"
    by code_simp+
  then show ?thesis
    using checkout_bills_the_stored_menu [OF bistro_reachable bistro_stored rtranclp.rtrancl_refl,
      where i = "bistro_item ''dosa'' 0 [''g'']" and checkout = cafe_checkout and line = "cafe_line ''1'' ''dosa'' 2 [''x'']"
        and m = "cafe_item ''dosa'' ''grill'' 400 (Some ''r'')" and recipe = "''r''"]
    by (simp add: bistro_facts bistro_item_def cafe_checkout_def cafe_line_def cafe_item_def) (simp add: bistro_version_def bistro_item_def)
qed

lemma live_menu_is_the_best_publication_witness:
  "\<exists>r. \<exists>p :: publication_row. LiveMenuStudio whole_micros id ''t'' ''o'' ''qr'' 3 bistro1 = Inr r \<and> ms_CurrentVersionID r = pu_menu_version_id p
     \<and> mp_ChannelID (pu_publication p) = ''qr''"
proof -
  obtain r where r: "LiveMenuStudio whole_micros id ''t'' ''o'' ''qr'' 3 bistro1 = Inr r" using bistro_live by blast
  have columns: "uuid_column ''t'' = ''t''" "uuid_column ''o'' = ''o''" "uuid_column ''qr'' = ''qr''" "whole_micros 3 = 0" by code_simp+
  have "list_ex (\<lambda>(q, _). mp_ChannelID (pu_publication q) = ''qr'') (live_candidates ''t'' ''o'' ''qr'' 0 bistro1)" by code_simp
  then obtain q where q: "in_force ''t'' ''o'' ''qr'' 0 bistro1 q" "mp_ChannelID (pu_publication q) = ''qr''"
    unfolding list_ex_iff live_candidates_force by blast
  from live_menu_is_the_best_publication [OF r, unfolded columns] q show ?thesis using r by (metis list.discI)
qed

end
