(* ===== verification/Edge_Model.thy ===== *)
theory Edge_Model
  imports Go_Time
begin

text \<open>
  The outlet edge's data types and their validation: \<open>services/edge/internal/model\<close>.
  A Go string type with constants is a datatype of the constants plus one constructor for
  any other text; a struct is a record with the source's field names behind a prefix. Times
  are instants, \<open>*time.Time\<close> an optional instant, versions natural numbers
  (\<open>Edge_Invariant\<close> shows that they stay small), raw JSON its text.
\<close>

subsection \<open>Status machines\<close>

datatype order_type = DineIn | Takeaway | Delivery | RoomService | OtherOrderType string

fun OrderType_Valid :: "order_type \<Rightarrow> bool" where
  "OrderType_Valid (OtherOrderType _) = False"
| "OrderType_Valid _ = True"

datatype order_status =
    OrderReceived | OrderAccepted | OrderPreparing | OrderReady | OrderCompleted | OrderCancelled
  | OtherOrderStatus string

fun OrderStatus_Valid :: "order_status \<Rightarrow> bool" where
  "OrderStatus_Valid (OtherOrderStatus _) = False"
| "OrderStatus_Valid _ = True"

fun order_status_text :: "order_status \<Rightarrow> string" where
  "order_status_text OrderReceived = ''received''"
| "order_status_text OrderAccepted = ''accepted''"
| "order_status_text OrderPreparing = ''preparing''"
| "order_status_text OrderReady = ''ready''"
| "order_status_text OrderCompleted = ''completed''"
| "order_status_text OrderCancelled = ''cancelled''"
| "order_status_text (OtherOrderStatus s) = s"

text \<open>
  The conversion \<open>OrderStatus(text)\<close>, which every decoded text goes through: the last
  constructor never carries the text of a constant.
\<close>

definition order_status_of :: "string \<Rightarrow> order_status" where
  "order_status_of s =
    (case List.find (\<lambda>st. order_status_text st = s)
       [OrderReceived, OrderAccepted, OrderPreparing, OrderReady, OrderCompleted, OrderCancelled]
     of Some st \<Rightarrow> st | None \<Rightarrow> OtherOrderStatus s)"

definition CanTransitionOrder :: "order_status \<Rightarrow> order_status \<Rightarrow> bool" where
  "CanTransitionOrder from to' =
    (if to' = OrderCancelled then from \<noteq> OrderCompleted \<and> from \<noteq> OrderCancelled
     else case from of
       OrderReceived \<Rightarrow> to' = OrderAccepted
     | OrderAccepted \<Rightarrow> to' = OrderPreparing
     | OrderPreparing \<Rightarrow> to' = OrderReady
     | OrderReady \<Rightarrow> to' = OrderCompleted
     | _ \<Rightarrow> False)"

datatype ticket_status =
    TicketQueued | TicketFired | TicketPreparing | TicketReady | TicketCompleted | TicketCancelled
  | OtherTicketStatus string

fun TicketStatus_Valid :: "ticket_status \<Rightarrow> bool" where
  "TicketStatus_Valid (OtherTicketStatus _) = False"
| "TicketStatus_Valid _ = True"

fun ticket_status_text :: "ticket_status \<Rightarrow> string" where
  "ticket_status_text TicketQueued = ''queued''"
| "ticket_status_text TicketFired = ''fired''"
| "ticket_status_text TicketPreparing = ''preparing''"
| "ticket_status_text TicketReady = ''ready''"
| "ticket_status_text TicketCompleted = ''completed''"
| "ticket_status_text TicketCancelled = ''cancelled''"
| "ticket_status_text (OtherTicketStatus s) = s"

definition ticket_status_of :: "string \<Rightarrow> ticket_status" where
  "ticket_status_of s =
    (case List.find (\<lambda>st. ticket_status_text st = s)
       [TicketQueued, TicketFired, TicketPreparing, TicketReady, TicketCompleted, TicketCancelled]
     of Some st \<Rightarrow> st | None \<Rightarrow> OtherTicketStatus s)"

definition CanTransitionTicket :: "ticket_status \<Rightarrow> ticket_status \<Rightarrow> bool" where
  "CanTransitionTicket from to' =
    (if to' = TicketCancelled then from \<noteq> TicketCompleted \<and> from \<noteq> TicketCancelled
     else case from of
       TicketQueued \<Rightarrow> to' = TicketFired
     | TicketFired \<Rightarrow> to' = TicketPreparing
     | TicketPreparing \<Rightarrow> to' = TicketReady
     | TicketReady \<Rightarrow> to' = TicketCompleted
     | _ \<Rightarrow> False)"

subsection \<open>Records\<close>

record mutation_envelope =
  env_ID :: string
  env_TenantID :: string
  env_OutletID :: string
  env_DeviceID :: string
  env_ActorID :: string
  env_OccurredAt :: time
  env_Source :: string
  env_SourceID :: string
  env_SchemaVersion :: string
  env_IdempotencyKey :: string
  env_CausationID :: string
  env_CorrelationID :: string
  env_Payload :: string

record order_line =
  ol_ID :: string
  ol_MenuItemID :: string
  ol_Name :: string
  ol_Quantity :: int
  ol_StationID :: string
  ol_PreparationNote :: string

record order =
  o_ID :: string
  o_TenantID :: string
  o_OutletID :: string
  o_BrandID :: string
  o_ExternalRef :: string
  o_GuestName :: string
  o_TableLabel :: string
  o_Note :: string
  o_Number :: nat
  o_Type :: order_type
  o_Status :: order_status
  o_Lines :: "order_line list"
  o_PlacedAt :: time
  o_TargetAt :: "time option"
  o_CreatedAt :: time
  o_UpdatedAt :: time
  o_Version :: nat

record kitchen_ticket =
  kt_ID :: string
  kt_TenantID :: string
  kt_OutletID :: string
  kt_OrderID :: string
  kt_StationID :: string
  kt_LineIDs :: "string list"
  kt_Status :: ticket_status
  kt_Priority :: int
  kt_TargetAt :: "time option"
  kt_CreatedAt :: time
  kt_UpdatedAt :: time
  kt_Version :: nat

text \<open>
  \<open>StationTicketIDs\<close> is a Go map: an association list with distinct keys, in the order the
  runtime happens to iterate it.
\<close>

record new_order =
  no_ID :: string
  no_BrandID :: string
  no_ExternalRef :: string
  no_GuestName :: string
  no_TableLabel :: string
  no_Note :: string
  no_Type :: order_type
  no_Lines :: "order_line list"
  no_Priority :: int
  no_StationTicketIDs :: "(string \<times> string) list"
  no_TargetAt :: "time option"
  no_PlacedAt :: time

record create_order_payload =
  cop_Order :: new_order

record transition_order_payload =
  top_ToStatus :: order_status
  top_ExpectedVersion :: nat

record transition_ticket_payload =
  ttp_ToStatus :: ticket_status
  ttp_ExpectedVersion :: nat
  ttp_ExpectedOrderID :: string

record browser_mutation_payload =
  bmp_EventType :: string
  bmp_AggregateType :: string
  bmp_AggregateID :: string
  bmp_Order :: "new_order option"
  bmp_OrderID :: string
  bmp_TicketID :: string
  bmp_ToStatus :: ticket_status
  bmp_ExpectedVersion :: nat

datatype push_status = PushAccepted | PushDuplicate | PushRejected | PushConflict | PushRetry
  | OtherPushStatus string

fun PushResultStatus_Valid :: "push_status \<Rightarrow> bool" where
  "PushResultStatus_Valid (OtherPushStatus _) = False"
| "PushResultStatus_Valid _ = True"

fun push_status_text :: "push_status \<Rightarrow> string" where
  "push_status_text PushAccepted = ''ACCEPTED''"
| "push_status_text PushDuplicate = ''DUPLICATE''"
| "push_status_text PushRejected = ''REJECTED''"
| "push_status_text PushConflict = ''CONFLICT''"
| "push_status_text PushRetry = ''RETRY''"
| "push_status_text (OtherPushStatus s) = s"

record operation =
  op_OperationID :: string
  op_AggregateType :: string
  op_AggregateID :: string
  op_AggregateVersion :: nat
  op_CommandType :: string
  op_Mutation :: mutation_envelope
  op_RecordedAt :: time

record push_request =
  pr_BatchID :: string
  pr_EdgeID :: string
  pr_OutletID :: string
  pr_Operations :: "operation list"

record push_result =
  res_OperationID :: string
  res_Status :: push_status
  res_ProblemCode :: string
  res_RetryAfterSeconds :: int

record push_response =
  resp_BatchID :: string
  resp_Results :: "push_result list"

text \<open>Response bodies: the envelope \<open>{data, meta}\<close> with the result struct as data.\<close>

datatype command_result =
    CreateOrderResult order "kitchen_ticket list"
  | TransitionOrderResult order "kitchen_ticket list"
  | TransitionTicketResult kitchen_ticket order

record response_envelope =
  re_Data :: command_result
  re_OperationID :: string

subsection \<open>Validation\<close>

definition CurrentSchemaVersion :: string where
  "CurrentSchemaVersion = ''1.0''"

datatype field = Field string | LineField nat string

text \<open>One constructor per error text of the package.\<close>

datatype model_error =
    MustBeUUIDv7 field
  | MustContainBetween field nat nat
  | MustBeTimestamp
  | SourceIDTooLong
  | WrongSchemaVersion
  | MustBeUUID field
  | PayloadMustBeObject
  | BrandOrExternalRefTooLong
  | OrderTextTooLong
  | UnsupportedOrderType
  | WrongLineCount
  | DuplicatedLineID nat
  | WrongQuantity nat
  | LineTextTooLong nat
  | TooManyStationTickets
  | UnknownStation string
  | StationTicketMustBeUUIDv7 string
  | DuplicatedStationTicket string
  | WrongPriority
  | WrongOrderStatus
  | WrongTicketStatus
  | ZeroExpectedVersion

definition IsUUID :: "string \<Rightarrow> bool" where
  "IsUUID value = matches uuid_classes value"

definition IsUUIDv7 :: "string \<Rightarrow> bool" where
  "IsUUIDv7 value \<longleftrightarrow> matches uuid_classes value \<and> value ! 14 = CHR ''7''"

definition bounded :: "field \<Rightarrow> string \<Rightarrow> nat \<Rightarrow> nat \<Rightarrow> model_error option" where
  "bounded field value minimum maximum =
    (let n = length (TrimSpace value) in
     fails_if (n < minimum \<or> n > maximum) (MustContainBetween field minimum maximum))"

text \<open>
  \<open>MutationEnvelope.Validate\<close>. The argument \<open>is_object\<close> says whether
  \<open>json.Unmarshal\<close> reads a text as a JSON object.
\<close>

definition MutationEnvelope_Validate :: "(string \<Rightarrow> bool) \<Rightarrow> mutation_envelope \<Rightarrow> model_error option" where
  "MutationEnvelope_Validate is_object e = first_error
    [fails_if (\<not> IsUUIDv7 (env_ID e)) (MustBeUUIDv7 (Field ''id'')),
     bounded (Field ''tenantId'') (env_TenantID e) 1 128,
     bounded (Field ''outletId'') (env_OutletID e) 1 128,
     bounded (Field ''deviceId'') (env_DeviceID e) 1 128,
     bounded (Field ''actorId'') (env_ActorID e) 1 128,
     fails_if (IsZero (env_OccurredAt e)) MustBeTimestamp,
     bounded (Field ''source'') (env_Source e) 1 128,
     fails_if (length (env_SourceID e) > 256) SourceIDTooLong,
     fails_if (env_SchemaVersion e \<noteq> CurrentSchemaVersion) WrongSchemaVersion,
     bounded (Field ''idempotencyKey'') (env_IdempotencyKey e) 8 256,
     fails_if (env_CausationID e \<noteq> [] \<and> \<not> IsUUID (env_CausationID e)) (MustBeUUID (Field ''causationId'')),
     fails_if (env_CorrelationID e \<noteq> [] \<and> \<not> IsUUID (env_CorrelationID e)) (MustBeUUID (Field ''correlationId'')),
     fails_if (length (env_Payload e) = 0 \<or> env_Payload e = ''null'') PayloadMustBeObject,
     fails_if (\<not> is_object (env_Payload e)) PayloadMustBeObject]"

text \<open>
  The two loops of \<open>NewOrder.Validate\<close>. The first carries the identifiers seen so far and
  the stations routed to; the second goes over the map of preallocated ticket identifiers.
\<close>

fun validate_lines ::
  "nat \<Rightarrow> string set \<Rightarrow> string set \<Rightarrow> order_line list \<Rightarrow> model_error + string set \<times> string set" where
  "validate_lines index seen stations [] = Inr (seen, stations)"
| "validate_lines index seen stations (line # lines) =
    (if \<not> IsUUIDv7 (ol_ID line) then Inl (MustBeUUIDv7 (LineField index ''id''))
     else if ol_ID line \<in> seen then Inl (DuplicatedLineID index)
     else case first_error
        [bounded (LineField index ''name'') (ol_Name line) 1 256,
         fails_if (ol_Quantity line \<le> 0 \<or> ol_Quantity line > 10000) (WrongQuantity index),
         bounded (LineField index ''stationId'') (ol_StationID line) 1 128,
         fails_if (length (ol_MenuItemID line) > 128 \<or> length (ol_PreparationNote line) > 1000) (LineTextTooLong index)]
      of Some err \<Rightarrow> Inl err
       | None \<Rightarrow> validate_lines (Suc index) (insert (ol_ID line) seen) (insert (ol_StationID line) stations) lines)"

fun validate_station_tickets ::
  "string set \<Rightarrow> string set \<Rightarrow> (string \<times> string) list \<Rightarrow> model_error option" where
  "validate_station_tickets stations seen [] = None"
| "validate_station_tickets stations seen ((stationID, ticketID) # rest) =
    (if stationID \<notin> stations then Some (UnknownStation stationID)
     else if \<not> IsUUIDv7 ticketID then Some (StationTicketMustBeUUIDv7 stationID)
     else if ticketID \<in> seen then Some (DuplicatedStationTicket stationID)
     else validate_station_tickets stations (insert ticketID seen) rest)"

definition NewOrder_Validate :: "new_order \<Rightarrow> model_error option" where
  "NewOrder_Validate input =
    (case first_error
      [fails_if (\<not> IsUUIDv7 (no_ID input)) (MustBeUUIDv7 (Field ''order.id'')),
       fails_if (length (no_BrandID input) > 128 \<or> length (no_ExternalRef input) > 256) BrandOrExternalRefTooLong,
       fails_if (length (no_GuestName input) > 256 \<or> length (no_TableLabel input) > 64 \<or> length (no_Note input) > 1000)
         OrderTextTooLong,
       fails_if (\<not> OrderType_Valid (no_Type input)) UnsupportedOrderType,
       fails_if (length (no_Lines input) = 0 \<or> length (no_Lines input) > 500) WrongLineCount]
     of Some err \<Rightarrow> Some err
      | None \<Rightarrow>
        (case validate_lines 0 {no_ID input} {} (no_Lines input) of
           Inl err \<Rightarrow> Some err
         | Inr (seen, stations) \<Rightarrow> first_error
            [fails_if (length (no_StationTicketIDs input) > card stations) TooManyStationTickets,
             validate_station_tickets stations seen (no_StationTicketIDs input),
             fails_if (no_Priority input < -100 \<or> no_Priority input > 100) WrongPriority]))"

definition TransitionOrderPayload_Validate :: "transition_order_payload \<Rightarrow> model_error option" where
  "TransitionOrderPayload_Validate input = first_error
    [fails_if (\<not> OrderStatus_Valid (top_ToStatus input)) WrongOrderStatus,
     fails_if (top_ExpectedVersion input = 0) ZeroExpectedVersion]"

definition TransitionTicketPayload_Validate :: "transition_ticket_payload \<Rightarrow> model_error option" where
  "TransitionTicketPayload_Validate input = first_error
    [fails_if (\<not> TicketStatus_Valid (ttp_ToStatus input)) WrongTicketStatus,
     fails_if (ttp_ExpectedVersion input = 0) ZeroExpectedVersion]"

end
