(* ===== verification/Go_Json.thy ===== *)
theory Go_Json
  imports Go_Text
begin

text \<open>
  \<open>encoding/json\<close> on raw messages: \<open>json.Marshal\<close> writes a \<open>json.RawMessage\<close> without the white space
  between its tokens, and with \<open><\<close>, \<open>>\<close>, \<open>&\<close> and the two line separators of Unicode as escapes. What a text
  says is the list of its tokens with the strings decoded; the compacted text says the same.
\<close>

subsection \<open>Compaction\<close>

text \<open>Where a scanner is: between tokens, in a string, or after a backslash in a string.\<close>

datatype json_mode = Between | Quoted | Escaped

definition next_mode :: "json_mode \<Rightarrow> char \<Rightarrow> json_mode" where
  "next_mode m c = (case m of
     Between \<Rightarrow> if c = CHR 0x22 then Quoted else Between
   | Quoted \<Rightarrow> if c = CHR 0x22 then Between else if c = CHR 0x5C then Escaped else Quoted
   | Escaped \<Rightarrow> Quoted)"

definition json_space :: "char \<Rightarrow> bool" where
  "json_space c \<longleftrightarrow> c \<in> {CHR 0x20, CHR 0x09, CHR 0x0A, CHR 0x0D}"

definition html_escape :: "char \<Rightarrow> string" where
  "html_escape c = (if c = CHR 0x3C then CHR 0x5C # ''u003c'' else if c = CHR 0x3E then CHR 0x5C # ''u003e''
     else if c = CHR 0x26 then CHR 0x5C # ''u0026'' else [c])"

text \<open>The bytes of U+2028 and U+2029, and their escapes.\<close>

definition separators :: "(string \<times> string) list" where
  "separators = [([CHR 0xE2, CHR 0x80, CHR 0xA8], CHR 0x5C # ''u2028''), ([CHR 0xE2, CHR 0x80, CHR 0xA9], CHR 0x5C # ''u2029'')]"

fun compact_from :: "json_mode \<Rightarrow> string \<Rightarrow> string" where
  "compact_from m [] = []"
| "compact_from m (c # cs) =
    (case map_of separators (c # take 2 cs) of
       Some escape \<Rightarrow> escape @ compact_from (next_mode m c) (drop 2 cs)
     | None \<Rightarrow> if m = Between \<and> json_space c then compact_from m cs else html_escape c @ compact_from (next_mode m c) cs)"

declare compact_from.simps(2) [simp del]

definition compact_json :: "string \<Rightarrow> string" where
  "compact_json = compact_from Between"

subsection \<open>Texts\<close>

text \<open>The tokens of a text: signs are ASCII, a string ends, and its escapes are those of JSON.\<close>

definition sign :: "char \<Rightarrow> bool" where
  "sign c \<longleftrightarrow> (of_char c :: nat) < 128 \<and> \<not> one_of [CHR 0x3C, CHR 0x3E, CHR 0x26, CHR 0x5C, CHR 0x22] c"

definition short_escape :: "char \<Rightarrow> bool" where
  "short_escape = one_of [CHR 0x22, CHR 0x5C, CHR 0x2F, CHR 0x62, CHR 0x66, CHR 0x6E, CHR 0x72, CHR 0x74]"

fun json_text :: "bool \<Rightarrow> string \<Rightarrow> bool" where
  "json_text quoted [] \<longleftrightarrow> \<not> quoted"
| "json_text False (c # cs) \<longleftrightarrow> (if c = CHR 0x22 then json_text True cs else sign c \<and> json_text False cs)"
| "json_text True (c # cs) \<longleftrightarrow> (if c = CHR 0x22 then json_text False cs else if c \<noteq> CHR 0x5C then json_text True cs
     else (case cs of [] \<Rightarrow> False | e # rest \<Rightarrow>
       if e = CHR ''u'' then 4 \<le> length rest \<and> list_all hex_class (take 4 rest) \<and> json_text True (drop 4 rest)
       else short_escape e \<and> json_text True rest))"

text \<open>What a text says. A code unit is encoded by itself, also when it is half of a pair.\<close>

definition hex_value :: "char \<Rightarrow> nat" where
  "hex_value c = (let v = of_char c in if v < 65 then v - 48 else if v < 97 then v - 55 else v - 87)"

definition utf8 :: "nat \<Rightarrow> string" where
  "utf8 n = (if n < 128 then [char_of n] else if n < 2048 then [char_of (192 + n div 64), char_of (128 + n mod 64)]
     else [char_of (224 + n div 4096), char_of (128 + n div 64 mod 64), char_of (128 + n mod 64)])"

definition escaped_char :: "char \<Rightarrow> char" where
  "escaped_char e = (case map_of [(CHR 0x62, CHR 0x08), (CHR 0x66, CHR 0x0C), (CHR 0x6E, CHR 0x0A), (CHR 0x72, CHR 0x0D),
     (CHR 0x74, CHR 0x09)] e of Some c \<Rightarrow> c | None \<Rightarrow> e)"

datatype json_atom = Sign char | Byte char

fun json_content :: "bool \<Rightarrow> string \<Rightarrow> json_atom list" where
  "json_content quoted [] = []"
| "json_content False (c # cs) = (if json_space c then json_content False cs else Sign c # json_content (c = CHR 0x22) cs)"
| "json_content True (c # cs) = (if c = CHR 0x22 then Sign c # json_content False cs
     else if c \<noteq> CHR 0x5C then Byte c # json_content True cs
     else (case cs of [] \<Rightarrow> [] | e # rest \<Rightarrow>
       if e = CHR ''u'' then map Byte (utf8 (foldl (\<lambda>n d. 16 * n + hex_value d) 0 (take 4 rest))) @ json_content True (drop 4 rest)
       else Byte (escaped_char e) # json_content True rest))"

subsection \<open>Compaction keeps the content\<close>

abbreviation mode_of :: "bool \<Rightarrow> json_mode" where
  "mode_of quoted \<equiv> (if quoted then Quoted else Between)"

text \<open>Bytes that a scanner passes on as they are, wherever it is.\<close>

definition quiet :: "char \<Rightarrow> bool" where
  "quiet c \<longleftrightarrow> c \<noteq> CHR 0xE2 \<and> c \<notin> {CHR 0x3C, CHR 0x3E, CHR 0x26}"

lemma quiet_None: "quiet c \<Longrightarrow> map_of separators (c # cs) = None"
  by (simp add: quiet_def separators_def)

lemma quiet_html: "quiet c \<Longrightarrow> html_escape c = [c]"
  by (simp add: quiet_def html_escape_def)

lemma compact_quiet [simp]:
  "quiet c \<Longrightarrow> compact_from m (c # cs)
     = (if m = Between \<and> json_space c then compact_from m cs else c # compact_from (next_mode m c) cs)"
  by (simp add: compact_from.simps(2) quiet_None quiet_html)

lemma quiet_signs [simp]: "quiet (CHR 0x22)" "quiet (CHR 0x5C)" "quiet (CHR ''u'')"
  by (simp_all add: quiet_def)

lemma sign_quiet [simp]: "sign c \<Longrightarrow> quiet c"
proof -
  have "\<not> (of_char (CHR 0xE2) :: nat) < 128" by simp
  then have "(of_char c :: nat) < 128 \<Longrightarrow> c \<noteq> CHR 0xE2" by blast
  then show "sign c \<Longrightarrow> quiet c" by (simp add: sign_def quiet_def one_of_def)
qed

lemma quiet_escapes [simp]: "short_escape c \<Longrightarrow> quiet c" "hex_class c \<Longrightarrow> quiet c"
proof -
  have "list_all quiet [CHR 0x22, CHR 0x5C, CHR 0x2F, CHR 0x62, CHR 0x66, CHR 0x6E, CHR 0x72, CHR 0x74]" by (simp add: quiet_def)
  then show "short_escape c \<Longrightarrow> quiet c" by (auto simp: short_escape_def one_of_def list_all_iff)
  have "list_all quiet ''0123456789abcdefABCDEF''" by (simp add: quiet_def)
  then show "hex_class c \<Longrightarrow> quiet c" by (auto simp only: hex_class_def one_of_def list_all_iff List.member_iff)
qed

lemma hex_quoted: "hex_class c \<Longrightarrow> next_mode Quoted c = Quoted"
proof -
  have "list_all (\<lambda>c. c \<noteq> CHR 0x22 \<and> c \<noteq> CHR 0x5C) ''0123456789abcdefABCDEF''" by simp
  then have "c \<noteq> CHR 0x22 \<and> c \<noteq> CHR 0x5C" if "hex_class c"
    using that by (auto simp only: hex_class_def one_of_def list_all_iff List.member_iff)
  then show "hex_class c \<Longrightarrow> next_mode Quoted c = Quoted" by (simp add: next_mode_def)
qed

lemma compact_hex: "list_all hex_class ds \<Longrightarrow> compact_from Quoted (ds @ cs) = ds @ compact_from Quoted cs"
  by (induction ds) (simp_all add: hex_quoted)

lemma take4: "4 \<le> length rest \<Longrightarrow> list_all hex_class (take 4 rest) \<Longrightarrow>
    compact_from Quoted rest = take 4 rest @ compact_from Quoted (drop 4 rest)"
  using compact_hex [of "take 4 rest" "drop 4 rest"] by simp

lemma next_modes [simp]:
  "next_mode Between c = mode_of (c = CHR 0x22)" "next_mode Quoted (CHR 0x22) = Between" "next_mode Quoted (CHR 0x5C) = Escaped"
  "next_mode Escaped c = Quoted" "c \<noteq> CHR 0x22 \<Longrightarrow> c \<noteq> CHR 0x5C \<Longrightarrow> next_mode Quoted c = Quoted"
  by (simp_all add: next_mode_def)

text \<open>A byte of a string is passed on, or an escape takes its place.\<close>

lemma compact_byte:
  assumes "c \<noteq> CHR 0x22" "c \<noteq> CHR 0x5C"
  obtains "quiet c \<or> map_of separators (c # take 2 cs) = None \<and> html_escape c = [c]"
      "compact_from Quoted (c # cs) = c # compact_from Quoted cs"
  | escape bs rest where "c # cs = bs @ rest" "compact_from Quoted (c # cs) = escape @ compact_from Quoted rest"
      "(bs, escape) \<in> set (separators @ [([CHR 0x3C], CHR 0x5C # ''u003c''), ([CHR 0x3E], CHR 0x5C # ''u003e''), ([CHR 0x26], CHR 0x5C # ''u0026'')])"
proof (cases "map_of separators (c # take 2 cs)")
  case (Some escape)
  then have "(c # take 2 cs, escape) \<in> set separators" by (rule map_of_SomeD)
  moreover have "compact_from Quoted (c # cs) = escape @ compact_from Quoted (drop 2 cs)"
    using assms Some by (simp add: compact_from.simps(2))
  ultimately show thesis by (intro that(2) [of "c # take 2 cs" "drop 2 cs" escape]) simp_all
next
  case None
  then have run: "compact_from Quoted (c # cs) = html_escape c @ compact_from Quoted cs"
    using assms by (simp add: compact_from.simps(2))
  show thesis
  proof (cases "html_escape c = [c]")
    case True
    with run None that(1) show thesis by simp
  next
    case False
    then have "([c], html_escape c) \<in> set [([CHR 0x3C], CHR 0x5C # ''u003c''), ([CHR 0x3E], CHR 0x5C # ''u003e''), ([CHR 0x26], CHR 0x5C # ''u0026'')]"
      by (auto simp: html_escape_def split: if_split_asm)
    with run show thesis by (intro that(2) [of "[c]" cs "html_escape c"]) auto
  qed
qed

lemma utf8_values:
  "utf8 8232 = [CHR 0xE2, CHR 0x80, CHR 0xA8]" "utf8 8233 = [CHR 0xE2, CHR 0x80, CHR 0xA9]"
  "utf8 60 = [CHR 0x3C]" "utf8 62 = [CHR 0x3E]" "utf8 38 = [CHR 0x26]"
  by (simp_all add: utf8_def char_of_def bit_Suc_0_iff)

lemma escape_content:
  assumes "(bs, escape) \<in> set (separators @ [([CHR 0x3C], CHR 0x5C # ''u003c''), ([CHR 0x3E], CHR 0x5C # ''u003e''), ([CHR 0x26], CHR 0x5C # ''u0026'')])"
  shows "json_content True (escape @ cs) = map Byte bs @ json_content True cs"
    "json_content True (bs @ cs) = map Byte bs @ json_content True cs" "json_text True (bs @ cs) = json_text True cs"
    "json_text True (escape @ cs) = json_text True cs" "bs \<noteq> []" "compact_from Quoted (escape @ cs) = escape @ compact_from Quoted cs"
proof -
  from assms have "json_content True (escape @ cs) = map Byte bs @ json_content True cs
      \<and> json_content True (bs @ cs) = map Byte bs @ json_content True cs \<and> json_text True (bs @ cs) = json_text True cs
      \<and> bs \<noteq> []"
    unfolding separators_def set_append list.set Un_iff insert_iff prod.inject empty_iff
    by (elim disjE conjE FalseE; simp add: hex_value_def utf8_values)
  then show "json_content True (escape @ cs) = map Byte bs @ json_content True cs"
    "json_content True (bs @ cs) = map Byte bs @ json_content True cs" "json_text True (bs @ cs) = json_text True cs" "bs \<noteq> []" by simp_all
  have "list_all (\<lambda>(bs, escape). \<exists>ds. escape = CHR 0x5C # CHR ''u'' # ds \<and> list_all hex_class ds \<and> length ds = 4)
      (separators @ [([CHR 0x3C], CHR 0x5C # ''u003c''), ([CHR 0x3E], CHR 0x5C # ''u003e''), ([CHR 0x26], CHR 0x5C # ''u0026'')])"
    by (simp add: separators_def hex_class_def one_of_def)
  with assms obtain ds where "escape = CHR 0x5C # CHR ''u'' # ds" "list_all hex_class ds" "length ds = 4" unfolding list_all_iff by blast
  then show "compact_from Quoted (escape @ cs) = escape @ compact_from Quoted cs" "json_text True (escape @ cs) = json_text True cs"
    by (simp_all add: compact_hex)
qed

lemma compact_starts:
  assumes "compact_from Quoted cs = b # ys" "b \<noteq> CHR 0x5C" "b \<noteq> CHR 0x22"
  obtains cs' where "cs = b # cs'" "ys = compact_from Quoted cs'"
proof (cases cs)
  case (Cons c cs')
  show thesis
  proof (cases "map_of separators (c # take 2 cs')")
    case (Some escape)
    then have "hd escape = CHR 0x5C \<and> escape \<noteq> []" by (auto simp: separators_def split: if_split_asm)
    with assms(1,2) Cons Some show thesis by (cases escape) (simp_all add: compact_from.simps(2))
  next
    case None
    with assms(1) Cons have run: "html_escape c @ compact_from (next_mode Quoted c) cs' = b # ys" by (simp add: compact_from.simps(2))
    with assms(2) have "c = b" by (auto simp: html_escape_def split: if_split_asm)
    with run assms that [of cs'] Cons show thesis by (auto simp: html_escape_def split: if_split_asm)
  qed
qed (use assms in simp)

lemma separators_iff: "map_of separators k = None \<longleftrightarrow> (\<forall>x \<in> {CHR 0xA8, CHR 0xA9}. k \<noteq> [CHR 0xE2, CHR 0x80, x])"
  by (simp add: separators_def)

lemma still_no_separator:
  assumes "map_of separators (c # take 2 cs) = None"
  shows "map_of separators (c # take 2 (compact_from Quoted cs)) = None"
  unfolding separators_iff
proof (intro ballI notI)
  fix x assume x: "x \<in> {CHR 0xA8, CHR 0xA9}" and two: "c # take 2 (compact_from Quoted cs) = [CHR 0xE2, CHR 0x80, x]"
  define ys where "ys = compact_from Quoted cs"
  have "c = CHR 0xE2" "take 2 ys = [CHR 0x80, x]" using two by (simp_all add: ys_def)
  then have "ys = CHR 0x80 # x # drop 2 ys" using append_take_drop_id [of 2 ys] by simp
  then have "compact_from Quoted cs = CHR 0x80 # x # drop 2 ys" by (simp only: ys_def [symmetric])
  then obtain cs' where cs: "cs = CHR 0x80 # cs'" "x # drop 2 ys = compact_from Quoted cs'"
    by (rule compact_starts) simp_all
  have "x \<noteq> CHR 0x5C" "x \<noteq> CHR 0x22" using x by auto
  with cs(2) [symmetric] obtain cs'' where "cs' = x # cs''" by (rule compact_starts)
  with cs(1) \<open>c = CHR 0xE2\<close> x assms show False unfolding separators_iff by simp
qed

text \<open>The compacted text is a text, says the same, and is compact.\<close>

lemma compacted:
  assumes "json_text quoted s"
  shows "json_text quoted (compact_from (mode_of quoted) s)
    \<and> json_content quoted (compact_from (mode_of quoted) s) = json_content quoted s
    \<and> compact_from (mode_of quoted) (compact_from (mode_of quoted) s) = compact_from (mode_of quoted) s"
  using assms
proof (induction "length s" arbitrary: quoted s rule: less_induct)
  case less
  show ?case
  proof (cases s)
    case Nil
    with less.prems show ?thesis by simp
  next
    case (Cons c cs)
    note IH = less.hyps [unfolded Cons]
    show ?thesis
    proof (cases quoted)
      case False
      show ?thesis
      proof (cases "c = CHR 0x22")
        case True
        with less.prems IH [of cs True] show ?thesis by (simp add: Cons False json_space_def)
      next
        case sign: False
        with less.prems have "sign c" "json_text False cs" by (simp_all add: Cons False)
        with sign IH [of cs False] show ?thesis by (simp add: Cons False)
      qed
    next
      case True
      consider "c = CHR 0x22" | "c = CHR 0x5C" | "c \<noteq> CHR 0x22" "c \<noteq> CHR 0x5C" by blast
      then show ?thesis
      proof cases
        case 1
        with less.prems IH [of cs False] show ?thesis by (simp add: Cons True)
      next
        case 2
        with less.prems obtain e rest where cs: "cs = e # rest" by (cases cs) (simp_all add: Cons True)
        show ?thesis
        proof (cases "e = CHR ''u''")
          case u: True
          with less.prems have rest: "4 \<le> length rest" "list_all hex_class (take 4 rest)" "json_text True (drop 4 rest)"
            by (simp_all add: Cons True 2 cs)
          note split = take4 [OF rest(1,2)]
          have len: "length (take 4 rest) = 4" using rest(1) by simp
          have "compact_from Quoted (take 4 rest @ r) = take 4 rest @ compact_from Quoted r" for r by (rule compact_hex [OF rest(2)])
          with rest(2) len IH [OF _ rest(3)] show ?thesis
            by (simp add: Cons True 2 cs u split)
        next
          case e: False
          with less.prems have "short_escape e" "json_text True rest" by (simp_all add: Cons True 2 cs)
          with e IH [of rest True] show ?thesis by (simp add: Cons True 2 cs)
        qed
      next
        case 3
        then show ?thesis
        proof (rule compact_byte [where cs = cs])
          assume q: "quiet c \<or> map_of separators (c # take 2 cs) = None \<and> html_escape c = [c]"
            "compact_from Quoted (c # cs) = c # compact_from Quoted cs"
          have "compact_from Quoted (c # compact_from Quoted cs) = c # compact_from Quoted (compact_from Quoted cs)"
            using q(1) 3 still_no_separator [of c cs] by (elim disjE) (simp, simp add: compact_from.simps(2))
          with q(2) 3 less.prems IH [of cs True] show ?thesis by (simp add: Cons True)
        next
          fix bs escape rest
          assume r: "c # cs = bs @ rest" "compact_from Quoted (c # cs) = escape @ compact_from Quoted rest"
            "(bs, escape) \<in> set (separators @ [([CHR 0x3C], CHR 0x5C # ''u003c''), ([CHR 0x3E], CHR 0x5C # ''u003e''), ([CHR 0x26], CHR 0x5C # ''u0026'')])"
          note same = escape_content [OF r(3)]
          have s: "s = bs @ rest" using Cons r(1) by simp
          have "json_text True rest" using less.prems same(3) by (simp add: s True)
          moreover have "length rest < length (c # cs)" using same(5) by (simp add: r(1))
          ultimately have "json_text True (compact_from Quoted rest) \<and> json_content True (compact_from Quoted rest) = json_content True rest
              \<and> compact_from Quoted (compact_from Quoted rest) = compact_from Quoted rest" using IH [of rest True] by simp
          then show ?thesis using same r(2) [unfolded r(1)] by (simp add: s True)
        qed
      qed
    qed
  qed
qed

lemma compact_json_text: "json_text False p \<Longrightarrow> json_text False (compact_json p)"
  and compact_json_content: "json_text False p \<Longrightarrow> json_content False (compact_json p) = json_content False p"
  and compact_json_idem: "json_text False p \<Longrightarrow> compact_json (compact_json p) = compact_json p"
  using compacted [of False p] by (simp_all add: compact_json_def)

end
