(* ===== verification/Edge_Store.thy ===== *)
theory Edge_Store
  imports Edge_Model Go_Json
begin

text \<open>
  The outlet edge's SQLite store: \<open>services/edge/internal/store/store.go\<close>. The database
  is a record of tables, a table the list of its rows in insertion order (nothing is ever
  deleted), a row the record of its columns. A JSON column holds the value that was encoded
  into it; a time column holds the \<open>RFC3339Nano\<close> text, because queries compare and sort
  these texts. \<open>UNIQUE\<close>, \<open>PRIMARY KEY\<close> and \<open>REFERENCES\<close> constraints are
  checked by every insert and give the driver's error. The clock (\<open>store.now\<close>) is the
  argument \<open>now\<close> and the results of the successive \<open>store.newID\<close> calls of a command
  are the function \<open>newID\<close>.
\<close>

subsection \<open>Tables\<close>

record order_row =
  or_id :: string
  or_tenant_id :: string
  or_outlet_id :: string
  or_external_ref :: "string option"
  or_order_number :: nat
  or_status :: order_status
  or_version :: nat
  or_data_json :: order
  or_created_at :: string
  or_updated_at :: string

record ticket_row =
  tk_id :: string
  tk_tenant_id :: string
  tk_outlet_id :: string
  tk_order_id :: string
  tk_station_id :: string
  tk_status :: ticket_status
  tk_priority :: int
  tk_version :: nat
  tk_data_json :: kitchen_ticket
  tk_created_at :: string
  tk_updated_at :: string

text \<open>
  The JSON object of an envelope: its members in their order, a text with its value, the payload as raw text.
\<close>

datatype json_member = TextMember string | RawMember string

record operation_row =
  opr_sequence :: nat
  opr_operation_id :: string
  opr_tenant_id :: string
  opr_outlet_id :: string
  opr_aggregate_type :: string
  opr_aggregate_id :: string
  opr_causality_type :: string
  opr_causality_id :: string
  opr_aggregate_version :: nat
  opr_command_type :: string
  opr_mutation_json :: "(string \<times> json_member) list"
  opr_recorded_at :: string

datatype outbox_state = Pending | Synchronized | Reconciliation

record outbox_row =
  ob_operation_id :: string
  ob_state :: outbox_state
  ob_attempts :: nat
  ob_next_attempt_at :: string
  ob_last_error :: "string option"
  ob_cloud_result :: "push_status option"
  ob_synced_at :: "string option"

record idempotency_row =
  ir_tenant_id :: string
  ir_actor_id :: string
  ir_route :: string
  ir_idempotency_key :: string
  ir_request_hash :: string
  ir_status_code :: nat
  ir_content_type :: string
  ir_location :: "string option"
  ir_response_body :: response_envelope
  ir_created_at :: string

text \<open>The two transition logs have the same columns; a \<open>NULL\<close> \<open>from_status\<close> is \<open>None\<close>.\<close>

record 's transition_row =
  tr_sequence :: nat
  tr_subject_id :: string
  tr_operation_id :: string
  tr_from_status :: "'s option"
  tr_to_status :: 's
  tr_version :: nat
  tr_recorded_at :: string

record sync_metadata =
  sm_last_attempt_at :: "string option"
  sm_last_success_at :: "string option"
  sm_last_error :: "string option"

record pairing_code_row =
  pc_code_hash :: string
  pc_role :: string
  pc_created_at :: string
  pc_expires_at :: string
  pc_consumed_at :: "string option"

record local_session_row =
  ls_token_hash :: string
  ls_role :: string
  ls_created_at :: string
  ls_expires_at :: string
  ls_revoked_at :: "string option"

record db =
  db_orders :: "order_row list"
  db_tickets :: "ticket_row list"
  db_operations :: "operation_row list"
  db_outbox :: "outbox_row list"
  db_idempotency :: "idempotency_row list"
  db_order_transitions :: "order_status transition_row list"
  db_ticket_transitions :: "ticket_status transition_row list"
  db_sync_metadata :: sync_metadata
  db_pairing_codes :: "pairing_code_row list"
  db_local_sessions :: "local_session_row list"

definition empty_db :: db where
  "empty_db = \<lparr>db_orders = [], db_tickets = [], db_operations = [], db_outbox = [],
    db_idempotency = [], db_order_transitions = [], db_ticket_transitions = [],
    db_sync_metadata = \<lparr>sm_last_attempt_at = None, sm_last_success_at = None, sm_last_error = None\<rparr>,
    db_pairing_codes = [], db_local_sessions = []\<rparr>"

text \<open>\<open>INTEGER PRIMARY KEY AUTOINCREMENT\<close>: one more than every sequence used so far.\<close>

definition next_sequence :: "nat list \<Rightarrow> nat" where
  "next_sequence used = Suc (fold max used 0)"

text \<open>\<open>LIMIT ?\<close>; a negative limit is none.\<close>

definition sql_limit :: "int \<Rightarrow> 'a list \<Rightarrow> 'a list" where
  "sql_limit limit rows = (if limit < 0 then rows else take (nat limit) rows)"

subsection \<open>Errors and responses\<close>

text \<open>
  \<open>CommandError\<close> carries the code, the message and the details; every error of the
  driver is a \<open>StorageError\<close> with the context the store wraps it in.
\<close>

datatype store_error =
    CommandError string string "(string \<times> string) list"
  | StorageError string
  | ErrInvalidPairingCode
  | ErrInvalidSession

record stored_response =
  sr_StatusCode :: nat
  sr_ContentType :: string
  sr_Location :: string
  sr_Body :: response_envelope
  sr_Replayed :: bool

definition conflict :: "string \<Rightarrow> string \<Rightarrow> string \<Rightarrow> string \<Rightarrow> store_error" where
  "conflict code message field val = CommandError code message [(field, val)]"

definition notFound :: "string \<Rightarrow> string \<Rightarrow> store_error" where
  "notFound kind id' = CommandError ''not_found'' (kind @ '' was not found'') [(''id'', id')]"

definition invalidTransition :: "string \<Rightarrow> string \<Rightarrow> store_error" where
  "invalidTransition from to' = CommandError ''invalid_transition''
     ''requested state transition is not allowed'' [(''fromStatus'', from), (''toStatus'', to')]"

definition versionConflict :: "nat \<Rightarrow> nat \<Rightarrow> store_error" where
  "versionConflict expected actual = CommandError ''version_conflict''
     ''aggregate version does not match expectedVersion''
     [(''expectedVersion'', decimal expected), (''actualVersion'', decimal actual)]"

definition responseFor :: "nat \<Rightarrow> string \<Rightarrow> string \<Rightarrow> command_result \<Rightarrow> stored_response" where
  "responseFor status location operationID data =
    \<lparr>sr_StatusCode = status, sr_ContentType = ''application/json'', sr_Location = location,
     sr_Body = \<lparr>re_Data = data, re_OperationID = operationID\<rparr>, sr_Replayed = False\<rparr>"

subsection \<open>Queries\<close>

definition getOrder :: "db \<Rightarrow> string \<Rightarrow> string \<Rightarrow> string \<Rightarrow> store_error + order" where
  "getOrder db tenantID outletID id' =
    (case List.find (\<lambda>r. or_tenant_id r = tenantID \<and> or_outlet_id r = outletID \<and> or_id r = id') (db_orders db) of
       None \<Rightarrow> Inl (notFound ''order'' id')
     | Some r \<Rightarrow> Inr (or_data_json r))"

definition getTicket :: "db \<Rightarrow> string \<Rightarrow> string \<Rightarrow> string \<Rightarrow> store_error + kitchen_ticket" where
  "getTicket db tenantID outletID id' =
    (case List.find (\<lambda>r. tk_tenant_id r = tenantID \<and> tk_outlet_id r = outletID \<and> tk_id r = id') (db_tickets db) of
       None \<Rightarrow> Inl (notFound ''kitchen ticket'' id')
     | Some r \<Rightarrow> Inr (tk_data_json r))"

definition listTicketsForOrder :: "db \<Rightarrow> string \<Rightarrow> string \<Rightarrow> string \<Rightarrow> kitchen_ticket list" where
  "listTicketsForOrder db tenantID outletID orderID = map tk_data_json
    (sort_key (\<lambda>r. (tk_created_at r, tk_id r))
      (filter (\<lambda>r. tk_tenant_id r = tenantID \<and> tk_outlet_id r = outletID \<and> tk_order_id r = orderID) (db_tickets db)))"

definition ListOrders :: "db \<Rightarrow> string \<Rightarrow> string \<Rightarrow> order_status \<Rightarrow> int \<Rightarrow> order list" where
  "ListOrders db tenantID outletID status limit = map or_data_json (sql_limit limit
    (rev (sort_key (\<lambda>r. (or_updated_at r, or_order_number r))
      (filter (\<lambda>r. or_tenant_id r = tenantID \<and> or_outlet_id r = outletID
                 \<and> (order_status_text status \<noteq> [] \<longrightarrow> or_status r = status)) (db_orders db)))))"

definition ListTickets :: "db \<Rightarrow> string \<Rightarrow> string \<Rightarrow> string \<Rightarrow> ticket_status \<Rightarrow> int \<Rightarrow> kitchen_ticket list" where
  "ListTickets db tenantID outletID stationID status limit = map tk_data_json (sql_limit limit
    (sort_key (\<lambda>r. (- tk_priority r, tk_created_at r, tk_id r))
      (filter (\<lambda>r. tk_tenant_id r = tenantID \<and> tk_outlet_id r = outletID
                 \<and> (stationID \<noteq> [] \<longrightarrow> tk_station_id r = stationID)
                 \<and> (ticket_status_text status \<noteq> [] \<longrightarrow> tk_status r = status)) (db_tickets db))))"

definition lookupIdempotency ::
  "db \<Rightarrow> string \<Rightarrow> string \<Rightarrow> mutation_envelope \<Rightarrow> store_error + stored_response option" where
  "lookupIdempotency db route requestHash envelope =
    (case List.find (\<lambda>r. ir_tenant_id r = env_TenantID envelope \<and> ir_actor_id r = env_ActorID envelope
            \<and> ir_route r = route \<and> ir_idempotency_key r = env_IdempotencyKey envelope) (db_idempotency db) of
       None \<Rightarrow> Inr None
     | Some r \<Rightarrow>
        if ir_request_hash r \<noteq> requestHash
        then Inl (conflict ''idempotency_key_reused'' ''idempotency key was already used with a different command''
                    ''idempotencyKey'' (env_IdempotencyKey envelope))
        else Inr (Some \<lparr>sr_StatusCode = ir_status_code r, sr_ContentType = ir_content_type r,
                    sr_Location = (case ir_location r of None \<Rightarrow> [] | Some l \<Rightarrow> l),
                    sr_Body = ir_response_body r, sr_Replayed = True\<rparr>))"

definition ensureOperationUnused :: "db \<Rightarrow> string \<Rightarrow> store_error + unit" where
  "ensureOperationUnused db operationID =
    (if list_ex (\<lambda>r. opr_operation_id r = operationID) (db_operations db)
     then Inl (conflict ''operation_id_reused'' ''operation id was already used'' ''id'' operationID)
     else Inr ())"

subsection \<open>Inserts and updates\<close>

definition order_row_of :: "order \<Rightarrow> order_row" where
  "order_row_of ord =
    \<lparr>or_id = o_ID ord, or_tenant_id = o_TenantID ord, or_outlet_id = o_OutletID ord,
     or_external_ref = (if o_ExternalRef ord \<noteq> [] then Some (o_ExternalRef ord) else None),
     or_order_number = o_Number ord, or_status = o_Status ord, or_version = o_Version ord,
     or_data_json = ord, or_created_at = formatTime (o_CreatedAt ord),
     or_updated_at = formatTime (o_UpdatedAt ord)\<rparr>"

definition order_rows_clash :: "order_row \<Rightarrow> order_row \<Rightarrow> bool" where
  "order_rows_clash a b \<longleftrightarrow> or_id a = or_id b
    \<or> or_tenant_id a = or_tenant_id b \<and> or_outlet_id a = or_outlet_id b
      \<and> (or_order_number a = or_order_number b
         \<or> or_external_ref a \<noteq> None \<and> or_external_ref a = or_external_ref b)"

definition insertOrder :: "order \<Rightarrow> db \<Rightarrow> store_error + db" where
  "insertOrder ord db =
    (if list_ex (order_rows_clash (order_row_of ord)) (db_orders db)
     then Inl (StorageError ''store: insert order'')
     else Inr (db\<lparr>db_orders := db_orders db @ [order_row_of ord]\<rparr>))"

definition requireOne :: "nat \<Rightarrow> string \<Rightarrow> 'a \<Rightarrow> store_error + 'a" where
  "requireOne count target result =
    (if count \<noteq> 1 then Inl (StorageError (''store: expected one affected '' @ target)) else Inr result)"

definition updateOrder :: "order \<Rightarrow> db \<Rightarrow> store_error + db" where
  "updateOrder ord db =
    (let hit = (\<lambda>r. or_id r = o_ID ord \<and> or_tenant_id r = o_TenantID ord \<and> or_outlet_id r = o_OutletID ord);
         set_columns = (\<lambda>r. r\<lparr>or_status := o_Status ord, or_version := o_Version ord, or_data_json := ord,
           or_updated_at := formatTime (o_UpdatedAt ord)\<rparr>)
     in requireOne (length (filter hit (db_orders db))) ''order projection''
          (db\<lparr>db_orders := map (\<lambda>r. if hit r then set_columns r else r) (db_orders db)\<rparr>))"

definition ticket_row_of :: "kitchen_ticket \<Rightarrow> ticket_row" where
  "ticket_row_of t =
    \<lparr>tk_id = kt_ID t, tk_tenant_id = kt_TenantID t, tk_outlet_id = kt_OutletID t,
     tk_order_id = kt_OrderID t, tk_station_id = kt_StationID t, tk_status = kt_Status t,
     tk_priority = kt_Priority t, tk_version = kt_Version t, tk_data_json = t,
     tk_created_at = formatTime (kt_CreatedAt t), tk_updated_at = formatTime (kt_UpdatedAt t)\<rparr>"

definition ticket_rows_clash :: "ticket_row \<Rightarrow> ticket_row \<Rightarrow> bool" where
  "ticket_rows_clash a b \<longleftrightarrow>
    tk_id a = tk_id b \<or> tk_order_id a = tk_order_id b \<and> tk_station_id a = tk_station_id b"

definition insertTicket :: "kitchen_ticket \<Rightarrow> db \<Rightarrow> store_error + db" where
  "insertTicket t db =
    (if list_ex (ticket_rows_clash (ticket_row_of t)) (db_tickets db)
        \<or> \<not> list_ex (\<lambda>r. or_id r = kt_OrderID t) (db_orders db)
     then Inl (StorageError ''store: insert ticket'')
     else Inr (db\<lparr>db_tickets := db_tickets db @ [ticket_row_of t]\<rparr>))"

definition updateTicket :: "kitchen_ticket \<Rightarrow> db \<Rightarrow> store_error + db" where
  "updateTicket t db =
    (let hit = (\<lambda>r. tk_id r = kt_ID t \<and> tk_tenant_id r = kt_TenantID t \<and> tk_outlet_id r = kt_OutletID t);
         set_columns = (\<lambda>r. r\<lparr>tk_status := kt_Status t, tk_version := kt_Version t, tk_data_json := t,
           tk_updated_at := formatTime (kt_UpdatedAt t)\<rparr>)
     in requireOne (length (filter hit (db_tickets db))) ''ticket projection''
          (db\<lparr>db_tickets := map (\<lambda>r. if hit r then set_columns r else r) (db_tickets db)\<rparr>))"

text \<open>
  \<open>json.Marshal\<close> of an envelope. Members with \<open>omitempty\<close> are left out when they are empty, the time is
  \<open>RFC3339Nano\<close>, here in UTC since the times of the model are instants, and the raw payload is compacted.
\<close>

definition text_members :: "(string \<times> string) list \<Rightarrow> (string \<times> json_member) list" where
  "text_members ms = map (\<lambda>(name, v). (name, TextMember v)) ms"

definition omit_empty :: "string \<Rightarrow> string \<Rightarrow> (string \<times> json_member) list" where
  "omit_empty name v = (if v = [] then [] else [(name, TextMember v)])"

definition marshal_envelope :: "mutation_envelope \<Rightarrow> (string \<times> json_member) list" where
  "marshal_envelope e =
    text_members [(''id'', env_ID e), (''tenantId'', env_TenantID e), (''outletId'', env_OutletID e), (''deviceId'', env_DeviceID e),
      (''actorId'', env_ActorID e), (''occurredAt'', formatTime (env_OccurredAt e)), (''source'', env_Source e)]
    @ omit_empty ''sourceId'' (env_SourceID e)
    @ text_members [(''schemaVersion'', env_SchemaVersion e), (''idempotencyKey'', env_IdempotencyKey e)]
    @ omit_empty ''causationId'' (env_CausationID e) @ omit_empty ''correlationId'' (env_CorrelationID e)
    @ [(''payload'', RawMember (compact_json (env_Payload e)))]"

definition operation_row_of ::
  "mutation_envelope \<Rightarrow> string \<Rightarrow> string \<Rightarrow> string \<Rightarrow> string \<Rightarrow> nat \<Rightarrow> string \<Rightarrow> time \<Rightarrow> nat \<Rightarrow> operation_row" where
  "operation_row_of envelope aggregateType aggregateID causalityType causalityID aggregateVersion
     commandType recordedAt sequence =
    \<lparr>opr_sequence = sequence, opr_operation_id = env_ID envelope, opr_tenant_id = env_TenantID envelope,
     opr_outlet_id = env_OutletID envelope, opr_aggregate_type = aggregateType,
     opr_aggregate_id = aggregateID, opr_causality_type = causalityType,
     opr_causality_id = causalityID, opr_aggregate_version = aggregateVersion,
     opr_command_type = commandType, opr_mutation_json = marshal_envelope envelope,
     opr_recorded_at = formatTime recordedAt\<rparr>"

definition outbox_row_of :: "mutation_envelope \<Rightarrow> time \<Rightarrow> outbox_row" where
  "outbox_row_of envelope recordedAt =
    \<lparr>ob_operation_id = env_ID envelope, ob_state = Pending, ob_attempts = 0,
     ob_next_attempt_at = formatTime recordedAt, ob_last_error = None,
     ob_cloud_result = None, ob_synced_at = None\<rparr>"

definition appendOperation ::
  "mutation_envelope \<Rightarrow> string \<Rightarrow> string \<Rightarrow> string \<Rightarrow> string \<Rightarrow> nat \<Rightarrow> string \<Rightarrow> time \<Rightarrow> db \<Rightarrow> store_error + db" where
  "appendOperation envelope aggregateType aggregateID causalityType causalityID aggregateVersion
     commandType recordedAt db =
    (if list_ex (\<lambda>r. opr_operation_id r = env_ID envelope) (db_operations db)
     then Inl (StorageError ''store: append operation'')
     else if list_ex (\<lambda>r. ob_operation_id r = env_ID envelope) (db_outbox db)
     then Inl (StorageError ''store: enqueue operation'')
     else Inr (db\<lparr>db_operations := db_operations db @
         [operation_row_of envelope aggregateType aggregateID causalityType causalityID aggregateVersion
            commandType recordedAt (next_sequence (map opr_sequence (db_operations db)))],
       db_outbox := db_outbox db @ [outbox_row_of envelope recordedAt]\<rparr>))"

text \<open>An empty \<open>from\<close> is stored as \<open>NULL\<close>; the two references must exist.\<close>

definition insertOrderTransition ::
  "string \<Rightarrow> string \<Rightarrow> order_status \<Rightarrow> order_status \<Rightarrow> nat \<Rightarrow> time \<Rightarrow> db \<Rightarrow> store_error + db" where
  "insertOrderTransition orderID operationID from to' version recordedAt db =
    (if list_ex (\<lambda>r. or_id r = orderID) (db_orders db)
        \<and> list_ex (\<lambda>r. opr_operation_id r = operationID) (db_operations db)
     then Inr (db\<lparr>db_order_transitions := db_order_transitions db @
         [\<lparr>tr_sequence = next_sequence (map tr_sequence (db_order_transitions db)),
           tr_subject_id = orderID, tr_operation_id = operationID,
           tr_from_status = (if order_status_text from \<noteq> [] then Some from else None),
           tr_to_status = to', tr_version = version, tr_recorded_at = formatTime recordedAt\<rparr>]\<rparr>)
     else Inl (StorageError ''insert into order_transitions''))"

definition insertTicketTransition ::
  "string \<Rightarrow> string \<Rightarrow> ticket_status \<Rightarrow> ticket_status \<Rightarrow> nat \<Rightarrow> time \<Rightarrow> db \<Rightarrow> store_error + db" where
  "insertTicketTransition ticketID operationID from to' version recordedAt db =
    (if list_ex (\<lambda>r. tk_id r = ticketID) (db_tickets db)
        \<and> list_ex (\<lambda>r. opr_operation_id r = operationID) (db_operations db)
     then Inr (db\<lparr>db_ticket_transitions := db_ticket_transitions db @
         [\<lparr>tr_sequence = next_sequence (map tr_sequence (db_ticket_transitions db)),
           tr_subject_id = ticketID, tr_operation_id = operationID,
           tr_from_status = (if ticket_status_text from \<noteq> [] then Some from else None),
           tr_to_status = to', tr_version = version, tr_recorded_at = formatTime recordedAt\<rparr>]\<rparr>)
     else Inl (StorageError ''insert into ticket_transitions''))"

definition idempotency_row_of ::
  "string \<Rightarrow> string \<Rightarrow> mutation_envelope \<Rightarrow> stored_response \<Rightarrow> time \<Rightarrow> idempotency_row" where
  "idempotency_row_of route requestHash envelope response now =
    \<lparr>ir_tenant_id = env_TenantID envelope, ir_actor_id = env_ActorID envelope, ir_route = route,
     ir_idempotency_key = env_IdempotencyKey envelope, ir_request_hash = requestHash,
     ir_status_code = sr_StatusCode response, ir_content_type = sr_ContentType response,
     ir_location = (if sr_Location response \<noteq> [] then Some (sr_Location response) else None),
     ir_response_body = sr_Body response, ir_created_at = formatTime now\<rparr>"

definition saveIdempotency ::
  "string \<Rightarrow> string \<Rightarrow> mutation_envelope \<Rightarrow> stored_response \<Rightarrow> time \<Rightarrow> db \<Rightarrow> store_error + db" where
  "saveIdempotency route requestHash envelope response now db =
    (if list_ex (\<lambda>r. ir_tenant_id r = env_TenantID envelope \<and> ir_actor_id r = env_ActorID envelope
          \<and> ir_route r = route \<and> ir_idempotency_key r = env_IdempotencyKey envelope) (db_idempotency db)
     then Inl (StorageError ''store: save idempotency response'')
     else Inr (db\<lparr>db_idempotency := db_idempotency db @
       [idempotency_row_of route requestHash envelope response now]\<rparr>))"

end
