(* ===== verification/Edge_Commands.thy ===== *)
theory Edge_Commands
  imports Edge_Store
begin

text \<open>
  The four commands of the edge store (\<open>CreateOrder\<close>, \<open>TransitionOrder\<close>,
  \<open>TransitionTicket\<close> and \<open>TransitionOrderTickets\<close> of \<open>store.go\<close>), each the body
  of one transaction run by \<open>transact\<close>: an error rolls back, a success commits. Every
  command starts with the same three steps, \<open>begin_command\<close>: look up the idempotency
  record, return the stored response of a replay, refuse a used operation identifier.
\<close>

definition begin_command ::
  "string \<Rightarrow> string \<Rightarrow> mutation_envelope \<Rightarrow> (db \<Rightarrow> store_error + stored_response \<times> db) \<Rightarrow>
   db \<Rightarrow> store_error + stored_response \<times> db" where
  "begin_command route requestHash envelope rest db =
    rbind (lookupIdempotency db route requestHash envelope) (\<lambda>found.
      case found of
        Some response \<Rightarrow> Inr (response, db)
      | None \<Rightarrow> rbind (ensureOperationUnused db (env_ID envelope)) (\<lambda>_. rest db))"

definition finish_command ::
  "string \<Rightarrow> string \<Rightarrow> mutation_envelope \<Rightarrow> stored_response \<Rightarrow> time \<Rightarrow>
   db \<Rightarrow> store_error + stored_response \<times> db" where
  "finish_command route requestHash envelope response now db =
    rbind (saveIdempotency route requestHash envelope response now db) (\<lambda>db. Inr (response, db))"

subsection \<open>CreateOrder\<close>

text \<open>
  \<open>stationOrder\<close> and \<open>stationLines\<close> as one association list: the stations in the order
  of their first line, each with the identifiers of its lines.
\<close>

definition add_line :: "(string \<times> string list) list \<Rightarrow> order_line \<Rightarrow> (string \<times> string list) list" where
  "add_line routes line =
    (if ol_StationID line \<in> fst ` set routes
     then map (\<lambda>(s, ids). (s, if s = ol_StationID line then ids @ [ol_ID line] else ids)) routes
     else routes @ [(ol_StationID line, [ol_ID line])])"

definition station_routes :: "order_line list \<Rightarrow> (string \<times> string list) list" where
  "station_routes lines = foldl add_line [] lines"

definition new_ticket ::
  "mutation_envelope \<Rightarrow> new_order \<Rightarrow> time \<Rightarrow> string \<Rightarrow> string \<Rightarrow> string list \<Rightarrow> kitchen_ticket" where
  "new_ticket envelope input now ticketID stationID lineIDs =
    \<lparr>kt_ID = ticketID, kt_TenantID = env_TenantID envelope, kt_OutletID = env_OutletID envelope,
     kt_OrderID = no_ID input, kt_StationID = stationID, kt_LineIDs = lineIDs,
     kt_Status = TicketQueued, kt_Priority = no_Priority input, kt_TargetAt = no_TargetAt input,
     kt_CreatedAt = now, kt_UpdatedAt = now, kt_Version = 1\<rparr>"

text \<open>The loop over the stations; \<open>n\<close> counts the \<open>newID\<close> calls made.\<close>

fun build_tickets ::
  "(string \<Rightarrow> string \<Rightarrow> string list \<Rightarrow> kitchen_ticket) \<Rightarrow> (string \<times> string) list \<Rightarrow> (nat \<Rightarrow> string) \<Rightarrow> db \<Rightarrow>
   nat \<Rightarrow> (string \<times> string list) list \<Rightarrow> store_error + kitchen_ticket list" where
  "build_tickets mk preallocated newID db n [] = Inr []"
| "build_tickets mk preallocated newID db n ((stationID, lineIDs) # routes) =
    (let given = (case map_of preallocated stationID of None \<Rightarrow> [] | Some t \<Rightarrow> t);
         (ticketID, n') = (if given = [] then (newID n, Suc n) else (given, n))
     in if list_ex (\<lambda>r. tk_id r = ticketID) (db_tickets db)
        then Inl (conflict ''ticket_id_reused'' ''kitchen ticket id already exists'' ''id'' ticketID)
        else rbind (build_tickets mk preallocated newID db n' routes) (\<lambda>tickets.
               Inr (mk ticketID stationID lineIDs # tickets)))"

fun insert_tickets :: "string \<Rightarrow> time \<Rightarrow> kitchen_ticket list \<Rightarrow> db \<Rightarrow> store_error + db" where
  "insert_tickets operationID now [] db = Inr db"
| "insert_tickets operationID now (t # ts) db =
    rbind (insertTicket t db) (\<lambda>db.
    rbind (insertTicketTransition (kt_ID t) operationID (OtherTicketStatus []) (kt_Status t)
             (kt_Version t) now db) (\<lambda>db.
      insert_tickets operationID now ts db))"

definition next_order_number :: "db \<Rightarrow> string \<Rightarrow> string \<Rightarrow> nat" where
  "next_order_number db tenantID outletID =
    fold max (map or_order_number
      (filter (\<lambda>r. or_tenant_id r = tenantID \<and> or_outlet_id r = outletID) (db_orders db))) 0 + 1"

definition new_order_projection :: "mutation_envelope \<Rightarrow> new_order \<Rightarrow> nat \<Rightarrow> time \<Rightarrow> order" where
  "new_order_projection envelope input number now =
    \<lparr>o_ID = no_ID input, o_TenantID = env_TenantID envelope, o_OutletID = env_OutletID envelope,
     o_BrandID = no_BrandID input, o_ExternalRef = no_ExternalRef input, o_GuestName = no_GuestName input,
     o_TableLabel = no_TableLabel input, o_Note = no_Note input, o_Number = number,
     o_Type = no_Type input, o_Status = OrderReceived, o_Lines = no_Lines input,
     o_PlacedAt = (if IsZero (no_PlacedAt input) then env_OccurredAt envelope else no_PlacedAt input),
     o_TargetAt = no_TargetAt input, o_CreatedAt = now, o_UpdatedAt = now, o_Version = 1\<rparr>"

definition create_order_body ::
  "time \<Rightarrow> (nat \<Rightarrow> string) \<Rightarrow> string \<Rightarrow> string \<Rightarrow> mutation_envelope \<Rightarrow> new_order \<Rightarrow>
   db \<Rightarrow> store_error + stored_response \<times> db" where
  "create_order_body now newID route requestHash envelope input db =
    (if list_ex (\<lambda>r. or_id r = no_ID input) (db_orders db)
     then Inl (conflict ''order_id_reused'' ''order id already exists'' ''id'' (no_ID input))
     else if no_ExternalRef input \<noteq> [] \<and>
        list_ex (\<lambda>r. or_tenant_id r = env_TenantID envelope \<and> or_outlet_id r = env_OutletID envelope
                   \<and> or_external_ref r = Some (no_ExternalRef input)) (db_orders db)
     then Inl (conflict ''duplicate_source_order'' ''external order reference already exists''
                 ''externalRef'' (no_ExternalRef input))
     else let number = next_order_number db (env_TenantID envelope) (env_OutletID envelope);
              ord = new_order_projection envelope input number now
     in rbind (build_tickets (new_ticket envelope input now) (no_StationTicketIDs input) newID db 0
                 (station_routes (no_Lines input))) (\<lambda>tickets.
        rbind (appendOperation envelope ''order'' (o_ID ord) ''order'' (o_ID ord) (o_Version ord)
                 ''order.create'' now db) (\<lambda>db.
        rbind (insertOrder ord db) (\<lambda>db.
        rbind (insertOrderTransition (o_ID ord) (env_ID envelope) (OtherOrderStatus []) (o_Status ord)
                 (o_Version ord) now db) (\<lambda>db.
        rbind (insert_tickets (env_ID envelope) now tickets db) (\<lambda>db.
          finish_command route requestHash envelope
            (responseFor 201 (''/api/v1/orders/'' @ PathEscape (o_ID ord)) (env_ID envelope)
               (CreateOrderResult ord tickets)) now db))))))"

definition CreateOrder ::
  "time \<Rightarrow> (nat \<Rightarrow> string) \<Rightarrow> string \<Rightarrow> string \<Rightarrow> mutation_envelope \<Rightarrow> new_order \<Rightarrow>
   db \<Rightarrow> (store_error + stored_response) \<times> db" where
  "CreateOrder now newID route requestHash envelope input =
    transact (begin_command route requestHash envelope
      (create_order_body now newID route requestHash envelope input))"

subsection \<open>Order and ticket statuses\<close>

definition ticketStatusForOrder :: "order_status \<Rightarrow> ticket_status \<Rightarrow> ticket_status \<times> bool" where
  "ticketStatusForOrder status current =
    (if current = TicketCancelled \<or> current = TicketCompleted then (current, False)
     else let step = (\<lambda>desired. (desired, desired \<noteq> current)) in
       case status of
         OrderAccepted \<Rightarrow> step TicketFired
       | OrderPreparing \<Rightarrow> step TicketPreparing
       | OrderReady \<Rightarrow> step TicketReady
       | OrderCompleted \<Rightarrow> step TicketCompleted
       | OrderCancelled \<Rightarrow> step TicketCancelled
       | _ \<Rightarrow> (current, False))"

text \<open>The flags of the loop of \<open>deriveOrderStatus\<close>.\<close>

record derive_flags =
  df_allCancelled :: bool
  df_allTerminal :: bool
  df_allReady :: bool
  df_hasCompleted :: bool
  df_hasPreparing :: bool
  df_hasFired :: bool

definition derive_step :: "kitchen_ticket \<Rightarrow> derive_flags \<Rightarrow> derive_flags" where
  "derive_step ticket f =
    (let s = kt_Status ticket in
     \<lparr>df_allCancelled = (if s \<noteq> TicketCancelled then False else df_allCancelled f),
      df_allTerminal = (if s \<noteq> TicketCompleted \<and> s \<noteq> TicketCancelled then False else df_allTerminal f),
      df_allReady = (if s \<noteq> TicketReady \<and> s \<noteq> TicketCompleted \<and> s \<noteq> TicketCancelled then False
                     else df_allReady f),
      df_hasCompleted = (if s = TicketCompleted then True else df_hasCompleted f),
      df_hasPreparing = (if s = TicketPreparing \<or> s = TicketReady then True else df_hasPreparing f),
      df_hasFired = (if s = TicketFired then True else df_hasFired f)\<rparr>)"

definition deriveOrderStatus :: "kitchen_ticket list \<Rightarrow> order_status" where
  "deriveOrderStatus tickets =
    (if tickets = [] then OrderReceived
     else let f = fold derive_step tickets
            \<lparr>df_allCancelled = True, df_allTerminal = True, df_allReady = True,
             df_hasCompleted = False, df_hasPreparing = False, df_hasFired = False\<rparr>
     in if df_allCancelled f then OrderCancelled
        else if df_allTerminal f \<and> df_hasCompleted f then OrderCompleted
        else if df_allReady f then OrderReady
        else if df_hasPreparing f \<or> df_hasCompleted f then OrderPreparing
        else if df_hasFired f then OrderAccepted
        else OrderReceived)"

text \<open>The \<open>rank\<close> map; a status that is not a key reads as 0.\<close>

fun order_rank :: "order_status \<Rightarrow> nat" where
  "order_rank OrderReceived = 0"
| "order_rank OrderAccepted = 1"
| "order_rank OrderPreparing = 2"
| "order_rank OrderReady = 3"
| "order_rank OrderCompleted = 4"
| "order_rank _ = 0"

definition shouldAdvanceOrder :: "order_status \<Rightarrow> order_status \<Rightarrow> bool" where
  "shouldAdvanceOrder current candidate =
    (if candidate = OrderCancelled then current \<noteq> OrderCancelled \<and> current \<noteq> OrderCompleted
     else order_rank candidate > order_rank current)"

text \<open>A status change increments the version and sets the time of the update.\<close>

definition move_order :: "order_status \<Rightarrow> time \<Rightarrow> order \<Rightarrow> order" where
  "move_order s now ord = ord\<lparr>o_Status := s, o_Version := o_Version ord + 1, o_UpdatedAt := now\<rparr>"

definition move_ticket :: "ticket_status \<Rightarrow> time \<Rightarrow> kitchen_ticket \<Rightarrow> kitchen_ticket" where
  "move_ticket to' now t = t\<lparr>kt_Status := to', kt_Version := kt_Version t + 1, kt_UpdatedAt := now\<rparr>"

subsection \<open>TransitionOrder\<close>

text \<open>The first loop: the error of the first ticket that would skip a state.\<close>

fun check_tickets :: "order_status \<Rightarrow> kitchen_ticket list \<Rightarrow> store_error + unit" where
  "check_tickets to' [] = Inr ()"
| "check_tickets to' (t # ts) =
    (let (desired, change) = ticketStatusForOrder to' (kt_Status t) in
     if change \<and> \<not> CanTransitionTicket (kt_Status t) desired
     then Inl (invalidTransition (ticket_status_text (kt_Status t)) (ticket_status_text desired))
     else check_tickets to' ts)"

text \<open>The second loop: the updated tickets and the database.\<close>

fun advance_tickets ::
  "string \<Rightarrow> time \<Rightarrow> order_status \<Rightarrow> kitchen_ticket list \<Rightarrow> db \<Rightarrow> store_error + kitchen_ticket list \<times> db" where
  "advance_tickets operationID now to' [] db = Inr ([], db)"
| "advance_tickets operationID now to' (t # ts) db =
    (let (desired, change) = ticketStatusForOrder to' (kt_Status t) in
     if \<not> change then
       rbind (advance_tickets operationID now to' ts db) (\<lambda>(ts', db). Inr (t # ts', db))
     else let t' = move_ticket desired now t in
       rbind (updateTicket t' db) (\<lambda>db.
       rbind (insertTicketTransition (kt_ID t') operationID (kt_Status t) desired (kt_Version t') now db) (\<lambda>db.
       rbind (advance_tickets operationID now to' ts db) (\<lambda>(ts', db). Inr (t' # ts', db)))))"

definition transition_order_body ::
  "time \<Rightarrow> string \<Rightarrow> string \<Rightarrow> string \<Rightarrow> mutation_envelope \<Rightarrow> transition_order_payload \<Rightarrow>
   db \<Rightarrow> store_error + stored_response \<times> db" where
  "transition_order_body now route requestHash orderID envelope input db =
    rbind (getOrder db (env_TenantID envelope) (env_OutletID envelope) orderID) (\<lambda>ord.
    if o_Version ord \<noteq> top_ExpectedVersion input
    then Inl (versionConflict (top_ExpectedVersion input) (o_Version ord))
    else if \<not> CanTransitionOrder (o_Status ord) (top_ToStatus input)
    then Inl (invalidTransition (order_status_text (o_Status ord)) (order_status_text (top_ToStatus input)))
    else let tickets = listTicketsForOrder db (env_TenantID envelope) (env_OutletID envelope) (o_ID ord);
             ord' = move_order (top_ToStatus input) now ord
    in rbind (check_tickets (top_ToStatus input) tickets) (\<lambda>_.
       rbind (appendOperation envelope ''order'' (o_ID ord') ''order'' (o_ID ord') (o_Version ord')
                ''order.transition'' now db) (\<lambda>db.
       rbind (updateOrder ord' db) (\<lambda>db.
       rbind (insertOrderTransition (o_ID ord') (env_ID envelope) (o_Status ord) (o_Status ord')
                (o_Version ord') now db) (\<lambda>db.
       rbind (advance_tickets (env_ID envelope) now (top_ToStatus input) tickets db) (\<lambda>(tickets', db).
         finish_command route requestHash envelope
           (responseFor 200 [] (env_ID envelope) (TransitionOrderResult ord' tickets')) now db))))))"

definition TransitionOrder ::
  "time \<Rightarrow> string \<Rightarrow> string \<Rightarrow> string \<Rightarrow> mutation_envelope \<Rightarrow> transition_order_payload \<Rightarrow>
   db \<Rightarrow> (store_error + stored_response) \<times> db" where
  "TransitionOrder now route requestHash orderID envelope input =
    transact (begin_command route requestHash envelope
      (transition_order_body now route requestHash orderID envelope input))"

subsection \<open>TransitionTicket\<close>

text \<open>The order follows its tickets where it should: lines 576-587 and 679-690.\<close>

definition advance_order ::
  "string \<Rightarrow> time \<Rightarrow> order \<Rightarrow> order_status \<Rightarrow> db \<Rightarrow> store_error + order \<times> db" where
  "advance_order operationID now ord candidate db =
    (if shouldAdvanceOrder (o_Status ord) candidate
     then let ord' = move_order candidate now ord in
       rbind (updateOrder ord' db) (\<lambda>db.
       rbind (insertOrderTransition (o_ID ord') operationID (o_Status ord) (o_Status ord')
                (o_Version ord') now db) (\<lambda>db. Inr (ord', db)))
     else Inr (ord, db))"

definition transition_ticket_body ::
  "time \<Rightarrow> string \<Rightarrow> string \<Rightarrow> string \<Rightarrow> mutation_envelope \<Rightarrow> transition_ticket_payload \<Rightarrow>
   db \<Rightarrow> store_error + stored_response \<times> db" where
  "transition_ticket_body now route requestHash ticketID envelope input db =
    rbind (getTicket db (env_TenantID envelope) (env_OutletID envelope) ticketID) (\<lambda>t.
    if ttp_ExpectedOrderID input \<noteq> [] \<and> kt_OrderID t \<noteq> ttp_ExpectedOrderID input
    then Inl (conflict ''ticket_order_mismatch'' ''kitchen ticket does not belong to orderId''
                ''orderId'' (ttp_ExpectedOrderID input))
    else if kt_Version t \<noteq> ttp_ExpectedVersion input
    then Inl (versionConflict (ttp_ExpectedVersion input) (kt_Version t))
    else if \<not> CanTransitionTicket (kt_Status t) (ttp_ToStatus input)
    then Inl (invalidTransition (ticket_status_text (kt_Status t)) (ticket_status_text (ttp_ToStatus input)))
    else rbind (getOrder db (env_TenantID envelope) (env_OutletID envelope) (kt_OrderID t)) (\<lambda>ord.
    let t' = move_ticket (ttp_ToStatus input) now t in
    rbind (appendOperation envelope ''kitchenTicket'' (kt_ID t') ''order'' (o_ID ord) (kt_Version t')
             ''kitchenTicket.transition'' now db) (\<lambda>db.
    rbind (updateTicket t' db) (\<lambda>db.
    rbind (insertTicketTransition (kt_ID t') (env_ID envelope) (kt_Status t) (kt_Status t')
             (kt_Version t') now db) (\<lambda>db.
    let tickets = listTicketsForOrder db (env_TenantID envelope) (env_OutletID envelope) (o_ID ord) in
    rbind (advance_order (env_ID envelope) now ord (deriveOrderStatus tickets) db) (\<lambda>(ord', db).
      finish_command route requestHash envelope
        (responseFor 200 [] (env_ID envelope) (TransitionTicketResult t' ord')) now db))))))"

definition TransitionTicket ::
  "time \<Rightarrow> string \<Rightarrow> string \<Rightarrow> string \<Rightarrow> mutation_envelope \<Rightarrow> transition_ticket_payload \<Rightarrow>
   db \<Rightarrow> (store_error + stored_response) \<times> db" where
  "TransitionTicket now route requestHash ticketID envelope input =
    transact (begin_command route requestHash envelope
      (transition_ticket_body now route requestHash ticketID envelope input))"

subsection \<open>TransitionOrderTickets\<close>

text \<open>
  The first loop: the pairs of each ticket and its \<open>changedTickets\<close> flag, or the error of
  the first ticket that would skip a state.
\<close>

fun mark_tickets :: "ticket_status \<Rightarrow> kitchen_ticket list \<Rightarrow> store_error + (kitchen_ticket \<times> bool) list" where
  "mark_tickets to' [] = Inr []"
| "mark_tickets to' (t # ts) =
    (if kt_Status t = to' then rbind (mark_tickets to' ts) (\<lambda>marks. Inr ((t, False) # marks))
     else if \<not> CanTransitionTicket (kt_Status t) to'
     then Inl (invalidTransition (ticket_status_text (kt_Status t)) (ticket_status_text to'))
     else rbind (mark_tickets to' ts) (\<lambda>marks. Inr ((t, True) # marks)))"

definition move_marked :: "ticket_status \<Rightarrow> time \<Rightarrow> kitchen_ticket \<times> bool \<Rightarrow> kitchen_ticket" where
  "move_marked to' now mark = (if snd mark then move_ticket to' now (fst mark) else fst mark)"

fun store_marked ::
  "string \<Rightarrow> time \<Rightarrow> ticket_status \<Rightarrow> (kitchen_ticket \<times> bool) list \<Rightarrow> db \<Rightarrow> store_error + db" where
  "store_marked operationID now to' [] db = Inr db"
| "store_marked operationID now to' ((t, changed) # marks) db =
    (if \<not> changed then store_marked operationID now to' marks db
     else let t' = move_ticket to' now t in
       rbind (updateTicket t' db) (\<lambda>db.
       rbind (insertTicketTransition (kt_ID t') operationID (kt_Status t) to' (kt_Version t') now db) (\<lambda>db.
         store_marked operationID now to' marks db)))"

definition transition_order_tickets_body ::
  "time \<Rightarrow> string \<Rightarrow> string \<Rightarrow> string \<Rightarrow> mutation_envelope \<Rightarrow> ticket_status \<Rightarrow> nat \<Rightarrow>
   db \<Rightarrow> store_error + stored_response \<times> db" where
  "transition_order_tickets_body now route requestHash orderID envelope to' expectedOrderVersion db =
    rbind (getOrder db (env_TenantID envelope) (env_OutletID envelope) orderID) (\<lambda>ord.
    if expectedOrderVersion = 0 then Inl (versionConflict expectedOrderVersion (o_Version ord))
    else if o_Version ord \<noteq> expectedOrderVersion
    then Inl (versionConflict expectedOrderVersion (o_Version ord))
    else rbind (mark_tickets to' (listTicketsForOrder db (env_TenantID envelope) (env_OutletID envelope) (o_ID ord)))
      (\<lambda>marks.
    if \<not> list_ex snd marks then Inl (invalidTransition (ticket_status_text to') (ticket_status_text to'))
    else let tickets' = map (move_marked to' now) marks;
             candidate = deriveOrderStatus tickets';
             aggregateVersion = (if shouldAdvanceOrder (o_Status ord) candidate
                                 then o_Version ord + 1 else o_Version ord)
    in rbind (appendOperation envelope ''order'' (o_ID ord) ''order'' (o_ID ord) aggregateVersion
                ''kitchenTicket.transitionAll'' now db) (\<lambda>db.
       rbind (store_marked (env_ID envelope) now to' marks db) (\<lambda>db.
       rbind (advance_order (env_ID envelope) now ord candidate db) (\<lambda>(ord', db).
         finish_command route requestHash envelope
           (responseFor 200 [] (env_ID envelope) (TransitionOrderResult ord' tickets')) now db)))))"

definition TransitionOrderTickets ::
  "time \<Rightarrow> string \<Rightarrow> string \<Rightarrow> string \<Rightarrow> mutation_envelope \<Rightarrow> ticket_status \<Rightarrow> nat \<Rightarrow>
   db \<Rightarrow> (store_error + stored_response) \<times> db" where
  "TransitionOrderTickets now route requestHash orderID envelope to' expectedOrderVersion =
    transact (begin_command route requestHash envelope
      (transition_order_tickets_body now route requestHash orderID envelope to' expectedOrderVersion))"

end
