(* ===== verification/Edge_Status.thy ===== *)
theory Edge_Status
  imports Edge_Commands
begin

text \<open>
  The status machines of orders and tickets and how the store couples them: what a legal
  transition log looks like, that both machines only move upwards, what
  \<open>deriveOrderStatus\<close> computes, and the relation between an order's status and the set of
  its tickets' statuses that every command keeps.
\<close>

subsection \<open>Status machines and their logs\<close>

text \<open>
  A log of (previous status, status, version) entries that starts at the initial status with
  version 1 and continues each time from where it was, by a legal move and the next version.
\<close>

inductive legal_log :: "('s \<Rightarrow> 's \<Rightarrow> bool) \<Rightarrow> 's \<Rightarrow> ('s option \<times> 's \<times> nat) list \<Rightarrow> 's \<Rightarrow> nat \<Rightarrow> bool"
  for moves :: "'s \<Rightarrow> 's \<Rightarrow> bool" and initial :: 's where
  log_start: "legal_log moves initial [(None, initial, 1)] initial 1"
| log_move: "legal_log moves initial log s v \<Longrightarrow> moves s s' \<Longrightarrow>
    legal_log moves initial (log @ [(Some s, s', v + 1)]) s' (v + 1)"

inductive_cases legal_log_NilE: "legal_log moves initial [] s v"

locale status_machine =
  fixes moves :: "'s \<Rightarrow> 's \<Rightarrow> bool"
    and initial :: 's
    and height :: "'s \<Rightarrow> nat"
    and top :: nat
  assumes moves_up: "moves a b \<Longrightarrow> height a < height b"
    and moves_bounded: "moves a b \<Longrightarrow> height b \<le> top"
begin

lemma log_version: "legal_log moves initial log s v \<Longrightarrow> v = length log"
  by (induction rule: legal_log.induct) simp_all

lemma log_height: "legal_log moves initial log s v \<Longrightarrow> v \<le> height s + 1"
  by (induction rule: legal_log.induct) (auto dest: moves_up)

lemma log_bounded: "legal_log moves initial log s v \<Longrightarrow> v \<le> top + 1"
proof (induction rule: legal_log.induct)
  case (log_move log s v s')
  then have "v + 1 \<le> height s + 1 + 1" using log_height by simp
  with log_move moves_up [of s s'] moves_bounded [of s s'] show ?case by simp
qed simp

lemma log_positive: "legal_log moves initial log s v \<Longrightarrow> 1 \<le> v"
  by (induction rule: legal_log.induct) simp_all

text \<open>No status is entered twice.\<close>

lemma log_heights_below: "legal_log moves initial log s v \<Longrightarrow> (f, t, w) \<in> set log \<Longrightarrow> height t \<le> height s"
  by (induction rule: legal_log.induct) (auto dest: moves_up)

lemma log_no_return: "legal_log moves initial log s v \<Longrightarrow> distinct (map (\<lambda>(f, t, w). t) log)"
proof (induction rule: legal_log.induct)
  case (log_move log s v s')
  then have "s' \<notin> (\<lambda>(f, t, w). t) ` set log"
    by (auto dest!: log_heights_below moves_up)
  with log_move show ?case by simp
qed simp

lemma moves_irreflexive: "\<not> moves s s"
  using moves_up by blast

lemma no_cycle: "moves\<^sup>+\<^sup>+ a b \<Longrightarrow> a \<noteq> b"
proof -
  assume "moves\<^sup>+\<^sup>+ a b"
  then have "height a < height b"
    by (induction rule: tranclp_induct) (auto dest: moves_up intro: less_trans)
  then show ?thesis by blast
qed

end

subsection \<open>The two machines\<close>

lemma CanTransitionOrder_simps [status_simps]:
  "CanTransitionOrder s OrderCancelled \<longleftrightarrow> s \<noteq> OrderCompleted \<and> s \<noteq> OrderCancelled"
  "CanTransitionOrder s OrderAccepted \<longleftrightarrow> s = OrderReceived"
  "CanTransitionOrder s OrderPreparing \<longleftrightarrow> s = OrderAccepted"
  "CanTransitionOrder s OrderReady \<longleftrightarrow> s = OrderPreparing"
  "CanTransitionOrder s OrderCompleted \<longleftrightarrow> s = OrderReady"
  "\<not> CanTransitionOrder s OrderReceived"
  "\<not> CanTransitionOrder s (OtherOrderStatus x)"
  by (auto simp: CanTransitionOrder_def split: order_status.splits)

lemma CanTransitionTicket_simps [status_simps]:
  "CanTransitionTicket s TicketCancelled \<longleftrightarrow> s \<noteq> TicketCompleted \<and> s \<noteq> TicketCancelled"
  "CanTransitionTicket s TicketFired \<longleftrightarrow> s = TicketQueued"
  "CanTransitionTicket s TicketPreparing \<longleftrightarrow> s = TicketFired"
  "CanTransitionTicket s TicketReady \<longleftrightarrow> s = TicketPreparing"
  "CanTransitionTicket s TicketCompleted \<longleftrightarrow> s = TicketReady"
  "\<not> CanTransitionTicket s TicketQueued"
  "\<not> CanTransitionTicket s (OtherTicketStatus x)"
  by (auto simp: CanTransitionTicket_def split: ticket_status.splits)

definition order_final :: "order_status \<Rightarrow> bool" where
  "order_final s \<longleftrightarrow> s = OrderCompleted \<or> s = OrderCancelled"

definition ticket_final :: "ticket_status \<Rightarrow> bool" where
  "ticket_final s \<longleftrightarrow> s = TicketCompleted \<or> s = TicketCancelled"

text \<open>
  An order moves by a requested transition or follows its tickets; never out of a final status.
\<close>

definition order_moves :: "order_status \<Rightarrow> order_status \<Rightarrow> bool" where
  "order_moves s s' \<longleftrightarrow> OrderStatus_Valid s \<and> OrderStatus_Valid s' \<and> \<not> order_final s
     \<and> (CanTransitionOrder s s' \<or> shouldAdvanceOrder s s')"

definition ticket_moves :: "ticket_status \<Rightarrow> ticket_status \<Rightarrow> bool" where
  "ticket_moves s s' \<longleftrightarrow> TicketStatus_Valid s \<and> CanTransitionTicket s s'"

fun order_height :: "order_status \<Rightarrow> nat" where
  "order_height OrderCancelled = 5"
| "order_height s = order_rank s"

fun ticket_height :: "ticket_status \<Rightarrow> nat" where
  "ticket_height TicketQueued = 0"
| "ticket_height TicketFired = 1"
| "ticket_height TicketPreparing = 2"
| "ticket_height TicketReady = 3"
| "ticket_height TicketCompleted = 4"
| "ticket_height TicketCancelled = 5"
| "ticket_height (OtherTicketStatus _) = 0"

lemma order_moves_up:
  assumes "order_moves a b"
  shows "order_height a < order_height b" "order_height b \<le> 5"
  using assms
  by (cases a; cases b; simp add: order_moves_def order_final_def shouldAdvanceOrder_def status_simps)+

lemma ticket_moves_up:
  assumes "ticket_moves a b"
  shows "ticket_height a < ticket_height b" "ticket_height b \<le> 5"
  using assms by (cases a; cases b; simp add: ticket_moves_def status_simps)+

interpretation order_log: status_machine order_moves OrderReceived order_height 5
  by unfold_locales (simp_all add: order_moves_up)

interpretation ticket_log: status_machine ticket_moves TicketQueued ticket_height 5
  by unfold_locales (simp_all add: ticket_moves_up)

lemma CanTransitionTicket_not_final: "CanTransitionTicket s s' \<Longrightarrow> \<not> ticket_final s"
  by (cases s'; auto simp: status_simps ticket_final_def)

lemma CanTransitionTicket_valid: "CanTransitionTicket s s' \<Longrightarrow> TicketStatus_Valid s'"
  by (cases s') (simp_all add: status_simps)

lemma CanTransitionOrder_valid: "CanTransitionOrder s s' \<Longrightarrow> OrderStatus_Valid s'"
  by (cases s') (simp_all add: status_simps)

lemma CanTransitionOrder_not_final: "CanTransitionOrder s s' \<Longrightarrow> \<not> order_final s"
  by (cases s'; auto simp: status_simps order_final_def)

subsection \<open>The order status derived from the tickets\<close>

text \<open>What \<open>deriveOrderStatus\<close> computes, as a function of the set of ticket statuses.\<close>

definition derived_status :: "ticket_status set \<Rightarrow> order_status" where
  "derived_status S =
    (if S = {} then OrderReceived
     else if S \<subseteq> {TicketCancelled} then OrderCancelled
     else if S \<subseteq> {TicketCompleted, TicketCancelled} then OrderCompleted
     else if S \<subseteq> {TicketReady, TicketCompleted, TicketCancelled} then OrderReady
     else if TicketPreparing \<in> S \<or> TicketReady \<in> S \<or> TicketCompleted \<in> S then OrderPreparing
     else if TicketFired \<in> S then OrderAccepted
     else OrderReceived)"

lemma derive_fold:
  "fold derive_step ts f =
    \<lparr>df_allCancelled = (df_allCancelled f \<and> kt_Status ` set ts \<subseteq> {TicketCancelled}),
     df_allTerminal = (df_allTerminal f \<and> kt_Status ` set ts \<subseteq> {TicketCompleted, TicketCancelled}),
     df_allReady = (df_allReady f \<and> kt_Status ` set ts \<subseteq> {TicketReady, TicketCompleted, TicketCancelled}),
     df_hasCompleted = (df_hasCompleted f \<or> TicketCompleted \<in> kt_Status ` set ts),
     df_hasPreparing = (df_hasPreparing f \<or> TicketPreparing \<in> kt_Status ` set ts \<or> TicketReady \<in> kt_Status ` set ts),
     df_hasFired = (df_hasFired f \<or> TicketFired \<in> kt_Status ` set ts)\<rparr>"
proof (induction ts arbitrary: f)
  case (Cons t ts)
  show ?case
    unfolding fold_Cons comp_apply Cons.IH by (simp add: derive_step_def Let_def)
qed (cases f, simp)

lemma derive_status_set: "deriveOrderStatus ts = derived_status (kt_Status ` set ts)"
proof (cases "ts = []")
  case False
  define S where "S = kt_Status ` set ts"
  have ne: "S \<noteq> {}" using False by (simp add: S_def)
  have completed: "S \<subseteq> {TicketCompleted, TicketCancelled} \<and> TicketCompleted \<in> S
      \<longleftrightarrow> S \<subseteq> {TicketCompleted, TicketCancelled}" if "\<not> S \<subseteq> {TicketCancelled}"
    using that by blast
  show ?thesis
    unfolding deriveOrderStatus_def derive_fold Let_def derived_status_def S_def [symmetric]
    using False ne completed by (simp del: subset_insert_iff)
qed (simp add: deriveOrderStatus_def derived_status_def)

lemma derived_valid: "OrderStatus_Valid (derived_status S)"
  by (simp add: derived_status_def)

lemma derived_final: "order_final (derived_status S) \<Longrightarrow> s \<in> S \<Longrightarrow> ticket_final s"
  by (auto simp: derived_status_def order_final_def ticket_final_def split: if_splits)

subsection \<open>The coupling of an order and its tickets\<close>

text \<open>
  All statuses are constants; a final order has only final tickets; an order that is not
  cancelled is not behind its tickets.
\<close>

definition coupled :: "order_status \<Rightarrow> ticket_status set \<Rightarrow> bool" where
  "coupled s S \<longleftrightarrow> OrderStatus_Valid s \<and> (\<forall>x \<in> S. TicketStatus_Valid x)
     \<and> (order_final s \<longrightarrow> (\<forall>x \<in> S. ticket_final x))
     \<and> (s \<noteq> OrderCancelled \<longrightarrow> \<not> shouldAdvanceOrder s (derived_status S))"

lemma coupled_new: "S \<subseteq> {TicketQueued} \<Longrightarrow> coupled OrderReceived S"
proof -
  assume "S \<subseteq> {TicketQueued}"
  then have "S = {} \<or> S = {TicketQueued}" by blast
  then show ?thesis
    by (elim disjE) (simp_all add: coupled_def order_final_def derived_status_def shouldAdvanceOrder_def)
qed

lemma coupled_final: "coupled s S \<Longrightarrow> x \<in> S \<Longrightarrow> \<not> ticket_final x \<Longrightarrow> \<not> order_final s"
  by (auto simp: coupled_def)

text \<open>After some ticket moved, the order that follows its tickets is coupled to them again.\<close>

lemma shouldAdvance_irrefl: "\<not> shouldAdvanceOrder s s"
  by (simp add: shouldAdvanceOrder_def)

lemma coupled_follow:
  assumes "OrderStatus_Valid s" "\<not> order_final s" "\<forall>x \<in> S. TicketStatus_Valid x"
  shows "coupled (if shouldAdvanceOrder s (derived_status S) then derived_status S else s) S"
proof (cases "shouldAdvanceOrder s (derived_status S)")
  case True
  with assms(3) derived_valid [of S] derived_final [of S] shouldAdvance_irrefl show ?thesis
    unfolding coupled_def by auto
next
  case False
  with assms show ?thesis by (simp add: coupled_def)
qed

text \<open>The statuses that an order of rank at most 2 leaves to its tickets.\<close>

lemma not_behind:
  assumes "\<not> shouldAdvanceOrder s (derived_status S)" "\<forall>x \<in> S. TicketStatus_Valid x"
  shows "s = OrderReceived \<Longrightarrow> S \<subseteq> {TicketQueued, TicketCancelled}"
    and "s = OrderAccepted \<Longrightarrow> S \<subseteq> {TicketQueued, TicketFired, TicketCancelled}"
    and "\<not> order_final s \<Longrightarrow> OrderStatus_Valid s \<Longrightarrow> S \<noteq> {} \<Longrightarrow> \<exists>x \<in> S. \<not> ticket_final x"
proof -
  have valid: "x \<in> {TicketQueued, TicketFired, TicketPreparing, TicketReady, TicketCompleted, TicketCancelled}"
    if "x \<in> S" for x
    using assms(2) that by (cases x) auto
  show "S \<subseteq> {TicketQueued, TicketCancelled}" if "s = OrderReceived"
    using assms(1) valid that
    by (auto simp: derived_status_def shouldAdvanceOrder_def split: if_splits)
  show "S \<subseteq> {TicketQueued, TicketFired, TicketCancelled}" if "s = OrderAccepted"
    using assms(1) valid that
    by (auto simp: derived_status_def shouldAdvanceOrder_def split: if_splits)
  show "\<exists>x \<in> S. \<not> ticket_final x" if "\<not> order_final s" "OrderStatus_Valid s" "S \<noteq> {}"
    using assms(1) that unfolding ticket_final_def order_final_def
    by (cases s) (auto simp: derived_status_def shouldAdvanceOrder_def split: if_splits)
qed

text \<open>A requested order transition whose ticket steps are all legal.\<close>

definition followed :: "order_status \<Rightarrow> ticket_status \<Rightarrow> ticket_status" where
  "followed to' x = fst (ticketStatusForOrder to' x)"

definition follow_legal :: "order_status \<Rightarrow> ticket_status \<Rightarrow> bool" where
  "follow_legal to' x \<longleftrightarrow>
     (snd (ticketStatusForOrder to' x) \<longrightarrow> CanTransitionTicket x (followed to' x))"

lemma followed_unchanged: "\<not> snd (ticketStatusForOrder to' x) \<Longrightarrow> followed to' x = x"
  by (auto simp: followed_def ticketStatusForOrder_def Let_def split: if_splits order_status.splits)

lemma followed_final: "ticket_final x \<Longrightarrow> followed to' x = x \<and> \<not> snd (ticketStatusForOrder to' x)"
  by (auto simp: followed_def ticketStatusForOrder_def ticket_final_def)

lemma followed_open:
  assumes "\<not> ticket_final x"
  shows "followed OrderAccepted x = TicketFired" "followed OrderPreparing x = TicketPreparing"
    "followed OrderReady x = TicketReady" "followed OrderCompleted x = TicketCompleted"
    "followed OrderCancelled x = TicketCancelled"
  using assms by (simp_all add: followed_def ticketStatusForOrder_def ticket_final_def Let_def)

text \<open>All tickets go to one status, apart from those that were final; one was not.\<close>

lemma followed_image:
  assumes "\<And>x. x \<in> S \<Longrightarrow> \<not> ticket_final x \<Longrightarrow> followed s' x = d" and "x0 \<in> S" "\<not> ticket_final x0"
  shows "followed s' ` S = insert d (S \<inter> {TicketCompleted, TicketCancelled})"
proof
  show "followed s' ` S \<subseteq> insert d (S \<inter> {TicketCompleted, TicketCancelled})"
  proof
    fix y assume "y \<in> followed s' ` S"
    then obtain x where x: "x \<in> S" "y = followed s' x" by blast
    then show "y \<in> insert d (S \<inter> {TicketCompleted, TicketCancelled})"
      using assms(1) [of x] followed_final [of x s'] by (cases "ticket_final x") (auto simp: ticket_final_def)
  qed
  have "y \<in> followed s' ` S" if "y = d \<or> y \<in> S \<and> ticket_final y" for y
    using that assms followed_final [of y s'] by (metis image_eqI)
  then show "insert d (S \<inter> {TicketCompleted, TicketCancelled}) \<subseteq> followed s' ` S"
    unfolding ticket_final_def by blast
qed

lemma coupled_transition:
  assumes c: "coupled s S" and step: "CanTransitionOrder s s'" and legal: "\<forall>x \<in> S. follow_legal s' x"
  shows "coupled s' (followed s' ` S)"
proof -
  from c have valid: "\<forall>x \<in> S. TicketStatus_Valid x" and sv: "OrderStatus_Valid s"
    and nb: "s \<noteq> OrderCancelled \<longrightarrow> \<not> shouldAdvanceOrder s (derived_status S)"
    by (auto simp: coupled_def)
  have nf: "\<not> order_final s" using step by (rule CanTransitionOrder_not_final)
  then have nb: "\<not> shouldAdvanceOrder s (derived_status S)" using nb by (auto simp: order_final_def)
  have cases: "x \<in> {TicketQueued, TicketFired, TicketPreparing, TicketReady, TicketCompleted, TicketCancelled}"
    if "x \<in> S" for x using valid that by (cases x) auto
  have open_ticket: "\<exists>x \<in> S. \<not> ticket_final x" if "S \<noteq> {}"
    using not_behind(3) [OF nb valid nf sv that] .
  have fvalid: "\<forall>x \<in> followed s' ` S. TicketStatus_Valid x"
  proof
    fix y assume "y \<in> followed s' ` S"
    then obtain x where x: "x \<in> S" "y = followed s' x" by blast
    show "TicketStatus_Valid y"
    proof (cases "snd (ticketStatusForOrder s' x)")
      case True
      with legal x show ?thesis by (auto simp: follow_legal_def dest: CanTransitionTicket_valid)
    qed (use x valid followed_unchanged in auto)
  qed
  show ?thesis
  proof (cases "S = {}")
    case True
    with step show ?thesis
      by (cases s'; simp add: status_simps coupled_def derived_status_def shouldAdvanceOrder_def order_final_def)
  next
    case False
    from open_ticket [OF False] obtain x0 where x0: "x0 \<in> S" "\<not> ticket_final x0" by blast
    note image = followed_image [OF _ x0, of s']
    show ?thesis
    proof (cases s')
      case OrderAccepted
      then have "S \<subseteq> {TicketQueued, TicketCancelled}"
        using not_behind(1) [OF nb valid] step by (simp add: status_simps)
      with OrderAccepted fvalid image [of TicketFired] show ?thesis
        by (auto simp: coupled_def order_final_def derived_status_def shouldAdvanceOrder_def followed_open)
    next
      case OrderPreparing
      then have "S \<subseteq> {TicketQueued, TicketFired, TicketCancelled}"
        using not_behind(2) [OF nb valid] step by (simp add: status_simps)
      with OrderPreparing fvalid image [of TicketPreparing] show ?thesis
        by (auto simp: coupled_def order_final_def derived_status_def shouldAdvanceOrder_def followed_open)
    next
      case OrderReady
      with fvalid image [of TicketReady] show ?thesis
        by (auto simp: coupled_def order_final_def derived_status_def shouldAdvanceOrder_def followed_open)
    next
      case OrderCompleted
      with fvalid image [of TicketCompleted] show ?thesis
        by (auto simp: coupled_def order_final_def ticket_final_def derived_status_def
            shouldAdvanceOrder_def followed_open)
    next
      case OrderCancelled
      with fvalid image [of TicketCancelled] show ?thesis
        by (auto simp: coupled_def order_final_def ticket_final_def followed_open)
    qed (use step in \<open>simp_all add: status_simps\<close>)
  qed
qed

end
