(* ===== verification/Edge_Tables.thy ===== *)
theory Edge_Tables
  imports Edge_Status Tables
begin

text \<open>
  The edge database as finite maps: the order and ticket tables are instances of the keyed
  tables of \<open>Tables\<close>, and each statement of the store is, on a well-formed database, a
  lookup or an update of the map of orders or of tickets.
\<close>

definition order_identity :: "order \<Rightarrow> string \<times> string \<times> string \<times> string \<times> nat \<times> time" where
  "order_identity ord =
    (o_ID ord, o_TenantID ord, o_OutletID ord, o_ExternalRef ord, o_Number ord, o_CreatedAt ord)"

definition ticket_identity :: "kitchen_ticket \<Rightarrow> string \<times> string \<times> string \<times> string \<times> string \<times> int \<times> time" where
  "ticket_identity t =
    (kt_ID t, kt_TenantID t, kt_OutletID t, kt_OrderID t, kt_StationID t, kt_Priority t, kt_CreatedAt t)"

interpretation order_table: keyed_table or_id or_data_json order_row_of order_rows_clash order_identity
proof unfold_locales
  show "order_rows_clash a b \<Longrightarrow> order_rows_clash b a" for a b :: order_row
    unfolding order_rows_clash_def by metis
qed (simp_all add: order_row_of_def order_rows_clash_def order_identity_def)

interpretation ticket_table: keyed_table tk_id tk_data_json ticket_row_of ticket_rows_clash ticket_identity
  by unfold_locales (auto simp: ticket_row_of_def ticket_rows_clash_def ticket_identity_def)

definition orders_map :: "db \<Rightarrow> string \<Rightarrow> order option" where
  "orders_map db = table_map or_id or_data_json (db_orders db)"

definition tickets_map :: "db \<Rightarrow> string \<Rightarrow> kitchen_ticket option" where
  "tickets_map db = table_map tk_id tk_data_json (db_tickets db)"

definition orders_ok :: "db \<Rightarrow> bool" where
  "orders_ok db \<longleftrightarrow> table_ok order_rows_clash order_row_of or_data_json (db_orders db)"

text \<open>Besides the table itself, every ticket belongs to a stored order of its tenant and outlet.\<close>

definition tickets_ok :: "db \<Rightarrow> bool" where
  "tickets_ok db \<longleftrightarrow> table_ok ticket_rows_clash ticket_row_of tk_data_json (db_tickets db)"

definition owned :: "db \<Rightarrow> bool" where
  "owned db \<longleftrightarrow> (\<forall>t \<in> ran (tickets_map db). \<exists>ord. orders_map db (kt_OrderID t) = Some ord
     \<and> o_TenantID ord = kt_TenantID t \<and> o_OutletID ord = kt_OutletID t)"

definition same_idempotency_key :: "idempotency_row \<Rightarrow> idempotency_row \<Rightarrow> bool" where
  "same_idempotency_key a b \<longleftrightarrow> ir_tenant_id a = ir_tenant_id b \<and> ir_actor_id a = ir_actor_id b
     \<and> ir_route a = ir_route b \<and> ir_idempotency_key a = ir_idempotency_key b"

definition idempotency_ok :: "db \<Rightarrow> bool" where
  "idempotency_ok db \<longleftrightarrow> sorted_wrt (\<lambda>a b. \<not> same_idempotency_key a b) (db_idempotency db)"

text \<open>
  The operation log is numbered from 1 without gaps, its identifiers are distinct, the outbox
  has exactly its operations in the same order, and an operation carries the scope and the
  identifier of its mutation.
\<close>

definition operations_ok :: "db \<Rightarrow> bool" where
  "operations_ok db \<longleftrightarrow>
     map opr_sequence (db_operations db) = [1..<Suc (length (db_operations db))]
     \<and> distinct (map opr_operation_id (db_operations db))
     \<and> map ob_operation_id (db_outbox db) = map opr_operation_id (db_operations db)
     \<and> (\<forall>r \<in> set (db_operations db). opr_causality_type r = ''order''
          \<and> (\<exists>e. opr_mutation_json r = marshal_envelope e \<and> opr_operation_id r = env_ID e \<and> opr_tenant_id r = env_TenantID e
                \<and> opr_outlet_id r = env_OutletID e))"

definition tables_ok :: "db \<Rightarrow> bool" where
  "tables_ok db \<longleftrightarrow> orders_ok db \<and> tickets_ok db \<and> operations_ok db \<and> idempotency_ok db"

text \<open>Each predicate and map reads its own tables only.\<close>

lemma frame [row_simps]:
  "db_orders db' = db_orders db \<Longrightarrow> orders_ok db' = orders_ok db"
  "db_orders db' = db_orders db \<Longrightarrow> orders_map db' = orders_map db"
  "db_tickets db' = db_tickets db \<Longrightarrow> tickets_ok db' = tickets_ok db"
  "db_tickets db' = db_tickets db \<Longrightarrow> tickets_map db' = tickets_map db"
  "db_operations db' = db_operations db \<Longrightarrow> db_outbox db' = db_outbox db \<Longrightarrow> operations_ok db' = operations_ok db"
  "db_idempotency db' = db_idempotency db \<Longrightarrow> idempotency_ok db' = idempotency_ok db"
  by (simp_all add: orders_ok_def orders_map_def tickets_ok_def tickets_map_def operations_ok_def idempotency_ok_def)

lemma empty_db_simps [simp]:
  "orders_map empty_db = (\<lambda>_. None)" "tickets_map empty_db = (\<lambda>_. None)" "tables_ok empty_db"
  by (simp_all add: empty_db_def orders_map_def tickets_map_def tables_ok_def orders_ok_def tickets_ok_def
      operations_ok_def idempotency_ok_def)

subsection \<open>Orders\<close>

lemma getOrder_map:
  assumes "orders_ok db"
  shows "getOrder db tenant outlet id' =
    (case orders_map db id' of
       None \<Rightarrow> Inl (notFound ''order'' id')
     | Some ord \<Rightarrow> if o_TenantID ord = tenant \<and> o_OutletID ord = outlet then Inr ord
                   else Inl (notFound ''order'' id'))"
proof -
  have "List.find (\<lambda>r. or_tenant_id r = tenant \<and> or_outlet_id r = outlet \<and> or_id r = id') (db_orders db)
      = List.find (\<lambda>r. (or_tenant_id r = tenant \<and> or_outlet_id r = outlet) \<and> or_id r = id') (db_orders db)"
    by (simp only: conj_assoc)
  also have "\<dots> = (case orders_map db id' of None \<Rightarrow> None | Some d \<Rightarrow>
      if or_tenant_id (order_row_of d) = tenant \<and> or_outlet_id (order_row_of d) = outlet then Some (order_row_of d) else None)"
    using assms unfolding orders_map_def orders_ok_def by (rule order_table.find_key)
  finally show ?thesis
    by (simp add: getOrder_def order_row_of_def split: option.splits)
qed

lemma getOrder_Inr:
  assumes "orders_ok db" "getOrder db tenant outlet id' = Inr ord"
  shows "orders_map db id' = Some ord" "o_TenantID ord = tenant" "o_OutletID ord = outlet"
  using assms by (auto simp: getOrder_map split: option.splits if_splits)

lemma orders_map_id: "orders_ok db \<Longrightarrow> orders_map db id' = Some ord \<Longrightarrow> o_ID ord = id'"
  by (simp add: orders_map_def orders_ok_def order_table.to_map_Some order_row_of_def)

lemma insertOrder_Inr:
  assumes ok: "orders_ok db" and ins: "insertOrder ord db = Inr db'"
  shows "db' = db\<lparr>db_orders := db_orders db'\<rparr>" "orders_ok db'"
    "orders_map db' = (orders_map db)(o_ID ord \<mapsto> ord)" "orders_map db (o_ID ord) = None"
proof -
  from ins have fresh: "\<not> list_ex (order_rows_clash (order_row_of ord)) (db_orders db)"
    and db': "db' = db\<lparr>db_orders := db_orders db @ [order_row_of ord]\<rparr>"
    by (auto simp: insertOrder_def split: if_splits)
  from db' show "db' = db\<lparr>db_orders := db_orders db'\<rparr>" by simp
  from order_table.insert_row [OF _ fresh] ok
  show "orders_ok db'" "orders_map db' = (orders_map db)(o_ID ord \<mapsto> ord)"
    by (simp_all add: orders_ok_def orders_map_def db' order_row_of_def)
  from fresh show "orders_map db (o_ID ord) = None"
    by (auto simp: orders_map_def order_table.to_map_None list_ex_iff order_rows_clash_def order_row_of_def)
qed

lemma updateOrder_map:
  assumes ok: "orders_ok db" and old: "orders_map db (o_ID ord) = Some old"
    and ident: "order_identity old = order_identity ord"
  obtains db' where "updateOrder ord db = Inr db'" "db' = db\<lparr>db_orders := db_orders db'\<rparr>" "orders_ok db'"
    "orders_map db' = (orders_map db)(o_ID ord \<mapsto> ord)"
proof -
  define hit where "hit = (\<lambda>r :: order_row. or_id r = o_ID ord \<and> or_tenant_id r = o_TenantID ord \<and> or_outlet_id r = o_OutletID ord)"
  define put where "put = (\<lambda>r :: order_row. r\<lparr>or_status := o_Status ord, or_version := o_Version ord, or_data_json := ord,
      or_updated_at := formatTime (o_UpdatedAt ord)\<rparr>)"
  have key: "or_id (order_row_of ord) = o_ID ord" by (simp add: order_row_of_def)
  have row: "r = order_row_of old" if "r \<in> set (db_orders db)" "or_id r = o_ID ord" for r
    using that ok old order_table.rows_are_values [of "db_orders db" r]
    by (auto simp: orders_ok_def orders_map_def table_ok_def)
  have hit': "hit r \<longleftrightarrow> or_id r = or_id (order_row_of ord)" if "r \<in> set (db_orders db)" for r
    using row [OF that] ident by (auto simp: hit_def key order_identity_def order_row_of_def)
  have put': "put (order_row_of old) = order_row_of ord"
    using ident by (simp add: put_def order_row_of_def order_identity_def)
  note upd = order_table.update_row [of "db_orders db" ord old hit put, OF _ _ ident hit' put']
  show ?thesis
  proof
    show "updateOrder ord db = Inr (db\<lparr>db_orders := map (\<lambda>r. if hit r then put r else r) (db_orders db)\<rparr>)"
      using upd(1) ok old
      by (simp add: updateOrder_def requireOne_def Let_def hit_def put_def orders_ok_def orders_map_def key)
  qed (use upd(2,3) ok old in \<open>simp_all add: orders_ok_def orders_map_def key\<close>)
qed

lemma updateOrder_Inr:
  assumes "orders_ok db" "orders_map db (o_ID ord) = Some old" "order_identity old = order_identity ord"
    and "updateOrder ord db = Inr db'"
  shows "db' = db\<lparr>db_orders := db_orders db'\<rparr>" "orders_ok db'"
    "orders_map db' = (orders_map db)(o_ID ord \<mapsto> ord)"
  using updateOrder_map [OF assms(1-3)] assms(4) by auto

subsection \<open>Tickets\<close>

lemma getTicket_map:
  assumes "tickets_ok db"
  shows "getTicket db tenant outlet id' =
    (case tickets_map db id' of
       None \<Rightarrow> Inl (notFound ''kitchen ticket'' id')
     | Some t \<Rightarrow> if kt_TenantID t = tenant \<and> kt_OutletID t = outlet then Inr t
                 else Inl (notFound ''kitchen ticket'' id'))"
proof -
  have "List.find (\<lambda>r. tk_tenant_id r = tenant \<and> tk_outlet_id r = outlet \<and> tk_id r = id') (db_tickets db)
      = List.find (\<lambda>r. (tk_tenant_id r = tenant \<and> tk_outlet_id r = outlet) \<and> tk_id r = id') (db_tickets db)"
    by (simp only: conj_assoc)
  also have "\<dots> = (case tickets_map db id' of None \<Rightarrow> None | Some d \<Rightarrow>
      if tk_tenant_id (ticket_row_of d) = tenant \<and> tk_outlet_id (ticket_row_of d) = outlet then Some (ticket_row_of d) else None)"
    using assms unfolding tickets_map_def tickets_ok_def by (rule ticket_table.find_key)
  finally show ?thesis
    by (simp add: getTicket_def ticket_row_of_def
        split: option.splits)
qed

lemma getTicket_Inr:
  assumes "tickets_ok db" "getTicket db tenant outlet id' = Inr t"
  shows "tickets_map db id' = Some t" "kt_TenantID t = tenant" "kt_OutletID t = outlet"
  using assms by (auto simp: getTicket_map split: option.splits if_splits)

lemma tickets_map_id: "tickets_ok db \<Longrightarrow> tickets_map db id' = Some t \<Longrightarrow> kt_ID t = id'"
  by (simp add: tickets_map_def tickets_ok_def ticket_table.to_map_Some ticket_row_of_def)

lemma insertTicket_Inr:
  assumes ok: "tickets_ok db" and ins: "insertTicket t db = Inr db'"
  shows "db' = db\<lparr>db_tickets := db_tickets db'\<rparr>" "tickets_ok db'"
    "tickets_map db' = (tickets_map db)(kt_ID t \<mapsto> t)" "tickets_map db (kt_ID t) = None"
proof -
  from ins have fresh: "\<not> list_ex (ticket_rows_clash (ticket_row_of t)) (db_tickets db)"
    and db': "db' = db\<lparr>db_tickets := db_tickets db @ [ticket_row_of t]\<rparr>"
    by (auto simp: insertTicket_def split: if_splits)
  from db' show "db' = db\<lparr>db_tickets := db_tickets db'\<rparr>" by simp
  from ticket_table.insert_row [OF _ fresh] ok
  show "tickets_ok db'" "tickets_map db' = (tickets_map db)(kt_ID t \<mapsto> t)"
    by (simp_all add: tickets_ok_def tickets_map_def db' ticket_row_of_def)
  from fresh show "tickets_map db (kt_ID t) = None"
    by (auto simp: tickets_map_def ticket_table.to_map_None list_ex_iff ticket_rows_clash_def ticket_row_of_def)
qed

lemma updateTicket_map:
  assumes ok: "tickets_ok db" and old: "tickets_map db (kt_ID t) = Some old"
    and ident: "ticket_identity old = ticket_identity t"
  obtains db' where "updateTicket t db = Inr db'" "db' = db\<lparr>db_tickets := db_tickets db'\<rparr>" "tickets_ok db'"
    "tickets_map db' = (tickets_map db)(kt_ID t \<mapsto> t)"
proof -
  define hit where "hit = (\<lambda>r :: ticket_row. tk_id r = kt_ID t \<and> tk_tenant_id r = kt_TenantID t \<and> tk_outlet_id r = kt_OutletID t)"
  define put where "put = (\<lambda>r :: ticket_row. r\<lparr>tk_status := kt_Status t, tk_version := kt_Version t, tk_data_json := t,
      tk_updated_at := formatTime (kt_UpdatedAt t)\<rparr>)"
  have key: "tk_id (ticket_row_of t) = kt_ID t" by (simp add: ticket_row_of_def)
  have row: "r = ticket_row_of old" if "r \<in> set (db_tickets db)" "tk_id r = kt_ID t" for r
    using that ok old ticket_table.rows_are_values [of "db_tickets db" r]
    by (auto simp: tickets_ok_def tickets_map_def table_ok_def)
  have hit': "hit r \<longleftrightarrow> tk_id r = tk_id (ticket_row_of t)" if "r \<in> set (db_tickets db)" for r
    using row [OF that] ident by (auto simp: hit_def key ticket_identity_def ticket_row_of_def)
  have put': "put (ticket_row_of old) = ticket_row_of t"
    using ident by (simp add: put_def ticket_row_of_def ticket_identity_def)
  note upd = ticket_table.update_row [of "db_tickets db" t old hit put, OF _ _ ident hit' put']
  show ?thesis
  proof
    show "updateTicket t db = Inr (db\<lparr>db_tickets := map (\<lambda>r. if hit r then put r else r) (db_tickets db)\<rparr>)"
      using upd(1) ok old
      by (simp add: updateTicket_def requireOne_def Let_def hit_def put_def tickets_ok_def tickets_map_def key)
  qed (use upd(2,3) ok old in \<open>simp_all add: tickets_ok_def tickets_map_def key\<close>)
qed

text \<open>\<open>listTicketsForOrder\<close> returns the tickets of the scope and order, each once.\<close>

lemma set_listTickets:
  assumes "tickets_ok db"
  shows "set (listTicketsForOrder db tenant outlet orderID) =
    {t \<in> ran (tickets_map db). kt_TenantID t = tenant \<and> kt_OutletID t = outlet \<and> kt_OrderID t = orderID}"
proof -
  have "t \<in> set (listTicketsForOrder db tenant outlet orderID) \<longleftrightarrow> ticket_row_of t \<in> set (db_tickets db)
      \<and> kt_TenantID t = tenant \<and> kt_OutletID t = outlet \<and> kt_OrderID t = orderID" for t
  proof -
    have "t \<in> set (listTicketsForOrder db tenant outlet orderID) \<longleftrightarrow>
        (\<exists>r \<in> set (db_tickets db). t = tk_data_json r \<and> tk_tenant_id r = tenant \<and> tk_outlet_id r = outlet \<and> tk_order_id r = orderID)"
      by (auto simp: listTicketsForOrder_def)
    also have "\<dots> \<longleftrightarrow> (\<exists>r \<in> set (db_tickets db). r = ticket_row_of t \<and> tk_tenant_id r = tenant \<and> tk_outlet_id r = outlet \<and> tk_order_id r = orderID)"
      using assms by (intro bex_cong) (auto simp: tickets_ok_def table_ok_def)
    also have "\<dots> \<longleftrightarrow> ticket_row_of t \<in> set (db_tickets db)
        \<and> kt_TenantID t = tenant \<and> kt_OutletID t = outlet \<and> kt_OrderID t = orderID"
      by (auto simp: ticket_row_of_def)
    finally show ?thesis .
  qed
  then show ?thesis
    using assms by (auto simp: tickets_ok_def tickets_map_def ticket_table.ran_to_map)
qed

lemma distinct_listTickets:
  assumes "tickets_ok db"
  shows "distinct (map kt_ID (listTicketsForOrder db tenant outlet orderID))"
proof -
  have row: "kt_ID (tk_data_json r) = tk_id r" if "r \<in> set (db_tickets db)" for r
  proof -
    have "ticket_row_of (tk_data_json r) = r" using assms that by (simp add: tickets_ok_def table_ok_def)
    then show ?thesis by (metis ticket_row.select_convs(1) ticket_row_of_def)
  qed
  define rows where "rows = sort_key (\<lambda>r. (tk_created_at r, tk_id r))
      (filter (\<lambda>r. tk_tenant_id r = tenant \<and> tk_outlet_id r = outlet \<and> tk_order_id r = orderID) (db_tickets db))"
  have "set rows \<subseteq> set (db_tickets db)" by (auto simp: rows_def)
  with row have "map kt_ID (map tk_data_json rows) = map tk_id rows" by auto
  moreover have "distinct (map tk_id rows)"
    using ticket_table.distinct_keys [of "db_tickets db"] assms
    by (simp add: rows_def tickets_ok_def distinct_map_filter inj_on_subset distinct_map inj_on_def)
  ultimately have "distinct (map kt_ID (map tk_data_json rows))" by (simp only:)
  then show ?thesis by (simp only: listTicketsForOrder_def rows_def)
qed

end
