(* ===== verification/Edge_Invariant.thy ===== *)
theory Edge_Invariant
  imports Edge_Tables
begin

text \<open>
  The invariant of the edge database and its preservation by the statements the commands are
  made of: a status change of an order or ticket together with its log entry, the recording of
  an operation, the insertion of new rows. \<open>base\<close> holds between any two of these steps;
  the coupling of orders and tickets holds between commands.
\<close>

definition log_entry :: "'s transition_row \<Rightarrow> 's option \<times> 's \<times> nat" where
  "log_entry r = (tr_from_status r, tr_to_status r, tr_version r)"

definition log_of :: "'s transition_row list \<Rightarrow> string \<Rightarrow> ('s option \<times> 's \<times> nat) list" where
  "log_of rows subject = map log_entry (filter (\<lambda>r. tr_subject_id r = subject) rows)"

text \<open>Every stored order and ticket has a legal log that ends in its status and version; nothing else has one.\<close>

definition logs_ok ::
  "('s \<Rightarrow> 's \<Rightarrow> bool) \<Rightarrow> 's \<Rightarrow> ('d \<Rightarrow> 's) \<Rightarrow> ('d \<Rightarrow> nat) \<Rightarrow> 's transition_row list \<Rightarrow>
   (string \<Rightarrow> 'd option) \<Rightarrow> bool" where
  "logs_ok moves initial status version rows m \<longleftrightarrow> (\<forall>k. case m k of
     None \<Rightarrow> log_of rows k = []
   | Some d \<Rightarrow> legal_log moves initial (log_of rows k) (status d) (version d))"

definition order_logs_ok :: "db \<Rightarrow> bool" where
  "order_logs_ok db \<longleftrightarrow>
     logs_ok order_moves OrderReceived o_Status o_Version (db_order_transitions db) (orders_map db)"

definition ticket_logs_ok :: "db \<Rightarrow> bool" where
  "ticket_logs_ok db \<longleftrightarrow>
     logs_ok ticket_moves TicketQueued kt_Status kt_Version (db_ticket_transitions db) (tickets_map db)"

text \<open>Every operation belongs to the stream of a stored order of its scope.\<close>

definition attributed :: "db \<Rightarrow> bool" where
  "attributed db \<longleftrightarrow> (\<forall>r \<in> set (db_operations db). \<exists>ord. orders_map db (opr_causality_id r) = Some ord
     \<and> o_TenantID ord = opr_tenant_id r \<and> o_OutletID ord = opr_outlet_id r)"

definition base :: "db \<Rightarrow> bool" where
  "base db \<longleftrightarrow> tables_ok db \<and> owned db \<and> order_logs_ok db \<and> ticket_logs_ok db"

definition ticket_statuses :: "db \<Rightarrow> string \<Rightarrow> ticket_status set" where
  "ticket_statuses db k = kt_Status ` {t \<in> ran (tickets_map db). kt_OrderID t = k}"

definition coupling :: "db \<Rightarrow> bool" where
  "coupling db \<longleftrightarrow> (\<forall>k ord. orders_map db k = Some ord \<longrightarrow> coupled (o_Status ord) (ticket_statuses db k))"

definition edge_ok :: "db \<Rightarrow> bool" where
  "edge_ok db \<longleftrightarrow> base db \<and> attributed db \<and> coupling db"

lemma baseD:
  assumes "base db"
  shows "tables_ok db" "orders_ok db" "tickets_ok db" "operations_ok db" "idempotency_ok db"
    "owned db" "order_logs_ok db" "ticket_logs_ok db"
  using assms by (simp_all add: base_def tables_ok_def)

lemma log_of_Nil [simp]: "log_of [] k = []"
  by (simp add: log_of_def)

lemma log_of_snoc: "log_of (rows @ [r]) k = (if tr_subject_id r = k then log_of rows k @ [log_entry r] else log_of rows k)"
  by (simp add: log_of_def)

lemma logs_ok_move:
  assumes "logs_ok moves initial status version rows m" "m (tr_subject_id r) = Some d"
    and "moves (status d) (status d')" "version d' = version d + 1"
    and "log_entry r = (Some (status d), status d', version d')"
  shows "logs_ok moves initial status version (rows @ [r]) (m(tr_subject_id r \<mapsto> d'))"
  unfolding logs_ok_def
proof
  fix k
  from assms(1) have log: "case m k of None \<Rightarrow> log_of rows k = []
    | Some d \<Rightarrow> legal_log moves initial (log_of rows k) (status d) (version d)"
    by (simp add: logs_ok_def)
  show "case (m(tr_subject_id r \<mapsto> d')) k of None \<Rightarrow> log_of (rows @ [r]) k = []
    | Some d \<Rightarrow> legal_log moves initial (log_of (rows @ [r]) k) (status d) (version d)"
    using log assms(2-) log_move [of moves initial "log_of rows k" "status d" "version d" "status d'"]
    by (cases "k = tr_subject_id r") (auto simp: log_of_snoc split: option.splits)
qed

lemma logs_ok_start:
  assumes "logs_ok moves initial status version rows m" "m (tr_subject_id r) = None"
    and "status d = initial" "version d = 1" "log_entry r = (None, initial, 1)"
  shows "logs_ok moves initial status version (rows @ [r]) (m(tr_subject_id r \<mapsto> d))"
  unfolding logs_ok_def
proof
  fix k
  from assms(1) have log: "case m k of None \<Rightarrow> log_of rows k = []
    | Some d \<Rightarrow> legal_log moves initial (log_of rows k) (status d) (version d)"
    by (simp add: logs_ok_def)
  show "case (m(tr_subject_id r \<mapsto> d)) k of None \<Rightarrow> log_of (rows @ [r]) k = []
    | Some d \<Rightarrow> legal_log moves initial (log_of (rows @ [r]) k) (status d) (version d)"
    using log assms(2-) log_start [of moves initial]
    by (cases "k = tr_subject_id r") (auto simp: log_of_snoc split: option.splits)
qed

lemma edge_ok_empty: "edge_ok empty_db"
  by (simp add: edge_ok_def base_def owned_def order_logs_ok_def ticket_logs_ok_def logs_ok_def attributed_def
      coupling_def ran_def) (simp add: empty_db_def)

text \<open>The commands never touch the tables of the synchronisation state and of the local sessions.\<close>

definition same_rest :: "db \<Rightarrow> db \<Rightarrow> bool" where
  "same_rest db db' \<longleftrightarrow> db_sync_metadata db' = db_sync_metadata db
     \<and> db_pairing_codes db' = db_pairing_codes db \<and> db_local_sessions db' = db_local_sessions db"

definition same_log :: "db \<Rightarrow> db \<Rightarrow> bool" where
  "same_log db db' \<longleftrightarrow> db_operations db' = db_operations db \<and> db_outbox db' = db_outbox db
     \<and> db_idempotency db' = db_idempotency db \<and> same_rest db db'"

lemma same_log_trans: "same_log a b \<Longrightarrow> same_log b c \<Longrightarrow> same_log a c"
  by (simp add: same_log_def same_rest_def)

lemma same_log_refl [simp]: "same_log db db"
  by (simp add: same_log_def same_rest_def)

lemma status_text_not_empty:
  "OrderStatus_Valid s \<Longrightarrow> order_status_text s \<noteq> []"
  "TicketStatus_Valid x \<Longrightarrow> ticket_status_text x \<noteq> []"
  by (cases s, simp_all) (cases x, simp_all)

lemma owned_update:
  assumes "owned db" "orders_map db' = orders_map db"
    and "tickets_map db' = (tickets_map db)(k \<mapsto> t)" "tickets_map db k = Some t0"
    and "ticket_identity t0 = ticket_identity t"
  shows "owned db'"
  using assms unfolding owned_def ran_def ticket_identity_def by (auto split: if_splits)

lemma owned_orders:
  assumes "owned db" "tickets_map db' = tickets_map db" "orders_map db' = (orders_map db)(k \<mapsto> ord)"
    and "orders_map db k = Some old" "order_identity old = order_identity ord"
  shows "owned db'"
  using assms unfolding owned_def order_identity_def by fastforce

subsection \<open>A status change of an order\<close>

lemma order_step:
  assumes b: "base db" and old: "orders_map db (o_ID ord') = Some ord"
    and ident: "order_identity ord = order_identity ord'" and v: "o_Version ord' = o_Version ord + 1"
    and moves: "order_moves (o_Status ord) (o_Status ord')"
    and op: "list_ex (\<lambda>r. opr_operation_id r = op) (db_operations db)"
  obtains db1 db2 where "updateOrder ord' db = Inr db1"
    "insertOrderTransition (o_ID ord') op (o_Status ord) (o_Status ord') (o_Version ord') now db1 = Inr db2"
    "base db2" "orders_map db2 = (orders_map db)(o_ID ord' \<mapsto> ord')" "tickets_map db2 = tickets_map db" "same_log db db2"
proof -
  note ok = baseD [OF b]
  from updateOrder_map [OF ok(2) old ident] obtain db1 where
    u: "updateOrder ord' db = Inr db1" "db1 = db\<lparr>db_orders := db_orders db1\<rparr>" "orders_ok db1"
      "orders_map db1 = (orders_map db)(o_ID ord' \<mapsto> ord')" .
  let ?r = "\<lparr>tr_sequence = next_sequence (map tr_sequence (db_order_transitions db1)),
     tr_subject_id = o_ID ord', tr_operation_id = op, tr_from_status = Some (o_Status ord),
     tr_to_status = o_Status ord', tr_version = o_Version ord', tr_recorded_at = formatTime now\<rparr>"
  define db2 where "db2 = db1\<lparr>db_order_transitions := db_order_transitions db1 @ [?r]\<rparr>"
  have eqs: "db_tickets db2 = db_tickets db" "db_operations db2 = db_operations db" "db_outbox db2 = db_outbox db"
    "db_idempotency db2 = db_idempotency db" "db_ticket_transitions db2 = db_ticket_transitions db"
    "db_orders db2 = db_orders db1" "db_order_transitions db2 = db_order_transitions db @ [?r]"
    "same_rest db db2"
    unfolding db2_def same_rest_def by (subst u(2), simp)+
  have maps: "orders_map db2 = (orders_map db)(o_ID ord' \<mapsto> ord')" "tickets_map db2 = tickets_map db"
    using u(4) frame(2) [OF eqs(6)] frame(4) [OF eqs(1)] by simp_all
  have "list_ex (\<lambda>r. or_id r = o_ID ord') (db_orders db1)"
    using u(4) unfolding order_table.list_ex_key by (simp add: orders_map_def)
  moreover have "list_ex (\<lambda>r. opr_operation_id r = op) (db_operations db1)" using op by (subst u(2)) simp
  moreover have "order_status_text (o_Status ord) \<noteq> []"
    using moves status_text_not_empty by (simp add: order_moves_def)
  ultimately have i: "insertOrderTransition (o_ID ord') op (o_Status ord) (o_Status ord') (o_Version ord') now db1 = Inr db2"
    by (simp add: insertOrderTransition_def db2_def)
  have "logs_ok order_moves OrderReceived o_Status o_Version (db_order_transitions db @ [?r])
      ((orders_map db)(tr_subject_id ?r \<mapsto> ord'))"
    by (rule logs_ok_move [OF ok(7) [unfolded order_logs_ok_def]])
      (simp_all add: log_entry_def old moves v)
  then have "order_logs_ok db2" by (simp only: order_logs_ok_def maps eqs transition_row.select_convs)
  moreover have "ticket_logs_ok db2" using ok(8) by (simp only: ticket_logs_ok_def maps eqs)
  moreover have "tables_ok db2"
    using ok(1-5) u(3) unfolding tables_ok_def
    by (simp only: frame(1) [OF eqs(6)] frame(3) [OF eqs(1)] frame(5) [OF eqs(2,3)] frame(6) [OF eqs(4)])
  moreover have "owned db2" using owned_orders [OF ok(6) maps(2,1) old ident] .
  ultimately have "base db2" by (simp add: base_def)
  show ?thesis by (rule that [OF u(1) i \<open>base db2\<close> maps]) (simp add: same_log_def eqs)
qed

subsection \<open>A status change of a ticket\<close>

lemma ticket_step:
  assumes b: "base db" and old: "tickets_map db (kt_ID t') = Some t"
    and ident: "ticket_identity t = ticket_identity t'" and v: "kt_Version t' = kt_Version t + 1"
    and moves: "ticket_moves (kt_Status t) (kt_Status t')"
    and op: "list_ex (\<lambda>r. opr_operation_id r = op) (db_operations db)"
  obtains db1 db2 where "updateTicket t' db = Inr db1"
    "insertTicketTransition (kt_ID t') op (kt_Status t) (kt_Status t') (kt_Version t') now db1 = Inr db2"
    "base db2" "tickets_map db2 = (tickets_map db)(kt_ID t' \<mapsto> t')" "orders_map db2 = orders_map db" "same_log db db2"
proof -
  note ok = baseD [OF b]
  from updateTicket_map [OF ok(3) old ident] obtain db1 where
    u: "updateTicket t' db = Inr db1" "db1 = db\<lparr>db_tickets := db_tickets db1\<rparr>" "tickets_ok db1"
      "tickets_map db1 = (tickets_map db)(kt_ID t' \<mapsto> t')" .
  let ?r = "\<lparr>tr_sequence = next_sequence (map tr_sequence (db_ticket_transitions db1)),
     tr_subject_id = kt_ID t', tr_operation_id = op, tr_from_status = Some (kt_Status t),
     tr_to_status = kt_Status t', tr_version = kt_Version t', tr_recorded_at = formatTime now\<rparr>"
  define db2 where "db2 = db1\<lparr>db_ticket_transitions := db_ticket_transitions db1 @ [?r]\<rparr>"
  have eqs: "db_orders db2 = db_orders db" "db_operations db2 = db_operations db" "db_outbox db2 = db_outbox db"
    "db_idempotency db2 = db_idempotency db" "db_order_transitions db2 = db_order_transitions db"
    "db_tickets db2 = db_tickets db1" "db_ticket_transitions db2 = db_ticket_transitions db @ [?r]"
    "same_rest db db2"
    unfolding db2_def same_rest_def by (subst u(2), simp)+
  have maps: "tickets_map db2 = (tickets_map db)(kt_ID t' \<mapsto> t')" "orders_map db2 = orders_map db"
    using u(4) frame(4) [OF eqs(6)] frame(2) [OF eqs(1)] by simp_all
  have "list_ex (\<lambda>r. tk_id r = kt_ID t') (db_tickets db1)"
    using u(4) unfolding ticket_table.list_ex_key by (simp add: tickets_map_def)
  moreover have "list_ex (\<lambda>r. opr_operation_id r = op) (db_operations db1)" using op by (subst u(2)) simp
  moreover have "ticket_status_text (kt_Status t) \<noteq> []"
    using moves status_text_not_empty by (simp add: ticket_moves_def)
  ultimately have i: "insertTicketTransition (kt_ID t') op (kt_Status t) (kt_Status t') (kt_Version t') now db1 = Inr db2"
    by (simp add: insertTicketTransition_def db2_def)
  have "logs_ok ticket_moves TicketQueued kt_Status kt_Version (db_ticket_transitions db @ [?r])
      ((tickets_map db)(tr_subject_id ?r \<mapsto> t'))"
    by (rule logs_ok_move [OF ok(8) [unfolded ticket_logs_ok_def]])
      (simp_all add: log_entry_def old moves v)
  then have "ticket_logs_ok db2" by (simp only: ticket_logs_ok_def maps eqs transition_row.select_convs)
  moreover have "order_logs_ok db2" using ok(7) by (simp only: order_logs_ok_def maps eqs)
  moreover have "tables_ok db2"
    using ok(1-5) u(3) unfolding tables_ok_def
    by (simp only: frame(3) [OF eqs(6)] frame(1) [OF eqs(1)] frame(5) [OF eqs(2,3)] frame(6) [OF eqs(4)])
  moreover have "owned db2" using owned_update [OF ok(6) maps(2,1) old ident] .
  ultimately have "base db2" by (simp add: base_def)
  show ?thesis by (rule that [OF u(1) i \<open>base db2\<close> maps]) (simp add: same_log_def eqs)
qed

end
