(* ===== verification/Edge_Handlers.thy ===== *)
theory Edge_Handlers
  imports Edge_Invariant
begin

text \<open>
  What each command of the edge store does to a well-formed database: either it fails with a
  \<open>CommandError\<close>, or it commits exactly one operation, one outbox row and one idempotency
  record and makes the stated changes to the maps of orders and tickets. The statements a
  command runs never fail once its guards have passed.
\<close>

subsection \<open>Recording an operation\<close>

lemma next_sequence_upt: "next_sequence [1..<Suc n] = Suc n"
proof -
  have "fold max [1..<Suc n] 0 = n"
    by (induction n) (simp_all add: fold_append)
  then show ?thesis by (simp add: next_sequence_def)
qed

definition op_exists :: "string \<Rightarrow> db \<Rightarrow> bool" where
  "op_exists op db \<longleftrightarrow> list_ex (\<lambda>r. opr_operation_id r = op) (db_operations db)"

lemma op_exists_same: "same_log db db' \<Longrightarrow> op_exists op db' = op_exists op db"
  by (simp add: op_exists_def same_log_def)

text \<open>The effect of a command on the three logs.\<close>

definition recorded :: "operation_row \<Rightarrow> outbox_row \<Rightarrow> db \<Rightarrow> db \<Rightarrow> bool" where
  "recorded op_row ob_row db db' \<longleftrightarrow> db_operations db' = db_operations db @ [op_row]
     \<and> db_outbox db' = db_outbox db @ [ob_row] \<and> same_rest db db'"

lemma append_step:
  assumes b: "base db" and fresh: "ensureOperationUnused db (env_ID env) = Inr ()"
  obtains db' where
    "appendOperation env aggregateType aggregateID ''order'' causalityID version command now db = Inr db'"
    "base db'" "orders_map db' = orders_map db" "tickets_map db' = tickets_map db"
    "db_idempotency db' = db_idempotency db" "op_exists (env_ID env) db'"
    "recorded (operation_row_of env aggregateType aggregateID ''order'' causalityID version command now
       (Suc (length (db_operations db)))) (outbox_row_of env now) db db'"
proof -
  let ?row = "operation_row_of env aggregateType aggregateID ''order'' causalityID version command now
    (Suc (length (db_operations db)))"
  define db' where "db' = db\<lparr>db_operations := db_operations db @ [?row], db_outbox := db_outbox db @ [outbox_row_of env now]\<rparr>"
  note ok = baseD [OF b]
  from fresh have unused: "env_ID env \<notin> set (map opr_operation_id (db_operations db))"
    by (auto simp: ensureOperationUnused_def list_ex_iff split: if_splits)
  then have "env_ID env \<notin> set (map ob_operation_id (db_outbox db))"
    using ok(4) by (simp add: operations_ok_def)
  moreover have "next_sequence (map opr_sequence (db_operations db)) = Suc (length (db_operations db))"
    using ok(4) next_sequence_upt unfolding operations_ok_def by metis
  ultimately have app: "appendOperation env aggregateType aggregateID ''order'' causalityID version command now db = Inr db'"
    using unused by (simp add: appendOperation_def db'_def list_ex_iff) (metis image_eqI)
  have same: "orders_map db' = orders_map db" "tickets_map db' = tickets_map db" "orders_ok db' = orders_ok db"
    "tickets_ok db' = tickets_ok db" "idempotency_ok db' = idempotency_ok db"
    by (rule frame; simp add: db'_def)+
  have "operations_ok db'"
    using ok(4) unused by (auto simp: operations_ok_def db'_def operation_row_of_def outbox_row_of_def)
  with ok same have "base db'"
    by (simp add: base_def tables_ok_def owned_def order_logs_ok_def ticket_logs_ok_def) (simp add: db'_def)
  show ?thesis
    by (rule that [OF app \<open>base db'\<close> same(1,2)])
      (simp_all add: db'_def op_exists_def recorded_def same_rest_def operation_row_of_def)
qed

lemma lookup_None:
  assumes "lookupIdempotency db route hash env = Inr None" "db_idempotency db' = db_idempotency db"
  shows "\<not> list_ex (\<lambda>r. ir_tenant_id r = env_TenantID env \<and> ir_actor_id r = env_ActorID env
     \<and> ir_route r = route \<and> ir_idempotency_key r = env_IdempotencyKey env) (db_idempotency db')"
  using assms by (auto simp: lookupIdempotency_def list_ex_iff find_None_iff split: option.splits if_splits)

lemma finish_step:
  assumes b: "base db" and none: "lookupIdempotency db0 route hash env = Inr None"
    and idem: "db_idempotency db = db_idempotency db0"
  obtains db' where "finish_command route hash env resp now db = Inr (resp, db')" "base db'"
    "orders_map db' = orders_map db" "tickets_map db' = tickets_map db"
    "db_operations db' = db_operations db" "db_outbox db' = db_outbox db" "same_rest db db'"
    "db_idempotency db' = db_idempotency db0 @ [idempotency_row_of route hash env resp now]"
proof -
  note ok = baseD [OF b]
  define db' where "db' = db\<lparr>db_idempotency := db_idempotency db @ [idempotency_row_of route hash env resp now]\<rparr>"
  note unused = lookup_None [OF none idem]
  then have fin: "finish_command route hash env resp now db = Inr (resp, db')"
    by (simp add: finish_command_def saveIdempotency_def db'_def)
  have same: "orders_map db' = orders_map db" "tickets_map db' = tickets_map db" "orders_ok db' = orders_ok db"
    "tickets_ok db' = tickets_ok db" "operations_ok db' = operations_ok db"
    by (rule frame; simp add: db'_def)+
  have "idempotency_ok db'"
    using ok(5) unused
    by (auto simp: idempotency_ok_def db'_def sorted_wrt_append same_idempotency_key_def idempotency_row_of_def list_ex_iff)
  with ok same have "base db'"
    by (simp add: base_def tables_ok_def owned_def order_logs_ok_def ticket_logs_ok_def) (simp add: db'_def)
  show ?thesis
    by (rule that [OF fin \<open>base db'\<close> same(1,2)]) (simp_all add: db'_def same_rest_def idem)
qed

subsection \<open>The loops over the tickets\<close>

definition next_ticket :: "order_status \<Rightarrow> time \<Rightarrow> kitchen_ticket \<Rightarrow> kitchen_ticket" where
  "next_ticket to' now t =
    (if snd (ticketStatusForOrder to' (kt_Status t)) then move_ticket (followed to' (kt_Status t)) now t else t)"

lemma move_ticket_simps [simp]:
  "kt_ID (move_ticket s now t) = kt_ID t" "kt_Status (move_ticket s now t) = s"
  "kt_Version (move_ticket s now t) = kt_Version t + 1" "kt_OrderID (move_ticket s now t) = kt_OrderID t"
  "ticket_identity (move_ticket s now t) = ticket_identity t"
  by (simp_all add: move_ticket_def ticket_identity_def)

lemma next_ticket_simps [simp]:
  "kt_ID (next_ticket to' now t) = kt_ID t" "kt_OrderID (next_ticket to' now t) = kt_OrderID t"
  "kt_Status (next_ticket to' now t) = followed to' (kt_Status t)"
  by (simp_all add: next_ticket_def followed_unchanged)

lemma check_tickets_Inr: "check_tickets to' ts = Inr () \<longleftrightarrow> (\<forall>t \<in> set ts. follow_legal to' (kt_Status t))"
  by (induction ts) (auto simp: follow_legal_def followed_def split: prod.splits)

lemma check_tickets_Inl:
  "check_tickets to' ts = Inl e \<Longrightarrow> \<exists>a b. e = invalidTransition a b"
  by (induction ts) (auto split: prod.splits if_splits)

lemma advance_tickets_effect:
  assumes "base db" "op_exists op db" "distinct (map kt_ID ts)"
    and "\<forall>t \<in> set ts. tickets_map db (kt_ID t) = Some t \<and> TicketStatus_Valid (kt_Status t) \<and> follow_legal to' (kt_Status t)"
  shows "\<exists>db'. advance_tickets op now to' ts db = Inr (map (next_ticket to' now) ts, db') \<and> base db'
    \<and> orders_map db' = orders_map db \<and> same_log db db'
    \<and> tickets_map db' = map_on (kt_ID ` set ts) (next_ticket to' now) (tickets_map db)"
  using assms
proof (induction ts arbitrary: db)
  case (Cons t ts)
  let ?p = "ticketStatusForOrder to' (kt_Status t)"
  have fst: "fst ?p = followed to' (kt_Status t)" by (simp add: followed_def)
  have t: "tickets_map db (kt_ID t) = Some t" using Cons.prems(4) by simp
  show ?case
  proof (cases "snd ?p")
    case False
    have "distinct (map kt_ID ts)" using Cons.prems(3) by simp
    from Cons.IH [OF Cons.prems(1,2) this] Cons.prems(4) obtain db' where ih:
      "advance_tickets op now to' ts db = Inr (map (next_ticket to' now) ts, db')" "base db'"
      "orders_map db' = orders_map db" "same_log db db'"
      "tickets_map db' = map_on (kt_ID ` set ts) (next_ticket to' now) (tickets_map db)"
      by (meson list.set_intros(2))
    have "next_ticket to' now t = t" using False by (simp add: next_ticket_def)
    with ih False show ?thesis
      by (simp add: map_on_insert_fixed [where m = "tickets_map db" and k = "kt_ID t", OF t] case_prod_beta)
  next
    case True
    let ?t' = "next_ticket to' now t"
    have t': "?t' = move_ticket (followed to' (kt_Status t)) now t" using True by (simp add: next_ticket_def)
    have m: "ticket_moves (kt_Status t) (kt_Status ?t')"
      using Cons.prems(4) True by (auto simp: ticket_moves_def follow_legal_def)
    from Cons.prems(2) have op: "list_ex (\<lambda>r. opr_operation_id r = op) (db_operations db)"
      by (simp add: op_exists_def)
    have t0: "tickets_map db (kt_ID ?t') = Some t" using t by (simp add: t')
    have t1: "ticket_identity t = ticket_identity ?t'" "kt_Version ?t' = kt_Version t + 1" by (simp_all add: t')
    obtain db1 db2 where s: "updateTicket ?t' db = Inr db1"
      "insertTicketTransition (kt_ID ?t') op (kt_Status t) (kt_Status ?t') (kt_Version ?t') now db1 = Inr db2"
      "base db2" "tickets_map db2 = (tickets_map db)(kt_ID ?t' \<mapsto> ?t')" "orders_map db2 = orders_map db" "same_log db db2"
      by (rule ticket_step [where now = now, OF Cons.prems(1) t0 t1 m op])
    have other: "kt_ID u \<noteq> kt_ID t" if "u \<in> set ts" for u using Cons.prems(3) that by (metis distinct.simps(2) image_eqI list.set_map list.simps(9))
    have "op_exists op db2" using Cons.prems(2) s(6) by (simp add: op_exists_same)
    moreover have "\<forall>t \<in> set ts. tickets_map db2 (kt_ID t) = Some t \<and> TicketStatus_Valid (kt_Status t) \<and> follow_legal to' (kt_Status t)"
      using Cons.prems(4) other by (simp add: s(4))
    moreover have "distinct (map kt_ID ts)" using Cons.prems(3) by simp
    ultimately obtain db' where ih:
      "advance_tickets op now to' ts db2 = Inr (map (next_ticket to' now) ts, db')" "base db'"
      "orders_map db' = orders_map db2" "same_log db2 db'"
      "tickets_map db' = map_on (kt_ID ` set ts) (next_ticket to' now) (tickets_map db2)"
      using Cons.IH [OF s(3)] by blast
    have "tickets_map db' = map_on (kt_ID ` set (t # ts)) (next_ticket to' now) (tickets_map db)"
      unfolding ih(5) s(4) using Cons.prems(3)
      by (simp add: map_on_insert [where m = "tickets_map db" and k = "kt_ID t" and f = "next_ticket to' now", OF t, simplified])
    moreover have "advance_tickets op now to' (t # ts) db = Inr (map (next_ticket to' now) (t # ts), db')"
    proof -
      have "move_ticket (fst ?p) now t = ?t'"
        using t' by (simp add: fst)
      then show ?thesis using True s(1,2) ih(1) fst
        by (simp add: case_prod_beta Let_def)
    qed
    ultimately show ?thesis using ih(2,3) s(5) same_log_trans [OF s(6) ih(4)] by auto
  qed
qed simp

lemma mark_tickets_Inr:
  "mark_tickets to' ts = Inr marks \<longleftrightarrow>
     (\<forall>t \<in> set ts. kt_Status t = to' \<or> CanTransitionTicket (kt_Status t) to')
     \<and> marks = map (\<lambda>t. (t, kt_Status t \<noteq> to')) ts"
  by (induction ts arbitrary: marks) (auto simp: rbind_Inr_iff)

lemma mark_tickets_Inl: "mark_tickets to' ts = Inl e \<Longrightarrow> \<exists>a b. e = invalidTransition a b"
  by (induction ts) (auto simp: rbind_Inl_iff split: if_splits)

definition turn_ticket :: "ticket_status \<Rightarrow> time \<Rightarrow> kitchen_ticket \<Rightarrow> kitchen_ticket" where
  "turn_ticket to' now t = (if kt_Status t \<noteq> to' then move_ticket to' now t else t)"

lemma turn_ticket_simps [simp]:
  "kt_ID (turn_ticket to' now t) = kt_ID t" "kt_OrderID (turn_ticket to' now t) = kt_OrderID t"
  "kt_Status (turn_ticket to' now t) = to'"
  by (simp_all add: turn_ticket_def)

lemma move_marked_turn: "map (move_marked to' now) (map (\<lambda>t. (t, kt_Status t \<noteq> to')) ts) = map (turn_ticket to' now) ts"
  by (simp add: move_marked_def turn_ticket_def)

lemma store_marked_effect:
  assumes "base db" "op_exists op db" "distinct (map kt_ID ts)"
    and "\<forall>t \<in> set ts. tickets_map db (kt_ID t) = Some t \<and> TicketStatus_Valid (kt_Status t)
           \<and> (kt_Status t = to' \<or> CanTransitionTicket (kt_Status t) to')"
  shows "\<exists>db'. store_marked op now to' (map (\<lambda>t. (t, kt_Status t \<noteq> to')) ts) db = Inr db' \<and> base db'
    \<and> orders_map db' = orders_map db \<and> same_log db db'
    \<and> tickets_map db' = map_on (kt_ID ` set ts) (turn_ticket to' now) (tickets_map db)"
  using assms
proof (induction ts arbitrary: db)
  case (Cons t ts)
  have t: "tickets_map db (kt_ID t) = Some t" using Cons.prems(4) by simp
  show ?case
  proof (cases "kt_Status t = to'")
    case True
    have "distinct (map kt_ID ts)" using Cons.prems(3) by simp
    from Cons.IH [OF Cons.prems(1,2) this] Cons.prems(4) obtain db' where ih:
      "store_marked op now to' (map (\<lambda>t. (t, kt_Status t \<noteq> to')) ts) db = Inr db'" "base db'"
      "orders_map db' = orders_map db" "same_log db db'"
      "tickets_map db' = map_on (kt_ID ` set ts) (turn_ticket to' now) (tickets_map db)"
      by (meson list.set_intros(2))
    have "turn_ticket to' now t = t" using True by (simp add: turn_ticket_def)
    with ih True show ?thesis by (simp add: map_on_insert_fixed [where m = "tickets_map db" and k = "kt_ID t", OF t])
  next
    case False
    let ?t' = "turn_ticket to' now t"
    have t': "?t' = move_ticket to' now t" using False by (simp add: turn_ticket_def)
    have m: "ticket_moves (kt_Status t) (kt_Status ?t')"
      using Cons.prems(4) False by (auto simp: ticket_moves_def)
    from Cons.prems(2) have op: "list_ex (\<lambda>r. opr_operation_id r = op) (db_operations db)"
      by (simp add: op_exists_def)
    have t0: "tickets_map db (kt_ID ?t') = Some t" using t by (simp add: t')
    have t1: "ticket_identity t = ticket_identity ?t'" "kt_Version ?t' = kt_Version t + 1" by (simp_all add: t')
    obtain db1 db2 where s: "updateTicket ?t' db = Inr db1"
      "insertTicketTransition (kt_ID ?t') op (kt_Status t) (kt_Status ?t') (kt_Version ?t') now db1 = Inr db2"
      "base db2" "tickets_map db2 = (tickets_map db)(kt_ID ?t' \<mapsto> ?t')" "orders_map db2 = orders_map db" "same_log db db2"
      by (rule ticket_step [where now = now, OF Cons.prems(1) t0 t1 m op])
    have other: "kt_ID u \<noteq> kt_ID t" if "u \<in> set ts" for u using Cons.prems(3) that by (metis distinct.simps(2) image_eqI list.set_map list.simps(9))
    have "op_exists op db2" using Cons.prems(2) s(6) by (simp add: op_exists_same)
    moreover have "\<forall>t \<in> set ts. tickets_map db2 (kt_ID t) = Some t \<and> TicketStatus_Valid (kt_Status t)
         \<and> (kt_Status t = to' \<or> CanTransitionTicket (kt_Status t) to')"
      using Cons.prems(4) other by (simp add: s(4))
    moreover have "distinct (map kt_ID ts)" using Cons.prems(3) by simp
    ultimately obtain db' where ih:
      "store_marked op now to' (map (\<lambda>t. (t, kt_Status t \<noteq> to')) ts) db2 = Inr db'" "base db'"
      "orders_map db' = orders_map db2" "same_log db2 db'"
      "tickets_map db' = map_on (kt_ID ` set ts) (turn_ticket to' now) (tickets_map db2)"
      using Cons.IH [OF s(3)] by blast
    have "tickets_map db' = map_on (kt_ID ` set (t # ts)) (turn_ticket to' now) (tickets_map db)"
      unfolding ih(5) s(4) using Cons.prems(3)
      by (simp add: map_on_insert [where m = "tickets_map db" and k = "kt_ID t" and f = "turn_ticket to' now", OF t, simplified])
    moreover have "store_marked op now to' (map (\<lambda>t. (t, kt_Status t \<noteq> to')) (t # ts)) db = Inr db'"
      using False s(1,2) ih(1) by (simp add: Let_def t')
    ultimately show ?thesis using ih(2,3) s(5) same_log_trans [OF s(6) ih(4)] by auto
  qed
qed simp

text \<open>On a well-formed database the tickets listed for an order are all of its tickets.\<close>

definition map_tickets ::
  "(kitchen_ticket \<Rightarrow> kitchen_ticket) \<Rightarrow> string \<Rightarrow> (string \<Rightarrow> kitchen_ticket option) \<Rightarrow> string \<Rightarrow> kitchen_ticket option" where
  "map_tickets f orderID m = (\<lambda>k. map_option (\<lambda>t. if kt_OrderID t = orderID then f t else t) (m k))"

lemma listed_tickets:
  assumes b: "base db" and ord: "orders_map db id' = Some ord"
    and scope: "o_TenantID ord = tenant" "o_OutletID ord = outlet"
  defines "ts \<equiv> listTicketsForOrder db tenant outlet id'"
  shows "set ts = {t \<in> ran (tickets_map db). kt_OrderID t = id'}"
    and "distinct (map kt_ID ts)"
    and "t \<in> set ts \<Longrightarrow> tickets_map db (kt_ID t) = Some t"
    and "kt_Status ` set ts = ticket_statuses db id'"
    and "map_on (kt_ID ` set ts) f (tickets_map db) = map_tickets f id' (tickets_map db)"
proof -
  note ok = baseD [OF b]
  show set: "set ts = {t \<in> ran (tickets_map db). kt_OrderID t = id'}"
    unfolding ts_def set_listTickets [OF ok(3)] using ok(6) ord scope unfolding owned_def by fastforce
  show "distinct (map kt_ID ts)" unfolding ts_def by (rule distinct_listTickets [OF ok(3)])
  have id: "tickets_map db k = Some t \<Longrightarrow> kt_ID t = k" for k t using tickets_map_id [OF ok(3)] .
  show get: "tickets_map db (kt_ID t) = Some t" if "t \<in> set ts" for t
    using that id unfolding set ran_def by blast
  show "kt_Status ` set ts = ticket_statuses db id'" by (simp add: ticket_statuses_def set)
  show "map_on (kt_ID ` set ts) f (tickets_map db) = map_tickets f id' (tickets_map db)"
  proof
    fix k
    show "map_on (kt_ID ` set ts) f (tickets_map db) k = map_tickets f id' (tickets_map db) k"
    proof (cases "tickets_map db k")
      case (Some t)
      have "k \<in> kt_ID ` set ts \<longleftrightarrow> kt_OrderID t = id'"
      proof
        assume "k \<in> kt_ID ` set ts"
        then obtain u where u: "u \<in> set ts" "kt_ID u = k" by blast
        with get [OF u(1)] Some have "u = t" by simp
        with u(1) show "kt_OrderID t = id'" unfolding set by simp
      next
        assume "kt_OrderID t = id'"
        with Some have "t \<in> set ts" unfolding set by (auto simp: ran_def)
        with id [OF Some] show "k \<in> kt_ID ` set ts" by blast
      qed
      with Some show ?thesis by (simp add: map_on_def map_tickets_def)
    qed (simp add: map_on_def map_tickets_def)
  qed
qed

lemma ran_map_tickets:
  assumes "\<And>t. kt_OrderID (f t) = kt_OrderID t"
  shows "{t \<in> ran (map_tickets f id' m). kt_OrderID t = k} =
    (if k = id' then f ` {t \<in> ran m. kt_OrderID t = k} else {t \<in> ran m. kt_OrderID t = k})"
  using assms unfolding ran_def map_tickets_def by (auto simp: image_iff split: if_splits)

lemma statuses_map_tickets:
  assumes "tickets_map db' = map_tickets f id' (tickets_map db)"
    and "\<And>t. kt_OrderID (f t) = kt_OrderID t" "\<And>t. kt_Status (f t) = g (kt_Status t)"
  shows "ticket_statuses db' k = (if k = id' then g ` ticket_statuses db k else ticket_statuses db k)"
  by (simp add: ticket_statuses_def assms(1) ran_map_tickets [of f, OF assms(2)] image_image assms(3))

subsection \<open>Effects of the commands\<close>

definition command_effect ::
  "operation_row \<Rightarrow> outbox_row \<Rightarrow> idempotency_row \<Rightarrow> (string \<Rightarrow> order option) \<Rightarrow>
   (string \<Rightarrow> kitchen_ticket option) \<Rightarrow> db \<Rightarrow> db \<Rightarrow> bool" where
  "command_effect op_row ob_row idem_row om tm db db' \<longleftrightarrow> base db'
     \<and> orders_map db' = om \<and> tickets_map db' = tm \<and> recorded op_row ob_row db db'
     \<and> db_idempotency db' = db_idempotency db @ [idem_row]"

lemma move_order_simps [simp]:
  "o_ID (move_order s now ord) = o_ID ord" "o_Status (move_order s now ord) = s"
  "o_Version (move_order s now ord) = o_Version ord + 1"
  "order_identity (move_order s now ord) = order_identity ord"
  by (simp_all add: move_order_def order_identity_def)

definition follow_order :: "order_status \<Rightarrow> time \<Rightarrow> order \<Rightarrow> order" where
  "follow_order candidate now ord =
    (if shouldAdvanceOrder (o_Status ord) candidate then move_order candidate now ord else ord)"

lemma advance_order_effect:
  assumes b: "base db" and op: "op_exists op db" and ord: "orders_map db (o_ID ord) = Some ord"
    and v: "OrderStatus_Valid (o_Status ord)" "OrderStatus_Valid candidate" "\<not> order_final (o_Status ord)"
  obtains db' where "advance_order op now ord candidate db = Inr (follow_order candidate now ord, db')"
    "base db'" "orders_map db' = (orders_map db)(o_ID ord \<mapsto> follow_order candidate now ord)"
    "tickets_map db' = tickets_map db" "same_log db db'"
proof (cases "shouldAdvanceOrder (o_Status ord) candidate")
  case False
  show ?thesis
    by (rule that [of db]) (use False b ord in \<open>simp_all add: advance_order_def follow_order_def fun_upd_idem\<close>)
next
  case True
  let ?o = "move_order candidate now ord"
  have f: "follow_order candidate now ord = ?o" using True by (simp add: follow_order_def)
  have m: "order_moves (o_Status ord) (o_Status ?o)" using v True by (simp add: order_moves_def)
  have o: "orders_map db (o_ID ?o) = Some ord" "order_identity ord = order_identity ?o"
    "o_Version ?o = o_Version ord + 1" using ord by simp_all
  obtain db1 db2 where s: "updateOrder ?o db = Inr db1"
    "insertOrderTransition (o_ID ?o) op (o_Status ord) (o_Status ?o) (o_Version ?o) now db1 = Inr db2"
    "base db2" "orders_map db2 = (orders_map db)(o_ID ?o \<mapsto> ?o)" "tickets_map db2 = tickets_map db" "same_log db db2"
    by (rule order_step [where now = now, OF b o m op [unfolded op_exists_def]])
  have "advance_order op now ord candidate db = Inr (?o, db2)"
    using True s(1,2) by (simp add: advance_order_def Let_def)
  with s f show ?thesis by (intro that [of db2]) simp_all
qed

text \<open>\<open>TransitionOrder\<close> past its first three steps.\<close>

definition transition_order_outcome ::
  "time \<Rightarrow> string \<Rightarrow> string \<Rightarrow> string \<Rightarrow> mutation_envelope \<Rightarrow> transition_order_payload \<Rightarrow>
   order \<Rightarrow> db \<Rightarrow> stored_response \<Rightarrow> db \<Rightarrow> bool" where
  "transition_order_outcome now route hash orderID env input ord db resp db' \<longleftrightarrow>
    (let to' = top_ToStatus input; ord' = move_order to' now ord;
         ts = listTicketsForOrder db (env_TenantID env) (env_OutletID env) orderID in
     resp = responseFor 200 [] (env_ID env) (TransitionOrderResult ord' (map (next_ticket to' now) ts))
     \<and> command_effect
         (operation_row_of env ''order'' orderID ''order'' orderID (o_Version ord + 1) ''order.transition'' now
            (Suc (length (db_operations db))))
         (outbox_row_of env now) (idempotency_row_of route hash env resp now)
         ((orders_map db)(orderID \<mapsto> ord')) (map_tickets (next_ticket to' now) orderID (tickets_map db)) db db')"

lemma transition_order_commits:
  assumes ok: "edge_ok db" and none: "lookupIdempotency db route hash env = Inr None"
    and fresh: "ensureOperationUnused db (env_ID env) = Inr ()"
    and get: "orders_map db orderID = Some ord" "o_TenantID ord = env_TenantID env" "o_OutletID ord = env_OutletID env"
    and version: "o_Version ord = top_ExpectedVersion input"
    and move: "CanTransitionOrder (o_Status ord) (top_ToStatus input)"
    and check: "check_tickets (top_ToStatus input)
      (listTicketsForOrder db (env_TenantID env) (env_OutletID env) orderID) = Inr ()"
  shows "\<exists>resp db'. transition_order_body now route hash orderID env input db = Inr (resp, db')
    \<and> transition_order_outcome now route hash orderID env input ord db resp db'"
proof -
  note b = ok [unfolded edge_ok_def, THEN conjunct1]
  note bs = baseD [OF b]
  have id: "o_ID ord = orderID" using orders_map_id [OF bs(2) get(1)] .
  have found: "getOrder db (env_TenantID env) (env_OutletID env) orderID = Inr ord"
    using get by (simp add: getOrder_map [OF bs(2)])
  let ?ts = "listTicketsForOrder db (env_TenantID env) (env_OutletID env) orderID"
  let ?to = "top_ToStatus input"
  let ?o = "move_order ?to now ord"
  note listed = listed_tickets [OF b get]
  have follow: "\<forall>t \<in> set ?ts. follow_legal ?to (kt_Status t)" using check by (simp add: check_tickets_Inr)
  from ok get(1) have c: "coupled (o_Status ord) (ticket_statuses db orderID)"
    by (simp add: edge_ok_def coupling_def)
  obtain db1 where a: "appendOperation env ''order'' orderID ''order'' orderID (o_Version ord + 1) ''order.transition'' now db = Inr db1"
    "base db1" "orders_map db1 = orders_map db" "tickets_map db1 = tickets_map db"
    "db_idempotency db1 = db_idempotency db" "op_exists (env_ID env) db1"
    "recorded (operation_row_of env ''order'' orderID ''order'' orderID (o_Version ord + 1) ''order.transition'' now
       (Suc (length (db_operations db)))) (outbox_row_of env now) db db1"
    by (rule append_step [OF b fresh])
  have m: "order_moves (o_Status ord) (o_Status ?o)"
    using c move CanTransitionOrder_valid CanTransitionOrder_not_final
    by (simp add: order_moves_def coupled_def)
  have o: "orders_map db1 (o_ID ?o) = Some ord" "order_identity ord = order_identity ?o"
    "o_Version ?o = o_Version ord + 1" using get id a(3) by simp_all
  obtain db2 db3 where s: "updateOrder ?o db1 = Inr db2"
    "insertOrderTransition (o_ID ?o) (env_ID env) (o_Status ord) (o_Status ?o) (o_Version ?o) now db2 = Inr db3"
    "base db3" "orders_map db3 = (orders_map db1)(o_ID ?o \<mapsto> ?o)" "tickets_map db3 = tickets_map db1" "same_log db1 db3"
    by (rule order_step [where now = now, OF a(2) o m a(6) [unfolded op_exists_def]])
  have op: "op_exists (env_ID env) db3" using a(6) s(6) by (simp add: op_exists_same)
  have "\<forall>t \<in> set ?ts. tickets_map db3 (kt_ID t) = Some t \<and> TicketStatus_Valid (kt_Status t) \<and> follow_legal ?to (kt_Status t)"
    using listed(3,4) follow c unfolding s(5) a(4) by (metis coupled_def image_eqI)
  from advance_tickets_effect [OF s(3) op listed(2) this, of now] obtain db4 where
    t: "advance_tickets (env_ID env) now ?to ?ts db3 = Inr (map (next_ticket ?to now) ?ts, db4)" "base db4"
    "orders_map db4 = orders_map db3" "same_log db3 db4"
    "tickets_map db4 = map_on (kt_ID ` set ?ts) (next_ticket ?to now) (tickets_map db3)"
    by blast
  define resp where "resp = responseFor 200 [] (env_ID env) (TransitionOrderResult ?o (map (next_ticket ?to now) ?ts))"
  have "db_idempotency db4 = db_idempotency db" using t(4) s(6) a(5) by (simp add: same_log_def)
  from finish_step [OF t(2) none this] obtain db5 where
    f: "finish_command route hash env resp now db4 = Inr (resp, db5)" "base db5"
    "orders_map db5 = orders_map db4" "tickets_map db5 = tickets_map db4"
    "db_operations db5 = db_operations db4" "db_outbox db5 = db_outbox db4" "same_rest db4 db5"
    "db_idempotency db5 = db_idempotency db @ [idempotency_row_of route hash env resp now]" .
  have "transition_order_body now route hash orderID env input db = Inr (resp, db5)"
    unfolding transition_order_body_def found
    using version move check a(1) s(1,2) t(1) f(1) id by (simp add: Let_def resp_def)
  moreover have "transition_order_outcome now route hash orderID env input ord db resp db5"
    unfolding transition_order_outcome_def command_effect_def Let_def
    using f t s a listed(5) id by (simp add: resp_def recorded_def same_log_def same_rest_def)
  ultimately show ?thesis by blast
qed

text \<open>Every error is one of the guards' errors, a \<open>CommandError\<close>.\<close>

definition is_command_error :: "store_error \<Rightarrow> bool" where
  "is_command_error e \<longleftrightarrow> (\<exists>code msg details. e = CommandError code msg details)"

lemma command_errors [simp]:
  "is_command_error (conflict a b c d)" "is_command_error (notFound a b)"
  "is_command_error (invalidTransition a b)" "is_command_error (versionConflict m n)"
  by (simp_all add: is_command_error_def conflict_def notFound_def invalidTransition_def versionConflict_def)

lemma getOrder_Inl: "getOrder db tenant outlet k = Inl e \<Longrightarrow> is_command_error e"
  by (auto simp: getOrder_def split: option.splits)

lemma getTicket_Inl: "getTicket db tenant outlet k = Inl e \<Longrightarrow> is_command_error e"
  by (auto simp: getTicket_def split: option.splits)

lemma transition_order_body_cases:
  assumes ok: "edge_ok db" and none: "lookupIdempotency db route hash env = Inr None"
    and fresh: "ensureOperationUnused db (env_ID env) = Inr ()"
    and body: "body = transition_order_body now route hash orderID env input db"
  obtains (refused) e where "body = Inl e" "is_command_error e"
  | (committed) ord resp db' where "body = Inr (resp, db')" "orders_map db orderID = Some ord"
      "o_TenantID ord = env_TenantID env" "o_OutletID ord = env_OutletID env"
      "o_Version ord = top_ExpectedVersion input" "CanTransitionOrder (o_Status ord) (top_ToStatus input)"
      "\<forall>x \<in> ticket_statuses db orderID. follow_legal (top_ToStatus input) x"
      "transition_order_outcome now route hash orderID env input ord db resp db'"
proof (cases "getOrder db (env_TenantID env) (env_OutletID env) orderID")
  case (Inl e)
  with refused getOrder_Inl show ?thesis by (simp add: body transition_order_body_def)
next
  case found: (Inr ord)
  note b = ok [unfolded edge_ok_def, THEN conjunct1]
  note get = getOrder_Inr [OF baseD(2) [OF b] found]
  have id: "o_ID ord = orderID" using orders_map_id [OF baseD(2) [OF b] get(1)] .
  let ?ts = "listTicketsForOrder db (env_TenantID env) (env_OutletID env) orderID"
  let ?to = "top_ToStatus input"
  show ?thesis
  proof (cases "o_Version ord = top_ExpectedVersion input \<and> CanTransitionOrder (o_Status ord) ?to")
    case guards: True
    show ?thesis
    proof (cases "check_tickets ?to ?ts")
      case (Inl e)
      with check_tickets_Inl [OF Inl] guards have "\<exists>e. body = Inl e \<and> is_command_error e"
        by (auto simp: body transition_order_body_def found id)
      with refused show ?thesis by blast
    next
      case check: (Inr u)
      have legal: "\<forall>x \<in> ticket_statuses db orderID. follow_legal ?to x"
        unfolding listed_tickets(4) [OF b get, symmetric] using check by (simp add: check_tickets_Inr)
      from transition_order_commits [OF ok none fresh get _ _ check [simplified]] guards legal get committed
      show ?thesis unfolding body by blast
    qed
  next
    case False
    then have "\<exists>e. body = Inl e \<and> is_command_error e"
      by (auto simp: body transition_order_body_def found)
    with refused show ?thesis by blast
  qed
qed

end
