(* ===== verification/Edge_Ticket_Handlers.thy ===== *)
theory Edge_Ticket_Handlers
  imports Edge_Handlers
begin

text \<open>The effects of the two kitchen commands, \<open>TransitionTicket\<close> and \<open>TransitionOrderTickets\<close>.\<close>

subsection \<open>TransitionTicket\<close>

text \<open>The statuses of an order's tickets after one of them moved.\<close>

definition statuses_after :: "db \<Rightarrow> kitchen_ticket \<Rightarrow> ticket_status \<Rightarrow> ticket_status set" where
  "statuses_after db t s = insert s (kt_Status ` {u \<in> ran (tickets_map db). kt_OrderID u = kt_OrderID t \<and> kt_ID u \<noteq> kt_ID t})"

lemma ran_update:
  assumes "tickets_ok db" "kt_ID t' = kt_ID t"
  shows "ran ((tickets_map db)(kt_ID t \<mapsto> t')) = insert t' {u \<in> ran (tickets_map db). kt_ID u \<noteq> kt_ID t}"
proof -
  have "u \<in> ran ((tickets_map db)(kt_ID t \<mapsto> t')) \<longleftrightarrow> u = t' \<or> (\<exists>a. a \<noteq> kt_ID t \<and> tickets_map db a = Some u)" for u
    by (auto simp: ran_def)
  moreover have "(\<exists>a. a \<noteq> kt_ID t \<and> tickets_map db a = Some u) \<longleftrightarrow> u \<in> ran (tickets_map db) \<and> kt_ID u \<noteq> kt_ID t" for u
    using tickets_map_id [OF assms(1)] unfolding ran_def by blast
  ultimately show ?thesis by blast
qed

lemma statuses_update:
  assumes "tickets_ok db" "tickets_map db (kt_ID t) = Some t"
    and "tickets_map db' = (tickets_map db)(kt_ID t \<mapsto> move_ticket s now t)"
  shows "ticket_statuses db' k = (if k = kt_OrderID t then statuses_after db t s else ticket_statuses db k)"
proof -
  have ran: "ran (tickets_map db') = insert (move_ticket s now t) {u \<in> ran (tickets_map db). kt_ID u \<noteq> kt_ID t}"
    unfolding assms(3) by (rule ran_update [OF assms(1)]) simp
  have only: "u = t" if "u \<in> ran (tickets_map db)" "kt_ID u = kt_ID t" for u
  proof -
    from that(1) obtain a where "tickets_map db a = Some u" by (auto simp: ran_def)
    with tickets_map_id [OF assms(1) this] that(2) assms(2) show ?thesis by simp
  qed
  show ?thesis
  proof (cases "k = kt_OrderID t")
    case True
    have "{u \<in> ran (tickets_map db'). kt_OrderID u = k} = insert (move_ticket s now t)
        {u \<in> ran (tickets_map db). kt_OrderID u = kt_OrderID t \<and> kt_ID u \<noteq> kt_ID t}" (is "?l = ?r")
    proof (rule set_eqI)
      show "u \<in> ?l \<longleftrightarrow> u \<in> ?r" for u
        using True by (cases "u = move_ticket s now t") (auto simp: ran)
    qed
    with True show ?thesis by (simp add: ticket_statuses_def statuses_after_def)
  next
    case False
    have "{u \<in> ran (tickets_map db'). kt_OrderID u = k} = {u \<in> ran (tickets_map db). kt_OrderID u = k}" (is "?l = ?r")
    proof (rule set_eqI)
      show "u \<in> ?l \<longleftrightarrow> u \<in> ?r" for u
        using False only [of u] by (cases "u = move_ticket s now t") (auto simp: ran)
    qed
    with False show ?thesis by (simp add: ticket_statuses_def)
  qed
qed

definition transition_ticket_outcome ::
  "time \<Rightarrow> string \<Rightarrow> string \<Rightarrow> string \<Rightarrow> mutation_envelope \<Rightarrow> transition_ticket_payload \<Rightarrow>
   kitchen_ticket \<Rightarrow> order \<Rightarrow> db \<Rightarrow> stored_response \<Rightarrow> db \<Rightarrow> bool" where
  "transition_ticket_outcome now route hash ticketID env input t ord db resp db' \<longleftrightarrow>
    (let to' = ttp_ToStatus input; t' = move_ticket to' now t;
         ord' = follow_order (derived_status (statuses_after db t to')) now ord in
     resp = responseFor 200 [] (env_ID env) (TransitionTicketResult t' ord')
     \<and> command_effect
         (operation_row_of env ''kitchenTicket'' ticketID ''order'' (kt_OrderID t) (kt_Version t + 1)
            ''kitchenTicket.transition'' now (Suc (length (db_operations db))))
         (outbox_row_of env now) (idempotency_row_of route hash env resp now)
         ((orders_map db)(kt_OrderID t \<mapsto> ord')) ((tickets_map db)(ticketID \<mapsto> t')) db db')"

lemma transition_ticket_commits:
  assumes ok: "edge_ok db" and none: "lookupIdempotency db route hash env = Inr None"
    and fresh: "ensureOperationUnused db (env_ID env) = Inr ()"
    and get: "tickets_map db ticketID = Some t" "kt_TenantID t = env_TenantID env" "kt_OutletID t = env_OutletID env"
    and parent: "ttp_ExpectedOrderID input \<noteq> [] \<longrightarrow> kt_OrderID t = ttp_ExpectedOrderID input"
    and version: "kt_Version t = ttp_ExpectedVersion input"
    and move: "CanTransitionTicket (kt_Status t) (ttp_ToStatus input)"
  shows "\<exists>ord resp db'. transition_ticket_body now route hash ticketID env input db = Inr (resp, db')
    \<and> orders_map db (kt_OrderID t) = Some ord
    \<and> transition_ticket_outcome now route hash ticketID env input t ord db resp db'"
proof -
  note b = ok [unfolded edge_ok_def, THEN conjunct1]
  note bs = baseD [OF b]
  have id: "kt_ID t = ticketID" using tickets_map_id [OF bs(3) get(1)] .
  have found: "getTicket db (env_TenantID env) (env_OutletID env) ticketID = Inr t"
    using get by (simp add: getTicket_map [OF bs(3)])
  from bs(6) get obtain ord where ord: "orders_map db (kt_OrderID t) = Some ord"
    "o_TenantID ord = env_TenantID env" "o_OutletID ord = env_OutletID env"
    by (force simp: owned_def ran_def)
  have oid: "o_ID ord = kt_OrderID t" using orders_map_id [OF bs(2) ord(1)] .
  have found_order: "getOrder db (env_TenantID env) (env_OutletID env) (kt_OrderID t) = Inr ord"
    using ord by (simp add: getOrder_map [OF bs(2)])
  let ?to = "ttp_ToStatus input"
  let ?t = "move_ticket ?to now t"
  from ok ord(1) have c: "coupled (o_Status ord) (ticket_statuses db (kt_OrderID t))"
    by (simp add: edge_ok_def coupling_def)
  have mem: "kt_Status t \<in> ticket_statuses db (kt_OrderID t)"
    using get(1) by (auto simp: ticket_statuses_def ran_def)
  have nf: "\<not> order_final (o_Status ord)"
    using coupled_final [OF c mem] CanTransitionTicket_not_final [OF move] .
  obtain db1 where a: "appendOperation env ''kitchenTicket'' ticketID ''order'' (kt_OrderID t) (kt_Version t + 1)
      ''kitchenTicket.transition'' now db = Inr db1"
    "base db1" "orders_map db1 = orders_map db" "tickets_map db1 = tickets_map db"
    "db_idempotency db1 = db_idempotency db" "op_exists (env_ID env) db1"
    "recorded (operation_row_of env ''kitchenTicket'' ticketID ''order'' (kt_OrderID t) (kt_Version t + 1)
       ''kitchenTicket.transition'' now (Suc (length (db_operations db)))) (outbox_row_of env now) db db1"
    by (rule append_step [OF b fresh])
  have m: "ticket_moves (kt_Status t) (kt_Status ?t)"
    using c mem move by (simp add: ticket_moves_def coupled_def)
  have t: "tickets_map db1 (kt_ID ?t) = Some t" "ticket_identity t = ticket_identity ?t"
    "kt_Version ?t = kt_Version t + 1" using get id a(4) by simp_all
  obtain db2 db3 where s: "updateTicket ?t db1 = Inr db2"
    "insertTicketTransition (kt_ID ?t) (env_ID env) (kt_Status t) (kt_Status ?t) (kt_Version ?t) now db2 = Inr db3"
    "base db3" "tickets_map db3 = (tickets_map db1)(kt_ID ?t \<mapsto> ?t)" "orders_map db3 = orders_map db1" "same_log db1 db3"
    by (rule ticket_step [where now = now, OF a(2) t m a(6) [unfolded op_exists_def]])
  have ord3: "orders_map db3 (kt_OrderID t) = Some ord" using ord s(5) a(3) by simp
  have after: "ticket_statuses db3 (kt_OrderID t) = statuses_after db t ?to"
    using statuses_update [of db t db3 ?to now "kt_OrderID t"] bs(3) get(1) id s(4) a(4) by simp
  let ?ts = "listTicketsForOrder db3 (env_TenantID env) (env_OutletID env) (kt_OrderID t)"
  have derive: "deriveOrderStatus ?ts = derived_status (statuses_after db t ?to)"
    using listed_tickets(4) [OF s(3) ord3 ord(2,3)] after by (simp add: derive_status_set)
  let ?o = "follow_order (deriveOrderStatus ?ts) now ord"
  have op: "op_exists (env_ID env) db3" using a(6) s(6) by (simp add: op_exists_same)
  have o: "orders_map db3 (o_ID ord) = Some ord" "OrderStatus_Valid (o_Status ord)"
    "OrderStatus_Valid (deriveOrderStatus ?ts)"
    using ord3 oid c by (simp_all add: derive derived_valid coupled_def)
  obtain db4 where f: "advance_order (env_ID env) now ord (deriveOrderStatus ?ts) db3 = Inr (?o, db4)"
    "base db4" "orders_map db4 = (orders_map db3)(o_ID ord \<mapsto> ?o)" "tickets_map db4 = tickets_map db3" "same_log db3 db4"
    by (rule advance_order_effect [OF s(3) op o nf])
  define resp where "resp = responseFor 200 [] (env_ID env) (TransitionTicketResult ?t ?o)"
  have "db_idempotency db4 = db_idempotency db" using f(5) s(6) a(5) by (simp add: same_log_def)
  from finish_step [OF f(2) none this] obtain db5 where
    g: "finish_command route hash env resp now db4 = Inr (resp, db5)" "base db5"
    "orders_map db5 = orders_map db4" "tickets_map db5 = tickets_map db4"
    "db_operations db5 = db_operations db4" "db_outbox db5 = db_outbox db4" "same_rest db4 db5"
    "db_idempotency db5 = db_idempotency db @ [idempotency_row_of route hash env resp now]" .
  have "transition_ticket_body now route hash ticketID env input db = Inr (resp, db5)"
    unfolding transition_ticket_body_def found
    using parent version move found_order a(1) s(1,2) f(1) g(1) id oid by (simp add: Let_def resp_def) blast
  moreover have "transition_ticket_outcome now route hash ticketID env input t ord db resp db5"
    unfolding transition_ticket_outcome_def command_effect_def Let_def
    using g f s a id oid derive by (simp add: resp_def recorded_def same_log_def same_rest_def)
  ultimately show ?thesis using ord(1) by blast
qed

lemma transition_ticket_body_cases:
  assumes ok: "edge_ok db" and none: "lookupIdempotency db route hash env = Inr None"
    and fresh: "ensureOperationUnused db (env_ID env) = Inr ()"
    and body: "body = transition_ticket_body now route hash ticketID env input db"
  obtains (refused) e where "body = Inl e" "is_command_error e"
  | (committed) t ord resp db' where "body = Inr (resp, db')" "tickets_map db ticketID = Some t"
      "kt_TenantID t = env_TenantID env" "kt_OutletID t = env_OutletID env"
      "kt_Version t = ttp_ExpectedVersion input" "CanTransitionTicket (kt_Status t) (ttp_ToStatus input)"
      "orders_map db (kt_OrderID t) = Some ord"
      "transition_ticket_outcome now route hash ticketID env input t ord db resp db'"
proof (cases "getTicket db (env_TenantID env) (env_OutletID env) ticketID")
  case (Inl e)
  with refused getTicket_Inl show ?thesis by (simp add: body transition_ticket_body_def)
next
  case found: (Inr t)
  note b = ok [unfolded edge_ok_def, THEN conjunct1]
  note get = getTicket_Inr [OF baseD(3) [OF b] found]
  show ?thesis
  proof (cases "(ttp_ExpectedOrderID input \<noteq> [] \<longrightarrow> kt_OrderID t = ttp_ExpectedOrderID input)
      \<and> kt_Version t = ttp_ExpectedVersion input \<and> CanTransitionTicket (kt_Status t) (ttp_ToStatus input)")
    case guards: True
    then show ?thesis
      using transition_ticket_commits [OF ok none fresh get, of input now] get committed
      unfolding body by blast
  next
    case False
    then have "\<exists>e. body = Inl e \<and> is_command_error e"
      by (auto simp: body transition_ticket_body_def found)
    with refused show ?thesis by blast
  qed
qed

subsection \<open>TransitionOrderTickets\<close>

definition transition_order_tickets_outcome ::
  "time \<Rightarrow> string \<Rightarrow> string \<Rightarrow> string \<Rightarrow> mutation_envelope \<Rightarrow> ticket_status \<Rightarrow>
   order \<Rightarrow> db \<Rightarrow> stored_response \<Rightarrow> db \<Rightarrow> bool" where
  "transition_order_tickets_outcome now route hash orderID env to' ord db resp db' \<longleftrightarrow>
    (let ts = listTicketsForOrder db (env_TenantID env) (env_OutletID env) orderID;
         ord' = follow_order (derived_status {to'}) now ord in
     resp = responseFor 200 [] (env_ID env) (TransitionOrderResult ord' (map (turn_ticket to' now) ts))
     \<and> command_effect
         (operation_row_of env ''order'' orderID ''order'' orderID (o_Version ord') ''kitchenTicket.transitionAll'' now
            (Suc (length (db_operations db))))
         (outbox_row_of env now) (idempotency_row_of route hash env resp now)
         ((orders_map db)(orderID \<mapsto> ord')) (map_tickets (turn_ticket to' now) orderID (tickets_map db)) db db')"

lemma transition_order_tickets_commits:
  assumes ok: "edge_ok db" and none: "lookupIdempotency db route hash env = Inr None"
    and fresh: "ensureOperationUnused db (env_ID env) = Inr ()"
    and get: "orders_map db orderID = Some ord" "o_TenantID ord = env_TenantID env" "o_OutletID ord = env_OutletID env"
    and version: "expected \<noteq> 0" "o_Version ord = expected"
    and marks: "mark_tickets to' (listTicketsForOrder db (env_TenantID env) (env_OutletID env) orderID) = Inr marks"
    and changed: "list_ex snd marks"
  shows "\<exists>resp db'. transition_order_tickets_body now route hash orderID env to' expected db = Inr (resp, db')
    \<and> transition_order_tickets_outcome now route hash orderID env to' ord db resp db'"
proof -
  note b = ok [unfolded edge_ok_def, THEN conjunct1]
  note bs = baseD [OF b]
  have id: "o_ID ord = orderID" using orders_map_id [OF bs(2) get(1)] .
  have found: "getOrder db (env_TenantID env) (env_OutletID env) orderID = Inr ord"
    using get by (simp add: getOrder_map [OF bs(2)])
  let ?ts = "listTicketsForOrder db (env_TenantID env) (env_OutletID env) orderID"
  let ?turned = "map (turn_ticket to' now) ?ts"
  note listed = listed_tickets [OF b get]
  from marks have legal: "\<forall>t \<in> set ?ts. kt_Status t = to' \<or> CanTransitionTicket (kt_Status t) to'"
    and m: "marks = map (\<lambda>t. (t, kt_Status t \<noteq> to')) ?ts"
    by (simp_all add: mark_tickets_Inr)
  from ok get(1) have c: "coupled (o_Status ord) (ticket_statuses db orderID)"
    by (simp add: edge_ok_def coupling_def)
  from changed obtain t0 where t0: "t0 \<in> set ?ts" "kt_Status t0 \<noteq> to'"
    by (auto simp: m list_ex_iff)
  then have t0m: "CanTransitionTicket (kt_Status t0) to'" "kt_Status t0 \<in> ticket_statuses db orderID"
    using legal listed(4) by blast+
  have nf: "\<not> order_final (o_Status ord)"
    using coupled_final [OF c t0m(2)] CanTransitionTicket_not_final [OF t0m(1)] .
  have "kt_Status ` set ?turned = {to'}" using t0(1) by (auto simp: image_image)
  then have derive: "deriveOrderStatus ?turned = derived_status {to'}" by (simp only: derive_status_set)
  let ?o = "follow_order (derived_status {to'}) now ord"
  obtain db1 where a: "appendOperation env ''order'' orderID ''order'' orderID (o_Version ?o) ''kitchenTicket.transitionAll'' now db = Inr db1"
    "base db1" "orders_map db1 = orders_map db" "tickets_map db1 = tickets_map db"
    "db_idempotency db1 = db_idempotency db" "op_exists (env_ID env) db1"
    "recorded (operation_row_of env ''order'' orderID ''order'' orderID (o_Version ?o) ''kitchenTicket.transitionAll'' now
       (Suc (length (db_operations db)))) (outbox_row_of env now) db db1"
    by (rule append_step [OF b fresh])
  have "\<forall>t \<in> set ?ts. tickets_map db1 (kt_ID t) = Some t \<and> TicketStatus_Valid (kt_Status t)
      \<and> (kt_Status t = to' \<or> CanTransitionTicket (kt_Status t) to')"
    using listed(3,4) legal c unfolding a(4) by (metis coupled_def image_eqI)
  from store_marked_effect [OF a(2) a(6) listed(2) this, of now] obtain db3 where
    s: "store_marked (env_ID env) now to' marks db1 = Inr db3" "base db3"
    "orders_map db3 = orders_map db1" "same_log db1 db3"
    "tickets_map db3 = map_on (kt_ID ` set ?ts) (turn_ticket to' now) (tickets_map db1)"
    unfolding m by blast
  have op: "op_exists (env_ID env) db3" using a(6) s(4) by (simp add: op_exists_same)
  have o: "orders_map db3 (o_ID ord) = Some ord" "OrderStatus_Valid (o_Status ord)"
    "OrderStatus_Valid (derived_status {to'})"
    using get id c s(3) a(3) by (simp_all add: derived_valid coupled_def)
  obtain db4 where f: "advance_order (env_ID env) now ord (derived_status {to'}) db3 = Inr (?o, db4)"
    "base db4" "orders_map db4 = (orders_map db3)(o_ID ord \<mapsto> ?o)" "tickets_map db4 = tickets_map db3" "same_log db3 db4"
    by (rule advance_order_effect [OF s(2) op o nf])
  define resp where "resp = responseFor 200 [] (env_ID env) (TransitionOrderResult ?o ?turned)"
  have "db_idempotency db4 = db_idempotency db" using f(5) s(4) a(5) by (simp add: same_log_def)
  from finish_step [OF f(2) none this] obtain db5 where
    g: "finish_command route hash env resp now db4 = Inr (resp, db5)" "base db5"
    "orders_map db5 = orders_map db4" "tickets_map db5 = tickets_map db4"
    "db_operations db5 = db_operations db4" "db_outbox db5 = db_outbox db4" "same_rest db4 db5"
    "db_idempotency db5 = db_idempotency db @ [idempotency_row_of route hash env resp now]" .
  have aggregate: "o_Version ?o = (if shouldAdvanceOrder (o_Status ord) (derived_status {to'}) then o_Version ord + 1 else o_Version ord)"
    by (simp add: follow_order_def)
  have turned: "map (move_marked to' now) marks = ?turned" unfolding m by (rule move_marked_turn)
  have "transition_order_tickets_body now route hash orderID env to' expected db = Inr (resp, db5)"
    unfolding transition_order_tickets_body_def found
    using version marks changed a(1) [unfolded aggregate] s(1) f(1) g(1) id turned derive
    by (simp add: Let_def resp_def)
  moreover have "transition_order_tickets_outcome now route hash orderID env to' ord db resp db5"
    unfolding transition_order_tickets_outcome_def command_effect_def Let_def
    using g f s a id listed(5) by (simp add: resp_def recorded_def same_log_def same_rest_def)
  ultimately show ?thesis by blast
qed

lemma transition_order_tickets_body_cases:
  assumes ok: "edge_ok db" and none: "lookupIdempotency db route hash env = Inr None"
    and fresh: "ensureOperationUnused db (env_ID env) = Inr ()"
    and body: "body = transition_order_tickets_body now route hash orderID env to' expected db"
  obtains (refused) e where "body = Inl e" "is_command_error e"
  | (committed) ord resp db' where "body = Inr (resp, db')" "orders_map db orderID = Some ord"
      "o_TenantID ord = env_TenantID env" "o_OutletID ord = env_OutletID env" "o_Version ord = expected"
      "\<forall>x \<in> ticket_statuses db orderID. x = to' \<or> CanTransitionTicket x to'"
      "\<exists>x \<in> ticket_statuses db orderID. x \<noteq> to'"
      "transition_order_tickets_outcome now route hash orderID env to' ord db resp db'"
proof (cases "getOrder db (env_TenantID env) (env_OutletID env) orderID")
  case (Inl e)
  with refused getOrder_Inl show ?thesis by (simp add: body transition_order_tickets_body_def)
next
  case found: (Inr ord)
  note b = ok [unfolded edge_ok_def, THEN conjunct1]
  note get = getOrder_Inr [OF baseD(2) [OF b] found]
  have id: "o_ID ord = orderID" using orders_map_id [OF baseD(2) [OF b] get(1)] .
  note listed = listed_tickets(4) [OF b get]
  show ?thesis
  proof (cases "expected \<noteq> 0 \<and> o_Version ord = expected")
    case guards: True
    show ?thesis
    proof (cases "mark_tickets to' (listTicketsForOrder db (env_TenantID env) (env_OutletID env) orderID)")
      case (Inl e)
      with mark_tickets_Inl [OF Inl] guards have "\<exists>e. body = Inl e \<and> is_command_error e"
        by (auto simp: body transition_order_tickets_body_def found id)
      with refused show ?thesis by blast
    next
      case marks: (Inr marks)
      show ?thesis
      proof (cases "list_ex snd marks")
        case True
        from marks have "\<forall>x \<in> ticket_statuses db orderID. x = to' \<or> CanTransitionTicket x to'"
          unfolding listed [symmetric] by (simp add: mark_tickets_Inr)
        moreover from marks True have "\<exists>x \<in> ticket_statuses db orderID. x \<noteq> to'"
          unfolding listed [symmetric] by (auto simp: mark_tickets_Inr list_ex_iff)
        ultimately show ?thesis
          using transition_order_tickets_commits [OF ok none fresh get _ _ marks True] guards get committed
          unfolding body by blast
      next
        case False
        with guards have "\<exists>e. body = Inl e \<and> is_command_error e"
          by (auto simp: body transition_order_tickets_body_def found id marks)
        with refused show ?thesis by blast
      qed
    qed
  next
    case False
    then have "\<exists>e. body = Inl e \<and> is_command_error e"
      by (auto simp: body transition_order_tickets_body_def found)
    with refused show ?thesis by blast
  qed
qed

end
