(* ===== verification/Edge_Create_Handler.thy ===== *)
theory Edge_Create_Handler
  imports Edge_Handlers
begin

text \<open>
  The effect of \<open>CreateOrder\<close>: the routing of the lines to stations, the insertion of the
  order and of its tickets.
\<close>

subsection \<open>Routing\<close>

text \<open>The routes of some lines: each station once, in order of first use, with its line identifiers.\<close>

definition routed :: "order_line list \<Rightarrow> (string \<times> string list) list \<Rightarrow> bool" where
  "routed lines routes \<longleftrightarrow> distinct (map fst routes) \<and> fst ` set routes = ol_StationID ` set lines
     \<and> (\<forall>(s, ids) \<in> set routes. ids = map ol_ID (filter (\<lambda>l. ol_StationID l = s) lines))"

lemma map_fst_add: "map fst (map (\<lambda>(s, ids). (s, f s ids)) routes) = map fst routes"
  by (induction routes) auto

lemma routed_add: "routed lines routes \<Longrightarrow> routed (lines @ [l]) (add_line routes l)"
proof (cases "ol_StationID l \<in> fst ` set routes")
  case True
  assume r: "routed lines routes"
  let ?routes = "map (\<lambda>(s, ids). (s, if s = ol_StationID l then ids @ [ol_ID l] else ids)) routes"
  have add: "add_line routes l = ?routes" using True by (simp add: add_line_def)
  have fst: "map fst ?routes = map fst routes" by (rule map_fst_add)
  then have "fst ` set ?routes = fst ` set routes" by (metis set_map)
  moreover from r True have "insert (ol_StationID l) (ol_StationID ` set lines) = ol_StationID ` set lines"
    by (auto simp: routed_def)
  ultimately show ?thesis using r unfolding routed_def add fst by auto
next
  case False
  assume r: "routed lines routes"
  have add: "add_line routes l = routes @ [(ol_StationID l, [ol_ID l])]" using False by (simp add: add_line_def)
  from r False have none: "filter (\<lambda>x. ol_StationID x = ol_StationID l) lines = []"
    unfolding routed_def by (metis (mono_tags, lifting) filter_False image_eqI)
  have ids: "ids = map ol_ID (filter (\<lambda>x. ol_StationID x = s) (lines @ [l]))"
    if "(s, ids) \<in> set (add_line routes l)" for s ids
  proof (cases "(s, ids) \<in> set routes")
    case True
    with False have "s \<noteq> ol_StationID l" by force
    with True r show ?thesis by (auto simp: routed_def)
  next
    case False
    with that have "s = ol_StationID l" "ids = [ol_ID l]" by (simp_all add: add)
    with none show ?thesis by simp
  qed
  from False have "distinct (map fst (add_line routes l))" "fst ` set (add_line routes l) = ol_StationID ` set (lines @ [l])"
    using r by (auto simp: routed_def add)
  with ids show ?thesis unfolding routed_def by blast
qed

lemma routed_foldl: "routed done' routes \<Longrightarrow> routed (done' @ ls) (foldl add_line routes ls)"
proof (induction ls arbitrary: done' routes)
  case (Cons l ls)
  from Cons.IH [OF routed_add [OF Cons.prems]] show ?case by simp
qed simp

lemma station_routes_routed: "routed ls (station_routes ls)"
  using routed_foldl [of "[]" "[]" ls] by (simp add: station_routes_def routed_def)

subsection \<open>The tickets\<close>

lemma build_tickets_Cons:
  assumes "build_tickets mk preallocated newID db n ((s, ls) # routes) = Inr tickets"
  obtains i n' ts where "build_tickets mk preallocated newID db n' routes = Inr ts"
    "tickets = mk i s ls # ts" "\<forall>r \<in> set (db_tickets db). tk_id r \<noteq> i"
  using assms by (auto simp: Let_def rbind_Inr_iff list_ex_iff split: prod.splits if_splits)

lemma build_tickets_Inr:
  assumes "build_tickets mk preallocated newID db n routes = Inr tickets"
    and mk: "\<And>i s ls. kt_ID (mk i s ls) = i" "\<And>i s ls. kt_StationID (mk i s ls) = s"
      "\<And>i s ls. kt_LineIDs (mk i s ls) = ls"
  shows "map (\<lambda>t. (kt_StationID t, kt_LineIDs t)) tickets = routes
    \<and> (\<forall>t \<in> set tickets. t = mk (kt_ID t) (kt_StationID t) (kt_LineIDs t))
    \<and> (\<forall>t \<in> set tickets. \<forall>r \<in> set (db_tickets db). tk_id r \<noteq> kt_ID t)"
  using assms(1)
proof (induction routes arbitrary: n tickets)
  case (Cons route routes)
  obtain s ls where r: "route = (s, ls)" by (cases route)
  from build_tickets_Cons [OF Cons.prems [unfolded r]] obtain i n' ts where
    ts: "build_tickets mk preallocated newID db n' routes = Inr ts" "tickets = mk i s ls # ts"
      "\<forall>r \<in> set (db_tickets db). tk_id r \<noteq> i" .
  from Cons.IH [OF ts(1)] ts(2,3) show ?case by (simp add: mk r)
qed simp

lemma build_tickets_Inl: "build_tickets mk preallocated newID db n routes = Inl e \<Longrightarrow> is_command_error e"
proof (induction routes arbitrary: n)
  case (Cons route routes)
  then show ?case
    by (cases route) (auto simp: Let_def rbind_Inl_iff split: if_splits prod.splits)
qed simp

subsection \<open>Insertions\<close>

lemma insert_order_step:
  assumes b: "base db" and new: "orders_map db (o_ID ord) = None"
    and no_clash: "\<not> list_ex (order_rows_clash (order_row_of ord)) (db_orders db)"
    and init: "o_Status ord = OrderReceived" "o_Version ord = 1" and op: "op_exists op db"
  obtains db1 db2 where "insertOrder ord db = Inr db1"
    "insertOrderTransition (o_ID ord) op (OtherOrderStatus []) (o_Status ord) (o_Version ord) now db1 = Inr db2"
    "base db2" "orders_map db2 = (orders_map db)(o_ID ord \<mapsto> ord)" "tickets_map db2 = tickets_map db" "same_log db db2"
proof -
  note ok = baseD [OF b]
  define db1 where "db1 = db\<lparr>db_orders := db_orders db @ [order_row_of ord]\<rparr>"
  have i: "insertOrder ord db = Inr db1" using no_clash by (simp add: insertOrder_def db1_def)
  note ins = insertOrder_Inr [OF ok(2) i]
  let ?r = "\<lparr>tr_sequence = next_sequence (map tr_sequence (db_order_transitions db1)),
     tr_subject_id = o_ID ord, tr_operation_id = op, tr_from_status = None,
     tr_to_status = OrderReceived, tr_version = 1, tr_recorded_at = formatTime now\<rparr>"
  define db2 where "db2 = db1\<lparr>db_order_transitions := db_order_transitions db1 @ [?r]\<rparr>"
  have "list_ex (\<lambda>r. or_id r = o_ID ord) (db_orders db1)"
    using ins(3) unfolding order_table.list_ex_key by (simp add: orders_map_def)
  then have l: "insertOrderTransition (o_ID ord) op (OtherOrderStatus []) (o_Status ord) (o_Version ord) now db1 = Inr db2"
    using op init by (simp add: insertOrderTransition_def db2_def op_exists_def db1_def)
  have eqs: "db_tickets db2 = db_tickets db" "db_operations db2 = db_operations db" "db_outbox db2 = db_outbox db"
    "db_idempotency db2 = db_idempotency db" "db_ticket_transitions db2 = db_ticket_transitions db"
    "db_orders db2 = db_orders db1" "db_order_transitions db2 = db_order_transitions db @ [?r]" "same_rest db db2"
    by (simp_all add: db2_def db1_def same_rest_def)
  have maps: "orders_map db2 = (orders_map db)(o_ID ord \<mapsto> ord)" "tickets_map db2 = tickets_map db"
    using ins(3) frame(2) [OF eqs(6)] frame(4) [OF eqs(1)] by simp_all
  have "logs_ok order_moves OrderReceived o_Status o_Version (db_order_transitions db @ [?r])
      ((orders_map db)(tr_subject_id ?r \<mapsto> ord))"
    by (rule logs_ok_start [OF ok(7) [unfolded order_logs_ok_def]]) (simp_all add: log_entry_def new init)
  then have "order_logs_ok db2" by (simp only: order_logs_ok_def maps eqs transition_row.select_convs)
  moreover have "ticket_logs_ok db2" using ok(8) by (simp only: ticket_logs_ok_def maps eqs)
  moreover have "tables_ok db2"
    using ok(1-5) ins(2) unfolding tables_ok_def
    by (simp only: frame(1) [OF eqs(6)] frame(3) [OF eqs(1)] frame(5) [OF eqs(2,3)] frame(6) [OF eqs(4)])
  moreover have "owned db2" using ok(6) new unfolding owned_def maps by fastforce
  ultimately have "base db2" by (simp add: base_def)
  show ?thesis by (rule that [OF i l \<open>base db2\<close> maps]) (simp add: same_log_def eqs)
qed

lemma insert_ticket_step:
  assumes b: "base db" and new: "tickets_map db (kt_ID t) = None"
    and station: "\<forall>u \<in> ran (tickets_map db). kt_OrderID u = kt_OrderID t \<longrightarrow> kt_StationID u \<noteq> kt_StationID t"
    and ord: "orders_map db (kt_OrderID t) = Some ord" "o_TenantID ord = kt_TenantID t" "o_OutletID ord = kt_OutletID t"
    and init: "kt_Status t = TicketQueued" "kt_Version t = 1" and op: "op_exists op db"
  obtains db1 db2 where "insertTicket t db = Inr db1"
    "insertTicketTransition (kt_ID t) op (OtherTicketStatus []) (kt_Status t) (kt_Version t) now db1 = Inr db2"
    "base db2" "tickets_map db2 = (tickets_map db)(kt_ID t \<mapsto> t)" "orders_map db2 = orders_map db" "same_log db db2"
proof -
  note ok = baseD [OF b]
  define db1 where "db1 = db\<lparr>db_tickets := db_tickets db @ [ticket_row_of t]\<rparr>"
  have "\<not> ticket_rows_clash (ticket_row_of t) r" if r: "r \<in> set (db_tickets db)" for r
  proof -
    from r ok(3) have row: "ticket_row_of (tk_data_json r) = r" by (simp add: tickets_ok_def table_ok_def)
    with r ok(3) have "tk_data_json r \<in> ran (tickets_map db)"
      unfolding tickets_ok_def tickets_map_def by (simp add: ticket_table.ran_to_map)
    moreover have "tk_id r \<noteq> kt_ID t" using new r by (auto simp: tickets_map_def ticket_table.to_map_None)
    moreover have "kt_OrderID (tk_data_json r) = tk_order_id r" "kt_StationID (tk_data_json r) = tk_station_id r"
      using row by (metis ticket_row.select_convs(4,5) ticket_row_of_def)+
    ultimately show ?thesis using station by (auto simp: ticket_rows_clash_def ticket_row_of_def)
  qed
  moreover have "list_ex (\<lambda>r. or_id r = kt_OrderID t) (db_orders db)"
    using ord unfolding order_table.list_ex_key by (simp add: orders_map_def)
  ultimately have i: "insertTicket t db = Inr db1" by (auto simp: insertTicket_def db1_def list_ex_iff)
  note ins = insertTicket_Inr [OF ok(3) i]
  let ?r = "\<lparr>tr_sequence = next_sequence (map tr_sequence (db_ticket_transitions db1)),
     tr_subject_id = kt_ID t, tr_operation_id = op, tr_from_status = None,
     tr_to_status = TicketQueued, tr_version = 1, tr_recorded_at = formatTime now\<rparr>"
  define db2 where "db2 = db1\<lparr>db_ticket_transitions := db_ticket_transitions db1 @ [?r]\<rparr>"
  have "list_ex (\<lambda>r. tk_id r = kt_ID t) (db_tickets db1)"
    using ins(3) unfolding ticket_table.list_ex_key by (simp add: tickets_map_def)
  then have l: "insertTicketTransition (kt_ID t) op (OtherTicketStatus []) (kt_Status t) (kt_Version t) now db1 = Inr db2"
    using op init by (simp add: insertTicketTransition_def db2_def op_exists_def db1_def)
  have eqs: "db_orders db2 = db_orders db" "db_operations db2 = db_operations db" "db_outbox db2 = db_outbox db"
    "db_idempotency db2 = db_idempotency db" "db_order_transitions db2 = db_order_transitions db"
    "db_tickets db2 = db_tickets db1" "db_ticket_transitions db2 = db_ticket_transitions db @ [?r]" "same_rest db db2"
    by (simp_all add: db2_def db1_def same_rest_def)
  have maps: "tickets_map db2 = (tickets_map db)(kt_ID t \<mapsto> t)" "orders_map db2 = orders_map db"
    using ins(3) frame(4) [OF eqs(6)] frame(2) [OF eqs(1)] by simp_all
  have "logs_ok ticket_moves TicketQueued kt_Status kt_Version (db_ticket_transitions db @ [?r])
      ((tickets_map db)(tr_subject_id ?r \<mapsto> t))"
    by (rule logs_ok_start [OF ok(8) [unfolded ticket_logs_ok_def]]) (simp_all add: log_entry_def new init)
  then have "ticket_logs_ok db2" by (simp only: ticket_logs_ok_def maps eqs transition_row.select_convs)
  moreover have "order_logs_ok db2" using ok(7) by (simp only: order_logs_ok_def maps eqs)
  moreover have "tables_ok db2"
    using ok(1-5) ins(2) unfolding tables_ok_def
    by (simp only: frame(3) [OF eqs(6)] frame(1) [OF eqs(1)] frame(5) [OF eqs(2,3)] frame(6) [OF eqs(4)])
  moreover have "owned db2" using ok(6) ord unfolding owned_def maps ran_def by (auto split: if_splits)
  ultimately have "base db2" by (simp add: base_def)
  show ?thesis by (rule that [OF i l \<open>base db2\<close> maps]) (simp add: same_log_def eqs)
qed

definition add_tickets :: "kitchen_ticket list \<Rightarrow> (string \<Rightarrow> kitchen_ticket option) \<Rightarrow> string \<Rightarrow> kitchen_ticket option" where
  "add_tickets ts m = foldl (\<lambda>m t. m(kt_ID t \<mapsto> t)) m ts"

lemma add_tickets_Cons: "add_tickets (t # ts) m = add_tickets ts (m(kt_ID t \<mapsto> t))"
  by (simp add: add_tickets_def)

lemma add_tickets_old: "k \<notin> kt_ID ` set ts \<Longrightarrow> add_tickets ts m k = m k"
  by (induction ts arbitrary: m) (simp_all add: add_tickets_Cons, simp add: add_tickets_def)

lemma add_tickets_new: "distinct (map kt_ID ts) \<Longrightarrow> t \<in> set ts \<Longrightarrow> add_tickets ts m (kt_ID t) = Some t"
proof (induction ts arbitrary: m)
  case (Cons u ts)
  then show ?case by (cases "t = u") (simp_all add: add_tickets_Cons add_tickets_old)
qed simp

lemma ran_add_tickets:
  assumes "distinct (map kt_ID ts)" "\<forall>t \<in> set ts. m (kt_ID t) = None"
  shows "ran (add_tickets ts m) = ran m \<union> set ts"
  using assms
proof (induction ts arbitrary: m)
  case (Cons t ts)
  have other: "kt_ID u \<noteq> kt_ID t" if "u \<in> set ts" for u
    using Cons.prems(1) that by (metis distinct.simps(2) image_eqI list.set_map list.simps(9))
  have "ran (m(kt_ID t \<mapsto> t)) = insert t (ran m)" using Cons.prems(2) by simp
  moreover have "ran (add_tickets ts (m(kt_ID t \<mapsto> t))) = ran (m(kt_ID t \<mapsto> t)) \<union> set ts"
    using Cons.prems other by (intro Cons.IH) simp_all
  ultimately show ?case by (simp add: add_tickets_Cons)
qed (simp add: add_tickets_def)

text \<open>The loop of insertions goes through when the identifiers are distinct and new.\<close>

lemma insert_tickets_effect:
  assumes "base db" "op_exists op db" "distinct (map kt_ID ts)" "distinct (map kt_StationID ts)"
    and "orders_map db k = Some ord"
    and "\<forall>t \<in> set ts. tickets_map db (kt_ID t) = None \<and> kt_OrderID t = k \<and> kt_TenantID t = o_TenantID ord
      \<and> kt_OutletID t = o_OutletID ord \<and> kt_Status t = TicketQueued \<and> kt_Version t = 1"
    and "\<forall>u \<in> ran (tickets_map db). kt_OrderID u = k \<longrightarrow> kt_StationID u \<notin> kt_StationID ` set ts"
  shows "\<exists>db'. insert_tickets op now ts db = Inr db' \<and> base db' \<and> orders_map db' = orders_map db
    \<and> tickets_map db' = add_tickets ts (tickets_map db) \<and> same_log db db'"
  using assms
proof (induction ts arbitrary: db)
  case (Cons t ts)
  have t: "tickets_map db (kt_ID t) = None" "kt_OrderID t = k" "o_TenantID ord = kt_TenantID t"
    "o_OutletID ord = kt_OutletID t" "kt_Status t = TicketQueued" "kt_Version t = 1"
    using Cons.prems(6) by simp_all
  have station: "\<forall>u \<in> ran (tickets_map db). kt_OrderID u = kt_OrderID t \<longrightarrow> kt_StationID u \<noteq> kt_StationID t"
    using Cons.prems(7) t(2) by auto
  have ord: "orders_map db (kt_OrderID t) = Some ord" using Cons.prems(5) t(2) by simp
  obtain db1 db2 where s: "insertTicket t db = Inr db1"
    "insertTicketTransition (kt_ID t) op (OtherTicketStatus []) (kt_Status t) (kt_Version t) now db1 = Inr db2"
    "base db2" "tickets_map db2 = (tickets_map db)(kt_ID t \<mapsto> t)" "orders_map db2 = orders_map db" "same_log db db2"
    by (rule insert_ticket_step [OF Cons.prems(1) t(1) station ord t(3-6) Cons.prems(2)])
  have other: "kt_ID u \<noteq> kt_ID t \<and> kt_StationID u \<noteq> kt_StationID t" if "u \<in> set ts" for u
    using Cons.prems(3,4) that by (metis distinct.simps(2) image_eqI list.set_map list.simps(9))
  have "ran (tickets_map db2) = insert t (ran (tickets_map db))" using t(1) by (simp add: s(4))
  then have stations: "\<forall>u \<in> ran (tickets_map db2). kt_OrderID u = k \<longrightarrow> kt_StationID u \<notin> kt_StationID ` set ts"
    using Cons.prems(4,7) by auto
  have new: "\<forall>t \<in> set ts. tickets_map db2 (kt_ID t) = None \<and> kt_OrderID t = k \<and> kt_TenantID t = o_TenantID ord
      \<and> kt_OutletID t = o_OutletID ord \<and> kt_Status t = TicketQueued \<and> kt_Version t = 1"
    using Cons.prems(6) other by (simp add: s(4))
  have op: "op_exists op db2" using Cons.prems(2) s(6) by (simp add: op_exists_same)
  have d: "distinct (map kt_ID ts)" "distinct (map kt_StationID ts)" using Cons.prems(3,4) by simp_all
  have ord2: "orders_map db2 k = Some ord" using Cons.prems(5) by (simp add: s(5))
  from Cons.IH [OF s(3) op d ord2 new stations] obtain db' where
    "insert_tickets op now ts db2 = Inr db'" "base db'" "orders_map db' = orders_map db2"
    "tickets_map db' = add_tickets ts (tickets_map db2)" "same_log db2 db'" by blast
  with s same_log_trans [OF s(6)] show ?case by (auto simp: add_tickets_def)
qed (simp add: add_tickets_def)

subsection \<open>CreateOrder\<close>

lemma fold_max_mem: "m \<in> set ns \<Longrightarrow> (m :: nat) \<le> fold max ns n"
  by (simp flip: Max.set_eq_fold)

lemma next_order_number_fresh:
  assumes "r \<in> set (db_orders db)" "or_tenant_id r = tenant" "or_outlet_id r = outlet"
  shows "or_order_number r < next_order_number db tenant outlet"
proof -
  have "or_order_number r \<in> set (map or_order_number
      (filter (\<lambda>r. or_tenant_id r = tenant \<and> or_outlet_id r = outlet) (db_orders db)))"
    using assms by auto
  from fold_max_mem [OF this, of 0] show ?thesis by (simp add: next_order_number_def)
qed

definition create_order_outcome ::
  "time \<Rightarrow> string \<Rightarrow> string \<Rightarrow> mutation_envelope \<Rightarrow> new_order \<Rightarrow> kitchen_ticket list \<Rightarrow>
   db \<Rightarrow> stored_response \<Rightarrow> db \<Rightarrow> bool" where
  "create_order_outcome now route hash env input tickets db resp db' \<longleftrightarrow>
    (let ord = new_order_projection env input (next_order_number db (env_TenantID env) (env_OutletID env)) now in
     resp = responseFor 201 (''/api/v1/orders/'' @ PathEscape (no_ID input)) (env_ID env) (CreateOrderResult ord tickets)
     \<and> map (\<lambda>t. (kt_StationID t, kt_LineIDs t)) tickets = station_routes (no_Lines input)
     \<and> (\<forall>t \<in> set tickets. t = new_ticket env input now (kt_ID t) (kt_StationID t) (kt_LineIDs t)
          \<and> tickets_map db (kt_ID t) = None)
     \<and> distinct (map kt_ID tickets)
     \<and> command_effect
         (operation_row_of env ''order'' (no_ID input) ''order'' (no_ID input) 1 ''order.create'' now
            (Suc (length (db_operations db))))
         (outbox_row_of env now) (idempotency_row_of route hash env resp now)
         ((orders_map db)(no_ID input \<mapsto> ord)) (add_tickets tickets (tickets_map db)) db db')"

lemma new_order_projection_simps [simp]:
  "o_ID (new_order_projection env input n now) = no_ID input"
  "o_TenantID (new_order_projection env input n now) = env_TenantID env"
  "o_OutletID (new_order_projection env input n now) = env_OutletID env"
  "o_Status (new_order_projection env input n now) = OrderReceived"
  "o_Version (new_order_projection env input n now) = 1"
  by (simp_all add: new_order_projection_def)

lemma new_order_no_clash:
  assumes "\<not> list_ex (\<lambda>r. or_id r = no_ID input) (db_orders db)"
    and "\<not> (no_ExternalRef input \<noteq> [] \<and>
       list_ex (\<lambda>r. or_tenant_id r = env_TenantID env \<and> or_outlet_id r = env_OutletID env
                  \<and> or_external_ref r = Some (no_ExternalRef input)) (db_orders db))"
  shows "\<not> list_ex (order_rows_clash (order_row_of (new_order_projection env input
     (next_order_number db (env_TenantID env) (env_OutletID env)) now))) (db_orders db)"
  using assms next_order_number_fresh [of _ db "env_TenantID env" "env_OutletID env"]
  by (fastforce simp: list_ex_iff order_rows_clash_def order_row_of_def new_order_projection_def split: if_splits)

lemma create_order_commits:
  assumes ok: "edge_ok db" and none: "lookupIdempotency db route hash env = Inr None"
    and fresh: "ensureOperationUnused db (env_ID env) = Inr ()"
    and id: "\<not> list_ex (\<lambda>r. or_id r = no_ID input) (db_orders db)"
    and ext: "\<not> (no_ExternalRef input \<noteq> [] \<and>
       list_ex (\<lambda>r. or_tenant_id r = env_TenantID env \<and> or_outlet_id r = env_OutletID env
                  \<and> or_external_ref r = Some (no_ExternalRef input)) (db_orders db))"
    and build: "build_tickets (new_ticket env input now) (no_StationTicketIDs input) newID db 0
                  (station_routes (no_Lines input)) = Inr tickets"
    and distinct: "distinct (map kt_ID tickets)"
  shows "\<exists>resp db'. create_order_body now newID route hash env input db = Inr (resp, db')
    \<and> create_order_outcome now route hash env input tickets db resp db'"
proof -
  note b = ok [unfolded edge_ok_def, THEN conjunct1]
  note bs = baseD [OF b]
  let ?ord = "new_order_projection env input (next_order_number db (env_TenantID env) (env_OutletID env)) now"
  have mk: "kt_ID (new_ticket env input now i s ls) = i" "kt_StationID (new_ticket env input now i s ls) = s"
    "kt_LineIDs (new_ticket env input now i s ls) = ls" for i s ls
    by (simp_all add: new_ticket_def)
  note built = build_tickets_Inr [OF build mk]
  have new: "orders_map db (no_ID input) = None"
    using id by (auto simp: orders_map_def order_table.to_map_None list_ex_iff)
  have tnew: "tickets_map db (kt_ID t) = None" if "t \<in> set tickets" for t
    using built that by (auto simp: tickets_map_def ticket_table.to_map_None)
  have each: "kt_OrderID t = no_ID input \<and> kt_TenantID t = env_TenantID env \<and> kt_OutletID t = env_OutletID env
      \<and> kt_Status t = TicketQueued \<and> kt_Version t = 1" if "t \<in> set tickets" for t
    using built that by (metis kitchen_ticket.select_convs(2,3,4,7,12) new_ticket_def)
  obtain db1 where a: "appendOperation env ''order'' (no_ID input) ''order'' (no_ID input) 1 ''order.create'' now db = Inr db1"
    "base db1" "orders_map db1 = orders_map db" "tickets_map db1 = tickets_map db"
    "db_idempotency db1 = db_idempotency db" "op_exists (env_ID env) db1"
    "recorded (operation_row_of env ''order'' (no_ID input) ''order'' (no_ID input) 1 ''order.create'' now
       (Suc (length (db_operations db)))) (outbox_row_of env now) db db1"
    by (rule append_step [OF b fresh])
  have same: "db_orders db1 = db_orders db"
    using a(1) by (auto simp: appendOperation_def split: if_splits)
  have "orders_map db1 (o_ID ?ord) = None" using new by (simp add: a(3))
  moreover have "\<not> list_ex (order_rows_clash (order_row_of ?ord)) (db_orders db1)"
    unfolding same by (rule new_order_no_clash [OF id ext])
  ultimately obtain db2 db3 where s: "insertOrder ?ord db1 = Inr db2"
    "insertOrderTransition (o_ID ?ord) (env_ID env) (OtherOrderStatus []) (o_Status ?ord) (o_Version ?ord) now db2 = Inr db3"
    "base db3" "orders_map db3 = (orders_map db1)(o_ID ?ord \<mapsto> ?ord)" "tickets_map db3 = tickets_map db1" "same_log db1 db3"
    using insert_order_step [OF a(2), of ?ord "env_ID env" now] a(6) by auto
  have "map kt_StationID tickets = map fst (station_routes (no_Lines input))"
    using built by (metis (no_types, lifting) map_eq_conv comp_apply fst_conv list.map_comp)
  then have stations: "distinct (map kt_StationID tickets)"
    using station_routes_routed [of "no_Lines input"] by (simp add: routed_def)
  have none_owned: "kt_OrderID u \<noteq> no_ID input" if "u \<in> ran (tickets_map db3)" for u
    using bs(6) that new by (auto simp: owned_def s(5) a(4))
  have op: "op_exists (env_ID env) db3" using a(6) s(6) by (simp add: op_exists_same)
  have "\<exists>db'. insert_tickets (env_ID env) now tickets db3 = Inr db' \<and> base db' \<and> orders_map db' = orders_map db3
      \<and> tickets_map db' = add_tickets tickets (tickets_map db3) \<and> same_log db3 db'"
    by (rule insert_tickets_effect [OF s(3) op distinct stations, of "no_ID input" ?ord])
      (use each tnew none_owned in \<open>auto simp: s(4,5) a(4)\<close>)
  then obtain db4 where t: "insert_tickets (env_ID env) now tickets db3 = Inr db4" "base db4"
    "orders_map db4 = orders_map db3" "tickets_map db4 = add_tickets tickets (tickets_map db3)" "same_log db3 db4"
    by blast
  define resp where "resp = responseFor 201 (''/api/v1/orders/'' @ PathEscape (no_ID input)) (env_ID env)
    (CreateOrderResult ?ord tickets)"
  have "db_idempotency db4 = db_idempotency db" using t(5) s(6) a(5) by (simp add: same_log_def)
  from finish_step [OF t(2) none this] obtain db5 where
    f: "finish_command route hash env resp now db4 = Inr (resp, db5)" "base db5"
    "orders_map db5 = orders_map db4" "tickets_map db5 = tickets_map db4"
    "db_operations db5 = db_operations db4" "db_outbox db5 = db_outbox db4" "same_rest db4 db5"
    "db_idempotency db5 = db_idempotency db @ [idempotency_row_of route hash env resp now]" .
  have "create_order_body now newID route hash env input db = Inr (resp, db5)"
    unfolding create_order_body_def if_not_P [OF id] if_not_P [OF ext]
    using build a(1) s(1,2) t(1) f(1) by (simp add: Let_def resp_def)
  moreover have "create_order_outcome now route hash env input tickets db resp db5"
    unfolding create_order_outcome_def command_effect_def Let_def
    using f t s a built tnew distinct by (simp add: resp_def recorded_def same_log_def same_rest_def)
  ultimately show ?thesis by blast
qed

text \<open>Two equal new identifiers violate the primary key.\<close>

lemma insert_tickets_distinct:
  "insert_tickets op now ts db = Inr db' \<Longrightarrow>
   distinct (map kt_ID ts) \<and> (\<forall>t \<in> set ts. \<forall>r \<in> set (db_tickets db). tk_id r \<noteq> kt_ID t)"
proof (induction ts arbitrary: db)
  case (Cons t ts)
  then obtain db1 db2 where i: "insertTicket t db = Inr db1"
    "insertTicketTransition (kt_ID t) op (OtherTicketStatus []) (kt_Status t) (kt_Version t) now db1 = Inr db2"
    "insert_tickets op now ts db2 = Inr db'" by (auto simp: rbind_Inr_iff)
  from i(1) have "db_tickets db1 = db_tickets db @ [ticket_row_of t]" "\<forall>r \<in> set (db_tickets db). tk_id r \<noteq> kt_ID t"
    by (auto simp: insertTicket_def list_ex_iff ticket_rows_clash_def ticket_row_of_def split: if_splits)
  moreover from i(2) have "db_tickets db2 = db_tickets db1"
    by (auto simp: insertTicketTransition_def split: if_splits)
  ultimately show ?case using Cons.IH [OF i(3)] by (auto simp: ticket_row_of_def)
qed simp

lemma create_order_body_cases:
  assumes ok: "edge_ok db" and none: "lookupIdempotency db route hash env = Inr None"
    and fresh: "ensureOperationUnused db (env_ID env) = Inr ()"
    and body: "body = create_order_body now newID route hash env input db"
  obtains (refused) e where "body = Inl e" "is_command_error e"
  | (collision) e tickets where "body = Inl e" "\<not> distinct (map kt_ID tickets)"
      "build_tickets (new_ticket env input now) (no_StationTicketIDs input) newID db 0
         (station_routes (no_Lines input)) = Inr tickets"
  | (committed) tickets resp db' where "body = Inr (resp, db')" "orders_map db (no_ID input) = None"
      "create_order_outcome now route hash env input tickets db resp db'"
proof (cases "list_ex (\<lambda>r. or_id r = no_ID input) (db_orders db)
    \<or> no_ExternalRef input \<noteq> [] \<and>
       list_ex (\<lambda>r. or_tenant_id r = env_TenantID env \<and> or_outlet_id r = env_OutletID env
                  \<and> or_external_ref r = Some (no_ExternalRef input)) (db_orders db)")
  case True
  then have "\<exists>e. body = Inl e \<and> is_command_error e" by (auto simp: body create_order_body_def)
  with refused show ?thesis by blast
next
  case False
  then have id: "\<not> list_ex (\<lambda>r. or_id r = no_ID input) (db_orders db)"
    and ext: "\<not> (no_ExternalRef input \<noteq> [] \<and>
       list_ex (\<lambda>r. or_tenant_id r = env_TenantID env \<and> or_outlet_id r = env_OutletID env
                  \<and> or_external_ref r = Some (no_ExternalRef input)) (db_orders db))" by blast+
  note unfold = body create_order_body_def if_not_P [OF id] if_not_P [OF ext]
  show ?thesis
  proof (cases "build_tickets (new_ticket env input now) (no_StationTicketIDs input) newID db 0
      (station_routes (no_Lines input))")
    case (Inl e)
    then have "body = Inl e" unfolding unfold by (simp add: Let_def)
    with refused build_tickets_Inl [OF Inl] show ?thesis by blast
  next
    case build: (Inr tickets)
    show ?thesis
    proof (cases "distinct (map kt_ID tickets)")
      case True
      have "orders_map db (no_ID input) = None"
        using id by (auto simp: orders_map_def order_table.to_map_None list_ex_iff)
      with create_order_commits [OF ok none fresh id ext build True] committed show ?thesis
        unfolding body by blast
    next
      case dup: False
      have "\<exists>e. body = Inl e"
      proof (cases body)
        case (Inr r)
        then obtain db3 db4 where "insert_tickets (env_ID env) now tickets db3 = Inr db4"
          unfolding unfold build by (auto simp: Let_def rbind_Inr_iff)
        with insert_tickets_distinct dup show ?thesis by blast
      qed simp
      with collision dup build show ?thesis by blast
    qed
  qed
qed

end
