(* ===== verification/Edge_Outbox.thy ===== *)
theory Edge_Outbox
  imports Edge_Invariant
begin

text \<open>
  The synchronization outbox of \<open>store.go\<close> (\<open>PendingOperations\<close>, \<open>RecordSyncResults\<close>,
  \<open>RecordSyncFailure\<close>, \<open>retryDelay\<close>, \<open>conciseSyncProblem\<close>, \<open>SyncStats\<close>):
  which operations are eligible, how a result of the cloud changes a row, when a retry is due,
  and why no operation overtakes an unresolved predecessor of its stream.
\<close>

subsection \<open>The queries and updates\<close>

definition same_stream :: "operation_row \<Rightarrow> operation_row \<Rightarrow> bool" where
  "same_stream p o' \<longleftrightarrow> opr_tenant_id p = opr_tenant_id o' \<and> opr_outlet_id p = opr_outlet_id o'
     \<and> opr_causality_type p = opr_causality_type o' \<and> opr_causality_id p = opr_causality_id o'"

definition has_unresolved_predecessor :: "db \<Rightarrow> operation_row \<Rightarrow> bool" where
  "has_unresolved_predecessor db o' \<longleftrightarrow>
     list_ex (\<lambda>p. same_stream p o' \<and> opr_sequence p < opr_sequence o'
        \<and> list_ex (\<lambda>b. ob_operation_id b = opr_operation_id p \<and> ob_state b \<noteq> Synchronized) (db_outbox db))
       (db_operations db)"

definition eligible :: "db \<Rightarrow> time \<Rightarrow> operation_row \<Rightarrow> bool" where
  "eligible db now o' \<longleftrightarrow>
     list_ex (\<lambda>b. ob_operation_id b = opr_operation_id o' \<and> ob_state b = Pending
        \<and> ob_next_attempt_at b \<le> formatTime now) (db_outbox db)
     \<and> \<not> has_unresolved_predecessor db o'"

text \<open>
  \<open>json.Unmarshal\<close> of an envelope: of a name the last member counts, a missing one leaves the zero value.
\<close>

definition text_member :: "(string \<times> json_member) list \<Rightarrow> string \<Rightarrow> store_error + string" where
  "text_member members name = (case map_of (rev members) name of
     None \<Rightarrow> Inr [] | Some (TextMember v) \<Rightarrow> Inr v | Some (RawMember raw) \<Rightarrow> Inl (StorageError ''store: decode pending mutation''))"

definition raw_member :: "(string \<times> json_member) list \<Rightarrow> string \<Rightarrow> store_error + string" where
  "raw_member members name = (case map_of (rev members) name of
     None \<Rightarrow> Inr [] | Some (RawMember raw) \<Rightarrow> Inr raw | Some (TextMember v) \<Rightarrow> Inl (StorageError ''store: decode pending mutation''))"

definition time_member :: "(string \<times> json_member) list \<Rightarrow> string \<Rightarrow> store_error + time" where
  "time_member members name = (case map_of (rev members) name of
     None \<Rightarrow> Inr 0
   | Some (TextMember v) \<Rightarrow> (case parseTime v of Some t \<Rightarrow> Inr t | None \<Rightarrow> Inl (StorageError ''store: decode pending mutation''))
   | Some (RawMember raw) \<Rightarrow> Inl (StorageError ''store: decode pending mutation''))"

definition unmarshal_envelope :: "(string \<times> json_member) list \<Rightarrow> store_error + mutation_envelope" where
  "unmarshal_envelope members =
    rbind (text_member members ''id'') (\<lambda>id'. rbind (text_member members ''tenantId'') (\<lambda>tenant.
    rbind (text_member members ''outletId'') (\<lambda>outlet. rbind (text_member members ''deviceId'') (\<lambda>device.
    rbind (text_member members ''actorId'') (\<lambda>actor. rbind (time_member members ''occurredAt'') (\<lambda>occurred.
    rbind (text_member members ''source'') (\<lambda>source. rbind (text_member members ''sourceId'') (\<lambda>sourceID.
    rbind (text_member members ''schemaVersion'') (\<lambda>schema. rbind (text_member members ''idempotencyKey'') (\<lambda>key.
    rbind (text_member members ''causationId'') (\<lambda>causation. rbind (text_member members ''correlationId'') (\<lambda>correlation.
    rbind (raw_member members ''payload'') (\<lambda>payload. Inr
      \<lparr>env_ID = id', env_TenantID = tenant, env_OutletID = outlet, env_DeviceID = device, env_ActorID = actor, env_OccurredAt = occurred,
       env_Source = source, env_SourceID = sourceID, env_SchemaVersion = schema, env_IdempotencyKey = key, env_CausationID = causation,
       env_CorrelationID = correlation, env_Payload = payload\<rparr>)))))))))))))"

definition decode_operation :: "operation_row \<Rightarrow> store_error + operation" where
  "decode_operation r =
    rbind (unmarshal_envelope (opr_mutation_json r)) (\<lambda>mutation.
    case parseTime (opr_recorded_at r) of
       None \<Rightarrow> Inl (StorageError ''store: decode operation time'')
     | Some t \<Rightarrow> Inr
        \<lparr>op_OperationID = opr_operation_id r, op_AggregateType = opr_aggregate_type r,
         op_AggregateID = opr_aggregate_id r, op_AggregateVersion = opr_aggregate_version r,
         op_CommandType = opr_command_type r, op_Mutation = mutation, op_RecordedAt = t\<rparr>)"

fun decode_all :: "operation_row list \<Rightarrow> store_error + operation list" where
  "decode_all [] = Inr []"
| "decode_all (r # rs) = rbind (decode_operation r) (\<lambda>o'. rbind (decode_all rs) (\<lambda>os. Inr (o' # os)))"

definition PendingOperations :: "db \<Rightarrow> int \<Rightarrow> time \<Rightarrow> store_error + operation list" where
  "PendingOperations db limit now =
    decode_all (sql_limit limit (sort_key opr_sequence (filter (eligible db now) (db_operations db))))"

definition conciseSyncProblem :: "string \<Rightarrow> string \<Rightarrow> string" where
  "conciseSyncProblem problem fallback =
    (let problem = TrimSpace problem; problem = (if problem = [] then fallback else problem)
     in if length problem > 256 then take 256 problem else problem)"

text \<open>\<open>time.Duration(seconds) * time.Second\<close> wraps; what is out of range becomes a second.\<close>

definition result_delay :: "int \<Rightarrow> duration" where
  "result_delay retryAfterSeconds =
    (let delay = wrap64 (retryAfterSeconds * Second)
     in if delay \<le> 0 \<or> delay > 15 * Minute then Second else delay)"

definition update_pending :: "string \<Rightarrow> (outbox_row \<Rightarrow> outbox_row) \<Rightarrow> outbox_row list \<Rightarrow> outbox_row list" where
  "update_pending operationID f rows =
    update_where (\<lambda>r. ob_operation_id r = operationID \<and> ob_state r = Pending) f rows"

definition result_for :: "push_result list \<Rightarrow> string \<Rightarrow> push_result" where
  "result_for results operationID =
    (case map_of (rev (map (\<lambda>r. (res_OperationID r, r)) results)) operationID of
       Some r \<Rightarrow> r
     | None \<Rightarrow> \<lparr>res_OperationID = operationID, res_Status = PushRetry,
         res_ProblemCode = ''missing_cloud_result'', res_RetryAfterSeconds = 0\<rparr>)"

text \<open>One round of the loop: the rows, \<open>successfulBatch\<close> and \<open>retryProblem\<close>.\<close>

definition apply_result ::
  "time \<Rightarrow> push_result list \<Rightarrow> string \<Rightarrow> outbox_row list \<times> bool \<times> string \<Rightarrow> outbox_row list \<times> bool \<times> string" where
  "apply_result attemptedAt results operationID = (\<lambda>(rows, successfulBatch, retryProblem).
    let result = result_for results operationID; status = res_Status result in
    if status = PushAccepted \<or> status = PushDuplicate then
      (update_pending operationID (\<lambda>r. r\<lparr>ob_state := Synchronized, ob_attempts := ob_attempts r + 1,
         ob_last_error := None, ob_cloud_result := Some status,
         ob_synced_at := Some (formatTime attemptedAt)\<rparr>) rows, successfulBatch, retryProblem)
    else if status = PushRejected \<or> status = PushConflict then
      (update_pending operationID (\<lambda>r. r\<lparr>ob_state := Reconciliation, ob_attempts := ob_attempts r + 1,
         ob_last_error := Some (conciseSyncProblem (res_ProblemCode result)
           (''cloud_'' @ ToLower (push_status_text status))), ob_cloud_result := Some status\<rparr>) rows,
       False, retryProblem)
    else let problem = conciseSyncProblem (res_ProblemCode result) ''cloud_retry'' in
      (update_pending operationID (\<lambda>r. r\<lparr>ob_attempts := ob_attempts r + 1,
         ob_next_attempt_at := formatTime (attemptedAt + result_delay (res_RetryAfterSeconds result)),
         ob_last_error := Some problem, ob_cloud_result := Some PushRetry\<rparr>) rows,
       False, if retryProblem = [] then problem else retryProblem))"

definition RecordSyncResults :: "string list \<Rightarrow> push_result list \<Rightarrow> time \<Rightarrow> db \<Rightarrow> db" where
  "RecordSyncResults operationIDs results attemptedAt db =
    (if operationIDs = [] then db
     else let (rows, successfulBatch, retryProblem) =
            fold (apply_result attemptedAt results) operationIDs (db_outbox db, True, []);
          meta = db_sync_metadata db; at = Some (formatTime attemptedAt) in
       db\<lparr>db_outbox := rows, db_sync_metadata :=
         (if successfulBatch then meta\<lparr>sm_last_attempt_at := at, sm_last_success_at := at, sm_last_error := None\<rparr>
          else if retryProblem \<noteq> [] then meta\<lparr>sm_last_attempt_at := at, sm_last_error := Some retryProblem\<rparr>
          else meta\<lparr>sm_last_attempt_at := at, sm_last_error := None\<rparr>)\<rparr>)"

definition retryDelay :: "int \<Rightarrow> duration" where
  "retryDelay attempt =
    (let attempt = (if attempt < 1 then 1 else attempt); attempt = (if attempt > 9 then 9 else attempt)
     in 2 ^ nat (attempt - 1) * Second)"

definition fail_operation :: "time \<Rightarrow> string \<Rightarrow> string \<Rightarrow> outbox_row list \<Rightarrow> outbox_row list" where
  "fail_operation attemptedAt message operationID rows =
    (case List.find (\<lambda>r. ob_operation_id r = operationID \<and> ob_state r = Pending) rows of
       None \<Rightarrow> rows
     | Some row \<Rightarrow>
        (let delay = retryDelay (int (ob_attempts row) + 1) in
         update_pending operationID (\<lambda>r. r\<lparr>ob_attempts := ob_attempts r + 1,
           ob_next_attempt_at := formatTime (attemptedAt + delay), ob_last_error := Some message\<rparr>) rows))"

definition RecordSyncFailure :: "string list \<Rightarrow> string \<Rightarrow> time \<Rightarrow> db \<Rightarrow> db" where
  "RecordSyncFailure operationIDs message attemptedAt db =
    (let message = (if length message > 1000 then take 1000 message else message) in
     db\<lparr>db_outbox := fold (fail_operation attemptedAt message) operationIDs (db_outbox db),
        db_sync_metadata := (db_sync_metadata db)\<lparr>sm_last_attempt_at := Some (formatTime attemptedAt),
          sm_last_error := Some message\<rparr>\<rparr>)"

record sync_stats =
  ss_Pending :: nat
  ss_Reconciliation :: nat
  ss_Synchronized :: nat
  ss_LastAttemptAt :: "time option"
  ss_LastSuccessAt :: "time option"
  ss_LastError :: string

definition parseOptionalTime :: "string option \<Rightarrow> store_error + time option" where
  "parseOptionalTime val =
    (case val of None \<Rightarrow> Inr None
     | Some s \<Rightarrow> if s = [] then Inr None
        else (case parseTime s of None \<Rightarrow> Inl (StorageError ''parse time'') | Some t \<Rightarrow> Inr (Some t)))"

definition SyncStats :: "db \<Rightarrow> store_error + sync_stats" where
  "SyncStats db =
    (let count = (\<lambda>s. length (filter (\<lambda>r. ob_state r = s) (db_outbox db))); meta = db_sync_metadata db in
     rbind (parseOptionalTime (sm_last_attempt_at meta)) (\<lambda>attempt.
     rbind (parseOptionalTime (sm_last_success_at meta)) (\<lambda>success.
       Inr \<lparr>ss_Pending = count Pending, ss_Reconciliation = count Reconciliation,
         ss_Synchronized = count Synchronized, ss_LastAttemptAt = attempt, ss_LastSuccessAt = success,
         ss_LastError = (case sm_last_error meta of None \<Rightarrow> [] | Some e \<Rightarrow> e)\<rparr>)))"

end
