(* ===== verification/Edge_Auth.thy ===== *)
theory Edge_Auth
  imports Edge_Invariant
begin

text \<open>
  Pairing codes and local sessions of the edge: \<open>services/edge/internal/store/auth.go\<close>. The
  database sees hashes only; a code is exchanged for a session at most once and before it
  expires, and a session authenticates until it expires or is revoked.
\<close>

definition valid_role :: "string \<Rightarrow> bool" where
  "valid_role role = List.member [''manager'', ''cashier'', ''chef''] role"

definition CreatePairingCode :: "time \<Rightarrow> string \<Rightarrow> string \<Rightarrow> time \<Rightarrow> db \<Rightarrow> (store_error + unit) \<times> db" where
  "CreatePairingCode now codeHash role expiresAt = transact (\<lambda>db.
    if list_ex (\<lambda>r. pc_code_hash r = codeHash) (db_pairing_codes db) \<or> \<not> valid_role role
    then Inl (StorageError ''store: create pairing code'')
    else Inr ((), db\<lparr>db_pairing_codes := db_pairing_codes db @
      [\<lparr>pc_code_hash = codeHash, pc_role = role, pc_created_at = formatTime now,
        pc_expires_at = formatTime expiresAt, pc_consumed_at = None\<rparr>]\<rparr>))"

definition open_code :: "string \<Rightarrow> pairing_code_row \<Rightarrow> bool" where
  "open_code codeHash r \<longleftrightarrow> pc_code_hash r = codeHash \<and> pc_consumed_at r = None"

definition exchange_body ::
  "time \<Rightarrow> string \<Rightarrow> string \<Rightarrow> time \<Rightarrow> db \<Rightarrow> store_error + string \<times> db" where
  "exchange_body now codeHash tokenHash expiresAt db =
    (case List.find (open_code codeHash) (db_pairing_codes db) of
       None \<Rightarrow> Inl ErrInvalidPairingCode
     | Some row \<Rightarrow>
        (case parseTime (pc_expires_at row) of
           None \<Rightarrow> Inl ErrInvalidPairingCode
         | Some pairingExpiry \<Rightarrow>
            if \<not> now < pairingExpiry then Inl ErrInvalidPairingCode
            else if length (filter (open_code codeHash) (db_pairing_codes db)) \<noteq> 1
            then Inl ErrInvalidPairingCode
            else if list_ex (\<lambda>s. ls_token_hash s = tokenHash) (db_local_sessions db) \<or> \<not> valid_role (pc_role row)
            then Inl (StorageError ''store: create local session'')
            else Inr (pc_role row, db\<lparr>
              db_pairing_codes := update_where (open_code codeHash)
                (\<lambda>r. r\<lparr>pc_consumed_at := Some (formatTime now)\<rparr>) (db_pairing_codes db),
              db_local_sessions := db_local_sessions db @
                [\<lparr>ls_token_hash = tokenHash, ls_role = pc_role row, ls_created_at = formatTime now,
                  ls_expires_at = formatTime expiresAt, ls_revoked_at = None\<rparr>]\<rparr>)))"

definition ExchangePairingCode ::
  "time \<Rightarrow> string \<Rightarrow> string \<Rightarrow> time \<Rightarrow> db \<Rightarrow> (store_error + string) \<times> db" where
  "ExchangePairingCode now codeHash tokenHash expiresAt =
    transact (exchange_body now codeHash tokenHash expiresAt)"

definition live_session :: "string \<Rightarrow> local_session_row \<Rightarrow> bool" where
  "live_session tokenHash r \<longleftrightarrow> ls_token_hash r = tokenHash \<and> ls_revoked_at r = None"

definition AuthenticateSession :: "time \<Rightarrow> string \<Rightarrow> db \<Rightarrow> store_error + string" where
  "AuthenticateSession now tokenHash db =
    (case List.find (live_session tokenHash) (db_local_sessions db) of
       None \<Rightarrow> Inl ErrInvalidSession
     | Some row \<Rightarrow>
        (case parseTime (ls_expires_at row) of
           None \<Rightarrow> Inl ErrInvalidSession
         | Some expiresAt \<Rightarrow> if \<not> now < expiresAt then Inl ErrInvalidSession else Inr (ls_role row)))"

definition RevokeSession :: "time \<Rightarrow> string \<Rightarrow> db \<Rightarrow> (store_error + unit) \<times> db" where
  "RevokeSession now tokenHash db =
    (if length (filter (live_session tokenHash) (db_local_sessions db)) \<noteq> 1 then (Inl ErrInvalidSession, db)
     else (Inr (), db\<lparr>db_local_sessions := update_where (live_session tokenHash)
       (\<lambda>r. r\<lparr>ls_revoked_at := Some (formatTime now)\<rparr>) (db_local_sessions db)\<rparr>))"

text \<open>
  \<open>RevokeSession\<close> updates before it looks at the number of affected rows and has no
  transaction; the token hash is the primary key, so the count is 0 or 1 and nothing is
  updated when the error is returned.
\<close>

definition auth_ok :: "db \<Rightarrow> bool" where
  "auth_ok db \<longleftrightarrow> distinct (map pc_code_hash (db_pairing_codes db)) \<and> distinct (map ls_token_hash (db_local_sessions db))
     \<and> (\<forall>r \<in> set (db_pairing_codes db). valid_role (pc_role r)) \<and> (\<forall>r \<in> set (db_local_sessions db). valid_role (ls_role r))"

lemma CreatePairingCode_ok: "auth_ok db \<Longrightarrow> auth_ok (snd (CreatePairingCode now codeHash role expiresAt db))"
  by (auto simp: CreatePairingCode_def transact_def auth_ok_def list_ex_iff)

lemma exchange_Inr:
  assumes "exchange_body now codeHash tokenHash expiresAt db = Inr (role, db')"
  obtains row expiry where "row \<in> set (db_pairing_codes db)" "open_code codeHash row" "pc_role row = role"
    "parseTime (pc_expires_at row) = Some expiry" "now < expiry" "valid_role role"
    "\<forall>s \<in> set (db_local_sessions db). ls_token_hash s \<noteq> tokenHash"
    "db' = db\<lparr>db_pairing_codes := update_where (open_code codeHash)
                (\<lambda>r. r\<lparr>pc_consumed_at := Some (formatTime now)\<rparr>) (db_pairing_codes db),
              db_local_sessions := db_local_sessions db @
                [\<lparr>ls_token_hash = tokenHash, ls_role = role, ls_created_at = formatTime now,
                  ls_expires_at = formatTime expiresAt, ls_revoked_at = None\<rparr>]\<rparr>"
proof -
  from assms obtain row where find: "List.find (open_code codeHash) (db_pairing_codes db) = Some row"
    by (auto simp: exchange_body_def split: option.splits)
  then have row: "row \<in> set (db_pairing_codes db)" "open_code codeHash row"
    by (auto simp: find_Some_iff)
  from assms obtain expiry where expiry: "parseTime (pc_expires_at row) = Some expiry"
    by (auto simp: exchange_body_def find split: option.splits)
  show ?thesis
    by (rule that [OF row _ expiry]) (use assms in \<open>auto simp: exchange_body_def find expiry list_ex_iff split: if_splits\<close>)
qed

lemma ExchangePairingCode_ok: "auth_ok db \<Longrightarrow> auth_ok (snd (ExchangePairingCode now codeHash tokenHash expiresAt db))"
proof -
  assume ok: "auth_ok db"
  show ?thesis
  proof (cases "exchange_body now codeHash tokenHash expiresAt db")
    case (Inr r)
    obtain role db' where r: "r = (role, db')" by (cases r)
    from exchange_Inr [OF Inr [unfolded r]] obtain row where
      "valid_role role" "\<forall>s \<in> set (db_local_sessions db). ls_token_hash s \<noteq> tokenHash"
      and db': "db' = db\<lparr>db_pairing_codes := update_where (open_code codeHash)
                (\<lambda>r. r\<lparr>pc_consumed_at := Some (formatTime now)\<rparr>) (db_pairing_codes db),
              db_local_sessions := db_local_sessions db @
                [\<lparr>ls_token_hash = tokenHash, ls_role = role, ls_created_at = formatTime now,
                  ls_expires_at = formatTime expiresAt, ls_revoked_at = None\<rparr>]\<rparr>" by metis
    with ok have "auth_ok db'"
      by (auto simp: auth_ok_def row_simps in_update_where)
    then show ?thesis by (simp add: ExchangePairingCode_def transact_def Inr r)
  qed (simp add: ExchangePairingCode_def transact_def ok)
qed

lemma RevokeSession_ok: "auth_ok db \<Longrightarrow> auth_ok (snd (RevokeSession now tokenHash db))"
  by (auto simp: RevokeSession_def auth_ok_def row_simps in_update_where)

subsection \<open>What survives\<close>

text \<open>A consumed code stays consumed, a revoked session stays revoked.\<close>

definition consumed :: "string \<Rightarrow> db \<Rightarrow> bool" where
  "consumed codeHash db \<longleftrightarrow> (\<exists>r \<in> set (db_pairing_codes db). pc_code_hash r = codeHash \<and> pc_consumed_at r \<noteq> None)"

definition revoked :: "string \<Rightarrow> db \<Rightarrow> bool" where
  "revoked tokenHash db \<longleftrightarrow> (\<exists>r \<in> set (db_local_sessions db). ls_token_hash r = tokenHash \<and> ls_revoked_at r \<noteq> None)"

lemma consumed_no_exchange:
  assumes "auth_ok db" "consumed codeHash db"
  shows "exchange_body now codeHash tokenHash expiresAt db = Inl ErrInvalidPairingCode"
proof -
  have "\<not> open_code codeHash r" if "r \<in> set (db_pairing_codes db)" for r
    using assms that unfolding auth_ok_def consumed_def open_code_def distinct_map inj_on_def by metis
  then have "List.find (open_code codeHash) (db_pairing_codes db) = None" by (simp add: find_None_iff)
  then show ?thesis by (simp add: exchange_body_def)
qed

lemma revoked_no_session:
  assumes "auth_ok db" "revoked tokenHash db"
  shows "AuthenticateSession now tokenHash db = Inl ErrInvalidSession"
proof -
  have "\<not> live_session tokenHash r" if "r \<in> set (db_local_sessions db)" for r
    using assms that unfolding auth_ok_def revoked_def live_session_def distinct_map inj_on_def by metis
  then have "List.find (live_session tokenHash) (db_local_sessions db) = None" by (simp add: find_None_iff)
  then show ?thesis by (simp add: AuthenticateSession_def)
qed

lemma exchange_consumes:
  assumes "exchange_body now codeHash tokenHash expiresAt db = Inr (role, db')"
  shows "consumed codeHash db'"
proof (rule exchange_Inr [OF assms])
  fix row
  assume row: "row \<in> set (db_pairing_codes db)" "open_code codeHash row"
    and db': "db' = db\<lparr>db_pairing_codes := update_where (open_code codeHash)
                (\<lambda>r. r\<lparr>pc_consumed_at := Some (formatTime now)\<rparr>) (db_pairing_codes db),
              db_local_sessions := db_local_sessions db @
                [\<lparr>ls_token_hash = tokenHash, ls_role = role, ls_created_at = formatTime now,
                  ls_expires_at = formatTime expiresAt, ls_revoked_at = None\<rparr>]\<rparr>"
  from update_where_hit [where f = "\<lambda>r. r\<lparr>pc_consumed_at := Some (formatTime now)\<rparr>" and P = "open_code codeHash", OF row] row(2)
  show "consumed codeHash db'"
    unfolding consumed_def db' open_code_def
    by (intro bexI [of _ "row\<lparr>pc_consumed_at := Some (formatTime now)\<rparr>"]) simp_all
qed

lemma update_keeps:
  "\<exists>r \<in> set rows. pc_code_hash r = h \<and> pc_consumed_at r \<noteq> None \<Longrightarrow>
   \<exists>r \<in> set (update_where P (\<lambda>r. r\<lparr>pc_consumed_at := Some v\<rparr>) rows). pc_code_hash r = h \<and> pc_consumed_at r \<noteq> None"
  "\<exists>r \<in> set rows'. ls_token_hash r = h \<and> ls_revoked_at r \<noteq> None \<Longrightarrow>
   \<exists>r \<in> set (update_where P' (\<lambda>r. r\<lparr>ls_revoked_at := Some v\<rparr>) rows'). ls_token_hash r = h \<and> ls_revoked_at r \<noteq> None"
  by (erule update_where_ex, simp)+

lemma consumed_stays:
  assumes "consumed codeHash db"
  shows "consumed codeHash (snd (CreatePairingCode now c role e db))"
    and "consumed codeHash (snd (ExchangePairingCode now c t e db))"
    and "consumed codeHash (snd (RevokeSession now t db))"
proof -
  show "consumed codeHash (snd (CreatePairingCode now c role e db))"
    using assms by (auto simp: CreatePairingCode_def transact_def consumed_def)
  show "consumed codeHash (snd (RevokeSession now t db))"
    using assms by (auto simp: RevokeSession_def consumed_def)
  show "consumed codeHash (snd (ExchangePairingCode now c t e db))"
  proof (cases "exchange_body now c t e db")
    case (Inr r)
    obtain role db' where r: "r = (role, db')" by (cases r)
    show ?thesis
      by (rule exchange_Inr [OF Inr [unfolded r]])
        (use assms in \<open>simp add: ExchangePairingCode_def transact_def Inr r consumed_def update_keeps del: not_None_eq\<close>)
  qed (simp add: ExchangePairingCode_def transact_def assms)
qed

lemma revoked_stays:
  assumes "revoked tokenHash db"
  shows "revoked tokenHash (snd (CreatePairingCode now c role e db))"
    and "revoked tokenHash (snd (ExchangePairingCode now c t e db))"
    and "revoked tokenHash (snd (RevokeSession now t db))"
proof -
  show "revoked tokenHash (snd (CreatePairingCode now c role e db))"
    using assms by (auto simp: CreatePairingCode_def transact_def revoked_def)
  show "revoked tokenHash (snd (RevokeSession now t db))"
    using assms by (simp add: RevokeSession_def revoked_def update_keeps del: not_None_eq)
  show "revoked tokenHash (snd (ExchangePairingCode now c t e db))"
  proof (cases "exchange_body now c t e db")
    case (Inr r)
    obtain role db' where r: "r = (role, db')" by (cases r)
    show ?thesis
      by (rule exchange_Inr [OF Inr [unfolded r]])
        (use assms in \<open>simp add: ExchangePairingCode_def transact_def Inr r revoked_def bex_Un\<close>)
  qed (simp add: ExchangePairingCode_def transact_def assms)
qed

lemma revoke_revokes: "fst (RevokeSession now tokenHash db) = Inr () \<Longrightarrow> revoked tokenHash (snd (RevokeSession now tokenHash db))"
proof -
  assume "fst (RevokeSession now tokenHash db) = Inr ()"
  then have one: "length (filter (live_session tokenHash) (db_local_sessions db)) = 1"
    by (simp add: RevokeSession_def split: if_splits)
  then obtain r where "r \<in> set (filter (live_session tokenHash) (db_local_sessions db))"
    by (metis One_nat_def length_0_conv list.set_intros(1) neq_Nil_conv zero_neq_one)
  then have r: "r \<in> set (db_local_sessions db)" "live_session tokenHash r" by simp_all
  from update_where_hit [where f = "\<lambda>r. r\<lparr>ls_revoked_at := Some (formatTime now)\<rparr>" and P = "live_session tokenHash", OF r] r(2) one
  show ?thesis
    by (simp add: RevokeSession_def revoked_def live_session_def)
      (rule bexI [of _ "r\<lparr>ls_revoked_at := Some (formatTime now)\<rparr>"], simp_all)
qed

end
