(* ===== verification/Edge_System.thy ===== *)
theory Edge_System
  imports Edge_Ticket_Handlers Edge_Create_Handler Edge_Outbox Edge_Auth
begin

text \<open>
  The edge store as a transition system: a step is one call of one operation of the store, with
  any arguments, at any time, whether it succeeds or fails. The invariant of
  \<open>Edge_Invariant\<close> holds in every reachable database, orders and tickets only move along
  their machines, and the logs only grow.
\<close>

subsection \<open>Commands keep the invariant\<close>

text \<open>How one step may change a database.\<close>

definition order_evolves :: "order \<Rightarrow> order \<Rightarrow> bool" where
  "order_evolves ord ord' \<longleftrightarrow> order_identity ord' = order_identity ord
     \<and> (ord' = ord \<or> order_moves (o_Status ord) (o_Status ord') \<and> o_Version ord' = o_Version ord + 1)"

definition ticket_evolves :: "kitchen_ticket \<Rightarrow> kitchen_ticket \<Rightarrow> bool" where
  "ticket_evolves t t' \<longleftrightarrow> ticket_identity t' = ticket_identity t
     \<and> (t' = t \<or> ticket_moves (kt_Status t) (kt_Status t') \<and> kt_Version t' = kt_Version t + 1)"

definition advances :: "db \<Rightarrow> db \<Rightarrow> bool" where
  "advances db db' \<longleftrightarrow>
     (\<forall>k ord. orders_map db k = Some ord \<longrightarrow> (\<exists>ord'. orders_map db' k = Some ord' \<and> order_evolves ord ord'))
     \<and> (\<forall>k t. tickets_map db k = Some t \<longrightarrow> (\<exists>t'. tickets_map db' k = Some t' \<and> ticket_evolves t t'))
     \<and> prefix (db_operations db) (db_operations db') \<and> prefix (db_idempotency db) (db_idempotency db')"

text \<open>A command appends at most one operation, at the end of the log, and its pending outbox row.\<close>

definition outbox_grows :: "db \<Rightarrow> db \<Rightarrow> bool" where
  "outbox_grows db db' \<longleftrightarrow>
     db_operations db' = db_operations db \<and> db_outbox db' = db_outbox db
     \<or> (\<exists>row ob. db_operations db' = db_operations db @ [row] \<and> db_outbox db' = db_outbox db @ [ob]
          \<and> ob_state ob = Pending \<and> opr_sequence row = Suc (length (db_operations db))
          \<and> opr_operation_id row = ob_operation_id ob)"

definition commits :: "db \<Rightarrow> db \<Rightarrow> bool" where
  "commits db db' \<longleftrightarrow> advances db db' \<and> outbox_grows db db'"

lemma evolves_refl [simp]: "order_evolves ord ord" "ticket_evolves t t"
  by (simp_all add: order_evolves_def ticket_evolves_def)

lemma advances_refl [simp]: "advances db db"
  by (auto simp: advances_def)

lemma commits_refl [simp]: "commits db db"
  by (simp add: commits_def outbox_grows_def)

lemma effect_commits:
  assumes eff: "command_effect row (outbox_row_of env now) idem om tm db db'"
    and row: "opr_sequence row = Suc (length (db_operations db))" "opr_operation_id row = env_ID env"
    and orders: "\<And>k ord. orders_map db k = Some ord \<Longrightarrow> \<exists>ord'. om k = Some ord' \<and> order_evolves ord ord'"
    and tickets: "\<And>k t. tickets_map db k = Some t \<Longrightarrow> \<exists>t'. tm k = Some t' \<and> ticket_evolves t t'"
  shows "commits db db'"
  using assms
  by (auto simp: commits_def advances_def outbox_grows_def command_effect_def recorded_def outbox_row_of_def)

lemma effect_ok:
  assumes ok: "edge_ok db" and eff: "command_effect row ob idem om tm db db'"
    and orders: "\<And>k ord. orders_map db k = Some ord \<Longrightarrow> \<exists>ord'. om k = Some ord' \<and> order_evolves ord ord'"
    and stream: "om (opr_causality_id row) = Some ord" "o_TenantID ord = opr_tenant_id row"
      "o_OutletID ord = opr_outlet_id row"
    and coupling: "\<And>k ord. om k = Some ord \<Longrightarrow> coupled (o_Status ord) (ticket_statuses db' k)"
  shows "edge_ok db'"
proof -
  from ok have "attributed db" by (simp add: edge_ok_def)
  with orders stream eff have "attributed db'"
    unfolding attributed_def command_effect_def recorded_def order_evolves_def order_identity_def
    by (fastforce simp: ball_Un)
  with eff coupling show ?thesis by (simp add: edge_ok_def command_effect_def coupling_def)
qed

lemma operation_row_simps [simp]:
  "opr_causality_id (operation_row_of env at ai ct ci v c now s) = ci"
  "opr_tenant_id (operation_row_of env at ai ct ci v c now s) = env_TenantID env"
  "opr_outlet_id (operation_row_of env at ai ct ci v c now s) = env_OutletID env"
  "opr_operation_id (operation_row_of env at ai ct ci v c now s) = env_ID env"
  "opr_sequence (operation_row_of env at ai ct ci v c now s) = s"
  by (simp_all add: operation_row_of_def)

lemma scope_moved [simp]:
  "o_TenantID (move_order s now ord) = o_TenantID ord" "o_OutletID (move_order s now ord) = o_OutletID ord"
  "o_TenantID (follow_order c now ord) = o_TenantID ord" "o_OutletID (follow_order c now ord) = o_OutletID ord"
  by (simp_all add: move_order_def follow_order_def)

lemma follow_order_evolves:
  assumes "OrderStatus_Valid (o_Status ord)" "\<not> order_final (o_Status ord)" "OrderStatus_Valid c"
  shows "order_evolves ord (follow_order c now ord)"
  using assms by (simp add: order_evolves_def follow_order_def order_moves_def)

lemma follow_order_status:
  "o_Status (follow_order c now ord) = (if shouldAdvanceOrder (o_Status ord) c then c else o_Status ord)"
  by (simp add: follow_order_def)

lemma map_tickets_evolves:
  assumes "tickets_map db k = Some t" "\<And>t. kt_OrderID t = id' \<Longrightarrow> t \<in> ran (tickets_map db) \<Longrightarrow> ticket_evolves t (f t)"
  shows "\<exists>t'. map_tickets f id' (tickets_map db) k = Some t' \<and> ticket_evolves t t'"
  using assms by (auto simp: map_tickets_def ran_def)

lemma coupled_of: "edge_ok db \<Longrightarrow> orders_map db k = Some ord \<Longrightarrow> coupled (o_Status ord) (ticket_statuses db k)"
  by (simp add: edge_ok_def coupling_def)

lemma transition_order_step:
  assumes ok: "edge_ok db" and get: "orders_map db orderID = Some ord" "o_TenantID ord = env_TenantID env"
      "o_OutletID ord = env_OutletID env"
    and move: "CanTransitionOrder (o_Status ord) (top_ToStatus input)"
    and legal: "\<forall>x \<in> ticket_statuses db orderID. follow_legal (top_ToStatus input) x"
    and out: "transition_order_outcome now route hash orderID env input ord db resp db'"
  shows "edge_ok db' \<and> commits db db'"
proof -
  let ?to = "top_ToStatus input"
  from out have eff: "command_effect
      (operation_row_of env ''order'' orderID ''order'' orderID (o_Version ord + 1) ''order.transition'' now
         (Suc (length (db_operations db))))
      (outbox_row_of env now) (idempotency_row_of route hash env resp now)
      ((orders_map db)(orderID \<mapsto> move_order ?to now ord))
      (map_tickets (next_ticket ?to now) orderID (tickets_map db)) db db'"
    unfolding transition_order_outcome_def Let_def by blast
  note c = coupled_of [OF ok get(1)]
  have orders: "\<exists>ord'. ((orders_map db)(orderID \<mapsto> move_order ?to now ord)) k = Some ord' \<and> order_evolves old ord'"
    if "orders_map db k = Some old" for k old
    using that get c move CanTransitionOrder_valid CanTransitionOrder_not_final
    by (auto simp: order_evolves_def order_moves_def coupled_def)
  have "ticket_evolves t (next_ticket ?to now t)" if t: "kt_OrderID t = orderID" "t \<in> ran (tickets_map db)" for t
  proof -
    from t have "kt_Status t \<in> ticket_statuses db orderID" by (auto simp: ticket_statuses_def)
    with c legal show ?thesis
      by (auto simp: next_ticket_def ticket_evolves_def ticket_moves_def coupled_def follow_legal_def)
  qed
  then have tickets: "tickets_map db k = Some t \<Longrightarrow>
      \<exists>t'. map_tickets (next_ticket ?to now) orderID (tickets_map db) k = Some t' \<and> ticket_evolves t t'" for k t
    using map_tickets_evolves by metis
  have statuses: "ticket_statuses db' k = (if k = orderID then followed ?to ` ticket_statuses db k else ticket_statuses db k)" for k
    using eff by (intro statuses_map_tickets [where f = "next_ticket ?to now"]) (simp_all add: command_effect_def)
  have "edge_ok db'"
  proof (rule effect_ok [where ord = "move_order ?to now ord", OF ok eff orders])
    fix k ord'
    assume "((orders_map db)(orderID \<mapsto> move_order ?to now ord)) k = Some ord'"
    then show "coupled (o_Status ord') (ticket_statuses db' k)"
      using coupled_transition [OF c move legal] coupled_of [OF ok, of k] by (auto simp: statuses split: if_splits)
  qed (simp_all add: get)
  with effect_commits [OF eff _ _ orders tickets] show ?thesis by simp
qed

lemma transition_ticket_step:
  assumes ok: "edge_ok db" and get: "tickets_map db ticketID = Some t" "kt_TenantID t = env_TenantID env"
      "kt_OutletID t = env_OutletID env"
    and move: "CanTransitionTicket (kt_Status t) (ttp_ToStatus input)"
    and ord: "orders_map db (kt_OrderID t) = Some ord"
    and out: "transition_ticket_outcome now route hash ticketID env input t ord db resp db'"
  shows "edge_ok db' \<and> commits db db'"
proof -
  let ?to = "ttp_ToStatus input"
  let ?S = "statuses_after db t ?to"
  let ?o = "follow_order (derived_status ?S) now ord"
  let ?t = "move_ticket ?to now t"
  from out have eff: "command_effect
      (operation_row_of env ''kitchenTicket'' ticketID ''order'' (kt_OrderID t) (kt_Version t + 1)
         ''kitchenTicket.transition'' now (Suc (length (db_operations db))))
      (outbox_row_of env now) (idempotency_row_of route hash env resp now)
      ((orders_map db)(kt_OrderID t \<mapsto> ?o)) ((tickets_map db)(ticketID \<mapsto> ?t)) db db'"
    unfolding transition_ticket_outcome_def Let_def by blast
  note b = ok [unfolded edge_ok_def, THEN conjunct1]
  have id: "kt_ID t = ticketID" using tickets_map_id [OF baseD(3) [OF b] get(1)] .
  note c = coupled_of [OF ok ord]
  have mem: "kt_Status t \<in> ticket_statuses db (kt_OrderID t)"
    using get(1) by (auto simp: ticket_statuses_def ran_def)
  have nf: "\<not> order_final (o_Status ord)"
    using coupled_final [OF c mem] CanTransitionTicket_not_final [OF move] .
  have valid: "OrderStatus_Valid (o_Status ord)" using c by (simp add: coupled_def)
  have orders: "\<exists>ord'. ((orders_map db)(kt_OrderID t \<mapsto> ?o)) k = Some ord' \<and> order_evolves old ord'"
    if "orders_map db k = Some old" for k old
    using that ord follow_order_evolves [OF valid nf derived_valid, of ?S now] by auto
  have tickets: "\<exists>t'. ((tickets_map db)(ticketID \<mapsto> ?t)) k = Some t' \<and> ticket_evolves u t'"
    if "tickets_map db k = Some u" for k u
    using that get c mem move by (auto simp: ticket_evolves_def ticket_moves_def coupled_def)
  have statuses: "ticket_statuses db' k = (if k = kt_OrderID t then ?S else ticket_statuses db k)" for k
    using eff id get(1) by (intro statuses_update [OF baseD(3) [OF b]]) (simp_all add: command_effect_def)
  have S: "\<forall>x \<in> ?S. TicketStatus_Valid x"
    using c CanTransitionTicket_valid [OF move] by (auto simp: statuses_after_def coupled_def ticket_statuses_def)
  from baseD(6) [OF b] get(1) ord have scope: "o_TenantID ord = kt_TenantID t" "o_OutletID ord = kt_OutletID t"
    by (force simp: owned_def ran_def)+
  have "edge_ok db'"
  proof (rule effect_ok [where ord = "?o", OF ok eff orders])
    fix k ord'
    assume "((orders_map db)(kt_OrderID t \<mapsto> ?o)) k = Some ord'"
    then show "coupled (o_Status ord') (ticket_statuses db' k)"
      using coupled_follow [OF valid nf S] coupled_of [OF ok, of k]
      by (auto simp: statuses follow_order_status split: if_splits)
  qed (simp_all add: scope get)
  with effect_commits [OF eff _ _ orders tickets] show ?thesis by simp
qed

lemma transition_order_tickets_step:
  assumes ok: "edge_ok db" and get: "orders_map db orderID = Some ord" "o_TenantID ord = env_TenantID env"
      "o_OutletID ord = env_OutletID env"
    and legal: "\<forall>x \<in> ticket_statuses db orderID. x = to' \<or> CanTransitionTicket x to'"
    and changed: "\<exists>x \<in> ticket_statuses db orderID. x \<noteq> to'"
    and out: "transition_order_tickets_outcome now route hash orderID env to' ord db resp db'"
  shows "edge_ok db' \<and> commits db db'"
proof -
  let ?o = "follow_order (derived_status {to'}) now ord"
  from out have eff: "command_effect
      (operation_row_of env ''order'' orderID ''order'' orderID (o_Version ?o) ''kitchenTicket.transitionAll'' now
         (Suc (length (db_operations db))))
      (outbox_row_of env now) (idempotency_row_of route hash env resp now)
      ((orders_map db)(orderID \<mapsto> ?o)) (map_tickets (turn_ticket to' now) orderID (tickets_map db)) db db'"
    unfolding transition_order_tickets_outcome_def Let_def by blast
  note c = coupled_of [OF ok get(1)]
  from changed legal obtain x where x: "x \<in> ticket_statuses db orderID" "CanTransitionTicket x to'" by blast
  have nf: "\<not> order_final (o_Status ord)"
    using coupled_final [OF c x(1)] CanTransitionTicket_not_final [OF x(2)] .
  have valid: "OrderStatus_Valid (o_Status ord)" using c by (simp add: coupled_def)
  have orders: "\<exists>ord'. ((orders_map db)(orderID \<mapsto> ?o)) k = Some ord' \<and> order_evolves old ord'"
    if "orders_map db k = Some old" for k old
    using that get follow_order_evolves [OF valid nf derived_valid, of "{to'}" now] by auto
  have "ticket_evolves t (turn_ticket to' now t)" if t: "kt_OrderID t = orderID" "t \<in> ran (tickets_map db)" for t
  proof -
    from t have "kt_Status t \<in> ticket_statuses db orderID" by (auto simp: ticket_statuses_def)
    with c legal show ?thesis
      by (auto simp: turn_ticket_def ticket_evolves_def ticket_moves_def coupled_def)
  qed
  then have tickets: "tickets_map db k = Some t \<Longrightarrow>
      \<exists>t'. map_tickets (turn_ticket to' now) orderID (tickets_map db) k = Some t' \<and> ticket_evolves t t'" for k t
    using map_tickets_evolves by metis
  have "ticket_statuses db' k = (if k = orderID then (\<lambda>_. to') ` ticket_statuses db k else ticket_statuses db k)" for k
    using eff by (intro statuses_map_tickets [where f = "turn_ticket to' now"]) (simp_all add: command_effect_def)
  with x(1) have statuses: "ticket_statuses db' k = (if k = orderID then {to'} else ticket_statuses db k)" for k
    by auto
  have S: "\<forall>x \<in> {to'}. TicketStatus_Valid x" using CanTransitionTicket_valid [OF x(2)] by simp
  have "edge_ok db'"
  proof (rule effect_ok [where ord = "?o", OF ok eff orders])
    fix k ord'
    assume "((orders_map db)(orderID \<mapsto> ?o)) k = Some ord'"
    then show "coupled (o_Status ord') (ticket_statuses db' k)"
      using coupled_follow [OF valid nf S] coupled_of [OF ok, of k]
      by (auto simp: statuses follow_order_status split: if_splits)
  qed (simp_all add: get)
  with effect_commits [OF eff _ _ orders tickets] show ?thesis by simp
qed

lemma create_order_step:
  assumes ok: "edge_ok db" and new: "orders_map db (no_ID input) = None"
    and out: "create_order_outcome now route hash env input tickets db resp db'"
  shows "edge_ok db' \<and> commits db db'"
proof -
  let ?o = "new_order_projection env input (next_order_number db (env_TenantID env) (env_OutletID env)) now"
  from out have eff: "command_effect
      (operation_row_of env ''order'' (no_ID input) ''order'' (no_ID input) 1 ''order.create'' now
         (Suc (length (db_operations db))))
      (outbox_row_of env now) (idempotency_row_of route hash env resp now)
      ((orders_map db)(no_ID input \<mapsto> ?o)) (add_tickets tickets (tickets_map db)) db db'"
    and dist: "distinct (map kt_ID tickets)"
    and each: "\<forall>t \<in> set tickets. t = new_ticket env input now (kt_ID t) (kt_StationID t) (kt_LineIDs t)
         \<and> tickets_map db (kt_ID t) = None"
    unfolding create_order_outcome_def Let_def by blast+
  have orders: "\<exists>ord'. ((orders_map db)(no_ID input \<mapsto> ?o)) k = Some ord' \<and> order_evolves old ord'"
    if "orders_map db k = Some old" for k old
    using that new by auto
  have tickets: "\<exists>t'. add_tickets tickets (tickets_map db) k = Some t' \<and> ticket_evolves t t'"
    if "tickets_map db k = Some t" for k t
  proof -
    have "k \<notin> kt_ID ` set tickets" using each that by auto
    with that show ?thesis by (simp add: add_tickets_old)
  qed
  have ran: "ran (tickets_map db') = ran (tickets_map db) \<union> set tickets"
    using eff ran_add_tickets [OF dist, of "tickets_map db"] each by (simp add: command_effect_def)
  have fields: "kt_OrderID t = no_ID input \<and> kt_Status t = TicketQueued" if "t \<in> set tickets" for t
    using each that by (metis kitchen_ticket.select_convs(4,7) new_ticket_def)
  have other: "kt_OrderID t \<noteq> no_ID input" if "t \<in> ran (tickets_map db)" for t
    using baseD(6) [of db] ok new that by (auto simp: owned_def edge_ok_def)
  have "edge_ok db'"
  proof (rule effect_ok [where ord = "?o", OF ok eff orders])
    fix k ord'
    assume k: "((orders_map db)(no_ID input \<mapsto> ?o)) k = Some ord'"
    show "coupled (o_Status ord') (ticket_statuses db' k)"
    proof (cases "k = no_ID input")
      case True
      have "ticket_statuses db' k \<subseteq> {TicketQueued}"
        using other fields True by (auto simp: ticket_statuses_def ran)
      with k True coupled_new show ?thesis by auto
    next
      case False
      have "{t \<in> ran (tickets_map db'). kt_OrderID t = k} = {t \<in> ran (tickets_map db). kt_OrderID t = k}"
        using fields False by (auto simp: ran)
      then have "ticket_statuses db' k = ticket_statuses db k" by (simp add: ticket_statuses_def)
      with k False coupled_of [OF ok, of k] show ?thesis by simp
    qed
  qed simp_all
  with effect_commits [OF eff _ _ orders tickets] show ?thesis by simp
qed

subsection \<open>Whole commands\<close>

lemma lookup_cases:
  obtains (reused) e where "lookupIdempotency db route hash env = Inl e" "is_command_error e"
  | (replay) r where "lookupIdempotency db route hash env = Inr (Some r)"
  | (first) "lookupIdempotency db route hash env = Inr None"
  by (cases "lookupIdempotency db route hash env")
    (auto simp: lookupIdempotency_def split: option.splits if_splits)

lemma unused_cases:
  obtains (used) e where "ensureOperationUnused db k = Inl e" "is_command_error e"
  | (unused) "ensureOperationUnused db k = Inr ()"
  by (cases "ensureOperationUnused db k") (auto simp: ensureOperationUnused_def split: if_splits)

text \<open>What a command does is what its body does, unless it is a replay or refused at once.\<close>

lemma begin_command_step:
  assumes ok: "edge_ok db"
    and rest: "\<And>resp db'. lookupIdempotency db route hash env = Inr None \<Longrightarrow>
        ensureOperationUnused db (env_ID env) = Inr () \<Longrightarrow> rest db = Inr (resp, db') \<Longrightarrow>
        edge_ok db' \<and> commits db db'"
  shows "edge_ok (snd (transact (begin_command route hash env rest) db))
       \<and> commits db (snd (transact (begin_command route hash env rest) db))"
proof (cases rule: lookup_cases [of db route hash env])
  case first
  show ?thesis
  proof (cases rule: unused_cases [of db "env_ID env"])
    case unused
    with first rest ok show ?thesis
      by (cases "rest db") (auto simp: begin_command_def transact_def)
  qed (use ok first in \<open>auto simp: begin_command_def transact_def\<close>)
qed (use ok in \<open>auto simp: begin_command_def transact_def\<close>)

lemma begin_command_error:
  assumes rest: "\<And>e. lookupIdempotency db route hash env = Inr None \<Longrightarrow>
        ensureOperationUnused db (env_ID env) = Inr () \<Longrightarrow> rest db = Inl e \<Longrightarrow> is_command_error e"
    and err: "fst (transact (begin_command route hash env rest) db) = Inl e"
  shows "is_command_error e"
proof (cases rule: lookup_cases [of db route hash env])
  case first
  show ?thesis
  proof (cases rule: unused_cases [of db "env_ID env"])
    case unused
    with first rest err show ?thesis
      by (cases "rest db") (auto simp: begin_command_def transact_def)
  qed (use err first in \<open>auto simp: begin_command_def transact_def\<close>)
qed (use err in \<open>auto simp: begin_command_def transact_def\<close>)

lemma CreateOrder_step:
  assumes ok: "edge_ok db"
  shows "edge_ok (snd (CreateOrder now newID route hash env input db))
       \<and> commits db (snd (CreateOrder now newID route hash env input db))"
  unfolding CreateOrder_def
proof (rule begin_command_step [OF ok])
  fix resp db'
  assume first: "lookupIdempotency db route hash env = Inr None" "ensureOperationUnused db (env_ID env) = Inr ()"
    and body: "create_order_body now newID route hash env input db = Inr (resp, db')"
  show "edge_ok db' \<and> commits db db'"
  proof (cases rule: create_order_body_cases [OF ok first refl, of now newID input])
    case (3 tickets resp' db'')
    with body create_order_step [OF ok 3(2,3)] show ?thesis by simp
  qed (use body in simp_all)
qed

lemma TransitionOrder_step:
  assumes ok: "edge_ok db"
  shows "edge_ok (snd (TransitionOrder now route hash orderID env input db))
       \<and> commits db (snd (TransitionOrder now route hash orderID env input db))"
  unfolding TransitionOrder_def
proof (rule begin_command_step [OF ok])
  fix resp db'
  assume first: "lookupIdempotency db route hash env = Inr None" "ensureOperationUnused db (env_ID env) = Inr ()"
    and body: "transition_order_body now route hash orderID env input db = Inr (resp, db')"
  show "edge_ok db' \<and> commits db db'"
  proof (cases rule: transition_order_body_cases [OF ok first refl, of now orderID input])
    case (2 ord resp' db'')
    with body transition_order_step [OF ok 2(2,3,4,6,7,8)] show ?thesis by simp
  qed (use body in simp_all)
qed

lemma TransitionTicket_step:
  assumes ok: "edge_ok db"
  shows "edge_ok (snd (TransitionTicket now route hash ticketID env input db))
       \<and> commits db (snd (TransitionTicket now route hash ticketID env input db))"
  unfolding TransitionTicket_def
proof (rule begin_command_step [OF ok])
  fix resp db'
  assume first: "lookupIdempotency db route hash env = Inr None" "ensureOperationUnused db (env_ID env) = Inr ()"
    and body: "transition_ticket_body now route hash ticketID env input db = Inr (resp, db')"
  show "edge_ok db' \<and> commits db db'"
  proof (cases rule: transition_ticket_body_cases [OF ok first refl, of now ticketID input])
    case (2 t ord resp' db'')
    with body transition_ticket_step [OF ok 2(2,3,4,6,7,8)] show ?thesis by simp
  qed (use body in simp_all)
qed

lemma TransitionOrderTickets_step:
  assumes ok: "edge_ok db"
  shows "edge_ok (snd (TransitionOrderTickets now route hash orderID env to' expected db))
       \<and> commits db (snd (TransitionOrderTickets now route hash orderID env to' expected db))"
  unfolding TransitionOrderTickets_def
proof (rule begin_command_step [OF ok])
  fix resp db'
  assume first: "lookupIdempotency db route hash env = Inr None" "ensureOperationUnused db (env_ID env) = Inr ()"
    and body: "transition_order_tickets_body now route hash orderID env to' expected db = Inr (resp, db')"
  show "edge_ok db' \<and> commits db db'"
  proof (cases rule: transition_order_tickets_body_cases [OF ok first refl, of now orderID to' expected])
    case (2 ord resp' db'')
    with body transition_order_tickets_step [OF ok 2(2,3,4,6,7,8)] show ?thesis by simp
  qed (use body in simp_all)
qed

subsection \<open>Steps and reachable databases\<close>

lemma outbox_ids_update [row_simps]: "(\<And>r. ob_operation_id (f r) = ob_operation_id r) \<Longrightarrow>
   map ob_operation_id (update_pending k f rows) = map ob_operation_id rows"
  by (simp add: update_pending_def map_update_where)

lemma outbox_ids_results: "map ob_operation_id (fst (fold (apply_result now results) ids st)) = map ob_operation_id (fst st)"
proof (induction ids arbitrary: st)
  case (Cons k ids)
  have "map ob_operation_id (fst (apply_result now results k st)) = map ob_operation_id (fst st)"
    by (cases st) (simp add: apply_result_def Let_def outbox_ids_update)
  with Cons.IH show ?case by simp
qed simp

lemma outbox_ids_failure: "map ob_operation_id (fold (fail_operation now msg) ids rows) = map ob_operation_id rows"
proof (induction ids arbitrary: rows)
  case (Cons k ids)
  have "map ob_operation_id (fail_operation now msg k rows) = map ob_operation_id rows"
    by (simp add: fail_operation_def Let_def outbox_ids_update split: option.splits)
  with Cons.IH show ?case by simp
qed simp

text \<open>The operations that touch neither orders nor tickets nor the operation log.\<close>

definition only_delivery :: "db \<Rightarrow> db \<Rightarrow> bool" where
  "only_delivery db db' \<longleftrightarrow> db_orders db' = db_orders db \<and> db_tickets db' = db_tickets db
     \<and> db_operations db' = db_operations db \<and> db_idempotency db' = db_idempotency db
     \<and> db_order_transitions db' = db_order_transitions db \<and> db_ticket_transitions db' = db_ticket_transitions db
     \<and> map ob_operation_id (db_outbox db') = map ob_operation_id (db_outbox db)"

lemma only_delivery_refl [simp]: "only_delivery db db"
  by (simp add: only_delivery_def)

lemma only_delivery_ok:
  assumes d: "only_delivery db db'" and ok: "edge_ok db"
  shows "edge_ok db' \<and> advances db db'"
proof -
  from d have t: "db_orders db' = db_orders db" "db_tickets db' = db_tickets db"
    "db_operations db' = db_operations db" "db_idempotency db' = db_idempotency db"
    "db_order_transitions db' = db_order_transitions db" "db_ticket_transitions db' = db_ticket_transitions db"
    "map ob_operation_id (db_outbox db') = map ob_operation_id (db_outbox db)"
    unfolding only_delivery_def by blast+
  note same = frame(1) [OF t(1)] frame(2) [OF t(1)] frame(3) [OF t(2)] frame(4) [OF t(2)] frame(6) [OF t(4)]
  have ops: "operations_ok db' = operations_ok db" unfolding operations_ok_def by (simp only: t)
  have "edge_ok db' = edge_ok db"
    unfolding edge_ok_def base_def tables_ok_def owned_def order_logs_ok_def ticket_logs_ok_def attributed_def
      coupling_def ticket_statuses_def
    by (simp only: same ops t)
  moreover have "advances db db'"
    unfolding advances_def same t using advances_refl [of db] unfolding advances_def by blast
  ultimately show ?thesis using ok by blast
qed

lemma delivery_steps:
  "only_delivery db (RecordSyncResults ids results now db)"
  "only_delivery db (RecordSyncFailure ids msg now db)"
  "only_delivery db (snd (CreatePairingCode now c role e db))"
  "only_delivery db (snd (ExchangePairingCode now c t e db))"
  "only_delivery db (snd (RevokeSession now t db))"
proof -
  show "only_delivery db (RecordSyncResults ids results now db)"
    using outbox_ids_results [of now results ids "(db_outbox db, True, [])"]
    by (simp add: only_delivery_def RecordSyncResults_def case_prod_beta Let_def)
  show "only_delivery db (RecordSyncFailure ids msg now db)"
    by (simp add: only_delivery_def RecordSyncFailure_def outbox_ids_failure Let_def)
  show "only_delivery db (snd (CreatePairingCode now c role e db))"
    by (simp add: only_delivery_def CreatePairingCode_def transact_def)
  show "only_delivery db (snd (RevokeSession now t db))"
    by (simp add: only_delivery_def RevokeSession_def)
  show "only_delivery db (snd (ExchangePairingCode now c t e db))"
  proof (cases "exchange_body now c t e db")
    case (Inr r)
    obtain role db' where r: "r = (role, db')" by (cases r)
    show ?thesis
      by (rule exchange_Inr [OF Inr [unfolded r]])
        (simp add: only_delivery_def ExchangePairingCode_def transact_def Inr r)
  qed (simp add: ExchangePairingCode_def transact_def)
qed

inductive edge_step :: "db \<Rightarrow> db \<Rightarrow> bool" where
  step_create: "edge_step db (snd (CreateOrder now newID route hash env input db))"
| step_order: "edge_step db (snd (TransitionOrder now route hash k env input' db))"
| step_ticket: "edge_step db (snd (TransitionTicket now route hash k env input'' db))"
| step_tickets: "edge_step db (snd (TransitionOrderTickets now route hash k env to' expected db))"
| step_results: "edge_step db (RecordSyncResults ids results now db)"
| step_failure: "edge_step db (RecordSyncFailure ids msg now db)"
| step_pair: "edge_step db (snd (CreatePairingCode now c role e db))"
| step_exchange: "edge_step db (snd (ExchangePairingCode now c t e db))"
| step_revoke: "edge_step db (snd (RevokeSession now t db))"

definition edge_reachable :: "db \<Rightarrow> bool" where
  "edge_reachable db \<longleftrightarrow> edge_step\<^sup>*\<^sup>* empty_db db"

lemmas command_steps =
  CreateOrder_step TransitionOrder_step TransitionTicket_step TransitionOrderTickets_step

lemma edge_step_ok: "edge_step db db' \<Longrightarrow> edge_ok db \<Longrightarrow> edge_ok db' \<and> advances db db'"
  by (induction rule: edge_step.induct)
    (simp_all add: command_steps [unfolded commits_def]
      only_delivery_ok [OF delivery_steps(1)] only_delivery_ok [OF delivery_steps(2)]
      only_delivery_ok [OF delivery_steps(3)] only_delivery_ok [OF delivery_steps(4)]
      only_delivery_ok [OF delivery_steps(5)])

lemma edge_steps_ok: "edge_step\<^sup>*\<^sup>* db db' \<Longrightarrow> edge_ok db \<Longrightarrow> edge_ok db'"
  by (induction rule: rtranclp_induct) (simp_all add: edge_step_ok)

lemma reachable_ok: "edge_reachable db \<Longrightarrow> edge_ok db"
  using edge_steps_ok edge_ok_empty by (simp add: edge_reachable_def)

lemma reachable_step: "edge_reachable db \<Longrightarrow> edge_step db db' \<Longrightarrow> edge_reachable db'"
  by (simp add: edge_reachable_def rtranclp.rtrancl_into_rtrancl)

lemma reachable_empty: "edge_reachable empty_db"
  by (simp add: edge_reachable_def)

text \<open>Along any run, what is final stays as it is, versions do not fall and the logs grow.\<close>

lemma final_order_stays:
  assumes "edge_step\<^sup>*\<^sup>* db db'" "edge_ok db" "orders_map db k = Some ord" "order_final (o_Status ord)"
  shows "orders_map db' k = Some ord"
  using assms
proof (induction rule: rtranclp_induct)
  case (step y z)
  then have y: "orders_map y k = Some ord" "edge_ok y" using edge_steps_ok by auto
  with edge_step_ok [OF step(2)] obtain ord' where "orders_map z k = Some ord'" "order_evolves ord ord'"
    unfolding advances_def by blast
  with step.prems show ?case by (auto simp: order_evolves_def order_moves_def)
qed

lemma order_never_lost:
  assumes "edge_step\<^sup>*\<^sup>* db db'" "edge_ok db" "orders_map db k = Some ord"
  shows "\<exists>ord'. orders_map db' k = Some ord' \<and> order_identity ord' = order_identity ord
    \<and> o_Version ord \<le> o_Version ord' \<and> order_height (o_Status ord) \<le> order_height (o_Status ord')"
  using assms
proof (induction rule: rtranclp_induct)
  case (step y z)
  then obtain oy where y: "orders_map y k = Some oy" "order_identity oy = order_identity ord"
    "o_Version ord \<le> o_Version oy" "order_height (o_Status ord) \<le> order_height (o_Status oy)" "edge_ok y"
    using edge_steps_ok by blast
  with edge_step_ok [OF step(2)] obtain oz where "orders_map z k = Some oz" "order_evolves oy oz"
    unfolding advances_def by blast
  with y show ?case using order_moves_up [of "o_Status oy" "o_Status oz"]
    by (auto simp: order_evolves_def)
qed auto

lemma idempotency_grows:
  assumes "edge_step\<^sup>*\<^sup>* db db'" "edge_ok db"
  shows "prefix (db_idempotency db) (db_idempotency db') \<and> prefix (db_operations db) (db_operations db')"
  using assms
proof (induction rule: rtranclp_induct)
  case (step y z)
  then have "edge_ok y" using edge_steps_ok by auto
  with edge_step_ok [OF step(2)] step show ?case by (meson advances_def prefix_order.trans)
qed simp

end
