(* ===== verification/Edge_Delivery.thy ===== *)
theory Edge_Delivery
  imports Edge_System
begin

text \<open>
  What the outbox guarantees: a settled row never changes, a result settles exactly the rows
  it names, retries are scheduled within bounds, and the synchronized operations of a stream
  are a prefix of it.
\<close>

subsection \<open>Results act on each row by itself\<close>

definition result_state :: "push_status \<Rightarrow> outbox_state" where
  "result_state status =
    (if status = PushAccepted \<or> status = PushDuplicate then Synchronized
     else if status = PushRejected \<or> status = PushConflict then Reconciliation else Pending)"

definition row_result :: "time \<Rightarrow> push_result list \<Rightarrow> string \<Rightarrow> outbox_row \<Rightarrow> outbox_row" where
  "row_result now results k r = hd (fst (apply_result now results k ([r], True, [])))"

lemma update_pending_map: "update_pending k f rows = map (\<lambda>r. hd (update_pending k f [r])) rows"
  by (simp add: update_pending_def update_where_def)

lemma apply_result_map: "fst (apply_result now results k (rows, b, p)) = map (row_result now results k) rows"
  unfolding row_result_def apply_result_def Let_def
  by (simp add: update_pending_map [of _ _ rows] split: if_splits)

lemma results_map: "fst (fold (apply_result now results) ids (rows, b, p)) = map (fold (row_result now results) ids) rows"
proof (induction ids arbitrary: rows b p)
  case (Cons k ids)
  obtain rows' b' p' where a: "apply_result now results k (rows, b, p) = (rows', b', p')" by (metis prod_cases3)
  then have "rows' = map (row_result now results k) rows" using apply_result_map by (metis fst_conv)
  with a Cons.IH show ?case by simp
qed simp

lemma row_result_simps [simp]:
  "ob_operation_id (row_result now results k r) = ob_operation_id r"
  "ob_state (row_result now results k r) =
    (if ob_operation_id r = k \<and> ob_state r = Pending then result_state (res_Status (result_for results k)) else ob_state r)"
  by (simp_all add: row_result_def apply_result_def Let_def update_pending_def update_where_def result_state_def)

lemma row_result_other: "\<not> (ob_operation_id r = k \<and> ob_state r = Pending) \<Longrightarrow> row_result now results k r = r"
  by (auto simp: row_result_def apply_result_def Let_def update_pending_def update_where_def)

lemma row_results_id [simp]: "ob_operation_id (fold (row_result now results) ids r) = ob_operation_id r"
  by (induction ids arbitrary: r) simp_all

lemma row_results_state:
  "ob_state (fold (row_result now results) ids r) =
    (if ob_operation_id r \<in> set ids \<and> ob_state r = Pending
     then result_state (res_Status (result_for results (ob_operation_id r))) else ob_state r)"
  by (induction ids arbitrary: r) auto

lemma row_results_settled: "ob_state r \<noteq> Pending \<Longrightarrow> fold (row_result now results) ids r = r"
  by (induction ids) (simp_all add: row_result_other)

lemma row_results_other: "ob_operation_id r \<notin> set ids \<Longrightarrow> fold (row_result now results) ids r = r"
  by (induction ids) (simp_all add: row_result_other)

lemma RecordSyncResults_rows:
  "db_outbox (RecordSyncResults ids results now db) = map (fold (row_result now results) ids) (db_outbox db)"
  using results_map [of now results ids "db_outbox db" True "[]"]
  by (simp add: RecordSyncResults_def Let_def case_prod_beta)

subsection \<open>Failures\<close>

definition row_failure :: "time \<Rightarrow> string \<Rightarrow> string \<Rightarrow> outbox_row \<Rightarrow> outbox_row" where
  "row_failure now msg k r =
    (if ob_operation_id r = k \<and> ob_state r = Pending
     then r\<lparr>ob_attempts := ob_attempts r + 1,
            ob_next_attempt_at := formatTime (now + retryDelay (int (ob_attempts r) + 1)), ob_last_error := Some msg\<rparr>
     else r)"

lemma fail_operation_map:
  assumes "distinct (map ob_operation_id rows)"
  shows "fail_operation now msg k rows = map (row_failure now msg k) rows"
proof (cases "List.find (\<lambda>r. ob_operation_id r = k \<and> ob_state r = Pending) rows")
  case None
  then have "row_failure now msg k r = r" if "r \<in> set rows" for r
    using that by (auto simp: row_failure_def find_None_iff)
  with None show ?thesis by (simp add: fail_operation_def map_idI)
next
  case (Some row)
  then have row: "row \<in> set rows" "ob_operation_id row = k" by (auto simp: find_Some_iff)
  have "r = row" if "r \<in> set rows" "ob_operation_id r = k" for r
    using that row assms by (auto simp: distinct_map inj_on_def)
  with Some show ?thesis
    by (auto simp: fail_operation_def row_failure_def update_pending_def update_where_def Let_def)
qed

lemma row_failure_simps [simp]:
  "ob_operation_id (row_failure now msg k r) = ob_operation_id r"
  "ob_state (row_failure now msg k r) = ob_state r"
  by (simp_all add: row_failure_def)

lemma failures_map:
  "distinct (map ob_operation_id rows) \<Longrightarrow>
   fold (fail_operation now msg) ids rows = map (fold (row_failure now msg) ids) rows"
proof (induction ids arbitrary: rows)
  case (Cons k ids)
  have "distinct (map ob_operation_id (map (row_failure now msg k) rows))"
    using Cons.prems by (simp add: comp_def)
  from Cons.IH [OF this] fail_operation_map [OF Cons.prems] show ?case by (simp add: comp_def)
qed simp

lemma row_failures_simps [simp]:
  "ob_operation_id (fold (row_failure now msg) ids r) = ob_operation_id r"
  "ob_state (fold (row_failure now msg) ids r) = ob_state r"
  by (induction ids arbitrary: r) simp_all

lemma row_failures_settled: "ob_state r \<noteq> Pending \<Longrightarrow> fold (row_failure now msg) ids r = r"
  by (induction ids) (simp_all add: row_failure_def)

lemma row_failures_other: "ob_operation_id r \<notin> set ids \<Longrightarrow> fold (row_failure now msg) ids r = r"
  by (induction ids) (simp_all add: row_failure_def)

lemma row_failures_once:
  "distinct ids \<Longrightarrow> ob_operation_id r \<in> set ids \<Longrightarrow>
   fold (row_failure now msg) ids r = row_failure now msg (ob_operation_id r) r"
proof (induction ids arbitrary: r)
  case (Cons k ids)
  show ?case
  proof (cases "ob_operation_id r = k")
    case True
    with Cons.prems show ?thesis by (simp add: row_failures_other)
  next
    case False
    with Cons show ?thesis by (simp add: row_failure_def)
  qed
qed simp

lemma outbox_distinct: "edge_ok db \<Longrightarrow> distinct (map ob_operation_id (db_outbox db))"
  by (simp add: edge_ok_def base_def tables_ok_def operations_ok_def)

lemma RecordSyncFailure_rows:
  assumes "edge_ok db"
  shows "db_outbox (RecordSyncFailure ids msg now db) =
    map (fold (row_failure now (if length msg > 1000 then take 1000 msg else msg)) ids) (db_outbox db)"
  using failures_map [OF outbox_distinct [OF assms]] by (simp add: RecordSyncFailure_def Let_def)

subsection \<open>Delays\<close>

lemma retryDelay_cases:
  "attempt \<le> 1 \<Longrightarrow> retryDelay attempt = Second"
  "9 \<le> attempt \<Longrightarrow> retryDelay attempt = 256 * Second"
  "1 \<le> attempt \<Longrightarrow> attempt \<le> 9 \<Longrightarrow> retryDelay attempt = 2 ^ nat (attempt - 1) * Second"
proof -
  show "retryDelay attempt = Second" if "attempt \<le> 1"
  proof -
    from that have "(if attempt < 1 then 1 else attempt) = 1" by simp
    then show ?thesis unfolding retryDelay_def Let_def by simp
  qed
  show "retryDelay attempt = 256 * Second" if "9 \<le> attempt"
  proof -
    from that have "(if (if attempt < 1 then 1 else attempt) > 9 then 9 else (if attempt < 1 then 1 else attempt)) = 9"
      by (cases "attempt = 9") simp_all
    then show ?thesis unfolding retryDelay_def Let_def by (simp only:) simp
  qed
  show "retryDelay attempt = 2 ^ nat (attempt - 1) * Second" if "1 \<le> attempt" "attempt \<le> 9"
  proof -
    from that have "(if (if attempt < 1 then 1 else attempt) > 9 then 9 else (if attempt < 1 then 1 else attempt)) = attempt"
      by simp
    then show ?thesis unfolding retryDelay_def Let_def by (simp only:)
  qed
qed

lemma retryDelay_bounds: "Second \<le> retryDelay attempt" "retryDelay attempt \<le> 256 * Second"
proof -
  consider "attempt \<le> 1" | "9 \<le> attempt" | "1 \<le> attempt" "attempt \<le> 9" by linarith
  then have "Second \<le> retryDelay attempt \<and> retryDelay attempt \<le> 256 * Second"
  proof cases
    case 3
    then have "(2 :: int) ^ nat (attempt - 1) \<le> 2 ^ 8" by (intro power_increasing) simp_all
    moreover have "(1 :: int) \<le> 2 ^ nat (attempt - 1)" by simp
    ultimately show ?thesis unfolding retryDelay_cases(3) [OF 3] by (simp add: Second_def)
  qed (simp_all add: retryDelay_cases Second_def)
  then show "Second \<le> retryDelay attempt" "retryDelay attempt \<le> 256 * Second" by simp_all
qed

lemma retryDelay_doubles: "1 \<le> attempt \<Longrightarrow> attempt < 9 \<Longrightarrow> retryDelay (attempt + 1) = 2 * retryDelay attempt"
proof -
  assume a: "1 \<le> attempt" "attempt < 9"
  then have "nat (attempt + 1 - 1) = Suc (nat (attempt - 1))" by simp
  with a show ?thesis by (simp add: retryDelay_cases(3) del: add_diff_cancel_right')
qed

lemma result_delay_bounds: "0 < result_delay n" "result_delay n \<le> 15 * Minute"
  by (auto simp: result_delay_def Let_def Second_def Minute_def)

lemma result_delay_exact: "1 \<le> n \<Longrightarrow> n \<le> 900 \<Longrightarrow> result_delay n = n * Second"
proof -
  assume n: "1 \<le> n" "n \<le> 900"
  then have "in_int64 (n * Second)" by (simp add: in_int64_def Second_def max_int64_def)
  with n show ?thesis by (simp add: result_delay_def Let_def wrap64_id Second_def Minute_def)
qed

subsection \<open>Streams\<close>

definition synchronized_ids :: "db \<Rightarrow> string set" where
  "synchronized_ids db = ob_operation_id ` {b \<in> set (db_outbox db). ob_state b = Synchronized}"

text \<open>The synchronized operations of every stream form a prefix of the stream.\<close>

definition delivered_in_order :: "db \<Rightarrow> bool" where
  "delivered_in_order db \<longleftrightarrow> (\<forall>o' \<in> set (db_operations db). \<forall>p \<in> set (db_operations db).
     opr_operation_id o' \<in> synchronized_ids db \<and> same_stream p o' \<and> opr_sequence p < opr_sequence o'
     \<longrightarrow> opr_operation_id p \<in> synchronized_ids db)"

definition causal_heads :: "db \<Rightarrow> string set" where
  "causal_heads db = opr_operation_id ` {o' \<in> set (db_operations db). \<not> has_unresolved_predecessor db o'}"

lemma operations_okD:
  assumes "edge_ok db"
  shows "operations_ok db"
  using assms by (simp add: edge_ok_def base_def tables_ok_def)

lemma operation_in_outbox: "edge_ok db \<Longrightarrow> o' \<in> set (db_operations db) \<Longrightarrow> \<exists>b \<in> set (db_outbox db). ob_operation_id b = opr_operation_id o'"
proof -
  assume "edge_ok db" "o' \<in> set (db_operations db)"
  then have "opr_operation_id o' \<in> set (map ob_operation_id (db_outbox db))"
    using operations_okD [of db] by (simp add: operations_ok_def)
  then show ?thesis by auto
qed

lemma same_operation: "edge_ok db \<Longrightarrow> o' \<in> set (db_operations db) \<Longrightarrow> p \<in> set (db_operations db) \<Longrightarrow>
   opr_operation_id o' = opr_operation_id p \<Longrightarrow> o' = p"
proof -
  assume ok: "edge_ok db"
  have "distinct (map opr_operation_id (db_operations db))"
    using operations_okD [OF ok] by (simp only: operations_ok_def)
  then show "o' \<in> set (db_operations db) \<Longrightarrow> p \<in> set (db_operations db) \<Longrightarrow>
      opr_operation_id o' = opr_operation_id p \<Longrightarrow> o' = p"
    by (simp add: distinct_map inj_on_def)
qed

lemma no_unresolved:
  assumes ok: "edge_ok db" and "o' \<in> set (db_operations db)" "\<not> has_unresolved_predecessor db o'"
    and "p \<in> set (db_operations db)" "same_stream p o'" "opr_sequence p < opr_sequence o'"
  shows "opr_operation_id p \<in> synchronized_ids db"
proof -
  obtain b where b: "b \<in> set (db_outbox db)" "ob_operation_id b = opr_operation_id p"
    using operation_in_outbox [OF ok assms(4)] by blast
  with assms have "ob_state b = Synchronized" by (auto simp: has_unresolved_predecessor_def list_ex_iff)
  with b show ?thesis by (force simp: synchronized_ids_def)
qed

text \<open>Delivery keeps the order when it only settles operations that head their streams.\<close>

lemma delivered_in_order_step:
  assumes ok: "edge_ok db" and order: "delivered_in_order db"
    and ops: "db_operations db' = db_operations db"
    and mono: "synchronized_ids db \<subseteq> synchronized_ids db'"
    and new: "synchronized_ids db' \<subseteq> synchronized_ids db \<union> causal_heads db"
  shows "delivered_in_order db'"
  unfolding delivered_in_order_def
proof (intro ballI impI, elim conjE)
  fix o' p
  assume o: "o' \<in> set (db_operations db')" and p: "p \<in> set (db_operations db')"
    and s: "opr_operation_id o' \<in> synchronized_ids db'" and st: "same_stream p o'" "opr_sequence p < opr_sequence o'"
  show "opr_operation_id p \<in> synchronized_ids db'"
  proof (cases "opr_operation_id o' \<in> synchronized_ids db")
    case True
    with order o p st mono show ?thesis unfolding delivered_in_order_def ops by blast
  next
    case False
    with s new have "opr_operation_id o' \<in> causal_heads db" by blast
    then obtain q where "q \<in> set (db_operations db)" "\<not> has_unresolved_predecessor db q" "opr_operation_id q = opr_operation_id o'"
      by (auto simp: causal_heads_def)
    with same_operation [OF ok] o ops have "\<not> has_unresolved_predecessor db o'" by metis
    from no_unresolved [OF ok _ this _ st] o p mono show ?thesis unfolding ops by blast
  qed
qed

lemma image_mapped_rows:
  assumes "\<And>r. ob_operation_id (f r) = ob_operation_id r"
  shows "ob_operation_id ` {b \<in> set (map f rows). ob_state b = S} = ob_operation_id ` {b \<in> set rows. ob_state (f b) = S}"
proof -
  have "{b \<in> set (map f rows). ob_state b = S} = f ` {b \<in> set rows. ob_state (f b) = S}" by auto
  then show ?thesis by (simp add: image_image assms)
qed

lemma synchronized_results:
  "synchronized_ids (RecordSyncResults ids results now db) = synchronized_ids db \<union>
     {ob_operation_id b |b. b \<in> set (db_outbox db) \<and> ob_state b = Pending \<and> ob_operation_id b \<in> set ids
        \<and> result_state (res_Status (result_for results (ob_operation_id b))) = Synchronized}"
  unfolding synchronized_ids_def RecordSyncResults_rows image_mapped_rows [OF row_results_id] row_results_state
  by (auto split: if_splits)

lemma synchronized_failure:
  "edge_ok db \<Longrightarrow> synchronized_ids (RecordSyncFailure ids msg now db) = synchronized_ids db"
  by (simp only: synchronized_ids_def RecordSyncFailure_rows image_mapped_rows [OF row_failures_simps(1)] row_failures_simps)

lemma sequences:
  assumes ok: "edge_ok db" and r: "r \<in> set (db_operations db)"
  shows "1 \<le> opr_sequence r \<and> opr_sequence r \<le> length (db_operations db)"
proof -
  have "opr_sequence r \<in> set (map opr_sequence (db_operations db))" using r by simp
  also have "map opr_sequence (db_operations db) = [1..<Suc (length (db_operations db))]"
    using operations_okD [OF ok] by (simp only: operations_ok_def)
  finally show ?thesis by auto
qed

text \<open>A command only appends a pending operation with the next sequence number.\<close>

lemma delivered_in_order_commits:
  assumes ok: "edge_ok db" "edge_ok db'" and c: "commits db db'" and order: "delivered_in_order db"
  shows "delivered_in_order db'"
proof -
  from c consider (same) "db_operations db' = db_operations db" "db_outbox db' = db_outbox db"
    | (grow) row ob where "db_operations db' = db_operations db @ [row]" "db_outbox db' = db_outbox db @ [ob]"
      "ob_state ob = Pending" "opr_sequence row = Suc (length (db_operations db))" "opr_operation_id row = ob_operation_id ob"
    unfolding commits_def outbox_grows_def by blast
  then show ?thesis
  proof cases
    case same
    have "synchronized_ids db' = synchronized_ids db" unfolding synchronized_ids_def same ..
    with order show ?thesis unfolding delivered_in_order_def same by (simp only:)
  next
    case grow
    have sync: "synchronized_ids db' = synchronized_ids db"
      by (auto simp: synchronized_ids_def grow)
    have "distinct (map ob_operation_id (db_outbox db'))" using outbox_distinct [OF ok(2)] .
    then have new: "opr_operation_id row \<notin> synchronized_ids db"
      by (auto simp: grow synchronized_ids_def)
    show ?thesis
      unfolding delivered_in_order_def sync
    proof (intro ballI impI, elim conjE)
      fix o' p
      assume o: "o' \<in> set (db_operations db')" and p: "p \<in> set (db_operations db')"
        and s: "opr_operation_id o' \<in> synchronized_ids db" and st: "same_stream p o'" "opr_sequence p < opr_sequence o'"
      from s new o have o: "o' \<in> set (db_operations db)" by (auto simp: grow)
      with sequences [OF ok(1) o] st(2) grow(4) p have "p \<in> set (db_operations db)" by (auto simp: grow)
      with order o s st show "opr_operation_id p \<in> synchronized_ids db" unfolding delivered_in_order_def by blast
    qed
  qed
qed

subsection \<open>PendingOperations\<close>

lemma decode_all_Inr: "decode_all rs = Inr os \<Longrightarrow> list_all2 (\<lambda>r o'. decode_operation r = Inr o') rs os"
  by (induction rs arbitrary: os) (auto simp: rbind_Inr_iff)

lemma decode_operation_Inr:
  "decode_operation r = Inr o' \<Longrightarrow> op_OperationID o' = opr_operation_id r
     \<and> unmarshal_envelope (opr_mutation_json r) = Inr (op_Mutation o')
     \<and> op_AggregateVersion o' = opr_aggregate_version r \<and> parseTime (opr_recorded_at r) = Some (op_RecordedAt o')"
  by (auto simp: decode_operation_def rbind_Inr_iff split: option.splits)

lemma sql_limit_take: "\<exists>n. sql_limit limit rows = take n rows"
  by (cases "limit < 0") (auto simp: sql_limit_def intro: exI [of _ "length rows"])

lemma pending_rows:
  assumes ok: "edge_ok db" and pend: "PendingOperations db limit now = Inr os"
  obtains rows where "list_all2 (\<lambda>r o'. decode_operation r = Inr o') rows os" "set rows \<subseteq> set (db_operations db)"
    "\<forall>r \<in> set rows. eligible db now r" "sorted_wrt (\<lambda>a b. opr_sequence a < opr_sequence b) rows"
    "0 \<le> limit \<Longrightarrow> length rows \<le> nat limit"
proof -
  let ?all = "sort_key opr_sequence (filter (eligible db now) (db_operations db))"
  let ?rows = "sql_limit limit ?all"
  obtain n where n: "?rows = take n ?all" using sql_limit_take by blast
  then have sub: "set ?rows \<subseteq> set ?all" by (metis set_take_subset)
  have "map opr_sequence (db_operations db) = [1..<Suc (length (db_operations db))]"
    using operations_okD [OF ok] by (simp only: operations_ok_def)
  then have "distinct (map opr_sequence (db_operations db))" by (metis distinct_upt)
  then have "distinct (map opr_sequence ?all)" by (simp add: distinct_map inj_on_def)
  moreover have "sorted (map opr_sequence ?all)" by simp
  ultimately have "sorted_wrt (<) (map opr_sequence ?all)" by (simp add: strict_sorted_iff)
  then have "sorted_wrt (\<lambda>a b. opr_sequence a < opr_sequence b) ?rows"
    unfolding n by (simp only: sorted_wrt_map sorted_wrt_take)
  moreover have "length ?rows \<le> nat limit" if "0 \<le> limit" using that by (simp add: sql_limit_def)
  ultimately show ?thesis
    using that [OF decode_all_Inr] pend sub by (auto simp: PendingOperations_def)
qed

text \<open>Two eligible operations are of different streams: the later one would have a predecessor.\<close>

lemma eligible_heads:
  assumes ok: "edge_ok db" and a: "a \<in> set (db_operations db)" "eligible db now a" and b: "eligible db now b"
    and st: "same_stream a b"
  shows "\<not> opr_sequence a < opr_sequence b"
proof
  assume "opr_sequence a < opr_sequence b"
  moreover from a(2) obtain ob where "ob \<in> set (db_outbox db)" "ob_operation_id ob = opr_operation_id a" "ob_state ob = Pending"
    by (auto simp: eligible_def list_ex_iff)
  ultimately have "has_unresolved_predecessor db b"
    using a(1) st unfolding has_unresolved_predecessor_def list_ex_iff by (metis outbox_state.distinct(1))
  with b show False by (simp add: eligible_def)
qed

lemma pending_ids:
  assumes "edge_ok db" "PendingOperations db limit now = Inr os"
  shows "op_OperationID ` set os \<subseteq> causal_heads db" "distinct (map op_OperationID os)"
proof -
  from pending_rows [OF assms] obtain rows where r: "list_all2 (\<lambda>r o'. decode_operation r = Inr o') rows os"
    "set rows \<subseteq> set (db_operations db)" "\<forall>r \<in> set rows. eligible db now r"
    "sorted_wrt (\<lambda>a b. opr_sequence a < opr_sequence b) rows" by metis
  have ids: "map op_OperationID os = map opr_operation_id rows"
    using r(1) by (induction rule: list_all2_induct) (simp_all add: decode_operation_Inr)
  then have "op_OperationID ` set os = opr_operation_id ` set rows" by (metis set_map)
  then show "op_OperationID ` set os \<subseteq> causal_heads db"
    using r(2,3) by (auto simp: causal_heads_def eligible_def)
  have "distinct (map opr_sequence rows)" using r(4) by (simp add: sorted_wrt_map strict_sorted_iff flip: sorted_wrt_map)
  then have "distinct rows" by (simp add: distinct_map)
  moreover have "inj_on opr_operation_id (set rows)"
    using same_operation [OF assms(1)] r(2) unfolding inj_on_def by blast
  ultimately show "distinct (map op_OperationID os)" by (simp add: ids distinct_map)
qed

end
