(* ===== verification/Edge_Syncer.thy ===== *)
theory Edge_Syncer
  imports Edge_Delivery
begin

text \<open>
  The cloud synchronisation of the edge: \<open>services/edge/internal/syncer/syncer.go\<close>. The Go
  interfaces \<open>Repository\<close> and \<open>Adapter\<close> are a record of functions on a repository
  state and a function from requests to responses; \<open>json.Marshal\<close> enters as the length of
  the encoded batch, the HTTP client as a function, and \<open>model.NewUUIDv7\<close> as the batch
  identifier. The mutex serialises \<open>SyncOnce\<close>, so one call is one step.
\<close>

definition maximumProtocolOperations :: int where "maximumProtocolOperations = 500"
definition maximumProtocolBytes :: int where "maximumProtocolBytes = 5 * 2 ^ 20"

record syncer_config =
  sc_EdgeID :: string
  sc_TenantID :: string
  sc_OutletID :: string
  sc_Interval :: duration
  sc_BatchSize :: int
  sc_MaxBatchBytes :: int

record 's repository =
  rp_PendingOperations :: "'s \<Rightarrow> int \<Rightarrow> time \<Rightarrow> store_error + operation list"
  rp_RecordSyncResults :: "'s \<Rightarrow> string list \<Rightarrow> push_result list \<Rightarrow> time \<Rightarrow> store_error + 's"
  rp_RecordSyncFailure :: "'s \<Rightarrow> string list \<Rightarrow> string \<Rightarrow> time \<Rightarrow> store_error + 's"

type_synonym adapter = "push_request \<Rightarrow> string + push_response"

datatype syncer_error =
    IdentityNotConfigured
  | MutationMismatch string
  | OutsideTenantScope string
  | OutsideOutletScope string
  | AggregateNotUUIDv7 string
  | FirstOperationTooLarge
  | UnknownOperation string
  | RepeatedOperation string
  | InvalidStatus string
  | WrongBatch string string
  | PushFailed string
  | RepositoryFailed store_error
  | Joined syncer_error store_error

text \<open>\<open>%q\<close> on printable ASCII text.\<close>

definition quote :: "string \<Rightarrow> string" where
  "quote s = ''\"'' @ concat (map (\<lambda>c. if c = CHR 0x22 \<or> c = CHR 0x5C then [CHR 0x5C, c] else [c]) s) @ ''\"''"

fun syncer_error_text :: "syncer_error \<Rightarrow> string" where
  "syncer_error_text IdentityNotConfigured = ''syncer: edge, tenant, and outlet identity must be configured''"
| "syncer_error_text (MutationMismatch i) = ''syncer: operation '' @ quote i @ '' does not have a matching UUIDv7 mutation id''"
| "syncer_error_text (OutsideTenantScope i) = ''syncer: operation '' @ quote i @ '' is outside tenant scope''"
| "syncer_error_text (OutsideOutletScope i) = ''syncer: operation '' @ quote i @ '' is outside outlet scope''"
| "syncer_error_text (AggregateNotUUIDv7 i) = ''syncer: operation '' @ quote i @ '' aggregateId must be a UUIDv7''"
| "syncer_error_text FirstOperationTooLarge = ''syncer: first pending operation exceeds the 5 MiB protocol limit''"
| "syncer_error_text (UnknownOperation i) = ''syncer: cloud returned unknown operationId '' @ quote i"
| "syncer_error_text (RepeatedOperation i) = ''syncer: cloud returned operationId '' @ quote i @ '' more than once''"
| "syncer_error_text (InvalidStatus s) = ''syncer: cloud returned invalid status '' @ quote s"
| "syncer_error_text (WrongBatch a b) = ''syncer: cloud returned batchId '' @ quote a @ '' for '' @ quote b"
| "syncer_error_text (PushFailed m) = m"
| "syncer_error_text (RepositoryFailed e) = ''store''"
| "syncer_error_text (Joined e e') = syncer_error_text e @ [CHR 0x0A] @ ''store''"

definition NewCoordinator :: "syncer_config \<Rightarrow> syncer_config" where
  "NewCoordinator config =
    (let c = (if sc_Interval config \<le> 0 then config\<lparr>sc_Interval := 5 * Second\<rparr> else config);
         c = (if sc_BatchSize c \<le> 0 \<or> sc_BatchSize c > maximumProtocolOperations then c\<lparr>sc_BatchSize := 100\<rparr> else c)
     in if sc_MaxBatchBytes c \<le> 0 \<or> sc_MaxBatchBytes c > maximumProtocolBytes
        then c\<lparr>sc_MaxBatchBytes := maximumProtocolBytes\<rparr> else c)"

definition validateOperationScope :: "syncer_config \<Rightarrow> operation \<Rightarrow> syncer_error option" where
  "validateOperationScope config o' = first_error
    [fails_if (sc_EdgeID config = [] \<or> sc_TenantID config = [] \<or> sc_OutletID config = []) IdentityNotConfigured,
     fails_if (\<not> IsUUIDv7 (op_OperationID o') \<or> env_ID (op_Mutation o') \<noteq> op_OperationID o')
       (MutationMismatch (op_OperationID o')),
     fails_if (env_TenantID (op_Mutation o') \<noteq> sc_TenantID config) (OutsideTenantScope (op_OperationID o')),
     fails_if (env_OutletID (op_Mutation o') \<noteq> sc_OutletID config) (OutsideOutletScope (op_OperationID o')),
     fails_if (\<not> IsUUIDv7 (op_AggregateID o')) (AggregateNotUUIDv7 (op_OperationID o'))]"

text \<open>The loop of \<open>fitBatch\<close>: the largest count, from the whole batch down to 1, that fits.\<close>

definition probe_request :: "string \<Rightarrow> string \<Rightarrow> operation list \<Rightarrow> push_request" where
  "probe_request edgeID outletID ops =
    \<lparr>pr_BatchID = ''00000000-0000-7000-8000-000000000000'', pr_EdgeID = edgeID,
     pr_OutletID = outletID, pr_Operations = ops\<rparr>"

fun fit_count :: "(nat \<Rightarrow> bool) \<Rightarrow> nat \<Rightarrow> nat option" where
  "fit_count fits 0 = None"
| "fit_count fits (Suc n) = (if fits (Suc n) then Some (Suc n) else fit_count fits n)"

definition fitBatch ::
  "(push_request \<Rightarrow> nat) \<Rightarrow> string \<Rightarrow> string \<Rightarrow> operation list \<Rightarrow> int \<Rightarrow> syncer_error + operation list" where
  "fitBatch encoded_length edgeID outletID ops maximum =
    (if ops = [] then Inr ops
     else case fit_count (\<lambda>n. int (encoded_length (probe_request edgeID outletID (take n ops))) \<le> maximum) (length ops) of
       Some n \<Rightarrow> Inr (take n ops)
     | None \<Rightarrow> Inl FirstOperationTooLarge)"

fun validate_results :: "string set \<Rightarrow> string set \<Rightarrow> push_result list \<Rightarrow> syncer_error option" where
  "validate_results requested seen [] = None"
| "validate_results requested seen (r # rs) =
    (if res_OperationID r \<notin> requested then Some (UnknownOperation (res_OperationID r))
     else if res_OperationID r \<in> seen then Some (RepeatedOperation (res_OperationID r))
     else if \<not> PushResultStatus_Valid (res_Status r) then Some (InvalidStatus (push_status_text (res_Status r)))
     else validate_results requested (insert (res_OperationID r) seen) rs)"

definition validateResults :: "string list \<Rightarrow> push_result list \<Rightarrow> syncer_error option" where
  "validateResults operationIDs results = validate_results (set operationIDs) {} results"

text \<open>The first operation out of scope, with the identifiers up to and including it.\<close>

fun scope_loop :: "syncer_config \<Rightarrow> string list \<Rightarrow> operation list \<Rightarrow> (string list \<times> syncer_error) option" where
  "scope_loop config seen [] = None"
| "scope_loop config seen (o' # os) =
    (case validateOperationScope config o' of
       Some err \<Rightarrow> Some (seen @ [op_OperationID o'], err)
     | None \<Rightarrow> scope_loop config (seen @ [op_OperationID o']) os)"

definition fail_batch ::
  "'s repository \<Rightarrow> string list \<Rightarrow> syncer_error \<Rightarrow> time \<Rightarrow> 's \<Rightarrow> syncer_error option \<times> 's" where
  "fail_batch repo ids err now s =
    (case rp_RecordSyncFailure repo s ids (syncer_error_text err) now of
       Inl recordErr \<Rightarrow> (Some (Joined err recordErr), s)
     | Inr s' \<Rightarrow> (Some err, s'))"

definition push_batch ::
  "'s repository \<Rightarrow> adapter \<Rightarrow> push_request \<Rightarrow> time \<Rightarrow> 's \<Rightarrow> syncer_error option \<times> 's" where
  "push_batch repo push request now s =
    (let ids = map op_OperationID (pr_Operations request) in
     case push request of
       Inl message \<Rightarrow> fail_batch repo ids (PushFailed message) now s
     | Inr response \<Rightarrow>
        if resp_BatchID response \<noteq> [] \<and> resp_BatchID response \<noteq> pr_BatchID request
        then fail_batch repo ids (WrongBatch (resp_BatchID response) (pr_BatchID request)) now s
        else case validateResults ids (resp_Results response) of
          Some err \<Rightarrow> fail_batch repo ids err now s
        | None \<Rightarrow> (case rp_RecordSyncResults repo s ids (resp_Results response) now of
            Inl e \<Rightarrow> (Some (RepositoryFailed e), s)
          | Inr s' \<Rightarrow> (None, s')))"

definition SyncOnce ::
  "'s repository \<Rightarrow> adapter option \<Rightarrow> (push_request \<Rightarrow> nat) \<Rightarrow> syncer_config \<Rightarrow> string \<Rightarrow> time \<Rightarrow>
   's \<Rightarrow> syncer_error option \<times> 's" where
  "SyncOnce repo adapter encoded_length config batchID now s =
    (case adapter of
       None \<Rightarrow> (None, s)
     | Some push \<Rightarrow>
        (case rp_PendingOperations repo s (sc_BatchSize config) now of
           Inl e \<Rightarrow> (Some (RepositoryFailed e), s)
         | Inr pending \<Rightarrow>
            (case fitBatch encoded_length (sc_EdgeID config) (sc_OutletID config) pending (sc_MaxBatchBytes config) of
               Inl err \<Rightarrow> (Some err, s)
             | Inr ops \<Rightarrow>
                if ops = [] then (None, s)
                else case scope_loop config [] ops of
                  Some (ids, err) \<Rightarrow> fail_batch repo ids err now s
                | None \<Rightarrow> push_batch repo push
                    \<lparr>pr_BatchID = batchID, pr_EdgeID = sc_EdgeID config, pr_OutletID = sc_OutletID config,
                     pr_Operations = ops\<rparr> now s)))"

subsection \<open>The HTTP adapter\<close>

record http_request =
  hq_Endpoint :: string
  hq_Headers :: "(string \<times> string) list"
  hq_Body :: string

record http_response =
  hp_StatusCode :: int
  hp_Body :: string

record http_adapter =
  ha_endpoint :: string
  ha_bearerToken :: string
  ha_tenantID :: string
  ha_actorID :: string
  ha_maxResponse :: int

definition NewHTTPAdapter :: "string \<Rightarrow> string \<Rightarrow> string \<Rightarrow> string \<Rightarrow> int \<Rightarrow> string + http_adapter" where
  "NewHTTPAdapter endpoint bearerToken tenantID actorID maxResponse =
    (if TrimSpace endpoint = [] then Inl ''syncer: cloud sync endpoint is required''
     else if TrimSpace tenantID = [] \<or> TrimSpace actorID = [] then Inl ''syncer: tenant and actor identity are required''
     else Inr \<lparr>ha_endpoint = endpoint, ha_bearerToken = bearerToken, ha_tenantID = tenantID, ha_actorID = actorID,
       ha_maxResponse = (if maxResponse \<le> 0 then 2 ^ 20 else maxResponse)\<rparr>)"

text \<open>\<open>encode\<close> and \<open>decode\<close> are the JSON codec, \<open>send\<close> the HTTP client.\<close>

definition Push ::
  "(push_request \<Rightarrow> string) \<Rightarrow> (string \<Rightarrow> string + push_response) \<Rightarrow> (http_request \<Rightarrow> string + http_response) \<Rightarrow>
   http_adapter \<Rightarrow> adapter" where
  "Push encode decode send a batch =
    (let body = encode batch in
     if int (length body) > maximumProtocolBytes then Inl ''syncer: batch exceeds protocol limit''
     else case send \<lparr>hq_Endpoint = ha_endpoint a, hq_Headers =
         [(''Content-Type'', ''application/json''), (''Accept'', ''application/json''),
          (''Idempotency-Key'', pr_BatchID batch), (''X-Edge-ID'', pr_EdgeID batch),
          (''X-FeastCloud-Tenant-ID'', ha_tenantID a), (''X-FeastCloud-Actor-ID'', ha_actorID a)] @
         (if ha_bearerToken a \<noteq> [] then [(''Authorization'', ''Bearer '' @ ha_bearerToken a)] else []),
         hq_Body = body\<rparr> of
       Inl e \<Rightarrow> Inl (''syncer: push operations: '' @ e)
     | Inr response \<Rightarrow>
        if int (length (hp_Body response)) > ha_maxResponse a then Inl ''syncer: cloud response exceeds configured limit''
        else if hp_StatusCode response < 200 \<or> hp_StatusCode response \<ge> 300 then Inl (''syncer: cloud returned HTTP '' @ decimal (nat (hp_StatusCode response)))
        else case decode (hp_Body response) of
          Inl e \<Rightarrow> Inl (''syncer: decode response: '' @ e)
        | Inr result \<Rightarrow> Inr result)"

subsection \<open>The contract of a repository\<close>

definition accepted_by :: "adapter option \<Rightarrow> string \<Rightarrow> bool" where
  "accepted_by adapter k \<longleftrightarrow> (\<exists>push request response r. adapter = Some push \<and> push request = Inr response
     \<and> k \<in> op_OperationID ` set (pr_Operations request) \<and> r \<in> set (resp_Results response)
     \<and> res_OperationID r = k \<and> (res_Status r = PushAccepted \<or> res_Status r = PushDuplicate))"

text \<open>
  What the coordinator may rely on: pending operations are heads of their streams and
  distinct, results settle only what they accept, failures settle nothing.
\<close>

locale sync_repository =
  fixes repo :: "'s repository"
    and inv :: "'s \<Rightarrow> bool"
    and settled :: "'s \<Rightarrow> string set"
    and heads :: "'s \<Rightarrow> string set"
  assumes pending: "inv s \<Longrightarrow> rp_PendingOperations repo s n t = Inr os \<Longrightarrow>
      op_OperationID ` set os \<subseteq> heads s \<and> distinct (map op_OperationID os) \<and> (0 \<le> n \<longrightarrow> length os \<le> nat n)"
    and results: "inv s \<Longrightarrow> rp_RecordSyncResults repo s ids rs t = Inr s' \<Longrightarrow> inv s' \<and> settled s \<subseteq> settled s'
      \<and> settled s' \<subseteq> settled s \<union> {k \<in> set ids. result_state (res_Status (result_for rs k)) = Synchronized}"
    and failure: "inv s \<Longrightarrow> rp_RecordSyncFailure repo s ids m t = Inr s' \<Longrightarrow> inv s' \<and> settled s' = settled s"
begin

lemma fail_batch_keeps: "inv s \<Longrightarrow> fail_batch repo ids err now s = (e, s') \<Longrightarrow> inv s' \<and> settled s' = settled s"
  by (auto simp: fail_batch_def dest: failure split: sum.splits)

lemma result_for_Synchronized:
  "result_state (res_Status (result_for rs k)) = Synchronized \<Longrightarrow>
   \<exists>r \<in> set rs. res_OperationID r = k \<and> (res_Status r = PushAccepted \<or> res_Status r = PushDuplicate)"
  by (auto simp: result_for_def result_state_def split: option.splits if_splits dest!: map_of_SomeD)

lemma push_batch_settles:
  assumes "inv s" "push_batch repo push request now s = (e, s')"
  shows "inv s' \<and> settled s \<subseteq> settled s'
    \<and> (\<forall>k \<in> settled s' - settled s. k \<in> op_OperationID ` set (pr_Operations request) \<and> accepted_by (Some push) k)"
proof (cases "\<exists>response. push request = Inr response \<and> \<not> (resp_BatchID response \<noteq> [] \<and> resp_BatchID response \<noteq> pr_BatchID request)
    \<and> validateResults (map op_OperationID (pr_Operations request)) (resp_Results response) = None
    \<and> rp_RecordSyncResults repo s (map op_OperationID (pr_Operations request)) (resp_Results response) now = Inr s'")
  case True
  then obtain response where r: "push request = Inr response"
    "rp_RecordSyncResults repo s (map op_OperationID (pr_Operations request)) (resp_Results response) now = Inr s'" by blast
  from results [OF assms(1) r(2)] show ?thesis
    using result_for_Synchronized [of "resp_Results response"] r(1) unfolding accepted_by_def by fastforce
next
  case False
  with assms fail_batch_keeps [OF assms(1)] show ?thesis
    unfolding push_batch_def Let_def by (auto split: sum.splits if_splits option.splits)
qed

lemma fitBatch_take: "fitBatch len e o' os m = Inr ops \<Longrightarrow> \<exists>n. ops = take n os"
  by (auto simp: fitBatch_def split: if_splits option.splits intro: exI [of _ 0])

text \<open>
  One synchronisation loses nothing and settles only heads of their streams that the cloud
  accepted.
\<close>

lemma SyncOnce_settles:
  assumes "inv s" "SyncOnce repo adapter len config batchID now s = (e, s')"
  shows "inv s' \<and> settled s \<subseteq> settled s' \<and> (\<forall>k \<in> settled s' - settled s. k \<in> heads s \<and> accepted_by adapter k)"
proof (cases adapter)
  case None
  with assms show ?thesis by (simp add: SyncOnce_def)
next
  case adapter: (Some push)
  show ?thesis
  proof (cases "rp_PendingOperations repo s (sc_BatchSize config) now")
    case (Inl e)
    with assms adapter show ?thesis by (simp add: SyncOnce_def)
  next
    case pend: (Inr pending)
    show ?thesis
    proof (cases "fitBatch len (sc_EdgeID config) (sc_OutletID config) pending (sc_MaxBatchBytes config)")
      case (Inl e)
      with assms adapter pend show ?thesis by (simp add: SyncOnce_def)
    next
      case fit: (Inr ops)
      from fitBatch_take [OF fit] have "set ops \<subseteq> set pending" by (metis set_take_subset)
      with sync_repository.pending [OF sync_repository_axioms assms(1) pend] have heads: "op_OperationID ` set ops \<subseteq> heads s" by blast
      consider "ops = []" | ids err where "ops \<noteq> []" "scope_loop config [] ops = Some (ids, err)"
        | "ops \<noteq> []" "scope_loop config [] ops = None"
        by (cases "scope_loop config [] ops") auto
      then show ?thesis
      proof cases
        case 1
        with assms adapter pend fit show ?thesis by (simp add: SyncOnce_def)
      next
        case 2
        with assms adapter pend fit fail_batch_keeps [OF assms(1)] show ?thesis by (simp add: SyncOnce_def)
      next
        case 3
        with assms(2) adapter pend fit have "push_batch repo push
          \<lparr>pr_BatchID = batchID, pr_EdgeID = sc_EdgeID config, pr_OutletID = sc_OutletID config,
           pr_Operations = ops\<rparr> now s = (e, s')" by (simp add: SyncOnce_def)
        from push_batch_settles [OF assms(1) this] heads adapter show ?thesis by auto
      qed
    qed
  qed
qed

end

subsection \<open>The edge store as the repository\<close>

definition edge_repository :: "db repository" where
  "edge_repository = \<lparr>rp_PendingOperations = PendingOperations,
     rp_RecordSyncResults = (\<lambda>db ids rs t. Inr (RecordSyncResults ids rs t db)),
     rp_RecordSyncFailure = (\<lambda>db ids m t. Inr (RecordSyncFailure ids m t db))\<rparr>"

lemma pending_length: "edge_ok db \<Longrightarrow> PendingOperations db n t = Inr os \<Longrightarrow> 0 \<le> n \<Longrightarrow> length os \<le> nat n"
  by (metis pending_rows list_all2_lengthD)

interpretation edge_sync: sync_repository edge_repository edge_ok synchronized_ids causal_heads
proof unfold_locales
  show "op_OperationID ` set os \<subseteq> causal_heads db \<and> distinct (map op_OperationID os) \<and> (0 \<le> n \<longrightarrow> length os \<le> nat n)"
    if "edge_ok db" "rp_PendingOperations edge_repository db n t = Inr os" for db n t os
    using that pending_ids pending_length by (simp add: edge_repository_def)
  show "edge_ok db' \<and> synchronized_ids db \<subseteq> synchronized_ids db' \<and> synchronized_ids db' \<subseteq>
      synchronized_ids db \<union> {k \<in> set ids. result_state (res_Status (result_for rs k)) = Synchronized}"
    if "edge_ok db" "rp_RecordSyncResults edge_repository db ids rs t = Inr db'" for db ids rs t db'
  proof -
    from that(2) have "db' = RecordSyncResults ids rs t db" by (simp add: edge_repository_def)
    with only_delivery_ok [OF delivery_steps(1) that(1)] show ?thesis by (auto simp: synchronized_results)
  qed
  show "edge_ok db' \<and> synchronized_ids db' = synchronized_ids db"
    if "edge_ok db" "rp_RecordSyncFailure edge_repository db ids m t = Inr db'" for db ids m t db'
  proof -
    from that(2) have "db' = RecordSyncFailure ids m t db" by (simp add: edge_repository_def)
    with only_delivery_ok [OF delivery_steps(2) that(1)] synchronized_failure [OF that(1)] show ?thesis by simp
  qed
qed

text \<open>
  The running edge: any command or pairing operation, or one synchronisation with any cloud.
\<close>

inductive edge_runs :: "db \<Rightarrow> db \<Rightarrow> bool" where
  run_create: "edge_runs db (snd (CreateOrder now newID route hash env input db))"
| run_order: "edge_runs db (snd (TransitionOrder now route hash k env input' db))"
| run_ticket: "edge_runs db (snd (TransitionTicket now route hash k env input'' db))"
| run_tickets: "edge_runs db (snd (TransitionOrderTickets now route hash k env to' expected db))"
| run_sync: "edge_runs db (snd (SyncOnce edge_repository adapter len config batchID now db))"
| run_pair: "edge_runs db (snd (CreatePairingCode now c role e db))"
| run_exchange: "edge_runs db (snd (ExchangePairingCode now c t e db))"
| run_revoke: "edge_runs db (snd (RevokeSession now t db))"

lemma fail_batch_operations:
  "db_operations (snd (fail_batch edge_repository ids err now db)) = db_operations db"
  by (simp add: fail_batch_def edge_repository_def RecordSyncFailure_def Let_def)

lemma SyncOnce_operations:
  "db_operations (snd (SyncOnce edge_repository adapter len config batchID now db)) = db_operations db"
proof -
  have "db_operations (RecordSyncResults ids rs now db) = db_operations db" for ids rs
    by (simp add: RecordSyncResults_def Let_def case_prod_beta)
  then have "db_operations (snd (push_batch edge_repository push request now db)) = db_operations db" for push request
    by (simp add: push_batch_def Let_def fail_batch_operations edge_repository_def split: sum.splits option.splits)
      (simp add: fail_batch_operations flip: edge_repository_def)
  then show ?thesis
    by (simp add: SyncOnce_def fail_batch_operations split: option.splits sum.splits)
qed

lemma SyncOnce_ok:
  assumes "edge_ok db" "delivered_in_order db"
  shows "edge_ok (snd (SyncOnce edge_repository adapter len config batchID now db))
    \<and> delivered_in_order (snd (SyncOnce edge_repository adapter len config batchID now db))"
proof -
  let ?r = "SyncOnce edge_repository adapter len config batchID now db"
  have "?r = (fst ?r, snd ?r)" by simp
  from edge_sync.SyncOnce_settles [OF assms(1) this]
  have s: "edge_ok (snd ?r)" "synchronized_ids db \<subseteq> synchronized_ids (snd ?r)"
    "synchronized_ids (snd ?r) \<subseteq> synchronized_ids db \<union> causal_heads db" by blast+
  from delivered_in_order_step [OF assms SyncOnce_operations s(2,3)] s(1) show ?thesis by blast
qed

lemma only_delivery_in_order:
  assumes "db_outbox db' = db_outbox db" "db_operations db' = db_operations db" "delivered_in_order db"
  shows "delivered_in_order db'"
proof -
  have "synchronized_ids db' = synchronized_ids db" unfolding synchronized_ids_def assms(1) ..
  with assms(3) show ?thesis unfolding delivered_in_order_def assms(2) by (simp only:)
qed

lemma pairing_outbox:
  "db_outbox (snd (CreatePairingCode now c role e db)) = db_outbox db"
  "db_outbox (snd (ExchangePairingCode now c t e db)) = db_outbox db"
  "db_outbox (snd (RevokeSession now t db)) = db_outbox db"
  "db_operations (snd (CreatePairingCode now c role e db)) = db_operations db"
  "db_operations (snd (ExchangePairingCode now c t e db)) = db_operations db"
  "db_operations (snd (RevokeSession now t db)) = db_operations db"
proof -
  show "db_outbox (snd (ExchangePairingCode now c t e db)) = db_outbox db"
    "db_operations (snd (ExchangePairingCode now c t e db)) = db_operations db"
    by (cases "exchange_body now c t e db";
        auto simp: ExchangePairingCode_def transact_def elim: exchange_Inr)+
qed (simp_all add: CreatePairingCode_def RevokeSession_def transact_def)

lemma edge_runs_ok:
  "edge_runs db db' \<Longrightarrow> edge_ok db \<Longrightarrow> delivered_in_order db \<Longrightarrow> edge_ok db' \<and> delivered_in_order db'"
proof (induction rule: edge_runs.induct)
  case (run_create db now newID route hash env input)
  with CreateOrder_step delivered_in_order_commits show ?case by blast
next
  case (run_order db now route hash k env input')
  with TransitionOrder_step delivered_in_order_commits show ?case by blast
next
  case (run_ticket db now route hash k env input'')
  with TransitionTicket_step delivered_in_order_commits show ?case by blast
next
  case (run_tickets db now route hash k env to' expected)
  with TransitionOrderTickets_step delivered_in_order_commits show ?case by blast
next
  case (run_sync db adapter len config batchID now)
  then show ?case by (rule SyncOnce_ok)
next
  case (run_pair db now c role e)
  with only_delivery_ok [OF delivery_steps(3)] only_delivery_in_order pairing_outbox show ?case by metis
next
  case (run_exchange db now c t e)
  with only_delivery_ok [OF delivery_steps(4)] only_delivery_in_order pairing_outbox show ?case by metis
next
  case (run_revoke db now t)
  with only_delivery_ok [OF delivery_steps(5)] only_delivery_in_order pairing_outbox show ?case by metis
qed

lemma edge_runs_all:
  assumes "edge_runs\<^sup>*\<^sup>* empty_db db"
  shows "edge_ok db \<and> delivered_in_order db"
  using assms
proof (induction rule: rtranclp_induct)
  case base
  have "delivered_in_order empty_db" by (simp add: delivered_in_order_def empty_db_def)
  with edge_ok_empty show ?case by blast
next
  case (step y z)
  with edge_runs_ok show ?case by blast
qed

subsection \<open>Batches\<close>

lemma fit_count_Some: "fit_count fits n = Some m \<longleftrightarrow> 1 \<le> m \<and> m \<le> n \<and> fits m \<and> (\<forall>k. m < k \<and> k \<le> n \<longrightarrow> \<not> fits k)"
proof (induction n)
  case (Suc n)
  show ?case
  proof (cases "fits (Suc n)")
    case True
    then show ?thesis by (auto simp: le_Suc_eq)
  next
    case False
    then have "(\<forall>k. m < k \<and> k \<le> Suc n \<longrightarrow> \<not> fits k) \<longleftrightarrow> (\<forall>k. m < k \<and> k \<le> n \<longrightarrow> \<not> fits k)"
      by (auto simp: le_Suc_eq)
    moreover have "m \<le> Suc n \<and> fits m \<longleftrightarrow> m \<le> n \<and> fits m" using False by (auto simp: le_Suc_eq)
    ultimately show ?thesis using False Suc.IH by (auto simp: le_Suc_eq)
  qed
qed auto

lemma fit_count_None: "fit_count fits n = None \<longleftrightarrow> (\<forall>k. 1 \<le> k \<and> k \<le> n \<longrightarrow> \<not> fits k)"
  by (induction n) (auto simp: le_Suc_eq)

lemma scope_loop_None: "scope_loop config seen os = None \<longleftrightarrow> (\<forall>o' \<in> set os. validateOperationScope config o' = None)"
  by (induction os arbitrary: seen) (auto split: option.splits)

lemma validate_results_None:
  "validate_results requested seen rs = None \<longleftrightarrow>
     distinct (map res_OperationID rs) \<and> (\<forall>r \<in> set rs. res_OperationID r \<in> requested \<and> res_OperationID r \<notin> seen
       \<and> PushResultStatus_Valid (res_Status r))"
  by (induction rs arbitrary: seen) (auto, metis image_eqI)

end
