(* ===== verification/Edge_Replay.thy ===== *)
theory Edge_Replay
  imports Edge_System
begin

text \<open>
  The four commands of the store as values, and what they have in common: a command is a replay,
  is refused without a trace, or commits and leaves its response in the idempotency table, where
  every later call with the same key finds it.
\<close>

datatype edge_command =
    Create "nat \<Rightarrow> string" new_order
  | MoveOrder string transition_order_payload
  | MoveTicket string transition_ticket_payload
  | MoveTickets string ticket_status nat

fun command_body ::
  "time \<Rightarrow> string \<Rightarrow> string \<Rightarrow> mutation_envelope \<Rightarrow> edge_command \<Rightarrow> db \<Rightarrow> store_error + stored_response \<times> db" where
  "command_body now route hash env (Create newID input) = create_order_body now newID route hash env input"
| "command_body now route hash env (MoveOrder k input) = transition_order_body now route hash k env input"
| "command_body now route hash env (MoveTicket k input) = transition_ticket_body now route hash k env input"
| "command_body now route hash env (MoveTickets k to' v) = transition_order_tickets_body now route hash k env to' v"

fun run_command ::
  "time \<Rightarrow> string \<Rightarrow> string \<Rightarrow> mutation_envelope \<Rightarrow> edge_command \<Rightarrow> db \<Rightarrow> (store_error + stored_response) \<times> db" where
  "run_command now route hash env (Create newID input) = CreateOrder now newID route hash env input"
| "run_command now route hash env (MoveOrder k input) = TransitionOrder now route hash k env input"
| "run_command now route hash env (MoveTicket k input) = TransitionTicket now route hash k env input"
| "run_command now route hash env (MoveTickets k to' v) = TransitionOrderTickets now route hash k env to' v"

lemma run_command_transaction:
  "run_command now route hash env c = transact (begin_command route hash env (command_body now route hash env c))"
  by (cases c) (simp_all add: CreateOrder_def TransitionOrder_def TransitionTicket_def TransitionOrderTickets_def)

lemma run_command_edge_step: "edge_step db (snd (run_command now route hash env c db))"
  by (cases c) (simp_all add: edge_step.intros)

text \<open>Each command is an atomic operation of the store that keeps its invariant.\<close>

interpretation edge_transaction: atomic_operation
  "begin_command route hash env (command_body now route hash env c)" edge_ok
  for route hash env now c
proof
  fix s a s'
  assume "edge_ok s" "begin_command route hash env (command_body now route hash env c) s = Inr (a, s')"
  moreover from this(2) have "snd (run_command now route hash env c s) = s'"
    by (simp add: run_command_transaction transact_def)
  ultimately show "edge_ok s'" using edge_step_ok [OF run_command_edge_step] by metis
qed

lemma run_command_ok: "edge_ok db \<Longrightarrow> edge_ok (snd (run_command now route hash env c db))"
  unfolding run_command_transaction by (rule edge_transaction.transact_inv)

lemma run_command_fails: "fst (run_command now route hash env c db) = Inl e \<Longrightarrow> snd (run_command now route hash env c db) = db"
  unfolding run_command_transaction by (rule edge_transaction.failure_rolls_back)

text \<open>The response of a body is fresh and is the one it saves.\<close>

definition saved :: "string \<Rightarrow> string \<Rightarrow> mutation_envelope \<Rightarrow> stored_response \<Rightarrow> time \<Rightarrow> db \<Rightarrow> db \<Rightarrow> bool" where
  "saved route hash env resp now db db' \<longleftrightarrow> \<not> sr_Replayed resp
     \<and> db_idempotency db' = db_idempotency db @ [idempotency_row_of route hash env resp now] \<and> same_rest db db'"

lemma effect_saved:
  "command_effect row ob (idempotency_row_of route hash env resp now) om tm db db' \<Longrightarrow>
   \<not> sr_Replayed resp \<Longrightarrow> saved route hash env resp now db db'"
  by (simp add: saved_def command_effect_def recorded_def)

lemma response_fresh [simp]: "\<not> sr_Replayed (responseFor status location op data)"
  by (simp add: responseFor_def)

lemma outcomes_saved:
  "create_order_outcome now route hash env input ts db resp db' \<Longrightarrow> saved route hash env resp now db db'"
  "transition_order_outcome now route hash k env input' ord db resp db' \<Longrightarrow> saved route hash env resp now db db'"
  "transition_ticket_outcome now route hash k env input'' t ord db resp db' \<Longrightarrow> saved route hash env resp now db db'"
  "transition_order_tickets_outcome now route hash k env to' ord db resp db' \<Longrightarrow> saved route hash env resp now db db'"
  unfolding create_order_outcome_def transition_order_outcome_def transition_ticket_outcome_def
    transition_order_tickets_outcome_def Let_def
  by (elim conjE, rule effect_saved, assumption, simp)+

lemma body_saved:
  assumes ok: "edge_ok db" and first: "lookupIdempotency db route hash env = Inr None" "ensureOperationUnused db (env_ID env) = Inr ()"
    and body: "command_body now route hash env c db = Inr (resp, db')"
  shows "saved route hash env resp now db db'"
proof (cases c)
  case (Create newID input)
  show ?thesis
    by (cases rule: create_order_body_cases [OF ok first refl, of now newID input])
      (use body Create outcomes_saved(1) in auto)
next
  case (MoveOrder k input)
  show ?thesis
    by (cases rule: transition_order_body_cases [OF ok first refl, of now k input])
      (use body MoveOrder outcomes_saved(2) in auto)
next
  case (MoveTicket k input)
  show ?thesis
    by (cases rule: transition_ticket_body_cases [OF ok first refl, of now k input])
      (use body MoveTicket outcomes_saved(3) in auto)
next
  case (MoveTickets k to' v)
  show ?thesis
    by (cases rule: transition_order_tickets_body_cases [OF ok first refl, of now k to' v])
      (use body MoveTickets outcomes_saved(4) in auto)
qed

lemma run_command_cases:
  assumes ok: "edge_ok db"
  obtains (refused) e where "run_command now route hash env c db = (Inl e, db)"
  | (replayed) resp where "run_command now route hash env c db = (Inr resp, db)"
      "lookupIdempotency db route hash env = Inr (Some resp)"
  | (committed) resp db' where "run_command now route hash env c db = (Inr resp, db')"
      "lookupIdempotency db route hash env = Inr None" "ensureOperationUnused db (env_ID env) = Inr ()"
      "command_body now route hash env c db = Inr (resp, db')" "saved route hash env resp now db db'"
proof (cases rule: lookup_cases [of db route hash env])
  case (reused e)
  with refused show ?thesis by (simp add: run_command_transaction transact_def begin_command_def)
next
  case (replay r)
  with replayed show ?thesis by (simp add: run_command_transaction transact_def begin_command_def)
next
  case first
  show ?thesis
  proof (cases rule: unused_cases [of db "env_ID env"])
    case (used e)
    with first refused show ?thesis by (simp add: run_command_transaction transact_def begin_command_def)
  next
    case unused
    show ?thesis
    proof (cases "command_body now route hash env c db")
      case (Inl e)
      with first unused refused show ?thesis by (simp add: run_command_transaction transact_def begin_command_def)
    next
      case (Inr r)
      then obtain resp db' where r: "command_body now route hash env c db = Inr (resp, db')" by (cases r) auto
      from committed [OF _ first unused this body_saved [OF ok first unused this]]
      show ?thesis by (simp add: run_command_transaction transact_def begin_command_def first unused r)
    qed
  qed
qed

subsection \<open>Finding a saved response\<close>

definition row_for :: "string \<Rightarrow> mutation_envelope \<Rightarrow> idempotency_row \<Rightarrow> bool" where
  "row_for route env r \<longleftrightarrow> ir_tenant_id r = env_TenantID env \<and> ir_actor_id r = env_ActorID env
     \<and> ir_route r = route \<and> ir_idempotency_key r = env_IdempotencyKey env"

definition same_key :: "mutation_envelope \<Rightarrow> mutation_envelope \<Rightarrow> bool" where
  "same_key a b \<longleftrightarrow> env_TenantID a = env_TenantID b \<and> env_ActorID a = env_ActorID b
     \<and> env_IdempotencyKey a = env_IdempotencyKey b"

definition read_response :: "idempotency_row \<Rightarrow> stored_response" where
  "read_response r = \<lparr>sr_StatusCode = ir_status_code r, sr_ContentType = ir_content_type r,
     sr_Location = (case ir_location r of None \<Rightarrow> [] | Some l \<Rightarrow> l), sr_Body = ir_response_body r, sr_Replayed = True\<rparr>"

lemma read_saved: "read_response (idempotency_row_of route hash env resp now) = resp\<lparr>sr_Replayed := True\<rparr>"
  by (cases resp) (simp add: read_response_def idempotency_row_of_def)

lemma row_for_saved: "row_for route env' (idempotency_row_of route hash env resp now) \<longleftrightarrow> same_key env env'"
  by (auto simp: row_for_def idempotency_row_of_def same_key_def)

lemma lookup_row:
  assumes "idempotency_ok db" "r \<in> set (db_idempotency db)" "row_for route env r"
  shows "lookupIdempotency db route hash env =
    (if ir_request_hash r = hash then Inr (Some (read_response r))
     else Inl (conflict ''idempotency_key_reused'' ''idempotency key was already used with a different command''
                 ''idempotencyKey'' (env_IdempotencyKey env)))"
proof -
  have unique: "q = r" if "q \<in> set (db_idempotency db)" "row_for route env q" for q
  proof (rule ccontr)
    assume "q \<noteq> r"
    with assms that have "\<not> same_idempotency_key q r \<or> \<not> same_idempotency_key r q"
      unfolding idempotency_ok_def sorted_wrt_iff_nth_less in_set_conv_nth by (metis linorder_neqE_nat)
    with assms(3) that(2) show False by (auto simp: row_for_def same_idempotency_key_def)
  qed
  have "List.find (row_for route env) (db_idempotency db) = Some r"
  proof (cases "List.find (row_for route env) (db_idempotency db)")
    case None
    with assms show ?thesis by (auto simp: find_None_iff)
  next
    case (Some q)
    then have "q \<in> set (db_idempotency db)" "row_for route env q" by (auto simp: find_Some_iff)
    with Some unique show ?thesis by simp
  qed
  then show ?thesis
    by (simp add: lookupIdempotency_def read_response_def row_for_def [abs_def])
qed

lemma find_row:
  assumes "lookupIdempotency db route hash env = Inr (Some resp)"
  obtains r where "r \<in> set (db_idempotency db)" "row_for route env r" "ir_request_hash r = hash" "resp = read_response r"
proof -
  from assms obtain r where r: "List.find (row_for route env) (db_idempotency db) = Some r"
      "ir_request_hash r = hash" "resp = read_response r"
    by (auto simp: lookupIdempotency_def row_for_def [abs_def] read_response_def split: option.splits if_splits)
  then have "r \<in> set (db_idempotency db)" "row_for route env r" by (auto simp: find_Some_iff)
  with r that show ?thesis by blast
qed

lemma row_for_same_key: "row_for route env r \<Longrightarrow> same_key env env' \<Longrightarrow> row_for route env' r"
  by (simp add: row_for_def same_key_def)

text \<open>After a success, the table holds a row that answers every command with the same key.\<close>

lemma success_row:
  assumes ok: "edge_ok db" and run: "run_command now route hash env c db = (Inr resp, db')"
  obtains r where "r \<in> set (db_idempotency db')" "row_for route env r" "ir_request_hash r = hash"
    "read_response r = resp\<lparr>sr_Replayed := True\<rparr>"
proof (cases rule: run_command_cases [OF ok, of now route hash env c])
  case (2 resp')
  then obtain r where "r \<in> set (db_idempotency db)" "row_for route env r" "ir_request_hash r = hash" "resp' = read_response r"
    using find_row by blast
  moreover from this have "read_response r = resp'\<lparr>sr_Replayed := True\<rparr>" by (simp add: read_response_def)
  ultimately show ?thesis using that 2 run by simp
next
  case (3 resp' db'')
  let ?r = "idempotency_row_of route hash env resp now"
  from 3 run have "?r \<in> set (db_idempotency db')" by (simp add: saved_def)
  with that [of ?r] show ?thesis by (simp add: row_for_saved read_saved same_key_def) (simp add: idempotency_row_of_def)
qed (use run in simp)

lemma later_lookup:
  assumes ok: "edge_ok db" and run: "run_command now route hash env c db = (Inr resp, db')"
    and later: "edge_step\<^sup>*\<^sup>* db' db''" and key: "same_key env env'"
  shows "lookupIdempotency db'' route hash' env' =
    (if hash' = hash then Inr (Some (resp\<lparr>sr_Replayed := True\<rparr>))
     else Inl (conflict ''idempotency_key_reused'' ''idempotency key was already used with a different command''
                 ''idempotencyKey'' (env_IdempotencyKey env')))"
proof -
  from success_row [OF ok run] obtain r where r: "r \<in> set (db_idempotency db')" "row_for route env r"
    "ir_request_hash r = hash" "read_response r = resp\<lparr>sr_Replayed := True\<rparr>" .
  have ok': "edge_ok db'" using run_command_ok [OF ok] run by (metis snd_conv)
  have "r \<in> set (db_idempotency db'')"
    using idempotency_grows [OF later ok'] r(1) set_mono_prefix by blast
  moreover have "idempotency_ok db''"
    using edge_steps_ok [OF later ok'] by (simp add: edge_ok_def base_def tables_ok_def)
  ultimately show ?thesis using lookup_row [OF _ _ row_for_same_key [OF r(2) key]] r by auto
qed

end
