(* ===== verification/Go_Numbers.thy ===== *)
theory Go_Numbers
  imports Go_Time
begin

text \<open>The part of package \<open>strconv\<close> both HTTP services use.\<close>

text \<open>\<open>strconv.Atoi\<close>\<close>

definition Atoi :: "string \<Rightarrow> int option" where
  "Atoi s =
    (let negative = (s \<noteq> [] \<and> hd s = CHR ''-'');
         digits = (if s \<noteq> [] \<and> (hd s = CHR ''-'' \<or> hd s = CHR ''+'') then tl s else s)
     in if digits = [] then None
        else case read_digits 0 digits of
          None \<Rightarrow> None
        | Some n \<Rightarrow> (let v = (if negative then - int n else int n) in if in_int64 v then Some v else None))"

end
