(* ===== verification/Edge_Api.thy ===== *)
theory Edge_Api
  imports Edge_Syncer Edge_Replay Go_Numbers
begin

text \<open>
  The outlet-local HTTP API: \<open>services/edge/internal/api/server.go\<close>. A handler is a function
  from a request and the database to a response and the database. A request carries what the
  handlers read of it: method, decoded path, headers, query values and body. The codecs of the
  standard library (JSON decoding into the request types, canonical JSON, media types, SHA-256)
  are the fields of a record, so every statement holds for any of them; clock, randomness and
  fresh identifiers are fields of the environment.
\<close>

subsection \<open>Requests and responses\<close>

record api_config =
  ac_Version :: string
  ac_EdgeID :: string
  ac_TenantID :: string
  ac_OutletID :: string
  ac_BearerToken :: string
  ac_AllowedOrigin :: string
  ac_SyncEnabled :: bool
  ac_MaxBodyBytes :: int
  ac_PairingTTL :: duration
  ac_SessionTTL :: duration

text \<open>A header or query value that is missing reads as the empty string; a body that cannot be read is \<open>None\<close>.\<close>

record api_request =
  rq_Method :: string
  rq_Path :: string
  rq_Header :: "string \<Rightarrow> string"
  rq_Query :: "string \<Rightarrow> string"
  rq_Body :: "string option"

record problem =
  pb_Status :: nat
  pb_Code :: string
  pb_Detail :: string
  pb_Retryable :: bool
  pb_Fields :: "(string \<times> string) list"

datatype api_body =
    ProblemDocument problem
  | HealthBody string
  | ReadyBody
  | DiscoveryBody api_config string
  | PairingCodeBody string string time
  | SessionBody string string time
  | CommandBody response_envelope
  | OrdersBody "order list"
  | OrderBody order
  | TicketsBody "kitchen_ticket list"
  | TicketBody kitchen_ticket
  | SyncStatusBody bool string sync_stats
  | NoBody

record api_response =
  rs_Status :: nat
  rs_Header :: "(string \<times> string) list"
  rs_Body :: api_body

record codec =
  cd_is_object :: "string \<Rightarrow> bool"
  cd_media_type :: "string \<Rightarrow> string option"
  cd_sha256 :: "string \<Rightarrow> 8 word list"
  cd_canonical :: "string \<Rightarrow> string + string"
  cd_envelope :: "string \<Rightarrow> string + mutation_envelope"
  cd_create_order :: "string \<Rightarrow> string + create_order_payload"
  cd_transition_order :: "string \<Rightarrow> string + transition_order_payload"
  cd_transition_ticket :: "string \<Rightarrow> string + transition_ticket_payload"
  cd_browser_mutation :: "string \<Rightarrow> string + browser_mutation_payload"
  cd_pairing_code :: "string \<Rightarrow> string + string"
  cd_pairing_session :: "string \<Rightarrow> string + string"

record api_env =
  ae_Config :: api_config
  ae_Codec :: codec
  ae_Now :: time
  ae_NewID :: "nat \<Rightarrow> string"
  ae_Random :: "nat \<Rightarrow> 8 word list option"

definition defaultMaximumBodyBytes :: int where "defaultMaximumBodyBytes = 2 ^ 20"
definition defaultPairingTTL :: duration where "defaultPairingTTL = 10 * Minute"
definition defaultSessionTTL :: duration where "defaultSessionTTL = 72 * 60 * Minute"

definition NewServer :: "api_config \<Rightarrow> api_config" where
  "NewServer config =
    (let c = (if ac_Version config = [] then config\<lparr>ac_Version := ''dev''\<rparr> else config);
         c = (if ac_MaxBodyBytes c \<le> 0 then c\<lparr>ac_MaxBodyBytes := defaultMaximumBodyBytes\<rparr> else c);
         c = (if ac_PairingTTL c \<le> 0 then c\<lparr>ac_PairingTTL := defaultPairingTTL\<rparr> else c)
     in if ac_SessionTTL c \<le> 0 then c\<lparr>ac_SessionTTL := defaultSessionTTL\<rparr> else c)"

definition problem :: "nat \<Rightarrow> string \<Rightarrow> string \<Rightarrow> problem" where
  "problem status code detail =
    \<lparr>pb_Status = status, pb_Code = code, pb_Detail = detail, pb_Retryable = False, pb_Fields = []\<rparr>"

definition writeProblem :: "problem \<Rightarrow> api_response" where
  "writeProblem failure =
    (let failure = (if pb_Status failure = 0 then failure\<lparr>pb_Status := 500\<rparr> else failure) in
     \<lparr>rs_Status = pb_Status failure, rs_Header = [(''Content-Type'', ''application/problem+json'')],
      rs_Body = ProblemDocument failure\<rparr>)"

definition fail_with :: "nat \<Rightarrow> string \<Rightarrow> string \<Rightarrow> api_response" where
  "fail_with status code detail = writeProblem (problem status code detail)"

definition writeJSON :: "nat \<Rightarrow> api_body \<Rightarrow> api_response" where
  "writeJSON status body =
    \<lparr>rs_Status = status, rs_Header = [(''Content-Type'', ''application/json'')], rs_Body = body\<rparr>"

definition hashSecret :: "codec \<Rightarrow> string \<Rightarrow> string" where
  "hashSecret codec secret = hex_encode (cd_sha256 codec secret)"

definition randomDigits :: "8 word list \<Rightarrow> string" where
  "randomDigits raw = map (\<lambda>b. char_of (48 + unat b mod 10)) raw"

text \<open>\<open>http.MaxBytesReader\<close> and the two ways reading can fail.\<close>

datatype body_error = TooLarge | Unreadable

definition read_body :: "api_config \<Rightarrow> api_request \<Rightarrow> body_error + string" where
  "read_body config request =
    (case rq_Body request of
       None \<Rightarrow> Inl Unreadable
     | Some body \<Rightarrow> if int (length body) > ac_MaxBodyBytes config then Inl TooLarge else Inr body)"

definition decodeJSONBody :: "(string \<Rightarrow> string + 'a) \<Rightarrow> api_config \<Rightarrow> api_request \<Rightarrow> string + 'a" where
  "decodeJSONBody decode config request =
    (case read_body config request of
       Inl TooLarge \<Rightarrow> Inl ''http: request body too large''
     | Inl Unreadable \<Rightarrow> Inl ''unexpected EOF''
     | Inr body \<Rightarrow> decode body)"

subsection \<open>Error texts of the validators\<close>

fun field_text :: "field \<Rightarrow> string" where
  "field_text (Field name) = name"
| "field_text (LineField index name) = ''order.lines['' @ decimal index @ ''].'' @ name"

fun model_error_text :: "model_error \<Rightarrow> string" where
  "model_error_text (MustBeUUIDv7 f) = field_text f @ '' must be a UUIDv7''"
| "model_error_text (MustContainBetween f minimum maximum) =
     field_text f @ '' must contain between '' @ decimal minimum @ '' and '' @ decimal maximum @ '' characters''"
| "model_error_text MustBeTimestamp = ''occurredAt must be an RFC 3339 timestamp''"
| "model_error_text SourceIDTooLong = ''sourceId must not exceed 256 characters''"
| "model_error_text WrongSchemaVersion = ''schemaVersion must be '' @ quote CurrentSchemaVersion"
| "model_error_text (MustBeUUID f) = field_text f @ '' must be a UUID''"
| "model_error_text PayloadMustBeObject = ''payload must be an object''"
| "model_error_text BrandOrExternalRefTooLong = ''brandId or externalRef exceeds its maximum length''"
| "model_error_text OrderTextTooLong = ''order guestName, tableLabel, or note exceeds its maximum length''"
| "model_error_text UnsupportedOrderType = ''order.type is not supported''"
| "model_error_text WrongLineCount = ''order.lines must contain between 1 and 500 items''"
| "model_error_text (DuplicatedLineID index) = ''order.lines['' @ decimal index @ ''].id is duplicated''"
| "model_error_text (WrongQuantity index) = ''order.lines['' @ decimal index @ ''].quantity must be between 1 and 10000''"
| "model_error_text (LineTextTooLong index) = ''order.lines['' @ decimal index @ ''] exceeds a field length limit''"
| "model_error_text TooManyStationTickets = ''stationTicketIds contains more entries than the routed stations''"
| "model_error_text (UnknownStation s) = ''stationTicketIds contains unknown station '' @ quote s"
| "model_error_text (StationTicketMustBeUUIDv7 s) = ''stationTicketIds['' @ quote s @ ''] must be a UUIDv7''"
| "model_error_text (DuplicatedStationTicket s) = ''stationTicketIds['' @ quote s @ ''] is duplicated''"
| "model_error_text WrongPriority = ''order.priority must be between -100 and 100''"
| "model_error_text WrongOrderStatus = ''toStatus is not a valid order status''"
| "model_error_text WrongTicketStatus = ''toStatus is not a valid ticket status''"
| "model_error_text ZeroExpectedVersion = ''expectedVersion must be greater than zero''"

subsection \<open>Reading a command\<close>

definition canonicalHash :: "codec \<Rightarrow> string \<Rightarrow> string + string" where
  "canonicalHash codec body =
    rbind (cd_canonical codec body) (\<lambda>canonical. Inr (hex_encode (cd_sha256 codec canonical)))"

definition readMutation :: "api_env \<Rightarrow> api_request \<Rightarrow> api_response + mutation_envelope \<times> string" where
  "readMutation env request =
    (let config = ae_Config env; codec = ae_Codec env; headerKey = TrimSpace (rq_Header request ''Idempotency-Key'') in
     if cd_media_type codec (rq_Header request ''Content-Type'') \<notin> {Some ''application/json'', Some ''application/cloudevents+json''}
     then Inl (fail_with 415 ''unsupported_media_type'' ''Content-Type must be application/json'')
     else if headerKey = [] then Inl (fail_with 400 ''idempotency_key_required'' ''Idempotency-Key is required'')
     else case read_body config request of
       Inl TooLarge \<Rightarrow> Inl (fail_with 413 ''request_too_large'' ''request body exceeds the configured limit'')
     | Inl Unreadable \<Rightarrow> Inl (fail_with 400 ''invalid_request'' ''request body could not be read'')
     | Inr body \<Rightarrow>
       (case cd_envelope codec body of
          Inl err \<Rightarrow> Inl (fail_with 400 ''invalid_json'' err)
        | Inr envelope \<Rightarrow>
          (case MutationEnvelope_Validate (cd_is_object codec) envelope of
             Some err \<Rightarrow> Inl (fail_with 422 ''invalid_mutation'' (model_error_text err))
           | None \<Rightarrow>
             if headerKey \<noteq> env_IdempotencyKey envelope
             then Inl (fail_with 422 ''idempotency_key_mismatch'' ''Idempotency-Key must match mutation.idempotencyKey'')
             else if ac_TenantID config \<noteq> [] \<and> env_TenantID envelope \<noteq> ac_TenantID config
             then Inl (fail_with 403 ''tenant_scope_denied'' ''mutation tenantId is outside this edge scope'')
             else if ac_OutletID config \<noteq> [] \<and> env_OutletID envelope \<noteq> ac_OutletID config
             then Inl (fail_with 403 ''outlet_scope_denied'' ''mutation outletId is outside this edge scope'')
             else if rq_Header request ''X-Correlation-ID'' \<noteq> [] \<and> env_CorrelationID envelope \<noteq> []
                \<and> rq_Header request ''X-Correlation-ID'' \<noteq> env_CorrelationID envelope
             then Inl (fail_with 422 ''correlation_id_mismatch'' ''X-Correlation-ID must match mutation.correlationId'')
             else case canonicalHash codec body of
               Inl err \<Rightarrow> Inl (fail_with 400 ''invalid_json'' err)
             | Inr hash \<Rightarrow> Inr (envelope, hash))))"

definition invalidPayload :: "string \<Rightarrow> api_response" where
  "invalidPayload detail = fail_with 422 ''invalid_payload'' detail"

definition writeStoreError :: "store_error \<Rightarrow> api_response" where
  "writeStoreError err =
    (case err of
       CommandError code message details \<Rightarrow> writeProblem
         \<lparr>pb_Status = (if code = ''not_found'' then 404 else 409), pb_Code = code, pb_Detail = message,
          pb_Retryable = False, pb_Fields = details\<rparr>
     | _ \<Rightarrow> writeProblem \<lparr>pb_Status = 500, pb_Code = ''storage_error'',
          pb_Detail = ''the local operation could not be committed'', pb_Retryable = True, pb_Fields = []\<rparr>)"

definition writeCommandResult :: "store_error + stored_response \<Rightarrow> api_response" where
  "writeCommandResult result =
    (case result of
       Inl err \<Rightarrow> writeStoreError err
     | Inr response \<Rightarrow>
        \<lparr>rs_Status = sr_StatusCode response,
         rs_Header = [(''Content-Type'', sr_ContentType response)]
           @ (if sr_Location response \<noteq> [] then [(''Location'', sr_Location response)] else [])
           @ (if sr_Replayed response then [(''Idempotency-Replayed'', ''true'')] else []),
         rs_Body = CommandBody (sr_Body response)\<rparr>)"

definition command_response :: "(store_error + stored_response) \<times> db \<Rightarrow> api_response \<times> db" where
  "command_response r = (writeCommandResult (fst r), snd r)"

subsection \<open>Command handlers\<close>

text \<open>A payload that does not decode or validate is answered with 422; otherwise the store runs the command.\<close>

definition with_payload ::
  "(string \<Rightarrow> string + 'a) \<Rightarrow> ('a \<Rightarrow> model_error option) \<Rightarrow> mutation_envelope \<Rightarrow>
   ('a \<Rightarrow> db \<Rightarrow> api_response \<times> db) \<Rightarrow> db \<Rightarrow> api_response \<times> db" where
  "with_payload decode validate envelope run db =
    (case decode (env_Payload envelope) of
       Inl err \<Rightarrow> (invalidPayload err, db)
     | Inr payload \<Rightarrow>
        (case validate payload of
           Some err \<Rightarrow> (invalidPayload (model_error_text err), db)
         | None \<Rightarrow> run payload db))"

definition handleCreateOrder :: "api_env \<Rightarrow> api_request \<Rightarrow> db \<Rightarrow> api_response \<times> db" where
  "handleCreateOrder env request db =
    (case readMutation env request of
       Inl response \<Rightarrow> (response, db)
     | Inr (envelope, hash) \<Rightarrow>
        with_payload (cd_create_order (ae_Codec env)) (\<lambda>p. NewOrder_Validate (cop_Order p)) envelope
          (\<lambda>p db. command_response
             (CreateOrder (ae_Now env) (ae_NewID env) ''POST /api/v1/orders'' hash envelope (cop_Order p) db)) db)"

definition handleTransitionOrder :: "api_env \<Rightarrow> string \<Rightarrow> api_request \<Rightarrow> db \<Rightarrow> api_response \<times> db" where
  "handleTransitionOrder env id' request db =
    (case readMutation env request of
       Inl response \<Rightarrow> (response, db)
     | Inr (envelope, hash) \<Rightarrow>
        with_payload (cd_transition_order (ae_Codec env)) TransitionOrderPayload_Validate envelope
          (\<lambda>p db. command_response
             (TransitionOrder (ae_Now env) ''POST /api/v1/orders/{id}/transitions'' hash id' envelope p db)) db)"

text \<open>\<open>ExpectedOrderID\<close> is tagged \<open>json:"-"\<close>: decoding leaves it empty.\<close>

definition handleTransitionTicket :: "api_env \<Rightarrow> string \<Rightarrow> api_request \<Rightarrow> db \<Rightarrow> api_response \<times> db" where
  "handleTransitionTicket env id' request db =
    (case readMutation env request of
       Inl response \<Rightarrow> (response, db)
     | Inr (envelope, hash) \<Rightarrow>
        with_payload (\<lambda>raw. rbind (cd_transition_ticket (ae_Codec env) raw) (\<lambda>p. Inr (p\<lparr>ttp_ExpectedOrderID := []\<rparr>)))
          TransitionTicketPayload_Validate envelope
          (\<lambda>p db. command_response
             (TransitionTicket (ae_Now env) ''POST /api/v1/kitchen-tickets/{id}/transitions'' hash id' envelope p db)) db)"

definition mutations_route :: string where
  "mutations_route = ''POST /api/v1/sync/mutations''"

definition browser_created ::
  "api_env \<Rightarrow> mutation_envelope \<Rightarrow> string \<Rightarrow> browser_mutation_payload \<Rightarrow> db \<Rightarrow> api_response \<times> db" where
  "browser_created env envelope hash payload db =
    (case bmp_Order payload of
       None \<Rightarrow> (invalidPayload ''created event requires aggregateType order and matching aggregateId/order.id'', db)
     | Some ord \<Rightarrow>
        if bmp_AggregateType payload \<noteq> ''order'' \<or> bmp_AggregateID payload = [] \<or> bmp_AggregateID payload \<noteq> no_ID ord
        then (invalidPayload ''created event requires aggregateType order and matching aggregateId/order.id'', db)
        else case NewOrder_Validate ord of
          Some err \<Rightarrow> (invalidPayload (model_error_text err), db)
        | None \<Rightarrow> command_response (CreateOrder (ae_Now env) (ae_NewID env) mutations_route hash envelope ord db))"

definition browser_order_status ::
  "api_env \<Rightarrow> mutation_envelope \<Rightarrow> string \<Rightarrow> browser_mutation_payload \<Rightarrow> db \<Rightarrow> api_response \<times> db" where
  "browser_order_status env envelope hash payload db =
    (let orderID = (if bmp_OrderID payload = [] then bmp_AggregateID payload else bmp_OrderID payload) in
     if bmp_AggregateType payload \<noteq> ''order'' \<or> \<not> IsUUIDv7 orderID \<or> bmp_AggregateID payload \<noteq> orderID
        \<or> \<not> TicketStatus_Valid (bmp_ToStatus payload) \<or> bmp_ExpectedVersion payload = 0
     then (invalidPayload ''status event requires aggregateType order, matching UUIDv7 aggregateId/orderId, a valid toStatus, and expectedVersion'', db)
     else command_response (TransitionOrderTickets (ae_Now env) mutations_route hash orderID envelope
            (bmp_ToStatus payload) (bmp_ExpectedVersion payload) db))"

definition browser_ticket_status ::
  "api_env \<Rightarrow> mutation_envelope \<Rightarrow> string \<Rightarrow> browser_mutation_payload \<Rightarrow> db \<Rightarrow> api_response \<times> db" where
  "browser_ticket_status env envelope hash payload db =
    (let ticketID = (if bmp_TicketID payload = [] then bmp_AggregateID payload else bmp_TicketID payload) in
     if bmp_AggregateType payload \<noteq> ''kitchenTicket'' \<or> \<not> IsUUIDv7 ticketID \<or> bmp_AggregateID payload \<noteq> ticketID
        \<or> \<not> IsUUIDv7 (bmp_OrderID payload) \<or> \<not> TicketStatus_Valid (bmp_ToStatus payload) \<or> bmp_ExpectedVersion payload = 0
     then (invalidPayload ''ticket status event requires aggregateType kitchenTicket, matching UUIDv7 aggregateId/ticketId, UUIDv7 orderId, a valid toStatus, and expectedVersion'', db)
     else command_response (TransitionTicket (ae_Now env) mutations_route hash ticketID envelope
            \<lparr>ttp_ToStatus = bmp_ToStatus payload, ttp_ExpectedVersion = bmp_ExpectedVersion payload,
             ttp_ExpectedOrderID = bmp_OrderID payload\<rparr> db))"

definition handleBrowserMutation :: "api_env \<Rightarrow> api_request \<Rightarrow> db \<Rightarrow> api_response \<times> db" where
  "handleBrowserMutation env request db =
    (case readMutation env request of
       Inl response \<Rightarrow> (response, db)
     | Inr (envelope, hash) \<Rightarrow>
        (case cd_browser_mutation (ae_Codec env) (env_Payload envelope) of
           Inl err \<Rightarrow> (invalidPayload err, db)
         | Inr payload \<Rightarrow>
            if bmp_EventType payload = ''com.feastcloud.order.created.v1''
            then browser_created env envelope hash payload db
            else if bmp_EventType payload = ''com.feastcloud.order.status-changed.v1''
            then browser_order_status env envelope hash payload db
            else if bmp_EventType payload = ''com.feastcloud.kitchen-ticket.status-changed.v1''
            then browser_ticket_status env envelope hash payload db
            else (invalidPayload (''eventType '' @ quote (bmp_EventType payload) @ '' is not supported''), db)))"

subsection \<open>Pairing handlers\<close>

definition handleCreatePairingCode :: "api_env \<Rightarrow> api_request \<Rightarrow> db \<Rightarrow> api_response \<times> db" where
  "handleCreatePairingCode env request db =
    (case decodeJSONBody (cd_pairing_code (ae_Codec env)) (ae_Config env) request of
       Inl err \<Rightarrow> (fail_with 400 ''invalid_pairing_request'' err, db)
     | Inr role \<Rightarrow>
        if role \<noteq> ''manager'' \<and> role \<noteq> ''cashier'' \<and> role \<noteq> ''chef''
        then (fail_with 422 ''invalid_role'' ''role must be manager, cashier, or chef'', db)
        else case ae_Random env 8 of
          None \<Rightarrow> (fail_with 500 ''randomness_unavailable'' ''a secure pairing code could not be generated'', db)
        | Some raw \<Rightarrow>
           (let code = randomDigits raw; expiresAt = ae_Now env + ac_PairingTTL (ae_Config env) in
            case CreatePairingCode (ae_Now env) (hashSecret (ae_Codec env) code) role expiresAt db of
              (Inl _, db) \<Rightarrow> (fail_with 500 ''pairing_persistence_failed'' ''the pairing code could not be saved'', db)
            | (Inr _, db) \<Rightarrow> (writeJSON 201 (PairingCodeBody code role expiresAt), db)))"

definition handleExchangePairingCode :: "api_env \<Rightarrow> api_request \<Rightarrow> db \<Rightarrow> api_response \<times> db" where
  "handleExchangePairingCode env request db =
    (case decodeJSONBody (cd_pairing_session (ae_Codec env)) (ae_Config env) request of
       Inl err \<Rightarrow> (fail_with 400 ''invalid_pairing_request'' err, db)
     | Inr input \<Rightarrow>
        (let code = TrimSpace input in
         if length code \<noteq> 8
         then (fail_with 401 ''invalid_pairing_code'' ''the pairing code is invalid or expired'', db)
         else case ae_Random env 32 of
           None \<Rightarrow> (fail_with 500 ''randomness_unavailable'' ''a secure local session could not be generated'', db)
         | Some raw \<Rightarrow>
            (let token = hex_encode raw; expiresAt = ae_Now env + ac_SessionTTL (ae_Config env) in
             case ExchangePairingCode (ae_Now env) (hashSecret (ae_Codec env) code) (hashSecret (ae_Codec env) token) expiresAt db of
               (Inl _, db) \<Rightarrow> (fail_with 401 ''invalid_pairing_code'' ''the pairing code is invalid or expired'', db)
             | (Inr role, db) \<Rightarrow> (writeJSON 201 (SessionBody token role expiresAt), db))))"

definition handleRevokeSession :: "api_env \<Rightarrow> api_request \<Rightarrow> db \<Rightarrow> api_response \<times> db" where
  "handleRevokeSession env request db =
    (let presented = TrimSpace (TrimPrefix (rq_Header request ''Authorization'') ''Bearer '') in
     if presented = ac_BearerToken (ae_Config env)
     then (fail_with 422 ''bootstrap_token_not_revocable'' ''the bootstrap token must be rotated in edge configuration'', db)
     else case RevokeSession (ae_Now env) (hashSecret (ae_Codec env) presented) db of
       (Inl _, db) \<Rightarrow> (fail_with 401 ''invalid_session'' ''the local session is no longer active'', db)
     | (Inr _, db) \<Rightarrow> (\<lparr>rs_Status = 204, rs_Header = [], rs_Body = NoBody\<rparr>, db))"

subsection \<open>Query handlers\<close>

definition parseLimit :: "api_request \<Rightarrow> api_response + int" where
  "parseLimit request =
    (let v = rq_Query request ''limit'' in
     if v = [] then Inr 100
     else case Atoi v of
       None \<Rightarrow> Inl (fail_with 422 ''invalid_filter'' ''limit must be between 1 and 500'')
     | Some limit \<Rightarrow> if limit < 1 \<or> limit > 500
        then Inl (fail_with 422 ''invalid_filter'' ''limit must be between 1 and 500'') else Inr limit)"

definition handleListOrders :: "api_env \<Rightarrow> api_request \<Rightarrow> db \<Rightarrow> api_response" where
  "handleListOrders env request db =
    (case parseLimit request of
       Inl response \<Rightarrow> response
     | Inr limit \<Rightarrow>
        (let status = order_status_of (rq_Query request ''status'') in
         if rq_Query request ''status'' \<noteq> [] \<and> \<not> OrderStatus_Valid status
         then fail_with 422 ''invalid_filter'' ''status is not a valid order status''
         else writeJSON 200 (OrdersBody (ListOrders db (ac_TenantID (ae_Config env)) (ac_OutletID (ae_Config env)) status limit))))"

definition handleGetOrder :: "api_env \<Rightarrow> string \<Rightarrow> db \<Rightarrow> api_response" where
  "handleGetOrder env id' db =
    (case getOrder db (ac_TenantID (ae_Config env)) (ac_OutletID (ae_Config env)) id' of
       Inl err \<Rightarrow> writeStoreError err
     | Inr ord \<Rightarrow> writeJSON 200 (OrderBody ord))"

definition listTickets :: "api_env \<Rightarrow> api_request \<Rightarrow> string \<Rightarrow> db \<Rightarrow> api_response" where
  "listTickets env request stationID db =
    (case parseLimit request of
       Inl response \<Rightarrow> response
     | Inr limit \<Rightarrow>
        (let status = ticket_status_of (rq_Query request ''status'') in
         if rq_Query request ''status'' \<noteq> [] \<and> \<not> TicketStatus_Valid status
         then fail_with 422 ''invalid_filter'' ''status is not a valid ticket status''
         else writeJSON 200 (TicketsBody
           (ListTickets db (ac_TenantID (ae_Config env)) (ac_OutletID (ae_Config env)) stationID status limit))))"

definition handleGetTicket :: "api_env \<Rightarrow> string \<Rightarrow> db \<Rightarrow> api_response" where
  "handleGetTicket env id' db =
    (case getTicket db (ac_TenantID (ae_Config env)) (ac_OutletID (ae_Config env)) id' of
       Inl err \<Rightarrow> writeStoreError err
     | Inr t \<Rightarrow> writeJSON 200 (TicketBody t))"

definition sync_state :: "bool \<Rightarrow> sync_stats \<Rightarrow> string" where
  "sync_state enabled stats =
    (if \<not> enabled then ''disabled''
     else if ss_LastError stats \<noteq> [] then ''degraded''
     else if ss_Reconciliation stats > 0 then ''attentionRequired''
     else if ss_Pending stats > 0 then ''pending''
     else ''synchronized'')"

definition handleSyncStatus :: "api_env \<Rightarrow> db \<Rightarrow> api_response" where
  "handleSyncStatus env db =
    (case SyncStats db of
       Inl err \<Rightarrow> writeStoreError err
     | Inr stats \<Rightarrow> (let enabled = ac_SyncEnabled (ae_Config env) in
         writeJSON 200 (SyncStatusBody enabled (sync_state enabled stats) stats)))"

subsection \<open>Routing and access\<close>

datatype edge_route =
    Health | Readiness | Discovery | PairingCodes | PairingSessions | RevokePairing
  | Orders_List | Orders_Create | Order_Get string | Order_Transition string
  | Tickets_List | Ticket_Get string | Ticket_Transition string | Station_Tickets string
  | Sync_Mutations | Sync_Status

fun split_path :: "string \<Rightarrow> string list" where
  "split_path [] = [[]]"
| "split_path (c # cs) =
    (if c = CHR ''/'' then [] # split_path cs
     else case split_path cs of [] \<Rightarrow> [[c]] | s # ss \<Rightarrow> (c # s) # ss)"

text \<open>
  The patterns of \<open>routes\<close>: a \<open>GET\<close> pattern also serves \<open>HEAD\<close>, a wildcard takes
  one non-empty segment. What no pattern matches is answered by the multiplexer itself.
\<close>

definition reads :: "string \<Rightarrow> bool" where
  "reads verb \<longleftrightarrow> verb = ''GET'' \<or> verb = ''HEAD''"

definition match_route :: "string \<Rightarrow> string \<Rightarrow> edge_route option" where
  "match_route verb path =
    (let get = (\<lambda>r. if reads verb then Some r else None); post = (\<lambda>r. if verb = ''POST'' then Some r else None);
         segs = split_path path in
     if segs = [[], ''healthz''] then get Health
     else if segs = [[], ''readyz''] then get Readiness
     else case segs of
       r # a # v # rest \<Rightarrow>
        if r \<noteq> [] \<or> a \<noteq> ''api'' \<or> v \<noteq> ''v1'' then None
        else (case rest of
          [] \<Rightarrow> get Discovery
        | [x] \<Rightarrow> if x = ''orders'' then (if verb = ''POST'' then Some Orders_Create else get Orders_List)
                 else if x = ''kitchen-tickets'' then get Tickets_List else None
        | [x, y] \<Rightarrow>
            if x = ''pairing'' \<and> y = ''codes'' then post PairingCodes
            else if x = ''pairing'' \<and> y = ''sessions'' then post PairingSessions
            else if x = ''sync'' \<and> y = ''mutations'' then post Sync_Mutations
            else if x = ''sync'' \<and> y = ''status'' then get Sync_Status
            else if x = ''orders'' \<and> y \<noteq> [] then get (Order_Get y)
            else if x = ''kitchen-tickets'' \<and> y \<noteq> [] then get (Ticket_Get y)
            else None
        | [x, y, z] \<Rightarrow>
            if x = ''pairing'' \<and> y = ''sessions'' \<and> z = ''revoke'' then post RevokePairing
            else if x = ''orders'' \<and> y \<noteq> [] \<and> z = ''transitions'' then post (Order_Transition y)
            else if x = ''kitchen-tickets'' \<and> y \<noteq> [] \<and> z = ''transitions'' then post (Ticket_Transition y)
            else if x = ''stations'' \<and> y \<noteq> [] \<and> z = ''tickets'' then get (Station_Tickets y)
            else None
        | _ \<Rightarrow> None)
     | _ \<Rightarrow> None)"

fun handle_route :: "api_env \<Rightarrow> string \<Rightarrow> api_request \<Rightarrow> edge_route \<Rightarrow> db \<Rightarrow> api_response \<times> db" where
  "handle_route env role request Health db = (writeJSON 200 (HealthBody (ac_Version (ae_Config env))), db)"
| "handle_route env role request Readiness db = (writeJSON 200 ReadyBody, db)"
| "handle_route env role request Discovery db =
     (let role = (if role = [] \<and> ac_BearerToken (ae_Config env) = [] then ''manager'' else role) in
      (writeJSON 200 (DiscoveryBody (ae_Config env) role), db))"
| "handle_route env role request PairingCodes db = handleCreatePairingCode env request db"
| "handle_route env role request PairingSessions db = handleExchangePairingCode env request db"
| "handle_route env role request RevokePairing db = handleRevokeSession env request db"
| "handle_route env role request Orders_List db = (handleListOrders env request db, db)"
| "handle_route env role request Orders_Create db = handleCreateOrder env request db"
| "handle_route env role request (Order_Get k) db = (handleGetOrder env k db, db)"
| "handle_route env role request (Order_Transition k) db = handleTransitionOrder env k request db"
| "handle_route env role request Tickets_List db = (listTickets env request (rq_Query request ''stationId'') db, db)"
| "handle_route env role request (Ticket_Get k) db = (handleGetTicket env k db, db)"
| "handle_route env role request (Ticket_Transition k) db = handleTransitionTicket env k request db"
| "handle_route env role request (Station_Tickets s) db = (listTickets env request s db, db)"
| "handle_route env role request Sync_Mutations db = handleBrowserMutation env request db"
| "handle_route env role request Sync_Status db = (handleSyncStatus env db, db)"

text \<open>The multiplexer: 405 where the path has a pattern for another method, 404 otherwise.\<close>

definition mux_serve :: "api_env \<Rightarrow> string \<Rightarrow> api_request \<Rightarrow> db \<Rightarrow> api_response \<times> db" where
  "mux_serve env role request db =
    (case match_route (rq_Method request) (rq_Path request) of
       Some route \<Rightarrow> handle_route env role request route db
     | None \<Rightarrow> (\<lparr>rs_Status = (if match_route ''GET'' (rq_Path request) = None \<and> match_route ''POST'' (rq_Path request) = None
                             then 404 else 405), rs_Header = [], rs_Body = NoBody\<rparr>, db))"

definition authorized :: "api_env \<Rightarrow> api_request \<Rightarrow> db \<Rightarrow> string option" where
  "authorized env request db =
    (let authorization = rq_Header request ''Authorization'' in
     if \<not> HasPrefix authorization ''Bearer '' then None
     else let presented = TrimSpace (TrimPrefix authorization ''Bearer '') in
       if presented = ac_BearerToken (ae_Config env) then Some ''manager''
       else case AuthenticateSession (ae_Now env) (hashSecret (ae_Codec env) presented) db of
         Inl _ \<Rightarrow> None
       | Inr role \<Rightarrow> Some role)"

definition roleAllows :: "string \<Rightarrow> string \<Rightarrow> string \<Rightarrow> bool" where
  "roleAllows role verb path =
    (if path = ''/api/v1/pairing/sessions/revoke'' \<and> verb = ''POST'' then True
     else if role = ''manager'' then True
     else if role = ''cashier'' then path = ''/api/v1'' \<or> HasPrefix path ''/api/v1/orders''
       \<or> path = ''/api/v1/sync/mutations'' \<or> path = ''/api/v1/sync/status''
     else if role = ''chef'' then path = ''/api/v1'' \<or> HasPrefix path ''/api/v1/kitchen-tickets''
       \<or> HasPrefix path ''/api/v1/stations/'' \<or> path = ''/api/v1/sync/mutations'' \<or> path = ''/api/v1/sync/status''
     else False)"

text \<open>A finished response, or the headers to add to a later one.\<close>

definition applyCORS :: "api_config \<Rightarrow> api_request \<Rightarrow> api_response + (string \<times> string) list" where
  "applyCORS config request =
    (let origin = rq_Header request ''Origin'' in
     if origin = [] then Inr []
     else if ac_AllowedOrigin config = [] \<or> origin \<noteq> ac_AllowedOrigin config
     then Inl (fail_with 403 ''cors_origin_denied'' ''browser origin is not allowed by this edge'')
     else let headers = [(''Access-Control-Allow-Origin'', origin), (''Vary'', ''Origin''),
         (''Access-Control-Expose-Headers'', ''Location, Idempotency-Replayed, X-Correlation-ID'')] in
       if rq_Method request \<noteq> ''OPTIONS'' then Inr headers
       else if rq_Header request ''Access-Control-Request-Method'' \<noteq> ''GET''
          \<and> rq_Header request ''Access-Control-Request-Method'' \<noteq> ''POST''
       then Inl (let r = fail_with 405 ''cors_method_denied'' ''requested browser method is not allowed''
                 in r\<lparr>rs_Header := headers @ rs_Header r\<rparr>)
       else Inl \<lparr>rs_Status = 204, rs_Header = headers @
         [(''Access-Control-Allow-Methods'', ''GET, POST, OPTIONS''),
          (''Access-Control-Allow-Headers'', ''Authorization, Content-Type, Idempotency-Key, X-Correlation-ID''),
          (''Access-Control-Max-Age'', ''600'')], rs_Body = NoBody\<rparr>)"

text \<open>
  \<open>ServeHTTP\<close> without its logging and its recovery from panics, and without the constant
  security headers and the correlation identifier it sets on every response.
\<close>

definition ServeHTTP :: "api_env \<Rightarrow> api_request \<Rightarrow> db \<Rightarrow> api_response \<times> db" where
  "ServeHTTP env request db =
    (case applyCORS (ae_Config env) request of
       Inl response \<Rightarrow> (response, db)
     | Inr headers \<Rightarrow>
        (let (response, db') =
          (if HasPrefix (rq_Path request) ''/api/v1'' \<and> ac_BearerToken (ae_Config env) \<noteq> []
           then if rq_Path request = ''/api/v1/pairing/sessions'' \<and> rq_Method request = ''POST''
             then mux_serve env [] request db
             else case authorized env request db of
               None \<Rightarrow> (let r = fail_with 401 ''authentication_required'' ''a valid outlet-local session is required''
                        in r\<lparr>rs_Header := (''WWW-Authenticate'', ''Bearer realm=\"feastcloud-edge\"'') # rs_Header r\<rparr>, db)
             | Some role \<Rightarrow>
                if \<not> roleAllows role (rq_Method request) (rq_Path request)
                then (fail_with 403 ''permission_denied'' ''this outlet role cannot perform the requested action'', db)
                else mux_serve env role request db
           else mux_serve env [] request db)
         in (response\<lparr>rs_Header := headers @ rs_Header response\<rparr>, db')))"

end
