(* ===== verification/Edge_Sample.thy ===== *)
theory Edge_Sample
  imports Edge_Syncer
begin

text \<open>
  A sample run of the edge, for the concrete instances of the properties: an order of three
  lines at two stations is created, accepted, one of its tickets moves, its first operation is
  delivered; another branch of the run cancels it.
\<close>

definition sample_id :: "string \<Rightarrow> string" where
  "sample_id ending = ''01890000-0000-7000-8000-0000000000'' @ ending"

definition sample_time :: time where
  "sample_time = unix_epoch + 1700000000 * Second"

definition sample_envelope :: "string \<Rightarrow> mutation_envelope" where
  "sample_envelope ending =
    \<lparr>env_ID = sample_id ending, env_TenantID = ''tenant-a'', env_OutletID = ''outlet-a'',
     env_DeviceID = ''till-1'', env_ActorID = ''asha'', env_OccurredAt = sample_time,
     env_Source = ''edge'', env_SourceID = [], env_SchemaVersion = ''1.0'',
     env_IdempotencyKey = sample_id ending, env_CausationID = [], env_CorrelationID = [],
     env_Payload = ''{}''\<rparr>"

definition sample_line :: "string \<Rightarrow> string \<Rightarrow> order_line" where
  "sample_line ending station = \<lparr>ol_ID = sample_id ending, ol_MenuItemID = ''item-1'', ol_Name = ''Idli'',
     ol_Quantity = 2, ol_StationID = station, ol_PreparationNote = []\<rparr>"

definition sample_order :: new_order where
  "sample_order =
    \<lparr>no_ID = sample_id ''a0'', no_BrandID = ''brand'', no_ExternalRef = ''web-7'', no_GuestName = ''Ravi'',
     no_TableLabel = ''T4'', no_Note = [], no_Type = DineIn,
     no_Lines = [sample_line ''b0'' ''grill'', sample_line ''b1'' ''bar'', sample_line ''b2'' ''grill''],
     no_Priority = 5, no_StationTicketIDs = [(''bar'', sample_id ''c9'')], no_TargetAt = None, no_PlacedAt = 0\<rparr>"

definition sample_new_id :: "nat \<Rightarrow> string" where
  "sample_new_id n = sample_id (if n = 0 then ''c0'' else ''c1'')"

definition create_route :: string where "create_route = ''POST /api/v1/orders''"
definition order_route :: string where "order_route = ''POST /api/v1/orders/{id}/transitions''"

definition sample_create :: "db \<Rightarrow> (store_error + stored_response) \<times> db" where
  "sample_create = CreateOrder sample_time sample_new_id create_route ''hash-1'' (sample_envelope ''e1'') sample_order"

definition sample_move :: "order_status \<Rightarrow> db \<Rightarrow> (store_error + stored_response) \<times> db" where
  "sample_move status = TransitionOrder sample_time order_route ''hash-2'' (sample_id ''a0'') (sample_envelope ''e2'')
     \<lparr>top_ToStatus = status, top_ExpectedVersion = 1\<rparr>"

definition sample_cook :: "db \<Rightarrow> (store_error + stored_response) \<times> db" where
  "sample_cook = TransitionTicket sample_time ''POST /tickets'' ''hash-3'' (sample_id ''c0'') (sample_envelope ''e3'')
     \<lparr>ttp_ToStatus = TicketFired, ttp_ExpectedVersion = 1, ttp_ExpectedOrderID = []\<rparr>"

definition created_db :: db where "created_db = snd (sample_create empty_db)"
definition cancelled_db :: db where "cancelled_db = snd (sample_move OrderCancelled created_db)"
definition cooked_db :: db where "cooked_db = snd (sample_cook created_db)"

lemma sample_id_eq [simp]: "sample_id a = sample_id b \<longleftrightarrow> a = b"
  by (simp add: sample_id_def)

lemma sample_id_not_Nil [simp]: "sample_id a \<noteq> []"
  by (simp add: sample_id_def)

lemma sample_id_less [simp]: "sample_id a \<le> sample_id b \<longleftrightarrow> a \<le> b"
  by (simp add: sample_id_def)

lemmas evaluate_insert = insertOrder_def insertOrderTransition_def insertTicketTransition_def insertTicket_def
  appendOperation_def saveIdempotency_def order_row_of_def ticket_row_of_def operation_row_of_def
  outbox_row_of_def idempotency_row_of_def order_rows_clash_def ticket_rows_clash_def next_sequence_def

lemmas evaluate_command = begin_command_def transact_def lookupIdempotency_def
  ensureOperationUnused_def Let_def finish_command_def responseFor_def evaluate_insert

lemmas evaluate_create = CreateOrder_def create_order_body_def next_order_number_def station_routes_def
  add_line_def new_ticket_def new_order_projection_def IsZero_def empty_db_def evaluate_command

lemmas sample_inputs = sample_envelope_def sample_order_def sample_line_def sample_new_id_def
  create_route_def order_route_def

text \<open>The order and the tickets of the sample as the store has them after the creation.\<close>

definition stored_order :: order where
  "stored_order = new_order_projection (sample_envelope ''e1'') sample_order 1 sample_time"

definition stored_ticket :: "string \<Rightarrow> string \<Rightarrow> string list \<Rightarrow> kitchen_ticket" where
  "stored_ticket ending station endings = new_ticket (sample_envelope ''e1'') sample_order sample_time (sample_id ending)
     station (map sample_id endings)"

definition stored_tickets :: "kitchen_ticket list" where
  "stored_tickets = [stored_ticket ''c0'' ''grill'' [''b0'', ''b2''], stored_ticket ''c9'' ''bar'' [''b1'']]"

lemma sample_created:
  "db_orders created_db = [order_row_of stored_order]"
  "db_tickets created_db = map ticket_row_of stored_tickets"
  "db_idempotency created_db = [idempotency_row_of create_route ''hash-1'' (sample_envelope ''e1'')
     (responseFor 201 (''/api/v1/orders/'' @ PathEscape (sample_id ''a0'')) (sample_id ''e1'')
       (CreateOrderResult stored_order stored_tickets)) sample_time]"
  "db_operations created_db = [operation_row_of (sample_envelope ''e1'') ''order'' (sample_id ''a0'') ''order''
     (sample_id ''a0'') 1 ''order.create'' sample_time 1]"
  "db_outbox created_db = [outbox_row_of (sample_envelope ''e1'') sample_time]"
  by (simp_all add: created_db_def sample_create_def evaluate_create sample_inputs stored_order_def stored_tickets_def
     stored_ticket_def)

lemma sample_create_result: "fst (sample_create empty_db) = Inr (responseFor 201
   (''/api/v1/orders/'' @ PathEscape (sample_id ''a0'')) (sample_id ''e1'') (CreateOrderResult stored_order stored_tickets))"
  by (simp add: sample_create_def evaluate_create sample_inputs stored_order_def stored_tickets_def stored_ticket_def)

lemma sample_get: "getOrder created_db ''tenant-a'' ''outlet-a'' (sample_id ''a0'') = Inr stored_order"
  by (simp add: getOrder_def sample_created order_row_of_def)
     (simp add: stored_order_def new_order_projection_def sample_inputs)

lemma sample_list: "listTicketsForOrder created_db ''tenant-a'' ''outlet-a'' (sample_id ''a0'') = stored_tickets"
  by (simp add: listTicketsForOrder_def sample_created ticket_row_of_def stored_tickets_def stored_ticket_def
      new_ticket_def sample_inputs less_char_def)

lemma sample_stored:
  "o_ID stored_order = sample_id ''a0''" "o_Status stored_order = OrderReceived" "o_Version stored_order = 1"
  "o_TenantID stored_order = ''tenant-a''" "o_OutletID stored_order = ''outlet-a''"
  by (simp_all add: stored_order_def sample_inputs)

text \<open>The order is cancelled, with its tickets.\<close>

lemmas evaluate_move = TransitionOrder_def transition_order_body_def evaluate_command updateOrder_def updateTicket_def
  requireOne_def ticketStatusForOrder_def CanTransitionOrder_def CanTransitionTicket_def

lemma sample_env [simp]:
  "env_TenantID (sample_envelope e) = ''tenant-a''" "env_OutletID (sample_envelope e) = ''outlet-a''"
  "env_ID (sample_envelope e) = sample_id e" "env_ActorID (sample_envelope e) = ''asha''"
  "env_IdempotencyKey (sample_envelope e) = sample_id e"
  by (simp_all add: sample_envelope_def)

lemma sample_order_fields [simp]:
  "no_ID sample_order = sample_id ''a0''" "no_Priority sample_order = 5" "no_TargetAt sample_order = None"
  by (simp_all add: sample_order_def)

lemmas sample_moves = sample_move_def evaluate_move sample_get sample_list sample_stored sample_created
  stored_tickets_def stored_ticket_def new_ticket_def move_ticket_def

lemma sample_cancel:
  "fst (sample_move OrderCancelled created_db) = Inr (responseFor 200 [] (sample_id ''e2'') (TransitionOrderResult
     (move_order OrderCancelled sample_time stored_order)
     (map (move_ticket TicketCancelled sample_time) stored_tickets)))"
  "db_orders cancelled_db = [order_row_of (move_order OrderCancelled sample_time stored_order)]"
  by (simp_all add: cancelled_db_def sample_moves move_order_def)

lemma sample_get_cancelled:
  "getOrder cancelled_db ''tenant-a'' ''outlet-a'' (sample_id ''a0'') = Inr (move_order OrderCancelled sample_time stored_order)"
  using sample_stored
  by (simp add: getOrder_def sample_cancel order_row_of_def move_order_def)

text \<open>A ticket is fired, and its order follows.\<close>

lemma sample_fire:
  "fst (sample_cook created_db) = Inr (responseFor 200 [] (sample_id ''e3'') (TransitionTicketResult
     (move_ticket TicketFired sample_time (hd stored_tickets)) (move_order OrderAccepted sample_time stored_order)))"
  by (simp add: sample_cook_def TransitionTicket_def transition_ticket_body_def getTicket_def sample_moves move_order_def
      advance_order_def listTicketsForOrder_def less_char_def deriveOrderStatus_def derive_step_def shouldAdvanceOrder_def)

end
