(* ===== verification/Edge_Properties.thy ===== *)
theory Edge_Properties
  imports Edge_Sample Edge_Replay
begin

text \<open>
  What the outlet edge promises: the properties of the order and ticket commands, of the
  idempotency records, of the outbox and of the local sessions, each with an instance on the
  sample run of \<open>Edge_Sample\<close>.
\<close>

subsection \<open>Orders and tickets as a client reads them\<close>

lemma reachable_base: "edge_reachable db \<Longrightarrow> base db"
  using reachable_ok by (simp add: edge_ok_def)

lemma reachable_get:
  assumes "edge_reachable db" "getOrder db tenant outlet k = Inr ord"
  shows "orders_map db k = Some ord" "o_TenantID ord = tenant" "o_OutletID ord = outlet"
    "set (listTicketsForOrder db tenant outlet k) = {t \<in> ran (tickets_map db). kt_OrderID t = k}"
    "kt_Status ` set (listTicketsForOrder db tenant outlet k) = ticket_statuses db k"
proof -
  note b = reachable_base [OF assms(1)]
  note get = getOrder_Inr [OF baseD(2) [OF b] assms(2)]
  then show "orders_map db k = Some ord" "o_TenantID ord = tenant" "o_OutletID ord = outlet" by blast+
  show "set (listTicketsForOrder db tenant outlet k) = {t \<in> ran (tickets_map db). kt_OrderID t = k}"
    using listed_tickets [OF b get] by blast
  then show "kt_Status ` set (listTicketsForOrder db tenant outlet k) = ticket_statuses db k"
    by (simp add: ticket_statuses_def)
qed

lemma reachable_created: "edge_reachable created_db"
  unfolding created_db_def sample_create_def using reachable_step [OF reachable_empty step_create] .

lemma reachable_cancelled: "edge_reachable cancelled_db"
  unfolding cancelled_db_def sample_move_def using reachable_step [OF reachable_created step_order] .

lemma step_cancelled: "edge_step created_db cancelled_db"
  unfolding cancelled_db_def sample_move_def by (rule step_order)

lemma one_step: "edge_step db db' \<Longrightarrow> edge_step\<^sup>*\<^sup>* db db'"
  by (rule r_into_rtranclp)

lemma step_cooked: "edge_step created_db cooked_db"
  unfolding cooked_db_def sample_cook_def by (rule step_ticket)

text \<open>
  C2: In every database the edge can reach, an order and its kitchen tickets agree: all statuses are
  known ones, a completed or cancelled order has only completed or cancelled tickets, and an order
  that is not cancelled is never behind the status that \<open>deriveOrderStatus\<close> computes from its tickets.
\<close>

theorem reachable_order_tickets_agree:
  assumes "edge_reachable db" "getOrder db tenant outlet k = Inr ord"
    and "tickets = listTicketsForOrder db tenant outlet k"
  shows "OrderStatus_Valid (o_Status ord) \<and> (\<forall>t \<in> set tickets. TicketStatus_Valid (kt_Status t))
    \<and> (o_Status ord \<in> {OrderCompleted, OrderCancelled} \<longrightarrow>
         (\<forall>t \<in> set tickets. kt_Status t \<in> {TicketCompleted, TicketCancelled}))
    \<and> (o_Status ord \<noteq> OrderCancelled \<longrightarrow> \<not> shouldAdvanceOrder (o_Status ord) (deriveOrderStatus tickets))"
proof -
  note get = reachable_get [OF assms(1,2)]
  have "coupled (o_Status ord) (kt_Status ` set tickets)"
    using coupled_of [OF reachable_ok [OF assms(1)] get(1)] get(5) assms(3) by simp
  then show ?thesis
    by (auto simp: coupled_def derive_status_set order_final_def ticket_final_def)
qed

lemma reachable_order_tickets_agree_witness:
  "deriveOrderStatus (listTicketsForOrder created_db ''tenant-a'' ''outlet-a'' (sample_id ''a0'')) = OrderReceived
   \<and> \<not> shouldAdvanceOrder (o_Status stored_order) (deriveOrderStatus stored_tickets)"
  using reachable_order_tickets_agree [OF reachable_created sample_get refl]
  by (simp add: sample_list sample_stored) (simp add: stored_tickets_def stored_ticket_def new_ticket_def
      deriveOrderStatus_def derive_step_def Let_def)

text \<open>
  C3: A completed or cancelled order never changes again: whatever the edge does afterwards, reading
  the order returns exactly the same order.
\<close>

theorem final_order_never_changes:
  assumes "edge_reachable db" "getOrder db tenant outlet k = Inr ord"
    and "o_Status ord = OrderCompleted \<or> o_Status ord = OrderCancelled"
    and "edge_step\<^sup>*\<^sup>* db db'"
  shows "getOrder db' tenant outlet k = Inr ord"
proof -
  note get = reachable_get [OF assms(1,2)]
  have "orders_map db' k = Some ord"
    using final_order_stays [OF assms(4) reachable_ok [OF assms(1)] get(1)] assms(3) by (simp add: order_final_def)
  moreover have "orders_ok db'"
    using edge_steps_ok [OF assms(4) reachable_ok [OF assms(1)]] by (simp add: edge_ok_def base_def tables_ok_def)
  ultimately show ?thesis using get by (simp add: getOrder_map)
qed

lemma final_order_never_changes_witness:
  "getOrder (snd (sample_cook cancelled_db)) ''tenant-a'' ''outlet-a'' (sample_id ''a0'')
     = Inr (move_order OrderCancelled sample_time stored_order)"
proof (rule final_order_never_changes [OF reachable_cancelled sample_get_cancelled])
  show "edge_step\<^sup>*\<^sup>* cancelled_db (snd (sample_cook cancelled_db))"
    unfolding sample_cook_def by (rule r_into_rtranclp) (rule step_ticket)
qed (simp add: move_order_def)

text \<open>
  No order is ever lost or moved back: after any further steps it is still there with the same
  identity (scope, external reference, number, creation time), a version that did not fall and a status
  that is not earlier in the life cycle.
\<close>

theorem orders_survive_and_progress:
  assumes "edge_reachable db" "getOrder db tenant outlet k = Inr ord" "edge_step\<^sup>*\<^sup>* db db'"
  shows "\<exists>ord'. getOrder db' tenant outlet k = Inr ord' \<and> o_ExternalRef ord' = o_ExternalRef ord
    \<and> o_Number ord' = o_Number ord \<and> o_CreatedAt ord' = o_CreatedAt ord \<and> o_Version ord \<le> o_Version ord'
    \<and> order_height (o_Status ord) \<le> order_height (o_Status ord')"
proof -
  note get = reachable_get [OF assms(1,2)]
  from order_never_lost [OF assms(3) reachable_ok [OF assms(1)] get(1)] obtain ord' where
    "orders_map db' k = Some ord'" "order_identity ord' = order_identity ord" "o_Version ord \<le> o_Version ord'"
    "order_height (o_Status ord) \<le> order_height (o_Status ord')" by blast
  moreover have "orders_ok db'"
    using edge_steps_ok [OF assms(3) reachable_ok [OF assms(1)]] by (simp add: edge_ok_def base_def tables_ok_def)
  ultimately show ?thesis using get by (simp add: getOrder_map order_identity_def)
qed

lemma orders_survive_and_progress_witness:
  "\<exists>ord'. getOrder cancelled_db ''tenant-a'' ''outlet-a'' (sample_id ''a0'') = Inr ord' \<and> 1 \<le> o_Version ord'"
  using orders_survive_and_progress [OF reachable_created sample_get one_step [OF step_cancelled]]
  by (auto simp: sample_stored)

text \<open>
  The transition log of a stored order is its life: it starts with the creation in status received,
  each entry continues from the status of the one before by a legal move, it ends in the order's
  current status, the version counts its entries (at most six), and no status is entered twice.
\<close>

theorem order_log_tells_its_life:
  assumes "edge_reachable db" "getOrder db tenant outlet k = Inr ord"
    and "log = log_of (db_order_transitions db) k"
  shows "legal_log order_moves OrderReceived log (o_Status ord) (o_Version ord)
    \<and> o_Version ord = length log \<and> o_Version ord \<le> 6 \<and> distinct (map (\<lambda>(from, to', v). to') log)"
proof -
  have "legal_log order_moves OrderReceived log (o_Status ord) (o_Version ord)"
    using baseD(7) [OF reachable_base [OF assms(1)]] reachable_get(1) [OF assms(1,2)] assms(3)
    unfolding order_logs_ok_def logs_ok_def by (metis option.simps(5))
  then show ?thesis
    using order_log.log_version order_log.log_bounded order_log.log_no_return by fastforce
qed

lemma order_log_tells_its_life_witness:
  "o_Version (move_order OrderCancelled sample_time stored_order) \<le> 6"
  using order_log_tells_its_life [OF reachable_cancelled sample_get_cancelled refl] by blast

text \<open>
  C4: Commands are idempotent. Once a command succeeded, any later command of the same tenant, actor
  and route with the same idempotency key gives back the stored response, marked as a replay, when its
  request hash is the same, and is refused as a reused key when the hash differs; either way the
  database stays as it is. This holds after any number of further steps and for all four commands.
\<close>

theorem commands_replay:
  assumes "edge_reachable db" "run_command now route hash env c db = (Inr resp, db1)"
    and "edge_step\<^sup>*\<^sup>* db1 db2" "same_key env env'"
  shows "run_command now' route hash' env' c' db2 =
    (if hash' = hash then Inr (resp\<lparr>sr_Replayed := True\<rparr>)
     else Inl (conflict ''idempotency_key_reused'' ''idempotency key was already used with a different command''
                 ''idempotencyKey'' (env_IdempotencyKey env')), db2)"
  using later_lookup [OF reachable_ok [OF assms(1)] assms(2-4)]
  by (simp add: run_command_transaction transact_def begin_command_def)

lemma commands_replay_witness:
  "fst (CreateOrder 0 sample_new_id create_route ''hash-1'' (sample_envelope ''e1'') sample_order cancelled_db)
   = Inr ((responseFor 201 (''/api/v1/orders/'' @ PathEscape (sample_id ''a0'')) (sample_id ''e1'')
       (CreateOrderResult stored_order stored_tickets))\<lparr>sr_Replayed := True\<rparr>)"
proof -
  have "run_command sample_time create_route ''hash-1'' (sample_envelope ''e1'') (Create sample_new_id sample_order) empty_db
      = (Inr (responseFor 201 (''/api/v1/orders/'' @ PathEscape (sample_id ''a0'')) (sample_id ''e1'')
       (CreateOrderResult stored_order stored_tickets)), created_db)"
    using sample_create_result by (simp add: created_db_def prod_eq_iff sample_create_def)
  from commands_replay [OF reachable_empty this one_step [OF step_cancelled],
      of "sample_envelope ''e1''" 0 "''hash-1''" "Create sample_new_id sample_order"]
  show ?thesis by (simp add: same_key_def)
qed

text \<open>
  A transition of an order, a ticket or all tickets of an order never fails inside the store: on
  every reachable database the only errors are the documented command errors (reused key or identifier,
  not found, version conflict, invalid transition, order mismatch), and an error leaves no trace.
\<close>

theorem transitions_fail_cleanly:
  assumes "edge_reachable db" "\<forall>newID input. c \<noteq> Create newID input"
    and "fst (run_command now route hash env c db) = Inl e"
  shows "(\<exists>code message details. e = CommandError code message details) \<and> snd (run_command now route hash env c db) = db"
proof -
  note ok = reachable_ok [OF assms(1)]
  have "is_command_error e"
  proof (rule begin_command_error [OF _ assms(3) [unfolded run_command_transaction]])
    fix e' assume first: "lookupIdempotency db route hash env = Inr None" "ensureOperationUnused db (env_ID env) = Inr ()"
      and body: "command_body now route hash env c db = Inl e'"
    show "is_command_error e'"
    proof (cases c)
      case (MoveOrder k input)
      show ?thesis
        by (cases rule: transition_order_body_cases [OF ok first refl, of now k input]) (use body MoveOrder in auto)
    next
      case (MoveTicket k input)
      show ?thesis
        by (cases rule: transition_ticket_body_cases [OF ok first refl, of now k input]) (use body MoveTicket in auto)
    next
      case (MoveTickets k to' v)
      show ?thesis
        by (cases rule: transition_order_tickets_body_cases [OF ok first refl, of now k to' v]) (use body MoveTickets in auto)
    qed (use assms(2) in simp)
  qed
  with run_command_fails [OF assms(3)] show ?thesis by (simp add: is_command_error_def)
qed

lemma transitions_fail_cleanly_witness:
  "snd (TransitionOrder 0 order_route ''hash'' (sample_id ''a0'') (sample_envelope ''e5'')
     \<lparr>top_ToStatus = OrderReady, top_ExpectedVersion = 1\<rparr> created_db) = created_db"
proof -
  have "fst (run_command 0 order_route ''hash'' (sample_envelope ''e5'')
      (MoveOrder (sample_id ''a0'') \<lparr>top_ToStatus = OrderReady, top_ExpectedVersion = 1\<rparr>) created_db)
      = Inl (invalidTransition ''received'' ''ready'')"
    by (simp add: sample_moves invalidTransition_def)
  from transitions_fail_cleanly [OF reachable_created _ this] show ?thesis by simp
qed

subsection \<open>What each command does\<close>

lemma routes_tickets:
  assumes "map (\<lambda>t. (kt_StationID t, kt_LineIDs t)) tickets = station_routes ls"
  shows "distinct (map kt_StationID tickets)" "kt_StationID ` set tickets = ol_StationID ` set ls"
    "t \<in> set tickets \<Longrightarrow> kt_LineIDs t = map ol_ID (filter (\<lambda>l. ol_StationID l = kt_StationID t) ls)"
proof -
  have r: "routed ls (map (\<lambda>t. (kt_StationID t, kt_LineIDs t)) tickets)"
    unfolding assms by (rule station_routes_routed)
  then show "distinct (map kt_StationID tickets)" "kt_StationID ` set tickets = ol_StationID ` set ls"
    by (simp_all add: routed_def comp_def image_image)
  assume "t \<in> set tickets"
  then have "(kt_StationID t, kt_LineIDs t) \<in> set (map (\<lambda>t. (kt_StationID t, kt_LineIDs t)) tickets)" by simp
  with r show "kt_LineIDs t = map ol_ID (filter (\<lambda>l. ol_StationID l = kt_StationID t) ls)"
    unfolding routed_def by blast
qed

lemma fresh_command:
  assumes "edge_reachable db" "run_command now route hash env c db = (Inr resp, db')" "\<not> sr_Replayed resp"
  shows "lookupIdempotency db route hash env = Inr None" "ensureOperationUnused db (env_ID env) = Inr ()"
    "command_body now route hash env c db = Inr (resp, db')"
proof -
  have "lookupIdempotency db route hash env = Inr None \<and> ensureOperationUnused db (env_ID env) = Inr ()
    \<and> command_body now route hash env c db = Inr (resp, db')"
  proof (cases rule: run_command_cases [OF reachable_ok [OF assms(1)], of now route hash env c])
    case (2 resp')
    then obtain r where "resp' = read_response r" using find_row by blast
    with 2 assms(2,3) show ?thesis by (simp add: read_response_def)
  qed (use assms in simp_all)
  then show "lookupIdempotency db route hash env = Inr None" "ensureOperationUnused db (env_ID env) = Inr ()"
    "command_body now route hash env c db = Inr (resp, db')" by blast+
qed

lemma command_reachable: "edge_reachable db \<Longrightarrow> run_command now route hash env c db = (Inr resp, db') \<Longrightarrow> edge_reachable db'"
  using reachable_step [OF _ run_command_edge_step] by (metis snd_conv)

text \<open>
  C6: A new order is stored as received, version 1, under the next number of its outlet, and can be read
  back; its kitchen tickets partition its lines: one queued ticket for each station that a line names,
  with exactly the lines of that station in their order. No other order changes.
\<close>

theorem create_order_stores_order_and_tickets:
  assumes "edge_reachable db" "CreateOrder now newID route hash env input db = (Inr resp, db')" "\<not> sr_Replayed resp"
    and "tenant = env_TenantID env" "outlet = env_OutletID env"
    and "ord = new_order_projection env input (next_order_number db tenant outlet) now"
  shows "\<exists>tickets. re_Data (sr_Body resp) = CreateOrderResult ord tickets \<and> sr_StatusCode resp = 201
    \<and> getOrder db' tenant outlet (no_ID input) = Inr ord
    \<and> set (listTicketsForOrder db' tenant outlet (no_ID input)) = set tickets
    \<and> distinct (map kt_StationID tickets) \<and> kt_StationID ` set tickets = ol_StationID ` set (no_Lines input)
    \<and> (\<forall>t \<in> set tickets. kt_LineIDs t = map ol_ID (filter (\<lambda>l. ol_StationID l = kt_StationID t) (no_Lines input))
         \<and> kt_Status t = TicketQueued \<and> kt_Version t = 1)
    \<and> (\<forall>r \<in> set (db_orders db). or_tenant_id r = tenant \<and> or_outlet_id r = outlet \<longrightarrow> or_order_number r < o_Number ord)
    \<and> (\<forall>k. k \<noteq> no_ID input \<longrightarrow> getOrder db' tenant outlet k = getOrder db tenant outlet k)"
proof -
  have run: "run_command now route hash env (Create newID input) db = (Inr resp, db')" using assms(2) by simp
  note ok = reachable_ok [OF assms(1)]
  note ok' = command_reachable [OF assms(1) run]
  note fresh = fresh_command [OF assms(1) run assms(3)]
  obtain tickets where none: "orders_map db (no_ID input) = None"
    and out: "create_order_outcome now route hash env input tickets db resp db'"
    by (cases rule: create_order_body_cases [OF ok fresh(1,2) refl, of now newID input]) (use fresh(3) in auto)
  from out have resp: "resp = responseFor 201 (''/api/v1/orders/'' @ PathEscape (no_ID input)) (env_ID env) (CreateOrderResult ord tickets)"
    and routes: "map (\<lambda>t. (kt_StationID t, kt_LineIDs t)) tickets = station_routes (no_Lines input)"
    and new: "\<forall>t \<in> set tickets. t = new_ticket env input now (kt_ID t) (kt_StationID t) (kt_LineIDs t) \<and> tickets_map db (kt_ID t) = None"
    and ids: "distinct (map kt_ID tickets)"
    and om: "orders_map db' = (orders_map db)(no_ID input \<mapsto> ord)" and tm: "tickets_map db' = add_tickets tickets (tickets_map db)"
    unfolding create_order_outcome_def command_effect_def Let_def by (simp_all add: assms(4-6))
  have get: "getOrder db' tenant outlet (no_ID input) = Inr ord"
    using baseD(2) [OF reachable_base [OF ok']] om by (simp add: getOrder_map assms(4-6))
  have others: "getOrder db' tenant outlet k = getOrder db tenant outlet k" if "k \<noteq> no_ID input" for k
    using baseD(2) [OF reachable_base [OF ok']] baseD(2) [OF reachable_base [OF assms(1)]] om that by (simp add: getOrder_map)
  have ran: "ran (tickets_map db') = ran (tickets_map db) \<union> set tickets"
    unfolding tm by (rule ran_add_tickets) (use ids new in auto)
  have "kt_OrderID t \<noteq> no_ID input" if "t \<in> ran (tickets_map db)" for t
    using baseD(6) [OF reachable_base [OF assms(1)]] none that by (auto simp: owned_def)
  moreover have fields: "kt_OrderID t = no_ID input" "kt_Status t = TicketQueued" "kt_Version t = 1" if "t \<in> set tickets" for t
    using new that by (metis new_ticket_def kitchen_ticket.select_convs)+
  ultimately have tickets: "set (listTicketsForOrder db' tenant outlet (no_ID input)) = set tickets"
    unfolding reachable_get(4) [OF ok' get] ran by auto
  have "or_order_number r < o_Number ord" if "r \<in> set (db_orders db)" "or_tenant_id r = tenant" "or_outlet_id r = outlet" for r
    using next_order_number_fresh that unfolding assms(6) new_order_projection_def by (simp add: assms(4,5))
  with get others tickets fields routes_tickets [OF routes] resp show ?thesis
    by (intro exI [of _ tickets]) (auto simp: responseFor_def)
qed

lemma create_order_stores_order_and_tickets_witness:
  "getOrder created_db ''tenant-a'' ''outlet-a'' (sample_id ''a0'') =
     Inr (new_order_projection (sample_envelope ''e1'') sample_order (next_order_number empty_db ''tenant-a'' ''outlet-a'') sample_time)"
proof -
  have run: "CreateOrder sample_time sample_new_id create_route ''hash-1'' (sample_envelope ''e1'') sample_order empty_db
      = (Inr (responseFor 201 (''/api/v1/orders/'' @ PathEscape (sample_id ''a0'')) (sample_id ''e1'')
       (CreateOrderResult stored_order stored_tickets)), created_db)"
    using sample_create_result by (simp add: created_db_def prod_eq_iff sample_create_def)
  from create_order_stores_order_and_tickets [OF reachable_empty run response_fresh refl refl refl] show ?thesis by auto
qed

text \<open>
  C5: A first request to move an order succeeds exactly when the expected version is the order's, the
  order machine allows the move and no open ticket would skip a state; it then stores the order with the
  new status and the next version, and each ticket of the order that follows it, and answers with both.
\<close>

theorem transition_order_exact:
  assumes "edge_reachable db" "tenant = env_TenantID env" "outlet = env_OutletID env"
    and "getOrder db tenant outlet k = Inr ord" "tickets = listTicketsForOrder db tenant outlet k"
    and "lookupIdempotency db route hash env = Inr None" "ensureOperationUnused db (env_ID env) = Inr ()"
    and "to' = top_ToStatus input" "TransitionOrder now route hash k env input db = (r, db')"
  shows "((\<exists>resp. r = Inr resp) \<longleftrightarrow> o_Version ord = top_ExpectedVersion input \<and> CanTransitionOrder (o_Status ord) to'
           \<and> (\<forall>t \<in> set tickets. follow_legal to' (kt_Status t)))
    \<and> (\<forall>resp. r = Inr resp \<longrightarrow>
         re_Data (sr_Body resp) = TransitionOrderResult (move_order to' now ord) (map (next_ticket to' now) tickets)
         \<and> getOrder db' tenant outlet k = Inr (move_order to' now ord)
         \<and> set (listTicketsForOrder db' tenant outlet k) = next_ticket to' now ` set tickets)"
proof -
  note ok = reachable_ok [OF assms(1)]
  note get = reachable_get [OF assms(1,4)]
  have run: "run_command now route hash env (MoveOrder k input) db = (r, db')" using assms(9) by simp
  then have r: "r = fst (transact (transition_order_body now route hash k env input) db)" "db' = snd (transact (transition_order_body now route hash k env input) db)"
    using assms(6,7) by (simp_all add: run_command_transaction begin_command_def transact_def)
  have tickets: "kt_Status ` set tickets = ticket_statuses db k" using get(5) assms(5) by simp
  have commits: "\<exists>resp db'. transition_order_body now route hash k env input db = Inr (resp, db')"
    if "o_Version ord = top_ExpectedVersion input" "CanTransitionOrder (o_Status ord) to'" "\<forall>t \<in> set tickets. follow_legal to' (kt_Status t)"
    using transition_order_commits [OF ok assms(6,7) get(1), of input now] get(2,3) that
    by (auto simp: check_tickets_Inr assms(2,3,5,8))
  show ?thesis
  proof (cases rule: transition_order_body_cases [OF ok assms(6,7) refl, of now k input])
    case (1 e)
    with r commits show ?thesis by (auto simp: transact_def)
  next
    case (2 ord' resp db'')
    with get have "ord' = ord" by simp
    note guards = 2(5-7) [unfolded this]
    from 2(1) r have r: "r = Inr resp" "db' = db''" by (simp_all add: transact_def)
    have out: "resp = responseFor 200 [] (env_ID env) (TransitionOrderResult (move_order to' now ord) (map (next_ticket to' now) tickets))"
      "orders_map db' = (orders_map db)(k \<mapsto> move_order to' now ord)"
      "tickets_map db' = map_tickets (next_ticket to' now) k (tickets_map db)"
      using 2(8) \<open>ord' = ord\<close> unfolding transition_order_outcome_def command_effect_def Let_def r assms(2,3,5,8) by blast+
    have reach: "edge_reachable db'" using command_reachable [OF assms(1)] run r by metis
    have g: "getOrder db' tenant outlet k = Inr (move_order to' now ord)"
      using baseD(2) [OF reachable_base [OF reach]] out(2) get(2,3) by (simp add: getOrder_map)
    have "set (listTicketsForOrder db' tenant outlet k) = next_ticket to' now ` set tickets"
      unfolding reachable_get(4) [OF reach g] out(3) ran_map_tickets [of "next_ticket to' now", OF next_ticket_simps(2)]
      using get(4) assms(5) by simp
    moreover have "\<forall>t \<in> set tickets. follow_legal to' (kt_Status t)"
      using guards(3) assms(8) tickets by (metis imageI)
    ultimately show ?thesis using guards g out(1) r assms(8) by (simp add: responseFor_def)
  qed
qed

lemma transition_order_exact_witness:
  "getOrder cancelled_db ''tenant-a'' ''outlet-a'' (sample_id ''a0'') = Inr (move_order OrderCancelled sample_time stored_order)"
proof -
  have "lookupIdempotency created_db order_route ''hash-2'' (sample_envelope ''e2'') = Inr None"
    "ensureOperationUnused created_db (env_ID (sample_envelope ''e2'')) = Inr ()"
    by (simp_all add: lookupIdempotency_def ensureOperationUnused_def sample_created idempotency_row_of_def
        operation_row_of_def)
  moreover have "TransitionOrder sample_time order_route ''hash-2'' (sample_id ''a0'') (sample_envelope ''e2'')
     \<lparr>top_ToStatus = OrderCancelled, top_ExpectedVersion = 1\<rparr> created_db = (fst (sample_move OrderCancelled created_db), cancelled_db)"
    by (simp add: cancelled_db_def sample_move_def)
  ultimately show ?thesis
    using transition_order_exact [OF reachable_created _ _ sample_get refl, of "sample_envelope ''e2''" order_route "''hash-2''"
        OrderCancelled "\<lparr>top_ToStatus = OrderCancelled, top_ExpectedVersion = 1\<rparr>" sample_time]
    by (simp add: sample_cancel)
qed

lemma reachable_getTicket:
  assumes "edge_reachable db" "getTicket db tenant outlet k = Inr t"
  shows "tickets_map db k = Some t" "kt_TenantID t = tenant" "kt_OutletID t = outlet" "kt_ID t = k"
proof -
  note ok = baseD(3) [OF reachable_base [OF assms(1)]]
  from getTicket_Inr [OF ok assms(2)] show "tickets_map db k = Some t" "kt_TenantID t = tenant" "kt_OutletID t = outlet" by blast+
  then show "kt_ID t = k" using tickets_map_id [OF ok] by blast
qed

lemma ticket_order:
  assumes "edge_reachable db" "getTicket db tenant outlet k = Inr t"
  obtains ord where "getOrder db tenant outlet (kt_OrderID t) = Inr ord"
proof -
  note get = reachable_getTicket [OF assms]
  note b = reachable_base [OF assms(1)]
  from get(1) have "t \<in> ran (tickets_map db)" by (auto simp: ran_def)
  with baseD(6) [OF b] obtain ord where "orders_map db (kt_OrderID t) = Some ord" "o_TenantID ord = kt_TenantID t"
    "o_OutletID ord = kt_OutletID t" by (auto simp: owned_def)
  with get baseD(2) [OF b] have "getOrder db tenant outlet (kt_OrderID t) = Inr ord" by (simp add: getOrder_map)
  with that show ?thesis .
qed

text \<open>
  C7: When a first request moves a kitchen ticket, the ticket was at the expected version and the ticket
  machine allows the move; the ticket is stored with the new status and the next version, its order is
  stored unchanged or, where the statuses of all its tickets now call for it, advanced to the status
  they derive, and afterwards the order is not behind its tickets.
\<close>

theorem transition_ticket_moves_ticket_and_order:
  assumes "edge_reachable db" "TransitionTicket now route hash k env input db = (Inr resp, db')" "\<not> sr_Replayed resp"
    and "tenant = env_TenantID env" "outlet = env_OutletID env" "to' = ttp_ToStatus input"
  shows "\<exists>t ord ord'. getTicket db tenant outlet k = Inr t \<and> kt_Version t = ttp_ExpectedVersion input
    \<and> CanTransitionTicket (kt_Status t) to'
    \<and> getOrder db tenant outlet (kt_OrderID t) = Inr ord
    \<and> re_Data (sr_Body resp) = TransitionTicketResult (move_ticket to' now t) ord'
    \<and> getTicket db' tenant outlet k = Inr (move_ticket to' now t)
    \<and> getOrder db' tenant outlet (kt_OrderID t) = Inr ord'
    \<and> ord' = (let status = deriveOrderStatus (listTicketsForOrder db' tenant outlet (kt_OrderID t)) in
               if shouldAdvanceOrder (o_Status ord) status then move_order status now ord else ord)"
proof -
  have run: "run_command now route hash env (MoveTicket k input) db = (Inr resp, db')" using assms(2) by simp
  note ok = reachable_ok [OF assms(1)]
  note b = reachable_base [OF assms(1)]
  note reach = command_reachable [OF assms(1) run]
  note fresh = fresh_command [OF assms(1) run assms(3)]
  obtain t ord where t: "tickets_map db k = Some t" "kt_TenantID t = tenant" "kt_OutletID t = outlet"
      "kt_Version t = ttp_ExpectedVersion input" "CanTransitionTicket (kt_Status t) to'"
    and ord: "orders_map db (kt_OrderID t) = Some ord"
    and out: "transition_ticket_outcome now route hash k env input t ord db resp db'"
    by (cases rule: transition_ticket_body_cases [OF ok fresh(1,2) refl, of now k input])
      (use fresh(3) assms(4-6) in auto)
  define ord' where "ord' = follow_order (derived_status (statuses_after db t to')) now ord"
  from out have resp: "resp = responseFor 200 [] (env_ID env) (TransitionTicketResult (move_ticket to' now t) ord')"
    and om: "orders_map db' = (orders_map db)(kt_OrderID t \<mapsto> ord')"
    and tm: "tickets_map db' = (tickets_map db)(k \<mapsto> move_ticket to' now t)"
    unfolding transition_ticket_outcome_def command_effect_def Let_def ord'_def assms(6) by blast+
  have get: "getTicket db tenant outlet k = Inr t" using baseD(3) [OF b] t by (simp add: getTicket_map)
  have id: "kt_ID t = k" using tickets_map_id [OF baseD(3) [OF b] t(1)] .
  from ticket_order [OF assms(1) get] ord reachable_get(1) [OF assms(1)]
  have get_ord: "getOrder db tenant outlet (kt_OrderID t) = Inr ord" by (metis option.inject)
  have scope: "o_TenantID ord' = tenant" "o_OutletID ord' = outlet"
    using reachable_get(2,3) [OF assms(1) get_ord] by (simp_all add: ord'_def)
  have get': "getTicket db' tenant outlet k = Inr (move_ticket to' now t)"
    using baseD(3) [OF reachable_base [OF reach]] tm t by (simp add: getTicket_map move_ticket_def)
  have get_ord': "getOrder db' tenant outlet (kt_OrderID t) = Inr ord'"
    using baseD(2) [OF reachable_base [OF reach]] om scope by (simp add: getOrder_map)
  have "ticket_statuses db' (kt_OrderID t) = statuses_after db t to'"
    using statuses_update [OF baseD(3) [OF b], of t db' to' now "kt_OrderID t"] t(1) tm id by simp
  then have "deriveOrderStatus (listTicketsForOrder db' tenant outlet (kt_OrderID t)) = derived_status (statuses_after db t to')"
    using reachable_get(5) [OF reach get_ord'] by (simp add: derive_status_set)
  with get get_ord get' get_ord' t resp show ?thesis
    by (auto simp: Let_def ord'_def follow_order_def responseFor_def)
qed

lemma transition_ticket_moves_ticket_and_order_witness:
  "\<exists>ord'. getOrder cooked_db ''tenant-a'' ''outlet-a'' (sample_id ''a0'') = Inr ord'
     \<and> getTicket cooked_db ''tenant-a'' ''outlet-a'' (sample_id ''c0'') = Inr (move_ticket TicketFired sample_time (hd stored_tickets))"
proof -
  have run: "TransitionTicket sample_time ''POST /tickets'' ''hash-3'' (sample_id ''c0'') (sample_envelope ''e3'')
     \<lparr>ttp_ToStatus = TicketFired, ttp_ExpectedVersion = 1, ttp_ExpectedOrderID = []\<rparr> created_db = (Inr (responseFor 200 [] (sample_id ''e3'') (TransitionTicketResult
     (move_ticket TicketFired sample_time (hd stored_tickets)) (move_order OrderAccepted sample_time stored_order))), cooked_db)"
    using sample_fire by (simp add: cooked_db_def sample_cook_def prod_eq_iff)
  have "kt_OrderID (hd stored_tickets) = sample_id ''a0''"
    by (simp add: stored_tickets_def stored_ticket_def new_ticket_def)
  moreover have "getTicket created_db ''tenant-a'' ''outlet-a'' (sample_id ''c0'') = Inr (hd stored_tickets)"
    by (simp add: getTicket_def sample_created stored_tickets_def stored_ticket_def new_ticket_def ticket_row_of_def)
  ultimately show ?thesis
    using transition_ticket_moves_ticket_and_order [OF reachable_created run response_fresh refl refl refl] by auto
qed

text \<open>
  \<open>deriveOrderStatus\<close> depends only on which statuses occur among the tickets, and is cancelled when
  all are cancelled, completed when all are final with a completed one, ready when all are ready or final,
  preparing when some ticket is preparing, ready or completed, accepted when some is fired, and received
  otherwise.
\<close>

theorem derive_order_status_specification:
  "deriveOrderStatus tickets = derived_status (kt_Status ` set tickets)"
  by (rule derive_status_set)

end
