(* ===== verification/Edge_Sync_Properties.thy ===== *)
theory Edge_Sync_Properties
  imports Edge_Properties
begin

text \<open>
  What the edge promises about its outbox, the synchronization with the cloud and the local
  sessions of paired devices.
\<close>

subsection \<open>The outbox\<close>

text \<open>
  The outbox mirrors the operation log: in every reachable database the operations are numbered
  1, 2, ... without gaps, their identifiers are distinct, the outbox has one row for each in the same
  order, and every operation belongs to the stream of a stored order of its tenant and outlet.
\<close>

theorem outbox_mirrors_operations:
  assumes "edge_reachable db"
  shows "map opr_sequence (db_operations db) = [1..<Suc (length (db_operations db))]
    \<and> distinct (map opr_operation_id (db_operations db))
    \<and> map ob_operation_id (db_outbox db) = map opr_operation_id (db_operations db)
    \<and> (\<forall>r \<in> set (db_operations db). opr_causality_type r = ''order''
         \<and> (\<exists>ord. getOrder db (opr_tenant_id r) (opr_outlet_id r) (opr_causality_id r) = Inr ord))"
proof -
  note ok = reachable_ok [OF assms]
  note b = reachable_base [OF assms]
  have "\<exists>ord. getOrder db (opr_tenant_id r) (opr_outlet_id r) (opr_causality_id r) = Inr ord"
    if r: "r \<in> set (db_operations db)" for r
  proof -
    from ok r obtain ord where "orders_map db (opr_causality_id r) = Some ord" "o_TenantID ord = opr_tenant_id r"
      "o_OutletID ord = opr_outlet_id r" by (auto simp: edge_ok_def attributed_def)
    then show ?thesis by (simp add: getOrder_map [OF baseD(2) [OF b]])
  qed
  with operations_okD [OF ok] show ?thesis unfolding operations_ok_def by blast
qed

lemma outbox_mirrors_operations_witness:
  "map ob_operation_id (db_outbox cancelled_db) = map opr_operation_id (db_operations cancelled_db)"
  using outbox_mirrors_operations [OF reachable_cancelled] by blast

text \<open>
  What \<open>PendingOperations\<close> returns can be sent as one batch without reordering: at most the
  limit, every operation pending and due with all its predecessors in its stream synchronized, in the
  order of the log, and no two of the same stream.
\<close>

theorem pending_operations_are_stream_heads:
  assumes "edge_reachable db" "0 \<le> limit" "PendingOperations db limit now = Inr os"
  shows "\<exists>rows. set rows \<subseteq> set (db_operations db) \<and> map opr_operation_id rows = map op_OperationID os
    \<and> length os \<le> nat limit
    \<and> sorted_wrt (\<lambda>a b. opr_sequence a < opr_sequence b \<and> \<not> same_stream a b) rows
    \<and> (\<forall>r \<in> set rows. (\<exists>b \<in> set (db_outbox db). ob_operation_id b = opr_operation_id r \<and> ob_state b = Pending
           \<and> ob_next_attempt_at b \<le> formatTime now)
        \<and> (\<forall>p \<in> set (db_operations db). same_stream p r \<and> opr_sequence p < opr_sequence r \<longrightarrow>
             opr_operation_id p \<in> synchronized_ids db))"
proof -
  note ok = reachable_ok [OF assms(1)]
  obtain rows where r: "list_all2 (\<lambda>r o'. decode_operation r = Inr o') rows os"
    "set rows \<subseteq> set (db_operations db)" "\<forall>r \<in> set rows. eligible db now r"
    "sorted_wrt (\<lambda>a b. opr_sequence a < opr_sequence b) rows" "length rows \<le> nat limit"
    using pending_rows [OF ok assms(3)] assms(2) by metis
  have ids: "map opr_operation_id rows = map op_OperationID os"
    using r(1) by (induction rule: list_all2_induct) (simp_all add: decode_operation_Inr)
  have "sorted_wrt (\<lambda>a b. opr_sequence a < opr_sequence b \<and> \<not> same_stream a b) rows"
    by (rule sorted_wrt_mono_rel [OF _ r(4)]) (use r(2,3) eligible_heads [OF ok] in blast)
  moreover have "\<exists>b \<in> set (db_outbox db). ob_operation_id b = opr_operation_id q \<and> ob_state b = Pending
      \<and> ob_next_attempt_at b \<le> formatTime now" if "q \<in> set rows" for q
    using that r(3) by (auto simp: eligible_def list_ex_iff)
  moreover have "\<forall>p \<in> set (db_operations db). same_stream p q \<and> opr_sequence p < opr_sequence q \<longrightarrow>
      opr_operation_id p \<in> synchronized_ids db" if q: "q \<in> set rows" for q
    using no_unresolved [OF ok, of q] q r(2,3) by (auto simp: eligible_def)
  ultimately show ?thesis
    using r(2,5) ids list_all2_lengthD [OF r(1)] by (intro exI [of _ rows]) auto
qed

lemma sample_times: "parseTime (formatTime sample_time) = Some sample_time"
  by (rule parse_format) (simp_all add: sample_time_def unix_epoch_def Second_def max_time_def days_before_year_def)

text \<open>The members of an envelope are found again, whichever of the optional ones are left out.\<close>

lemma unmarshal_marshal:
  assumes "parseTime (formatTime (env_OccurredAt e)) = Some (env_OccurredAt e)"
  shows "unmarshal_envelope (marshal_envelope e) = Inr (e\<lparr>env_Payload := compact_json (env_Payload e)\<rparr>)"
  unfolding unmarshal_envelope_def marshal_envelope_def text_member_def raw_member_def time_member_def text_members_def omit_empty_def
  using assms by simp

lemma sample_unmarshal: "unmarshal_envelope (marshal_envelope (sample_envelope k)) = Inr (sample_envelope k)"
proof -
  have empty: "compact_json ''{}'' = ''{}''" by code_simp
  have "parseTime (formatTime (env_OccurredAt (sample_envelope k))) = Some (env_OccurredAt (sample_envelope k))"
    by (simp add: sample_envelope_def sample_times)
  from unmarshal_marshal [OF this] empty show ?thesis by (simp add: sample_envelope_def)
qed

lemma sample_pending: "\<exists>o'. PendingOperations created_db 100 sample_time = Inr [o'] \<and> op_OperationID o' = sample_id ''e1''"
  by (simp add: PendingOperations_def sample_created eligible_def has_unresolved_predecessor_def outbox_row_of_def
      operation_row_of_def sql_limit_def decode_operation_def sample_times sample_unmarshal)

lemma pending_operations_are_stream_heads_witness:
  "\<exists>os. PendingOperations created_db 100 sample_time = Inr os \<and> length os \<le> 100"
proof -
  obtain o' where "PendingOperations created_db 100 sample_time = Inr [o']" using sample_pending by blast
  with pending_operations_are_stream_heads [OF reachable_created _ this] show ?thesis by auto
qed

text \<open>Two synchronizations of the cancelled sample order with a cloud that accepts everything.\<close>

definition sample_cloud :: adapter where
  "sample_cloud request = Inr \<lparr>resp_BatchID = pr_BatchID request, resp_Results = map (\<lambda>o'.
     \<lparr>res_OperationID = op_OperationID o', res_Status = PushAccepted, res_ProblemCode = [],
      res_RetryAfterSeconds = 0\<rparr>) (pr_Operations request)\<rparr>"

definition sample_config :: syncer_config where
  "sample_config = \<lparr>sc_EdgeID = ''edge-1'', sc_TenantID = ''tenant-a'', sc_OutletID = ''outlet-a'',
     sc_Interval = 5 * Second, sc_BatchSize = 100, sc_MaxBatchBytes = 4096\<rparr>"

definition sample_sync :: "db \<Rightarrow> db" where
  "sample_sync db = snd (SyncOnce edge_repository (Some sample_cloud) (\<lambda>request. 1000) sample_config ''batch'' sample_time db)"

lemma sample_uuids: "IsUUIDv7 (sample_id ''e1'')" "IsUUIDv7 (sample_id ''e2'')" "IsUUIDv7 (sample_id ''a0'')"
  by code_simp+

lemma sample_cancelled:
  "db_operations cancelled_db = [operation_row_of (sample_envelope ''e1'') ''order'' (sample_id ''a0'') ''order''
     (sample_id ''a0'') 1 ''order.create'' sample_time 1, operation_row_of (sample_envelope ''e2'') ''order''
     (sample_id ''a0'') ''order'' (sample_id ''a0'') 2 ''order.transition'' sample_time 2]"
  "db_outbox cancelled_db = [outbox_row_of (sample_envelope ''e1'') sample_time, outbox_row_of (sample_envelope ''e2'') sample_time]"
  by (simp_all add: cancelled_db_def sample_moves move_order_def)

lemmas evaluate_sync = SyncOnce_def edge_repository_def PendingOperations_def eligible_def
  has_unresolved_predecessor_def same_stream_def outbox_row_of_def operation_row_of_def sql_limit_def decode_operation_def
  sample_times sample_unmarshal fitBatch_def fails_if_def validateOperationScope_def sample_config_def sample_uuids push_batch_def Let_def
  sample_cloud_def validateResults_def RecordSyncResults_def apply_result_def result_for_def update_pending_def update_where_def

definition synced_db :: db where "synced_db = sample_sync cancelled_db"

lemma sample_synced:
  "db_outbox synced_db = [(outbox_row_of (sample_envelope ''e1'') sample_time)\<lparr>ob_state := Synchronized, ob_attempts := 1,
     ob_cloud_result := Some PushAccepted, ob_synced_at := Some (formatTime sample_time)\<rparr>,
     outbox_row_of (sample_envelope ''e2'') sample_time]"
  by (simp add: synced_db_def sample_sync_def sample_cancelled evaluate_sync)

lemma sample_sync_operations: "db_operations (sample_sync db) = db_operations db"
  by (simp add: sample_sync_def SyncOnce_operations)

lemma sample_synced_twice: "map ob_state (db_outbox (sample_sync synced_db)) = [Synchronized, Synchronized]"
  "map ob_operation_id (db_outbox (sample_sync synced_db)) = [sample_id ''e1'', sample_id ''e2'']"
proof -
  have ops: "db_operations synced_db = db_operations cancelled_db" by (simp add: synced_db_def sample_sync_operations)
  show "map ob_state (db_outbox (sample_sync synced_db)) = [Synchronized, Synchronized]"
    "map ob_operation_id (db_outbox (sample_sync synced_db)) = [sample_id ''e1'', sample_id ''e2'']"
    by (simp_all add: sample_sync_def [of synced_db] ops sample_synced sample_cancelled evaluate_sync)
qed

lemma sample_runs: "edge_runs\<^sup>*\<^sup>* empty_db (sample_sync synced_db)"
proof -
  have "edge_runs empty_db created_db" unfolding created_db_def sample_create_def by (rule run_create)
  moreover have "edge_runs created_db cancelled_db" unfolding cancelled_db_def sample_move_def by (rule run_order)
  moreover have "edge_runs db (sample_sync db)" for db unfolding sample_sync_def by (rule run_sync)
  ultimately show ?thesis unfolding synced_db_def
    using rtranclp.rtrancl_into_rtrancl [where r = edge_runs] rtranclp.rtrancl_refl [where r = edge_runs] by metis
qed

text \<open>
  C8: Operations reach the cloud in causal order: whatever commands, pairings and synchronizations the
  edge runs, with any cloud and any results, no operation is synchronized before all the operations of
  its stream that precede it.
\<close>

theorem synchronization_preserves_causal_order:
  assumes "edge_runs\<^sup>*\<^sup>* empty_db db" "a \<in> set (db_operations db)" "b \<in> set (db_operations db)"
    and "same_stream a b" "opr_sequence a < opr_sequence b" "opr_operation_id b \<in> synchronized_ids db"
  shows "opr_operation_id a \<in> synchronized_ids db"
  using edge_runs_all [OF assms(1)] assms(2-) unfolding delivered_in_order_def by blast

lemma synchronization_preserves_causal_order_witness:
  "sample_id ''e1'' \<in> synchronized_ids (sample_sync synced_db)"
proof -
  let ?a = "operation_row_of (sample_envelope ''e1'') ''order'' (sample_id ''a0'') ''order'' (sample_id ''a0'') 1
     ''order.create'' sample_time 1"
  let ?b = "operation_row_of (sample_envelope ''e2'') ''order'' (sample_id ''a0'') ''order'' (sample_id ''a0'') 2
     ''order.transition'' sample_time 2"
  have ops: "db_operations (sample_sync synced_db) = [?a, ?b]"
    by (simp only: synced_db_def sample_sync_operations sample_cancelled)
  have "opr_operation_id ?b \<in> synchronized_ids (sample_sync synced_db)"
  proof -
    obtain x y where rows: "db_outbox (sample_sync synced_db) = [x, y]"
      using sample_synced_twice(1) by (auto simp: Cons_eq_map_conv)
    with sample_synced_twice have "ob_operation_id y = sample_id ''e2''" "ob_state y = Synchronized" by simp_all
    with rows have "sample_id ''e2'' \<in> synchronized_ids (sample_sync synced_db)"
      unfolding synchronized_ids_def by (intro image_eqI [of _ _ y]) simp_all
    then show ?thesis by (simp add: operation_row_of_def)
  qed
  from synchronization_preserves_causal_order [OF sample_runs _ _ _ _ this, of ?a]
  show ?thesis by (simp add: ops) (simp add: same_stream_def operation_row_of_def)
qed

text \<open>
  A settled outbox row never changes again: neither later results nor later failures touch a row
  that is synchronized or waiting for reconciliation, whatever identifiers they name.
\<close>

theorem settled_rows_never_change:
  assumes "edge_reachable db" "r \<in> set (db_outbox db)" "ob_state r \<noteq> Pending"
  shows "r \<in> set (db_outbox (RecordSyncResults ids results now db))
    \<and> r \<in> set (db_outbox (RecordSyncFailure ids msg now db))"
proof
  show "r \<in> set (db_outbox (RecordSyncResults ids results now db))"
    unfolding RecordSyncResults_rows set_map using row_results_settled [OF assms(3), symmetric] assms(2) by (rule image_eqI)
  show "r \<in> set (db_outbox (RecordSyncFailure ids msg now db))"
    unfolding RecordSyncFailure_rows [OF reachable_ok [OF assms(1)]] set_map
    using row_failures_settled [OF assms(3), symmetric] assms(2) by (rule image_eqI)
qed

lemma reachable_synced: "edge_reachable synced_db"
proof -
  have "PendingOperations cancelled_db 100 sample_time = Inr os \<Longrightarrow>
    edge_step cancelled_db (RecordSyncResults ids results now cancelled_db)" for os ids results now
    by (rule step_results)
  moreover have "\<exists>ids results. synced_db = RecordSyncResults ids results sample_time cancelled_db"
    unfolding synced_db_def sample_sync_def
    by (intro exI [of _ "[sample_id ''e1'']"] exI [of _ "[\<lparr>res_OperationID = sample_id ''e1'', res_Status = PushAccepted,
      res_ProblemCode = [], res_RetryAfterSeconds = 0\<rparr>]"]) (simp add: sample_cancelled evaluate_sync)
  ultimately show ?thesis using reachable_step [OF reachable_cancelled step_results] by metis
qed

lemma settled_rows_never_change_witness:
  "hd (db_outbox synced_db) \<in> set (db_outbox (RecordSyncFailure [sample_id ''e1''] ''offline'' sample_time synced_db))"
  using settled_rows_never_change [OF reachable_synced, of "hd (db_outbox synced_db)"] by (simp add: sample_synced)

text \<open>
  A result settles exactly the pending rows the batch names: accepted and duplicate operations become
  synchronized, rejected and conflicting ones go to reconciliation, all others (also those the cloud did
  not mention) stay pending with one more attempt and a retry after the delay the cloud asked for, when
  that is between one second and fifteen minutes.
\<close>

theorem results_settle_named_rows:
  assumes "edge_reachable db" "r \<in> set (db_outbox db)" "ob_state r = Pending" "distinct ids"
  shows "\<exists>r' \<in> set (db_outbox (RecordSyncResults ids results now db)). ob_operation_id r' = ob_operation_id r
    \<and> (if ob_operation_id r \<in> set ids
       then ob_attempts r' = ob_attempts r + 1 \<and>
         (case res_Status (result_for results (ob_operation_id r)) of
            PushAccepted \<Rightarrow> ob_state r' = Synchronized \<and> ob_synced_at r' = Some (formatTime now)
          | PushDuplicate \<Rightarrow> ob_state r' = Synchronized \<and> ob_synced_at r' = Some (formatTime now)
          | PushRejected \<Rightarrow> ob_state r' = Reconciliation
          | PushConflict \<Rightarrow> ob_state r' = Reconciliation
          | _ \<Rightarrow> ob_state r' = Pending \<and> (\<forall>n. res_RetryAfterSeconds (result_for results (ob_operation_id r)) = n
                \<and> 1 \<le> n \<and> n \<le> 900 \<longrightarrow> ob_next_attempt_at r' = formatTime (now + n * Second)))
       else r' = r)"
proof -
  let ?k = "ob_operation_id r"
  have once: "fold (row_result now results) ids r = (if ?k \<in> set ids then row_result now results ?k r else r)"
    using assms(4)
  proof (induction ids)
    case (Cons i js)
    then show ?case
      by (cases "i = ?k") (auto simp: row_results_other row_result_other)
  qed simp
  have "row_result now results ?k r = (let res = result_for results ?k; s = res_Status res in
      if s = PushAccepted \<or> s = PushDuplicate then r\<lparr>ob_state := Synchronized, ob_attempts := ob_attempts r + 1,
         ob_last_error := None, ob_cloud_result := Some s, ob_synced_at := Some (formatTime now)\<rparr>
      else if s = PushRejected \<or> s = PushConflict then r\<lparr>ob_state := Reconciliation, ob_attempts := ob_attempts r + 1,
         ob_last_error := Some (conciseSyncProblem (res_ProblemCode res) (''cloud_'' @ ToLower (push_status_text s))),
         ob_cloud_result := Some s\<rparr>
      else r\<lparr>ob_attempts := ob_attempts r + 1, ob_next_attempt_at := formatTime (now + result_delay (res_RetryAfterSeconds res)),
         ob_last_error := Some (conciseSyncProblem (res_ProblemCode res) ''cloud_retry''), ob_cloud_result := Some PushRetry\<rparr>)"
    using assms(3) by (simp add: row_result_def apply_result_def update_pending_def update_where_def Let_def)
  moreover have "fold (row_result now results) ids r \<in> set (db_outbox (RecordSyncResults ids results now db))"
    using assms(2) by (simp add: RecordSyncResults_rows)
  ultimately show ?thesis
    unfolding once by (intro bexI) (auto simp: Let_def assms(3) result_delay_exact split: push_status.split)
qed

lemma results_settle_named_rows_witness:
  "\<exists>r' \<in> set (db_outbox (RecordSyncResults [sample_id ''e1''] [] sample_time created_db)).
     ob_operation_id r' = sample_id ''e1'' \<and> ob_attempts r' = 1 \<and> ob_state r' = Pending"
proof -
  have r: "outbox_row_of (sample_envelope ''e1'') sample_time \<in> set (db_outbox created_db)" by (simp add: sample_created)
  show ?thesis
    using results_settle_named_rows [OF reachable_created r, of "[sample_id ''e1'']" "[]" sample_time]
    by (auto simp: outbox_row_of_def result_for_def)
qed

text \<open>
  A failed attempt of a batch changes only its pending rows: each gets one more attempt and is due again
  after one second doubled with every earlier attempt, at most 256 seconds; its state stays pending, so no
  operation is ever given up or lost by failures.
\<close>

theorem failures_back_off:
  assumes "edge_reachable db" "r \<in> set (db_outbox db)" "ob_state r = Pending" "distinct ids"
    and "ob_operation_id r \<in> set ids"
  shows "r\<lparr>ob_attempts := ob_attempts r + 1,
      ob_next_attempt_at := formatTime (now + 2 ^ min (ob_attempts r) 8 * Second),
      ob_last_error := Some (take 1000 msg)\<rparr> \<in> set (db_outbox (RecordSyncFailure ids msg now db))"
proof -
  have delay: "retryDelay (int n + 1) = 2 ^ min n 8 * Second" for n
  proof (cases "n \<le> 8")
    case True
    then show ?thesis using retryDelay_cases(3) [of "int n + 1"] by simp
  next
    case False
    then show ?thesis using retryDelay_cases(2) [of "int n + 1"] by simp
  qed
  have msg: "(if length msg > 1000 then take 1000 msg else msg) = take 1000 msg" by simp
  have "fold (row_failure now (take 1000 msg)) ids r \<in> set (db_outbox (RecordSyncFailure ids msg now db))"
    using assms(2) unfolding RecordSyncFailure_rows [OF reachable_ok [OF assms(1)]] msg by simp
  then show ?thesis
    unfolding row_failures_once [OF assms(4,5)] by (simp add: row_failure_def assms(3) delay)
qed

lemma failures_back_off_witness:
  "formatTime (sample_time + Second) \<in> set (map ob_next_attempt_at
     (db_outbox (RecordSyncFailure [sample_id ''e1''] ''offline'' sample_time created_db)))"
proof -
  have r: "outbox_row_of (sample_envelope ''e1'') sample_time \<in> set (db_outbox created_db)" by (simp add: sample_created)
  from failures_back_off [OF reachable_created r,
      where ids = "[sample_id ''e1'']" and now = sample_time and msg = "''offline''"]
  have "(outbox_row_of (sample_envelope ''e1'') sample_time)\<lparr>ob_attempts := 1,
      ob_next_attempt_at := formatTime (sample_time + Second), ob_last_error := Some ''offline''\<rparr>
      \<in> set (db_outbox (RecordSyncFailure [sample_id ''e1''] ''offline'' sample_time created_db))"
    by (simp add: outbox_row_of_def)
  then show ?thesis by (force simp: image_iff)
qed

text \<open>
  The retry time is compared as text, which misjudges fractions of the same second: an operation
  whose retry time is a whole second is not eligible at any later instant of that second, and becomes
  eligible at its end only.
\<close>

theorem whole_second_retry_is_late:
  assumes "edge_reachable db" "r \<in> set (db_operations db)"
    and "b \<in> set (db_outbox db)" "ob_operation_id b = opr_operation_id r" "ob_next_attempt_at b = formatTime due"
    and "due mod Second = 0" "due < now" "now < due + Second"
  shows "\<not> eligible db now r"
proof
  assume "eligible db now r"
  then obtain b' where b': "b' \<in> set (db_outbox db)" "ob_operation_id b' = opr_operation_id r" "ob_next_attempt_at b' \<le> formatTime now"
    by (auto simp: eligible_def list_ex_iff)
  with assms(3,4) outbox_distinct [OF reachable_ok [OF assms(1)]] have "b' = b" by (auto simp: distinct_map inj_on_def)
  have "due div Second * Second = due" using div_mult_mod_eq [of due Second] assms(6) by simp
  then have now: "now = Second * (due div Second) + (now - due)" by (simp only: mult.commute)
  have "now div Second = due div Second"
    by (rule int_div_pos_eq [OF now]) (use assms(7,8) in simp_all)
  moreover have "now mod Second = now - due"
    by (rule int_mod_pos_eq [OF now]) (use assms(7,8) in simp_all)
  ultimately have "formatTime now < formatTime due"
    using formatTime_within_second(2) [of due now] assms(6,7) by simp
  with b' \<open>b' = b\<close> assms(5) show False by simp
qed

lemma whole_second_retry_is_late_witness:
  "\<not> eligible created_db (sample_time + Millisecond) (hd (db_operations created_db))"
proof (rule whole_second_retry_is_late [OF reachable_created])
  show "hd (db_operations created_db) \<in> set (db_operations created_db)" by (simp add: sample_created)
  show "outbox_row_of (sample_envelope ''e1'') sample_time \<in> set (db_outbox created_db)" by (simp add: sample_created)
  show "sample_time mod Second = 0" by (simp add: sample_time_def unix_epoch_def Second_def)
qed (simp_all add: sample_created outbox_row_of_def operation_row_of_def Millisecond_def Second_def)

text \<open>
  \<open>SyncStats\<close> accounts for every operation of the log exactly once, as pending, waiting for
  reconciliation or synchronized.
\<close>

theorem sync_stats_account_for_all_operations:
  assumes "edge_reachable db" "SyncStats db = Inr stats"
  shows "ss_Pending stats + ss_Reconciliation stats + ss_Synchronized stats = length (db_operations db)"
proof -
  have count: "length (filter (\<lambda>r. ob_state r = Pending) rows) + length (filter (\<lambda>r. ob_state r = Reconciliation) rows)
      + length (filter (\<lambda>r. ob_state r = Synchronized) rows) = length rows" for rows
  proof (induction rows)
    case (Cons r rows)
    then show ?case by (cases "ob_state r") simp_all
  qed simp
  have "length (db_outbox db) = length (db_operations db)"
    using operations_okD [OF reachable_ok [OF assms(1)]] unfolding operations_ok_def by (metis length_map)
  with count [of "db_outbox db"] assms(2) show ?thesis
    by (auto simp: SyncStats_def Let_def rbind_Inr_iff)
qed

lemma sync_stats_account_for_all_operations_witness:
  "\<exists>stats. SyncStats created_db = Inr stats \<and> ss_Pending stats + ss_Reconciliation stats + ss_Synchronized stats = 1"
proof -
  have "db_sync_metadata created_db = db_sync_metadata empty_db"
    by (simp add: created_db_def sample_create_def evaluate_create sample_inputs)
  then obtain stats where stats: "SyncStats created_db = Inr stats"
    by (simp add: SyncStats_def Let_def parseOptionalTime_def empty_db_def)
  from sync_stats_account_for_all_operations [OF reachable_created stats] stats show ?thesis
    by (simp add: sample_created)
qed

subsection \<open>Pairing codes and sessions\<close>

lemma run_command_rest: "edge_ok db \<Longrightarrow> same_rest db (snd (run_command now route hash env c db))"
  by (erule run_command_cases [of _ now route hash env c]) (simp_all add: saved_def same_rest_def)

text \<open>Every step keeps the tables of the pairing codes and sessions well formed, consumed codes consumed and revoked sessions revoked.\<close>

definition auth_kept :: "db \<Rightarrow> db \<Rightarrow> bool" where
  "auth_kept db db' \<longleftrightarrow> (auth_ok db \<longrightarrow> auth_ok db') \<and> (\<forall>c. consumed c db \<longrightarrow> consumed c db')
     \<and> (\<forall>t. revoked t db \<longrightarrow> revoked t db')"

lemma same_rest_auth: "same_rest db db' \<Longrightarrow> auth_kept db db'"
  by (simp add: same_rest_def auth_kept_def auth_ok_def consumed_def revoked_def)

lemma auth_step: "edge_step db db' \<Longrightarrow> edge_ok db \<Longrightarrow> auth_kept db db'"
proof (induction rule: edge_step.induct)
  case (step_create db now newID route hash env input)
  with run_command_rest [of db now route hash env "Create newID input"] show ?case by (simp add: same_rest_auth)
next
  case (step_order db now route hash k env input')
  with run_command_rest [of db now route hash env "MoveOrder k input'"] show ?case by (simp add: same_rest_auth)
next
  case (step_ticket db now route hash k env input'')
  with run_command_rest [of db now route hash env "MoveTicket k input''"] show ?case by (simp add: same_rest_auth)
next
  case (step_tickets db now route hash k env to' expected)
  with run_command_rest [of db now route hash env "MoveTickets k to' expected"] show ?case by (simp add: same_rest_auth)
next
  case (step_results db ids results now)
  have "db_pairing_codes (RecordSyncResults ids results now db) = db_pairing_codes db"
    "db_local_sessions (RecordSyncResults ids results now db) = db_local_sessions db"
    by (simp_all add: RecordSyncResults_def Let_def case_prod_beta)
  then show ?case by (simp add: auth_kept_def auth_ok_def consumed_def revoked_def)
next
  case (step_failure db ids msg now)
  have "db_pairing_codes (RecordSyncFailure ids msg now db) = db_pairing_codes db"
    "db_local_sessions (RecordSyncFailure ids msg now db) = db_local_sessions db"
    by (simp_all add: RecordSyncFailure_def Let_def)
  then show ?case by (simp add: auth_kept_def auth_ok_def consumed_def revoked_def)
next
  case (step_pair db now c role e)
  show ?case using CreatePairingCode_ok consumed_stays(1) revoked_stays(1) unfolding auth_kept_def by blast
next
  case (step_exchange db now c t e)
  show ?case using ExchangePairingCode_ok consumed_stays(2) revoked_stays(2) unfolding auth_kept_def by blast
next
  case (step_revoke db now t)
  show ?case using RevokeSession_ok consumed_stays(3) revoked_stays(3) unfolding auth_kept_def by blast
qed

lemma auth_steps:
  assumes "edge_step\<^sup>*\<^sup>* db db'" "edge_ok db"
  shows "auth_kept db db'"
  using assms
proof (induction rule: rtranclp_induct)
  case (step y z)
  with edge_steps_ok auth_step show ?case unfolding auth_kept_def by blast
qed (simp add: auth_kept_def)

lemma reachable_auth: "edge_reachable db \<Longrightarrow> auth_ok db"
  using auth_steps [OF _ edge_ok_empty] unfolding edge_reachable_def auth_kept_def
  by (auto simp: auth_ok_def empty_db_def)

text \<open>
  C40: A pairing code is exchanged at most once: after one successful exchange every later exchange of
  the same code, whatever happens in between and whatever token it asks for, is refused and changes nothing.
\<close>

theorem pairing_code_is_single_use:
  assumes "edge_reachable db" "ExchangePairingCode now code token expires db = (Inr role, db1)"
    and "edge_step\<^sup>*\<^sup>* db1 db2"
  shows "ExchangePairingCode now' code token' expires' db2 = (Inl ErrInvalidPairingCode, db2)"
proof -
  from assms(2) have body: "exchange_body now code token expires db = Inr (role, db1)"
    by (simp add: ExchangePairingCode_def transact_Inr_iff)
  have reach: "edge_reachable db1" using reachable_step [OF assms(1) step_exchange] assms(2) by (metis snd_conv)
  then have reach2: "edge_reachable db2" using assms(3) by (simp add: edge_reachable_def)
  from auth_steps [OF assms(3) reachable_ok [OF reach]] exchange_consumes [OF body]
  have "consumed code db2" by (simp add: auth_kept_def)
  from consumed_no_exchange [OF reachable_auth [OF reach2] this] show ?thesis
    by (simp add: ExchangePairingCode_def transact_def)
qed

definition paired_db :: db where
  "paired_db = snd (CreatePairingCode sample_time ''code'' ''chef'' (sample_time + 10 * Minute) empty_db)"

lemma reachable_paired: "edge_reachable paired_db"
  unfolding paired_db_def by (rule reachable_step [OF reachable_empty step_pair])

lemma sample_expiry: "parseTime (formatTime (sample_time + n * Minute)) = Some (sample_time + n * Minute)"
  if "0 \<le> n" "n \<le> 100000"
proof (rule parse_format)
  from that show "0 \<le> sample_time + n * Minute" by (simp add: sample_time_def unix_epoch_def Minute_def Second_def)
  have "n * Minute \<le> 100000 * Minute" using that by (intro mult_right_mono) (simp_all add: Minute_def Second_def)
  then show "sample_time + n * Minute < max_time"
    by (simp add: sample_time_def unix_epoch_def Minute_def Second_def max_time_def days_before_year_def)
qed

lemma sample_exchange:
  "fst (ExchangePairingCode sample_time ''code'' ''token'' (sample_time + 60 * Minute) paired_db) = Inr ''chef''"
  using sample_expiry [of 10] by (simp add: paired_db_def CreatePairingCode_def transact_def empty_db_def valid_role_def
      ExchangePairingCode_def exchange_body_def open_code_def) (simp add: Minute_def Second_def)

lemma pairing_code_is_single_use_witness:
  "fst (ExchangePairingCode sample_time ''code'' ''other'' (sample_time + Minute)
     (snd (ExchangePairingCode sample_time ''code'' ''token'' (sample_time + 60 * Minute) paired_db))) = Inl ErrInvalidPairingCode"
proof -
  let ?x = "ExchangePairingCode sample_time ''code'' ''token'' (sample_time + 60 * Minute) paired_db"
  have "?x = (Inr ''chef'', snd ?x)" using sample_exchange by (metis prod.collapse)
  from pairing_code_is_single_use [OF reachable_paired this rtranclp.rtrancl_refl] show ?thesis by simp
qed

text \<open>
  A revoked session never authenticates again, at any time and whatever happens after its revocation.
\<close>

theorem revoked_session_stays_out:
  assumes "edge_reachable db" "RevokeSession now token db = (Inr (), db1)" "edge_step\<^sup>*\<^sup>* db1 db2"
  shows "AuthenticateSession now' token db2 = Inl ErrInvalidSession"
proof -
  have reach: "edge_reachable db1" using reachable_step [OF assms(1) step_revoke] assms(2) by (metis snd_conv)
  then have reach2: "edge_reachable db2" using assms(3) by (simp add: edge_reachable_def)
  have "revoked token db1" using revoke_revokes [of now token db] assms(2) by simp
  with auth_steps [OF assms(3) reachable_ok [OF reach]] have "revoked token db2" by (simp add: auth_kept_def)
  from revoked_no_session [OF reachable_auth [OF reach2] this] show ?thesis .
qed

lemma exchange_sessions:
  assumes "exchange_body now code token expires db = Inr (role, db')"
  shows "db_local_sessions db' = db_local_sessions db @ [\<lparr>ls_token_hash = token, ls_role = role,
     ls_created_at = formatTime now, ls_expires_at = formatTime expires, ls_revoked_at = None\<rparr>]"
  by (rule exchange_Inr [OF assms]) simp

definition session_db :: db where
  "session_db = snd (ExchangePairingCode sample_time ''code'' ''token'' (sample_time + 60 * Minute) paired_db)"

lemma reachable_session: "edge_reachable session_db"
  unfolding session_db_def by (rule reachable_step [OF reachable_paired step_exchange])

lemma sample_exchanged: "ExchangePairingCode sample_time ''code'' ''token'' (sample_time + 60 * Minute) paired_db = (Inr ''chef'', session_db)"
  using sample_exchange by (simp add: session_db_def prod_eq_iff)

lemma sample_sessions: "db_local_sessions session_db = [\<lparr>ls_token_hash = ''token'', ls_role = ''chef'',
   ls_created_at = formatTime sample_time, ls_expires_at = formatTime (sample_time + 60 * Minute), ls_revoked_at = None\<rparr>]"
proof -
  have body: "exchange_body sample_time ''code'' ''token'' (sample_time + 60 * Minute) paired_db = Inr (''chef'', session_db)"
    using sample_exchanged by (simp add: ExchangePairingCode_def transact_Inr_iff)
  show ?thesis
    unfolding exchange_sessions [OF body] by (simp add: paired_db_def CreatePairingCode_def transact_def empty_db_def valid_role_def)
qed

lemma revoked_session_stays_out_witness:
  "AuthenticateSession sample_time ''token'' (snd (RevokeSession sample_time ''token'' session_db)) = Inl ErrInvalidSession"
proof -
  have "RevokeSession sample_time ''token'' session_db = (Inr (), snd (RevokeSession sample_time ''token'' session_db))"
    by (simp add: RevokeSession_def sample_sessions live_session_def)
  from revoked_session_stays_out [OF reachable_session this rtranclp.rtrancl_refl] show ?thesis .
qed

text \<open>
  The session that an exchange opens authenticates with the role of its pairing code, one of the three
  known roles, exactly until it expires.
\<close>

theorem exchanged_session_authenticates:
  assumes "edge_reachable db" "ExchangePairingCode now code token expires db = (Inr role, db1)"
    and "0 \<le> expires" "expires < max_time"
  shows "AuthenticateSession now' token db1 = (if now' < expires then Inr role else Inl ErrInvalidSession)
    \<and> role \<in> {''manager'', ''cashier'', ''chef''}
    \<and> (\<exists>r \<in> set (db_pairing_codes db). pc_code_hash r = code \<and> pc_role r = role \<and> pc_consumed_at r = None)"
proof -
  from assms(2) have body: "exchange_body now code token expires db = Inr (role, db1)"
    by (simp add: ExchangePairingCode_def transact_Inr_iff)
  from exchange_Inr [OF body] obtain row where row: "row \<in> set (db_pairing_codes db)" "open_code code row" "pc_role row = role"
    and role: "valid_role role" and new: "\<forall>s \<in> set (db_local_sessions db). ls_token_hash s \<noteq> token"
    by metis
  note db1 = exchange_sessions [OF body]
  from new have none: "List.find (live_session token) (db_local_sessions db) = None"
    by (auto simp: find_None_iff live_session_def)
  have append: "List.find P (xs @ ys) = (case List.find P xs of None \<Rightarrow> List.find P ys | Some x \<Rightarrow> Some x)" for P :: "local_session_row \<Rightarrow> bool" and xs ys
    by (induction xs) simp_all
  have "AuthenticateSession now' token db1 = (if now' < expires then Inr role else Inl ErrInvalidSession)"
    using parse_format [OF assms(3,4)] by (simp add: AuthenticateSession_def db1 append none) (simp add: live_session_def)
  with row role show ?thesis by (auto simp: valid_role_def open_code_def)
qed

lemma exchanged_session_authenticates_witness:
  "AuthenticateSession sample_time ''token'' session_db = Inr ''chef''"
  using exchanged_session_authenticates [OF reachable_paired sample_exchanged, of sample_time]
  by (simp add: sample_time_def unix_epoch_def Minute_def Second_def max_time_def days_before_year_def)

subsection \<open>Batches\<close>

definition acceptable_batch :: "(push_request \<Rightarrow> nat) \<Rightarrow> syncer_config \<Rightarrow> string \<Rightarrow> push_request \<Rightarrow> bool" where
  "acceptable_batch len config batchID request \<longleftrightarrow> pr_BatchID request = batchID \<and> pr_EdgeID request = sc_EdgeID config
     \<and> pr_OutletID request = sc_OutletID config \<and> pr_Operations request \<noteq> []
     \<and> int (length (pr_Operations request)) \<le> sc_BatchSize config
     \<and> int (len (request\<lparr>pr_BatchID := ''00000000-0000-7000-8000-000000000000''\<rparr>)) \<le> sc_MaxBatchBytes config
     \<and> (\<forall>o' \<in> set (pr_Operations request). IsUUIDv7 (op_OperationID o') \<and> env_ID (op_Mutation o') = op_OperationID o'
          \<and> env_TenantID (op_Mutation o') = sc_TenantID config \<and> env_OutletID (op_Mutation o') = sc_OutletID config
          \<and> IsUUIDv7 (op_AggregateID o'))"

lemma validateOperationScope_None:
  "validateOperationScope config o' = None \<Longrightarrow> IsUUIDv7 (op_OperationID o') \<and> env_ID (op_Mutation o') = op_OperationID o'
     \<and> env_TenantID (op_Mutation o') = sc_TenantID config \<and> env_OutletID (op_Mutation o') = sc_OutletID config
     \<and> IsUUIDv7 (op_AggregateID o')"
  by (simp add: validateOperationScope_def first_error_None_iff)

lemma fitBatch_fits:
  "fitBatch len e k os m = Inr ops \<Longrightarrow> ops \<noteq> [] \<Longrightarrow> int (len (probe_request e k ops)) \<le> m"
  by (auto simp: fitBatch_def fit_count_Some split: if_splits option.splits)

text \<open>
  The coordinator only ever sends acceptable batches: a cloud that differs from another one only on
  requests that are empty, carry another batch or edge identity, hold an operation outside the configured
  tenant and outlet or without its own UUIDv7 mutation, exceed the batch size or the size limit of the
  protocol, leads to the same result and the same database.
\<close>

theorem only_acceptable_batches_are_sent:
  assumes "edge_reachable db" "0 \<le> sc_BatchSize config"
    and "\<forall>request. acceptable_batch len config batchID request \<longrightarrow> cloud request = cloud' request"
  shows "SyncOnce edge_repository (Some cloud) len config batchID now db
       = SyncOnce edge_repository (Some cloud') len config batchID now db"
proof -
  have push: "push_batch edge_repository cloud \<lparr>pr_BatchID = batchID, pr_EdgeID = sc_EdgeID config, pr_OutletID = sc_OutletID config,
        pr_Operations = ops\<rparr> now db = push_batch edge_repository cloud' \<lparr>pr_BatchID = batchID, pr_EdgeID = sc_EdgeID config,
        pr_OutletID = sc_OutletID config, pr_Operations = ops\<rparr> now db"
    if pend: "PendingOperations db (sc_BatchSize config) now = Inr pending"
      and fit: "fitBatch len (sc_EdgeID config) (sc_OutletID config) pending (sc_MaxBatchBytes config) = Inr ops"
      and scope: "scope_loop config [] ops = None" "ops \<noteq> []" for pending ops
  proof -
    obtain n where "ops = take n pending" using edge_sync.fitBatch_take [OF fit] by blast
    then have "length ops \<le> length pending" by simp
    also have "\<dots> \<le> nat (sc_BatchSize config)" using pending_length [OF reachable_ok [OF assms(1)] pend assms(2)] .
    finally have "int (length ops) \<le> sc_BatchSize config" using assms(2) by simp
    moreover have "\<forall>o' \<in> set ops. IsUUIDv7 (op_OperationID o') \<and> env_ID (op_Mutation o') = op_OperationID o'
       \<and> env_TenantID (op_Mutation o') = sc_TenantID config \<and> env_OutletID (op_Mutation o') = sc_OutletID config
       \<and> IsUUIDv7 (op_AggregateID o')"
      using scope validateOperationScope_None unfolding scope_loop_None by blast
    ultimately have "acceptable_batch len config batchID \<lparr>pr_BatchID = batchID, pr_EdgeID = sc_EdgeID config,
        pr_OutletID = sc_OutletID config, pr_Operations = ops\<rparr>"
      using fitBatch_fits [OF fit] scope(2)
      by (simp add: acceptable_batch_def probe_request_def)
    with assms(3) show ?thesis by (simp add: push_batch_def)
  qed
  show ?thesis
    unfolding SyncOnce_def by (auto simp: edge_repository_def split: sum.split option.split
      intro: push [unfolded edge_repository_def])
qed

lemma only_acceptable_batches_are_sent_witness:
  "SyncOnce edge_repository (Some sample_cloud) (\<lambda>request. 1000) sample_config ''batch'' sample_time created_db
   = SyncOnce edge_repository (Some (\<lambda>request. if pr_Operations request = [] then Inl ''empty'' else sample_cloud request))
       (\<lambda>request. 1000) sample_config ''batch'' sample_time created_db"
  by (rule only_acceptable_batches_are_sent [OF reachable_created])
    (simp_all add: acceptable_batch_def sample_config_def)

text \<open>
  \<open>fitBatch\<close> keeps the longest prefix of the pending operations that encodes within the limit, and
  reports an error exactly when no non-empty prefix fits.
\<close>

theorem fitBatch_longest_prefix:
  assumes "os \<noteq> []" "fits = (\<lambda>n. int (len (probe_request edgeID outletID (take n os))) \<le> maximum)"
  shows "case fitBatch len edgeID outletID os maximum of
      Inr ops \<Rightarrow> \<exists>n. ops = take n os \<and> 1 \<le> n \<and> n \<le> length os \<and> fits n \<and> (\<forall>m. n < m \<and> m \<le> length os \<longrightarrow> \<not> fits m)
    | Inl e \<Rightarrow> e = FirstOperationTooLarge \<and> (\<forall>n. 1 \<le> n \<and> n \<le> length os \<longrightarrow> \<not> fits n)"
proof -
  have "fitBatch len edgeID outletID os maximum =
      (case fit_count fits (length os) of Some n \<Rightarrow> Inr (take n os) | None \<Rightarrow> Inl FirstOperationTooLarge)"
    using assms by (simp add: fitBatch_def)
  then show ?thesis
    by (cases "fit_count fits (length os)") (auto simp: fit_count_Some fit_count_None)
qed

definition sample_operation :: operation where
  "sample_operation = \<lparr>op_OperationID = sample_id ''e1'', op_AggregateType = ''order'', op_AggregateID = sample_id ''a0'',
     op_AggregateVersion = 1, op_CommandType = ''order.create'', op_Mutation = sample_envelope ''e1'', op_RecordedAt = sample_time\<rparr>"

lemma fitBatch_longest_prefix_witness:
  "fitBatch (\<lambda>r. 300 * length (pr_Operations r)) ''edge'' ''outlet'' [sample_operation, sample_operation] 100
     = Inl FirstOperationTooLarge"
proof -
  have "fitBatch (\<lambda>r. 300 * length (pr_Operations r)) ''edge'' ''outlet'' [sample_operation, sample_operation] 100 = Inl e \<Longrightarrow>
      e = FirstOperationTooLarge" for e
    using fitBatch_longest_prefix [of "[sample_operation, sample_operation]", OF _ refl,
        of "\<lambda>r. 300 * length (pr_Operations r)" "''edge''" "''outlet''" 100] by simp
  then show ?thesis by (simp add: fitBatch_def probe_request_def)
qed

text \<open>
  C38: what \<open>appendOperation\<close> writes is what \<open>PendingOperations\<close> reads. The operation of a command, recorded at a
  time of the years 1 to 9999, is decoded from its row with the version and the instant it was logged with and with
  the envelope it was logged with, of whose payload the compact text has been stored. That text has the content of
  the payload, whatever space and escapes were taken out of it or put in, and is its own compact text, so that an
  operation that is written again is stored as it was read. A stored optional time reads back as itself.
\<close>

theorem logged_operations_read_back:
  assumes "0 \<le> now" "now < max_time" "0 \<le> env_OccurredAt env" "env_OccurredAt env < max_time" "json_text False (env_Payload env)"
  defines "stored \<equiv> compact_json (env_Payload env)"
  shows "decode_operation (operation_row_of env aggregateType aggregateID causalityType causalityID version command now sequence)
      = Inr \<lparr>op_OperationID = env_ID env, op_AggregateType = aggregateType, op_AggregateID = aggregateID,
          op_AggregateVersion = version, op_CommandType = command, op_Mutation = env\<lparr>env_Payload := stored\<rparr>, op_RecordedAt = now\<rparr>
    \<and> json_content False stored = json_content False (env_Payload env) \<and> compact_json stored = stored
    \<and> parseOptionalTime (Some (formatTime now)) = Inr (Some now) \<and> parseOptionalTime None = Inr None"
proof -
  have reads: "parseTime (formatTime now) = Some now" by (rule parse_format) (use assms in simp_all)
  moreover have "parseTime [] = None" by code_simp
  ultimately have "formatTime now \<noteq> []" by auto
  moreover have "parseTime (formatTime (env_OccurredAt env)) = Some (env_OccurredAt env)" by (rule parse_format) (use assms in simp_all)
  ultimately show ?thesis using reads compact_json_content [OF assms(5)] compact_json_idem [OF assms(5)]
    by (simp add: decode_operation_def operation_row_of_def parseOptionalTime_def unmarshal_marshal stored_def)
qed

lemma logged_operations_read_back_witness:
  "decode_operation (operation_row_of (sample_envelope ''e1'') ''order'' (sample_id ''a0'') ''order'' (sample_id ''a0'') 1
     ''order.create'' sample_time 1) = Inr sample_operation"
proof -
  have "json_text False (env_Payload (sample_envelope ''e1''))" "compact_json (env_Payload (sample_envelope ''e1'')) = ''{}''"
    by code_simp+
  with logged_operations_read_back [of sample_time "sample_envelope ''e1''" "''order''" "sample_id ''a0''" "''order''"
      "sample_id ''a0''" 1 "''order.create''" 1] show ?thesis
    by (simp add: sample_operation_def) (simp add: sample_envelope_def sample_time_def unix_epoch_def Second_def max_time_def days_before_year_def)
qed

end
