(* ===== verification/Edge_Api_Properties.thy ===== *)
theory Edge_Api_Properties
  imports Edge_Api Edge_Sync_Properties
begin

text \<open>
  What the HTTP API of the edge guarantees on top of the store: which requests reach it, what they
  are checked for, which routes a role can use, and how results are answered.
\<close>

subsection \<open>What a handler does to the store\<close>

lemma readMutation_Inr:
  assumes "readMutation env request = Inr (envelope, hash)"
  obtains body where "read_body (ae_Config env) request = Inr body" "cd_envelope (ae_Codec env) body = Inr envelope"
    "MutationEnvelope_Validate (cd_is_object (ae_Codec env)) envelope = None"
    "TrimSpace (rq_Header request ''Idempotency-Key'') = env_IdempotencyKey envelope"
    "ac_TenantID (ae_Config env) \<noteq> [] \<longrightarrow> env_TenantID envelope = ac_TenantID (ae_Config env)"
    "ac_OutletID (ae_Config env) \<noteq> [] \<longrightarrow> env_OutletID envelope = ac_OutletID (ae_Config env)"
    "canonicalHash (ae_Codec env) body = Inr hash"
proof -
  obtain body where body: "read_body (ae_Config env) request = Inr body"
    using assms by (auto simp: readMutation_def Let_def split: if_splits sum.splits body_error.splits)
  obtain envelope' where envelope: "cd_envelope (ae_Codec env) body = Inr envelope'"
    using assms body by (auto simp: readMutation_def Let_def split: if_splits sum.splits)
  have valid: "MutationEnvelope_Validate (cd_is_object (ae_Codec env)) envelope' = None"
    using assms body envelope by (auto simp: readMutation_def Let_def split: if_splits option.splits)
  obtain hash' where hash: "canonicalHash (ae_Codec env) body = Inr hash'"
    using assms body envelope valid by (auto simp: readMutation_def Let_def split: if_splits sum.splits)
  from assms body envelope valid hash have "envelope' = envelope \<and> hash' = hash
     \<and> TrimSpace (rq_Header request ''Idempotency-Key'') = env_IdempotencyKey envelope
     \<and> (ac_TenantID (ae_Config env) \<noteq> [] \<longrightarrow> env_TenantID envelope = ac_TenantID (ae_Config env))
     \<and> (ac_OutletID (ae_Config env) \<noteq> [] \<longrightarrow> env_OutletID envelope = ac_OutletID (ae_Config env))"
    by (auto simp: readMutation_def Let_def split: if_splits)
  with that body envelope valid hash show ?thesis by blast
qed

fun validated :: "edge_command \<Rightarrow> bool" where
  "validated (Create newID input) \<longleftrightarrow> NewOrder_Validate input = None"
| "validated (MoveOrder k input) \<longleftrightarrow> TransitionOrderPayload_Validate input = None"
| "validated (MoveTicket k input) \<longleftrightarrow> TransitionTicketPayload_Validate input = None"
| "validated (MoveTickets k to' v) \<longleftrightarrow> IsUUIDv7 k \<and> TicketStatus_Valid to' \<and> v \<noteq> 0"

text \<open>Either the handler refuses and changes nothing, or it answers with the result of one validated command.\<close>

definition runs_command :: "api_env \<Rightarrow> api_request \<Rightarrow> db \<Rightarrow> api_response \<times> db \<Rightarrow> bool" where
  "runs_command env request db r \<longleftrightarrow> (\<exists>envelope hash route c. readMutation env request = Inr (envelope, hash)
     \<and> validated c \<and> r = command_response (run_command (ae_Now env) route hash envelope c db))"

definition refuses :: "db \<Rightarrow> api_response \<times> db \<Rightarrow> bool" where
  "refuses db r \<longleftrightarrow> snd r = db \<and> rs_Status (fst r) \<in> {400, 403, 413, 415, 422}"

lemma fail_with_simps [simp]:
  "rs_Status (fail_with status code detail) = (if status = 0 then 500 else status)"
  by (simp add: fail_with_def writeProblem_def problem_def)

lemma readMutation_Inl: "readMutation env request = Inl r \<Longrightarrow> rs_Status r \<in> {400, 403, 413, 415, 422}"
  by (auto simp: readMutation_def Let_def split: if_splits sum.splits option.splits body_error.splits)

lemma with_payload_cases:
  assumes "readMutation env request = Inr (envelope, hash)"
    and "\<And>p. validate p = None \<Longrightarrow> \<exists>route c. validated c \<and> run p db = command_response (run_command (ae_Now env) route hash envelope c db)"
  shows "refuses db (with_payload decode validate envelope run db)
    \<or> runs_command env request db (with_payload decode validate envelope run db)"
proof (cases "\<exists>p. decode (env_Payload envelope) = Inr p \<and> validate p = None")
  case True
  then obtain p where p: "decode (env_Payload envelope) = Inr p" "validate p = None" by blast
  with assms(2) [OF p(2)] assms(1) have "runs_command env request db (with_payload decode validate envelope run db)"
    unfolding runs_command_def with_payload_def by auto
  then show ?thesis ..
next
  case False
  then have "refuses db (with_payload decode validate envelope run db)"
    by (auto simp: refuses_def with_payload_def invalidPayload_def split: sum.splits option.splits)
  then show ?thesis ..
qed

lemma refused_reading: "readMutation env request = Inl r \<Longrightarrow> refuses db (r, db)"
  using readMutation_Inl by (simp add: refuses_def)

lemma handleCreateOrder_cases:
  "refuses db (handleCreateOrder env request db) \<or> runs_command env request db (handleCreateOrder env request db)"
proof (cases "readMutation env request")
  case (Inr m)
  obtain envelope hash where m: "m = (envelope, hash)" by (cases m)
  show ?thesis
    unfolding handleCreateOrder_def Inr m sum.case prod.case
    by (rule with_payload_cases [OF Inr [unfolded m]])
      (metis run_command.simps(1) validated.simps(1))
qed (simp add: handleCreateOrder_def refused_reading)

lemma handleTransitionOrder_cases:
  "refuses db (handleTransitionOrder env k request db) \<or> runs_command env request db (handleTransitionOrder env k request db)"
proof (cases "readMutation env request")
  case (Inr m)
  obtain envelope hash where m: "m = (envelope, hash)" by (cases m)
  show ?thesis
    unfolding handleTransitionOrder_def Inr m sum.case prod.case
    by (rule with_payload_cases [OF Inr [unfolded m]])
      (metis run_command.simps(2) validated.simps(2))
qed (simp add: handleTransitionOrder_def refused_reading)

lemma handleTransitionTicket_cases:
  "refuses db (handleTransitionTicket env k request db) \<or> runs_command env request db (handleTransitionTicket env k request db)"
proof (cases "readMutation env request")
  case (Inr m)
  obtain envelope hash where m: "m = (envelope, hash)" by (cases m)
  show ?thesis
    unfolding handleTransitionTicket_def Inr m sum.case prod.case
    by (rule with_payload_cases [OF Inr [unfolded m]])
      (metis run_command.simps(3) validated.simps(3))
qed (simp add: handleTransitionTicket_def refused_reading)

lemma runs_commandI:
  "readMutation env request = Inr (envelope, hash) \<Longrightarrow> validated c \<Longrightarrow>
   runs_command env request db (command_response (run_command (ae_Now env) route hash envelope c db))"
  unfolding runs_command_def by blast

lemma invalid_refuses [simp]: "refuses db (invalidPayload detail, db)"
  by (simp add: refuses_def invalidPayload_def)

lemma handleBrowserMutation_cases:
  "refuses db (handleBrowserMutation env request db) \<or> runs_command env request db (handleBrowserMutation env request db)"
proof (cases "readMutation env request")
  case (Inr m)
  obtain envelope hash where m: "m = (envelope, hash)" by (cases m)
  note read = Inr [unfolded m]
  have created: "refuses db (browser_created env envelope hash p db) \<or> runs_command env request db (browser_created env envelope hash p db)" for p
    using runs_commandI [OF read, of "Create (ae_NewID env) (the (bmp_Order p))" db mutations_route]
    by (auto simp: browser_created_def split: option.split)
  have status: "refuses db (browser_order_status env envelope hash p db) \<or> runs_command env request db (browser_order_status env envelope hash p db)" for p
    using runs_commandI [OF read, of "MoveTickets (bmp_AggregateID p) (bmp_ToStatus p) (bmp_ExpectedVersion p)" db mutations_route]
    by (auto simp: browser_order_status_def Let_def)
  have ticket: "refuses db (browser_ticket_status env envelope hash p db) \<or> runs_command env request db (browser_ticket_status env envelope hash p db)" for p
    using runs_commandI [OF read, of "MoveTicket (bmp_AggregateID p) \<lparr>ttp_ToStatus = bmp_ToStatus p,
        ttp_ExpectedVersion = bmp_ExpectedVersion p, ttp_ExpectedOrderID = bmp_OrderID p\<rparr>" db mutations_route]
    by (auto simp: browser_ticket_status_def Let_def TransitionTicketPayload_Validate_def first_error_None_iff)
  show ?thesis
    unfolding handleBrowserMutation_def Inr m sum.case prod.case
    using created status ticket by (auto split: sum.split)
qed (simp add: handleBrowserMutation_def refused_reading)

subsection \<open>What a request does\<close>

lemma pairing_handlers_step:
  "snd (handleCreatePairingCode env request db) = db \<or> edge_step db (snd (handleCreatePairingCode env request db))"
  "snd (handleExchangePairingCode env request db) = db \<or> edge_step db (snd (handleExchangePairingCode env request db))"
  "snd (handleRevokeSession env request db) = db \<or> edge_step db (snd (handleRevokeSession env request db))"
proof -
  have pair: "edge_step db db'" if "CreatePairingCode now c role e db = (r, db')" for now c role e r db'
    using step_pair [of db now c role e] that by simp
  show "snd (handleCreatePairingCode env request db) = db \<or> edge_step db (snd (handleCreatePairingCode env request db))"
    unfolding handleCreatePairingCode_def Let_def
    by (auto split: sum.split option.split prod.split dest: pair)
  have exchange: "edge_step db db'" if "ExchangePairingCode now c t e db = (r, db')" for now c t e r db'
    using step_exchange [of db now c t e] that by simp
  show "snd (handleExchangePairingCode env request db) = db \<or> edge_step db (snd (handleExchangePairingCode env request db))"
    unfolding handleExchangePairingCode_def Let_def
    by (auto split: sum.split option.split prod.split dest: exchange)
  have revoke: "edge_step db db'" if "RevokeSession now t db = (r, db')" for now t r db'
    using step_revoke [of db now t] that by simp
  show "snd (handleRevokeSession env request db) = db \<or> edge_step db (snd (handleRevokeSession env request db))"
    unfolding handleRevokeSession_def Let_def
    by (auto split: sum.split option.split prod.split dest: revoke)
qed

lemma runs_command_step: "runs_command env request db r \<Longrightarrow> edge_step db (snd r)"
  using run_command_edge_step by (auto simp: runs_command_def command_response_def)

lemma refuses_step: "refuses db r \<or> runs_command env request db r \<Longrightarrow> snd r = db \<or> edge_step db (snd r)"
  using runs_command_step [of env request db r] by (cases r) (auto simp: refuses_def)

lemma handle_route_step: "snd (handle_route env role request route db) = db \<or> edge_step db (snd (handle_route env role request route db))"
  by (cases route)
    (simp_all only: handle_route.simps snd_conv Let_def pairing_handlers_step simp_thms
      refuses_step [OF handleCreateOrder_cases] refuses_step [OF handleTransitionOrder_cases]
      refuses_step [OF handleTransitionTicket_cases] refuses_step [OF handleBrowserMutation_cases])

lemma mux_serve_step: "snd (mux_serve env role request db) = db \<or> edge_step db (snd (mux_serve env role request db))"
  using handle_route_step by (simp add: mux_serve_def split: option.split)

text \<open>The access check: who may go through to the multiplexer, and in which role.\<close>

definition admitted :: "api_env \<Rightarrow> api_request \<Rightarrow> db \<Rightarrow> string \<Rightarrow> bool" where
  "admitted env request db role \<longleftrightarrow>
    (if HasPrefix (rq_Path request) ''/api/v1'' \<and> ac_BearerToken (ae_Config env) \<noteq> []
        \<and> \<not> (rq_Path request = ''/api/v1/pairing/sessions'' \<and> rq_Method request = ''POST'')
     then authorized env request db = Some role \<and> roleAllows role (rq_Method request) (rq_Path request)
     else role = [])"

lemma ServeHTTP_cases:
  obtains (refused) "snd (ServeHTTP env request db) = db" "rs_Status (fst (ServeHTTP env request db)) \<in> {204, 401, 403, 405}"
  | (served) role headers where "admitted env request db role" "applyCORS (ae_Config env) request = Inr headers"
      "ServeHTTP env request db = (let (r, db') = mux_serve env role request db in (r\<lparr>rs_Header := headers @ rs_Header r\<rparr>, db'))"
proof (cases "applyCORS (ae_Config env) request")
  case (Inl r)
  then have "rs_Status r \<in> {204, 403, 405}"
    by (auto simp: applyCORS_def Let_def split: if_splits)
  with Inl refused show ?thesis by (auto simp: ServeHTTP_def)
next
  case (Inr headers)
  show ?thesis
  proof (cases "HasPrefix (rq_Path request) ''/api/v1'' \<and> ac_BearerToken (ae_Config env) \<noteq> []
        \<and> \<not> (rq_Path request = ''/api/v1/pairing/sessions'' \<and> rq_Method request = ''POST'')")
    case gate: True
    show ?thesis
    proof (cases "authorized env request db")
      case None
      with gate Inr refused show ?thesis by (auto simp: ServeHTTP_def Let_def)
    next
      case (Some role)
      show ?thesis
      proof (cases "roleAllows role (rq_Method request) (rq_Path request)")
        case True
        with gate Some Inr served [of role headers] show ?thesis by (auto simp: ServeHTTP_def admitted_def)
      next
        case False
        with gate Some Inr refused show ?thesis by (auto simp: ServeHTTP_def)
      qed
    qed
  next
    case False
    then have "ServeHTTP env request db = (let (r, db') = mux_serve env [] request db in (r\<lparr>rs_Header := headers @ rs_Header r\<rparr>, db'))"
      using Inr by (auto simp: ServeHTTP_def)
    moreover have "admitted env request db []" unfolding admitted_def if_not_P [OF False] ..
    ultimately show ?thesis using served Inr by blast
  qed
qed

lemma ServeHTTP_step: "snd (ServeHTTP env request db) = db \<or> edge_step db (snd (ServeHTTP env request db))"
proof (cases rule: ServeHTTP_cases [of env request db])
  case (served role headers)
  then have "snd (ServeHTTP env request db) = snd (mux_serve env role request db)" by (simp add: case_prod_beta)
  with mux_serve_step show ?thesis by metis
qed simp

text \<open>
  Whatever requests clients send, in any order and with any content, the edge only ever moves
  through reachable databases, so every invariant of the store holds behind the HTTP API.
\<close>

theorem http_requests_keep_the_database_reachable:
  assumes "edge_reachable db"
  shows "edge_reachable (foldl (\<lambda>db (env, request). snd (ServeHTTP env request db)) db requests)"
  using assms
proof (induction requests arbitrary: db)
  case (Cons r requests)
  have "edge_reachable (snd (ServeHTTP (fst r) (snd r) db))"
    using ServeHTTP_step [of "fst r" "snd r" db] reachable_step [OF Cons.prems] Cons.prems by auto
  from Cons.IH [OF this] show ?case by (simp add: case_prod_beta)
qed simp

text \<open>A sample server without a bootstrap token, and a request that creates the sample order.\<close>

definition sample_server :: "string \<Rightarrow> api_config" where
  "sample_server token = NewServer \<lparr>ac_Version = [], ac_EdgeID = ''edge-1'', ac_TenantID = ''tenant-a'', ac_OutletID = ''outlet-a'',
     ac_BearerToken = token, ac_AllowedOrigin = [], ac_SyncEnabled = True, ac_MaxBodyBytes = 0, ac_PairingTTL = 0, ac_SessionTTL = 0\<rparr>"

definition sample_browser :: browser_mutation_payload where
  "sample_browser = \<lparr>bmp_EventType = ''com.feastcloud.order.created.v1'', bmp_AggregateType = ''order'',
     bmp_AggregateID = sample_id ''a0'', bmp_Order = Some sample_order, bmp_OrderID = [], bmp_TicketID = [],
     bmp_ToStatus = TicketQueued, bmp_ExpectedVersion = 0\<rparr>"

definition sample_codec :: codec where
  "sample_codec = \<lparr>cd_is_object = (\<lambda>s. True), cd_media_type = (\<lambda>s. Some ''application/json''), cd_sha256 = (\<lambda>s. [1, 2, 3]),
     cd_canonical = (\<lambda>s. Inr s), cd_envelope = (\<lambda>s. Inr (sample_envelope ''e1'')),
     cd_create_order = (\<lambda>s. Inr \<lparr>cop_Order = sample_order\<rparr>), cd_transition_order = (\<lambda>s. Inl ''unexpected''),
     cd_transition_ticket = (\<lambda>s. Inl ''unexpected''), cd_browser_mutation = (\<lambda>s. Inr sample_browser),
     cd_pairing_code = (\<lambda>s. Inl ''unexpected''), cd_pairing_session = (\<lambda>s. Inl ''unexpected'')\<rparr>"

definition sample_api :: "string \<Rightarrow> api_env" where
  "sample_api token = \<lparr>ae_Config = sample_server token, ae_Codec = sample_codec, ae_Now = sample_time, ae_NewID = sample_new_id,
     ae_Random = (\<lambda>n. Some (replicate n 7))\<rparr>"

definition sample_request :: "string \<Rightarrow> string \<Rightarrow> api_request" where
  "sample_request path authorization = \<lparr>rq_Method = ''POST'', rq_Path = path,
     rq_Header = (\<lambda>name. if name = ''Idempotency-Key'' then sample_id ''e1''
                         else if name = ''Authorization'' then authorization else []),
     rq_Query = (\<lambda>_. []), rq_Body = Some ''{}''\<rparr>"

lemma sample_validated:
  "MutationEnvelope_Validate (\<lambda>s. True) (sample_envelope ''e1'') = None" "NewOrder_Validate sample_order = None"
  "TrimSpace (sample_id ''e1'') = sample_id ''e1''"
  by code_simp+

lemma sample_read: "readMutation (sample_api token) (sample_request path authorization) = Inr (sample_envelope ''e1'', ''010203'')"
  by (simp add: readMutation_def sample_api_def sample_request_def sample_codec_def sample_server_def NewServer_def
      defaultMaximumBodyBytes_def read_body_def sample_validated canonicalHash_def hex_byte_def hex_digit_def Let_def)

lemma http_requests_keep_the_database_reachable_witness:
  "edge_reachable (foldl (\<lambda>db (env, request). snd (ServeHTTP env request db)) empty_db
     [(sample_api [], sample_request ''/api/v1/orders'' []), (sample_api [], sample_request ''/api/v1/orders'' [])])"
  by (rule http_requests_keep_the_database_reachable [OF reachable_empty])

lemma match_route_POST_change:
  assumes "snd (handle_route env role request route db) \<noteq> db"
  shows "route \<in> {PairingCodes, PairingSessions, RevokePairing, Orders_Create, Sync_Mutations}
    \<or> (\<exists>k. route = Order_Transition k \<or> route = Ticket_Transition k)"
  using assms by (cases route) (simp_all add: Let_def)

lemma match_route_post:
  "match_route verb path = Some r \<Longrightarrow> r \<in> {PairingCodes, PairingSessions, RevokePairing, Orders_Create, Sync_Mutations}
    \<or> (\<exists>k. r = Order_Transition k \<or> r = Ticket_Transition k) \<Longrightarrow> verb = ''POST''"
  by (auto simp: match_route_def reads_def Let_def split: if_splits list.splits)

lemma join_split_path: "path = concat (map (\<lambda>s. ''/'' @ s) (tl (split_path path))) \<longleftrightarrow> hd (split_path path) = []"
proof -
  have ne: "split_path p \<noteq> []" for p by (induction p) (auto split: list.split)
  have "p = hd (split_path p) @ concat (map (\<lambda>s. ''/'' @ s) (tl (split_path p)))" for p
  proof (induction p)
    case (Cons c p)
    show ?case
    proof (cases "c = CHR ''/''")
      case True
      have "concat (map (\<lambda>s. ''/'' @ s) (split_path p)) = ''/'' @ hd (split_path p) @ concat (map (\<lambda>s. ''/'' @ s) (tl (split_path p)))"
        using ne [of p] by (cases "split_path p") simp_all
      with True Cons show ?thesis by simp
    qed (use Cons ne [of p] in \<open>auto split: list.split\<close>)
  qed simp
  from this [of path] show ?thesis by (metis append_self_conv2 append_eq_append_conv_if append_Nil self_append_conv2)
qed

lemma route_path: "match_route verb path = Some r \<Longrightarrow> r \<notin> {Health, Readiness} \<Longrightarrow>
   path = ''/api/v1'' @ (case r of
     PairingCodes \<Rightarrow> ''/pairing/codes'' | PairingSessions \<Rightarrow> ''/pairing/sessions'' | RevokePairing \<Rightarrow> ''/pairing/sessions/revoke''
   | Orders_List \<Rightarrow> ''/orders'' | Orders_Create \<Rightarrow> ''/orders'' | Order_Get k \<Rightarrow> ''/orders/'' @ k
   | Order_Transition k \<Rightarrow> ''/orders/'' @ k @ ''/transitions''
   | Tickets_List \<Rightarrow> ''/kitchen-tickets'' | Ticket_Get k \<Rightarrow> ''/kitchen-tickets/'' @ k
   | Ticket_Transition k \<Rightarrow> ''/kitchen-tickets/'' @ k @ ''/transitions''
   | Station_Tickets k \<Rightarrow> ''/stations/'' @ k @ ''/tickets''
   | Sync_Mutations \<Rightarrow> ''/sync/mutations'' | Sync_Status \<Rightarrow> ''/sync/status'' | _ \<Rightarrow> [])"
proof -
  assume m: "match_route verb path = Some r" and r: "r \<notin> {Health, Readiness}"
  then obtain rest where segs: "split_path path = [] # ''api'' # ''v1'' # rest"
    by (auto simp: match_route_def Let_def split: if_splits list.splits)
  then have path: "path = ''/api/v1'' @ concat (map (\<lambda>s. ''/'' @ s) rest)"
    using join_split_path [of path] by simp
  note route = m [unfolded match_route_def Let_def segs]
  consider "rest = []" | x where "rest = [x]" | x y where "rest = [x, y]" | x y z where "rest = [x, y, z]"
    using route by (auto split: list.splits)
  then show ?thesis
  proof cases
    case 1
    with route show ?thesis unfolding path by (auto split: if_splits)
  next
    case 2
    with route show ?thesis unfolding path by (auto split: if_splits)
  next
    case 3
    with route show ?thesis unfolding path by (auto split: if_splits)
  next
    case 4
    with route show ?thesis unfolding path by (auto split: if_splits)
  qed
qed

text \<open>
  Behind a configured token the edge changes its state only for admitted requests: whenever a request
  changes the database, it is a POST under \<open>/api/v1\<close> that either exchanges a pairing code or presents the
  bootstrap token or a live session whose role is allowed on that path.
\<close>

theorem only_admitted_requests_change_state:
  assumes "ac_BearerToken (ae_Config env) \<noteq> []" "snd (ServeHTTP env request db) \<noteq> db"
  shows "rq_Method request = ''POST'' \<and> HasPrefix (rq_Path request) ''/api/v1/''
    \<and> (rq_Path request = ''/api/v1/pairing/sessions''
       \<or> (\<exists>role. authorized env request db = Some role \<and> roleAllows role ''POST'' (rq_Path request)))"
proof (cases rule: ServeHTTP_cases [of env request db])
  case (served role headers)
  then have "snd (mux_serve env role request db) \<noteq> db" using assms(2) by (simp add: case_prod_beta)
  then obtain route where route: "match_route (rq_Method request) (rq_Path request) = Some route"
    and change: "snd (handle_route env role request route db) \<noteq> db"
    by (auto simp: mux_serve_def split: option.splits)
  note posts = match_route_POST_change [OF change]
  note post = match_route_post [OF route posts]
  have "HasPrefix (rq_Path request) ''/api/v1/''"
    using route_path [OF route] posts by (auto simp: HasPrefix_def)
  moreover from this have "HasPrefix (rq_Path request) ''/api/v1''"
    by (auto simp: HasPrefix_def prefix_def)
  ultimately show ?thesis using served(1) post assms(1) by (auto simp: admitted_def split: if_splits)
qed (use assms in simp)

text \<open>A server with a bootstrap token, and the sample order created through it.\<close>

lemma sample_create_request:
  assumes "path = ''/api/v1/orders''"
  shows "ServeHTTP (sample_api ''secret'') (sample_request path ''Bearer secret'') empty_db
    = command_response (CreateOrder sample_time sample_new_id ''POST /api/v1/orders'' ''010203'' (sample_envelope ''e1'') sample_order empty_db)"
proof -
  have trim: "TrimSpace ''secret'' = ''secret''" by code_simp
  have route: "match_route ''POST'' path = Some Orders_Create" unfolding assms by code_simp
  have fields: "rq_Method (sample_request path a) = ''POST''" "rq_Path (sample_request path a) = path"
    "rq_Header (sample_request path a) ''Origin'' = []" "rq_Header (sample_request path a) ''Authorization'' = a" for a
    by (simp_all add: sample_request_def)
  have "ac_BearerToken (ae_Config (sample_api ''secret'')) = ''secret''"
    by (simp add: sample_api_def sample_server_def NewServer_def Let_def)
  then have "authorized (sample_api ''secret'') (sample_request path ''Bearer secret'') empty_db = Some ''manager''"
    by (simp add: authorized_def fields HasPrefix_def TrimPrefix_def trim Let_def)
  moreover have "handleCreateOrder (sample_api ''secret'') (sample_request path ''Bearer secret'') empty_db
    = command_response (CreateOrder sample_time sample_new_id ''POST /api/v1/orders'' ''010203'' (sample_envelope ''e1'') sample_order empty_db)"
    by (simp add: handleCreateOrder_def sample_read with_payload_def)
      (simp add: sample_api_def sample_codec_def sample_validated)
  ultimately show ?thesis
    by (simp add: ServeHTTP_def applyCORS_def fields roleAllows_def mux_serve_def route)
      (simp add: assms case_prod_beta)
qed

lemma only_admitted_requests_change_state_witness:
  "authorized (sample_api ''secret'') (sample_request ''/api/v1/orders'' ''Bearer secret'') empty_db \<noteq> None"
proof -
  let ?request = "sample_request ''/api/v1/orders'' ''Bearer secret''"
  have token: "ac_BearerToken (ae_Config (sample_api ''secret'')) \<noteq> []"
    by (simp add: sample_api_def sample_server_def NewServer_def Let_def)
  have "db_orders (snd (ServeHTTP (sample_api ''secret'') ?request empty_db)) \<noteq> []"
    unfolding sample_create_request [OF refl] by (simp add: command_response_def evaluate_create sample_inputs)
  then have "snd (ServeHTTP (sample_api ''secret'') ?request empty_db) \<noteq> empty_db"
    by (auto simp: empty_db_def)
  from only_admitted_requests_change_state [OF token this] show ?thesis by (auto simp: sample_request_def)
qed

definition command_route :: "edge_route \<Rightarrow> bool" where
  "command_route r \<longleftrightarrow> (case r of Orders_Create \<Rightarrow> True | Order_Transition _ \<Rightarrow> True | Ticket_Transition _ \<Rightarrow> True
     | Sync_Mutations \<Rightarrow> True | _ \<Rightarrow> False)"

lemma command_route_cases:
  assumes "command_route route"
  shows "refuses db (handle_route env role request route db) \<or> runs_command env request db (handle_route env role request route db)"
  using assms handleCreateOrder_cases [of db env request] handleTransitionOrder_cases [of db env _ request]
    handleTransitionTicket_cases [of db env _ request] handleBrowserMutation_cases [of db env request]
  by (cases route) (simp_all add: command_route_def)

lemma pairing_keeps_orders:
  assumes "\<not> command_route route"
  shows "db_orders (snd (handle_route env role request route db)) = db_orders db
    \<and> db_tickets (snd (handle_route env role request route db)) = db_tickets db"
proof -
  have keep: "only_delivery db db' \<Longrightarrow> db_orders db' = db_orders db \<and> db_tickets db' = db_tickets db" for db'
    by (simp add: only_delivery_def)
  have pair: "db_orders db' = db_orders db \<and> db_tickets db' = db_tickets db" if "CreatePairingCode now c r e db = (x, db')" for now c r e x db'
    using keep [OF delivery_steps(3) [of db now c r e]] that by simp
  have exchange: "db_orders db' = db_orders db \<and> db_tickets db' = db_tickets db" if "ExchangePairingCode now c t e db = (x, db')" for now c t e x db'
    using keep [OF delivery_steps(4) [of db now c t e]] that by simp
  have revoke: "db_orders db' = db_orders db \<and> db_tickets db' = db_tickets db" if "RevokeSession now t db = (x, db')" for now t x db'
    using keep [OF delivery_steps(5) [of db now t]] that by simp
  have "db_orders (snd (handleCreatePairingCode env request db)) = db_orders db \<and> db_tickets (snd (handleCreatePairingCode env request db)) = db_tickets db"
    unfolding handleCreatePairingCode_def Let_def by (auto split: sum.split option.split prod.split dest: pair)
  moreover have "db_orders (snd (handleExchangePairingCode env request db)) = db_orders db \<and> db_tickets (snd (handleExchangePairingCode env request db)) = db_tickets db"
    unfolding handleExchangePairingCode_def Let_def by (auto split: sum.split option.split prod.split dest: exchange)
  moreover have "db_orders (snd (handleRevokeSession env request db)) = db_orders db \<and> db_tickets (snd (handleRevokeSession env request db)) = db_tickets db"
    unfolding handleRevokeSession_def Let_def by (auto split: sum.split option.split prod.split dest: revoke)
  ultimately show ?thesis using assms by (cases route) (simp_all add: command_route_def Let_def)
qed

text \<open>
  C14: A request that changes orders or tickets is one validated command: its envelope decoded and passed
  all checks, its idempotency key is the header's, its tenant and outlet are those of the edge, its
  payload is valid, and the response and the database are those of the store's command.
\<close>

theorem order_changes_are_validated_commands:
  assumes "ServeHTTP env request db = (response, db')" "db_orders db' \<noteq> db_orders db \<or> db_tickets db' \<noteq> db_tickets db"
  shows "\<exists>body envelope hash route c r headers.
      read_body (ae_Config env) request = Inr body \<and> cd_envelope (ae_Codec env) body = Inr envelope
    \<and> MutationEnvelope_Validate (cd_is_object (ae_Codec env)) envelope = None
    \<and> env_IdempotencyKey envelope = TrimSpace (rq_Header request ''Idempotency-Key'')
    \<and> (ac_TenantID (ae_Config env) \<noteq> [] \<longrightarrow> env_TenantID envelope = ac_TenantID (ae_Config env))
    \<and> (ac_OutletID (ae_Config env) \<noteq> [] \<longrightarrow> env_OutletID envelope = ac_OutletID (ae_Config env))
    \<and> canonicalHash (ae_Codec env) body = Inr hash \<and> validated c
    \<and> run_command (ae_Now env) route hash envelope c db = (r, db')
    \<and> response = (writeCommandResult r)\<lparr>rs_Header := headers @ rs_Header (writeCommandResult r)\<rparr>"
proof (cases rule: ServeHTTP_cases [of env request db])
  case refused
  with assms show ?thesis by simp
next
  case (served role headers)
  obtain res where mux: "mux_serve env role request db = (res, db')" "response = res\<lparr>rs_Header := headers @ rs_Header res\<rparr>"
    using served(3) assms(1) by (auto simp: case_prod_beta prod_eq_iff)
  then obtain route where route: "handle_route env role request route db = (res, db')"
    using assms(2) by (auto simp: mux_serve_def split: option.splits)
  then have "command_route route" using pairing_keeps_orders [of route env role request db] assms(2) by auto
  from command_route_cases [OF this, of db env role request] route assms(2)
  have "runs_command env request db (res, db')" by (auto simp: refuses_def)
  then obtain envelope hash route' c where c: "readMutation env request = Inr (envelope, hash)" "validated c"
    "(res, db') = command_response (run_command (ae_Now env) route' hash envelope c db)"
    unfolding runs_command_def by blast
  obtain r where r: "run_command (ae_Now env) route' hash envelope c db = (r, db')" "res = writeCommandResult r"
    using c(3) by (auto simp: command_response_def prod_eq_iff)
  from readMutation_Inr [OF c(1)] obtain body where
    "read_body (ae_Config env) request = Inr body" "cd_envelope (ae_Codec env) body = Inr envelope"
    "MutationEnvelope_Validate (cd_is_object (ae_Codec env)) envelope = None"
    "TrimSpace (rq_Header request ''Idempotency-Key'') = env_IdempotencyKey envelope"
    "ac_TenantID (ae_Config env) \<noteq> [] \<longrightarrow> env_TenantID envelope = ac_TenantID (ae_Config env)"
    "ac_OutletID (ae_Config env) \<noteq> [] \<longrightarrow> env_OutletID envelope = ac_OutletID (ae_Config env)"
    "canonicalHash (ae_Codec env) body = Inr hash" .
  moreover from mux(2) r(2) have
    "response = (writeCommandResult r)\<lparr>rs_Header := headers @ rs_Header (writeCommandResult r)\<rparr>" by simp
  ultimately show ?thesis using c(2) r(1) by (intro exI conjI) (assumption | simp)+
qed

lemma order_changes_are_validated_commands_witness:
  "\<exists>body. read_body (sample_server ''secret'') (sample_request ''/api/v1/orders'' ''Bearer secret'') = Inr body"
proof -
  let ?r = "ServeHTTP (sample_api ''secret'') (sample_request ''/api/v1/orders'' ''Bearer secret'') empty_db"
  have "?r = (fst ?r, snd ?r)" by simp
  moreover have "db_orders (snd ?r) \<noteq> db_orders empty_db"
    unfolding sample_create_request [OF refl] by (simp add: command_response_def evaluate_create sample_inputs)
  ultimately show ?thesis
    using order_changes_are_validated_commands [of "sample_api ''secret''" "sample_request ''/api/v1/orders'' ''Bearer secret''"]
    by (fastforce simp: sample_api_def)
qed

subsection \<open>Roles\<close>

text \<open>
  A paired device can only use the routes of its role: a chef reaches discovery, the kitchen tickets, the
  station queues, the synchronization routes and the revocation of its own session, a cashier discovery, the
  orders, the synchronization routes and the revocation; neither can create a pairing code, and any other
  role reaches nothing but the revocation.
\<close>

theorem roles_limit_routes:
  assumes "match_route verb path = Some route" "roleAllows role verb path" "role \<noteq> ''manager''"
    and "route \<notin> {Health, Readiness}"
  shows "route = RevokePairing
    \<or> role \<in> {''cashier'', ''chef''} \<and> route \<in> {Discovery, Sync_Mutations, Sync_Status}
    \<or> role = ''cashier'' \<and> (route \<in> {Orders_List, Orders_Create} \<or> (\<exists>k. route = Order_Get k \<or> route = Order_Transition k))
    \<or> role = ''chef'' \<and> (route = Tickets_List \<or> (\<exists>k. route = Ticket_Get k \<or> route = Ticket_Transition k \<or> route = Station_Tickets k))"
proof -
  note path = route_path [OF assms(1,4)]
  show ?thesis
    by (cases route) (use path assms(2-4) in \<open>simp_all add: roleAllows_def HasPrefix_def split: if_splits\<close>)
qed

lemma roles_limit_routes_witness:
  "\<exists>route. match_route ''POST'' ''/api/v1/kitchen-tickets/t1/transitions'' = Some route \<and> route \<noteq> Orders_Create"
proof -
  have "match_route ''POST'' ''/api/v1/kitchen-tickets/t1/transitions'' = Some (Ticket_Transition ''t1'')"
    by (simp add: match_route_def Let_def)
  moreover from roles_limit_routes [OF this, of "''chef''"] have "Ticket_Transition ''t1'' \<noteq> Orders_Create"
    by (simp add: roleAllows_def HasPrefix_def)
  ultimately show ?thesis by blast
qed

text \<open>
  The role check looks at the path only, and the path of the browser ingress serves all kinds of commands:
  a chef, whom the API refuses to create an order on its own route, creates the same order, under the same
  identity checks, by sending it as a created event to \<open>/api/v1/sync/mutations\<close>.
\<close>

theorem chef_creates_orders_through_ingress:
  assumes "rq_Method request = ''POST''" "rq_Header request ''Origin'' = []" "ac_BearerToken (ae_Config env) \<noteq> []"
    and "authorized env request db = Some ''chef''"
    and "readMutation env request = Inr (envelope, hash)"
    and "cd_browser_mutation (ae_Codec env) (env_Payload envelope) = Inr payload"
    and "bmp_EventType payload = ''com.feastcloud.order.created.v1''" "bmp_AggregateType payload = ''order''"
    and "bmp_Order payload = Some ord" "bmp_AggregateID payload = no_ID ord" "NewOrder_Validate ord = None"
  shows "(rq_Path request = ''/api/v1/orders'' \<longrightarrow> ServeHTTP env request db =
            (fail_with 403 ''permission_denied'' ''this outlet role cannot perform the requested action'', db))
    \<and> (rq_Path request = ''/api/v1/sync/mutations'' \<longrightarrow> ServeHTTP env request db =
            command_response (CreateOrder (ae_Now env) (ae_NewID env) mutations_route hash envelope ord db))"
proof (intro conjI impI)
  have cors: "applyCORS (ae_Config env) request = Inr []" using assms(2) by (simp add: applyCORS_def)
  show "ServeHTTP env request db = (fail_with 403 ''permission_denied'' ''this outlet role cannot perform the requested action'', db)"
    if path: "rq_Path request = ''/api/v1/orders''"
    using assms(1,3,4) cors path by (simp add: ServeHTTP_def HasPrefix_def roleAllows_def)
  have "no_ID ord \<noteq> []"
    using assms(11) length_matches [of uuid_classes "no_ID ord"]
    by (auto simp: NewOrder_Validate_def first_error_Cons IsUUIDv7_def split: option.splits)
  then have "handleBrowserMutation env request db =
      command_response (CreateOrder (ae_Now env) (ae_NewID env) mutations_route hash envelope ord db)"
    using assms(5-11) by (simp add: handleBrowserMutation_def browser_created_def)
  moreover have "match_route ''POST'' ''/api/v1/sync/mutations'' = Some Sync_Mutations" by code_simp
  ultimately show "ServeHTTP env request db =
      command_response (CreateOrder (ae_Now env) (ae_NewID env) mutations_route hash envelope ord db)"
    if path: "rq_Path request = ''/api/v1/sync/mutations''"
    using assms(1,3,4) cors path
    by (simp add: ServeHTTP_def HasPrefix_def roleAllows_def mux_serve_def case_prod_beta)
qed

definition chef_db :: db where
  "chef_db = snd (ExchangePairingCode sample_time ''code'' ''010203'' (sample_time + 60 * Minute) paired_db)"

lemma sample_chef:
  "authorized (sample_api ''secret'') (sample_request path ''Bearer device'') chef_db = Some ''chef''"
proof -
  have "fst (ExchangePairingCode sample_time ''code'' ''010203'' (sample_time + 60 * Minute) paired_db) = Inr ''chef''"
    using sample_expiry [of 10] by (simp add: paired_db_def CreatePairingCode_def transact_def empty_db_def valid_role_def
      ExchangePairingCode_def exchange_body_def open_code_def) (simp add: Minute_def Second_def)
  then have "exchange_body sample_time ''code'' ''010203'' (sample_time + 60 * Minute) paired_db = Inr (''chef'', chef_db)"
    by (simp add: chef_db_def ExchangePairingCode_def transact_def split: sum.splits prod.splits)
  then have "db_local_sessions chef_db = [\<lparr>ls_token_hash = ''010203'', ls_role = ''chef'', ls_created_at = formatTime sample_time,
      ls_expires_at = formatTime (sample_time + 60 * Minute), ls_revoked_at = None\<rparr>]"
    using exchange_sessions by (simp add: paired_db_def CreatePairingCode_def transact_def empty_db_def valid_role_def)
  moreover have "TrimSpace ''device'' = ''device''" by code_simp
  ultimately show ?thesis
    using sample_expiry [of 60]
    by (simp add: authorized_def AuthenticateSession_def live_session_def HasPrefix_def TrimPrefix_def Let_def sample_api_def
        sample_server_def NewServer_def sample_request_def hashSecret_def sample_codec_def hex_byte_def hex_digit_def)
      (simp add: Minute_def Second_def)
qed

lemma chef_creates_orders_through_ingress_witness:
  "ServeHTTP (sample_api ''secret'') (sample_request ''/api/v1/orders'' ''Bearer device'') chef_db =
     (fail_with 403 ''permission_denied'' ''this outlet role cannot perform the requested action'', chef_db)"
proof -
  have "rq_Method (sample_request p a) = ''POST''" "rq_Path (sample_request p a) = p"
    "rq_Header (sample_request p a) ''Origin'' = []" for p a by (simp_all add: sample_request_def)
  moreover have "ac_BearerToken (ae_Config (sample_api ''secret'')) \<noteq> []"
    by (simp add: sample_api_def sample_server_def NewServer_def Let_def)
  moreover have "cd_browser_mutation (ae_Codec (sample_api ''secret'')) (env_Payload (sample_envelope ''e1'')) = Inr sample_browser"
    by (simp add: sample_api_def sample_codec_def)
  ultimately show ?thesis
    using chef_creates_orders_through_ingress [OF _ _ _ sample_chef sample_read,
      where payload = sample_browser and ord = sample_order]
    by (simp add: sample_browser_def sample_validated)
qed

lemma set_sql_limit: "set (sql_limit limit rows) \<subseteq> set rows"
  by (auto simp: sql_limit_def dest: in_set_takeD)

text \<open>
  Listing is scoped and bounded: an orders list only holds orders stored for the configured tenant and
  outlet, with the requested status when one is given, and at most as many as the requested limit, which
  is between 1 and 500; a query outside these bounds is refused.
\<close>

theorem order_listing_is_scoped_and_bounded:
  assumes "edge_reachable db" "handleListOrders env request db = response"
  shows "rs_Status response = 422 \<or> (\<exists>orders limit. response = writeJSON 200 (OrdersBody orders)
    \<and> parseLimit request = Inr limit \<and> 1 \<le> limit \<and> limit \<le> 500 \<and> int (length orders) \<le> limit
    \<and> (\<forall>ord \<in> set orders. getOrder db (ac_TenantID (ae_Config env)) (ac_OutletID (ae_Config env)) (o_ID ord) = Inr ord
         \<and> (rq_Query request ''status'' \<noteq> [] \<longrightarrow> order_status_text (o_Status ord) = rq_Query request ''status'')))"
proof (cases "parseLimit request")
  case (Inl r)
  with assms(2) have "rs_Status response = 422"
    by (auto simp: handleListOrders_def parseLimit_def Let_def split: if_splits option.splits)
  then show ?thesis ..
next
  case limit: (Inr limit)
  then have bounds: "1 \<le> limit" "limit \<le> 500"
    by (auto simp: parseLimit_def Let_def split: if_splits option.splits)
  show ?thesis
  proof (cases "rq_Query request ''status'' \<noteq> [] \<and> \<not> OrderStatus_Valid (order_status_of (rq_Query request ''status''))")
    case True
    with limit assms(2) show ?thesis by (auto simp: handleListOrders_def)
  next
    case False
    let ?status = "order_status_of (rq_Query request ''status'')"
    let ?orders = "ListOrders db (ac_TenantID (ae_Config env)) (ac_OutletID (ae_Config env)) ?status limit"
    have given: "order_status_text ?status = rq_Query request ''status''"
      by (auto simp: order_status_of_def find_Some_iff split: option.split)
    have "response = writeJSON 200 (OrdersBody ?orders)" using False limit assms(2) by (auto simp: handleListOrders_def)
    moreover have "int (length ?orders) \<le> limit"
    proof -
      have "length ?orders \<le> nat limit" using bounds by (simp add: ListOrders_def sql_limit_def)
      then show ?thesis using bounds(1) by linarith
    qed
    moreover have "getOrder db (ac_TenantID (ae_Config env)) (ac_OutletID (ae_Config env)) (o_ID ord) = Inr ord
         \<and> (rq_Query request ''status'' \<noteq> [] \<longrightarrow> order_status_text (o_Status ord) = rq_Query request ''status'')"
      if ord: "ord \<in> set ?orders" for ord
    proof -
      from ord obtain row where row: "row \<in> set (db_orders db)" "or_tenant_id row = ac_TenantID (ae_Config env)"
        "or_outlet_id row = ac_OutletID (ae_Config env)" "order_status_text ?status \<noteq> [] \<longrightarrow> or_status row = ?status" "ord = or_data_json row"
        by (clarsimp simp: ListOrders_def dest!: subsetD [OF set_sql_limit])
      note ok = baseD(2) [OF reachable_base [OF assms(1)]]
      have rowof: "row = order_row_of ord" using ok row(1,5) by (simp add: orders_ok_def table_ok_def)
      have "orders_map db (o_ID ord) = Some ord"
        using ok row(1) rowof order_table.rows_are_values [of "db_orders db" row]
        by (simp add: orders_ok_def orders_map_def order_row_of_def)
      with row(2-4) given show ?thesis by (simp add: getOrder_map [OF ok] rowof order_row_of_def)
    qed
    ultimately show ?thesis using limit bounds by blast
  qed
qed

lemma order_listing_is_scoped_and_bounded_witness:
  "rs_Status (handleListOrders (sample_api []) (sample_request ''/api/v1/orders'' []) created_db) = 422
   \<or> (\<exists>orders. handleListOrders (sample_api []) (sample_request ''/api/v1/orders'' []) created_db = writeJSON 200 (OrdersBody orders)
        \<and> length orders \<le> 500)"
  using order_listing_is_scoped_and_bounded [OF reachable_created refl, of "sample_api []" "sample_request ''/api/v1/orders'' []"]
  by (auto intro: exI)

end
