(* ===== verification/Core_Menu.thy ===== *)
theory Core_Menu
  imports Core_Memory
begin

text \<open>
  The catalogue half of the in-memory repository, \<open>services/core/internal/store/memory_menu.go\<close>:
  units, ingredients, recipes, menu items, menu studios and imports, with their audit events. The
  operations that only answer that a durable database is needed are left out.
\<close>

definition Memory_CreateUnit ::
  "context_error \<Rightarrow> measure_unit \<Rightarrow> audit_event \<Rightarrow> memory_repository \<Rightarrow> (core_failure + unit) \<times> memory_repository" where
  "Memory_CreateUnit ctx value audit = transact (\<lambda>m. guarded
    [ctx,
     fails_if (present (mr_units m) (un_ID value)) (Failed Conflict ''unit''),
     validateAudit audit (un_TenantID value) (ae_OutletID audit) ''unit'' (un_ID value)]
    ((), appendAudit audit (m\<lparr>mr_units := AList.update (un_ID value) value (mr_units m)\<rparr>)))"

definition Memory_Units :: "context_error \<Rightarrow> string \<Rightarrow> memory_repository \<Rightarrow> core_failure + measure_unit list" where
  "Memory_Units ctx tenantID m = list_own ctx un_Name (mr_units m) (\<lambda>v. un_TenantID v = tenantID)"

definition Memory_CreateIngredient ::
  "context_error \<Rightarrow> ingredient \<Rightarrow> audit_event \<Rightarrow> memory_repository \<Rightarrow> (core_failure + unit) \<times> memory_repository" where
  "Memory_CreateIngredient ctx value audit = transact (\<lambda>m. guarded
    [ctx,
     fails_if (present (mr_ingredients m) (in_ID value)) (Failed Conflict ''ingredient''),
     validateAudit audit (in_TenantID value) (ae_OutletID audit) ''ingredient'' (in_ID value)]
    ((), appendAudit audit (m\<lparr>mr_ingredients := AList.update (in_ID value) value (mr_ingredients m)\<rparr>)))"

definition Memory_Ingredients :: "context_error \<Rightarrow> string \<Rightarrow> memory_repository \<Rightarrow> core_failure + ingredient list" where
  "Memory_Ingredients ctx tenantID m = list_own ctx in_Name (mr_ingredients m) (\<lambda>v. in_TenantID v = tenantID)"

definition Memory_CreateRecipe ::
  "context_error \<Rightarrow> recipe \<Rightarrow> recipe_version \<Rightarrow> audit_event \<Rightarrow> memory_repository \<Rightarrow> (core_failure + unit) \<times> memory_repository" where
  "Memory_CreateRecipe ctx value version audit = transact (\<lambda>m. guarded
    [ctx,
     fails_if (present (mr_recipes m) (rp_ID value)) (Failed Conflict ''recipe''),
     validateAudit audit (rp_TenantID value) (ae_OutletID audit) ''recipe'' (rp_ID value)]
    ((), appendAudit audit (m\<lparr>mr_recipes :=
       AList.update (rp_ID value) (value\<lparr>rp_CurrentVersion := Some version\<rparr>) (mr_recipes m)\<rparr>)))"

text \<open>The recipe is looked up by its identifier alone.\<close>

definition Memory_AddRecipeVersion ::
  "context_error \<Rightarrow> recipe_version \<Rightarrow> audit_event \<Rightarrow> memory_repository \<Rightarrow> (core_failure + unit) \<times> memory_repository" where
  "Memory_AddRecipeVersion ctx value audit = transact (\<lambda>m.
    case ctx of Some e \<Rightarrow> Inl e | None \<Rightarrow>
    (case map_of (mr_recipes m) (rv_RecipeID value) of
       None \<Rightarrow> Inl (Failed NotFound ''recipe'')
     | Some recipe \<Rightarrow> guarded
        [validateAudit audit (rv_TenantID value) (ae_OutletID audit) ''recipe'' (rv_RecipeID value)]
        ((), appendAudit audit (m\<lparr>mr_recipes := AList.update (rv_RecipeID value)
           (recipe\<lparr>rp_CurrentVersion := Some value, rp_Meta := (rp_Meta recipe)\<lparr>rm_UpdatedAt := ae_RecordedAt audit\<rparr>\<rparr>)
           (mr_recipes m)\<rparr>))))"

definition Memory_Recipes :: "context_error \<Rightarrow> string \<Rightarrow> memory_repository \<Rightarrow> core_failure + recipe list" where
  "Memory_Recipes ctx tenantID m = list_own ctx rp_Name (mr_recipes m) (\<lambda>v. rp_TenantID v = tenantID)"

definition Memory_CreateMenuItem ::
  "context_error \<Rightarrow> menu_item \<Rightarrow> audit_event \<Rightarrow> memory_repository \<Rightarrow> (core_failure + unit) \<times> memory_repository" where
  "Memory_CreateMenuItem ctx value audit = transact (\<lambda>m. guarded
    [ctx,
     fails_if (present (mr_menuItems m) (mi_ID value)) (Failed Conflict ''menu item''),
     validateAudit audit (mi_TenantID value) (mi_OutletID value) ''menu_item'' (mi_ID value)]
    ((), appendAudit audit (m\<lparr>mr_menuItems := AList.update (mi_ID value) value (mr_menuItems m)\<rparr>)))"

definition Memory_MenuItems :: "context_error \<Rightarrow> string \<Rightarrow> string \<Rightarrow> memory_repository \<Rightarrow> core_failure + menu_item list" where
  "Memory_MenuItems ctx tenantID outletID m =
    list_own ctx mi_Name (mr_menuItems m) (\<lambda>v. mi_TenantID v = tenantID \<and> mi_OutletID v = outletID)"

definition publish_version :: "menu_studio_version \<Rightarrow> menu_studio \<Rightarrow> menu_studio" where
  "publish_version version studio = (if sv_Status version = ''published''
     then studio\<lparr>ms_Status := ''published'', ms_CurrentVersionID := sv_ID version\<rparr> else studio)"

definition Memory_CreateMenuStudio ::
  "context_error \<Rightarrow> menu_studio \<Rightarrow> menu_studio_version \<Rightarrow> audit_event \<Rightarrow> memory_repository
    \<Rightarrow> (core_failure + menu_studio) \<times> memory_repository" where
  "Memory_CreateMenuStudio ctx value version audit = transact (\<lambda>m.
    let version' = version\<lparr>sv_MenuStudioID := ms_ID value\<rparr>;
        value' = publish_version version' (value\<lparr>ms_Current := Some version'\<rparr>)
    in guarded
     [ctx,
      fails_if (present (mr_menuStudios m) (ms_ID value)) (Failed Conflict ''menu studio''),
      validateAudit audit (ms_TenantID value) (ms_OutletID value) ''menu_studio'' (ms_ID value)]
     (value', appendAudit audit (m\<lparr>mr_menuStudios := AList.update (ms_ID value) value' (mr_menuStudios m)\<rparr>)))"

definition Memory_AddMenuStudioVersion ::
  "context_error \<Rightarrow> string \<Rightarrow> string \<Rightarrow> menu_studio_version \<Rightarrow> 64 word \<Rightarrow> audit_event \<Rightarrow> memory_repository
    \<Rightarrow> (core_failure + menu_studio) \<times> memory_repository" where
  "Memory_AddMenuStudioVersion ctx tenantID outletID version expected audit = transact (\<lambda>m.
    case ctx of Some e \<Rightarrow> Inl e | None \<Rightarrow>
    (case map_of (mr_menuStudios m) (sv_MenuStudioID version) of
       None \<Rightarrow> Inl (Failed NotFound ''menu studio'')
     | Some studio \<Rightarrow>
        let version' = version\<lparr>sv_MenuStudioID := ms_ID studio\<rparr>;
            studio' = (publish_version version' (studio\<lparr>ms_Version := ms_Version studio + 1, ms_Current := Some version'\<rparr>))
              \<lparr>ms_UpdatedAt := ae_RecordedAt audit\<rparr>
        in guarded
         [fails_if (ms_TenantID studio \<noteq> tenantID \<or> ms_OutletID studio \<noteq> outletID) (Failed NotFound ''menu studio''),
          fails_if (ms_Version studio \<noteq> expected) (Failed VersionConflict ''menu studio version''),
          validateAudit audit tenantID outletID ''menu_studio'' (ms_ID studio)]
         (studio', appendAudit audit (m\<lparr>mr_menuStudios := AList.update (ms_ID studio) studio' (mr_menuStudios m)\<rparr>))))"

definition Memory_MenuStudios :: "context_error \<Rightarrow> string \<Rightarrow> string \<Rightarrow> memory_repository \<Rightarrow> core_failure + menu_studio list" where
  "Memory_MenuStudios ctx tenantID outletID m =
    list_own ctx ms_Name (mr_menuStudios m) (\<lambda>v. ms_TenantID v = tenantID \<and> ms_OutletID v = outletID)"

definition Memory_LiveMenuStudio :: "context_error \<Rightarrow> string \<Rightarrow> string \<Rightarrow> memory_repository \<Rightarrow> core_failure + menu_studio" where
  "Memory_LiveMenuStudio ctx tenantID outletID m = rbind (Memory_MenuStudios ctx tenantID outletID m) (\<lambda>values.
    case List.find (\<lambda>v. ms_Status v = ''published'' \<and> ms_Current v \<noteq> None) values of
      Some v \<Rightarrow> Inr v | None \<Rightarrow> Inl (Failed NotFound ''live menu''))"

definition Memory_CreateMenuImportDraft ::
  "context_error \<Rightarrow> menu_import_draft \<Rightarrow> audit_event \<Rightarrow> memory_repository
    \<Rightarrow> (core_failure + menu_import_draft) \<times> memory_repository" where
  "Memory_CreateMenuImportDraft ctx value audit = transact (\<lambda>m. guarded
    [ctx,
     fails_if (present (mr_menuImports m) (md_ID value)) (Failed Conflict ''menu import''),
     validateAudit audit (md_TenantID value) (md_OutletID value) ''menu_import'' (md_ID value)]
    (value, appendAudit audit (m\<lparr>mr_menuImports := AList.update (md_ID value) value (mr_menuImports m)\<rparr>)))"

text \<open>Newest first.\<close>

definition Memory_MenuImportDrafts ::
  "context_error \<Rightarrow> string \<Rightarrow> string \<Rightarrow> memory_repository \<Rightarrow> core_failure + menu_import_draft list" where
  "Memory_MenuImportDrafts ctx tenantID outletID m =
    list_own ctx (\<lambda>v. - md_ImportedAt v) (mr_menuImports m) (\<lambda>v. md_TenantID v = tenantID \<and> md_OutletID v = outletID)"

text \<open>An import of orders is only counted, not stored: the repository stays as it is.\<close>

definition import_row :: "imported_order_row \<Rightarrow> order_import_row" where
  "import_row input = \<lparr>ir_ID = io_ID input, ir_RowNumber = io_RowNumber input, ir_ExternalRef = io_ExternalRef input,
     ir_Status = (if io_ErrorCode input \<noteq> [] then ''rejected'' else ''accepted''), ir_ErrorCode = io_ErrorCode input,
     ir_ErrorMessage = io_ErrorMessage input, ir_OrderID = [], ir_RawData = io_RawData input\<rparr>"

definition Memory_ImportOrders ::
  "context_error \<Rightarrow> order_import \<Rightarrow> imported_order_row list \<Rightarrow> audit_event \<Rightarrow> core_failure + order_import" where
  "Memory_ImportOrders ctx value inputs audit = (case ctx of Some e \<Rightarrow> Inl e | None \<Rightarrow> Inr (value\<lparr>
     oi_TotalRows := length inputs, oi_ImportedAt := ae_RecordedAt audit,
     oi_RejectedRows := oi_RejectedRows value + length (filter (\<lambda>input. io_ErrorCode input \<noteq> []) inputs),
     oi_AcceptedRows := oi_AcceptedRows value + length (filter (\<lambda>input. io_ErrorCode input = []) inputs),
     oi_Rows := map import_row inputs, oi_Status := ''completed''\<rparr>))"

end
