(* ===== verification/Core_Memory_System.thy ===== *)
theory Core_Memory_System
  imports Core_Menu
begin

text \<open>
  The in-memory repository as a transition system: the commands the API runs on it, what a
  successful command does to the maps and the audit trail, and the invariant of the reachable
  repositories: every reference resolves inside its tenant.
\<close>

subsection \<open>Commands\<close>

datatype memory_command =
    AddOrganization organization
  | AddTenant organization outlet brand brand_outlet_assignment "station list"
  | AddOutlet outlet
  | AddBrand brand
  | AssignBrand brand_outlet_assignment "64 word"
  | AddStation station
  | AddOrder core_order
  | PushOrder string string string core_order_status "64 word"
  | AddTicket core_ticket
  | PushTicket string string string core_ticket_status "64 word"
  | AddUnit measure_unit
  | AddIngredient ingredient
  | AddRecipe recipe recipe_version
  | AddRecipeVersion recipe_version
  | AddMenuItem menu_item
  | AddMenuStudio menu_studio menu_studio_version
  | AddMenuStudioVersion string string menu_studio_version "64 word"
  | AddMenuImport menu_import_draft

definition outcome :: "(core_failure + 'a) \<times> 's \<Rightarrow> (core_failure + unit) \<times> 's" where
  "outcome r = (map_sum id (\<lambda>_. ()) (fst r), snd r)"

fun run_memory :: "context_error \<Rightarrow> audit_event \<Rightarrow> memory_command \<Rightarrow> memory_repository \<Rightarrow> (core_failure + unit) \<times> memory_repository" where
  "run_memory ctx a (AddOrganization v) m = outcome (Memory_CreateOrganization ctx v a m)"
| "run_memory ctx a (AddTenant org outlet brand asg stations) m = outcome (Memory_ProvisionTenant ctx org outlet brand asg stations a m)"
| "run_memory ctx a (AddOutlet v) m = outcome (Memory_CreateOutlet ctx v a m)"
| "run_memory ctx a (AddBrand v) m = outcome (Memory_CreateBrand ctx v a m)"
| "run_memory ctx a (AssignBrand v expected) m = outcome (Memory_SetBrandOutletAssignment ctx v expected a m)"
| "run_memory ctx a (AddStation v) m = outcome (Memory_CreateStation ctx v a m)"
| "run_memory ctx a (AddOrder v) m = outcome (Memory_CreateOrder ctx v a m)"
| "run_memory ctx a (PushOrder t u k to' expected) m = outcome (Memory_TransitionOrder ctx t u k to' expected a m)"
| "run_memory ctx a (AddTicket v) m = outcome (Memory_CreateKitchenTicket ctx v a m)"
| "run_memory ctx a (PushTicket t u k to' expected) m = outcome (Memory_TransitionKitchenTicket ctx t u k to' expected a m)"
| "run_memory ctx a (AddUnit v) m = outcome (Memory_CreateUnit ctx v a m)"
| "run_memory ctx a (AddIngredient v) m = outcome (Memory_CreateIngredient ctx v a m)"
| "run_memory ctx a (AddRecipe v w) m = outcome (Memory_CreateRecipe ctx v w a m)"
| "run_memory ctx a (AddRecipeVersion w) m = outcome (Memory_AddRecipeVersion ctx w a m)"
| "run_memory ctx a (AddMenuItem v) m = outcome (Memory_CreateMenuItem ctx v a m)"
| "run_memory ctx a (AddMenuStudio v w) m = outcome (Memory_CreateMenuStudio ctx v w a m)"
| "run_memory ctx a (AddMenuStudioVersion t u w expected) m = outcome (Memory_AddMenuStudioVersion ctx t u w expected a m)"
| "run_memory ctx a (AddMenuImport v) m = outcome (Memory_CreateMenuImportDraft ctx v a m)"

lemmas memory_defs = Memory_CreateOrganization_def Memory_ProvisionTenant_def Memory_CreateOutlet_def
  Memory_CreateBrand_def Memory_SetBrandOutletAssignment_def Memory_CreateStation_def Memory_CreateOrder_def
  Memory_TransitionOrder_def Memory_CreateKitchenTicket_def Memory_TransitionKitchenTicket_def
  Memory_CreateUnit_def Memory_CreateIngredient_def Memory_CreateRecipe_def Memory_AddRecipeVersion_def
  Memory_CreateMenuItem_def Memory_CreateMenuStudio_def Memory_AddMenuStudioVersion_def
  Memory_CreateMenuImportDraft_def

lemma outcome_transact_Inl: "outcome (transact body m) = (Inl e, m') \<Longrightarrow> m' = m"
  by (auto simp: outcome_def transact_def split: sum.splits prod.splits)

lemma outcome_transact_Inr:
  "outcome (transact body m) = (Inr u, m') \<longleftrightarrow> (\<exists>r. body m = Inr (r, m'))"
  by (auto simp: outcome_def transact_def split: sum.splits prod.splits)

text \<open>A failed command changes nothing.\<close>

lemma run_memory_failure: "run_memory ctx a c m = (Inl e, m') \<Longrightarrow> m' = m"
  by (cases c) (simp_all only: run_memory.simps memory_defs outcome_transact_Inl)

text \<open>A successful command writes its map and appends its audit event.\<close>

lemma appendAudit_simps [simp]:
  "mr_audits (appendAudit a m) = mr_audits m @ [a]"
  "mr_auditOperations (appendAudit a m) = AList.update (audit_key a) (ae_EntityID a) (mr_auditOperations m)"
  "mr_organizations (appendAudit a m) = mr_organizations m"
  "mr_outlets (appendAudit a m) = mr_outlets m"
  "mr_brands (appendAudit a m) = mr_brands m"
  "mr_brandOutlets (appendAudit a m) = mr_brandOutlets m"
  "mr_stations (appendAudit a m) = mr_stations m"
  "mr_orders (appendAudit a m) = mr_orders m"
  "mr_tickets (appendAudit a m) = mr_tickets m"
  "mr_recipes (appendAudit a m) = mr_recipes m"
  "mr_menuStudios (appendAudit a m) = mr_menuStudios m"
  by (simp_all add: appendAudit_def)

lemmas memory_success = memory_defs outcome_transact_Inr guarded_Inr_iff Let_def

lemma run_memory_audits:
  assumes "run_memory ctx a c m = (Inr u, m')"
  shows "mr_audits m' = mr_audits m @ [a]
    \<and> mr_auditOperations m' = AList.update (audit_key a) (ae_EntityID a) (mr_auditOperations m)"
  using assms by (cases c) (auto simp: memory_success split: option.splits)

subsection \<open>Nothing is removed\<close>

text \<open>
  The entities of the repository are only added to: organizations, outlets, brands and stations
  never change, an order or a ticket keeps everything but its status and its metadata.
\<close>

definition entries_kept :: "('v \<Rightarrow> 'v \<Rightarrow> bool) \<Rightarrow> (string \<times> 'v) list \<Rightarrow> (string \<times> 'v) list \<Rightarrow> bool" where
  "entries_kept R m m' \<longleftrightarrow> (\<forall>k v. map_of m k = Some v \<longrightarrow> (\<exists>v'. map_of m' k = Some v' \<and> R v v'))"

definition same_order :: "core_order \<Rightarrow> core_order \<Rightarrow> bool" where
  "same_order v v' \<longleftrightarrow> v' = v\<lparr>co_Status := co_Status v', co_Meta := co_Meta v'\<rparr>"

definition same_ticket :: "core_ticket \<Rightarrow> core_ticket \<Rightarrow> bool" where
  "same_ticket v v' \<longleftrightarrow> v' = v\<lparr>ct_Status := ct_Status v', ct_Meta := ct_Meta v'\<rparr>"

definition grows :: "memory_repository \<Rightarrow> memory_repository \<Rightarrow> bool" where
  "grows m m' \<longleftrightarrow> entries_kept (=) (mr_organizations m) (mr_organizations m')
     \<and> entries_kept (=) (mr_outlets m) (mr_outlets m') \<and> entries_kept (=) (mr_brands m) (mr_brands m')
     \<and> entries_kept (=) (mr_stations m) (mr_stations m') \<and> entries_kept same_order (mr_orders m) (mr_orders m')
     \<and> entries_kept same_ticket (mr_tickets m) (mr_tickets m')"

lemma same_order_refl [simp]: "same_order v v" and same_ticket_refl [simp]: "same_ticket w w"
  by (simp_all add: same_order_def same_ticket_def)

lemma same_moved [simp]: "same_order v (moved_order to' a v)" "same_ticket w (moved_ticket to'' a w)"
  by (simp_all add: same_order_def same_ticket_def moved_order_def moved_ticket_def)

lemma entries_kept_refl: "(\<And>v. R v v) \<Longrightarrow> entries_kept R m m"
  by (simp add: entries_kept_def)

lemma entries_kept_new: "(\<And>v. R v v) \<Longrightarrow> \<not> present m k \<Longrightarrow> entries_kept R m (AList.update k v m)"
  by (auto simp: entries_kept_def update_conv' present_def)

lemma entries_kept_changed: "(\<And>v. R v v) \<Longrightarrow> map_of m k = Some v \<Longrightarrow> R v v' \<Longrightarrow> entries_kept R m (AList.update k v' m)"
  by (auto simp: entries_kept_def update_conv')

lemma entries_kept_trans: "entries_kept R a b \<Longrightarrow> entries_kept R b c \<Longrightarrow> transp R \<Longrightarrow> entries_kept R a c"
  unfolding entries_kept_def transp_def by meson

lemma holds_at_kept: "holds_at m k P \<Longrightarrow> entries_kept R m m' \<Longrightarrow> (\<And>v v'. P v \<Longrightarrow> R v v' \<Longrightarrow> Q v') \<Longrightarrow> holds_at m' k Q"
  unfolding holds_at_iff entries_kept_def by meson

lemma check_stations_fresh:
  "check_stations m t u seen stations = None \<Longrightarrow> s \<in> set stations \<Longrightarrow>
   \<not> present (mr_stations m) (st_ID s) \<and> st_TenantID s = t \<and> st_OutletID s = u"
  by (induction stations arbitrary: seen) (auto split: if_splits)

lemma map_of_fold_stations:
  "map_of (fold (\<lambda>s. AList.update (st_ID s) s) stations ss) k = Some v \<Longrightarrow>
   map_of ss k = Some v \<or> v \<in> set stations \<and> st_ID v = k"
  by (induction stations arbitrary: ss) (fastforce simp: update_conv' split: if_splits)+

lemma map_of_fold_stations_other:
  "\<forall>s \<in> set stations. st_ID s \<noteq> k \<Longrightarrow> map_of (fold (\<lambda>s. AList.update (st_ID s) s) stations ss) k = map_of ss k"
  by (induction stations arbitrary: ss) (auto simp: update_conv')

lemma entries_kept_stations:
  "check_stations m t u seen stations = None \<Longrightarrow>
   entries_kept (=) (mr_stations m) (fold (\<lambda>s. AList.update (st_ID s) s) stations (mr_stations m))"
proof -
  assume fresh: "check_stations m t u seen stations = None"
  have "map_of (fold (\<lambda>s. AList.update (st_ID s) s) stations (mr_stations m)) k = map_of (mr_stations m) k"
    if "map_of (mr_stations m) k = Some v" for k v
    using that check_stations_fresh [OF fresh] by (intro map_of_fold_stations_other) (auto simp: present_def)
  then show ?thesis by (simp add: entries_kept_def)
qed

lemmas kept_simps = entries_kept_refl entries_kept_new entries_kept_changed entries_kept_stations

lemma run_memory_grows:
  assumes "run_memory ctx a c m = (r, m')"
  shows "grows m m'"
proof (cases r)
  case (Inl e)
  with assms have "m' = m" by (simp add: run_memory_failure)
  then show ?thesis by (simp add: grows_def entries_kept_refl)
next
  case (Inr u)
  with assms show ?thesis
    by (cases c) (auto simp: memory_success grows_def kept_simps split: option.splits)
qed

end
