(* ===== verification/Core_Memory_Invariant.thy ===== *)
theory Core_Memory_Invariant
  imports Core_Memory_System
begin

text \<open>
  The invariant of the in-memory repository: every entity is stored under its identifier and
  every reference it holds resolves to an entity of the same tenant (and outlet, and
  organization).
\<close>

definition entries_ok :: "(string \<times> 'v) list \<Rightarrow> (string \<Rightarrow> 'v \<Rightarrow> bool) \<Rightarrow> bool" where
  "entries_ok m P \<longleftrightarrow> (\<forall>k v. map_of m k = Some v \<longrightarrow> P k v)"

definition outlet_refs :: "memory_repository \<Rightarrow> string \<Rightarrow> outlet \<Rightarrow> bool" where
  "outlet_refs m k v \<longleftrightarrow> out_ID v = k
     \<and> holds_at (mr_organizations m) (out_OrganizationID v) (\<lambda>org. org_TenantID org = out_TenantID v)"

definition brand_refs :: "memory_repository \<Rightarrow> string \<Rightarrow> brand \<Rightarrow> bool" where
  "brand_refs m k v \<longleftrightarrow> br_ID v = k
     \<and> holds_at (mr_organizations m) (br_OrganizationID v) (\<lambda>org. org_TenantID org = br_TenantID v)"

definition brand_at_outlet :: "memory_repository \<Rightarrow> string \<Rightarrow> string \<Rightarrow> string \<Rightarrow> bool" where
  "brand_at_outlet m tenantID brandID outletID \<longleftrightarrow> holds_at (mr_brands m) brandID (\<lambda>brand. br_TenantID brand = tenantID \<and>
     holds_at (mr_outlets m) outletID (\<lambda>outlet. out_TenantID outlet = tenantID \<and> br_OrganizationID brand = out_OrganizationID outlet))"

definition assignment_refs :: "memory_repository \<Rightarrow> string \<Rightarrow> brand_outlet_assignment \<Rightarrow> bool" where
  "assignment_refs m k v \<longleftrightarrow> k = brandOutletKey (ba_TenantID v) (ba_BrandID v) (ba_OutletID v)
     \<and> brand_at_outlet m (ba_TenantID v) (ba_BrandID v) (ba_OutletID v)"

definition station_refs :: "memory_repository \<Rightarrow> string \<Rightarrow> station \<Rightarrow> bool" where
  "station_refs m k v \<longleftrightarrow> st_ID v = k
     \<and> holds_at (mr_outlets m) (st_OutletID v) (\<lambda>outlet. out_TenantID outlet = st_TenantID v)"

definition order_refs :: "memory_repository \<Rightarrow> string \<Rightarrow> core_order \<Rightarrow> bool" where
  "order_refs m k v \<longleftrightarrow> co_ID v = k
     \<and> holds_at (mr_outlets m) (co_OutletID v) (\<lambda>outlet. out_TenantID outlet = co_TenantID v)
     \<and> (co_BrandID v = [] \<or> brand_at_outlet m (co_TenantID v) (co_BrandID v) (co_OutletID v))"

definition ticket_refs :: "memory_repository \<Rightarrow> string \<Rightarrow> core_ticket \<Rightarrow> bool" where
  "ticket_refs m k v \<longleftrightarrow> ct_ID v = k
     \<and> holds_at (mr_orders m) (ct_OrderID v) (\<lambda>order. co_TenantID order = ct_TenantID v
         \<and> co_OutletID order = ct_OutletID v \<and> orderContainsLines order (ct_LineIDs v))
     \<and> holds_at (mr_stations m) (ct_StationID v) (\<lambda>station. st_TenantID station = ct_TenantID v
         \<and> st_OutletID station = ct_OutletID v)"

definition memory_ok :: "memory_repository \<Rightarrow> bool" where
  "memory_ok m \<longleftrightarrow> entries_ok (mr_organizations m) (\<lambda>k v. org_ID v = k)
     \<and> entries_ok (mr_outlets m) (outlet_refs m) \<and> entries_ok (mr_brands m) (brand_refs m)
     \<and> entries_ok (mr_brandOutlets m) (assignment_refs m) \<and> entries_ok (mr_stations m) (station_refs m)
     \<and> entries_ok (mr_orders m) (order_refs m) \<and> entries_ok (mr_tickets m) (ticket_refs m)"

lemmas refs_defs = outlet_refs_def brand_refs_def assignment_refs_def station_refs_def order_refs_def ticket_refs_def

lemma entries_ok_update: "entries_ok m P \<Longrightarrow> P k v \<Longrightarrow> entries_ok (AList.update k v m) P"
  by (auto simp: entries_ok_def update_conv')

lemma entries_ok_mono: "entries_ok m P \<Longrightarrow> (\<And>k v. P k v \<Longrightarrow> Q k v) \<Longrightarrow> entries_ok m Q"
  by (auto simp: entries_ok_def)

lemma entries_okD: "entries_ok m P \<Longrightarrow> map_of m k = Some v \<Longrightarrow> P k v"
  by (simp add: entries_ok_def)

subsection \<open>References survive every step\<close>

lemma same_order_facts: "same_order v v' \<Longrightarrow> co_ID v' = co_ID v \<and> co_TenantID v' = co_TenantID v
    \<and> co_OutletID v' = co_OutletID v \<and> co_BrandID v' = co_BrandID v \<and> co_Lines v' = co_Lines v"
  unfolding same_order_def by (metis core_order.select_convs core_order.surjective core_order.update_convs)

lemma same_ticket_facts: "same_ticket v v' \<Longrightarrow> ct_ID v' = ct_ID v \<and> ct_TenantID v' = ct_TenantID v
    \<and> ct_OutletID v' = ct_OutletID v \<and> ct_OrderID v' = ct_OrderID v"
  by (cases v; cases v') (simp add: same_ticket_def)

lemma brand_at_outlet_grows: "grows m m' \<Longrightarrow> brand_at_outlet m t b u \<Longrightarrow> brand_at_outlet m' t b u"
  unfolding brand_at_outlet_def grows_def
  by (elim conjE) (erule holds_at_kept, assumption, auto elim: holds_at_kept)

lemma holds_organization_grows:
  "grows m m' \<Longrightarrow> holds_at (mr_organizations m) k P \<Longrightarrow> holds_at (mr_organizations m') k P"
  unfolding grows_def by (elim conjE) (erule holds_at_kept, assumption, simp)

lemma holds_outlet_grows: "grows m m' \<Longrightarrow> holds_at (mr_outlets m) k P \<Longrightarrow> holds_at (mr_outlets m') k P"
  unfolding grows_def by (elim conjE) (erule holds_at_kept, assumption, simp)

lemma holds_station_grows: "grows m m' \<Longrightarrow> holds_at (mr_stations m) k P \<Longrightarrow> holds_at (mr_stations m') k P"
  unfolding grows_def by (elim conjE) (erule holds_at_kept, assumption, simp)

lemma holds_order_grows:
  assumes "grows m m'" "holds_at (mr_orders m) k P" "\<And>v v'. P v \<Longrightarrow> same_order v v' \<Longrightarrow> P v'"
  shows "holds_at (mr_orders m') k P"
  using assms unfolding grows_def by (elim conjE) (erule holds_at_kept, assumption, blast)

lemma refs_grow:
  assumes "grows m m'"
  shows "outlet_refs m k u \<Longrightarrow> outlet_refs m' k u" "brand_refs m k b \<Longrightarrow> brand_refs m' k b"
    "assignment_refs m k a \<Longrightarrow> assignment_refs m' k a" "station_refs m k s \<Longrightarrow> station_refs m' k s"
    "order_refs m k v \<Longrightarrow> order_refs m' k v" "ticket_refs m k t \<Longrightarrow> ticket_refs m' k t"
proof -
  have "holds_at (mr_orders m') k (\<lambda>order. co_TenantID order = x \<and> co_OutletID order = y \<and> orderContainsLines order ls)"
    if "holds_at (mr_orders m) k (\<lambda>order. co_TenantID order = x \<and> co_OutletID order = y \<and> orderContainsLines order ls)" for k x y ls
    by (rule holds_order_grows [OF assms that]) (drule same_order_facts, simp add: orderContainsLines_def)
  then show "ticket_refs m k t \<Longrightarrow> ticket_refs m' k t"
    using holds_station_grows [OF assms] unfolding ticket_refs_def by blast
qed (use assms in \<open>auto simp: refs_defs intro: holds_organization_grows holds_outlet_grows brand_at_outlet_grows\<close>)

lemma order_refs_same: "same_order v v' \<Longrightarrow> order_refs m k v' \<longleftrightarrow> order_refs m k v"
  by (drule same_order_facts) (simp add: order_refs_def)

lemma ticket_refs_moved [simp]: "ticket_refs m k (moved_ticket to' a v) = ticket_refs m k v"
  by (simp add: ticket_refs_def moved_ticket_def)

lemma order_refs_moved [simp]: "order_refs m k (moved_order to' a v) = order_refs m k v"
  by (simp add: order_refs_same [OF same_moved(1)])

subsection \<open>Every step keeps the invariant\<close>

text \<open>The old entries, read against the new repository.\<close>

lemma memory_ok_old_entries:
  assumes "memory_ok m" "grows m m'"
  shows "entries_ok (mr_organizations m) (\<lambda>k v. org_ID v = k)"
    "entries_ok (mr_outlets m) (outlet_refs m')" "entries_ok (mr_brands m) (brand_refs m')"
    "entries_ok (mr_brandOutlets m) (assignment_refs m')" "entries_ok (mr_stations m) (station_refs m')"
    "entries_ok (mr_orders m) (order_refs m')" "entries_ok (mr_tickets m) (ticket_refs m')"
  using assms(1) refs_grow [OF assms(2)] unfolding memory_ok_def by (auto elim: entries_ok_mono)

lemma entries_ok_stations:
  "entries_ok ss P \<Longrightarrow> \<forall>s \<in> set stations. P (st_ID s) s \<Longrightarrow>
   entries_ok (fold (\<lambda>s. AList.update (st_ID s) s) stations ss) P"
  using map_of_fold_stations unfolding entries_ok_def by blast

lemma run_memory_ok:
  assumes ok: "memory_ok m" and run: "run_memory ctx a c m = (r, m')"
  shows "memory_ok m'"
proof (cases r)
  case (Inl e)
  with run have "m' = m" using run_memory_failure by blast
  with ok show ?thesis by simp
next
  case (Inr u)
  note old = memory_ok_old_entries [OF ok run_memory_grows [OF run]]
  from run Inr have step: "run_memory ctx a c m = (Inr u, m')" by simp
  show ?thesis
  proof (cases c)
    case (AddTenant org outlet brand asg stations)
    with step have st: "check_stations m (org_TenantID org) (out_ID outlet) {} stations = None"
      by (simp add: memory_success)
    from step AddTenant old show ?thesis
      unfolding memory_ok_def
      by (auto simp: memory_success refs_defs brand_at_outlet_def holds_at_update
          dest: check_stations_fresh [OF st] intro!: entries_ok_update entries_ok_stations)
  next
    case (AssignBrand v expected)
    with step old show ?thesis
      unfolding memory_ok_def
      by (auto simp: memory_success assignment_refs_def brand_at_outlet_def intro!: entries_ok_update split: option.split)
  next
    case (PushOrder t u k to' expected)
    with step old show ?thesis
      unfolding memory_ok_def
      by (auto simp: memory_success intro!: entries_ok_update split: option.splits dest: entries_okD)
  next
    case (PushTicket t u k to' expected)
    with step old show ?thesis
      unfolding memory_ok_def
      by (auto simp: memory_success intro!: entries_ok_update split: option.splits dest: entries_okD)
  qed (use step old in \<open>auto simp: memory_ok_def memory_success refs_defs brand_at_outlet_def holds_at_iff
      intro!: entries_ok_update split: option.splits\<close>)
qed

subsection \<open>Reachable repositories\<close>

inductive memory_step :: "memory_repository \<Rightarrow> memory_repository \<Rightarrow> bool" where
  memory_step: "run_memory ctx a c m = (r, m') \<Longrightarrow> memory_step m m'"

inductive_cases memory_stepE: "memory_step m m'"

definition memory_reachable :: "memory_repository \<Rightarrow> bool" where
  "memory_reachable m \<longleftrightarrow> memory_step\<^sup>*\<^sup>* NewMemoryRepository m"

lemma memory_ok_new: "memory_ok NewMemoryRepository"
  by (simp add: memory_ok_def entries_ok_def NewMemoryRepository_def)

lemma memory_steps_ok: "memory_step\<^sup>*\<^sup>* m m' \<Longrightarrow> memory_ok m \<Longrightarrow> memory_ok m'"
  by (induction rule: rtranclp_induct) (auto elim!: memory_stepE intro: run_memory_ok)

lemma memory_reachable_ok: "memory_reachable m \<Longrightarrow> memory_ok m"
  unfolding memory_reachable_def by (erule memory_steps_ok) (rule memory_ok_new)

lemma same_order_trans: "same_order a b \<Longrightarrow> same_order b c \<Longrightarrow> same_order a c"
  by (cases a; cases b; cases c) (simp add: same_order_def)

lemma same_ticket_trans: "same_ticket a b \<Longrightarrow> same_ticket b c \<Longrightarrow> same_ticket a c"
  by (cases a; cases b; cases c) (simp add: same_ticket_def)

lemma memory_steps_grow: "memory_step\<^sup>*\<^sup>* m m' \<Longrightarrow> grows m m'"
proof (induction rule: rtranclp_induct)
  case base
  show ?case by (simp add: grows_def entries_kept_refl)
next
  case (step y z)
  from step(2) have "grows y z" by (auto elim!: memory_stepE intro: run_memory_grows)
  moreover have "transp same_order" "transp same_ticket"
    by (auto intro!: transpI elim: same_order_trans same_ticket_trans)
  ultimately show ?case
    using step(3) unfolding grows_def by (auto intro: entries_kept_trans)
qed

end
