(* ===== verification/Core_Memory_Properties.thy ===== *)
theory Core_Memory_Properties
  imports Core_Memory_Invariant
begin

text \<open>
  What the in-memory repository promises its callers: references resolve through its own queries,
  a mutation and its audit event are one, a stale transition is refused, tenants do not see each
  other.
\<close>

subsection \<open>A sample repository\<close>

definition sample_meta :: record_metadata where
  "sample_meta = \<lparr>rm_CreatedAt = 1, rm_UpdatedAt = 1, rm_Version = 1\<rparr>"

definition sample_audit :: "string \<Rightarrow> string \<Rightarrow> string \<Rightarrow> string \<Rightarrow> audit_event" where
  "sample_audit operationID outletID entityType entityID = \<lparr>ae_ID = ''a'', ae_OperationID = operationID,
     ae_TenantID = ''t'', ae_OutletID = outletID, ae_ActorID = ''x'', ae_DeviceID = ''d'', ae_Source = ''pos'',
     ae_SourceID = [], ae_IdempotencyKey = ''k'', ae_CorrelationID = [], ae_SchemaVersion = ''1.0'', ae_Action = ''w'',
     ae_EntityType = entityType, ae_EntityID = entityID, ae_OccurredAt = 1, ae_RecordedAt = 2\<rparr>"

definition sample_organization :: organization where
  "sample_organization = \<lparr>org_ID = ''t'', org_TenantID = ''t'', org_Name = ''T'', org_LegalName = [],
     org_DefaultLocale = ''en'', org_DefaultCurrency = ''EUR'', org_Active = True, org_Meta = sample_meta\<rparr>"

definition sample_outlet :: outlet where
  "sample_outlet = \<lparr>out_ID = ''u'', out_TenantID = ''t'', out_OrganizationID = ''t'', out_Name = ''U'',
     out_Code = ''u'', out_TimeZone = ''UTC'', out_Currency = ''EUR'', out_Active = True, out_Meta = sample_meta\<rparr>"

definition sample_station :: station where
  "sample_station = \<lparr>st_ID = ''s'', st_TenantID = ''t'', st_OutletID = ''u'', st_Name = ''S'', st_Code = ''s'',
     st_Type = StationCooking, st_Active = True, st_Meta = sample_meta\<rparr>"

definition euro :: "int \<Rightarrow> money" where
  "euro n = \<lparr>MinorUnits = n, Currency = ''EUR''\<rparr>"

definition sample_line :: core_line where
  "sample_line = \<lparr>cl_ID = ''l'', cl_MenuItemID = [], cl_Name = ''Tea'', cl_Quantity = 2, cl_UnitPrice = euro 3,
     cl_LineTotal = euro 6, cl_PreparationNote = []\<rparr>"

definition sample_core_order :: core_order where
  "sample_core_order = \<lparr>co_ID = ''o'', co_TenantID = ''t'', co_OutletID = ''u'', co_BrandID = [], co_ExternalRef = [],
     co_Type = CoreDineIn, co_Status = CoreReceived, co_Lines = [sample_line], co_Subtotal = euro 6,
     co_DiscountTotal = euro 0, co_TaxTotal = euro 0, co_ServiceCharge = euro 0, co_Total = euro 6, co_PlacedAt = 1,
     co_Meta = sample_meta\<rparr>"

definition sample_core_ticket :: core_ticket where
  "sample_core_ticket = \<lparr>ct_ID = ''k'', ct_TenantID = ''t'', ct_OutletID = ''u'', ct_OrderID = ''o'', ct_StationID = ''s'',
     ct_LineIDs = [''l''], ct_Status = CoreQueued, ct_Priority = 0, ct_TargetAt = None, ct_Meta = sample_meta\<rparr>"

fun run_memories :: "(audit_event \<times> memory_command) list \<Rightarrow> memory_repository \<Rightarrow> memory_repository" where
  "run_memories [] m = m"
| "run_memories ((a, c) # cs) m = run_memories cs (snd (run_memory None a c m))"

lemma run_memories_steps: "memory_step\<^sup>*\<^sup>* m (run_memories cs m)"
proof (induction cs arbitrary: m)
  case (Cons p cs)
  obtain a c where p: "p = (a, c)" by (cases p)
  have "memory_step m (snd (run_memory None a c m))" by (metis memory_step prod.collapse)
  with Cons show ?case unfolding p by (simp add: converse_rtranclp_into_rtranclp)
qed simp

definition sample_commands :: "(audit_event \<times> memory_command) list" where
  "sample_commands =
    [(sample_audit ''1'' [] ''organization'' ''t'', AddOrganization sample_organization),
     (sample_audit ''2'' [] ''outlet'' ''u'', AddOutlet sample_outlet),
     (sample_audit ''3'' ''u'' ''station'' ''s'', AddStation sample_station),
     (sample_audit ''4'' ''u'' ''order'' ''o'', AddOrder sample_core_order),
     (sample_audit ''5'' ''u'' ''kitchen_ticket'' ''k'', AddTicket sample_core_ticket)]"

definition sample_memory :: memory_repository where
  "sample_memory = run_memories sample_commands NewMemoryRepository"

lemma reachable_sample_memory: "memory_reachable sample_memory"
  unfolding memory_reachable_def sample_memory_def by (rule run_memories_steps)

lemmas sample_core_defs = sample_organization_def sample_outlet_def sample_station_def sample_core_order_def
  sample_core_ticket_def sample_line_def sample_audit_def sample_meta_def euro_def

lemma sample_memory_eq:
  "sample_memory = NewMemoryRepository\<lparr>mr_organizations := [(''t'', sample_organization)],
     mr_outlets := [(''u'', sample_outlet)], mr_stations := [(''s'', sample_station)],
     mr_orders := [(''o'', sample_core_order)], mr_tickets := [(''k'', sample_core_ticket)],
     mr_audits := map fst sample_commands,
     mr_auditOperations := map (\<lambda>p. (audit_key (fst p), ae_EntityID (fst p))) sample_commands\<rparr>"
  by (simp add: sample_memory_def sample_commands_def memory_defs outcome_def transact_def guarded_def first_error_Cons
      fails_if_def present_def holds_at_def validateAudit_def ensureAuditOperationAvailable_def appendAudit_def audit_key_def
      NewMemoryRepository_def sample_core_defs orderContainsLines_def IsZero_def)

subsection \<open>References\<close>

lemma find_own_Inr_iff: "find_own ctx what m own k = Inr v \<longleftrightarrow> ctx = None \<and> map_of m k = Some v \<and> own v"
  by (auto simp: find_own_def split: option.split)

lemmas find_defs = Memory_Organization_def Memory_Outlet_def Memory_Brand_def Memory_Station_def Memory_Order_def
  Memory_KitchenTicket_def find_own_Inr_iff

lemma order_references:
  assumes "memory_ok m" "Memory_Order None t k m = Inr order"
  shows "\<exists>outlet organization. Memory_Outlet None t (co_OutletID order) m = Inr outlet
    \<and> Memory_Organization None t (out_OrganizationID outlet) m = Inr organization
    \<and> (co_BrandID order = [] \<or> (\<exists>brand. Memory_Brand None t (co_BrandID order) m = Inr brand
         \<and> br_OrganizationID brand = out_OrganizationID outlet))"
proof -
  have stored: "map_of (mr_orders m) k = Some order" and own: "co_TenantID order = t"
    using assms(2) by (simp_all add: find_defs)
  have refs: "order_refs m k order" using assms(1) stored by (simp add: memory_ok_def entries_ok_def)
  then obtain outlet where outlet: "map_of (mr_outlets m) (co_OutletID order) = Some outlet" "out_TenantID outlet = t"
    by (auto simp: order_refs_def holds_at_iff own)
  then have "outlet_refs m (co_OutletID order) outlet" using assms(1) by (simp add: memory_ok_def entries_ok_def)
  then obtain org where org: "map_of (mr_organizations m) (out_OrganizationID outlet) = Some org" "org_TenantID org = t"
    by (auto simp: outlet_refs_def holds_at_iff outlet(2))
  have "co_BrandID order = [] \<or> (\<exists>brand. map_of (mr_brands m) (co_BrandID order) = Some brand \<and> br_TenantID brand = t
      \<and> br_OrganizationID brand = out_OrganizationID outlet)"
    using refs by (auto simp: order_refs_def brand_at_outlet_def holds_at_iff own outlet(1))
  with outlet org show ?thesis by (auto simp: find_defs)
qed

lemma ticket_references:
  assumes "memory_ok m" "Memory_KitchenTicket None t k m = Inr ticket"
  shows "\<exists>order station. Memory_Order None t (ct_OrderID ticket) m = Inr order \<and> co_OutletID order = ct_OutletID ticket
    \<and> Memory_Station None t (ct_StationID ticket) m = Inr station \<and> st_OutletID station = ct_OutletID ticket
    \<and> distinct (ct_LineIDs ticket) \<and> set (ct_LineIDs ticket) \<subseteq> cl_ID ` set (co_Lines order)"
proof -
  from assms have "ticket_refs m k ticket" "ct_TenantID ticket = t"
    using entries_okD unfolding memory_ok_def by (auto simp: find_defs)
  then show ?thesis by (auto simp: find_defs ticket_refs_def holds_at_iff orderContainsLines_def)
qed

text \<open>
  C32: Every reference of a stored entity resolves through the repository's own queries: a tenant that
  reads an order finds its outlet, the outlet's organization and the order's brand in that
  organization; a tenant that reads a kitchen ticket finds its order and its station at the same outlet,
  and the ticket's lines, each once, among the order's.
\<close>

theorem memory_references_resolve:
  assumes "memory_reachable m"
  shows "(\<forall>order. Memory_Order None t k m = Inr order \<longrightarrow>
      (\<exists>outlet organization. Memory_Outlet None t (co_OutletID order) m = Inr outlet
        \<and> Memory_Organization None t (out_OrganizationID outlet) m = Inr organization
        \<and> (co_BrandID order = [] \<or> (\<exists>brand. Memory_Brand None t (co_BrandID order) m = Inr brand
             \<and> br_OrganizationID brand = out_OrganizationID outlet))))
    \<and> (\<forall>ticket. Memory_KitchenTicket None t k m = Inr ticket \<longrightarrow>
      (\<exists>order station. Memory_Order None t (ct_OrderID ticket) m = Inr order \<and> co_OutletID order = ct_OutletID ticket
        \<and> Memory_Station None t (ct_StationID ticket) m = Inr station \<and> st_OutletID station = ct_OutletID ticket
        \<and> distinct (ct_LineIDs ticket) \<and> set (ct_LineIDs ticket) \<subseteq> cl_ID ` set (co_Lines order)))"
  using order_references [OF memory_reachable_ok [OF assms]] ticket_references [OF memory_reachable_ok [OF assms]] by blast

lemma memory_references_resolve_witness:
  "\<exists>order. Memory_Order None ''t'' ''o'' sample_memory = Inr order
    \<and> (\<exists>station. Memory_Station None ''t'' ''s'' sample_memory = Inr station \<and> st_OutletID station = co_OutletID order)"
proof -
  have "Memory_KitchenTicket None ''t'' ''k'' sample_memory = Inr sample_core_ticket"
    by (simp add: find_defs sample_memory_eq sample_core_ticket_def)
  with memory_references_resolve [OF reachable_sample_memory, of "''t''" "''k''"]
  obtain order station where "Memory_Order None ''t'' (ct_OrderID sample_core_ticket) sample_memory = Inr order"
    "co_OutletID order = ct_OutletID sample_core_ticket" "st_OutletID station = ct_OutletID sample_core_ticket"
    "Memory_Station None ''t'' (ct_StationID sample_core_ticket) sample_memory = Inr station" by blast
  then show ?thesis by (simp add: sample_core_ticket_def)
qed

subsection \<open>Audit\<close>

definition checks_operation :: "memory_command \<Rightarrow> bool" where
  "checks_operation c \<longleftrightarrow> (case c of AddUnit _ \<Rightarrow> False | AddIngredient _ \<Rightarrow> False | AddRecipe _ _ \<Rightarrow> False
     | AddRecipeVersion _ \<Rightarrow> False | AddMenuItem _ \<Rightarrow> False | AddMenuStudio _ _ \<Rightarrow> False
     | AddMenuStudioVersion _ _ _ _ \<Rightarrow> False | AddMenuImport _ \<Rightarrow> False | _ \<Rightarrow> True)"

lemma checks_operation_unused:
  "run_memory ctx a c m = (Inr u, m') \<Longrightarrow> checks_operation c \<Longrightarrow> \<not> present (mr_auditOperations m) (audit_key a)"
  by (cases c) (auto simp: memory_success checks_operation_def ensureAuditOperationAvailable_def split: option.splits)

definition audits_ok :: "memory_repository \<Rightarrow> bool" where
  "audits_ok m \<longleftrightarrow> (\<forall>a \<in> set (mr_audits m). present (mr_auditOperations m) (audit_key a))"

lemma memory_steps_audits_ok: "memory_step\<^sup>*\<^sup>* m m' \<Longrightarrow> audits_ok m \<Longrightarrow> audits_ok m'"
proof (induction rule: rtranclp_induct)
  case (step y z)
  from step(2) obtain ctx a c r where run: "run_memory ctx a c y = (r, z)" by (auto elim: memory_stepE)
  show ?case
  proof (cases r)
    case (Inl e)
    with run have "z = y" using run_memory_failure by blast
    with step show ?thesis by simp
  next
    case (Inr u)
    with run_memory_audits [of ctx a c y u z] run step show ?thesis by (auto simp: audits_ok_def)
  qed
qed simp

lemma memory_reachable_audits: "memory_reachable m \<Longrightarrow> audits_ok m"
  unfolding memory_reachable_def by (erule memory_steps_audits_ok) (simp add: audits_ok_def NewMemoryRepository_def)

text \<open>
  A command on organizations, outlets, brands, stations, orders or tickets and its audit event are
  one: when it fails, nothing has changed; when it succeeds, exactly its event has been appended to the
  trail, and no earlier event of the tenant has its operation identifier.
\<close>

theorem mutations_are_audited_once:
  assumes "memory_reachable m" "checks_operation c" "run_memory ctx a c m = (r, m')"
  shows "case r of Inl e \<Rightarrow> m' = m
    | Inr _ \<Rightarrow> mr_audits m' = mr_audits m @ [a]
        \<and> (\<forall>b \<in> set (mr_audits m). ae_TenantID b = ae_TenantID a \<longrightarrow> ae_OperationID b \<noteq> ae_OperationID a)"
proof (cases r)
  case (Inl e)
  with assms show ?thesis using run_memory_failure by auto
next
  case (Inr u)
  with assms have run: "run_memory ctx a c m = (Inr u, m')" by simp
  have "ae_OperationID b \<noteq> ae_OperationID a" if "b \<in> set (mr_audits m)" "ae_TenantID b = ae_TenantID a" for b
  proof
    assume "ae_OperationID b = ae_OperationID a"
    with that(2) have "audit_key b = audit_key a" by (simp add: audit_key_def)
    with that(1) memory_reachable_audits [OF assms(1)] checks_operation_unused [OF run assms(2)] show False
      by (auto simp: audits_ok_def)
  qed
  with run_memory_audits [OF run] Inr show ?thesis by simp
qed

lemma mutations_are_audited_once_witness:
  "length (mr_audits (snd (run_memory None (sample_audit ''6'' ''u'' ''order'' ''o'')
     (PushOrder ''t'' ''u'' ''o'' CoreAccepted 1) sample_memory))) = 6"
proof -
  let ?run = "run_memory None (sample_audit ''6'' ''u'' ''order'' ''o'') (PushOrder ''t'' ''u'' ''o'' CoreAccepted 1) sample_memory"
  have "\<exists>u. fst ?run = Inr u"
    by (simp add: outcome_def memory_defs transact_def guarded_def first_error_Cons fails_if_def validateAudit_def
        ensureAuditOperationAvailable_def present_def audit_key_def sample_memory_eq sample_commands_def sample_core_defs
        IsZero_def status_simps)
  then obtain u where "?run = (Inr u, snd ?run)" by (metis prod.collapse)
  from mutations_are_audited_once [OF reachable_sample_memory _ this] show ?thesis
    by (simp add: checks_operation_def sample_memory_eq sample_commands_def)
qed

text \<open>The catalogue commands do not look at the operation identifier: one operation is audited twice.\<close>

definition sample_unit :: measure_unit where
  "sample_unit = \<lparr>un_ID = ''g'', un_TenantID = ''t'', un_Name = ''gram'', un_Symbol = ''g'', un_Dimension = ''mass'',
     un_BaseNumerator = 1, un_BaseDenominator = 1, un_Active = True, un_Meta = sample_meta\<rparr>"

lemma catalogue_operation_audited_twice:
  "let a = sample_audit ''1'' [] ''unit'' ''g'' in
   fst (run_memory None a (AddUnit sample_unit) sample_memory) = Inr ()
   \<and> map ae_OperationID (mr_audits (snd (run_memory None a (AddUnit sample_unit) sample_memory)))
      = [''1'', ''2'', ''3'', ''4'', ''5'', ''1'']"
  by (simp add: outcome_def Memory_CreateUnit_def transact_def guarded_def first_error_Cons fails_if_def validateAudit_def
      present_def sample_memory_eq sample_commands_def sample_core_defs sample_unit_def IsZero_def NewMemoryRepository_def)

subsection \<open>Stale versions\<close>

text \<open>
  A life cycle whose moves raise the 64-bit version by one and a rank of at most four: however
  many moves follow, an earlier version never comes back.
\<close>

locale lifecycle =
  fixes version :: "'v \<Rightarrow> 64 word"
    and rank :: "'v \<Rightarrow> nat"
    and same :: "'v \<Rightarrow> 'v \<Rightarrow> bool"
    and move :: "'v \<Rightarrow> 'v \<Rightarrow> bool"
  assumes same_refl: "same v v"
    and same_trans: "same v w \<Longrightarrow> same w x \<Longrightarrow> same v x"
    and move_same: "move v w \<Longrightarrow> same v w"
    and move_version: "move v w \<Longrightarrow> version w = version v + 1"
    and move_rank: "move v w \<Longrightarrow> rank v < rank w"
    and rank_bound: "rank v \<le> 4"
begin

definition progress :: "'v \<Rightarrow> 'v \<Rightarrow> bool" where
  "progress v w \<longleftrightarrow> same v w \<and> (\<exists>n. version w = version v + of_nat n \<and> rank v + n \<le> rank w)"

lemma progress_refl [simp]: "progress v v"
  unfolding progress_def using same_refl by (auto intro: exI [of _ 0])

lemma progress_same: "progress v w \<Longrightarrow> same v w"
  by (simp add: progress_def)

lemma transp_progress: "transp progress"
proof (rule transpI)
  fix u v w assume "progress u v" "progress v w"
  then obtain n k where "version v = version u + of_nat n" "rank u + n \<le> rank v"
    "version w = version v + of_nat k" "rank v + k \<le> rank w" "same u v" "same v w"
    by (auto simp: progress_def)
  then show "progress u w"
    unfolding progress_def by (intro conjI exI [of _ "n + k"]) (auto simp: add.assoc intro: same_trans)
qed

lemma move_progress: "move v w \<Longrightarrow> progress v w"
  unfolding progress_def using move_same move_version move_rank [of v w] by (intro conjI exI [of _ 1]) auto

lemma never_back:
  assumes "move v w" "progress w x"
  shows "version x \<noteq> version v \<and> same v x"
proof
  from assms(2) obtain n where n: "version x = version v + 1 + of_nat n" "rank w + n \<le> rank x"
    using move_version [OF assms(1)] by (auto simp: progress_def)
  with rank_bound [of x] have "n \<le> 4" by simp
  show "version x \<noteq> version v"
  proof
    assume "version x = version v"
    with n(1) have "(of_nat (Suc n) :: 64 word) = 0" by (simp add: algebra_simps)
    then have "2 ^ LENGTH(64) dvd Suc n" by (simp only: word_of_nat_eq_0_iff)
    then have "2 ^ 64 \<le> Suc n" by (auto dest: dvd_imp_le)
    with \<open>n \<le> 4\<close> show False by simp
  qed
  show "same v x" using assms move_same progress_same same_trans by blast
qed

end

definition order_move :: "core_order \<Rightarrow> core_order \<Rightarrow> bool" where
  "order_move v w \<longleftrightarrow> (\<exists>to' a. CanTransitionOrderStatus (co_Status v) to' \<and> w = moved_order to' a v)"

definition ticket_move :: "core_ticket \<Rightarrow> core_ticket \<Rightarrow> bool" where
  "ticket_move v w \<longleftrightarrow> (\<exists>to' a. CanTransitionTicketStatus (ct_Status v) to' \<and> w = moved_ticket to' a v)"

lemma moved_facts:
  "rm_Version (co_Meta (moved_order to' a v)) = rm_Version (co_Meta v) + 1" "co_Status (moved_order to' a v) = to'"
  "rm_Version (ct_Meta (moved_ticket to'' a w)) = rm_Version (ct_Meta w) + 1" "ct_Status (moved_ticket to'' a w) = to''"
  by (simp_all add: moved_order_def moved_ticket_def)

interpretation order_life: lifecycle "\<lambda>v. rm_Version (co_Meta v)" "\<lambda>v. core_order_rank (co_Status v)" same_order order_move
proof
  show "core_order_rank (co_Status v) \<le> 4" for v by (cases "co_Status v") simp_all
qed (auto simp: order_move_def moved_facts dest: core_move_rank intro: same_order_trans)

interpretation ticket_life: lifecycle "\<lambda>v. rm_Version (ct_Meta v)" "\<lambda>v. core_ticket_rank (ct_Status v)" same_ticket ticket_move
proof
  show "core_ticket_rank (ct_Status v) \<le> 4" for v by (cases "ct_Status v") simp_all
qed (auto simp: ticket_move_def moved_facts dest: core_ticket_move_rank intro: same_ticket_trans)

lemma run_memory_progress:
  assumes "run_memory ctx a c m = (r, m')"
  shows "entries_kept order_life.progress (mr_orders m) (mr_orders m')
    \<and> entries_kept ticket_life.progress (mr_tickets m) (mr_tickets m')"
proof (cases r)
  case (Inl e)
  with assms have "m' = m" using run_memory_failure by blast
  then show ?thesis by (simp add: entries_kept_refl)
next
  case (Inr u)
  have "order_life.progress v (moved_order to' a v)" if "CanTransitionOrderStatus (co_Status v) to'" for v to'
    using that by (intro order_life.move_progress) (auto simp: order_move_def)
  moreover have "ticket_life.progress v (moved_ticket to' a v)" if "CanTransitionTicketStatus (ct_Status v) to'" for v to'
    using that by (intro ticket_life.move_progress) (auto simp: ticket_move_def)
  ultimately show ?thesis
    using assms Inr by (cases c) (auto simp: memory_success entries_kept_refl entries_kept_new split: option.splits
        intro!: entries_kept_changed)
qed

definition all_progress :: "memory_repository \<Rightarrow> memory_repository \<Rightarrow> bool" where
  "all_progress m m' \<longleftrightarrow> entries_kept order_life.progress (mr_orders m) (mr_orders m')
     \<and> entries_kept ticket_life.progress (mr_tickets m) (mr_tickets m')"

lemma all_progress_trans: "all_progress a b \<Longrightarrow> all_progress b c \<Longrightarrow> all_progress a c"
  unfolding all_progress_def
  using entries_kept_trans [OF _ _ order_life.transp_progress] entries_kept_trans [OF _ _ ticket_life.transp_progress]
  by blast

lemma memory_steps_progress: "memory_step\<^sup>*\<^sup>* m m' \<Longrightarrow> all_progress m m'"
proof (induction rule: rtranclp_induct)
  case base
  show ?case by (simp add: all_progress_def entries_kept_refl)
next
  case (step y z)
  from step(2) have "all_progress y z" by (rule memory_stepE) (simp add: run_memory_progress all_progress_def)
  with step(3) show ?case by (rule all_progress_trans)
qed

lemma stale_order:
  assumes "Memory_TransitionOrder ctx t u k to' expected a m = (Inr order, m1)" "memory_step\<^sup>*\<^sup>* m1 m2"
  shows "Memory_TransitionOrder None t u k to'' expected a' m2 = (Inl (Failed VersionConflict ''order''), m2)"
proof -
  from assms(1) obtain v where v: "co_TenantID v = t" "co_OutletID v = u" "rm_Version (co_Meta v) = expected"
      and move: "order_move v (moved_order to' a v)" "map_of (mr_orders m1) k = Some (moved_order to' a v)"
    by (auto simp: Memory_TransitionOrder_def transact_Inr_iff guarded_Inr_iff update_conv' order_move_def split: option.splits)
  from memory_steps_progress [OF assms(2)] move(2) obtain w where w: "map_of (mr_orders m2) k = Some w"
    "order_life.progress (moved_order to' a v) w" unfolding all_progress_def entries_kept_def by blast
  from order_life.never_back [OF move(1) w(2)] v w(1) same_order_facts [of v w] show ?thesis
    by (simp add: Memory_TransitionOrder_def transact_def guarded_def first_error_Cons fails_if_def)
qed

lemma stale_ticket:
  assumes "Memory_TransitionKitchenTicket ctx t u k to' expected a m = (Inr ticket, m1)" "memory_step\<^sup>*\<^sup>* m1 m2"
  shows "Memory_TransitionKitchenTicket None t u k to'' expected a' m2 = (Inl (Failed VersionConflict ''kitchen ticket''), m2)"
proof -
  from assms(1) obtain v where v: "ct_TenantID v = t" "ct_OutletID v = u" "rm_Version (ct_Meta v) = expected"
      and move: "ticket_move v (moved_ticket to' a v)" "map_of (mr_tickets m1) k = Some (moved_ticket to' a v)"
    by (auto simp: Memory_TransitionKitchenTicket_def transact_Inr_iff guarded_Inr_iff update_conv' ticket_move_def split: option.splits)
  from memory_steps_progress [OF assms(2)] move(2) obtain w where w: "map_of (mr_tickets m2) k = Some w"
    "ticket_life.progress (moved_ticket to' a v) w" unfolding all_progress_def entries_kept_def by blast
  from ticket_life.never_back [OF move(1) w(2)] v w(1) same_ticket_facts [of v w] show ?thesis
    by (simp add: Memory_TransitionKitchenTicket_def transact_def guarded_def first_error_Cons fails_if_def)
qed

text \<open>
  C35: Of two transitions of an order or a kitchen ticket that expect the same version at most one
  succeeds: once it was moved, every later move that expects the version before, whatever happened in
  between, is refused as a version conflict and changes nothing. (A life cycle has at most four
  moves, so the 64-bit version never comes back.)
\<close>

theorem stale_transition_refused:
  assumes "memory_step\<^sup>*\<^sup>* m1 m2"
  shows "(\<forall>ctx m a order to'. Memory_TransitionOrder ctx t u k to' expected a m = (Inr order, m1) \<longrightarrow>
      Memory_TransitionOrder None t u k to'' expected a' m2 = (Inl (Failed VersionConflict ''order''), m2))
    \<and> (\<forall>ctx m a ticket to'. Memory_TransitionKitchenTicket ctx t u k to' expected a m = (Inr ticket, m1) \<longrightarrow>
      Memory_TransitionKitchenTicket None t u k toTicket expected a' m2 = (Inl (Failed VersionConflict ''kitchen ticket''), m2))"
  by (intro conjI allI impI) (erule stale_order [OF _ assms], erule stale_ticket [OF _ assms])

lemma stale_transition_refused_witness:
  "\<exists>m1. fst (Memory_TransitionOrder None ''t'' ''u'' ''o'' CoreCancelled 1 (sample_audit ''7'' ''u'' ''order'' ''o'') m1)
    = Inl (Failed VersionConflict ''order'')"
proof -
  let ?move = "Memory_TransitionOrder None ''t'' ''u'' ''o'' CoreAccepted 1 (sample_audit ''6'' ''u'' ''order'' ''o'') sample_memory"
  have "\<exists>order. fst ?move = Inr order"
    by (simp add: Memory_TransitionOrder_def transact_def guarded_def first_error_Cons fails_if_def validateAudit_def
        ensureAuditOperationAvailable_def present_def audit_key_def sample_memory_eq sample_commands_def sample_core_defs
        IsZero_def status_simps)
  then obtain order where "?move = (Inr order, snd ?move)" by (metis prod.collapse)
  with stale_transition_refused [OF rtranclp.rtrancl_refl, where k = "''o''" and to'' = CoreCancelled
      and a' = "sample_audit ''7'' ''u'' ''order'' ''o''"] show ?thesis by (metis fst_conv)
qed

end
