(* ===== verification/Core_Idempotency.thy ===== *)
theory Core_Idempotency
  imports Go_Time "HOL-Library.AList"
begin

text \<open>
  The replay protection of the core, \<open>services/core/internal/idempotency/memory.go\<close>. The map
  holds pointers: an entry removed from the map is still seen by the calls that wait for it, so
  entries live in a heap and the map holds their addresses. A call of \<open>Do\<close> is a little state
  machine whose steps are the sections under the mutex; any number of calls interleave. The heap
  remembers with each entry the identity it was stored under, which only the statements use.
\<close>

subsection \<open>State\<close>

record idem_result =
  ir_HTTPStatus :: int
  ir_Value :: string
  ir_Headers :: "(string \<times> string) list option"

record idem_scope =
  is_TenantID :: string
  is_ActorID :: string
  is_Route :: string
  is_Key :: string

definition identity :: "idem_scope \<Rightarrow> string" where
  "identity scope = is_TenantID scope @ ''|'' @ is_ActorID scope @ ''|'' @ is_Route scope @ ''|'' @ is_Key scope"

record idem_entry =
  ie_identity :: string
  ie_fingerprint :: string
  ie_createdAt :: time
  ie_done :: bool
  ie_result :: "idem_result option"
  ie_aborted :: bool

record idem_store =
  im_entries :: "(string \<times> nat) list"
  im_heap :: "idem_entry list"
  im_ttl :: duration

definition NewMemoryStore :: "duration \<Rightarrow> idem_store" where
  "NewMemoryStore ttl = \<lparr>im_entries = [], im_heap = [], im_ttl = (if ttl \<le> 0 then 24 * (60 * Minute) else ttl)\<rparr>"

text \<open>Copying the headers gives equal headers: a clone is the value itself.\<close>

definition cloneResult :: "idem_result \<Rightarrow> idem_result" where
  "cloneResult result = (case ir_Headers result of None \<Rightarrow> result
     | Some headers \<Rightarrow> result\<lparr>ir_Headers := Some (map (\<lambda>(k, v). (k, v)) headers)\<rparr>)"

subsection \<open>The sections under the mutex\<close>

definition removeExpired :: "time \<Rightarrow> idem_store \<Rightarrow> idem_store" where
  "removeExpired now s = s\<lparr>im_entries := filter (\<lambda>(key, a).
     \<not> (ie_done (im_heap s ! a) \<and> ie_createdAt (im_heap s ! a) < now - im_ttl s)) (im_entries s)\<rparr>"

datatype idem_error = FingerprintConflict | Cancelled | Unavailable string

datatype entered = Refused | WaitFor nat | Own nat

text \<open>The first section of \<open>Do\<close>: the clock is read twice, for the expiry and for a new entry.\<close>

definition enter :: "time \<Rightarrow> time \<Rightarrow> idem_scope \<Rightarrow> string \<Rightarrow> idem_store \<Rightarrow> entered \<times> idem_store" where
  "enter now now' scope fingerprint s0 =
    (let s = removeExpired now s0 in
     case map_of (im_entries s) (identity scope) of
       Some a \<Rightarrow> if ie_fingerprint (im_heap s ! a) \<noteq> fingerprint then (Refused, s) else (WaitFor a, s)
     | None \<Rightarrow> (Own (length (im_heap s)), s\<lparr>
         im_entries := AList.update (identity scope) (length (im_heap s)) (im_entries s),
         im_heap := im_heap s @ [\<lparr>ie_identity = identity scope, ie_fingerprint = fingerprint, ie_createdAt = now',
           ie_done = False, ie_result = None, ie_aborted = False\<rparr>]\<rparr>))"

definition finish :: "nat \<Rightarrow> idem_result \<Rightarrow> idem_store \<Rightarrow> idem_store" where
  "finish a result s = s\<lparr>im_heap := (im_heap s)[a := (im_heap s ! a)\<lparr>ie_result := Some (cloneResult result), ie_done := True\<rparr>]\<rparr>"

text \<open>The deferred section after a panic of the operation.\<close>

definition abort :: "string \<Rightarrow> nat \<Rightarrow> idem_store \<Rightarrow> idem_store" where
  "abort key a s = (if map_of (im_entries s) key = Some a
     then s\<lparr>im_entries := AList.delete key (im_entries s),
       im_heap := (im_heap s)[a := (im_heap s ! a)\<lparr>ie_aborted := True, ie_done := True\<rparr>]\<rparr>
     else s)"

subsection \<open>Interleaved calls\<close>

datatype call_state =
    Entering
  | Waiting nat
  | Running nat
  | Returned "idem_error + idem_result \<times> bool"
  | Panicked

record idem_call =
  ic_scope :: idem_scope
  ic_fingerprint :: string
  ic_state :: call_state

record idem_system =
  sy_store :: idem_store
  sy_calls :: "idem_call list"
  sy_clock :: time

definition entered_state :: "entered \<Rightarrow> call_state" where
  "entered_state r = (case r of Refused \<Rightarrow> Returned (Inl FingerprintConflict) | WaitFor a \<Rightarrow> Waiting a | Own a \<Rightarrow> Running a)"

definition set_state :: "nat \<Rightarrow> call_state \<Rightarrow> idem_call list \<Rightarrow> idem_call list" where
  "set_state i st calls = calls[i := (calls ! i)\<lparr>ic_state := st\<rparr>]"

inductive Do :: "idem_system \<Rightarrow> idem_system \<Rightarrow> bool" where
  call: "Do s (s\<lparr>sy_calls := sy_calls s @ [\<lparr>ic_scope = scope, ic_fingerprint = fingerprint, ic_state = Entering\<rparr>]\<rparr>)"
| enter: "i < length (sy_calls s) \<Longrightarrow> ic_state (sy_calls s ! i) = Entering \<Longrightarrow> sy_clock s \<le> now \<Longrightarrow> now \<le> now' \<Longrightarrow>
    enter now now' (ic_scope (sy_calls s ! i)) (ic_fingerprint (sy_calls s ! i)) (sy_store s) = (r, store') \<Longrightarrow>
    Do s (s\<lparr>sy_store := store', sy_calls := set_state i (entered_state r) (sy_calls s), sy_clock := now'\<rparr>)"
| finish: "i < length (sy_calls s) \<Longrightarrow> ic_state (sy_calls s ! i) = Running a \<Longrightarrow>
    Do s (s\<lparr>sy_store := finish a result (sy_store s),
      sy_calls := set_state i (Returned (Inr (cloneResult result, False))) (sy_calls s)\<rparr>)"
| panic: "i < length (sy_calls s) \<Longrightarrow> ic_state (sy_calls s ! i) = Running a \<Longrightarrow>
    Do s (s\<lparr>sy_store := abort (identity (ic_scope (sy_calls s ! i))) a (sy_store s),
      sy_calls := set_state i Panicked (sy_calls s)\<rparr>)"
| replay: "i < length (sy_calls s) \<Longrightarrow> ic_state (sy_calls s ! i) = Waiting a \<Longrightarrow> ie_done (im_heap (sy_store s) ! a) \<Longrightarrow>
    \<not> ie_aborted (im_heap (sy_store s) ! a) \<Longrightarrow> ie_result (im_heap (sy_store s) ! a) = Some result \<Longrightarrow>
    Do s (s\<lparr>sy_calls := set_state i (Returned (Inr (cloneResult result, True))) (sy_calls s)\<rparr>)"
| retry: "i < length (sy_calls s) \<Longrightarrow> ic_state (sy_calls s ! i) = Waiting a \<Longrightarrow> ie_done (im_heap (sy_store s) ! a) \<Longrightarrow>
    ie_aborted (im_heap (sy_store s) ! a) \<Longrightarrow>
    Do s (s\<lparr>sy_calls := set_state i Entering (sy_calls s)\<rparr>)"
| cancel: "i < length (sy_calls s) \<Longrightarrow> ic_state (sy_calls s ! i) = Waiting a \<Longrightarrow>
    Do s (s\<lparr>sy_calls := set_state i (Returned (Inl Cancelled)) (sy_calls s)\<rparr>)"

definition idem_reachable :: "duration \<Rightarrow> idem_system \<Rightarrow> bool" where
  "idem_reachable ttl s \<longleftrightarrow> (\<exists>start. Do\<^sup>*\<^sup>* \<lparr>sy_store = NewMemoryStore ttl, sy_calls = [], sy_clock = start\<rparr> s)"

lemma cloneResult_id [simp]: "cloneResult result = result"
  by (simp add: cloneResult_def case_prod_eta split: option.split)

subsection \<open>The invariant of the store\<close>

abbreviation entry_at :: "idem_store \<Rightarrow> nat \<Rightarrow> idem_entry" where
  "entry_at st a \<equiv> im_heap st ! a"

abbreviation addresses :: "idem_store \<Rightarrow> nat set" where
  "addresses st \<equiv> {..< length (im_heap st)}"

definition kept_or_expired :: "time \<Rightarrow> idem_store \<Rightarrow> nat \<Rightarrow> bool" where
  "kept_or_expired clock st a \<longleftrightarrow> ie_aborted (entry_at st a)
     \<or> map_of (im_entries st) (ie_identity (entry_at st a)) = Some a
     \<or> ie_done (entry_at st a) \<and> ie_createdAt (entry_at st a) + im_ttl st < clock"

definition store_ok :: "time \<Rightarrow> idem_store \<Rightarrow> bool" where
  "store_ok clock st \<longleftrightarrow> distinct (map fst (im_entries st))
     \<and> (\<forall>(k, a) \<in> set (im_entries st). a \<in> addresses st \<and> ie_identity (entry_at st a) = k \<and> \<not> ie_aborted (entry_at st a))
     \<and> (\<forall>a \<in> addresses st. ie_aborted (entry_at st a) \<longrightarrow> ie_done (entry_at st a))
     \<and> (\<forall>a \<in> addresses st. kept_or_expired clock st a)
     \<and> (\<forall>b \<in> addresses st. \<forall>a < b. ie_identity (entry_at st a) = ie_identity (entry_at st b)
          \<and> \<not> ie_aborted (entry_at st a) \<longrightarrow> ie_createdAt (entry_at st a) + im_ttl st < ie_createdAt (entry_at st b))"

text \<open>The entry of an address was made for the identity and the fingerprint of the call.\<close>

definition entry_for :: "idem_store \<Rightarrow> nat \<Rightarrow> idem_call \<Rightarrow> bool" where
  "entry_for st a c \<longleftrightarrow> a \<in> addresses st \<and> ie_identity (entry_at st a) = identity (ic_scope c)
     \<and> ie_fingerprint (entry_at st a) = ic_fingerprint c"

definition completed :: "idem_store \<Rightarrow> nat \<Rightarrow> idem_result \<Rightarrow> bool" where
  "completed st a result \<longleftrightarrow> ie_done (entry_at st a) \<and> \<not> ie_aborted (entry_at st a) \<and> ie_result (entry_at st a) = Some result"

definition call_ok :: "idem_store \<Rightarrow> idem_call \<Rightarrow> bool" where
  "call_ok st c \<longleftrightarrow> (case ic_state c of
     Waiting a \<Rightarrow> entry_for st a c
   | Running a \<Rightarrow> entry_for st a c \<and> \<not> ie_done (entry_at st a) \<and> map_of (im_entries st) (identity (ic_scope c)) = Some a
   | Returned (Inr (result, replayed)) \<Rightarrow> \<exists>a. entry_for st a c \<and> completed st a result
   | _ \<Rightarrow> True)"

lemma map_of_filter_distinct:
  assumes "distinct (map fst entries)"
  shows "map_of (filter keep entries) key = (case map_of entries key of Some a \<Rightarrow> if keep (key, a) then Some a else None | None \<Rightarrow> None)"
  using assms by (induction entries) (auto simp: map_of_eq_None_iff split: option.splits)

lemma removeExpired_simps [simp]:
  "im_heap (removeExpired now st) = im_heap st" "im_ttl (removeExpired now st) = im_ttl st"
  by (simp_all add: removeExpired_def)

lemma map_of_removeExpired:
  assumes "store_ok clock st"
  shows "map_of (im_entries (removeExpired now st)) k = (case map_of (im_entries st) k of None \<Rightarrow> None
    | Some a \<Rightarrow> if ie_done (entry_at st a) \<and> ie_createdAt (entry_at st a) < now - im_ttl st then None else Some a)"
  using assms by (simp add: removeExpired_def store_ok_def map_of_filter_distinct split: option.split)

lemma removeExpired_ok:
  assumes ok: "store_ok clock st" and "clock \<le> now" "now \<le> now'"
  shows "store_ok now' (removeExpired now st)"
proof -
  have "kept_or_expired now' (removeExpired now st) a" if "kept_or_expired clock st a" for a
    using that assms(2,3) unfolding kept_or_expired_def map_of_removeExpired [OF ok] by (auto split: if_splits)
  moreover have "distinct (map fst (im_entries (removeExpired now st)))"
    using ok by (simp add: removeExpired_def store_ok_def distinct_map_filter)
  moreover have "set (im_entries (removeExpired now st)) \<subseteq> set (im_entries st)" by (auto simp: removeExpired_def)
  ultimately show ?thesis using ok unfolding store_ok_def removeExpired_simps by blast
qed

lemma removeExpired_call: "store_ok clock st \<Longrightarrow> call_ok st c \<Longrightarrow> call_ok (removeExpired now st) c"
  by (auto simp: call_ok_def entry_for_def completed_def map_of_removeExpired split: call_state.split sum.split)

text \<open>A new entry, made when the map has none for the identity.\<close>

definition new_entry :: "time \<Rightarrow> string \<Rightarrow> string \<Rightarrow> idem_entry" where
  "new_entry now key fingerprint = \<lparr>ie_identity = key, ie_fingerprint = fingerprint, ie_createdAt = now,
     ie_done = False, ie_result = None, ie_aborted = False\<rparr>"

definition allocate :: "time \<Rightarrow> string \<Rightarrow> string \<Rightarrow> idem_store \<Rightarrow> idem_store" where
  "allocate now key fingerprint st = st\<lparr>im_entries := AList.update key (length (im_heap st)) (im_entries st),
     im_heap := im_heap st @ [new_entry now key fingerprint]\<rparr>"

lemma allocate_old: "a \<in> addresses st \<Longrightarrow> entry_at (allocate now key fp st) a = entry_at st a"
  by (simp add: allocate_def nth_append)

lemma allocate_new: "entry_at (allocate now key fp st) (length (im_heap st)) = new_entry now key fp"
  by (simp add: allocate_def)

lemma addresses_allocate: "addresses (allocate now key fp st) = insert (length (im_heap st)) (addresses st)"
  by (auto simp: allocate_def)

lemma map_of_allocate: "map_of (im_entries (allocate now key fp st)) = (map_of (im_entries st))(key \<mapsto> length (im_heap st))"
  by (simp add: allocate_def update_conv')

lemma set_alist_update: "set (AList.update k v xs) \<subseteq> insert (k, v) (set xs)"
  by (induction xs) auto

lemma allocate_ok:
  assumes ok: "store_ok now st" and fresh: "map_of (im_entries st) key = None"
  shows "store_ok now (allocate now key fp st)"
proof -
  let ?n = "length (im_heap st)" and ?st = "allocate now key fp st"
  have old: "a \<noteq> ?n" "entry_at ?st a = entry_at st a" if "a \<in> addresses st" for a using that by (auto simp: allocate_old)
  have entries: "set (im_entries ?st) \<subseteq> insert (key, ?n) (set (im_entries st))"
    using set_alist_update [of key ?n "im_entries st"] by (simp add: allocate_def)
  have ttl: "im_ttl ?st = im_ttl st" by (simp add: allocate_def)
  have kept: "kept_or_expired now ?st a" if "a \<in> addresses st" for a
    using that ok fresh old [OF that] by (auto simp: kept_or_expired_def store_ok_def map_of_allocate ttl)
  have later: "ie_createdAt (entry_at st a) + im_ttl st < now"
    if "a \<in> addresses st" "ie_identity (entry_at st a) = key" "\<not> ie_aborted (entry_at st a)" for a
    using that ok fresh by (auto simp: kept_or_expired_def store_ok_def)
  show ?thesis
    unfolding store_ok_def addresses_allocate ttl
  proof (intro conjI)
    show "distinct (map fst (im_entries ?st))"
      using ok by (simp add: store_ok_def allocate_def distinct_update)
    show "\<forall>(k, a) \<in> set (im_entries ?st). a \<in> insert ?n (addresses st) \<and> ie_identity (entry_at ?st a) = k \<and> \<not> ie_aborted (entry_at ?st a)"
    proof (rule ballI, clarify)
      fix k a assume "(k, a) \<in> set (im_entries ?st)"
      with entries consider "k = key" "a = ?n" | "(k, a) \<in> set (im_entries st)" by blast
      then show "a \<in> insert ?n (addresses st) \<and> ie_identity (entry_at ?st a) = k \<and> \<not> ie_aborted (entry_at ?st a)"
      proof cases
        case 2
        with ok have "a \<in> addresses st" "ie_identity (entry_at st a) = k" "\<not> ie_aborted (entry_at st a)"
          by (auto simp: store_ok_def)
        with old show ?thesis by simp
      qed (simp add: allocate_new new_entry_def)
    qed
    show "\<forall>a \<in> insert ?n (addresses st). ie_aborted (entry_at ?st a) \<longrightarrow> ie_done (entry_at ?st a)"
      using ok by (auto simp: allocate_new new_entry_def store_ok_def allocate_old)
    show "\<forall>a \<in> insert ?n (addresses st). kept_or_expired now ?st a"
      using kept by (auto simp: kept_or_expired_def allocate_new new_entry_def map_of_allocate)
    show "\<forall>b \<in> insert ?n (addresses st). \<forall>a < b. ie_identity (entry_at ?st a) = ie_identity (entry_at ?st b)
        \<and> \<not> ie_aborted (entry_at ?st a) \<longrightarrow> ie_createdAt (entry_at ?st a) + im_ttl st < ie_createdAt (entry_at ?st b)"
      using ok later by (auto simp: allocate_new new_entry_def store_ok_def allocate_old)
  qed
qed

lemma allocate_call: "call_ok st c \<Longrightarrow> ic_state c \<noteq> Running (length (im_heap st)) \<Longrightarrow>
    (\<And>a. ic_state c = Running a \<Longrightarrow> identity (ic_scope c) \<noteq> key) \<Longrightarrow> call_ok (allocate now key fp st) c"
  by (auto simp: call_ok_def entry_for_def completed_def allocate_old map_of_allocate addresses_allocate
      split: call_state.split sum.split) (auto simp: allocate_old)

lemma enter_cases:
  assumes "enter now now' scope fingerprint st = (r, st')"
  obtains (refused) a where "r = Refused" "st' = removeExpired now st"
      "map_of (im_entries st') (identity scope) = Some a" "ie_fingerprint (entry_at st' a) \<noteq> fingerprint"
    | (wait) a where "r = WaitFor a" "st' = removeExpired now st"
      "map_of (im_entries st') (identity scope) = Some a" "ie_fingerprint (entry_at st' a) = fingerprint"
    | (own) "r = Own (length (im_heap st))" "st' = allocate now' (identity scope) fingerprint (removeExpired now st)"
      "map_of (im_entries (removeExpired now st)) (identity scope) = None"
  using assms by (auto simp: enter_def Let_def allocate_def new_entry_def split: option.splits if_splits)

text \<open>Completing and aborting an entry that is in the map and not done.\<close>

lemma store_ok_change_entry:
  assumes ok: "store_ok clock st" and a: "a \<in> addresses st"
    and keeps: "ie_identity e = ie_identity (entry_at st a)" "ie_createdAt e = ie_createdAt (entry_at st a)"
      "ie_done e" "\<not> ie_aborted e" "\<not> ie_aborted (entry_at st a)"
      "map_of (im_entries st) (ie_identity (entry_at st a)) = Some a"
  shows "store_ok clock (st\<lparr>im_heap := (im_heap st)[a := e]\<rparr>)"
proof -
  have at: "(im_heap st)[a := e] ! b = (if b = a then e else entry_at st b)" if "b < length (im_heap st)" for b
    using that by (simp add: nth_list_update)
  show ?thesis
    using ok a keeps unfolding store_ok_def kept_or_expired_def by (auto simp: nth_list_update split: if_splits)
qed

lemma finish_simps [simp]:
  "im_entries (finish a result st) = im_entries st" "addresses (finish a result st) = addresses st"
  "im_ttl (finish a result st) = im_ttl st"
  by (simp_all add: finish_def)

lemma entry_at_finish: "b \<in> addresses st \<Longrightarrow> entry_at (finish a result st) b =
    (if b = a then (entry_at st a)\<lparr>ie_result := Some result, ie_done := True\<rparr> else entry_at st b)"
  by (simp add: finish_def nth_list_update)

lemma finish_ok:
  assumes "store_ok clock st" "a \<in> addresses st" "\<not> ie_done (entry_at st a)"
    "map_of (im_entries st) (ie_identity (entry_at st a)) = Some a"
  shows "store_ok clock (finish a result st)"
  unfolding finish_def cloneResult_id
  by (rule store_ok_change_entry) (use assms in \<open>auto simp: store_ok_def\<close>)

lemma finish_completed: "a \<in> addresses st \<Longrightarrow> \<not> ie_aborted (entry_at st a) \<Longrightarrow> completed (finish a result st) a result"
  by (simp add: completed_def entry_at_finish)

lemma finish_other: "completed st b r \<Longrightarrow> b \<in> addresses st \<Longrightarrow> \<not> ie_done (entry_at st a) \<Longrightarrow> completed (finish a result st) b r"
  by (auto simp: completed_def entry_at_finish)

lemma entry_for_finish [simp]: "entry_for (finish a result st) b c = entry_for st b c"
  by (auto simp: entry_for_def entry_at_finish split: if_splits)

lemma finish_call:
  assumes "call_ok st c" "ic_state c \<noteq> Running a" "\<not> ie_done (entry_at st a)"
  shows "call_ok (finish a result st) c"
proof (cases "ic_state c")
  case (Running b)
  with assms have "b \<in> addresses st" "b \<noteq> a" "\<not> ie_done (entry_at st b)" by (auto simp: call_ok_def entry_for_def)
  with assms Running show ?thesis by (simp add: call_ok_def entry_at_finish)
next
  case (Returned r)
  show ?thesis
  proof (cases r)
    case (Inr p)
    with assms(1) Returned obtain b where b: "entry_for st b c" "completed st b (fst p)"
      by (auto simp: call_ok_def split: prod.splits)
    then have "completed (finish a result st) b (fst p)" using assms(3) by (auto simp: entry_for_def intro: finish_other)
    with b Inr Returned show ?thesis by (auto simp: call_ok_def split: prod.split)
  qed (use Returned in \<open>simp add: call_ok_def\<close>)
qed (use assms in \<open>simp_all add: call_ok_def\<close>)

lemma abort_eq: "map_of (im_entries st) key = Some a \<Longrightarrow> abort key a st = st\<lparr>im_entries := AList.delete key (im_entries st),
    im_heap := (im_heap st)[a := (entry_at st a)\<lparr>ie_aborted := True, ie_done := True\<rparr>]\<rparr>"
  by (simp add: abort_def)

lemma entry_at_abort: "map_of (im_entries st) key = Some a \<Longrightarrow> b \<in> addresses st \<Longrightarrow> entry_at (abort key a st) b =
    (if b = a then (entry_at st a)\<lparr>ie_aborted := True, ie_done := True\<rparr> else entry_at st b)"
  by (simp add: abort_eq nth_list_update)

lemma addresses_abort [simp]: "addresses (abort key a st) = addresses st"
  by (simp add: abort_def)

lemma entry_for_abort: "map_of (im_entries st) key = Some a \<Longrightarrow> entry_for (abort key a st) b c = entry_for st b c"
  by (auto simp: entry_for_def entry_at_abort split: if_splits)

lemma map_of_abort: "map_of (im_entries st) key = Some a \<Longrightarrow>
    map_of (im_entries (abort key a st)) = (map_of (im_entries st))(key := None)"
  by (simp add: abort_eq delete_conv')

lemma abort_ok:
  assumes ok: "store_ok clock st" and here: "map_of (im_entries st) key = Some a"
  shows "store_ok clock (abort key a st)"
proof -
  from here have "(key, a) \<in> set (im_entries st)" by (rule map_of_SomeD)
  with ok have a: "a \<in> addresses st" "ie_identity (entry_at st a) = key" by (auto simp: store_ok_def)
  have ttl: "im_ttl (abort key a st) = im_ttl st" by (simp add: abort_def)
  have entries: "set (im_entries (abort key a st)) = {p \<in> set (im_entries st). fst p \<noteq> key}"
    by (auto simp: abort_eq [OF here] AList.delete_eq)
  have unique: "b \<noteq> a" if "(k, b) \<in> set (im_entries st)" "k \<noteq> key" for k b
    using that a(2) ok by (auto simp: store_ok_def)
  show ?thesis
    unfolding store_ok_def addresses_abort ttl
  proof (intro conjI)
    show "distinct (map fst (im_entries (abort key a st)))"
      using ok by (simp add: store_ok_def abort_eq [OF here] distinct_delete)
    show "\<forall>(k, b) \<in> set (im_entries (abort key a st)). b \<in> addresses st
        \<and> ie_identity (entry_at (abort key a st) b) = k \<and> \<not> ie_aborted (entry_at (abort key a st) b)"
    proof (rule ballI, clarify)
      fix k b assume "(k, b) \<in> set (im_entries (abort key a st))"
      with entries have kb: "(k, b) \<in> set (im_entries st)" "k \<noteq> key" by auto
      with ok have "b \<in> addresses st" "ie_identity (entry_at st b) = k" "\<not> ie_aborted (entry_at st b)" by (auto simp: store_ok_def)
      with unique [OF kb] show "b \<in> addresses st \<and> ie_identity (entry_at (abort key a st) b) = k
          \<and> \<not> ie_aborted (entry_at (abort key a st) b)" by (simp add: entry_at_abort [OF here])
    qed
    show "\<forall>b \<in> addresses st. ie_aborted (entry_at (abort key a st) b) \<longrightarrow> ie_done (entry_at (abort key a st) b)"
      using ok by (simp add: store_ok_def entry_at_abort [OF here])
    show "\<forall>b \<in> addresses st. kept_or_expired clock (abort key a st) b"
      using ok here by (auto simp: store_ok_def kept_or_expired_def entry_at_abort [OF here] map_of_abort [OF here] ttl)
    show "\<forall>c \<in> addresses st. \<forall>b < c. ie_identity (entry_at (abort key a st) b) = ie_identity (entry_at (abort key a st) c)
        \<and> \<not> ie_aborted (entry_at (abort key a st) b) \<longrightarrow>
        ie_createdAt (entry_at (abort key a st) b) + im_ttl st < ie_createdAt (entry_at (abort key a st) c)"
      using ok by (auto simp: store_ok_def entry_at_abort [OF here])
  qed
qed

lemma abort_call:
  assumes "call_ok st c" "ic_state c \<noteq> Running a" "\<not> ie_done (entry_at st a)" "map_of (im_entries st) key = Some a"
  shows "call_ok (abort key a st) c"
proof (cases "ic_state c")
  case (Running b)
  with assms have "b \<in> addresses st" "b \<noteq> a" "\<not> ie_done (entry_at st b)" "identity (ic_scope c) \<noteq> key"
    by (auto simp: call_ok_def entry_for_def)
  with assms Running show ?thesis by (simp add: call_ok_def entry_at_abort entry_for_abort map_of_abort)
next
  case (Returned r)
  show ?thesis
  proof (cases r)
    case (Inr p)
    with assms(1) Returned obtain b where b: "entry_for st b c" "completed st b (fst p)"
      by (auto simp: call_ok_def split: prod.splits)
    with assms(3) have "completed (abort key a st) b (fst p)"
      by (auto simp: completed_def entry_for_def entry_at_abort [OF assms(4)])
    with b Inr Returned show ?thesis by (auto simp: call_ok_def entry_for_abort [OF assms(4)] split: prod.split)
  qed (use Returned in \<open>simp add: call_ok_def\<close>)
qed (use assms in \<open>simp_all add: call_ok_def entry_for_abort\<close>)

end
