(* ===== verification/Core_Idempotency_Properties.thy ===== *)
theory Core_Idempotency_Properties
  imports Core_Idempotency
begin

text \<open>
  What the replay protection promises under every interleaving of its calls: the invariant of the
  calls together with the store, and its consequences.
\<close>

subsection \<open>The invariant of the system\<close>

definition executed_by :: "idem_store \<Rightarrow> nat \<Rightarrow> idem_call \<Rightarrow> bool" where
  "executed_by st a c \<longleftrightarrow> entry_for st a c \<and> (\<exists>result. completed st a result \<and> ic_state c = Returned (Inr (result, False)))"

definition system_ok :: "idem_system \<Rightarrow> bool" where
  "system_ok s \<longleftrightarrow> store_ok (sy_clock s) (sy_store s) \<and> (\<forall>c \<in> set (sy_calls s). call_ok (sy_store s) c)
     \<and> (\<forall>i < length (sy_calls s). \<forall>j < length (sy_calls s). \<forall>a. i \<noteq> j \<longrightarrow>
          ic_state (sy_calls s ! i) = Running a \<longrightarrow> ic_state (sy_calls s ! j) \<noteq> Running a)
     \<and> (\<forall>a \<in> addresses (sy_store s). \<not> ie_done (entry_at (sy_store s) a) \<longrightarrow> (\<exists>c \<in> set (sy_calls s). ic_state c = Running a))
     \<and> (\<forall>a \<in> addresses (sy_store s). ie_done (entry_at (sy_store s) a) \<and> \<not> ie_aborted (entry_at (sy_store s) a) \<longrightarrow>
          (\<exists>c \<in> set (sy_calls s). executed_by (sy_store s) a c))"

lemma entry_for_state [simp]: "entry_for st a (c\<lparr>ic_state := x\<rparr>) = entry_for st a c"
  by (simp add: entry_for_def)

lemma length_set_state [simp]: "length (set_state i x calls) = length calls"
  by (simp add: set_state_def)

lemma nth_set_state: "j < length calls \<Longrightarrow> set_state i x calls ! j = (if j = i then (calls ! i)\<lparr>ic_state := x\<rparr> else calls ! j)"
  by (simp add: set_state_def nth_list_update)

lemma in_set_state:
  assumes i: "i < length calls"
  shows "c \<in> set (set_state i x calls) \<longleftrightarrow>
    c = (calls ! i)\<lparr>ic_state := x\<rparr> \<or> (\<exists>j < length calls. j \<noteq> i \<and> c = calls ! j)"
proof -
  have "c \<in> set (set_state i x calls) \<longleftrightarrow> (\<exists>j < length calls. c = set_state i x calls ! j)"
    by (auto simp: in_set_conv_nth)
  also have "\<dots> \<longleftrightarrow> c = (calls ! i)\<lparr>ic_state := x\<rparr> \<or> (\<exists>j < length calls. j \<noteq> i \<and> c = calls ! j)"
  proof
    assume "\<exists>j < length calls. c = set_state i x calls ! j"
    then obtain j where j: "j < length calls" "c = set_state i x calls ! j" by blast
    then show "c = (calls ! i)\<lparr>ic_state := x\<rparr> \<or> (\<exists>j < length calls. j \<noteq> i \<and> c = calls ! j)"
      unfolding nth_set_state [OF j(1)] by (cases "j = i") auto
  next
    assume "c = (calls ! i)\<lparr>ic_state := x\<rparr> \<or> (\<exists>j < length calls. j \<noteq> i \<and> c = calls ! j)"
    then show "\<exists>j < length calls. c = set_state i x calls ! j"
    proof
      assume "c = (calls ! i)\<lparr>ic_state := x\<rparr>"
      then have "c = set_state i x calls ! i" using nth_set_state [OF i, of i x] by simp
      with i show ?thesis by blast
    next
      assume "\<exists>j < length calls. j \<noteq> i \<and> c = calls ! j"
      then obtain j where j: "j < length calls" "j \<noteq> i" "c = calls ! j" by blast
      then have "c = set_state i x calls ! j" using nth_set_state [OF j(1), of i x] by simp
      with j(1) show ?thesis by blast
    qed
  qed
  finally show ?thesis .
qed

lemma new_in_set_state: "i < length calls \<Longrightarrow> (calls ! i)\<lparr>ic_state := x\<rparr> \<in> set (set_state i x calls)"
  by (simp add: in_set_state)

lemma other_index:
  assumes "c \<in> set calls" "ic_state c \<noteq> ic_state (calls ! i)"
  shows "\<exists>j < length calls. j \<noteq> i \<and> c = calls ! j"
proof -
  from assms(1) obtain j where j: "j < length calls" "calls ! j = c" unfolding in_set_conv_nth by blast
  with assms(2) have "j \<noteq> i" by (rule_tac notI) simp
  with j show ?thesis by blast
qed

text \<open>A step of call \<open>i\<close>: what it has to keep.\<close>

lemma system_ok_step:
  assumes ok: "system_ok s" and i: "i < length (sy_calls s)"
    and store: "store_ok clock st"
    and others: "\<And>j. j < length (sy_calls s) \<Longrightarrow> j \<noteq> i \<Longrightarrow> call_ok st (sy_calls s ! j)"
    and mine: "call_ok st ((sy_calls s ! i)\<lparr>ic_state := x\<rparr>)"
    and fresh: "\<And>a. x = Running a \<Longrightarrow> a \<notin> addresses (sy_store s)"
    and owned: "\<And>a. a \<in> addresses st \<Longrightarrow> \<not> ie_done (entry_at st a) \<Longrightarrow>
      x = Running a \<or> (\<exists>j < length (sy_calls s). j \<noteq> i \<and> ic_state (sy_calls s ! j) = Running a)"
    and executed: "\<And>a. a \<in> addresses st \<Longrightarrow> ie_done (entry_at st a) \<Longrightarrow> \<not> ie_aborted (entry_at st a) \<Longrightarrow>
      executed_by st a ((sy_calls s ! i)\<lparr>ic_state := x\<rparr>) \<or>
      (\<exists>j < length (sy_calls s). j \<noteq> i \<and> executed_by st a (sy_calls s ! j))"
  shows "system_ok (s\<lparr>sy_store := st, sy_calls := set_state i x (sy_calls s), sy_clock := clock\<rparr>)"
proof -
  let ?calls = "set_state i x (sy_calls s)"
  note mem = in_set_state [OF i]
  have "call_ok st c" if "c \<in> set ?calls" for c using that others mine unfolding mem by blast
  moreover have "ic_state (?calls ! k) \<noteq> Running a"
    if jk: "j < length (sy_calls s)" "k < length (sy_calls s)" "j \<noteq> k" "ic_state (?calls ! j) = Running a" for j k a
  proof
    assume k: "ic_state (?calls ! k) = Running a"
    have old: "a \<in> addresses (sy_store s)" if "n < length (sy_calls s)" "ic_state (sy_calls s ! n) = Running a" for n
    proof -
      have "call_ok (sy_store s) (sy_calls s ! n)" using ok that(1) by (simp add: system_ok_def)
      with that(2) show ?thesis by (simp add: call_ok_def entry_for_def)
    qed
    have uniq: "ic_state (sy_calls s ! j) = Running a \<Longrightarrow> ic_state (sy_calls s ! k) \<noteq> Running a"
      using ok jk(1-3) unfolding system_ok_def by blast
    note at = nth_set_state [OF jk(1), of i x] nth_set_state [OF jk(2), of i x]
    consider "j = i" "k \<noteq> i" | "k = i" "j \<noteq> i" | "j \<noteq> i" "k \<noteq> i" using jk(3) by blast
    then show False
    proof cases
      case 1
      with at jk(4) k have "x = Running a" "ic_state (sy_calls s ! k) = Running a" by simp_all
      with fresh old [OF jk(2)] show False by blast
    next
      case 2
      with at jk(4) k have "x = Running a" "ic_state (sy_calls s ! j) = Running a" by simp_all
      with fresh old [OF jk(1)] show False by blast
    next
      case 3
      with at jk(4) k uniq show False by simp
    qed
  qed
  moreover have "\<exists>c \<in> set ?calls. ic_state c = Running a" if "a \<in> addresses st" "\<not> ie_done (entry_at st a)" for a
    using owned [OF that]
  proof
    assume "x = Running a"
    then show ?thesis by (intro bexI [OF _ new_in_set_state [OF i]]) simp
  next
    assume "\<exists>j < length (sy_calls s). j \<noteq> i \<and> ic_state (sy_calls s ! j) = Running a"
    then show ?thesis using mem by blast
  qed
  moreover have "\<exists>c \<in> set ?calls. executed_by st a c"
    if "a \<in> addresses st" "ie_done (entry_at st a)" "\<not> ie_aborted (entry_at st a)" for a
    using executed [OF that] mem by blast
  ultimately show ?thesis unfolding system_ok_def using store by simp
qed

text \<open>Consequences of the invariant for the calls other than \<open>i\<close>.\<close>

lemma system_okD:
  assumes "system_ok s"
  shows "store_ok (sy_clock s) (sy_store s)"
    and "i < length (sy_calls s) \<Longrightarrow> call_ok (sy_store s) (sy_calls s ! i)"
    and "i < length (sy_calls s) \<Longrightarrow> j < length (sy_calls s) \<Longrightarrow> j \<noteq> i \<Longrightarrow> ic_state (sy_calls s ! i) = Running a \<Longrightarrow>
      ic_state (sy_calls s ! j) \<noteq> Running a"
  using assms unfolding system_ok_def by auto

lemma owner_other:
  assumes "system_ok s" "a \<in> addresses (sy_store s)" "\<not> ie_done (entry_at (sy_store s) a)"
    "ic_state (sy_calls s ! i) \<noteq> Running a"
  shows "\<exists>j < length (sy_calls s). j \<noteq> i \<and> ic_state (sy_calls s ! j) = Running a"
proof -
  from assms(1-3) obtain c where c: "c \<in> set (sy_calls s)" "ic_state c = Running a" unfolding system_ok_def by blast
  with assms(4) other_index [of c "sy_calls s" i] show ?thesis by auto
qed

lemma executor_other:
  assumes "system_ok s" "a \<in> addresses (sy_store s)" "ie_done (entry_at (sy_store s) a)" "\<not> ie_aborted (entry_at (sy_store s) a)"
    "\<And>r. ic_state (sy_calls s ! i) \<noteq> Returned r"
  shows "\<exists>j < length (sy_calls s). j \<noteq> i \<and> executed_by (sy_store s) a (sy_calls s ! j)"
proof -
  from assms(1-4) obtain c where c: "c \<in> set (sy_calls s)" "executed_by (sy_store s) a c" unfolding system_ok_def by blast
  then obtain r where "ic_state c = Returned r" by (auto simp: executed_by_def)
  with assms(5) [of r] other_index [OF c(1), of i] c(2) show ?thesis by auto
qed

lemma entries_addresses: "store_ok clock st \<Longrightarrow> map_of (im_entries st) key = Some a \<Longrightarrow>
    a \<in> addresses st \<and> ie_identity (entry_at st a) = key \<and> \<not> ie_aborted (entry_at st a)"
  by (auto simp: store_ok_def dest: map_of_SomeD)

lemma executed_by_heap: "im_heap st' = im_heap st \<Longrightarrow> executed_by st' a c = executed_by st a c"
  by (simp add: executed_by_def completed_def entry_for_def)

text \<open>A step that leaves the heap and the running calls alone.\<close>

lemma system_ok_quiet:
  assumes ok: "system_ok s" and i: "i < length (sy_calls s)"
    and now: "sy_clock s \<le> now" "now \<le> now'" and st: "st = sy_store s \<or> st = removeExpired now (sy_store s)"
    and old: "\<And>a. ic_state (sy_calls s ! i) \<noteq> Running a" "\<And>r. ic_state (sy_calls s ! i) \<noteq> Returned r"
    and mine: "call_ok st ((sy_calls s ! i)\<lparr>ic_state := x\<rparr>)" "\<And>a. x \<noteq> Running a"
    and clock: "st = sy_store s \<Longrightarrow> store_ok now' st"
  shows "system_ok (s\<lparr>sy_store := st, sy_calls := set_state i x (sy_calls s), sy_clock := now'\<rparr>)"
proof (rule system_ok_step [OF ok i])
  note store = system_okD(1) [OF ok]
  have heap: "im_heap st = im_heap (sy_store s)" using st by auto
  show "store_ok now' st" using st clock removeExpired_ok [OF store now] by blast
  show "call_ok st (sy_calls s ! j)" if "j < length (sy_calls s)" for j
    using st system_okD(2) [OF ok that] removeExpired_call [OF store] by auto
  show "x = Running a \<or> (\<exists>j < length (sy_calls s). j \<noteq> i \<and> ic_state (sy_calls s ! j) = Running a)"
    if "a \<in> addresses st" "\<not> ie_done (entry_at st a)" for a
    using owner_other [OF ok, of a i] that old(1) unfolding heap by blast
  show "executed_by st a ((sy_calls s ! i)\<lparr>ic_state := x\<rparr>) \<or>
      (\<exists>j < length (sy_calls s). j \<noteq> i \<and> executed_by st a (sy_calls s ! j))"
    if "a \<in> addresses st" "ie_done (entry_at st a)" "\<not> ie_aborted (entry_at st a)" for a
    using executor_other [OF ok, of a i] that old(2) unfolding heap executed_by_heap [OF heap] by blast
qed (use mine in auto)

lemma system_ok_calls:
  assumes ok: "system_ok s" and i: "i < length (sy_calls s)" and waiting: "ic_state (sy_calls s ! i) = Waiting a"
    and mine: "call_ok (sy_store s) ((sy_calls s ! i)\<lparr>ic_state := x\<rparr>)" "\<And>a. x \<noteq> Running a"
  shows "system_ok (s\<lparr>sy_calls := set_state i x (sy_calls s)\<rparr>)"
proof -
  have "s\<lparr>sy_calls := set_state i x (sy_calls s)\<rparr> =
      s\<lparr>sy_store := sy_store s, sy_calls := set_state i x (sy_calls s), sy_clock := sy_clock s\<rparr>" by (cases s) simp
  also have "system_ok \<dots>"
    by (rule system_ok_quiet [OF ok i order.refl order.refl])
      (use waiting mine system_okD(1) [OF ok] in auto)
  finally show ?thesis .
qed

lemma system_ok_own:
  assumes ok: "system_ok s" and i: "i < length (sy_calls s)" "ic_state (sy_calls s ! i) = Entering"
    and now: "sy_clock s \<le> now" "now \<le> now'"
    and st: "st = removeExpired now (sy_store s)" "map_of (im_entries st) (identity (ic_scope (sy_calls s ! i))) = None"
  shows "system_ok (s\<lparr>sy_store := allocate now' (identity (ic_scope (sy_calls s ! i))) (ic_fingerprint (sy_calls s ! i)) st,
      sy_calls := set_state i (Running (length (im_heap st))) (sy_calls s), sy_clock := now'\<rparr>)"
proof (rule system_ok_step [OF ok i(1)])
  let ?key = "identity (ic_scope (sy_calls s ! i))" and ?fp = "ic_fingerprint (sy_calls s ! i)"
  let ?st = "allocate now' ?key ?fp st"
  note store = system_okD(1) [OF ok]
  have heap: "im_heap st = im_heap (sy_store s)" by (simp add: st(1))
  show "store_ok now' ?st" using allocate_ok [OF removeExpired_ok [OF store now]] st by simp
  show "call_ok ?st (sy_calls s ! j)" if j: "j < length (sy_calls s)" for j
  proof -
    have "call_ok st (sy_calls s ! j)" unfolding st(1) by (rule removeExpired_call [OF store system_okD(2) [OF ok j]])
    then show ?thesis using st(2) by (intro allocate_call) (auto simp: call_ok_def entry_for_def)
  qed
  show "call_ok ?st ((sy_calls s ! i)\<lparr>ic_state := Running (length (im_heap st))\<rparr>)"
    by (auto simp: call_ok_def entry_for_def addresses_allocate allocate_new map_of_allocate) (simp_all add: new_entry_def)
  show "a \<notin> addresses (sy_store s)" if "Running (length (im_heap st)) = Running a" for a
    using that by (simp add: heap)
  show "Running (length (im_heap st)) = Running a \<or> (\<exists>j < length (sy_calls s). j \<noteq> i \<and> ic_state (sy_calls s ! j) = Running a)"
    if "a \<in> addresses ?st" "\<not> ie_done (entry_at ?st a)" for a
    using owner_other [OF ok, of a i] that i(2) unfolding addresses_allocate heap
    by (auto simp: allocate_old [of _ st, unfolded heap])
  show "executed_by ?st a ((sy_calls s ! i)\<lparr>ic_state := Running (length (im_heap st))\<rparr>) \<or>
      (\<exists>j < length (sy_calls s). j \<noteq> i \<and> executed_by ?st a (sy_calls s ! j))"
    if a: "a \<in> addresses ?st" "ie_done (entry_at ?st a)" "\<not> ie_aborted (entry_at ?st a)" for a
  proof -
    have "a \<noteq> length (im_heap st)" using a(2) by (auto simp: allocate_new new_entry_def)
    with a(1) have old: "a \<in> addresses st" unfolding addresses_allocate by simp
    then have "executed_by ?st a c = executed_by (sy_store s) a c" for c
      by (simp add: executed_by_def completed_def entry_for_def addresses_allocate allocate_old heap)
    moreover have "\<exists>j < length (sy_calls s). j \<noteq> i \<and> executed_by (sy_store s) a (sy_calls s ! j)"
      by (rule executor_other [OF ok]) (use a old i(2) in \<open>simp_all add: allocate_old heap\<close>)
    ultimately show ?thesis by simp
  qed
qed

lemma system_ok_enter:
  assumes ok: "system_ok s" and i: "i < length (sy_calls s)" "ic_state (sy_calls s ! i) = Entering"
    and now: "sy_clock s \<le> now" "now \<le> now'"
    and run: "enter now now' (ic_scope (sy_calls s ! i)) (ic_fingerprint (sy_calls s ! i)) (sy_store s) = (r, st)"
  shows "system_ok (s\<lparr>sy_store := st, sy_calls := set_state i (entered_state r) (sy_calls s), sy_clock := now'\<rparr>)"
  using run
proof (cases rule: enter_cases)
  case own
  from system_ok_own [OF ok i now refl own(3)] own show ?thesis by (simp add: entered_state_def)
next
  case (refused a)
  show ?thesis
    by (rule system_ok_quiet [OF ok i(1) now])
      (use i(2) refused removeExpired_ok [OF system_okD(1) [OF ok] now] in \<open>auto simp: entered_state_def call_ok_def\<close>)
next
  case (wait a)
  note store = removeExpired_ok [OF system_okD(1) [OF ok] now]
  from entries_addresses [OF store wait(3) [unfolded wait(2)]] wait(4)
  have "entry_for st a (sy_calls s ! i)" by (simp add: entry_for_def wait(2))
  then show ?thesis
    by (intro system_ok_quiet [OF ok i(1) now])
      (use i(2) wait store in \<open>auto simp: entered_state_def call_ok_def\<close>)
qed

lemma running_facts:
  assumes ok: "system_ok s" and i: "i < length (sy_calls s)" "ic_state (sy_calls s ! i) = Running a"
  shows "entry_for (sy_store s) a (sy_calls s ! i)" "\<not> ie_done (entry_at (sy_store s) a)"
    "map_of (im_entries (sy_store s)) (identity (ic_scope (sy_calls s ! i))) = Some a"
    "\<not> ie_aborted (entry_at (sy_store s) a)"
  using system_okD(2) [OF ok i(1)] i(2) entries_addresses [OF system_okD(1) [OF ok]] by (auto simp: call_ok_def)

text \<open>A step of the owner that settles its entry.\<close>

lemma system_ok_settle:
  assumes ok: "system_ok s" and i: "i < length (sy_calls s)" "ic_state (sy_calls s ! i) = Running a"
    and store: "store_ok (sy_clock s) st" and range: "addresses st = addresses (sy_store s)"
    and settled: "ie_done (entry_at st a)" and other: "\<And>b. b \<in> addresses (sy_store s) \<Longrightarrow> b \<noteq> a \<Longrightarrow> entry_at st b = entry_at (sy_store s) b"
    and others: "\<And>j. j < length (sy_calls s) \<Longrightarrow> ic_state (sy_calls s ! j) \<noteq> Running a \<Longrightarrow> call_ok st (sy_calls s ! j)"
    and mine: "call_ok st ((sy_calls s ! i)\<lparr>ic_state := x\<rparr>)" "\<And>a. x \<noteq> Running a"
    and result: "\<not> ie_aborted (entry_at st a) \<Longrightarrow> executed_by st a ((sy_calls s ! i)\<lparr>ic_state := x\<rparr>)"
  shows "system_ok (s\<lparr>sy_store := st, sy_calls := set_state i x (sy_calls s)\<rparr>)"
proof -
  note unique = system_okD(3) [OF ok i(1) _ _ i(2)]
  have "s\<lparr>sy_store := st, sy_calls := set_state i x (sy_calls s)\<rparr> =
      s\<lparr>sy_store := st, sy_calls := set_state i x (sy_calls s), sy_clock := sy_clock s\<rparr>" by (cases s) simp
  also have "system_ok \<dots>"
  proof (rule system_ok_step [OF ok i(1) store])
    show "x = Running b \<or> (\<exists>j < length (sy_calls s). j \<noteq> i \<and> ic_state (sy_calls s ! j) = Running b)"
      if b: "b \<in> addresses st" "\<not> ie_done (entry_at st b)" for b
    proof -
      from settled b(2) have "b \<noteq> a" by auto
      with b other have "b \<in> addresses (sy_store s)" "\<not> ie_done (entry_at (sy_store s) b)"
        "ic_state (sy_calls s ! i) \<noteq> Running b" using range i(2) by auto
      from owner_other [OF ok this] show ?thesis by blast
    qed
    show "executed_by st b ((sy_calls s ! i)\<lparr>ic_state := x\<rparr>) \<or>
        (\<exists>j < length (sy_calls s). j \<noteq> i \<and> executed_by st b (sy_calls s ! j))"
      if b: "b \<in> addresses st" "ie_done (entry_at st b)" "\<not> ie_aborted (entry_at st b)" for b
    proof (cases "b = a")
      case True
      with b result show ?thesis by blast
    next
      case False
      from b(1) have old: "b \<in> addresses (sy_store s)" unfolding range .
      have "executed_by st b c = executed_by (sy_store s) b c" for c
        using old range other [OF old False] by (simp add: executed_by_def completed_def entry_for_def)
      with executor_other [OF ok old, of i] b(2,3) i(2) other [OF old False] show ?thesis by auto
    qed
  qed (use unique others mine in auto)
  finally show ?thesis .
qed

lemma system_ok_finish:
  assumes ok: "system_ok s" and i: "i < length (sy_calls s)" "ic_state (sy_calls s ! i) = Running a"
  shows "system_ok (s\<lparr>sy_store := finish a result (sy_store s), sy_calls := set_state i (Returned (Inr (result, False))) (sy_calls s)\<rparr>)"
proof (rule system_ok_settle [OF ok i])
  note run = running_facts [OF ok i]
  then have a: "a \<in> addresses (sy_store s)" by (simp add: entry_for_def)
  from run(1,3) show "store_ok (sy_clock s) (finish a result (sy_store s))"
    by (intro finish_ok [OF system_okD(1) [OF ok] a run(2)]) (simp add: entry_for_def)
  show "executed_by (finish a result (sy_store s)) a ((sy_calls s ! i)\<lparr>ic_state := Returned (Inr (result, False))\<rparr>)"
    using run(1) finish_completed [OF a run(4)] by (auto simp: executed_by_def)
  then show "call_ok (finish a result (sy_store s)) ((sy_calls s ! i)\<lparr>ic_state := Returned (Inr (result, False))\<rparr>)"
    by (auto simp: executed_by_def call_ok_def)
  show "call_ok (finish a result (sy_store s)) (sy_calls s ! j)"
    if "j < length (sy_calls s)" "ic_state (sy_calls s ! j) \<noteq> Running a" for j
    by (rule finish_call [OF system_okD(2) [OF ok that(1)] that(2) run(2)])
qed (use running_facts [OF ok i] in \<open>auto simp: entry_at_finish entry_for_def\<close>)

lemma system_ok_panic:
  assumes ok: "system_ok s" and i: "i < length (sy_calls s)" "ic_state (sy_calls s ! i) = Running a"
  shows "system_ok (s\<lparr>sy_store := abort (identity (ic_scope (sy_calls s ! i))) a (sy_store s),
    sy_calls := set_state i Panicked (sy_calls s)\<rparr>)"
proof (rule system_ok_settle [OF ok i])
  note run = running_facts [OF ok i]
  then have a: "a \<in> addresses (sy_store s)" by (simp add: entry_for_def)
  show "store_ok (sy_clock s) (abort (identity (ic_scope (sy_calls s ! i))) a (sy_store s))"
    by (rule abort_ok [OF system_okD(1) [OF ok] run(3)])
  show "call_ok (abort (identity (ic_scope (sy_calls s ! i))) a (sy_store s)) (sy_calls s ! j)"
    if "j < length (sy_calls s)" "ic_state (sy_calls s ! j) \<noteq> Running a" for j
    by (rule abort_call [OF system_okD(2) [OF ok that(1)] that(2) run(2,3)])
  show "ie_done (entry_at (abort (identity (ic_scope (sy_calls s ! i))) a (sy_store s)) a)"
    by (simp add: entry_at_abort [OF run(3) a])
  show "\<not> ie_aborted (entry_at (abort (identity (ic_scope (sy_calls s ! i))) a (sy_store s)) a) \<Longrightarrow>
      executed_by (abort (identity (ic_scope (sy_calls s ! i))) a (sy_store s)) a ((sy_calls s ! i)\<lparr>ic_state := Panicked\<rparr>)"
    by (simp add: entry_at_abort [OF run(3) a])
qed (use entry_at_abort [OF running_facts(3) [OF ok i]] in \<open>simp_all add: call_ok_def\<close>)

lemma system_ok_call:
  assumes ok: "system_ok s"
  shows "system_ok (s\<lparr>sy_calls := sy_calls s @ [\<lparr>ic_scope = scope, ic_fingerprint = fp, ic_state = Entering\<rparr>]\<rparr>)"
proof -
  let ?c = "\<lparr>ic_scope = scope, ic_fingerprint = fp, ic_state = Entering\<rparr>"
  have new: "call_ok (sy_store s) ?c" by (simp add: call_ok_def)
  have state: "ic_state ((sy_calls s @ [?c]) ! j) = Running a \<Longrightarrow> j < Suc (length (sy_calls s)) \<Longrightarrow>
      j < length (sy_calls s) \<and> ic_state (sy_calls s ! j) = Running a" for j a
    by (cases "j < length (sy_calls s)") (simp_all add: nth_append less_Suc_eq)
  have uniq: "ic_state ((sy_calls s @ [?c]) ! j) \<noteq> Running a"
    if "i < Suc (length (sy_calls s))" "j < Suc (length (sy_calls s))" "i \<noteq> j" "ic_state ((sy_calls s @ [?c]) ! i) = Running a" for i j a
  proof
    assume "ic_state ((sy_calls s @ [?c]) ! j) = Running a"
    from state [OF this that(2)] state [OF that(4,1)] that(3) system_okD(3) [OF ok] show False by blast
  qed
  have more: "\<exists>c \<in> set (sy_calls s @ [?c]). P c" if "\<exists>c \<in> set (sy_calls s). P c" for P using that by auto
  have fields: "sy_store (s\<lparr>sy_calls := sy_calls s @ [?c]\<rparr>) = sy_store s" "sy_clock (s\<lparr>sy_calls := sy_calls s @ [?c]\<rparr>) = sy_clock s"
    "sy_calls (s\<lparr>sy_calls := sy_calls s @ [?c]\<rparr>) = sy_calls s @ [?c]" "length (sy_calls s @ [?c]) = Suc (length (sy_calls s))"
    by simp_all
  show ?thesis
    unfolding system_ok_def fields
  proof (intro conjI allI impI ballI)
    show "store_ok (sy_clock s) (sy_store s)" using ok by (simp add: system_ok_def)
    show "call_ok (sy_store s) c" if "c \<in> set (sy_calls s @ [?c])" for c
      using that ok new unfolding system_ok_def by (simp only: set_append) auto
  next
    fix a assume "a \<in> addresses (sy_store s)" "\<not> ie_done (entry_at (sy_store s) a)"
    with ok show "\<exists>c \<in> set (sy_calls s @ [?c]). ic_state c = Running a" unfolding system_ok_def by (intro more) blast
  next
    fix a assume "a \<in> addresses (sy_store s)" "ie_done (entry_at (sy_store s) a) \<and> \<not> ie_aborted (entry_at (sy_store s) a)"
    with ok show "\<exists>c \<in> set (sy_calls s @ [?c]). executed_by (sy_store s) a c" unfolding system_ok_def by (intro more) blast
  qed (rule uniq)
qed

lemma Do_ok: "Do s s' \<Longrightarrow> system_ok s \<Longrightarrow> system_ok s'"
proof (induction rule: Do.induct)
  case (finish i s a result)
  then show ?case using system_ok_finish by simp
next
  case (replay i s a result)
  then have "entry_for (sy_store s) a (sy_calls s ! i)" using system_okD(2) by (fastforce simp: call_ok_def)
  with replay show ?case by (intro system_ok_calls) (auto simp: call_ok_def completed_def)
qed (auto intro: system_ok_call system_ok_enter system_ok_panic system_ok_calls simp: call_ok_def)

lemma system_ok_start: "system_ok \<lparr>sy_store = NewMemoryStore ttl, sy_calls = [], sy_clock = start\<rparr>"
  by (simp add: system_ok_def store_ok_def NewMemoryStore_def)

lemma idem_reachable_ok: "idem_reachable ttl s \<Longrightarrow> system_ok s"
proof -
  have "Do\<^sup>*\<^sup>* s0 s \<Longrightarrow> system_ok s0 \<Longrightarrow> system_ok s" for s0
    by (induction rule: rtranclp_induct) (auto intro: Do_ok)
  with system_ok_start show "idem_reachable ttl s \<Longrightarrow> system_ok s" unfolding idem_reachable_def by blast
qed

subsection \<open>Properties\<close>

text \<open>A sample run: a call, a concurrent duplicate, the end of the first, the replay of the second.\<close>

definition sample_scope :: idem_scope where
  "sample_scope = \<lparr>is_TenantID = ''t'', is_ActorID = ''a'', is_Route = ''POST /x'', is_Key = ''k''\<rparr>"

definition sample_idem_entry :: "idem_result option \<Rightarrow> idem_entry" where
  "sample_idem_entry r = \<lparr>ie_identity = identity sample_scope, ie_fingerprint = ''f'', ie_createdAt = 5,
     ie_done = (r \<noteq> None), ie_result = r, ie_aborted = False\<rparr>"

definition sample_system :: "idem_entry list \<Rightarrow> call_state list \<Rightarrow> idem_system" where
  "sample_system heap states = \<lparr>sy_store = \<lparr>im_entries = map (\<lambda>a. (identity sample_scope, a)) [0..<length heap],
       im_heap = heap, im_ttl = 10\<rparr>,
     sy_calls = map (\<lambda>st. \<lparr>ic_scope = sample_scope, ic_fingerprint = ''f'', ic_state = st\<rparr>) states, sy_clock = 5\<rparr>"

definition sample_created :: idem_result where
  "sample_created = \<lparr>ir_HTTPStatus = 201, ir_Value = ''{}'', ir_Headers = None\<rparr>"

lemma sample_step_call: "Do (sample_system heap states) (sample_system heap (states @ [Entering]))"
  using Do.call [of "sample_system heap states" sample_scope "''f''"] by (simp add: sample_system_def)

lemmas sample_step_defs = sample_system_def enter_def removeExpired_def set_state_def entered_state_def finish_def
  sample_idem_entry_def

lemma sample_run_waiting: "Do\<^sup>*\<^sup>* (sample_system [] []) (sample_system [sample_idem_entry None] [Running 0, Waiting 0])"
proof -
  have "Do (sample_system [] [Entering]) (sample_system [sample_idem_entry None] [Running 0])"
    using Do.enter [of 0 "sample_system [] [Entering]" 5 5] by (simp add: sample_step_defs)
  moreover have "Do (sample_system [sample_idem_entry None] [Running 0, Entering])
      (sample_system [sample_idem_entry None] [Running 0, Waiting 0])"
    using Do.enter [of 1 "sample_system [sample_idem_entry None] [Running 0, Entering]" 5 5] by (simp add: sample_step_defs)
  moreover note sample_step_call [of "[]" "[]"] sample_step_call [of "[sample_idem_entry None]" "[Running 0]"]
  ultimately show ?thesis by (simp add: converse_rtranclp_into_rtranclp)
qed

lemma sample_run_replayed:
  "Do\<^sup>*\<^sup>* (sample_system [] []) (sample_system [sample_idem_entry (Some sample_created)]
     [Returned (Inr (sample_created, False)), Returned (Inr (sample_created, True))])"
proof -
  have "Do (sample_system [sample_idem_entry None] [Running 0, Waiting 0])
      (sample_system [sample_idem_entry (Some sample_created)] [Returned (Inr (sample_created, False)), Waiting 0])"
    using Do.finish [of 0 "sample_system [sample_idem_entry None] [Running 0, Waiting 0]" 0 sample_created]
    by (simp add: sample_step_defs)
  moreover have "Do (sample_system [sample_idem_entry (Some sample_created)] [Returned (Inr (sample_created, False)), Waiting 0])
      (sample_system [sample_idem_entry (Some sample_created)]
         [Returned (Inr (sample_created, False)), Returned (Inr (sample_created, True))])"
    using Do.replay [of 1 "sample_system [sample_idem_entry (Some sample_created)] [Returned (Inr (sample_created, False)), Waiting 0]"
      0 sample_created] by (simp add: sample_step_defs)
  ultimately show ?thesis using sample_run_waiting by (meson rtranclp.rtrancl_into_rtrancl)
qed

lemma reachable_sample:
  assumes "Do\<^sup>*\<^sup>* (sample_system [] []) s"
  shows "idem_reachable 10 s"
proof -
  have "sample_system [] [] = \<lparr>sy_store = NewMemoryStore 10, sy_calls = [], sy_clock = 5\<rparr>"
    by (simp add: sample_system_def NewMemoryStore_def)
  with assms show ?thesis unfolding idem_reachable_def by metis
qed

text \<open>
  C33: However calls interleave, at most one execution per identity is under way at any time, and the
  executions recorded for one identity that did not panic began more than the retention apart: within
  the retention a command is executed at most once.
\<close>

theorem executed_at_most_once:
  assumes "idem_reachable ttl s"
  shows "(\<forall>i < length (sy_calls s). \<forall>j < length (sy_calls s). \<forall>a b. i \<noteq> j \<and> ic_state (sy_calls s ! i) = Running a
      \<and> ic_state (sy_calls s ! j) = Running b \<longrightarrow> identity (ic_scope (sy_calls s ! i)) \<noteq> identity (ic_scope (sy_calls s ! j)))
    \<and> (\<forall>b < length (im_heap (sy_store s)). \<forall>a < b. let e = im_heap (sy_store s) ! a; e' = im_heap (sy_store s) ! b in
        ie_identity e = ie_identity e' \<and> \<not> ie_aborted e \<longrightarrow> ie_createdAt e + im_ttl (sy_store s) < ie_createdAt e')"
proof -
  note ok = idem_reachable_ok [OF assms]
  have "identity (ic_scope (sy_calls s ! i)) \<noteq> identity (ic_scope (sy_calls s ! j))"
    if "i < length (sy_calls s)" "j < length (sy_calls s)" "i \<noteq> j" "ic_state (sy_calls s ! i) = Running a"
      "ic_state (sy_calls s ! j) = Running b" for i j a b
  proof
    assume "identity (ic_scope (sy_calls s ! i)) = identity (ic_scope (sy_calls s ! j))"
    with running_facts(3) [OF ok that(1,4)] running_facts(3) [OF ok that(2,5)] have "a = b" by simp
    with system_okD(3) [OF ok that(1,2) _ that(4)] that(3,5) show False by blast
  qed
  with system_okD(1) [OF ok] show ?thesis unfolding store_ok_def Let_def lessThan_iff Ball_def by blast
qed

lemma executed_at_most_once_witness:
  "ic_state (sy_calls (sample_system [sample_idem_entry None] [Running 0, Waiting 0]) ! 1) \<noteq> Running 0"
proof -
  let ?s = "sample_system [sample_idem_entry None] [Running 0, Waiting 0]"
  have len: "length (sy_calls ?s) = 2" and "ic_state (sy_calls ?s ! 0) = Running 0"
    and "ic_scope (sy_calls ?s ! 0) = ic_scope (sy_calls ?s ! 1)"
    by (simp_all add: sample_system_def)
  with executed_at_most_once [OF reachable_sample [OF sample_run_waiting], THEN conjunct1, rule_format, of 0 1 0 0]
  show ?thesis by auto
qed

text \<open>
  A call that is answered by a replay gets exactly the result that an executed call with the same
  identity and the same fingerprint returned; no call is answered with the result of a different request.
\<close>

theorem replays_return_executed_results:
  assumes "idem_reachable ttl s" "j < length (sy_calls s)" "ic_state (sy_calls s ! j) = Returned (Inr (result, True))"
  shows "\<exists>i < length (sy_calls s). i \<noteq> j \<and> ic_state (sy_calls s ! i) = Returned (Inr (result, False))
    \<and> identity (ic_scope (sy_calls s ! i)) = identity (ic_scope (sy_calls s ! j))
    \<and> ic_fingerprint (sy_calls s ! i) = ic_fingerprint (sy_calls s ! j)"
proof -
  note ok = idem_reachable_ok [OF assms(1)]
  from system_okD(2) [OF ok assms(2)] assms(3) obtain a where a: "entry_for (sy_store s) a (sy_calls s ! j)"
    "completed (sy_store s) a result" by (auto simp: call_ok_def)
  with ok obtain c where c: "c \<in> set (sy_calls s)" "executed_by (sy_store s) a c"
    unfolding system_ok_def by (auto simp: entry_for_def completed_def)
  with a have state: "ic_state c = Returned (Inr (result, False))" by (auto simp: executed_by_def completed_def)
  with assms(3) other_index [OF c(1), of j] obtain i where i: "i < length (sy_calls s)" "i \<noteq> j" "c = sy_calls s ! i" by auto
  from a(1) c(2) have "identity (ic_scope c) = identity (ic_scope (sy_calls s ! j)) \<and> ic_fingerprint c = ic_fingerprint (sy_calls s ! j)"
    by (simp add: executed_by_def entry_for_def)
  with i state show ?thesis by blast
qed

lemma replays_return_executed_results_witness:
  "\<exists>i < 2. i \<noteq> 1 \<and> ic_state (sy_calls (sample_system [sample_idem_entry (Some sample_created)]
     [Returned (Inr (sample_created, False)), Returned (Inr (sample_created, True))]) ! i) = Returned (Inr (sample_created, False))"
proof -
  let ?s = "sample_system [sample_idem_entry (Some sample_created)] [Returned (Inr (sample_created, False)), Returned (Inr (sample_created, True))]"
  have len: "length (sy_calls ?s) = 2" and state: "ic_state (sy_calls ?s ! 1) = Returned (Inr (sample_created, True))"
    by (simp_all add: sample_system_def)
  from replays_return_executed_results [OF reachable_sample [OF sample_run_replayed], of 1] state show ?thesis
    unfolding len by auto
qed

text \<open>
  C39: No call waits for nothing: while a call waits for an entry, either some call is executing the
  operation of that entry, or the waiting call can move on at once, by returning the stored
  result or, after a panic of the operation, by entering again.
\<close>

theorem waiting_calls_can_proceed:
  assumes "idem_reachable ttl s" "i < length (sy_calls s)" "ic_state (sy_calls s ! i) = Waiting a"
  shows "(\<exists>j < length (sy_calls s). ic_state (sy_calls s ! j) = Running a)
    \<or> (\<exists>x. Do s (s\<lparr>sy_calls := set_state i x (sy_calls s)\<rparr>) \<and> (x = Entering \<or> (\<exists>result. x = Returned (Inr (result, True)))))"
proof -
  note ok = idem_reachable_ok [OF assms(1)]
  from system_okD(2) [OF ok assms(2)] assms(3) have a: "a \<in> addresses (sy_store s)"
    by (simp add: call_ok_def entry_for_def)
  show ?thesis
  proof (cases "ie_done (entry_at (sy_store s) a)")
    case False
    with owner_other [OF ok a, of i] assms(3) show ?thesis by auto
  next
    case settled: True
    show ?thesis
    proof (cases "ie_aborted (entry_at (sy_store s) a)")
      case True
      with Do.retry [OF assms(2,3) settled] show ?thesis by blast
    next
      case False
      with executor_other [OF ok a settled, of i] assms(3) obtain result where "completed (sy_store s) a result"
        by (auto simp: executed_by_def)
      with Do.replay [OF assms(2,3) settled] show ?thesis by (auto simp: completed_def)
    qed
  qed
qed

lemma waiting_calls_can_proceed_witness:
  "let s = sample_system [sample_idem_entry None] [Running 0, Waiting 0] in
     (\<exists>j < 2. ic_state (sy_calls s ! j) = Running 0) \<or> (\<exists>x. Do s (s\<lparr>sy_calls := set_state 1 x (sy_calls s)\<rparr>))"
proof -
  let ?s = "sample_system [sample_idem_entry None] [Running 0, Waiting 0]"
  have len: "length (sy_calls ?s) = 2" and state: "ic_state (sy_calls ?s ! 1) = Waiting 0"
    by (simp_all add: sample_system_def)
  from waiting_calls_can_proceed [OF reachable_sample [OF sample_run_waiting] _ state]
  show ?thesis unfolding len Let_def by auto
qed

text \<open>Different scopes share an identity when a part contains the separator.\<close>

lemma distinct_scopes_share_identity:
  "identity \<lparr>is_TenantID = ''t'', is_ActorID = ''a|b'', is_Route = ''POST /x'', is_Key = ''k''\<rparr>
   = identity \<lparr>is_TenantID = ''t|a'', is_ActorID = ''b'', is_Route = ''POST /x'', is_Key = ''k''\<rparr>"
  by (simp add: identity_def)

end
