(* ===== verification/Core_Sync_Properties.thy ===== *)
theory Core_Sync_Properties
  imports Core_Sync
begin

text \<open>
  What the cloud promises the edges: an operation is accepted with its domain event or not at all,
  the events of an aggregate are gap free, and a repeated delivery gets the same answer.
\<close>

subsection \<open>The cases of a transaction\<close>

lemma find_inbox_None: "List.find (inbox_hit env op) rows = None \<Longrightarrow> r \<in> set rows \<Longrightarrow> \<not> inbox_hit env op r"
  by (auto simp: find_None_iff)

lemma inbox_hit_row [simp]: "inbox_hit env op ((inbox_row_of env op)\<lparr>ib_status := st, ib_problem_code := p\<rparr>)"
  "inbox_hit env op (inbox_row_of env op)"
  by (simp_all add: inbox_hit_def inbox_row_of_def)

lemma settle_fresh:
  assumes "List.find (inbox_hit env op) rows = None"
  shows "settle_inbox env op st p (rows @ [inbox_row_of env op])
    = rows @ [(inbox_row_of env op)\<lparr>ib_status := st, ib_problem_code := p\<rparr>]"
proof -
  have "map (\<lambda>r. if inbox_hit env op r then r\<lparr>ib_status := st, ib_problem_code := p\<rparr> else r) rows = rows"
    by (rule map_idI) (simp add: find_inbox_None [OF assms])
  then show ?thesis by (simp add: settle_inbox_def)
qed

lemma refuse_facts:
  assumes "refuse_operation env op st problem word db = Inr db'"
  shows "cl_inbox db' = settle_inbox env op st (Some problem) (cl_inbox db) \<and> cl_events db' = cl_events db
    \<and> cl_operational db' = cl_operational db"
  using assms by (auto simp: refuse_operation_def recordSyncProblem_def Let_def split: if_splits)

lemma accept_facts:
  assumes "accept_operation env op db = Inr db'"
  shows "cl_inbox db' = settle_inbox env op InboxAccepted None (cl_inbox db)
    \<and> cl_events db' = cl_events db @ [domain_event_of env op]
    \<and> ce_project env op (cl_operational db) = Inr (cl_operational db')
    \<and> (\<forall>e \<in> set (cl_events db). \<not> (de_tenant_id e = op_tenant env op \<and> de_operation_id e = op_key env op))"
  using assms by (auto simp: accept_operation_def Let_def list_ex_iff split: if_splits sum.splits)

lemma causal_cong: "cl_events a = cl_events b \<Longrightarrow> validateCausalVersion env op a = validateCausalVersion env op b"
  by (simp only: validateCausalVersion_def)

text \<open>How a transaction that commits settles its operation.\<close>

definition settled_by :: "'p cloud_env \<Rightarrow> sync_operation \<Rightarrow> 'p cloud \<Rightarrow> inbox_status \<Rightarrow> string option \<Rightarrow> 'p cloud \<Rightarrow> bool" where
  "settled_by env op db st p db' \<longleftrightarrow> List.find (inbox_hit env op) (cl_inbox db) = None
     \<and> cl_inbox db' = cl_inbox db @ [(inbox_row_of env op)\<lparr>ib_status := st, ib_problem_code := p\<rparr>]"

lemma ApplySyncOperation_cases [consumes 1, case_names failed repeated rejected conflict accepted]:
  assumes "ApplySyncOperation env op db = (result, db')"
  obtains (failed) e where "result = Inl e" "db' = db"
    | (repeated) r where "List.find (inbox_hit env op) (cl_inbox db) = Some r" "result = existingSyncOutcome r op" "db' = db"
      "\<exists>outcome. result = Inr outcome"
    | (rejected) problem where "result = Inr (SyncRejected, problem)" "settled_by env op db InboxRejected (Some problem) db'"
      "cl_events db' = cl_events db" "cl_operational db' = cl_operational db" "problem \<noteq> []"
    | (conflict) problem where "result = Inr (SyncConflict, problem)" "settled_by env op db InboxConflict (Some problem) db'"
      "cl_events db' = cl_events db" "cl_operational db' = cl_operational db"
    | (accepted) "result = Inr (SyncAccepted, [])" "settled_by env op db InboxAccepted None db'"
      "cl_events db' = cl_events db @ [domain_event_of env op]"
      "ce_project env op (cl_operational db) = Inr (cl_operational db')"
      "syncCommandProblem op = []"
      "validateCausalVersion env op db = Inr None"
      "\<forall>e \<in> set (cl_events db). \<not> (de_tenant_id e = op_tenant env op \<and> de_operation_id e = op_key env op)"
proof -
  let ?start = "db\<lparr>cl_inbox := cl_inbox db @ [inbox_row_of env op], cl_checkpoints := receive_checkpoint env op (cl_checkpoints db)\<rparr>"
  show thesis
  proof (cases "apply_body env op db")
    case (Inl e)
    with assms show thesis by (intro failed [of e]) (auto simp: ApplySyncOperation_def transact_def)
  next
    case (Inr p)
    then obtain answer where body: "apply_body env op db = Inr (answer, db')" and result: "result = Inr answer"
      using assms by (auto simp: ApplySyncOperation_def transact_def split: prod.splits)
    show thesis
    proof (cases "List.find (inbox_hit env op) (cl_inbox db)")
      case (Some r)
      with body result show thesis by (intro repeated [of r]) (auto simp: apply_body_def rbind_Inr_iff split: if_splits)
    next
      case None
      note settle = settle_fresh [OF None]
      have causal: "validateCausalVersion env op ?start = validateCausalVersion env op db" by (rule causal_cong) simp
      consider (bad) "syncCommandProblem op \<noteq> []" "answer = (SyncRejected, syncCommandProblem op)"
          "refuse_operation env op InboxRejected (syncCommandProblem op) ''rejected'' ?start = Inr db'"
        | (stale) problem where "answer = (SyncConflict, problem)" "refuse_operation env op InboxConflict problem ''conflict'' ?start = Inr db'"
        | (fine) "syncCommandProblem op = []" "validateCausalVersion env op db = Inr None" "answer = (SyncAccepted, [])"
          "accept_operation env op ?start = Inr db'"
        using body None unfolding apply_body_def Let_def
        by (auto simp: rbind_Inr_iff causal split: if_splits option.splits)
      then show thesis
      proof cases
        case bad
        with refuse_facts [OF bad(3)] result settle None show thesis by (intro rejected [of "syncCommandProblem op"]) (simp_all add: settled_by_def)
      next
        case stale
        with refuse_facts [OF stale(2)] result settle None show thesis by (intro conflict [of problem]) (simp_all add: settled_by_def)
      next
        case fine
        with accept_facts [OF fine(4)] result settle None show thesis by (intro accepted) (simp_all add: settled_by_def)
      qed
    qed
  qed
qed

subsection \<open>The invariant of the cloud\<close>

definition inbox_key :: "inbox_row \<Rightarrow> string \<times> string" where
  "inbox_key r = (ib_tenant_id r, ib_operation_id r)"

definition event_key :: "domain_event \<Rightarrow> string \<times> string" where
  "event_key e = (de_tenant_id e, de_operation_id e)"

definition gap_free :: "string \<Rightarrow> nat list \<Rightarrow> bool" where
  "gap_free type_name vs \<longleftrightarrow> (\<exists>first. vs = [first ..< first + length vs]
     \<and> (vs \<noteq> [] \<longrightarrow> type_name = ''order'' \<and> first = 1 \<or> type_name = ''kitchenTicket'' \<and> first = 2))"

definition cloud_ok :: "'p cloud \<Rightarrow> bool" where
  "cloud_ok db \<longleftrightarrow> distinct (map inbox_key (cl_inbox db)) \<and> (\<forall>r \<in> set (cl_inbox db). ib_status r \<noteq> InboxReceived)
     \<and> map event_key (cl_events db) = map inbox_key (filter (\<lambda>r. ib_status r = InboxAccepted) (cl_inbox db))
     \<and> (\<forall>tenant type_name aggregate. gap_free type_name (aggregate_versions tenant type_name aggregate (cl_events db)))"

inductive cloud_step :: "'p cloud_env \<Rightarrow> 'p cloud \<Rightarrow> 'p cloud \<Rightarrow> bool" for env where
  apply_operation: "ApplySyncOperation env op db = (result, db') \<Longrightarrow> cloud_step env db db'"
| other_work: "cloud_step env db (db\<lparr>cl_operational := operational\<rparr>)"

definition cloud_reachable :: "'p cloud_env \<Rightarrow> 'p cloud \<Rightarrow> bool" where
  "cloud_reachable env db \<longleftrightarrow> (\<exists>operational. (cloud_step env)\<^sup>*\<^sup>*
     \<lparr>cl_inbox = [], cl_events = [], cl_checkpoints = [], cl_cases = [], cl_operational = operational\<rparr> db)"

lemma settled_distinct:
  assumes "settled_by env op db st p db'" "distinct (map inbox_key (cl_inbox db))"
  shows "distinct (map inbox_key (cl_inbox db'))"
proof -
  have "(op_tenant env op, op_key env op) \<noteq> inbox_key r" if "r \<in> set (cl_inbox db)" for r
    using find_inbox_None [of env op "cl_inbox db" r, OF _ that] assms(1)
    by (auto simp: settled_by_def inbox_hit_def inbox_key_def)
  then have "(op_tenant env op, op_key env op) \<notin> inbox_key ` set (cl_inbox db)" by blast
  with assms show ?thesis by (simp add: settled_by_def inbox_key_def inbox_row_of_def)
qed

lemma gap_free_snoc:
  assumes "gap_free type_name vs" "vs \<noteq> []"
  shows "gap_free type_name (vs @ [Max (set vs) + 1])"
proof -
  from assms obtain first where first: "vs = [first ..< first + length vs]"
    "type_name = ''order'' \<and> first = 1 \<or> type_name = ''kitchenTicket'' \<and> first = 2"
    by (auto simp: gap_free_def)
  define n where "n = length vs"
  with first(1) assms(2) have vs: "vs = [first ..< first + n]" "n > 0" by simp_all
  have "Max {first ..< first + n} = first + n - 1"
    using vs(2) by (intro Max_eqI) auto
  then have "Max (set vs) + 1 = first + n" unfolding vs(1) using vs(2) by simp
  with vs have "vs @ [Max (set vs) + 1] = [first ..< first + Suc n]" by simp
  then show ?thesis unfolding gap_free_def using first(2) n_def by (intro exI [of _ first]) simp
qed

lemma syncCommandProblem_Nil: "syncCommandProblem op = [] \<Longrightarrow>
    (so_CommandType op = ''order.create'' \<longrightarrow> so_AggregateType op = ''order'')
    \<and> (so_CommandType op = ''kitchenTicket.transition'' \<longrightarrow> so_AggregateType op = ''kitchenTicket'')"
  by (auto simp: syncCommandProblem_def split: if_splits)

lemma accepted_gap_free:
  assumes "gap_free (so_AggregateType op) (aggregate_versions (op_tenant env op) (so_AggregateType op) (op_aggregate env op) (cl_events db))"
    and "syncCommandProblem op = []" "validateCausalVersion env op db = Inr None"
  shows "gap_free (so_AggregateType op)
    (aggregate_versions (op_tenant env op) (so_AggregateType op) (op_aggregate env op) (cl_events db) @ [so_AggregateVersion op])"
proof (cases "aggregate_versions (op_tenant env op) (so_AggregateType op) (op_aggregate env op) (cl_events db) = []")
  case True
  with assms(3) have "so_CommandType op = ''order.create'' \<and> so_AggregateVersion op = 1
      \<or> so_CommandType op = ''kitchenTicket.transition'' \<and> so_AggregateVersion op = 2"
    by (auto simp: validateCausalVersion_def split: if_splits)
  with syncCommandProblem_Nil [OF assms(2)] True show ?thesis by (auto simp: gap_free_def)
next
  case False
  with assms(3) have "so_AggregateVersion op =
      Max (set (aggregate_versions (op_tenant env op) (so_AggregateType op) (op_aggregate env op) (cl_events db))) + 1"
    by (auto simp: validateCausalVersion_def Let_def split: if_splits)
  with gap_free_snoc [OF assms(1) False] show ?thesis by simp
qed

lemma cloud_step_ok:
  assumes "cloud_step env db db'" "cloud_ok db"
  shows "cloud_ok db'"
  using assms(1)
proof cases
  case (apply_operation op result)
  from this(1) show ?thesis
  proof (cases rule: ApplySyncOperation_cases)
    case (rejected problem)
    with assms(2) settled_distinct [OF rejected(2)] show ?thesis by (auto simp: cloud_ok_def settled_by_def)
  next
    case (conflict problem)
    with assms(2) settled_distinct [OF conflict(2)] show ?thesis by (auto simp: cloud_ok_def settled_by_def)
  next
    case accepted
    have "gap_free type_name (aggregate_versions tenant type_name aggregate (cl_events db'))" for tenant type_name aggregate
      using assms(2) accepted_gap_free [OF _ accepted(5,6)] accepted(3)
      by (auto simp: cloud_ok_def aggregate_versions_def domain_event_of_def)
    with assms(2) settled_distinct [OF accepted(2)] accepted(2,3) show ?thesis
      by (auto simp: cloud_ok_def settled_by_def domain_event_of_def event_key_def inbox_key_def inbox_row_of_def)
  qed (use assms(2) in simp_all)
qed (use assms(2) in \<open>simp add: cloud_ok_def\<close>)

lemma cloud_steps_ok: "(cloud_step env)\<^sup>*\<^sup>* db db' \<Longrightarrow> cloud_ok db \<Longrightarrow> cloud_ok db'"
  by (induction rule: rtranclp_induct) (auto intro: cloud_step_ok)

lemma cloud_reachable_ok: "cloud_reachable env db \<Longrightarrow> cloud_ok db"
  unfolding cloud_reachable_def
  by (elim exE, erule cloud_steps_ok) (simp add: cloud_ok_def aggregate_versions_def gap_free_def)

subsection \<open>Later transactions\<close>

lemma find_append: "List.find P (xs @ ys) = (case List.find P xs of Some x \<Rightarrow> Some x | None \<Rightarrow> List.find P ys)"
  by (induction xs) simp_all

lemma settled_hit: "settled_by env op db st p db' \<Longrightarrow>
    List.find (inbox_hit env op) (cl_inbox db') = Some ((inbox_row_of env op)\<lparr>ib_status := st, ib_problem_code := p\<rparr>)"
  by (auto simp: settled_by_def find_append)

lemma cloud_step_inbox: "cloud_step env db db' \<Longrightarrow> \<exists>more. cl_inbox db' = cl_inbox db @ more"
proof (induction rule: cloud_step.induct)
  case (apply_operation op db result db')
  then show ?case by (cases rule: ApplySyncOperation_cases) (auto simp: settled_by_def)
qed simp

lemma cloud_steps_inbox: "(cloud_step env)\<^sup>*\<^sup>* db db' \<Longrightarrow> \<exists>more. cl_inbox db' = cl_inbox db @ more"
proof (induction rule: rtranclp_induct)
  case (step db1 db2)
  then show ?case using cloud_step_inbox [of env db1 db2] by auto
qed simp

lemma hit_persists:
  assumes "List.find (inbox_hit env op) (cl_inbox db) = Some r" "(cloud_step env)\<^sup>*\<^sup>* db db'"
  shows "List.find (inbox_hit env op) (cl_inbox db') = Some r"
  using assms(1) cloud_steps_inbox [OF assms(2)] by (auto simp: find_append)

text \<open>The answer a repeated delivery gets.\<close>

definition repeated_answer :: "sync_outcome \<times> string \<Rightarrow> sync_outcome \<times> string" where
  "repeated_answer answer = (if fst answer = SyncAccepted then (SyncDuplicate, []) else answer)"

lemma existing_repeated: "existingSyncOutcome r op = Inr answer \<Longrightarrow> repeated_answer answer = answer"
  by (auto simp: existingSyncOutcome_def repeated_answer_def Let_def split: if_splits inbox_status.splits)

lemma ApplySyncOperation_answered:
  assumes "ApplySyncOperation env op db = (Inr answer, db')"
  shows "\<exists>r. List.find (inbox_hit env op) (cl_inbox db') = Some r \<and> existingSyncOutcome r op = Inr (repeated_answer answer)"
  using assms
proof (cases rule: ApplySyncOperation_cases)
  case (repeated r)
  then show ?thesis using existing_repeated [of r op answer] by auto
next
  case (rejected problem)
  then show ?thesis using settled_hit [OF rejected(2)]
    by (auto simp: existingSyncOutcome_def repeated_answer_def inbox_row_of_def)
next
  case (conflict problem)
  then show ?thesis using settled_hit [OF conflict(2)]
    by (auto simp: existingSyncOutcome_def repeated_answer_def inbox_row_of_def)
next
  case accepted
  then show ?thesis using settled_hit [OF accepted(2)]
    by (auto simp: existingSyncOutcome_def repeated_answer_def inbox_row_of_def)
qed simp

subsection \<open>A small cloud\<close>

definition sample_cloud_env :: "string list cloud_env" where
  "sample_cloud_env = \<lparr>ce_uuid = Some, ce_jsonb = (\<lambda>m. True), ce_payload_order = (\<lambda>m. m), ce_occurred_at = (\<lambda>m. None),
     ce_sha256 = (\<lambda>t. replicate 32 0), ce_outlet = (\<lambda>db tenant outlet. True),
     ce_project = (\<lambda>op db. Inr (db @ [so_CommandType op]))\<rparr>"

definition sample_operation :: "string \<Rightarrow> string \<Rightarrow> string \<Rightarrow> nat \<Rightarrow> sync_operation" where
  "sample_operation key command aggregate version = \<lparr>so_TenantID = ''t'', so_OperationID = key, so_EdgeID = ''e'',
     so_OutletID = ''o'', so_BatchID = ''b'', so_AggregateType = aggregate, so_AggregateID = ''a'',
     so_AggregateVersion = version, so_CommandType = command, so_RequestHash = [1], so_Mutation = [],
     so_RecordedAt = 0, so_ReceivedAt = 0\<rparr>"

definition empty_cloud :: "string list cloud" where
  "empty_cloud = \<lparr>cl_inbox = [], cl_events = [], cl_checkpoints = [], cl_cases = [], cl_operational = []\<rparr>"

definition sample_create :: sync_operation where
  "sample_create = sample_operation ''k1'' ''order.create'' ''order'' 1"

definition sample_move :: sync_operation where
  "sample_move = sample_operation ''k2'' ''order.transition'' ''order'' 2"

definition cloud_after :: "sync_operation list \<Rightarrow> string list cloud" where
  "cloud_after ops = foldl (\<lambda>db op. snd (ApplySyncOperation sample_cloud_env op db)) empty_cloud ops"

lemma cloud_after_steps: "(cloud_step env)\<^sup>*\<^sup>* db (foldl (\<lambda>db op. snd (ApplySyncOperation env op db)) db ops)"
proof (induction ops rule: rev_induct)
  case (snoc op ops)
  then show ?case by (auto intro: rtranclp.rtrancl_into_rtrancl cloud_step.apply_operation surjective_pairing)
qed simp

lemma cloud_after_reachable: "cloud_reachable sample_cloud_env (cloud_after ops)"
  unfolding cloud_reachable_def cloud_after_def using cloud_after_steps by (auto simp: empty_cloud_def)

lemmas sample_cloud_defs = sample_cloud_env_def sample_operation_def empty_cloud_def sample_create_def sample_move_def
  cloud_after_def

lemmas apply_defs = ApplySyncOperation_def apply_body_def transact_def readable_def inbox_hit_def op_tenant_def op_key_def
  op_outlet_def op_aggregate_def inbox_row_of_def receive_checkpoint_def checkpoint_hit_def syncCommandProblem_def
  validateCausalVersion_def aggregate_versions_def accept_operation_def domain_event_of_def mutationOccurredAt_def
  operationRecordedAt_def settle_inbox_def mark_checkpoint_def backlog_def existingSyncOutcome_def rbind_def IsZero_def

subsection \<open>Properties\<close>

text \<open>
  C15: the events of an aggregate in the cloud's event log are gap free, whatever was delivered and
  in whatever order: an order's events carry the versions 1, 2, 3 and so on in the order of their
  commits, a kitchen ticket's the versions 2, 3, 4 and so on, and there are no events of other kinds
  of aggregate.
\<close>

theorem domain_events_gap_free:
  assumes "cloud_reachable env db"
  shows "\<exists>n. aggregate_versions tenant type_name aggregate (cl_events db)
    = (if type_name = ''order'' then [1 ..< 1 + n] else if type_name = ''kitchenTicket'' then [2 ..< 2 + n] else [])"
proof -
  define vs where "vs = aggregate_versions tenant type_name aggregate (cl_events db)"
  have "gap_free type_name vs" using cloud_reachable_ok [OF assms] by (simp add: cloud_ok_def vs_def)
  then have "vs = (if type_name = ''order'' then [1 ..< 1 + length vs]
      else if type_name = ''kitchenTicket'' then [2 ..< 2 + length vs] else [])"
    unfolding gap_free_def by (cases "vs = []") (auto split: if_splits)
  then show ?thesis unfolding vs_def by blast
qed

lemma domain_events_gap_free_witness:
  "\<exists>n. aggregate_versions ''t'' ''order'' ''a'' (cl_events (cloud_after [sample_create, sample_move]))
    = (if ''order'' = ''order'' then [1 ..< 1 + n] else if ''order'' = ''kitchenTicket'' then [2 ..< 2 + n] else [])"
  by (rule domain_events_gap_free [OF cloud_after_reachable])

text \<open>
  C28: inbox and event log agree in every state the cloud reaches. An operation has at most one inbox
  row and at most one event, no operation stays without a verdict, and the operations with an event
  are exactly the accepted ones, in the order in which they were accepted.
\<close>

theorem accepted_operations_have_one_event:
  assumes "cloud_reachable env db"
  shows "map event_key (cl_events db) = map inbox_key (filter (\<lambda>r. ib_status r = InboxAccepted) (cl_inbox db))
    \<and> distinct (map event_key (cl_events db)) \<and> distinct (map inbox_key (cl_inbox db))
    \<and> InboxReceived \<notin> set (map ib_status (cl_inbox db))"
  using cloud_reachable_ok [OF assms] by (auto simp: cloud_ok_def distinct_map_filter)

lemma accepted_operations_have_one_event_witness:
  "map event_key (cl_events (cloud_after [sample_create, sample_move]))
      = map inbox_key (filter (\<lambda>r. ib_status r = InboxAccepted) (cl_inbox (cloud_after [sample_create, sample_move])))
    \<and> distinct (map event_key (cl_events (cloud_after [sample_create, sample_move])))
    \<and> distinct (map inbox_key (cl_inbox (cloud_after [sample_create, sample_move])))
    \<and> InboxReceived \<notin> set (map ib_status (cl_inbox (cloud_after [sample_create, sample_move])))"
  by (rule accepted_operations_have_one_event [OF cloud_after_reachable])

text \<open>
  C16: an operation delivered again, after whatever the cloud did in between, changes nothing and
  gets the answer it had: an accepted operation is a duplicate, a rejected one is rejected with the
  same problem, a conflicting one is still the same conflict.
\<close>

theorem redelivery_changes_nothing:
  assumes "ApplySyncOperation env op db = (Inr answer, db1)"
    and "(cloud_step env)\<^sup>*\<^sup>* db1 db2"
    and "so_TenantID again = so_TenantID op" "so_OperationID again = so_OperationID op"
    and "so_RequestHash again = so_RequestHash op" "readable env again"
  shows "ApplySyncOperation env again db2
    = (Inr (if fst answer = SyncAccepted then (SyncDuplicate, []) else answer), db2)"
proof -
  obtain r where "List.find (inbox_hit env op) (cl_inbox db1) = Some r"
    and answered: "existingSyncOutcome r op = Inr (repeated_answer answer)"
    using ApplySyncOperation_answered [OF assms(1)] by auto
  then have "List.find (inbox_hit env op) (cl_inbox db2) = Some r" using hit_persists assms(2) by blast
  moreover have "inbox_hit env again = inbox_hit env op" using assms(3,4) by (auto simp: inbox_hit_def op_tenant_def op_key_def)
  moreover have "existingSyncOutcome r again = existingSyncOutcome r op" using assms(5) by (simp add: existingSyncOutcome_def)
  ultimately show ?thesis using assms(6) answered
    by (simp add: ApplySyncOperation_def apply_body_def transact_def rbind_def repeated_answer_def)
qed

lemma redelivery_changes_nothing_witness:
  "ApplySyncOperation sample_cloud_env sample_create (cloud_after [sample_create, sample_move])
    = (Inr (SyncDuplicate, []), cloud_after [sample_create, sample_move])"
proof -
  have "ApplySyncOperation sample_cloud_env sample_create empty_cloud = (Inr (SyncAccepted, []), cloud_after [sample_create])"
    by (simp add: apply_defs sample_cloud_defs)
  moreover have "(cloud_step sample_cloud_env)\<^sup>*\<^sup>* (cloud_after [sample_create]) (cloud_after [sample_create, sample_move])"
    using cloud_after_steps [of sample_cloud_env "cloud_after [sample_create]" "[sample_move]"] by (simp add: cloud_after_def)
  moreover have "readable sample_cloud_env sample_create"
    by (simp add: readable_def sample_cloud_env_def sample_create_def sample_operation_def)
  ultimately show ?thesis using redelivery_changes_nothing [of sample_cloud_env sample_create empty_cloud] by simp
qed

text \<open>
  An operation is accepted with everything that belongs to it or it is not accepted at all. If
  the answer is acceptance, the transaction appended exactly the operation's event, carried the
  projection out and settled the inbox; with any other answer the event log and the operational
  tables are untouched, and with an error or a repeated answer so is everything else.
\<close>

theorem accepted_operations_are_committed:
  assumes "ApplySyncOperation env op db = (result, db')"
  shows "if result = Inr (SyncAccepted, [])
    then cl_events db' = cl_events db @ [domain_event_of env op]
      \<and> ce_project env op (cl_operational db) = Inr (cl_operational db')
      \<and> settled_by env op db InboxAccepted None db'
    else cl_events db' = cl_events db \<and> cl_operational db' = cl_operational db
      \<and> (db' = db \<or> (\<exists>problem. result = Inr (SyncRejected, problem) \<and> settled_by env op db InboxRejected (Some problem) db')
        \<or> (\<exists>problem. result = Inr (SyncConflict, problem) \<and> settled_by env op db InboxConflict (Some problem) db'))"
  using assms
proof (cases rule: ApplySyncOperation_cases)
  case (repeated r)
  then have "result \<noteq> Inr (SyncAccepted, [])"
    by (auto simp: existingSyncOutcome_def Let_def split: if_splits inbox_status.splits)
  with repeated show ?thesis by simp
qed auto

lemma accepted_operations_are_committed_witness:
  "settled_by sample_cloud_env sample_create empty_cloud InboxAccepted None (cloud_after [sample_create])"
proof -
  have "ApplySyncOperation sample_cloud_env sample_create empty_cloud = (Inr (SyncAccepted, []), cloud_after [sample_create])"
    by (simp add: apply_defs sample_cloud_defs)
  from accepted_operations_are_committed [OF this] show ?thesis by simp
qed

end
