(* ===== verification/Core_Auth.thy ===== *)
theory Core_Auth
  imports Core_Memory
begin

text \<open>
  Identity at the core: \<open>services/core/internal/auth/auth.go\<close> and the route check
  \<open>routeAuthorized\<close> of \<open>services/core/internal/api/server.go\<close>. A request is its method, its
  path, its headers and query values, and its body, \<open>None\<close> when it cannot be read;
  base64url, JSON, SHA-256 and the RSA check are arguments, as is
  the registry of enrolled devices.
\<close>

subsection \<open>Principals\<close>

record principal =
  p_TenantID :: string
  p_ActorID :: string
  p_Roles :: "string list"
  p_OutletIDs :: "string list"
  p_Kind :: string
  p_DeviceID :: string

definition HasRole :: "principal \<Rightarrow> string \<Rightarrow> bool" where
  "HasRole p role = List.member (p_Roles p) role"

definition IsPlatformAdmin :: "principal \<Rightarrow> bool" where
  "IsPlatformAdmin p = HasRole p ''platform_admin''"

definition AllowsOutlet :: "principal \<Rightarrow> string \<Rightarrow> bool" where
  "AllowsOutlet p outletID =
    (if outletID = [] then HasRole p ''owner'' \<or> HasRole p ''manager''
     else if HasRole p ''owner'' then True
     else list_ex (\<lambda>value. value = ''*'' \<or> value = outletID) (p_OutletIDs p))"

record core_request =
  cr_Method :: string
  cr_Path :: string
  cr_Header :: "string \<Rightarrow> string"
  cr_Query :: "string \<Rightarrow> string"
  cr_Body :: "string option"
  cr_PeerCertificate :: "string option"

datatype auth_error = Unauthenticated | DeviceRevoked

subsection \<open>The authenticators\<close>

definition DemoAuthenticate :: "core_request \<Rightarrow> auth_error + principal" where
  "DemoAuthenticate request =
    (let tenant = TrimSpace (cr_Header request ''X-FeastCloud-Tenant-ID'');
         actor = TrimSpace (cr_Header request ''X-FeastCloud-Actor-ID'')
     in if tenant = [] \<or> actor = [] then Inl Unauthenticated
     else let admin = cr_Header request ''X-FeastCloud-Platform-Admin'' = ''true'' \<and> actor = ''platform-admin'';
              device = HasPrefix actor ''edge:''
       in Inr \<lparr>p_TenantID = tenant, p_ActorID = actor,
            p_Roles = (if device then [''edge''] else if admin then [''platform_admin''] else [''manager'']),
            p_OutletIDs = (if device then [''*''] else if admin then [] else [''*'']),
            p_Kind = (if device then ''device'' else ''user''),
            p_DeviceID = (if device then TrimPrefix actor ''edge:'' else [])\<rparr>)"

datatype audience = AudienceText string | AudienceList "string option list" | OtherAudience

record oidc_claims =
  oc_Issuer :: string
  oc_Subject :: string
  oc_Audience :: audience
  oc_Expires :: int
  oc_NotBefore :: int
  oc_TenantID :: string
  oc_Roles :: "string list"
  oc_Outlets :: "string list"
  oc_RealmRoles :: "string list"

text \<open>What the library decodes: the algorithm of a header, the claims of a payload, a signature check.\<close>

record oidc_codec =
  od_base64 :: "string \<Rightarrow> string option"
  od_header :: "string \<Rightarrow> string option"
  od_claims :: "string \<Rightarrow> oidc_claims option"
  od_verify :: "string \<Rightarrow> string \<Rightarrow> bool"

record oidc_authenticator =
  oa_issuer :: string
  oa_audience :: string
  oa_clockSkew :: duration

fun audienceContains :: "audience \<Rightarrow> string \<Rightarrow> bool" where
  "audienceContains (AudienceText value) want = (value = want)"
| "audienceContains (AudienceList values) want = list_ex (\<lambda>item. item = Some want) values"
| "audienceContains OtherAudience want = False"

fun unique_from :: "string set \<Rightarrow> string list \<Rightarrow> string list" where
  "unique_from seen [] = []"
| "unique_from seen (v # vs) = (let value = TrimSpace v in
     if value \<noteq> [] \<and> value \<notin> seen then value # unique_from (insert value seen) vs else unique_from seen vs)"

definition unique :: "string list \<Rightarrow> string list" where
  "unique values = unique_from {} values"

fun split_on :: "char \<Rightarrow> string \<Rightarrow> string list" where
  "split_on c [] = [[]]"
| "split_on c (x # xs) = (if x = c then [] # split_on c xs
     else case split_on c xs of [] \<Rightarrow> [[x]] | y # ys \<Rightarrow> (x # y) # ys)"

definition unix_time :: "int \<Rightarrow> time" where
  "unix_time seconds = unix_epoch + seconds * Second"

text \<open>\<open>OIDCAuthenticator.Authenticate\<close> at the instant \<open>now\<close>.\<close>

definition claims_valid :: "oidc_authenticator \<Rightarrow> time \<Rightarrow> oidc_claims \<Rightarrow> bool" where
  "claims_valid a now claims \<longleftrightarrow> oc_Issuer claims = oa_issuer a \<and> oc_Subject claims \<noteq> [] \<and> oc_TenantID claims \<noteq> []
     \<and> audienceContains (oc_Audience claims) (oa_audience a)
     \<and> \<not> now > unix_time (oc_Expires claims) + oa_clockSkew a
     \<and> \<not> (oc_NotBefore claims > 0 \<and> now + oa_clockSkew a < unix_time (oc_NotBefore claims))"

definition OIDCAuthenticate :: "oidc_codec \<Rightarrow> oidc_authenticator \<Rightarrow> time \<Rightarrow> core_request \<Rightarrow> auth_error + principal" where
  "OIDCAuthenticate codec a now request =
    (let authorization = cr_Header request ''Authorization'' in
     if \<not> HasPrefix authorization ''Bearer '' then Inl Unauthenticated
     else case split_on CHR ''.'' (TrimSpace (TrimPrefix authorization ''Bearer '')) of
       [header, payload, signature] \<Rightarrow>
        (case od_base64 codec header of None \<Rightarrow> Inl Unauthenticated | Some headerRaw \<Rightarrow>
         if od_header codec headerRaw \<noteq> Some ''RS256'' then Inl Unauthenticated
         else case od_base64 codec signature of None \<Rightarrow> Inl Unauthenticated | Some signatureRaw \<Rightarrow>
         if \<not> od_verify codec (header @ ''.'' @ payload) signatureRaw then Inl Unauthenticated
         else case od_base64 codec payload of None \<Rightarrow> Inl Unauthenticated | Some payloadRaw \<Rightarrow>
         (case od_claims codec payloadRaw of None \<Rightarrow> Inl Unauthenticated | Some claims \<Rightarrow>
          if \<not> claims_valid a now claims then Inl Unauthenticated
          else Inr \<lparr>p_TenantID = oc_TenantID claims, p_ActorID = oc_Subject claims,
            p_Roles = unique (oc_Roles claims @ oc_RealmRoles claims), p_OutletIDs = unique (oc_Outlets claims),
            p_Kind = ''user'', p_DeviceID = []\<rparr>))
     | _ \<Rightarrow> Inl Unauthenticated)"

record device =
  dv_TenantID :: string
  dv_OutletID :: string
  dv_EdgeID :: string
  dv_DeviceID :: string
  dv_Fingerprint :: string
  dv_Status :: string

definition CertificateAuthenticate ::
  "(string \<Rightarrow> 8 word list) \<Rightarrow> (string \<Rightarrow> string \<Rightarrow> device option) \<Rightarrow> core_request \<Rightarrow> auth_error + principal" where
  "CertificateAuthenticate sha256 registry request =
    (case cr_PeerCertificate request of None \<Rightarrow> Inl Unauthenticated | Some raw \<Rightarrow>
     let tenantHint = TrimSpace (cr_Header request ''X-FeastCloud-Tenant-ID'') in
     if tenantHint = [] then Inl Unauthenticated
     else case registry tenantHint (hex_encode (sha256 raw)) of None \<Rightarrow> Inl Unauthenticated | Some device \<Rightarrow>
       if dv_Status device \<noteq> ''active'' then Inl DeviceRevoked
       else Inr \<lparr>p_TenantID = dv_TenantID device, p_ActorID = ''edge:'' @ dv_EdgeID device, p_Roles = [''edge''],
         p_OutletIDs = [dv_OutletID device], p_Kind = ''device'', p_DeviceID = dv_DeviceID device\<rparr>)"

subsection \<open>Routes\<close>

definition routeAuthorized :: "principal \<Rightarrow> core_request \<Rightarrow> bool" where
  "routeAuthorized value request =
    (let path = cr_Path request; get = cr_Method request = ''GET''; post = cr_Method request = ''POST'';
         outlet = AllowsOutlet value (cr_Query request ''outletId'')
     in if p_Kind value = ''device'' then post \<and> path = ''/api/v1/sync/operations''
     else if IsPlatformAdmin value then HasPrefix path ''/api/v1/platform/''
     else if HasRole value ''owner'' \<or> HasRole value ''manager'' then True
     else if HasRole value ''cashier'' then post \<and> path = ''/api/v1/orders'' \<or> get \<and> path = ''/api/v1/orders'' \<and> outlet
     else if HasRole value ''chef''
     then get \<and> (path = ''/api/v1/orders'' \<or> path = ''/api/v1/kitchen-tickets'' \<or> path = ''/api/v1/production-batches'') \<and> outlet
       \<or> post \<and> (HasPrefix path ''/api/v1/kitchen-tickets/'' \<or> HasPrefix path ''/api/v1/production-batches/'')
         \<and> HasSuffix path ''/transitions''
     else False)"

definition requiresDemoAuthentication :: "string \<Rightarrow> bool" where
  "requiresDemoAuthentication path \<longleftrightarrow> HasPrefix path ''/api/v1/'' \<and> \<not> HasPrefix path ''/api/v1/public/ordering/''"

lemma unique_from_sound: "set (unique_from seen vs) = (TrimSpace ` set vs) - seen - {[]} \<and> distinct (unique_from seen vs)"
proof (induction vs arbitrary: seen)
  case (Cons v vs)
  show ?case using Cons [of seen] Cons [of "insert (TrimSpace v) seen"] by (auto simp: Let_def)
qed simp

lemma set_unique: "set (unique vs) = TrimSpace ` set vs - {[]}" and distinct_unique: "distinct (unique vs)"
  using unique_from_sound [of "{}" vs] by (simp_all add: unique_def)

end
