(* ===== verification/Core_Requests.thy ===== *)
theory Core_Requests
  imports Core_Domain
begin

text \<open>
  The bodies the core's API reads and their checks: \<open>services/core/internal/api/requests.go\<close>. A
  struct is a record, a pointer an option, \<open>validate\<close> an optional error text. The amounts of an
  order are \<open>int64\<close>: every sum, difference and product is written with its wrap.
\<close>

subsection \<open>Shared checks\<close>

definition requiredText :: "string \<Rightarrow> string \<Rightarrow> nat \<Rightarrow> string option" where
  "requiredText field value maxLength = first_error
    [fails_if (length (TrimSpace value) = 0) (field @ '' is required''),
     fails_if (length value > maxLength) (field @ '' must be at most '' @ decimal maxLength @ '' characters'')]"

definition boolDefaultTrue :: "bool option \<Rightarrow> bool" where
  "boolDefaultTrue value \<longleftrightarrow> value = None \<or> value = Some True"

definition lower_hex_class :: "char \<Rightarrow> bool" where
  "lower_hex_class c \<longleftrightarrow> one_of ''0123456789abcdef'' c"

definition certificate_fingerprint_classes :: "(char \<Rightarrow> bool) list" where
  "certificate_fingerprint_classes = replicate 64 lower_hex_class"

definition quoted :: "string \<Rightarrow> string" where
  "quoted s = CHR 0x27 # s @ [CHR 0x27]"

definition code_message :: string where
  "code_message = ''code must start with a letter or number and contain only letters, numbers, ''
    @ quoted ''.'' @ '', '' @ quoted ''_'' @ '' or '' @ quoted ''-''"

lemma requiredText_None [simp]: "requiredText field value n = None \<longleftrightarrow> TrimSpace value \<noteq> [] \<and> length value \<le> n"
  by (auto simp: requiredText_def first_error_Cons not_less split: option.splits)

subsection \<open>Devices, organizations and outlets\<close>

record device_input =
  di_ID :: string
  di_OutletID :: string
  di_EdgeID :: string
  di_Name :: string
  di_CertificateFingerprint :: string

definition deviceInput_validate :: "device_input \<Rightarrow> string option" where
  "deviceInput_validate input = first_error
    [fails_if (\<not> ValidUUID (di_ID input)) ''id must be a UUID string'',
     fails_if (\<not> ValidUUID (di_OutletID input)) ''outlet_id must be a UUID string'',
     requiredText ''edge_id'' (di_EdgeID input) 128,
     requiredText ''name'' (di_Name input) 160,
     fails_if (\<not> matches certificate_fingerprint_classes (di_CertificateFingerprint input))
       ''certificate_fingerprint must be a lowercase SHA-256 fingerprint'']"

definition revokeDeviceInput_validate :: "string \<Rightarrow> string option" where
  "revokeDeviceInput_validate reason = requiredText ''reason'' reason 500"

record organization_input =
  oi_ID :: string
  oi_Name :: string
  oi_LegalName :: string
  oi_DefaultLocale :: string
  oi_DefaultCurrency :: string
  oi_Active :: "bool option"

definition organizationInput_validate :: "organization_input \<Rightarrow> string option" where
  "organizationInput_validate input = first_error
    [fails_if (\<not> ValidUUID (oi_ID input)) ''id must be a UUID string'',
     requiredText ''name'' (oi_Name input) 160,
     fails_if (length (oi_LegalName input) > 240) ''legal_name must be at most 240 characters'',
     requiredText ''default_locale'' (oi_DefaultLocale input) 35,
     fails_if (\<not> ValidCurrency (oi_DefaultCurrency input))
       ''default_currency must be a three-letter uppercase currency code'']"

record tenant_provision_input =
  tp_OrganizationName :: string
  tp_LegalName :: string
  tp_OwnerName :: string
  tp_OwnerEmail :: string
  tp_DefaultLocale :: string
  tp_DefaultCurrency :: string
  tp_OutletName :: string
  tp_OutletCode :: string
  tp_TimeZone :: string
  tp_BrandName :: string
  tp_BrandCode :: string
  tp_Template :: string

definition tenantProvisionInput_validate :: "(string \<Rightarrow> bool) \<Rightarrow> tenant_provision_input \<Rightarrow> string option" where
  "tenantProvisionInput_validate known_location input = first_error
    [requiredText ''organization_name'' (tp_OrganizationName input) 160,
     requiredText ''owner_name'' (tp_OwnerName input) 160,
     requiredText ''owner_email'' (tp_OwnerEmail input) 254,
     requiredText ''outlet_name'' (tp_OutletName input) 160,
     requiredText ''brand_name'' (tp_BrandName input) 160,
     fails_if (length (tp_LegalName input) > 240) ''legal_name must be at most 240 characters'',
     requiredText ''default_locale'' (tp_DefaultLocale input) 35,
     fails_if (\<not> ValidCurrency (tp_DefaultCurrency input))
       ''default_currency must be a three-letter uppercase currency code'',
     fails_if (\<not> ValidCode (tp_OutletCode input) \<or> \<not> ValidCode (tp_BrandCode input))
       ''outlet_code and brand_code must be valid codes'',
     fails_if (\<not> ValidTimeZone known_location (tp_TimeZone input)) ''time_zone must be a valid IANA time zone'',
     fails_if (CHR ''@'' \<notin> set (TrimSpace (tp_OwnerEmail input))) ''owner_email must be an email address'',
     fails_if (tp_Template input \<noteq> ''restaurant'' \<and> tp_Template input \<noteq> ''cloud'' \<and> tp_Template input \<noteq> ''central'')
       ''template must be restaurant, cloud, or central'']"

record outlet_input =
  ui_ID :: string
  ui_OrganizationID :: string
  ui_Name :: string
  ui_Code :: string
  ui_TimeZone :: string
  ui_Currency :: string
  ui_Active :: "bool option"

definition outletInput_validate :: "(string \<Rightarrow> bool) \<Rightarrow> outlet_input \<Rightarrow> string option" where
  "outletInput_validate known_location input = first_error
    [fails_if (\<not> ValidUUID (ui_ID input)) ''id must be a UUID string'',
     requiredText ''organization_id'' (ui_OrganizationID input) 128,
     requiredText ''name'' (ui_Name input) 160,
     fails_if (\<not> ValidCode (ui_Code input)) code_message,
     fails_if (\<not> ValidTimeZone known_location (ui_TimeZone input)) ''time_zone must be a valid IANA time zone'',
     fails_if (\<not> ValidCurrency (ui_Currency input)) ''currency must be a three-letter uppercase currency code'']"

record brand_input =
  bi_ID :: string
  bi_OrganizationID :: string
  bi_Name :: string
  bi_Code :: string
  bi_Active :: "bool option"

definition brandInput_validate :: "brand_input \<Rightarrow> string option" where
  "brandInput_validate input = first_error
    [fails_if (\<not> ValidUUID (bi_ID input)) ''id must be a UUID string'',
     requiredText ''organization_id'' (bi_OrganizationID input) 128,
     requiredText ''name'' (bi_Name input) 160,
     fails_if (\<not> ValidCode (bi_Code input)) code_message]"

record brand_outlet_assignment_input =
  ai_BrandID :: string
  ai_OutletID :: string
  ai_Active :: bool
  ai_ExpectedVersion :: "64 word"

definition brandOutletAssignmentInput_validate :: "brand_outlet_assignment_input \<Rightarrow> string option" where
  "brandOutletAssignmentInput_validate input = first_error
    [fails_if (\<not> ValidUUID (ai_BrandID input)) ''brand_id must be a UUID string'',
     fails_if (\<not> ValidUUID (ai_OutletID input)) ''outlet_id must be a UUID string'']"

record station_input =
  si_ID :: string
  si_OutletID :: string
  si_Name :: string
  si_Code :: string
  si_Type :: station_type
  si_Active :: "bool option"

definition stationInput_validate :: "station_input \<Rightarrow> string option" where
  "stationInput_validate input = first_error
    [fails_if (\<not> ValidUUID (si_ID input)) ''id must be a UUID string'',
     requiredText ''outlet_id'' (si_OutletID input) 128,
     requiredText ''name'' (si_Name input) 160,
     fails_if (\<not> ValidCode (si_Code input)) code_message,
     fails_if (\<not> ValidStationType (si_Type input)) ''type is not a supported station type'']"

subsection \<open>Orders\<close>

record order_line_input =
  li_ID :: string
  li_MenuItemID :: string
  li_Name :: string
  li_Quantity :: int
  li_UnitPrice :: money
  li_LineTotal :: money
  li_PreparationNote :: string

record order_input =
  or_ID :: string
  or_OutletID :: string
  or_BrandID :: string
  or_ExternalRef :: string
  or_Type :: core_order_type
  or_Status :: core_order_status
  or_Lines :: "order_line_input list"
  or_Subtotal :: money
  or_DiscountTotal :: money
  or_TaxTotal :: money
  or_ServiceCharge :: money
  or_Total :: money
  or_PlacedAt :: time

definition order_amounts :: "order_input \<Rightarrow> (string \<times> money) list" where
  "order_amounts input =
    [(''subtotal'', or_Subtotal input), (''discount_total'', or_DiscountTotal input), (''tax_total'', or_TaxTotal input),
     (''service_charge'', or_ServiceCharge input), (''total'', or_Total input)]"

definition check_amount :: "string \<Rightarrow> string \<times> money \<Rightarrow> string option" where
  "check_amount currency = (\<lambda>(name, amount). first_error
    [fails_if (Currency amount \<noteq> currency) (name @ ''.currency must equal total.currency''),
     fails_if (MinorUnits amount < 0) (name @ ''.minor_units cannot be negative'')])"

definition line_name :: "nat \<Rightarrow> string" where
  "line_name index = ''lines['' @ decimal index @ '']''"

definition check_line :: "string \<Rightarrow> nat \<Rightarrow> order_line_input \<Rightarrow> string option" where
  "check_line currency index line = first_error
    [fails_if (\<not> ValidUUID (li_ID line)) (line_name index @ ''.id must be a UUID string''),
     requiredText (line_name index @ ''.name'') (li_Name line) 200,
     fails_if (length (li_MenuItemID line) > 128 \<or> length (li_PreparationNote line) > 500)
       (line_name index @ '' contains a field longer than its allowed limit''),
     fails_if (li_Quantity line \<le> 0) (line_name index @ ''.quantity must be greater than zero''),
     fails_if (Currency (li_UnitPrice line) \<noteq> currency \<or> Currency (li_LineTotal line) \<noteq> currency)
       (line_name index @ '' money must use order currency''),
     fails_if (MinorUnits (li_UnitPrice line) < 0 \<or> MinorUnits (li_LineTotal line) < 0)
       (line_name index @ '' money cannot be negative''),
     fails_if (MinorUnits (li_UnitPrice line) > max_int64 div li_Quantity line)
       (line_name index @ '' amount exceeds supported range''),
     fails_if (MinorUnits (li_LineTotal line) \<noteq> wrap64 (MinorUnits (li_UnitPrice line) * li_Quantity line))
       (line_name index @ ''.line_total must equal unit_price multiplied by quantity'')]"

text \<open>The loop over the lines with the running subtotal.\<close>

fun check_lines :: "string \<Rightarrow> nat \<Rightarrow> int \<Rightarrow> order_line_input list \<Rightarrow> string + int" where
  "check_lines currency index subtotal [] = Inr subtotal"
| "check_lines currency index subtotal (line # lines) =
    (case check_line currency index line of
       Some e \<Rightarrow> Inl e
     | None \<Rightarrow>
        if subtotal > wrap64 (max_int64 - MinorUnits (li_LineTotal line)) then Inl ''subtotal exceeds supported range''
        else check_lines currency (Suc index) (wrap64 (subtotal + MinorUnits (li_LineTotal line))) lines)"

definition check_totals :: "order_input \<Rightarrow> int \<Rightarrow> string option" where
  "check_totals input computedSubtotal =
    (if MinorUnits (or_Subtotal input) \<noteq> computedSubtotal then Some ''subtotal must equal the sum of line totals''
     else let expectedTotal = wrap64 (MinorUnits (or_Subtotal input) - MinorUnits (or_DiscountTotal input)) in
       if expectedTotal < 0 \<or> expectedTotal > wrap64 (max_int64 - MinorUnits (or_TaxTotal input))
       then Some ''order total calculation exceeds supported range''
       else let expectedTotal = wrap64 (expectedTotal + MinorUnits (or_TaxTotal input)) in
         if expectedTotal > wrap64 (max_int64 - MinorUnits (or_ServiceCharge input))
         then Some ''order total calculation exceeds supported range''
         else let expectedTotal = wrap64 (expectedTotal + MinorUnits (or_ServiceCharge input)) in
           if MinorUnits (or_Total input) \<noteq> expectedTotal
           then Some ''total must equal subtotal minus discounts plus tax and service charge''
           else None)"

definition orderInput_validate :: "map_order \<Rightarrow> order_input \<Rightarrow> string option" where
  "orderInput_validate iter input = first_error
    ([fails_if (\<not> ValidUUID (or_ID input)) ''id must be a UUID string'',
      requiredText ''outlet_id'' (or_OutletID input) 128,
      fails_if (length (or_BrandID input) > 128 \<or> length (or_ExternalRef input) > 128)
        ''brand_id and external_ref must be at most 128 characters'',
      fails_if (\<not> ValidOrderType (or_Type input)) ''type is not a supported order type'',
      fails_if (or_Status input \<noteq> OtherCoreStatus [] \<and> \<not> ValidOrderStatus (or_Status input))
        ''status is not a supported order status'',
      fails_if (IsZero (or_PlacedAt input)) ''placed_at is required and must be RFC3339'',
      fails_if (length (or_Lines input) = 0 \<or> length (or_Lines input) > 500) ''lines must contain between 1 and 500 items'',
      fails_if (\<not> ValidCurrency (Currency (or_Total input)))
        ''total.currency must be a three-letter uppercase currency code'']
     @ map (check_amount (Currency (or_Total input))) (map_entries iter (order_amounts input))
     @ [case check_lines (Currency (or_Total input)) 0 0 (or_Lines input) of
          Inl e \<Rightarrow> Some e | Inr computedSubtotal \<Rightarrow> check_totals input computedSubtotal])"

subsection \<open>Kitchen tickets and transitions\<close>

record ticket_input =
  ti_ID :: string
  ti_OutletID :: string
  ti_OrderID :: string
  ti_StationID :: string
  ti_LineIDs :: "string list"
  ti_Status :: core_ticket_status
  ti_Priority :: int
  ti_TargetAt :: "time option"

definition ticketInput_validate :: "map_order \<Rightarrow> ticket_input \<Rightarrow> string option" where
  "ticketInput_validate iter input = first_error
    ([fails_if (\<not> ValidUUID (ti_ID input)) ''id must be a UUID string'']
     @ map (\<lambda>(field, value). requiredText field value 128) (map_entries iter
         [(''outlet_id'', ti_OutletID input), (''order_id'', ti_OrderID input), (''station_id'', ti_StationID input)])
     @ [fails_if (length (ti_LineIDs input) = 0 \<or> length (ti_LineIDs input) > 500)
          ''line_ids must contain between 1 and 500 identifiers'']
     @ map (\<lambda>(index, id). requiredText (''line_ids['' @ decimal index @ '']'') id 128)
         (zip [0 ..< length (ti_LineIDs input)] (ti_LineIDs input))
     @ [fails_if (ti_Status input \<noteq> OtherCoreTicket [] \<and> \<not> ValidTicketStatus (ti_Status input))
          ''status is not a supported kitchen-ticket status'',
        fails_if (ti_Priority input < 0 \<or> ti_Priority input > 100) ''priority must be between 0 and 100''])"

record order_transition_input =
  ot_ToStatus :: core_order_status
  ot_ExpectedVersion :: "64 word"

definition orderTransitionInput_validate :: "order_transition_input \<Rightarrow> string option" where
  "orderTransitionInput_validate input = first_error
    [fails_if (\<not> ValidOrderStatus (ot_ToStatus input)) ''to_status is not supported'',
     fails_if (ot_ExpectedVersion input < 1) ''expected_version must be at least one'']"

record ticket_transition_input =
  tt_ToStatus :: core_ticket_status
  tt_ExpectedVersion :: "64 word"

definition ticketTransitionInput_validate :: "ticket_transition_input \<Rightarrow> string option" where
  "ticketTransitionInput_validate input = first_error
    [fails_if (\<not> ValidTicketStatus (tt_ToStatus input)) ''to_status is not supported'',
     fails_if (tt_ExpectedVersion input < 1) ''expected_version must be at least one'']"

subsection \<open>What a validated order says\<close>

definition line_ok :: "string \<Rightarrow> order_line_input \<Rightarrow> bool" where
  "line_ok currency line \<longleftrightarrow> Currency (li_UnitPrice line) = currency \<and> Currency (li_LineTotal line) = currency
     \<and> 0 < li_Quantity line \<and> 0 \<le> MinorUnits (li_UnitPrice line)
     \<and> MinorUnits (li_LineTotal line) = MinorUnits (li_UnitPrice line) * li_Quantity line
     \<and> MinorUnits (li_LineTotal line) \<le> max_int64"

definition lines_total :: "order_line_input list \<Rightarrow> int" where
  "lines_total lines = sum_list (map (\<lambda>line. MinorUnits (li_LineTotal line)) lines)"

lemma check_line_ok:
  assumes "check_line currency index line = None"
  shows "line_ok currency line"
proof -
  define p q where "p = MinorUnits (li_UnitPrice line)" and "q = li_Quantity line"
  have facts: "0 < q" "0 \<le> p" "p \<le> max_int64 div q" "MinorUnits (li_LineTotal line) = wrap64 (p * q)"
    "Currency (li_UnitPrice line) = currency" "Currency (li_LineTotal line) = currency"
    using assms by (simp_all add: check_line_def first_error_None_iff p_def q_def)
  have "p * q \<le> (max_int64 div q) * q" using facts by (intro mult_right_mono) simp_all
  also have "\<dots> \<le> max_int64" using facts(1) by (simp add: minus_mod_eq_div_mult [symmetric])
  finally have "p * q \<le> max_int64" .
  moreover have "0 \<le> p * q" using facts by simp
  ultimately have "wrap64 (p * q) = p * q" by (intro wrap64_id) (simp add: in_int64_def)
  with \<open>p * q \<le> max_int64\<close> facts show ?thesis by (simp add: line_ok_def p_def q_def)
qed

lemma check_lines_sum:
  assumes "check_lines currency index subtotal lines = Inr s" "0 \<le> subtotal" "subtotal \<le> max_int64"
  shows "s = subtotal + lines_total lines \<and> s \<le> max_int64 \<and> 0 \<le> s \<and> list_all (line_ok currency) lines"
  using assms
proof (induction lines arbitrary: index subtotal)
  case (Cons line lines)
  define t where "t = MinorUnits (li_LineTotal line)"
  have line: "check_line currency index line = None" using Cons.prems(1) by (auto split: option.splits)
  have ok: "line_ok currency line" using check_line_ok [OF line] .
  then have t: "0 \<le> t" "t \<le> max_int64" by (simp_all add: line_ok_def t_def)
  have "wrap64 (max_int64 - t) = max_int64 - t" using t by (intro wrap64_id) (simp add: in_int64_def max_int64_def)
  then have fits: "subtotal + t \<le> max_int64" "check_lines currency (Suc index) (wrap64 (subtotal + t)) lines = Inr s"
    using Cons.prems(1) line by (auto simp: t_def split: if_splits)
  have "wrap64 (subtotal + t) = subtotal + t"
    using t fits(1) Cons.prems(2) by (intro wrap64_id) (simp add: in_int64_def)
  with Cons.IH [of "Suc index" "subtotal + t"] fits Cons.prems(2) t ok show ?case
    by (simp add: lines_total_def t_def)
qed (simp add: lines_total_def)

lemma check_totals_exact:
  assumes "check_totals input computed = None" "0 \<le> computed" "computed \<le> max_int64"
    and "0 \<le> MinorUnits (or_DiscountTotal input)" "MinorUnits (or_DiscountTotal input) \<le> max_int64"
    and "0 \<le> MinorUnits (or_TaxTotal input)" "MinorUnits (or_TaxTotal input) \<le> max_int64"
    and "0 \<le> MinorUnits (or_ServiceCharge input)" "MinorUnits (or_ServiceCharge input) \<le> max_int64"
  shows "MinorUnits (or_Subtotal input) = computed
    \<and> MinorUnits (or_Total input) = computed - MinorUnits (or_DiscountTotal input) + MinorUnits (or_TaxTotal input)
        + MinorUnits (or_ServiceCharge input)
    \<and> MinorUnits (or_DiscountTotal input) \<le> computed \<and> MinorUnits (or_Total input) \<le> max_int64"
proof -
  define d t c where "d = MinorUnits (or_DiscountTotal input)" and "t = MinorUnits (or_TaxTotal input)"
    and "c = MinorUnits (or_ServiceCharge input)"
  have plain: "wrap64 (computed - d) = computed - d" "wrap64 (max_int64 - t) = max_int64 - t" "wrap64 (max_int64 - c) = max_int64 - c"
    using assms(2-9) by (auto intro!: wrap64_id simp: in_int64_def max_int64_def d_def t_def c_def)
  have checks: "MinorUnits (or_Subtotal input) = computed" "0 \<le> computed - d" "computed - d \<le> max_int64 - t"
    using assms(1) plain by (auto simp: check_totals_def Let_def d_def t_def c_def split: if_splits)
  then have first: "wrap64 (computed - d + t) = computed - d + t"
    using assms(6) by (intro wrap64_id) (simp add: in_int64_def t_def)
  then have bound: "computed - d + t \<le> max_int64 - c"
    using assms(1) plain checks by (auto simp: check_totals_def Let_def d_def t_def c_def split: if_splits)
  then have "wrap64 (computed - d + t + c) = computed - d + t + c"
    using assms(6,8) checks by (intro wrap64_id) (simp add: in_int64_def t_def c_def)
  then have "MinorUnits (or_Total input) = computed - d + t + c"
    using assms(1) plain first checks bound by (auto simp: check_totals_def Let_def d_def t_def c_def split: if_splits)
  with checks bound show ?thesis by (simp add: d_def t_def c_def)
qed

text \<open>
  C34: an order the core accepts adds up. Over the integers, without any wrap of the \<open>int64\<close>
  arithmetic: each line total is the unit price times the quantity, the subtotal is the sum of the
  line totals, the total is the subtotal less the discount plus tax and service charge, the discount
  is at most the subtotal, and all lines and amounts have the currency of the total.
\<close>

theorem validated_orders_add_up:
  assumes "orderInput_validate iter input = None" "visits_all iter"
    and "\<forall>amount \<in> snd ` set (order_amounts input). in_int64 (MinorUnits amount)"
  shows "MinorUnits (or_Subtotal input) = (\<Sum>line \<leftarrow> or_Lines input. MinorUnits (li_UnitPrice line) * li_Quantity line)
    \<and> MinorUnits (or_Total input) = MinorUnits (or_Subtotal input) - MinorUnits (or_DiscountTotal input)
        + MinorUnits (or_TaxTotal input) + MinorUnits (or_ServiceCharge input)
    \<and> MinorUnits (or_DiscountTotal input) \<le> MinorUnits (or_Subtotal input)
    \<and> list_all (line_ok (Currency (or_Total input))) (or_Lines input)
    \<and> (\<forall>amount \<in> snd ` set (order_amounts input). Currency amount = Currency (or_Total input)
         \<and> 0 \<le> MinorUnits amount \<and> MinorUnits amount \<le> max_int64)"
proof -
  have amounts: "\<forall>entry \<in> set (order_amounts input). check_amount (Currency (or_Total input)) entry = None"
    using assms(1,2) by (simp add: orderInput_validate_def first_error_None_iff)
  then have range: "\<forall>amount \<in> snd ` set (order_amounts input). Currency amount = Currency (or_Total input)
      \<and> 0 \<le> MinorUnits amount \<and> MinorUnits amount \<le> max_int64"
    using assms(3) by (auto simp: check_amount_def first_error_None_iff in_int64_def)
  obtain computed where lines: "check_lines (Currency (or_Total input)) 0 0 (or_Lines input) = Inr computed"
    and totals: "check_totals input computed = None"
    using assms(1) by (auto simp: orderInput_validate_def first_error_None_iff split: sum.splits)
  have sums: "computed = lines_total (or_Lines input)" "0 \<le> computed" "computed \<le> max_int64"
    and ok: "list_all (line_ok (Currency (or_Total input))) (or_Lines input)"
    using check_lines_sum [OF lines] by (simp_all add: max_int64_def)
  have exact: "MinorUnits (or_Subtotal input) = computed
    \<and> MinorUnits (or_Total input) = computed - MinorUnits (or_DiscountTotal input) + MinorUnits (or_TaxTotal input)
        + MinorUnits (or_ServiceCharge input)
    \<and> MinorUnits (or_DiscountTotal input) \<le> computed \<and> MinorUnits (or_Total input) \<le> max_int64"
    using range by (intro check_totals_exact [OF totals sums(2,3)]) (simp_all add: order_amounts_def)
  have "lines_total (or_Lines input) = (\<Sum>line \<leftarrow> or_Lines input. MinorUnits (li_UnitPrice line) * li_Quantity line)"
    using ok by (auto simp: lines_total_def list_all_iff line_ok_def intro!: arg_cong [of _ _ sum_list] map_cong)
  with range exact sums(1) ok show ?thesis by simp
qed

definition sample_uuid :: string where
  "sample_uuid = ''00000000-0000-4000-8000-000000000001''"

definition rupees :: "int \<Rightarrow> money" where
  "rupees n = \<lparr>MinorUnits = n, Currency = ''INR''\<rparr>"

definition sample_order_input :: order_input where
  "sample_order_input = \<lparr>or_ID = sample_uuid, or_OutletID = ''o'', or_BrandID = [], or_ExternalRef = [],
     or_Type = CoreDineIn, or_Status = OtherCoreStatus [],
     or_Lines = [\<lparr>li_ID = sample_uuid, li_MenuItemID = [], li_Name = ''Dosa'', li_Quantity = 3,
       li_UnitPrice = rupees 9000, li_LineTotal = rupees 27000, li_PreparationNote = []\<rparr>],
     or_Subtotal = rupees 27000, or_DiscountTotal = rupees 2000, or_TaxTotal = rupees 1250,
     or_ServiceCharge = rupees 0, or_Total = rupees 26250, or_PlacedAt = 1\<rparr>"

lemma sample_order_valid: "orderInput_validate (\<lambda>n. [0..<n]) sample_order_input = None"
  by code_simp

lemma validated_orders_add_up_witness:
  "MinorUnits (or_Subtotal sample_order_input)
    = (\<Sum>line \<leftarrow> or_Lines sample_order_input. MinorUnits (li_UnitPrice line) * li_Quantity line)"
proof -
  have "\<forall>amount \<in> snd ` set (order_amounts sample_order_input). in_int64 (MinorUnits amount)"
    by (simp add: order_amounts_def sample_order_input_def rupees_def in_int64_def max_int64_def)
  from validated_orders_add_up [OF sample_order_valid visits_all_upt this] show ?thesis by simp
qed

end
