(* ===== verification/Core_Server.thy ===== *)
theory Core_Server
  imports Core_Auth Core_Idempotency Core_Requests Core_Menu Core_Checkout_Types Go_Numbers
begin

text \<open>
  The request machinery of the core: \<open>services/core/internal/api/server.go\<close> and the shared parts of
  \<open>api/handlers.go\<close>. A mutation passes the checks of \<open>executeMutation\<close>, is looked up in the
  idempotency store under its scope and only then carried out; a query is answered page by page. The
  codecs of the standard library (JSON, media types, base64url, SHA-256) are fields of a record.
\<close>

subsection \<open>Errors, results, responses\<close>

record core_error =
  er_Status :: nat
  er_Code :: string
  er_Message :: string
  er_Retryable :: bool

definition core_problem :: "nat \<Rightarrow> string \<Rightarrow> string \<Rightarrow> core_error" where
  "core_problem status code message = \<lparr>er_Status = status, er_Code = code, er_Message = message, er_Retryable = False\<rparr>"

text \<open>The data of the answers.\<close>

datatype core_data =
    OrganizationData organization
  | OutletData outlet
  | BrandData brand
  | AssignmentData brand_outlet_assignment
  | StationData station
  | OrderData core_order
  | TicketData core_ticket
  | AuditData audit_event
  | ProvisionData organization outlet brand "station list" string string
  | DeviceData device
  | RevokedData string string
  | AvailabilityData menu_availability
  | AvailabilitiesData "menu_availability list"
  | TableData dining_table
  | TablesData "dining_table list"
  | SessionData dining_session
  | SessionsData "dining_session list"
  | ShiftData cash_shift
  | ShiftsData "cash_shift list"
  | TenderData tender
  | TendersData "tender list"
  | CaptureData tender "fiscal_receipt option"
  | SettlementsData "tender_settlement list"
  | StudioData menu_studio
  | StudiosData "menu_studio list"
  | CheckoutData pos_result
  | PrintJobData kitchen_print_job
  | PickupTokenData pickup_token

datatype operation_value = OperationData core_data | OperationError core_error

record core_envelope =
  en_Metadata :: mutation_metadata
  en_Payload :: string

record core_codec =
  cc_media_type :: "string \<Rightarrow> string option"
  cc_envelope :: "string \<Rightarrow> string + core_envelope"
  cc_canonical :: "string \<Rightarrow> string option"
  cc_sha256 :: "string \<Rightarrow> 8 word list"
  cc_marshal :: "operation_value \<Rightarrow> string"
  cc_unmarshal :: "string \<Rightarrow> operation_value option"
  cc_base64_encode :: "string \<Rightarrow> string"
  cc_base64_decode :: "string \<Rightarrow> string option"

record problem_document =
  pd_Type :: string
  pd_Status :: nat
  pd_Detail :: string
  pd_Code :: string
  pd_MessageKey :: string
  pd_CorrelationID :: string
  pd_Retryable :: bool

datatype core_body =
    ProblemBody problem_document
  | DataBody core_data string bool
  | PageBody "core_data list" string int string
  | EmptyBody

record core_response =
  re_Status :: int
  re_Headers :: "(string \<times> string) list"
  re_Body :: core_body

definition replace_char :: "char \<Rightarrow> char \<Rightarrow> string \<Rightarrow> string" where
  "replace_char a b s = map (\<lambda>c. if c = a then b else c) s"

definition bool_text :: "bool \<Rightarrow> string" where
  "bool_text b = (if b then ''true'' else ''false'')"

definition writeErrorWithReplay :: "string \<Rightarrow> core_error \<Rightarrow> bool \<Rightarrow> core_response" where
  "writeErrorWithReplay requestID value replay =
    \<lparr>re_Status = int (er_Status value), re_Headers = (if replay then [(''Idempotency-Replayed'', ''true'')] else []),
     re_Body = ProblemBody \<lparr>pd_Type = ''https://docs.feastcloud.org/problems/'' @ replace_char CHR ''_'' CHR ''-'' (er_Code value),
       pd_Status = er_Status value, pd_Detail = er_Message value, pd_Code = er_Code value,
       pd_MessageKey = ''errors.'' @ replace_char CHR ''_'' CHR ''.'' (er_Code value),
       pd_CorrelationID = requestID, pd_Retryable = er_Retryable value\<rparr>\<rparr>"

definition writeError :: "string \<Rightarrow> core_error \<Rightarrow> core_response" where
  "writeError requestID value = writeErrorWithReplay requestID value False"

definition successResult :: "core_codec \<Rightarrow> int \<Rightarrow> core_data \<Rightarrow> string \<Rightarrow> idem_result" where
  "successResult codec status data location = \<lparr>ir_HTTPStatus = status, ir_Value = cc_marshal codec (OperationData data),
     ir_Headers = Some (if location \<noteq> [] then [(''Location'', location)] else [])\<rparr>"

definition errorResult :: "core_codec \<Rightarrow> core_error \<Rightarrow> idem_result" where
  "errorResult codec value = \<lparr>ir_HTTPStatus = int (er_Status value), ir_Value = cc_marshal codec (OperationError value),
     ir_Headers = None\<rparr>"

text \<open>The text of an error of the repository; identifiers are left out of it, as in the repository's model.\<close>

fun failure_text :: "core_failure \<Rightarrow> string" where
  "failure_text (Failed kind message) = message"

fun repository_problem :: "core_failure \<Rightarrow> core_error" where
  "repository_problem (Failed kind message) = (case kind of
     PlatformProvisioningUnavailable \<Rightarrow> core_problem 503 ''platform_control_plane_unavailable''
       ''a dedicated platform provisioning database role is required to create customer tenants''
   | InvalidReference \<Rightarrow> core_problem 422 ''invalid_reference'' message
   | Conflict \<Rightarrow> core_problem 409 ''conflict'' message
   | VersionConflict \<Rightarrow> core_problem 409 ''version_conflict'' message
   | InvalidTransition \<Rightarrow> core_problem 422 ''invalid_transition'' message
   | _ \<Rightarrow> core_problem 500 ''persistence_error'' ''the mutation could not be persisted'')"

definition repositoryError :: "core_codec \<Rightarrow> core_failure \<Rightarrow> idem_result" where
  "repositoryError codec failure = errorResult codec (repository_problem failure)"

definition outletScopeMismatch :: "core_codec \<Rightarrow> idem_result" where
  "outletScopeMismatch codec =
    errorResult codec (core_problem 422 ''outlet_scope_mismatch'' ''payload.outletId must match envelope outletId'')"

definition internalOperationError :: "core_codec \<Rightarrow> idem_result" where
  "internalOperationError codec = errorResult codec \<lparr>er_Status = 500, er_Code = ''identifier_generation_failed'',
     er_Message = ''the service could not generate a secure identifier'', er_Retryable = True\<rparr>"

definition decodeAndValidate :: "core_codec \<Rightarrow> (string \<Rightarrow> string + 'i) \<Rightarrow> ('i \<Rightarrow> string option) \<Rightarrow> string \<Rightarrow> idem_result + 'i" where
  "decodeAndValidate codec decode validate payload =
    (case decode payload of
       Inl e \<Rightarrow> Inl (errorResult codec (core_problem 422 ''invalid_payload'' e))
     | Inr input \<Rightarrow> (case validate input of
         Some e \<Rightarrow> Inl (errorResult codec (core_problem 422 ''validation_failed'' e))
       | None \<Rightarrow> Inr input))"

subsection \<open>Identifiers and audit events\<close>

text \<open>The sixteen random bytes are an argument, \<open>None\<close> when the system has none.\<close>

definition uuid_text :: "8 word list \<Rightarrow> string" where
  "uuid_text buffer = (let encoded = hex_encode buffer; part = (\<lambda>i j. take (j - i) (drop i encoded))
     in part 0 8 @ ''-'' @ part 8 12 @ ''-'' @ part 12 16 @ ''-'' @ part 16 20 @ ''-'' @ part 20 32)"

definition newUUIDv7 :: "8 word list option \<Rightarrow> time \<Rightarrow> string option" where
  "newUUIDv7 random now = (case random of None \<Rightarrow> None | Some buffer \<Rightarrow>
     (let milliseconds = (word_of_int (UnixMilli now) :: 64 word);
          buffer = buffer[0 := ucast (drop_bit 40 milliseconds), 1 := ucast (drop_bit 32 milliseconds),
            2 := ucast (drop_bit 24 milliseconds), 3 := ucast (drop_bit 16 milliseconds),
            4 := ucast (drop_bit 8 milliseconds), 5 := ucast milliseconds];
          buffer = buffer[6 := or (and (buffer ! 6) 0x0f) 0x70];
          buffer = buffer[8 := or (and (buffer ! 8) 0x3f) 0x80]
      in Some (uuid_text buffer)))"

definition newRecordMetadata :: "time \<Rightarrow> record_metadata" where
  "newRecordMetadata now = \<lparr>rm_CreatedAt = now, rm_UpdatedAt = now, rm_Version = 1\<rparr>"

definition newAuditEvent :: "8 word list option \<Rightarrow> mutation_metadata \<Rightarrow> string \<Rightarrow> string \<Rightarrow> string \<Rightarrow> time \<Rightarrow> audit_event option" where
  "newAuditEvent random metadata action entityType entityID now = (case newUUIDv7 random now of None \<Rightarrow> None | Some id' \<Rightarrow>
     Some \<lparr>ae_ID = id', ae_OperationID = mm_ID metadata, ae_TenantID = mm_TenantID metadata, ae_OutletID = mm_OutletID metadata,
       ae_ActorID = mm_ActorID metadata, ae_DeviceID = mm_DeviceID metadata, ae_Source = mm_Source metadata,
       ae_SourceID = mm_SourceID metadata, ae_IdempotencyKey = mm_IdempotencyKey metadata,
       ae_CorrelationID = mm_CorrelationID metadata, ae_SchemaVersion = mm_SchemaVersion metadata, ae_Action = action,
       ae_EntityType = entityType, ae_EntityID = entityID, ae_OccurredAt = mm_OccurredAt metadata, ae_RecordedAt = now\<rparr>)"

subsection \<open>Mutations\<close>

text \<open>
  The state of the server, over the idempotency store and the repository it is built with, and what one
  request finds in its surroundings.
\<close>

record ('i, 'r) core_state =
  ss_Idempotency :: 'i
  ss_Repository :: 'r

record core_surroundings =
  sv_Iter :: map_order
  sv_MaxBody :: int
  sv_RequestID :: string
  sv_Expiry :: time
  sv_Entry :: time
  sv_Now :: time
  sv_Random :: "nat \<Rightarrow> 8 word list option"
  sv_Context :: context_error

record admitted =
  ad_Metadata :: mutation_metadata
  ad_Payload :: string
  ad_Scope :: idem_scope
  ad_Fingerprint :: string

definition admit_body :: "core_codec \<Rightarrow> core_surroundings \<Rightarrow> core_request \<Rightarrow> core_error + string \<times> core_envelope" where
  "admit_body codec sv request =
    (if cc_media_type codec (cr_Header request ''Content-Type'') \<noteq> Some ''application/json''
     then Inl (core_problem 415 ''unsupported_media_type'' ''Content-Type must be application/json'')
     else case cr_Body request of
       None \<Rightarrow> Inl (core_problem 400 ''invalid_request'' ''could not read request body'')
     | Some body \<Rightarrow>
        if int (length body) > sv_MaxBody sv then Inl (core_problem 413 ''request_too_large''
          (''request body must not exceed '' @ decimal (nat (sv_MaxBody sv)) @ '' bytes''))
        else case cc_envelope codec body of
          Inl e \<Rightarrow> Inl (core_problem 400 ''invalid_json'' e)
        | Inr envelope \<Rightarrow> Inr (body, envelope))"

definition admit_envelope ::
  "core_surroundings \<Rightarrow> principal option \<Rightarrow> core_request \<Rightarrow> core_envelope \<Rightarrow> core_error + principal \<times> string \<times> mutation_metadata" where
  "admit_envelope sv who request envelope =
    (let m = en_Metadata envelope in
     if length (en_Payload envelope) = 0 \<or> TrimSpace (en_Payload envelope) = ''null''
     then Inl (core_problem 400 ''invalid_request'' ''payload is required'')
     else case MutationMetadata_Validate (sv_Iter sv) m of
       Some e \<Rightarrow> Inl (core_problem 422 ''invalid_metadata'' e)
     | None \<Rightarrow> (case who of
         None \<Rightarrow> Inl (core_problem 401 ''authentication_required'' ''an authenticated principal is required'')
       | Some p \<Rightarrow>
          if mm_ActorID m \<noteq> p_ActorID p \<or> (\<not> IsPlatformAdmin p \<and> mm_TenantID m \<noteq> p_TenantID p)
          then Inl (core_problem 403 ''principal_scope_mismatch'' ''mutation tenantId and actorId must match the authenticated scope'')
          else if \<not> IsPlatformAdmin p \<and> \<not> AllowsOutlet p (mm_OutletID m)
          then Inl (core_problem 403 ''outlet_permission_denied'' ''the authenticated principal is not assigned to this outlet'')
          else let headerKey = TrimSpace (cr_Header request ''Idempotency-Key'');
                   correlationHeader = TrimSpace (cr_Header request ''X-Correlation-ID'')
            in if headerKey = [] then Inl (core_problem 400 ''missing_idempotency_key'' ''Idempotency-Key header is required'')
            else if headerKey \<noteq> mm_IdempotencyKey m
            then Inl (core_problem 400 ''idempotency_key_mismatch'' ''Idempotency-Key header must match idempotencyKey'')
            else if correlationHeader \<noteq> [] \<and> mm_CorrelationID m \<noteq> [] \<and> correlationHeader \<noteq> mm_CorrelationID m
            then Inl (core_problem 400 ''correlation_id_mismatch'' ''X-Correlation-ID header must match correlationId'')
            else Inr (p, headerKey, if mm_CorrelationID m = [] then m\<lparr>mm_CorrelationID := correlationHeader\<rparr> else m)))"

definition admit_mutation ::
  "core_codec \<Rightarrow> core_surroundings \<Rightarrow> principal option \<Rightarrow> core_request \<Rightarrow> core_error + admitted" where
  "admit_mutation codec sv who request =
    rbind (admit_body codec sv request) (\<lambda>(body, envelope).
    rbind (admit_envelope sv who request envelope) (\<lambda>(p, headerKey, metadata).
      case cc_canonical codec body of
        None \<Rightarrow> Inl (core_problem 400 ''invalid_json'' ''request body could not be canonicalized'')
      | Some canonical \<Rightarrow> Inr \<lparr>ad_Metadata = metadata, ad_Payload = en_Payload envelope,
          ad_Scope = \<lparr>is_TenantID = (if IsPlatformAdmin p then p_TenantID p else mm_TenantID metadata),
            is_ActorID = mm_ActorID metadata, is_Route = cr_Method request @ '' '' @ cr_Path request, is_Key = headerKey\<rparr>,
          ad_Fingerprint = hex_encode (cc_sha256 codec
            (cr_Method request @ [CHR 0x0A] @ cr_Path request @ [CHR 0x0A] @ canonical))\<rparr>))"

type_synonym 'r mutation_operation = "mutation_metadata \<Rightarrow> string \<Rightarrow> 'r \<Rightarrow> idem_result \<times> 'r"

text \<open>The interface \<open>idempotency.Store\<close>: one call with its scope, fingerprint and operation.\<close>

type_synonym ('i, 'r) replay_call = "idem_scope \<Rightarrow> string \<Rightarrow> ('r \<Rightarrow> idem_result \<times> 'r) \<Rightarrow> ('i, 'r) core_state
  \<Rightarrow> (idem_error + idem_result \<times> bool) \<times> ('i, 'r) core_state"

text \<open>
  One call of the in-memory store that no other call interrupts: an entry of a call that is still
  under way keeps this one waiting until its context ends.
\<close>

definition Do_alone ::
  "time \<Rightarrow> time \<Rightarrow> (idem_store, 'r) replay_call" where
  "Do_alone expiry entry scope fingerprint operation s =
    (case enter expiry entry scope fingerprint (ss_Idempotency s) of
       (Refused, store) \<Rightarrow> (Inl FingerprintConflict, s\<lparr>ss_Idempotency := store\<rparr>)
     | (WaitFor a, store) \<Rightarrow> (case ie_result (im_heap store ! a) of
         Some result \<Rightarrow> (Inr (cloneResult result, True), s\<lparr>ss_Idempotency := store\<rparr>)
       | None \<Rightarrow> (Inl Cancelled, s\<lparr>ss_Idempotency := store\<rparr>))
     | (Own a, store) \<Rightarrow> (let (result, repository) = operation (ss_Repository s)
         in (Inr (cloneResult result, False), s\<lparr>ss_Idempotency := finish a result store, ss_Repository := repository\<rparr>)))"

definition memory_call :: "core_surroundings \<Rightarrow> (idem_store, 'r) replay_call" where
  "memory_call sv = Do_alone (sv_Expiry sv) (sv_Entry sv)"

definition mutation_response :: "core_codec \<Rightarrow> string \<Rightarrow> idem_error + idem_result \<times> bool \<Rightarrow> core_response" where
  "mutation_response codec requestID answer =
    (case answer of
       Inl FingerprintConflict \<Rightarrow> writeError requestID (core_problem 409 ''idempotency_key_reused''
         ''this idempotency key was already used with a different request body'')
     | Inl _ \<Rightarrow> writeError requestID (core_problem 503 ''request_cancelled''
         ''the request ended before the original mutation completed'')
     | Inr (result, replayed) \<Rightarrow> (case cc_unmarshal codec (ir_Value result) of
         None \<Rightarrow> writeError requestID (core_problem 500 ''internal_error'' ''the operation returned an invalid result'')
       | Some value \<Rightarrow>
          let headers = (case ir_Headers result of Some h \<Rightarrow> h | None \<Rightarrow> []) @ [(''Idempotency-Replayed'', bool_text replayed)]
          in case value of
            OperationError e \<Rightarrow> (writeErrorWithReplay requestID e replayed)\<lparr>re_Headers := headers\<rparr>
          | OperationData data \<Rightarrow> \<lparr>re_Status = ir_HTTPStatus result, re_Headers = headers, re_Body = DataBody data requestID replayed\<rparr>))"

definition executeMutation ::
  "core_codec \<Rightarrow> ('i, 'r) replay_call \<Rightarrow> core_surroundings \<Rightarrow> principal option \<Rightarrow> core_request \<Rightarrow> 'r mutation_operation
    \<Rightarrow> ('i, 'r) core_state \<Rightarrow> core_response \<times> ('i, 'r) core_state" where
  "executeMutation codec call sv who request operation s =
    (case admit_mutation codec sv who request of
       Inl e \<Rightarrow> (writeError (sv_RequestID sv) e, s)
     | Inr ad \<Rightarrow> (let (answer, s) = call (ad_Scope ad) (ad_Fingerprint ad) (operation (ad_Metadata ad) (ad_Payload ad)) s
         in (mutation_response codec (sv_RequestID sv) answer, s)))"

text \<open>What every mutation does with its audit event: an error of the repository is the answer, else the stored value.\<close>

definition commit_mutation ::
  "core_codec \<Rightarrow> audit_event option \<Rightarrow> (audit_event \<Rightarrow> 'r \<Rightarrow> (core_failure + 'v) \<times> 'r)
    \<Rightarrow> ('v \<Rightarrow> idem_result) \<Rightarrow> 'r \<Rightarrow> idem_result \<times> 'r" where
  "commit_mutation codec audit store answer m =
    (case audit of None \<Rightarrow> (internalOperationError codec, m)
     | Some a \<Rightarrow> (case store a m of
         (Inl e, m') \<Rightarrow> (repositoryError codec e, m')
       | (Inr v, m') \<Rightarrow> (answer v, m')))"

subsection \<open>Queries\<close>

definition requireTenantID :: "principal option \<Rightarrow> core_request \<Rightarrow> core_error + string" where
  "requireTenantID who request =
    (case who of
       None \<Rightarrow> Inl (core_problem 401 ''authentication_required'' ''an authenticated principal is required'')
     | Some p \<Rightarrow> (let queryTenantID = TrimSpace (cr_Query request ''tenantId'') in
         if queryTenantID \<noteq> [] \<and> queryTenantID \<noteq> p_TenantID p
         then Inl (core_problem 403 ''tenant_scope_mismatch'' ''tenantId query parameter must match the authenticated tenant'')
         else Inr (p_TenantID p)))"

definition read_error :: "core_failure \<Rightarrow> core_error" where
  "read_error failure = (case failure of Failed kind message \<Rightarrow>
     if kind = NotFound then core_problem 404 ''not_found'' ''the requested resource was not found''
     else \<lparr>er_Status = 500, er_Code = ''persistence_error'', er_Message = ''the requested data could not be read'', er_Retryable = True\<rparr>)"

definition invalidCursorError :: core_error where
  "invalidCursorError = core_problem 400 ''invalid_cursor'' ''cursor is invalid or no longer available for this query''"

definition page_limit :: "core_request \<Rightarrow> core_error + nat" where
  "page_limit request =
    (let rawLimit = cr_Query request ''limit'' in
     if rawLimit = [] then Inr 50
     else case Atoi rawLimit of
       None \<Rightarrow> Inl (core_problem 400 ''invalid_page_limit'' ''limit must be an integer between 1 and 200'')
     | Some parsed \<Rightarrow> if parsed < 1 \<or> parsed > 200
         then Inl (core_problem 400 ''invalid_page_limit'' ''limit must be an integer between 1 and 200'')
         else Inr (nat parsed))"

fun position_after :: "(string \<Rightarrow> bool) \<Rightarrow> nat \<Rightarrow> string list \<Rightarrow> nat option" where
  "position_after hit index [] = None"
| "position_after hit index (x # xs) = (if hit x then Some (index + 1) else position_after hit (index + 1) xs)"

definition page_start :: "core_codec \<Rightarrow> core_request \<Rightarrow> string list \<Rightarrow> core_error + nat" where
  "page_start codec request identifiers =
    (let rawCursor = cr_Query request ''cursor'' in
     if rawCursor = [] then Inr 0
     else case cc_base64_decode codec rawCursor of
       None \<Rightarrow> Inl invalidCursorError
     | Some decoded \<Rightarrow>
        if \<not> HasPrefix decoded ''v1:'' then Inl invalidCursorError
        else (case position_after (\<lambda>x. x = TrimPrefix decoded ''v1:'') 0 identifiers of
          None \<Rightarrow> Inl invalidCursorError
        | Some start \<Rightarrow> Inr start))"

definition page_of :: "core_codec \<Rightarrow> core_request \<Rightarrow> 'v list \<Rightarrow> ('v \<Rightarrow> string) \<Rightarrow> core_error + 'v list \<times> nat \<times> string" where
  "page_of codec request values' identifier =
    rbind (page_limit request) (\<lambda>limit.
    rbind (page_start codec request (map identifier values')) (\<lambda>start.
      let stop = min (start + limit) (length values'); page = take (stop - start) (drop start values')
      in Inr (page, limit, if stop < length values' \<and> page \<noteq> []
         then cc_base64_encode codec (''v1:'' @ identifier (last page)) else [])))"

definition writePaginated ::
  "core_codec \<Rightarrow> string \<Rightarrow> core_request \<Rightarrow> 'v list \<Rightarrow> ('v \<Rightarrow> string) \<Rightarrow> ('v \<Rightarrow> core_data) \<Rightarrow> core_response" where
  "writePaginated codec requestID request values' identifier data =
    (case page_of codec request values' identifier of
       Inl e \<Rightarrow> writeError requestID e
     | Inr (page, limit, nextCursor) \<Rightarrow> \<lparr>re_Status = 200, re_Headers = [],
         re_Body = PageBody (map data page) requestID (int limit) nextCursor\<rparr>)"

definition entityETag :: "64 word \<Rightarrow> string" where
  "entityETag version = CHR 0x22 # decimal (unat version) @ [CHR 0x22]"

definition writeEntity :: "string \<Rightarrow> 64 word \<Rightarrow> core_data \<Rightarrow> core_response" where
  "writeEntity requestID version data =
    \<lparr>re_Status = 200, re_Headers = [(''ETag'', entityETag version)], re_Body = DataBody data requestID False\<rparr>"

end
