(* ===== verification/Core_Handlers.thy ===== *)
theory Core_Handlers
  imports Core_Server Core_Memory_System
begin

text \<open>
  The handlers of the core over the in-memory repository: \<open>services/core/internal/api/handlers.go\<close>
  and \<open>api/platform.go\<close>, the routing of their paths and \<open>ServeHTTP\<close> of \<open>api/server.go\<close>. The
  routes of the components that are not modelled are an argument of the router.
\<close>

subsection \<open>Decoders of the bodies\<close>

record core_decoders =
  dc_organization :: "string \<Rightarrow> string + organization_input"
  dc_outlet :: "string \<Rightarrow> string + outlet_input"
  dc_brand :: "string \<Rightarrow> string + brand_input"
  dc_assignment :: "string \<Rightarrow> string + brand_outlet_assignment_input"
  dc_station :: "string \<Rightarrow> string + station_input"
  dc_order :: "string \<Rightarrow> string + order_input"
  dc_ticket :: "string \<Rightarrow> string + ticket_input"
  dc_order_transition :: "string \<Rightarrow> string + order_transition_input"
  dc_ticket_transition :: "string \<Rightarrow> string + ticket_transition_input"
  dc_tenant :: "string \<Rightarrow> string + tenant_provision_input"
  dc_device :: "string \<Rightarrow> string + device_input"
  dc_revocation :: "string \<Rightarrow> string + string"
  dc_location :: "string \<Rightarrow> bool"

subsection \<open>Mutations\<close>

type_synonym memory_operation = "memory_repository mutation_operation"

definition create_organization :: "core_codec \<Rightarrow> core_decoders \<Rightarrow> core_surroundings \<Rightarrow> memory_operation" where
  "create_organization codec dec sv metadata payload m =
    (case decodeAndValidate codec (dc_organization dec) organizationInput_validate payload of
       Inl result \<Rightarrow> (result, m)
     | Inr input \<Rightarrow>
        if oi_ID input \<noteq> mm_TenantID metadata
        then (errorResult codec (core_problem 422 ''tenant_scope_mismatch'' ''organization id must match envelope tenantId''), m)
        else let value = \<lparr>org_ID = oi_ID input, org_TenantID = mm_TenantID metadata, org_Name = TrimSpace (oi_Name input),
            org_LegalName = TrimSpace (oi_LegalName input), org_DefaultLocale = oi_DefaultLocale input,
            org_DefaultCurrency = oi_DefaultCurrency input, org_Active = boolDefaultTrue (oi_Active input),
            org_Meta = newRecordMetadata (sv_Now sv)\<rparr>
          in commit_mutation codec
            (newAuditEvent (sv_Random sv 0) metadata ''organization.created'' ''organization'' (org_ID value) (sv_Now sv))
            (Memory_CreateOrganization (sv_Context sv) value)
            (\<lambda>_. successResult codec 201 (OrganizationData value) (''/api/v1/organizations/'' @ org_ID value)) m)"

definition create_outlet :: "core_codec \<Rightarrow> core_decoders \<Rightarrow> core_surroundings \<Rightarrow> memory_operation" where
  "create_outlet codec dec sv metadata payload m =
    (case decodeAndValidate codec (dc_outlet dec) (outletInput_validate (dc_location dec)) payload of
       Inl result \<Rightarrow> (result, m)
     | Inr input \<Rightarrow>
        let value = \<lparr>out_ID = ui_ID input, out_TenantID = mm_TenantID metadata, out_OrganizationID = ui_OrganizationID input,
            out_Name = TrimSpace (ui_Name input), out_Code = ui_Code input, out_TimeZone = ui_TimeZone input,
            out_Currency = ui_Currency input, out_Active = boolDefaultTrue (ui_Active input),
            out_Meta = newRecordMetadata (sv_Now sv)\<rparr>
        in commit_mutation codec
          (newAuditEvent (sv_Random sv 0) metadata ''outlet.created'' ''outlet'' (out_ID value) (sv_Now sv))
          (Memory_CreateOutlet (sv_Context sv) value)
          (\<lambda>_. successResult codec 201 (OutletData value) (''/api/v1/outlets/'' @ out_ID value)) m)"

definition create_brand :: "core_codec \<Rightarrow> core_decoders \<Rightarrow> core_surroundings \<Rightarrow> memory_operation" where
  "create_brand codec dec sv metadata payload m =
    (case decodeAndValidate codec (dc_brand dec) brandInput_validate payload of
       Inl result \<Rightarrow> (result, m)
     | Inr input \<Rightarrow>
        let value = \<lparr>br_ID = bi_ID input, br_TenantID = mm_TenantID metadata, br_OrganizationID = bi_OrganizationID input,
            br_Name = TrimSpace (bi_Name input), br_Code = bi_Code input, br_Active = boolDefaultTrue (bi_Active input),
            br_Meta = newRecordMetadata (sv_Now sv)\<rparr>
        in commit_mutation codec
          (newAuditEvent (sv_Random sv 0) metadata ''brand.created'' ''brand'' (br_ID value) (sv_Now sv))
          (Memory_CreateBrand (sv_Context sv) value)
          (\<lambda>_. successResult codec 201 (BrandData value) (''/api/v1/brands/'' @ br_ID value)) m)"

definition create_station :: "core_codec \<Rightarrow> core_decoders \<Rightarrow> core_surroundings \<Rightarrow> memory_operation" where
  "create_station codec dec sv metadata payload m =
    (case decodeAndValidate codec (dc_station dec) stationInput_validate payload of
       Inl result \<Rightarrow> (result, m)
     | Inr input \<Rightarrow>
        if si_OutletID input \<noteq> mm_OutletID metadata then (outletScopeMismatch codec, m)
        else let value = \<lparr>st_ID = si_ID input, st_TenantID = mm_TenantID metadata, st_OutletID = si_OutletID input,
            st_Name = TrimSpace (si_Name input), st_Code = si_Code input, st_Type = si_Type input,
            st_Active = boolDefaultTrue (si_Active input), st_Meta = newRecordMetadata (sv_Now sv)\<rparr>
          in commit_mutation codec
            (newAuditEvent (sv_Random sv 0) metadata ''station.created'' ''station'' (st_ID value) (sv_Now sv))
            (Memory_CreateStation (sv_Context sv) value)
            (\<lambda>_. successResult codec 201 (StationData value) (''/api/v1/stations/'' @ st_ID value)) m)"

definition order_line_of :: "order_line_input \<Rightarrow> core_line" where
  "order_line_of line = \<lparr>cl_ID = li_ID line, cl_MenuItemID = li_MenuItemID line, cl_Name = TrimSpace (li_Name line),
     cl_Quantity = li_Quantity line, cl_UnitPrice = li_UnitPrice line, cl_LineTotal = li_LineTotal line,
     cl_PreparationNote = li_PreparationNote line\<rparr>"

definition order_of :: "core_surroundings \<Rightarrow> mutation_metadata \<Rightarrow> order_input \<Rightarrow> core_order" where
  "order_of sv metadata input = \<lparr>co_ID = or_ID input, co_TenantID = mm_TenantID metadata, co_OutletID = or_OutletID input,
     co_BrandID = or_BrandID input, co_ExternalRef = or_ExternalRef input, co_Type = or_Type input,
     co_Status = (if or_Status input = OtherCoreStatus [] then CoreReceived else or_Status input),
     co_Lines = map order_line_of (or_Lines input), co_Subtotal = or_Subtotal input, co_DiscountTotal = or_DiscountTotal input,
     co_TaxTotal = or_TaxTotal input, co_ServiceCharge = or_ServiceCharge input, co_Total = or_Total input,
     co_PlacedAt = or_PlacedAt input, co_Meta = newRecordMetadata (sv_Now sv)\<rparr>"

definition create_order :: "core_codec \<Rightarrow> core_decoders \<Rightarrow> core_surroundings \<Rightarrow> memory_operation" where
  "create_order codec dec sv metadata payload m =
    (case decodeAndValidate codec (dc_order dec) (orderInput_validate (sv_Iter sv)) payload of
       Inl result \<Rightarrow> (result, m)
     | Inr input \<Rightarrow>
        if or_OutletID input \<noteq> mm_OutletID metadata then (outletScopeMismatch codec, m)
        else let value = order_of sv metadata input
          in commit_mutation codec
            (newAuditEvent (sv_Random sv 0) metadata ''order.created'' ''order'' (co_ID value) (sv_Now sv))
            (Memory_CreateOrder (sv_Context sv) value)
            (\<lambda>_. successResult codec 201 (OrderData value) (''/api/v1/orders/'' @ co_ID value)) m)"

definition create_ticket :: "core_codec \<Rightarrow> core_decoders \<Rightarrow> core_surroundings \<Rightarrow> memory_operation" where
  "create_ticket codec dec sv metadata payload m =
    (case decodeAndValidate codec (dc_ticket dec) (ticketInput_validate (sv_Iter sv)) payload of
       Inl result \<Rightarrow> (result, m)
     | Inr input \<Rightarrow>
        if ti_OutletID input \<noteq> mm_OutletID metadata then (outletScopeMismatch codec, m)
        else let value = \<lparr>ct_ID = ti_ID input, ct_TenantID = mm_TenantID metadata, ct_OutletID = ti_OutletID input,
            ct_OrderID = ti_OrderID input, ct_StationID = ti_StationID input, ct_LineIDs = ti_LineIDs input,
            ct_Status = (if ti_Status input = OtherCoreTicket [] then CoreQueued else ti_Status input),
            ct_Priority = ti_Priority input, ct_TargetAt = ti_TargetAt input, ct_Meta = newRecordMetadata (sv_Now sv)\<rparr>
          in commit_mutation codec
            (newAuditEvent (sv_Random sv 0) metadata ''kitchen_ticket.created'' ''kitchen_ticket'' (ct_ID value) (sv_Now sv))
            (Memory_CreateKitchenTicket (sv_Context sv) value)
            (\<lambda>_. successResult codec 201 (TicketData value) (''/api/v1/kitchen-tickets/'' @ ct_ID value)) m)"

definition set_assignment :: "core_codec \<Rightarrow> core_decoders \<Rightarrow> core_surroundings \<Rightarrow> memory_operation" where
  "set_assignment codec dec sv metadata payload m =
    (case decodeAndValidate codec (dc_assignment dec) brandOutletAssignmentInput_validate payload of
       Inl result \<Rightarrow> (result, m)
     | Inr input \<Rightarrow>
        if ai_OutletID input \<noteq> mm_OutletID metadata then (outletScopeMismatch codec, m)
        else let value = \<lparr>ba_TenantID = mm_TenantID metadata, ba_BrandID = ai_BrandID input, ba_OutletID = ai_OutletID input,
            ba_Active = ai_Active input, ba_Meta = newRecordMetadata (sv_Now sv)\<rparr>
          in commit_mutation codec
            (newAuditEvent (sv_Random sv 0) metadata ''brand_outlet_assignment.saved'' ''brand_outlet_assignment''
              (ba_BrandID value) (sv_Now sv))
            (Memory_SetBrandOutletAssignment (sv_Context sv) value (ai_ExpectedVersion input))
            (\<lambda>saved. successResult codec (if ai_ExpectedVersion input = 0 then 201 else 200) (AssignmentData saved) []) m)"

definition transition_order :: "core_codec \<Rightarrow> core_decoders \<Rightarrow> core_surroundings \<Rightarrow> string \<Rightarrow> memory_operation" where
  "transition_order codec dec sv id' metadata payload m =
    (case decodeAndValidate codec (dc_order_transition dec) orderTransitionInput_validate payload of
       Inl result \<Rightarrow> (result, m)
     | Inr input \<Rightarrow>
        if mm_OutletID metadata = [] then (outletScopeMismatch codec, m)
        else commit_mutation codec
          (newAuditEvent (sv_Random sv 0) metadata ''order.status_changed'' ''order'' id' (sv_Now sv))
          (Memory_TransitionOrder (sv_Context sv) (mm_TenantID metadata) (mm_OutletID metadata) id'
            (ot_ToStatus input) (ot_ExpectedVersion input))
          (\<lambda>value. successResult codec 200 (OrderData value) []) m)"

definition transition_ticket :: "core_codec \<Rightarrow> core_decoders \<Rightarrow> core_surroundings \<Rightarrow> string \<Rightarrow> memory_operation" where
  "transition_ticket codec dec sv id' metadata payload m =
    (case decodeAndValidate codec (dc_ticket_transition dec) ticketTransitionInput_validate payload of
       Inl result \<Rightarrow> (result, m)
     | Inr input \<Rightarrow>
        if mm_OutletID metadata = [] then (outletScopeMismatch codec, m)
        else commit_mutation codec
          (newAuditEvent (sv_Random sv 0) metadata ''kitchen_ticket.status_changed'' ''kitchen_ticket'' id' (sv_Now sv))
          (Memory_TransitionKitchenTicket (sv_Context sv) (mm_TenantID metadata) (mm_OutletID metadata) id'
            (tt_ToStatus input) (tt_ExpectedVersion input))
          (\<lambda>value. successResult codec 200 (TicketData value) []) m)"

text \<open>The in-memory repository does not administer devices: after the checks the answer is 501.\<close>

definition register_device :: "core_codec \<Rightarrow> core_decoders \<Rightarrow> memory_operation" where
  "register_device codec dec metadata payload m =
    (case decodeAndValidate codec (dc_device dec) deviceInput_validate payload of
       Inl result \<Rightarrow> (result, m)
     | Inr input \<Rightarrow>
        if di_OutletID input \<noteq> mm_OutletID metadata then (outletScopeMismatch codec, m)
        else (errorResult codec (core_problem 501 ''device_registry_unavailable''
          ''durable device enrollment requires PostgreSQL''), m))"

definition revoke_device :: "core_codec \<Rightarrow> core_decoders \<Rightarrow> string \<Rightarrow> memory_operation" where
  "revoke_device codec dec deviceID metadata payload m =
    (case decodeAndValidate codec (dc_revocation dec) revokeDeviceInput_validate payload of
       Inl result \<Rightarrow> (result, m)
     | Inr reason \<Rightarrow>
        if \<not> ValidUUID deviceID
        then (errorResult codec (core_problem 422 ''invalid_device_id'' ''device id must be a UUID string''), m)
        else (errorResult codec (core_problem 501 ''device_registry_unavailable''
          ''durable device revocation requires PostgreSQL''), m))"

subsection \<open>Provisioning a tenant\<close>

definition station_plan :: "string \<Rightarrow> (string \<times> string \<times> station_type) list" where
  "station_plan template =
    (if template = ''central''
     then [(''Preparation'', ''PREP'', StationPreparation), (''Production'', ''COOK'', StationCooking), (''Dispatch'', ''PACK'', StationPacking)]
     else (if template = ''restaurant'' then [(''Beverages'', ''BAR'', StationBeverage)] else [])
       @ [(''Hot kitchen'', ''HOT'', StationCooking), (''Expo'', ''EXPO'', StationExpo), (''Packing'', ''PACK'', StationPacking)])"

fun plan_stations :: "(nat \<Rightarrow> 8 word list option) \<Rightarrow> nat \<Rightarrow> string \<Rightarrow> string \<Rightarrow> time
    \<Rightarrow> (string \<times> string \<times> station_type) list \<Rightarrow> station list option" where
  "plan_stations random index tenantID outletID now [] = Some []"
| "plan_stations random index tenantID outletID now ((name, code, kind) # plan) =
    (case newUUIDv7 (random index) now of
       None \<Rightarrow> None
     | Some id' \<Rightarrow> map_option ((#) \<lparr>st_ID = id', st_TenantID = tenantID, st_OutletID = outletID, st_Name = name, st_Code = code,
         st_Type = kind, st_Active = True, st_Meta = newRecordMetadata now\<rparr>)
         (plan_stations random (Suc index) tenantID outletID now plan))"

definition provisionStations ::
  "(nat \<Rightarrow> 8 word list option) \<Rightarrow> nat \<Rightarrow> string \<Rightarrow> string \<Rightarrow> string \<Rightarrow> time \<Rightarrow> station list option" where
  "provisionStations random index template tenantID outletID now =
    plan_stations random index tenantID outletID now (station_plan template)"

definition provision_tenant :: "core_codec \<Rightarrow> core_decoders \<Rightarrow> core_surroundings \<Rightarrow> principal option \<Rightarrow> memory_operation" where
  "provision_tenant codec dec sv who metadata payload m =
    (if \<not> (case who of None \<Rightarrow> False | Some p \<Rightarrow> IsPlatformAdmin p)
     then (errorResult codec (core_problem 403 ''platform_admin_required'' ''a FeastCloud platform administrator is required''), m)
     else case decodeAndValidate codec (dc_tenant dec) (tenantProvisionInput_validate (dc_location dec)) payload of
       Inl result \<Rightarrow> (result, m)
     | Inr input \<Rightarrow> (let now = sv_Now sv; meta = newRecordMetadata now; tenant = mm_TenantID metadata; outletID = mm_OutletID metadata in
        case newUUIDv7 (sv_Random sv 0) now of None \<Rightarrow> (internalOperationError codec, m) | Some brandID \<Rightarrow>
        (case provisionStations (sv_Random sv) 1 (tp_Template input) tenant outletID now of
           None \<Rightarrow> (internalOperationError codec, m)
         | Some stations \<Rightarrow>
            let org = \<lparr>org_ID = tenant, org_TenantID = tenant, org_Name = TrimSpace (tp_OrganizationName input),
                  org_LegalName = TrimSpace (tp_LegalName input), org_DefaultLocale = tp_DefaultLocale input,
                  org_DefaultCurrency = tp_DefaultCurrency input, org_Active = True, org_Meta = meta\<rparr>;
                outlet = \<lparr>out_ID = outletID, out_TenantID = tenant, out_OrganizationID = tenant,
                  out_Name = TrimSpace (tp_OutletName input), out_Code = TrimSpace (tp_OutletCode input),
                  out_TimeZone = tp_TimeZone input, out_Currency = tp_DefaultCurrency input, out_Active = True, out_Meta = meta\<rparr>;
                brand = \<lparr>br_ID = brandID, br_TenantID = tenant, br_OrganizationID = tenant,
                  br_Name = TrimSpace (tp_BrandName input), br_Code = TrimSpace (tp_BrandCode input), br_Active = True, br_Meta = meta\<rparr>;
                assignment = \<lparr>ba_TenantID = tenant, ba_BrandID = brandID, ba_OutletID = outletID, ba_Active = True, ba_Meta = meta\<rparr>
            in commit_mutation codec
              (newAuditEvent (sv_Random sv (1 + length stations)) metadata ''tenant.provisioned'' ''organization'' (org_ID org) now)
              (Memory_ProvisionTenant (sv_Context sv) org outlet brand assignment stations)
              (\<lambda>_. successResult codec 201 (ProvisionData org outlet brand stations (TrimSpace (tp_OwnerName input))
                 (TrimSpace (tp_OwnerEmail input))) (''/api/v1/organizations/'' @ org_ID org)) m)))"

subsection \<open>Queries\<close>

type_synonym query_handler = "core_codec \<Rightarrow> core_surroundings \<Rightarrow> principal option \<Rightarrow> core_request \<Rightarrow> memory_repository \<Rightarrow> core_response"

definition answer_query ::
  "core_surroundings \<Rightarrow> principal option \<Rightarrow> core_request \<Rightarrow> (string \<Rightarrow> core_failure + 'v) \<Rightarrow> ('v \<Rightarrow> core_response) \<Rightarrow> core_response" where
  "answer_query sv who request read respond =
    (case requireTenantID who request of
       Inl e \<Rightarrow> writeError (sv_RequestID sv) e
     | Inr tenantID \<Rightarrow> (case read tenantID of
         Inl failure \<Rightarrow> writeError (sv_RequestID sv) (read_error failure)
       | Inr value \<Rightarrow> respond value))"

text \<open>A filter of the query string applies when it is given.\<close>

definition wanted :: "core_request \<Rightarrow> string \<Rightarrow> string \<Rightarrow> bool" where
  "wanted request name value \<longleftrightarrow> cr_Query request name = [] \<or> value = cr_Query request name"

definition handleOrganizations :: query_handler where
  "handleOrganizations codec sv who request m = answer_query sv who request (\<lambda>t. Memory_Organizations (sv_Context sv) t m)
    (\<lambda>values'. writePaginated codec (sv_RequestID sv) request values' org_ID OrganizationData)"

definition handleOrganization :: "string \<Rightarrow> query_handler" where
  "handleOrganization id' codec sv who request m = answer_query sv who request (\<lambda>t. Memory_Organization (sv_Context sv) t id' m)
    (\<lambda>v. writeEntity (sv_RequestID sv) (rm_Version (org_Meta v)) (OrganizationData v))"

definition handleOutlets :: query_handler where
  "handleOutlets codec sv who request m = answer_query sv who request (\<lambda>t. Memory_Outlets (sv_Context sv) t m)
    (\<lambda>values'. writePaginated codec (sv_RequestID sv) request
      (filter (\<lambda>v. wanted request ''organizationId'' (out_OrganizationID v)) values') out_ID OutletData)"

definition handleOutlet :: "string \<Rightarrow> query_handler" where
  "handleOutlet id' codec sv who request m = answer_query sv who request (\<lambda>t. Memory_Outlet (sv_Context sv) t id' m)
    (\<lambda>v. writeEntity (sv_RequestID sv) (rm_Version (out_Meta v)) (OutletData v))"

definition handleBrands :: query_handler where
  "handleBrands codec sv who request m = answer_query sv who request (\<lambda>t. Memory_Brands (sv_Context sv) t m)
    (\<lambda>values'. writePaginated codec (sv_RequestID sv) request
      (filter (\<lambda>v. wanted request ''organizationId'' (br_OrganizationID v)) values') br_ID BrandData)"

definition handleBrand :: "string \<Rightarrow> query_handler" where
  "handleBrand id' codec sv who request m = answer_query sv who request (\<lambda>t. Memory_Brand (sv_Context sv) t id' m)
    (\<lambda>v. writeEntity (sv_RequestID sv) (rm_Version (br_Meta v)) (BrandData v))"

definition handleBrandOutletAssignments :: query_handler where
  "handleBrandOutletAssignments codec sv who request m = answer_query sv who request
    (\<lambda>t. Memory_BrandOutletAssignments (sv_Context sv) t m)
    (\<lambda>values'. writePaginated codec (sv_RequestID sv) request
      (filter (\<lambda>v. wanted request ''brandId'' (ba_BrandID v) \<and> wanted request ''outletId'' (ba_OutletID v)) values')
      (\<lambda>v. ba_BrandID v @ '':'' @ ba_OutletID v) AssignmentData)"

definition handleStations :: query_handler where
  "handleStations codec sv who request m = answer_query sv who request (\<lambda>t. Memory_Stations (sv_Context sv) t m)
    (\<lambda>values'. writePaginated codec (sv_RequestID sv) request
      (filter (\<lambda>v. wanted request ''outletId'' (st_OutletID v)) values') st_ID StationData)"

definition handleStation :: "string \<Rightarrow> query_handler" where
  "handleStation id' codec sv who request m = answer_query sv who request (\<lambda>t. Memory_Station (sv_Context sv) t id' m)
    (\<lambda>v. writeEntity (sv_RequestID sv) (rm_Version (st_Meta v)) (StationData v))"

text \<open>The in-memory repository has no pages of its own, so orders and tickets are read whole.\<close>

definition handleOrders :: query_handler where
  "handleOrders codec sv who request m = answer_query sv who request (\<lambda>t. Memory_Orders (sv_Context sv) t m)
    (\<lambda>values'. writePaginated codec (sv_RequestID sv) request
      (filter (\<lambda>v. wanted request ''outletId'' (co_OutletID v)) values') co_ID OrderData)"

definition handleOrder :: "string \<Rightarrow> query_handler" where
  "handleOrder id' codec sv who request m = answer_query sv who request (\<lambda>t. Memory_Order (sv_Context sv) t id' m)
    (\<lambda>v. writeEntity (sv_RequestID sv) (rm_Version (co_Meta v)) (OrderData v))"

definition handleKitchenTickets :: query_handler where
  "handleKitchenTickets codec sv who request m = answer_query sv who request (\<lambda>t. Memory_KitchenTickets (sv_Context sv) t m)
    (\<lambda>values'. writePaginated codec (sv_RequestID sv) request
      (filter (\<lambda>v. wanted request ''outletId'' (ct_OutletID v) \<and> wanted request ''orderId'' (ct_OrderID v)
         \<and> wanted request ''stationId'' (ct_StationID v)) values') ct_ID TicketData)"

definition handleKitchenTicket :: "string \<Rightarrow> query_handler" where
  "handleKitchenTicket id' codec sv who request m = answer_query sv who request (\<lambda>t. Memory_KitchenTicket (sv_Context sv) t id' m)
    (\<lambda>v. writeEntity (sv_RequestID sv) (rm_Version (ct_Meta v)) (TicketData v))"

definition handleAuditEvents :: query_handler where
  "handleAuditEvents codec sv who request m = answer_query sv who request
    (\<lambda>t. Memory_AuditEvents (sv_Context sv) \<lparr>af_TenantID = t, af_OutletID = cr_Query request ''outletId'',
       af_EntityType = cr_Query request ''entityType'', af_EntityID = cr_Query request ''entityId''\<rparr> m)
    (\<lambda>values'. writePaginated codec (sv_RequestID sv) request values' ae_ID AuditData)"

end
