(* ===== verification/Core_Routes.thy ===== *)
theory Core_Routes
  imports Core_Handlers
begin

text \<open>
  The routes of the core over the in-memory repository and \<open>ServeHTTP\<close> of
  \<open>services/core/internal/api/server.go\<close>: request identity, CORS, authentication, the route check and
  the dispatch to the handlers. A route of a component that is not modelled is handed to an
  argument, which sees the request, the principal and the state.
\<close>

subsection \<open>The routes\<close>

datatype core_route =
    Health | Readiness | Discovery
  | Organizations | CreateOrganization | Organization string
  | Outlets | CreateOutlet | Outlet string
  | Brands | CreateBrand | Brand string
  | Assignments | SetAssignment | ProvisionTenant
  | Stations | CreateStation | Station string
  | Orders | CreateOrder | Order string | TransitionOrder string
  | Tickets | CreateTicket | Ticket string | TransitionTicket string
  | AuditEvents | RegisterDevice | RevokeDevice string

definition core_reads :: "string \<Rightarrow> bool" where
  "core_reads verb \<longleftrightarrow> verb = ''GET'' \<or> verb = ''HEAD''"

definition resource_route :: "string \<Rightarrow> string \<Rightarrow> core_route option" where
  "resource_route verb name = map_of
    (if core_reads verb then [(''organizations'', Organizations), (''outlets'', Outlets), (''brands'', Brands),
       (''brand-outlet-assignments'', Assignments), (''stations'', Stations), (''orders'', Orders),
       (''kitchen-tickets'', Tickets), (''audit-events'', AuditEvents)]
     else if verb = ''POST'' then [(''organizations'', CreateOrganization), (''outlets'', CreateOutlet), (''brands'', CreateBrand),
       (''brand-outlet-assignments'', SetAssignment), (''stations'', CreateStation), (''orders'', CreateOrder),
       (''kitchen-tickets'', CreateTicket), (''devices'', RegisterDevice)]
     else []) name"

definition entity_route :: "string \<Rightarrow> string \<Rightarrow> string \<Rightarrow> core_route option" where
  "entity_route verb name id' =
    (if name = ''platform'' then (if verb = ''POST'' \<and> id' = ''tenants'' then Some ProvisionTenant else None)
     else if \<not> core_reads verb \<or> id' = [] then None
     else map_of [(''organizations'', Organization id'), (''outlets'', Outlet id'), (''brands'', Brand id'),
       (''stations'', Station id'), (''orders'', Order id'), (''kitchen-tickets'', Ticket id')] name)"

definition action_route :: "string \<Rightarrow> string \<Rightarrow> string \<Rightarrow> string \<Rightarrow> core_route option" where
  "action_route verb name id' action =
    (if verb \<noteq> ''POST'' \<or> id' = [] then None
     else if name = ''orders'' \<and> action = ''transitions'' then Some (TransitionOrder id')
     else if name = ''kitchen-tickets'' \<and> action = ''transitions'' then Some (TransitionTicket id')
     else if name = ''devices'' \<and> action = ''revoke'' then Some (RevokeDevice id')
     else None)"

definition core_match :: "string \<Rightarrow> string \<Rightarrow> core_route option" where
  "core_match verb path =
    (case split_on CHR ''/'' path of
       [r, a] \<Rightarrow> if r \<noteq> [] \<or> \<not> core_reads verb then None
         else if a = ''healthz'' then Some Health else if a = ''readyz'' then Some Readiness else None
     | r # a # v # rest \<Rightarrow>
        if r \<noteq> [] \<or> a \<noteq> ''api'' \<or> v \<noteq> ''v1'' then None
        else (case rest of
          [] \<Rightarrow> if core_reads verb then Some Discovery else None
        | [name] \<Rightarrow> resource_route verb name
        | [name, id'] \<Rightarrow> entity_route verb name id'
        | [name, id', action] \<Rightarrow> action_route verb name id' action
        | _ \<Rightarrow> None)
     | _ \<Rightarrow> None)"

subsection \<open>Dispatch\<close>

record server_config =
  sf_AuthMode :: string
  sf_AllowedOrigin :: string
  sf_UserAuthenticator :: "core_request \<Rightarrow> auth_error + principal"
  sf_DeviceAuthenticator :: "core_request \<Rightarrow> auth_error + principal"
  sf_Ready :: bool

definition plain_status :: "int \<Rightarrow> core_response" where
  "plain_status status = \<lparr>re_Status = status, re_Headers = [], re_Body = EmptyBody\<rparr>"

text \<open>A mutating route and its operation; the other routes only read.\<close>

fun route_operation ::
  "core_codec \<Rightarrow> core_decoders \<Rightarrow> core_surroundings \<Rightarrow> principal option \<Rightarrow> core_route \<Rightarrow> memory_operation option" where
  "route_operation codec dec sv who CreateOrganization = Some (create_organization codec dec sv)"
| "route_operation codec dec sv who CreateOutlet = Some (create_outlet codec dec sv)"
| "route_operation codec dec sv who CreateBrand = Some (create_brand codec dec sv)"
| "route_operation codec dec sv who SetAssignment = Some (set_assignment codec dec sv)"
| "route_operation codec dec sv who ProvisionTenant = Some (provision_tenant codec dec sv who)"
| "route_operation codec dec sv who CreateStation = Some (create_station codec dec sv)"
| "route_operation codec dec sv who CreateOrder = Some (create_order codec dec sv)"
| "route_operation codec dec sv who (TransitionOrder id') = Some (transition_order codec dec sv id')"
| "route_operation codec dec sv who CreateTicket = Some (create_ticket codec dec sv)"
| "route_operation codec dec sv who (TransitionTicket id') = Some (transition_ticket codec dec sv id')"
| "route_operation codec dec sv who RegisterDevice = Some (register_device codec dec)"
| "route_operation codec dec sv who (RevokeDevice id') = Some (revoke_device codec dec id')"
| "route_operation codec dec sv who _ = None"

fun route_query ::
  "server_config \<Rightarrow> core_codec \<Rightarrow> core_surroundings \<Rightarrow> principal option \<Rightarrow> core_request \<Rightarrow> core_route \<Rightarrow> memory_repository \<Rightarrow> core_response" where
  "route_query cfg codec sv who request Organizations m = handleOrganizations codec sv who request m"
| "route_query cfg codec sv who request (Organization id') m = handleOrganization id' codec sv who request m"
| "route_query cfg codec sv who request Outlets m = handleOutlets codec sv who request m"
| "route_query cfg codec sv who request (Outlet id') m = handleOutlet id' codec sv who request m"
| "route_query cfg codec sv who request Brands m = handleBrands codec sv who request m"
| "route_query cfg codec sv who request (Brand id') m = handleBrand id' codec sv who request m"
| "route_query cfg codec sv who request Assignments m = handleBrandOutletAssignments codec sv who request m"
| "route_query cfg codec sv who request Stations m = handleStations codec sv who request m"
| "route_query cfg codec sv who request (Station id') m = handleStation id' codec sv who request m"
| "route_query cfg codec sv who request Orders m = handleOrders codec sv who request m"
| "route_query cfg codec sv who request (Order id') m = handleOrder id' codec sv who request m"
| "route_query cfg codec sv who request Tickets m = handleKitchenTickets codec sv who request m"
| "route_query cfg codec sv who request (Ticket id') m = handleKitchenTicket id' codec sv who request m"
| "route_query cfg codec sv who request AuditEvents m = handleAuditEvents codec sv who request m"
| "route_query cfg codec sv who request Readiness m = plain_status (if sf_Ready cfg then 200 else 503)"
| "route_query cfg codec sv who request _ m = plain_status 200"

type_synonym 's state_handler = "core_surroundings \<Rightarrow> principal option \<Rightarrow> core_request \<Rightarrow> 's \<Rightarrow> core_response \<times> 's"

type_synonym core_handler = "(idem_store, memory_repository) core_state state_handler"

definition core_mux :: "server_config \<Rightarrow> core_codec \<Rightarrow> core_decoders \<Rightarrow> core_handler \<Rightarrow> core_handler" where
  "core_mux cfg codec dec other sv who request s =
    (case core_match (cr_Method request) (cr_Path request) of
       None \<Rightarrow> other sv who request s
     | Some route \<Rightarrow> (case route_operation codec dec sv who route of
         Some operation \<Rightarrow> executeMutation codec (memory_call sv) sv who request operation s
       | None \<Rightarrow> (route_query cfg codec sv who request route (ss_Repository s), s)))"

definition cleanRequestID :: "string \<Rightarrow> string" where
  "cleanRequestID value = (let value = TrimSpace value in
     if value = [] \<or> length value > 128 then []
     else if list_ex (\<lambda>c. (of_char c :: nat) < 33 \<or> (of_char c :: nat) > 126) value then []
     else value)"

text \<open>Either the request is answered already, or these headers go with the answer.\<close>

definition core_applyCORS :: "server_config \<Rightarrow> string \<Rightarrow> core_request \<Rightarrow> core_response + (string \<times> string) list" where
  "core_applyCORS cfg requestID request =
    (let origin = cr_Header request ''Origin'' in
     if origin = [] then Inr []
     else if origin \<noteq> sf_AllowedOrigin cfg
     then Inl (writeError requestID (core_problem 403 ''cors_origin_denied'' ''browser origin is not allowed''))
     else let headers = [(''Access-Control-Allow-Origin'', origin), (''Vary'', ''Origin''),
         (''Access-Control-Expose-Headers'', ''Location, Idempotency-Replayed, X-Request-ID'')]
       in if cr_Method request \<noteq> ''OPTIONS'' then Inr headers
       else Inl \<lparr>re_Status = 204, re_Headers = headers @ [(''Access-Control-Allow-Methods'', ''GET, POST, OPTIONS''),
         (''Access-Control-Allow-Headers'', ''Authorization, Content-Type, Idempotency-Key, X-Request-ID, X-FeastCloud-Tenant-ID, X-FeastCloud-Actor-ID, X-FeastCloud-Platform-Admin''),
         (''Access-Control-Max-Age'', ''600'')], re_Body = EmptyBody\<rparr>)"

definition with_headers :: "(string \<times> string) list \<Rightarrow> core_response \<times> 's \<Rightarrow> core_response \<times> 's" where
  "with_headers headers r = (fst r\<lparr>re_Headers := headers @ re_Headers (fst r)\<rparr>, snd r)"

text \<open>
  The routes of a component over its repository, with its mutations and queries; the calls of the
  idempotency store are an argument, and requests for other routes go to \<open>other\<close>.
\<close>

definition routed_mux ::
  "(string \<Rightarrow> string \<Rightarrow> 'route option) \<Rightarrow> (core_surroundings \<Rightarrow> 'route \<Rightarrow> 'r mutation_operation option)
    \<Rightarrow> ('route \<Rightarrow> core_surroundings \<Rightarrow> principal option \<Rightarrow> core_request \<Rightarrow> 'r \<Rightarrow> core_response)
    \<Rightarrow> core_codec \<Rightarrow> ('i, 'r) replay_call \<Rightarrow> ('i, 'r) core_state state_handler \<Rightarrow> ('i, 'r) core_state state_handler" where
  "routed_mux find_route mutation reading codec call other sv who request s =
    (case find_route (cr_Method request) (cr_Path request) of
       None \<Rightarrow> other sv who request s
     | Some route \<Rightarrow> (case mutation sv route of
         Some operation \<Rightarrow> executeMutation codec call sv who request operation s
       | None \<Rightarrow> (reading route sv who request (ss_Repository s), s)))"

text \<open>The handler around the routes, over any state.\<close>

definition serve_mux :: "server_config \<Rightarrow> 's state_handler \<Rightarrow> core_surroundings \<Rightarrow> core_request \<Rightarrow> 's \<Rightarrow> core_response \<times> 's" where
  "serve_mux cfg mux sv request s =
    (let cleaned = cleanRequestID (cr_Header request ''X-Request-ID'');
         sv = (if cleaned = [] then sv else sv\<lparr>sv_RequestID := cleaned\<rparr>)
     in case core_applyCORS cfg (sv_RequestID sv) request of
       Inl response \<Rightarrow> (response, s)
     | Inr headers \<Rightarrow> with_headers headers
        (if requiresDemoAuthentication (cr_Path request)
         then (case (if cr_Path request = ''/api/v1/sync/operations'' then sf_DeviceAuthenticator cfg else sf_UserAuthenticator cfg) request of
             Inl e \<Rightarrow> (writeError (sv_RequestID sv) (core_problem 401 ''authentication_required''
               ''a valid user token or enrolled device certificate is required''), s)
           | Inr p \<Rightarrow>
              if p_TenantID p = [] \<or> p_ActorID p = []
              then (writeError (sv_RequestID sv) (core_problem 401 ''authentication_required''
                ''a valid user token or enrolled device certificate is required''), s)
              else if \<not> routeAuthorized p request
              then (writeError (sv_RequestID sv) (core_problem 403 ''permission_denied''
                ''the authenticated role cannot perform this action''), s)
              else with_headers [(''X-FeastCloud-Auth-Mode'', sf_AuthMode cfg)] (mux sv (Some p) request s))
         else mux sv None request s))"

definition core_ServeHTTP ::
  "server_config \<Rightarrow> core_codec \<Rightarrow> core_decoders \<Rightarrow> core_handler \<Rightarrow> core_surroundings \<Rightarrow> core_request
    \<Rightarrow> (idem_store, memory_repository) core_state \<Rightarrow> core_response \<times> (idem_store, memory_repository) core_state" where
  "core_ServeHTTP cfg codec dec other = serve_mux cfg (core_mux cfg codec dec other)"

end
