(* ===== verification/Core_Replay.thy ===== *)
theory Core_Replay
  imports Core_Server
begin

text \<open>
  The interface \<open>idempotency.Store\<close> of \<open>services/core/internal/idempotency/memory.go\<close>, as the
  mutations of \<open>api/server.go\<close> rely on it: a call carries its operation out at most once, a replay does
  nothing, and after a call that was recorded a later one within the retention is a replay of it. Both
  stores are instances: the in-memory store here, the database in \<open>Core_Postgres_Idempotency\<close>.
\<close>

subsection \<open>What admission promises\<close>

lemma admit_envelope_scope:
  assumes "admit_envelope sv who request envelope = Inr (p, key, d)"
  shows "who = Some p \<and> mm_ActorID d = p_ActorID p \<and> (IsPlatformAdmin p \<or> mm_TenantID d = p_TenantID p)
    \<and> (IsPlatformAdmin p \<or> AllowsOutlet p (mm_OutletID d)) \<and> key = mm_IdempotencyKey d \<and> key \<noteq> []"
  using assms by (auto simp: admit_envelope_def Let_def split: if_splits option.splits)

lemma admit_mutation_scope:
  assumes "admit_mutation codec sv who request = Inr ad"
  shows "\<exists>p. who = Some p \<and> mm_ActorID (ad_Metadata ad) = p_ActorID p
    \<and> (IsPlatformAdmin p \<or> mm_TenantID (ad_Metadata ad) = p_TenantID p)
    \<and> (IsPlatformAdmin p \<or> AllowsOutlet p (mm_OutletID (ad_Metadata ad)))"
  using assms by (auto simp: admit_mutation_def rbind_Inr_iff dest!: admit_envelope_scope split: option.splits)

lemma Do_alone_cases [consumes 1, case_names kept executed]:
  assumes "Do_alone expiry entry scope fingerprint operation s = (answer, s')"
  obtains (kept) "ss_Repository s' = ss_Repository s"
    | (executed) a store result where "enter expiry entry scope fingerprint (ss_Idempotency s) = (Own a, store)"
      "operation (ss_Repository s) = (result, ss_Repository s')" "answer = Inr (result, False)"
      "ss_Idempotency s' = finish a result store"
  using assms by (auto simp: Do_alone_def split: prod.splits entered.splits option.splits)

lemma newAuditEvent_scope: "newAuditEvent random d action kind k now = Some a \<Longrightarrow>
    ae_ActorID a = mm_ActorID d \<and> ae_TenantID a = mm_TenantID d \<and> ae_OutletID a = mm_OutletID d \<and> ae_OperationID a = mm_ID d"
  by (auto simp: newAuditEvent_def split: option.splits)

text \<open>Admission reads only the order of the maps and the limit of the body from its surroundings.\<close>

lemma admit_body_cong: "sv_MaxBody sv = sv_MaxBody sv' \<Longrightarrow> admit_body codec sv request = admit_body codec sv' request"
  by (simp only: admit_body_def)

lemma admit_envelope_cong: "sv_Iter sv = sv_Iter sv' \<Longrightarrow> admit_envelope sv who request e = admit_envelope sv' who request e"
  by (simp only: admit_envelope_def)

lemma admit_mutation_cong: "sv_MaxBody sv = sv_MaxBody sv' \<Longrightarrow> sv_Iter sv = sv_Iter sv' \<Longrightarrow>
    admit_mutation codec sv who request = admit_mutation codec sv' who request"
  by (simp only: admit_mutation_def admit_body_cong [of sv sv'] admit_envelope_cong [of sv sv'])

subsection \<open>The interface\<close>

locale replay_store =
  fixes call :: "'e \<Rightarrow> ('i, 'r) replay_call"
    and sound :: "'e \<Rightarrow> ('i, 'r) core_state \<Rightarrow> bool"
    and retained :: "'e \<Rightarrow> 'e \<Rightarrow> ('i, 'r) core_state \<Rightarrow> bool"
  assumes at_most_once: "call e scope fingerprint operation s = (answer, s') \<Longrightarrow>
      ss_Repository s' = ss_Repository s \<or> (\<exists>result. operation (ss_Repository s) = (result, ss_Repository s'))"
    and executed: "call e scope fingerprint operation s = (Inr (result, False), s') \<Longrightarrow>
      operation (ss_Repository s) = (result, ss_Repository s')"
    and replayed: "call e scope fingerprint operation s = (Inr (result, False), s1) \<Longrightarrow> sound e s \<Longrightarrow> retained e e' s \<Longrightarrow>
      \<exists>s2. call e' scope fingerprint operation' s1 = (Inr (result, True), s2) \<and> ss_Repository s2 = ss_Repository s1"
begin

lemma executeMutation_effect:
  assumes "executeMutation codec (call e) sv who request operation s = (response, s')" "ss_Repository s' \<noteq> ss_Repository s"
  obtains ad p result where "admit_mutation codec sv who request = Inr ad" "who = Some p"
    "operation (ad_Metadata ad) (ad_Payload ad) (ss_Repository s) = (result, ss_Repository s')"
    "mm_ActorID (ad_Metadata ad) = p_ActorID p" "IsPlatformAdmin p \<or> mm_TenantID (ad_Metadata ad) = p_TenantID p"
    "IsPlatformAdmin p \<or> AllowsOutlet p (mm_OutletID (ad_Metadata ad))"
proof -
  obtain ad where ad: "admit_mutation codec sv who request = Inr ad"
    using assms by (cases "admit_mutation codec sv who request") (auto simp: executeMutation_def)
  then obtain answer where "call e (ad_Scope ad) (ad_Fingerprint ad) (operation (ad_Metadata ad) (ad_Payload ad)) s = (answer, s')"
    using assms(1) by (auto simp: executeMutation_def split: prod.splits)
  with at_most_once assms(2) obtain result where
    run: "operation (ad_Metadata ad) (ad_Payload ad) (ss_Repository s) = (result, ss_Repository s')" by metis
  from admit_mutation_scope [OF ad] obtain p where "who = Some p" "mm_ActorID (ad_Metadata ad) = p_ActorID p"
    "IsPlatformAdmin p \<or> mm_TenantID (ad_Metadata ad) = p_TenantID p"
    "IsPlatformAdmin p \<or> AllowsOutlet p (mm_OutletID (ad_Metadata ad))" by blast
  with that [OF ad] run show thesis by blast
qed

lemma repeated_mutation:
  assumes "admit_mutation codec sv who request = Inr ad" "admit_mutation codec sv' who' request' = Inr ad'"
    and "ad_Scope ad' = ad_Scope ad" "ad_Fingerprint ad' = ad_Fingerprint ad"
    and first: "call e (ad_Scope ad) (ad_Fingerprint ad) (operation (ad_Metadata ad) (ad_Payload ad)) s = (Inr (result, False), s1)"
    and "sound e s" "retained e e' s"
  shows "\<exists>s2. executeMutation codec (call e') sv' who' request' operation' s1
      = (mutation_response codec (sv_RequestID sv') (Inr (result, True)), s2) \<and> ss_Repository s2 = ss_Repository s1"
  using replayed [OF first assms(6,7), of "operation' (ad_Metadata ad') (ad_Payload ad')"] assms(2-4)
  by (auto simp: executeMutation_def)

end

subsection \<open>The in-memory store\<close>

lemma own_then_replay:
  assumes "store_ok clock store" "clock \<le> expiry" "expiry \<le> entry"
    and own: "enter expiry entry scope fingerprint store = (Own a, store1)"
    and late: "expiry' - im_ttl store \<le> entry"
  shows "\<exists>store2. enter expiry' entry' scope fingerprint (finish a result store1) = (WaitFor a, store2)
    \<and> ie_result (im_heap store2 ! a) = Some result"
proof -
  have a: "a = length (im_heap store)"
    and store1: "store1 = allocate entry (identity scope) fingerprint (removeExpired expiry store)"
    and fresh: "map_of (im_entries (removeExpired expiry store)) (identity scope) = None"
    using own by (auto elim: enter_cases)
  have ok: "store_ok entry store1"
    unfolding store1 using removeExpired_ok [OF assms(1-3)] fresh by (rule allocate_ok)
  have address: "a \<in> addresses store1" and at: "entry_at store1 a = new_entry entry (identity scope) fingerprint"
    and hit: "map_of (im_entries store1) (identity scope) = Some a" and ttl: "im_ttl store1 = im_ttl store"
    unfolding store1 a by (simp_all add: allocate_def update_conv' nth_append)
  have ok': "store_ok entry (finish a result store1)"
    using ok address at hit by (intro finish_ok) (simp_all add: new_entry_def)
  have at': "entry_at (finish a result store1) a = (new_entry entry (identity scope) fingerprint)\<lparr>ie_result := Some result, ie_done := True\<rparr>"
    using address at by (simp add: entry_at_finish)
  have kept: "map_of (im_entries (removeExpired expiry' (finish a result store1))) (identity scope) = Some a"
    using late hit unfolding map_of_removeExpired [OF ok'] by (simp add: at' new_entry_def ttl)
  show ?thesis
    using kept at' by (simp add: enter_def Let_def new_entry_def)
qed

definition memory_sound :: "core_surroundings \<Rightarrow> (idem_store, 'r) core_state \<Rightarrow> bool" where
  "memory_sound sv s \<longleftrightarrow> (\<exists>clock. store_ok clock (ss_Idempotency s) \<and> clock \<le> sv_Expiry sv \<and> sv_Expiry sv \<le> sv_Entry sv)"

definition memory_retained :: "core_surroundings \<Rightarrow> core_surroundings \<Rightarrow> (idem_store, 'r) core_state \<Rightarrow> bool" where
  "memory_retained sv sv' s \<longleftrightarrow> sv_Expiry sv' - im_ttl (ss_Idempotency s) \<le> sv_Entry sv"

interpretation in_memory: replay_store memory_call memory_sound memory_retained
proof
  fix sv scope fingerprint and operation :: "'r \<Rightarrow> idem_result \<times> 'r" and s answer s'
  assume "memory_call sv scope fingerprint operation s = (answer, s')"
  then show "ss_Repository s' = ss_Repository s \<or> (\<exists>result. operation (ss_Repository s) = (result, ss_Repository s'))"
    unfolding memory_call_def by (cases rule: Do_alone_cases) auto
next
  fix sv scope fingerprint and operation :: "'r \<Rightarrow> idem_result \<times> 'r" and s result s'
  assume "memory_call sv scope fingerprint operation s = (Inr (result, False), s')"
  then show "operation (ss_Repository s) = (result, ss_Repository s')"
    unfolding memory_call_def by (auto simp: Do_alone_def split: prod.splits entered.splits option.splits)
next
  fix sv scope fingerprint and operation :: "'r \<Rightarrow> idem_result \<times> 'r" and s result s1 sv' and operation' :: "'r \<Rightarrow> idem_result \<times> 'r"
  assume "memory_call sv scope fingerprint operation s = (Inr (result, False), s1)" "memory_sound sv s" "memory_retained sv sv' s"
  then obtain a store clock where own: "enter (sv_Expiry sv) (sv_Entry sv) scope fingerprint (ss_Idempotency s) = (Own a, store)"
    and s1: "ss_Idempotency s1 = finish a result store" and ok: "store_ok clock (ss_Idempotency s)" "clock \<le> sv_Expiry sv" "sv_Expiry sv \<le> sv_Entry sv"
    and late: "sv_Expiry sv' - im_ttl (ss_Idempotency s) \<le> sv_Entry sv"
    by (auto simp: memory_call_def memory_sound_def memory_retained_def Do_alone_def split: prod.splits entered.splits option.splits)
  from own_then_replay [OF ok own late, of "sv_Entry sv'" result] obtain store2 where
    "enter (sv_Expiry sv') (sv_Entry sv') scope fingerprint (ss_Idempotency s1) = (WaitFor a, store2)"
    "ie_result (im_heap store2 ! a) = Some result" unfolding s1 by blast
  then show "\<exists>s2. memory_call sv' scope fingerprint operation' s1 = (Inr (result, True), s2) \<and> ss_Repository s2 = ss_Repository s1"
    by (intro exI [of _ "s1\<lparr>ss_Idempotency := store2\<rparr>"]) (simp add: memory_call_def Do_alone_def)
qed

end
