(* ===== verification/Core_Server_Properties.thy ===== *)
theory Core_Server_Properties
  imports Core_Routes Core_Replay
begin

text \<open>
  What the API of the core promises: the repository changes only through audited commands within the
  scope of an authenticated principal, a repeated mutation is not carried out again, and the pages of a
  listing add up to the listing.
\<close>

subsection \<open>The effect of an operation\<close>

text \<open>An operation leaves the repository or carries out one command under the audit event of its envelope.\<close>

definition audited_effect ::
  "core_surroundings \<Rightarrow> mutation_metadata \<Rightarrow> memory_repository \<Rightarrow> memory_repository \<Rightarrow> bool" where
  "audited_effect sv metadata m m' \<longleftrightarrow> m' = m
     \<or> (\<exists>a c i action kind k. newAuditEvent (sv_Random sv i) metadata action kind k (sv_Now sv) = Some a
          \<and> run_memory (sv_Context sv) a c m = (Inr (), m'))"

lemma audited_effect_refl [simp]: "audited_effect sv metadata m m"
  by (simp add: audited_effect_def)

lemma commit_effect:
  assumes "commit_mutation codec (newAuditEvent (sv_Random sv i) metadata action kind k (sv_Now sv)) store answer m = (result, m')"
    and "\<And>a. outcome (store a m) = run_memory (sv_Context sv) a c m"
  shows "audited_effect sv metadata m m'"
proof (cases "newAuditEvent (sv_Random sv i) metadata action kind k (sv_Now sv)")
  case None
  with assms(1) show ?thesis by (simp add: commit_mutation_def)
next
  case (Some a)
  obtain r m1 where store: "store a m = (r, m1)" by fastforce
  with assms(2) [of a] have run: "run_memory (sv_Context sv) a c m = (map_sum id (\<lambda>_. ()) r, m1)" by (simp add: outcome_def)
  show ?thesis
  proof (cases r)
    case (Inl e)
    with run run_memory_failure [of "sv_Context sv" a c m e m1] have "m1 = m" by simp
    with assms(1) Some store Inl show ?thesis by (simp add: commit_mutation_def)
  next
    case (Inr v)
    with assms(1) Some store have "m1 = m'" by (simp add: commit_mutation_def)
    with run Inr have "run_memory (sv_Context sv) a c m = (Inr (), m')" by simp
    with Some show ?thesis unfolding audited_effect_def by blast
  qed
qed

lemmas operation_defs = create_organization_def create_outlet_def create_brand_def create_station_def create_order_def
  create_ticket_def set_assignment_def transition_order_def transition_ticket_def register_device_def revoke_device_def

lemma create_organization_effect: "create_organization codec dec sv d p m = (r, m') \<Longrightarrow> audited_effect sv d m m'"
  unfolding create_organization_def Let_def
  by (auto split: sum.splits if_splits intro: commit_effect [where c = "AddOrganization v" for v])

lemma create_outlet_effect: "create_outlet codec dec sv d p m = (r, m') \<Longrightarrow> audited_effect sv d m m'"
  unfolding create_outlet_def Let_def
  by (auto split: sum.splits if_splits intro: commit_effect [where c = "AddOutlet v" for v])

lemma create_brand_effect: "create_brand codec dec sv d p m = (r, m') \<Longrightarrow> audited_effect sv d m m'"
  unfolding create_brand_def Let_def
  by (auto split: sum.splits if_splits intro: commit_effect [where c = "AddBrand v" for v])

lemma create_station_effect: "create_station codec dec sv d p m = (r, m') \<Longrightarrow> audited_effect sv d m m'"
  unfolding create_station_def Let_def
  by (auto split: sum.splits if_splits intro: commit_effect [where c = "AddStation v" for v])

lemma create_order_effect: "create_order codec dec sv d p m = (r, m') \<Longrightarrow> audited_effect sv d m m'"
  unfolding create_order_def Let_def
  by (auto split: sum.splits if_splits intro: commit_effect [where c = "AddOrder v" for v])

lemma create_ticket_effect: "create_ticket codec dec sv d p m = (r, m') \<Longrightarrow> audited_effect sv d m m'"
  unfolding create_ticket_def Let_def
  by (auto split: sum.splits if_splits intro: commit_effect [where c = "AddTicket v" for v])

lemma set_assignment_effect: "set_assignment codec dec sv d p m = (r, m') \<Longrightarrow> audited_effect sv d m m'"
  unfolding set_assignment_def Let_def
  by (auto split: sum.splits if_splits intro: commit_effect [where c = "AssignBrand v e" for v e])

lemma transition_order_effect: "transition_order codec dec sv k d p m = (r, m') \<Longrightarrow> audited_effect sv d m m'"
  unfolding transition_order_def Let_def
  by (auto split: sum.splits if_splits intro: commit_effect [where c = "PushOrder t u k' s e" for t u k' s e])

lemma transition_ticket_effect: "transition_ticket codec dec sv k d p m = (r, m') \<Longrightarrow> audited_effect sv d m m'"
  unfolding transition_ticket_def Let_def
  by (auto split: sum.splits if_splits intro: commit_effect [where c = "PushTicket t u k' s e" for t u k' s e])

lemma provision_tenant_effect: "provision_tenant codec dec sv who d p m = (r, m') \<Longrightarrow> audited_effect sv d m m'"
  unfolding provision_tenant_def Let_def
  by (auto split: sum.splits if_splits option.splits intro: commit_effect [where c = "AddTenant o' u b a s" for o' u b a s])

lemma device_effects: "register_device codec dec d p m = (r, m') \<Longrightarrow> m' = m" "revoke_device codec dec k d p m = (r, m') \<Longrightarrow> m' = m"
  by (auto simp: register_device_def revoke_device_def split: sum.splits if_splits)

lemmas operation_effects = create_organization_effect create_outlet_effect create_brand_effect create_station_effect
  create_order_effect create_ticket_effect set_assignment_effect transition_order_effect transition_ticket_effect
  provision_tenant_effect

lemma route_operation_effect:
  assumes "route_operation codec dec sv who route = Some operation" "operation d p m = (r, m')"
  shows "audited_effect sv d m m'"
  using assms by (cases route) (auto dest: operation_effects device_effects)

subsection \<open>What admission promises\<close>

lemma sync_route_other: "core_match verb ''/api/v1/sync/operations'' = None"
  by (simp add: core_match_def entity_route_def)

text \<open>A route that needs no authentication carries out no operation.\<close>

lemma snd_with_headers [simp]: "snd (with_headers headers r) = snd r"
  by (simp add: with_headers_def)

lemma admit_nobody: "admit_mutation codec sv None request \<noteq> Inr ad"
  using admit_mutation_scope [of codec sv None request ad] by auto

lemma core_mux_effect:
  assumes "core_match (cr_Method request) (cr_Path request) = Some route"
    and "core_mux cfg codec dec other sv who request s = (response, s')" "ss_Repository s' \<noteq> ss_Repository s"
  obtains p a c where "who = Some p" "run_memory (sv_Context sv) a c (ss_Repository s) = (Inr (), ss_Repository s')"
    "ae_ActorID a = p_ActorID p" "IsPlatformAdmin p \<or> ae_TenantID a = p_TenantID p"
    "IsPlatformAdmin p \<or> AllowsOutlet p (ae_OutletID a)"
proof -
  from assms obtain operation where op: "route_operation codec dec sv who route = Some operation"
    and run: "executeMutation codec (memory_call sv) sv who request operation s = (response, s')"
    by (auto simp: core_mux_def split: option.splits)
  from run assms(3) show thesis
  proof (rule in_memory.executeMutation_effect)
    fix ad p result
    assume p: "who = Some p" "operation (ad_Metadata ad) (ad_Payload ad) (ss_Repository s) = (result, ss_Repository s')"
      "mm_ActorID (ad_Metadata ad) = p_ActorID p" "IsPlatformAdmin p \<or> mm_TenantID (ad_Metadata ad) = p_TenantID p"
      "IsPlatformAdmin p \<or> AllowsOutlet p (mm_OutletID (ad_Metadata ad))"
    from route_operation_effect [OF op p(2)] assms(3) obtain a c i action kind k where
      a: "newAuditEvent (sv_Random sv i) (ad_Metadata ad) action kind k (sv_Now sv) = Some a"
      and "run_memory (sv_Context sv) a c (ss_Repository s) = (Inr (), ss_Repository s')"
      unfolding audited_effect_def by blast
    with newAuditEvent_scope [OF a] p show thesis by (intro that [of p a c]) simp_all
  qed
qed

subsection \<open>Repeated mutations\<close>

text \<open>A small server: an organization is created over HTTP.\<close>

definition api_metadata :: mutation_metadata where
  "api_metadata = \<lparr>mm_ID = sample_uuid, mm_TenantID = sample_uuid, mm_OutletID = ''*'', mm_DeviceID = ''d'',
     mm_ActorID = ''manager-1'', mm_OccurredAt = 1, mm_Source = ''web'', mm_SourceID = [], mm_SchemaVersion = ''1.0'',
     mm_IdempotencyKey = ''key-00001'', mm_CorrelationID = [], mm_CausationID = []\<rparr>"

definition api_codec :: core_codec where
  "api_codec = \<lparr>cc_media_type = Some, cc_envelope = (\<lambda>body. Inr \<lparr>en_Metadata = api_metadata, en_Payload = body\<rparr>),
     cc_canonical = Some, cc_sha256 = (\<lambda>t. replicate 32 0), cc_marshal = (\<lambda>v. ''{}''), cc_unmarshal = (\<lambda>t. None),
     cc_base64_encode = (\<lambda>t. t), cc_base64_decode = Some\<rparr>"

definition api_decoders :: core_decoders where
  "api_decoders = \<lparr>dc_organization = (\<lambda>t. Inr \<lparr>oi_ID = sample_uuid, oi_Name = ''Cafe'', oi_LegalName = [],
       oi_DefaultLocale = ''en'', oi_DefaultCurrency = ''INR'', oi_Active = None\<rparr>),
     dc_outlet = Inl, dc_brand = Inl, dc_assignment = Inl, dc_station = Inl, dc_order = Inl, dc_ticket = Inl,
     dc_order_transition = Inl, dc_ticket_transition = Inl, dc_tenant = Inl, dc_device = Inl, dc_revocation = Inl,
     dc_location = (\<lambda>t. True)\<rparr>"

definition api_request :: core_request where
  "api_request = \<lparr>cr_Method = ''POST'', cr_Path = ''/api/v1/organizations'',
     cr_Header = (\<lambda>name. if name = ''Content-Type'' then ''application/json'' else if name = ''Idempotency-Key'' then ''key-00001''
       else if name = ''X-FeastCloud-Tenant-ID'' then sample_uuid else if name = ''X-FeastCloud-Actor-ID'' then ''manager-1'' else []),
     cr_Query = (\<lambda>name. []), cr_Body = Some ''{}'', cr_PeerCertificate = None\<rparr>"

definition api_surroundings :: "time \<Rightarrow> core_surroundings" where
  "api_surroundings now = \<lparr>sv_Iter = (\<lambda>n. [0..<n]), sv_MaxBody = 100, sv_RequestID = ''r'', sv_Expiry = now, sv_Entry = now,
     sv_Now = now, sv_Random = (\<lambda>i. Some (replicate 16 0)), sv_Context = None\<rparr>"

definition api_config :: server_config where
  "api_config = \<lparr>sf_AuthMode = ''demo'', sf_AllowedOrigin = ''http://localhost:5173'', sf_UserAuthenticator = DemoAuthenticate,
     sf_DeviceAuthenticator = DemoAuthenticate, sf_Ready = True\<rparr>"

definition api_state :: "(idem_store, memory_repository) core_state" where
  "api_state = \<lparr>ss_Idempotency = NewMemoryStore 100, ss_Repository = NewMemoryRepository\<rparr>"

definition api_principal :: principal where
  "api_principal = \<lparr>p_TenantID = sample_uuid, p_ActorID = ''manager-1'', p_Roles = [''manager''], p_OutletIDs = [''*''],
     p_Kind = ''user'', p_DeviceID = []\<rparr>"

definition api_other :: core_handler where
  "api_other sv who request s = (plain_status 404, s)"

definition api_operation :: "time \<Rightarrow> memory_operation" where
  "api_operation now = create_organization api_codec api_decoders (api_surroundings now)"

lemma api_admitted: "\<not> isl (admit_mutation api_codec (api_surroundings 5) (Some api_principal) api_request)"
  by code_simp

lemma api_executed: "mr_audits (ss_Repository (snd (executeMutation api_codec (memory_call (api_surroundings 5)) (api_surroundings 5) (Some api_principal) api_request
    (api_operation 5) api_state))) \<noteq> mr_audits (ss_Repository api_state)"
  by code_simp

lemma api_served: "mr_audits (ss_Repository (snd (core_ServeHTTP api_config api_codec api_decoders api_other (api_surroundings 5)
    api_request api_state))) \<noteq> mr_audits (ss_Repository api_state)"
  by code_simp

text \<open>
  C30: a mutation that the API carried out is not carried out again when the request is repeated within
  the retention: the repetition, whatever happened to its own clock and identifiers, leaves the
  repository as it is and answers with the stored result, marked as a replay.
\<close>

theorem repeated_mutation_is_replayed:
  assumes "executeMutation codec (memory_call sv) sv who request operation s = (response, s1)" "ss_Repository s1 \<noteq> ss_Repository s"
    and "admit_mutation codec sv who request = Inr ad" "admit_mutation codec sv' who' request' = Inr ad'"
    and "ad_Scope ad' = ad_Scope ad" "ad_Fingerprint ad' = ad_Fingerprint ad"
    and "store_ok clock (ss_Idempotency s)" "clock \<le> sv_Expiry sv" "sv_Expiry sv \<le> sv_Entry sv"
    and "sv_Expiry sv' - im_ttl (ss_Idempotency s) \<le> sv_Entry sv"
  shows "\<exists>result s2. operation (ad_Metadata ad) (ad_Payload ad) (ss_Repository s) = (result, ss_Repository s1)
    \<and> response = mutation_response codec (sv_RequestID sv) (Inr (result, False))
    \<and> executeMutation codec (memory_call sv') sv' who' request' operation' s1
        = (mutation_response codec (sv_RequestID sv') (Inr (result, True)), s2)
    \<and> ss_Repository s2 = ss_Repository s1"
proof -
  obtain answer where call: "memory_call sv (ad_Scope ad) (ad_Fingerprint ad) (operation (ad_Metadata ad) (ad_Payload ad)) s = (answer, s1)"
    and response: "response = mutation_response codec (sv_RequestID sv) answer"
    using assms(1,3) by (auto simp: executeMutation_def split: prod.splits)
  have "\<exists>result. answer = Inr (result, False)"
    using call [unfolded memory_call_def] by (cases rule: Do_alone_cases) (use assms(2) in auto)
  then obtain result where first: "memory_call sv (ad_Scope ad) (ad_Fingerprint ad) (operation (ad_Metadata ad) (ad_Payload ad)) s
      = (Inr (result, False), s1)" and answer: "answer = Inr (result, False)" using call by blast
  have "memory_sound sv s" "memory_retained sv sv' s"
    using assms(7-10) by (auto simp: memory_sound_def memory_retained_def)
  from in_memory.repeated_mutation [where operation = operation, OF assms(3-6) first this] in_memory.executed [OF first] response answer
  show ?thesis by blast
qed

lemma repeated_mutation_is_replayed_witness:
  "\<exists>s1 s2. s1 = snd (executeMutation api_codec (memory_call (api_surroundings 5)) (api_surroundings 5) (Some api_principal) api_request (api_operation 5) api_state)
    \<and> s2 = snd (executeMutation api_codec (memory_call (api_surroundings 7)) (api_surroundings 7) (Some api_principal) api_request (api_operation 7) s1)
    \<and> ss_Repository s2 = ss_Repository s1"
proof -
  obtain ad where ad: "admit_mutation api_codec (api_surroundings 5) (Some api_principal) api_request = Inr ad"
    using api_admitted by (cases "admit_mutation api_codec (api_surroundings 5) (Some api_principal) api_request") auto
  have ad': "admit_mutation api_codec (api_surroundings 7) (Some api_principal) api_request = Inr ad"
    using ad admit_mutation_cong [of "api_surroundings 7" "api_surroundings 5" api_codec "Some api_principal" api_request]
    by (simp add: api_surroundings_def)
  obtain response s1 where first: "executeMutation api_codec (memory_call (api_surroundings 5)) (api_surroundings 5) (Some api_principal) api_request
      (api_operation 5) api_state = (response, s1)" by fastforce
  with api_executed have changed: "ss_Repository s1 \<noteq> ss_Repository api_state" by auto
  have "store_ok 0 (ss_Idempotency api_state)"
    by (simp add: store_ok_def api_state_def NewMemoryStore_def)
  from repeated_mutation_is_replayed [OF first changed ad ad' refl refl this, of "api_operation 7"] obtain s2 where
    "snd (executeMutation api_codec (memory_call (api_surroundings 7)) (api_surroundings 7) (Some api_principal) api_request (api_operation 7) s1) = s2"
    "ss_Repository s2 = ss_Repository s1"
    by (auto simp: api_surroundings_def api_state_def NewMemoryStore_def)
  with first show ?thesis by auto
qed

text \<open>
  C31: the API changes the repository only within the scope of the caller. When a request to one of the
  modelled routes changes the repository, the user authenticator accepted it for a principal whose
  role may use the route, and the change is one command of the repository under an audit event that
  names this principal as its actor, its tenant as the tenant and an outlet it may use; only a
  platform administrator acts for other tenants and outlets.
\<close>

theorem api_changes_stay_in_scope:
  assumes "core_ServeHTTP cfg codec dec other sv request s = (response, s')" "ss_Repository s' \<noteq> ss_Repository s"
    and "core_match (cr_Method request) (cr_Path request) = Some route"
  shows "\<exists>p a c. sf_UserAuthenticator cfg request = Inr p \<and> routeAuthorized p request
    \<and> run_memory (sv_Context sv) a c (ss_Repository s) = (Inr (), ss_Repository s')
    \<and> ae_ActorID a = p_ActorID p \<and> (IsPlatformAdmin p \<or> ae_TenantID a = p_TenantID p)
    \<and> (IsPlatformAdmin p \<or> AllowsOutlet p (ae_OutletID a))"
proof -
  define sv1 where "sv1 = (let cleaned = cleanRequestID (cr_Header request ''X-Request-ID'')
     in if cleaned = [] then sv else sv\<lparr>sv_RequestID := cleaned\<rparr>)"
  have context_same: "sv_Context sv1 = sv_Context sv" by (simp add: sv1_def Let_def)
  have path: "cr_Path request \<noteq> ''/api/v1/sync/operations''" using assms(3) sync_route_other by auto
  show ?thesis
  proof (cases "requiresDemoAuthentication (cr_Path request)")
    case True
    with assms(1,2) path obtain p headers where p: "sf_UserAuthenticator cfg request = Inr p" "routeAuthorized p request"
      and s': "s' = snd (core_mux cfg codec dec other sv1 (Some p) request s)"
      unfolding core_ServeHTTP_def serve_mux_def Let_def sv1_def [unfolded Let_def, symmetric]
      by (auto simp: with_headers_def split: sum.splits if_splits)
    show ?thesis
      using core_mux_effect [OF assms(3) _ assms(2)[unfolded s'], of cfg codec dec other sv1 "Some p"] p s' context_same
      by (metis option.inject prod.collapse)
  next
    case False
    with assms(1,2) have s': "s' = snd (core_mux cfg codec dec other sv1 None request s)"
      unfolding core_ServeHTTP_def serve_mux_def Let_def sv1_def [unfolded Let_def, symmetric]
      by (auto simp: with_headers_def split: sum.splits)
    show ?thesis
      using core_mux_effect [OF assms(3) _ assms(2)[unfolded s'], of cfg codec dec other sv1 None] by (metis option.distinct(1) prod.collapse)
  qed
qed

lemma api_changes_stay_in_scope_witness:
  "\<exists>p. sf_UserAuthenticator api_config api_request = Inr p \<and> routeAuthorized p api_request"
proof -
  obtain response s' where served: "core_ServeHTTP api_config api_codec api_decoders api_other (api_surroundings 5) api_request
      api_state = (response, s')" by fastforce
  with api_served have changed: "ss_Repository s' \<noteq> ss_Repository api_state" by auto
  have "core_match (cr_Method api_request) (cr_Path api_request) = Some CreateOrganization"
    by (simp add: api_request_def core_match_def resource_route_def core_reads_def)
  from api_changes_stay_in_scope [OF served changed this] show ?thesis by blast
qed

end
