(* ===== verification/Core_Pages.thy ===== *)
theory Core_Pages
  imports Core_Server
begin

text \<open>
  Walking through a listing of the core page by page: \<open>writePaginated\<close> of
  \<open>services/core/internal/api/handlers.go\<close>. A client starts without a cursor and follows the cursor of
  each page until a page has none.
\<close>

definition with_cursor :: "core_request \<Rightarrow> string \<Rightarrow> core_request" where
  "with_cursor request cursor = request\<lparr>cr_Query := (cr_Query request)(''cursor'' := cursor)\<rparr>"

fun walk_pages :: "nat \<Rightarrow> core_codec \<Rightarrow> core_request \<Rightarrow> 'v list \<Rightarrow> ('v \<Rightarrow> string) \<Rightarrow> string \<Rightarrow> 'v list list option" where
  "walk_pages 0 codec request values' identifier cursor = None"
| "walk_pages (Suc fuel) codec request values' identifier cursor =
    (case page_of codec (with_cursor request cursor) values' identifier of
       Inl e \<Rightarrow> None
     | Inr (page, limit, nextCursor) \<Rightarrow>
        if nextCursor = [] then Some [page]
        else map_option ((#) page) (walk_pages fuel codec request values' identifier nextCursor))"

lemma page_limit_with_cursor [simp]: "page_limit (with_cursor request cursor) = page_limit request"
  by (simp add: page_limit_def with_cursor_def)

lemma page_limit_bounds: "page_limit request = Inr limit \<Longrightarrow> 1 \<le> limit \<and> limit \<le> 200"
  by (auto simp: page_limit_def Let_def nat_le_iff split: if_splits option.splits)

lemma position_after_nth:
  assumes "distinct xs" "i < length xs"
  shows "position_after (\<lambda>x. x = xs ! i) n xs = Some (n + i + 1)"
  using assms
proof (induction xs arbitrary: i n)
  case (Cons x xs)
  then show ?case by (cases i) (auto simp: nth_eq_iff_index_eq)
qed simp

text \<open>A cursor of the value at position \<open>i\<close> continues behind it.\<close>

lemma TrimPrefix_cursor: "HasPrefix (''v1:'' @ x) ''v1:''" "TrimPrefix (''v1:'' @ x) ''v1:'' = x"
  by (simp_all add: HasPrefix_def TrimPrefix_def)

lemma page_start_cursor:
  assumes "\<And>t. cc_base64_decode codec (cc_base64_encode codec t) = Some t"
    and "cc_base64_encode codec (''v1:'' @ ids ! i) \<noteq> []" "distinct ids" "i < length ids"
  shows "page_start codec (with_cursor request (cc_base64_encode codec (''v1:'' @ ids ! i))) ids = Inr (Suc i)"
  using assms position_after_nth [OF assms(3,4), of 0]
  by (simp add: page_start_def Let_def with_cursor_def TrimPrefix_cursor [simplified])

lemma walk_from:
  assumes codec: "\<And>t. cc_base64_decode codec (cc_base64_encode codec t) = Some t"
      "\<And>t. t \<noteq> [] \<Longrightarrow> cc_base64_encode codec t \<noteq> []"
    and "distinct (map identifier values')" "page_limit request = Inr limit"
    and start: "page_start codec (with_cursor request cursor) (map identifier values') = Inr start"
    and "start \<le> length values'" "length values' - start < fuel"
  shows "\<exists>pages. walk_pages fuel codec request values' identifier cursor = Some pages
    \<and> concat pages = drop start values' \<and> list_all (\<lambda>page. length page \<le> limit) pages"
  using start assms(6,7)
proof (induction fuel arbitrary: cursor start)
  case (Suc fuel)
  let ?stop = "min (start + limit) (length values')"
  let ?page = "take (?stop - start) (drop start values')"
  have limit: "1 \<le> limit" using page_limit_bounds [OF assms(4)] by simp
  show ?case
  proof (cases "?stop < length values'")
    case False
    then have "?page = drop start values'" by simp
    with False Suc.prems(1) assms(4) show ?thesis by (auto simp: page_of_def Let_def not_less)
  next
    case True
    let ?i = "start + limit - 1"
    have page: "?page \<noteq> []" "length ?page = limit" "?i < length values'" using True limit by auto
    have "last ?page = values' ! ?i"
      using page(1,2) limit True by (simp add: last_conv_nth)
    let ?next = "cc_base64_encode codec (''v1:'' @ map identifier values' ! ?i)"
    have "page_start codec (with_cursor request ?next) (map identifier values') = Inr (Suc ?i)"
      using codec assms(3) page(3) by (intro page_start_cursor) simp_all
    moreover have "Suc ?i \<le> length values'" "length values' - Suc ?i < fuel" using page(3) limit Suc.prems(3) by auto
    ultimately obtain pages where "walk_pages fuel codec request values' identifier ?next = Some pages"
      "concat pages = drop (Suc ?i) values'" "list_all (\<lambda>page. length page \<le> limit) pages"
      using Suc.IH by blast
    moreover have "take limit (drop start values') @ drop (Suc ?i) values' = drop start values'"
      using limit by (metis (no_types, lifting) append_take_drop_id drop_drop add.commute Suc_diff_1 add_gr_0 le_eq_less_or_eq less_le_trans zero_less_one)
    moreover have "walk_pages (Suc fuel) codec request values' identifier cursor
        = map_option ((#) (take limit (drop start values'))) (walk_pages fuel codec request values' identifier ?next)"
      using True Suc.prems(1) assms(4) codec(2) page \<open>last ?page = values' ! ?i\<close>
      by (simp add: page_of_def Let_def)
    ultimately show ?thesis by simp
  qed
qed simp

text \<open>
  C36: following the cursors of a listing ends, and the pages together are the listing: every value
  once, in the order of the listing, in pages no longer than the limit. It needs that base64 is decoded
  to what was encoded and that the identifiers of the listing differ.
\<close>

theorem pages_add_up_to_the_listing:
  assumes "\<And>t. cc_base64_decode codec (cc_base64_encode codec t) = Some t"
    and "\<And>t. t \<noteq> [] \<Longrightarrow> cc_base64_encode codec t \<noteq> []"
    and "distinct (map identifier values')" "page_limit request = Inr limit"
  shows "\<exists>pages. walk_pages (Suc (length values')) codec request values' identifier [] = Some pages
    \<and> concat pages = values' \<and> (\<exists>bound \<le> 200. list_all (\<lambda>page. length page \<le> bound) pages)"
proof -
  have "page_start codec (with_cursor request []) (map identifier values') = Inr 0"
    by (simp add: page_start_def with_cursor_def)
  from walk_from [OF assms this, of "Suc (length values')"] page_limit_bounds [OF assms(4)] show ?thesis by auto
qed

definition plain_codec :: core_codec where
  "plain_codec = \<lparr>cc_media_type = Some, cc_envelope = Inl, cc_canonical = Some, cc_sha256 = (\<lambda>t. []), cc_marshal = (\<lambda>v. []),
     cc_unmarshal = (\<lambda>t. None), cc_base64_encode = (\<lambda>t. t), cc_base64_decode = Some\<rparr>"

definition listing_request :: core_request where
  "listing_request = \<lparr>cr_Method = ''GET'', cr_Path = ''/api/v1/orders'', cr_Header = (\<lambda>name. []),
     cr_Query = (\<lambda>name. if name = ''limit'' then ''2'' else []), cr_Body = Some [], cr_PeerCertificate = None\<rparr>"

lemma pages_add_up_to_the_listing_witness:
  "\<exists>pages. walk_pages 4 plain_codec listing_request [''a'', ''b'', ''c''] (\<lambda>v. v) [] = Some pages
    \<and> concat pages = [''a'', ''b'', ''c'']"
proof -
  have limit: "page_limit listing_request = Inr 2" by code_simp
  have codec: "cc_base64_decode plain_codec (cc_base64_encode plain_codec t) = Some t" "t \<noteq> [] \<Longrightarrow> cc_base64_encode plain_codec t \<noteq> []" for t
    by (simp_all add: plain_codec_def)
  have four: "Suc (length [''a'', ''b'', ''c'']) = 4" and "distinct (map (\<lambda>v. v) [''a'', ''b'', ''c''])" by simp_all
  from pages_add_up_to_the_listing [OF codec this(2) limit] show ?thesis unfolding four by blast
qed

end
