(* ===== verification/Core_Identifiers.thy ===== *)
theory Core_Identifiers
  imports Core_Server
begin

text \<open>
  The identifiers the core generates (\<open>newUUIDv7\<close> of \<open>services/core/internal/api/server.go\<close>) pass the
  checks the core makes of identifiers, and begin with the time of their generation.
\<close>

definition time_bytes :: "64 word \<Rightarrow> 8 word list" where
  "time_bytes ms = [ucast (drop_bit 40 ms), ucast (drop_bit 32 ms), ucast (drop_bit 24 ms), ucast (drop_bit 16 ms),
     ucast (drop_bit 8 ms), ucast ms]"

lemma sixteen: "length xs = 16 \<Longrightarrow> \<exists>a b c d e f g h i j k l m n o' p. xs = [a, b, c, d, e, f, g, h, i, j, k, l, m, n, o', p]"
  by (auto simp: numeral_eq_Suc length_Suc_conv)

text \<open>The two stamped bytes, for every byte.\<close>

lemma all_bytes:
  assumes "list_all (\<lambda>n. P (word_of_nat n :: 8 word)) [0..<256]"
  shows "P (b :: 8 word)"
proof -
  have "unat b \<in> set [0..<256]" using unat_byte_less [of b] by simp
  with assms have "P (word_of_nat (unat b))" unfolding list_all_iff by blast
  then show ?thesis by simp
qed

lemma version_nibble: "unat (or (and b 0x0f) 0x70 :: 8 word) div 16 = 7"
  by (rule all_bytes [of "\<lambda>b. unat (or (and b 0x0f) 0x70 :: 8 word) div 16 = 7"]) code_simp

lemma variant_nibble: "List.member [8, 9, 10, 11] (unat (or (and b 0x3f) 0x80 :: 8 word) div 16)"
  by (rule all_bytes [of "\<lambda>b. List.member [8, 9, 10, 11] (unat (or (and b 0x3f) 0x80 :: 8 word) div 16)"]) code_simp

lemma hex_byte_classes: "hex_class (hex_digit (unat b div 16))" "hex_class (hex_digit (unat b mod 16))" for b :: "8 word"
  using unat_byte_less [of b] by (simp_all add: hex_class_digit)

lemma version_class: "one_of ''12345678'' (hex_digit (unat (or (and b 0x0f) 0x70 :: 8 word) div 16))"
  unfolding version_nibble by (simp add: hex_digit_def one_of_def)

lemma variant_class: "one_of ''89aAbB'' (hex_digit (unat (or (and b 0x3f) 0x80 :: 8 word) div 16))"
  using variant_nibble [of b] by (auto simp: hex_digit_def one_of_def)

lemma hex_encode_append: "hex_encode (xs @ ys) = hex_encode xs @ hex_encode ys"
  by (simp add: hex_encode_def)

text \<open>The text of sixteen bytes in its five groups.\<close>

lemma uuid_text_groups:
  assumes "length ts = 6" "length vs = 2" "length ws = 2" "length zs = 6"
  shows "uuid_text (ts @ vs @ ws @ zs) = take 8 (hex_encode ts) @ ''-'' @ drop 8 (hex_encode ts) @ ''-''
    @ hex_encode vs @ ''-'' @ hex_encode ws @ ''-'' @ hex_encode zs"
proof -
  have "take 4 (drop 8 (hex_encode ts)) = drop 8 (hex_encode ts)" using assms(1) by simp
  then show ?thesis using assms by (simp add: uuid_text_def Let_def hex_encode_append)
qed

lemma group_classes:
  "one_of ''12345678'' c \<Longrightarrow> list_all hex_class cs \<Longrightarrow> length cs = 3 \<Longrightarrow> matches (one_of ''12345678'' # replicate 3 hex_class) (c # cs)"
  "one_of ''89aAbB'' c \<Longrightarrow> list_all hex_class cs \<Longrightarrow> length cs = 3 \<Longrightarrow> matches (one_of ''89aAbB'' # replicate 3 hex_class) (c # cs)"
  by (simp_all add: matches_replicate)

lemma uuid_groups_match:
  assumes "list_all hex_class a" "length a = 8" "list_all hex_class b" "length b = 4"
    and "one_of ''12345678'' c" "list_all hex_class cs" "length cs = 3"
    and "one_of ''89aAbB'' d" "list_all hex_class ds" "length ds = 3" "list_all hex_class e" "length e = 12"
  shows "matches uuid_classes (a @ ''-'' @ b @ ''-'' @ (c # cs) @ ''-'' @ (d # ds) @ ''-'' @ e)"
  unfolding uuid_classes_def
  using assms by (simp add: matches_append matches_replicate dash_class_def one_of_def)

text \<open>
  C37: an identifier the core generates is a UUID in the sense of its own check, whatever the random
  bytes and the time: it is of version 7 and of the standard variant, and its first twelve hexadecimal
  digits are the milliseconds of its generation.
\<close>

theorem generated_identifiers_are_uuids:
  assumes "length buffer = 16" "newUUIDv7 (Some buffer) now = Some id'"
  shows "ValidUUID id' \<and> id' ! 14 = CHR ''7''
    \<and> take 8 id' @ take 4 (drop 9 id') = hex_encode (time_bytes (word_of_int (UnixMilli now)))"
proof -
  obtain b0 b1 b2 b3 b4 b5 b6 b7 b8 b9 b10 b11 b12 b13 b14 b15 where
    buffer: "buffer = [b0, b1, b2, b3, b4, b5, b6, b7, b8, b9, b10, b11, b12, b13, b14, b15]"
    using sixteen [OF assms(1)] by blast
  define ts where "ts = time_bytes (word_of_int (UnixMilli now))"
  define v where "v = or (and b6 0x0f) 0x70"
  define w where "w = or (and b8 0x3f) 0x80"
  define zs where "zs = [b10, b11, b12, b13, b14, b15]"
  have "id' = uuid_text (ts @ [v, b7] @ [w, b9] @ zs)"
    using assms(2) by (simp add: buffer newUUIDv7_def Let_def time_bytes_def ts_def v_def w_def zs_def)
  also have "\<dots> = take 8 (hex_encode ts) @ ''-'' @ drop 8 (hex_encode ts) @ ''-''
      @ hex_encode [v, b7] @ ''-'' @ hex_encode [w, b9] @ ''-'' @ hex_encode zs"
    by (rule uuid_text_groups) (simp_all add: ts_def time_bytes_def zs_def)
  finally have id': "id' = take 8 (hex_encode ts) @ ''-'' @ drop 8 (hex_encode ts) @ ''-''
      @ hex_encode [v, b7] @ ''-'' @ hex_encode [w, b9] @ ''-'' @ hex_encode zs" .
  have length_ts: "length (hex_encode ts) = 12" by (simp add: ts_def time_bytes_def)
  have "matches uuid_classes (take 8 (hex_encode ts) @ ''-'' @ drop 8 (hex_encode ts) @ ''-''
      @ (hex_digit (unat v div 16) # [hex_digit (unat v mod 16), hex_digit (unat b7 div 16), hex_digit (unat b7 mod 16)]) @ ''-''
      @ (hex_digit (unat w div 16) # [hex_digit (unat w mod 16), hex_digit (unat b9 div 16), hex_digit (unat b9 mod 16)]) @ ''-''
      @ hex_encode zs)"
    using length_ts list_all_hex_encode [of ts] version_class [of b6] variant_class [of b8]
    by (intro uuid_groups_match list_all_hex_encode)
      (auto simp: v_def w_def zs_def list_all_iff hex_byte_classes dest: in_set_takeD in_set_dropD)
  then have "ValidUUID id'" by (simp add: ValidUUID_def core_uuid_classes_def id' hex_byte_def)
  moreover have "id' ! 14 = CHR ''7''"
    unfolding id' using length_ts version_nibble [of b6] by (simp add: nth_append hex_byte_def v_def hex_digit_def)
  moreover have "take 8 id' @ take 4 (drop 9 id') = hex_encode ts"
    unfolding id' using length_ts by (simp add: take_Cons')
  ultimately show ?thesis by (simp add: ts_def)
qed

lemma generated_identifiers_are_uuids_witness:
  "ValidUUID (the (newUUIDv7 (Some (replicate 16 0)) unix_epoch))"
proof -
  obtain id' where "newUUIDv7 (Some (replicate 16 0)) unix_epoch = Some id'" by (simp add: newUUIDv7_def Let_def)
  with generated_identifiers_are_uuids [of "replicate 16 0" unix_epoch id'] show ?thesis by simp
qed

end
