(* ===== verification/Core_Sync_Api.thy ===== *)
theory Core_Sync_Api
  imports Core_Server Core_Sync_Properties
begin

text \<open>
  The endpoint the edges push to: \<open>services/core/internal/api/sync.go\<close>. A batch is checked as a whole,
  then its operations are validated and applied one after the other; each gets its own result. The
  repository behind the endpoint is an interface, stated as a locale and provided by the PostgreSQL
  transaction and by the repository that is never available.
\<close>

subsection \<open>Bodies\<close>

text \<open>The version is a \<open>uint64\<close>, a natural number that the decoder keeps below \<open>2 ^ 64\<close>.\<close>

record sync_item =
  sn_OperationID :: string
  sn_AggregateType :: string
  sn_AggregateID :: string
  sn_AggregateVersion :: nat
  sn_CommandType :: string
  sn_Mutation :: core_envelope
  sn_RecordedAt :: time

record sync_batch =
  sb_BatchID :: string
  sb_EdgeID :: string
  sb_OutletID :: string
  sb_Operations :: "sync_item list"

record sync_result =
  sr_OperationID :: string
  sr_Status :: string
  sr_ProblemCode :: string
  sr_RetryAfterSeconds :: int

datatype sync_response = SyncProblem core_error | SyncResults string "sync_result list"

record sync_codec =
  yc_media_type :: "string \<Rightarrow> string option"
  yc_batch :: "string \<Rightarrow> string + sync_batch"
  yc_operation :: "sync_item \<Rightarrow> string option"
  yc_mutation :: "core_envelope \<Rightarrow> string option"
  yc_sha256 :: "string \<Rightarrow> 8 word list"
  yc_valid :: "string \<Rightarrow> bool"

definition maxSyncBodyBytes :: int where
  "maxSyncBodyBytes = 5 * 2 ^ 20"

subsection \<open>One operation\<close>

definition validateSyncOperation :: "sync_codec \<Rightarrow> map_order \<Rightarrow> sync_batch \<Rightarrow> sync_item \<Rightarrow> string" where
  "validateSyncOperation codec iter batch operation =
    (let metadata = en_Metadata (sn_Mutation operation) in
     if \<not> ValidUUID (sn_OperationID operation) then ''invalid_operation_id''
     else if \<not> ValidUUID (sn_AggregateID operation) then ''invalid_aggregate_id''
     else if sn_AggregateVersion operation < 1 then ''invalid_aggregate_version''
     else if TrimSpace (sn_AggregateType operation) = [] \<or> length (sn_AggregateType operation) > 128 then ''invalid_aggregate_type''
     else if TrimSpace (sn_CommandType operation) = [] \<or> length (sn_CommandType operation) > 128 then ''invalid_command_type''
     else if MutationMetadata_Validate iter metadata \<noteq> None then ''invalid_mutation_metadata''
     else if mm_ID metadata \<noteq> sn_OperationID operation then ''operation_id_mismatch''
     else if mm_OutletID metadata \<noteq> sb_OutletID batch then ''outlet_scope_mismatch''
     else let payload = TrimSpace (en_Payload (sn_Mutation operation)) in
       if length payload = 0 \<or> payload = ''null'' \<or> hd payload \<noteq> CHR ''{'' then ''invalid_mutation_payload''
       else if \<not> yc_valid codec payload then ''invalid_mutation_payload''
       else [])"

fun outcome_text :: "sync_outcome \<Rightarrow> string" where
  "outcome_text SyncAccepted = ''ACCEPTED''"
| "outcome_text SyncDuplicate = ''DUPLICATE''"
| "outcome_text SyncRejected = ''REJECTED''"
| "outcome_text SyncConflict = ''CONFLICT''"

type_synonym 's apply_operation = "sync_operation \<Rightarrow> 's \<Rightarrow> (sync_failure + sync_outcome \<times> string) \<times> 's"

definition sync_operation_of ::
  "sync_batch \<Rightarrow> sync_item \<Rightarrow> 8 word list \<Rightarrow> string \<Rightarrow> time \<Rightarrow> sync_operation" where
  "sync_operation_of batch operation fingerprint mutation now =
    \<lparr>so_TenantID = mm_TenantID (en_Metadata (sn_Mutation operation)), so_OperationID = sn_OperationID operation,
     so_EdgeID = sb_EdgeID batch, so_OutletID = sb_OutletID batch, so_BatchID = sb_BatchID batch,
     so_AggregateType = sn_AggregateType operation, so_AggregateID = sn_AggregateID operation,
     so_AggregateVersion = sn_AggregateVersion operation, so_CommandType = sn_CommandType operation,
     so_RequestHash = fingerprint, so_Mutation = mutation, so_RecordedAt = sn_RecordedAt operation, so_ReceivedAt = now\<rparr>"

definition sync_answer :: "string \<Rightarrow> sync_failure + sync_outcome \<times> string \<Rightarrow> sync_result" where
  "sync_answer operationID answer = (case answer of
     Inl MissingPredecessor \<Rightarrow> \<lparr>sr_OperationID = operationID, sr_Status = ''RETRY'',
       sr_ProblemCode = ''causal_predecessor_missing'', sr_RetryAfterSeconds = 1\<rparr>
   | Inl _ \<Rightarrow> \<lparr>sr_OperationID = operationID, sr_Status = ''RETRY'', sr_ProblemCode = ''sync_inbox_unavailable'',
       sr_RetryAfterSeconds = 5\<rparr>
   | Inr (outcome, problemCode) \<Rightarrow> \<lparr>sr_OperationID = operationID, sr_Status = outcome_text outcome,
       sr_ProblemCode = problemCode, sr_RetryAfterSeconds = 0\<rparr>)"

definition acceptSyncOperation ::
  "sync_codec \<Rightarrow> map_order \<Rightarrow> 's apply_operation \<Rightarrow> sync_batch \<Rightarrow> sync_item \<Rightarrow> time \<Rightarrow> 's \<Rightarrow> sync_result \<times> 's" where
  "acceptSyncOperation codec iter apply_operation batch operation now s =
    (let problemCode = validateSyncOperation codec iter batch operation; id' = sn_OperationID operation;
         unreadable = \<lparr>sr_OperationID = id', sr_Status = ''RETRY'', sr_ProblemCode = ''operation_encoding_failed'', sr_RetryAfterSeconds = 5\<rparr>
     in if problemCode \<noteq> []
     then (\<lparr>sr_OperationID = id', sr_Status = ''REJECTED'', sr_ProblemCode = problemCode, sr_RetryAfterSeconds = 0\<rparr>, s)
     else case yc_operation codec operation of
       None \<Rightarrow> (unreadable, s)
     | Some fingerprintBody \<Rightarrow> (case yc_mutation codec (sn_Mutation operation) of
         None \<Rightarrow> (unreadable, s)
       | Some mutation \<Rightarrow> (let (answer, s') =
             apply_operation (sync_operation_of batch operation (yc_sha256 codec fingerprintBody) mutation now) s
           in (sync_answer id' answer, s'))))"

subsection \<open>The batch\<close>

text \<open>The clock is read once per operation; \<open>clock i\<close> is the reading for the operation at position \<open>i\<close>.\<close>

fun accept_operations ::
  "sync_codec \<Rightarrow> map_order \<Rightarrow> 's apply_operation \<Rightarrow> sync_batch \<Rightarrow> (nat \<Rightarrow> time) \<Rightarrow> nat \<Rightarrow> sync_item list \<Rightarrow> 's
    \<Rightarrow> sync_result list \<times> 's" where
  "accept_operations codec iter apply_operation batch clock index [] s = ([], s)"
| "accept_operations codec iter apply_operation batch clock index (operation # rest) s =
    (let (r, s) = acceptSyncOperation codec iter apply_operation batch operation (clock index) s;
         (rs, s) = accept_operations codec iter apply_operation batch clock (Suc index) rest s
     in (r # rs, s))"

definition sync_batch_problem :: "principal option \<Rightarrow> sync_batch \<Rightarrow> core_error option" where
  "sync_batch_problem who batch =
    (let bad = (\<lambda>text. TrimSpace text = [] \<or> length text > 128) in
     if bad (sb_BatchID batch) \<or> bad (sb_EdgeID batch) \<or> bad (sb_OutletID batch)
     then Some (core_problem 422 ''invalid_sync_batch'' ''batchId, edgeId, and outletId are required and must be at most 128 characters'')
     else if length (sb_Operations batch) = 0 \<or> length (sb_Operations batch) > 500
     then Some (core_problem 422 ''invalid_sync_batch_size'' ''operations must contain between 1 and 500 items'')
     else case who of
       None \<Rightarrow> Some (core_problem 401 ''authentication_required'' ''an authenticated principal is required'')
     | Some p \<Rightarrow>
        if p_ActorID p \<noteq> ''edge:'' @ sb_EdgeID batch
        then Some (core_problem 403 ''edge_principal_mismatch'' ''the authenticated edge principal must match edgeId'')
        else if p_Kind p \<noteq> ''device'' \<or> \<not> AllowsOutlet p (sb_OutletID batch)
        then Some (core_problem 403 ''device_scope_mismatch'' ''the enrolled device is not authorized for this outlet'')
        else if list_ex (\<lambda>operation. mm_TenantID (en_Metadata (sn_Mutation operation)) \<noteq> p_TenantID p) (sb_Operations batch)
        then Some (core_problem 403 ''principal_scope_mismatch'' ''every operation tenantId must match the authenticated scope'')
        else None)"

definition handleSyncOperations ::
  "sync_codec \<Rightarrow> map_order \<Rightarrow> 's apply_operation \<Rightarrow> (nat \<Rightarrow> time) \<Rightarrow> principal option \<Rightarrow> core_request \<Rightarrow> 's \<Rightarrow> sync_response \<times> 's" where
  "handleSyncOperations codec iter apply_operation clock who request s =
    (if yc_media_type codec (cr_Header request ''Content-Type'') \<noteq> Some ''application/json''
     then (SyncProblem (core_problem 415 ''unsupported_media_type'' ''Content-Type must be application/json''), s)
     else case cr_Body request of
       None \<Rightarrow> (SyncProblem (core_problem 400 ''invalid_request'' ''could not read sync batch''), s)
     | Some body \<Rightarrow>
        if int (length body) > maxSyncBodyBytes
        then (SyncProblem (core_problem 413 ''sync_batch_too_large'' ''sync batch must not exceed 5 MiB''), s)
        else case yc_batch codec body of
          Inl e \<Rightarrow> (SyncProblem (core_problem 400 ''invalid_sync_batch'' e), s)
        | Inr batch \<Rightarrow> (case sync_batch_problem who batch of
            Some e \<Rightarrow> (SyncProblem e, s)
          | None \<Rightarrow> (let (results, s') = accept_operations codec iter apply_operation batch clock 0 (sb_Operations batch) s
              in (SyncResults (sb_BatchID batch) results, s'))))"

text \<open>\<open>NewUnavailableSyncRepository\<close>\<close>

definition unavailable_apply :: "'s apply_operation" where
  "unavailable_apply operation s = (Inl (PostgresError ''durable sync repository unavailable''), s)"

subsection \<open>The interface to the repository\<close>

text \<open>An item stripped of everything but what names its operation.\<close>

definition plain_operation :: "sync_item \<Rightarrow> sync_operation" where
  "plain_operation item = sync_operation_of \<lparr>sb_BatchID = [], sb_EdgeID = [], sb_OutletID = [], sb_Operations = []\<rparr> item [] [] 0"

lemma outcome_text_iff [simp]:
  "outcome_text outcome = ''ACCEPTED'' \<longleftrightarrow> outcome = SyncAccepted" "outcome_text outcome = ''DUPLICATE'' \<longleftrightarrow> outcome = SyncDuplicate"
  "outcome_text outcome = ''REJECTED'' \<longleftrightarrow> outcome = SyncRejected" "outcome_text outcome = ''CONFLICT'' \<longleftrightarrow> outcome = SyncConflict"
  "outcome_text outcome = ''RETRY'' \<longleftrightarrow> False"
  by (cases outcome; simp)+

text \<open>
  What the endpoint relies on: an operation that fails changes nothing, evidence of accepted operations
  is never lost, and an operation is accepted or a duplicate only with such evidence.
\<close>

locale sync_store =
  fixes apply_operation :: "'s apply_operation"
    and evidence :: "'s \<Rightarrow> (string \<times> string) set"
    and key :: "sync_operation \<Rightarrow> string \<times> string"
  assumes failed: "apply_operation op s = (Inl e, s') \<Longrightarrow> s' = s"
    and grows: "apply_operation op s = (answer, s') \<Longrightarrow> evidence s \<subseteq> evidence s'"
    and committed: "apply_operation op s = (Inr (SyncAccepted, p), s') \<or> apply_operation op s = (Inr (SyncDuplicate, p), s')
      \<Longrightarrow> key op \<in> evidence s'"
    and keyed: "so_TenantID op = so_TenantID op' \<Longrightarrow> so_OperationID op = so_OperationID op' \<Longrightarrow> key op = key op'"
begin

lemma item_key_eq: "key (sync_operation_of batch item fingerprint mutation now) = key (plain_operation item)"
  by (rule keyed) (simp_all add: plain_operation_def sync_operation_of_def)

lemma accept_grows: "acceptSyncOperation codec iter apply_operation batch item now s = (r, s') \<Longrightarrow> evidence s \<subseteq> evidence s'"
  by (auto simp: acceptSyncOperation_def Let_def dest: grows split: if_splits option.splits prod.splits)

lemma accept_result: "acceptSyncOperation codec iter apply_operation batch item now s = (r, s') \<Longrightarrow>
    sr_OperationID r = sn_OperationID item
    \<and> sr_Status r \<in> {''ACCEPTED'', ''DUPLICATE'', ''REJECTED'', ''CONFLICT'', ''RETRY''}"
  by (auto simp: acceptSyncOperation_def Let_def sync_answer_def split: if_splits option.splits prod.splits sum.splits sync_failure.splits)
    (metis sync_outcome.exhaust)

lemma sync_answer_settled: "sr_Status (sync_answer k answer) = ''ACCEPTED'' \<or> sr_Status (sync_answer k answer) = ''DUPLICATE'' \<Longrightarrow>
    \<exists>p. answer = Inr (SyncAccepted, p) \<or> answer = Inr (SyncDuplicate, p)"
  by (auto simp: sync_answer_def split: sum.splits prod.splits sync_failure.splits)

lemma accept_committed:
  assumes "acceptSyncOperation codec iter apply_operation batch item now s = (r, s')"
    and "sr_Status r = ''ACCEPTED'' \<or> sr_Status r = ''DUPLICATE''"
  shows "key (plain_operation item) \<in> evidence s'"
proof -
  obtain body mutation answer where
    run: "apply_operation (sync_operation_of batch item (yc_sha256 codec body) mutation now) s = (answer, s')"
    and r: "r = sync_answer (sn_OperationID item) answer"
    using assms by (auto simp: acceptSyncOperation_def Let_def split: if_splits option.splits prod.splits)
  from sync_answer_settled [of "sn_OperationID item" answer] assms(2) r obtain p where
    "answer = Inr (SyncAccepted, p) \<or> answer = Inr (SyncDuplicate, p)" by auto
  with run committed have "key (sync_operation_of batch item (yc_sha256 codec body) mutation now) \<in> evidence s'" by blast
  then show ?thesis by (simp only: item_key_eq)
qed

lemma accept_operations_results:
  assumes "accept_operations codec iter apply_operation batch clock index items s = (rs, s')"
  shows "map sr_OperationID rs = map sn_OperationID items \<and> evidence s \<subseteq> evidence s'
    \<and> (\<forall>r \<in> set rs. sr_Status r \<in> {''ACCEPTED'', ''DUPLICATE'', ''REJECTED'', ''CONFLICT'', ''RETRY''})
    \<and> (\<forall>r \<in> set rs. sr_Status r = ''ACCEPTED'' \<or> sr_Status r = ''DUPLICATE'' \<longrightarrow>
        (\<exists>item \<in> set items. sn_OperationID item = sr_OperationID r \<and> key (plain_operation item) \<in> evidence s'))"
  using assms
proof (induction items arbitrary: index s rs)
  case (Cons item items)
  obtain r s1 where first: "acceptSyncOperation codec iter apply_operation batch item (clock index) s = (r, s1)" by fastforce
  with Cons.prems obtain rs' where rest: "accept_operations codec iter apply_operation batch clock (Suc index) items s1 = (rs', s')"
    and rs: "rs = r # rs'" by (auto split: prod.splits)
  note ih = Cons.IH [OF rest]
  have "key (plain_operation item) \<in> evidence s'" if "sr_Status r = ''ACCEPTED'' \<or> sr_Status r = ''DUPLICATE''"
    using accept_committed [OF first that] ih by blast
  with ih accept_result [OF first] accept_grows [OF first] show ?case unfolding rs by auto
qed simp

lemma handled_results:
  assumes "handleSyncOperations codec iter apply_operation clock who request s = (SyncResults batchID rs, s')"
  obtains body batch p where "cr_Body request = Some body" "yc_batch codec body = Inr batch" "batchID = sb_BatchID batch"
    "who = Some p" "sync_batch_problem (Some p) batch = None"
    "accept_operations codec iter apply_operation batch clock 0 (sb_Operations batch) s = (rs, s')"
proof -
  obtain body batch where b: "cr_Body request = Some body" "yc_batch codec body = Inr batch" "batchID = sb_BatchID batch"
    "sync_batch_problem who batch = None"
    "accept_operations codec iter apply_operation batch clock 0 (sb_Operations batch) s = (rs, s')"
    using assms by (auto simp: handleSyncOperations_def split: if_splits option.splits sum.splits prod.splits)
  moreover obtain p where "who = Some p"
    using b(4) by (cases who) (auto simp: sync_batch_problem_def Let_def split: if_splits)
  ultimately show thesis using that by blast
qed

end

end
