(* ===== verification/Core_Sync_Api_Properties.thy ===== *)
theory Core_Sync_Api_Properties
  imports Core_Sync_Api
begin

text \<open>
  The providers of the endpoint's repository and what a push promises the edge: one result per operation
  in order, and an acceptance only with the committed event.
\<close>

subsection \<open>The repositories\<close>

definition accepted_keys :: "'p cloud \<Rightarrow> (string \<times> string) set" where
  "accepted_keys db = inbox_key ` {r \<in> set (cl_inbox db). ib_status r = InboxAccepted}"

definition operation_key :: "'p cloud_env \<Rightarrow> sync_operation \<Rightarrow> string \<times> string" where
  "operation_key env op = (op_tenant env op, op_key env op)"

lemma settled_accepted_keys:
  assumes "settled_by env op db st p db'"
  shows "accepted_keys db' = accepted_keys db \<union> (if st = InboxAccepted then {operation_key env op} else {})"
proof -
  define row where "row = (inbox_row_of env op)\<lparr>ib_status := st, ib_problem_code := p\<rparr>"
  have row: "ib_status row = st" "inbox_key row = operation_key env op"
    by (simp_all add: row_def inbox_key_def inbox_row_of_def operation_key_def)
  have "cl_inbox db' = cl_inbox db @ [row]" using assms by (simp add: settled_by_def row_def)
  then have "{r \<in> set (cl_inbox db'). ib_status r = InboxAccepted}
      = {r \<in> set (cl_inbox db). ib_status r = InboxAccepted} \<union> (if st = InboxAccepted then {row} else {})"
    using row(1) by auto
  then show ?thesis unfolding accepted_keys_def by (simp add: row(2) image_Un)
qed

lemma apply_keeps_keys:
  assumes "ApplySyncOperation env op db = (answer, db')"
  shows "accepted_keys db \<subseteq> accepted_keys db'"
  using assms by (cases rule: ApplySyncOperation_cases) (auto simp: settled_accepted_keys)

lemma apply_commits_keys:
  assumes "ApplySyncOperation env op db = (Inr (outcome, p), db')" "outcome = SyncAccepted \<or> outcome = SyncDuplicate"
  shows "operation_key env op \<in> accepted_keys db'"
  using assms(1)
proof (cases rule: ApplySyncOperation_cases)
  case (repeated r)
  with assms(2) have "ib_status r = InboxAccepted"
    by (auto simp: existingSyncOutcome_def Let_def split: if_splits inbox_status.splits)
  moreover have "r \<in> set (cl_inbox db)" "inbox_hit env op r" using repeated(1) by (auto simp: find_Some_iff)
  ultimately show ?thesis using repeated(3) by (force simp: accepted_keys_def operation_key_def inbox_hit_def inbox_key_def)
qed (use assms(2) in \<open>auto simp: settled_accepted_keys\<close>)

interpretation cloud_store: sync_store "ApplySyncOperation env" accepted_keys "operation_key env" for env :: "'p cloud_env"
proof unfold_locales
  show "db' = db" if "ApplySyncOperation env op db = (Inl e, db')" for op and db :: "'p cloud" and e db'
    using that by (cases rule: ApplySyncOperation_cases) auto
  show "accepted_keys db \<subseteq> accepted_keys db'" if "ApplySyncOperation env op db = (answer, db')"
    for op and db :: "'p cloud" and answer db' using apply_keeps_keys [OF that] .
  show "operation_key env op \<in> accepted_keys db'"
    if "ApplySyncOperation env op db = (Inr (SyncAccepted, p), db') \<or> ApplySyncOperation env op db = (Inr (SyncDuplicate, p), db')"
    for op and db :: "'p cloud" and p db' using that apply_commits_keys by blast
  show "operation_key env op = operation_key env op'"
    if "so_TenantID op = so_TenantID op'" "so_OperationID op = so_OperationID op'" for op op'
    using that by (simp add: operation_key_def op_tenant_def op_key_def)
qed

interpretation unavailable_store: sync_store "unavailable_apply" "\<lambda>s. {}" "\<lambda>op. (so_TenantID op, so_OperationID op)"
  by unfold_locales (simp_all add: unavailable_apply_def)

subsection \<open>The cloud behind the endpoint\<close>

lemma accepted_keys_events: "cloud_ok db \<Longrightarrow> accepted_keys db = event_key ` set (cl_events db)"
proof -
  assume "cloud_ok db"
  then have "set (map event_key (cl_events db)) = set (map inbox_key (filter (\<lambda>r. ib_status r = InboxAccepted) (cl_inbox db)))"
    by (simp add: cloud_ok_def)
  then show ?thesis by (auto simp: accepted_keys_def)
qed

lemma accept_operation_step:
  "acceptSyncOperation codec iter (ApplySyncOperation env) batch item now db = (r, db') \<Longrightarrow> (cloud_step env)\<^sup>*\<^sup>* db db'"
  by (auto simp: acceptSyncOperation_def Let_def split: if_splits option.splits prod.splits
      dest: cloud_step.apply_operation)

lemma accept_operations_steps:
  "accept_operations codec iter (ApplySyncOperation env) batch clock index items db = (rs, db') \<Longrightarrow> (cloud_step env)\<^sup>*\<^sup>* db db'"
proof (induction items arbitrary: index db rs)
  case (Cons item items)
  then show ?case
    by (auto simp: Let_def split: prod.splits dest!: accept_operation_step) (meson rtranclp_trans)
qed simp

lemma handled_steps:
  assumes "handleSyncOperations codec iter (ApplySyncOperation env) clock who request db = (response, db')"
  shows "(cloud_step env)\<^sup>*\<^sup>* db db'"
  using assms
  by (auto simp: handleSyncOperations_def split: if_splits option.splits sum.splits prod.splits
      dest!: accept_operations_steps)

lemma reachable_steps: "cloud_reachable env db \<Longrightarrow> (cloud_step env)\<^sup>*\<^sup>* db db' \<Longrightarrow> cloud_reachable env db'"
  unfolding cloud_reachable_def by (meson rtranclp_trans)

text \<open>
  C29: a push is answered with one result per operation, in the order of the batch, and only for the
  enrolled device of the edge, an outlet of the device and operations of its tenant. A result that says
  accepted or duplicate is backed by the operation's event in the event log.
\<close>

theorem push_results_are_backed:
  assumes "cloud_reachable env db"
    and "handleSyncOperations codec iter (ApplySyncOperation env) clock who request db = (SyncResults batchID rs, db')"
  shows "\<exists>body batch p. cr_Body request = Some body \<and> yc_batch codec body = Inr batch \<and> batchID = sb_BatchID batch
    \<and> map sr_OperationID rs = map sn_OperationID (sb_Operations batch)
    \<and> who = Some p \<and> p_Kind p = ''device'' \<and> p_ActorID p = ''edge:'' @ sb_EdgeID batch \<and> AllowsOutlet p (sb_OutletID batch)
    \<and> (\<forall>item \<in> set (sb_Operations batch). mm_TenantID (en_Metadata (sn_Mutation item)) = p_TenantID p)
    \<and> (\<forall>r \<in> set rs. sr_Status r = ''ACCEPTED'' \<or> sr_Status r = ''DUPLICATE'' \<longrightarrow>
        (\<exists>item \<in> set (sb_Operations batch). sn_OperationID item = sr_OperationID r
          \<and> operation_key env (plain_operation item) \<in> event_key ` set (cl_events db')))"
proof -
  have ok: "cloud_ok db'" using reachable_steps [OF assms(1) handled_steps [OF assms(2)]] by (rule cloud_reachable_ok)
  from assms(2) obtain body batch p where b: "cr_Body request = Some body" "yc_batch codec body = Inr batch"
    "batchID = sb_BatchID batch" "who = Some p" "sync_batch_problem (Some p) batch = None"
    and run: "accept_operations codec iter (ApplySyncOperation env) batch clock 0 (sb_Operations batch) db = (rs, db')"
    by (rule cloud_store.handled_results)
  from b(5) have scope: "p_Kind p = ''device''" "p_ActorID p = ''edge:'' @ sb_EdgeID batch" "AllowsOutlet p (sb_OutletID batch)"
    "\<forall>item \<in> set (sb_Operations batch). mm_TenantID (en_Metadata (sn_Mutation item)) = p_TenantID p"
    by (auto simp: sync_batch_problem_def Let_def list_ex_iff split: if_splits)
  from cloud_store.accept_operations_results [OF run] have "map sr_OperationID rs = map sn_OperationID (sb_Operations batch)"
    "\<forall>r \<in> set rs. sr_Status r = ''ACCEPTED'' \<or> sr_Status r = ''DUPLICATE'' \<longrightarrow>
        (\<exists>item \<in> set (sb_Operations batch). sn_OperationID item = sr_OperationID r
          \<and> operation_key env (plain_operation item) \<in> event_key ` set (cl_events db'))"
    unfolding accepted_keys_events [OF ok] by blast+
  with b scope show ?thesis by blast
qed

text \<open>A push of one order.\<close>

definition pushed_metadata :: mutation_metadata where
  "pushed_metadata = \<lparr>mm_ID = sample_uuid, mm_TenantID = ''t'', mm_OutletID = ''o'', mm_DeviceID = ''d'', mm_ActorID = ''a'',
     mm_OccurredAt = 1, mm_Source = ''pos'', mm_SourceID = [], mm_SchemaVersion = ''1.0'', mm_IdempotencyKey = ''key-00001'',
     mm_CorrelationID = [], mm_CausationID = []\<rparr>"

definition pushed_item :: sync_item where
  "pushed_item = \<lparr>sn_OperationID = sample_uuid, sn_AggregateType = ''order'', sn_AggregateID = sample_uuid, sn_AggregateVersion = 1,
     sn_CommandType = ''order.create'', sn_Mutation = \<lparr>en_Metadata = pushed_metadata, en_Payload = ''{}''\<rparr>, sn_RecordedAt = 1\<rparr>"

definition pushed_batch :: sync_batch where
  "pushed_batch = \<lparr>sb_BatchID = ''b'', sb_EdgeID = ''e'', sb_OutletID = ''o'', sb_Operations = [pushed_item]\<rparr>"

definition push_codec :: sync_codec where
  "push_codec = \<lparr>yc_media_type = Some, yc_batch = (\<lambda>t. Inr pushed_batch), yc_operation = (\<lambda>i. Some []), yc_mutation = (\<lambda>m. Some []),
     yc_sha256 = (\<lambda>t. [1]), yc_valid = (\<lambda>t. True)\<rparr>"

definition push_principal :: principal where
  "push_principal = \<lparr>p_TenantID = ''t'', p_ActorID = ''edge:e'', p_Roles = [''edge''], p_OutletIDs = [''o''], p_Kind = ''device'', p_DeviceID = ''d''\<rparr>"

definition push_http :: core_request where
  "push_http = \<lparr>cr_Method = ''POST'', cr_Path = ''/api/v1/sync/operations'', cr_Header = (\<lambda>name. ''application/json''),
     cr_Query = (\<lambda>name. []), cr_Body = Some ''{}'', cr_PeerCertificate = None\<rparr>"

definition pushed :: "sync_response \<times> string list cloud" where
  "pushed = handleSyncOperations push_codec (\<lambda>n. [0..<n]) (ApplySyncOperation sample_cloud_env) (\<lambda>i. 1) (Some push_principal)
     push_http empty_cloud"

lemma pushed_valid: "validateSyncOperation push_codec (\<lambda>n. [0..<n]) pushed_batch pushed_item = []"
  by code_simp

lemma pushed_admitted: "sync_batch_problem (Some push_principal) pushed_batch = None"
  by code_simp

lemma pushed_applied: "\<exists>db. ApplySyncOperation sample_cloud_env (sync_operation_of pushed_batch pushed_item [1] [] 1) empty_cloud
    = (Inr (SyncAccepted, []), db)"
  by (simp add: apply_defs sample_cloud_env_def empty_cloud_def sync_operation_of_def pushed_batch_def pushed_item_def pushed_metadata_def)

lemma pushed_accepted: "fst pushed = SyncResults ''b'' [\<lparr>sr_OperationID = sample_uuid, sr_Status = ''ACCEPTED'',
    sr_ProblemCode = [], sr_RetryAfterSeconds = 0\<rparr>]"
proof -
  have "yc_media_type push_codec (cr_Header push_http ''Content-Type'') = Some ''application/json''"
    "cr_Body push_http = Some ''{}''" "yc_batch push_codec ''{}'' = Inr pushed_batch" "sb_Operations pushed_batch = [pushed_item]"
    "sb_BatchID pushed_batch = ''b''" "sn_OperationID pushed_item = sample_uuid"
    "yc_operation push_codec pushed_item = Some []" "yc_mutation push_codec (sn_Mutation pushed_item) = Some []"
    "yc_sha256 push_codec [] = [1]"
    by (simp_all add: push_codec_def push_http_def pushed_batch_def pushed_item_def)
  moreover obtain db where "ApplySyncOperation sample_cloud_env (sync_operation_of pushed_batch pushed_item [1] [] 1) empty_cloud
      = (Inr (SyncAccepted, []), db)" using pushed_applied by blast
  ultimately show ?thesis
    using pushed_valid pushed_admitted
    by (simp add: pushed_def handleSyncOperations_def acceptSyncOperation_def sync_answer_def maxSyncBodyBytes_def)
qed

lemma empty_cloud_reachable: "cloud_reachable env empty_cloud"
  unfolding cloud_reachable_def empty_cloud_def by (blast intro: rtranclp.rtrancl_refl)

lemma push_results_are_backed_witness:
  "operation_key sample_cloud_env (plain_operation pushed_item) \<in> event_key ` set (cl_events (snd pushed))"
proof -
  have "handleSyncOperations push_codec (\<lambda>n. [0..<n]) (ApplySyncOperation sample_cloud_env) (\<lambda>i. 1) (Some push_principal)
      push_http empty_cloud = (SyncResults ''b'' [\<lparr>sr_OperationID = sample_uuid, sr_Status = ''ACCEPTED'',
        sr_ProblemCode = [], sr_RetryAfterSeconds = 0\<rparr>], snd pushed)"
    using pushed_accepted by (simp add: pushed_def prod_eq_iff)
  from push_results_are_backed [OF empty_cloud_reachable this] show ?thesis
    by (auto simp: push_codec_def pushed_batch_def)
qed

end
