(* ===== verification/Edge_Core.thy ===== *)
theory Edge_Core
  imports Edge_Sync_Properties Core_Sync_Api_Properties
begin

text \<open>
  The edge and the core together: the batches of \<open>services/edge/internal/syncer\<close> travel over a network that
  may lose requests and answers to \<open>POST /api/v1/sync/operations\<close> of the core. The two sides name the same
  JSON members: the translations below are that correspondence, \<open>compact\<close> is what \<open>json.Marshal\<close> does
  to a raw payload.
\<close>

subsection \<open>The bodies on both sides\<close>

definition metadata_of :: "mutation_envelope \<Rightarrow> mutation_metadata" where
  "metadata_of env = \<lparr>mm_ID = env_ID env, mm_TenantID = env_TenantID env, mm_OutletID = env_OutletID env,
     mm_DeviceID = env_DeviceID env, mm_ActorID = env_ActorID env, mm_OccurredAt = env_OccurredAt env, mm_Source = env_Source env,
     mm_SourceID = env_SourceID env, mm_SchemaVersion = env_SchemaVersion env, mm_IdempotencyKey = env_IdempotencyKey env,
     mm_CorrelationID = env_CorrelationID env, mm_CausationID = env_CausationID env\<rparr>"

definition item_of :: "(string \<Rightarrow> string) \<Rightarrow> operation \<Rightarrow> sync_item" where
  "item_of compact o' = \<lparr>sn_OperationID = op_OperationID o', sn_AggregateType = op_AggregateType o',
     sn_AggregateID = op_AggregateID o', sn_AggregateVersion = op_AggregateVersion o', sn_CommandType = op_CommandType o',
     sn_Mutation = \<lparr>en_Metadata = metadata_of (op_Mutation o'), en_Payload = compact (env_Payload (op_Mutation o'))\<rparr>,
     sn_RecordedAt = op_RecordedAt o'\<rparr>"

definition batch_of :: "(string \<Rightarrow> string) \<Rightarrow> push_request \<Rightarrow> sync_batch" where
  "batch_of compact request = \<lparr>sb_BatchID = pr_BatchID request, sb_EdgeID = pr_EdgeID request, sb_OutletID = pr_OutletID request,
     sb_Operations = map (item_of compact) (pr_Operations request)\<rparr>"

definition status_of :: "string \<Rightarrow> push_status" where
  "status_of text = (case map_of [(''ACCEPTED'', PushAccepted), (''DUPLICATE'', PushDuplicate), (''REJECTED'', PushRejected),
     (''CONFLICT'', PushConflict), (''RETRY'', PushRetry)] text of Some status \<Rightarrow> status | None \<Rightarrow> OtherPushStatus text)"

definition result_of :: "sync_result \<Rightarrow> push_result" where
  "result_of r = \<lparr>res_OperationID = sr_OperationID r, res_Status = status_of (sr_Status r),
     res_ProblemCode = sr_ProblemCode r, res_RetryAfterSeconds = sr_RetryAfterSeconds r\<rparr>"

definition response_of :: "string \<Rightarrow> sync_result list \<Rightarrow> push_response" where
  "response_of batchID rs = \<lparr>resp_BatchID = batchID, resp_Results = map result_of rs\<rparr>"

subsection \<open>The core as the edge reaches it\<close>

text \<open>The JSON codecs of both sides, what the core takes from its surroundings, and who the caller is to it.\<close>

record 'p link =
  lk_encode :: "push_request \<Rightarrow> string"
  lk_decode :: "string \<Rightarrow> string + push_response"
  lk_marshal :: "sync_response \<Rightarrow> string"
  lk_codec :: sync_codec
  lk_iter :: map_order
  lk_cloud :: "'p cloud_env"
  lk_authenticate :: "core_request \<Rightarrow> auth_error + principal"
  lk_certificate :: "string option"

definition core_request_of :: "string option \<Rightarrow> http_request \<Rightarrow> core_request" where
  "core_request_of certificate request = \<lparr>cr_Method = ''POST'', cr_Path = ''/api/v1/sync/operations'',
     cr_Header = (\<lambda>name. case map_of (hq_Headers request) name of Some v \<Rightarrow> v | None \<Rightarrow> []), cr_Query = (\<lambda>name. []),
     cr_Body = Some (hq_Body request), cr_PeerCertificate = certificate\<rparr>"

fun sync_status :: "sync_response \<Rightarrow> int" where
  "sync_status (SyncProblem e) = int (er_Status e)"
| "sync_status (SyncResults batchID rs) = 200"

definition core_answer :: "'p link \<Rightarrow> (nat \<Rightarrow> time) \<Rightarrow> http_request \<Rightarrow> 'p cloud \<Rightarrow> http_response \<times> 'p cloud" where
  "core_answer link clock request db =
    (let r = core_request_of (lk_certificate link) request;
         unknown = core_problem 401 ''authentication_required'' ''a valid user token or enrolled device certificate is required'';
         (response, db') = (case lk_authenticate link r of
           Inl e \<Rightarrow> (SyncProblem unknown, db)
         | Inr p \<Rightarrow>
            if p_TenantID p = [] \<or> p_ActorID p = [] then (SyncProblem unknown, db)
            else if \<not> routeAuthorized p r
            then (SyncProblem (core_problem 403 ''permission_denied'' ''the authenticated role cannot perform this action''), db)
            else handleSyncOperations (lk_codec link) (lk_iter link) (ApplySyncOperation (lk_cloud link)) clock (Some p) r db)
     in (\<lparr>hp_StatusCode = sync_status response, hp_Body = lk_marshal link response\<rparr>, db'))"

subsection \<open>One synchronization over a lossy network\<close>

datatype network = Delivered | RequestLost | AnswerLost

definition sent_request :: "(push_request \<Rightarrow> string) \<Rightarrow> http_adapter \<Rightarrow> push_request \<Rightarrow> http_request" where
  "sent_request encode a batch = \<lparr>hq_Endpoint = ha_endpoint a, hq_Headers =
     [(''Content-Type'', ''application/json''), (''Accept'', ''application/json''),
      (''Idempotency-Key'', pr_BatchID batch), (''X-Edge-ID'', pr_EdgeID batch),
      (''X-FeastCloud-Tenant-ID'', ha_tenantID a), (''X-FeastCloud-Actor-ID'', ha_actorID a)] @
     (if ha_bearerToken a \<noteq> [] then [(''Authorization'', ''Bearer '' @ ha_bearerToken a)] else []),
     hq_Body = encode batch\<rparr>"

text \<open>The batch that \<open>SyncOnce\<close> hands to its adapter, if it comes to that.\<close>

definition next_batch :: "'s repository \<Rightarrow> (push_request \<Rightarrow> nat) \<Rightarrow> syncer_config \<Rightarrow> string \<Rightarrow> time \<Rightarrow> 's \<Rightarrow> push_request option" where
  "next_batch repo len config batchID now s =
    (case rp_PendingOperations repo s (sc_BatchSize config) now of Inl e \<Rightarrow> None | Inr pending \<Rightarrow>
     (case fitBatch len (sc_EdgeID config) (sc_OutletID config) pending (sc_MaxBatchBytes config) of Inl e \<Rightarrow> None | Inr ops \<Rightarrow>
      if ops = [] \<or> scope_loop config [] ops \<noteq> None then None
      else Some \<lparr>pr_BatchID = batchID, pr_EdgeID = sc_EdgeID config, pr_OutletID = sc_OutletID config, pr_Operations = ops\<rparr>))"

definition link_adapter :: "'p link \<Rightarrow> network \<Rightarrow> http_adapter \<Rightarrow> (nat \<Rightarrow> time) \<Rightarrow> 'p cloud \<Rightarrow> adapter" where
  "link_adapter link network a clock cloud = Push (lk_encode link) (lk_decode link)
     (\<lambda>request. if network = Delivered then Inr (fst (core_answer link clock request cloud)) else Inl ''connection lost'') a"

definition cloud_after_push :: "'p link \<Rightarrow> network \<Rightarrow> http_adapter \<Rightarrow> (nat \<Rightarrow> time) \<Rightarrow> push_request option \<Rightarrow> 'p cloud \<Rightarrow> 'p cloud" where
  "cloud_after_push link network a clock batch cloud = (case batch of None \<Rightarrow> cloud | Some request \<Rightarrow>
     if network = RequestLost \<or> int (length (lk_encode link request)) > maximumProtocolBytes then cloud
     else snd (core_answer link clock (sent_request (lk_encode link) a request) cloud))"

definition sync_round ::
  "'p link \<Rightarrow> network \<Rightarrow> http_adapter \<Rightarrow> (nat \<Rightarrow> time) \<Rightarrow> syncer_config \<Rightarrow> string \<Rightarrow> time \<Rightarrow> db \<times> 'p cloud
    \<Rightarrow> syncer_error option \<times> db \<times> 'p cloud" where
  "sync_round link network a clock config batchID now = (\<lambda>(edge, cloud).
    (let len = (\<lambda>request. length (lk_encode link request));
         (err, edge') = SyncOnce edge_repository (Some (link_adapter link network a clock cloud)) len config batchID now edge
     in (err, edge', cloud_after_push link network a clock (next_batch edge_repository len config batchID now edge) cloud)))"

subsection \<open>The system\<close>

inductive edge_command :: "db \<Rightarrow> db \<Rightarrow> bool" where
  command_create: "edge_command db (snd (Edge_Commands.CreateOrder now newID route hash env input db))"
| command_order: "edge_command db (snd (Edge_Commands.TransitionOrder now route hash k env input' db))"
| command_ticket: "edge_command db (snd (Edge_Commands.TransitionTicket now route hash k env input'' db))"
| command_tickets: "edge_command db (snd (TransitionOrderTickets now route hash k env to' expected db))"
| command_pair: "edge_command db (snd (CreatePairingCode now c role e db))"
| command_exchange: "edge_command db (snd (ExchangePairingCode now c t e db))"
| command_revoke: "edge_command db (snd (RevokeSession now t db))"

text \<open>An edge with its fixed identity and one core: the other edges and users act on the core by its own steps.\<close>

inductive system_step :: "'p link \<Rightarrow> http_adapter \<Rightarrow> syncer_config \<Rightarrow> db \<times> 'p cloud \<Rightarrow> db \<times> 'p cloud \<Rightarrow> bool" for link a config where
  edge_work: "edge_command edge edge' \<Longrightarrow> system_step link a config (edge, cloud) (edge', cloud)"
| cloud_work: "cloud_step (lk_cloud link) cloud cloud' \<Longrightarrow> system_step link a config (edge, cloud) (edge, cloud')"
| round: "system_step link a config (edge, cloud) (snd (sync_round link network a clock config batchID now (edge, cloud)))"

definition system_reachable :: "'p link \<Rightarrow> http_adapter \<Rightarrow> syncer_config \<Rightarrow> db \<times> 'p cloud \<Rightarrow> bool" where
  "system_reachable link a config s \<longleftrightarrow> (\<exists>operational. (system_step link a config)\<^sup>*\<^sup>*
     (empty_db, \<lparr>cl_inbox = [], cl_events = [], cl_checkpoints = [], cl_cases = [], cl_operational = operational\<rparr>) s)"

text \<open>Decoding what was encoded gives nothing else, when it gives something.\<close>

definition faithful_link :: "(string \<Rightarrow> string) \<Rightarrow> 'p link \<Rightarrow> bool" where
  "faithful_link compact link \<longleftrightarrow>
     (\<forall>request batch. yc_batch (lk_codec link) (lk_encode link request) = Inr batch \<longrightarrow> batch = batch_of compact request)
     \<and> (\<forall>batchID rs response. lk_decode link (lk_marshal link (SyncResults batchID rs)) = Inr response \<longrightarrow>
          response = response_of batchID rs)"

subsection \<open>What reaches the core\<close>

context sync_repository
begin

lemma push_batch_answers:
  assumes "inv s" "push_batch repo push request now s = (e, s')" "k \<in> settled s' - settled s"
  shows "\<exists>response. push request = Inr response \<and> (\<exists>r \<in> set (resp_Results response). res_OperationID r = k
    \<and> (res_Status r = PushAccepted \<or> res_Status r = PushDuplicate))"
proof -
  let ?ids = "map op_OperationID (pr_Operations request)"
  have "\<exists>response. push request = Inr response \<and> rp_RecordSyncResults repo s ?ids (resp_Results response) now = Inr s'"
    using assms fail_batch_keeps [OF assms(1)]
    unfolding push_batch_def Let_def by (auto split: sum.splits if_splits option.splits)
  then obtain response where r: "push request = Inr response"
    "rp_RecordSyncResults repo s ?ids (resp_Results response) now = Inr s'" by blast
  from results [OF assms(1) r(2)] assms(3) have "result_state (res_Status (result_for (resp_Results response) k)) = Synchronized" by blast
  from result_for_Synchronized [OF this] r(1) show ?thesis by blast
qed

lemma SyncOnce_next_batch:
  assumes "inv s" "SyncOnce repo (Some push) len config batchID now s = (e, s')" "settled s' \<noteq> settled s"
  shows "\<exists>request. next_batch repo len config batchID now s = Some request \<and> push_batch repo push request now s = (e, s')"
  using assms(2,3) fail_batch_keeps [OF assms(1)]
  unfolding SyncOnce_def next_batch_def by (auto split: sum.splits if_splits option.splits)

end

lemma next_batch_scope:
  assumes "next_batch repo len config batchID now s = Some request" "o' \<in> set (pr_Operations request)"
  shows "env_TenantID (op_Mutation o') = sc_TenantID config \<and> env_ID (op_Mutation o') = op_OperationID o'"
proof -
  from assms have "validateOperationScope config o' = None"
    by (auto simp: next_batch_def scope_loop_None split: sum.splits if_splits)
  then show ?thesis by (simp add: validateOperationScope_None)
qed

lemma Push_answers:
  assumes "Push encode decode send a request = Inr response"
  shows "\<exists>answer. send (sent_request encode a request) = Inr answer \<and> int (length (encode request)) \<le> maximumProtocolBytes
    \<and> 200 \<le> hp_StatusCode answer \<and> hp_StatusCode answer < 300 \<and> decode (hp_Body answer) = Inr response"
  using assms by (auto simp: Push_def sent_request_def Let_def split: if_splits sum.splits)

lemma sync_problem_status: "sync_batch_problem who batch = Some e \<Longrightarrow> er_Status e \<in> {401, 403, 422}"
  by (auto simp: sync_batch_problem_def Let_def core_problem_def split: if_splits option.splits)

lemma sync_problems_fail:
  "handleSyncOperations codec iter apply_operation clock who request s = (SyncProblem e, s') \<Longrightarrow> 400 \<le> er_Status e"
  by (auto simp: handleSyncOperations_def core_problem_def Let_def dest!: sync_problem_status
      split: if_splits option.splits sum.splits prod.splits)

lemma core_answer_results:
  assumes "core_answer link clock request db = (answer, db')" "200 \<le> hp_StatusCode answer" "hp_StatusCode answer < 300"
  shows "\<exists>p batchID rs. hp_Body answer = lk_marshal link (SyncResults batchID rs)
    \<and> handleSyncOperations (lk_codec link) (lk_iter link) (ApplySyncOperation (lk_cloud link)) clock (Some p)
        (core_request_of (lk_certificate link) request) db = (SyncResults batchID rs, db')"
proof -
  let ?h = "\<lambda>p. handleSyncOperations (lk_codec link) (lk_iter link) (ApplySyncOperation (lk_cloud link)) clock (Some p)
        (core_request_of (lk_certificate link) request) db"
  from assms obtain p response where h: "?h p = (response, db')" "answer = \<lparr>hp_StatusCode = sync_status response, hp_Body = lk_marshal link response\<rparr>"
    by (auto simp: core_answer_def Let_def core_problem_def split: sum.splits if_splits prod.splits)
  with assms(2,3) show ?thesis
    by (cases response) (auto dest: sync_problems_fail)
qed

lemma core_answer_steps: "core_answer link clock request db = (answer, db') \<Longrightarrow> (cloud_step (lk_cloud link))\<^sup>*\<^sup>* db db'"
  by (auto simp: core_answer_def Let_def split: sum.splits if_splits prod.splits dest!: handled_steps)

lemma cloud_after_push_steps: "(cloud_step (lk_cloud link))\<^sup>*\<^sup>* db (cloud_after_push link network a clock batch db)"
  by (auto simp: cloud_after_push_def split: option.splits intro: core_answer_steps surjective_pairing)

subsection \<open>Synchronized operations are committed\<close>

definition committed_key :: "'p link \<Rightarrow> syncer_config \<Rightarrow> string \<Rightarrow> string \<times> string" where
  "committed_key link config k = (the (ce_uuid (lk_cloud link) (sc_TenantID config)), the (ce_uuid (lk_cloud link) k))"

lemma operation_key_item:
  "env_TenantID (op_Mutation o') = sc_TenantID config \<Longrightarrow>
   operation_key (lk_cloud link) (plain_operation (item_of compact o')) = committed_key link config (op_OperationID o')"
  by (simp add: operation_key_def op_tenant_def op_key_def plain_operation_def sync_operation_of_def item_of_def metadata_of_def
      committed_key_def)

lemma status_of_settled: "status_of text = PushAccepted \<longleftrightarrow> text = ''ACCEPTED''" "status_of text = PushDuplicate \<longleftrightarrow> text = ''DUPLICATE''"
  by (simp_all add: status_of_def)

definition everything_committed :: "'p link \<Rightarrow> syncer_config \<Rightarrow> db \<Rightarrow> 'p cloud \<Rightarrow> bool" where
  "everything_committed link config edge cloud \<longleftrightarrow> committed_key link config ` synchronized_ids edge \<subseteq> accepted_keys cloud"

lemma round_commits:
  assumes "faithful_link compact link" "edge_ok edge" "sync_round link network a clock config batchID now (edge, cloud) = (e, edge', cloud')"
    and "k \<in> synchronized_ids edge' - synchronized_ids edge"
  shows "committed_key link config k \<in> accepted_keys cloud'"
proof -
  let ?len = "\<lambda>request. length (lk_encode link request)" and ?push = "link_adapter link network a clock cloud"
  from assms(3) have sync: "SyncOnce edge_repository (Some ?push) ?len config batchID now edge = (e, edge')"
    and cloud': "cloud' = cloud_after_push link network a clock (next_batch edge_repository ?len config batchID now edge) cloud"
    by (simp_all add: sync_round_def Let_def split: prod.splits)
  from edge_sync.SyncOnce_next_batch [OF assms(2) sync] assms(4) obtain request where
    next': "next_batch edge_repository ?len config batchID now edge = Some request"
    and pushed: "push_batch edge_repository ?push request now edge = (e, edge')" by blast
  from edge_sync.push_batch_answers [OF assms(2) pushed assms(4)] obtain response r where
    response: "?push request = Inr response" and r: "r \<in> set (resp_Results response)" "res_OperationID r = k"
    "res_Status r = PushAccepted \<or> res_Status r = PushDuplicate" by blast
  let ?sent = "sent_request (lk_encode link) a request"
  obtain answer cloud1 where answer: "core_answer link clock ?sent cloud = (answer, cloud1)" by fastforce
  from Push_answers [OF response [unfolded link_adapter_def]] answer have
    net: "network = Delivered" "int (?len request) \<le> maximumProtocolBytes" "200 \<le> hp_StatusCode answer" "hp_StatusCode answer < 300"
    "lk_decode link (hp_Body answer) = Inr response" by (auto split: if_splits)
  have cloud1: "cloud' = cloud1" using net answer by (simp add: cloud' next' cloud_after_push_def)
  from core_answer_results [OF answer net(3,4)] obtain p batchID' rs where
    body: "hp_Body answer = lk_marshal link (SyncResults batchID' rs)"
    and handled: "handleSyncOperations (lk_codec link) (lk_iter link) (ApplySyncOperation (lk_cloud link)) clock (Some p)
        (core_request_of (lk_certificate link) ?sent) cloud = (SyncResults batchID' rs, cloud1)" by blast
  from handled obtain batch where batch: "yc_batch (lk_codec link) (lk_encode link request) = Inr batch"
    and run: "accept_operations (lk_codec link) (lk_iter link) (ApplySyncOperation (lk_cloud link)) batch clock 0 (sb_Operations batch) cloud
      = (rs, cloud1)"
    by (rule cloud_store.handled_results) (simp add: core_request_of_def sent_request_def)
  have wire: "batch = batch_of compact request" "response = response_of batchID' rs"
    using assms(1) batch net(5) body unfolding faithful_link_def by metis+
  from r wire(2) obtain r' where r': "r' \<in> set rs" "sr_OperationID r' = k" "sr_Status r' = ''ACCEPTED'' \<or> sr_Status r' = ''DUPLICATE''"
    by (auto simp: response_of_def result_of_def status_of_settled)
  with cloud_store.accept_operations_results [OF run] obtain item where item: "item \<in> set (sb_Operations batch)" "sn_OperationID item = k"
    "operation_key (lk_cloud link) (plain_operation item) \<in> accepted_keys cloud1" by blast
  with wire(1) obtain o' where o': "o' \<in> set (pr_Operations request)" "item = item_of compact o'" by (auto simp: batch_of_def)
  with next_batch_scope [OF next' o'(1)] operation_key_item item show ?thesis unfolding cloud1
    by (metis item_of_def sync_item.select_convs(1))
qed

lemma commits_synchronized:
  assumes "commits db db'"
  shows "synchronized_ids db' = synchronized_ids db"
proof -
  from assms consider "db_outbox db' = db_outbox db" | ob where "db_outbox db' = db_outbox db @ [ob]" "ob_state ob = Pending"
    unfolding commits_def outbox_grows_def by blast
  then show ?thesis by cases (auto simp: synchronized_ids_def)
qed

lemma pairing_synchronized: "db_outbox db' = db_outbox db \<Longrightarrow> synchronized_ids db' = synchronized_ids db"
  by (simp add: synchronized_ids_def)

lemma edge_command_keeps: "edge_command db db' \<Longrightarrow> edge_ok db \<Longrightarrow> edge_ok db' \<and> synchronized_ids db' = synchronized_ids db"
proof (induction rule: edge_command.induct)
  case (command_create db now newID route hash env input)
  with CreateOrder_step commits_synchronized show ?case by blast
next
  case (command_order db now route hash k env input')
  with TransitionOrder_step commits_synchronized show ?case by blast
next
  case (command_ticket db now route hash k env input'')
  with TransitionTicket_step commits_synchronized show ?case by blast
next
  case (command_tickets db now route hash k env to' expected)
  with TransitionOrderTickets_step commits_synchronized show ?case by blast
next
  case (command_pair db now c role e)
  with only_delivery_ok [OF delivery_steps(3)] pairing_synchronized pairing_outbox(1) show ?case by metis
next
  case (command_exchange db now c t e)
  with only_delivery_ok [OF delivery_steps(4)] pairing_synchronized pairing_outbox(2) show ?case by metis
next
  case (command_revoke db now t)
  with only_delivery_ok [OF delivery_steps(5)] pairing_synchronized pairing_outbox(3) show ?case by metis
qed

lemma accepted_keys_steps: "(cloud_step env)\<^sup>*\<^sup>* db db' \<Longrightarrow> accepted_keys db \<subseteq> accepted_keys db'"
proof (induction rule: rtranclp_induct)
  case (step y z)
  from step(2) have "accepted_keys y \<subseteq> accepted_keys z"
    by cases (auto simp: accepted_keys_def [of "_\<lparr>cl_operational := _\<rparr>"] simp flip: accepted_keys_def dest: apply_keeps_keys)
  with step show ?case by blast
qed simp

definition system_ok :: "'p link \<Rightarrow> syncer_config \<Rightarrow> db \<times> 'p cloud \<Rightarrow> bool" where
  "system_ok link config s \<longleftrightarrow> edge_ok (fst s) \<and> cloud_ok (snd s) \<and> everything_committed link config (fst s) (snd s)"

lemma system_step_ok:
  assumes "faithful_link compact link" "system_step link a config s s'" "system_ok link config s"
  shows "system_ok link config s'"
  using assms(2,3)
proof (induction rule: system_step.induct)
  case (edge_work edge edge' cloud)
  with edge_command_keeps show ?case by (simp add: system_ok_def everything_committed_def)
next
  case (cloud_work cloud cloud' edge)
  with cloud_step_ok accepted_keys_steps [OF r_into_rtranclp] show ?case
    by (fastforce simp: system_ok_def everything_committed_def)
next
  case (round edge cloud network clock batchID now)
  obtain e edge' cloud' where run: "sync_round link network a clock config batchID now (edge, cloud) = (e, edge', cloud')"
    by (metis prod_cases3)
  then have sync: "SyncOnce edge_repository (Some (link_adapter link network a clock cloud)) (\<lambda>request. length (lk_encode link request))
      config batchID now edge = (e, edge')"
    and cloud': "(cloud_step (lk_cloud link))\<^sup>*\<^sup>* cloud cloud'"
    using cloud_after_push_steps by (auto simp: sync_round_def Let_def split: prod.splits)
  from round have ok: "edge_ok edge" "cloud_ok cloud" and old: "committed_key link config ` synchronized_ids edge \<subseteq> accepted_keys cloud"
    by (simp_all add: system_ok_def everything_committed_def)
  have "committed_key link config k \<in> accepted_keys cloud'" if "k \<in> synchronized_ids edge'" for k
    using round_commits [OF assms(1) ok(1) run, of k] that old accepted_keys_steps [OF cloud'] by blast
  moreover have "edge_ok edge'" using edge_sync.SyncOnce_settles [OF ok(1) sync] by blast
  moreover have "cloud_ok cloud'" using cloud_steps_ok [OF cloud' ok(2)] .
  ultimately show ?case unfolding run by (auto simp: system_ok_def everything_committed_def)
qed

lemma system_reachable_ok:
  assumes "faithful_link compact link" "system_reachable link a config s"
  shows "system_ok link config s"
proof -
  from assms(2) obtain operational where
    "(system_step link a config)\<^sup>*\<^sup>* (empty_db, \<lparr>cl_inbox = [], cl_events = [], cl_checkpoints = [], cl_cases = [], cl_operational = operational\<rparr>) s"
    by (auto simp: system_reachable_def)
  then show ?thesis
  proof (induction rule: rtranclp_induct)
    case base
    have "cloud_reachable (lk_cloud link) \<lparr>cl_inbox = [], cl_events = [], cl_checkpoints = [], cl_cases = [], cl_operational = operational\<rparr>"
      unfolding cloud_reachable_def by blast
    then show ?case
      using edge_ok_empty cloud_reachable_ok by (auto simp: system_ok_def everything_committed_def synchronized_ids_def empty_db_def)
  next
    case (step y z)
    with system_step_ok [OF assms(1)] show ?case by blast
  qed
qed

lemma distinct_once: "distinct xs \<Longrightarrow> x \<in> set xs \<Longrightarrow> length (filter (\<lambda>y. y = x) xs) = 1"
  by (induction xs) (auto simp: filter_empty_conv)

text \<open>
  C1: what the edge counts as synchronized is in the core's event log, once. Whatever the edge and the core do in
  between and whichever requests and answers the network loses, every synchronized operation of the edge has exactly one
  event in the log under its tenant.
\<close>

theorem synchronized_operations_are_committed:
  assumes "faithful_link compact link" "system_reachable link a config (edge, cloud)" "k \<in> synchronized_ids edge"
  shows "length (filter (\<lambda>e. event_key e = committed_key link config k) (cl_events cloud)) = 1"
proof -
  from system_reachable_ok [OF assms(1,2)] have ok: "cloud_ok cloud" "committed_key link config ` synchronized_ids edge \<subseteq> accepted_keys cloud"
    by (simp_all add: system_ok_def everything_committed_def)
  with assms(3) have mem: "committed_key link config k \<in> set (map event_key (cl_events cloud))"
    by (auto simp: accepted_keys_events)
  from ok(1) have "distinct (map event_key (cl_events cloud))" by (auto simp: cloud_ok_def distinct_map_filter)
  from distinct_once [OF this mem] show ?thesis by (simp add: filter_map o_def)
qed

text \<open>The operation of the sample order, pushed once.\<close>

definition wire_request :: push_request where
  "wire_request = \<lparr>pr_BatchID = ''batch'', pr_EdgeID = ''edge-1'', pr_OutletID = ''outlet-a'',
     pr_Operations = [Edge_Sync_Properties.sample_operation]\<rparr>"

definition wire_results :: "sync_result list" where
  "wire_results = [\<lparr>sr_OperationID = sample_id ''e1'', sr_Status = ''ACCEPTED'', sr_ProblemCode = [], sr_RetryAfterSeconds = 0\<rparr>]"

definition wire_principal :: principal where
  "wire_principal = \<lparr>p_TenantID = ''tenant-a'', p_ActorID = ''edge:edge-1'', p_Roles = [''edge''], p_OutletIDs = [''outlet-a''],
     p_Kind = ''device'', p_DeviceID = ''till-1''\<rparr>"

definition wire_codec :: sync_codec where
  "wire_codec = \<lparr>yc_media_type = Some, yc_batch = (\<lambda>body. if body = ''{}'' then Inr (batch_of id wire_request) else Inl ''malformed''),
     yc_operation = (\<lambda>i. Some []), yc_mutation = (\<lambda>m. Some []), yc_sha256 = (\<lambda>t. [1]), yc_valid = (\<lambda>t. True)\<rparr>"

definition wire_link :: "string list link" where
  "wire_link = \<lparr>lk_encode = (\<lambda>request. if request = wire_request then ''{}'' else ''?''),
     lk_decode = (\<lambda>body. if body = ''ok'' then Inr (response_of ''batch'' wire_results) else Inl ''malformed''),
     lk_marshal = (\<lambda>r. if r = SyncResults ''batch'' wire_results then ''ok'' else ''problem''),
     lk_codec = wire_codec, lk_iter = (\<lambda>n. [0..<n]), lk_cloud = sample_cloud_env,
     lk_authenticate = (\<lambda>r. Inr wire_principal), lk_certificate = None\<rparr>"

definition wire_adapter :: http_adapter where
  "wire_adapter = \<lparr>ha_endpoint = ''https://core'', ha_bearerToken = [], ha_tenantID = ''tenant-a'', ha_actorID = ''edge:edge-1'',
     ha_maxResponse = 1000\<rparr>"

definition wire_round :: "syncer_error option \<times> db \<times> string list cloud" where
  "wire_round = sync_round wire_link Delivered wire_adapter (\<lambda>i. sample_time) sample_config ''batch'' sample_time (created_db, empty_cloud)"

lemma wire_faithful: "faithful_link id wire_link"
  by (simp add: faithful_link_def wire_link_def wire_codec_def)

lemma wire_next: "next_batch edge_repository (\<lambda>request. length (lk_encode wire_link request)) sample_config ''batch'' sample_time created_db
    = Some wire_request"
  by (simp add: next_batch_def evaluate_sync sample_created wire_link_def wire_request_def Edge_Sync_Properties.sample_operation_def)

lemma wire_valid: "validateSyncOperation wire_codec (\<lambda>n. [0..<n]) (batch_of id wire_request) (item_of id Edge_Sync_Properties.sample_operation) = []"
  by code_simp

lemma wire_admitted: "sync_batch_problem (Some wire_principal) (batch_of id wire_request) = None"
  by code_simp

lemma wire_authorized: "routeAuthorized wire_principal (core_request_of None (sent_request encode a request))"
  by (simp add: routeAuthorized_def core_request_of_def wire_principal_def HasRole_def)

lemma wire_applied: "\<exists>db. ApplySyncOperation sample_cloud_env (sync_operation_of (batch_of id wire_request)
    (item_of id Edge_Sync_Properties.sample_operation) [1] [] sample_time) empty_cloud = (Inr (SyncAccepted, []), db)"
  by (simp add: apply_defs sample_cloud_env_def empty_cloud_def sync_operation_of_def batch_of_def item_of_def metadata_of_def
      Edge_Sync_Properties.sample_operation_def sample_envelope_def wire_request_def)

lemma wire_answered: "fst (core_answer wire_link (\<lambda>i. sample_time) (sent_request (lk_encode wire_link) wire_adapter wire_request) empty_cloud)
    = \<lparr>hp_StatusCode = 200, hp_Body = ''ok''\<rparr>"
proof -
  obtain db where "ApplySyncOperation sample_cloud_env (sync_operation_of (batch_of id wire_request)
    (item_of id Edge_Sync_Properties.sample_operation) [1] [] sample_time) empty_cloud = (Inr (SyncAccepted, []), db)"
    using wire_applied by blast
  moreover have "sb_Operations (batch_of id wire_request) = [item_of id Edge_Sync_Properties.sample_operation]"
    "sb_BatchID (batch_of id wire_request) = ''batch''"
    "sn_OperationID (item_of id Edge_Sync_Properties.sample_operation) = sample_id ''e1''"
    by (simp_all add: batch_of_def wire_request_def item_of_def Edge_Sync_Properties.sample_operation_def)
  moreover have "yc_batch wire_codec ''{}'' = Inr (batch_of id wire_request)" "yc_operation wire_codec i = Some []"
    "yc_mutation wire_codec m = Some []" "yc_sha256 wire_codec [] = [1]" "yc_media_type wire_codec v = Some v" for i m v
    by (simp_all add: wire_codec_def)
  moreover have "lk_codec wire_link = wire_codec" "lk_iter wire_link = (\<lambda>n. [0..<n])" "lk_cloud wire_link = sample_cloud_env"
    "lk_authenticate wire_link r = Inr wire_principal" "lk_encode wire_link wire_request = ''{}''" "lk_certificate wire_link = None"
    "lk_marshal wire_link (SyncResults ''batch'' wire_results) = ''ok''" for r
    by (simp_all add: wire_link_def)
  moreover have "p_TenantID wire_principal \<noteq> []" "p_ActorID wire_principal \<noteq> []" by (simp_all add: wire_principal_def)
  moreover have "cr_Body (core_request_of None (sent_request encode a b)) = Some (encode b)"
    "cr_Header (core_request_of None (sent_request encode a b)) ''Content-Type'' = ''application/json''" for encode a b
    by (simp_all add: core_request_of_def sent_request_def)
  ultimately show ?thesis
    using wire_valid wire_admitted
    by (simp add: core_answer_def Let_def wire_authorized handleSyncOperations_def acceptSyncOperation_def sync_answer_def
        maxSyncBodyBytes_def wire_results_def)
qed

lemma wire_pushed: "link_adapter wire_link Delivered wire_adapter (\<lambda>i. sample_time) empty_cloud wire_request
    = Inr (response_of ''batch'' wire_results)"
  using wire_answered
  by (simp add: link_adapter_def Push_def Let_def sent_request_def maximumProtocolBytes_def wire_adapter_def)
    (simp add: wire_link_def)

lemma SyncOnce_pushes: "next_batch repo len config batchID now s = Some request \<Longrightarrow>
    SyncOnce repo (Some push) len config batchID now s = push_batch repo push request now s"
  by (auto simp: next_batch_def SyncOnce_def split: sum.splits if_splits option.splits)

lemma wire_synchronized: "sample_id ''e1'' \<in> synchronized_ids (fst (snd wire_round))"
proof -
  let ?push = "link_adapter wire_link Delivered wire_adapter (\<lambda>i. sample_time) empty_cloud"
  have request: "map op_OperationID (pr_Operations wire_request) = [sample_id ''e1'']" "pr_BatchID wire_request = ''batch''"
    by (simp_all add: wire_request_def Edge_Sync_Properties.sample_operation_def)
  have response: "resp_BatchID (response_of ''batch'' wire_results) = ''batch''"
    "resp_Results (response_of ''batch'' wire_results) = [\<lparr>res_OperationID = sample_id ''e1'', res_Status = PushAccepted,
      res_ProblemCode = [], res_RetryAfterSeconds = 0\<rparr>]"
    by (simp_all add: response_of_def wire_results_def result_of_def status_of_settled(1) [THEN iffD2])
  have "snd (push_batch edge_repository ?push wire_request sample_time created_db) = RecordSyncResults [sample_id ''e1'']
      [\<lparr>res_OperationID = sample_id ''e1'', res_Status = PushAccepted, res_ProblemCode = [], res_RetryAfterSeconds = 0\<rparr>]
      sample_time created_db"
    by (simp add: push_batch_def Let_def wire_pushed request response validateResults_def edge_repository_def)
  then have "fst (snd wire_round) = RecordSyncResults [sample_id ''e1'']
      [\<lparr>res_OperationID = sample_id ''e1'', res_Status = PushAccepted, res_ProblemCode = [], res_RetryAfterSeconds = 0\<rparr>]
      sample_time created_db"
    by (simp add: wire_round_def sync_round_def SyncOnce_pushes [OF wire_next] case_prod_beta)
  then show ?thesis
    by (simp add: synchronized_results) (simp add: sample_created outbox_row_of_def result_for_def result_state_def)
qed

lemma wire_reachable: "system_reachable wire_link wire_adapter sample_config (snd wire_round)"
proof -
  let ?step = "system_step wire_link wire_adapter sample_config"
  have "?step (empty_db, empty_cloud) (created_db, empty_cloud)"
    unfolding created_db_def Edge_Sample.sample_create_def by (rule edge_work [OF command_create])
  moreover have "?step (created_db, empty_cloud) (snd wire_round)" unfolding wire_round_def by (rule round)
  ultimately have "?step\<^sup>*\<^sup>* (empty_db, empty_cloud) (snd wire_round)" by (meson converse_rtranclp_into_rtranclp r_into_rtranclp)
  then show ?thesis unfolding system_reachable_def empty_cloud_def by blast
qed

lemma synchronized_operations_are_committed_witness:
  "length (filter (\<lambda>e. event_key e = (''tenant-a'', sample_id ''e1'')) (cl_events (snd (snd wire_round)))) = 1"
  using synchronized_operations_are_committed [OF wire_faithful, of wire_adapter sample_config "fst (snd wire_round)"
      "snd (snd wire_round)" "sample_id ''e1''"] wire_reachable wire_synchronized
  by (simp add: committed_key_def) (simp add: wire_link_def sample_cloud_env_def sample_config_def)

end
