(* ===== verification/Core_Commerce_Api.thy ===== *)
theory Core_Commerce_Api
  imports Core_Routes Core_Commerce
begin

text \<open>
  The commerce endpoints, \<open>services/core/internal/api/commerce.go\<close> and the tender endpoints of
  \<open>api/guest_growth.go\<close>, over the database: the bodies and their checks, the mutations, the queries, the
  routes. The server is built with a repository that has the commerce operations; without one the
  availability and the table transition answer that it is missing, while the other handlers call a
  repository that is not there.
\<close>

subsection \<open>Bodies\<close>

record availability_input =
  vi_MenuItemID :: string
  vi_Available :: bool
  vi_Reason :: string

definition availabilityInput_validate :: "availability_input \<Rightarrow> string option" where
  "availabilityInput_validate v =
    (if \<not> ValidUUID (vi_MenuItemID v) \<or> length (vi_Reason v) > 300 then Some ''availability is invalid''
     else if \<not> vi_Available v \<and> TrimSpace (vi_Reason v) = [] then Some ''reason is required when unavailable''
     else None)"

record table_input =
  ni_ID :: string
  ni_OutletID :: string
  ni_Label :: string
  ni_Section :: string
  ni_Capacity :: int

definition tableInput_validate :: "table_input \<Rightarrow> string option" where
  "tableInput_validate v =
    (if \<not> ValidUUID (ni_ID v) \<or> \<not> ValidUUID (ni_OutletID v) \<or> TrimSpace (ni_Label v) = [] \<or> ni_Capacity v < 1
     then Some ''table is invalid'' else None)"

record table_transition_input =
  nt_Status :: string
  nt_ExpectedVersion :: nat

definition tableTransitionInput_validate :: "table_transition_input \<Rightarrow> string option" where
  "tableTransitionInput_validate v =
    (if nt_Status v \<noteq> ''available'' \<and> nt_Status v \<noteq> ''disabled'' \<or> nt_ExpectedVersion v < 1
     then Some ''table transition is invalid'' else None)"

record session_input =
  ei_ID :: string
  ei_OutletID :: string
  ei_TableID :: string
  ei_GuestCount :: int
  ei_GuestName :: string

definition sessionInput_validate :: "session_input \<Rightarrow> string option" where
  "sessionInput_validate v =
    (if \<not> ValidUUID (ei_ID v) \<or> \<not> ValidUUID (ei_OutletID v) \<or> \<not> ValidUUID (ei_TableID v) \<or> ei_GuestCount v < 1
     then Some ''session is invalid'' else None)"

record version_input =
  wi_ExpectedVersion :: nat
  wi_ClosingCountMinor :: int

definition close_session_validate :: "version_input \<Rightarrow> string option" where
  "close_session_validate v = (if wi_ExpectedVersion v < 1 then Some ''expectedVersion is invalid'' else None)"

definition close_cash_validate :: "version_input \<Rightarrow> string option" where
  "close_cash_validate v =
    (if wi_ExpectedVersion v < 1 \<or> wi_ClosingCountMinor v < 0 then Some ''closing count is invalid'' else None)"

record cash_input =
  hi_ID :: string
  hi_OutletID :: string
  hi_RegisterLabel :: string
  hi_OpeningFloatMinor :: int

definition cashInput_validate :: "cash_input \<Rightarrow> string option" where
  "cashInput_validate v =
    (if \<not> ValidUUID (hi_ID v) \<or> \<not> ValidUUID (hi_OutletID v) \<or> TrimSpace (hi_RegisterLabel v) = [] \<or> hi_OpeningFloatMinor v < 0
     then Some ''cash shift is invalid'' else None)"

record tender_input =
  pi_ID :: string
  pi_OutletID :: string
  pi_OrderID :: string
  pi_CashShiftID :: string
  pi_TenderType :: string
  pi_AmountMinor :: int
  pi_ProviderReference :: string
  pi_ReceiptID :: string
  pi_ReceiptNumber :: string

definition tenderInput_validate :: "tender_input \<Rightarrow> string option" where
  "tenderInput_validate v =
    (if \<not> ValidUUID (pi_ID v) \<or> \<not> ValidUUID (pi_OutletID v) \<or> \<not> ValidUUID (pi_OrderID v) \<or> \<not> ValidUUID (pi_ReceiptID v)
        \<or> pi_AmountMinor v < 1 then Some ''tender is invalid''
     else if pi_TenderType v \<noteq> ''cash'' \<and> pi_TenderType v \<noteq> ''upi'' \<and> pi_TenderType v \<noteq> ''card_terminal''
        \<and> pi_TenderType v \<noteq> ''external'' then Some ''tender type is invalid''
     else if pi_TenderType v = ''cash'' \<and> \<not> ValidUUID (pi_CashShiftID v) then Some ''cash shift is required''
     else None)"

record reverse_tender_input =
  qi_ID :: string
  qi_AmountMinor :: int
  qi_CashShiftID :: string
  qi_ProviderReference :: string

definition reverseTenderInput_validate :: "reverse_tender_input \<Rightarrow> string option" where
  "reverseTenderInput_validate v =
    (if \<not> ValidUUID (qi_ID v) \<or> qi_AmountMinor v < 1 then Some ''refund is invalid'' else None)"

text \<open>\<open>time.Parse\<close> with the layout \<open>2006-01-02\<close>.\<close>

definition parseDate :: "string \<Rightarrow> bool" where
  "parseDate s \<longleftrightarrow> length s = 10 \<and> s ! 4 = CHR ''-'' \<and> s ! 7 = CHR ''-''
     \<and> (case (read_at 0 4 s, read_at 5 2 s, read_at 8 2 s) of
          (Some y, Some m, Some d) \<Rightarrow> 1 \<le> m \<and> m \<le> 12 \<and> 1 \<le> d \<and> d \<le> month_lengths (leap_year y) ! (m - 1)
        | _ \<Rightarrow> False)"

definition settlementInput_validate :: "string \<Rightarrow> string option" where
  "settlementInput_validate businessDate = (if \<not> parseDate businessDate then Some ''businessDate is invalid'' else None)"

text \<open>The decoders of the bodies, and what the statements take from the database.\<close>

record commerce_env =
  cv_availability :: "string \<Rightarrow> string + availability_input"
  cv_table :: "string \<Rightarrow> string + table_input"
  cv_table_transition :: "string \<Rightarrow> string + table_transition_input"
  cv_session :: "string \<Rightarrow> string + session_input"
  cv_version :: "string \<Rightarrow> string + version_input"
  cv_cash :: "string \<Rightarrow> string + cash_input"
  cv_tender :: "string \<Rightarrow> string + tender_input"
  cv_reverse :: "string \<Rightarrow> string + reverse_tender_input"
  cv_settlement :: "string \<Rightarrow> string + string"
  cv_sha256 :: "string \<Rightarrow> 8 word list"
  cv_collate :: "string \<Rightarrow> string"
  cv_business_date :: "time \<Rightarrow> string"

subsection \<open>Mutations\<close>

type_synonym commerce_operation = "commerce_db mutation_operation"

definition set_availability :: "core_codec \<Rightarrow> commerce_env \<Rightarrow> core_surroundings \<Rightarrow> commerce_operation" where
  "set_availability codec env sv metadata payload s =
    (case decodeAndValidate codec (cv_availability env) availabilityInput_validate payload of
       Inl result \<Rightarrow> (result, s)
     | Inr input \<Rightarrow> commit_mutation codec
         (newAuditEvent (sv_Random sv 0) metadata ''menu.availability_changed'' ''menu_item'' (vi_MenuItemID input) (sv_Now sv))
         (SetMenuAvailability (sv_Context sv) (mm_TenantID metadata) (mm_OutletID metadata)
           \<lparr>ma_MenuItemID = vi_MenuItemID input, ma_MenuItemName = [], ma_Available = vi_Available input,
             ma_Reason = TrimSpace (vi_Reason input), ma_Version = 0, ma_UpdatedAt = 0\<rparr>)
         (\<lambda>v. successResult codec 200 (AvailabilityData v) []) s)"

definition create_table :: "core_codec \<Rightarrow> commerce_env \<Rightarrow> core_surroundings \<Rightarrow> commerce_operation" where
  "create_table codec env sv metadata payload s =
    (case decodeAndValidate codec (cv_table env) tableInput_validate payload of
       Inl result \<Rightarrow> (result, s)
     | Inr input \<Rightarrow>
        if ni_OutletID input \<noteq> mm_OutletID metadata then (outletScopeMismatch codec, s)
        else let v = \<lparr>dt_ID = ni_ID input, dt_TenantID = mm_TenantID metadata, dt_OutletID = mm_OutletID metadata,
            dt_Label = TrimSpace (ni_Label input), dt_Section = TrimSpace (ni_Section input), dt_Capacity = ni_Capacity input,
            dt_Status = ''available'', dt_Version = 1, dt_CreatedAt = sv_Now sv, dt_UpdatedAt = sv_Now sv\<rparr>
          in commit_mutation codec
            (newAuditEvent (sv_Random sv 0) metadata ''dining_table.created'' ''dining_table'' (dt_ID v) (sv_Now sv))
            (CreateDiningTable (sv_Context sv) v)
            (\<lambda>_. successResult codec 201 (TableData v) (''/api/v1/dining-tables/'' @ dt_ID v)) s)"

definition transition_table :: "core_codec \<Rightarrow> commerce_env \<Rightarrow> core_surroundings \<Rightarrow> string \<Rightarrow> commerce_operation" where
  "transition_table codec env sv id' metadata payload s =
    (case decodeAndValidate codec (cv_table_transition env) tableTransitionInput_validate payload of
       Inl result \<Rightarrow> (result, s)
     | Inr input \<Rightarrow> commit_mutation codec
         (newAuditEvent (sv_Random sv 0) metadata ''dining_table.status_changed'' ''dining_table'' id' (sv_Now sv))
         (TransitionDiningTable (sv_Context sv) (mm_TenantID metadata) (mm_OutletID metadata) id' (nt_Status input) (nt_ExpectedVersion input))
         (\<lambda>v. successResult codec 200 (TableData v) []) s)"

definition open_session :: "core_codec \<Rightarrow> commerce_env \<Rightarrow> core_surroundings \<Rightarrow> commerce_operation" where
  "open_session codec env sv metadata payload s =
    (case decodeAndValidate codec (cv_session env) sessionInput_validate payload of
       Inl result \<Rightarrow> (result, s)
     | Inr input \<Rightarrow>
        if ei_OutletID input \<noteq> mm_OutletID metadata then (outletScopeMismatch codec, s)
        else let v = \<lparr>ds_ID = ei_ID input, ds_TenantID = mm_TenantID metadata, ds_OutletID = mm_OutletID metadata,
            ds_TableID = ei_TableID input, ds_TableLabel = [], ds_Status = ''open'', ds_GuestCount = ei_GuestCount input,
            ds_GuestName = TrimSpace (ei_GuestName input), ds_OpenedAt = sv_Now sv, ds_ClosedAt = None, ds_Version = 1\<rparr>
          in commit_mutation codec
            (newAuditEvent (sv_Random sv 0) metadata ''dining_session.opened'' ''dining_session'' (ds_ID v) (sv_Now sv))
            (OpenDiningSession (sv_Context sv) v)
            (\<lambda>v. successResult codec 201 (SessionData v) (''/api/v1/dining-sessions/'' @ ds_ID v)) s)"

definition close_session :: "core_codec \<Rightarrow> commerce_env \<Rightarrow> core_surroundings \<Rightarrow> string \<Rightarrow> commerce_operation" where
  "close_session codec env sv id' metadata payload s =
    (case decodeAndValidate codec (cv_version env) close_session_validate payload of
       Inl result \<Rightarrow> (result, s)
     | Inr input \<Rightarrow> commit_mutation codec
         (newAuditEvent (sv_Random sv 0) metadata ''dining_session.closed'' ''dining_session'' id' (sv_Now sv))
         (CloseDiningSession (sv_Context sv) (mm_TenantID metadata) (mm_OutletID metadata) id' (wi_ExpectedVersion input))
         (\<lambda>v. successResult codec 200 (SessionData v) []) s)"

definition open_cash :: "core_codec \<Rightarrow> commerce_env \<Rightarrow> core_surroundings \<Rightarrow> commerce_operation" where
  "open_cash codec env sv metadata payload s =
    (case decodeAndValidate codec (cv_cash env) cashInput_validate payload of
       Inl result \<Rightarrow> (result, s)
     | Inr input \<Rightarrow>
        if hi_OutletID input \<noteq> mm_OutletID metadata then (outletScopeMismatch codec, s)
        else let v = \<lparr>cs_ID = hi_ID input, cs_TenantID = mm_TenantID metadata, cs_OutletID = mm_OutletID metadata,
            cs_RegisterLabel = hi_RegisterLabel input, cs_Status = ''open'', cs_OpeningFloatMinor = hi_OpeningFloatMinor input,
            cs_ExpectedCashMinor = hi_OpeningFloatMinor input, cs_ClosingCountMinor = None, cs_VarianceMinor = None,
            cs_OpenedAt = sv_Now sv, cs_ClosedAt = None, cs_Version = 1\<rparr>
          in commit_mutation codec
            (newAuditEvent (sv_Random sv 0) metadata ''cash_shift.opened'' ''cash_shift'' (cs_ID v) (sv_Now sv))
            (OpenCashShift (sv_Context sv) v)
            (\<lambda>_. successResult codec 201 (ShiftData v) (''/api/v1/cash-shifts/'' @ cs_ID v)) s)"

definition close_cash :: "core_codec \<Rightarrow> commerce_env \<Rightarrow> core_surroundings \<Rightarrow> string \<Rightarrow> commerce_operation" where
  "close_cash codec env sv id' metadata payload s =
    (case decodeAndValidate codec (cv_version env) close_cash_validate payload of
       Inl result \<Rightarrow> (result, s)
     | Inr input \<Rightarrow> commit_mutation codec
         (newAuditEvent (sv_Random sv 0) metadata ''cash_shift.closed'' ''cash_shift'' id' (sv_Now sv))
         (CloseCashShift (sv_Context sv) (mm_TenantID metadata) (mm_OutletID metadata) id' (wi_ExpectedVersion input) (wi_ClosingCountMinor input))
         (\<lambda>v. successResult codec 200 (ShiftData v) []) s)"

definition tender_of :: "core_surroundings \<Rightarrow> mutation_metadata \<Rightarrow> tender_input \<Rightarrow> tender" where
  "tender_of sv metadata input = \<lparr>td_ID = pi_ID input, td_TenantID = mm_TenantID metadata, td_OutletID = mm_OutletID metadata,
     td_OrderID = pi_OrderID input, td_CashShiftID = pi_CashShiftID input, td_TenderType = pi_TenderType input,
     td_AmountMinor = pi_AmountMinor input, td_Currency = ''INR'', td_ProviderReference = TrimSpace (pi_ProviderReference input),
     td_Status = ''captured'', td_ReversesTenderID = [], td_OccurredAt = sv_Now sv\<rparr>"

definition receipt_of :: "core_surroundings \<Rightarrow> tender_input \<Rightarrow> fiscal_receipt" where
  "receipt_of sv input = \<lparr>fr_ID = pi_ReceiptID input, fr_OrderID = pi_OrderID input, fr_ReceiptNumber = pi_ReceiptNumber input,
     fr_Currency = [], fr_SubtotalMinor = 0, fr_DiscountMinor = 0, fr_TaxMinor = 0, fr_ServiceChargeMinor = 0, fr_TotalMinor = 0,
     fr_IssuedAt = sv_Now sv\<rparr>"

definition capture_payment :: "core_codec \<Rightarrow> commerce_env \<Rightarrow> core_surroundings \<Rightarrow> commerce_operation" where
  "capture_payment codec env sv metadata payload s =
    (case decodeAndValidate codec (cv_tender env) tenderInput_validate payload of
       Inl result \<Rightarrow> (result, s)
     | Inr input \<Rightarrow>
        if pi_OutletID input \<noteq> mm_OutletID metadata then (outletScopeMismatch codec, s)
        else commit_mutation codec
          (newAuditEvent (sv_Random sv 0) metadata ''tender.captured'' ''tender'' (pi_ID input) (sv_Now sv))
          (CaptureTender (cv_sha256 env) (sv_Context sv) (tender_of sv metadata input) (receipt_of sv input))
          (\<lambda>(v, issued). successResult codec 201 (CaptureData v issued) []) s)"

definition refund_of :: "core_surroundings \<Rightarrow> mutation_metadata \<Rightarrow> string \<Rightarrow> reverse_tender_input \<Rightarrow> tender" where
  "refund_of sv metadata original input = \<lparr>td_ID = qi_ID input, td_TenantID = mm_TenantID metadata,
     td_OutletID = mm_OutletID metadata, td_OrderID = [], td_CashShiftID = qi_CashShiftID input, td_TenderType = [],
     td_AmountMinor = qi_AmountMinor input, td_Currency = [], td_ProviderReference = TrimSpace (qi_ProviderReference input),
     td_Status = ''reversed'', td_ReversesTenderID = original, td_OccurredAt = sv_Now sv\<rparr>"

definition reverse_payment :: "core_codec \<Rightarrow> commerce_env \<Rightarrow> core_surroundings \<Rightarrow> string \<Rightarrow> commerce_operation" where
  "reverse_payment codec env sv original metadata payload s =
    (case decodeAndValidate codec (cv_reverse env) reverseTenderInput_validate payload of
       Inl result \<Rightarrow> (result, s)
     | Inr input \<Rightarrow> commit_mutation codec
         (newAuditEvent (sv_Random sv 0) metadata ''tender.reversed'' ''tender'' (qi_ID input) (sv_Now sv))
         (ReverseTender (cv_sha256 env) (sv_Context sv) (refund_of sv metadata original input))
         (\<lambda>v. successResult codec 201 (TenderData v) []) s)"

definition settle_day :: "core_codec \<Rightarrow> commerce_env \<Rightarrow> core_surroundings \<Rightarrow> commerce_operation" where
  "settle_day codec env sv metadata payload s =
    (case decodeAndValidate codec (cv_settlement env) settlementInput_validate payload of
       Inl result \<Rightarrow> (result, s)
     | Inr businessDate \<Rightarrow> commit_mutation codec
         (newAuditEvent (sv_Random sv 0) metadata ''settlement.generated'' ''tender_settlement'' (mm_ID metadata) (sv_Now sv))
         (GenerateSettlements (cv_sha256 env) (cv_business_date env) (sv_Context sv) (mm_TenantID metadata) (mm_OutletID metadata) businessDate)
         (\<lambda>vs. successResult codec 201 (SettlementsData vs) []) s)"

subsection \<open>Queries\<close>

definition readOutlet :: "principal option \<Rightarrow> core_request \<Rightarrow> core_error + string \<times> string" where
  "readOutlet who request =
    rbind (requireTenantID who request) (\<lambda>tenant.
      let outlet = cr_Query request ''outletId'' in
      if \<not> ValidUUID outlet then Inl (core_problem 422 ''invalid_outlet_id'' ''outletId must be a UUID string'')
      else if (case who of None \<Rightarrow> False | Some p \<Rightarrow> \<not> AllowsOutlet p outlet)
      then Inl (core_problem 403 ''outlet_permission_denied'' ''the authenticated principal is not assigned to this outlet'')
      else Inr (tenant, outlet))"

definition writeData :: "string \<Rightarrow> int \<Rightarrow> core_data \<Rightarrow> core_response" where
  "writeData requestID status data = \<lparr>re_Status = status, re_Headers = [], re_Body = DataBody data requestID False\<rparr>"

definition read_at_outlet ::
  "core_surroundings \<Rightarrow> principal option \<Rightarrow> core_request \<Rightarrow> (string \<Rightarrow> string \<Rightarrow> core_data) \<Rightarrow> core_response" where
  "read_at_outlet sv who request answer =
    (case readOutlet who request of
       Inl e \<Rightarrow> writeError (sv_RequestID sv) e
     | Inr (tenant, outlet) \<Rightarrow> (case sv_Context sv of
         Some failure \<Rightarrow> writeError (sv_RequestID sv) (read_error failure)
       | None \<Rightarrow> writeData (sv_RequestID sv) 200 (answer tenant outlet)))"

type_synonym commerce_query = "core_surroundings \<Rightarrow> principal option \<Rightarrow> core_request \<Rightarrow> commerce_db \<Rightarrow> core_response"

definition handleAvailability :: "commerce_env \<Rightarrow> commerce_query" where
  "handleAvailability env sv who request s =
    read_at_outlet sv who request (\<lambda>t o'. AvailabilitiesData (MenuAvailability (cv_collate env) t o' s))"

definition handleTables :: "commerce_env \<Rightarrow> commerce_query" where
  "handleTables env sv who request s = read_at_outlet sv who request (\<lambda>t o'. TablesData (DiningTables (cv_collate env) t o' s))"

definition handleSessions :: commerce_query where
  "handleSessions sv who request s = read_at_outlet sv who request (\<lambda>t o'. SessionsData (DiningSessions t o' s))"

definition handleCashShifts :: commerce_query where
  "handleCashShifts sv who request s = read_at_outlet sv who request (\<lambda>t o'. ShiftsData (CashShifts t o' s))"

definition handleTenders :: commerce_query where
  "handleTenders sv who request s = read_at_outlet sv who request (\<lambda>t o'. TendersData (Tenders t o' s))"

subsection \<open>Routes\<close>

datatype commerce_route =
    Availability | SetAvailability
  | Tables | CreateTable | MoveTable string
  | Sessions | OpenSession | CloseSession string
  | Shifts | OpenCash | CloseCash string
  | Payments | CapturePayment | ReversePayment string | SettleDay

definition commerce_match :: "string \<Rightarrow> string \<Rightarrow> commerce_route option" where
  "commerce_match verb path =
    (case split_on CHR ''/'' path of
       r # a # v # rest \<Rightarrow>
        if r \<noteq> [] \<or> a \<noteq> ''api'' \<or> v \<noteq> ''v1'' then None
        else (case rest of
          [name] \<Rightarrow> map_of
           (if core_reads verb then [(''menu-availability'', Availability), (''dining-tables'', Tables),
              (''dining-sessions'', Sessions), (''cash-shifts'', Shifts), (''tenders'', Payments)]
            else if verb = ''POST'' then [(''menu-availability'', SetAvailability), (''dining-tables'', CreateTable),
              (''dining-sessions'', OpenSession), (''cash-shifts'', OpenCash), (''tenders'', CapturePayment),
              (''tender-settlements'', SettleDay)]
            else []) name
        | [name, id', action] \<Rightarrow>
           if verb \<noteq> ''POST'' \<or> id' = [] then None
           else map_of [((''dining-tables'', ''transitions''), MoveTable id'), ((''dining-sessions'', ''close''), CloseSession id'),
             ((''cash-shifts'', ''close''), CloseCash id'), ((''tenders'', ''reverse''), ReversePayment id')] (name, action)
        | _ \<Rightarrow> None)
     | _ \<Rightarrow> None)"

fun commerce_mutation :: "core_codec \<Rightarrow> commerce_env \<Rightarrow> core_surroundings \<Rightarrow> commerce_route \<Rightarrow> commerce_operation option" where
  "commerce_mutation codec env sv SetAvailability = Some (set_availability codec env sv)"
| "commerce_mutation codec env sv CreateTable = Some (create_table codec env sv)"
| "commerce_mutation codec env sv (MoveTable id') = Some (transition_table codec env sv id')"
| "commerce_mutation codec env sv OpenSession = Some (open_session codec env sv)"
| "commerce_mutation codec env sv (CloseSession id') = Some (close_session codec env sv id')"
| "commerce_mutation codec env sv OpenCash = Some (open_cash codec env sv)"
| "commerce_mutation codec env sv (CloseCash id') = Some (close_cash codec env sv id')"
| "commerce_mutation codec env sv CapturePayment = Some (capture_payment codec env sv)"
| "commerce_mutation codec env sv (ReversePayment id') = Some (reverse_payment codec env sv id')"
| "commerce_mutation codec env sv SettleDay = Some (settle_day codec env sv)"
| "commerce_mutation codec env sv _ = None"

fun commerce_read :: "commerce_env \<Rightarrow> commerce_route \<Rightarrow> commerce_query" where
  "commerce_read env Availability sv who request s = handleAvailability env sv who request s"
| "commerce_read env Tables sv who request s = handleTables env sv who request s"
| "commerce_read env Sessions sv who request s = handleSessions sv who request s"
| "commerce_read env Shifts sv who request s = handleCashShifts sv who request s"
| "commerce_read env Payments sv who request s = handleTenders sv who request s"
| "commerce_read env _ sv who request s = plain_status 404"

definition commerce_mux ::
  "core_codec \<Rightarrow> commerce_env \<Rightarrow> ('i, commerce_db) replay_call \<Rightarrow> ('i, commerce_db) core_state state_handler
    \<Rightarrow> ('i, commerce_db) core_state state_handler" where
  "commerce_mux codec env = routed_mux commerce_match (commerce_mutation codec env) (commerce_read env) codec"

definition commerce_ServeHTTP ::
  "server_config \<Rightarrow> core_codec \<Rightarrow> commerce_env \<Rightarrow> ('i, commerce_db) replay_call \<Rightarrow> ('i, commerce_db) core_state state_handler
    \<Rightarrow> core_surroundings \<Rightarrow> core_request \<Rightarrow> ('i, commerce_db) core_state \<Rightarrow> core_response \<times> ('i, commerce_db) core_state" where
  "commerce_ServeHTTP cfg codec env call other = serve_mux cfg (commerce_mux codec env call other)"

end
