(* ===== verification/Core_Till_Api.thy ===== *)
theory Core_Till_Api
  imports Core_Menu_Studio Core_Commerce_Api
begin

text \<open>
  The endpoints of menus and the point of sale, \<open>services/core/internal/api/restaurant_core.go\<close>, over the
  database: the bodies and their checks, the mutations, the query, the routes; together with the commerce
  endpoints, which work on the commerce tables of the same database, and the two of
  \<open>services/core/internal/api/connected_commerce.go\<close> that queue print jobs and issue pickup tokens.
\<close>

subsection \<open>Bodies\<close>

definition validShortText :: "string \<Rightarrow> nat \<Rightarrow> bool" where
  "validShortText value max_length \<longleftrightarrow> TrimSpace value \<noteq> [] \<and> length value \<le> max_length"

definition validOutletScoped :: "string \<Rightarrow> string \<Rightarrow> bool" where
  "validOutletScoped inlet outlet \<longleftrightarrow> ValidUUID inlet \<and> inlet = outlet"

record menu_studio_input =
  ui_ID :: string
  ui_OutletID :: string
  ui_Name :: string
  ui_Version :: menu_studio_version

record menu_version_input =
  xi_ExpectedVersion :: "64 word"
  xi_Version :: menu_studio_version

record token_transition_input =
  ki_Status :: string
  ki_ExpectedVersion :: nat

fun check_categories :: "string list \<Rightarrow> menu_studio_category list \<Rightarrow> string option" where
  "check_categories seen [] = None"
| "check_categories seen (c # cs) =
    (if \<not> ValidUUID (sc_ID c) \<or> sc_ID c \<in> set seen \<or> \<not> validShortText (sc_Name c) 100 then Some ''menu category is invalid''
     else check_categories (sc_ID c # seen) cs)"

fun check_options :: "string list \<Rightarrow> menu_modifier_option list \<Rightarrow> string + string list" where
  "check_options seen [] = Inr seen"
| "check_options seen (opt # opts) =
    (if \<not> ValidUUID (mo_ID opt) \<or> mo_ID opt \<in> set seen \<or> \<not> validShortText (mo_Name opt) 100 then Inl ''modifier option is invalid''
     else check_options (mo_ID opt # seen) opts)"

definition group_invalid :: "menu_modifier_group \<Rightarrow> bool" where
  "group_invalid g \<longleftrightarrow> \<not> ValidUUID (mg_ID g) \<or> \<not> validShortText (mg_Name g) 100 \<or> mg_SelectionMin g < 0
     \<or> mg_SelectionMax g < mg_SelectionMin g \<or> mg_SelectionMax g > 20 \<or> mg_Required g \<and> mg_SelectionMin g < 1"

fun check_groups :: "string list \<Rightarrow> string list \<Rightarrow> menu_modifier_group list \<Rightarrow> string option" where
  "check_groups seen options [] = None"
| "check_groups seen options (g # gs) =
    (if group_invalid g \<or> mg_ID g \<in> set seen then Some ''modifier group is invalid''
     else (case check_options options (mg_Options g) of Inl e \<Rightarrow> Some e | Inr options' \<Rightarrow> check_groups (mg_ID g # seen) options' gs))"

definition item_invalid :: "menu_studio_item \<Rightarrow> bool" where
  "item_invalid i \<longleftrightarrow> \<not> ValidUUID (si_MenuItemID i) \<or> \<not> ValidUUID (si_PriceID i) \<or> \<not> validShortText (si_DisplayName i) 160
     \<or> length (si_Description i) > 500 \<or> si_PriceMinor i < 0 \<or> \<not> ValidCurrency (si_Currency i)"

fun check_items :: "menu_studio_version \<Rightarrow> string list \<Rightarrow> string list \<Rightarrow> menu_studio_item list \<Rightarrow> string option" where
  "check_items v items prices [] = None"
| "check_items v items prices (i # is') =
    (if item_invalid i \<or> si_MenuItemID i \<in> set items \<or> si_PriceID i \<in> set prices then Some ''menu item is invalid''
     else if si_CategoryID i \<noteq> [] \<and> si_CategoryID i \<notin> sc_ID ` set (sv_Categories v) then Some ''menu item category is invalid''
     else if \<not> set (si_ModifierGroupIDs i) \<subseteq> mg_ID ` set (sv_Modifiers v) \<or> \<not> distinct (si_ModifierGroupIDs i)
     then Some ''menu item modifier group is invalid''
     else check_items v (si_MenuItemID i # items) (si_PriceID i # prices) is')"

definition publication_invalid :: "menu_publication \<Rightarrow> bool" where
  "publication_invalid p \<longleftrightarrow> \<not> ValidUUID (mp_ID p) \<or> mp_ChannelID p \<noteq> [] \<and> \<not> ValidUUID (mp_ChannelID p)
     \<or> mp_Status p \<noteq> ''scheduled'' \<and> mp_Status p \<noteq> ''live'' \<and> mp_Status p \<noteq> ''paused'' \<or> IsZero (mp_EffectiveFrom p)
     \<or> (case mp_EffectiveTo p of None \<Rightarrow> False | Some t \<Rightarrow> \<not> t > mp_EffectiveFrom p)"

fun check_publications :: "string list \<Rightarrow> menu_publication list \<Rightarrow> string option" where
  "check_publications seen [] = None"
| "check_publications seen (p # ps) =
    (if publication_invalid p \<or> mp_ID p \<in> set seen then Some ''menu publication is invalid''
     else check_publications (mp_ID p # seen) ps)"

definition validMenuVersion :: "menu_studio_version \<Rightarrow> bool \<Rightarrow> string option" where
  "validMenuVersion v initial = first_error
    [fails_if (\<not> ValidUUID (sv_ID v) \<or> sv_VersionNumber v < 1 \<or> IsZero (sv_EffectiveFrom v))
       ''menu version id, version number and effectiveFrom are required'',
     fails_if (initial \<and> sv_VersionNumber v \<noteq> 1) ''the first menu version must be number 1'',
     fails_if (sv_Status v \<noteq> ''draft'' \<and> sv_Status v \<noteq> ''published'') ''menu version status must be draft or published'',
     fails_if (length (sv_Categories v) > 80 \<or> length (sv_Modifiers v) > 80 \<or> sv_Items v = [] \<or> length (sv_Items v) > 500)
       ''menu version has too many or too few catalog records'',
     check_categories [] (sv_Categories v), check_groups [] [] (sv_Modifiers v), check_items v [] [] (sv_Items v),
     check_publications [] (sv_Publications v)]"

definition menuStudioInput_validate :: "mutation_metadata \<Rightarrow> menu_studio_input \<Rightarrow> string option" where
  "menuStudioInput_validate metadata v =
    (if \<not> ValidUUID (ui_ID v) \<or> \<not> validOutletScoped (ui_OutletID v) (mm_OutletID metadata) \<or> \<not> validShortText (ui_Name v) 160
     then Some ''menu studio is invalid'' else validMenuVersion (ui_Version v) True)"

definition menuVersionInput_validate :: "menu_version_input \<Rightarrow> string option" where
  "menuVersionInput_validate v =
    (if xi_ExpectedVersion v < 1 then Some ''expectedVersion is required'' else validMenuVersion (xi_Version v) False)"

definition validPickupToken :: "string \<Rightarrow> bool" where
  "validPickupToken t \<longleftrightarrow> \<not> (length t < 3 \<or> length t > 12)
     \<and> list_all (\<lambda>c. upper_class c \<or> CHR ''0'' \<le> c \<and> c \<le> CHR ''9'') t"

fun check_lines_of :: "string list \<Rightarrow> pos_line list \<Rightarrow> string option" where
  "check_lines_of seen [] = None"
| "check_lines_of seen (line # lines) =
    (if \<not> ValidUUID (ln_ID line) \<or> ln_ID line \<in> set seen \<or> \<not> ValidUUID (ln_MenuItemID line) \<or> ln_Quantity line < 1
        \<or> ln_Quantity line > 999 \<or> length (ln_PreparationNote line) > 500 then Some ''checkout line is invalid''
     else if \<not> list_all ValidUUID (ln_ModifierOptionIDs line) \<or> \<not> distinct (ln_ModifierOptionIDs line)
     then Some ''checkout modifier is invalid''
     else check_lines_of (ln_ID line # seen) lines)"

fun check_tenders :: "string list \<Rightarrow> pos_tender list \<Rightarrow> string option" where
  "check_tenders seen [] = None"
| "check_tenders seen (input # inputs) =
    (if \<not> ValidUUID (pn_ID input) \<or> pn_ID input \<in> set seen \<or> pn_AmountMinor input < 1
        \<or> pn_TenderType input \<noteq> ''cash'' \<and> pn_TenderType input \<noteq> ''upi'' \<and> pn_TenderType input \<noteq> ''card_terminal''
          \<and> pn_TenderType input \<noteq> ''external''
        \<or> length (pn_ProviderReference input) > 160 then Some ''checkout tender is invalid''
     else if pn_TenderType input = ''cash'' \<and> \<not> ValidUUID (pn_CashShiftID input)
        \<or> pn_TenderType input \<noteq> ''cash'' \<and> pn_CashShiftID input \<noteq> [] then Some ''checkout cash shift is invalid''
     else check_tenders (pn_ID input # seen) inputs)"

definition validCheckout :: "pos_checkout \<Rightarrow> string option" where
  "validCheckout v = first_error
    [fails_if (\<not> ValidUUID (px_ID v) \<or> \<not> ValidUUID (px_OutletID v) \<or> \<not> ValidUUID (px_OrderID v) \<or> \<not> ValidUUID (px_ReceiptID v)
       \<or> \<not> ValidOrderType (px_OrderType v) \<or> px_Lines v = [] \<or> length (px_Lines v) > 500 \<or> px_Tenders v = [] \<or> length (px_Tenders v) > 12
       \<or> \<not> validShortText (px_ReceiptNumber v) 100 \<or> \<not> validShortText (px_PrinterRoute v) 120
       \<or> px_DiscountMinor v < 0 \<or> px_TaxMinor v < 0 \<or> px_ServiceChargeMinor v < 0) ''checkout is invalid'',
     fails_if (px_MenuVersionID v \<noteq> [] \<and> \<not> ValidUUID (px_MenuVersionID v)) ''menuVersionId is invalid'',
     fails_if (px_BrandID v \<noteq> [] \<and> \<not> ValidUUID (px_BrandID v)) ''brandId is invalid'',
     fails_if ((px_PickupTokenID v = []) \<noteq> (px_PickupToken v = [])
       \<or> px_PickupTokenID v \<noteq> [] \<and> (\<not> ValidUUID (px_PickupTokenID v) \<or> \<not> validPickupToken (px_PickupToken v))) ''pickup token is invalid'',
     check_lines_of [] (px_Lines v), check_tenders [] (px_Tenders v)]"

definition checkout_validate :: "mutation_metadata \<Rightarrow> pos_checkout \<Rightarrow> string option" where
  "checkout_validate metadata v =
    (if \<not> validOutletScoped (px_OutletID v) (mm_OutletID metadata) then Some ''outletId must match the mutation outlet''
     else validCheckout v)"

definition printAction_validate :: "string \<Rightarrow> string option" where
  "printAction_validate action =
    (if action \<noteq> ''acknowledged'' \<and> action \<noteq> ''failed'' \<and> action \<noteq> ''cancelled'' \<and> action \<noteq> ''requeued'' \<and> action \<noteq> ''reprinted''
     then Some ''print action is invalid'' else None)"

definition tokenTransition_validate :: "token_transition_input \<Rightarrow> string option" where
  "tokenTransition_validate v =
    (if ki_Status v \<noteq> ''called'' \<and> ki_Status v \<noteq> ''collected'' \<and> ki_Status v \<noteq> ''cancelled'' \<or> ki_ExpectedVersion v < 1
     then Some ''pickup token transition is invalid'' else None)"

definition printJob_validate :: "mutation_metadata \<Rightarrow> kitchen_print_job \<Rightarrow> string option" where
  "printJob_validate metadata v =
    (if \<not> ValidUUID (kp_ID v) \<or> \<not> validOutletScoped (kp_OutletID v) (mm_OutletID metadata) \<or> \<not> ValidUUID (kp_TicketID v)
        \<or> \<not> validShortText (kp_PrinterRoute v) 120
        \<or> kp_CopyType v \<noteq> ''kot'' \<and> kp_CopyType v \<noteq> ''expeditor'' \<and> kp_CopyType v \<noteq> ''packing'' \<and> kp_CopyType v \<noteq> ''receipt''
     then Some ''print job is invalid'' else None)"

definition pickupToken_validate :: "mutation_metadata \<Rightarrow> pickup_token \<Rightarrow> string option" where
  "pickupToken_validate metadata v =
    (if \<not> ValidUUID (pk_ID v) \<or> \<not> validOutletScoped (pk_OutletID v) (mm_OutletID metadata) \<or> \<not> ValidUUID (pk_OrderID v)
        \<or> length (pk_Token v) < 3 \<or> length (pk_Token v) > 12 then Some ''pickup token is invalid''
     else if \<not> list_all (\<lambda>c. upper_class c \<or> CHR ''0'' \<le> c \<and> c \<le> CHR ''9'') (pk_Token v) then Some ''pickup token is invalid''
     else None)"

text \<open>
  What the server uses of its surroundings: the decoders of the bodies, those of the commerce, and what becomes of
  a time in a \<open>timestamptz\<close> column.
\<close>

record till_env =
  tv_studio :: "string \<Rightarrow> string + menu_studio_input"
  tv_version :: "string \<Rightarrow> string + menu_version_input"
  tv_checkout :: "string \<Rightarrow> string + pos_checkout"
  tv_print_action :: "string \<Rightarrow> string + string"
  tv_print_job :: "string \<Rightarrow> string + kitchen_print_job"
  tv_pickup_token :: "string \<Rightarrow> string + pickup_token"
  tv_token :: "string \<Rightarrow> string + token_transition_input"
  tv_commerce :: commerce_env
  tv_micro :: "time \<Rightarrow> time"

definition tv_sha256 :: "till_env \<Rightarrow> string \<Rightarrow> 8 word list" where
  "tv_sha256 env = cv_sha256 (tv_commerce env)"

subsection \<open>Mutations\<close>

type_synonym till_operation = "restaurant_db mutation_operation"

definition invalid_path_id :: "core_codec \<Rightarrow> string \<Rightarrow> idem_result" where
  "invalid_path_id codec what = errorResult codec (core_problem 422 ''validation_failed'' (what @ '' id is invalid''))"

text \<open>The version as it is stored: of its studio, created now, and published now by the actor.\<close>

definition stamped :: "time \<Rightarrow> string \<Rightarrow> string \<Rightarrow> menu_studio_version \<Rightarrow> menu_studio_version" where
  "stamped now actor studio v = (let v' = v\<lparr>sv_MenuStudioID := studio, sv_CreatedAt := now\<rparr>
     in if sv_Status v = ''published'' then v'\<lparr>sv_PublishedAt := Some now, sv_PublishedBy := actor\<rparr> else v')"

definition studio_of :: "time \<Rightarrow> mutation_metadata \<Rightarrow> menu_studio_input \<Rightarrow> menu_studio" where
  "studio_of now metadata input = (let published = (sv_Status (ui_Version input) = ''published'') in
     \<lparr>ms_ID = ui_ID input, ms_TenantID = mm_TenantID metadata, ms_OutletID = mm_OutletID metadata, ms_Name = TrimSpace (ui_Name input),
      ms_Status = (if published then ''published'' else ''draft''),
      ms_CurrentVersionID = (if published then sv_ID (ui_Version input) else []), ms_Version = 1, ms_CreatedAt = now, ms_UpdatedAt = now,
      ms_Current = None\<rparr>)"

definition create_menu_studio :: "core_codec \<Rightarrow> till_env \<Rightarrow> core_surroundings \<Rightarrow> till_operation" where
  "create_menu_studio codec env sv metadata payload s =
    (case decodeAndValidate codec (tv_studio env) (menuStudioInput_validate metadata) payload of
       Inl result \<Rightarrow> (result, s)
     | Inr input \<Rightarrow> commit_mutation codec
         (newAuditEvent (sv_Random sv 0) metadata ''menu_studio.created'' ''menu_studio'' (ui_ID input) (sv_Now sv))
         (Core_Menu_Studio.CreateMenuStudio (tv_micro env) (sv_Context sv) (studio_of (sv_Now sv) metadata input)
           (stamped (sv_Now sv) (mm_ActorID metadata) (ui_ID input) (ui_Version input)))
         (\<lambda>v. successResult codec 201 (StudioData v) (''/api/v1/menu-studios/'' @ ms_ID v)) s)"

definition add_menu_version :: "core_codec \<Rightarrow> till_env \<Rightarrow> core_surroundings \<Rightarrow> string \<Rightarrow> till_operation" where
  "add_menu_version codec env sv id' metadata payload s =
    (case decodeAndValidate codec (tv_version env) menuVersionInput_validate payload of
       Inl result \<Rightarrow> (result, s)
     | Inr input \<Rightarrow>
        if \<not> ValidUUID id' then (invalid_path_id codec ''menu studio'', s)
        else commit_mutation codec
         (newAuditEvent (sv_Random sv 0) metadata ''menu_studio.versioned'' ''menu_studio'' id' (sv_Now sv))
         (Core_Menu_Studio.AddMenuStudioVersion (tv_micro env) (sv_Context sv) (mm_TenantID metadata) (mm_OutletID metadata)
           (stamped (sv_Now sv) (mm_ActorID metadata) id' (xi_Version input)) (xi_ExpectedVersion input))
         (\<lambda>v. successResult codec 201 (StudioData v) (''/api/v1/menu-studios/'' @ id')) s)"

definition scoped_checkout :: "time \<Rightarrow> mutation_metadata \<Rightarrow> pos_checkout \<Rightarrow> pos_checkout" where
  "scoped_checkout now metadata v = v\<lparr>px_TenantID := mm_TenantID metadata, px_OutletID := mm_OutletID metadata,
     px_PlacedAt := (if IsZero (px_PlacedAt v) then now else px_PlacedAt v)\<rparr>"

definition checkout_pos :: "core_codec \<Rightarrow> till_env \<Rightarrow> core_surroundings \<Rightarrow> till_operation" where
  "checkout_pos codec env sv metadata payload s =
    (case decodeAndValidate codec (tv_checkout env) (checkout_validate metadata) payload of
       Inl result \<Rightarrow> (result, s)
     | Inr input \<Rightarrow> commit_mutation codec
         (newAuditEvent (sv_Random sv 0) metadata ''pos.checkout_completed'' ''pos_checkout'' (px_ID input) (sv_Now sv))
         (CheckoutPOS (tv_sha256 env) (sv_Context sv) (scoped_checkout (sv_Now sv) metadata input))
         (\<lambda>v. successResult codec 201 (CheckoutData v) (''/api/v1/orders/'' @ co_ID (pz_Order v))) s)"

definition act_on_print_job :: "core_codec \<Rightarrow> till_env \<Rightarrow> core_surroundings \<Rightarrow> string \<Rightarrow> till_operation" where
  "act_on_print_job codec env sv id' metadata payload s =
    (case decodeAndValidate codec (tv_print_action env) printAction_validate payload of
       Inl result \<Rightarrow> (result, s)
     | Inr action \<Rightarrow>
        if \<not> ValidUUID id' then (invalid_path_id codec ''print job'', s)
        else commit_mutation codec
         (newAuditEvent (sv_Random sv 0) metadata (''kitchen_print.'' @ action) ''kitchen_print_job'' id' (sv_Now sv))
         (AcknowledgeKitchenPrintJob (tv_sha256 env) (sv_Context sv) (mm_TenantID metadata) (mm_OutletID metadata) id' action)
         (\<lambda>v. successResult codec 200 (PrintJobData v) []) s)"

definition transition_token :: "core_codec \<Rightarrow> till_env \<Rightarrow> core_surroundings \<Rightarrow> string \<Rightarrow> till_operation" where
  "transition_token codec env sv id' metadata payload s =
    (case decodeAndValidate codec (tv_token env) tokenTransition_validate payload of
       Inl result \<Rightarrow> (result, s)
     | Inr input \<Rightarrow>
        if \<not> ValidUUID id' then (invalid_path_id codec ''pickup token'', s)
        else commit_mutation codec
         (newAuditEvent (sv_Random sv 0) metadata (''pickup_token.'' @ ki_Status input) ''pickup_token'' id' (sv_Now sv))
         (TransitionPickupToken (tv_sha256 env) (sv_Context sv) (mm_TenantID metadata) (mm_OutletID metadata) id' (ki_Status input)
           (ki_ExpectedVersion input))
         (\<lambda>v. successResult codec 200 (PickupTokenData v) []) s)"

text \<open>The job and the token that the endpoints store. The rest of the body is kept, a time of acknowledgement too.\<close>

definition queued_job :: "time \<Rightarrow> mutation_metadata \<Rightarrow> kitchen_print_job \<Rightarrow> kitchen_print_job" where
  "queued_job now metadata v = v\<lparr>kp_TenantID := mm_TenantID metadata, kp_OutletID := mm_OutletID metadata,
     kp_PrinterRoute := TrimSpace (kp_PrinterRoute v), kp_Status := ''queued'', kp_Attempts := 0, kp_CreatedAt := now\<rparr>"

definition create_print_job :: "core_codec \<Rightarrow> till_env \<Rightarrow> core_surroundings \<Rightarrow> till_operation" where
  "create_print_job codec env sv metadata payload s =
    (case decodeAndValidate codec (tv_print_job env) (printJob_validate metadata) payload of
       Inl result \<Rightarrow> (result, s)
     | Inr input \<Rightarrow> commit_mutation codec
         (newAuditEvent (sv_Random sv 0) metadata ''kitchen_print.queued'' ''kitchen_print_job'' (kp_ID input) (sv_Now sv))
         (CreateKitchenPrintJob (sv_Context sv) (queued_job (sv_Now sv) metadata input))
         (\<lambda>v. successResult codec 201 (PrintJobData (queued_job (sv_Now sv) metadata input)) (''/api/v1/kitchen-print-jobs/'' @ kp_ID input)) s)"

definition issued_token :: "time \<Rightarrow> mutation_metadata \<Rightarrow> pickup_token \<Rightarrow> pickup_token" where
  "issued_token now metadata v = v\<lparr>pk_TenantID := mm_TenantID metadata, pk_OutletID := mm_OutletID metadata,
     pk_Status := ''issued'', pk_IssuedAt := now\<rparr>"

definition issue_pickup_token :: "core_codec \<Rightarrow> till_env \<Rightarrow> core_surroundings \<Rightarrow> till_operation" where
  "issue_pickup_token codec env sv metadata payload s =
    (case decodeAndValidate codec (tv_pickup_token env) (pickupToken_validate metadata) payload of
       Inl result \<Rightarrow> (result, s)
     | Inr input \<Rightarrow> commit_mutation codec
         (newAuditEvent (sv_Random sv 0) metadata ''pickup_token.issued'' ''pickup_token'' (pk_ID input) (sv_Now sv))
         (IssuePickupToken (sv_Context sv) (issued_token (sv_Now sv) metadata input))
         (\<lambda>v. successResult codec 201 (PickupTokenData v) (''/api/v1/pickup-tokens/'' @ pk_ID v)) s)"

text \<open>A commerce operation on the commerce tables.\<close>

definition on_commerce :: "commerce_operation \<Rightarrow> till_operation" where
  "on_commerce operation metadata payload s =
    (let (result, c) = operation metadata payload (rd_commerce s) in (result, s\<lparr>rd_commerce := c\<rparr>))"

subsection \<open>Routes\<close>

definition handleMenuStudios ::
  "till_env \<Rightarrow> core_surroundings \<Rightarrow> principal option \<Rightarrow> core_request \<Rightarrow> restaurant_db \<Rightarrow> core_response" where
  "handleMenuStudios env sv who request s =
    (case readOutlet who request of
       Inl e \<Rightarrow> writeError (sv_RequestID sv) e
     | Inr (tenant, outlet) \<Rightarrow>
        (case (case sv_Context sv of Some failure \<Rightarrow> Inl failure | None \<Rightarrow> MenuStudios (cv_collate (tv_commerce env)) tenant outlet s) of
           Inl failure \<Rightarrow> writeError (sv_RequestID sv) (read_error failure)
         | Inr values \<Rightarrow> writeData (sv_RequestID sv) 200 (StudiosData values)))"

text \<open>
  The routes of lines 181 to 184, 255, 256, 258 and 259 of \<open>server.go\<close>, and those of the commerce between them.
  The lists of print jobs and of pickup tokens (lines 254 and 257) are not modelled.
\<close>

datatype till_route =
    Studios | CreateStudio | AddVersion string | Checkout | NewPrintJob | ActOnPrintJob string | NewToken | MoveToken string
  | Shop commerce_route

definition till_match :: "string \<Rightarrow> string \<Rightarrow> till_route option" where
  "till_match verb path =
    (case split_on CHR ''/'' path of
       r # a # v # rest \<Rightarrow>
        if r \<noteq> [] \<or> a \<noteq> ''api'' \<or> v \<noteq> ''v1'' then None
        else (case rest of
          [name] \<Rightarrow>
           if core_reads verb \<and> name = ''menu-studios'' then Some Studios
           else if verb = ''POST'' \<and> name = ''menu-studios'' then Some CreateStudio
           else if verb = ''POST'' \<and> name = ''pos-checkouts'' then Some Checkout
           else if verb = ''POST'' \<and> name = ''kitchen-print-jobs'' then Some NewPrintJob
           else if verb = ''POST'' \<and> name = ''pickup-tokens'' then Some NewToken
           else map_option Shop (commerce_match verb path)
        | [name, id', action] \<Rightarrow>
           if verb \<noteq> ''POST'' \<or> id' = [] then None
           else (case map_of [((''menu-studios'', ''versions''), AddVersion id'), ((''kitchen-print-jobs'', ''actions''), ActOnPrintJob id'),
               ((''pickup-tokens'', ''transitions''), MoveToken id')] (name, action) of
             Some route \<Rightarrow> Some route | None \<Rightarrow> map_option Shop (commerce_match verb path))
        | _ \<Rightarrow> None)
     | _ \<Rightarrow> None)"

fun till_mutation :: "core_codec \<Rightarrow> till_env \<Rightarrow> core_surroundings \<Rightarrow> till_route \<Rightarrow> till_operation option" where
  "till_mutation codec env sv CreateStudio = Some (create_menu_studio codec env sv)"
| "till_mutation codec env sv (AddVersion id') = Some (add_menu_version codec env sv id')"
| "till_mutation codec env sv Checkout = Some (checkout_pos codec env sv)"
| "till_mutation codec env sv NewPrintJob = Some (create_print_job codec env sv)"
| "till_mutation codec env sv NewToken = Some (issue_pickup_token codec env sv)"
| "till_mutation codec env sv (ActOnPrintJob id') = Some (act_on_print_job codec env sv id')"
| "till_mutation codec env sv (MoveToken id') = Some (transition_token codec env sv id')"
| "till_mutation codec env sv (Shop route) = map_option on_commerce (commerce_mutation codec (tv_commerce env) sv route)"
| "till_mutation codec env sv Studios = None"

fun till_read :: "till_env \<Rightarrow> till_route \<Rightarrow> core_surroundings \<Rightarrow> principal option \<Rightarrow> core_request \<Rightarrow> restaurant_db \<Rightarrow> core_response" where
  "till_read env Studios sv who request s = handleMenuStudios env sv who request s"
| "till_read env (Shop route) sv who request s = commerce_read (tv_commerce env) route sv who request (rd_commerce s)"
| "till_read env _ sv who request s = plain_status 404"

definition till_ServeHTTP ::
  "server_config \<Rightarrow> core_codec \<Rightarrow> till_env \<Rightarrow> ('i, restaurant_db) replay_call \<Rightarrow> ('i, restaurant_db) core_state state_handler
    \<Rightarrow> core_surroundings \<Rightarrow> core_request \<Rightarrow> ('i, restaurant_db) core_state \<Rightarrow> core_response \<times> ('i, restaurant_db) core_state" where
  "till_ServeHTTP cfg codec env call other = serve_mux cfg (routed_mux till_match (till_mutation codec env) (till_read env) codec call other)"

end
