(* ===== verification/Core_Commerce_System.thy ===== *)
theory Core_Commerce_System
  imports Core_Commerce_Properties Core_Memory_System
begin

text \<open>
  The commands of the commerce repository as values, and the audit trail they leave: a command that
  succeeds appends its audit event, whose operation no event of the tenant had, and a command that fails
  changes nothing. The trail only grows, so that an operation is carried out at most once.
\<close>

datatype commerce_command =
    SetAvailabilityTo string string menu_availability
  | AddTable dining_table
  | MoveTableTo string string string string nat
  | AddSession dining_session
  | EndSession string string string nat
  | AddShift cash_shift
  | EndShift string string string nat int
  | TakeTender tender fiscal_receipt
  | ReturnTender tender
  | SettleTenders string string string

fun run_commerce ::
  "(string \<Rightarrow> 8 word list) \<Rightarrow> (time \<Rightarrow> string) \<Rightarrow> context_error \<Rightarrow> audit_event \<Rightarrow> commerce_command \<Rightarrow> commerce_db
    \<Rightarrow> (core_failure + unit) \<times> commerce_db" where
  "run_commerce sha256 date ctx a (SetAvailabilityTo t u v) s = outcome (SetMenuAvailability ctx t u v a s)"
| "run_commerce sha256 date ctx a (AddTable v) s = outcome (CreateDiningTable ctx v a s)"
| "run_commerce sha256 date ctx a (MoveTableTo t u k status expected) s = outcome (TransitionDiningTable ctx t u k status expected a s)"
| "run_commerce sha256 date ctx a (AddSession v) s = outcome (OpenDiningSession ctx v a s)"
| "run_commerce sha256 date ctx a (EndSession t u k expected) s = outcome (CloseDiningSession ctx t u k expected a s)"
| "run_commerce sha256 date ctx a (AddShift v) s = outcome (OpenCashShift ctx v a s)"
| "run_commerce sha256 date ctx a (EndShift t u k expected n) s = outcome (CloseCashShift ctx t u k expected n a s)"
| "run_commerce sha256 date ctx a (TakeTender v receipt) s = outcome (CaptureTender sha256 ctx v receipt a s)"
| "run_commerce sha256 date ctx a (ReturnTender v) s = outcome (ReverseTender sha256 ctx v a s)"
| "run_commerce sha256 date ctx a (SettleTenders t u d) s = outcome (GenerateSettlements sha256 date ctx t u d a s)"

fun command_tenant :: "commerce_command \<Rightarrow> string" where
  "command_tenant (SetAvailabilityTo t u v) = t"
| "command_tenant (AddTable v) = dt_TenantID v"
| "command_tenant (MoveTableTo t u k status expected) = t"
| "command_tenant (AddSession v) = ds_TenantID v"
| "command_tenant (EndSession t u k expected) = t"
| "command_tenant (AddShift v) = cs_TenantID v"
| "command_tenant (EndShift t u k expected n) = t"
| "command_tenant (TakeTender v receipt) = td_TenantID v"
| "command_tenant (ReturnTender v) = td_TenantID v"
| "command_tenant (SettleTenders t u d) = t"

text \<open>The orders whose payments a command can disturb, carried out alone: by an amount of \<open>2 ^ 62\<close> or more.\<close>

fun disturbed_by :: "commerce_command \<Rightarrow> commerce_db \<Rightarrow> (string \<times> string) set" where
  "disturbed_by (TakeTender v receipt) s = capture_disturbs v s s"
| "disturbed_by (ReturnTender v) s = refund_disturbs v s"
| "disturbed_by _ s = {}"

fun asked_amount :: "commerce_command \<Rightarrow> int" where
  "asked_amount (TakeTender v receipt) = td_AmountMinor v"
| "asked_amount (ReturnTender v) = td_AmountMinor v"
| "asked_amount _ = 0"

lemma disturbed_by_large: "small (asked_amount c) \<Longrightarrow> disturbed_by c s = {}"
  by (cases c) (simp_all add: capture_disturbs_def refund_disturbs_def)

lemma snd_outcome [simp]: "snd (outcome r) = snd r"
  by (simp add: outcome_def)

lemma outcome_InrD: "outcome r = (Inr (), s') \<Longrightarrow> \<exists>v. r = (Inr v, s')"
  by (cases r; cases "fst r") (auto simp: outcome_def)

lemma outcome_InlD: "outcome r = (Inl e, s') \<Longrightarrow> r = (Inl e, s')"
  by (cases r; cases "fst r") (auto simp: outcome_def)

lemma run_commerce_step: "commerce_step sha256 (disturbed_by c s) s (snd (run_commerce sha256 date ctx a c s))"
  by (cases c) (auto intro: commerce_step.intros serial_capture)

subsection \<open>The audit trail\<close>

definition operation_done :: "string \<Rightarrow> string \<Rightarrow> commerce_db \<Rightarrow> bool" where
  "operation_done tenant operation s \<longleftrightarrow> (\<exists>b \<in> set (cm_audits s). ae_TenantID b = tenant \<and> ae_OperationID b = operation)"

definition audited_once :: "string \<Rightarrow> audit_event \<Rightarrow> commerce_db \<Rightarrow> commerce_db \<Rightarrow> bool" where
  "audited_once tenant a s s' \<longleftrightarrow> cm_audits s' = cm_audits s @ [a] \<and> ae_TenantID a = tenant
     \<and> \<not> operation_done tenant (ae_OperationID a) s"

lemma audited_onceI: "audited tenant a v t = Inr (x, s') \<Longrightarrow> cm_audits t = cm_audits s \<Longrightarrow> audited_once tenant a s s'"
  by (auto simp: audited_def insertAudit_def constrained_Inr rbind_Inr_iff audited_once_def operation_done_def list_ex_iff)

lemma move_cash_audits: "move_cash v amount s = Inr s' \<Longrightarrow> cm_audits s' = cm_audits s"
  by (drule move_cash_Inr) auto

lemma log_cash_audits: "log_cash sha256 part event_type reason v amount a s = Inr s' \<Longrightarrow> cm_audits s' = cm_audits s"
  by (drule log_cash_Inr) auto

lemma insert_tender_audits: "insert_tender v a s = Inr s' \<Longrightarrow> cm_audits s' = cm_audits s"
  by (drule insert_tender_Inr) auto

lemma issue_receipt_audits: "issue_receipt v receipt order a s = Inr (r, s') \<Longrightarrow> cm_audits s' = cm_audits s"
  by (drule issue_receipt_Inr) auto

lemma store_settlements_audits: "store_settlements tenant outlet vs s = Inr s' \<Longrightarrow> cm_audits s' = cm_audits s"
  by (induction vs arbitrary: s) (auto simp: store_settlement_def commerce_Inr split: if_splits)

lemmas statement_audits = move_cash_audits log_cash_audits insert_tender_audits issue_receipt_audits store_settlements_audits

lemmas body_Inr = with_tenant_def transact_Inr_iff Let_def commerce_Inr

lemma SetMenuAvailability_audit: "SetMenuAvailability ctx t u v a s = (Inr x, s') \<Longrightarrow> audited_once t a s s'"
  by (auto simp: SetMenuAvailability_def body_Inr elim!: audited_onceI split: option.splits)

lemma CreateDiningTable_audit: "CreateDiningTable ctx v a s = (Inr x, s') \<Longrightarrow> audited_once (dt_TenantID v) a s s'"
  by (auto simp: CreateDiningTable_def body_Inr elim!: audited_onceI split: option.splits)

lemma TransitionDiningTable_audit: "TransitionDiningTable ctx t u k status expected a s = (Inr x, s') \<Longrightarrow> audited_once t a s s'"
  by (auto simp: TransitionDiningTable_def body_Inr elim!: audited_onceI split: option.splits if_splits)

lemma OpenDiningSession_audit: "OpenDiningSession ctx v a s = (Inr x, s') \<Longrightarrow> audited_once (ds_TenantID v) a s s'"
  by (auto simp: OpenDiningSession_def body_Inr elim!: audited_onceI split: option.splits if_splits)

lemma CloseDiningSession_audit: "CloseDiningSession ctx t u k expected a s = (Inr x, s') \<Longrightarrow> audited_once t a s s'"
  by (auto simp: CloseDiningSession_def body_Inr elim!: audited_onceI split: option.splits if_splits)

lemma OpenCashShift_audit: "OpenCashShift ctx v a s = (Inr x, s') \<Longrightarrow> audited_once (cs_TenantID v) a s s'"
  by (auto simp: OpenCashShift_def body_Inr elim!: audited_onceI split: option.splits)

lemma CloseCashShift_audit: "CloseCashShift ctx t u k expected n a s = (Inr x, s') \<Longrightarrow> audited_once t a s s'"
  by (auto simp: CloseCashShift_def body_Inr elim!: audited_onceI split: option.splits if_splits)

lemma CaptureTender_audit: "CaptureTender sha256 ctx v receipt a s = (Inr x, s') \<Longrightarrow> audited_once (td_TenantID v) a s s'"
  by (auto simp: CaptureTender_def capture_tender_def body_Inr elim!: audited_onceI dest!: statement_audits
      split: option.splits if_splits)

lemma ReverseTender_audit: "ReverseTender sha256 ctx v a s = (Inr x, s') \<Longrightarrow> audited_once (td_TenantID v) a s s'"
  by (auto simp: ReverseTender_def body_Inr elim!: audited_onceI dest!: statement_audits split: option.splits if_splits)

lemma GenerateSettlements_audit: "GenerateSettlements sha256 date ctx t u d a s = (Inr x, s') \<Longrightarrow> audited_once t a s s'"
  by (auto simp: GenerateSettlements_def body_Inr elim!: audited_onceI dest!: statement_audits split: option.splits)

lemmas command_audits = SetMenuAvailability_audit CreateDiningTable_audit TransitionDiningTable_audit OpenDiningSession_audit
  CloseDiningSession_audit OpenCashShift_audit CloseCashShift_audit CaptureTender_audit ReverseTender_audit GenerateSettlements_audit

lemma run_commerce_audit:
  assumes "run_commerce sha256 date ctx a c s = (Inr (), s')"
  shows "audited_once (command_tenant c) a s s'"
  using assms by (cases c) (auto dest!: outcome_InrD command_audits)

lemma with_tenant_Inl: "with_tenant ctx body s = (Inl e, s') \<Longrightarrow> s' = s"
  unfolding with_tenant_def by (rule transact_Inl)

lemma run_commerce_failure: "run_commerce sha256 date ctx a c s = (Inl e, s') \<Longrightarrow> s' = s"
  by (cases c) (auto dest!: outcome_InlD with_tenant_Inl simp: SetMenuAvailability_def CreateDiningTable_def
      TransitionDiningTable_def OpenDiningSession_def CloseDiningSession_def OpenCashShift_def CloseCashShift_def
      CaptureTender_def ReverseTender_def GenerateSettlements_def)

text \<open>Once done, an operation stays done, whatever is carried out next.\<close>

lemma run_commerce_keeps_done:
  assumes "operation_done tenant operation s"
  shows "operation_done tenant operation (snd (run_commerce sha256 date ctx a c s))"
proof -
  obtain r s' where run: "run_commerce sha256 date ctx a c s = (r, s')" by fastforce
  show ?thesis
  proof (cases r)
    case (Inl e)
    with run run_commerce_failure assms show ?thesis by fastforce
  next
    case (Inr x)
    with run run_commerce_audit [of sha256 date ctx a c s s'] assms show ?thesis
      by (auto simp: audited_once_def operation_done_def)
  qed
qed

text \<open>A done operation is refused.\<close>

lemma run_commerce_refuses_done:
  assumes "operation_done (ae_TenantID a) (ae_OperationID a) s"
  shows "\<exists>e. run_commerce sha256 date ctx a c s = (Inl e, s)"
proof -
  obtain r s' where run: "run_commerce sha256 date ctx a c s = (r, s')" by fastforce
  show ?thesis
  proof (cases r)
    case (Inl e)
    with run run_commerce_failure show ?thesis by blast
  next
    case (Inr x)
    with run run_commerce_audit [of sha256 date ctx a c s s'] assms show ?thesis by (auto simp: audited_once_def)
  qed
qed

end
