(* ===== verification/Core_Till_Commands.thy ===== *)
theory Core_Till_Commands
  imports Core_Till_System Core_Commerce_System
begin

text \<open>
  The commands of menus, tills and commerce as values, and their audit trail: a command that succeeds is the
  first of its tenant under its operation, a command that fails changes nothing.
\<close>

datatype till_command =
    StartMenu menu_studio menu_studio_version
  | ExtendMenu string string menu_studio_version "64 word"
  | CheckOut pos_checkout
  | QueueJob kitchen_print_job
  | ActOnJob string string string string
  | IssueToken pickup_token
  | MoveTokenTo string string string string nat
  | Trade commerce_command

fun run_till ::
  "(string \<Rightarrow> 8 word list) \<Rightarrow> (time \<Rightarrow> string) \<Rightarrow> (time \<Rightarrow> time) \<Rightarrow> context_error \<Rightarrow> audit_event \<Rightarrow> till_command \<Rightarrow> restaurant_db
    \<Rightarrow> (core_failure + unit) \<times> restaurant_db" where
  "run_till sha256 date micro ctx a (StartMenu studio v) s = outcome (Core_Menu_Studio.CreateMenuStudio micro ctx studio v a s)"
| "run_till sha256 date micro ctx a (ExtendMenu t u v expected) s = outcome (Core_Menu_Studio.AddMenuStudioVersion micro ctx t u v expected a s)"
| "run_till sha256 date micro ctx a (CheckOut checkout) s = outcome (CheckoutPOS sha256 ctx checkout a s)"
| "run_till sha256 date micro ctx a (QueueJob j) s = outcome (CreateKitchenPrintJob ctx j a s)"
| "run_till sha256 date micro ctx a (ActOnJob t u k action) s = outcome (AcknowledgeKitchenPrintJob sha256 ctx t u k action a s)"
| "run_till sha256 date micro ctx a (IssueToken t) s = outcome (IssuePickupToken ctx t a s)"
| "run_till sha256 date micro ctx a (MoveTokenTo t u k status expected) s = outcome (TransitionPickupToken sha256 ctx t u k status expected a s)"
| "run_till sha256 date micro ctx a (Trade c) s = (let (r, db) = run_commerce sha256 date ctx a c (rd_commerce s) in (r, s\<lparr>rd_commerce := db\<rparr>))"

fun till_tenant :: "till_command \<Rightarrow> string" where
  "till_tenant (StartMenu studio v) = ms_TenantID studio"
| "till_tenant (ExtendMenu t u v expected) = t"
| "till_tenant (CheckOut checkout) = px_TenantID checkout"
| "till_tenant (QueueJob j) = kp_TenantID j"
| "till_tenant (ActOnJob t u k action) = t"
| "till_tenant (IssueToken t) = pk_TenantID t"
| "till_tenant (MoveTokenTo t u k status expected) = t"
| "till_tenant (Trade c) = command_tenant c"

text \<open>
  A queued job and an issued token are at the start of their paths, as the handlers make them. The orders whose
  payments a command can disturb, carried out alone, are those with amounts of \<open>2 ^ 62\<close> or more.
\<close>

fun proper_command :: "till_command \<Rightarrow> bool" where
  "proper_command (QueueJob j) \<longleftrightarrow> kp_Status j = ''queued'' \<and> kp_Attempts j = 0"
| "proper_command (IssueToken t) \<longleftrightarrow> pk_Status t = ''issued''"
| "proper_command _ \<longleftrightarrow> True"

fun till_disturbs :: "till_command \<Rightarrow> restaurant_db \<Rightarrow> (string \<times> string) set" where
  "till_disturbs (CheckOut checkout) s = checkout_disturbs checkout"
| "till_disturbs (Trade c) s = disturbed_by c (rd_commerce s)"
| "till_disturbs _ s = {}"

fun till_amount :: "till_command \<Rightarrow> int" where
  "till_amount (CheckOut checkout) = sum_list (map pn_AmountMinor (px_Tenders checkout))"
| "till_amount (Trade c) = asked_amount c"
| "till_amount _ = 0"

lemma till_disturbs_large: "small (till_amount c) \<Longrightarrow> till_disturbs c s = {}"
  by (cases c) (simp_all add: checkout_disturbs_def disturbed_by_large)

lemma run_till_step:
  "proper_command c \<Longrightarrow> till_step sha256 (till_disturbs c s) s (snd (run_till sha256 date micro ctx a c s))"
proof (cases c)
  case (Trade d)
  have "till_step sha256 (disturbed_by d (rd_commerce s)) s (s\<lparr>rd_commerce := snd (run_commerce sha256 date ctx a d (rd_commerce s))\<rparr>)"
    by (intro till_step.commerce run_commerce_step)
  then show ?thesis by (cases "run_commerce sha256 date ctx a d (rd_commerce s)") (simp add: Trade)
qed (auto intro: till_step.intros)

subsection \<open>The audit trail\<close>

lemma audit_once:
  assumes "in_commerce (insertAudit tenant a) u = Inr s'" "cm_audits (rd_commerce u) = cm_audits (rd_commerce s)"
  shows "audited_once tenant a (rd_commerce s) (rd_commerce s')"
  using assms by (auto simp: in_commerce_Inr insertAudit_def constrained_Inr audited_once_def operation_done_def list_ex_iff)

lemma take_payments_audits: "each (take_payment sha256 checkout a currency) ts c = Inr c' \<Longrightarrow> cm_audits c' = cm_audits c"
proof (erule each_keeps [where g = cm_audits])
  fix input u u' assume "take_payment sha256 checkout a currency input u = Inr u'"
  then show "cm_audits u' = cm_audits u"
    by (auto simp: take_payment_def Let_def rbind_Inr_iff insert_cash_event_def constrained_Inr split: if_splits
        dest!: move_cash_audits insert_tender_audits)
qed

lemma CheckoutPOS_audit:
  assumes "CheckoutPOS sha256 ctx checkout a s = (Inr r, s')"
  shows "audited_once (px_TenantID checkout) a (rd_commerce s) (rd_commerce s')"
proof -
  from assms obtain b where step: "checked_out sha256 checkout a b s s'" by (rule CheckoutPOS_Inr)
  then have trail: "cm_audits (rd_commerce s') = cm_audits (rd_commerce s) @ [a]"
    by (auto simp: checked_out_def Let_def payments_def dest!: take_payments_audits)
  from assms have "checkout_body sha256 checkout a s = Inr (r, s')"
    by (auto simp: CheckoutPOS_def till_transaction_def transact_Inr_iff split: option.splits)
  then obtain u where u: "in_commerce (insertAudit (px_TenantID checkout) a) u = Inr s'"
    unfolding checkout_body_def Let_def if_Inl_Inr by (elim rbind_InrE conjE) (auto simp: if_Inl_Inr elim!: rbind_InrE)
  with in_commerce_audit trail have "cm_audits (rd_commerce u) = cm_audits (rd_commerce s)" by fastforce
  with u show ?thesis by (rule audit_once)
qed

lemma studio_audit: "Core_Menu_Studio.CreateMenuStudio micro ctx studio v a s = (Inr r, s') \<Longrightarrow>
    audited_once (ms_TenantID studio) a (rd_commerce s) (rd_commerce s')"
  by (erule studio_run, erule audit_once) (simp add: same_till_def)

lemma version_audit: "Core_Menu_Studio.AddMenuStudioVersion micro ctx tenant outlet v n a s = (Inr r, s') \<Longrightarrow>
    audited_once tenant a (rd_commerce s) (rd_commerce s')"
  by (erule version_run, erule audit_once) (simp add: same_till_def)

lemma job_audit:
  assumes "AcknowledgeKitchenPrintJob sha256 ctx tenant outlet k action a s = (Inr r, s')"
  shows "audited_once tenant a (rd_commerce s) (rd_commerce s')"
proof -
  from assms obtain u where "in_commerce (insertAudit tenant a) u = Inr s'" "rd_commerce u = rd_commerce s"
    by (auto simp: AcknowledgeKitchenPrintJob_def till_transaction_def transact_Inr_iff rbind_Inr_iff Let_def insert_print_event_def
        guarded_Inr_iff if_Inl_Inr split: option.splits)
  then show ?thesis by (elim audit_once) simp
qed

lemma token_audit:
  assumes "TransitionPickupToken sha256 ctx tenant outlet k status n a s = (Inr r, s')"
  shows "audited_once tenant a (rd_commerce s) (rd_commerce s')"
proof -
  from assms obtain u where "in_commerce (insertAudit tenant a) u = Inr s'" "rd_commerce u = rd_commerce s"
    by (auto simp: TransitionPickupToken_def till_transaction_def transact_Inr_iff rbind_Inr_iff Let_def insert_token_event_def
        guarded_Inr_iff if_Inl_Inr split: option.splits)
  then show ?thesis by (elim audit_once) simp
qed

lemma new_job_audit:
  assumes "CreateKitchenPrintJob ctx j a s = (Inr r, s')"
  shows "audited_once (kp_TenantID j) a (rd_commerce s) (rd_commerce s')"
proof -
  from assms obtain u where "in_commerce (insertAudit (kp_TenantID j) a) u = Inr s'" "rd_commerce u = rd_commerce s"
    by (auto simp: CreateKitchenPrintJob_def till_transaction_def transact_Inr_iff rbind_Inr_iff insert_print_job_def
        guarded_Inr_iff split: option.splits)
  then show ?thesis by (elim audit_once) simp
qed

lemma new_token_audit:
  assumes "IssuePickupToken ctx t a s = (Inr r, s')"
  shows "audited_once (pk_TenantID t) a (rd_commerce s) (rd_commerce s')"
proof -
  from assms obtain u where "in_commerce (insertAudit (pk_TenantID t) a) u = Inr s'" "rd_commerce u = rd_commerce s"
    by (auto simp: IssuePickupToken_def till_transaction_def transact_Inr_iff rbind_Inr_iff insert_token_def
        guarded_Inr_iff split: option.splits)
  then show ?thesis by (elim audit_once) simp
qed

lemmas till_audits = studio_audit version_audit CheckoutPOS_audit new_job_audit job_audit new_token_audit token_audit

lemma run_till_audit:
  assumes "run_till sha256 date micro ctx a c s = (Inr (), s')"
  shows "audited_once (till_tenant c) a (rd_commerce s) (rd_commerce s')"
  using assms by (cases c) (auto dest!: outcome_InrD till_audits run_commerce_audit split: prod.splits)

lemma till_transaction_Inl: "till_transaction ctx body s = (Inl e, s') \<Longrightarrow> s' = s"
  unfolding till_transaction_def by (rule transact_Inl)

lemma run_till_failure:
  assumes "run_till sha256 date micro ctx a c s = (Inl e, s')"
  shows "s' = s"
proof (cases c)
  case (Trade d)
  obtain r db where run: "run_commerce sha256 date ctx a d (rd_commerce s) = (r, db)" by fastforce
  with assms Trade have "r = Inl e" "s' = s\<lparr>rd_commerce := db\<rparr>" by simp_all
  with run run_commerce_failure [of sha256 date ctx a d "rd_commerce s" e db] show ?thesis by simp
qed (use assms in \<open>auto dest!: outcome_InlD till_transaction_Inl simp: CreateMenuStudio_def AddMenuStudioVersion_def CheckoutPOS_def
  CreateKitchenPrintJob_def AcknowledgeKitchenPrintJob_def IssuePickupToken_def TransitionPickupToken_def\<close>)

lemma run_till_keeps_done:
  assumes "operation_done tenant operation (rd_commerce s)"
  shows "operation_done tenant operation (rd_commerce (snd (run_till sha256 date micro ctx a c s)))"
proof -
  obtain r s' where run: "run_till sha256 date micro ctx a c s = (r, s')" by fastforce
  show ?thesis
  proof (cases r)
    case (Inl e)
    with run have "s' = s" by (intro run_till_failure) simp
    with run assms show ?thesis by simp
  next
    case (Inr v)
    with run run_till_audit [of sha256 date micro ctx a c s s'] assms show ?thesis by (auto simp: audited_once_def operation_done_def)
  qed
qed

end
