(* ===== verification/Core_Postgres_Idempotency.thy ===== *)
theory Core_Postgres_Idempotency
  imports Core_Replay
begin

text \<open>
  The durable replay protection, \<open>services/core/internal/idempotency/postgres.go\<close>, on the table
  \<open>idempotency_records\<close>. The advisory lock on the identity of the scope makes the calls of one scope a
  sequence, and a call touches the rows of its own scope only. What may fail around the operation is in
  the surroundings of a call: the statements before it, the tenants the foreign key of the record finds
  when it is inserted, and the commit. The operation runs in transactions of its own, so that it stays
  carried out when the record of it is lost. Identifiers are taken as the \<open>uuid\<close> columns hold them.
\<close>

subsection \<open>The store\<close>

record replay_row =
  py_tenant_id :: string
  py_actor_id :: string
  py_route :: string
  py_idempotency_key :: string
  py_request_hash :: string
  py_response_status :: int
  py_response_headers :: "(string \<times> string) list option"
  py_response_body :: string
  py_expires_at :: time

record postgres_store =
  pg_records :: "replay_row list"
  pg_ttl :: duration

definition NewPostgresStore :: "duration \<Rightarrow> postgres_store" where
  "NewPostgresStore ttl = \<lparr>pg_records = [], pg_ttl = (if ttl \<le> 0 then 24 * (60 * Minute) else ttl)\<rparr>"

record postgres_surroundings =
  pc_prepare :: "string option"
  pc_now :: time
  pc_completed :: time
  pc_tenants :: "string list"
  pc_commit :: "string option"

definition record_of :: "idem_scope \<Rightarrow> replay_row \<Rightarrow> bool" where
  "record_of scope r \<longleftrightarrow> py_tenant_id r = is_TenantID scope \<and> py_actor_id r = is_ActorID scope
     \<and> py_route r = is_Route scope \<and> py_idempotency_key r = is_Key scope"

definition unexpired :: "time \<Rightarrow> idem_scope \<Rightarrow> replay_row list \<Rightarrow> replay_row list" where
  "unexpired now scope = filter (\<lambda>r. \<not> (record_of scope r \<and> py_expires_at r \<le> now))"

definition new_record :: "idem_scope \<Rightarrow> string \<Rightarrow> idem_result \<Rightarrow> time \<Rightarrow> replay_row" where
  "new_record scope fingerprint result expires = \<lparr>py_tenant_id = is_TenantID scope, py_actor_id = is_ActorID scope,
     py_route = is_Route scope, py_idempotency_key = is_Key scope, py_request_hash = fingerprint,
     py_response_status = ir_HTTPStatus result, py_response_headers = ir_Headers result, py_response_body = ir_Value result,
     py_expires_at = expires\<rparr>"

definition recorded_result :: "replay_row \<Rightarrow> idem_result" where
  "recorded_result r = \<lparr>ir_HTTPStatus = py_response_status r, ir_Value = py_response_body r, ir_Headers = py_response_headers r\<rparr>"

definition Postgres_Do :: "postgres_surroundings \<Rightarrow> (postgres_store, 'r) replay_call" where
  "Postgres_Do e scope fingerprint operation s =
    (case pc_prepare e of
       Some problem \<Rightarrow> (Inl (Unavailable problem), s)
     | None \<Rightarrow> (let store = ss_Idempotency s; records = unexpired (pc_now e) scope (pg_records store) in
        case List.find (record_of scope) records of
          Some r \<Rightarrow>
            if py_request_hash r \<noteq> fingerprint then (Inl FingerprintConflict, s)
            else (case pc_commit e of
                Some problem \<Rightarrow> (Inl (Unavailable problem), s)
              | None \<Rightarrow> (Inr (recorded_result r, True), s\<lparr>ss_Idempotency := store\<lparr>pg_records := records\<rparr>\<rparr>))
        | None \<Rightarrow> (let (result, repository) = operation (ss_Repository s); s = s\<lparr>ss_Repository := repository\<rparr>;
              row = new_record scope fingerprint result (pc_completed e + pg_ttl store) in
            if is_TenantID scope \<notin> set (pc_tenants e)
            then (Inl (Unavailable ''postgres idempotency: persist response''), s)
            else (case pc_commit e of
                Some problem \<Rightarrow> (Inl (Unavailable problem), s)
              | None \<Rightarrow> (Inr (cloneResult result, False), s\<lparr>ss_Idempotency := store\<lparr>pg_records := records @ [row]\<rparr>\<rparr>)))))"

subsection \<open>The store is a replay store\<close>

definition postgres_sound :: "postgres_surroundings \<Rightarrow> (postgres_store, 'r) core_state \<Rightarrow> bool" where
  "postgres_sound e s \<longleftrightarrow> True"

text \<open>The later call reaches the database, and the record has not expired by then.\<close>

definition postgres_retained :: "postgres_surroundings \<Rightarrow> postgres_surroundings \<Rightarrow> (postgres_store, 'r) core_state \<Rightarrow> bool" where
  "postgres_retained e e' s \<longleftrightarrow> pc_prepare e' = None \<and> pc_commit e' = None \<and> pc_now e' < pc_completed e + pg_ttl (ss_Idempotency s)"

lemma recorded_new [simp]: "recorded_result (new_record scope fingerprint result expires) = result"
  by (simp add: recorded_result_def new_record_def)

lemma new_record_scope [simp]: "record_of scope (new_record scope fingerprint result expires)"
  by (simp add: record_of_def new_record_def)

lemma find_snoc: "List.find P xs = None \<Longrightarrow> P x \<Longrightarrow> List.find P (xs @ [x]) = Some x"
  by (induction xs) (auto split: if_splits)

lemma find_unexpired:
  assumes "List.find (record_of scope) records = None" "now < py_expires_at r" "record_of scope r"
  shows "List.find (record_of scope) (unexpired now scope (records @ [r])) = Some r"
proof -
  have "filter (record_of scope) records = []" using assms(1) by (auto simp: find_None_iff filter_empty_conv)
  then have "unexpired now scope (records @ [r]) = records @ [r]"
    using assms(2) by (auto simp: unexpired_def filter_empty_conv intro!: filter_True)
  with find_snoc [OF assms(1,3)] show ?thesis by simp
qed

lemma Postgres_Do_cases [consumes 1, case_names kept replayed executed]:
  assumes "Postgres_Do e scope fingerprint operation s = (answer, s')"
  obtains (kept) problem where "answer = Inl problem" "s' = s"
    | (replayed) r where "answer = Inr (recorded_result r, True)" "ss_Repository s' = ss_Repository s"
    | (executed) result where "operation (ss_Repository s) = (result, ss_Repository s')"
      "answer = Inr (result, False) \<and> pc_prepare e = None
        \<and> List.find (record_of scope) (unexpired (pc_now e) scope (pg_records (ss_Idempotency s))) = None
        \<and> ss_Idempotency s' = (ss_Idempotency s)\<lparr>pg_records := unexpired (pc_now e) scope (pg_records (ss_Idempotency s))
            @ [new_record scope fingerprint result (pc_completed e + pg_ttl (ss_Idempotency s))]\<rparr>
       \<or> (\<exists>problem. answer = Inl (Unavailable problem)) \<and> ss_Idempotency s' = ss_Idempotency s"
  using assms by (auto simp: Postgres_Do_def Let_def split: option.splits prod.splits if_splits)

interpretation durable: replay_store Postgres_Do postgres_sound postgres_retained
proof
  fix e scope fingerprint and operation :: "'r \<Rightarrow> idem_result \<times> 'r" and s answer s'
  assume "Postgres_Do e scope fingerprint operation s = (answer, s')"
  then show "ss_Repository s' = ss_Repository s \<or> (\<exists>result. operation (ss_Repository s) = (result, ss_Repository s'))"
    by (cases rule: Postgres_Do_cases) auto
next
  fix e scope fingerprint and operation :: "'r \<Rightarrow> idem_result \<times> 'r" and s result s'
  assume "Postgres_Do e scope fingerprint operation s = (Inr (result, False), s')"
  then show "operation (ss_Repository s) = (result, ss_Repository s')"
    by (cases rule: Postgres_Do_cases) auto
next
  fix e scope fingerprint and operation :: "'r \<Rightarrow> idem_result \<times> 'r" and s result s1 e' and operation' :: "'r \<Rightarrow> idem_result \<times> 'r"
  assume first: "Postgres_Do e scope fingerprint operation s = (Inr (result, False), s1)" and late: "postgres_retained e e' s"
  define row where "row = new_record scope fingerprint result (pc_completed e + pg_ttl (ss_Idempotency s))"
  define records where "records = unexpired (pc_now e) scope (pg_records (ss_Idempotency s))"
  from first have none: "List.find (record_of scope) records = None"
    and s1: "ss_Idempotency s1 = (ss_Idempotency s)\<lparr>pg_records := records @ [row]\<rparr>"
    unfolding row_def records_def by (cases rule: Postgres_Do_cases; simp)+
  have "List.find (record_of scope) (unexpired (pc_now e') scope (pg_records (ss_Idempotency s1))) = Some row"
    using find_unexpired [OF none, of "pc_now e'" row] late s1 by (simp add: row_def postgres_retained_def new_record_def [abs_def] record_of_def)
  moreover have "py_request_hash row = fingerprint" "recorded_result row = result" by (simp_all add: row_def new_record_def recorded_result_def)
  ultimately show "\<exists>s2. Postgres_Do e' scope fingerprint operation' s1 = (Inr (result, True), s2) \<and> ss_Repository s2 = ss_Repository s1"
    using late by (simp add: Postgres_Do_def postgres_retained_def Let_def)
qed

end
