(* ===== verification/Core_Served.thy ===== *)
theory Core_Served
  imports Core_Postgres_Idempotency Core_Routes
begin

text \<open>
  What the server guarantees for the routes of a component, whatever they are: a request that changes the
  repository does it by the mutation of its route, for a user that the authenticator accepted, whose role
  may use the route, in the user's tenant and at one of the user's outlets. \<open>served_routes\<close> states it over
  any replay store; the components interpret it with their routes.
\<close>

locale served_routes = replay_store call sound retained
  for call :: "'e \<Rightarrow> ('i, 'r) replay_call" and sound :: "'e \<Rightarrow> ('i, 'r) core_state \<Rightarrow> bool"
    and retained :: "'e \<Rightarrow> 'e \<Rightarrow> ('i, 'r) core_state \<Rightarrow> bool" +
  fixes codec :: core_codec and find_route :: "string \<Rightarrow> string \<Rightarrow> 'route option"
    and mutation :: "core_surroundings \<Rightarrow> 'route \<Rightarrow> 'r mutation_operation option"
    and reading :: "'route \<Rightarrow> core_surroundings \<Rightarrow> principal option \<Rightarrow> core_request \<Rightarrow> 'r \<Rightarrow> core_response"
    and effect :: "core_surroundings \<Rightarrow> mutation_metadata \<Rightarrow> string \<Rightarrow> 'r \<Rightarrow> 'r \<Rightarrow> bool"
  assumes user_route: "find_route verb path = Some route \<Longrightarrow>
      path \<noteq> ''/api/v1/sync/operations'' \<and> (\<forall>rest. split_on CHR ''/'' path \<noteq> [] # ''api'' # ''v1'' # ''platform'' # rest)"
    and mutation_effect: "mutation sv route = Some operation \<Longrightarrow> operation d p s = (result, s') \<Longrightarrow> effect sv d p s s'"
begin

lemma routed_effect:
  assumes "find_route (cr_Method request) (cr_Path request) = Some route"
    and "routed_mux find_route mutation reading codec (call e) other sv who request s = (response, s')" "ss_Repository s' \<noteq> ss_Repository s"
  obtains p and ad :: admitted where "who = Some p" "mm_ActorID (ad_Metadata ad) = p_ActorID p"
    "IsPlatformAdmin p \<or> mm_TenantID (ad_Metadata ad) = p_TenantID p"
    "IsPlatformAdmin p \<or> AllowsOutlet p (mm_OutletID (ad_Metadata ad))" "admit_mutation codec sv who request = Inr ad"
    "effect sv (ad_Metadata ad) (ad_Payload ad) (ss_Repository s) (ss_Repository s')"
proof -
  from assms obtain operation where op: "mutation sv route = Some operation"
    and run: "executeMutation codec (call e) sv who request operation s = (response, s')"
    by (auto simp: routed_mux_def split: option.splits)
  from run assms(3) show thesis
  proof (rule executeMutation_effect)
    fix ad :: admitted and p result
    assume "admit_mutation codec sv who request = Inr ad" "who = Some p" "operation (ad_Metadata ad) (ad_Payload ad) (ss_Repository s) = (result, ss_Repository s')"
      "mm_ActorID (ad_Metadata ad) = p_ActorID p" "IsPlatformAdmin p \<or> mm_TenantID (ad_Metadata ad) = p_TenantID p"
      "IsPlatformAdmin p \<or> AllowsOutlet p (mm_OutletID (ad_Metadata ad))"
    with mutation_effect [OF op] show thesis by (intro that [of p ad]) simp_all
  qed
qed

lemma not_platform:
  assumes "find_route verb path = Some route"
  shows "\<not> HasPrefix path ''/api/v1/platform/''"
proof
  assume "HasPrefix path ''/api/v1/platform/''"
  then obtain t where "path = ''/api/v1/platform/'' @ t" unfolding HasPrefix_def by (rule prefixE)
  then have "split_on CHR ''/'' path = [] # ''api'' # ''v1'' # ''platform'' # split_on CHR ''/'' t" by simp
  with user_route [OF assms] show False by blast
qed

lemma served:
  assumes "serve_mux cfg (routed_mux find_route mutation reading codec (call e) other) sv request s = (response, s')"
    and "ss_Repository s' \<noteq> ss_Repository s" and route: "find_route (cr_Method request) (cr_Path request) = Some route"
  obtains sv1 p d t where "sf_UserAuthenticator cfg request = Inr p" "routeAuthorized p request" "sv_Context sv1 = sv_Context sv" "\<not> IsPlatformAdmin p"
    "sv1 = sv\<lparr>sv_RequestID := sv_RequestID sv1\<rparr>" "mm_ActorID d = p_ActorID p" "mm_TenantID d = p_TenantID p" "AllowsOutlet p (mm_OutletID d)"
    "\<exists>ad. admit_mutation codec sv (Some p) request = Inr ad \<and> ad_Metadata ad = d \<and> ad_Payload ad = t"
    "effect sv1 d t (ss_Repository s) (ss_Repository s')"
proof -
  let ?mux = "routed_mux find_route mutation reading codec (call e) other"
  define sv1 where "sv1 = (let cleaned = cleanRequestID (cr_Header request ''X-Request-ID'')
     in if cleaned = [] then sv else sv\<lparr>sv_RequestID := cleaned\<rparr>)"
  have context_same: "sv_Context sv1 = sv_Context sv" "sv1 = sv\<lparr>sv_RequestID := sv_RequestID sv1\<rparr>" by (simp_all add: sv1_def Let_def)
  have admitted_same: "admit_mutation codec sv1 who request = admit_mutation codec sv who request" for who
    by (rule admit_mutation_cong) (simp_all add: sv1_def Let_def)
  have path: "cr_Path request \<noteq> ''/api/v1/sync/operations''" using user_route [OF route] by simp
  show thesis
  proof (cases "requiresDemoAuthentication (cr_Path request)")
    case True
    with assms(1,2) path obtain p where p: "sf_UserAuthenticator cfg request = Inr p"
      and auth: "routeAuthorized p request" and s': "s' = snd (?mux sv1 (Some p) request s)"
      unfolding serve_mux_def Let_def sv1_def [unfolded Let_def, symmetric]
      by (auto simp: with_headers_def split: sum.splits if_splits)
    have user: "p_Kind p \<noteq> ''device''" using auth path by (auto simp: routeAuthorized_def Let_def)
    have notadmin: "\<not> IsPlatformAdmin p" using auth user not_platform [OF route] by (auto simp: routeAuthorized_def Let_def)
    obtain response' where mux: "?mux sv1 (Some p) request s = (response', s')" using s' by (metis prod.collapse)
    from route mux assms(2) show thesis
    proof (rule routed_effect)
      fix q and ad :: admitted
      assume "Some p = Some q" "mm_ActorID (ad_Metadata ad) = p_ActorID q"
        "IsPlatformAdmin q \<or> mm_TenantID (ad_Metadata ad) = p_TenantID q"
        "IsPlatformAdmin q \<or> AllowsOutlet q (mm_OutletID (ad_Metadata ad))" "admit_mutation codec sv1 (Some p) request = Inr ad"
        "effect sv1 (ad_Metadata ad) (ad_Payload ad) (ss_Repository s) (ss_Repository s')"
      with p auth context_same notadmin admitted_same show thesis by (intro that [of p sv1 "ad_Metadata ad" "ad_Payload ad"]) simp_all
    qed
  next
    case False
    with assms(1,2) have s': "s' = snd (?mux sv1 None request s)"
      unfolding serve_mux_def Let_def sv1_def [unfolded Let_def, symmetric]
      by (auto simp: with_headers_def split: sum.splits)
    then obtain response' where "?mux sv1 None request s = (response', s')" by (metis prod.collapse)
    with route show thesis by (rule routed_effect) (use assms(2) in auto)
  qed
qed

end

end
