(* ===== verification/Core_Commerce_Api_Properties.thy ===== *)
theory Core_Commerce_Api_Properties
  imports Core_Commerce_Api Core_Commerce_System Core_Served Core_Server_Properties
begin

text \<open>
  What the commerce endpoints promise over the database: a request changes the tables by one command
  within the scope of its caller, keeps what the tables promise, is replayed from its record, and is not
  carried out a second time even when that record was lost.
\<close>

subsection \<open>The effect of a mutation\<close>

text \<open>The command that a handler makes of a body which it has decoded and checked.\<close>

definition valid_body :: "('t \<Rightarrow> 'e + 'b) \<Rightarrow> ('b \<Rightarrow> 'p option) \<Rightarrow> 't \<Rightarrow> 'b \<Rightarrow> bool" where
  "valid_body decode validate p b \<longleftrightarrow> decode p = Inr b \<and> validate b = None"

fun commerce_issued :: "commerce_env \<Rightarrow> core_surroundings \<Rightarrow> mutation_metadata \<Rightarrow> string \<Rightarrow> commerce_command \<Rightarrow> bool" where
  "commerce_issued env sv d p (SetAvailabilityTo t u v) \<longleftrightarrow> (\<exists>b. valid_body (cv_availability env) availabilityInput_validate p b
     \<and> u = mm_OutletID d \<and> ma_MenuItemID v = vi_MenuItemID b \<and> ma_Available v = vi_Available b \<and> ma_Reason v = TrimSpace (vi_Reason b))"
| "commerce_issued env sv d p (AddTable v) \<longleftrightarrow> (\<exists>b. valid_body (cv_table env) tableInput_validate p b \<and> ni_OutletID b = mm_OutletID d
     \<and> dt_ID v = ni_ID b \<and> dt_OutletID v = mm_OutletID d \<and> dt_Label v = TrimSpace (ni_Label b) \<and> dt_Capacity v = ni_Capacity b)"
| "commerce_issued env sv d p (MoveTableTo t u k status expected) \<longleftrightarrow> (\<exists>b. valid_body (cv_table_transition env) tableTransitionInput_validate p b
     \<and> u = mm_OutletID d \<and> status = nt_Status b \<and> expected = nt_ExpectedVersion b)"
| "commerce_issued env sv d p (AddSession v) \<longleftrightarrow> (\<exists>b. valid_body (cv_session env) sessionInput_validate p b \<and> ei_OutletID b = mm_OutletID d
     \<and> ds_ID v = ei_ID b \<and> ds_OutletID v = mm_OutletID d \<and> ds_TableID v = ei_TableID b \<and> ds_GuestCount v = ei_GuestCount b)"
| "commerce_issued env sv d p (EndSession t u k expected) \<longleftrightarrow> (\<exists>b. valid_body (cv_version env) close_session_validate p b
     \<and> u = mm_OutletID d \<and> expected = wi_ExpectedVersion b)"
| "commerce_issued env sv d p (AddShift v) \<longleftrightarrow> (\<exists>b. valid_body (cv_cash env) cashInput_validate p b \<and> hi_OutletID b = mm_OutletID d
     \<and> cs_ID v = hi_ID b \<and> cs_OutletID v = mm_OutletID d \<and> cs_OpeningFloatMinor v = hi_OpeningFloatMinor b)"
| "commerce_issued env sv d p (EndShift t u k expected n) \<longleftrightarrow> (\<exists>b. valid_body (cv_version env) close_cash_validate p b
     \<and> u = mm_OutletID d \<and> expected = wi_ExpectedVersion b \<and> n = wi_ClosingCountMinor b)"
| "commerce_issued env sv d p (TakeTender v receipt) \<longleftrightarrow> (\<exists>b. valid_body (cv_tender env) tenderInput_validate p b
     \<and> pi_OutletID b = mm_OutletID d \<and> v = tender_of sv d b \<and> receipt = receipt_of sv b)"
| "commerce_issued env sv d p (ReturnTender v) \<longleftrightarrow> (\<exists>b original. valid_body (cv_reverse env) reverseTenderInput_validate p b
     \<and> v = refund_of sv d original b)"
| "commerce_issued env sv d p (SettleTenders t u date) \<longleftrightarrow> valid_body (cv_settlement env) settlementInput_validate p date \<and> u = mm_OutletID d"

definition commerce_effect ::
  "commerce_env \<Rightarrow> core_surroundings \<Rightarrow> mutation_metadata \<Rightarrow> string \<Rightarrow> commerce_db \<Rightarrow> commerce_db \<Rightarrow> bool" where
  "commerce_effect env sv d p s s' \<longleftrightarrow> s' = s
     \<or> (\<exists>a c action kind k. newAuditEvent (sv_Random sv 0) d action kind k (sv_Now sv) = Some a \<and> command_tenant c = mm_TenantID d
          \<and> commerce_issued env sv d p c \<and> run_commerce (cv_sha256 env) (cv_business_date env) (sv_Context sv) a c s = (Inr (), s'))"

lemma commerce_effect_refl [simp]: "commerce_effect env sv d p s s"
  by (simp add: commerce_effect_def)

lemma commit_commerce:
  assumes "commit_mutation codec (newAuditEvent (sv_Random sv 0) d action kind k (sv_Now sv)) store answer s = (result, s')"
    and "\<And>a. outcome (store a s) = run_commerce (cv_sha256 env) (cv_business_date env) (sv_Context sv) a c s"
    and "command_tenant c = mm_TenantID d" "commerce_issued env sv d p c"
  shows "commerce_effect env sv d p s s'"
proof (cases "newAuditEvent (sv_Random sv 0) d action kind k (sv_Now sv)")
  case None
  with assms(1) show ?thesis by (simp add: commit_mutation_def)
next
  case (Some a)
  obtain r s1 where store: "store a s = (r, s1)" by fastforce
  with assms(2) [of a] have run: "run_commerce (cv_sha256 env) (cv_business_date env) (sv_Context sv) a c s
      = (map_sum id (\<lambda>_. ()) r, s1)" by (simp add: outcome_def)
  show ?thesis
  proof (cases r)
    case (Inl e)
    with run run_commerce_failure have "s1 = s" by fastforce
    with assms(1) Some store Inl show ?thesis by (simp add: commit_mutation_def)
  next
    case (Inr v)
    with assms(1) Some store have "s1 = s'" by (simp add: commit_mutation_def)
    with run Inr Some assms(3,4) show ?thesis unfolding commerce_effect_def by auto
  qed
qed

lemma ValidUUID_nonempty: "ValidUUID t \<Longrightarrow> t \<noteq> []"
  by (auto simp: ValidUUID_def core_uuid_classes_def uuid_classes_def matches_def)

lemma decoded: "decodeAndValidate codec decode validate payload = Inr input \<Longrightarrow> decode payload = Inr input \<and> validate input = None"
  by (auto simp: decodeAndValidate_def split: sum.splits option.splits)

lemma decoded_body: "decodeAndValidate codec decode validate payload = Inr input \<Longrightarrow> valid_body decode validate payload input"
  unfolding valid_body_def by (rule decoded)

lemma bodies_issued:
  "decodeAndValidate codec (cv_availability env) availabilityInput_validate p = Inr b \<Longrightarrow>
     commerce_issued env sv d p (SetAvailabilityTo t (mm_OutletID d) \<lparr>ma_MenuItemID = vi_MenuItemID b, ma_MenuItemName = n,
       ma_Available = vi_Available b, ma_Reason = TrimSpace (vi_Reason b), ma_Version = w, ma_UpdatedAt = at\<rparr>)"
  "decodeAndValidate codec (cv_table env) tableInput_validate p = Inr c \<Longrightarrow> ni_OutletID c = mm_OutletID d \<Longrightarrow>
     commerce_issued env sv d p (AddTable \<lparr>dt_ID = ni_ID c, dt_TenantID = t, dt_OutletID = mm_OutletID d, dt_Label = TrimSpace (ni_Label c),
       dt_Section = n, dt_Capacity = ni_Capacity c, dt_Status = status, dt_Version = k, dt_CreatedAt = at, dt_UpdatedAt = at\<rparr>)"
  "decodeAndValidate codec (cv_table_transition env) tableTransitionInput_validate p = Inr m \<Longrightarrow>
     commerce_issued env sv d p (MoveTableTo t (mm_OutletID d) table (nt_Status m) (nt_ExpectedVersion m))"
  "decodeAndValidate codec (cv_session env) sessionInput_validate p = Inr e \<Longrightarrow> ei_OutletID e = mm_OutletID d \<Longrightarrow>
     commerce_issued env sv d p (AddSession \<lparr>ds_ID = ei_ID e, ds_TenantID = t, ds_OutletID = mm_OutletID d, ds_TableID = ei_TableID e,
       ds_TableLabel = n, ds_Status = status, ds_GuestCount = ei_GuestCount e, ds_GuestName = who, ds_OpenedAt = at, ds_ClosedAt = closed, ds_Version = k\<rparr>)"
  "decodeAndValidate codec (cv_version env) close_session_validate p = Inr f \<Longrightarrow>
     commerce_issued env sv d p (EndSession t (mm_OutletID d) session (wi_ExpectedVersion f))"
  "decodeAndValidate codec (cv_cash env) cashInput_validate p = Inr h \<Longrightarrow> hi_OutletID h = mm_OutletID d \<Longrightarrow>
     commerce_issued env sv d p (AddShift \<lparr>cs_ID = hi_ID h, cs_TenantID = t, cs_OutletID = mm_OutletID d, cs_RegisterLabel = n, cs_Status = status,
       cs_OpeningFloatMinor = hi_OpeningFloatMinor h, cs_ExpectedCashMinor = x, cs_ClosingCountMinor = counted, cs_VarianceMinor = y,
       cs_OpenedAt = at, cs_ClosedAt = closed, cs_Version = k\<rparr>)"
  "decodeAndValidate codec (cv_version env) close_cash_validate p = Inr f \<Longrightarrow>
     commerce_issued env sv d p (EndShift t (mm_OutletID d) shift (wi_ExpectedVersion f) (wi_ClosingCountMinor f))"
  "decodeAndValidate codec (cv_tender env) tenderInput_validate p = Inr i \<Longrightarrow> pi_OutletID i = mm_OutletID d \<Longrightarrow>
     commerce_issued env sv d p (TakeTender (tender_of sv d i) (receipt_of sv i))"
  "decodeAndValidate codec (cv_reverse env) reverseTenderInput_validate p = Inr q \<Longrightarrow>
     commerce_issued env sv d p (ReturnTender (refund_of sv d original q))"
  "decodeAndValidate codec (cv_settlement env) settlementInput_validate p = Inr date \<Longrightarrow>
     commerce_issued env sv d p (SettleTenders t (mm_OutletID d) date)"
  by (auto dest!: decoded_body)

lemma tender_tenants [simp]: "td_TenantID (tender_of sv d v) = mm_TenantID d" "td_TenantID (refund_of sv d k w) = mm_TenantID d"
  by (simp_all add: tender_of_def refund_of_def)

lemma set_availability_effect: "set_availability codec env sv d p s = (r, s') \<Longrightarrow> commerce_effect env sv d p s s'"
  unfolding set_availability_def by (auto split: sum.splits intro: commit_commerce [where c = "SetAvailabilityTo t u v" for t u v] bodies_issued)

lemma create_table_effect: "create_table codec env sv d p s = (r, s') \<Longrightarrow> commerce_effect env sv d p s s'"
  unfolding create_table_def Let_def by (auto split: sum.splits if_splits intro: commit_commerce [where c = "AddTable v" for v] bodies_issued)

lemma transition_table_effect: "transition_table codec env sv k d p s = (r, s') \<Longrightarrow> commerce_effect env sv d p s s'"
  unfolding transition_table_def
  by (auto split: sum.splits intro: commit_commerce [where c = "MoveTableTo t u k st e" for t u k st e] bodies_issued)

lemma open_session_effect: "open_session codec env sv d p s = (r, s') \<Longrightarrow> commerce_effect env sv d p s s'"
  unfolding open_session_def Let_def by (auto split: sum.splits if_splits intro: commit_commerce [where c = "AddSession v" for v] bodies_issued)

lemma close_session_effect: "close_session codec env sv k d p s = (r, s') \<Longrightarrow> commerce_effect env sv d p s s'"
  unfolding close_session_def by (auto split: sum.splits intro: commit_commerce [where c = "EndSession t u k e" for t u k e] bodies_issued)

lemma open_cash_effect: "open_cash codec env sv d p s = (r, s') \<Longrightarrow> commerce_effect env sv d p s s'"
  unfolding open_cash_def Let_def by (auto split: sum.splits if_splits intro: commit_commerce [where c = "AddShift v" for v] bodies_issued)

lemma close_cash_effect: "close_cash codec env sv k d p s = (r, s') \<Longrightarrow> commerce_effect env sv d p s s'"
  unfolding close_cash_def by (auto split: sum.splits intro: commit_commerce [where c = "EndShift t u k e n" for t u k e n] bodies_issued)

lemma capture_payment_effect: "capture_payment codec env sv d p s = (r, s') \<Longrightarrow> commerce_effect env sv d p s s'"
  unfolding capture_payment_def
  by (auto split: sum.splits if_splits intro: commit_commerce [where c = "TakeTender (tender_of sv d v) w" for v w] bodies_issued)

lemma reverse_payment_effect: "reverse_payment codec env sv k d p s = (r, s') \<Longrightarrow> commerce_effect env sv d p s s'"
  unfolding reverse_payment_def
  by (auto split: sum.splits intro: commit_commerce [where c = "ReturnTender (refund_of sv d k v)" for v] bodies_issued)

lemma settle_day_effect: "settle_day codec env sv d p s = (r, s') \<Longrightarrow> commerce_effect env sv d p s s'"
  unfolding settle_day_def by (auto split: sum.splits intro: commit_commerce [where c = "SettleTenders t u v" for t u v] bodies_issued)

lemmas commerce_effects = set_availability_effect create_table_effect transition_table_effect open_session_effect
  close_session_effect open_cash_effect close_cash_effect capture_payment_effect reverse_payment_effect settle_day_effect

lemma commerce_mutation_effect:
  assumes "commerce_mutation codec env sv route = Some operation" "operation d p s = (r, s')"
  shows "commerce_effect env sv d p s s'"
  using assms by (cases route) (auto dest: commerce_effects)

subsection \<open>A counter\<close>

definition counter_order :: billed_order where
  "counter_order = \<lparr>bo_id = sample_uuid, bo_tenant_id = sample_uuid, bo_outlet_id = sample_uuid, bo_subtotal_minor = 1000,
     bo_discount_total_minor = 0, bo_tax_total_minor = 0, bo_service_charge_minor = 0, bo_total_minor = 1000, bo_currency = ''INR''\<rparr>"

definition counter_db :: commerce_db where
  "counter_db = empty_commerce\<lparr>cm_outlets := [(sample_uuid, sample_uuid)], cm_orders := [counter_order]\<rparr>"

definition counter_state :: "(postgres_store, commerce_db) core_state" where
  "counter_state = \<lparr>ss_Idempotency = NewPostgresStore 100, ss_Repository = counter_db\<rparr>"

definition counter_metadata :: mutation_metadata where
  "counter_metadata = api_metadata\<lparr>mm_OutletID := sample_uuid\<rparr>"

definition counter_codec :: core_codec where
  "counter_codec = api_codec\<lparr>cc_envelope := (\<lambda>body. Inr \<lparr>en_Metadata = counter_metadata, en_Payload = body\<rparr>),
     cc_marshal := (\<lambda>v. case v of OperationError e \<Rightarrow> er_Message e | OperationData data \<Rightarrow> ''{}'')\<rparr>"

definition counter_env :: commerce_env where
  "counter_env = \<lparr>cv_availability = Inl, cv_table = Inl, cv_table_transition = Inl, cv_session = Inl, cv_version = Inl, cv_cash = Inl,
     cv_tender = (\<lambda>t. Inr \<lparr>pi_ID = sample_uuid, pi_OutletID = sample_uuid, pi_OrderID = sample_uuid, pi_CashShiftID = [],
       pi_TenderType = ''upi'', pi_AmountMinor = 1000, pi_ProviderReference = [], pi_ReceiptID = sample_uuid, pi_ReceiptNumber = ''1''\<rparr>),
     cv_reverse = Inl, cv_settlement = Inl, cv_sha256 = plain_bytes, cv_collate = (\<lambda>t. t), cv_business_date = (\<lambda>t. [])\<rparr>"

definition counter_request :: core_request where
  "counter_request = api_request\<lparr>cr_Path := ''/api/v1/tenders''\<rparr>"

definition counter_call :: "time \<Rightarrow> string option \<Rightarrow> postgres_surroundings" where
  "counter_call now problem = \<lparr>pc_prepare = None, pc_now = now, pc_completed = now, pc_tenants = [sample_uuid], pc_commit = problem\<rparr>"

definition counter_other :: "(postgres_store, commerce_db) core_state state_handler" where
  "counter_other sv who request s = (plain_status 404, s)"

abbreviation counter_run :: "core_response \<times> (postgres_store, commerce_db) core_state" where
  "counter_run \<equiv> commerce_ServeHTTP api_config counter_codec counter_env (Postgres_Do (counter_call 5 None)) counter_other
     (api_surroundings 5) counter_request counter_state"

lemma counter_taken: "map (\<lambda>r. td_AmountMinor (tr_tender r)) (cm_tenders (ss_Repository (snd counter_run))) = [1000]"
  by code_simp

lemma counter_route: "commerce_match (cr_Method counter_request) (cr_Path counter_request) = Some CapturePayment"
  by code_simp

lemma counter_reachable: "commerce_reachable plain_bytes {} counter_db"
proof -
  let ?s = "empty_commerce\<lparr>cm_outlets := [(sample_uuid, sample_uuid)], cm_items := []\<rparr>"
  have "commerce_step plain_bytes (bill_disturbs counter_order) ?s (?s\<lparr>cm_orders := cm_orders ?s @ [counter_order]\<rparr>)"
    by (rule new_order) (simp add: empty_commerce_def)
  then have "commerce_step plain_bytes {} ?s counter_db"
    by (simp add: counter_db_def empty_commerce_def bill_disturbs_def counter_order_def small_def)
  with calm_step [OF start catalogue] show ?thesis by (rule calm_step)
qed

subsection \<open>Requests\<close>

lemma commerce_match_others:
  "split_on CHR ''/'' path = [] # ''api'' # ''v1'' # ''platform'' # rest \<Longrightarrow> commerce_match verb path = None"
  "commerce_match verb ''/api/v1/sync/operations'' = None"
  by (auto simp: commerce_match_def split: list.splits)

interpretation commerce_api: served_routes Postgres_Do postgres_sound postgres_retained codec commerce_match
  "commerce_mutation codec env" "commerce_read env" "commerce_effect env" for codec :: core_codec and env :: commerce_env
proof
  fix verb path route assume "commerce_match verb path = Some route"
  with commerce_match_others show "path \<noteq> ''/api/v1/sync/operations''
    \<and> (\<forall>rest. split_on CHR ''/'' path \<noteq> [] # ''api'' # ''v1'' # ''platform'' # rest)" by (metis option.distinct(1))
qed (rule commerce_mutation_effect)

lemmas commerce_served = commerce_api.served [folded commerce_mux_def commerce_ServeHTTP_def]

text \<open>
  A request to a commerce route changes the tables only by one command of the repository, for a user
  that the authenticator accepted and whose role may use the route; the command works in the tenant of
  this user and is audited under the user's name at an outlet the user is assigned to. No platform
  administrator and no device gets that far.
\<close>

theorem commerce_requests_stay_in_scope:
  assumes "commerce_ServeHTTP cfg codec env (Postgres_Do e) other sv request s = (response, s')" "ss_Repository s' \<noteq> ss_Repository s"
    and "commerce_match (cr_Method request) (cr_Path request) = Some route"
  shows "\<exists>p a c. sf_UserAuthenticator cfg request = Inr p \<and> routeAuthorized p request \<and> \<not> IsPlatformAdmin p
    \<and> run_commerce (cv_sha256 env) (cv_business_date env) (sv_Context sv) a c (ss_Repository s) = (Inr (), ss_Repository s')
    \<and> command_tenant c = p_TenantID p \<and> ae_TenantID a = p_TenantID p \<and> ae_ActorID a = p_ActorID p \<and> AllowsOutlet p (ae_OutletID a)"
  using assms
proof (rule commerce_served)
  fix sv1 p d t
  assume p: "sf_UserAuthenticator cfg request = Inr p" "routeAuthorized p request" "sv_Context sv1 = sv_Context sv" "\<not> IsPlatformAdmin p"
    "mm_ActorID d = p_ActorID p" "mm_TenantID d = p_TenantID p" "AllowsOutlet p (mm_OutletID d)"
    and "commerce_effect env sv1 d t (ss_Repository s) (ss_Repository s')"
  with assms(2) obtain a c action kind k where a: "newAuditEvent (sv_Random sv1 0) d action kind k (sv_Now sv1) = Some a"
    and "command_tenant c = mm_TenantID d"
    and "run_commerce (cv_sha256 env) (cv_business_date env) (sv_Context sv) a c (ss_Repository s) = (Inr (), ss_Repository s')"
    unfolding commerce_effect_def p(3) by blast
  with newAuditEvent_scope [OF a] p show ?thesis by (intro exI [of _ p] exI [of _ a] exI [of _ c]) simp
qed

lemma commerce_requests_stay_in_scope_witness:
  "\<exists>p. sf_UserAuthenticator api_config counter_request = Inr p \<and> routeAuthorized p counter_request \<and> \<not> IsPlatformAdmin p"
proof -
  obtain response s' where run: "counter_run = (response, s')" by fastforce
  with counter_taken have "ss_Repository s' \<noteq> ss_Repository counter_state"
    by (auto simp: counter_state_def counter_db_def empty_commerce_def)
  from commerce_requests_stay_in_scope [OF run this counter_route] show ?thesis by blast
qed

text \<open>
  Served over HTTP, the commerce tables stay reachable by the steps of the repository; the orders that a
  request can disturb are those of a payment of \<open>2 ^ 62\<close> minor units or more.
\<close>

theorem commerce_requests_take_commerce_steps:
  assumes "commerce_ServeHTTP cfg codec env (Postgres_Do e) other sv request s = (response, s')"
    and "commerce_match (cr_Method request) (cr_Path request) = Some route"
    and "commerce_reachable (cv_sha256 env) D (ss_Repository s)"
  shows "\<exists>d. commerce_reachable (cv_sha256 env) (D \<union> d) (ss_Repository s')"
proof (cases "ss_Repository s' = ss_Repository s")
  case True
  with assms(3) show ?thesis by (intro exI [of _ "{}"]) simp
next
  case False
  from assms(1) False assms(2) show ?thesis
  proof (rule commerce_served)
    fix sv1 p d t
    assume "commerce_effect env sv1 d t (ss_Repository s) (ss_Repository s')"
    with False obtain a c where
      "run_commerce (cv_sha256 env) (cv_business_date env) (sv_Context sv1) a c (ss_Repository s) = (Inr (), ss_Repository s')"
      unfolding commerce_effect_def by blast
    with run_commerce_step [of "cv_sha256 env" c "ss_Repository s" "cv_business_date env" "sv_Context sv1" a]
    have "commerce_step (cv_sha256 env) (disturbed_by c (ss_Repository s)) (ss_Repository s) (ss_Repository s')" by simp
    with assms(3) show ?thesis by (blast intro: commerce_reachable.step)
  qed
qed

lemma commerce_requests_take_commerce_steps_witness:
  "\<exists>d. commerce_reachable plain_bytes d (ss_Repository (snd counter_run))"
proof -
  have sha: "cv_sha256 counter_env = plain_bytes" by (simp add: counter_env_def)
  have "commerce_reachable (cv_sha256 counter_env) {} (ss_Repository counter_state)"
    using counter_reachable by (simp add: sha counter_state_def)
  moreover obtain response s' where run: "counter_run = (response, s')" by fastforce
  ultimately have "\<exists>d. commerce_reachable (cv_sha256 counter_env) ({} \<union> d) (ss_Repository s')"
    by (intro commerce_requests_take_commerce_steps [OF run counter_route])
  with run sha show ?thesis by simp
qed

text \<open>
  C25: the database replays a recorded mutation: when no record of its scope existed, its tenant was found
  and the transaction was committed, the mutation is answered with its result, and until the record
  expires every repetition that reaches the database, on whichever instance of the server, leaves the
  repository as it is and gets the same result, marked as a replay.
\<close>

theorem durable_mutation_is_replayed:
  assumes "admit_mutation codec sv who request = Inr ad" "admit_mutation codec sv' who' request' = Inr ad'"
    and "ad_Scope ad' = ad_Scope ad" "ad_Fingerprint ad' = ad_Fingerprint ad"
    and "pc_prepare e = None" "pc_commit e = None" "is_TenantID (ad_Scope ad) \<in> set (pc_tenants e)"
    and "\<not> list_ex (record_of (ad_Scope ad)) (unexpired (pc_now e) (ad_Scope ad) (pg_records (ss_Idempotency s)))"
    and "pc_prepare e' = None" "pc_commit e' = None" "pc_now e' < pc_completed e + pg_ttl (ss_Idempotency s)"
  shows "\<exists>result s1 s2. operation (ad_Metadata ad) (ad_Payload ad) (ss_Repository s) = (result, ss_Repository s1)
    \<and> executeMutation codec (Postgres_Do e) sv who request operation s
        = (mutation_response codec (sv_RequestID sv) (Inr (result, False)), s1)
    \<and> executeMutation codec (Postgres_Do e') sv' who' request' operation' s1
        = (mutation_response codec (sv_RequestID sv') (Inr (result, True)), s2)
    \<and> ss_Repository s2 = ss_Repository s1"
proof -
  let ?op = "operation (ad_Metadata ad) (ad_Payload ad)"
  obtain result repository where op: "?op (ss_Repository s) = (result, repository)" by fastforce
  have "List.find (record_of (ad_Scope ad)) (unexpired (pc_now e) (ad_Scope ad) (pg_records (ss_Idempotency s))) = None"
    using assms(8) by (auto simp: find_None_iff list_ex_iff)
  with op assms(5-7) obtain s1 where first: "Postgres_Do e (ad_Scope ad) (ad_Fingerprint ad) ?op s = (Inr (result, False), s1)"
    by (simp add: Postgres_Do_def Let_def)
  have "postgres_sound e s" "postgres_retained e e' s" using assms(9-11) by (simp_all add: postgres_sound_def postgres_retained_def)
  from durable.repeated_mutation [where operation = operation, OF assms(1-4) first this] durable.executed [OF first] first assms(1)
  show ?thesis by (auto simp: executeMutation_def)
qed

lemma durable_mutation_is_replayed_witness:
  "\<exists>s1 s2. s1 = snd (executeMutation counter_codec (Postgres_Do (counter_call 5 None)) (api_surroundings 5) (Some api_principal) counter_request
      (capture_payment counter_codec counter_env (api_surroundings 5)) counter_state)
    \<and> s2 = snd (executeMutation counter_codec (Postgres_Do (counter_call 7 None)) (api_surroundings 7) (Some api_principal) counter_request
      (capture_payment counter_codec counter_env (api_surroundings 7)) s1)
    \<and> ss_Repository s2 = ss_Repository s1"
proof -
  have admitted: "case admit_mutation counter_codec (api_surroundings 5) (Some api_principal) counter_request of
      Inl e \<Rightarrow> False | Inr ad \<Rightarrow> is_TenantID (ad_Scope ad) = sample_uuid" by code_simp
  then obtain ad where ad: "admit_mutation counter_codec (api_surroundings 5) (Some api_principal) counter_request = Inr ad"
    and tenant: "is_TenantID (ad_Scope ad) = sample_uuid"
    by (cases "admit_mutation counter_codec (api_surroundings 5) (Some api_principal) counter_request") auto
  have ad': "admit_mutation counter_codec (api_surroundings 7) (Some api_principal) counter_request = Inr ad"
    using ad admit_mutation_cong [of "api_surroundings 7" "api_surroundings 5" counter_codec "Some api_principal" counter_request]
    by (simp add: api_surroundings_def)
  from durable_mutation_is_replayed [OF ad ad' refl refl, of "counter_call 5 None" counter_state "counter_call 7 None"
      "capture_payment counter_codec counter_env (api_surroundings 5)" "capture_payment counter_codec counter_env (api_surroundings 7)"] tenant
  show ?thesis by (force simp: counter_call_def counter_state_def NewPostgresStore_def unexpired_def)
qed

definition some_command :: "commerce_db \<Rightarrow> commerce_db \<Rightarrow> bool" where
  "some_command s s' \<longleftrightarrow> (\<exists>sha256 date ctx a c. s' = snd (run_commerce sha256 date ctx a c s))"

lemma commands_keep_done: "some_command\<^sup>*\<^sup>* s s' \<Longrightarrow> operation_done tenant operation s \<Longrightarrow> operation_done tenant operation s'"
  by (induction rule: rtranclp_induct) (auto simp: some_command_def run_commerce_keeps_done)

lemma effect_done:
  assumes "commerce_effect env sv d p s s'" "s' \<noteq> s"
  shows "operation_done (mm_TenantID d) (mm_ID d) s' \<and> \<not> operation_done (mm_TenantID d) (mm_ID d) s"
proof -
  from assms obtain a c action kind k where a: "newAuditEvent (sv_Random sv 0) d action kind k (sv_Now sv) = Some a"
    and "run_commerce (cv_sha256 env) (cv_business_date env) (sv_Context sv) a c s = (Inr (), s')"
    unfolding commerce_effect_def by blast
  from run_commerce_audit [OF this(2)] newAuditEvent_scope [OF a] show ?thesis
    by (auto simp: audited_once_def operation_done_def)
qed

text \<open>
  An operation is carried out once even without its replay record. When a mutation changed the
  tables, then after any further commands every mutation of the same tenant under the same operation id,
  on whichever commerce route and with whichever body, leaves the tables as they are.
\<close>

theorem operations_are_carried_out_once:
  assumes "commerce_mutation codec env sv route = Some operation" "operation d p s = (r, s1)" "s1 \<noteq> s"
    and "some_command\<^sup>*\<^sup>* s1 s2"
    and "commerce_mutation codec' env' sv' route' = Some operation'" "operation' d' p' s2 = (r', s3)"
    and "mm_TenantID d' = mm_TenantID d" "mm_ID d' = mm_ID d"
  shows "s3 = s2"
proof (rule ccontr)
  assume changed: "s3 \<noteq> s2"
  from effect_done [OF commerce_mutation_effect [OF assms(1,2)] assms(3)] commands_keep_done [OF assms(4)]
  have "operation_done (mm_TenantID d) (mm_ID d) s2" by blast
  with effect_done [OF commerce_mutation_effect [OF assms(5,6)] changed] assms(7,8) show False by simp
qed

abbreviation counter_payment :: "time \<Rightarrow> commerce_operation" where
  "counter_payment now \<equiv> capture_payment counter_codec counter_env (api_surroundings now)"

lemma counter_payment_taken: "map (\<lambda>r. td_AmountMinor (tr_tender r)) (cm_tenders (snd (counter_payment 5 counter_metadata [] counter_db))) = [1000]"
  by code_simp

lemma operations_are_carried_out_once_witness:
  "snd (counter_payment 9 counter_metadata [] (snd (counter_payment 5 counter_metadata [] counter_db)))
    = snd (counter_payment 5 counter_metadata [] counter_db)"
proof -
  obtain r s1 where first: "counter_payment 5 counter_metadata [] counter_db = (r, s1)" by fastforce
  with counter_payment_taken have changed: "s1 \<noteq> counter_db" by (auto simp: counter_db_def empty_commerce_def)
  obtain r' s3 where second: "counter_payment 9 counter_metadata [] s1 = (r', s3)" by fastforce
  have "s3 = s1"
    by (rule operations_are_carried_out_once [where operation = "counter_payment 5" and operation' = "counter_payment 9"
          and route = CapturePayment and route' = CapturePayment and codec = counter_codec and codec' = counter_codec and env = counter_env
          and env' = counter_env and sv = "api_surroundings 5" and sv' = "api_surroundings 9", OF _ first changed _ _ second]) simp_all
  with first second show ?thesis by simp
qed

definition counter_scope :: idem_scope where
  "counter_scope = \<lparr>is_TenantID = sample_uuid, is_ActorID = ''manager-1'', is_Route = ''POST /api/v1/tenders'', is_Key = ''key-00001''\<rparr>"

text \<open>The answer 422 with its message.\<close>

definition unpaid_refusal :: idem_result where
  "unpaid_refusal = \<lparr>ir_HTTPStatus = 422, ir_Value = ''tender exceeds unpaid balance'', ir_Headers = None\<rparr>"

text \<open>
  But the answer is lost with the record. When the record of a payment cannot be committed, the
  payment stands and the caller is told that the request was cancelled; the repetition then finds the
  order paid, is refused for exceeding the unpaid balance, and it is this refusal that is recorded and
  replayed from then on.
\<close>

theorem lost_record_turns_payment_into_refusal:
  "\<exists>s1 s2 s3. Postgres_Do (counter_call 5 (Some ''connection lost'')) counter_scope ''print'' (counter_payment 5 counter_metadata []) counter_state
        = (Inl (Unavailable ''connection lost''), s1)
    \<and> Postgres_Do (counter_call 7 None) counter_scope ''print'' (counter_payment 7 counter_metadata []) s1 = (Inr (unpaid_refusal, False), s2)
    \<and> Postgres_Do (counter_call 9 None) counter_scope ''print'' (counter_payment 9 counter_metadata []) s2 = (Inr (unpaid_refusal, True), s3)
    \<and> paid_on sample_uuid sample_uuid (tenders (ss_Repository s1)) = 1000
    \<and> cm_tenders (ss_Repository s3) = cm_tenders (ss_Repository s1)"
proof -
  define f where "f = Postgres_Do (counter_call 5 (Some ''connection lost'')) counter_scope ''print'' (counter_payment 5 counter_metadata [])"
  define g where "g = Postgres_Do (counter_call 7 None) counter_scope ''print'' (counter_payment 7 counter_metadata [])"
  define h where "h = Postgres_Do (counter_call 9 None) counter_scope ''print'' (counter_payment 9 counter_metadata [])"
  have run: "case f counter_state of (answer, s1) \<Rightarrow> answer = Inl (Unavailable ''connection lost'')
      \<and> paid_on sample_uuid sample_uuid (tenders (ss_Repository s1)) = 1000
      \<and> (case g s1 of (answer, s2) \<Rightarrow> answer = Inr (unpaid_refusal, False) \<and> (case h s2 of (answer, s3) \<Rightarrow> answer = Inr (unpaid_refusal, True)
         \<and> cm_tenders (ss_Repository s3) = cm_tenders (ss_Repository s1)))"
    unfolding f_def g_def h_def by code_simp
  obtain s1 where 1: "f counter_state = (Inl (Unavailable ''connection lost''), s1)" using run by (cases "f counter_state") auto
  obtain s2 where 2: "g s1 = (Inr (unpaid_refusal, False), s2)" using run 1 by (cases "g s1") auto
  obtain s3 where 3: "h s2 = (Inr (unpaid_refusal, True), s3)" using run 1 2 by (cases "h s2") auto
  from run 1 2 3 have "paid_on sample_uuid sample_uuid (tenders (ss_Repository s1)) = 1000"
    "cm_tenders (ss_Repository s3) = cm_tenders (ss_Repository s1)" by simp_all
  with 1 2 3 show ?thesis unfolding f_def g_def h_def by blast
qed

end
