(* ===== verification/Core_Till_Api_Properties.thy ===== *)
theory Core_Till_Api_Properties
  imports Core_Till_Api Core_Till_Commands Core_Commerce_Api_Properties
begin

text \<open>
  What the endpoints of menus, tills and commerce promise over their database: a request is at most one
  audited command in the scope of its caller, takes a step of the repository, and is not carried out twice.
\<close>

subsection \<open>The effect of a mutation\<close>

text \<open>The command that a handler makes of a body which it has decoded and checked.\<close>

fun till_issued :: "till_env \<Rightarrow> core_surroundings \<Rightarrow> mutation_metadata \<Rightarrow> string \<Rightarrow> till_command \<Rightarrow> bool" where
  "till_issued env sv d p (StartMenu studio v) \<longleftrightarrow> (\<exists>b. valid_body (tv_studio env) (menuStudioInput_validate d) p b
     \<and> studio = studio_of (sv_Now sv) d b \<and> v = stamped (sv_Now sv) (mm_ActorID d) (ui_ID b) (ui_Version b))"
| "till_issued env sv d p (ExtendMenu t u v expected) \<longleftrightarrow> (\<exists>b k. valid_body (tv_version env) menuVersionInput_validate p b
     \<and> ValidUUID k \<and> u = mm_OutletID d \<and> v = stamped (sv_Now sv) (mm_ActorID d) k (xi_Version b) \<and> expected = xi_ExpectedVersion b)"
| "till_issued env sv d p (CheckOut checkout) \<longleftrightarrow> (\<exists>b. valid_body (tv_checkout env) (checkout_validate d) p b
     \<and> checkout = scoped_checkout (sv_Now sv) d b)"
| "till_issued env sv d p (QueueJob j) \<longleftrightarrow> (\<exists>b. valid_body (tv_print_job env) (printJob_validate d) p b \<and> j = queued_job (sv_Now sv) d b)"
| "till_issued env sv d p (ActOnJob t u k action) \<longleftrightarrow> valid_body (tv_print_action env) printAction_validate p action
     \<and> ValidUUID k \<and> u = mm_OutletID d"
| "till_issued env sv d p (IssueToken t) \<longleftrightarrow> (\<exists>b. valid_body (tv_pickup_token env) (pickupToken_validate d) p b \<and> t = issued_token (sv_Now sv) d b)"
| "till_issued env sv d p (MoveTokenTo t u k status expected) \<longleftrightarrow> (\<exists>b. valid_body (tv_token env) tokenTransition_validate p b
     \<and> ValidUUID k \<and> u = mm_OutletID d \<and> status = ki_Status b \<and> expected = ki_ExpectedVersion b)"
| "till_issued env sv d p (Trade c) \<longleftrightarrow> commerce_issued (tv_commerce env) sv d p c"

text \<open>The name of the request does not matter for it.\<close>

lemma commerce_issued_request: "commerce_issued env (sv\<lparr>sv_RequestID := r\<rparr>) d p c = commerce_issued env sv d p c"
  by (cases c) (simp_all add: tender_of_def receipt_of_def refund_of_def)

lemma till_issued_request: "till_issued env (sv\<lparr>sv_RequestID := r\<rparr>) d p c = till_issued env sv d p c"
  by (cases c) (simp_all add: commerce_issued_request)

lemma till_issued_proper: "till_issued env sv d p c \<Longrightarrow> proper_command c"
  by (cases c) (auto simp: queued_job_def issued_token_def)

definition till_effect ::
  "till_env \<Rightarrow> core_surroundings \<Rightarrow> mutation_metadata \<Rightarrow> string \<Rightarrow> restaurant_db \<Rightarrow> restaurant_db \<Rightarrow> bool" where
  "till_effect env sv d p s s' \<longleftrightarrow> s' = s
     \<or> (\<exists>a c action kind k. newAuditEvent (sv_Random sv 0) d action kind k (sv_Now sv) = Some a \<and> till_tenant c = mm_TenantID d
          \<and> till_issued env sv d p c
          \<and> run_till (tv_sha256 env) (cv_business_date (tv_commerce env)) (tv_micro env) (sv_Context sv) a c s = (Inr (), s'))"

lemma till_effect_refl [simp]: "till_effect env sv d p s s"
  by (simp add: till_effect_def)

lemma commit_till:
  assumes "commit_mutation codec (newAuditEvent (sv_Random sv 0) d action kind k (sv_Now sv)) store answer s = (result, s')"
    and "\<And>a. outcome (store a s) = run_till (tv_sha256 env) (cv_business_date (tv_commerce env)) (tv_micro env) (sv_Context sv) a c s"
    and "till_tenant c = mm_TenantID d" "till_issued env sv d p c"
  shows "till_effect env sv d p s s'"
proof (cases "newAuditEvent (sv_Random sv 0) d action kind k (sv_Now sv)")
  case None
  with assms(1) show ?thesis by (simp add: commit_mutation_def)
next
  case (Some a)
  obtain r s1 where store: "store a s = (r, s1)" by fastforce
  with assms(2) [of a] have run: "run_till (tv_sha256 env) (cv_business_date (tv_commerce env)) (tv_micro env) (sv_Context sv) a c s
      = (map_sum id (\<lambda>_. ()) r, s1)" by (simp add: outcome_def)
  show ?thesis
  proof (cases r)
    case (Inl e)
    with run run_till_failure have "s1 = s" by fastforce
    with assms(1) Some store Inl show ?thesis by (simp add: commit_mutation_def)
  next
    case (Inr v)
    with assms(1) Some store have "s1 = s'" by (simp add: commit_mutation_def)
    with run Inr Some assms(3,4) show ?thesis unfolding till_effect_def by auto
  qed
qed

lemma till_tenants [simp]:
  "ms_TenantID (studio_of now d v) = mm_TenantID d" "px_TenantID (scoped_checkout now d w) = mm_TenantID d"
  "kp_TenantID (queued_job now d j) = mm_TenantID d" "pk_TenantID (issued_token now d t) = mm_TenantID d"
  by (simp_all add: studio_of_def scoped_checkout_def queued_job_def issued_token_def Let_def)

lemma till_bodies_issued:
  "decodeAndValidate codec (tv_studio env) (menuStudioInput_validate d) p = Inr b \<Longrightarrow>
     till_issued env sv d p (StartMenu (studio_of (sv_Now sv) d b) (stamped (sv_Now sv) (mm_ActorID d) (ui_ID b) (ui_Version b)))"
  "decodeAndValidate codec (tv_version env) menuVersionInput_validate p = Inr x \<Longrightarrow> ValidUUID k \<Longrightarrow>
     till_issued env sv d p (ExtendMenu t (mm_OutletID d) (stamped (sv_Now sv) (mm_ActorID d) k (xi_Version x)) (xi_ExpectedVersion x))"
  "decodeAndValidate codec (tv_checkout env) (checkout_validate d) p = Inr w \<Longrightarrow>
     till_issued env sv d p (CheckOut (scoped_checkout (sv_Now sv) d w))"
  "decodeAndValidate codec (tv_print_job env) (printJob_validate d) p = Inr j \<Longrightarrow>
     till_issued env sv d p (QueueJob (queued_job (sv_Now sv) d j))"
  "decodeAndValidate codec (tv_print_action env) printAction_validate p = Inr action \<Longrightarrow> ValidUUID k \<Longrightarrow>
     till_issued env sv d p (ActOnJob t (mm_OutletID d) k action)"
  "decodeAndValidate codec (tv_pickup_token env) (pickupToken_validate d) p = Inr q \<Longrightarrow>
     till_issued env sv d p (IssueToken (issued_token (sv_Now sv) d q))"
  "decodeAndValidate codec (tv_token env) tokenTransition_validate p = Inr m \<Longrightarrow> ValidUUID k \<Longrightarrow>
     till_issued env sv d p (MoveTokenTo t (mm_OutletID d) k (ki_Status m) (ki_ExpectedVersion m))"
  unfolding till_issued.simps by (blast dest: decoded_body)+

lemma create_menu_studio_effect: "create_menu_studio codec env sv d p s = (r, s') \<Longrightarrow> till_effect env sv d p s s'"
  unfolding create_menu_studio_def
  by (auto split: sum.splits if_splits intro: till_bodies_issued
      commit_till [where c = "StartMenu (studio_of (sv_Now sv) d v) (stamped (sv_Now sv) (mm_ActorID d) (ui_ID v) (ui_Version v))" for v] simp del: till_issued.simps)

lemma add_menu_version_effect: "add_menu_version codec env sv k d p s = (r, s') \<Longrightarrow> till_effect env sv d p s s'"
  unfolding add_menu_version_def
  by (auto split: sum.splits if_splits intro: till_bodies_issued
      commit_till [where c = "ExtendMenu t u (stamped (sv_Now sv) (mm_ActorID d) k (xi_Version v)) (xi_ExpectedVersion v)" for t u v] simp del: till_issued.simps)

lemma checkout_pos_effect: "checkout_pos codec env sv d p s = (r, s') \<Longrightarrow> till_effect env sv d p s s'"
  unfolding checkout_pos_def
  by (auto split: sum.splits if_splits intro: till_bodies_issued
      commit_till [where c = "CheckOut (scoped_checkout (sv_Now sv) d v)" for v] simp del: till_issued.simps)

lemma create_print_job_effect: "create_print_job codec env sv d p s = (r, s') \<Longrightarrow> till_effect env sv d p s s'"
  unfolding create_print_job_def
  by (auto split: sum.splits if_splits intro: till_bodies_issued
      commit_till [where c = "QueueJob (queued_job (sv_Now sv) d v)" for v] simp del: till_issued.simps)

lemma act_on_print_job_effect: "act_on_print_job codec env sv k d p s = (r, s') \<Longrightarrow> till_effect env sv d p s s'"
  unfolding act_on_print_job_def
  by (auto split: sum.splits if_splits intro: till_bodies_issued
      commit_till [where c = "ActOnJob t u k w" for t u w] simp del: till_issued.simps)

lemma issue_pickup_token_effect: "issue_pickup_token codec env sv d p s = (r, s') \<Longrightarrow> till_effect env sv d p s s'"
  unfolding issue_pickup_token_def
  by (auto split: sum.splits if_splits intro: till_bodies_issued
      commit_till [where c = "IssueToken (issued_token (sv_Now sv) d v)" for v] simp del: till_issued.simps)

lemma transition_token_effect: "transition_token codec env sv k d p s = (r, s') \<Longrightarrow> till_effect env sv d p s s'"
  unfolding transition_token_def
  by (auto split: sum.splits if_splits intro: till_bodies_issued
      commit_till [where c = "MoveTokenTo t u k (ki_Status v) (ki_ExpectedVersion v)" for t u v] simp del: till_issued.simps)

lemma on_commerce_effect:
  assumes "commerce_mutation codec (tv_commerce env) sv route = Some operation" "on_commerce operation d p s = (r, s')"
  shows "till_effect env sv d p s s'"
proof -
  obtain c where run: "operation d p (rd_commerce s) = (r, c)" and s': "s' = s\<lparr>rd_commerce := c\<rparr>"
    using assms(2) by (auto simp: on_commerce_def split: prod.splits)
  from commerce_mutation_effect [OF assms(1) run] show ?thesis
    unfolding commerce_effect_def
  proof (elim disjE exE conjE)
    fix a x action kind k
    assume "newAuditEvent (sv_Random sv 0) d action kind k (sv_Now sv) = Some a" "command_tenant x = mm_TenantID d"
      "commerce_issued (tv_commerce env) sv d p x"
      "run_commerce (cv_sha256 (tv_commerce env)) (cv_business_date (tv_commerce env)) (sv_Context sv) a x (rd_commerce s) = (Inr (), c)"
    then show ?thesis unfolding till_effect_def s'
      by (intro disjI2 exI [of _ a] exI [of _ "Trade x"] exI [of _ action] exI [of _ kind] exI [of _ k])
        (simp add: tv_sha256_def)
  qed (simp add: s')
qed

lemmas till_effects = create_menu_studio_effect add_menu_version_effect checkout_pos_effect create_print_job_effect
  act_on_print_job_effect issue_pickup_token_effect transition_token_effect on_commerce_effect

lemma till_mutation_effect:
  assumes "till_mutation codec env sv route = Some operation" "operation d p s = (r, s')"
  shows "till_effect env sv d p s s'"
  using assms by (cases route) (auto dest: till_effects)

lemma till_match_others:
  "split_on CHR ''/'' path = [] # ''api'' # ''v1'' # ''platform'' # rest \<Longrightarrow> till_match verb path = None"
  "till_match verb ''/api/v1/sync/operations'' = None"
  by (auto simp: till_match_def commerce_match_others commerce_match_def split: list.splits)

interpretation till_api: served_routes Postgres_Do postgres_sound postgres_retained codec till_match
  "till_mutation codec env" "till_read env" "till_effect env" for codec :: core_codec and env :: till_env
proof
  fix verb path route assume "till_match verb path = Some route"
  with till_match_others show "path \<noteq> ''/api/v1/sync/operations''
    \<and> (\<forall>rest. split_on CHR ''/'' path \<noteq> [] # ''api'' # ''v1'' # ''platform'' # rest)" by (metis option.distinct(1))
qed (rule till_mutation_effect)

lemmas till_served = till_api.served [folded till_ServeHTTP_def]

subsection \<open>A till\<close>

definition kiosk_checkout :: pos_checkout where
  "kiosk_checkout = \<lparr>px_ID = sample_uuid, px_TenantID = [], px_OutletID = sample_uuid, px_MenuVersionID = [], px_OrderID = sample_uuid,
     px_OrderType = CoreDineIn, px_BrandID = [], px_ExternalRef = [], px_DiscountMinor = 0, px_TaxMinor = 50, px_ServiceChargeMinor = 0,
     px_Lines = [\<lparr>ln_ID = sample_uuid, ln_MenuItemID = sample_uuid, ln_Quantity = 2, ln_PreparationNote = [], ln_ModifierOptionIDs = []\<rparr>],
     px_Tenders = [\<lparr>pn_ID = sample_uuid, pn_TenderType = ''upi'', pn_CashShiftID = [], pn_AmountMinor = 1050, pn_ProviderReference = []\<rparr>],
     px_ReceiptID = sample_uuid, px_ReceiptNumber = ''R1'', px_PickupTokenID = [], px_PickupToken = [], px_PrinterRoute = ''kitchen'',
     px_PlacedAt = 0\<rparr>"

definition kiosk_db :: restaurant_db where
  "kiosk_db = empty_till\<lparr>rd_commerce := empty_commerce\<lparr>cm_outlets := [(sample_uuid, sample_uuid)], cm_items := []\<rparr>, rd_stations := [(sample_uuid, sample_uuid, sample_uuid)],
     rd_items := [\<lparr>tb_id = sample_uuid, tb_tenant_id = sample_uuid, tb_outlet_id = sample_uuid, tb_name = ''Dosa'', tb_station_id = sample_uuid,
       tb_recipe_id = Some sample_uuid, tb_price_minor = 500, tb_currency = ''INR'', tb_active = True\<rparr>]\<rparr>"

definition kiosk_state :: "(postgres_store, restaurant_db) core_state" where
  "kiosk_state = \<lparr>ss_Idempotency = NewPostgresStore 100, ss_Repository = kiosk_db\<rparr>"

definition kiosk_env :: till_env where
  "kiosk_env = \<lparr>tv_studio = Inl, tv_version = Inl, tv_checkout = (\<lambda>t. Inr kiosk_checkout), tv_print_action = Inl,
     tv_print_job = Inl, tv_pickup_token = Inl, tv_token = Inl, tv_commerce = counter_env\<lparr>cv_sha256 := (\<lambda>t. replicate 32 0)\<rparr>,
     tv_micro = (\<lambda>t. t div 1000 * 1000)\<rparr>"

definition kiosk_request :: core_request where
  "kiosk_request = api_request\<lparr>cr_Path := ''/api/v1/pos-checkouts''\<rparr>"

definition kiosk_other :: "(postgres_store, restaurant_db) core_state state_handler" where
  "kiosk_other sv who request s = (plain_status 404, s)"

abbreviation kiosk_run :: "core_response \<times> (postgres_store, restaurant_db) core_state" where
  "kiosk_run \<equiv> till_ServeHTTP api_config counter_codec kiosk_env (Postgres_Do (counter_call 5 None)) kiosk_other
     (api_surroundings 5) kiosk_request kiosk_state"

lemma kiosk_taken: "map (\<lambda>r. td_AmountMinor (tr_tender r)) (cm_tenders (rd_commerce (ss_Repository (snd kiosk_run)))) = [1050]"
  by code_simp

lemma kiosk_route: "till_match (cr_Method kiosk_request) (cr_Path kiosk_request) = Some Checkout"
  by code_simp

lemma kiosk_reachable: "till_reachable sha256 {} kiosk_db"
proof -
  from calm_till_step [OF till_reachable.start till_step.commerce [OF catalogue]]
  have "till_reachable sha256 {} (empty_till\<lparr>rd_commerce := empty_commerce\<lparr>cm_outlets := [(sample_uuid, sample_uuid)], cm_items := []\<rparr>\<rparr>)"
    by (simp add: empty_till_def)
  then show ?thesis by (rule calm_till_step) (rule outside, simp add: same_till_def kiosk_db_def empty_till_def)
qed

subsection \<open>Requests\<close>

text \<open>
  C20: requests to the till stay in scope. A request to a route of menus, tills or commerce changes the tables
  only by one command of the repository, for a user that the authenticator accepted and whose role may use
  the route; the command works in the tenant of this user and is audited under the user's name at an outlet
  the user is assigned to. No platform administrator and no device gets that far.
\<close>

theorem till_requests_stay_in_scope:
  assumes "till_ServeHTTP cfg codec env (Postgres_Do e) other sv request s = (response, s')" "ss_Repository s' \<noteq> ss_Repository s"
    and "till_match (cr_Method request) (cr_Path request) = Some route"
  shows "\<exists>p a c. sf_UserAuthenticator cfg request = Inr p \<and> routeAuthorized p request \<and> \<not> IsPlatformAdmin p
    \<and> run_till (tv_sha256 env) (cv_business_date (tv_commerce env)) (tv_micro env) (sv_Context sv) a c (ss_Repository s) = (Inr (), ss_Repository s')
    \<and> till_tenant c = p_TenantID p \<and> ae_TenantID a = p_TenantID p \<and> ae_ActorID a = p_ActorID p \<and> AllowsOutlet p (ae_OutletID a)"
  using assms
proof (rule till_served)
  fix sv1 p d t
  assume p: "sf_UserAuthenticator cfg request = Inr p" "routeAuthorized p request" "sv_Context sv1 = sv_Context sv" "\<not> IsPlatformAdmin p"
    "mm_ActorID d = p_ActorID p" "mm_TenantID d = p_TenantID p" "AllowsOutlet p (mm_OutletID d)"
    and "till_effect env sv1 d t (ss_Repository s) (ss_Repository s')"
  with assms(2) obtain a c action kind k where a: "newAuditEvent (sv_Random sv1 0) d action kind k (sv_Now sv1) = Some a"
    and "till_tenant c = mm_TenantID d"
    and "run_till (tv_sha256 env) (cv_business_date (tv_commerce env)) (tv_micro env) (sv_Context sv) a c (ss_Repository s) = (Inr (), ss_Repository s')"
    unfolding till_effect_def p(3) by blast
  with newAuditEvent_scope [OF a] p show ?thesis by (intro exI [of _ p] exI [of _ a] exI [of _ c]) simp
qed

lemma till_requests_stay_in_scope_witness:
  "\<exists>p. sf_UserAuthenticator api_config kiosk_request = Inr p \<and> routeAuthorized p kiosk_request \<and> \<not> IsPlatformAdmin p"
proof -
  obtain response s' where run: "kiosk_run = (response, s')" by fastforce
  with kiosk_taken have "ss_Repository s' \<noteq> ss_Repository kiosk_state"
    by (auto simp: kiosk_state_def kiosk_db_def empty_commerce_def)
  from till_requests_stay_in_scope [OF run this kiosk_route] show ?thesis by blast
qed

text \<open>
  C27: requests to the till take steps of the repository, from bodies that were checked. A request to a route of
  menus, tills or commerce leaves the tables as they are, or its mutation was admitted for a user that the
  authenticator accepted, and one audited command, made by the handler of a body that it decoded and validated,
  leads to the new tables. Those are reachable by the steps of tills, menus and commerce again, so that drawers,
  print jobs and tokens agree with their logs, and only for a command that asks for \<open>2 ^ 62\<close> minor units or more
  is an order added to those whose payments may be disturbed.
\<close>

theorem till_requests_take_till_steps:
  assumes "till_ServeHTTP cfg codec env (Postgres_Do e) other sv request s = (response, s')"
    and "till_match (cr_Method request) (cr_Path request) = Some route"
    and "till_reachable (tv_sha256 env) D (ss_Repository s)"
  shows "ss_Repository s' = ss_Repository s
    \<or> (\<exists>p ad a c action kind k. sf_UserAuthenticator cfg request = Inr p \<and> admit_mutation codec sv (Some p) request = Inr ad
        \<and> newAuditEvent (sv_Random sv 0) (ad_Metadata ad) action kind k (sv_Now sv) = Some a
        \<and> till_issued env sv (ad_Metadata ad) (ad_Payload ad) c
        \<and> run_till (tv_sha256 env) (cv_business_date (tv_commerce env)) (tv_micro env) (sv_Context sv) a c (ss_Repository s)
            = (Inr (), ss_Repository s')
        \<and> till_reachable (tv_sha256 env) (D \<union> till_disturbs c (ss_Repository s)) (ss_Repository s')
        \<and> (small (till_amount c) \<longrightarrow> till_disturbs c (ss_Repository s) = {}))"
proof (cases "ss_Repository s' = ss_Repository s")
  case False
  from assms(1) False assms(2) show ?thesis
  proof (rule till_served)
    fix sv1 p d t
    assume p: "sf_UserAuthenticator cfg request = Inr p" and sv1: "sv1 = sv\<lparr>sv_RequestID := sv_RequestID sv1\<rparr>"
      and admitted: "\<exists>ad. admit_mutation codec sv (Some p) request = Inr ad \<and> ad_Metadata ad = d \<and> ad_Payload ad = t"
      and effect: "till_effect env sv1 d t (ss_Repository s) (ss_Repository s')"
    from admitted obtain ad where ad: "admit_mutation codec sv (Some p) request = Inr ad" "d = ad_Metadata ad" "t = ad_Payload ad" by blast
    obtain req where req: "sv1 = sv\<lparr>sv_RequestID := req\<rparr>" using sv1 by (rule that)
    from effect False obtain a c action kind k where a: "newAuditEvent (sv_Random sv1 0) d action kind k (sv_Now sv1) = Some a"
      and c: "till_issued env sv1 d t c"
      and run: "run_till (tv_sha256 env) (cv_business_date (tv_commerce env)) (tv_micro env) (sv_Context sv1) a c (ss_Repository s)
        = (Inr (), ss_Repository s')"
      unfolding till_effect_def by (elim disjE exE conjE) simp_all
    have same: "sv_Random sv1 = sv_Random sv" "sv_Now sv1 = sv_Now sv" "sv_Context sv1 = sv_Context sv" by (simp_all add: req)
    have issued: "till_issued env sv d t c" using c unfolding req till_issued_request .
    have "till_step (tv_sha256 env) (till_disturbs c (ss_Repository s)) (ss_Repository s) (ss_Repository s')"
      using run_till_step [OF till_issued_proper [OF c], of "tv_sha256 env" "ss_Repository s" "cv_business_date (tv_commerce env)" "tv_micro env"
        "sv_Context sv1" a] run by simp
    then have "till_reachable (tv_sha256 env) (D \<union> till_disturbs c (ss_Repository s)) (ss_Repository s')"
      by (rule till_reachable.step [OF assms(3)])
    with p ad(1) a [unfolded same ad(2)] issued [unfolded ad(2,3)] run [unfolded same] till_disturbs_large show ?thesis
      by (intro disjI2 exI [of _ p] exI [of _ ad] exI [of _ a] exI [of _ c] exI [of _ action] exI [of _ kind] exI [of _ k]) simp
  qed
qed simp

lemma till_requests_take_till_steps_witness:
  "\<exists>d. till_reachable (\<lambda>t. replicate 32 0) d (ss_Repository (snd kiosk_run))
    \<and> (\<exists>p ad c. sf_UserAuthenticator api_config kiosk_request = Inr p
        \<and> admit_mutation counter_codec (api_surroundings 5) (Some p) kiosk_request = Inr ad
        \<and> till_issued kiosk_env (api_surroundings 5) (ad_Metadata ad) (ad_Payload ad) c)"
proof -
  have sha: "tv_sha256 kiosk_env = (\<lambda>t. replicate 32 0)" by (simp add: kiosk_env_def tv_sha256_def)
  obtain response s' where run: "kiosk_run = (response, s')" by fastforce
  with kiosk_taken have changed: "ss_Repository s' \<noteq> ss_Repository kiosk_state"
    by (auto simp: kiosk_state_def kiosk_db_def empty_commerce_def)
  have "till_reachable (tv_sha256 kiosk_env) {} (ss_Repository kiosk_state)" using kiosk_reachable by (simp add: kiosk_state_def)
  from till_requests_take_till_steps [OF run kiosk_route this] changed run sha show ?thesis by auto
qed

subsection \<open>Repetitions\<close>

definition some_till_command :: "restaurant_db \<Rightarrow> restaurant_db \<Rightarrow> bool" where
  "some_till_command s s' \<longleftrightarrow> (\<exists>sha256 date micro ctx a c. s' = snd (run_till sha256 date micro ctx a c s))"

lemma till_commands_keep_done: "some_till_command\<^sup>*\<^sup>* s s' \<Longrightarrow> operation_done tenant operation (rd_commerce s)
    \<Longrightarrow> operation_done tenant operation (rd_commerce s')"
  by (induction rule: rtranclp_induct) (auto simp: some_till_command_def run_till_keeps_done)

lemma till_effect_done:
  assumes "till_effect env sv d p s s'" "s' \<noteq> s"
  shows "operation_done (mm_TenantID d) (mm_ID d) (rd_commerce s') \<and> \<not> operation_done (mm_TenantID d) (mm_ID d) (rd_commerce s)"
proof -
  from assms obtain a c action kind k where a: "newAuditEvent (sv_Random sv 0) d action kind k (sv_Now sv) = Some a"
    and "run_till (tv_sha256 env) (cv_business_date (tv_commerce env)) (tv_micro env) (sv_Context sv) a c s = (Inr (), s')"
    unfolding till_effect_def by blast
  from run_till_audit [OF this(2)] newAuditEvent_scope [OF a] show ?thesis
    by (auto simp: audited_once_def operation_done_def)
qed

text \<open>
  C18: the operations of menus, tills and commerce are carried out once, even without their replay records.
  When a mutation changed the tables, then after any further commands every mutation of the same tenant
  under the same operation id, on whichever of these routes and with whichever body, leaves the tables as
  they are.
\<close>

theorem till_operations_are_carried_out_once:
  assumes "till_mutation codec env sv route = Some operation" "operation d p s = (r, s1)" "s1 \<noteq> s"
    and "some_till_command\<^sup>*\<^sup>* s1 s2"
    and "till_mutation codec' env' sv' route' = Some operation'" "operation' d' p' s2 = (r', s3)"
    and "mm_TenantID d' = mm_TenantID d" "mm_ID d' = mm_ID d"
  shows "s3 = s2"
proof (rule ccontr)
  assume changed: "s3 \<noteq> s2"
  from till_effect_done [OF till_mutation_effect [OF assms(1,2)] assms(3)] till_commands_keep_done [OF assms(4)]
  have "operation_done (mm_TenantID d) (mm_ID d) (rd_commerce s2)" by blast
  with till_effect_done [OF till_mutation_effect [OF assms(5,6)] changed] assms(7,8) show False by simp
qed

abbreviation kiosk_sale :: "time \<Rightarrow> till_operation" where
  "kiosk_sale now \<equiv> checkout_pos counter_codec kiosk_env (api_surroundings now)"

lemma kiosk_sold: "map (\<lambda>r. td_AmountMinor (tr_tender r)) (cm_tenders (rd_commerce (snd (kiosk_sale 5 counter_metadata [] kiosk_db)))) = [1050]"
  by code_simp

lemma till_operations_are_carried_out_once_witness:
  "snd (kiosk_sale 9 counter_metadata [] (snd (kiosk_sale 5 counter_metadata [] kiosk_db))) = snd (kiosk_sale 5 counter_metadata [] kiosk_db)"
proof -
  obtain r s1 where first: "kiosk_sale 5 counter_metadata [] kiosk_db = (r, s1)" by fastforce
  with kiosk_sold have changed: "s1 \<noteq> kiosk_db" by (auto simp: kiosk_db_def empty_commerce_def)
  obtain r' s3 where second: "kiosk_sale 9 counter_metadata [] s1 = (r', s3)" by fastforce
  have "s3 = s1"
    by (rule till_operations_are_carried_out_once [where operation = "kiosk_sale 5" and operation' = "kiosk_sale 9"
          and route = Checkout and route' = Checkout and codec = counter_codec and codec' = counter_codec and env = kiosk_env
          and env' = kiosk_env and sv = "api_surroundings 5" and sv' = "api_surroundings 9", OF _ first changed _ _ second]) simp_all
  with first second show ?thesis by simp
qed

end
