(* ===== verification/Spec2Isabelle.thy ===== *)
theory Spec2Isabelle
  imports Core_Menu_Studio_Properties Edge_Api_Properties Core_Memory_Properties Core_Idempotency_Properties Core_Sync_Properties
    Core_Server_Properties Core_Pages Core_Identifiers Core_Sync_Api_Properties Edge_Core Core_Till_Api_Properties
begin

text \<open>
  FeastCloud runs a restaurant over two Go services. The edge (\<open>services/edge\<close>) is the authority of one
  outlet: it keeps orders and kitchen tickets in SQLite, logs every accepted command as an operation and
  pushes the log to the cloud. The core (\<open>services/core\<close>) is the cloud: resources of many tenants behind
  an HTTP API, an inbox for the operations of the edges and their event log, and the menus, tills and
  commerce of the outlets. This library models both and their composition.

  \<^bold>\<open>Ground.\<close> \<open>Prelude\<close>: error results, transactions, the collections of facts. \<open>Tables\<close>: updates of rows
  and what they keep. \<open>Go_Text\<close>, \<open>Go_Time\<close>, \<open>Go_Numbers\<close>, \<open>Go_Json\<close>: what the code uses of \<open>strings\<close>, \<open>regexp\<close>,
  \<open>hex\<close>, \<open>time\<close>, \<open>strconv\<close> and, for raw messages, \<open>json\<close>. A string is the list of its bytes; a time is the number of nanoseconds
  since year 1; an \<open>int64\<close> is an integer whose arithmetic is wrapped by \<open>wrap64\<close>, a version of the core a
  \<open>64 word\<close>.

  \<^bold>\<open>Edge.\<close> \<open>Edge_Model\<close> has the types, checks and state machines of \<open>internal/model/model.go\<close>;
  \<open>Edge_Store\<close>, \<open>Edge_Commands\<close>, \<open>Edge_Status\<close> and \<open>Edge_Outbox\<close> the tables, commands, queries and the
  outbox of \<open>internal/store/store.go\<close>, the column of a logged envelope as the members of its JSON object with the
  payload compacted (\<open>marshal_envelope\<close>, \<open>unmarshal_envelope\<close>); \<open>Edge_Auth\<close> the pairing codes and sessions of
  \<open>internal/store/auth.go\<close>; \<open>Edge_Syncer\<close> one synchronization and the HTTP adapter of
  \<open>internal/syncer/syncer.go\<close>; \<open>Edge_Api\<close> the routes, access checks and handlers of
  \<open>internal/api/server.go\<close>. Every command is one transaction on the record \<open>db\<close>. \<open>Edge_System\<close> is the step
  relation of the store and \<open>Edge_Tables\<close>, \<open>Edge_Invariant\<close>, \<open>Edge_Handlers\<close>, \<open>Edge_Create_Handler\<close>,
  \<open>Edge_Ticket_Handlers\<close>, \<open>Edge_Delivery\<close> and \<open>Edge_Replay\<close> prove its invariants: orders agree with their
  tickets, streams are gap free, the outbox mirrors the log, idempotency records replay. They carry
  \<open>Edge_Properties\<close> (orders), \<open>Edge_Sync_Properties\<close> (outbox, batches, back-off, pairing) and
  \<open>Edge_Api_Properties\<close> (requests only take steps of the store, in scope and validated); \<open>Edge_Sample\<close> is
  the run their witnesses use.

  \<^bold>\<open>Core.\<close> \<open>Core_Domain\<close> and \<open>Core_Catalog\<close> have the types and checks of \<open>internal/domain\<close>;
  \<open>Core_Memory\<close>, \<open>Core_Menu\<close> and \<open>Core_Memory_System\<close> the in-memory repository of
  \<open>internal/store/memory.go\<close> and \<open>memory_menu.go\<close>, whose references \<open>Core_Memory_Invariant\<close> and
  \<open>Core_Memory_Properties\<close> show to resolve. \<open>Core_Idempotency\<close> is the replay store of
  \<open>internal/idempotency/memory.go\<close> as interleaved sections under its mutex, with
  \<open>Core_Idempotency_Properties\<close>; \<open>Core_Postgres_Idempotency\<close> is the one of \<open>postgres.go\<close>; the locale
  \<open>replay_store\<close> of \<open>Core_Replay\<close> is the contract that both fulfil and that the server relies on.
  \<open>Core_Auth\<close> models \<open>internal/auth/auth.go\<close> and the route check; \<open>Core_Requests\<close> the request bodies;
  \<open>Core_Server\<close>, \<open>Core_Handlers\<close> and \<open>Core_Routes\<close> the path of a request through \<open>internal/api/server.go\<close>,
  \<open>handlers.go\<close> and \<open>platform.go\<close>, with \<open>Core_Server_Properties\<close>, \<open>Core_Pages\<close> (cursors) and
  \<open>Core_Identifiers\<close> (generated UUIDs). Whatever the routes of a part of the server (\<open>routed_mux\<close>), a request
  to them that changes its tables was admitted: locale \<open>served_routes\<close> of \<open>Core_Served\<close>. \<open>Core_Sync\<close> is the transaction of one synchronized operation in
  \<open>internal/store/postgres_sync.go\<close> and \<open>Core_Sync_Api\<close> its endpoint \<open>internal/api/sync.go\<close>, with
  \<open>Core_Sync_Properties\<close> and \<open>Core_Sync_Api_Properties\<close>.

  \<^bold>\<open>Commerce.\<close> \<open>Core_Commerce_Types\<close> and \<open>Core_Commerce\<close> are the tables and transactions of
  \<open>internal/store/postgres_commerce.go\<close>: availability, dining tables and sessions, cash shifts, tenders,
  refunds, receipts, settlements. \<open>Core_Commerce_Invariant\<close> and \<open>Core_Commerce_Properties\<close> show, over operations with
  any amounts and captures with outdated snapshots, that drawers agree with their books and tables with their sessions,
  and that bills are not overpaid except on the orders that a race or an extreme amount has touched, which
  \<open>commerce_step\<close> names in its label and \<open>commerce_reachable\<close> collects; \<open>Core_Commerce_System\<close> has
  the commands as values and their audit trail. \<open>Core_Commerce_Api\<close> is \<open>internal/api/commerce.go\<close> with the tender
  endpoints of \<open>guest_growth.go\<close>, served over the database and its replay store (\<open>Core_Commerce_Api_Properties\<close>).

  \<^bold>\<open>Point of sale.\<close> \<open>Core_Checkout_Types\<close>, \<open>Core_Checkout\<close> and \<open>Core_Till\<close> are the checkout, print jobs and
  pickup tokens of \<open>internal/store/postgres_restaurant_core.go\<close>, \<open>Core_Menu_Studio\<close> the versioned menus of that
  file; their record \<open>restaurant_db\<close> holds the commerce tables too. The rows of a menu
  have the values of their columns: identifiers in lower case and times as \<open>timestamptz\<close> keeps them (\<open>column_version\<close>,
  with the parameter \<open>micro\<close>). \<open>Core_Till\<close> has also the two operations of \<open>postgres_connected_commerce.go\<close> that
  insert print jobs and pickup tokens without an event. \<open>Core_Till_Facts\<close> has what every statement of
  a checkout does, with \<open>Core_Till_Sample\<close> as a run of it; \<open>Core_Till_Properties\<close> shows what one checkout bills and
  sends to the kitchen, \<open>Core_Till_System\<close>, over tills and commerce operations in any order, that checkouts are
  paid in full and done once and that print jobs and tokens, of the checkout and of those endpoints, are what their
  histories say (locale \<open>logged_table\<close>). \<open>Core_Menu_Studio_Facts\<close> has the rows of a version (locale \<open>version_part\<close>, for all seven
  tables), \<open>Core_Menu_Studio_Properties\<close> that a stored version reads back for good and is what a checkout bills.
  \<open>Core_Till_Api\<close> is \<open>internal/api/restaurant_core.go\<close> and the two handlers of \<open>connected_commerce.go\<close>, its routes together with those of the commerce, and
  \<open>Core_Till_Commands\<close> the commands behind them; \<open>Core_Till_Api_Properties\<close> shows that requests only take audited steps
  of the tables, from bodies that were decoded and validated, in scope, each operation once.

  \<^bold>\<open>Composition.\<close> \<open>Edge_Core\<close> runs an edge against the core over a network that loses, repeats and delays
  pushes and answers: what the edge counts as synchronized is in the event log of the core exactly once.

  \<^bold>\<open>Parameters.\<close> Code outside the repository is an argument: JSON decoding and encoding, media types,
  base64, SHA-256, the keys of OIDC tokens, randomness and clocks, the collation and time zone of the
  database, the projection of the core's operational tables. Records of such functions are \<open>core_codec\<close>,
  \<open>core_decoders\<close>, \<open>commerce_env\<close>, \<open>till_env\<close>, \<open>cloud_env\<close> and the \<open>syncer_config\<close> of the edge. A SQL statement is
  modelled by what it does to its tables, its constraints in the order \<open>CHECK\<close>, uniqueness, foreign keys;
  row and advisory locks make the transactions on one row a sequence. Where a statement reads before it
  has its lock the model has two databases (\<open>capture_tender\<close>): the runs of the repository contain captures with any
  earlier snapshot, while the model of the server handles one request after the other. Only the tables of the menus
  convert identifiers and times; the other tables keep them as given, so that two spellings of one identifier are two
  there, and times between microseconds stay apart.

  \<^bold>\<open>Bounds.\<close> \<open>walk_pages\<close> follows cursors with as much fuel as the listing has values and one more, which
  \<open>pages_add_up_to_the_listing\<close> proves enough. The sums that payments are checked against are exact for
  amounts and totals below \<open>2 ^ 62\<close>; beyond, the check wraps and is shown to fail: such an order is in the label of
  the step, and the theorems on payments speak of the orders outside the labels of the run. The amounts of one
  checkout are exact without a bound, since the tables refuse products and sums that leave 64 bits; that its
  tenders pay the total needs a sum below \<open>2 ^ 62\<close>.

  \<^bold>\<open>Findings.\<close> The model shows where the code falls short: two captures that race for the lock of an order
  pay it twice (\<open>racing_captures_pay_twice\<close>); an amount near \<open>2 ^ 63\<close> passes the balance check
  (\<open>oversized_tender_is_accepted\<close>); a print job of the endpoint can have a time of acknowledgement and no event at all
  (\<open>endpoint_jobs_are_not_logged\<close>); a mutation whose replay record is lost
  answers its repetition with an error; a retry time at a whole second is reached late; the role check of
  the edge looks at the path only; an item without a recipe cannot be checked out.

  \<^bold>\<open>Not modelled.\<close> The two \<open>main\<close> programs, connection pools, schema checks, logging, panic recovery and
  constant headers: pure I/O. The ticker loop \<open>Run\<close> of the edge: it only calls \<open>SyncOnce\<close>. The migrations of
  older edge schemas. The JSON of an envelope below its members: the text of its strings. The lists of print jobs and
  pickup tokens. Of the core the repositories over the database other than synchronization, commerce, menus and
  the point of sale (\<open>postgres_repository.go\<close> and its siblings for the kitchen graph, production, planning, inventory, stock
  transfers, replenishment, staff, guests, connectors, dashboards and reports), whose behaviour is mostly
  that of long SQL statements over \<open>numeric\<close> and \<open>float64\<close> columns, and the handlers that only decode,
  check and pass on to them. The web application, scripts, contracts and deployment are not Go.
\<close>

end
